(* ===== verification/JsPrelude.thy ===== *)
theory JsPrelude imports Complex_Main "HOL-Library.AList" "HOL-Library.Char_ord" "HOL-Library.List_Lexorder"
begin

text \<open>
  The vocabulary the components share: the numbers, strings, dates, thrown errors and \<open>Map\<close>
  objects of the TypeScript sources, with the generic lemmas the component proofs rest on.

  \<^item> \<open>jsnum\<close> is a \<open>number\<close> as a function receives it from outside (it may be \<open>NaN\<close>, infinite or
    fractional). Once the source has validated a number as a safe integer the models keep it as
    \<^typ>\<open>int\<close>.
  \<^item> \<open>'a result\<close> is the outcome of a function that may \<open>throw new Error(message)\<close>.
  \<^item> \<open>('k, 'v) jsmap\<close> is a \<open>Map\<close>: an association list in insertion order, where \<open>set\<close> overwrites
    in place or appends.
  \<^item> \<open>time\<close> is a date as milliseconds since the epoch. The ISO strings the records hold are the
    value of \<open>toISOString()\<close>, which \<open>new Date(...)\<close> reads back, so the models keep the number.
\<close>

section \<open>Collections of rules\<close>

named_theorems js_defs \<open>definitions of the language layer\<close>
named_theorems throw_rules \<open>when a throwing computation returns\<close>

section \<open>Outcomes of functions that may throw\<close>

type_synonym 'a result = "string + 'a"

abbreviation throw :: "string \<Rightarrow> 'a result" where
  "throw e \<equiv> Inl e"

abbreviation return_ok :: "'a \<Rightarrow> 'a result" where
  "return_ok x \<equiv> Inr x"

definition and_then :: "'a result \<Rightarrow> ('a \<Rightarrow> 'b result) \<Rightarrow> 'b result" where
  "and_then m f = (case m of Inl e \<Rightarrow> Inl e | Inr x \<Rightarrow> f x)"

lemma and_then_simps [simp]:
  "and_then (Inl e) f = Inl e"
  "and_then (Inr x) f = f x"
  by (simp_all add: and_then_def)

lemma and_then_ok [throw_rules]:
  "and_then m f = Inr y \<longleftrightarrow> (\<exists>x. m = Inr x \<and> f x = Inr y)"
  by (cases m) auto

lemma and_then_throws [throw_rules]:
  "and_then m f = Inl e \<longleftrightarrow> m = Inl e \<or> (\<exists>x. m = Inr x \<and> f x = Inl e)"
  by (cases m) auto

definition throw_unless :: "bool \<Rightarrow> string \<Rightarrow> unit result" where
  "throw_unless b e = (if b then Inr () else Inl e)"

lemma throw_unless_iff [simp]:
  "throw_unless b e = Inr u \<longleftrightarrow> b"
  "throw_unless b e = Inl e' \<longleftrightarrow> \<not> b \<and> e' = e"
  by (auto simp: throw_unless_def)

lemma throw_unless_eval [simp]:
  "throw_unless True e = Inr ()"
  "throw_unless False e = Inl e"
  by (simp_all add: throw_unless_def)

text \<open>\<open>xs.map(f)\<close> with an \<open>f\<close> that may throw: the first throw ends the whole call.\<close>

fun map_result :: "('a \<Rightarrow> 'b result) \<Rightarrow> 'a list \<Rightarrow> 'b list result" where
  "map_result f [] = Inr []"
| "map_result f (x # xs) =
     and_then (f x) (\<lambda>y. and_then (map_result f xs) (\<lambda>ys. Inr (y # ys)))"

lemma map_result_length [throw_rules]: "map_result f xs = Inr ys \<Longrightarrow> length ys = length xs"
  by (induction xs arbitrary: ys) (auto simp: throw_rules)

lemma map_result_all2 [throw_rules]:
  "map_result f xs = Inr ys \<longleftrightarrow> list_all2 (\<lambda>x y. f x = Inr y) xs ys"
  by (induction xs arbitrary: ys) (auto simp: throw_rules list_all2_Cons1)

text \<open>A call on a store: it throws, answers \<open>{ ok: false, error }\<close>, or succeeds with a value.\<close>

datatype 'a outcome = Threw string | Denied string | Done 'a

section \<open>Numbers\<close>

datatype jsnum = NaN | PosInf | NegInf | Fin rat

text \<open>\<open>Number.MAX_SAFE_INTEGER\<close>\<close>

definition max_safe :: int where
  "max_safe = 9007199254740991"

fun is_integer :: "jsnum \<Rightarrow> bool" where
  "is_integer (Fin r) = (r = of_int \<lfloor>r\<rfloor>)"
| "is_integer _ = False"

fun is_safe_integer :: "jsnum \<Rightarrow> bool" where
  "is_safe_integer (Fin r) = (r = of_int \<lfloor>r\<rfloor> \<and> \<bar>\<lfloor>r\<rfloor>\<bar> \<le> max_safe)"
| "is_safe_integer _ = False"

fun num_int :: "jsnum \<Rightarrow> int" where
  "num_int (Fin r) = \<lfloor>r\<rfloor>"
| "num_int _ = 0"

abbreviation num :: "int \<Rightarrow> jsnum" where
  "num n \<equiv> Fin (of_int n)"

text \<open>The comparison \<open>x < y\<close>; every comparison with \<open>NaN\<close> is false.\<close>

fun num_less :: "jsnum \<Rightarrow> jsnum \<Rightarrow> bool" where
  "num_less (Fin a) (Fin b) = (a < b)"
| "num_less (Fin a) PosInf = True"
| "num_less NegInf (Fin b) = True"
| "num_less NegInf PosInf = True"
| "num_less _ _ = False"

fun is_finite_num :: "jsnum \<Rightarrow> bool" where
  "is_finite_num (Fin r) = True"
| "is_finite_num _ = False"

fun num_floor :: "jsnum \<Rightarrow> jsnum" where
  "num_floor (Fin r) = num \<lfloor>r\<rfloor>"
| "num_floor x = x"

definition num_max :: "jsnum \<Rightarrow> jsnum \<Rightarrow> jsnum" where
  "num_max x y = (if x = NaN \<or> y = NaN then NaN else if num_less x y then y else x)"

definition num_min :: "jsnum \<Rightarrow> jsnum \<Rightarrow> jsnum" where
  "num_min x y = (if x = NaN \<or> y = NaN then NaN else if num_less y x then y else x)"

lemma safe_integer_num [simp]: "is_safe_integer (num n) \<longleftrightarrow> \<bar>n\<bar> \<le> max_safe"
  by simp

lemma safe_integerE:
  assumes "is_safe_integer x"
  obtains n where "x = num n" "\<bar>n\<bar> \<le> max_safe" "num_int x = n"
  using assms by (cases x) auto

lemma safe_integer_is_integer: "is_safe_integer x \<Longrightarrow> is_integer x"
  by (cases x) auto

text \<open>The validators \<open>positiveInteger\<close> and \<open>nonnegativeInteger\<close> of several source files differ
  only in the message they throw.\<close>

definition positive_safe :: "string \<Rightarrow> jsnum \<Rightarrow> int result" where
  "positive_safe msg v =
     (if \<not> is_safe_integer v \<or> num_int v \<le> 0 then Inl msg else Inr (num_int v))"

definition nonnegative_safe :: "string \<Rightarrow> jsnum \<Rightarrow> int result" where
  "nonnegative_safe msg v =
     (if \<not> is_safe_integer v \<or> num_int v < 0 then Inl msg else Inr (num_int v))"

lemma positive_safe_ok [throw_rules]:
  "positive_safe msg v = Inr n \<longleftrightarrow> v = num n \<and> 0 < n \<and> n \<le> max_safe"
  unfolding positive_safe_def by (cases v) (auto split: if_splits)

lemma nonnegative_safe_ok [throw_rules]:
  "nonnegative_safe msg v = Inr n \<longleftrightarrow> v = num n \<and> 0 \<le> n \<and> n \<le> max_safe"
  unfolding nonnegative_safe_def by (cases v) (auto split: if_splits)

lemma positive_safe_num [simp]:
  "0 < n \<Longrightarrow> n \<le> max_safe \<Longrightarrow> positive_safe msg (num n) = Inr n"
  by (simp add: throw_rules)

lemma nonnegative_safe_num [simp]:
  "0 \<le> n \<Longrightarrow> n \<le> max_safe \<Longrightarrow> nonnegative_safe msg (num n) = Inr n"
  by (simp add: throw_rules)

text \<open>\<open>Math.ceil(a / b)\<close> for integers \<open>a\<close> and \<open>b > 0\<close>.\<close>

definition ceil_div :: "int \<Rightarrow> int \<Rightarrow> int" where
  "ceil_div a b = - ((- a) div b)"

lemma ceil_div_bounds:
  assumes "0 < b"
  shows "a \<le> ceil_div a b * b" "ceil_div a b * b < a + b"
proof -
  have "(- a) div b * b + (- a) mod b = - a" by simp
  moreover have "0 \<le> (- a) mod b" "(- a) mod b < b" using assms by simp_all
  ultimately show "a \<le> ceil_div a b * b" "ceil_div a b * b < a + b"
    unfolding ceil_div_def minus_mult_left [symmetric] by linarith+
qed

section \<open>Dates\<close>

type_synonym time = int

section \<open>Strings\<close>

definition ws_codes :: "nat list" where
  "ws_codes = [9, 10, 11, 12, 13, 32, 160]"

definition is_ws :: "char \<Rightarrow> bool" where
  "is_ws c \<longleftrightarrow> of_char c \<in> set ws_codes"

definition js_trim :: "string \<Rightarrow> string" where
  "js_trim s = rev (dropWhile is_ws (rev (dropWhile is_ws s)))"

text \<open>\<open>toUpperCase()\<close> on Latin-1: ASCII and the accented letters map to one character, the sharp s
  to two. The two letters whose capital is outside Latin-1 (codes 181 and 255) stay as they are;
  none of the patterns the sources test accepts either form.\<close>

definition upper_char :: "char \<Rightarrow> string" where
  "upper_char c =
     (let n = of_char c :: nat in
      if n = 223 then ''SS''
      else if 97 \<le> n \<and> n \<le> 122 \<or> 224 \<le> n \<and> n \<le> 254 \<and> n \<noteq> 247 then [char_of (n - 32)]
      else [c])"

definition js_upper :: "string \<Rightarrow> string" where
  "js_upper s = concat (map upper_char s)"

definition digit_chars :: string where
  "digit_chars = ''0123456789''"

definition upper_chars :: string where
  "upper_chars = ''ABCDEFGHIJKLMNOPQRSTUVWXYZ''"

definition lower_chars :: string where
  "lower_chars = ''abcdefghijklmnopqrstuvwxyz''"

text \<open>A pattern \<open>/^[class]{lo,hi}$/\<close>.\<close>

definition matches_class :: "string \<Rightarrow> nat \<Rightarrow> nat \<Rightarrow> string \<Rightarrow> bool" where
  "matches_class cls lo hi s \<longleftrightarrow> lo \<le> length s \<and> length s \<le> hi \<and> list_all (\<lambda>c. c \<in> set cls) s"

text \<open>\<open>s.split(sep)\<close> for a separator of one character.\<close>

fun js_split_acc :: "char \<Rightarrow> string \<Rightarrow> string \<Rightarrow> string list" where
  "js_split_acc sep cur [] = [rev cur]"
| "js_split_acc sep cur (c # cs) =
     (if c = sep then rev cur # js_split_acc sep [] cs else js_split_acc sep (c # cur) cs)"

definition js_split :: "char \<Rightarrow> string \<Rightarrow> string list" where
  "js_split sep s = js_split_acc sep [] s"

text \<open>The value of a digit in a base up to 36, and \<open>Number.parseInt(s, base)\<close>: leading white space,
  a sign, then the longest run of digits; no digits give \<open>NaN\<close>.\<close>

definition digit_value :: "nat \<Rightarrow> char \<Rightarrow> int option" where
  "digit_value base c =
     (let n = of_char c :: nat;
          v = (if 48 \<le> n \<and> n \<le> 57 then n - 48
               else if 97 \<le> n \<and> n \<le> 122 then n - 87
               else if 65 \<le> n \<and> n \<le> 90 then n - 55 else 99)
      in if v < base then Some (int v) else None)"

fun digits_value :: "nat \<Rightarrow> int \<Rightarrow> string \<Rightarrow> int" where
  "digits_value base acc [] = acc"
| "digits_value base acc (c # cs) =
     (case digit_value base c of None \<Rightarrow> acc | Some d \<Rightarrow> digits_value base (acc * int base + d) cs)"

definition js_parse_int :: "nat \<Rightarrow> string \<Rightarrow> jsnum" where
  "js_parse_int base s =
     (let t = dropWhile is_ws s;
          neg = (t \<noteq> [] \<and> hd t = CHR ''-'');
          u = (if t \<noteq> [] \<and> (hd t = CHR ''-'' \<or> hd t = CHR ''+'') then tl t else t)
      in if u = [] \<or> digit_value base (hd u) = None then NaN
         else num (if neg then - digits_value base 0 u else digits_value base 0 u))"

definition starts_with :: "string \<Rightarrow> string \<Rightarrow> bool" where
  "starts_with p s \<longleftrightarrow> take (length p) s = p"

lemma js_trim_Nil [simp]: "js_trim [] = []"
  by (simp add: js_trim_def)

text \<open>\<open>Array.from(new Set(xs))\<close> keeps the first occurrence of each element.\<close>

fun js_uniq_acc :: "'a list \<Rightarrow> 'a list \<Rightarrow> 'a list" where
  "js_uniq_acc seen [] = []"
| "js_uniq_acc seen (x # xs) =
     (if x \<in> set seen then js_uniq_acc seen xs else x # js_uniq_acc (x # seen) xs)"

definition js_uniq :: "'a list \<Rightarrow> 'a list" where
  "js_uniq xs = js_uniq_acc [] xs"

lemma js_uniq_acc_props:
  "set (js_uniq_acc seen xs) = set xs - set seen \<and> distinct (js_uniq_acc seen xs)"
  by (induction xs arbitrary: seen) auto

lemma set_js_uniq [simp]: "set (js_uniq xs) = set xs"
  by (simp add: js_uniq_def js_uniq_acc_props)

lemma distinct_js_uniq [simp]: "distinct (js_uniq xs)"
  by (simp add: js_uniq_def js_uniq_acc_props)

section \<open>Map objects\<close>

type_synonym ('k, 'v) jsmap = "('k \<times> 'v) list"

definition js_get :: "('k, 'v) jsmap \<Rightarrow> 'k \<Rightarrow> 'v option" where
  "js_get m k = map_of m k"

definition js_has :: "('k, 'v) jsmap \<Rightarrow> 'k \<Rightarrow> bool" where
  "js_has m k = (map_of m k \<noteq> None)"

definition js_set :: "('k, 'v) jsmap \<Rightarrow> 'k \<Rightarrow> 'v \<Rightarrow> ('k, 'v) jsmap" where
  "js_set m k v = AList.update k v m"

definition js_values :: "('k, 'v) jsmap \<Rightarrow> 'v list" where
  "js_values m = map snd m"

definition js_wf :: "('k, 'v) jsmap \<Rightarrow> bool" where
  "js_wf m = distinct (map fst m)"

lemma js_get_Nil [simp]: "js_get [] k = None"
  by (simp add: js_get_def)

lemma js_values_Nil [simp]: "js_values [] = []"
  by (simp add: js_values_def)

lemma js_wf_Nil [simp]: "js_wf []"
  by (simp add: js_wf_def)

lemma js_has_get: "js_has m k \<longleftrightarrow> js_get m k \<noteq> None"
  by (simp add: js_has_def js_get_def)

lemma js_get_set [simp]: "js_get (js_set m k v) k' = (if k' = k then Some v else js_get m k')"
  by (simp add: js_get_def js_set_def update_conv)

lemma js_wf_set [simp]: "js_wf m \<Longrightarrow> js_wf (js_set m k v)"
  by (simp add: js_wf_def js_set_def distinct_update)

lemma js_values_get: "js_wf m \<Longrightarrow> v \<in> set (js_values m) \<longleftrightarrow> (\<exists>k. js_get m k = Some v)"
  by (force simp: js_wf_def js_values_def js_get_def)

lemma js_sum_set:
  fixes f :: "'v \<Rightarrow> int"
  assumes "js_wf m"
  shows "sum_list (map f (js_values (js_set m k v))) =
    sum_list (map f (js_values m)) - (case js_get m k of None \<Rightarrow> 0 | Some w \<Rightarrow> f w) + f v"
  using assms
proof (induction m)
  case Nil
  then show ?case by (simp add: js_set_def js_values_def js_get_def)
next
  case (Cons p m)
  then show ?case
    by (cases p) (auto simp: js_set_def js_values_def js_get_def js_wf_def split: option.splits)
qed

subsection \<open>The interface of a keyed store\<close>

text \<open>
  What the components use of a \<open>Map\<close>: lookup after an insert, and that the sum of a weight over
  the stored values changes by the difference of the weights of the old and the new value. Balance
  invariants are such sums.
\<close>

locale kv_store =
  fixes lookup :: "'m \<Rightarrow> 'k \<Rightarrow> 'v option"
    and insert_at :: "'m \<Rightarrow> 'k \<Rightarrow> 'v \<Rightarrow> 'm"
    and vals :: "'m \<Rightarrow> 'v list"
    and wf :: "'m \<Rightarrow> bool"
  assumes lookup_insert: "lookup (insert_at m k v) k' = (if k' = k then Some v else lookup m k')"
    and wf_insert: "wf m \<Longrightarrow> wf (insert_at m k v)"
    and vals_lookup: "wf m \<Longrightarrow> v \<in> set (vals m) \<longleftrightarrow> (\<exists>k. lookup m k = Some v)"
    and sum_insert: "wf m \<Longrightarrow> sum_list (map (f :: 'v \<Rightarrow> int) (vals (insert_at m k v))) =
      sum_list (map f (vals m)) - (case lookup m k of None \<Rightarrow> 0 | Some w \<Rightarrow> f w) + f v"
begin

definition all_entries :: "('k \<Rightarrow> 'v \<Rightarrow> bool) \<Rightarrow> 'm \<Rightarrow> bool" where
  "all_entries P m \<longleftrightarrow> (\<forall>k v. lookup m k = Some v \<longrightarrow> P k v)"

lemma all_entries_insert:
  "all_entries P m \<Longrightarrow> P k v \<Longrightarrow> all_entries P (insert_at m k v)"
  by (simp add: all_entries_def lookup_insert)

lemma sum_insert_fresh:
  "wf m \<Longrightarrow> lookup m k = None \<Longrightarrow>
     sum_list (map (f :: 'v \<Rightarrow> int) (vals (insert_at m k v))) = sum_list (map f (vals m)) + f v"
  by (simp add: sum_insert)

lemma sum_insert_over:
  "wf m \<Longrightarrow> lookup m k = Some w \<Longrightarrow>
     sum_list (map (f :: 'v \<Rightarrow> int) (vals (insert_at m k v))) = sum_list (map f (vals m)) - f w + f v"
  by (simp add: sum_insert)

lemma sum_insert_same:
  "wf m \<Longrightarrow> lookup m k = Some w \<Longrightarrow> f w = f v \<Longrightarrow>
     sum_list (map (f :: 'v \<Rightarrow> int) (vals (insert_at m k v))) = sum_list (map f (vals m))"
  by (simp add: sum_insert)

lemma vals_insert_pred:
  "wf m \<Longrightarrow> \<forall>x \<in> set (vals m). P x \<Longrightarrow> P v \<Longrightarrow> \<forall>x \<in> set (vals (insert_at m k v)). P x"
  by (auto simp: vals_lookup wf_insert lookup_insert split: if_splits)

lemma vals_weight_bound:
  assumes "wf m" "lookup m k = Some v" "\<forall>x \<in> set (vals m). 0 \<le> (f :: 'v \<Rightarrow> int) x"
  shows "f v \<le> sum_list (map f (vals m))"
proof -
  have "v \<in> set (vals m)" using assms(1,2) by (auto simp: vals_lookup)
  then obtain xs ys where split: "vals m = xs @ v # ys" by (auto dest: split_list)
  have "0 \<le> sum_list (map f xs)" "0 \<le> sum_list (map f ys)"
    using assms(3) by (auto simp: split intro!: sum_list_nonneg)
  then show ?thesis by (simp add: split)
qed

end

interpretation jm: kv_store js_get js_set js_values js_wf
  by unfold_locales (simp_all add: js_values_get js_sum_set)

section \<open>Machines that run a list of operations\<close>

text \<open>
  A store is driven by calls one after the other (\<open>memoryCritical\<close> queues them). The contract of
  such a machine is an invariant every call keeps; its client is any run of calls.
\<close>

fun run_calls :: "('s \<Rightarrow> 'e \<Rightarrow> 's) \<Rightarrow> 's \<Rightarrow> 'e list \<Rightarrow> 's" where
  "run_calls step s [] = s"
| "run_calls step s (e # es) = run_calls step (step s e) es"

lemma run_calls_append [simp]:
  "run_calls step s (xs @ ys) = run_calls step (run_calls step s xs) ys"
  by (induction xs arbitrary: s) auto

locale call_machine =
  fixes step :: "'s \<Rightarrow> 'e \<Rightarrow> 's"
    and inv :: "'s \<Rightarrow> bool"
  assumes step_inv: "inv s \<Longrightarrow> inv (step s e)"
begin

lemma run_inv: "inv s \<Longrightarrow> inv (run_calls step s es)"
  by (induction es arbitrary: s) (auto intro: step_inv)

end

text \<open>
  A machine with a quantity that no admitted call decreases (a counter, a settled flag). What is
  admitted may depend on the state; a run is admitted when each of its calls is.
\<close>

fun run_admits :: "('s \<Rightarrow> 'e \<Rightarrow> 's) \<Rightarrow> ('s \<Rightarrow> 'e \<Rightarrow> bool) \<Rightarrow> 's \<Rightarrow> 'e list \<Rightarrow> bool" where
  "run_admits step admits s [] = True"
| "run_admits step admits s (e # es) = (admits s e \<and> run_admits step admits (step s e) es)"

lemma run_admits_append [simp]:
  "run_admits step admits s (xs @ ys) \<longleftrightarrow>
     run_admits step admits s xs \<and> run_admits step admits (run_calls step s xs) ys"
  by (induction xs arbitrary: s) auto

locale monotone_machine = call_machine step inv
  for step :: "'s \<Rightarrow> 'e \<Rightarrow> 's" and inv :: "'s \<Rightarrow> bool" +
  fixes admits :: "'s \<Rightarrow> 'e \<Rightarrow> bool"
    and level :: "'s \<Rightarrow> int"
  assumes step_level: "inv s \<Longrightarrow> admits s e \<Longrightarrow> level s \<le> level (step s e)"
begin

lemma run_level: "inv s \<Longrightarrow> run_admits step admits s es \<Longrightarrow> level s \<le> level (run_calls step s es)"
proof (induction es arbitrary: s)
  case Nil
  then show ?case by simp
next
  case (Cons e es)
  have "level s \<le> level (step s e)" using Cons.prems by (simp add: step_level)
  moreover have "level (step s e) \<le> level (run_calls step (step s e) es)"
    using Cons.prems by (intro Cons.IH step_inv) simp_all
  ultimately show ?case by simp
qed

text \<open>A call whose effect is above the level of the past is not in the past.\<close>

lemma level_bound:
  "inv s \<Longrightarrow> run_admits step admits s es \<Longrightarrow> level (run_calls step s es) < n \<Longrightarrow> level s < n"
  using run_level by fastforce

end

end
