(* ===== verification/JsNumber.thy ===== *)
theory JsNumber imports JsPrelude "HOL-Library.Log_Nat"
begin

text \<open>
  Double arithmetic, where the sources compute with more than exact integers. A finite double is a
  rational; \<open>fl\<close> rounds an exact rational result to the nearest double (ties to even), for
  magnitudes below the overflow threshold \<open>2 ^ 1024\<close>, which no quantity of the sources comes near.
  The lemmas say when a rounded result is the exact one: integers up to \<open>2 ^ 53\<close>, and the floor
  and ceiling of a quotient by ten thousand.
\<close>

section \<open>Rounding\<close>

definition pow_rat :: "rat \<Rightarrow> int \<Rightarrow> rat" where
  "pow_rat b e = (if 0 \<le> e then b ^ nat e else 1 / b ^ nat (- e))"

lemma pow_rat_pos [simp]: "0 < b \<Longrightarrow> 0 < pow_rat b e"
  by (simp add: pow_rat_def)

lemma pow_rat_add: "0 < b \<Longrightarrow> pow_rat b (m + n) = pow_rat b m * pow_rat b n"
proof -
  assume b: "0 < b"
  have powi: "pow_rat b e = b powi e" for e
    by (simp add: pow_rat_def power_int_def inverse_eq_divide power_divide)
  show ?thesis using b by (simp add: powi power_int_add)
qed

lemma pow_rat_mono: "1 \<le> b \<Longrightarrow> m \<le> n \<Longrightarrow> pow_rat b m \<le> pow_rat b n"
proof -
  assume b: "1 \<le> b" and le: "m \<le> n"
  have powi: "pow_rat b e = b powi e" for e
    by (simp add: pow_rat_def power_int_def inverse_eq_divide power_divide)
  show ?thesis using b le by (simp add: powi power_int_increasing)
qed

definition half_even :: "rat \<Rightarrow> int" where
  "half_even q =
     (let f = \<lfloor>q\<rfloor>; d = q - of_int f in
      if d < 1 / 2 then f else if 1 / 2 < d then f + 1 else if even f then f else f + 1)"

lemma half_even_int [simp]: "half_even (of_int n) = n"
  by (simp add: half_even_def)

lemma half_even_near: "\<bar>of_int (half_even q) - q\<bar> \<le> 1 / 2"
proof -
  have "of_int \<lfloor>q\<rfloor> \<le> q" "q < of_int \<lfloor>q\<rfloor> + 1" by linarith+
  then show ?thesis by (auto simp: half_even_def Let_def abs_le_iff split: if_splits)
qed

lemma half_even_mono_int: "q \<le> of_int n \<Longrightarrow> half_even q \<le> n"
proof -
  assume le: "q \<le> of_int n"
  have "of_int (half_even q) \<le> q + 1 / 2" using half_even_near [of q] by linarith
  then have "of_int (half_even q) < (of_int (n + 1) :: rat)" using le by simp
  then show ?thesis by linarith
qed

text \<open>The exponent of the leading bit: \<open>2 ^ e \<le> r < 2 ^ (e + 1)\<close>.\<close>

definition log2_floor :: "rat \<Rightarrow> int" where
  "log2_floor r =
     (let e = bitlen (fst (quotient_of r)) - bitlen (snd (quotient_of r)) in
      if pow_rat 2 e \<le> r then e else e - 1)"

definition ulp_exp :: "rat \<Rightarrow> int" where
  "ulp_exp r = max (log2_floor r - 52) (- 1074)"

definition fl_pos :: "rat \<Rightarrow> rat" where
  "fl_pos r = of_int (half_even (r / pow_rat 2 (ulp_exp r))) * pow_rat 2 (ulp_exp r)"

definition fl :: "rat \<Rightarrow> rat" where
  "fl r = (if r = 0 then 0 else if 0 < r then fl_pos r else - fl_pos (- r))"

lemma fl_0 [simp]: "fl 0 = 0"
  by (simp add: fl_def)

lemma bitlen_gt_zero: "0 < bitlen n \<longleftrightarrow> 0 < n"
  using bitlen_nonneg [of n] bitlen_eq_zero_iff [of n] by linarith

lemma bitlen_rat_bounds:
  fixes n :: int
  assumes "0 < n"
  shows "pow_rat 2 (bitlen n - 1) \<le> of_int n" "of_int n < pow_rat 2 (bitlen n)"
proof -
  have b: "2 ^ nat (bitlen n - 1) \<le> n" "n < 2 ^ nat (bitlen n)" and pos: "0 < bitlen n"
    using bitlen_bounds [OF assms] assms by (auto simp: bitlen_gt_zero)
  have "(of_int (2 ^ nat (bitlen n - 1)) :: rat) \<le> of_int n" using b(1) by (simp only: of_int_le_iff)
  then show "pow_rat 2 (bitlen n - 1) \<le> of_int n" using pos by (simp add: pow_rat_def)
  have "(of_int n :: rat) < of_int (2 ^ nat (bitlen n))" using b(2) by (simp only: of_int_less_iff)
  then show "of_int n < pow_rat 2 (bitlen n)" using pos by (simp add: pow_rat_def)
qed

lemma log2_floor_le: "0 < r \<Longrightarrow> pow_rat 2 (log2_floor r) \<le> r"
proof -
  assume pos: "0 < r"
  obtain a b where q: "quotient_of r = (a, b)" by (cases "quotient_of r")
  have b: "0 < b" using q by (rule quotient_of_denom_pos)
  have r: "r = of_int a / of_int b" using q by (rule quotient_of_div)
  have a: "0 < a" using pos b by (simp add: r zero_less_divide_iff)
  let ?e = "bitlen a - bitlen b"
  have "pow_rat 2 (?e - 1) = pow_rat 2 (bitlen a - 1) * pow_rat 2 (- bitlen b)"
    by (simp flip: pow_rat_add add: algebra_simps)
  also have "\<dots> \<le> of_int a * pow_rat 2 (- bitlen b)"
    using bitlen_rat_bounds(1) [OF a] by (simp add: mult_right_mono)
  also have "pow_rat 2 (- bitlen b) = 1 / pow_rat 2 (bitlen b)"
    using b by (auto simp: pow_rat_def bitlen_gt_zero)
  also have "of_int a * (1 / pow_rat 2 (bitlen b)) \<le> of_int a * (1 / of_int b)"
    using bitlen_rat_bounds(2) [OF b] a b by (intro mult_left_mono divide_left_mono) auto
  finally have "pow_rat 2 (?e - 1) \<le> r" by (simp add: r)
  then show ?thesis by (auto simp: log2_floor_def q Let_def)
qed

lemma log2_floor_less:
  assumes "0 < r" "r < pow_rat 2 k"
  shows "log2_floor r < k"
proof (rule ccontr)
  assume "\<not> log2_floor r < k"
  then have "pow_rat 2 k \<le> pow_rat 2 (log2_floor r)" by (simp add: pow_rat_mono)
  with log2_floor_le [OF assms(1)] assms(2) show False by linarith
qed

section \<open>When rounding is exact\<close>

lemma fl_pos_near: "0 < r \<Longrightarrow> \<bar>fl_pos r - r\<bar> \<le> pow_rat 2 (ulp_exp r) / 2"
proof -
  assume "0 < r"
  let ?u = "pow_rat 2 (ulp_exp r)"
  have "\<bar>of_int (half_even (r / ?u)) - r / ?u\<bar> * ?u \<le> 1 / 2 * ?u"
    using half_even_near by (rule mult_right_mono) (simp add: less_imp_le)
  moreover have "\<bar>of_int (half_even (r / ?u)) - r / ?u\<bar> * ?u = \<bar>fl_pos r - r\<bar>"
  proof -
    have u: "0 < ?u" by simp
    have "\<bar>of_int (half_even (r / ?u)) - r / ?u\<bar> * ?u
        = \<bar>(of_int (half_even (r / ?u)) - r / ?u) * ?u\<bar>"
      using u by (simp only: abs_mult abs_of_pos)
    also have "(of_int (half_even (r / ?u)) - r / ?u) * ?u = fl_pos r - r"
      using u by (simp add: fl_pos_def left_diff_distrib less_imp_neq [symmetric])
    finally show ?thesis .
  qed
  ultimately show ?thesis by simp
qed

lemma fl_pos_int_below:
  assumes r: "0 < r" and small: "r < pow_rat 2 53" and le: "r \<le> of_int n"
  shows "fl_pos r \<le> of_int n"
proof -
  let ?e = "ulp_exp r"
  let ?u = "pow_rat 2 ?e"
  have e: "?e \<le> 0" using log2_floor_less [OF r small] by (simp add: ulp_exp_def)
  define m where "m = (2 :: int) ^ nat (- ?e)"
  have inv: "1 / ?u = of_int m" using e by (auto simp: pow_rat_def m_def)
  have u: "0 < ?u" by simp
  have "r / ?u \<le> of_int n / ?u" using le u by (simp add: divide_right_mono less_imp_le)
  also have "of_int n / ?u = of_int (n * m)"
    using inv by (metis of_int_mult times_divide_eq_right mult.right_neutral)
  finally have "half_even (r / ?u) \<le> n * m" by (rule half_even_mono_int)
  then have "(of_int (half_even (r / ?u)) :: rat) * ?u \<le> of_int (n * m) * ?u"
    using u by (simp only: of_int_le_iff mult_le_cancel_right_pos)
  also have "of_int (n * m) * ?u = of_int n"
    using u by (simp flip: inv add: less_imp_neq [OF u, symmetric])
  finally show ?thesis by (simp add: fl_pos_def)
qed

lemma fl_int_small:
  assumes "0 \<le> n" "n < 2 ^ 53"
  shows "fl (of_int n) = of_int n"
proof (cases "n = 0")
  case False
  let ?r = "of_int n :: rat"
  have r: "0 < ?r" using assms False by simp
  have "?r < of_int (2 ^ 53)" using assms(2) by (simp only: of_int_less_iff)
  then have small: "?r < pow_rat 2 53" by (simp add: pow_rat_def)
  let ?e = "ulp_exp ?r"
  have e: "?e \<le> 0" using log2_floor_less [OF r small] by (simp add: ulp_exp_def)
  have "?r / pow_rat 2 ?e = of_int (n * 2 ^ nat (- ?e))"
    using e by (auto simp: pow_rat_def)
  then have "half_even (?r / pow_rat 2 ?e) = n * 2 ^ nat (- ?e)" by (simp only: half_even_int)
  then have "fl_pos ?r = of_int (n * 2 ^ nat (- ?e)) * pow_rat 2 ?e" by (simp add: fl_pos_def)
  also have "\<dots> = ?r" using e by (auto simp: pow_rat_def)
  finally show ?thesis using r by (simp add: fl_def)
qed simp

text \<open>
  A quotient by ten thousand below \<open>2 ^ 40\<close>: the spacing of doubles there is less than twice a
  ten-thousandth, so rounding never moves the quotient onto or over an integer it was not at.
\<close>

lemma fl_div_10000:
  assumes n: "0 < n" and small: "n < 2 ^ 53"
  defines "x \<equiv> of_int n / (10000 :: rat)"
  shows "\<lfloor>fl x\<rfloor> = n div 10000" and "\<lceil>fl x\<rceil> = ceil_div n 10000"
proof -
  have pos: "0 < x" using n by (simp add: x_def)
  have "of_int n < (of_int (2 ^ 53) :: rat)" using small by (simp only: of_int_less_iff)
  then have x40: "x < pow_rat 2 40" by (simp add: x_def pow_rat_def field_simps)
  have "log2_floor x < 40" using log2_floor_less [OF pos x40] .
  then have "ulp_exp x \<le> - 13" by (simp add: ulp_exp_def)
  then have "pow_rat 2 (ulp_exp x) \<le> pow_rat 2 (- 13)" by (simp add: pow_rat_mono)
  also have "pow_rat 2 (- 13) = 1 / 8192" by (simp add: pow_rat_def)
  finally have near: "\<bar>fl x - x\<bar> \<le> 1 / 16384"
    using fl_pos_near [OF pos] pos by (simp add: fl_def)
  have x53: "x < pow_rat 2 53" using x40 pow_rat_mono [of 2 40 53] by simp
  let ?f = "n div 10000" and ?c = "ceil_div n 10000"
  have f: "of_int ?f \<le> x" "x \<le> of_int ?f + 9999 / 10000"
  proof -
    have "?f * 10000 \<le> n" "n \<le> ?f * 10000 + 9999" by presburger+
    then have "of_int (?f * 10000) \<le> (of_int n :: rat)" "of_int n \<le> (of_int (?f * 10000 + 9999) :: rat)"
      by (simp_all only: of_int_le_iff)
    then show "of_int ?f \<le> x" "x \<le> of_int ?f + 9999 / 10000"
      by (simp_all add: x_def field_simps)
  qed
  have c: "x \<le> of_int ?c" "of_int ?c - 9999 / 10000 \<le> x"
  proof -
    have "n \<le> ?c * 10000" "?c * 10000 \<le> n + 9999"
      using ceil_div_bounds [of 10000 n] by auto
    then have "of_int n \<le> (of_int (?c * 10000) :: rat)" "of_int (?c * 10000) \<le> (of_int (n + 9999) :: rat)"
      by (simp_all only: of_int_le_iff)
    then show "x \<le> of_int ?c" "of_int ?c - 9999 / 10000 \<le> x"
      by (simp_all add: x_def field_simps)
  qed
  have up: "fl x \<le> of_int ?c"
    using fl_pos_int_below [OF pos x53 c(1)] pos by (simp add: fl_def)
  have "fl x < of_int ?f + 1" using near f(2) by linarith
  moreover have "of_int ?c - 1 < fl x" using near c(2) by linarith
  moreover have "of_int ?f \<le> fl x"
  proof (cases "x = of_int ?f")
    case True
    have "0 \<le> ?f" "?f < 2 ^ 53" using n small by (simp_all add: div_less_dividend less_le_trans)
    then show ?thesis using fl_int_small [of ?f] by (simp add: True)
  next
    case False
    have "?f * 10000 \<noteq> n"
    proof
      assume "?f * 10000 = n"
      then have "of_int (?f * 10000) = (of_int n :: rat)" by (simp only:)
      then show False using False by (simp add: x_def)
    qed
    then have "?f * 10000 + 1 \<le> n" by presburger
    then have "of_int (?f * 10000 + 1) \<le> (of_int n :: rat)" by (simp only: of_int_le_iff)
    then have "of_int ?f + 1 / 10000 \<le> x" by (simp add: x_def field_simps)
    then show ?thesis using near by linarith
  qed
  ultimately show "\<lfloor>fl x\<rfloor> = ?f" "\<lceil>fl x\<rceil> = ?c" using up by (auto simp: floor_eq_iff ceiling_eq_iff)
qed

end
