(* ===== verification/JsJson.thy ===== *)
theory JsJson imports JsNumber
begin

text \<open>
  JSON values as the request handlers and the commitment functions see them, and
  \<open>JSON.stringify\<close> on strings and numbers. A number prints as the shortest decimal that reads back
  as the same double. Objects are association lists with the keys in creation order; \<open>JUndef\<close> is
  \<open>undefined\<close>, which can be a property of an object built in code. Strings are Latin-1.

  The record \<open>host\<close> collects the two host functions whose code is not in the repository: the hex
  SHA-256 digest of \<open>node:crypto\<close> and the collation order of \<open>localeCompare\<close>.
\<close>

section \<open>Values\<close>

datatype json =
    JNull
  | JUndef
  | JBool bool
  | JNum jsnum
  | JStr string
  | JArr "json list"
  | JObj "(string \<times> json) list"

record host =
  sha256_hex :: "string \<Rightarrow> string"
  locale_le :: "string \<Rightarrow> string \<Rightarrow> bool"

section \<open>JSON.stringify on primitives\<close>

definition digit_char :: "int \<Rightarrow> char" where
  "digit_char d = char_of (48 + d)"

function pos_digits :: "int \<Rightarrow> string" where
  "pos_digits n =
     (if n < 10 then [digit_char n] else pos_digits (n div 10) @ [digit_char (n mod 10)])"
  by pat_completeness auto
termination
  by (relation "measure nat") auto

declare pos_digits.simps [simp del]

definition int_digits :: "int \<Rightarrow> string" where
  "int_digits n = (if n < 0 then ''-'' @ pos_digits (- n) else pos_digits n)"

text \<open>The decimal exponent of \<open>x\<close>: \<open>10 ^ (n - 1) \<le> x < 10 ^ n\<close>.\<close>

definition dec_exp :: "rat \<Rightarrow> int" where
  "dec_exp x =
     (let n = int (length (pos_digits (fst (quotient_of x)))) -
              int (length (pos_digits (snd (quotient_of x))))
      in if pow_rat 10 n \<le> x then n + 1 else n)"

text \<open>The shortest digits \<open>s\<close> (with \<open>k\<close> of them) for which \<open>s * 10 ^ (n - k)\<close> rounds to \<open>x\<close>. A double
  has such digits with \<open>k \<le> 17\<close>, where the search stops.\<close>

fun shortest_digits :: "nat \<Rightarrow> nat \<Rightarrow> rat \<Rightarrow> int \<Rightarrow> int" where
  "shortest_digits 0 k x n = \<lfloor>x * pow_rat 10 (int k - n)\<rfloor>"
| "shortest_digits (Suc fuel) k x n =
     (let scale = pow_rat 10 (int k - n); lo = \<lfloor>x * scale\<rfloor>;
          lo_ok = (fl (of_int lo / scale) = x); hi_ok = (fl (of_int (lo + 1) / scale) = x)
      in if lo_ok \<and> (\<not> hi_ok \<or> x * scale - of_int lo \<le> 1 / 2) then lo
         else if hi_ok then lo + 1
         else shortest_digits fuel (Suc k) x n)"

definition pos_text :: "rat \<Rightarrow> string" where
  "pos_text x =
     (let n = dec_exp x; ds = pos_digits (shortest_digits 16 1 x n); k = int (length ds) in
      if k \<le> n \<and> n \<le> 21 then ds @ replicate (nat (n - k)) CHR ''0''
      else if 0 < n \<and> n \<le> 21 then take (nat n) ds @ ''.'' @ drop (nat n) ds
      else if - 6 < n \<and> n \<le> 0 then ''0.'' @ replicate (nat (- n)) CHR ''0'' @ ds
      else take 1 ds @ (if k = 1 then [] else ''.'' @ drop 1 ds) @ ''e'' @
           (if n - 1 < 0 then ''-'' else ''+'') @ pos_digits \<bar>n - 1\<bar>)"

text \<open>Integers of safe magnitude print as their digits (\<open>pos_text\<close> would find the same digits, with
  its trailing zeros restored).\<close>

fun num_text :: "jsnum \<Rightarrow> string" where
  "num_text (Fin r) =
     (if is_safe_integer (Fin r) then int_digits \<lfloor>r\<rfloor>
      else if r < 0 then ''-'' @ pos_text (- r) else pos_text r)"
| "num_text _ = ''null''"

lemma num_text_int [simp]: "\<bar>n\<bar> \<le> max_safe \<Longrightarrow> num_text (num n) = int_digits n"
  by simp

definition hex_digit :: "nat \<Rightarrow> char" where
  "hex_digit n = ''0123456789abcdef'' ! n"

definition escape_char :: "char \<Rightarrow> string" where
  "escape_char c =
     (let n = of_char c :: nat in
      if n = 34 then [char_of (92 :: nat), char_of (34 :: nat)]
      else if n = 92 then [char_of (92 :: nat), char_of (92 :: nat)]
      else if n = 8 then [char_of (92 :: nat), CHR ''b'']
      else if n = 9 then [char_of (92 :: nat), CHR ''t'']
      else if n = 10 then [char_of (92 :: nat), CHR ''n'']
      else if n = 12 then [char_of (92 :: nat), CHR ''f'']
      else if n = 13 then [char_of (92 :: nat), CHR ''r'']
      else if n < 32 then char_of (92 :: nat) # ''u00'' @ [hex_digit (n div 16), hex_digit (n mod 16)]
      else [c])"

definition json_quote :: "string \<Rightarrow> string" where
  "json_quote s = char_of (34 :: nat) # concat (map escape_char s) @ [char_of (34 :: nat)]"

text \<open>\<open>JSON.stringify\<close> of a value that is not an object; of \<open>undefined\<close> it is \<open>undefined\<close>.\<close>

fun stringify_prim :: "json \<Rightarrow> string option" where
  "stringify_prim JNull = Some ''null''"
| "stringify_prim JUndef = None"
| "stringify_prim (JBool b) = Some (if b then ''true'' else ''false'')"
| "stringify_prim (JNum x) = Some (num_text x)"
| "stringify_prim (JStr s) = Some (json_quote s)"
| "stringify_prim _ = None"

section \<open>Date.toISOString\<close>

definition pad_left :: "nat \<Rightarrow> string \<Rightarrow> string" where
  "pad_left n s = replicate (n - length s) CHR ''0'' @ s"

text \<open>Year, month and day of a day number (0 is 1970-01-01), in the proleptic Gregorian calendar:
  eras of 400 years, with years that start in March.\<close>

definition civil_date :: "int \<Rightarrow> int \<times> int \<times> int" where
  "civil_date days =
     (let z = days + 719468; era = z div 146097; doe = z - era * 146097;
          yoe = (doe - doe div 1460 + doe div 36524 - doe div 146096) div 365;
          doy = doe - (365 * yoe + yoe div 4 - yoe div 100);
          mp = (5 * doy + 2) div 153; d = doy - (153 * mp + 2) div 5 + 1;
          mo = (if mp < 10 then mp + 3 else mp - 9);
          y = yoe + era * 400 + (if mo \<le> 2 then 1 else 0)
      in (y, mo, d))"

text \<open>For the years 0 to 9999 (outside them the year has a sign and six digits).\<close>

definition to_iso :: "time \<Rightarrow> string" where
  "to_iso t =
     (let (y, mo, d) = civil_date (t div 86400000); ms = t mod 86400000 in
      pad_left 4 (int_digits y) @ ''-'' @ pad_left 2 (int_digits mo) @ ''-'' @
      pad_left 2 (int_digits d) @ ''T'' @ pad_left 2 (int_digits (ms div 3600000)) @ '':'' @
      pad_left 2 (int_digits (ms div 60000 mod 60)) @ '':'' @
      pad_left 2 (int_digits (ms div 1000 mod 60)) @ ''.'' @
      pad_left 3 (int_digits (ms mod 1000)) @ ''Z'')"

section \<open>Arrays of strings\<close>

fun js_join :: "string \<Rightarrow> string list \<Rightarrow> string" where
  "js_join sep [] = []"
| "js_join sep [x] = x"
| "js_join sep (x # y # zs) = x @ sep @ js_join sep (y # zs)"

text \<open>\<open>sort\<close> is stable; \<open>le x y\<close> says that \<open>x\<close> may stay before \<open>y\<close>.\<close>

fun insert_by :: "('a \<Rightarrow> 'a \<Rightarrow> bool) \<Rightarrow> 'a \<Rightarrow> 'a list \<Rightarrow> 'a list" where
  "insert_by le x [] = [x]"
| "insert_by le x (y # ys) = (if le x y then x # y # ys else y # insert_by le x ys)"

definition sort_by :: "('a \<Rightarrow> 'a \<Rightarrow> bool) \<Rightarrow> 'a list \<Rightarrow> 'a list" where
  "sort_by le xs = foldr (insert_by le) xs []"

lemma set_insert_by [simp]: "set (insert_by le x ys) = insert x (set ys)"
  by (induction ys) auto

lemma set_sort_by [simp]: "set (sort_by le xs) = set xs"
  by (induction xs) (auto simp: sort_by_def)

lemma length_insert_by [simp]: "length (insert_by le x ys) = Suc (length ys)"
  by (induction ys) auto

lemma length_sort_by [simp]: "length (sort_by le xs) = length xs"
  by (induction xs) (auto simp: sort_by_def)

lemma sorted_insert_by:
  assumes "\<And>a b. le a b \<or> le b a" "\<And>a b c. le a b \<Longrightarrow> le b c \<Longrightarrow> le a c" "sorted_wrt le ys"
  shows "sorted_wrt le (insert_by le x ys)"
  using assms(3)
proof (induction ys)
  case Nil
  then show ?case by simp
next
  case (Cons y ys)
  then have rest: "\<forall>z \<in> set ys. le y z" "sorted_wrt le ys" by auto
  show ?case
  proof (cases "le x y")
    case True
    then have "\<forall>z \<in> set ys. le x z" using rest(1) assms(2) by blast
    then show ?thesis using True Cons.prems by simp
  next
    case False
    then have "le y x" using assms(1) by blast
    then show ?thesis using False rest Cons.IH by simp
  qed
qed

lemma sorted_sort_by:
  assumes "\<And>a b. le a b \<or> le b a" "\<And>a b c. le a b \<Longrightarrow> le b c \<Longrightarrow> le a c"
  shows "sorted_wrt le (sort_by le xs)"
proof (induction xs)
  case Nil
  then show ?case by (simp add: sort_by_def)
next
  case (Cons x xs)
  then show ?case using sorted_insert_by [of le, OF assms] by (simp add: sort_by_def)
qed

section \<open>Fields of an object\<close>

definition obj_field :: "(string \<times> json) list \<Rightarrow> string \<Rightarrow> json" where
  "obj_field kvs k = (case map_of kvs k of None \<Rightarrow> JUndef | Some v \<Rightarrow> v)"

fun is_object :: "json \<Rightarrow> bool" where
  "is_object (JObj _) = True"
| "is_object _ = False"

section \<open>Truthiness\<close>

text \<open>\<open>Boolean(v)\<close>, and \<open>a || b\<close>.\<close>

fun json_truthy :: "json \<Rightarrow> bool" where
  "json_truthy JNull = False"
| "json_truthy JUndef = False"
| "json_truthy (JBool b) = b"
| "json_truthy (JNum x) = (x \<noteq> NaN \<and> x \<noteq> Fin 0)"
| "json_truthy (JStr s) = (s \<noteq> [])"
| "json_truthy _ = True"

definition or_json :: "json \<Rightarrow> json \<Rightarrow> json" where
  "or_json a b = (if json_truthy a then a else b)"

text \<open>\<open>a ?? b\<close> on JSON values, on strings \<open>s.includes(sub)\<close>.\<close>

fun json_nullish :: "json \<Rightarrow> json \<Rightarrow> json" where
  "json_nullish JNull b = b"
| "json_nullish JUndef b = b"
| "json_nullish a b = a"

fun js_includes :: "string \<Rightarrow> string \<Rightarrow> bool" where
  "js_includes sub [] = (sub = [])"
| "js_includes sub (c # cs) = (starts_with sub (c # cs) \<or> js_includes sub cs)"

end
