(* ===== verification/AccountTypes.thy ===== *)
theory AccountTypes imports JsJson
begin

text \<open>
  \<open>apps/web/src/lib/private-account.ts\<close>, part one: the types of the private account. A union of
  string literals is a datatype with the literals as names, an interface a record with the encoding
  of its objects as JSON (which the commitments hash). Two kinds of objects keep their JSON: an
  evidence chain is the association list of its properties, because commitments depend on which of its
  optional properties are there and receipts spread it; and an action, which may carry more properties
  than the code reads.
\<close>

section \<open>Unions of string literals\<close>

datatype GholaThreatActor =
    Public_chain_observer | Rpc_provider | Wallet_provider | Relayer | External_platform
  | Solver_or_counterparty | Ghola_operator | Timing_observer | Colluding_platforms

fun actor_name :: "GholaThreatActor \<Rightarrow> string" where
  "actor_name Public_chain_observer = ''public_chain_observer''"
| "actor_name Rpc_provider = ''rpc_provider''"
| "actor_name Wallet_provider = ''wallet_provider''"
| "actor_name Relayer = ''relayer''"
| "actor_name External_platform = ''external_platform''"
| "actor_name Solver_or_counterparty = ''solver_or_counterparty''"
| "actor_name Ghola_operator = ''ghola_operator''"
| "actor_name Timing_observer = ''timing_observer''"
| "actor_name Colluding_platforms = ''colluding_platforms''"

datatype GholaAnonymityLevel =
    P0_public | P1_source_hidden | P2_bucketed | P3_anonymity_set | P4_operator_blind
  | P5_selectively_disclosable

fun level_name :: "GholaAnonymityLevel \<Rightarrow> string" where
  "level_name P0_public = ''P0_public''"
| "level_name P1_source_hidden = ''P1_source_hidden''"
| "level_name P2_bucketed = ''P2_bucketed''"
| "level_name P3_anonymity_set = ''P3_anonymity_set''"
| "level_name P4_operator_blind = ''P4_operator_blind''"
| "level_name P5_selectively_disclosable = ''P5_selectively_disclosable''"

datatype GholaClaimStatus =
    Private_mode_available | Full_anonymity_available | Wait_for_anonymity
  | Degraded_user_accepted_required | Blocked_leaky_path

fun claim_status_name :: "GholaClaimStatus \<Rightarrow> string" where
  "claim_status_name Private_mode_available = ''private_mode_available''"
| "claim_status_name Full_anonymity_available = ''full_anonymity_available''"
| "claim_status_name Wait_for_anonymity = ''wait_for_anonymity''"
| "claim_status_name Degraded_user_accepted_required = ''degraded_user_accepted_required''"
| "claim_status_name Blocked_leaky_path = ''blocked_leaky_path''"

datatype GholaPlatformClass =
    Solana_public_wallet | Solana_private_balance | Solana_perps_market | Solana_swap_aggregator
  | Hyperliquid_style_market | Coinbase_style_provider | Rfq_solver_network
  | Partner_tokenized_assets

fun platform_name :: "GholaPlatformClass \<Rightarrow> string" where
  "platform_name Solana_public_wallet = ''solana_public_wallet''"
| "platform_name Solana_private_balance = ''solana_private_balance''"
| "platform_name Solana_perps_market = ''solana_perps_market''"
| "platform_name Solana_swap_aggregator = ''solana_swap_aggregator''"
| "platform_name Hyperliquid_style_market = ''hyperliquid_style_market''"
| "platform_name Coinbase_style_provider = ''coinbase_style_provider''"
| "platform_name Rfq_solver_network = ''rfq_solver_network''"
| "platform_name Partner_tokenized_assets = ''partner_tokenized_assets''"

datatype GholaRailKind =
    Private_state_only | Vault_omnibus_netting | Combined_vault_shielded_batch
  | Shielded_batch_auction | Shielded_pool | Confidential_token | Provider_omnibus_subaccount
  | Private_relayer | Stealth_change_address | Direct_public_fallback

fun account_rail_name :: "GholaRailKind \<Rightarrow> string" where
  "account_rail_name Private_state_only = ''private_state_only''"
| "account_rail_name Vault_omnibus_netting = ''vault_omnibus_netting''"
| "account_rail_name Combined_vault_shielded_batch = ''combined_vault_shielded_batch''"
| "account_rail_name Shielded_batch_auction = ''shielded_batch_auction''"
| "account_rail_name Shielded_pool = ''shielded_pool''"
| "account_rail_name Confidential_token = ''confidential_token''"
| "account_rail_name Provider_omnibus_subaccount = ''provider_omnibus_subaccount''"
| "account_rail_name Private_relayer = ''private_relayer''"
| "account_rail_name Stealth_change_address = ''stealth_change_address''"
| "account_rail_name Direct_public_fallback = ''direct_public_fallback''"

datatype GholaPrivateAccountActionClass =
    A_pay | A_transfer | A_fund_platform | A_trade_on_platform | A_rebalance | A_maintain_allocation
  | A_withdraw

fun action_class_name :: "GholaPrivateAccountActionClass \<Rightarrow> string" where
  "action_class_name A_pay = ''pay''"
| "action_class_name A_transfer = ''transfer''"
| "action_class_name A_fund_platform = ''fund_platform''"
| "action_class_name A_trade_on_platform = ''trade_on_platform''"
| "action_class_name A_rebalance = ''rebalance''"
| "action_class_name A_maintain_allocation = ''maintain_allocation''"
| "action_class_name A_withdraw = ''withdraw''"

datatype GholaLeakageStatus =
    Hidden_by_private_account | Hidden_by_vault_netting | Hidden_by_shielded_pool
  | Minimized_by_bucket | Visible_to_platform | Visible_to_counterparty | Visible_on_public_chain
  | Blocked_by_policy | Degraded_user_accepted

fun leakage_name :: "GholaLeakageStatus \<Rightarrow> string" where
  "leakage_name Hidden_by_private_account = ''hidden_by_private_account''"
| "leakage_name Hidden_by_vault_netting = ''hidden_by_vault_netting''"
| "leakage_name Hidden_by_shielded_pool = ''hidden_by_shielded_pool''"
| "leakage_name Minimized_by_bucket = ''minimized_by_bucket''"
| "leakage_name Visible_to_platform = ''visible_to_platform''"
| "leakage_name Visible_to_counterparty = ''visible_to_counterparty''"
| "leakage_name Visible_on_public_chain = ''visible_on_public_chain''"
| "leakage_name Blocked_by_policy = ''blocked_by_policy''"
| "leakage_name Degraded_user_accepted = ''degraded_user_accepted''"

datatype GholaPrivateModeEvidenceStatus =
    Ev_none | Ev_missing | Ev_ready | Ev_stale | Ev_unhealthy

fun evidence_status_name :: "GholaPrivateModeEvidenceStatus \<Rightarrow> string" where
  "evidence_status_name Ev_none = ''none''"
| "evidence_status_name Ev_missing = ''missing''"
| "evidence_status_name Ev_ready = ''ready''"
| "evidence_status_name Ev_stale = ''stale''"
| "evidence_status_name Ev_unhealthy = ''unhealthy''"

datatype chain_visibility =
    Chain_hidden | Chain_bucketed | Chain_visible | Chain_blocked

fun chain_visibility_name :: "chain_visibility \<Rightarrow> string" where
  "chain_visibility_name Chain_hidden = ''hidden''"
| "chain_visibility_name Chain_bucketed = ''bucketed''"
| "chain_visibility_name Chain_visible = ''visible''"
| "chain_visibility_name Chain_blocked = ''blocked''"

datatype platform_visibility =
    Platform_none | Platform_minimal | Platform_order_visible | Platform_account_visible

fun platform_visibility_name :: "platform_visibility \<Rightarrow> string" where
  "platform_visibility_name Platform_none = ''none''"
| "platform_visibility_name Platform_minimal = ''minimal''"
| "platform_visibility_name Platform_order_visible = ''order_visible''"
| "platform_visibility_name Platform_account_visible = ''account_visible''"

datatype operator_visibility =
    Operator_commitment_only | Operator_sealed_runtime | Operator_runtime_visible

fun operator_visibility_name :: "operator_visibility \<Rightarrow> string" where
  "operator_visibility_name Operator_commitment_only = ''commitment_only''"
| "operator_visibility_name Operator_sealed_runtime = ''sealed_runtime''"
| "operator_visibility_name Operator_runtime_visible = ''runtime_visible''"

datatype counterparty_visibility =
    Party_none | Party_ticket_only | Party_selected_quote_only | Party_order_visible

fun counterparty_visibility_name :: "counterparty_visibility \<Rightarrow> string" where
  "counterparty_visibility_name Party_none = ''none''"
| "counterparty_visibility_name Party_ticket_only = ''ticket_only''"
| "counterparty_visibility_name Party_selected_quote_only = ''selected_quote_only''"
| "counterparty_visibility_name Party_order_visible = ''order_visible''"

datatype connector_status =
    Connector_ready | Connector_missing | Connector_stale | Connector_blocked

fun connector_status_name :: "connector_status \<Rightarrow> string" where
  "connector_status_name Connector_ready = ''ready''"
| "connector_status_name Connector_missing = ''missing''"
| "connector_status_name Connector_stale = ''stale''"
| "connector_status_name Connector_blocked = ''blocked''"

datatype linkability_decision =
    Link_proceed | Link_degraded_acceptance_required | Link_wait_for_batch | Link_rotate_or_block
  | Link_blocked

fun linkability_decision_name :: "linkability_decision \<Rightarrow> string" where
  "linkability_decision_name Link_proceed = ''proceed''"
| "linkability_decision_name Link_degraded_acceptance_required = ''degraded_acceptance_required''"
| "linkability_decision_name Link_wait_for_batch = ''wait_for_batch''"
| "linkability_decision_name Link_rotate_or_block = ''rotate_or_block''"
| "linkability_decision_name Link_blocked = ''blocked''"

datatype order_visibility =
    Order_hidden | Order_ticket_only | Order_order_visible | Order_account_visible

fun order_visibility_name :: "order_visibility \<Rightarrow> string" where
  "order_visibility_name Order_hidden = ''hidden''"
| "order_visibility_name Order_ticket_only = ''ticket_only''"
| "order_visibility_name Order_order_visible = ''order_visible''"
| "order_visibility_name Order_account_visible = ''account_visible''"

datatype access_source =
    Source_none | Source_user_provided_credentials | Source_ghola_managed_testnet
  | Source_ghola_pooled_venue_account | Source_hyperliquid_native_vault | Source_partner_omnibus

fun access_source_name :: "access_source \<Rightarrow> string" where
  "access_source_name Source_none = ''none''"
| "access_source_name Source_user_provided_credentials = ''user_provided_credentials''"
| "access_source_name Source_ghola_managed_testnet = ''ghola_managed_testnet''"
| "access_source_name Source_ghola_pooled_venue_account = ''ghola_pooled_venue_account''"
| "access_source_name Source_hyperliquid_native_vault = ''hyperliquid_native_vault''"
| "access_source_name Source_partner_omnibus = ''partner_omnibus''"

datatype access_role =
    Role_private_execution_router | Role_private_state_operator | Role_connector_only

fun access_role_name :: "access_role \<Rightarrow> string" where
  "access_role_name Role_private_execution_router = ''private_execution_router''"
| "access_role_name Role_private_state_operator = ''private_state_operator''"
| "access_role_name Role_connector_only = ''connector_only''"

datatype venue_gate =
    Gate_not_applicable | Gate_venue_accepts_or_rejects_credentials
  | Gate_partner_accepts_or_rejects_order

fun venue_gate_name :: "venue_gate \<Rightarrow> string" where
  "venue_gate_name Gate_not_applicable = ''not_applicable''"
| "venue_gate_name Gate_venue_accepts_or_rejects_credentials = ''venue_accepts_or_rejects_credentials''"
| "venue_gate_name Gate_partner_accepts_or_rejects_order = ''partner_accepts_or_rejects_order''"

datatype venue_visibility =
    Venue_none | Venue_ticket_only | Venue_execution_account_and_order_activity
  | Venue_provider_account_and_order_activity

fun venue_visibility_name :: "venue_visibility \<Rightarrow> string" where
  "venue_visibility_name Venue_none = ''none''"
| "venue_visibility_name Venue_ticket_only = ''ticket_only''"
| "venue_visibility_name Venue_execution_account_and_order_activity = ''execution_account_and_order_activity''"
| "venue_visibility_name Venue_provider_account_and_order_activity = ''provider_account_and_order_activity''"

datatype wallet_visibility =
    Wallet_not_exposed_to_public_chain_by_ghola | Wallet_visible_on_public_chain
  | Wallet_not_applicable

fun wallet_visibility_name :: "wallet_visibility \<Rightarrow> string" where
  "wallet_visibility_name Wallet_not_exposed_to_public_chain_by_ghola = ''not_exposed_to_public_chain_by_ghola''"
| "wallet_visibility_name Wallet_visible_on_public_chain = ''visible_on_public_chain''"
| "wallet_visibility_name Wallet_not_applicable = ''not_applicable''"

datatype privacy_claim =
    Claim_private_mode_available | Claim_venue_visible_order_degraded
  | Claim_public_chain_visible_degraded

fun privacy_claim_name :: "privacy_claim \<Rightarrow> string" where
  "privacy_claim_name Claim_private_mode_available = ''private_mode_available''"
| "privacy_claim_name Claim_venue_visible_order_degraded = ''venue_visible_order_degraded''"
| "privacy_claim_name Claim_public_chain_visible_degraded = ''public_chain_visible_degraded''"

datatype GholaPrivateModeClaimLevel =
    L_source_wallet_hidden | L_amount_bucketed | L_batched_anonymity_set | L_operator_sealed
  | L_selectively_disclosable

fun claim_level_name :: "GholaPrivateModeClaimLevel \<Rightarrow> string" where
  "claim_level_name L_source_wallet_hidden = ''source_wallet_hidden''"
| "claim_level_name L_amount_bucketed = ''amount_bucketed''"
| "claim_level_name L_batched_anonymity_set = ''batched_anonymity_set''"
| "claim_level_name L_operator_sealed = ''operator_sealed''"
| "claim_level_name L_selectively_disclosable = ''selectively_disclosable''"

datatype runtime_status =
    Runtime_ready | Runtime_missing | Runtime_stale | Runtime_unhealthy

fun runtime_status_name :: "runtime_status \<Rightarrow> string" where
  "runtime_status_name Runtime_ready = ''ready''"
| "runtime_status_name Runtime_missing = ''missing''"
| "runtime_status_name Runtime_stale = ''stale''"
| "runtime_status_name Runtime_unhealthy = ''unhealthy''"

datatype runtime_mode =
    Mode_http | Mode_local_test

fun runtime_mode_name :: "runtime_mode \<Rightarrow> string" where
  "runtime_mode_name Mode_http = ''http''"
| "runtime_mode_name Mode_local_test = ''local_test''"

datatype schedule_mode =
    Window_scheduled_private_window | Window_immediate_degraded | Window_ready_now

fun schedule_mode_name :: "schedule_mode \<Rightarrow> string" where
  "schedule_mode_name Window_scheduled_private_window = ''scheduled_private_window''"
| "schedule_mode_name Window_immediate_degraded = ''immediate_degraded''"
| "schedule_mode_name Window_ready_now = ''ready_now''"

datatype schedule_status =
    Schedule_ready | Schedule_waiting | Schedule_degraded | Schedule_blocked

fun schedule_status_name :: "schedule_status \<Rightarrow> string" where
  "schedule_status_name Schedule_ready = ''ready''"
| "schedule_status_name Schedule_waiting = ''waiting''"
| "schedule_status_name Schedule_degraded = ''degraded''"
| "schedule_status_name Schedule_blocked = ''blocked''"

datatype rotation_status =
    Rotation_ready | Rotation_rotate_required | Rotation_blocked

fun rotation_status_name :: "rotation_status \<Rightarrow> string" where
  "rotation_status_name Rotation_ready = ''ready''"
| "rotation_status_name Rotation_rotate_required = ''rotate_required''"
| "rotation_status_name Rotation_blocked = ''blocked''"

datatype simulation_decision =
    Sim_proceed | Sim_wait_for_batch | Sim_rotate | Sim_degraded_acceptance_required | Sim_blocked

fun simulation_decision_name :: "simulation_decision \<Rightarrow> string" where
  "simulation_decision_name Sim_proceed = ''proceed''"
| "simulation_decision_name Sim_wait_for_batch = ''wait_for_batch''"
| "simulation_decision_name Sim_rotate = ''rotate''"
| "simulation_decision_name Sim_degraded_acceptance_required = ''degraded_acceptance_required''"
| "simulation_decision_name Sim_blocked = ''blocked''"

datatype FrontRunProtectionKind =
    Fr_zero_certified | Fr_pre_submit_private | Fr_venue_visible | Fr_blocked

fun protection_kind_name :: "FrontRunProtectionKind \<Rightarrow> string" where
  "protection_kind_name Fr_zero_certified = ''zero_certified''"
| "protection_kind_name Fr_pre_submit_private = ''pre_submit_private''"
| "protection_kind_name Fr_venue_visible = ''venue_visible''"
| "protection_kind_name Fr_blocked = ''blocked''"

datatype FrontRunMode =
    Mode_pre_submit_private | Mode_zero_front_run

fun front_run_mode_name :: "FrontRunMode \<Rightarrow> string" where
  "front_run_mode_name Mode_pre_submit_private = ''pre_submit_private''"
| "front_run_mode_name Mode_zero_front_run = ''zero_front_run''"

datatype FrontRunAccessMode =
    Access_byo_api_key | Access_user_stealth | Access_ghola_pooled | Access_partner_omnibus
  | Access_private_rfq | Access_sealed_batch_auction | Access_unknown

fun access_mode_name :: "FrontRunAccessMode \<Rightarrow> string" where
  "access_mode_name Access_byo_api_key = ''byo_api_key''"
| "access_mode_name Access_user_stealth = ''user_stealth''"
| "access_mode_name Access_ghola_pooled = ''ghola_pooled''"
| "access_mode_name Access_partner_omnibus = ''partner_omnibus''"
| "access_mode_name Access_private_rfq = ''private_rfq''"
| "access_mode_name Access_sealed_batch_auction = ''sealed_batch_auction''"
| "access_mode_name Access_unknown = ''unknown''"

section \<open>JSON of optional values\<close>

definition null_text :: "string option \<Rightarrow> json" where
  "null_text t = (case t of None \<Rightarrow> JNull | Some s \<Rightarrow> JStr s)"

definition texts_json :: "string list \<Rightarrow> json" where
  "texts_json xs = JArr (map JStr xs)"

definition null_json :: "('a \<Rightarrow> json) \<Rightarrow> 'a option \<Rightarrow> json" where
  "null_json f x = (case x of None \<Rightarrow> JNull | Some v \<Rightarrow> f v)"

text \<open>A string that is not empty (the truthy values of \<open>string | null | undefined\<close>).\<close>

definition has_text :: "string option \<Rightarrow> bool" where
  "has_text t = (case t of None \<Rightarrow> False | Some s \<Rightarrow> s \<noteq> [])"

text \<open>\<open>x ?? y\<close>.\<close>

definition nullish :: "'a option \<Rightarrow> 'a option \<Rightarrow> 'a option" where
  "nullish x y = (case x of None \<Rightarrow> y | Some v \<Rightarrow> Some v)"

lemma nullish_simps [simp]:
  "nullish None y = y"
  "nullish (Some v) y = Some v"
  by (simp_all add: nullish_def)

lemma has_text_simps [simp]:
  "\<not> has_text None"
  "has_text (Some s) \<longleftrightarrow> s \<noteq> []"
  by (simp_all add: has_text_def)

section \<open>Policies and sets\<close>

record GholaThreatModel =
  tm_private_against :: "GholaThreatActor list"
  tm_partially_private_against :: "GholaThreatActor list"
  tm_not_private_against :: "GholaThreatActor list"

record GholaAnonymitySetPolicy =
  asp_consumer_min :: int
  asp_institutional_min :: int
  asp_rfq_min_solvers :: int
  asp_amount_buckets :: "int list"
  asp_min_delay_seconds :: int

record GholaAnonymitySetSummary =
  as_required :: jsnum
  as_effective :: jsnum
  as_solver_count :: "jsnum option"
  as_amount_bucketed :: bool
  as_timing_window_met :: bool
  as_uniqueness_bps :: jsnum
  as_repeated_pattern_bps :: jsnum

definition anonymity_set_json :: "GholaAnonymitySetSummary \<Rightarrow> json" where
  "anonymity_set_json a = JObj [(''required'', JNum (as_required a)), (''effective'', JNum (as_effective a)),
     (''solver_count'', case as_solver_count a of None \<Rightarrow> JUndef | Some n \<Rightarrow> JNum n),
     (''amount_bucketed'', JBool (as_amount_bucketed a)), (''timing_window_met'', JBool (as_timing_window_met a)),
     (''uniqueness_score_bps'', JNum (as_uniqueness_bps a)),
     (''repeated_pattern_score_bps'', JNum (as_repeated_pattern_bps a))]"

text \<open>The caller may give any part of a summary (\<open>Partial\<close>).\<close>

record partial_anonymity_set =
  pas_required :: "jsnum option"
  pas_effective :: "jsnum option"
  pas_solver_count :: "jsnum option"
  pas_amount_bucketed :: "bool option"
  pas_timing_window_met :: "bool option"
  pas_uniqueness_bps :: "jsnum option"
  pas_repeated_pattern_bps :: "jsnum option"

record GholaPrivacyBudget =
  pb_degraded_action_count :: "jsnum option"
  pb_repeated_withdrawal_count :: "jsnum option"
  pb_repeated_cadence_count :: "jsnum option"
  pb_platform_concentration_bps :: "jsnum option"
  pb_solver_concentration_bps :: "jsnum option"

type_synonym GholaPrivateModeEvidenceChain = "(string, json) jsmap"

text \<open>\<open>chain?.key\<close>, nullish when there is no chain, no property, or the property is \<open>null\<close>.\<close>

definition chain_text :: "GholaPrivateModeEvidenceChain option \<Rightarrow> string \<Rightarrow> string option" where
  "chain_text chain key =
     (case Option.bind chain (\<lambda>c. js_get c key) of Some (JStr s) \<Rightarrow> Some s | _ \<Rightarrow> None)"

definition chain_has :: "GholaPrivateModeEvidenceChain option \<Rightarrow> string \<Rightarrow> bool" where
  "chain_has chain key = has_text (chain_text chain key)"

record GholaPlatformPrivacyProfile =
  pp_class :: GholaPlatformClass
  pp_label :: string
  pp_products :: "GholaPrivateAccountActionClass list"
  pp_chain_sees :: chain_visibility
  pp_platform_sees :: platform_visibility
  pp_operator_sees :: operator_visibility
  pp_counterparty_sees :: counterparty_visibility
  pp_rails :: "GholaRailKind list"
  pp_degraded_conditions :: "string list"
  pp_blocked_conditions :: "string list"
  pp_readiness_commitment :: string

section \<open>What the preview is given\<close>

record GholaConnectorPreviewContext =
  cc_manifest :: string
  cc_readiness :: string
  cc_compiler :: string
  cc_linkability_score :: string
  cc_sandbox_policy :: string
  cc_status :: connector_status
  cc_linkability :: linkability_decision
  cc_main_wallet_exposed :: bool
  cc_order_visibility :: order_visibility
  cc_settlement_visibility :: chain_visibility
  cc_access_source :: access_source
  cc_access_role :: access_role
  cc_venue_gate :: venue_gate
  cc_venue_visibility :: venue_visibility
  cc_wallet_visibility :: wallet_visibility
  cc_privacy_claim :: privacy_claim
  cc_reason_codes :: "string list"

definition connector_json :: "GholaConnectorPreviewContext \<Rightarrow> json" where
  "connector_json c = JObj [(''version'', JNum (num 1)), (''manifest_commitment'', JStr (cc_manifest c)),
     (''connector_readiness_commitment'', JStr (cc_readiness c)), (''compiler_commitment'', JStr (cc_compiler c)),
     (''linkability_score_commitment'', JStr (cc_linkability_score c)),
     (''sandbox_policy_commitment'', JStr (cc_sandbox_policy c)),
     (''connector_status'', JStr (connector_status_name (cc_status c))),
     (''linkability_decision'', JStr (linkability_decision_name (cc_linkability c))),
     (''main_wallet_exposed'', JBool (cc_main_wallet_exposed c)),
     (''venue_order_visibility'', JStr (order_visibility_name (cc_order_visibility c))),
     (''public_chain_settlement_visibility'', JStr (chain_visibility_name (cc_settlement_visibility c))),
     (''venue_access_source'', JStr (access_source_name (cc_access_source c))),
     (''ghola_access_role'', JStr (access_role_name (cc_access_role c))),
     (''venue_gate'', JStr (venue_gate_name (cc_venue_gate c))),
     (''venue_visibility'', JStr (venue_visibility_name (cc_venue_visibility c))),
     (''source_wallet_visibility'', JStr (wallet_visibility_name (cc_wallet_visibility c))),
     (''privacy_claim'', JStr (privacy_claim_name (cc_privacy_claim c))),
     (''reason_codes'', texts_json (cc_reason_codes c))]"

record GholaSealedRuntimeContext =
  rt_status :: runtime_status
  rt_mode :: runtime_mode
  rt_envelope :: string
  rt_attestation :: "string option"
  rt_measurement :: "string option"
  rt_policy :: "string option"
  rt_health :: string
  rt_observed_at :: time
  rt_reason_codes :: "string list"

definition runtime_json :: "GholaSealedRuntimeContext \<Rightarrow> json" where
  "runtime_json r = JObj [(''version'', JNum (num 1)), (''runtime_status'', JStr (runtime_status_name (rt_status r))),
     (''runtime_mode'', JStr (runtime_mode_name (rt_mode r))), (''runtime_envelope_commitment'', JStr (rt_envelope r)),
     (''runtime_attestation_commitment'', null_text (rt_attestation r)),
     (''runtime_measurement_commitment'', null_text (rt_measurement r)),
     (''runtime_policy_commitment'', null_text (rt_policy r)),
     (''runtime_health_commitment'', JStr (rt_health r)), (''runtime_observed_at'', JStr (to_iso (rt_observed_at r))),
     (''reason_codes'', texts_json (rt_reason_codes r))]"

record GholaPrivacyScheduleDecision =
  sd_commitment :: string
  sd_mode :: schedule_mode
  sd_status :: schedule_status
  sd_window_commitment :: string
  sd_execute_after :: "time option"
  sd_reason_codes :: "string list"

definition schedule_json :: "GholaPrivacyScheduleDecision \<Rightarrow> json" where
  "schedule_json s = JObj [(''version'', JNum (num 1)), (''schedule_commitment'', JStr (sd_commitment s)),
     (''mode'', JStr (schedule_mode_name (sd_mode s))), (''status'', JStr (schedule_status_name (sd_status s))),
     (''privacy_window_commitment'', JStr (sd_window_commitment s)),
     (''execute_after'', null_text (map_option to_iso (sd_execute_after s))),
     (''reason_codes'', texts_json (sd_reason_codes s))]"

record GholaPlatformFundingRotation =
  ro_commitment :: string
  ro_account_commitment :: string
  ro_epoch_commitment :: string
  ro_reuse_count :: jsnum
  ro_destination_reuse_count :: jsnum
  ro_status :: rotation_status
  ro_reason_codes :: "string list"

definition rotation_json :: "GholaPlatformFundingRotation \<Rightarrow> json" where
  "rotation_json r = JObj [(''version'', JNum (num 1)), (''rotation_commitment'', JStr (ro_commitment r)),
     (''platform_funding_account_commitment'', JStr (ro_account_commitment r)),
     (''rotation_epoch_commitment'', JStr (ro_epoch_commitment r)), (''reuse_count'', JNum (ro_reuse_count r)),
     (''withdrawal_destination_reuse_count'', JNum (ro_destination_reuse_count r)),
     (''status'', JStr (rotation_status_name (ro_status r))), (''reason_codes'', texts_json (ro_reason_codes r))]"

record GholaAdversarialLinkabilitySimulation =
  ls_commitment :: string
  ls_score_bps :: jsnum
  ls_decision :: simulation_decision
  ls_chain_observer :: jsnum
  ls_venue :: jsnum
  ls_solver :: jsnum
  ls_provider :: jsnum
  ls_colluding_platforms :: jsnum
  ls_reason_codes :: "string list"
  ls_simulated_at :: time

definition simulation_json :: "GholaAdversarialLinkabilitySimulation \<Rightarrow> json" where
  "simulation_json s = JObj [(''version'', JNum (num 1)), (''simulator_commitment'', JStr (ls_commitment s)),
     (''score_bps'', JNum (ls_score_bps s)), (''decision'', JStr (simulation_decision_name (ls_decision s))),
     (''actors'', JObj [(''chain_observer'', JNum (ls_chain_observer s)), (''venue'', JNum (ls_venue s)),
       (''solver'', JNum (ls_solver s)), (''provider'', JNum (ls_provider s)),
       (''colluding_platforms'', JNum (ls_colluding_platforms s))]),
     (''reason_codes'', texts_json (ls_reason_codes s)), (''simulated_at'', JStr (to_iso (ls_simulated_at s)))]"

text \<open>An action, with the object that carries it.\<close>

record GholaPrivateAccountAction =
  ac_commitment :: string
  ac_class :: GholaPrivateAccountActionClass
  ac_bucket :: string
  ac_policy :: string
  ac_intent :: string
  ac_json :: json

section \<open>What the preview gives\<close>

record leakage_channels =
  ch_source_wallet :: GholaLeakageStatus
  ch_destination_wallet :: GholaLeakageStatus
  ch_platform_account :: GholaLeakageStatus
  ch_asset :: GholaLeakageStatus
  ch_amount :: GholaLeakageStatus
  ch_timing :: GholaLeakageStatus
  ch_side :: GholaLeakageStatus
  ch_quote_path :: GholaLeakageStatus
  ch_counterparty_set :: GholaLeakageStatus
  ch_solver_set :: GholaLeakageStatus
  ch_settlement :: GholaLeakageStatus
  ch_cross_run :: GholaLeakageStatus

definition channels_json :: "leakage_channels \<Rightarrow> json" where
  "channels_json c = JObj (map (\<lambda>(k, v). (k, JStr (leakage_name v)))
     [(''source_wallet_graph'', ch_source_wallet c), (''destination_wallet_graph'', ch_destination_wallet c),
      (''platform_account_linkage'', ch_platform_account c), (''asset_visibility'', ch_asset c),
      (''amount_visibility'', ch_amount c), (''timing_urgency'', ch_timing c), (''side_direction'', ch_side c),
      (''quote_path'', ch_quote_path c), (''counterparty_set'', ch_counterparty_set c),
      (''solver_set'', ch_solver_set c), (''settlement_linkage'', ch_settlement c),
      (''cross_run_pattern'', ch_cross_run c)])"

record GholaLeakageMap =
  lm_commitment :: string
  lm_channels :: leakage_channels

definition leakage_map_json :: "GholaLeakageMap \<Rightarrow> json" where
  "leakage_map_json m = JObj [(''version'', JNum (num 1)), (''leakage_commitment'', JStr (lm_commitment m)),
     (''channels'', channels_json (lm_channels m))]"

record claim_levels =
  cl_achieved :: "GholaPrivateModeClaimLevel list"
  cl_missing :: "GholaPrivateModeClaimLevel list"
  cl_evidence :: "(GholaPrivateModeClaimLevel \<times> string option) list"

definition levels_json :: "GholaPrivateModeClaimLevel list \<Rightarrow> json" where
  "levels_json ls = JArr (map (\<lambda>l. JStr (claim_level_name l)) ls)"

definition evidence_json :: "(GholaPrivateModeClaimLevel \<times> string option) list \<Rightarrow> json" where
  "evidence_json es = JObj (map (\<lambda>(l, t). (claim_level_name l, case t of None \<Rightarrow> JUndef | Some s \<Rightarrow> JStr s)) es)"

definition claim_levels_json :: "claim_levels \<Rightarrow> json" where
  "claim_levels_json c = JObj [(''achieved'', levels_json (cl_achieved c)), (''missing'', levels_json (cl_missing c)),
     (''evidence'', evidence_json (cl_evidence c))]"

record FrontRunProtection =
  fr_kind :: FrontRunProtectionKind
  fr_label :: string
  fr_detail :: string
  fr_zero :: bool
  fr_live_in_zero_mode :: bool
  fr_reason_codes :: "string list"
  fr_certificate :: "string option"

definition protection_json :: "FrontRunProtection \<Rightarrow> json" where
  "protection_json p = JObj [(''kind'', JStr (protection_kind_name (fr_kind p))), (''label'', JStr (fr_label p)),
     (''detail'', JStr (fr_detail p)), (''zeroFrontRun'', JBool (fr_zero p)),
     (''canLiveSubmitInZeroMode'', JBool (fr_live_in_zero_mode p)), (''reasonCodes'', texts_json (fr_reason_codes p)),
     (''certificateCommitment'', null_text (fr_certificate p))]"

record GholaPrivacyPreview =
  pv_commitment :: string
  pv_account :: string
  pv_action :: string
  pv_platform :: GholaPlatformClass
  pv_rail :: GholaRailKind
  pv_status :: GholaClaimStatus
  pv_level :: GholaAnonymityLevel
  pv_threat_model :: GholaThreatModel
  pv_anonymity_set :: GholaAnonymitySetSummary
  pv_leakage_map :: GholaLeakageMap
  pv_chain_sees :: chain_visibility
  pv_platform_sees :: platform_visibility
  pv_operator_sees :: operator_visibility
  pv_counterparty_sees :: counterparty_visibility
  pv_hidden_from :: "string list"
  pv_visible_to :: "string list"
  pv_degraded_reasons :: "string list"
  pv_blocked_reasons :: "string list"
  pv_wait_reasons :: "string list"
  pv_evidence_status :: GholaPrivateModeEvidenceStatus
  pv_chain :: "GholaPrivateModeEvidenceChain option"
  pv_connector :: "GholaConnectorPreviewContext option"
  pv_runtime :: "GholaSealedRuntimeContext option"
  pv_schedule :: "GholaPrivacyScheduleDecision option"
  pv_rotation :: "GholaPlatformFundingRotation option"
  pv_simulation :: "GholaAdversarialLinkabilitySimulation option"
  pv_mode :: FrontRunMode
  pv_protection :: FrontRunProtection
  pv_certificate :: "string option"
  pv_levels_achieved :: "GholaPrivateModeClaimLevel list"
  pv_levels_missing :: "GholaPrivateModeClaimLevel list"
  pv_level_evidence :: "(GholaPrivateModeClaimLevel \<times> string option) list"
  pv_expires_at :: time

datatype preview_actor = Consumer | Institution

record GholaPrivateAccountPreviewInput =
  pi_account_commitment :: "string option"
  pi_vault_ready :: "bool option"
  pi_action :: GholaPrivateAccountAction
  pi_platform :: GholaPlatformClass
  pi_requested_rail :: "GholaRailKind option"
  pi_actor :: "preview_actor option"
  pi_anonymity_set :: "partial_anonymity_set option"
  pi_budget :: "GholaPrivacyBudget option"
  pi_evidence_status :: "GholaPrivateModeEvidenceStatus option"
  pi_chain :: "GholaPrivateModeEvidenceChain option"
  pi_connector :: "GholaConnectorPreviewContext option"
  pi_runtime :: "GholaSealedRuntimeContext option"
  pi_schedule :: "GholaPrivacyScheduleDecision option"
  pi_rotation :: "GholaPlatformFundingRotation option"
  pi_simulation :: "GholaAdversarialLinkabilitySimulation option"
  pi_mode :: "FrontRunMode option"
  pi_require_evidence :: bool
  pi_degraded_accepted :: bool

record GholaPrivateAccountIntentBinding =
  ib_id :: string
  ib_account :: string
  ib_action :: string
  ib_class :: GholaPrivateAccountActionClass
  ib_bucket :: string
  ib_policy :: string
  ib_intent :: string
  ib_expires_at :: time

record GholaPrivateAccountApprovalBinding =
  ab_commitment :: string
  ab_preview :: string
  ab_intent_id :: string
  ab_degraded_accepted :: bool
  ab_expires_at :: time
  ab_plan :: "string option"

end
