(* ===== verification/AccountProfiles.thy ===== *)
theory AccountProfiles imports AccountTypes
begin

text \<open>
  \<open>apps/web/src/lib/private-account.ts\<close>, part two, with \<open>private-account-front-run-protection.ts\<close>:
  commitments, the constants of the privacy policy, the privacy profiles of the platforms, and the
  front-run certificate. Both files have the same canonical JSON and the same commitment function.
\<close>

section \<open>Commitments\<close>

text \<open>Properties are sorted by \<open>localeCompare\<close>; one that is \<open>undefined\<close> prints as \<open>undefined\<close>, and in an
  array as nothing.\<close>

definition undefined_text :: "string option \<Rightarrow> string" where
  "undefined_text t = (case t of None \<Rightarrow> ''undefined'' | Some s \<Rightarrow> s)"

function stablePrivateAccountJson :: "host \<Rightarrow> json \<Rightarrow> string option" where
  "stablePrivateAccountJson h (JArr xs) =
     Some (''['' @ js_join '','' (map (\<lambda>x. case stablePrivateAccountJson h x of None \<Rightarrow> [] | Some t \<Rightarrow> t) xs) @ '']'')"
| "stablePrivateAccountJson h (JObj kvs) =
     Some (''{'' @ js_join '','' (map (\<lambda>(k, t). json_quote k @ '':'' @ undefined_text t)
       (sort_by (\<lambda>p q. locale_le h (fst p) (fst q))
          (map (\<lambda>p. (fst p, stablePrivateAccountJson h (snd p))) kvs))) @ ''}'')"
| "stablePrivateAccountJson h JNull = stringify_prim JNull"
| "stablePrivateAccountJson h JUndef = stringify_prim JUndef"
| "stablePrivateAccountJson h (JBool b) = stringify_prim (JBool b)"
| "stablePrivateAccountJson h (JNum x) = stringify_prim (JNum x)"
| "stablePrivateAccountJson h (JStr s) = stringify_prim (JStr s)"
  by pat_completeness auto
termination
proof (relation "measure (\<lambda>(h, v). size v)")
  fix h :: host and kvs :: "(string \<times> json) list" and p
  assume "p \<in> set kvs"
  then have "size (snd p) < Suc (size_list (size_prod (\<lambda>_. 0) size) kvs)"
    by (induction kvs) (auto simp: size_prod_def)
  then show "((h, snd p), (h, JObj kvs)) \<in> measure (\<lambda>(h, v). size v)" by simp
qed (auto simp: less_Suc_eq_le intro: size_list_estimation')

definition gholaCommitment :: "host \<Rightarrow> string \<Rightarrow> json \<Rightarrow> string" where
  "gholaCommitment h prefix v =
     prefix @ ''_'' @ take 48 (sha256_hex h (undefined_text (stablePrivateAccountJson h v)))"

section \<open>Constants\<close>

definition GHOLA_FUNDING_AMOUNT_BUCKETS :: "string list" where
  "GHOLA_FUNDING_AMOUNT_BUCKETS = [''5'', ''10'', ''25'', ''50'', ''100'']"

definition isFundingAmountBucket :: "string \<Rightarrow> bool" where
  "isFundingAmountBucket s \<longleftrightarrow> s \<in> set GHOLA_FUNDING_AMOUNT_BUCKETS"

definition DEFAULT_ANONYMITY_SET_POLICY :: GholaAnonymitySetPolicy where
  "DEFAULT_ANONYMITY_SET_POLICY = \<lparr>asp_consumer_min = 50, asp_institutional_min = 100, asp_rfq_min_solvers = 5,
     asp_amount_buckets = [5000000, 10000000, 25000000, 50000000, 100000000], asp_min_delay_seconds = 600\<rparr>"

definition MAX_FULL_ANONYMITY_RAILS :: "GholaRailKind list" where
  "MAX_FULL_ANONYMITY_RAILS = [Private_state_only, Vault_omnibus_netting, Combined_vault_shielded_batch,
     Shielded_batch_auction, Shielded_pool, Confidential_token]"

definition ROUTING_ORDER :: "GholaRailKind list" where
  "ROUTING_ORDER = MAX_FULL_ANONYMITY_RAILS @ [Provider_omnibus_subaccount, Private_relayer,
     Stealth_change_address, Direct_public_fallback]"

definition PRIVATE_MODE_REQUIRED_CLAIM_LEVELS :: "GholaPrivateModeClaimLevel list" where
  "PRIVATE_MODE_REQUIRED_CLAIM_LEVELS = [L_source_wallet_hidden, L_amount_bucketed, L_batched_anonymity_set,
     L_operator_sealed]"

definition requiresPrivateSettlementBinding :: "GholaRailKind \<Rightarrow> bool" where
  "requiresPrivateSettlementBinding rail \<longleftrightarrow> rail = Shielded_pool \<or> rail = Shielded_batch_auction"

definition isPrivateModeAvailableStatus :: "GholaClaimStatus \<Rightarrow> bool" where
  "isPrivateModeAvailableStatus s \<longleftrightarrow> s = Private_mode_available \<or> s = Full_anonymity_available"

section \<open>Profiles of the platforms\<close>

definition profile :: "host \<Rightarrow> GholaPlatformClass \<Rightarrow> string \<Rightarrow> GholaPrivateAccountActionClass list \<Rightarrow> chain_visibility \<Rightarrow>
    platform_visibility \<Rightarrow> operator_visibility \<Rightarrow> counterparty_visibility \<Rightarrow> GholaRailKind list \<Rightarrow> string list \<Rightarrow>
    string list \<Rightarrow> GholaPlatformPrivacyProfile" where
  "profile h platformClass label products publicChainSees platformSees operatorSees counterpartySees
     runnableRails degraded blocked =
     \<lparr>pp_class = platformClass, pp_label = label, pp_products = products, pp_chain_sees = publicChainSees,
      pp_platform_sees = platformSees, pp_operator_sees = operatorSees, pp_counterparty_sees = counterpartySees,
      pp_rails = runnableRails, pp_degraded_conditions = degraded, pp_blocked_conditions = blocked,
      pp_readiness_commitment = gholaCommitment h ''connector''
        (JObj [(''platformClass'', JStr (platform_name platformClass)),
          (''runnableRails'', JArr (map (\<lambda>r. JStr (account_rail_name r)) runnableRails))])\<rparr>"

definition listPlatformPrivacyProfiles :: "host \<Rightarrow> GholaPlatformPrivacyProfile list" where
  "listPlatformPrivacyProfiles h =
     [profile h Solana_public_wallet ''Solana public wallet'' [A_pay, A_transfer, A_withdraw] Chain_visible
        Platform_none Operator_runtime_visible Party_none []
        [''direct public settlement exposes sender, receiver, asset, amount, and timing''] [],
      profile h Solana_private_balance ''Solana private balance'' [A_pay, A_transfer, A_withdraw] Chain_hidden
        Platform_none Operator_sealed_runtime Party_none
        [Private_state_only, Vault_omnibus_netting, Combined_vault_shielded_batch, Shielded_batch_auction, Shielded_pool]
        [] [''direct public fallback cannot satisfy Private Mode''],
      profile h Solana_perps_market ''Solana perps market'' [A_fund_platform, A_trade_on_platform, A_rebalance]
        Chain_bucketed Platform_order_visible Operator_sealed_runtime Party_order_visible
        [Shielded_batch_auction, Combined_vault_shielded_batch, Shielded_pool]
        [''venue and Solana programs see venue-account order activity'',
         ''unique size or timing can link private funding to venue action'']
        [''raw withdrawals, leverage escalation, staking, and custody transfers are blocked''],
      profile h Solana_swap_aggregator ''Solana swap aggregator'' [A_trade_on_platform, A_rebalance]
        Chain_bucketed Platform_minimal Operator_sealed_runtime Party_selected_quote_only
        [Shielded_batch_auction, Combined_vault_shielded_batch, Shielded_pool]
        [''selected route or settlement can be public on Solana'']
        [''direct user-wallet swaps cannot satisfy Private Mode''],
      profile h Hyperliquid_style_market ''Hyperliquid-style market'' [A_fund_platform, A_trade_on_platform, A_rebalance]
        Chain_bucketed Platform_order_visible Operator_sealed_runtime Party_order_visible
        [Shielded_batch_auction, Combined_vault_shielded_batch, Shielded_pool]
        [''venue sees order/account activity'', ''unique size or timing can link source funding to venue action'']
        [''raw withdrawals, leverage, staking, and vault transfers are blocked''],
      profile h Coinbase_style_provider ''Coinbase Advanced provider'' [A_fund_platform, A_trade_on_platform, A_rebalance]
        Chain_bucketed Platform_account_visible Operator_sealed_runtime Party_none
        [Shielded_batch_auction, Provider_omnibus_subaccount, Vault_omnibus_netting, Combined_vault_shielded_batch,
         Shielded_pool]
        [''Coinbase or the omnibus partner sees pooled account/order activity'',
         ''BYO API-key mode is account-visible to Coinbase'']
        [''withdrawals, transfers, margin, leverage, staking, and portfolio mutation are blocked by default''],
      profile h Rfq_solver_network ''RFQ solver network'' [A_trade_on_platform, A_rebalance] Chain_bucketed
        Platform_minimal Operator_sealed_runtime Party_ticket_only
        [Shielded_batch_auction, Combined_vault_shielded_batch, Shielded_pool]
        [''selected solver sees quote ticket''] [''single-solver or exact-size RFQ blocks Private Mode''],
      profile h Partner_tokenized_assets ''Partner-gated tokenized assets'' [A_trade_on_platform, A_rebalance]
        Chain_blocked Platform_account_visible Operator_sealed_runtime Party_none [] []
        [''partner eligibility and compliance commitments are required before execution'']]"

definition getPlatformPrivacyProfile :: "host \<Rightarrow> GholaPlatformClass \<Rightarrow> GholaPlatformPrivacyProfile result" where
  "getPlatformPrivacyProfile h platformClass =
     (case List.find (\<lambda>p. pp_class p = platformClass) (listPlatformPrivacyProfiles h) of
        None \<Rightarrow> throw (''unsupported platform class: '' @ platform_name platformClass)
      | Some p \<Rightarrow> return_ok p)"

definition selectRail :: "GholaPlatformPrivacyProfile \<Rightarrow> GholaRailKind option \<Rightarrow> GholaRailKind" where
  "selectRail p requested =
     (case requested of
        Some rail \<Rightarrow> rail
      | None \<Rightarrow> (case List.find (\<lambda>rail. rail \<in> set (pp_rails p)) ROUTING_ORDER of
          None \<Rightarrow> Direct_public_fallback | Some rail \<Rightarrow> rail))"

section \<open>Front-run protection\<close>

record FrontRunCertificate =
  fc_commitment :: string
  fc_auction_epoch :: string
  fc_auction_order :: string
  fc_clearing :: string
  fc_proof :: string
  fc_finality :: string
  fc_attestation :: string

text \<open>A trimmed string that is not empty.\<close>

definition clean :: "string option \<Rightarrow> string option" where
  "clean v = (case v of None \<Rightarrow> None | Some s \<Rightarrow> if js_trim s = [] then None else Some (js_trim s))"

definition normalizeAccessMode :: "string option \<Rightarrow> FrontRunAccessMode" where
  "normalizeAccessMode mode =
     (if mode = Some ''byo_api_key'' then Access_byo_api_key
      else if mode = Some ''user_stealth'' then Access_user_stealth
      else if mode = Some ''ghola_pooled'' then Access_ghola_pooled
      else if mode = Some ''partner_omnibus'' then Access_partner_omnibus
      else if mode = Some ''private_rfq'' then Access_private_rfq
      else if mode = Some ''sealed_batch_auction'' then Access_sealed_batch_auction
      else Access_unknown)"

lemma normalize_access_name [simp]: "normalizeAccessMode (Some (access_mode_name m)) = m"
  by (cases m) (simp_all add: normalizeAccessMode_def)

record certificate_input =
  ci_access :: "string option"
  ci_auction_epoch :: "string option"
  ci_auction_order :: "string option"
  ci_clearing :: "string option"
  ci_proof :: "string option"
  ci_finality :: "string option"
  ci_attestation :: "string option"

definition certificate_seed :: "string \<Rightarrow> string \<Rightarrow> string \<Rightarrow> string \<Rightarrow> string \<Rightarrow> string \<Rightarrow> json" where
  "certificate_seed epoch auction clearing proof finality attestation =
     JObj [(''access_mode'', JStr ''sealed_batch_auction''), (''encrypted_until_match'', JBool True),
       (''no_public_mempool'', JBool True), (''fair_ordering'', JStr ''uniform_batch_auction''),
       (''auction_epoch_commitment'', JStr epoch), (''auction_order_commitment'', JStr auction),
       (''clearing_commitment'', JStr clearing), (''proof_commitment'', JStr proof),
       (''finality_commitment'', JStr finality), (''runtime_attestation_commitment'', JStr attestation)]"

definition buildFrontRunCertificate :: "host \<Rightarrow> certificate_input \<Rightarrow> FrontRunCertificate option" where
  "buildFrontRunCertificate h inp =
     (if normalizeAccessMode (ci_access inp) \<noteq> Access_sealed_batch_auction then None
      else case (clean (ci_auction_epoch inp), clean (ci_auction_order inp), clean (ci_clearing inp),
          clean (ci_proof inp), clean (ci_finality inp), clean (ci_attestation inp)) of
        (Some epoch, Some auction, Some clearing, Some proof, Some finality, Some attestation) \<Rightarrow>
          Some \<lparr>fc_commitment = gholaCommitment h ''front_run_certificate''
              (certificate_seed epoch auction clearing proof finality attestation),
            fc_auction_epoch = epoch, fc_auction_order = auction, fc_clearing = clearing,
            fc_proof = proof, fc_finality = finality, fc_attestation = attestation\<rparr>
      | _ \<Rightarrow> None)"

record protection_input =
  fi_access :: "string option"
  fi_certificate :: "string option"
  fi_encrypted_until_match :: "bool option"
  fi_fair_ordering :: "bool option"
  fi_no_public_mempool :: "bool option"
  fi_uniform_auction :: "bool option"
  fi_firm_quote :: "bool option"
  fi_order_visible :: "bool option"
  fi_public_mempool :: "bool option"

definition deriveFrontRunProtection :: "protection_input \<Rightarrow> FrontRunProtection" where
  "deriveFrontRunProtection inp =
     (if fi_public_mempool inp = Some True
      then \<lparr>fr_kind = Fr_blocked, fr_label = ''Public route blocked'',
        fr_detail = ''Zero-front-run mode cannot use a public mempool or public pending-order route.'',
        fr_zero = False, fr_live_in_zero_mode = False, fr_reason_codes = [''public_mempool_visible''],
        fr_certificate = None\<rparr>
      else if has_text (fi_certificate inp) \<or>
          fi_encrypted_until_match inp = Some True \<and> fi_fair_ordering inp = Some True \<and>
          fi_no_public_mempool inp = Some True \<and>
          (fi_uniform_auction inp = Some True \<or> fi_firm_quote inp = Some True \<or>
           normalizeAccessMode (fi_access inp) = Access_sealed_batch_auction)
      then \<lparr>fr_kind = Fr_zero_certified, fr_label = ''Zero-front-run certified'',
        fr_detail = ''Intent stays encrypted until fair matching or a firm private fill.'',
        fr_zero = True, fr_live_in_zero_mode = True, fr_reason_codes = [], fr_certificate = fi_certificate inp\<rparr>
      else if normalizeAccessMode (fi_access inp) = Access_sealed_batch_auction
      then \<lparr>fr_kind = Fr_blocked, fr_label = ''Zero-front-run pending'',
        fr_detail = ''Waiting for sealed batch clearing and fair-ordering proof before this can be certified.'',
        fr_zero = False, fr_live_in_zero_mode = False, fr_reason_codes = [''front_run_certificate_missing''],
        fr_certificate = None\<rparr>
      else if normalizeAccessMode (fi_access inp) \<in> {Access_byo_api_key, Access_user_stealth, Access_ghola_pooled,
          Access_partner_omnibus, Access_private_rfq} \<and> fi_order_visible inp \<noteq> Some False
      then \<lparr>fr_kind = Fr_pre_submit_private, fr_label = ''Pre-submit private'',
        fr_detail = ''Ghola hides the intent before submit; the venue can still see the submitted order.'',
        fr_zero = False, fr_live_in_zero_mode = False,
        fr_reason_codes = [''venue_can_observe_submitted_order'', ''fair_ordering_not_certified''],
        fr_certificate = None\<rparr>
      else \<lparr>fr_kind = Fr_venue_visible, fr_label = ''Venue-visible order'',
        fr_detail = ''This route does not prove encrypted fair ordering before live submit.'',
        fr_zero = False, fr_live_in_zero_mode = False, fr_reason_codes = [''fair_ordering_not_certified''],
        fr_certificate = None\<rparr>)"

definition zeroFrontRunBlocker :: "FrontRunProtection \<Rightarrow> string option" where
  "zeroFrontRunBlocker p =
     (if fr_live_in_zero_mode p then None
      else if fr_kind p = Fr_blocked then Some (fr_detail p)
      else Some ''Zero-front-run mode requires encrypted fair ordering, a sealed batch auction, or a firm private fill.'')"

end
