(* ===== verification/AccountPreview.thy ===== *)
theory AccountPreview imports AccountProfiles
begin

text \<open>
  \<open>apps/web/src/lib/private-account.ts\<close>, part three: \<open>previewPrivateAccountAction\<close>, which decides what
  privacy an action may claim, and the gate before an execution. The preview pushes reasons on three
  lists as it goes through its inputs. Each section of it is a function here that gives the reasons it
  pushes; the sections are joined in the order of the code, so each list has the order of the source.
\<close>

section \<open>Reasons\<close>

record reasons =
  rs_blocked :: "string list"
  rs_wait :: "string list"
  rs_degraded :: "string list"

definition no_reasons :: reasons where
  "no_reasons = \<lparr>rs_blocked = [], rs_wait = [], rs_degraded = []\<rparr>"

definition join_reasons :: "reasons \<Rightarrow> reasons \<Rightarrow> reasons" where
  "join_reasons a b = \<lparr>rs_blocked = rs_blocked a @ rs_blocked b, rs_wait = rs_wait a @ rs_wait b,
     rs_degraded = rs_degraded a @ rs_degraded b\<rparr>"

definition reason_if :: "bool \<Rightarrow> string \<Rightarrow> string list" where
  "reason_if b reason = (if b then [reason] else [])"

text \<open>The loops over reason codes: a code that contains \<open>blocked\<close> blocks; of the others, a code that
  contains one of the words of \<open>degraded\<close> degrades; the rest waits.\<close>

definition is_blocked :: "string \<Rightarrow> bool" where
  "is_blocked reason = js_includes ''blocked'' reason"

definition is_any :: "string list \<Rightarrow> string \<Rightarrow> bool" where
  "is_any ws reason = list_ex (\<lambda>w. js_includes w reason) ws"

definition code_reasons :: "string list \<Rightarrow> string list \<Rightarrow> reasons" where
  "code_reasons degraded codes =
     \<lparr>rs_blocked = filter is_blocked codes,
      rs_wait = filter (\<lambda>r. \<not> is_blocked r \<and> \<not> is_any degraded r) codes,
      rs_degraded = filter (\<lambda>r. \<not> is_blocked r \<and> is_any degraded r) codes\<rparr>"

section \<open>The sections of the preview\<close>

definition summary_of :: "GholaPrivateAccountPreviewInput \<Rightarrow> GholaAnonymitySetSummary" where
  "summary_of inp =
     (let required = (if pi_platform inp = Rfq_solver_network then asp_consumer_min DEFAULT_ANONYMITY_SET_POLICY
            else if pi_actor inp = Some Institution then asp_institutional_min DEFAULT_ANONYMITY_SET_POLICY
            else asp_consumer_min DEFAULT_ANONYMITY_SET_POLICY);
          given = (\<lambda>f d. case Option.bind (pi_anonymity_set inp) f of None \<Rightarrow> d | Some x \<Rightarrow> x);
          flag = (\<lambda>f. case Option.bind (pi_anonymity_set inp) f of None \<Rightarrow> False | Some b \<Rightarrow> b)
      in \<lparr>as_required = given pas_required (num required), as_effective = given pas_effective (num 0),
          as_solver_count = Option.bind (pi_anonymity_set inp) pas_solver_count,
          as_amount_bucketed = flag pas_amount_bucketed, as_timing_window_met = flag pas_timing_window_met,
          as_uniqueness_bps = given pas_uniqueness_bps (num 10000),
          as_repeated_pattern_bps = given pas_repeated_pattern_bps (num 0)\<rparr>)"

definition base_reasons :: "GholaPrivateAccountPreviewInput \<Rightarrow> GholaPlatformPrivacyProfile \<Rightarrow> GholaRailKind \<Rightarrow> reasons" where
  "base_reasons inp p rail =
     \<lparr>rs_blocked = (if pp_class p = Partner_tokenized_assets then pp_blocked_conditions p else []) @
        reason_if (ac_class (pi_action inp) \<notin> set (pp_products p)) ''action class is not supported by this platform profile'',
      rs_wait = reason_if (pi_vault_ready inp = Some False \<and> rail \<noteq> Direct_public_fallback)
        ''private account vault is not ready'',
      rs_degraded = reason_if (rail \<notin> set MAX_FULL_ANONYMITY_RAILS) (account_rail_name rail @ '' cannot satisfy Private Mode'') @
        reason_if (pp_platform_sees p = Platform_order_visible) ''this platform will see the order'' @
        reason_if (pp_platform_sees p = Platform_account_visible) ''this provider will see account or custody activity'' @
        reason_if (pp_chain_sees p = Chain_visible) ''public chain will see settlement''\<rparr>"

definition set_reasons :: "GholaPlatformClass \<Rightarrow> GholaAnonymitySetSummary \<Rightarrow> reasons" where
  "set_reasons platform a =
     \<lparr>rs_blocked = reason_if (platform = Rfq_solver_network \<and> (case as_solver_count a of None \<Rightarrow> False
          | Some n \<Rightarrow> num_less n (num (asp_rfq_min_solvers DEFAULT_ANONYMITY_SET_POLICY))))
        ''rfq solver set is below minimum'',
      rs_wait = reason_if (platform = Rfq_solver_network \<and> as_solver_count a = None) ''rfq solver set evidence is not ready'' @
        reason_if (num_less (as_effective a) (as_required a)) ''effective anonymity set is below required minimum'' @
        reason_if (\<not> as_amount_bucketed a) ''amount is not in an approved anonymity bucket'' @
        reason_if (\<not> as_timing_window_met a) ''minimum delay window has not elapsed'',
      rs_degraded = []\<rparr>"

definition access_of :: "GholaRailKind \<Rightarrow> GholaConnectorPreviewContext option \<Rightarrow> FrontRunAccessMode" where
  "access_of rail connector =
     (if rail = Shielded_batch_auction then Access_sealed_batch_auction
      else if map_option cc_access_source connector = Some Source_user_provided_credentials then Access_byo_api_key
      else Access_unknown)"

definition certificate_of :: "host \<Rightarrow> GholaPrivateAccountPreviewInput \<Rightarrow> GholaRailKind \<Rightarrow> FrontRunCertificate option" where
  "certificate_of h inp rail = buildFrontRunCertificate h
     \<lparr>ci_access = Some (access_mode_name (access_of rail (pi_connector inp))),
      ci_auction_epoch = chain_text (pi_chain inp) ''auction_epoch_commitment'',
      ci_auction_order = chain_text (pi_chain inp) ''auction_order_commitment'',
      ci_clearing = chain_text (pi_chain inp) ''clearing_commitment'',
      ci_proof = chain_text (pi_chain inp) ''proof_commitment'',
      ci_finality = chain_text (pi_chain inp) ''finality_commitment'',
      ci_attestation = nullish (Option.bind (pi_runtime inp) rt_attestation)
        (chain_text (pi_chain inp) ''runtime_attestation_commitment'')\<rparr>"

definition protection_of :: "host \<Rightarrow> GholaPrivateAccountPreviewInput \<Rightarrow> GholaPlatformPrivacyProfile \<Rightarrow> GholaRailKind \<Rightarrow>
    FrontRunProtection" where
  "protection_of h inp p rail = deriveFrontRunProtection
     \<lparr>fi_access = Some (access_mode_name (access_of rail (pi_connector inp))),
      fi_certificate = map_option fc_commitment (certificate_of h inp rail),
      fi_encrypted_until_match = Some (rail = Shielded_batch_auction),
      fi_fair_ordering = Some (certificate_of h inp rail \<noteq> None),
      fi_no_public_mempool = Some (rail = Shielded_batch_auction \<or>
        map_option cc_wallet_visibility (pi_connector inp) = Some Wallet_not_exposed_to_public_chain_by_ghola),
      fi_uniform_auction = Some (rail = Shielded_batch_auction), fi_firm_quote = None,
      fi_order_visible = Some (pp_platform_sees p = Platform_order_visible \<or>
        map_option cc_order_visibility (pi_connector inp) = Some Order_order_visible),
      fi_public_mempool = None\<rparr>"

definition front_run_reasons :: "FrontRunMode \<Rightarrow> GholaRailKind \<Rightarrow> FrontRunProtection \<Rightarrow> reasons" where
  "front_run_reasons mode rail protection =
     (if mode \<noteq> Mode_zero_front_run then no_reasons
      else no_reasons
        \<lparr>rs_blocked := reason_if (rail \<noteq> Shielded_batch_auction) ''zero-front-run mode requires shielded batch auction rail'',
         rs_wait := reason_if (rail = Shielded_batch_auction \<and> \<not> fr_live_in_zero_mode protection)
           ''zero-front-run certificate is not ready''\<rparr>)"

definition evidence_reasons :: "GholaPrivateAccountPreviewInput \<Rightarrow> GholaRailKind \<Rightarrow> GholaPrivateModeEvidenceStatus \<Rightarrow> reasons" where
  "evidence_reasons inp rail status =
     (if \<not> (pi_require_evidence inp \<and> rail \<in> set MAX_FULL_ANONYMITY_RAILS) then no_reasons
      else no_reasons\<lparr>rs_wait :=
        reason_if (\<not> chain_has (pi_chain inp) ''batch_evidence_commitment'') ''Private Mode evidence commitment is not ready'' @
        reason_if (status = Ev_stale) ''verifier or coordinator evidence is stale'' @
        reason_if (status = Ev_unhealthy) ''verifier or coordinator health is not green'' @
        reason_if (status = Ev_missing) ''batch evidence has not been written''\<rparr>)"

definition above :: "jsnum option \<Rightarrow> int \<Rightarrow> bool" where
  "above v n = num_less (num n) (case v of None \<Rightarrow> num 0 | Some x \<Rightarrow> x)"

definition pattern_reasons :: "GholaAnonymitySetSummary \<Rightarrow> GholaPrivacyBudget option \<Rightarrow> reasons" where
  "pattern_reasons a budget = no_reasons\<lparr>rs_degraded :=
     reason_if (num_less (num 2500) (as_uniqueness_bps a)) ''action is too unique for a Private Mode claim'' @
     reason_if (above (Option.bind budget pb_repeated_withdrawal_count) 0) ''repeated withdrawal pattern reduces anonymity'' @
     reason_if (above (Option.bind budget pb_platform_concentration_bps) 7500)
       ''platform concentration reduces cross-platform anonymity''\<rparr>"

text \<open>With the user's own credentials at the venue the sealed runtime and the schedule are not looked at.\<close>

definition sealed_runtime_required :: "GholaConnectorPreviewContext option \<Rightarrow> bool" where
  "sealed_runtime_required connector \<longleftrightarrow>
     (case connector of None \<Rightarrow> True | Some c \<Rightarrow> cc_access_source c \<noteq> Source_user_provided_credentials)"

definition runtime_reasons :: "bool \<Rightarrow> GholaSealedRuntimeContext option \<Rightarrow> reasons" where
  "runtime_reasons required runtime =
     (case runtime of
        None \<Rightarrow> no_reasons
      | Some rt \<Rightarrow>
          if \<not> required then no_reasons
          else join_reasons (no_reasons\<lparr>rs_wait :=
              reason_if (rt_status rt \<noteq> Runtime_ready) (''sealed runtime is '' @ runtime_status_name (rt_status rt)) @
              reason_if (\<not> has_text (rt_attestation rt)) ''sealed runtime attestation commitment is not ready''\<rparr>)
            (code_reasons [] (rt_reason_codes rt)))"

definition schedule_reasons :: "bool \<Rightarrow> GholaPrivacyScheduleDecision option \<Rightarrow> reasons" where
  "schedule_reasons required schedule =
     (case schedule of
        None \<Rightarrow> no_reasons
      | Some s \<Rightarrow>
          if \<not> required then no_reasons
          else join_reasons
            \<lparr>rs_blocked = reason_if (sd_status s = Schedule_blocked) ''privacy scheduler blocked execution'',
             rs_wait = reason_if (sd_status s = Schedule_waiting) ''privacy scheduler is waiting for the private window'',
             rs_degraded = reason_if (sd_status s = Schedule_degraded) ''fast execution is degraded''\<rparr>
            (code_reasons [''degraded'', ''fast''] (sd_reason_codes s)))"

definition rotation_reasons :: "GholaPlatformFundingRotation option \<Rightarrow> reasons" where
  "rotation_reasons rotation =
     (case rotation of
        None \<Rightarrow> no_reasons
      | Some r \<Rightarrow> join_reasons
          \<lparr>rs_blocked = reason_if (ro_status r = Rotation_blocked) ''platform funding account rotation is blocked'',
           rs_wait = reason_if (ro_status r = Rotation_rotate_required) ''platform funding account rotation is required'',
           rs_degraded = []\<rparr>
          (code_reasons [] (ro_reason_codes r)))"

definition simulation_reasons :: "GholaAdversarialLinkabilitySimulation option \<Rightarrow> reasons" where
  "simulation_reasons simulation =
     (case simulation of
        None \<Rightarrow> no_reasons
      | Some s \<Rightarrow> join_reasons
          \<lparr>rs_blocked = reason_if (ls_decision s = Sim_blocked) ''adversarial linkability simulator blocked execution'',
           rs_wait = reason_if (ls_decision s = Sim_rotate) ''adversarial simulator requires platform account rotation'' @
             reason_if (ls_decision s = Sim_wait_for_batch) ''adversarial simulator requires more batching'',
           rs_degraded = reason_if (ls_decision s = Sim_degraded_acceptance_required)
             ''adversarial simulator requires degraded acceptance''\<rparr>
          (code_reasons [''degraded'', ''visibility''] (ls_reason_codes s)))"

text \<open>Of the codes of a connector, those with none of the words are dropped.\<close>

definition connector_code_reasons :: "string list \<Rightarrow> reasons" where
  "connector_code_reasons codes =
     (let waits = is_any [''missing'', ''stale''] in
      \<lparr>rs_blocked = filter is_blocked codes,
       rs_wait = filter (\<lambda>r. \<not> is_blocked r \<and> waits r) codes,
       rs_degraded = filter (\<lambda>r. \<not> is_blocked r \<and> \<not> waits r \<and> is_any [''degraded'', ''visible''] r) codes\<rparr>)"

definition connector_reasons :: "GholaConnectorPreviewContext option \<Rightarrow> reasons" where
  "connector_reasons connector =
     (case connector of
        None \<Rightarrow> no_reasons
      | Some c \<Rightarrow> join_reasons
          \<lparr>rs_blocked = reason_if (cc_status c \<noteq> Connector_ready) (''connector is '' @ connector_status_name (cc_status c)) @
             reason_if (cc_linkability c = Link_blocked) ''cross-platform linkability score blocks execution'' @
             reason_if (cc_linkability c = Link_rotate_or_block) ''platform funding account rotation is required'',
           rs_wait = reason_if (cc_linkability c = Link_wait_for_batch) ''connector linkability score requires batching'',
           rs_degraded = reason_if (cc_linkability c = Link_degraded_acceptance_required)
               ''cross-platform linkability score requires degraded acceptance'' @
             reason_if (cc_main_wallet_exposed c) ''your main wallet would be exposed''\<rparr>
          (connector_code_reasons (cc_reason_codes c)))"

definition preview_mode :: "GholaPrivateAccountPreviewInput \<Rightarrow> FrontRunMode" where
  "preview_mode inp = (case pi_mode inp of None \<Rightarrow> Mode_pre_submit_private | Some m \<Rightarrow> m)"

definition preview_evidence :: "GholaPrivateAccountPreviewInput \<Rightarrow> GholaPrivateModeEvidenceStatus" where
  "preview_evidence inp = (case pi_evidence_status inp of None \<Rightarrow> Ev_none | Some s \<Rightarrow> s)"

text \<open>All sections, and the last block: in zero-front-run mode a degraded reason blocks.\<close>

definition preview_reasons :: "host \<Rightarrow> GholaPrivateAccountPreviewInput \<Rightarrow> GholaPlatformPrivacyProfile \<Rightarrow> GholaRailKind \<Rightarrow> reasons" where
  "preview_reasons h inp p rail =
     (let a = summary_of inp; mode = preview_mode inp; required = sealed_runtime_required (pi_connector inp);
          r = foldl join_reasons no_reasons
            [base_reasons inp p rail, set_reasons (pi_platform inp) a,
             front_run_reasons mode rail (protection_of h inp p rail),
             evidence_reasons inp rail (preview_evidence inp), pattern_reasons a (pi_budget inp),
             runtime_reasons required (pi_runtime inp), schedule_reasons required (pi_schedule inp),
             rotation_reasons (pi_rotation inp), simulation_reasons (pi_simulation inp),
             connector_reasons (pi_connector inp)]
      in r\<lparr>rs_blocked := rs_blocked r @ reason_if (mode = Mode_zero_front_run \<and> rs_degraded r \<noteq> [])
            ''zero-front-run mode does not allow degraded visibility fallback''\<rparr>)"

definition status_of_reasons :: "reasons \<Rightarrow> GholaClaimStatus" where
  "status_of_reasons r =
     (if rs_blocked r \<noteq> [] then Blocked_leaky_path
      else if rs_wait r \<noteq> [] then Wait_for_anonymity
      else if rs_degraded r \<noteq> [] then Degraded_user_accepted_required
      else Private_mode_available)"

section \<open>Claim levels\<close>

definition claimLevelsFor :: "host \<Rightarrow> GholaRailKind \<Rightarrow> bool \<Rightarrow> GholaAnonymitySetSummary \<Rightarrow>
    GholaPrivateModeEvidenceChain option \<Rightarrow> GholaSealedRuntimeContext option \<Rightarrow> GholaClaimStatus \<Rightarrow> claim_levels" where
  "claimLevelsFor h rail fullRail a chain runtime status =
     (let attested = (case runtime of None \<Rightarrow> None
            | Some rt \<Rightarrow> if rt_status rt = Runtime_ready \<and> has_text (rt_attestation rt) then rt_attestation rt else None);
          envelope = map_option rt_envelope runtime;
          evidence =
            (if rail = Direct_public_fallback then []
             else [(L_source_wallet_hidden, Some (case nullish (chain_text chain ''funding_import_commitment'') envelope of
               Some t \<Rightarrow> t
             | None \<Rightarrow> gholaCommitment h ''claim_source_wallet_hidden'' (JStr (account_rail_name rail))))]) @
            (if as_amount_bucketed a
             then [(L_amount_bucketed, Some (gholaCommitment h ''claim_amount_bucketed'' (anonymity_set_json a)))] else []) @
            (if chain_has chain ''batch_evidence_commitment''
             then [(L_batched_anonymity_set, chain_text chain ''batch_evidence_commitment'')] else []) @
            (if attested = None then [] else [(L_operator_sealed, attested)]) @
            (if isPrivateModeAvailableStatus status \<and> fullRail
             then [(L_selectively_disclosable, nullish envelope (chain_text chain ''batch_evidence_commitment''))] else []);
          achieved = map fst evidence
      in \<lparr>cl_achieved = js_uniq achieved,
          cl_missing = filter (\<lambda>l. l \<notin> set achieved) PRIVATE_MODE_REQUIRED_CLAIM_LEVELS,
          cl_evidence = evidence\<rparr>)"

definition connectorFullPrivateReady :: "GholaConnectorPreviewContext option \<Rightarrow> bool" where
  "connectorFullPrivateReady connector \<longleftrightarrow>
     (case connector of None \<Rightarrow> False
      | Some c \<Rightarrow> cc_status c = Connector_ready \<and> cc_linkability c = Link_proceed \<and> \<not> cc_main_wallet_exposed c \<and>
          cc_privacy_claim c = Claim_private_mode_available \<and> cc_manifest c \<noteq> [] \<and> cc_readiness c \<noteq> [] \<and>
          cc_compiler c \<noteq> [] \<and> cc_linkability_score c \<noteq> [])"

definition sealedRuntimeFullPrivateReady :: "GholaSealedRuntimeContext option \<Rightarrow> bool" where
  "sealedRuntimeFullPrivateReady runtime \<longleftrightarrow>
     (case runtime of None \<Rightarrow> False
      | Some rt \<Rightarrow> rt_status rt = Runtime_ready \<and> rt_envelope rt \<noteq> [] \<and> has_text (rt_attestation rt) \<and> rt_health rt \<noteq> [])"

definition canClaimFullRfqBatchAnonymity :: "GholaPrivateAccountPreviewInput \<Rightarrow> GholaRailKind \<Rightarrow>
    GholaPrivateModeEvidenceStatus \<Rightarrow> claim_levels \<Rightarrow> bool" where
  "canClaimFullRfqBatchAnonymity inp rail status levels \<longleftrightarrow>
     pi_platform inp = Rfq_solver_network \<and> rail = Shielded_batch_auction \<and> status = Ev_ready \<and>
     cl_missing levels = [] \<and> chain_has (pi_chain inp) ''batch_evidence_commitment'' \<and>
     connectorFullPrivateReady (pi_connector inp) \<and> sealedRuntimeFullPrivateReady (pi_runtime inp) \<and>
     (case pi_schedule inp of None \<Rightarrow> False | Some s \<Rightarrow> sd_status s = Schedule_ready \<and> sd_commitment s \<noteq> []) \<and>
     (case pi_rotation inp of None \<Rightarrow> False | Some r \<Rightarrow> ro_status r = Rotation_ready \<and> ro_commitment r \<noteq> []) \<and>
     (case pi_simulation inp of None \<Rightarrow> False | Some s \<Rightarrow> ls_decision s = Sim_proceed \<and> ls_commitment s \<noteq> [])"

section \<open>What others see\<close>

definition platform_visible :: "GholaPlatformPrivacyProfile \<Rightarrow> bool" where
  "platform_visible p \<longleftrightarrow> pp_platform_sees p = Platform_order_visible \<or> pp_platform_sees p = Platform_account_visible"

definition anonymityLevelFor :: "GholaClaimStatus \<Rightarrow> GholaRailKind \<Rightarrow> GholaPlatformPrivacyProfile \<Rightarrow> GholaAnonymityLevel" where
  "anonymityLevelFor status rail p =
     (if status = Blocked_leaky_path then P0_public
      else if status = Full_anonymity_available then P5_selectively_disclosable
      else if platform_visible p then P2_bucketed
      else if isPrivateModeAvailableStatus status then P3_anonymity_set
      else if rail = Provider_omnibus_subaccount then P1_source_hidden
      else P2_bucketed)"

definition threatModelFor :: "GholaPlatformPrivacyProfile \<Rightarrow> GholaThreatModel" where
  "threatModelFor p =
     \<lparr>tm_private_against = [Public_chain_observer, Wallet_provider],
      tm_partially_private_against = [Rpc_provider, Relayer, Ghola_operator, Timing_observer, Colluding_platforms],
      tm_not_private_against = (if platform_visible p then [External_platform] else []) @
        (if pp_counterparty_sees p \<noteq> Party_none then [Solver_or_counterparty] else [])\<rparr>"

definition leakage_channels_of :: "GholaPlatformPrivacyProfile \<Rightarrow> GholaRailKind \<Rightarrow> GholaClaimStatus \<Rightarrow> leakage_channels" where
  "leakage_channels_of p rail status =
     (let publicVisible = (rail = Direct_public_fallback \<or> pp_chain_sees p = Chain_visible);
          counterpartyVisible = (pp_counterparty_sees p \<noteq> Party_none)
      in \<lparr>ch_source_wallet = (if rail = Direct_public_fallback then Visible_on_public_chain else Hidden_by_private_account),
          ch_destination_wallet = (if publicVisible then Visible_on_public_chain else Hidden_by_shielded_pool),
          ch_platform_account = (if platform_visible p then Visible_to_platform else Hidden_by_private_account),
          ch_asset = (if publicVisible then Visible_on_public_chain else Minimized_by_bucket),
          ch_amount = (if publicVisible then Visible_on_public_chain else Minimized_by_bucket),
          ch_timing = Minimized_by_bucket,
          ch_side = (if platform_visible p then Visible_to_platform else Hidden_by_private_account),
          ch_quote_path = (if counterpartyVisible then Visible_to_counterparty else Hidden_by_private_account),
          ch_counterparty_set = (if counterpartyVisible then Visible_to_counterparty else Hidden_by_private_account),
          ch_solver_set = (if pp_class p = Rfq_solver_network then Visible_to_counterparty else Hidden_by_private_account),
          ch_settlement = (if publicVisible then Visible_on_public_chain else Hidden_by_vault_netting),
          ch_cross_run = (if isPrivateModeAvailableStatus status then Hidden_by_vault_netting else Degraded_user_accepted)\<rparr>)"

definition buildLeakageMap :: "host \<Rightarrow> string \<Rightarrow> GholaPlatformPrivacyProfile \<Rightarrow> GholaRailKind \<Rightarrow> GholaClaimStatus \<Rightarrow> GholaLeakageMap" where
  "buildLeakageMap h action p rail status =
     \<lparr>lm_commitment = gholaCommitment h ''leakage'' (JObj [(''action'', JStr action),
        (''channels'', channels_json (leakage_channels_of p rail status))]),
      lm_channels = leakage_channels_of p rail status\<rparr>"

definition publicChainVisibility :: "GholaPlatformPrivacyProfile \<Rightarrow> GholaRailKind \<Rightarrow> GholaClaimStatus \<Rightarrow> chain_visibility" where
  "publicChainVisibility p rail status =
     (if status = Blocked_leaky_path then Chain_blocked
      else if rail = Direct_public_fallback then Chain_visible
      else pp_chain_sees p)"

definition hiddenFrom :: "GholaPlatformPrivacyProfile \<Rightarrow> GholaRailKind \<Rightarrow> string list" where
  "hiddenFrom p rail = [''main wallet graph''] @
     reason_if (rail \<noteq> Direct_public_fallback) ''public chain observers'' @
     reason_if (pp_platform_sees p = Platform_none \<or> pp_platform_sees p = Platform_minimal) ''external platform account graph''"

definition visibleTo :: "GholaPlatformPrivacyProfile \<Rightarrow> GholaRailKind \<Rightarrow> string list" where
  "visibleTo p rail =
     reason_if (rail = Direct_public_fallback \<or> pp_chain_sees p = Chain_visible) ''public chain'' @
     reason_if (pp_platform_sees p = Platform_order_visible) ''executing venue'' @
     reason_if (pp_platform_sees p = Platform_account_visible) ''custody/provider platform'' @
     reason_if (pp_counterparty_sees p \<noteq> Party_none) ''counterparty or solver''"

section \<open>The preview\<close>

definition PRIVATE_ACCOUNT_PREVIEW_TTL_MS :: int where
  "PRIVATE_ACCOUNT_PREVIEW_TTL_MS = 10 * 60 * 1000"

definition preview_status :: "GholaPrivateAccountPreviewInput \<Rightarrow> GholaRailKind \<Rightarrow> GholaClaimStatus \<Rightarrow> claim_levels \<Rightarrow> GholaClaimStatus" where
  "preview_status inp rail status levels =
     (let status1 = (if isPrivateModeAvailableStatus status \<and>
            list_ex (\<lambda>l. l \<notin> set (cl_achieved levels)) PRIVATE_MODE_REQUIRED_CLAIM_LEVELS
            then Wait_for_anonymity else status)
      in if status1 = Private_mode_available \<and> canClaimFullRfqBatchAnonymity inp rail (preview_evidence inp) levels
         then Full_anonymity_available else status1)"

definition account_of :: "host \<Rightarrow> GholaPrivateAccountPreviewInput \<Rightarrow> string" where
  "account_of h inp = (case pi_account_commitment inp of
     Some c \<Rightarrow> if c = [] then gholaCommitment h ''acct'' (JStr ''preview-account'') else c
   | None \<Rightarrow> gholaCommitment h ''acct'' (JStr ''preview-account''))"

definition preview_seed :: "host \<Rightarrow> GholaPrivateAccountPreviewInput \<Rightarrow> GholaPlatformPrivacyProfile \<Rightarrow> GholaRailKind \<Rightarrow>
    GholaClaimStatus \<Rightarrow> claim_levels \<Rightarrow> json" where
  "preview_seed h inp p rail status levels =
     JObj [(''accountCommitment'', JStr (account_of h inp)), (''action'', ac_json (pi_action inp)),
       (''platform'', JStr (platform_name (pi_platform inp))), (''selectedRail'', JStr (account_rail_name rail)),
       (''claimStatus'', JStr (claim_status_name status)),
       (''anonymityLevel'', JStr (level_name (anonymityLevelFor status rail p))),
       (''anonymitySet'', anonymity_set_json (summary_of inp)),
       (''leakageMap'', leakage_map_json (buildLeakageMap h (ac_commitment (pi_action inp)) p rail status)),
       (''evidenceStatus'', JStr (evidence_status_name (preview_evidence inp))),
       (''evidenceChain'', null_json JObj (pi_chain inp)), (''connectorContext'', null_json connector_json (pi_connector inp)),
       (''sealedRuntimeContext'', null_json runtime_json (pi_runtime inp)),
       (''scheduleDecision'', null_json schedule_json (pi_schedule inp)),
       (''rotation'', null_json rotation_json (pi_rotation inp)),
       (''linkabilitySimulation'', null_json simulation_json (pi_simulation inp)),
       (''claimLevels'', claim_levels_json levels), (''frontRunMode'', JStr (front_run_mode_name (preview_mode inp))),
       (''frontRunProtection'', protection_json (protection_of h inp p rail)),
       (''frontRunCertificateCommitment'', null_text (map_option fc_commitment (certificate_of h inp rail)))]"

definition preview_with :: "host \<Rightarrow> GholaPrivateAccountPreviewInput \<Rightarrow> time \<Rightarrow> GholaPlatformPrivacyProfile \<Rightarrow> GholaPrivacyPreview" where
  "preview_with h inp now p =
     (let rail = selectRail p (pi_requested_rail inp); r = preview_reasons h inp p rail;
          levels = claimLevelsFor h rail (rail \<in> set MAX_FULL_ANONYMITY_RAILS) (summary_of inp) (pi_chain inp)
            (pi_runtime inp) (status_of_reasons r);
          status = preview_status inp rail (status_of_reasons r) levels
      in \<lparr>pv_commitment = gholaCommitment h ''preview'' (preview_seed h inp p rail status levels),
          pv_account = account_of h inp, pv_action = ac_commitment (pi_action inp), pv_platform = pi_platform inp,
          pv_rail = rail, pv_status = status, pv_level = anonymityLevelFor status rail p,
          pv_threat_model = threatModelFor p, pv_anonymity_set = summary_of inp,
          pv_leakage_map = buildLeakageMap h (ac_commitment (pi_action inp)) p rail status,
          pv_chain_sees = publicChainVisibility p rail status, pv_platform_sees = pp_platform_sees p,
          pv_operator_sees = pp_operator_sees p, pv_counterparty_sees = pp_counterparty_sees p,
          pv_hidden_from = hiddenFrom p rail, pv_visible_to = visibleTo p rail,
          pv_degraded_reasons = rs_degraded r, pv_blocked_reasons = rs_blocked r, pv_wait_reasons = rs_wait r,
          pv_evidence_status = preview_evidence inp, pv_chain = pi_chain inp, pv_connector = pi_connector inp,
          pv_runtime = pi_runtime inp, pv_schedule = pi_schedule inp, pv_rotation = pi_rotation inp,
          pv_simulation = pi_simulation inp, pv_mode = preview_mode inp, pv_protection = protection_of h inp p rail,
          pv_certificate = map_option fc_commitment (certificate_of h inp rail),
          pv_levels_achieved = cl_achieved levels, pv_levels_missing = cl_missing levels,
          pv_level_evidence = cl_evidence levels, pv_expires_at = now + PRIVATE_ACCOUNT_PREVIEW_TTL_MS\<rparr>)"

definition previewPrivateAccountAction :: "host \<Rightarrow> GholaPrivateAccountPreviewInput \<Rightarrow> time \<Rightarrow> GholaPrivacyPreview result" where
  "previewPrivateAccountAction h inp now =
     and_then (getPlatformPrivacyProfile h (pi_platform inp)) (\<lambda>p. return_ok (preview_with h inp now p))"

section \<open>The gate before an execution\<close>

definition createPrivateAccountAction :: "host \<Rightarrow> GholaPrivateAccountActionClass \<Rightarrow> string option \<Rightarrow> string option \<Rightarrow>
    json \<Rightarrow> time \<Rightarrow> GholaPrivateAccountAction" where
  "createPrivateAccountAction h class bucket policy seed now =
     (let product = (case bucket of Some b \<Rightarrow> if b = [] then ''general'' else b | None \<Rightarrow> ''general'');
          intent = gholaCommitment h ''intent'' (JObj [(''action_class'', JStr (action_class_name class)),
            (''product_bucket'', JStr product), (''seed'', or_json seed (JStr ''commitment-only'')), (''created_at'', JStr (to_iso now))]);
          action = gholaCommitment h ''act'' (JObj [(''intentCommitment'', JStr intent), (''createdAt'', JStr (to_iso now))]);
          pol = (case policy of Some p \<Rightarrow> if p = [] then gholaCommitment h ''policy'' (JStr ''private-mode-default'') else p
            | None \<Rightarrow> gholaCommitment h ''policy'' (JStr ''private-mode-default''))
      in \<lparr>ac_commitment = action, ac_class = class, ac_bucket = product, ac_policy = pol, ac_intent = intent,
          ac_json = JObj [(''version'', JNum (num 1)), (''action_commitment'', JStr action),
            (''action_class'', JStr (action_class_name class)), (''product_bucket'', JStr product),
            (''policy_commitment'', JStr pol), (''intent_commitment'', JStr intent), (''created_at'', JStr (to_iso now))]\<rparr>)"

datatype gate_error =
    Intent_expired | Preview_expired | Approval_expired | Preview_mismatch | Approval_mismatch
  | Gate_blocked_leaky_path | Gate_wait_for_anonymity | Degraded_acceptance_required
  | Zero_front_run_certificate_required

definition isPrivateAccountRecordExpired :: "time \<Rightarrow> time \<Rightarrow> bool" where
  "isPrivateAccountRecordExpired expires_at now \<longleftrightarrow> expires_at \<le> now"

definition assertPreviewMatchesIntent :: "GholaPrivacyPreview \<Rightarrow> GholaPrivateAccountIntentBinding \<Rightarrow> gate_error option" where
  "assertPreviewMatchesIntent p i =
     (if pv_account p = ib_account i \<and> pv_action p = ib_action i then None else Some Preview_mismatch)"

definition assertApprovalMatchesPreview :: "GholaPrivateAccountApprovalBinding \<Rightarrow> GholaPrivacyPreview \<Rightarrow> string \<Rightarrow> gate_error option" where
  "assertApprovalMatchesPreview a p intent_id =
     (if ab_preview a = pv_commitment p \<and> ab_intent_id a = intent_id then None else Some Approval_mismatch)"

definition canApprovePreview :: "GholaPrivacyPreview \<Rightarrow> bool \<Rightarrow> gate_error option" where
  "canApprovePreview p degradedAccepted =
     (if pv_status p = Blocked_leaky_path then Some Gate_blocked_leaky_path
      else if pv_status p = Wait_for_anonymity then Some Gate_wait_for_anonymity
      else if pv_status p = Degraded_user_accepted_required \<and> \<not> degradedAccepted then Some Degraded_acceptance_required
      else if pv_mode p = Mode_zero_front_run \<and> \<not> fr_live_in_zero_mode (pv_protection p)
      then Some Zero_front_run_certificate_required
      else None)"

definition canExecutePrivateAccountAction :: "GholaPrivateAccountIntentBinding \<Rightarrow> GholaPrivacyPreview \<Rightarrow>
    GholaPrivateAccountApprovalBinding \<Rightarrow> time \<Rightarrow> gate_error option" where
  "canExecutePrivateAccountAction i p a now =
     (if isPrivateAccountRecordExpired (ib_expires_at i) now then Some Intent_expired
      else if pv_expires_at p \<le> now then Some Preview_expired
      else if isPrivateAccountRecordExpired (ab_expires_at a) now then Some Approval_expired
      else case assertPreviewMatchesIntent p i of
        Some e \<Rightarrow> Some e
      | None \<Rightarrow> (case assertApprovalMatchesPreview a p (ib_id i) of
          Some e \<Rightarrow> Some e
        | None \<Rightarrow> canApprovePreview p (ab_degraded_accepted a)))"

end
