(* ===== verification/AccountReceipt.thy ===== *)
theory AccountReceipt imports AccountPreview
begin

text \<open>
  \<open>apps/web/src/lib/private-account.ts\<close>, part four: accounts, encrypted bundles, approvals and
  receipts. A receipt is the association list of the properties of its object, which is what is signed.
\<close>

record account_host =
  ah_host :: host
  ah_hmac :: "string \<Rightarrow> string \<Rightarrow> string"

section \<open>Accounts and bundles\<close>

record GholaPrivateExecutionAccount =
  ga_account :: string
  ga_session :: string
  ga_wallet :: string
  ga_vault_root :: string
  ga_policy :: string
  ga_platform_root :: string
  ga_vault_ready :: bool

record account_seeds =
  se_session :: "string option"
  se_wallet :: "string option"
  se_vault :: "string option"
  se_policy :: "string option"
  se_platform :: "string option"
  se_vault_ready :: "bool option"

text \<open>\<open>x || d\<close> on strings.\<close>

definition text_or :: "string option \<Rightarrow> string \<Rightarrow> string" where
  "text_or t d = (case t of None \<Rightarrow> d | Some s \<Rightarrow> if s = [] then d else s)"

definition createPrivateExecutionAccount :: "host \<Rightarrow> account_seeds \<Rightarrow> GholaPrivateExecutionAccount" where
  "createPrivateExecutionAccount h inp =
     (let session = gholaCommitment h ''session'' (JStr (text_or (se_session inp) ''anonymous-session''));
          wallet = gholaCommitment h ''wallet'' (JStr (text_or (se_wallet inp) ''turnkey-wallet''));
          vault = gholaCommitment h ''vault'' (JStr (text_or (se_vault inp) ''private-vault''));
          policy = gholaCommitment h ''policy'' (JStr (text_or (se_policy inp) ''private-mode-default''));
          platform = gholaCommitment h ''platforms'' (JStr (text_or (se_platform inp) ''no-linked-platforms''))
      in \<lparr>ga_account = gholaCommitment h ''acct'' (JObj [(''session'', JStr session), (''wallet'', JStr wallet),
            (''vault'', JStr vault), (''policy'', JStr policy), (''platform'', JStr platform)]),
          ga_session = session, ga_wallet = wallet, ga_vault_root = vault, ga_policy = policy,
          ga_platform_root = platform,
          ga_vault_ready = (case se_vault_ready inp of None \<Rightarrow> False | Some b \<Rightarrow> b)\<rparr>)"

datatype GholaEncryptedBundleAlg = Alg_sealed_provider | Alg_hpke

record GholaEncryptedPrivateBundle =
  eb_alg :: GholaEncryptedBundleAlg
  eb_ciphertext :: string
  eb_ciphertext_commitment :: string
  eb_recipient :: string
  eb_recipient_commitment :: string
  eb_aad :: string
  eb_aad_commitment :: string
  eb_encapsulated_key_commitment :: "string option"

text \<open>The input of a bundle, whose \<open>alg\<close> may be any text.\<close>

record bundle_input =
  bi_alg :: "string option"
  bi_ciphertext :: string
  bi_recipient :: string
  bi_aad :: string
  bi_encapsulated_key :: "string option"

definition alg_of_text :: "string \<Rightarrow> GholaEncryptedBundleAlg option" where
  "alg_of_text s = (if s = ''sealed-provider-v1'' then Some Alg_sealed_provider
     else if s = ''hpke-x25519-aes256gcm'' then Some Alg_hpke else None)"

definition createEncryptedPrivateBundle :: "host \<Rightarrow> bundle_input \<Rightarrow> GholaEncryptedPrivateBundle result" where
  "createEncryptedPrivateBundle h inp =
     (case alg_of_text (case bi_alg inp of None \<Rightarrow> ''sealed-provider-v1'' | Some a \<Rightarrow> a) of
        None \<Rightarrow> throw ''encrypted_bundle_invalid''
      | Some alg \<Rightarrow>
          if js_trim (bi_ciphertext inp) = [] \<or> js_trim (bi_recipient inp) = [] \<or> js_trim (bi_aad inp) = []
          then throw ''encrypted_bundle_invalid''
          else return_ok \<lparr>eb_alg = alg, eb_ciphertext = bi_ciphertext inp,
            eb_ciphertext_commitment = gholaCommitment h ''encrypted_bundle_ciphertext'' (JStr (bi_ciphertext inp)),
            eb_recipient = bi_recipient inp,
            eb_recipient_commitment = gholaCommitment h ''sealed_recipient'' (JStr (bi_recipient inp)),
            eb_aad = bi_aad inp,
            eb_aad_commitment = gholaCommitment h ''encrypted_bundle_aad'' (JStr (bi_aad inp)),
            eb_encapsulated_key_commitment = (if has_text (bi_encapsulated_key inp)
              then map_option (\<lambda>k. gholaCommitment h ''encrypted_bundle_encapsulated_key'' (JStr k)) (bi_encapsulated_key inp)
              else None)\<rparr>)"

section \<open>Approvals\<close>

record private_approval =
  pa_commitment :: string
  pa_preview :: string
  pa_degraded_accepted :: bool
  pa_approved_at :: time

text \<open>The commitment hashes the input object. A \<open>Date\<close> has no properties of its own, so the time an
  approval is given does not enter it.\<close>

definition approvePrivateAccountAction :: "host \<Rightarrow> string \<Rightarrow> bool option \<Rightarrow> time option \<Rightarrow> time \<Rightarrow> private_approval" where
  "approvePrivateAccountAction h preview degraded now clock =
     \<lparr>pa_commitment = gholaCommitment h ''approval'' (JObj ([(''preview_commitment'', JStr preview)] @
        (case degraded of None \<Rightarrow> [] | Some b \<Rightarrow> [(''degraded_accepted'', JBool b)]) @
        (case now of None \<Rightarrow> [] | Some t \<Rightarrow> [(''now'', JObj [])]))),
      pa_preview = preview, pa_degraded_accepted = (degraded = Some True),
      pa_approved_at = (case now of None \<Rightarrow> clock | Some t \<Rightarrow> t)\<rparr>"

section \<open>Receipts\<close>

type_synonym GholaPrivateAccountReceipt = "(string \<times> json) list"

definition set_all :: "(string, json) jsmap \<Rightarrow> (string \<times> json) list \<Rightarrow> (string, json) jsmap" where
  "set_all m kvs = foldl (\<lambda>acc (k, v). js_set acc k v) m kvs"

text \<open>The chain given for the execution, with the commitments of the preview: the connector's, the
  runtime's and the schedule's take precedence over those of the chain.\<close>

definition connector_text :: "GholaPrivacyPreview \<Rightarrow> (GholaConnectorPreviewContext \<Rightarrow> string) \<Rightarrow> string option" where
  "connector_text p f = map_option f (pv_connector p)"

definition runtime_attestation :: "GholaPrivacyPreview \<Rightarrow> string option" where
  "runtime_attestation p = Option.bind (pv_runtime p) rt_attestation"

definition receipt_chain :: "GholaPrivacyPreview \<Rightarrow> string \<Rightarrow> string \<Rightarrow> GholaPrivateModeEvidenceChain \<Rightarrow>
    GholaPrivateModeEvidenceChain" where
  "receipt_chain p approval execution chain =
     (let own = chain_text (Some chain) in set_all chain
      [(''preview_commitment'', JStr (pv_commitment p)), (''approval_commitment'', JStr approval),
       (''execution_commitment'', JStr execution),
       (''manifest_commitment'', null_text (nullish (connector_text p cc_manifest) (own ''manifest_commitment''))),
       (''connector_readiness_commitment'',
         null_text (nullish (connector_text p cc_readiness) (own ''connector_readiness_commitment''))),
       (''compiler_commitment'', null_text (nullish (connector_text p cc_compiler) (own ''compiler_commitment''))),
       (''linkability_score_commitment'',
         null_text (nullish (connector_text p cc_linkability_score) (own ''linkability_score_commitment''))),
       (''platform_fee_policy_commitment'', null_text (own ''platform_fee_policy_commitment'')),
       (''runtime_envelope_commitment'',
         null_text (nullish (map_option rt_envelope (pv_runtime p)) (own ''runtime_envelope_commitment''))),
       (''runtime_attestation_commitment'',
         null_text (nullish (runtime_attestation p) (own ''runtime_attestation_commitment''))),
       (''runtime_health_commitment'',
         null_text (nullish (map_option rt_health (pv_runtime p)) (own ''runtime_health_commitment''))),
       (''schedule_commitment'',
         null_text (nullish (map_option sd_commitment (pv_schedule p)) (own ''schedule_commitment''))),
       (''rotation_commitment'',
         null_text (nullish (map_option ro_commitment (pv_rotation p)) (own ''rotation_commitment''))),
       (''simulator_commitment'',
         null_text (nullish (map_option ls_commitment (pv_simulation p)) (own ''simulator_commitment''))),
       (''front_run_certificate_commitment'', null_text (own ''front_run_certificate_commitment''))])"

definition unsigned_receipt :: "host \<Rightarrow> GholaPrivacyPreview \<Rightarrow> string \<Rightarrow> string \<Rightarrow> GholaPrivateModeEvidenceChain option \<Rightarrow>
    GholaPrivateAccountReceipt" where
  "unsigned_receipt h p approval execution chain =
     (let own = chain_text chain; context = (\<lambda>f. null_json (\<lambda>c. JStr (f c)) (pv_connector p)) in
      [(''version'', JNum (num 1)),
       (''receipt_commitment'', JStr (gholaCommitment h ''receipt'' (JObj
         [(''preview'', JStr (pv_commitment p)), (''approval'', JStr approval), (''execution'', JStr execution),
          (''evidence_chain'', null_json JObj chain),
          (''front_run_certificate_commitment'', null_text (pv_certificate p))]))),
       (''action_commitment'', JStr (pv_action p)), (''preview_commitment'', JStr (pv_commitment p)),
       (''result'', JStr (if pv_status p = Blocked_leaky_path then ''blocked'' else ''executed'')),
       (''privacy_level'', JStr (level_name (pv_level p))), (''claim_status'', JStr (claim_status_name (pv_status p))),
       (''hidden_from'', texts_json (pv_hidden_from p)), (''visible_to'', texts_json (pv_visible_to p)),
       (''degraded_reasons'', texts_json (pv_degraded_reasons p)), (''blocked_reasons'', texts_json (pv_blocked_reasons p)),
       (''anonymity_set'', anonymity_set_json (pv_anonymity_set p)), (''rail_used'', JStr (account_rail_name (pv_rail p))),
       (''platform_visibility'', JStr (platform_visibility_name (pv_platform_sees p))),
       (''public_chain_visibility'', JStr (chain_visibility_name (pv_chain_sees p))),
       (''operator_visibility'', JStr (operator_visibility_name (pv_operator_sees p))),
       (''approval_commitment'', JStr approval), (''execution_commitment'', JStr execution),
       (''execution_plan_commitment'', null_text (own ''execution_plan_commitment'')),
       (''settlement_commitment'', null_text (own ''settlement_commitment'')),
       (''relay_commitment'', null_text (own ''relay_commitment'')),
       (''finality_commitment'', null_text (own ''finality_commitment'')),
       (''manifest_commitment'', null_text (nullish (own ''manifest_commitment'') (connector_text p cc_manifest))),
       (''connector_readiness_commitment'',
         null_text (nullish (own ''connector_readiness_commitment'') (connector_text p cc_readiness))),
       (''compiler_commitment'', null_text (nullish (own ''compiler_commitment'') (connector_text p cc_compiler))),
       (''linkability_score_commitment'',
         null_text (nullish (own ''linkability_score_commitment'') (connector_text p cc_linkability_score))),
       (''work_order_commitment'', null_text (own ''work_order_commitment'')),
       (''connector_result_commitment'', null_text (own ''connector_result_commitment'')),
       (''platform_fee_policy_commitment'', null_text (own ''platform_fee_policy_commitment'')),
       (''runtime_envelope_commitment'',
         null_text (nullish (own ''runtime_envelope_commitment'') (map_option rt_envelope (pv_runtime p)))),
       (''runtime_attestation_commitment'',
         null_text (nullish (own ''runtime_attestation_commitment'') (runtime_attestation p))),
       (''runtime_health_commitment'',
         null_text (nullish (own ''runtime_health_commitment'') (map_option rt_health (pv_runtime p)))),
       (''schedule_commitment'',
         null_text (nullish (own ''schedule_commitment'') (map_option sd_commitment (pv_schedule p)))),
       (''rotation_commitment'',
         null_text (nullish (own ''rotation_commitment'') (map_option ro_commitment (pv_rotation p)))),
       (''simulator_commitment'',
         null_text (nullish (own ''simulator_commitment'') (map_option ls_commitment (pv_simulation p)))),
       (''venue_access_source'', context (\<lambda>c. access_source_name (cc_access_source c))),
       (''ghola_access_role'', context (\<lambda>c. access_role_name (cc_access_role c))),
       (''venue_gate'', context (\<lambda>c. venue_gate_name (cc_venue_gate c))),
       (''venue_visibility'', context (\<lambda>c. venue_visibility_name (cc_venue_visibility c))),
       (''source_wallet_visibility'', context (\<lambda>c. wallet_visibility_name (cc_wallet_visibility c))),
       (''privacy_claim'', context (\<lambda>c. privacy_claim_name (cc_privacy_claim c))),
       (''front_run_mode'', JStr (front_run_mode_name (pv_mode p))),
       (''front_run_protection'', protection_json (pv_protection p)),
       (''front_run_certificate_commitment'',
         null_text (nullish (own ''front_run_certificate_commitment'') (pv_certificate p))),
       (''zero_front_run'', JBool (fr_zero (pv_protection p))),
       (''claim_levels_achieved'', levels_json (pv_levels_achieved p)),
       (''claim_levels_missing'', levels_json (pv_levels_missing p)),
       (''claim_evidence_commitments'', evidence_json (pv_level_evidence p)),
       (''evidence_chain'', null_json JObj chain),
       (''selective_disclosure_available'', JBool (L_selectively_disclosable \<in> set (pv_levels_achieved p) \<or>
         pv_level p = P5_selectively_disclosable))])"

definition signPrivateAccountReceipt :: "account_host \<Rightarrow> (string \<times> json) list \<Rightarrow> string \<Rightarrow> string" where
  "signPrivateAccountReceipt ah receipt secret =
     ah_hmac ah secret (undefined_text (stablePrivateAccountJson (ah_host ah) (JObj receipt)))"

text \<open>The checks, in the order of the source; the first that fails is thrown.\<close>

definition v6_commitments :: "string list" where
  "v6_commitments = [''runtime_envelope_commitment'', ''runtime_attestation_commitment'',
     ''runtime_health_commitment'', ''schedule_commitment'', ''rotation_commitment'', ''simulator_commitment'']"

definition connector_commitments :: "string list" where
  "connector_commitments = [''manifest_commitment'', ''connector_readiness_commitment'', ''compiler_commitment'',
     ''linkability_score_commitment'']"

definition settlement_commitments :: "string list" where
  "settlement_commitments = [''proof_commitment'', ''witness_commitment'', ''relay_commitment'', ''finality_commitment'']"

definition auction_commitments :: "string list" where
  "auction_commitments = [''auction_epoch_commitment'', ''auction_order_commitment'', ''clearing_commitment'',
     ''proof_commitment'', ''finality_commitment'', ''runtime_attestation_commitment'']"

definition has_all :: "GholaPrivateModeEvidenceChain option \<Rightarrow> string list \<Rightarrow> bool" where
  "has_all chain keys = list_all (chain_has chain) keys"

definition receipt_checks :: "GholaPrivacyPreview \<Rightarrow> GholaPrivateModeEvidenceChain option \<Rightarrow> (bool \<times> string) list" where
  "receipt_checks p chain =
     (let available = isPrivateModeAvailableStatus (pv_status p) in
      [(available \<and> \<not> chain_has chain ''batch_evidence_commitment'', ''private_mode_evidence_required''),
       (available \<and> \<not> chain_has chain ''execution_plan_commitment'', ''private_mode_execution_plan_required''),
       (available \<and> requiresPrivateSettlementBinding (pv_rail p) \<and> \<not> chain_has chain ''settlement_commitment'',
         ''private_mode_settlement_evidence_required''),
       (available \<and> pv_rail p = Shielded_pool \<and> \<not> has_all chain settlement_commitments,
         ''private_mode_settlement_commitment_chain_required''),
       (pv_connector p \<noteq> None \<and> \<not> has_all chain connector_commitments,
         ''private_connector_commitment_chain_required''),
       (pv_status p = Full_anonymity_available \<and> pv_platform p = Rfq_solver_network \<and>
         pv_rail p = Shielded_batch_auction \<and>
         \<not> (chain_has chain ''work_order_commitment'' \<and> chain_has chain ''connector_result_commitment''),
         ''full_anonymity_connector_result_required''),
       (pv_mode p = Mode_zero_front_run \<and>
         \<not> (fr_zero (pv_protection p) \<and> has_text (pv_certificate p) \<and> has_all chain auction_commitments \<and>
            chain_text chain ''front_run_certificate_commitment'' = pv_certificate p),
         ''zero_front_run_certificate_required''),
       (available \<and> \<not> (has_all chain v6_commitments \<and>
         list_all (\<lambda>l. l \<in> set (pv_levels_achieved p)) PRIVATE_MODE_REQUIRED_CLAIM_LEVELS),
         ''private_mode_v6_commitment_chain_required'')])"

definition first_failed :: "(bool \<times> string) list \<Rightarrow> string option" where
  "first_failed checks = map_option snd (List.find fst checks)"

definition buildPrivateAccountReceipt :: "account_host \<Rightarrow> GholaPrivacyPreview \<Rightarrow> string \<Rightarrow> string \<Rightarrow>
    GholaPrivateModeEvidenceChain option \<Rightarrow> string option \<Rightarrow> GholaPrivateAccountReceipt result" where
  "buildPrivateAccountReceipt ah p approval execution given_chain secret =
     (let chain = map_option (receipt_chain p approval execution) given_chain in
      case first_failed (receipt_checks p chain) of
        Some e \<Rightarrow> throw e
      | None \<Rightarrow>
          let unsigned = unsigned_receipt (ah_host ah) p approval execution chain in
          return_ok (unsigned @ [(''signature'', JStr (signPrivateAccountReceipt ah unsigned
            (text_or secret ''ghola-dev-private-account-receipts'')))]))"

section \<open>Public artifacts\<close>

definition forbidden_keys :: "string list" where
  "forbidden_keys = [''raw_wallet_address'', ''wallet_address'', ''deposit_address'', ''provider_account_id'',
     ''email'', ''raw_holdings'', ''exact_balance'', ''raw_amount'', ''price'', ''order'', ''orders'', ''raw_order'',
     ''order_payload'', ''route'', ''quote'', ''signature_payload'', ''transaction'', ''raw_transaction'',
     ''signed_tx'', ''transaction_bytes'', ''withdraw_instruction_bytes'', ''instruction_data_hex'',
     ''recipient_address'', ''raw_recipient'', ''raw_destination'', ''proof_bundle'', ''proof'', ''raw_proof'',
     ''witness'', ''raw_witness'', ''witness_payload'', ''account_metas'', ''rpc_url'', ''api_key'', ''api_key_id'',
     ''api_key_name'', ''api_secret'', ''cdp_api_key'', ''coinbase_api_key'', ''coinbase_api_key_name'',
     ''coinbase_key_name'', ''coinbase_private_key'', ''coinbase_signing_key'', ''key_secret'', ''secret_key'',
     ''endpoint'', ''account_id'', ''account_uuid'', ''portfolio_id'', ''hyperliquid_account_id'',
     ''execution_account'', ''execution_account_id'', ''api_wallet'', ''api_wallet_address'',
     ''api_wallet_private_key'', ''raw_platform_payload'', ''liquidation_price'', ''leverage'', ''leverage_update'',
     ''vault_transfer'', ''private_key'', ''policy'', ''policy_commitment_seed'', ''policy_text'', ''prompt'',
     ''prompt_commitment_seed'', ''system_prompt'', ''strategy'', ''strategy_commitment_seed'', ''strategy_text'',
     ''session_token'']"

text \<open>\<open>toLowerCase()\<close> on Latin-1.\<close>

definition lower_char :: "char \<Rightarrow> char" where
  "lower_char c =
     (let n = of_char c :: nat in
      if 65 \<le> n \<and> n \<le> 90 \<or> 192 \<le> n \<and> n \<le> 222 \<and> n \<noteq> 215 then char_of (n + 32) else c)"

definition js_lower :: "string \<Rightarrow> string" where
  "js_lower s = map lower_char s"

lemma size_property: "p \<in> set kvs \<Longrightarrow> size (snd p) < size (JObj kvs)"
  by (induction kvs) (auto simp: size_prod_def)

function containsForbiddenPublicPrivateAccountField :: "json \<Rightarrow> bool" where
  "containsForbiddenPublicPrivateAccountField (JArr xs) = list_ex containsForbiddenPublicPrivateAccountField xs"
| "containsForbiddenPublicPrivateAccountField (JObj kvs) =
     list_ex (\<lambda>p. js_lower (fst p) \<in> set forbidden_keys \<or>
       containsForbiddenPublicPrivateAccountField (snd p)) kvs"
| "containsForbiddenPublicPrivateAccountField JNull = False"
| "containsForbiddenPublicPrivateAccountField JUndef = False"
| "containsForbiddenPublicPrivateAccountField (JBool b) = False"
| "containsForbiddenPublicPrivateAccountField (JNum x) = False"
| "containsForbiddenPublicPrivateAccountField (JStr s) = False"
  by pat_completeness auto
termination
  by (relation "measure size")
    (use size_property in \<open>auto simp: less_Suc_eq_le intro: size_list_estimation' simp del: json.size(7)\<close>)

definition assertPublicSafePrivateAccountArtifact :: "json \<Rightarrow> unit result" where
  "assertPublicSafePrivateAccountArtifact v =
     (if containsForbiddenPublicPrivateAccountField v then throw ''forbidden_public_field'' else return_ok ())"

end
