(* ===== verification/AccountVenues.thy ===== *)
theory AccountVenues imports AccountReceipt
begin

text \<open>
  \<open>apps/web/src/lib/private-account.ts\<close>, part five: what the private account knows of the venues. The
  operations a venue supports and those that are blocked, sealed vaults, session policies with their
  check before each operation, manifests, secret handles, and allocations. Seeds are any JSON values;
  where a seed is absent (\<open>JUndef\<close>) the default of the code is hashed.
\<close>

section \<open>Unions of string literals\<close>

datatype GholaVenueId =
    V_hyperliquid | V_phoenix | V_drift | V_jupiter | V_backpack | V_coinbase_advanced
  | V_rfq_network

fun venue_id_name :: "GholaVenueId \<Rightarrow> string" where
  "venue_id_name V_hyperliquid = ''hyperliquid''"
| "venue_id_name V_phoenix = ''phoenix''"
| "venue_id_name V_drift = ''drift''"
| "venue_id_name V_jupiter = ''jupiter''"
| "venue_id_name V_backpack = ''backpack''"
| "venue_id_name V_coinbase_advanced = ''coinbase_advanced''"
| "venue_id_name V_rfq_network = ''rfq_network''"

datatype GholaVenueAccountMode =
    Am_byo_account | Am_user_stealth | Am_ghola_pooled

fun account_mode_name :: "GholaVenueAccountMode \<Rightarrow> string" where
  "account_mode_name Am_byo_account = ''byo_account''"
| "account_mode_name Am_user_stealth = ''user_stealth''"
| "account_mode_name Am_ghola_pooled = ''ghola_pooled''"

datatype GholaVenueExecutionMode =
    Em_byo_api_key | Em_user_stealth | Em_ghola_pooled | Em_partner_omnibus | Em_managed_testnet
  | Em_hyperliquid_native_vault

fun execution_mode_name :: "GholaVenueExecutionMode \<Rightarrow> string" where
  "execution_mode_name Em_byo_api_key = ''byo_api_key''"
| "execution_mode_name Em_user_stealth = ''user_stealth''"
| "execution_mode_name Em_ghola_pooled = ''ghola_pooled''"
| "execution_mode_name Em_partner_omnibus = ''partner_omnibus''"
| "execution_mode_name Em_managed_testnet = ''managed_testnet''"
| "execution_mode_name Em_hyperliquid_native_vault = ''hyperliquid_native_vault''"

datatype GholaVenueOperationClass =
    Op_read | Op_preview_order | Op_limit_order | Op_perp_limit_order | Op_spot_limit_order
  | Op_spot_market_order | Op_swap | Op_cancel | Op_fills | Op_reconcile

fun operation_name :: "GholaVenueOperationClass \<Rightarrow> string" where
  "operation_name Op_read = ''read''"
| "operation_name Op_preview_order = ''preview_order''"
| "operation_name Op_limit_order = ''limit_order''"
| "operation_name Op_perp_limit_order = ''perp_limit_order''"
| "operation_name Op_spot_limit_order = ''spot_limit_order''"
| "operation_name Op_spot_market_order = ''spot_market_order''"
| "operation_name Op_swap = ''swap''"
| "operation_name Op_cancel = ''cancel''"
| "operation_name Op_fills = ''fills''"
| "operation_name Op_reconcile = ''reconcile''"

datatype GholaVenueBlockedOperation =
    No_withdraw | No_vault_transfer | No_leverage_escalation | No_margin | No_futures | No_staking
  | No_portfolio_mutation | No_raw_custody_transfer

fun blocked_operation_name :: "GholaVenueBlockedOperation \<Rightarrow> string" where
  "blocked_operation_name No_withdraw = ''withdraw''"
| "blocked_operation_name No_vault_transfer = ''vault_transfer''"
| "blocked_operation_name No_leverage_escalation = ''leverage_escalation''"
| "blocked_operation_name No_margin = ''margin''"
| "blocked_operation_name No_futures = ''futures''"
| "blocked_operation_name No_staking = ''staking''"
| "blocked_operation_name No_portfolio_mutation = ''portfolio_mutation''"
| "blocked_operation_name No_raw_custody_transfer = ''raw_custody_transfer''"

datatype GholaHyperliquidOperationClass =
    Hl_read | Hl_limit_order | Hl_cancel | Hl_reconcile

fun hl_operation_name :: "GholaHyperliquidOperationClass \<Rightarrow> string" where
  "hl_operation_name Hl_read = ''read''"
| "hl_operation_name Hl_limit_order = ''limit_order''"
| "hl_operation_name Hl_cancel = ''cancel''"
| "hl_operation_name Hl_reconcile = ''reconcile''"

datatype GholaHyperliquidBlockedOperation =
    Hl_no_withdraw | Hl_no_vault_transfer | Hl_no_leverage_escalation

fun hl_blocked_operation_name :: "GholaHyperliquidBlockedOperation \<Rightarrow> string" where
  "hl_blocked_operation_name Hl_no_withdraw = ''withdraw''"
| "hl_blocked_operation_name Hl_no_vault_transfer = ''vault_transfer''"
| "hl_blocked_operation_name Hl_no_leverage_escalation = ''leverage_escalation''"

datatype secret_purpose =
    For_venue_account | For_venue_api_key | For_trader_authority | For_pooled_operator

fun secret_purpose_name :: "secret_purpose \<Rightarrow> string" where
  "secret_purpose_name For_venue_account = ''venue_account''"
| "secret_purpose_name For_venue_api_key = ''venue_api_key''"
| "secret_purpose_name For_trader_authority = ''trader_authority''"
| "secret_purpose_name For_pooled_operator = ''pooled_operator''"

datatype venue_sees =
    Sees_none | Sees_stealth_account_and_order | Sees_pooled_account_and_order
  | Sees_user_account_and_order

fun venue_sees_name :: "venue_sees \<Rightarrow> string" where
  "venue_sees_name Sees_none = ''none''"
| "venue_sees_name Sees_stealth_account_and_order = ''stealth_account_and_order''"
| "venue_sees_name Sees_pooled_account_and_order = ''pooled_account_and_order''"
| "venue_sees_name Sees_user_account_and_order = ''user_account_and_order''"

datatype credential_type =
    Credential_self_attested_eligible_user | Credential_partner_verified_eligible_user

fun credential_type_name :: "credential_type \<Rightarrow> string" where
  "credential_type_name Credential_self_attested_eligible_user = ''self_attested_eligible_user''"
| "credential_type_name Credential_partner_verified_eligible_user = ''partner_verified_eligible_user''"

datatype allocation_status =
    Allocation_allocated | Allocation_pending_funding | Allocation_paused | Allocation_revoked

fun allocation_status_name :: "allocation_status \<Rightarrow> string" where
  "allocation_status_name Allocation_allocated = ''allocated''"
| "allocation_status_name Allocation_pending_funding = ''pending_funding''"
| "allocation_status_name Allocation_paused = ''paused''"
| "allocation_status_name Allocation_revoked = ''revoked''"

datatype deposit_state =
    Deposit_unfunded | Deposit_pending | Deposit_confirmed | Deposit_withdraw_locked
  | Deposit_withdrawable

fun deposit_state_name :: "deposit_state \<Rightarrow> string" where
  "deposit_state_name Deposit_unfunded = ''unfunded''"
| "deposit_state_name Deposit_pending = ''pending''"
| "deposit_state_name Deposit_confirmed = ''confirmed''"
| "deposit_state_name Deposit_withdraw_locked = ''withdraw_locked''"
| "deposit_state_name Deposit_withdrawable = ''withdrawable''"

section \<open>Venues\<close>

definition venuePlatformClass :: "GholaVenueId \<Rightarrow> GholaPlatformClass" where
  "venuePlatformClass v =
     (if v = V_hyperliquid then Hyperliquid_style_market
      else if v = V_phoenix \<or> v = V_drift \<or> v = V_backpack then Solana_perps_market
      else if v = V_jupiter then Solana_swap_aggregator
      else if v = V_rfq_network then Rfq_solver_network
      else Coinbase_style_provider)"

definition venueIdForPlatformClass :: "GholaPlatformClass \<Rightarrow> GholaVenueId option" where
  "venueIdForPlatformClass p =
     (if p = Hyperliquid_style_market then Some V_hyperliquid
      else if p = Solana_perps_market then Some V_phoenix
      else if p = Solana_swap_aggregator then Some V_jupiter
      else if p = Coinbase_style_provider then Some V_coinbase_advanced
      else if p = Rfq_solver_network then Some V_rfq_network
      else None)"

definition supportedVenueOperations :: "GholaVenueId \<Rightarrow> GholaVenueOperationClass list" where
  "supportedVenueOperations v =
     (if v = V_hyperliquid then [Op_read, Op_limit_order, Op_cancel, Op_reconcile]
      else if v = V_phoenix \<or> v = V_drift \<or> v = V_backpack
      then [Op_read, Op_perp_limit_order, Op_cancel, Op_fills, Op_reconcile]
      else if v = V_jupiter then [Op_read, Op_preview_order, Op_swap, Op_reconcile]
      else if v = V_rfq_network then [Op_read, Op_preview_order, Op_reconcile]
      else [Op_read, Op_preview_order, Op_spot_limit_order, Op_spot_market_order, Op_cancel, Op_fills, Op_reconcile])"

definition blockedVenueOperations :: "GholaVenueId \<Rightarrow> GholaVenueExecutionMode \<Rightarrow> GholaVenueBlockedOperation list" where
  "blockedVenueOperations v mode =
     (let common = [No_withdraw, No_vault_transfer, No_leverage_escalation] in
      if v = V_hyperliquid then common
      else if v = V_phoenix \<or> v = V_drift \<or> v = V_backpack
      then js_uniq (common @ [No_staking, No_raw_custody_transfer] @ (if mode = Em_ghola_pooled then [] else [No_margin]))
      else if v = V_jupiter \<or> v = V_rfq_network
      then js_uniq (common @ [No_margin, No_futures, No_staking, No_raw_custody_transfer])
      else js_uniq (common @ [No_margin, No_futures, No_staking, No_portfolio_mutation, No_raw_custody_transfer] @
        (if mode = Em_partner_omnibus then [No_vault_transfer] else [])))"

definition accountModeForExecutionMode :: "GholaVenueExecutionMode \<Rightarrow> GholaVenueAccountMode" where
  "accountModeForExecutionMode mode =
     (if mode = Em_partner_omnibus \<or> mode = Em_ghola_pooled then Am_ghola_pooled
      else if mode = Em_managed_testnet \<or> mode = Em_hyperliquid_native_vault \<or> mode = Em_user_stealth
      then Am_user_stealth else Am_byo_account)"

definition executionModeForAccountMode :: "GholaVenueAccountMode \<Rightarrow> GholaVenueExecutionMode" where
  "executionModeForAccountMode mode =
     (if mode = Am_ghola_pooled then Em_ghola_pooled else if mode = Am_user_stealth then Em_user_stealth
      else Em_byo_api_key)"

definition supportedVenueAccountModes :: "GholaVenueId \<Rightarrow> GholaVenueAccountMode list" where
  "supportedVenueAccountModes v =
     (if v = V_rfq_network then [Am_ghola_pooled]
      else if v = V_jupiter then [Am_user_stealth, Am_ghola_pooled]
      else [Am_byo_account, Am_user_stealth, Am_ghola_pooled])"

fun venueLabel :: "GholaVenueId \<Rightarrow> string" where
  "venueLabel V_hyperliquid = ''Hyperliquid''"
| "venueLabel V_phoenix = ''Phoenix''"
| "venueLabel V_drift = ''Drift''"
| "venueLabel V_jupiter = ''Jupiter''"
| "venueLabel V_backpack = ''Backpack''"
| "venueLabel V_coinbase_advanced = ''Coinbase Advanced''"
| "venueLabel V_rfq_network = ''RFQ network''"

definition defaultVenueVisibility :: "GholaVenueId \<Rightarrow> GholaVenueAccountMode \<Rightarrow> venue_sees" where
  "defaultVenueVisibility v mode =
     (if v = V_rfq_network then Sees_none
      else if mode = Am_ghola_pooled then Sees_pooled_account_and_order
      else if mode = Am_user_stealth then Sees_stealth_account_and_order
      else Sees_user_account_and_order)"

text \<open>\<open>x ?? d\<close> on optional fields.\<close>

definition or_default :: "'a option \<Rightarrow> 'a \<Rightarrow> 'a" where
  "or_default x d = (case x of None \<Rightarrow> d | Some v \<Rightarrow> v)"

section \<open>Sealed vaults\<close>

record GholaVenueExecutionVault =
  xv_venue :: GholaVenueId
  xv_platform :: GholaPlatformClass
  xv_execution_mode :: GholaVenueExecutionMode
  xv_account_mode :: GholaVenueAccountMode
  xv_account :: string
  xv_commitment :: string
  xv_encrypted_commitment :: string
  xv_recipient :: string
  xv_policy :: string
  xv_allocation :: "string option"
  xv_bundle :: GholaEncryptedPrivateBundle
  xv_supported :: "GholaVenueOperationClass list"
  xv_blocked :: "GholaVenueBlockedOperation list"
  xv_created_at :: time

text \<open>The bundle of a request, with the object it came in: any forbidden property refuses it.\<close>

record raw_bundle =
  rb_input :: bundle_input
  rb_json :: json

definition createVenueExecutionVault :: "host \<Rightarrow> GholaVenueId \<Rightarrow> GholaVenueExecutionMode option \<Rightarrow>
    GholaVenueAccountMode option \<Rightarrow> string \<Rightarrow> raw_bundle \<Rightarrow> string option \<Rightarrow> json \<Rightarrow> time \<Rightarrow> GholaVenueExecutionVault result" where
  "createVenueExecutionVault h v execution_mode account_mode account raw allocation policy_seed now =
     (if containsForbiddenPublicPrivateAccountField (rb_json raw) then throw ''forbidden_raw_venue_field''
      else and_then (createEncryptedPrivateBundle h (rb_input raw)) (\<lambda>bundle.
        let executionMode = or_default execution_mode Em_byo_api_key;
            accountMode = or_default account_mode (accountModeForExecutionMode executionMode);
            policy = gholaCommitment h ''venue_execution_policy'' (JObj [(''venue_id'', JStr (venue_id_name v)),
              (''execution_mode'', JStr (execution_mode_name executionMode)),
              (''account_mode'', JStr (account_mode_name accountMode)), (''account_commitment'', JStr account),
              (''seed'', json_nullish policy_seed (JStr ''ghola-venue-private-execution-v1''))]);
            seed = JObj [(''venue_id'', JStr (venue_id_name v)),
              (''execution_mode'', JStr (execution_mode_name executionMode)),
              (''account_mode'', JStr (account_mode_name accountMode)), (''account_commitment'', JStr account),
              (''encrypted_vault_commitment'', JStr (eb_ciphertext_commitment bundle)),
              (''recipient_commitment'', JStr (eb_recipient_commitment bundle)), (''policy_commitment'', JStr policy),
              (''allocation_commitment'', null_text allocation)]
        in return_ok \<lparr>xv_venue = v, xv_platform = venuePlatformClass v, xv_execution_mode = executionMode,
          xv_account_mode = accountMode, xv_account = account,
          xv_commitment = gholaCommitment h ''venue_execution_vault'' seed,
          xv_encrypted_commitment = gholaCommitment h ''venue_encrypted_vault'' seed,
          xv_recipient = eb_recipient_commitment bundle, xv_policy = policy, xv_allocation = allocation,
          xv_bundle = bundle, xv_supported = supportedVenueOperations v,
          xv_blocked = blockedVenueOperations v executionMode, xv_created_at = now\<rparr>))"

definition createCoinbaseAdvancedExecutionVault :: "host \<Rightarrow> string \<Rightarrow> GholaVenueExecutionMode option \<Rightarrow> raw_bundle \<Rightarrow>
    string option \<Rightarrow> json \<Rightarrow> time \<Rightarrow> GholaVenueExecutionVault result" where
  "createCoinbaseAdvancedExecutionVault h account execution_mode raw allocation policy_seed now =
     createVenueExecutionVault h V_coinbase_advanced (Some (or_default execution_mode Em_byo_api_key)) None
       account raw allocation policy_seed now"

record GholaHyperliquidExecutionVault =
  hv_account :: string
  hv_commitment :: string
  hv_encrypted_commitment :: string
  hv_recipient :: string
  hv_policy :: string
  hv_bundle :: GholaEncryptedPrivateBundle
  hv_supported :: "GholaHyperliquidOperationClass list"
  hv_blocked :: "GholaHyperliquidBlockedOperation list"
  hv_created_at :: time

definition hl_operations :: "GholaHyperliquidOperationClass list" where
  "hl_operations = [Hl_read, Hl_limit_order, Hl_cancel, Hl_reconcile]"

definition hl_blocked_operations :: "GholaHyperliquidBlockedOperation list" where
  "hl_blocked_operations = [Hl_no_withdraw, Hl_no_vault_transfer, Hl_no_leverage_escalation]"

definition createHyperliquidExecutionVault :: "host \<Rightarrow> string \<Rightarrow> raw_bundle \<Rightarrow> json \<Rightarrow> time \<Rightarrow>
    GholaHyperliquidExecutionVault result" where
  "createHyperliquidExecutionVault h account raw policy_seed now =
     (if containsForbiddenPublicPrivateAccountField (rb_json raw) then throw ''forbidden_raw_hyperliquid_field''
      else and_then (createEncryptedPrivateBundle h (rb_input raw)) (\<lambda>bundle.
        let policy = gholaCommitment h ''hyperliquid_execution_policy'' (JObj [(''account_commitment'', JStr account),
              (''seed'', json_nullish policy_seed (JStr ''ghola-hyperliquid-private-execution-v1''))]);
            seed = JObj [(''account_commitment'', JStr account),
              (''encrypted_vault_commitment'', JStr (eb_ciphertext_commitment bundle)),
              (''recipient_commitment'', JStr (eb_recipient_commitment bundle)), (''policy_commitment'', JStr policy)]
        in return_ok \<lparr>hv_account = account, hv_commitment = gholaCommitment h ''hyperliquid_execution_vault'' seed,
          hv_encrypted_commitment = gholaCommitment h ''hyperliquid_encrypted_vault'' seed,
          hv_recipient = eb_recipient_commitment bundle, hv_policy = policy, hv_bundle = bundle,
          hv_supported = hl_operations, hv_blocked = hl_blocked_operations, hv_created_at = now\<rparr>))"

section \<open>Session policies\<close>

datatype notional_bucket = Bucket_5 | Bucket_10 | Bucket_25 | Bucket_50 | Bucket_100

fun bucket_text :: "notional_bucket \<Rightarrow> string" where
  "bucket_text Bucket_5 = ''5''"
| "bucket_text Bucket_10 = ''10''"
| "bucket_text Bucket_25 = ''25''"
| "bucket_text Bucket_50 = ''50''"
| "bucket_text Bucket_100 = ''100''"

text \<open>The place of a bucket in the order; any other text is above all buckets.\<close>

definition bucketRank :: "string \<Rightarrow> int" where
  "bucketRank s =
     (case List.find (\<lambda>(b, n). b = s) (zip [''5'', ''10'', ''25'', ''50'', ''100''] [0, 1, 2, 3, 4]) of
        None \<Rightarrow> max_safe | Some (b, n) \<Rightarrow> n)"

text \<open>\<open>x >= y\<close> on numbers, and \<open>new Date(now + ttl)\<close>, whose \<open>toISOString\<close> throws out of range.\<close>

definition num_geq :: "jsnum \<Rightarrow> jsnum \<Rightarrow> bool" where
  "num_geq x y \<longleftrightarrow> x \<noteq> NaN \<and> y \<noteq> NaN \<and> \<not> num_less x y"

definition max_date :: int where
  "max_date = 8640000000000000"

definition date_after :: "time \<Rightarrow> jsnum \<Rightarrow> time result" where
  "date_after now ttl =
     (case ttl of
        Fin r \<Rightarrow> let t = fl (of_int now + r); n = (if t < 0 then \<lceil>t\<rceil> else \<lfloor>t\<rfloor>) in
          if \<bar>t\<bar> \<le> of_int max_date then return_ok n else throw ''Invalid time value''
      | _ \<Rightarrow> throw ''Invalid time value'')"

record 'op session_policy_input =
  si_markets :: "string list option"
  si_bucket :: "notional_bucket option"
  si_order_count :: "jsnum option"
  si_ttl_ms :: "jsnum option"
  si_kill_switch :: "bool option"
  si_operations :: "'op list option"
  si_strategy :: json
  si_prompt :: json

text \<open>\<open>list?.length ? list : default\<close>.\<close>

definition or_nonempty :: "'a list option \<Rightarrow> 'a list \<Rightarrow> 'a list" where
  "or_nonempty xs d = (case xs of None \<Rightarrow> d | Some ys \<Rightarrow> if ys = [] then d else ys)"

definition markets_of :: "string list option \<Rightarrow> string list \<Rightarrow> string list" where
  "markets_of given d = filter (\<lambda>m. m \<noteq> []) (map (\<lambda>m. js_upper (js_trim m)) (or_nonempty given d))"

definition order_cap :: "jsnum option \<Rightarrow> jsnum" where
  "order_cap n = num_max (num 0) (num_min (num 100) (num_floor (or_default n (num 10))))"

definition policy_ttl :: "jsnum option \<Rightarrow> jsnum" where
  "policy_ttl ttl = num_max (num 60000) (or_default ttl (num (30 * 60 * 1000)))"

record GholaVenueSessionPolicy =
  sp_venue :: GholaVenueId
  sp_mode :: GholaVenueExecutionMode
  sp_commitment :: string
  sp_markets :: "string list"
  sp_bucket :: notional_bucket
  sp_order_count :: jsnum
  sp_expires_at :: time
  sp_kill_switch :: bool
  sp_allowed :: "GholaVenueOperationClass list"
  sp_blocked :: "GholaVenueBlockedOperation list"
  sp_strategy :: string
  sp_prompt :: string
  sp_created_at :: time

definition createVenueSessionPolicy :: "host \<Rightarrow> GholaVenueId \<Rightarrow> GholaVenueExecutionMode option \<Rightarrow>
    GholaVenueOperationClass session_policy_input \<Rightarrow> time \<Rightarrow> GholaVenueSessionPolicy result" where
  "createVenueSessionPolicy h v execution_mode inp now =
     (let executionMode = or_default execution_mode Em_byo_api_key; defaultAllowed = supportedVenueOperations v;
          allowed = filter (\<lambda>op. op \<in> set defaultAllowed) (js_uniq (or_nonempty (si_operations inp) defaultAllowed));
          markets = markets_of (si_markets inp) (if v = V_coinbase_advanced
            then [''BTC-USD'', ''ETH-USD'', ''SOL-USD''] else [''BTC'', ''ETH'', ''SOL'']);
          count = order_cap (si_order_count inp); bucket = or_default (si_bucket inp) Bucket_25
      in and_then (date_after now (policy_ttl (si_ttl_ms inp))) (\<lambda>expires.
        let strategy = gholaCommitment h ''venue_strategy'' (json_nullish (si_strategy inp) (JStr ''sealed_strategy_only''));
            prompt = gholaCommitment h ''venue_prompt'' (json_nullish (si_prompt inp) (JStr ''sealed_prompt_only''));
            kill = (si_kill_switch inp = Some True);
            seed = JObj [(''venueId'', JStr (venue_id_name v)), (''executionMode'', JStr (execution_mode_name executionMode)),
              (''marketAllowlist'', texts_json markets), (''maxNotionalBucket'', JStr (bucket_text bucket)),
              (''maxOrderCount'', JNum count), (''expiresAt'', JStr (to_iso expires)), (''killSwitch'', JBool kill),
              (''allowed'', JArr (map (\<lambda>op. JStr (operation_name op)) allowed)),
              (''strategyCommitment'', JStr strategy), (''promptCommitment'', JStr prompt)]
        in return_ok \<lparr>sp_venue = v, sp_mode = executionMode, sp_commitment = gholaCommitment h ''venue_session_policy'' seed,
          sp_markets = markets, sp_bucket = bucket, sp_order_count = count, sp_expires_at = expires,
          sp_kill_switch = kill, sp_allowed = allowed, sp_blocked = blockedVenueOperations v executionMode,
          sp_strategy = strategy, sp_prompt = prompt, sp_created_at = now\<rparr>))"

record GholaHyperliquidSessionPolicy =
  hp_commitment :: string
  hp_markets :: "string list"
  hp_bucket :: notional_bucket
  hp_order_count :: jsnum
  hp_expires_at :: time
  hp_kill_switch :: bool
  hp_allowed :: "GholaHyperliquidOperationClass list"
  hp_blocked :: "GholaHyperliquidBlockedOperation list"
  hp_strategy :: string
  hp_prompt :: string
  hp_created_at :: time

definition createHyperliquidSessionPolicy :: "host \<Rightarrow> GholaHyperliquidOperationClass session_policy_input \<Rightarrow> time \<Rightarrow>
    GholaHyperliquidSessionPolicy result" where
  "createHyperliquidSessionPolicy h inp now =
     (let allowed = js_uniq (or_nonempty (si_operations inp) hl_operations);
          markets = markets_of (si_markets inp) [''BTC'', ''ETH'', ''SOL''];
          count = order_cap (si_order_count inp); bucket = or_default (si_bucket inp) Bucket_25
      in and_then (date_after now (policy_ttl (si_ttl_ms inp))) (\<lambda>expires.
        let strategy = gholaCommitment h ''hyperliquid_strategy'' (json_nullish (si_strategy inp) (JStr ''sealed_strategy_only''));
            prompt = gholaCommitment h ''hyperliquid_prompt'' (json_nullish (si_prompt inp) (JStr ''sealed_prompt_only''));
            kill = (si_kill_switch inp = Some True);
            seed = JObj [(''marketAllowlist'', texts_json markets), (''maxNotionalBucket'', JStr (bucket_text bucket)),
              (''maxOrderCount'', JNum count), (''expiresAt'', JStr (to_iso expires)), (''killSwitch'', JBool kill),
              (''allowed'', JArr (map (\<lambda>op. JStr (hl_operation_name op)) allowed)),
              (''strategyCommitment'', JStr strategy), (''promptCommitment'', JStr prompt)]
        in return_ok \<lparr>hp_commitment = gholaCommitment h ''hyperliquid_session_policy'' seed, hp_markets = markets,
          hp_bucket = bucket, hp_order_count = count, hp_expires_at = expires, hp_kill_switch = kill,
          hp_allowed = allowed, hp_blocked = hl_blocked_operations, hp_strategy = strategy, hp_prompt = prompt,
          hp_created_at = now\<rparr>))"

text \<open>An operation asked for is one a venue may support or one that is always blocked. The errors are
  collected in the order of the checks.\<close>

definition policy_errors :: "bool \<Rightarrow> time \<Rightarrow> string list \<Rightarrow> notional_bucket \<Rightarrow> jsnum \<Rightarrow> bool \<Rightarrow> bool \<Rightarrow> string option \<Rightarrow>
    string option \<Rightarrow> jsnum option \<Rightarrow> time \<Rightarrow> string list" where
  "policy_errors kill expires markets cap count blocked allowed market bucket orders now =
     reason_if kill ''kill_switch_active'' @
     reason_if (expires \<le> now) ''policy_expired'' @
     reason_if blocked ''operation_blocked'' @
     reason_if (\<not> allowed) ''operation_not_allowed'' @
     reason_if (case market of None \<Rightarrow> False
       | Some m \<Rightarrow> js_upper (js_trim m) \<noteq> [] \<and> js_upper (js_trim m) \<notin> set markets) ''market_not_allowed'' @
     reason_if (bucketRank (text_or bucket (bucket_text cap)) > bucketRank (bucket_text cap)) ''notional_bucket_exceeds_cap'' @
     reason_if (num_geq (num_max (num 0) (num_floor (or_default orders (num 0)))) count) ''order_count_exceeded''"

definition validateVenuePolicyExecution :: "GholaVenueSessionPolicy \<Rightarrow>
    GholaVenueOperationClass + GholaVenueBlockedOperation \<Rightarrow> string option \<Rightarrow> string option \<Rightarrow> jsnum option \<Rightarrow> time \<Rightarrow>
    string list" where
  "validateVenuePolicyExecution p operation market bucket orders now =
     policy_errors (sp_kill_switch p) (sp_expires_at p) (sp_markets p) (sp_bucket p) (sp_order_count p)
       (case operation of Inl op \<Rightarrow> False | Inr op \<Rightarrow> op \<in> set (sp_blocked p))
       (case operation of Inl op \<Rightarrow> op \<in> set (sp_allowed p) | Inr op \<Rightarrow> False) market bucket orders now"

definition validateHyperliquidPolicyExecution :: "GholaHyperliquidSessionPolicy \<Rightarrow>
    GholaHyperliquidOperationClass + GholaHyperliquidBlockedOperation \<Rightarrow> string option \<Rightarrow> string option \<Rightarrow>
    jsnum option \<Rightarrow> time \<Rightarrow> string list" where
  "validateHyperliquidPolicyExecution p operation market bucket orders now =
     policy_errors (hp_kill_switch p) (hp_expires_at p) (hp_markets p) (hp_bucket p) (hp_order_count p)
       (case operation of Inl op \<Rightarrow> False | Inr op \<Rightarrow> op \<in> set (hp_blocked p))
       (case operation of Inl op \<Rightarrow> op \<in> set (hp_allowed p) | Inr op \<Rightarrow> False) market bucket orders now"

end
