(* ===== verification/AccountAllocations.thy ===== *)
theory AccountAllocations imports AccountVenues
begin

text \<open>
  \<open>apps/web/src/lib/private-account.ts\<close>, part six: venue manifests, secret handles, stealth accounts,
  pooled and managed allocations, and eligibility credentials. Each is a record of commitments over
  its inputs with the status they give it; dates of creation and update are the same.
\<close>

section \<open>Manifests\<close>

record GholaVenueManifest =
  vm_venue :: GholaVenueId
  vm_platform :: GholaPlatformClass
  vm_label :: string
  vm_account_modes :: "GholaVenueAccountMode list"
  vm_default_mode :: GholaVenueAccountMode
  vm_actions :: "GholaPrivateAccountActionClass list"
  vm_operations :: "GholaVenueOperationClass list"
  vm_rails :: "GholaRailKind list"
  vm_wallet_hidden_modes :: "GholaVenueAccountMode list"
  vm_account_hidden_modes :: "GholaVenueAccountMode list"
  vm_venue_sees :: venue_sees
  vm_chain_sees :: chain_visibility
  vm_minimum_set :: int
  vm_pilot_bucket :: notional_bucket
  vm_blocked :: "GholaVenueBlockedOperation list"
  vm_commitment :: string
  vm_expires_at :: time

definition names_json :: "('a \<Rightarrow> string) \<Rightarrow> 'a list \<Rightarrow> json" where
  "names_json name xs = JArr (map (\<lambda>x. JStr (name x)) xs)"

definition manifest_json :: "GholaVenueManifest \<Rightarrow> json" where
  "manifest_json m = JObj [(''version'', JNum (num 1)), (''venue_id'', JStr (venue_id_name (vm_venue m))),
     (''platform_class'', JStr (platform_name (vm_platform m))), (''label'', JStr (vm_label m)),
     (''supported_account_modes'', names_json account_mode_name (vm_account_modes m)),
     (''default_account_mode'', JStr (account_mode_name (vm_default_mode m))),
     (''supported_actions'', names_json action_class_name (vm_actions m)),
     (''supported_operations'', names_json operation_name (vm_operations m)),
     (''supported_rails'', names_json account_rail_name (vm_rails m)),
     (''main_wallet_hidden_modes'', names_json account_mode_name (vm_wallet_hidden_modes m)),
     (''venue_account_hidden_modes'', names_json account_mode_name (vm_account_hidden_modes m)),
     (''venue_sees'', JStr (venue_sees_name (vm_venue_sees m))),
     (''public_chain_sees'', JStr (chain_visibility_name (vm_chain_sees m))),
     (''minimum_anonymity_set'', JNum (num (vm_minimum_set m))),
     (''pilot_max_notional_bucket'', JStr (bucket_text (vm_pilot_bucket m))),
     (''blocked_operations'', names_json blocked_operation_name (vm_blocked m)),
     (''expires_at'', JStr (to_iso (vm_expires_at m)))]"

text \<open>The commitment hashes the manifest without it.\<close>

definition manifest_of :: "host \<Rightarrow> GholaVenueId \<Rightarrow> GholaPlatformPrivacyProfile \<Rightarrow> time \<Rightarrow> GholaVenueManifest" where
  "manifest_of h v p now =
     (let modes = supportedVenueAccountModes v;
          default = (if Am_user_stealth \<in> set modes then Am_user_stealth
            else case modes of [] \<Rightarrow> Am_byo_account | m # ms \<Rightarrow> m);
          unsigned = \<lparr>vm_venue = v, vm_platform = venuePlatformClass v, vm_label = venueLabel v,
            vm_account_modes = modes, vm_default_mode = default, vm_actions = pp_products p,
            vm_operations = supportedVenueOperations v, vm_rails = pp_rails p,
            vm_wallet_hidden_modes = filter (\<lambda>m. m \<noteq> Am_byo_account) modes,
            vm_account_hidden_modes = (if Am_ghola_pooled \<in> set modes then [Am_ghola_pooled] else []),
            vm_venue_sees = defaultVenueVisibility v default, vm_chain_sees = pp_chain_sees p,
            vm_minimum_set = asp_consumer_min DEFAULT_ANONYMITY_SET_POLICY, vm_pilot_bucket = Bucket_5,
            vm_blocked = blockedVenueOperations v (executionModeForAccountMode default),
            vm_commitment = [], vm_expires_at = now + 24 * 60 * 60 * 1000\<rparr>
      in unsigned\<lparr>vm_commitment := gholaCommitment h ''venue_manifest'' (manifest_json unsigned)\<rparr>)"

definition getVenueManifest :: "host \<Rightarrow> GholaVenueId \<Rightarrow> time \<Rightarrow> GholaVenueManifest result" where
  "getVenueManifest h v now =
     and_then (getPlatformPrivacyProfile h (venuePlatformClass v)) (\<lambda>p. return_ok (manifest_of h v p now))"

definition listVenueManifests :: "host \<Rightarrow> time \<Rightarrow> GholaVenueManifest list result" where
  "listVenueManifests h now = map_result (\<lambda>v. getVenueManifest h v now)
     [V_hyperliquid, V_phoenix, V_drift, V_jupiter, V_backpack, V_coinbase_advanced, V_rfq_network]"

section \<open>Secrets and stealth accounts\<close>

record GholaSecretHandle =
  sh_commitment :: string
  sh_owner :: string
  sh_account :: string
  sh_venue :: GholaVenueId
  sh_platform :: GholaPlatformClass
  sh_mode :: GholaVenueAccountMode
  sh_purpose :: secret_purpose
  sh_recipient :: string
  sh_secret :: string
  sh_policy :: string
  sh_epoch :: jsnum
  sh_created_at :: time

definition createSecretHandle :: "host \<Rightarrow> string \<Rightarrow> string \<Rightarrow> GholaVenueId \<Rightarrow> GholaVenueAccountMode option \<Rightarrow>
    secret_purpose option \<Rightarrow> string \<Rightarrow> string \<Rightarrow> json \<Rightarrow> jsnum option \<Rightarrow> time \<Rightarrow> GholaSecretHandle" where
  "createSecretHandle h ow account v mode purpose secret recipient policy_seed epoch now =
     (let accountMode = or_default mode Am_user_stealth; use = or_default purpose For_venue_account;
          rotation = or_default epoch (num 0);
          policy = gholaCommitment h ''secret_handle_policy'' (JObj [(''owner_commitment'', JStr ow),
            (''account_commitment'', JStr account), (''venue_id'', JStr (venue_id_name v)),
            (''account_mode'', JStr (account_mode_name accountMode)), (''purpose'', JStr (secret_purpose_name use)),
            (''seed'', json_nullish policy_seed (JStr ''ghola-secret-gravity-v1''))]);
          seed = JObj [(''owner_commitment'', JStr ow), (''account_commitment'', JStr account),
            (''venue_id'', JStr (venue_id_name v)), (''account_mode'', JStr (account_mode_name accountMode)),
            (''encrypted_secret_commitment'', JStr secret), (''sealed_runtime_recipient_commitment'', JStr recipient),
            (''policy_commitment'', JStr policy), (''rotation_epoch'', JNum rotation)]
      in \<lparr>sh_commitment = gholaCommitment h ''secret_handle'' seed, sh_owner = ow, sh_account = account,
          sh_venue = v, sh_platform = venuePlatformClass v, sh_mode = accountMode, sh_purpose = use,
          sh_recipient = recipient, sh_secret = secret, sh_policy = policy, sh_epoch = rotation, sh_created_at = now\<rparr>)"

datatype stealth_status = Stealth_created | Stealth_funding_required | Stealth_ready | Stealth_rotated | Stealth_revoked

record GholaStealthVenueAccount =
  sv_commitment :: string
  sv_venue :: GholaVenueId
  sv_platform :: GholaPlatformClass
  sv_account :: string
  sv_secret :: string
  sv_funding :: "string option"
  sv_epoch_commitment :: string
  sv_wallet_exposed :: bool
  sv_visible_to_venue :: bool
  sv_status :: stealth_status
  sv_created_at :: time

definition createStealthVenueAccount :: "host \<Rightarrow> string \<Rightarrow> GholaVenueId \<Rightarrow> string \<Rightarrow> string option \<Rightarrow> jsnum option \<Rightarrow>
    time \<Rightarrow> GholaStealthVenueAccount" where
  "createStealthVenueAccount h account v secret funding epoch now =
     (let rotation = or_default epoch (num 0) in
      \<lparr>sv_commitment = gholaCommitment h ''stealth_venue_account'' (JObj [(''account_commitment'', JStr account),
         (''venue_id'', JStr (venue_id_name v)), (''secret_handle_commitment'', JStr secret),
         (''funding_evidence_commitment'', null_text funding), (''rotation_epoch'', JNum rotation)]),
       sv_venue = v, sv_platform = venuePlatformClass v, sv_account = account, sv_secret = secret, sv_funding = funding,
       sv_epoch_commitment = gholaCommitment h ''venue_rotation_epoch'' (JObj [(''account_commitment'', JStr account),
         (''venue_id'', JStr (venue_id_name v)), (''rotation_epoch'', JNum rotation)]),
       sv_wallet_exposed = False, sv_visible_to_venue = True,
       sv_status = (if has_text funding then Stealth_ready else Stealth_funding_required), sv_created_at = now\<rparr>)"

section \<open>Allocations\<close>

datatype utilization_bucket = Utilization_0 | Utilization_bucket notional_bucket

fun utilization_text :: "utilization_bucket \<Rightarrow> string" where
  "utilization_text Utilization_0 = ''0''"
| "utilization_text (Utilization_bucket b) = bucket_text b"

record GholaPooledVenueAllocation =
  po_commitment :: string
  po_venue :: GholaVenueId
  po_platform :: GholaPlatformClass
  po_account :: string
  po_pool :: string
  po_share :: string
  po_subledger :: string
  po_eligibility :: "string option"
  po_funding :: "string option"
  po_settlement :: "string option"
  po_utilization :: utilization_bucket
  po_wallet_exposed :: bool
  po_visible_to_venue :: bool
  po_status :: allocation_status
  po_created_at :: time

definition createPooledVenueAllocation :: "host \<Rightarrow> string \<Rightarrow> GholaVenueId \<Rightarrow> string option \<Rightarrow> string option \<Rightarrow>
    string option \<Rightarrow> utilization_bucket option \<Rightarrow> json \<Rightarrow> time \<Rightarrow> GholaPooledVenueAllocation" where
  "createPooledVenueAllocation h account v eligibility funding settlement utilization pool_seed now =
     (let pool = gholaCommitment h ''venue_pool'' (JObj [(''venue_id'', JStr (venue_id_name v)),
            (''platform_class'', JStr (platform_name (venuePlatformClass v))),
            (''seed'', json_nullish pool_seed (JStr ''ghola-pooled-venue-v1''))]);
          seed = JObj [(''account_commitment'', JStr account), (''venue_id'', JStr (venue_id_name v)),
            (''pool_commitment'', JStr pool), (''eligibility_commitment'', null_text eligibility),
            (''funding_evidence_commitment'', null_text funding), (''settlement_evidence_commitment'', null_text settlement)]
      in \<lparr>po_commitment = gholaCommitment h ''pooled_venue_allocation'' seed, po_venue = v,
          po_platform = venuePlatformClass v, po_account = account, po_pool = pool,
          po_share = gholaCommitment h ''pooled_venue_pool_share'' (JObj [(''account_commitment'', JStr account),
            (''venue_id'', JStr (venue_id_name v)), (''pool_commitment'', JStr pool),
            (''eligibility_commitment'', null_text eligibility)]),
          po_subledger = gholaCommitment h ''pooled_venue_subledger'' seed, po_eligibility = eligibility,
          po_funding = funding, po_settlement = settlement, po_utilization = or_default utilization Utilization_0,
          po_wallet_exposed = False, po_visible_to_venue = False,
          po_status = (if has_text eligibility \<or> has_text funding then Allocation_allocated else Allocation_pending_funding),
          po_created_at = now\<rparr>)"

record GholaOmnibusAllocation =
  om_account :: string
  om_pool :: string
  om_partner :: string
  om_subledger :: string
  om_commitment :: string
  om_funding :: "string option"
  om_utilization :: utilization_bucket
  om_status :: allocation_status
  om_supported :: "GholaVenueOperationClass list"
  om_blocked :: "GholaVenueBlockedOperation list"
  om_created_at :: time

definition createOmnibusAllocation :: "host \<Rightarrow> string \<Rightarrow> json \<Rightarrow> json \<Rightarrow> string option \<Rightarrow> utilization_bucket option \<Rightarrow>
    time \<Rightarrow> GholaOmnibusAllocation" where
  "createOmnibusAllocation h account pool_seed partner_seed funding utilization now =
     (let pool = gholaCommitment h ''omnibus_pool'' (json_nullish pool_seed (JStr ''coinbase-partner-pool-v1''));
          partner = gholaCommitment h ''omnibus_partner'' (json_nullish partner_seed (JStr ''partner-held-coinbase-v1''));
          subledger = gholaCommitment h ''omnibus_subledger_account'' (JObj [(''account_commitment'', JStr account),
            (''pool_commitment'', JStr pool), (''partner_commitment'', JStr partner)]);
          use = or_default utilization Utilization_0
      in \<lparr>om_account = account, om_pool = pool, om_partner = partner, om_subledger = subledger,
          om_commitment = gholaCommitment h ''omnibus_allocation'' (JObj [(''account_commitment'', JStr account),
            (''pool_commitment'', JStr pool), (''partner_commitment'', JStr partner),
            (''subledger_account_commitment'', JStr subledger), (''settlement_funding_commitment'', null_text funding),
            (''utilization_bucket'', JStr (utilization_text use))]),
          om_funding = funding, om_utilization = use,
          om_status = (if has_text funding then Allocation_allocated else Allocation_pending_funding),
          om_supported = supportedVenueOperations V_coinbase_advanced,
          om_blocked = blockedVenueOperations V_coinbase_advanced Em_partner_omnibus, om_created_at = now\<rparr>)"

datatype managed_mode = Managed_testnet | Managed_pooled | Managed_native_vault

fun managed_mode_name :: "managed_mode \<Rightarrow> string" where
  "managed_mode_name Managed_testnet = ''managed_testnet''"
| "managed_mode_name Managed_pooled = ''ghola_pooled''"
| "managed_mode_name Managed_native_vault = ''hyperliquid_native_vault''"

datatype hl_network = Testnet | Mainnet

fun network_name :: "hl_network \<Rightarrow> string" where
  "network_name Testnet = ''testnet''"
| "network_name Mainnet = ''mainnet''"

datatype funding_route = Route_hyperliquid_direct | Route_ghola_balance_bridge

datatype managed_chain_sees = Sees_no_settlement | Sees_funding_evidence_required | Sees_vault_deposit

datatype managed_venue_sees = Sees_execution_account | Sees_vault_address

record managed_input =
  mi_account :: string
  mi_policy :: "GholaHyperliquidSessionPolicy option"
  mi_mode :: "managed_mode option"
  mi_network :: "hl_network option"
  mi_vault_address :: "string option"
  mi_vault_controller :: "string option"
  mi_agent_wallet :: "string option"
  mi_deposit_evidence :: "string option"
  mi_deposit_status :: "deposit_state option"
  mi_funding_routes :: "funding_route list option"
  mi_eligibility :: "string option"
  mi_funding_evidence :: "string option"
  mi_pool_seed :: json
  mi_allocation_seed :: json

record GholaHyperliquidManagedAllocation =
  ma_mode :: managed_mode
  ma_network :: hl_network
  ma_account :: string
  ma_commitment :: string
  ma_policy :: string
  ma_pool :: string
  ma_share :: string
  ma_subledger :: string
  ma_vault_address :: "string option"
  ma_vault_controller :: "string option"
  ma_agent_wallet :: "string option"
  ma_deposit_evidence :: "string option"
  ma_deposit_status :: "deposit_state option"
  ma_funding_routes :: "funding_route list option"
  ma_eligibility :: "string option"
  ma_funding_evidence :: "string option"
  ma_status :: allocation_status
  ma_session_policy :: GholaHyperliquidSessionPolicy
  ma_allowed :: "GholaHyperliquidOperationClass list"
  ma_blocked :: "GholaHyperliquidBlockedOperation list"
  ma_wallet_exposed :: bool
  ma_venue_sees :: managed_venue_sees
  ma_chain_sees :: managed_chain_sees
  ma_created_at :: time

definition no_session_input :: "'op session_policy_input" where
  "no_session_input = \<lparr>si_markets = None, si_bucket = None, si_order_count = None, si_ttl_ms = None,
     si_kill_switch = None, si_operations = None, si_strategy = JUndef, si_prompt = JUndef\<rparr>"

definition managed_pool_seed :: "managed_mode \<Rightarrow> string" where
  "managed_pool_seed mode =
     (if mode = Managed_native_vault then ''ghola-native-vault-mainnet-v1''
      else if mode = Managed_pooled then ''ghola-pooled-mainnet-v1'' else ''ghola-managed-testnet-v1'')"

definition managed_status :: "managed_mode \<Rightarrow> deposit_state option \<Rightarrow> string option \<Rightarrow> allocation_status" where
  "managed_status mode deposit eligibility =
     (if mode = Managed_native_vault
      then (if deposit \<in> {Some Deposit_confirmed, Some Deposit_withdraw_locked, Some Deposit_withdrawable}
        then Allocation_allocated else Allocation_pending_funding)
      else if mode = Managed_pooled \<and> \<not> has_text eligibility then Allocation_pending_funding
      else Allocation_allocated)"

definition managed_with :: "host \<Rightarrow> managed_input \<Rightarrow> time \<Rightarrow> GholaHyperliquidSessionPolicy \<Rightarrow>
    GholaHyperliquidManagedAllocation" where
  "managed_with h inp now policy =
     (let mode = or_default (mi_mode inp) Managed_testnet;
          network = (if mode = Managed_testnet then Testnet else or_default (mi_network inp) Mainnet);
          pool = gholaCommitment h ''hyperliquid_managed_pool'' (JObj
            [(''seed'', json_nullish (mi_pool_seed inp) (JStr (managed_pool_seed mode))),
             (''execution_mode'', JStr (managed_mode_name mode)), (''network'', JStr (network_name network)),
             (''vault_address'', null_text (mi_vault_address inp))]);
          share = gholaCommitment h ''hyperliquid_pool_share'' (JObj [(''account_commitment'', JStr (mi_account inp)),
            (''pool_commitment'', JStr pool), (''eligibility_commitment'', null_text (mi_eligibility inp)),
            (''vault_address'', null_text (mi_vault_address inp))]);
          subledger = gholaCommitment h ''hyperliquid_managed_subledger'' (JObj
            [(''account_commitment'', JStr (mi_account inp)), (''pool_commitment'', JStr pool),
             (''pool_share_commitment'', JStr share)]);
          seed = JObj [(''account_commitment'', JStr (mi_account inp)), (''execution_mode'', JStr (managed_mode_name mode)),
            (''network'', JStr (network_name network)), (''pool_commitment'', JStr pool),
            (''pool_share_commitment'', JStr share), (''subledger_account_commitment'', JStr subledger),
            (''policy_commitment'', JStr (hp_commitment policy)), (''vault_address'', null_text (mi_vault_address inp)),
            (''vault_controller_address'', null_text (mi_vault_controller inp)),
            (''agent_wallet_commitment'', null_text (mi_agent_wallet inp)),
            (''deposit_evidence_commitment'', null_text (mi_deposit_evidence inp)),
            (''deposit_status'', JStr (deposit_state_name (or_default (mi_deposit_status inp) Deposit_unfunded))),
            (''eligibility_commitment'', null_text (mi_eligibility inp)),
            (''funding_evidence_commitment'', null_text (mi_funding_evidence inp)),
            (''allocation_seed'', json_nullish (mi_allocation_seed inp) (JStr ''worker-bound-allocation''))]
      in \<lparr>ma_mode = mode, ma_network = network, ma_account = mi_account inp,
          ma_commitment = gholaCommitment h ''hyperliquid_managed_allocation'' seed, ma_policy = hp_commitment policy,
          ma_pool = pool, ma_share = share, ma_subledger = subledger, ma_vault_address = mi_vault_address inp,
          ma_vault_controller = mi_vault_controller inp, ma_agent_wallet = mi_agent_wallet inp,
          ma_deposit_evidence = mi_deposit_evidence inp,
          ma_deposit_status = nullish (mi_deposit_status inp)
            (if mode = Managed_native_vault then Some Deposit_unfunded else None),
          ma_funding_routes = nullish (mi_funding_routes inp) (if mode = Managed_native_vault
            then Some [Route_hyperliquid_direct, Route_ghola_balance_bridge] else None),
          ma_eligibility = mi_eligibility inp, ma_funding_evidence = mi_funding_evidence inp,
          ma_status = managed_status mode (mi_deposit_status inp) (mi_eligibility inp), ma_session_policy = policy,
          ma_allowed = hl_operations, ma_blocked = hl_blocked_operations, ma_wallet_exposed = False,
          ma_venue_sees = (if mode = Managed_native_vault then Sees_vault_address else Sees_execution_account),
          ma_chain_sees = (if mode = Managed_native_vault then Sees_vault_deposit
            else if mode = Managed_pooled then Sees_funding_evidence_required else Sees_no_settlement),
          ma_created_at = now\<rparr>)"

definition createHyperliquidManagedAllocation :: "host \<Rightarrow> managed_input \<Rightarrow> time \<Rightarrow> GholaHyperliquidManagedAllocation result" where
  "createHyperliquidManagedAllocation h inp now =
     and_then (case mi_policy inp of Some p \<Rightarrow> return_ok p
        | None \<Rightarrow> createHyperliquidSessionPolicy h no_session_input now)
       (\<lambda>policy. return_ok (managed_with h inp now policy))"

section \<open>Eligibility\<close>

record GholaVenueEligibilityCredential =
  el_commitment :: string
  el_owner :: string
  el_account :: string
  el_venue :: GholaVenueId
  el_platform :: GholaPlatformClass
  el_type :: credential_type
  el_expires_at :: time
  el_created_at :: time

definition createVenueEligibilityCredential :: "host \<Rightarrow> string \<Rightarrow> string \<Rightarrow> GholaVenueId \<Rightarrow> credential_type option \<Rightarrow>
    jsnum option \<Rightarrow> time \<Rightarrow> GholaVenueEligibilityCredential result" where
  "createVenueEligibilityCredential h ow account v type ttl now =
     and_then (date_after now (num_max (num 60000) (or_default ttl (num (30 * 24 * 60 * 60 * 1000))))) (\<lambda>expires.
       let credential = or_default type Credential_self_attested_eligible_user in
       return_ok \<lparr>el_commitment = gholaCommitment h ''venue_eligibility'' (JObj [(''owner_commitment'', JStr ow),
           (''account_commitment'', JStr account), (''venue_id'', JStr (venue_id_name v)),
           (''platform_class'', JStr (platform_name (venuePlatformClass v))),
           (''credential_type'', JStr (credential_type_name credential)),
           (''credential_scope'', JStr ''eligible_venue_access_only''), (''expires_at'', JStr (to_iso expires))]),
         el_owner = ow, el_account = account, el_venue = v, el_platform = venuePlatformClass v, el_type = credential,
         el_expires_at = expires, el_created_at = now\<rparr>)"

end
