(* ===== verification/AccountStore.thy ===== *)
theory AccountStore imports AccountReceipt
begin

text \<open>
  \<open>apps/web/src/lib/private-account-store.ts\<close>, the in-memory branch of the tables behind the intents, the
  queue and the sealed auction: a table is a \<open>Map\<close>, an association list in insertion order, and each
  function takes the store and returns its answer or the next store. Dates are numbers; the ISO strings
  of the code sort like them.
\<close>

section \<open>Records\<close>

datatype PrivateAccountIntentStatus =
    It_created | It_previewed | It_approved | It_executed | It_blocked | It_expired | It_cancelled

fun intent_status_name :: "PrivateAccountIntentStatus \<Rightarrow> string" where
  "intent_status_name It_created = ''created''"
| "intent_status_name It_previewed = ''previewed''"
| "intent_status_name It_approved = ''approved''"
| "intent_status_name It_executed = ''executed''"
| "intent_status_name It_blocked = ''blocked''"
| "intent_status_name It_expired = ''expired''"
| "intent_status_name It_cancelled = ''cancelled''"

record PrivateAccountIntentRecordV1 =
  it_owner :: string
  it_id :: string
  it_account :: string
  it_action :: string
  it_class :: GholaPrivateAccountActionClass
  it_bucket :: string
  it_policy :: string
  it_intent :: string
  it_status :: PrivateAccountIntentStatus
  it_created_at :: time
  it_expires_at :: time

record PrivateAccountPreviewRecordV1 =
  pr_owner :: string
  pr_commitment :: string
  pr_intent_id :: string
  pr_account :: string
  pr_action :: string
  pr_platform :: GholaPlatformClass
  pr_rail :: GholaRailKind
  pr_claim_status :: GholaClaimStatus
  pr_level :: GholaAnonymityLevel
  pr_preview :: GholaPrivacyPreview
  pr_created_at :: time
  pr_expires_at :: time
  pr_consumed_at :: "time option"

record PrivateAccountRecordV1 =
  ar_owner :: string
  ar_commitment :: string
  ar_session :: string
  ar_wallet :: string
  ar_vault_root :: string
  ar_note_root :: string
  ar_nullifier_root :: string
  ar_platform_root :: string
  ar_policy :: string
  ar_vault_ready :: bool
  ar_account :: GholaPrivateExecutionAccount
  ar_created_at :: time
  ar_updated_at :: time

record PrivateVaultStateRecordV1 =
  vs_owner :: string
  vs_account :: string
  vs_vault_root :: string
  vs_note_root :: string
  vs_nullifier_root :: string
  vs_balance_buckets :: "string list"
  vs_ready_rails :: "GholaRailKind list"
  vs_last_import :: "string option"
  vs_created_at :: time
  vs_updated_at :: time

record PrivatePrivacyBudgetRecordV1 =
  bud_owner :: string
  bud_account :: string
  bud_budget :: GholaPrivacyBudget
  bud_updated_at :: time

datatype queue_status = Q_queued | Q_ready | Q_expired | Q_cancelled | Q_executed

fun queue_status_name :: "queue_status \<Rightarrow> string" where
  "queue_status_name Q_queued = ''queued''"
| "queue_status_name Q_ready = ''ready''"
| "queue_status_name Q_expired = ''expired''"
| "queue_status_name Q_cancelled = ''cancelled''"
| "queue_status_name Q_executed = ''executed''"

record PrivateQueuedActionRecordV1 =
  aq_id :: string
  aq_owner :: string
  aq_account :: string
  aq_intent_id :: string
  aq_action :: string
  aq_latest_preview :: string
  aq_platform :: GholaPlatformClass
  aq_rail :: GholaRailKind
  aq_wait_reasons :: "string list"
  aq_target_set :: jsnum
  aq_current_set :: jsnum
  aq_status :: queue_status
  aq_created_at :: time
  aq_expires_at :: time
  aq_updated_at :: time

text \<open>The platform, the action class and the side of an auction record come from a payload of texts by a
  cast, so they are texts here.\<close>

datatype GholaAuctionLifecycleStatus =
    Auction_open | Auction_closing | Auction_cleared | Auction_settling | Auction_settled
  | Auction_expired | Auction_failed

fun auction_status_name :: "GholaAuctionLifecycleStatus \<Rightarrow> string" where
  "auction_status_name Auction_open = ''open''"
| "auction_status_name Auction_closing = ''closing''"
| "auction_status_name Auction_cleared = ''cleared''"
| "auction_status_name Auction_settling = ''settling''"
| "auction_status_name Auction_settled = ''settled''"
| "auction_status_name Auction_expired = ''expired''"
| "auction_status_name Auction_failed = ''failed''"

record PrivateAuctionEpochRecordV1 =
  ae_owner :: string
  ae_account :: string
  ae_commitment :: string
  ae_market :: string
  ae_platform :: string
  ae_asset :: string
  ae_amount :: string
  ae_status :: GholaAuctionLifecycleStatus
  ae_order_count :: int
  ae_matched_count :: int
  ae_rolled_count :: int
  ae_opened_at :: time
  ae_closes_at :: time
  ae_updated_at :: time

datatype auction_order_status =
    Order_committed | Order_matched | Order_rolled | Order_settled | Order_cancelled | Order_expired

fun auction_order_status_name :: "auction_order_status \<Rightarrow> string" where
  "auction_order_status_name Order_committed = ''committed''"
| "auction_order_status_name Order_matched = ''matched''"
| "auction_order_status_name Order_rolled = ''rolled''"
| "auction_order_status_name Order_settled = ''settled''"
| "auction_order_status_name Order_cancelled = ''cancelled''"
| "auction_order_status_name Order_expired = ''expired''"

record PrivateAuctionOrderRecordV1 =
  ao_owner :: string
  ao_account :: string
  ao_commitment :: string
  ao_epoch :: string
  ao_queue_id :: string
  ao_intent_id :: string
  ao_action :: string
  ao_class :: string
  ao_platform :: string
  ao_side :: string
  ao_asset :: string
  ao_amount :: string
  ao_status :: auction_order_status
  ao_created_at :: time
  ao_updated_at :: time

datatype clearing_status = Clearing_cleared | Clearing_settled | Clearing_failed

fun clearing_status_name :: "clearing_status \<Rightarrow> string" where
  "clearing_status_name Clearing_cleared = ''cleared''"
| "clearing_status_name Clearing_settled = ''settled''"
| "clearing_status_name Clearing_failed = ''failed''"

record PrivateAuctionClearingRecordV1 =
  al_owner :: string
  al_account :: string
  al_commitment :: string
  al_epoch :: string
  al_status :: clearing_status
  al_price :: string
  al_matched :: "string list"
  al_rolled :: "string list"
  al_proof :: string
  al_settlement :: "string option"
  al_created_at :: time
  al_updated_at :: time

datatype PrivateAuctionPreparedOperation =
    Prep_init_market | Prep_open_epoch | Prep_commit_order | Prep_close_epoch | Prep_settle_clearing

fun prepared_operation_name :: "PrivateAuctionPreparedOperation \<Rightarrow> string" where
  "prepared_operation_name Prep_init_market = ''init_market''"
| "prepared_operation_name Prep_open_epoch = ''open_epoch''"
| "prepared_operation_name Prep_commit_order = ''commit_order''"
| "prepared_operation_name Prep_close_epoch = ''close_epoch''"
| "prepared_operation_name Prep_settle_clearing = ''settle_clearing''"

datatype prepared_status = Tx_prepared | Tx_confirmed | Tx_expired | Tx_rejected

fun prepared_status_name :: "prepared_status \<Rightarrow> string" where
  "prepared_status_name Tx_prepared = ''prepared''"
| "prepared_status_name Tx_confirmed = ''confirmed''"
| "prepared_status_name Tx_expired = ''expired''"
| "prepared_status_name Tx_rejected = ''rejected''"

record PrivateAuctionPreparedTransactionRecordV1 =
  at_reference :: string
  at_owner :: string
  at_account :: string
  at_operation :: PrivateAuctionPreparedOperation
  at_transaction :: string
  at_payload :: "(string \<times> json) list"
  at_status :: prepared_status
  at_signature :: "string option"
  at_created_at :: time
  at_expires_at :: time
  at_updated_at :: time

datatype PrivateFundingStatus = Fund_pending | Fund_imported | Fund_rejected | Fund_expired

fun funding_status_name :: "PrivateFundingStatus \<Rightarrow> string" where
  "funding_status_name Fund_pending = ''pending''"
| "funding_status_name Fund_imported = ''imported''"
| "funding_status_name Fund_rejected = ''rejected''"
| "funding_status_name Fund_expired = ''expired''"

text \<open>There is one rail, \<open>custom_shielded_deposit\<close>, so the records leave it out.\<close>

record PrivateFundingInstructionRecordV1 =
  fin_id :: string
  fin_owner :: string
  fin_account :: string
  fin_commitment :: string
  fin_asset :: string
  fin_amount :: string
  fin_destination_commitment :: string
  fin_destination :: string
  fin_status :: PrivateFundingStatus
  fin_created_at :: time
  fin_expires_at :: time
  fin_updated_at :: time

datatype verifier_status = Ver_verified | Ver_rejected | Ver_stale | Ver_insufficient_confirmations

fun verifier_status_name :: "verifier_status \<Rightarrow> string" where
  "verifier_status_name Ver_verified = ''verified''"
| "verifier_status_name Ver_rejected = ''rejected''"
| "verifier_status_name Ver_stale = ''stale''"
| "verifier_status_name Ver_insufficient_confirmations = ''insufficient_confirmations''"

record PrivateFundingImportRecordV1 =
  fim_commitment :: string
  fim_owner :: string
  fim_account :: string
  fim_intent_id :: string
  fim_intent_commitment :: string
  fim_receipt :: string
  fim_nullifier :: string
  fim_note_root :: string
  fim_amount :: string
  fim_asset :: string
  fim_verifier_status :: verifier_status
  fim_verifier :: string
  fim_observed_at :: time
  fim_head :: string
  fim_depth :: jsnum
  fim_network :: string
  fim_rejection :: "string option"
  fim_imported_at :: time

datatype PrivateGholaBalanceVenueId = At_ghola | At_hyperliquid

datatype PrivateGholaBalanceEntryKind =
    Gl_deposit_credit | Gl_margin_reserved | Gl_order_submitted | Gl_fill_reconciled | Gl_pnl_settled
  | Gl_margin_released | Gl_withdrawal_debit | Gl_admin_adjustment

record PrivateGholaBalanceLedgerEntryRecordV1 =
  gle_id :: string
  gle_owner :: string
  gle_account :: string
  gle_key :: string
  gle_kind :: PrivateGholaBalanceEntryKind
  gle_venue :: PrivateGholaBalanceVenueId
  gle_available :: int
  gle_reserved :: int
  gle_open_notional :: int
  gle_realized_pnl :: int
  gle_unrealized_pnl :: int
  gle_reference :: "string option"
  gle_reason :: "string option"
  gle_created_at :: time

record PrivateGholaBalanceSnapshotV1 =
  gbs_owner :: string
  gbs_account :: string
  gbs_available :: int
  gbs_reserved :: int
  gbs_open_notional :: int
  gbs_realized_pnl :: int
  gbs_unrealized_pnl :: int
  gbs_equity :: int
  gbs_withdrawable :: int
  gbs_entry_count :: nat
  gbs_updated_at :: "time option"

record PrivateCoordinatorLockRecordV1 =
  lk_id :: string
  lk_run :: string
  lk_acquired_at :: time
  lk_expires_at :: time

text \<open>The work order and the result of a connector are kept as the objects they are; only the status and
  the dates of a work order are changed by the code here.\<close>

record PrivateConnectorWorkOrderRecordV1 =
  wo_commitment :: string
  wo_owner :: string
  wo_intent_id :: string
  wo_account :: string
  wo_action :: string
  wo_preview :: string
  wo_approval :: "string option"
  wo_plan :: "string option"
  wo_platform :: GholaPlatformClass
  wo_status :: string
  wo_order :: "(string, json) jsmap"
  wo_created_at :: time
  wo_updated_at :: time

record PrivateConnectorResultRecordV1 =
  cr_commitment :: string
  cr_work_order :: string
  cr_owner :: string
  cr_intent_id :: string
  cr_platform :: GholaPlatformClass
  cr_status :: string
  cr_result :: json
  cr_created_at :: time
  cr_updated_at :: time

section \<open>The store\<close>

record account_store =
  st_accounts :: "(string, PrivateAccountRecordV1) jsmap"
  st_vaults :: "(string, PrivateVaultStateRecordV1) jsmap"
  st_budgets :: "(string, PrivatePrivacyBudgetRecordV1) jsmap"
  st_intents :: "(string, PrivateAccountIntentRecordV1) jsmap"
  st_previews :: "(string, PrivateAccountPreviewRecordV1) jsmap"
  st_queue :: "(string, PrivateQueuedActionRecordV1) jsmap"
  st_epochs :: "(string, PrivateAuctionEpochRecordV1) jsmap"
  st_orders :: "(string, PrivateAuctionOrderRecordV1) jsmap"
  st_clearings :: "(string, PrivateAuctionClearingRecordV1) jsmap"
  st_prepared :: "(string, PrivateAuctionPreparedTransactionRecordV1) jsmap"
  st_instructions :: "(string, PrivateFundingInstructionRecordV1) jsmap"
  st_imports :: "(string, PrivateFundingImportRecordV1) jsmap"
  st_ledger :: "(string, PrivateGholaBalanceLedgerEntryRecordV1) jsmap"
  st_locks :: "(string, PrivateCoordinatorLockRecordV1) jsmap"
  st_work_orders :: "(string, PrivateConnectorWorkOrderRecordV1) jsmap"
  st_results :: "(string, PrivateConnectorResultRecordV1) jsmap"

definition empty_account_store :: account_store where
  "empty_account_store = \<lparr>st_accounts = [], st_vaults = [], st_budgets = [], st_intents = [], st_previews = [],
     st_queue = [], st_epochs = [], st_orders = [], st_clearings = [], st_prepared = [], st_instructions = [],
     st_imports = [], st_ledger = [], st_locks = [], st_work_orders = [], st_results = []\<rparr>"

section \<open>Accounts, vaults and budgets\<close>

definition putPrivateAccountRecord :: "PrivateAccountRecordV1 \<Rightarrow> account_store \<Rightarrow> account_store" where
  "putPrivateAccountRecord r st = st\<lparr>st_accounts := js_set (st_accounts st) (ar_commitment r) r\<rparr>"

definition getPrivateAccountByOwner :: "account_store \<Rightarrow> string \<Rightarrow> PrivateAccountRecordV1 option" where
  "getPrivateAccountByOwner st owner = find (\<lambda>r. ar_owner r = owner) (js_values (st_accounts st))"

definition getPrivateAccountByCommitment :: "account_store \<Rightarrow> string \<Rightarrow> PrivateAccountRecordV1 option" where
  "getPrivateAccountByCommitment st account = js_get (st_accounts st) account"

definition putPrivateVaultState :: "PrivateVaultStateRecordV1 \<Rightarrow> account_store \<Rightarrow> account_store" where
  "putPrivateVaultState r st = st\<lparr>st_vaults := js_set (st_vaults st) (vs_account r) r\<rparr>"

definition getPrivateVaultState :: "account_store \<Rightarrow> string \<Rightarrow> PrivateVaultStateRecordV1 option" where
  "getPrivateVaultState st account = js_get (st_vaults st) account"

definition putPrivacyBudget :: "PrivatePrivacyBudgetRecordV1 \<Rightarrow> account_store \<Rightarrow> account_store" where
  "putPrivacyBudget r st = st\<lparr>st_budgets := js_set (st_budgets st) (bud_account r) r\<rparr>"

definition getPrivacyBudget :: "account_store \<Rightarrow> string \<Rightarrow> PrivatePrivacyBudgetRecordV1 option" where
  "getPrivacyBudget st account = js_get (st_budgets st) account"

definition defaultBudget :: GholaPrivacyBudget where
  "defaultBudget = \<lparr>pb_degraded_action_count = Some (num 0), pb_repeated_withdrawal_count = Some (num 0),
     pb_repeated_cadence_count = Some (num 0), pb_platform_concentration_bps = Some (num 0),
     pb_solver_concentration_bps = Some (num 0)\<rparr>"

section \<open>Intents, previews and the queue\<close>

definition putPrivateAccountIntent :: "PrivateAccountIntentRecordV1 \<Rightarrow> account_store \<Rightarrow> account_store" where
  "putPrivateAccountIntent r st = st\<lparr>st_intents := js_set (st_intents st) (it_id r) r\<rparr>"

definition getPrivateAccountIntent :: "account_store \<Rightarrow> string \<Rightarrow> PrivateAccountIntentRecordV1 option" where
  "getPrivateAccountIntent st i = js_get (st_intents st) i"

definition updatePrivateAccountIntentStatus :: "string \<Rightarrow> PrivateAccountIntentStatus \<Rightarrow> account_store \<Rightarrow> account_store" where
  "updatePrivateAccountIntentStatus i status st = (case getPrivateAccountIntent st i of
       None \<Rightarrow> st
     | Some r \<Rightarrow> st\<lparr>st_intents := js_set (st_intents st) i (r\<lparr>it_status := status\<rparr>)\<rparr>)"

definition putPrivateAccountPreview :: "PrivateAccountPreviewRecordV1 \<Rightarrow> account_store \<Rightarrow> account_store" where
  "putPrivateAccountPreview r st = st\<lparr>st_previews := js_set (st_previews st) (pr_commitment r) r\<rparr>"

definition getPrivateAccountPreview :: "account_store \<Rightarrow> string \<Rightarrow> PrivateAccountPreviewRecordV1 option" where
  "getPrivateAccountPreview st p = js_get (st_previews st) p"

definition consumePrivateAccountPreview :: "string \<Rightarrow> time \<Rightarrow> account_store \<Rightarrow> account_store" where
  "consumePrivateAccountPreview p consumed st = (case getPrivateAccountPreview st p of
       None \<Rightarrow> st
     | Some r \<Rightarrow> st\<lparr>st_previews := js_set (st_previews st) p (r\<lparr>pr_consumed_at := Some consumed\<rparr>)\<rparr>)"

definition putQueuedAction :: "PrivateQueuedActionRecordV1 \<Rightarrow> account_store \<Rightarrow> account_store" where
  "putQueuedAction r st = st\<lparr>st_queue := js_set (st_queue st) (aq_id r) r\<rparr>"

definition getQueuedAction :: "account_store \<Rightarrow> string \<Rightarrow> PrivateQueuedActionRecordV1 option" where
  "getQueuedAction st q = js_get (st_queue st) q"

definition updateQueuedActionStatus :: "string \<Rightarrow> queue_status \<Rightarrow> time \<Rightarrow> account_store \<Rightarrow> account_store" where
  "updateQueuedActionStatus q status now st = (case getQueuedAction st q of
       None \<Rightarrow> st
     | Some r \<Rightarrow> putQueuedAction (r\<lparr>aq_status := status, aq_updated_at := now\<rparr>) st)"

text \<open>\<open>Math.max(1, Math.min(bound, Math.floor(limit)))\<close>, and the lists that are cut there.\<close>

definition safe_limit :: "int \<Rightarrow> int \<Rightarrow> nat" where
  "safe_limit bound limit = nat (max 1 (min bound limit))"

definition newest_first :: "('a \<Rightarrow> time) \<Rightarrow> 'a list \<Rightarrow> 'a list" where
  "newest_first stamp = sort_by (\<lambda>a b. stamp b \<le> stamp a)"

definition oldest_first :: "('a \<Rightarrow> time) \<Rightarrow> 'a list \<Rightarrow> 'a list" where
  "oldest_first stamp = sort_by (\<lambda>a b. stamp a \<le> stamp b)"

definition listQueuedActions :: "account_store \<Rightarrow> string \<Rightarrow> int \<Rightarrow> PrivateQueuedActionRecordV1 list" where
  "listQueuedActions st owner limit = take (safe_limit 100 limit)
     (newest_first aq_created_at (filter (\<lambda>r. aq_owner r = owner) (js_values (st_queue st))))"

definition listAllQueuedActions :: "account_store \<Rightarrow> int \<Rightarrow> PrivateQueuedActionRecordV1 list" where
  "listAllQueuedActions st limit = take (safe_limit 1000 limit) (newest_first aq_updated_at (js_values (st_queue st)))"

section \<open>Auction tables\<close>

definition putPrivateAuctionEpoch :: "PrivateAuctionEpochRecordV1 \<Rightarrow> account_store \<Rightarrow> account_store" where
  "putPrivateAuctionEpoch r st = st\<lparr>st_epochs := js_set (st_epochs st) (ae_commitment r) r\<rparr>"

definition getPrivateAuctionEpoch :: "account_store \<Rightarrow> string \<Rightarrow> PrivateAuctionEpochRecordV1 option" where
  "getPrivateAuctionEpoch st e = js_get (st_epochs st) e"

definition getOpenPrivateAuctionEpoch :: "account_store \<Rightarrow> string \<Rightarrow> string \<Rightarrow> string \<Rightarrow> string \<Rightarrow> time \<Rightarrow>
    PrivateAuctionEpochRecordV1 option" where
  "getOpenPrivateAuctionEpoch st owner platform asset amount now =
     (case newest_first ae_opened_at (filter (\<lambda>r. ae_owner r = owner \<and> ae_platform r = platform \<and> ae_asset r = asset \<and>
          ae_amount r = amount \<and> ae_status r = Auction_open \<and> now < ae_closes_at r) (js_values (st_epochs st))) of
        [] \<Rightarrow> None
      | r # rest \<Rightarrow> Some r)"

definition listPrivateAuctionEpochs :: "account_store \<Rightarrow> string \<Rightarrow> int \<Rightarrow> PrivateAuctionEpochRecordV1 list" where
  "listPrivateAuctionEpochs st owner limit = take (safe_limit 100 limit)
     (newest_first ae_updated_at (filter (\<lambda>r. ae_owner r = owner) (js_values (st_epochs st))))"

definition putPrivateAuctionOrder :: "PrivateAuctionOrderRecordV1 \<Rightarrow> account_store \<Rightarrow> account_store" where
  "putPrivateAuctionOrder r st = st\<lparr>st_orders := js_set (st_orders st) (ao_commitment r) r\<rparr>"

definition getPrivateAuctionOrderByQueue :: "account_store \<Rightarrow> string \<Rightarrow> PrivateAuctionOrderRecordV1 option" where
  "getPrivateAuctionOrderByQueue st q = find (\<lambda>r. ao_queue_id r = q) (js_values (st_orders st))"

definition listPrivateAuctionOrders :: "account_store \<Rightarrow> string \<Rightarrow> int \<Rightarrow> PrivateAuctionOrderRecordV1 list" where
  "listPrivateAuctionOrders st owner limit = take (safe_limit 100 limit)
     (newest_first ao_updated_at (filter (\<lambda>r. ao_owner r = owner) (js_values (st_orders st))))"

definition listPrivateAuctionOrdersByEpoch :: "account_store \<Rightarrow> string \<Rightarrow> PrivateAuctionOrderRecordV1 list" where
  "listPrivateAuctionOrdersByEpoch st e =
     oldest_first ao_created_at (filter (\<lambda>r. ao_epoch r = e) (js_values (st_orders st)))"

definition putPrivateAuctionClearing :: "PrivateAuctionClearingRecordV1 \<Rightarrow> account_store \<Rightarrow> account_store" where
  "putPrivateAuctionClearing r st = st\<lparr>st_clearings := js_set (st_clearings st) (al_commitment r) r\<rparr>"

definition getPrivateAuctionClearing :: "account_store \<Rightarrow> string \<Rightarrow> PrivateAuctionClearingRecordV1 option" where
  "getPrivateAuctionClearing st c = js_get (st_clearings st) c"

definition getPrivateAuctionClearingByEpoch :: "account_store \<Rightarrow> string \<Rightarrow> PrivateAuctionClearingRecordV1 option" where
  "getPrivateAuctionClearingByEpoch st e = find (\<lambda>r. al_epoch r = e) (js_values (st_clearings st))"

definition listPrivateAuctionClearings :: "account_store \<Rightarrow> string \<Rightarrow> int \<Rightarrow> PrivateAuctionClearingRecordV1 list" where
  "listPrivateAuctionClearings st owner limit = take (safe_limit 100 limit)
     (newest_first al_updated_at (filter (\<lambda>r. al_owner r = owner) (js_values (st_clearings st))))"

definition putPrivateAuctionPreparedTransaction :: "PrivateAuctionPreparedTransactionRecordV1 \<Rightarrow> account_store \<Rightarrow> account_store" where
  "putPrivateAuctionPreparedTransaction r st = st\<lparr>st_prepared := js_set (st_prepared st) (at_reference r) r\<rparr>"

definition getPrivateAuctionPreparedTransaction :: "account_store \<Rightarrow> string \<Rightarrow> PrivateAuctionPreparedTransactionRecordV1 option" where
  "getPrivateAuctionPreparedTransaction st reference = js_get (st_prepared st) reference"

section \<open>Funding tables\<close>

definition putPrivateFundingInstruction :: "PrivateFundingInstructionRecordV1 \<Rightarrow> account_store \<Rightarrow> account_store" where
  "putPrivateFundingInstruction r st = st\<lparr>st_instructions := js_set (st_instructions st) (fin_id r) r\<rparr>"

definition getPrivateFundingInstruction :: "account_store \<Rightarrow> string \<Rightarrow> PrivateFundingInstructionRecordV1 option" where
  "getPrivateFundingInstruction st i = js_get (st_instructions st) i"

definition listPrivateFundingInstructions :: "account_store \<Rightarrow> string \<Rightarrow> int \<Rightarrow> PrivateFundingInstructionRecordV1 list" where
  "listPrivateFundingInstructions st owner limit = take (safe_limit 100 limit)
     (newest_first fin_created_at (filter (\<lambda>r. fin_owner r = owner) (js_values (st_instructions st))))"

definition putPrivateFundingImport :: "PrivateFundingImportRecordV1 \<Rightarrow> account_store \<Rightarrow> account_store" where
  "putPrivateFundingImport r st = st\<lparr>st_imports := js_set (st_imports st) (fim_commitment r) r\<rparr>"

definition getPrivateFundingImportByNullifier :: "account_store \<Rightarrow> string \<Rightarrow> PrivateFundingImportRecordV1 option" where
  "getPrivateFundingImportByNullifier st n = find (\<lambda>r. fim_nullifier r = n) (js_values (st_imports st))"

definition listPrivateFundingImports :: "account_store \<Rightarrow> string \<Rightarrow> int \<Rightarrow> PrivateFundingImportRecordV1 list" where
  "listPrivateFundingImports st owner limit = take (safe_limit 100 limit)
     (newest_first fim_imported_at (filter (\<lambda>r. fim_owner r = owner) (js_values (st_imports st))))"

definition listAllPrivateFundingImports :: "account_store \<Rightarrow> int \<Rightarrow> PrivateFundingImportRecordV1 list" where
  "listAllPrivateFundingImports st limit = take (safe_limit 5000 limit)
     (newest_first fim_imported_at (js_values (st_imports st)))"

definition listCompatibleFundingImports :: "account_store \<Rightarrow> string \<Rightarrow> string \<Rightarrow> int \<Rightarrow> PrivateFundingImportRecordV1 list" where
  "listCompatibleFundingImports st asset amount limit = take (safe_limit 500 limit)
     (newest_first fim_imported_at (filter (\<lambda>r. fim_asset r = asset \<and> fim_amount r = amount \<and>
        fim_verifier_status r = Ver_verified) (js_values (st_imports st))))"

section \<open>The balance ledger\<close>

definition putGholaBalanceLedgerEntry :: "PrivateGholaBalanceLedgerEntryRecordV1 \<Rightarrow> account_store \<Rightarrow>
    PrivateGholaBalanceLedgerEntryRecordV1 \<times> account_store" where
  "putGholaBalanceLedgerEntry r st = (case js_get (st_ledger st) (gle_id r) of
       Some existing \<Rightarrow> (existing, st)
     | None \<Rightarrow> (case find (\<lambda>e. gle_account e = gle_account r \<and> gle_key e = gle_key r) (js_values (st_ledger st)) of
           Some existing \<Rightarrow> (existing, st)
         | None \<Rightarrow> (r, st\<lparr>st_ledger := js_set (st_ledger st) (gle_id r) r\<rparr>)))"

text \<open>The newest entries, oldest first (\<open>slice(-limit)\<close>).\<close>

definition listGholaBalanceLedgerEntries :: "account_store \<Rightarrow> string \<Rightarrow> int \<Rightarrow>
    PrivateGholaBalanceLedgerEntryRecordV1 list" where
  "listGholaBalanceLedgerEntries st account limit =
     (let entries = oldest_first gle_created_at (filter (\<lambda>e. gle_account e = account) (js_values (st_ledger st)))
      in drop (length entries - safe_limit 1000 limit) entries)"

definition later_of :: "time option \<Rightarrow> time \<Rightarrow> time option" where
  "later_of latest stamp = (case latest of None \<Rightarrow> Some stamp | Some t \<Rightarrow> Some (max t stamp))"

definition getGholaBalanceSnapshot :: "account_store \<Rightarrow> string \<Rightarrow> string \<Rightarrow> PrivateGholaBalanceSnapshotV1" where
  "getGholaBalanceSnapshot st owner account =
     (let entries = listGholaBalanceLedgerEntries st account 1000;
          available = max 0 (sum_list (map gle_available entries));
          reserved = max 0 (sum_list (map gle_reserved entries));
          unrealized = sum_list (map gle_unrealized_pnl entries)
      in \<lparr>gbs_owner = owner, gbs_account = account, gbs_available = available, gbs_reserved = reserved,
          gbs_open_notional = max 0 (sum_list (map gle_open_notional entries)),
          gbs_realized_pnl = sum_list (map gle_realized_pnl entries), gbs_unrealized_pnl = unrealized,
          gbs_equity = max 0 (available + reserved + unrealized), gbs_withdrawable = available,
          gbs_entry_count = length entries, gbs_updated_at = foldl later_of None (map gle_created_at entries)\<rparr>)"

section \<open>Work orders and results\<close>

definition putConnectorWorkOrder :: "PrivateConnectorWorkOrderRecordV1 \<Rightarrow> account_store \<Rightarrow> account_store" where
  "putConnectorWorkOrder r st = st\<lparr>st_work_orders := js_set (st_work_orders st) (wo_commitment r) r\<rparr>"

definition getConnectorWorkOrderByPreview :: "account_store \<Rightarrow> string \<Rightarrow> PrivateConnectorWorkOrderRecordV1 option" where
  "getConnectorWorkOrderByPreview st p =
     (case newest_first wo_updated_at (filter (\<lambda>r. wo_preview r = p) (js_values (st_work_orders st))) of
        [] \<Rightarrow> None | r # rest \<Rightarrow> Some r)"

definition putConnectorResult :: "PrivateConnectorResultRecordV1 \<Rightarrow> account_store \<Rightarrow> account_store" where
  "putConnectorResult r st = st\<lparr>st_results := js_set (st_results st) (cr_commitment r) r\<rparr>"

definition getConnectorResultByWorkOrder :: "account_store \<Rightarrow> string \<Rightarrow> PrivateConnectorResultRecordV1 option" where
  "getConnectorResultByWorkOrder st w =
     (case newest_first cr_updated_at (filter (\<lambda>r. cr_work_order r = w) (js_values (st_results st))) of
        [] \<Rightarrow> None | r # rest \<Rightarrow> Some r)"

section \<open>Locks\<close>

definition getPrivateCoordinatorLock :: "account_store \<Rightarrow> string \<Rightarrow> PrivateCoordinatorLockRecordV1 option" where
  "getPrivateCoordinatorLock st i = js_get (st_locks st) i"

text \<open>Whether the lock was taken, and the lock that is held then.\<close>

definition acquirePrivateCoordinatorLock :: "string \<Rightarrow> string \<Rightarrow> time \<Rightarrow> int \<Rightarrow> account_store \<Rightarrow>
    (bool \<times> PrivateCoordinatorLockRecordV1) \<times> account_store" where
  "acquirePrivateCoordinatorLock i run now ttl st =
     (let lock = \<lparr>lk_id = i, lk_run = run, lk_acquired_at = now, lk_expires_at = now + ttl\<rparr>;
          taken = ((True, lock), st\<lparr>st_locks := js_set (st_locks st) i lock\<rparr>)
      in case getPrivateCoordinatorLock st i of
           None \<Rightarrow> taken
         | Some held \<Rightarrow> if now < lk_expires_at held then ((False, held), st) else taken)"

definition releasePrivateCoordinatorLock :: "string \<Rightarrow> string \<Rightarrow> account_store \<Rightarrow> account_store" where
  "releasePrivateCoordinatorLock i run st = (case getPrivateCoordinatorLock st i of
       None \<Rightarrow> st
     | Some held \<Rightarrow> if lk_run held \<noteq> run then st
         else st\<lparr>st_locks := filter (\<lambda>(k, v). k \<noteq> i) (st_locks st)\<rparr>)"

end
