(* ===== verification/AccountVerifier.thy ===== *)
theory AccountVerifier imports AccountStore
begin

text \<open>
  \<open>apps/web/src/lib/private-account-verifier.ts\<close>: the verifier of shielded deposits, a service behind two
  URLs. What the service answers is a parameter, as is the parser of dates and of URLs.
\<close>

section \<open>The surroundings\<close>

text \<open>An answer to \<open>fetch\<close>: it threw, or there is a status and a body, \<open>JNull\<close> when the body is no JSON.\<close>

datatype fetch_answer = Fetch_threw | Fetched nat json

record funding_host =
  fh_host :: host
  fh_env :: "string \<Rightarrow> string option"
  fh_parse_date :: "string \<Rightarrow> time option"
  fh_health_url :: "string \<Rightarrow> string option"
  fh_get_health :: "string \<Rightarrow> fetch_answer"
  fh_post_verify :: "string \<Rightarrow> json \<Rightarrow> fetch_answer"

definition fetch_ok :: "nat \<Rightarrow> bool" where
  "fetch_ok status \<longleftrightarrow> 200 \<le> status \<and> status \<le> 299"

definition asRecord :: "json \<Rightarrow> (string \<times> json) list" where
  "asRecord v = (case v of JObj kvs \<Rightarrow> kvs | _ \<Rightarrow> [])"

definition stringValue :: "json \<Rightarrow> string" where
  "stringValue v = (case v of JStr s \<Rightarrow> js_trim s | _ \<Rightarrow> [])"

definition floorValue :: "json \<Rightarrow> jsnum" where
  "floorValue v = (case v of JNum n \<Rightarrow> if is_finite_num n then num_floor n else num 0 | _ \<Rightarrow> num 0)"

text \<open>\<open>a || b\<close> on texts.\<close>

definition or_text :: "string \<Rightarrow> string \<Rightarrow> string" where
  "or_text a b = (if a = [] then b else a)"

definition trimmed_env :: "funding_host \<Rightarrow> string \<Rightarrow> string" where
  "trimmed_env h name = (case fh_env h name of None \<Rightarrow> [] | Some s \<Rightarrow> js_trim s)"

text \<open>\<open>Number.parseInt(process.env.NAME || shown, 10) || fallback\<close>, where the text of \<open>fallback\<close> is shown.\<close>

definition env_int :: "funding_host \<Rightarrow> string \<Rightarrow> int \<Rightarrow> int" where
  "env_int h name fallback = (case js_parse_int 10 (text_or (fh_env h name) (int_digits fallback)) of
       Fin r \<Rightarrow> if r = 0 then fallback else \<lfloor>r\<rfloor>
     | _ \<Rightarrow> fallback)"

section \<open>Configuration and health\<close>

datatype verifier_mode = Verifier_http | Verifier_local_test | Verifier_unconfigured

record verifier_config =
  vc_mode :: verifier_mode
  vc_verify_url :: string
  vc_health_url :: string
  vc_network :: string
  vc_min_confirmations :: int
  vc_max_stale_ms :: int

definition verifierConfig :: "funding_host \<Rightarrow> verifier_config" where
  "verifierConfig h =
     \<lparr>vc_mode = (if fh_env h ''GHOLA_CUSTOM_SHIELDED_VERIFIER_MODE'' = Some ''local_test''
        then Verifier_local_test else Verifier_http),
      vc_verify_url = trimmed_env h ''GHOLA_CUSTOM_SHIELDED_VERIFIER_URL'',
      vc_health_url = trimmed_env h ''GHOLA_CUSTOM_SHIELDED_VERIFIER_HEALTH_URL'',
      vc_network = or_text (trimmed_env h ''GHOLA_CUSTOM_SHIELDED_NETWORK'') ''custom-shielded-v1'',
      vc_min_confirmations = max 1 (env_int h ''GHOLA_CUSTOM_SHIELDED_MIN_CONFIRMATIONS'' 3),
      vc_max_stale_ms = max 1000 (env_int h ''GHOLA_CUSTOM_SHIELDED_MAX_STALE_MS'' 300000)\<rparr>"

record PrivateShieldedVerifierHealth =
  vh_green :: bool
  vh_mode :: verifier_mode
  vh_configured :: bool
  vh_network :: string
  vh_verifier :: "string option"
  vh_head :: "string option"
  vh_min_confirmations :: int
  vh_max_stale_ms :: int
  vh_observed_at :: "string option"
  vh_checked_at :: time
  vh_reason :: "string option"

definition verifier_health :: "funding_host \<Rightarrow> time \<Rightarrow> bool \<Rightarrow> verifier_mode \<Rightarrow> bool \<Rightarrow> string option \<Rightarrow> string option \<Rightarrow>
    string option \<Rightarrow> string option \<Rightarrow> PrivateShieldedVerifierHealth" where
  "verifier_health h now green mode configured verifier head observed reason =
     \<lparr>vh_green = green, vh_mode = mode, vh_configured = configured, vh_network = vc_network (verifierConfig h),
      vh_verifier = verifier, vh_head = head, vh_min_confirmations = vc_min_confirmations (verifierConfig h),
      vh_max_stale_ms = vc_max_stale_ms (verifierConfig h), vh_observed_at = observed, vh_checked_at = now,
      vh_reason = reason\<rparr>"

definition healthUrlFromVerifyUrl :: "funding_host \<Rightarrow> string \<Rightarrow> string" where
  "healthUrlFromVerifyUrl h url = (case fh_health_url h url of None \<Rightarrow> url | Some u \<Rightarrow> u)"

definition isStale :: "funding_host \<Rightarrow> string \<Rightarrow> time \<Rightarrow> int \<Rightarrow> bool" where
  "isStale h stamp now stale_ms = (case fh_parse_date h stamp of None \<Rightarrow> True | Some t \<Rightarrow> now - t > stale_ms)"

text \<open>A text or \<open>null\<close>: \<open>s || null\<close>.\<close>

definition some_text :: "string \<Rightarrow> string option" where
  "some_text s = (if s = [] then None else Some s)"

definition health_of_body :: "funding_host \<Rightarrow> time \<Rightarrow> (string \<times> json) list \<Rightarrow> PrivateShieldedVerifierHealth" where
  "health_of_body h now body =
     (let observed = or_text (stringValue (obj_field body ''observed_at'')) (stringValue (obj_field body ''indexed_at''));
          verifier = some_text (stringValue (obj_field body ''verifier_commitment''));
          head = some_text (stringValue (obj_field body ''verifier_head_commitment''));
          red = (obj_field body ''status'' = JStr ''red'')
      in if observed = [] \<or> isStale h observed now (vc_max_stale_ms (verifierConfig h))
         then verifier_health h now False Verifier_http True verifier head (some_text observed)
           (Some ''verifier/indexer state is stale'')
         else verifier_health h now (\<not> red) Verifier_http True verifier head (Some observed)
           (if red then Some (or_text (stringValue (obj_field body ''reason'')) ''verifier health is red'') else None))"

definition customShieldedVerifierHealth :: "funding_host \<Rightarrow> time \<Rightarrow> PrivateShieldedVerifierHealth" where
  "customShieldedVerifierHealth h now =
     (let c = verifierConfig h in
      if vc_mode c = Verifier_local_test
      then (if fh_env h ''NODE_ENV'' = Some ''production''
        then verifier_health h now False Verifier_local_test True None None None
          (Some ''local_test verifier mode is disabled in production'')
        else verifier_health h now True Verifier_local_test True
          (Some (gholaCommitment (fh_host h) ''verifier'' (JStr ''local_test'')))
          (Some (gholaCommitment (fh_host h) ''verifier_head'' (JStr (take 13 (to_iso now)))))
          (Some (to_iso now)) None)
      else if vc_verify_url c = []
      then verifier_health h now False Verifier_unconfigured False None None None
        (Some ''custom shielded verifier URL is not configured'')
      else case fh_get_health h (or_text (vc_health_url c) (healthUrlFromVerifyUrl h (vc_verify_url c))) of
          Fetch_threw \<Rightarrow> verifier_health h now False Verifier_http True None None None
            (Some ''verifier health check failed'')
        | Fetched status body \<Rightarrow>
            if \<not> fetch_ok status
            then verifier_health h now False Verifier_http True None None None
              (Some (''verifier health returned '' @ int_digits (int status)))
            else health_of_body h now (asRecord body))"

section \<open>Receipts of deposits\<close>

datatype PrivateShieldedVerifierError =
    Ve_unconfigured | Ve_unhealthy | Ve_stale | Ve_invalid_receipt | Ve_wrong_destination
  | Ve_wrong_amount | Ve_wrong_asset | Ve_insufficient_confirmations

fun verifier_error_name :: "PrivateShieldedVerifierError \<Rightarrow> string" where
  "verifier_error_name Ve_unconfigured = ''custom_shielded_verifier_unconfigured''"
| "verifier_error_name Ve_unhealthy = ''custom_shielded_verifier_unhealthy''"
| "verifier_error_name Ve_stale = ''custom_shielded_verifier_stale''"
| "verifier_error_name Ve_invalid_receipt = ''invalid_shielded_receipt''"
| "verifier_error_name Ve_wrong_destination = ''wrong_shielded_destination''"
| "verifier_error_name Ve_wrong_amount = ''wrong_amount_bucket''"
| "verifier_error_name Ve_wrong_asset = ''wrong_asset_bucket''"
| "verifier_error_name Ve_insufficient_confirmations = ''insufficient_confirmations''"

definition verifierError :: "string \<Rightarrow> PrivateShieldedVerifierError" where
  "verifierError s = (case find (\<lambda>e. verifier_error_name e = s)
       [Ve_unconfigured, Ve_unhealthy, Ve_stale, Ve_invalid_receipt, Ve_wrong_destination, Ve_wrong_amount,
        Ve_wrong_asset, Ve_insufficient_confirmations] of
       None \<Rightarrow> Ve_invalid_receipt | Some e \<Rightarrow> e)"

record PrivateShieldedVerifierResult =
  vr_receipt :: string
  vr_nullifier :: string
  vr_destination :: string
  vr_amount :: string
  vr_asset :: string
  vr_network :: string
  vr_depth :: jsnum
  vr_verifier :: string
  vr_head :: string
  vr_observed_at :: time

definition parseVerifierResult :: "funding_host \<Rightarrow> (string \<times> json) list \<Rightarrow> PrivateFundingInstructionRecordV1 \<Rightarrow>
    time \<Rightarrow> PrivateShieldedVerifierError + PrivateShieldedVerifierResult" where
  "parseVerifierResult h body i now =
     (let c = verifierConfig h;
          get = (\<lambda>k. stringValue (obj_field body k));
          observed = or_text (get ''observed_at'') (get ''indexed_at'');
          depth = floorValue (obj_field body ''confirmation_depth'')
      in if get ''receipt_commitment'' = [] \<or> get ''nullifier_commitment'' = [] \<or> get ''verifier_commitment'' = [] \<or>
            get ''verifier_head_commitment'' = [] \<or> observed = []
         then Inl Ve_invalid_receipt
         else if get ''destination_commitment'' \<noteq> fin_destination_commitment i then Inl Ve_wrong_destination
         else if get ''amount_bucket'' \<noteq> fin_amount i then Inl Ve_wrong_amount
         else if get ''asset_bucket'' \<noteq> fin_asset i then Inl Ve_wrong_asset
         else if num_less depth (num (vc_min_confirmations c)) then Inl Ve_insufficient_confirmations
         else case fh_parse_date h observed of
             None \<Rightarrow> Inl Ve_stale
           | Some t \<Rightarrow> if now - t > vc_max_stale_ms c then Inl Ve_stale
               else Inr \<lparr>vr_receipt = get ''receipt_commitment'', vr_nullifier = get ''nullifier_commitment'',
                 vr_destination = get ''destination_commitment'', vr_amount = get ''amount_bucket'',
                 vr_asset = get ''asset_bucket'', vr_network = or_text (get ''network'') (vc_network c),
                 vr_depth = depth, vr_verifier = get ''verifier_commitment'',
                 vr_head = get ''verifier_head_commitment'', vr_observed_at = t\<rparr>)"

definition verifyLocalTestReceipt :: "funding_host \<Rightarrow> PrivateFundingInstructionRecordV1 \<Rightarrow> string \<Rightarrow> time \<Rightarrow>
    PrivateShieldedVerifierHealth \<Rightarrow> PrivateShieldedVerifierError + PrivateShieldedVerifierResult" where
  "verifyLocalTestReceipt h i receipt now health =
     (let c = verifierConfig h; commit = gholaCommitment (fh_host h) in
      if \<not> starts_with ''custom_receipt_'' receipt then Inl Ve_invalid_receipt
      else if js_includes ''wrongdest'' receipt then Inl Ve_wrong_destination
      else if js_includes ''wrongamount'' receipt then Inl Ve_wrong_amount
      else if js_includes ''wrongasset'' receipt then Inl Ve_wrong_asset
      else if js_includes ''lowconf'' receipt then Inl Ve_insufficient_confirmations
      else if js_includes ''stale'' receipt then Inl Ve_stale
      else Inr
        \<lparr>vr_receipt = commit ''funding_receipt'' (JObj [(''receipt_id'', JStr receipt),
           (''destination_commitment'', JStr (fin_destination_commitment i)), (''amount_bucket'', JStr (fin_amount i)),
           (''asset_bucket'', JStr (fin_asset i)), (''network'', JStr (vc_network c))]),
         vr_nullifier = commit ''funding_nullifier'' (JObj [(''receipt_id'', JStr receipt),
           (''destination_commitment'', JStr (fin_destination_commitment i)), (''network'', JStr (vc_network c))]),
         vr_destination = fin_destination_commitment i, vr_amount = fin_amount i, vr_asset = fin_asset i,
         vr_network = vc_network c, vr_depth = num (max (vc_min_confirmations c) 1),
         vr_verifier = text_or (vh_verifier health) (commit ''verifier'' (JStr ''local_test'')),
         vr_head = text_or (vh_head health) (commit ''verifier_head'' (JStr ''local_test'')),
         vr_observed_at = now\<rparr>)"

definition verify_request :: "verifier_config \<Rightarrow> PrivateFundingInstructionRecordV1 \<Rightarrow> string \<Rightarrow> json" where
  "verify_request c i receipt = JObj [(''receipt_id'', JStr receipt),
     (''destination_commitment'', JStr (fin_destination_commitment i)), (''amount_bucket'', JStr (fin_amount i)),
     (''asset_bucket'', JStr (fin_asset i)), (''network'', JStr (vc_network c)),
     (''min_confirmations'', JNum (num (vc_min_confirmations c)))]"

definition verifyCustomShieldedDepositReceipt :: "funding_host \<Rightarrow> PrivateFundingInstructionRecordV1 \<Rightarrow> string \<Rightarrow> time \<Rightarrow>
    PrivateShieldedVerifierError + PrivateShieldedVerifierResult" where
  "verifyCustomShieldedDepositReceipt h i receipt now =
     (let c = verifierConfig h; health = customShieldedVerifierHealth h now in
      if \<not> vh_green health then Inl (if vh_configured health then Ve_unhealthy else Ve_unconfigured)
      else if vc_mode c = Verifier_local_test then verifyLocalTestReceipt h i receipt now health
      else if vc_verify_url c = [] then Inl Ve_unconfigured
      else case fh_post_verify h (vc_verify_url c) (verify_request c i receipt) of
          Fetch_threw \<Rightarrow> Inl Ve_unhealthy
        | Fetched status answer \<Rightarrow>
            let body = asRecord answer in
            if \<not> fetch_ok status \<or> obj_field body ''ok'' = JBool False
            then Inl (verifierError (stringValue (obj_field body ''error'')))
            else parseVerifierResult h body i now)"

end
