(* ===== verification/AccountPool.thy ===== *)
theory AccountPool imports AccountVerifier
begin

text \<open>
  \<open>apps/web/src/lib/private-account-shielded-pool.ts\<close>: the configuration of the shielded pool and the health of
  its five services. What the services answer and the URL parser are parameters.
\<close>

record pool_host =
  pl_host :: funding_host
  pl_join :: "string \<Rightarrow> string \<Rightarrow> string option"
  pl_get :: "string \<Rightarrow> string option \<Rightarrow> fetch_answer"
  pl_post :: "string \<Rightarrow> string \<Rightarrow> string option \<Rightarrow> json \<Rightarrow> fetch_answer"

abbreviation pool_commitment :: "pool_host \<Rightarrow> string \<Rightarrow> json \<Rightarrow> string" where
  "pool_commitment h \<equiv> gholaCommitment (fh_host (pl_host h))"

section \<open>Configuration\<close>

record ShieldedPoolConfig =
  sc_local_test :: bool
  sc_indexer_url :: string
  sc_prover_url :: string
  sc_relayer_url :: string
  sc_runtime_url :: string
  sc_runtime_token :: string
  sc_network :: string
  sc_program_id :: string
  sc_mint :: string
  sc_tree_id :: string
  sc_min_confirmations :: int
  sc_max_stale_ms :: int

definition shieldedPoolConfig :: "pool_host \<Rightarrow> ShieldedPoolConfig" where
  "shieldedPoolConfig h = (let env = trimmed_env (pl_host h) in
     \<lparr>sc_local_test = (fh_env (pl_host h) ''GHOLA_SHIELDED_POOL_MODE'' = Some ''local_test''),
      sc_indexer_url = env ''GHOLA_SHIELDED_POOL_INDEXER_URL'',
      sc_prover_url = env ''GHOLA_SHIELDED_POOL_PROVER_URL'',
      sc_relayer_url = env ''GHOLA_SHIELDED_POOL_RELAYER_URL'',
      sc_runtime_url = env ''GHOLA_PRIVATE_RUNTIME_URL'',
      sc_runtime_token = env ''GHOLA_PRIVATE_RUNTIME_TOKEN'',
      sc_network = or_text (or_text (env ''GHOLA_CUSTOM_SHIELDED_NETWORK'') (env ''GHOLA_SHIELDED_POOL_NETWORK''))
        ''solana-shielded-pool-v1'',
      sc_program_id = env ''GHOLA_SHIELDED_POOL_PROGRAM_ID'',
      sc_mint = env ''GHOLA_SHIELDED_POOL_MINT'',
      sc_tree_id = env ''GHOLA_SHIELDED_POOL_TREE_ID'',
      sc_min_confirmations = max 1 (env_int (pl_host h) ''GHOLA_SHIELDED_POOL_MIN_CONFIRMATIONS'' 3),
      sc_max_stale_ms = max 1000 (env_int (pl_host h) ''GHOLA_SHIELDED_POOL_MAX_STALE_MS'' 300000)\<rparr>)"

section \<open>Services\<close>

datatype pool_service = Svc_indexer | Svc_tree_state | Svc_prover | Svc_relayer | Svc_sealed_runtime

fun pool_service_name :: "pool_service \<Rightarrow> string" where
  "pool_service_name Svc_indexer = ''indexer''"
| "pool_service_name Svc_tree_state = ''tree_state''"
| "pool_service_name Svc_prover = ''prover''"
| "pool_service_name Svc_relayer = ''relayer''"
| "pool_service_name Svc_sealed_runtime = ''sealed_runtime''"

record GholaShieldedPoolServiceHealth =
  hs_service :: pool_service
  hs_green :: bool
  hs_configured :: bool
  hs_commitment :: "string option"
  hs_observed_at :: "string option"
  hs_reason :: "string option"

definition serviceHealth :: "pool_service \<Rightarrow> bool \<Rightarrow> bool \<Rightarrow> string option \<Rightarrow> string option \<Rightarrow> string option \<Rightarrow>
    GholaShieldedPoolServiceHealth" where
  "serviceHealth service green configured commitment observed reason =
     \<lparr>hs_service = service, hs_green = green, hs_configured = configured, hs_commitment = commitment,
      hs_observed_at = observed, hs_reason = reason\<rparr>"

definition localService :: "pool_host \<Rightarrow> pool_service \<Rightarrow> time \<Rightarrow> GholaShieldedPoolServiceHealth" where
  "localService h service now = serviceHealth service True True
     (Some (pool_commitment h (''shielded_pool_'' @ pool_service_name service) (JStr ''local_test'')))
     (Some (to_iso now)) None"

definition commitmentForService :: "pool_host \<Rightarrow> pool_service \<Rightarrow> (string \<times> json) list \<Rightarrow> string" where
  "commitmentForService h service body = (let get = (\<lambda>k. stringValue (obj_field body k)) in
     or_text (or_text (or_text (or_text (get ''commitment'') (get ''verifier_commitment'')) (get ''root_commitment''))
       (get ''tree_commitment'')) (pool_commitment h (''shielded_pool_'' @ pool_service_name service) (JObj body)))"

definition joinPath :: "pool_host \<Rightarrow> string \<Rightarrow> string \<Rightarrow> string" where
  "joinPath h base path =
     (let suffix = (if starts_with ''/'' path then drop 1 path else path);
          folder = (if base \<noteq> [] \<and> last base = CHR ''/'' then base else base @ ''/'')
      in case pl_join h suffix folder of None \<Rightarrow> base @ path | Some url \<Rightarrow> url)"

text \<open>The header is left out when there is no token.\<close>

definition bearer :: "string \<Rightarrow> string option" where
  "bearer token = (if token = [] then None else Some (''Bearer '' @ token))"

definition checkHttpService :: "pool_host \<Rightarrow> pool_service \<Rightarrow> string \<Rightarrow> ShieldedPoolConfig \<Rightarrow> time \<Rightarrow> string option \<Rightarrow>
    GholaShieldedPoolServiceHealth" where
  "checkHttpService h service url c now authorization =
     (case pl_get h url authorization of
        Fetch_threw \<Rightarrow> serviceHealth service False True None None (Some (pool_service_name service @ '' health check failed''))
      | Fetched status answer \<Rightarrow>
          let body = asRecord answer; get = (\<lambda>k. stringValue (obj_field body k));
              observed = or_text (or_text (or_text (get ''observed_at'') (get ''indexed_at'')) (get ''updated_at'')) (to_iso now);
              commitment = commitmentForService h service body; red = (obj_field body ''status'' = JStr ''red'')
          in if \<not> fetch_ok status
             then serviceHealth service False True None None
               (Some (pool_service_name service @ '' health returned '' @ int_digits (int status)))
             else if isStale (pl_host h) observed now (sc_max_stale_ms c)
             then serviceHealth service False True (Some commitment) (Some observed)
               (Some (pool_service_name service @ '' state is stale''))
             else serviceHealth service (\<not> red) True (Some commitment) (Some observed)
               (if red then Some (or_text (get ''reason'') (pool_service_name service @ '' health is red'')) else None))"

section \<open>The pool\<close>

record GholaShieldedPoolHealth =
  ph_green :: bool
  ph_mode :: verifier_mode
  ph_network :: string
  ph_program :: "string option"
  ph_mint :: "string option"
  ph_tree :: "string option"
  ph_min_confirmations :: int
  ph_max_stale_ms :: int
  ph_indexer :: GholaShieldedPoolServiceHealth
  ph_tree_state :: GholaShieldedPoolServiceHealth
  ph_prover :: GholaShieldedPoolServiceHealth
  ph_relayer :: GholaShieldedPoolServiceHealth
  ph_sealed_runtime :: GholaShieldedPoolServiceHealth
  ph_checked_at :: time
  ph_reason :: "string option"

text \<open>The name of a service in the sentence that it is not configured.\<close>

definition service_words :: "pool_service \<Rightarrow> string" where
  "service_words s = (case s of Svc_tree_state \<Rightarrow> ''tree state'' | Svc_sealed_runtime \<Rightarrow> ''sealed runtime'' | _ \<Rightarrow> pool_service_name s)"

definition pool_health :: "pool_host \<Rightarrow> time \<Rightarrow> verifier_mode \<Rightarrow> bool \<Rightarrow> string option \<Rightarrow>
    (pool_service \<Rightarrow> GholaShieldedPoolServiceHealth option) \<Rightarrow> GholaShieldedPoolHealth" where
  "pool_health h now mode green reason services =
     (let c = shieldedPoolConfig h;
          hashed = (\<lambda>prefix s. if s = [] then None else Some (pool_commitment h prefix (JStr s)));
          service = (\<lambda>s. case services s of Some r \<Rightarrow> r
            | None \<Rightarrow> serviceHealth s False (mode \<noteq> Verifier_unconfigured) None None
                (Some (case reason of Some r \<Rightarrow> r | None \<Rightarrow> service_words s @ '' is not configured'')))
      in \<lparr>ph_green = green, ph_mode = mode, ph_network = sc_network c,
          ph_program = hashed ''shielded_pool_program'' (sc_program_id c),
          ph_mint = hashed ''shielded_pool_mint'' (sc_mint c), ph_tree = hashed ''shielded_pool_tree'' (sc_tree_id c),
          ph_min_confirmations = sc_min_confirmations c, ph_max_stale_ms = sc_max_stale_ms c,
          ph_indexer = service Svc_indexer, ph_tree_state = service Svc_tree_state, ph_prover = service Svc_prover,
          ph_relayer = service Svc_relayer, ph_sealed_runtime = service Svc_sealed_runtime,
          ph_checked_at = now, ph_reason = reason\<rparr>)"

definition pool_services :: "pool_service list" where
  "pool_services = [Svc_indexer, Svc_tree_state, Svc_prover, Svc_relayer, Svc_sealed_runtime]"

definition probe :: "pool_host \<Rightarrow> ShieldedPoolConfig \<Rightarrow> time \<Rightarrow> pool_service \<Rightarrow> GholaShieldedPoolServiceHealth" where
  "probe h c now service = (let check = (\<lambda>base path authorization. checkHttpService h service (joinPath h base path) c now authorization) in
     case service of
       Svc_indexer \<Rightarrow> check (sc_indexer_url c) ''/healthz'' None
     | Svc_tree_state \<Rightarrow> check (sc_indexer_url c) ''/tree-state'' None
     | Svc_prover \<Rightarrow> check (sc_prover_url c) ''/healthz'' None
     | Svc_relayer \<Rightarrow> check (sc_relayer_url c) ''/healthz'' None
     | Svc_sealed_runtime \<Rightarrow> check (sc_runtime_url c) ''/health'' (bearer (sc_runtime_token c)))"

definition shieldedPoolHealth :: "pool_host \<Rightarrow> time \<Rightarrow> GholaShieldedPoolHealth" where
  "shieldedPoolHealth h now =
     (let c = shieldedPoolConfig h in
      if sc_local_test c
      then (if fh_env (pl_host h) ''NODE_ENV'' = Some ''production''
        then pool_health h now Verifier_local_test False
          (Some ''local_test shielded pool mode is disabled in production'') (\<lambda>s. None)
        else pool_health h now Verifier_local_test True None (\<lambda>s. Some (localService h s now)))
      else if sc_indexer_url c = [] \<or> sc_prover_url c = [] \<or> sc_relayer_url c = [] \<or> sc_runtime_url c = []
      then pool_health h now Verifier_unconfigured False
        (Some ''shielded pool indexer, prover, relayer, and sealed runtime URLs are required'') (\<lambda>s. None)
      else let failed = find (\<lambda>s. \<not> hs_green s) (map (probe h c now) pool_services)
        in pool_health h now Verifier_http (failed = None) (Option.bind failed hs_reason) (\<lambda>s. Some (probe h c now s)))"

section \<open>When the pool is green\<close>

lemma pool_service_in [simp]: "s \<in> set pool_services"
  by (cases s) (simp_all add: pool_services_def)

lemma pool_green_iff:
  "ph_green (shieldedPoolHealth h now) \<longleftrightarrow>
     (if sc_local_test (shieldedPoolConfig h) then fh_env (pl_host h) ''NODE_ENV'' \<noteq> Some ''production''
      else sc_indexer_url (shieldedPoolConfig h) \<noteq> [] \<and> sc_prover_url (shieldedPoolConfig h) \<noteq> [] \<and>
        sc_relayer_url (shieldedPoolConfig h) \<noteq> [] \<and> sc_runtime_url (shieldedPoolConfig h) \<noteq> [] \<and>
        (\<forall>s. hs_green (probe h (shieldedPoolConfig h) now s)))"
  by (auto simp: shieldedPoolHealth_def pool_health_def Let_def find_None_iff)

lemma pool_green_runtime: "ph_green (shieldedPoolHealth h now) \<Longrightarrow> hs_green (ph_sealed_runtime (shieldedPoolHealth h now))"
  by (auto simp: shieldedPoolHealth_def pool_health_def Let_def find_None_iff localService_def serviceHealth_def split: if_splits)

end
