(* ===== verification/AccountPlan.thy ===== *)
theory AccountPlan imports AccountPool
begin

text \<open>
  \<open>apps/web/src/lib/private-account-execution-plan.ts\<close>: the execution plan of a preview, its settlement through the
  shielded pool or the sealed runtime, and the evidence of a settlement.
\<close>

section \<open>Plans\<close>

datatype plan_status = Plan_ready | Plan_waiting | Plan_blocked | Plan_degraded

fun plan_status_name :: "plan_status \<Rightarrow> string" where
  "plan_status_name Plan_ready = ''ready''"
| "plan_status_name Plan_waiting = ''waiting''"
| "plan_status_name Plan_blocked = ''blocked''"
| "plan_status_name Plan_degraded = ''degraded''"

datatype settlement_kind =
    Settle_none | Settle_internal | Settle_vault_netting | Settle_batch_auction | Settle_batch | Settle_pool_withdraw

fun settlement_kind_name :: "settlement_kind \<Rightarrow> string" where
  "settlement_kind_name Settle_none = ''none''"
| "settlement_kind_name Settle_internal = ''internal_private_state''"
| "settlement_kind_name Settle_vault_netting = ''vault_netting''"
| "settlement_kind_name Settle_batch_auction = ''shielded_batch_auction''"
| "settlement_kind_name Settle_batch = ''shielded_batch''"
| "settlement_kind_name Settle_pool_withdraw = ''shielded_pool_withdraw''"

datatype rail_step_status = Step_planned | Step_selected | Step_skipped | Step_blocked

fun step_status_name :: "rail_step_status \<Rightarrow> string" where
  "step_status_name Step_planned = ''planned''"
| "step_status_name Step_selected = ''selected''"
| "step_status_name Step_skipped = ''skipped''"
| "step_status_name Step_blocked = ''blocked''"

record GholaPrivateRailStep =
  rp_commitment :: string
  rp_rail :: GholaRailKind
  rp_status :: rail_step_status
  rp_reason :: "string option"

definition rail_step_json :: "GholaPrivateRailStep \<Rightarrow> json" where
  "rail_step_json s = JObj [(''version'', JNum (num 1)), (''step_commitment'', JStr (rp_commitment s)),
     (''rail'', JStr (account_rail_name (rp_rail s))), (''status'', JStr (step_status_name (rp_status s))),
     (''reason'', null_text (rp_reason s))]"

datatype plan_runtime = Plan_runtime_green | Plan_runtime_red | Plan_runtime_not_required

fun plan_runtime_name :: "plan_runtime \<Rightarrow> string" where
  "plan_runtime_name Plan_runtime_green = ''green''"
| "plan_runtime_name Plan_runtime_red = ''red''"
| "plan_runtime_name Plan_runtime_not_required = ''not_required''"

record GholaPrivateExecutionPlan =
  ep_commitment :: string
  ep_preview :: string
  ep_account :: string
  ep_action :: string
  ep_platform :: GholaPlatformClass
  ep_rail :: GholaRailKind
  ep_kind :: settlement_kind
  ep_required :: bool
  ep_status :: plan_status
  ep_steps :: "GholaPrivateRailStep list"
  ep_health :: string
  ep_runtime_status :: plan_runtime
  ep_chain :: "string option"
  ep_manifest :: "string option"
  ep_readiness :: "string option"
  ep_compiler :: "string option"
  ep_linkability :: "string option"
  ep_sandbox :: "string option"
  ep_envelope :: "string option"
  ep_attestation :: "string option"
  ep_runtime_health :: "string option"
  ep_schedule :: "string option"
  ep_rotation :: "string option"
  ep_simulator :: "string option"
  ep_mode :: FrontRunMode
  ep_protection :: FrontRunProtection
  ep_certificate :: "string option"
  ep_achieved :: "GholaPrivateModeClaimLevel list"
  ep_missing :: "GholaPrivateModeClaimLevel list"
  ep_wait_reasons :: "string list"
  ep_blocked_reasons :: "string list"
  ep_created_at :: time
  ep_expires_at :: time

definition shieldedHealthCommitment :: "host \<Rightarrow> GholaShieldedPoolHealth \<Rightarrow> string" where
  "shieldedHealthCommitment h p = (let service = (\<lambda>s. null_text (hs_commitment s)) in
     gholaCommitment h ''shielded_pool_health'' (JObj
      [(''status'', JStr (if ph_green p then ''green'' else ''red'')),
       (''mode'', JStr (case ph_mode p of Verifier_http \<Rightarrow> ''http'' | Verifier_local_test \<Rightarrow> ''local_test''
         | Verifier_unconfigured \<Rightarrow> ''unconfigured'')),
       (''network'', JStr (ph_network p)), (''program_commitment'', null_text (ph_program p)),
       (''mint_commitment'', null_text (ph_mint p)), (''tree_commitment'', null_text (ph_tree p)),
       (''indexer'', service (ph_indexer p)), (''tree_state'', service (ph_tree_state p)),
       (''prover'', service (ph_prover p)), (''relayer'', service (ph_relayer p)),
       (''sealed_runtime'', service (ph_sealed_runtime p))]))"

definition settlementKindFor :: "GholaRailKind \<Rightarrow> settlement_kind" where
  "settlementKindFor rail =
     (if rail = Private_state_only then Settle_internal
      else if rail = Vault_omnibus_netting then Settle_vault_netting
      else if rail = Shielded_batch_auction then Settle_batch_auction
      else if rail = Combined_vault_shielded_batch then Settle_batch
      else if rail = Shielded_pool then Settle_pool_withdraw
      else Settle_none)"

definition settlement_required :: "settlement_kind \<Rightarrow> bool" where
  "settlement_required k \<longleftrightarrow> k = Settle_pool_withdraw \<or> k = Settle_batch \<or> k = Settle_batch_auction"

definition rail_order :: "GholaRailKind list" where
  "rail_order = [Private_state_only, Vault_omnibus_netting, Combined_vault_shielded_batch, Shielded_batch_auction,
     Shielded_pool, Confidential_token, Provider_omnibus_subaccount, Private_relayer, Stealth_change_address,
     Direct_public_fallback]"

definition rail_index :: "GholaRailKind \<Rightarrow> nat" where
  "rail_index rail = length (takeWhile (\<lambda>r. r \<noteq> rail) rail_order)"

text \<open>\<open>xs[0] ?? ys[0] ?? null\<close>\<close>

definition first_reason :: "string list \<Rightarrow> string list \<Rightarrow> string option" where
  "first_reason xs ys = (case xs @ ys of [] \<Rightarrow> None | r # rest \<Rightarrow> Some r)"

definition railStepsFor :: "host \<Rightarrow> GholaRailKind \<Rightarrow> plan_status \<Rightarrow> string list \<Rightarrow> string list \<Rightarrow> GholaPrivateRailStep list" where
  "railStepsFor h selected status waits blocks = map (\<lambda>rail.
     let step = (if rail = selected then (if status = Plan_blocked then Step_blocked else Step_selected)
            else if rail_index rail < rail_index selected then Step_skipped else Step_planned);
         reason = (if rail = selected then first_reason blocks waits else None)
     in \<lparr>rp_commitment = gholaCommitment h ''rail_step'' (JObj [(''rail'', JStr (account_rail_name rail)),
           (''stepStatus'', JStr (step_status_name step)), (''reason'', null_text reason)]),
         rp_rail = rail, rp_status = step, rp_reason = reason\<rparr>) rail_order"

definition plan_waits :: "GholaPrivacyPreview \<Rightarrow> GholaShieldedPoolHealth \<Rightarrow> GholaPrivateModeEvidenceChain option \<Rightarrow> string list" where
  "plan_waits p health chain = (let required = settlement_required (settlementKindFor (pv_rail p)) in
     pv_wait_reasons p @
     reason_if (required \<and> \<not> ph_green health) ''shielded pool services are not green'' @
     reason_if (required \<and> \<not> hs_green (ph_sealed_runtime health)) ''sealed private runtime is not available'' @
     reason_if (isPrivateModeAvailableStatus (pv_status p) \<and> \<not> chain_has chain ''batch_evidence_commitment'')
       ''batch evidence commitment is required before planning execution'')"

definition status_of_plan :: "GholaPrivacyPreview \<Rightarrow> string list \<Rightarrow> plan_status" where
  "status_of_plan p waits =
     (if pv_status p = Blocked_leaky_path \<or> pv_blocked_reasons p \<noteq> [] then Plan_blocked
      else if pv_status p = Degraded_user_accepted_required then Plan_degraded
      else if waits \<noteq> [] then Plan_waiting else Plan_ready)"

definition plan_seed :: "host \<Rightarrow> GholaPrivacyPreview \<Rightarrow> GholaShieldedPoolHealth \<Rightarrow> GholaPrivateModeEvidenceChain option \<Rightarrow>
    plan_runtime \<Rightarrow> json" where
  "plan_seed h p health chain runtime =
     (let kind = settlementKindFor (pv_rail p); waits = plan_waits p health chain; status = status_of_plan p waits
      in JObj [(''preview_commitment'', JStr (pv_commitment p)), (''account_commitment'', JStr (pv_account p)),
       (''action_commitment'', JStr (pv_action p)), (''platform_class'', JStr (platform_name (pv_platform p))),
       (''selected_rail'', JStr (account_rail_name (pv_rail p))), (''settlementKind'', JStr (settlement_kind_name kind)),
       (''settlementRequired'', JBool (settlement_required kind)), (''status'', JStr (plan_status_name status)),
       (''rail_steps'', JArr (map rail_step_json (railStepsFor h (pv_rail p) status waits (pv_blocked_reasons p)))),
       (''shielded_pool_health_commitment'', JStr (shieldedHealthCommitment h health)),
       (''sealed_runtime_status'', JStr (plan_runtime_name runtime)),
       (''evidenceChainCommitment'', null_text (map_option (\<lambda>c. gholaCommitment h ''execution_plan_evidence_chain'' (JObj c)) chain)),
       (''connectorContext'', null_json connector_json (pv_connector p)), (''runtimeContext'', null_json runtime_json (pv_runtime p)),
       (''scheduleDecision'', null_json schedule_json (pv_schedule p)), (''rotation'', null_json rotation_json (pv_rotation p)),
       (''simulation'', null_json simulation_json (pv_simulation p)),
       (''frontRunMode'', JStr (front_run_mode_name (pv_mode p))), (''frontRunProtection'', protection_json (pv_protection p)),
       (''frontRunCertificateCommitment'', null_text (pv_certificate p)),
       (''claimLevels'', levels_json (pv_levels_achieved p))])"

definition buildPrivateExecutionPlan :: "host \<Rightarrow> GholaPrivacyPreview \<Rightarrow> GholaShieldedPoolHealth \<Rightarrow>
    GholaPrivateModeEvidenceChain option \<Rightarrow> time \<Rightarrow> GholaPrivateExecutionPlan" where
  "buildPrivateExecutionPlan h p health chain now =
     (let kind = settlementKindFor (pv_rail p); waits = plan_waits p health chain; status = status_of_plan p waits;
          runtime = (if \<not> settlement_required kind then Plan_runtime_not_required
            else if hs_green (ph_sealed_runtime health) then Plan_runtime_green else Plan_runtime_red)
      in \<lparr>ep_commitment = gholaCommitment h ''execution_plan'' (plan_seed h p health chain runtime),
          ep_preview = pv_commitment p, ep_account = pv_account p, ep_action = pv_action p, ep_platform = pv_platform p,
          ep_rail = pv_rail p, ep_kind = kind, ep_required = settlement_required kind, ep_status = status,
          ep_steps = railStepsFor h (pv_rail p) status waits (pv_blocked_reasons p),
          ep_health = shieldedHealthCommitment h health, ep_runtime_status = runtime,
          ep_chain = map_option (\<lambda>c. gholaCommitment h ''execution_plan_evidence_chain'' (JObj c)) chain,
          ep_manifest = map_option cc_manifest (pv_connector p), ep_readiness = map_option cc_readiness (pv_connector p),
          ep_compiler = map_option cc_compiler (pv_connector p),
          ep_linkability = map_option cc_linkability_score (pv_connector p),
          ep_sandbox = map_option cc_sandbox_policy (pv_connector p),
          ep_envelope = map_option rt_envelope (pv_runtime p), ep_attestation = Option.bind (pv_runtime p) rt_attestation,
          ep_runtime_health = map_option rt_health (pv_runtime p), ep_schedule = map_option sd_commitment (pv_schedule p),
          ep_rotation = map_option ro_commitment (pv_rotation p), ep_simulator = map_option ls_commitment (pv_simulation p),
          ep_mode = pv_mode p, ep_protection = pv_protection p, ep_certificate = pv_certificate p,
          ep_achieved = pv_levels_achieved p, ep_missing = pv_levels_missing p,
          ep_wait_reasons = js_uniq waits, ep_blocked_reasons = js_uniq (pv_blocked_reasons p),
          ep_created_at = now, ep_expires_at = pv_expires_at p\<rparr>)"

section \<open>Evidence of a settlement\<close>

datatype relay_status = Relay_accepted | Relay_finalized | Relay_failed | Relay_unknown

fun relay_status_name :: "relay_status \<Rightarrow> string" where
  "relay_status_name Relay_accepted = ''accepted''"
| "relay_status_name Relay_finalized = ''finalized''"
| "relay_status_name Relay_failed = ''failed''"
| "relay_status_name Relay_unknown = ''unknown''"

definition relayStatusValue :: "string \<Rightarrow> relay_status option" where
  "relayStatusValue s = find (\<lambda>r. relay_status_name r = s) [Relay_accepted, Relay_finalized, Relay_failed, Relay_unknown]"

datatype GholaPrivateSettlementLifecycleStatus =
    Life_planned | Life_proof_requested | Life_proof_ready | Life_relay_submitted | Life_finality_pending
  | Life_finalized | Life_failed | Life_expired

fun lifecycle_name :: "GholaPrivateSettlementLifecycleStatus \<Rightarrow> string" where
  "lifecycle_name Life_planned = ''planned''"
| "lifecycle_name Life_proof_requested = ''proof_requested''"
| "lifecycle_name Life_proof_ready = ''proof_ready''"
| "lifecycle_name Life_relay_submitted = ''relay_submitted''"
| "lifecycle_name Life_finality_pending = ''finality_pending''"
| "lifecycle_name Life_finalized = ''finalized''"
| "lifecycle_name Life_failed = ''failed''"
| "lifecycle_name Life_expired = ''expired''"

definition lifecycleStatusValue :: "string \<Rightarrow> GholaPrivateSettlementLifecycleStatus option" where
  "lifecycleStatusValue s = find (\<lambda>l. lifecycle_name l = s) [Life_planned, Life_proof_requested, Life_proof_ready,
     Life_relay_submitted, Life_finality_pending, Life_finalized, Life_failed, Life_expired]"

record GholaRelayStatusEvidence =
  re_relay :: string
  re_commitment :: string
  re_status :: relay_status
  re_observed_at :: time

record GholaRuntimeAttestationEvidence =
  ra_commitment :: string
  ra_runtime :: string
  ra_measurement :: string
  ra_policy :: string
  ra_green :: bool
  ra_observed_at :: string

record GholaShieldedSettlementEvidence =
  ste_commitment :: string
  ste_plan :: string
  ste_preview :: string
  ste_approval :: string
  ste_execution :: string
  ste_rail :: GholaRailKind
  ste_network :: string
  ste_lifecycle :: GholaPrivateSettlementLifecycleStatus
  ste_root :: "string option"
  ste_proof :: string
  ste_witness :: string
  ste_attestation :: "GholaRuntimeAttestationEvidence option"
  ste_relay :: GholaRelayStatusEvidence
  ste_finality :: string
  ste_settled_at :: string

text \<open>The property \<open>attestation_commitment\<close> is that of the attestation.\<close>

definition ste_attestation_commitment :: "GholaShieldedSettlementEvidence \<Rightarrow> string option" where
  "ste_attestation_commitment e = map_option ra_commitment (ste_attestation e)"

definition relayStatusEvidence :: "host \<Rightarrow> string \<Rightarrow> relay_status \<Rightarrow> time \<Rightarrow> GholaRelayStatusEvidence" where
  "relayStatusEvidence h relay status now =
     \<lparr>re_relay = relay,
      re_commitment = gholaCommitment h ''relay_status'' (JObj [(''relay_commitment'', JStr relay),
        (''status'', JStr (relay_status_name status)), (''observed_at'', JStr (to_iso now))]),
      re_status = status, re_observed_at = now\<rparr>"

record settle_commitments =
  sm_root :: "string option"
  sm_proof :: string
  sm_witness :: string
  sm_relay :: string
  sm_finality :: string

definition evidenceFromCommitments :: "host \<Rightarrow> GholaPrivateExecutionPlan \<Rightarrow> string \<Rightarrow> string \<Rightarrow> time \<Rightarrow> string \<Rightarrow>
    settle_commitments \<Rightarrow> relay_status \<Rightarrow> GholaPrivateSettlementLifecycleStatus \<Rightarrow>
    GholaRuntimeAttestationEvidence option \<Rightarrow> GholaShieldedSettlementEvidence" where
  "evidenceFromCommitments h plan approval execution now network m relay lifecycle attestation =
     \<lparr>ste_commitment = gholaCommitment h ''settlement'' (JObj
        [(''plan_commitment'', JStr (ep_commitment plan)), (''preview_commitment'', JStr (ep_preview plan)),
         (''approval_commitment'', JStr approval), (''execution_commitment'', JStr execution),
         (''root_commitment'', null_text (sm_root m)), (''proof_commitment'', JStr (sm_proof m)),
         (''witness_commitment'', JStr (sm_witness m)), (''relay_commitment'', JStr (sm_relay m)),
         (''finality_commitment'', JStr (sm_finality m)),
         (''attestation_commitment'', null_text (map_option ra_commitment attestation)),
         (''lifecycle_status'', JStr (lifecycle_name lifecycle))]),
      ste_plan = ep_commitment plan, ste_preview = ep_preview plan, ste_approval = approval, ste_execution = execution,
      ste_rail = ep_rail plan, ste_network = network, ste_lifecycle = lifecycle, ste_root = sm_root m, ste_proof = sm_proof m,
      ste_witness = sm_witness m, ste_attestation = attestation, ste_relay = relayStatusEvidence h (sm_relay m) relay now,
      ste_finality = sm_finality m, ste_settled_at = to_iso now\<rparr>"

definition localSettlementEvidence :: "host \<Rightarrow> GholaPrivateExecutionPlan \<Rightarrow> string \<Rightarrow> string \<Rightarrow> string \<Rightarrow> time \<Rightarrow>
    GholaShieldedSettlementEvidence" where
  "localSettlementEvidence h plan approval execution network now =
     (let commit = (\<lambda>prefix. gholaCommitment h prefix (JObj [(''plan_commitment'', JStr (ep_commitment plan)),
           (''execution_commitment'', JStr execution)]))
      in evidenceFromCommitments h plan approval execution now network
        \<lparr>sm_root = Some (commit ''settlement_root''), sm_proof = commit ''settlement_proof'',
         sm_witness = commit ''settlement_witness'', sm_relay = commit ''settlement_relay'',
         sm_finality = commit ''settlement_finality''\<rparr> Relay_finalized Life_finalized None)"

definition internalSettlementEvidence :: "pool_host \<Rightarrow> GholaPrivateExecutionPlan \<Rightarrow> string \<Rightarrow> string \<Rightarrow> time \<Rightarrow>
    GholaShieldedSettlementEvidence" where
  "internalSettlementEvidence h plan approval execution now =
     localSettlementEvidence (fh_host (pl_host h)) plan approval execution (sc_network (shieldedPoolConfig h)) now"

definition parseAttestation :: "pool_host \<Rightarrow> (string \<times> json) list \<Rightarrow> time \<Rightarrow> GholaRuntimeAttestationEvidence option" where
  "parseAttestation h body now =
     (let get = (\<lambda>k. stringValue (obj_field body k));
          attestation = get ''attestation_commitment''; runtime = get ''runtime_commitment'';
          measurement = get ''measurement_commitment''; policy = get ''policy_commitment'';
          wanted_measurement = trimmed_env (pl_host h) ''GHOLA_PRIVATE_RUNTIME_MEASUREMENT_COMMITMENT'';
          wanted_runtime = trimmed_env (pl_host h) ''GHOLA_PRIVATE_RUNTIME_COMMITMENT''
      in if attestation = [] \<or> runtime = [] \<or> measurement = [] \<or> policy = [] then None
         else if wanted_measurement \<noteq> [] \<and> wanted_measurement \<noteq> measurement then None
         else if wanted_runtime \<noteq> [] \<and> wanted_runtime \<noteq> runtime then None
         else Some \<lparr>ra_commitment = attestation, ra_runtime = runtime, ra_measurement = measurement, ra_policy = policy,
           ra_green = (obj_field body ''attestation_status'' \<noteq> JStr ''red''),
           ra_observed_at = or_text (get ''attestation_observed_at'') (to_iso now)\<rparr>)"

definition settle_request :: "GholaPrivateExecutionPlan \<Rightarrow> string \<Rightarrow> string \<Rightarrow> json" where
  "settle_request plan approval execution = JObj [(''plan_commitment'', JStr (ep_commitment plan)),
     (''preview_commitment'', JStr (ep_preview plan)), (''approval_commitment'', JStr approval),
     (''execution_commitment'', JStr execution)]"

definition evidence_of_answer :: "pool_host \<Rightarrow> GholaPrivateExecutionPlan \<Rightarrow> string \<Rightarrow> string \<Rightarrow> time \<Rightarrow> (string \<times> json) list \<Rightarrow>
    GholaShieldedSettlementEvidence option" where
  "evidence_of_answer h plan approval execution now body =
     (let get = (\<lambda>k. stringValue (obj_field body k)); attestation = parseAttestation h body now in
      if get ''proof_commitment'' = [] \<or> get ''witness_commitment'' = [] \<or> get ''relay_commitment'' = [] \<or>
         get ''finality_commitment'' = [] then None
      else if json_truthy (obj_field body ''attestation_commitment'') \<and> attestation = None then None
      else Some (evidenceFromCommitments (fh_host (pl_host h)) plan approval execution now
        (or_text (get ''network'') (sc_network (shieldedPoolConfig h)))
        \<lparr>sm_root = some_text (get ''root_commitment''), sm_proof = get ''proof_commitment'',
         sm_witness = get ''witness_commitment'', sm_relay = get ''relay_commitment'',
         sm_finality = get ''finality_commitment''\<rparr>
        (case relayStatusValue (get ''relay_status'') of None \<Rightarrow> Relay_unknown | Some r \<Rightarrow> r)
        (case lifecycleStatusValue (get ''lifecycle_status'') of None \<Rightarrow> Life_finality_pending | Some l \<Rightarrow> l)
        attestation))"

definition sealedRuntimeSettlementEvidence :: "pool_host \<Rightarrow> GholaPrivateExecutionPlan \<Rightarrow> string \<Rightarrow> string \<Rightarrow> time \<Rightarrow>
    GholaShieldedSettlementEvidence option" where
  "sealedRuntimeSettlementEvidence h plan approval execution now =
     (let c = shieldedPoolConfig h in
      if sc_local_test c \<or> sc_runtime_url c = [] then None
      else case pl_post h ''/private-mode/settle'' (sc_runtime_url c) (bearer (sc_runtime_token c)) (settle_request plan approval execution) of
          Fetch_threw \<Rightarrow> None
        | Fetched status answer \<Rightarrow>
            let body = asRecord answer in
            if \<not> fetch_ok status \<or> obj_field body ''ok'' = JBool False then None
            else evidence_of_answer h plan approval execution now body)"

section \<open>Settlement\<close>

datatype GholaPrivateSettlementError =
    Se_plan_not_ready | Se_pool_unhealthy | Se_runtime_unavailable | Se_settlement_unavailable | Se_evidence_malformed

fun settlement_error_name :: "GholaPrivateSettlementError \<Rightarrow> string" where
  "settlement_error_name Se_plan_not_ready = ''private_execution_plan_not_ready''"
| "settlement_error_name Se_pool_unhealthy = ''shielded_pool_unhealthy''"
| "settlement_error_name Se_runtime_unavailable = ''sealed_runtime_unavailable''"
| "settlement_error_name Se_settlement_unavailable = ''sealed_runtime_settlement_unavailable''"
| "settlement_error_name Se_evidence_malformed = ''settlement_evidence_malformed''"

definition settlePrivateExecutionPlan :: "pool_host \<Rightarrow> GholaPrivateExecutionPlan \<Rightarrow> string \<Rightarrow> string \<Rightarrow> time \<Rightarrow>
    GholaPrivateSettlementError + GholaShieldedSettlementEvidence" where
  "settlePrivateExecutionPlan h plan approval execution now =
     (if ep_status plan \<noteq> Plan_ready then Inl Se_plan_not_ready
      else if \<not> ep_required plan then Inr (internalSettlementEvidence h plan approval execution now)
      else let health = shieldedPoolHealth h now in
        if \<not> ph_green health then Inl Se_pool_unhealthy
        else if \<not> hs_green (ph_sealed_runtime health) then Inl Se_runtime_unavailable
        else if sc_local_test (shieldedPoolConfig h)
        then Inr (localSettlementEvidence (fh_host (pl_host h)) plan approval execution (ph_network health) now)
        else case sealedRuntimeSettlementEvidence h plan approval execution now of
            None \<Rightarrow> Inl Se_settlement_unavailable
          | Some e \<Rightarrow> Inr e)"

definition status_request :: "GholaShieldedSettlementEvidence \<Rightarrow> json" where
  "status_request e = JObj [(''settlement_commitment'', JStr (ste_commitment e)),
     (''execution_commitment'', JStr (ste_execution e)), (''relay_commitment'', JStr (re_relay (ste_relay e)))]"

definition refreshed :: "host \<Rightarrow> GholaShieldedSettlementEvidence \<Rightarrow> (string \<times> json) list \<Rightarrow> time \<Rightarrow> GholaShieldedSettlementEvidence" where
  "refreshed h e body now = (let get = (\<lambda>k. stringValue (obj_field body k)) in
     e\<lparr>ste_lifecycle := (case lifecycleStatusValue (get ''lifecycle_status'') of None \<Rightarrow> ste_lifecycle e | Some l \<Rightarrow> l),
       ste_relay := relayStatusEvidence h (or_text (get ''relay_commitment'') (re_relay (ste_relay e)))
         (case relayStatusValue (get ''relay_status'') of None \<Rightarrow> re_status (ste_relay e) | Some r \<Rightarrow> r) now,
       ste_finality := or_text (get ''finality_commitment'') (ste_finality e),
       ste_settled_at := or_text (get ''settled_at'') (ste_settled_at e)\<rparr>)"

definition refreshShieldedSettlementEvidence :: "pool_host \<Rightarrow> GholaShieldedSettlementEvidence \<Rightarrow> time \<Rightarrow> GholaShieldedSettlementEvidence" where
  "refreshShieldedSettlementEvidence h e now =
     (let c = shieldedPoolConfig h; commit = fh_host (pl_host h) in
      if sc_local_test c \<or> sc_runtime_url c = []
      then e\<lparr>ste_lifecycle := Life_finalized, ste_relay := relayStatusEvidence commit (re_relay (ste_relay e)) Relay_finalized now,
          ste_finality := or_text (ste_finality e) (gholaCommitment commit ''settlement_finality''
            (JObj [(''settlement_commitment'', JStr (ste_commitment e))])),
          ste_settled_at := to_iso now\<rparr>
      else case pl_post h ''/private-mode/settlement-status'' (sc_runtime_url c) (bearer (sc_runtime_token c)) (status_request e) of
          Fetch_threw \<Rightarrow> e
        | Fetched status answer \<Rightarrow>
            if \<not> fetch_ok status \<or> obj_field (asRecord answer) ''ok'' = JBool False then e
            else refreshed commit e (asRecord answer) now)"

section \<open>Rules\<close>

lemma plan_ready_iff:
  "ep_status (buildPrivateExecutionPlan h p health chain now) = Plan_ready \<longleftrightarrow>
     pv_status p \<noteq> Blocked_leaky_path \<and> pv_status p \<noteq> Degraded_user_accepted_required \<and> pv_blocked_reasons p = [] \<and>
     pv_wait_reasons p = [] \<and>
     (settlement_required (settlementKindFor (pv_rail p)) \<longrightarrow> ph_green health \<and> hs_green (ph_sealed_runtime health)) \<and>
     (isPrivateModeAvailableStatus (pv_status p) \<longrightarrow> chain_has chain ''batch_evidence_commitment'')"
proof -
  have "ep_status (buildPrivateExecutionPlan h p health chain now) =
    status_of_plan p (plan_waits p health chain)"
    by (simp add: buildPrivateExecutionPlan_def Let_def)
  then show ?thesis by (auto simp: status_of_plan_def plan_waits_def reason_if_def Let_def)
qed

lemma settle_binds:
  assumes "settlePrivateExecutionPlan h plan approval execution now = Inr e"
  shows "ste_plan e = ep_commitment plan" "ste_preview e = ep_preview plan" "ste_approval e = approval"
    "ste_execution e = execution" "ste_rail e = ep_rail plan" "ep_status plan = Plan_ready"
    "ep_required plan \<Longrightarrow> ph_green (shieldedPoolHealth h now)"
  using assms
  by (auto simp: settlePrivateExecutionPlan_def internalSettlementEvidence_def localSettlementEvidence_def
    sealedRuntimeSettlementEvidence_def evidence_of_answer_def evidenceFromCommitments_def Let_def
    split: if_splits option.splits fetch_answer.splits)

lemma runtime_check_unreachable: "settlePrivateExecutionPlan h plan approval execution now \<noteq> Inl Se_runtime_unavailable"
  using pool_green_runtime by (auto simp: settlePrivateExecutionPlan_def Let_def split: option.splits)

text \<open>A refresh changes neither what a settlement is bound to nor its proofs.\<close>

lemma refresh_binds:
  "ste_commitment (refreshShieldedSettlementEvidence h e now) = ste_commitment e"
  "ste_plan (refreshShieldedSettlementEvidence h e now) = ste_plan e"
  "ste_preview (refreshShieldedSettlementEvidence h e now) = ste_preview e"
  "ste_approval (refreshShieldedSettlementEvidence h e now) = ste_approval e"
  "ste_execution (refreshShieldedSettlementEvidence h e now) = ste_execution e"
  "ste_proof (refreshShieldedSettlementEvidence h e now) = ste_proof e"
  "ste_witness (refreshShieldedSettlementEvidence h e now) = ste_witness e"
  "ste_root (refreshShieldedSettlementEvidence h e now) = ste_root e"
  by (auto simp: refreshShieldedSettlementEvidence_def refreshed_def Let_def split: fetch_answer.splits)

end
