(* ===== verification/AccountFunding.thy ===== *)
theory AccountFunding imports AccountVerifier
begin

text \<open>
  The money of a private account, from \<open>apps/web/src/app/v1/private-account/_lib.ts\<close>: the account of an
  owner, deposit instructions, the import of a verified deposit, its credit on the balance, and the
  reservation of that balance for an order sent to the pooled venue account. Handlers go from the store
  to their answer and the next store; the answers of the code show a part of the record given here.
\<close>

section \<open>The account of an owner\<close>

definition stored_account :: "host \<Rightarrow> string \<Rightarrow> time \<Rightarrow> PrivateAccountRecordV1" where
  "stored_account h owner now =
     (let a = createPrivateExecutionAccount h \<lparr>se_session = Some owner, se_wallet = Some (''turnkey:'' @ owner),
            se_vault = Some (''vault:'' @ owner), se_policy = Some ''private-mode-default'',
            se_platform = Some (''platforms:'' @ owner), se_vault_ready = Some False\<rparr>
      in \<lparr>ar_owner = owner, ar_commitment = ga_account a, ar_session = ga_session a, ar_wallet = ga_wallet a,
          ar_vault_root = ga_vault_root a, ar_note_root = gholaCommitment h ''note_root'' (JStr (ga_vault_root a)),
          ar_nullifier_root = gholaCommitment h ''nullifier_root'' (JStr (ga_vault_root a)),
          ar_platform_root = ga_platform_root a, ar_policy = ga_policy a, ar_vault_ready = False, ar_account = a,
          ar_created_at = now, ar_updated_at = now\<rparr>)"

definition empty_vault :: "PrivateAccountRecordV1 \<Rightarrow> time \<Rightarrow> PrivateVaultStateRecordV1" where
  "empty_vault r now = \<lparr>vs_owner = ar_owner r, vs_account = ar_commitment r, vs_vault_root = ar_vault_root r,
     vs_note_root = ar_note_root r, vs_nullifier_root = ar_nullifier_root r, vs_balance_buckets = [],
     vs_ready_rails = [], vs_last_import = None, vs_created_at = now, vs_updated_at = now\<rparr>"

definition createOrGetStoredPrivateAccount :: "host \<Rightarrow> string \<Rightarrow> time \<Rightarrow> account_store \<Rightarrow>
    PrivateAccountRecordV1 \<times> account_store" where
  "createOrGetStoredPrivateAccount h owner now st = (case getPrivateAccountByOwner st owner of
       Some r \<Rightarrow> (r, st)
     | None \<Rightarrow> (let r = stored_account h owner now in
         (r, putPrivacyBudget \<lparr>bud_owner = owner, bud_account = ar_commitment r, bud_budget = defaultBudget, bud_updated_at = now\<rparr>
           (putPrivateVaultState (empty_vault r now) (putPrivateAccountRecord r st)))))"

section \<open>Deposit instructions\<close>

definition isFundingAssetBucket :: "string \<Rightarrow> bool" where
  "isFundingAssetBucket s \<longleftrightarrow> s \<in> set [''stablecoin'', ''SOL'', ''ETH'', ''BTC'', ''major'', ''long_tail'']"

definition last_chars :: "nat \<Rightarrow> string \<Rightarrow> string" where
  "last_chars n s = drop (length s - n) s"

definition customShieldedDestination :: "funding_host \<Rightarrow> PrivateAccountRecordV1 \<Rightarrow> string" where
  "customShieldedDestination h a = or_text (trimmed_env h ''GHOLA_CUSTOM_SHIELDED_DEPOSIT_DESTINATION'')
     (''ghola_shielded_'' @ last_chars 32 (ar_commitment a))"

definition FUNDING_TTL_MS :: int where
  "FUNDING_TTL_MS = 3600000"

definition new_instruction :: "funding_host \<Rightarrow> PrivateAccountRecordV1 \<Rightarrow> string \<Rightarrow> string \<Rightarrow> string \<Rightarrow> time \<Rightarrow>
    PrivateFundingInstructionRecordV1" where
  "new_instruction h a uuid asset amount now =
     (let destination = customShieldedDestination h a in
      \<lparr>fin_id = ''pact_funding_'' @ uuid, fin_owner = ar_owner a, fin_account = ar_commitment a,
       fin_commitment = gholaCommitment (fh_host h) ''funding_intent'' (JObj [(''account_commitment'', JStr (ar_commitment a)),
         (''amount_bucket'', JStr amount), (''asset_bucket'', JStr asset), (''created_at'', JStr (to_iso now))]),
       fin_asset = asset, fin_amount = amount,
       fin_destination_commitment = gholaCommitment (fh_host h) ''funding_destination'' (JStr destination),
       fin_destination = destination, fin_status = Fund_pending, fin_created_at = now,
       fin_expires_at = now + FUNDING_TTL_MS, fin_updated_at = now\<rparr>)"

definition fundingInstructionFromBody :: "funding_host \<Rightarrow> json \<Rightarrow> string \<Rightarrow> string \<Rightarrow> time \<Rightarrow> account_store \<Rightarrow>
    PrivateFundingInstructionRecordV1 result \<times> account_store" where
  "fundingInstructionFromBody h body owner uuid now st =
     (let value = asRecord body;
          amount = or_text (stringValue (obj_field value ''amount_bucket'')) ''25'';
          asset = or_text (stringValue (obj_field value ''asset_bucket'')) ''stablecoin''
      in if \<not> isFundingAmountBucket amount then (throw ''valid amount_bucket is required'', st)
         else if \<not> isFundingAssetBucket asset then (throw ''valid asset_bucket is required'', st)
         else let (a, st1) = createOrGetStoredPrivateAccount (fh_host h) owner now st;
                  i = (new_instruction h a uuid asset amount now)\<lparr>fin_owner := owner\<rparr>
              in (return_ok i, putPrivateFundingInstruction i st1))"

section \<open>Imports\<close>

definition rejected_import :: "funding_host \<Rightarrow> string \<Rightarrow> PrivateFundingInstructionRecordV1 \<Rightarrow> string \<Rightarrow>
    PrivateShieldedVerifierError \<Rightarrow> time \<Rightarrow> PrivateFundingImportRecordV1" where
  "rejected_import h owner i receipt e now =
     (let commit = gholaCommitment (fh_host h); error = verifier_error_name e in
      \<lparr>fim_commitment = commit ''funding_import_rejected'' (JObj [(''funding_intent_commitment'', JStr (fin_commitment i)),
         (''receipt_id'', JStr receipt), (''error'', JStr error), (''at'', JStr (to_iso now))]),
       fim_owner = owner, fim_account = fin_account i, fim_intent_id = fin_id i,
       fim_intent_commitment = fin_commitment i,
       fim_receipt = commit ''funding_receipt_rejected'' (JObj [(''receipt_id'', JStr receipt),
         (''destination_commitment'', JStr (fin_destination_commitment i))]),
       fim_nullifier = commit ''funding_nullifier_rejected'' (JObj [(''receipt_id'', JStr receipt),
         (''destination_commitment'', JStr (fin_destination_commitment i)), (''error'', JStr error), (''at'', JStr (to_iso now))]),
       fim_note_root = commit ''note_root_rejected'' (JStr (fin_commitment i)),
       fim_amount = fin_amount i, fim_asset = fin_asset i,
       fim_verifier_status = (if e = Ve_stale then Ver_stale
         else if e = Ve_insufficient_confirmations then Ver_insufficient_confirmations else Ver_rejected),
       fim_verifier = commit ''verifier_rejected'' (JStr error), fim_observed_at = now,
       fim_head = commit ''verifier_head_rejected'' (JStr error), fim_depth = num 0,
       fim_network = vc_network (verifierConfig h), fim_rejection = Some error, fim_imported_at = now\<rparr>)"

definition recordRejectedFundingImport :: "funding_host \<Rightarrow> string \<Rightarrow> PrivateFundingInstructionRecordV1 \<Rightarrow> string \<Rightarrow>
    PrivateShieldedVerifierError \<Rightarrow> time \<Rightarrow> account_store \<Rightarrow> account_store" where
  "recordRejectedFundingImport h owner i receipt e now st =
     putPrivateFundingImport (rejected_import h owner i receipt e now) st"

definition verified_import :: "funding_host \<Rightarrow> string \<Rightarrow> PrivateFundingInstructionRecordV1 \<Rightarrow> PrivateAccountRecordV1 \<Rightarrow>
    PrivateShieldedVerifierResult \<Rightarrow> time \<Rightarrow> PrivateFundingImportRecordV1" where
  "verified_import h owner i a v now =
     (let commit = gholaCommitment (fh_host h) in
      \<lparr>fim_commitment = commit ''funding_import'' (JObj [(''funding_intent_commitment'', JStr (fin_commitment i)),
         (''receipt_commitment'', JStr (vr_receipt v)), (''nullifier_commitment'', JStr (vr_nullifier v))]),
       fim_owner = owner, fim_account = fin_account i, fim_intent_id = fin_id i,
       fim_intent_commitment = fin_commitment i, fim_receipt = vr_receipt v, fim_nullifier = vr_nullifier v,
       fim_note_root = commit ''note_root'' (JObj [(''vault_root_commitment'', JStr (ar_vault_root a)),
         (''receipt_commitment'', JStr (vr_receipt v))]),
       fim_amount = vr_amount v, fim_asset = vr_asset v, fim_verifier_status = Ver_verified,
       fim_verifier = vr_verifier v, fim_observed_at = vr_observed_at v, fim_head = vr_head v,
       fim_depth = vr_depth v, fim_network = vr_network v, fim_rejection = None, fim_imported_at = now\<rparr>)"

definition imported_vault :: "host \<Rightarrow> PrivateAccountRecordV1 \<Rightarrow> PrivateFundingImportRecordV1 \<Rightarrow>
    PrivateVaultStateRecordV1 option \<Rightarrow> time \<Rightarrow> PrivateVaultStateRecordV1" where
  "imported_vault h a m existing now =
     \<lparr>vs_owner = ar_owner a, vs_account = ar_commitment a, vs_vault_root = ar_vault_root a,
      vs_note_root = fim_note_root m, vs_nullifier_root = gholaCommitment h ''nullifier_root'' (JStr (fim_nullifier m)),
      vs_balance_buckets = js_uniq ((case existing of None \<Rightarrow> [] | Some v \<Rightarrow> vs_balance_buckets v) @
        [fim_asset m @ ''_'' @ fim_amount m]),
      vs_ready_rails = js_uniq ((case existing of None \<Rightarrow> [] | Some v \<Rightarrow> vs_ready_rails v) @
        [Private_state_only, Vault_omnibus_netting, Shielded_pool]),
      vs_last_import = Some (fim_commitment m),
      vs_created_at = (case existing of None \<Rightarrow> now | Some v \<Rightarrow> vs_created_at v), vs_updated_at = now\<rparr>"

definition markVaultImported :: "host \<Rightarrow> PrivateAccountRecordV1 \<Rightarrow> PrivateFundingImportRecordV1 \<Rightarrow> time \<Rightarrow>
    account_store \<Rightarrow> account_store" where
  "markVaultImported h a m now st =
     putPrivateVaultState (imported_vault h a m (getPrivateVaultState st (ar_commitment a)) now)
       (putPrivateAccountRecord (a\<lparr>ar_vault_ready := True, ar_account := (ar_account a)\<lparr>ga_vault_ready := True\<rparr>,
          ar_note_root := fim_note_root m, ar_updated_at := now\<rparr>) st)"

text \<open>\<open>isPrivateAccountRecordExpired\<close>, then the verifier, then the nullifier and the account.\<close>

definition fundingImportFromBody :: "funding_host \<Rightarrow> json \<Rightarrow> string \<Rightarrow> time \<Rightarrow> account_store \<Rightarrow>
    PrivateFundingImportRecordV1 result \<times> account_store" where
  "fundingImportFromBody h body owner now st =
     (let value = asRecord body;
          intent_id = stringValue (obj_field value ''funding_intent_id'');
          receipt = stringValue (obj_field value ''receipt_id'')
      in if intent_id = [] then (throw ''funding_instruction_not_found'', st)
         else if receipt = [] then (throw ''shielded_receipt_required'', st)
         else case getPrivateFundingInstruction st intent_id of
             None \<Rightarrow> (throw ''funding_instruction_not_found'', st)
           | Some i \<Rightarrow>
               if fin_owner i \<noteq> owner then (throw ''funding_instruction_not_found'', st)
               else if fin_status i = Fund_imported then (throw ''funding_already_imported'', st)
               else if isPrivateAccountRecordExpired (fin_expires_at i) now then (throw ''funding_instruction_expired'', st)
               else (case verifyCustomShieldedDepositReceipt h i receipt now of
                   Inl e \<Rightarrow> (throw (verifier_error_name e),
                     putPrivateFundingInstruction (i\<lparr>fin_status := Fund_rejected, fin_updated_at := now\<rparr>)
                       (recordRejectedFundingImport h owner i receipt e now st))
                 | Inr v \<Rightarrow>
                     if getPrivateFundingImportByNullifier st (vr_nullifier v) \<noteq> None then (throw ''duplicate_nullifier'', st)
                     else (case getPrivateAccountByCommitment st (fin_account i) of
                         None \<Rightarrow> (throw ''account_not_found'', st)
                       | Some a \<Rightarrow> (let m = verified_import h owner i a v now in
                           (return_ok m, markVaultImported (fh_host h) a m now
                             (putPrivateFundingInstruction (i\<lparr>fin_status := Fund_imported, fin_updated_at := now\<rparr>)
                               (putPrivateFundingImport m st)))))))"

section \<open>The balance\<close>

definition MICRO_USDC_PER_USD :: int where
  "MICRO_USDC_PER_USD = 1000000"

definition amountBucketMicroUsdc :: "string \<Rightarrow> int" where
  "amountBucketMicroUsdc bucket = (if \<not> isFundingAmountBucket bucket then 0
     else num_int (js_parse_int 10 bucket) * MICRO_USDC_PER_USD)"

record ledger_input =
  li_kind :: PrivateGholaBalanceEntryKind
  li_venue :: PrivateGholaBalanceVenueId
  li_available :: int
  li_reserved :: int
  li_open_notional :: int
  li_reference :: "string option"
  li_reason :: "string option"
  li_created_at :: time

definition ledger_entry_id :: "host \<Rightarrow> string \<Rightarrow> string \<Rightarrow> string" where
  "ledger_entry_id h account key = gholaCommitment h ''ghola_balance_ledger_entry''
     (JObj [(''account_commitment'', JStr account), (''idempotency_key'', JStr key)])"

definition appendGholaBalanceLedgerEntry :: "host \<Rightarrow> string \<Rightarrow> string \<Rightarrow> string \<Rightarrow> ledger_input \<Rightarrow> account_store \<Rightarrow>
    PrivateGholaBalanceLedgerEntryRecordV1 \<times> account_store" where
  "appendGholaBalanceLedgerEntry h owner account key inp st = putGholaBalanceLedgerEntry
     \<lparr>gle_id = ledger_entry_id h account key, gle_owner = owner, gle_account = account, gle_key = key,
      gle_kind = li_kind inp, gle_venue = li_venue inp, gle_available = li_available inp, gle_reserved = li_reserved inp,
      gle_open_notional = li_open_notional inp, gle_realized_pnl = 0, gle_unrealized_pnl = 0,
      gle_reference = li_reference inp, gle_reason = li_reason inp, gle_created_at = li_created_at inp\<rparr> st"

definition credit_key :: "string \<Rightarrow> string" where
  "credit_key import_commitment = ''funding_import:'' @ import_commitment"

definition gholaBalanceImportCreditFromBody :: "funding_host \<Rightarrow> json \<Rightarrow> string \<Rightarrow> time \<Rightarrow> account_store \<Rightarrow>
    (PrivateGholaBalanceLedgerEntryRecordV1 \<times> PrivateGholaBalanceSnapshotV1) result \<times> account_store" where
  "gholaBalanceImportCreditFromBody h body owner now st = (case fundingImportFromBody h body owner now st of
       (Inl e, st1) \<Rightarrow> (Inl e, st1)
     | (Inr m, st1) \<Rightarrow>
         let amount = amountBucketMicroUsdc (fim_amount m) in
         if fim_asset m \<noteq> ''stablecoin'' then (throw ''stablecoin_balance_required'', st1)
         else if amount \<le> 0 then (throw ''valid amount_bucket is required'', st1)
         else let (entry, st2) = appendGholaBalanceLedgerEntry (fh_host h) owner (fim_account m) (credit_key (fim_commitment m))
                \<lparr>li_kind = Gl_deposit_credit, li_venue = At_ghola, li_available = amount, li_reserved = 0,
                 li_open_notional = 0, li_reference = Some (fim_commitment m),
                 li_reason = Some ''shielded_funding_import_verified'', li_created_at = fim_imported_at m\<rparr> st1
              in (return_ok (entry, getGholaBalanceSnapshot st2 owner (fim_account m)), st2))"

definition gholaBalanceForOwner :: "host \<Rightarrow> string \<Rightarrow> time \<Rightarrow> account_store \<Rightarrow>
    (PrivateGholaBalanceSnapshotV1 \<times> PrivateGholaBalanceLedgerEntryRecordV1 list) \<times> account_store" where
  "gholaBalanceForOwner h owner now st =
     (let (a, st1) = createOrGetStoredPrivateAccount h owner now st
      in ((getGholaBalanceSnapshot st1 owner (ar_commitment a),
           rev (listGholaBalanceLedgerEntries st1 (ar_commitment a) 50)), st1))"

section \<open>Reservations for the pooled venue account\<close>

definition positiveIntegerEnv :: "funding_host \<Rightarrow> string \<Rightarrow> int \<Rightarrow> int" where
  "positiveIntegerEnv h name fallback = (case js_parse_int 10 (case fh_env h name of None \<Rightarrow> [] | Some s \<Rightarrow> s) of
       Fin r \<Rightarrow> if r > 0 then \<lfloor>r\<rfloor> else fallback
     | _ \<Rightarrow> fallback)"

definition reserve_key :: "string \<Rightarrow> string" where
  "reserve_key work_order = ''connector_submit_reserve:'' @ work_order"

definition release_key :: "string \<Rightarrow> string" where
  "release_key work_order = ''connector_submit_release:'' @ work_order"

definition submitted_key :: "string \<Rightarrow> string" where
  "submitted_key work_order = ''connector_submit_submitted:'' @ work_order"

definition balance_lock :: "string \<Rightarrow> string" where
  "balance_lock account = ''ghola_balance:'' @ account"

definition reserveGholaBalanceForPooledHyperliquidSubmit :: "funding_host \<Rightarrow> string \<Rightarrow> string \<Rightarrow> string \<Rightarrow> string \<Rightarrow> string \<Rightarrow>
    time \<Rightarrow> account_store \<Rightarrow> PrivateGholaBalanceLedgerEntryRecordV1 result \<times> account_store" where
  "reserveGholaBalanceForPooledHyperliquidSubmit h owner account work_order amount_bucket policy_max now st =
     (let requested = amountBucketMicroUsdc (or_text amount_bucket ''25'');
          policy = amountBucketMicroUsdc (or_text policy_max ''25'')
      in if requested \<le> 0 \<or> policy \<le> 0 \<or> requested > policy then (throw ''connector_submit_blocked'', st)
         else case find (\<lambda>e. gle_key e = reserve_key work_order) (listGholaBalanceLedgerEntries st account 250) of
             Some existing \<Rightarrow> (return_ok existing, st)
           | None \<Rightarrow>
               let run = gholaCommitment (fh_host h) ''ghola_balance_reserve_lock_run''
                     (JObj [(''account_commitment'', JStr account), (''work_order_commitment'', JStr work_order)]);
                   ((acquired, lock), st1) = acquirePrivateCoordinatorLock (balance_lock account) run now
                     (positiveIntegerEnv h ''GHOLA_PRIVATE_ACCOUNT_BALANCE_LOCK_TTL_MS'' 30000) st
               in if \<not> acquired then (throw ''connector_submit_in_progress'', st1)
                  else let (answer, st2) =
                      (if gbs_available (getGholaBalanceSnapshot st1 owner account) < requested
                       then (throw ''ghola_balance_insufficient'', st1)
                       else map_prod return_ok id (appendGholaBalanceLedgerEntry (fh_host h) owner account (reserve_key work_order)
                         \<lparr>li_kind = Gl_margin_reserved, li_venue = At_hyperliquid, li_available = - requested,
                          li_reserved = requested, li_open_notional = 0, li_reference = Some work_order,
                          li_reason = Some ''pooled_hyperliquid_submit_reserved'', li_created_at = now\<rparr> st1))
                    in (answer, releasePrivateCoordinatorLock (balance_lock account) run st2))"

definition releaseGholaBalanceReservationAfterFailedSubmit :: "funding_host \<Rightarrow> string \<Rightarrow> string \<Rightarrow> string \<Rightarrow>
    PrivateGholaBalanceLedgerEntryRecordV1 \<Rightarrow> string \<Rightarrow> time \<Rightarrow> account_store \<Rightarrow> account_store" where
  "releaseGholaBalanceReservationAfterFailedSubmit h owner account work_order r reason now st =
     (let reserved = max 0 (gle_reserved r) in
      if reserved \<le> 0 then st
      else snd (appendGholaBalanceLedgerEntry (fh_host h) owner account (release_key work_order)
        \<lparr>li_kind = Gl_margin_released, li_venue = At_hyperliquid, li_available = reserved, li_reserved = - reserved,
         li_open_notional = 0, li_reference = Some (gle_id r), li_reason = Some reason, li_created_at = now\<rparr> st))"

definition markGholaBalanceOrderSubmitted :: "funding_host \<Rightarrow> string \<Rightarrow> string \<Rightarrow> string \<Rightarrow>
    PrivateGholaBalanceLedgerEntryRecordV1 \<Rightarrow> time \<Rightarrow> account_store \<Rightarrow> account_store" where
  "markGholaBalanceOrderSubmitted h owner account work_order r now st =
     snd (appendGholaBalanceLedgerEntry (fh_host h) owner account (submitted_key work_order)
       \<lparr>li_kind = Gl_order_submitted, li_venue = At_hyperliquid, li_available = 0, li_reserved = 0,
        li_open_notional = max 0 (gle_reserved r), li_reference = Some (gle_id r),
        li_reason = Some ''pooled_hyperliquid_order_submitted'', li_created_at = now\<rparr> st)"

section \<open>Submitting a work order\<close>

text \<open>What the venue connector answers to a submission is a parameter; the result of a submission that
  succeeded is stored under the work order.\<close>

record connector_result =
  res_commitment :: string
  res_status :: string
  res_json :: json
  res_created_at :: time
  res_updated_at :: time

definition own_result :: "account_store \<Rightarrow> string \<Rightarrow> PrivateConnectorWorkOrderRecordV1 \<Rightarrow> PrivateConnectorResultRecordV1 option" where
  "own_result st owner w = (case getConnectorResultByWorkOrder st (wo_commitment w) of
       None \<Rightarrow> None
     | Some r \<Rightarrow> if cr_owner r = owner then Some r else None)"

definition store_submission :: "string \<Rightarrow> PrivateConnectorWorkOrderRecordV1 \<Rightarrow> connector_result \<Rightarrow> time \<Rightarrow> account_store \<Rightarrow>
    PrivateConnectorResultRecordV1 \<times> account_store" where
  "store_submission owner w res now st =
     (let r = \<lparr>cr_commitment = res_commitment res, cr_work_order = wo_commitment w, cr_owner = owner,
            cr_intent_id = wo_intent_id w, cr_platform = wo_platform w, cr_status = res_status res,
            cr_result = res_json res, cr_created_at = res_created_at res, cr_updated_at = res_updated_at res\<rparr>
      in (r, putConnectorResult r (putConnectorWorkOrder (w\<lparr>wo_status := res_status res,
        wo_order := js_set (js_set (wo_order w) ''status'' (JStr (res_status res))) ''updated_at'' (JStr (to_iso now)),
        wo_updated_at := now\<rparr>) st)))"

text \<open>What happens while the lock of the work order is held. \<open>pooled\<close> gives the amount and the cap of the
  order when the balance of the account must cover it. \<open>submitted\<close> is an answer or an error and never an exception:
  \<open>submitConnectorWorkOrder\<close> (\<open>private-account-connectors.ts\<close>) catches whatever its request throws and answers the
  error \<open>connector_submit_failed\<close>, so a lost response also takes the branch that releases the reservation.\<close>

definition submit_locked :: "funding_host \<Rightarrow> string \<Rightarrow> (string \<times> string) option \<Rightarrow> PrivateConnectorWorkOrderRecordV1 \<Rightarrow>
    connector_result result \<Rightarrow> time \<Rightarrow> account_store \<Rightarrow> PrivateConnectorResultRecordV1 result \<times> account_store" where
  "submit_locked h owner pooled w submitted now st = (case own_result st owner w of
       Some r \<Rightarrow> (return_ok r, st)
     | None \<Rightarrow>
         let (reserved, st1) = (case pooled of
               None \<Rightarrow> (return_ok None, st)
             | Some (amount, policy_max) \<Rightarrow>
                 (case reserveGholaBalanceForPooledHyperliquidSubmit h owner (wo_account w) (wo_commitment w)
                    amount policy_max now st of
                    (Inl e, s) \<Rightarrow> (throw e, s)
                  | (Inr r, s) \<Rightarrow> (return_ok (Some r), s)))
         in case reserved of
             Inl e \<Rightarrow> (throw e, st1)
           | Inr reservation \<Rightarrow>
               (case submitted of
                  Inl e \<Rightarrow> (throw e, case reservation of
                      None \<Rightarrow> st1
                    | Some r \<Rightarrow> releaseGholaBalanceReservationAfterFailedSubmit h owner (wo_account w) (wo_commitment w) r e now st1)
                | Inr res \<Rightarrow> map_prod return_ok id (store_submission owner w res now
                    (case reservation of None \<Rightarrow> st1
                     | Some r \<Rightarrow> markGholaBalanceOrderSubmitted h owner (wo_account w) (wo_commitment w) r now st1))))"

definition submit_lock :: "PrivateConnectorWorkOrderRecordV1 \<Rightarrow> string" where
  "submit_lock w = ''connector_submit:'' @ wo_commitment w"

definition submit_run :: "host \<Rightarrow> string \<Rightarrow> string \<Rightarrow> PrivateConnectorWorkOrderRecordV1 \<Rightarrow> string" where
  "submit_run h owner approval w = gholaCommitment h ''connector_submit_lock_run''
     (JObj [(''work_order_commitment'', JStr (wo_commitment w)), (''approval_commitment'', JStr approval),
        (''owner_commitment'', JStr owner)])"

definition submit_work_order :: "funding_host \<Rightarrow> string \<Rightarrow> string \<Rightarrow> (string \<times> string) option \<Rightarrow>
    PrivateConnectorWorkOrderRecordV1 \<Rightarrow> connector_result result \<Rightarrow> time \<Rightarrow> account_store \<Rightarrow>
    PrivateConnectorResultRecordV1 result \<times> account_store" where
  "submit_work_order h owner approval pooled w submitted now st = (case own_result st owner w of
       Some r \<Rightarrow> (return_ok r, st)
     | None \<Rightarrow>
         let ((acquired, lock), st1) = acquirePrivateCoordinatorLock (submit_lock w) (submit_run (fh_host h) owner approval w)
               now (positiveIntegerEnv h ''GHOLA_PRIVATE_ACCOUNT_CONNECTOR_SUBMIT_LOCK_TTL_MS'' 30000) st
         in if \<not> acquired
            then (case own_result st1 owner w of Some r \<Rightarrow> (return_ok r, st1) | None \<Rightarrow> (throw ''connector_submit_in_progress'', st1))
            else let (answer, st2) = submit_locked h owner pooled w submitted now st1
                 in (answer, releasePrivateCoordinatorLock (submit_lock w) (submit_run (fh_host h) owner approval w) st2))"

end
