(* ===== verification/AuctionChain.thy ===== *)
theory AuctionChain imports AccountStore JsNumber
begin

text \<open>
  \<open>apps/web/src/lib/private-account-auction-onchain.ts\<close>: the unsigned Solana transactions of the sealed
  auction and the check of a signature. Bytes are characters, a public key is its 32 bytes. The Solana
  library, SHA-256 and the RPC node are parameters; an error is the code of an \<open>AuctionOnChainError\<close>, or
  \<open>None\<close> for any other exception.
\<close>

section \<open>Exceptions\<close>

type_synonym 'a chained = "string option + 'a"

definition chain_then :: "'a chained \<Rightarrow> ('a \<Rightarrow> 'b chained) \<Rightarrow> 'b chained" where
  "chain_then m f = (case m of Inl e \<Rightarrow> Inl e | Inr x \<Rightarrow> f x)"

lemma chain_then_simps [simp]: "chain_then (Inl e) f = Inl e" "chain_then (Inr x) f = f x"
  by (simp_all add: chain_then_def)

lemma chain_then_ok [throw_rules]: "chain_then m f = Inr y \<longleftrightarrow> (\<exists>x. m = Inr x \<and> f x = Inr y)"
  by (cases m) auto

abbreviation auction_error :: "string \<Rightarrow> 'a chained" where
  "auction_error code \<equiv> Inl (Some code)"

abbreviation other_exception :: "'a chained" where
  "other_exception \<equiv> Inl None"

section \<open>Transactions\<close>

record account_meta =
  am_key :: string
  am_signer :: bool
  am_writable :: bool

definition signerMeta :: "string \<Rightarrow> account_meta" where
  "signerMeta k = \<lparr>am_key = k, am_signer = True, am_writable = True\<rparr>"

definition writable :: "string \<Rightarrow> account_meta" where
  "writable k = \<lparr>am_key = k, am_signer = False, am_writable = True\<rparr>"

definition readonly :: "string \<Rightarrow> account_meta" where
  "readonly k = \<lparr>am_key = k, am_signer = False, am_writable = False\<rparr>"

record unsigned_transaction =
  ut_payer :: string
  ut_blockhash :: string
  ut_program :: string
  ut_keys :: "account_meta list"
  ut_data :: string

text \<open>What the node answers for a finalized transaction: its static account keys, whether it failed, its slot.\<close>

datatype chain_answer = Rpc_threw | Rpc_missing | Rpc_found "string list" bool int

record chain_host =
  ch_public_key :: "string \<Rightarrow> string option"
  ch_base58 :: "string \<Rightarrow> string"
  ch_find_pda :: "string list \<Rightarrow> string \<Rightarrow> string option"
  ch_sha256 :: "string \<Rightarrow> string"
  ch_base64 :: "string \<Rightarrow> string"
  ch_serialize :: "unsigned_transaction \<Rightarrow> string option"
  ch_latest_blockhash :: "string \<Rightarrow> string option"
  ch_get_transaction :: "string \<Rightarrow> string \<Rightarrow> chain_answer"

type_synonym environment = "string \<Rightarrow> string option"

definition env_trimmed :: "environment \<Rightarrow> string \<Rightarrow> string" where
  "env_trimmed env name = (case env name of None \<Rightarrow> [] | Some s \<Rightarrow> js_trim s)"

section \<open>Bytes\<close>

text \<open>\<open>value.trim().replace(/^0x/i, "")\<close>\<close>

definition strip_0x :: "string \<Rightarrow> string" where
  "strip_0x s = (if take 2 s = ''0x'' \<or> take 2 s = ''0X'' then drop 2 s else s)"

definition hex_chars :: string where
  "hex_chars = ''0123456789abcdefABCDEF''"

fun hex_decode :: "string \<Rightarrow> string" where
  "hex_decode (a # b # cs) =
     (case (digit_value 16 a, digit_value 16 b) of
        (Some x, Some y) \<Rightarrow> char_of (nat (16 * x + y)) # hex_decode cs
      | _ \<Rightarrow> [])"
| "hex_decode _ = []"

definition bytes :: "string \<Rightarrow> nat \<Rightarrow> string \<Rightarrow> string chained" where
  "bytes value len code =
     (let normalized = strip_0x (js_trim value) in
      if \<not> (normalized \<noteq> [] \<and> list_all (\<lambda>c. c \<in> set hex_chars) normalized) \<or> length normalized \<noteq> len * 2
      then auction_error code
      else Inr (hex_decode normalized))"

definition BN254_SCALAR_FIELD_BE :: "nat list" where
  "BN254_SCALAR_FIELD_BE =
    [0x30, 0x64, 0x4e, 0x72, 0xe1, 0x31, 0xa0, 0x29,
     0xb8, 0x50, 0x45, 0xb6, 0x81, 0x81, 0x58, 0x5d,
     0x28, 0x33, 0xe8, 0x48, 0x79, 0xb9, 0x70, 0x91,
     0x43, 0xe1, 0xf5, 0x93, 0xf0, 0x00, 0x00, 0x01]"

text \<open>The loop of \<open>isCanonicalFieldElement\<close>: the first byte that differs decides, equality is refused.\<close>

fun below_modulus :: "nat list \<Rightarrow> nat list \<Rightarrow> bool" where
  "below_modulus (v # vs) (m # ms) = (if v < m then True else if m < v then False else below_modulus vs ms)"
| "below_modulus _ _ = False"

definition isCanonicalFieldElement :: "string \<Rightarrow> bool" where
  "isCanonicalFieldElement value \<longleftrightarrow> below_modulus (map of_char value) BN254_SCALAR_FIELD_BE"

definition field :: "string \<Rightarrow> string \<Rightarrow> string chained" where
  "field value code = chain_then (bytes value 32 code) (\<lambda>parsed.
     if isCanonicalFieldElement parsed then Inr parsed else auction_error code)"

definition u8 :: "int \<Rightarrow> string" where
  "u8 n = [char_of (nat (n mod 256))]"

fun little_endian :: "nat \<Rightarrow> int \<Rightarrow> string" where
  "little_endian 0 n = []"
| "little_endian (Suc k) n = char_of (nat (n mod 256)) # little_endian k (n div 256)"

definition u16 :: "int \<Rightarrow> string" where
  "u16 n = little_endian 2 (max 0 (min 65535 n))"

text \<open>\<open>writeBigUInt64LE\<close> throws a \<open>RangeError\<close> outside 64 bits.\<close>

definition u64 :: "int \<Rightarrow> string chained" where
  "u64 n = (if 0 \<le> n \<and> n < 2 ^ 64 then Inr (little_endian 8 n) else other_exception)"

definition sideCode :: "string \<Rightarrow> int" where
  "sideCode side = (if side = ''sell'' then 1 else 0)"

definition discriminator :: "chain_host \<Rightarrow> string \<Rightarrow> string" where
  "discriminator c name = take 8 (ch_sha256 c (''global:'' @ name))"

section \<open>Configuration and accounts\<close>

definition publicKey :: "chain_host \<Rightarrow> string \<Rightarrow> string \<Rightarrow> string chained" where
  "publicKey c value code = (case ch_public_key c (js_trim value) of None \<Rightarrow> auction_error code | Some k \<Rightarrow> Inr k)"

record AuctionOnChainConfig =
  oc_program :: string
  oc_mint :: string

definition config :: "chain_host \<Rightarrow> environment \<Rightarrow> AuctionOnChainConfig chained" where
  "config c env =
     chain_then (publicKey c (case env ''GHOLA_SHIELDED_POOL_PROGRAM_ID'' of None \<Rightarrow> [] | Some s \<Rightarrow> s) ''auction_program_id_missing'') (\<lambda>program.
     chain_then (publicKey c (case env ''GHOLA_SHIELDED_POOL_MINT'' of None \<Rightarrow> [] | Some s \<Rightarrow> s) ''auction_mint_missing'') (\<lambda>mint.
     Inr \<lparr>oc_program = program, oc_mint = mint\<rparr>))"

definition findPda :: "chain_host \<Rightarrow> environment \<Rightarrow> string list \<Rightarrow> string \<Rightarrow> string chained" where
  "findPda c env seeds program = (case ch_find_pda c seeds program of
       Some k \<Rightarrow> Inr k
     | None \<Rightarrow> if env ''NODE_ENV'' \<noteq> Some ''test'' then other_exception
         else Inr (ch_sha256 c (concat seeds @ program)))"

record auction_accounts =
  ac_pool_config :: string
  ac_market :: string
  ac_epoch :: string
  ac_order :: string
  ac_nullifier :: string
  ac_clearing :: string

definition ZERO_32 :: string where
  "ZERO_32 = replicate 32 (CHR 0x00)"

definition auctionAccounts :: "chain_host \<Rightarrow> environment \<Rightarrow> AuctionOnChainConfig \<Rightarrow> string \<Rightarrow> int \<Rightarrow> string \<Rightarrow> string \<Rightarrow>
    auction_accounts chained" where
  "auctionAccounts c env cfg market epoch_id order nullifier =
     chain_then (findPda c env [''pool_config''] (oc_program cfg)) (\<lambda>pool.
     chain_then (findPda c env [''auction_market'', pool, oc_mint cfg, market] (oc_program cfg)) (\<lambda>market_pda.
     chain_then (u64 epoch_id) (\<lambda>epoch_bytes.
     chain_then (findPda c env [''auction_epoch'', market_pda, epoch_bytes] (oc_program cfg)) (\<lambda>epoch_pda.
     chain_then (findPda c env [''auction_order'', epoch_pda, order] (oc_program cfg)) (\<lambda>order_pda.
     chain_then (findPda c env [''auction_order_nullifier'', market_pda, nullifier] (oc_program cfg)) (\<lambda>nullifier_pda.
     chain_then (findPda c env [''auction_clearing'', epoch_pda] (oc_program cfg)) (\<lambda>clearing_pda.
     Inr \<lparr>ac_pool_config = pool, ac_market = market_pda, ac_epoch = epoch_pda, ac_order = order_pda,
          ac_nullifier = nullifier_pda, ac_clearing = clearing_pda\<rparr>)))))))"

text \<open>\<open>SystemProgram.programId\<close>\<close>

definition system_program :: string where
  "system_program = ZERO_32"

definition rpcUrl :: "environment \<Rightarrow> string" where
  "rpcUrl env = text_or (Some (env_trimmed env ''NEXT_PUBLIC_SOLANA_RPC_URL''))
     (text_or (Some (env_trimmed env ''NEXT_PUBLIC_SOLANA_RPC'')) ''https://api.devnet.solana.com'')"

definition DEFAULT_TEST_BLOCKHASH :: string where
  "DEFAULT_TEST_BLOCKHASH = replicate 32 (CHR ''1'')"

definition recentBlockhash :: "chain_host \<Rightarrow> environment \<Rightarrow> string chained" where
  "recentBlockhash c env =
     (if env_trimmed env ''GHOLA_AUCTION_RECENT_BLOCKHASH'' \<noteq> []
      then Inr (env_trimmed env ''GHOLA_AUCTION_RECENT_BLOCKHASH'')
      else if env ''NODE_ENV'' = Some ''test'' then Inr DEFAULT_TEST_BLOCKHASH
      else case ch_latest_blockhash c (rpcUrl env) of None \<Rightarrow> other_exception | Some b \<Rightarrow> Inr b)"

definition serializeUnsignedTransaction :: "chain_host \<Rightarrow> environment \<Rightarrow> unsigned_transaction \<Rightarrow> string \<Rightarrow> string \<Rightarrow> string chained" where
  "serializeUnsignedTransaction c env tx operation reference = (case ch_serialize c tx of
       Some b \<Rightarrow> Inr (ch_base64 c b)
     | None \<Rightarrow> if env ''NODE_ENV'' \<noteq> Some ''test'' then other_exception
         else Inr (ch_base64 c (''{\"local_test_unsigned_transaction\":true,\"operation\":'' @ json_quote operation @
           '',\"client_reference\":'' @ json_quote reference @ ''}'')))"

section \<open>Prepared transactions\<close>

record GholaPreparedAuctionTransaction =
  pt_operation :: PrivateAuctionPreparedOperation
  pt_reference :: string
  pt_transaction :: string
  pt_blockhash :: string
  pt_signers :: "string list"
  pt_accounts :: "(string \<times> string) list"

definition prepared :: "chain_host \<Rightarrow> environment \<Rightarrow> AuctionOnChainConfig \<Rightarrow> PrivateAuctionPreparedOperation \<Rightarrow> string \<Rightarrow> string \<Rightarrow>
    account_meta list \<Rightarrow> string \<Rightarrow> auction_accounts \<Rightarrow> GholaPreparedAuctionTransaction chained" where
  "prepared c env cfg operation reference signer keys data accounts =
     chain_then (recentBlockhash c env) (\<lambda>blockhash.
     chain_then (serializeUnsignedTransaction c env
       \<lparr>ut_payer = signer, ut_blockhash = blockhash, ut_program = oc_program cfg, ut_keys = keys, ut_data = data\<rparr>
       (prepared_operation_name operation) reference) (\<lambda>transaction.
     Inr \<lparr>pt_operation = operation, pt_reference = reference, pt_transaction = transaction, pt_blockhash = blockhash,
       pt_signers = [ch_base58 c signer],
       pt_accounts = [(''program'', ch_base58 c (oc_program cfg)), (''mint'', ch_base58 c (oc_mint cfg)),
         (''pool_config'', ch_base58 c (ac_pool_config accounts)), (''auction_market'', ch_base58 c (ac_market accounts)),
         (''auction_epoch'', ch_base58 c (ac_epoch accounts)), (''auction_order'', ch_base58 c (ac_order accounts)),
         (''order_nullifier'', ch_base58 c (ac_nullifier accounts)), (''auction_clearing'', ch_base58 c (ac_clearing accounts))]\<rparr>))"

record commit_order_input =
  co_signer :: string
  co_market :: string
  co_epoch_id :: int
  co_order :: string
  co_nullifier :: string
  co_price :: string
  co_policy :: string
  co_side :: string
  co_amount :: int
  co_reference :: string

definition prepareAuctionCommitOrderTransaction :: "chain_host \<Rightarrow> environment \<Rightarrow> commit_order_input \<Rightarrow>
    GholaPreparedAuctionTransaction chained" where
  "prepareAuctionCommitOrderTransaction c env inp =
     chain_then (config c env) (\<lambda>cfg.
     chain_then (publicKey c (co_signer inp) ''auction_signer_invalid'') (\<lambda>signer.
     chain_then (field (co_market inp) ''market_commitment_invalid'') (\<lambda>market.
     chain_then (field (co_order inp) ''order_commitment_invalid'') (\<lambda>order.
     chain_then (field (co_nullifier inp) ''order_nullifier_invalid'') (\<lambda>nullifier.
     chain_then (field (co_price inp) ''price_bucket_commitment_invalid'') (\<lambda>price.
     chain_then (field (co_policy inp) ''institution_policy_commitment_invalid'') (\<lambda>policy.
     chain_then (auctionAccounts c env cfg market (co_epoch_id inp) order nullifier) (\<lambda>accounts.
     prepared c env cfg Prep_commit_order (co_reference inp) signer
       [signerMeta signer, readonly (ac_pool_config accounts), readonly (ac_market accounts), writable (ac_epoch accounts),
        writable (ac_order accounts), writable (ac_nullifier accounts), readonly system_program]
       (discriminator c ''commit_auction_order'' @ order @ nullifier @ price @ policy @ u8 (sideCode (co_side inp)) @
        u16 (co_amount inp)) accounts))))))))"

record init_market_input =
  im_signer :: string
  im_market :: string
  im_asset :: string
  im_key_hash :: string
  im_batch_size :: int
  im_reference :: string

definition prepareAuctionInitMarketTransaction :: "chain_host \<Rightarrow> environment \<Rightarrow> init_market_input \<Rightarrow>
    GholaPreparedAuctionTransaction chained" where
  "prepareAuctionInitMarketTransaction c env inp =
     chain_then (config c env) (\<lambda>cfg.
     chain_then (publicKey c (im_signer inp) ''auction_signer_invalid'') (\<lambda>signer.
     chain_then (field (im_market inp) ''market_commitment_invalid'') (\<lambda>market.
     chain_then (auctionAccounts c env cfg market 0 ZERO_32 ZERO_32) (\<lambda>accounts.
     chain_then (field (im_asset inp) ''asset_id_invalid'') (\<lambda>asset.
     chain_then (bytes (im_key_hash inp) 32 ''auction_verifier_key_hash_invalid'') (\<lambda>key_hash.
     prepared c env cfg Prep_init_market (im_reference inp) signer
       [signerMeta signer, readonly (ac_pool_config accounts), readonly (oc_mint cfg), writable (ac_market accounts),
        readonly system_program]
       (discriminator c ''init_auction_market'' @ market @ asset @ key_hash @ u16 (im_batch_size inp)) accounts))))))"

record open_epoch_input =
  oe_signer :: string
  oe_market :: string
  oe_epoch_id :: int
  oe_closes_slot :: int
  oe_reference :: string

definition prepareAuctionOpenEpochTransaction :: "chain_host \<Rightarrow> environment \<Rightarrow> open_epoch_input \<Rightarrow>
    GholaPreparedAuctionTransaction chained" where
  "prepareAuctionOpenEpochTransaction c env inp =
     chain_then (config c env) (\<lambda>cfg.
     chain_then (publicKey c (oe_signer inp) ''auction_signer_invalid'') (\<lambda>signer.
     chain_then (field (oe_market inp) ''market_commitment_invalid'') (\<lambda>market.
     chain_then (auctionAccounts c env cfg market (oe_epoch_id inp) ZERO_32 ZERO_32) (\<lambda>accounts.
     chain_then (u64 (oe_epoch_id inp)) (\<lambda>epoch_bytes.
     chain_then (u64 (oe_closes_slot inp)) (\<lambda>slot_bytes.
     prepared c env cfg Prep_open_epoch (oe_reference inp) signer
       [signerMeta signer, readonly (ac_pool_config accounts), readonly (ac_market accounts), writable (ac_epoch accounts),
        readonly system_program]
       (discriminator c ''open_auction_epoch'' @ epoch_bytes @ slot_bytes) accounts))))))"

record close_epoch_input =
  ce_signer :: string
  ce_market :: string
  ce_epoch_id :: int
  ce_proof_a :: string
  ce_proof_b :: string
  ce_proof_c :: string
  ce_order_root :: string
  ce_clearing :: string
  ce_price :: string
  ce_matched_root :: string
  ce_rolled_root :: string
  ce_matched_count :: int
  ce_rolled_count :: int
  ce_settlement :: string
  ce_proof :: string
  ce_reference :: string

definition prepareAuctionCloseEpochTransaction :: "chain_host \<Rightarrow> environment \<Rightarrow> close_epoch_input \<Rightarrow>
    GholaPreparedAuctionTransaction chained" where
  "prepareAuctionCloseEpochTransaction c env inp =
     chain_then (config c env) (\<lambda>cfg.
     chain_then (publicKey c (ce_signer inp) ''auction_signer_invalid'') (\<lambda>signer.
     chain_then (field (ce_market inp) ''market_commitment_invalid'') (\<lambda>market.
     chain_then (auctionAccounts c env cfg market (ce_epoch_id inp) ZERO_32 ZERO_32) (\<lambda>accounts.
     chain_then (bytes (ce_proof_a inp) 64 ''proof_a_invalid'') (\<lambda>proof_a.
     chain_then (bytes (ce_proof_b inp) 128 ''proof_b_invalid'') (\<lambda>proof_b.
     chain_then (bytes (ce_proof_c inp) 64 ''proof_c_invalid'') (\<lambda>proof_c.
     chain_then (field (ce_order_root inp) ''auction_order_root_invalid'') (\<lambda>order_root.
     chain_then (field (ce_clearing inp) ''clearing_commitment_invalid'') (\<lambda>clearing.
     chain_then (field (ce_price inp) ''clearing_price_commitment_invalid'') (\<lambda>price.
     chain_then (field (ce_matched_root inp) ''matched_root_invalid'') (\<lambda>matched_root.
     chain_then (field (ce_rolled_root inp) ''rolled_root_invalid'') (\<lambda>rolled_root.
     chain_then (field (ce_settlement inp) ''settlement_commitment_invalid'') (\<lambda>settlement.
     chain_then (field (ce_proof inp) ''proof_commitment_invalid'') (\<lambda>proof.
     prepared c env cfg Prep_close_epoch (ce_reference inp) signer
       [signerMeta signer, readonly (ac_pool_config accounts), readonly (ac_market accounts), writable (ac_epoch accounts),
        writable (ac_clearing accounts), readonly system_program]
       (discriminator c ''close_auction_epoch'' @ proof_a @ proof_b @ proof_c @ order_root @ clearing @ price @ matched_root @
        rolled_root @ u16 (ce_matched_count inp) @ u16 (ce_rolled_count inp) @ settlement @ proof) accounts))))))))))))))"

record settle_clearing_input =
  sc_signer :: string
  sc_market :: string
  sc_epoch_id :: int
  sc_settlement :: string
  sc_reference :: string

definition prepareAuctionSettleClearingTransaction :: "chain_host \<Rightarrow> environment \<Rightarrow> settle_clearing_input \<Rightarrow>
    GholaPreparedAuctionTransaction chained" where
  "prepareAuctionSettleClearingTransaction c env inp =
     chain_then (config c env) (\<lambda>cfg.
     chain_then (publicKey c (sc_signer inp) ''auction_signer_invalid'') (\<lambda>signer.
     chain_then (field (sc_market inp) ''market_commitment_invalid'') (\<lambda>market.
     chain_then (auctionAccounts c env cfg market (sc_epoch_id inp) ZERO_32 ZERO_32) (\<lambda>accounts.
     chain_then (field (sc_settlement inp) ''settlement_commitment_invalid'') (\<lambda>settlement.
     prepared c env cfg Prep_settle_clearing (sc_reference inp) signer
       [signerMeta signer, readonly (ac_pool_config accounts), readonly (ac_market accounts), writable (ac_epoch accounts),
        writable (ac_clearing accounts)]
       (discriminator c ''settle_auction_clearing'' @ settlement) accounts)))))"

section \<open>Confirmations\<close>

record GholaAuctionConfirmation =
  ack_signature :: string
  ack_slot :: "int option"
  ack_checked_at :: time

definition localConfirmationAllowed :: "environment \<Rightarrow> bool" where
  "localConfirmationAllowed env \<longleftrightarrow> env ''NODE_ENV'' = Some ''test'' \<or>
     env ''GHOLA_AUCTION_CONFIRMATION_MODE'' = Some ''local_test'' \<and> env ''NODE_ENV'' \<noteq> Some ''production'' \<and>
     env ''GHOLA_INSTITUTIONAL_FULL_PRODUCTION_ENABLED'' \<noteq> Some ''true''"

definition verifyAuctionPreparedTransaction :: "chain_host \<Rightarrow> environment \<Rightarrow> string \<Rightarrow> time \<Rightarrow> GholaAuctionConfirmation chained" where
  "verifyAuctionPreparedTransaction c env signature now =
     (if localConfirmationAllowed env
      then (if js_trim signature = [] then auction_error ''auction_signature_required''
        else Inr \<lparr>ack_signature = js_trim signature, ack_slot = None, ack_checked_at = now\<rparr>)
      else chain_then (config c env) (\<lambda>cfg.
        case ch_get_transaction c (rpcUrl env) signature of
          Rpc_threw \<Rightarrow> other_exception
        | Rpc_missing \<Rightarrow> auction_error ''auction_transaction_not_finalized''
        | Rpc_found keys failed slot \<Rightarrow>
            if ch_base58 c (oc_program cfg) \<notin> set (map (ch_base58 c) keys) then auction_error ''auction_transaction_wrong_program''
            else if failed then auction_error ''auction_transaction_failed''
            else Inr \<lparr>ack_signature = signature, ack_slot = Some slot, ack_checked_at = now\<rparr>))"

end
