(* ===== verification/AuctionRoutes.thy ===== *)
theory AuctionRoutes imports AccountFunding AuctionChain
begin

text \<open>
  The handlers behind \<open>apps/web/src/app/v1/private-account/auctions\<close>, from \<open>_lib.ts\<close>: intents and the queue
  the auction takes its orders from, the local auction (commit, close, settle), and the on-chain variant, where
  a handler only prepares a transaction and the confirmation of a signature applies it. A handler goes from
  the store to its answer and the next store; the answers of the code show a part of the records given here.
\<close>

record auction_host =
  au_host :: host
  au_env :: environment
  au_chain :: chain_host

section \<open>Reading a request\<close>

definition isAuctionEligibleAction :: "GholaPrivateAccountActionClass \<Rightarrow> bool" where
  "isAuctionEligibleAction c \<longleftrightarrow> c \<in> {A_trade_on_platform, A_rebalance, A_maintain_allocation}"

definition auctionSideFromValue :: "json \<Rightarrow> GholaPrivateAccountActionClass \<Rightarrow> string" where
  "auctionSideFromValue value c = (if value = JStr ''buy'' then ''buy'' else if value = JStr ''sell'' then ''sell''
     else if c = A_trade_on_platform then ''buy'' else ''not_applicable'')"

definition auctionAssetBucket :: "json \<Rightarrow> string \<Rightarrow> string" where
  "auctionAssetBucket value fallback =
     (let bucket = stringValue value in
      if bucket \<noteq> [] \<and> isFundingAssetBucket bucket then bucket
      else if isFundingAssetBucket fallback then fallback else ''stablecoin'')"

definition auctionAmountBucket :: "json \<Rightarrow> string" where
  "auctionAmountBucket value = (let bucket = stringValue value in if isFundingAmountBucket bucket then bucket else ''25'')"

definition action_class_of :: "string \<Rightarrow> GholaPrivateAccountActionClass option" where
  "action_class_of s = find (\<lambda>c. action_class_name c = s) [A_pay, A_transfer, A_fund_platform, A_trade_on_platform,
     A_rebalance, A_maintain_allocation, A_withdraw]"

text \<open>\<open>integerValue\<close>: a text is read by \<open>parseInt\<close>, whose value is a double.\<close>

definition integerValue :: "json \<Rightarrow> int" where
  "integerValue v = (case v of
       JNum n \<Rightarrow> if is_finite_num n then num_int n else -1
     | JStr s \<Rightarrow> if js_trim s = [] then -1
         else (case js_parse_int 10 s of
             Fin r \<Rightarrow> if \<bar>fl r\<bar> < 2 ^ 1024 then \<lfloor>fl r\<rfloor> else -1
           | _ \<Rightarrow> -1)
     | _ \<Rightarrow> -1)"

definition requiredHex :: "(string \<times> json) list \<Rightarrow> string list \<Rightarrow> (string \<Rightarrow> string) result" where
  "requiredHex value keys = (case find (\<lambda>k. stringValue (obj_field value k) = []) keys of
       Some k \<Rightarrow> throw (k @ ''_required'')
     | None \<Rightarrow> return_ok (\<lambda>k. stringValue (obj_field value k)))"

definition stringArray :: "json \<Rightarrow> string list" where
  "stringArray v = (case v of
       JArr xs \<Rightarrow> concat (map (\<lambda>x. case x of JStr s \<Rightarrow> if js_trim s \<noteq> [] then [s] else [] | _ \<Rightarrow> []) xs)
     | _ \<Rightarrow> [])"

definition payloadString :: "(string \<times> json) list \<Rightarrow> string \<Rightarrow> string" where
  "payloadString payload key = (case obj_field payload key of JStr s \<Rightarrow> s | _ \<Rightarrow> [])"

definition strings_json :: "string list \<Rightarrow> json" where
  "strings_json xs = JArr (map JStr xs)"

definition clientReferenceForAuction :: "host \<Rightarrow> (string \<times> json) list \<Rightarrow> PrivateAuctionPreparedOperation \<Rightarrow> string \<Rightarrow>
    (string \<times> json) list \<Rightarrow> string" where
  "clientReferenceForAuction h value operation owner payload = or_text (stringValue (obj_field value ''client_reference''))
     (gholaCommitment h ''auction_on_chain_prepare'' (JObj [(''operation'', JStr (prepared_operation_name operation)),
        (''owner_commitment'', JStr owner), (''payload'', JObj payload),
        (''nonce'', JStr (stringValue (obj_field value ''client_reference_nonce'')))]))"

definition institutionalAuctionProductionRequired :: "environment \<Rightarrow> bool" where
  "institutionalAuctionProductionRequired env \<longleftrightarrow>
     env ''GHOLA_INSTITUTIONAL_FULL_PRODUCTION_ENABLED'' = Some ''true'' \<or> env ''NODE_ENV'' = Some ''production''"

definition institutionalAuctionOnChainPrepareRequired :: "environment \<Rightarrow> bool" where
  "institutionalAuctionOnChainPrepareRequired env \<longleftrightarrow>
     institutionalAuctionProductionRequired env \<or> env ''GHOLA_AUCTION_ON_CHAIN_PREPARE'' = Some ''true''"

section \<open>Answers\<close>

datatype local_update =
    Market_initialized
  | Epoch_opened PrivateAuctionEpochRecordV1
  | Order_added PrivateAuctionEpochRecordV1 PrivateAuctionOrderRecordV1
  | Epoch_cleared "PrivateAuctionEpochRecordV1 option" PrivateAuctionClearingRecordV1
  | Clearing_was_settled "PrivateAuctionEpochRecordV1 option" PrivateAuctionClearingRecordV1
  | Update_skipped

text \<open>The flag of an answer is \<open>idempotent\<close>.\<close>

datatype auction_reply =
    On_chain_prepare GholaPreparedAuctionTransaction PrivateAuctionPreparedTransactionRecordV1
  | Committed "PrivateAuctionEpochRecordV1 option" PrivateAuctionOrderRecordV1 bool
  | Closed PrivateAuctionEpochRecordV1 PrivateAuctionClearingRecordV1 bool
  | Settled_clearing "PrivateAuctionEpochRecordV1 option" PrivateAuctionClearingRecordV1 bool
  | Already_confirmed PrivateAuctionPreparedTransactionRecordV1
  | Confirmed GholaAuctionConfirmation PrivateAuctionPreparedTransactionRecordV1 local_update

type_synonym auction_answer = "auction_reply result \<times> account_store"

definition auctionOnChainError :: "string option \<Rightarrow> string" where
  "auctionOnChainError e = (case e of Some code \<Rightarrow> code | None \<Rightarrow> ''auction_on_chain_prepare_failed'')"

section \<open>Intents and the queue\<close>

definition PRIVATE_ACCOUNT_INTENT_TTL_MS :: int where
  "PRIVATE_ACCOUNT_INTENT_TTL_MS = 1800000"

definition buildActionFromBody :: "host \<Rightarrow> json \<Rightarrow> time \<Rightarrow> GholaPrivateAccountAction option" where
  "buildActionFromBody h body now =
     (let value = asRecord body in
      case action_class_of (stringValue (obj_field value ''action_class'')) of
        None \<Rightarrow> None
      | Some c \<Rightarrow> Some (createPrivateAccountAction h c (Some (or_text (stringValue (obj_field value ''product_bucket'')) ''general''))
          (some_text (stringValue (obj_field value ''policy_commitment'')))
          (or_json (or_json (obj_field value ''intent_seed'') (obj_field value ''intent_commitment_seed'')) (JStr ''commitment-only'')) now))"

definition createIntentFromBody :: "host \<Rightarrow> json \<Rightarrow> string \<Rightarrow> string \<Rightarrow> time \<Rightarrow> account_store \<Rightarrow>
    PrivateAccountIntentRecordV1 option \<times> account_store" where
  "createIntentFromBody h body owner uuid now st = (case buildActionFromBody h body now of
       None \<Rightarrow> (None, st)
     | Some a \<Rightarrow>
         let (account, st1) = createOrGetStoredPrivateAccount h owner now st;
             r = \<lparr>it_owner = owner, it_id = ''pact_intent_'' @ uuid, it_account = ar_commitment account,
                  it_action = ac_commitment a, it_class = ac_class a, it_bucket = ac_bucket a, it_policy = ac_policy a,
                  it_intent = ac_intent a, it_status = It_created, it_created_at = now,
                  it_expires_at = now + PRIVATE_ACCOUNT_INTENT_TTL_MS\<rparr>
         in (Some r, putPrivateAccountIntent r st1))"

definition queueActionFromBody :: "json \<Rightarrow> string \<Rightarrow> string \<Rightarrow> time \<Rightarrow> account_store \<Rightarrow>
    PrivateQueuedActionRecordV1 result \<times> account_store" where
  "queueActionFromBody body owner uuid now st =
     (let value = asRecord body;
          intent_id = stringValue (obj_field value ''intent_id'');
          p = stringValue (obj_field value ''preview_commitment'')
      in if intent_id = [] then (throw ''intent_not_found'', st)
         else if p = [] then (throw ''preview_not_found'', st)
         else case getPrivateAccountIntent st intent_id of
             None \<Rightarrow> (throw ''intent_not_found'', st)
           | Some i \<Rightarrow> if it_owner i \<noteq> owner then (throw ''intent_not_found'', st)
               else (case getPrivateAccountPreview st p of
                   None \<Rightarrow> (throw ''preview_not_found'', st)
                 | Some pr \<Rightarrow> if pr_owner pr \<noteq> owner then (throw ''preview_not_found'', st)
                     else if pr_claim_status pr \<noteq> Wait_for_anonymity then (throw ''preview_not_waiting'', st)
                     else let r = \<lparr>aq_id = ''pact_queue_'' @ uuid, aq_owner = owner, aq_account = it_account i,
                            aq_intent_id = it_id i, aq_action = it_action i, aq_latest_preview = pr_commitment pr,
                            aq_platform = pr_platform pr, aq_rail = pr_rail pr, aq_wait_reasons = pv_wait_reasons (pr_preview pr),
                            aq_target_set = as_required (pv_anonymity_set (pr_preview pr)),
                            aq_current_set = as_effective (pv_anonymity_set (pr_preview pr)), aq_status = Q_queued,
                            aq_created_at = now, aq_expires_at = it_expires_at i, aq_updated_at = now\<rparr>
                          in (return_ok r, putQueuedAction r st)))"

definition cancelQueuedActionFromBody :: "json \<Rightarrow> string \<Rightarrow> time \<Rightarrow> account_store \<Rightarrow> string result \<times> account_store" where
  "cancelQueuedActionFromBody body owner now st =
     (let queue_id = stringValue (obj_field (asRecord body) ''queue_id'') in
      if queue_id = [] then (throw ''queue_not_found'', st)
      else case getQueuedAction st queue_id of
          None \<Rightarrow> (throw ''queue_not_found'', st)
        | Some q \<Rightarrow> if aq_owner q \<noteq> owner then (throw ''queue_not_found'', st)
            else (return_ok (aq_id q), updateQueuedActionStatus (aq_id q) Q_cancelled now st))"

section \<open>Preparing transactions\<close>

definition putPreparedAuctionTransaction :: "GholaPreparedAuctionTransaction \<Rightarrow> string \<Rightarrow> string \<Rightarrow> (string \<times> json) list \<Rightarrow> time \<Rightarrow>
    account_store \<Rightarrow> PrivateAuctionPreparedTransactionRecordV1 \<times> account_store" where
  "putPreparedAuctionTransaction p owner account payload now st =
     (let r = \<lparr>at_reference = pt_reference p, at_owner = owner, at_account = account, at_operation = pt_operation p,
            at_transaction = pt_transaction p, at_payload = payload, at_status = Tx_prepared, at_signature = None,
            at_created_at = now, at_expires_at = now + 600000, at_updated_at = now\<rparr>
      in (r, putPrivateAuctionPreparedTransaction r st))"

text \<open>The \<open>try\<close> block of every preparing handler.\<close>

definition prepared_answer :: "GholaPreparedAuctionTransaction chained \<Rightarrow> string \<Rightarrow> string \<Rightarrow> (string \<times> json) list \<Rightarrow> time \<Rightarrow>
    account_store \<Rightarrow> auction_answer" where
  "prepared_answer p owner account payload now st = (case p of
       Inl e \<Rightarrow> (throw (auctionOnChainError e), st)
     | Inr t \<Rightarrow> (let (r, st1) = putPreparedAuctionTransaction t owner account payload now st
         in (return_ok (On_chain_prepare t r), st1)))"

definition epoch_reference :: "host \<Rightarrow> (string \<times> json) list \<Rightarrow> string \<Rightarrow> string \<Rightarrow> int \<Rightarrow> string" where
  "epoch_reference h value owner market_hex epoch_id = or_text (stringValue (obj_field value ''auction_epoch_commitment''))
     (gholaCommitment h ''auction_epoch_on_chain'' (JObj [(''owner_commitment'', JStr owner),
        (''market_commitment_hex'', JStr market_hex), (''epoch_id'', JNum (num epoch_id))]))"

definition prepareAuctionMarketFromBody :: "auction_host \<Rightarrow> json \<Rightarrow> time \<Rightarrow> account_store \<Rightarrow> auction_answer" where
  "prepareAuctionMarketFromBody h body now st =
     (let value = asRecord body; signer = stringValue (obj_field value ''signer_public_key'') in
      if signer = [] then (throw ''auction_signer_required'', st)
      else case requiredHex value [''market_commitment_hex'', ''asset_id_hex'', ''auction_verifier_key_hash_hex''] of
          Inl e \<Rightarrow> (throw e, st)
        | Inr hex \<Rightarrow>
            let owner = or_text (stringValue (obj_field value ''owner_commitment'')) ''institutional_operator'';
                account = or_text (stringValue (obj_field value ''account_commitment'')) owner;
                batch = integerValue (obj_field value ''batch_size'');
                size = (if batch > 0 then batch else 64);
                payload = [(''market_commitment'', JStr (or_text (stringValue (obj_field value ''market_commitment''))
                    (hex ''market_commitment_hex''))), (''market_commitment_hex'', JStr (hex ''market_commitment_hex'')),
                  (''asset_id_hex'', JStr (hex ''asset_id_hex'')),
                  (''auction_verifier_key_hash_hex'', JStr (hex ''auction_verifier_key_hash_hex'')), (''batch_size'', JNum (num size))];
                reference = clientReferenceForAuction (au_host h) value Prep_init_market owner payload
            in prepared_answer (prepareAuctionInitMarketTransaction (au_chain h) (au_env h)
                 \<lparr>im_signer = signer, im_market = hex ''market_commitment_hex'', im_asset = hex ''asset_id_hex'',
                  im_key_hash = hex ''auction_verifier_key_hash_hex'', im_batch_size = size, im_reference = reference\<rparr>)
                 owner account payload now st)"

definition prepareAuctionOpenEpochFromBody :: "auction_host \<Rightarrow> json \<Rightarrow> time \<Rightarrow> account_store \<Rightarrow> auction_answer" where
  "prepareAuctionOpenEpochFromBody h body now st =
     (let value = asRecord body; signer = stringValue (obj_field value ''signer_public_key'') in
      if signer = [] then (throw ''auction_signer_required'', st)
      else case requiredHex value [''market_commitment_hex''] of
          Inl e \<Rightarrow> (throw e, st)
        | Inr hex \<Rightarrow>
            let epoch_id = integerValue (obj_field value ''epoch_id'');
                slot = integerValue (obj_field value ''closes_slot'')
            in if epoch_id < 0 then (throw ''auction_epoch_id_required'', st)
               else if slot \<le> 0 then (throw ''auction_closes_slot_required'', st)
               else let owner = or_text (stringValue (obj_field value ''owner_commitment'')) ''institutional_operator'';
                   account = or_text (stringValue (obj_field value ''account_commitment'')) owner;
                   market = hex ''market_commitment_hex'';
                   payload = [(''market_commitment'', JStr (or_text (stringValue (obj_field value ''market_commitment'')) market)),
                     (''market_commitment_hex'', JStr market),
                     (''platform_class'', JStr (or_text (stringValue (obj_field value ''platform_class'')) ''rfq_solver_network'')),
                     (''asset_bucket'', JStr (or_text (stringValue (obj_field value ''asset_bucket'')) ''private_asset'')),
                     (''amount_bucket'', JStr (or_text (stringValue (obj_field value ''amount_bucket'')) ''0'')),
                     (''epoch_id'', JNum (num epoch_id)), (''closes_slot'', JNum (num slot)),
                     (''auction_epoch_commitment'', JStr (epoch_reference (au_host h) value owner market epoch_id))];
                   reference = clientReferenceForAuction (au_host h) value Prep_open_epoch owner payload
                 in prepared_answer (prepareAuctionOpenEpochTransaction (au_chain h) (au_env h)
                      \<lparr>oe_signer = signer, oe_market = market, oe_epoch_id = epoch_id, oe_closes_slot = slot,
                       oe_reference = reference\<rparr>) owner account payload now st)"

definition prepareProductionAuctionCommit :: "auction_host \<Rightarrow> (string \<times> json) list \<Rightarrow> string \<Rightarrow> PrivateQueuedActionRecordV1 \<Rightarrow>
    PrivateAccountIntentRecordV1 \<Rightarrow> string \<Rightarrow> string \<Rightarrow> string \<Rightarrow> time \<Rightarrow> account_store \<Rightarrow> auction_answer" where
  "prepareProductionAuctionCommit h value owner q i side asset amount now st =
     (let signer = stringValue (obj_field value ''signer_public_key'') in
      if signer = [] then (throw ''auction_signer_required'', st)
      else case requiredHex value [''market_commitment_hex'', ''order_commitment_hex'', ''order_nullifier_hex'',
             ''price_bucket_commitment_hex'', ''institution_policy_commitment_hex''] of
          Inl e \<Rightarrow> (throw e, st)
        | Inr hex \<Rightarrow>
            let epoch_id = integerValue (obj_field value ''epoch_id'') in
            if epoch_id < 0 then (throw ''auction_epoch_id_required'', st)
            else let (account, st1) = createOrGetStoredPrivateAccount (au_host h) owner now st;
                market = hex ''market_commitment_hex'';
                epoch = epoch_reference (au_host h) value owner market epoch_id;
                order = or_text (stringValue (obj_field value ''auction_order_commitment''))
                  (gholaCommitment (au_host h) ''auction_order_on_chain'' (JObj [(''queue_id'', JStr (aq_id q)),
                     (''order_commitment_hex'', JStr (hex ''order_commitment_hex''))]));
                payload = [(''queue_id'', JStr (aq_id q)), (''intent_id'', JStr (it_id i)),
                  (''action_commitment'', JStr (it_action i)), (''action_class'', JStr (action_class_name (it_class i))),
                  (''platform_class'', JStr (platform_name (aq_platform q))), (''side'', JStr side),
                  (''asset_bucket'', JStr asset), (''amount_bucket'', JStr amount),
                  (''market_commitment'', JStr (or_text (stringValue (obj_field value ''market_commitment'')) market)),
                  (''market_commitment_hex'', JStr market), (''epoch_id'', JNum (num epoch_id)),
                  (''auction_epoch_commitment'', JStr epoch), (''auction_order_commitment'', JStr order),
                  (''order_commitment_hex'', JStr (hex ''order_commitment_hex''))];
                reference = clientReferenceForAuction (au_host h) value Prep_commit_order owner payload
              in prepared_answer (prepareAuctionCommitOrderTransaction (au_chain h) (au_env h)
                   \<lparr>co_signer = signer, co_market = market, co_epoch_id = epoch_id, co_order = hex ''order_commitment_hex'',
                    co_nullifier = hex ''order_nullifier_hex'', co_price = hex ''price_bucket_commitment_hex'',
                    co_policy = hex ''institution_policy_commitment_hex'', co_side = side,
                    co_amount = num_int (js_parse_int 10 amount), co_reference = reference\<rparr>)
                   owner (ar_commitment account) payload now st1)"

definition prepareProductionAuctionClose :: "auction_host \<Rightarrow> (string \<times> json) list \<Rightarrow> time \<Rightarrow> account_store \<Rightarrow> auction_answer" where
  "prepareProductionAuctionClose h value now st =
     (let signer = stringValue (obj_field value ''signer_public_key'') in
      if signer = [] then (throw ''auction_signer_required'', st)
      else case requiredHex value [''market_commitment_hex'', ''proof_a_hex'', ''proof_b_hex'', ''proof_c_hex'',
             ''auction_order_root_hex'', ''clearing_commitment_hex'', ''clearing_price_commitment_hex'', ''matched_root_hex'',
             ''rolled_root_hex'', ''settlement_commitment_hex'', ''proof_commitment_hex''] of
          Inl e \<Rightarrow> (throw e, st)
        | Inr hex \<Rightarrow>
            let epoch_id = integerValue (obj_field value ''epoch_id'') in
            if epoch_id < 0 then (throw ''auction_epoch_id_required'', st)
            else let owner = or_text (stringValue (obj_field value ''owner_commitment'')) ''institutional_operator'';
                account = or_text (stringValue (obj_field value ''account_commitment'')) owner;
                market = hex ''market_commitment_hex'';
                matched = integerValue (obj_field value ''matched_count'');
                rolled = integerValue (obj_field value ''rolled_count'');
                settlement = stringValue (obj_field value ''settlement_commitment'');
                payload = [(''auction_epoch_commitment'', JStr (epoch_reference (au_host h) value owner market epoch_id)),
                  (''clearing_commitment'', JStr (or_text (stringValue (obj_field value ''clearing_commitment''))
                    (gholaCommitment (au_host h) ''auction_clearing_on_chain'' (JStr (hex ''clearing_commitment_hex''))))),
                  (''market_commitment'', JStr (or_text (stringValue (obj_field value ''market_commitment'')) market)),
                  (''market_commitment_hex'', JStr market), (''epoch_id'', JNum (num epoch_id)),
                  (''clearing_price_commitment'', JStr (or_text (stringValue (obj_field value ''clearing_price_commitment''))
                    (hex ''clearing_price_commitment_hex''))),
                  (''matched_order_commitments'', strings_json (stringArray (obj_field value ''matched_order_commitments''))),
                  (''rolled_order_commitments'', strings_json (stringArray (obj_field value ''rolled_order_commitments''))),
                  (''proof_commitment'', JStr (or_text (stringValue (obj_field value ''proof_commitment'')) (hex ''proof_commitment_hex''))),
                  (''settlement_commitment'', if settlement = [] then JNull else JStr settlement),
                  (''matched_count'', JNum (num matched)), (''rolled_count'', JNum (num rolled))];
                reference = clientReferenceForAuction (au_host h) value Prep_close_epoch owner payload
              in prepared_answer (prepareAuctionCloseEpochTransaction (au_chain h) (au_env h)
                   \<lparr>ce_signer = signer, ce_market = market, ce_epoch_id = epoch_id, ce_proof_a = hex ''proof_a_hex'',
                    ce_proof_b = hex ''proof_b_hex'', ce_proof_c = hex ''proof_c_hex'', ce_order_root = hex ''auction_order_root_hex'',
                    ce_clearing = hex ''clearing_commitment_hex'', ce_price = hex ''clearing_price_commitment_hex'',
                    ce_matched_root = hex ''matched_root_hex'', ce_rolled_root = hex ''rolled_root_hex'',
                    ce_matched_count = matched, ce_rolled_count = rolled, ce_settlement = hex ''settlement_commitment_hex'',
                    ce_proof = hex ''proof_commitment_hex'', ce_reference = reference\<rparr>) owner account payload now st)"

definition prepareProductionAuctionSettle :: "auction_host \<Rightarrow> (string \<times> json) list \<Rightarrow> string \<Rightarrow> time \<Rightarrow> account_store \<Rightarrow> auction_answer" where
  "prepareProductionAuctionSettle h value owner now st =
     (let signer = stringValue (obj_field value ''signer_public_key'') in
      if signer = [] then (throw ''auction_signer_required'', st)
      else case requiredHex value [''market_commitment_hex'', ''settlement_commitment_hex''] of
          Inl e \<Rightarrow> (throw e, st)
        | Inr hex \<Rightarrow>
            let epoch_id = integerValue (obj_field value ''epoch_id'') in
            if epoch_id < 0 then (throw ''auction_epoch_id_required'', st)
            else let (account, st1) = createOrGetStoredPrivateAccount (au_host h) owner now st;
                market = hex ''market_commitment_hex'';
                payload = [(''auction_epoch_commitment'', JStr (epoch_reference (au_host h) value owner market epoch_id)),
                  (''clearing_commitment'', JStr (stringValue (obj_field value ''clearing_commitment''))),
                  (''market_commitment_hex'', JStr market), (''epoch_id'', JNum (num epoch_id)),
                  (''settlement_commitment'', JStr (or_text (stringValue (obj_field value ''settlement_commitment''))
                    (hex ''settlement_commitment_hex'')))];
                reference = clientReferenceForAuction (au_host h) value Prep_settle_clearing owner payload
              in prepared_answer (prepareAuctionSettleClearingTransaction (au_chain h) (au_env h)
                   \<lparr>sc_signer = signer, sc_market = market, sc_epoch_id = epoch_id,
                    sc_settlement = hex ''settlement_commitment_hex'', sc_reference = reference\<rparr>)
                   owner (ar_commitment account) payload now st1)"

section \<open>Committing an order\<close>

definition AUCTION_WINDOW_MS :: int where
  "AUCTION_WINDOW_MS = 600000"

definition auction_market :: "host \<Rightarrow> PrivateQueuedActionRecordV1 \<Rightarrow> string \<Rightarrow> string \<Rightarrow> string" where
  "auction_market h q asset amount = gholaCommitment h ''auction_market'' (JObj [(''platform_class'', JStr (platform_name (aq_platform q))),
     (''asset_bucket'', JStr asset), (''amount_bucket'', JStr amount)])"

definition window_start :: "time \<Rightarrow> string" where
  "window_start now = to_iso (now div AUCTION_WINDOW_MS * AUCTION_WINDOW_MS)"

definition new_epoch :: "host \<Rightarrow> string \<Rightarrow> PrivateAccountRecordV1 \<Rightarrow> PrivateQueuedActionRecordV1 \<Rightarrow> string \<Rightarrow> string \<Rightarrow> time \<Rightarrow>
    PrivateAuctionEpochRecordV1" where
  "new_epoch h owner account q asset amount now =
     (let market = auction_market h q asset amount in
      \<lparr>ae_owner = owner, ae_account = ar_commitment account,
       ae_commitment = gholaCommitment h ''auction_epoch'' (JObj [(''owner_commitment'', JStr owner),
         (''account_commitment'', JStr (ar_commitment account)), (''market_commitment'', JStr market),
         (''window_start'', JStr (window_start now))]),
       ae_market = market, ae_platform = platform_name (aq_platform q), ae_asset = asset, ae_amount = amount,
       ae_status = Auction_open, ae_order_count = 0, ae_matched_count = 0, ae_rolled_count = 0, ae_opened_at = now,
       ae_closes_at = now + AUCTION_WINDOW_MS, ae_updated_at = now\<rparr>)"

definition new_order :: "host \<Rightarrow> string \<Rightarrow> PrivateQueuedActionRecordV1 \<Rightarrow> PrivateAccountIntentRecordV1 \<Rightarrow> string \<Rightarrow> string \<Rightarrow> string \<Rightarrow>
    string \<Rightarrow> time \<Rightarrow> PrivateAuctionOrderRecordV1" where
  "new_order h owner q i side asset amount epoch now =
     \<lparr>ao_owner = owner, ao_account = aq_account q,
      ao_commitment = gholaCommitment h ''auction_order'' (JObj [(''queue_id'', JStr (aq_id q)), (''intent_id'', JStr (it_id i)),
        (''action_commitment'', JStr (it_action i)), (''auction_epoch_commitment'', JStr epoch), (''side'', JStr side),
        (''asset_bucket'', JStr asset), (''amount_bucket'', JStr amount)]),
      ao_epoch = epoch, ao_queue_id = aq_id q, ao_intent_id = it_id i, ao_action = it_action i,
      ao_class = action_class_name (it_class i), ao_platform = platform_name (aq_platform q), ao_side = side,
      ao_asset = asset, ao_amount = amount, ao_status = Order_committed, ao_created_at = now, ao_updated_at = now\<rparr>"

text \<open>The epoch an order joins: the newest open one of the owner for the market, or a new one.\<close>

definition epoch_for :: "host \<Rightarrow> string \<Rightarrow> PrivateQueuedActionRecordV1 \<Rightarrow> string \<Rightarrow> string \<Rightarrow> time \<Rightarrow> account_store \<Rightarrow>
    PrivateAuctionEpochRecordV1 \<times> account_store" where
  "epoch_for h owner q asset amount now st =
     (let (account, st1) = createOrGetStoredPrivateAccount h owner now st in
      case getOpenPrivateAuctionEpoch st1 owner (platform_name (aq_platform q)) asset amount now of
        Some e \<Rightarrow> (e, st1)
      | None \<Rightarrow> (new_epoch h owner account q asset amount now,
          putPrivateAuctionEpoch (new_epoch h owner account q asset amount now) st1))"

definition add_order :: "PrivateAuctionEpochRecordV1 \<Rightarrow> PrivateAuctionOrderRecordV1 \<Rightarrow> time \<Rightarrow> account_store \<Rightarrow>
    PrivateAuctionEpochRecordV1 \<times> account_store" where
  "add_order e order now st =
     (let st1 = putPrivateAuctionOrder order st;
          e' = e\<lparr>ae_order_count := max (ae_order_count e) (int (length (listPrivateAuctionOrdersByEpoch st1 (ae_commitment e)))),
            ae_updated_at := now\<rparr>
      in (e', putPrivateAuctionEpoch e' st1))"

definition commit_local :: "host \<Rightarrow> string \<Rightarrow> PrivateQueuedActionRecordV1 \<Rightarrow> PrivateAccountIntentRecordV1 \<Rightarrow> string \<Rightarrow> string \<Rightarrow>
    string \<Rightarrow> time \<Rightarrow> account_store \<Rightarrow> auction_answer" where
  "commit_local h owner q i side asset amount now st =
     (let existing = getPrivateAuctionOrderByQueue st (aq_id q) in
      if existing \<noteq> None \<and> ao_owner (the existing) = owner
      then (return_ok (Committed (getPrivateAuctionEpoch st (ao_epoch (the existing))) (the existing) True), st)
      else let (e, st1) = epoch_for h owner q asset amount now st;
               order = new_order h owner q i side asset amount (ae_commitment e) now;
               (e', st2) = add_order e order now st1
           in (return_ok (Committed (Some e') order False), st2))"

definition commitAuctionOrderFromBody :: "auction_host \<Rightarrow> json \<Rightarrow> string \<Rightarrow> time \<Rightarrow> account_store \<Rightarrow> auction_answer" where
  "commitAuctionOrderFromBody h body owner now st =
     (let value = asRecord body; queue_id = stringValue (obj_field value ''queue_id'') in
      if queue_id = [] then (throw ''queue_not_found'', st)
      else case getQueuedAction st queue_id of
          None \<Rightarrow> (throw ''queue_not_found'', st)
        | Some q \<Rightarrow>
            if aq_owner q \<noteq> owner then (throw ''queue_not_found'', st)
            else if aq_status q \<noteq> Q_queued \<and> aq_status q \<noteq> Q_ready then (throw (''queue_'' @ queue_status_name (aq_status q)), st)
            else if aq_rail q \<noteq> Shielded_batch_auction then (throw ''auction_rail_required'', st)
            else if isPrivateAccountRecordExpired (aq_expires_at q) now
            then (throw ''queue_expired'', updateQueuedActionStatus (aq_id q) Q_expired now st)
            else (case getPrivateAccountIntent st (aq_intent_id q) of
                None \<Rightarrow> (throw ''intent_not_found'', st)
              | Some i \<Rightarrow>
                  if it_owner i \<noteq> owner then (throw ''intent_not_found'', st)
                  else if \<not> isAuctionEligibleAction (it_class i) then (throw ''auction_action_not_supported'', st)
                  else let side = auctionSideFromValue (obj_field value ''side'') (it_class i);
                      asset = auctionAssetBucket (obj_field value ''asset_bucket'') (it_bucket i);
                      amount = auctionAmountBucket (obj_field value ''amount_bucket'')
                    in if institutionalAuctionOnChainPrepareRequired (au_env h)
                       then prepareProductionAuctionCommit h value owner q i side asset amount now st
                       else commit_local (au_host h) owner q i side asset amount now st))"

section \<open>Closing an epoch\<close>

text \<open>The earliest buys and sells are paired as far as both last; the others roll over.\<close>

definition matched_orders :: "PrivateAuctionOrderRecordV1 list \<Rightarrow> PrivateAuctionOrderRecordV1 list" where
  "matched_orders orders =
     (let committed = filter (\<lambda>r. ao_status r = Order_committed) orders;
          buys = filter (\<lambda>r. ao_side r = ''buy'') committed;
          sells = filter (\<lambda>r. ao_side r = ''sell'') committed;
          pairs = min (length buys) (length sells)
      in oldest_first ao_created_at (take pairs buys @ take pairs sells))"

definition rolled_orders :: "PrivateAuctionOrderRecordV1 list \<Rightarrow> PrivateAuctionOrderRecordV1 list" where
  "rolled_orders orders = filter (\<lambda>r. ao_commitment r \<notin> set (map ao_commitment (matched_orders orders)))
     (filter (\<lambda>r. ao_status r = Order_committed) orders)"

definition mark_orders :: "auction_order_status \<Rightarrow> time \<Rightarrow> PrivateAuctionOrderRecordV1 list \<Rightarrow> account_store \<Rightarrow> account_store" where
  "mark_orders status now orders st =
     foldl (\<lambda>s r. putPrivateAuctionOrder (r\<lparr>ao_status := status, ao_updated_at := now\<rparr>) s) st orders"

definition clearing_price :: "host \<Rightarrow> (string \<times> json) list \<Rightarrow> PrivateAuctionEpochRecordV1 \<Rightarrow> string list \<Rightarrow> string" where
  "clearing_price h value e matched = or_text (stringValue (obj_field value ''clearing_price_commitment''))
     (gholaCommitment h ''auction_uniform_clearing_price'' (JObj [(''auction_epoch_commitment'', JStr (ae_commitment e)),
        (''asset_bucket'', JStr (ae_asset e)), (''amount_bucket'', JStr (ae_amount e)),
        (''matched_order_commitments'', strings_json (sort_by (\<le>) matched))]))"

definition new_clearing :: "host \<Rightarrow> (string \<times> json) list \<Rightarrow> PrivateAuctionEpochRecordV1 \<Rightarrow> string list \<Rightarrow> string list \<Rightarrow> time \<Rightarrow>
    PrivateAuctionClearingRecordV1" where
  "new_clearing h value e matched rolled now =
     (let price = clearing_price h value e matched;
          lists = [(''matched_order_commitments'', strings_json matched), (''rolled_order_commitments'', strings_json rolled)];
          proof = or_text (stringValue (obj_field value ''proof_commitment''))
            (gholaCommitment h ''auction_clearing_proof'' (JObj ([(''auction_epoch_commitment'', JStr (ae_commitment e)),
               (''clearing_price_commitment'', JStr price)] @ lists)))
      in \<lparr>al_owner = ae_owner e, al_account = ae_account e,
          al_commitment = gholaCommitment h ''auction_clearing'' (JObj ([(''auction_epoch_commitment'', JStr (ae_commitment e)),
            (''clearing_price_commitment'', JStr price)] @ lists @ [(''proof_commitment'', JStr proof)])),
          al_epoch = ae_commitment e, al_status = Clearing_cleared, al_price = price, al_matched = matched,
          al_rolled = rolled, al_proof = proof, al_settlement = None, al_created_at = now, al_updated_at = now\<rparr>)"

definition close_local :: "host \<Rightarrow> (string \<times> json) list \<Rightarrow> PrivateAuctionEpochRecordV1 \<Rightarrow> time \<Rightarrow> account_store \<Rightarrow> auction_answer" where
  "close_local h value e now st =
     (let orders = listPrivateAuctionOrdersByEpoch st (ae_commitment e);
          matched = matched_orders orders; rolled = rolled_orders orders;
          clearing = new_clearing h value e (map ao_commitment matched) (map ao_commitment rolled) now;
          st1 = mark_orders Order_rolled now rolled (mark_orders Order_matched now matched st);
          e' = e\<lparr>ae_status := Auction_cleared, ae_order_count := int (length orders),
            ae_matched_count := int (length matched), ae_rolled_count := int (length rolled), ae_updated_at := now\<rparr>
      in (return_ok (Closed e' clearing False), putPrivateAuctionEpoch e' (putPrivateAuctionClearing clearing st1)))"

definition closeAuctionEpochFromBody :: "auction_host \<Rightarrow> json \<Rightarrow> time \<Rightarrow> account_store \<Rightarrow> auction_answer" where
  "closeAuctionEpochFromBody h body now st =
     (let value = asRecord body in
      if institutionalAuctionOnChainPrepareRequired (au_env h) then prepareProductionAuctionClose h value now st
      else let c = stringValue (obj_field value ''auction_epoch_commitment'') in
        if c = [] then (throw ''auction_epoch_not_found'', st)
        else case getPrivateAuctionEpoch st c of
            None \<Rightarrow> (throw ''auction_epoch_not_found'', st)
          | Some e \<Rightarrow> (case getPrivateAuctionClearingByEpoch st (ae_commitment e) of
                Some existing \<Rightarrow> (return_ok (Closed e existing True), st)
              | None \<Rightarrow> close_local (au_host h) value e now st))"

section \<open>Settling a clearing\<close>

definition settle_epoch :: "string \<Rightarrow> time \<Rightarrow> account_store \<Rightarrow> PrivateAuctionEpochRecordV1 option \<times> account_store" where
  "settle_epoch c now st = (case getPrivateAuctionEpoch st c of
       None \<Rightarrow> (None, st)
     | Some e \<Rightarrow> (let e' = e\<lparr>ae_status := Auction_settled, ae_updated_at := now\<rparr> in (Some e', putPrivateAuctionEpoch e' st)))"

definition settle_local :: "host \<Rightarrow> (string \<times> json) list \<Rightarrow> string \<Rightarrow> PrivateAuctionClearingRecordV1 \<Rightarrow> time \<Rightarrow> account_store \<Rightarrow>
    auction_answer" where
  "settle_local h value owner c now st =
     (let settlement = or_text (stringValue (obj_field value ''settlement_commitment''))
            (gholaCommitment h ''auction_settlement'' (JObj [(''clearing_commitment'', JStr (al_commitment c)),
               (''owner_commitment'', JStr owner), (''settled_at'', JStr (to_iso now))]));
          c' = c\<lparr>al_status := Clearing_settled, al_settlement := Some settlement, al_updated_at := now\<rparr>;
          st1 = putPrivateAuctionClearing c' st;
          orders = filter (\<lambda>r. ao_commitment r \<in> set (al_matched c)) (listPrivateAuctionOrdersByEpoch st1 (al_epoch c));
          (e, st2) = settle_epoch (al_epoch c) now (mark_orders Order_settled now orders st1)
      in (return_ok (Settled_clearing e c' False), st2))"

definition settleAuctionClearingFromBody :: "auction_host \<Rightarrow> json \<Rightarrow> string \<Rightarrow> time \<Rightarrow> account_store \<Rightarrow> auction_answer" where
  "settleAuctionClearingFromBody h body owner now st =
     (let value = asRecord body in
      if institutionalAuctionOnChainPrepareRequired (au_env h) then prepareProductionAuctionSettle h value owner now st
      else let cc = stringValue (obj_field value ''clearing_commitment'') in
        if cc = [] then (throw ''auction_clearing_not_found'', st)
        else case getPrivateAuctionClearing st cc of
            None \<Rightarrow> (throw ''auction_clearing_not_found'', st)
          | Some c \<Rightarrow>
              if al_owner c \<noteq> owner then (throw ''auction_clearing_not_found'', st)
              else if al_status c = Clearing_settled \<and> al_settlement c \<noteq> None \<and> al_settlement c \<noteq> Some []
              then (return_ok (Settled_clearing (getPrivateAuctionEpoch st (al_epoch c)) c True), st)
              else settle_local (au_host h) value owner c now st)"

section \<open>Confirming a transaction\<close>

definition payload_market :: "(string \<times> json) list \<Rightarrow> string" where
  "payload_market payload = or_text (payloadString payload ''market_commitment'') (payloadString payload ''market_commitment_hex'')"

definition apply_open_epoch :: "PrivateAuctionPreparedTransactionRecordV1 \<Rightarrow> time \<Rightarrow> account_store \<Rightarrow> local_update \<times> account_store" where
  "apply_open_epoch p now st =
     (let payload = at_payload p; c = payloadString payload ''auction_epoch_commitment'' in
      if c = [] then (Update_skipped, st)
      else let existing = getPrivateAuctionEpoch st c;
          e = \<lparr>ae_owner = at_owner p, ae_account = at_account p, ae_commitment = c, ae_market = payload_market payload,
               ae_platform = payloadString payload ''platform_class'', ae_asset = payloadString payload ''asset_bucket'',
               ae_amount = payloadString payload ''amount_bucket'',
               ae_status = (case existing of None \<Rightarrow> Auction_open | Some x \<Rightarrow> ae_status x),
               ae_order_count = (case existing of None \<Rightarrow> 0 | Some x \<Rightarrow> ae_order_count x),
               ae_matched_count = (case existing of None \<Rightarrow> 0 | Some x \<Rightarrow> ae_matched_count x),
               ae_rolled_count = (case existing of None \<Rightarrow> 0 | Some x \<Rightarrow> ae_rolled_count x),
               ae_opened_at = (case existing of None \<Rightarrow> now | Some x \<Rightarrow> ae_opened_at x),
               ae_closes_at = (case existing of None \<Rightarrow> now + AUCTION_WINDOW_MS | Some x \<Rightarrow> ae_closes_at x),
               ae_updated_at = now\<rparr>
        in (Epoch_opened e, putPrivateAuctionEpoch e st))"

definition confirmed_epoch :: "PrivateAuctionPreparedTransactionRecordV1 \<Rightarrow> string \<Rightarrow> time \<Rightarrow> PrivateAuctionEpochRecordV1" where
  "confirmed_epoch p c now =
     (let payload = at_payload p in
      \<lparr>ae_owner = at_owner p, ae_account = at_account p, ae_commitment = c, ae_market = payload_market payload,
       ae_platform = payloadString payload ''platform_class'', ae_asset = payloadString payload ''asset_bucket'',
       ae_amount = payloadString payload ''amount_bucket'', ae_status = Auction_open, ae_order_count = 0,
       ae_matched_count = 0, ae_rolled_count = 0, ae_opened_at = now, ae_closes_at = now + AUCTION_WINDOW_MS,
       ae_updated_at = now\<rparr>)"

definition confirmed_order :: "PrivateAuctionPreparedTransactionRecordV1 \<Rightarrow> string \<Rightarrow> string \<Rightarrow> time \<Rightarrow> PrivateAuctionOrderRecordV1" where
  "confirmed_order p c o' now =
     (let get = payloadString (at_payload p) in
      \<lparr>ao_owner = at_owner p, ao_account = at_account p, ao_commitment = o', ao_epoch = c, ao_queue_id = get ''queue_id'',
       ao_intent_id = get ''intent_id'', ao_action = get ''action_commitment'', ao_class = get ''action_class'',
       ao_platform = get ''platform_class'', ao_side = get ''side'', ao_asset = get ''asset_bucket'',
       ao_amount = get ''amount_bucket'', ao_status = Order_committed, ao_created_at = now, ao_updated_at = now\<rparr>)"

definition apply_commit_order :: "PrivateAuctionPreparedTransactionRecordV1 \<Rightarrow> time \<Rightarrow> account_store \<Rightarrow> local_update \<times> account_store" where
  "apply_commit_order p now st =
     (let c = payloadString (at_payload p) ''auction_epoch_commitment'';
          o' = payloadString (at_payload p) ''auction_order_commitment''
      in if c = [] \<or> o' = [] then (Update_skipped, st)
         else let (e, st1) = (case getPrivateAuctionEpoch st c of
                   Some e \<Rightarrow> (e, st)
                 | None \<Rightarrow> (confirmed_epoch p c now, putPrivateAuctionEpoch (confirmed_epoch p c now) st));
               order = confirmed_order p c o' now;
               st2 = putPrivateAuctionOrder order st1;
               e' = e\<lparr>ae_order_count := max (ae_order_count e) (int (length (listPrivateAuctionOrdersByEpoch st2 c))),
                 ae_updated_at := now\<rparr>
           in (Order_added e' order, putPrivateAuctionEpoch e' st2))"

definition confirmed_clearing :: "PrivateAuctionPreparedTransactionRecordV1 \<Rightarrow> string \<Rightarrow> string \<Rightarrow> time \<Rightarrow>
    PrivateAuctionClearingRecordV1" where
  "confirmed_clearing p c cc now =
     (let payload = at_payload p in
      \<lparr>al_owner = at_owner p, al_account = at_account p, al_commitment = cc, al_epoch = c, al_status = Clearing_cleared,
       al_price = payloadString payload ''clearing_price_commitment'',
       al_matched = stringArray (obj_field payload ''matched_order_commitments''),
       al_rolled = stringArray (obj_field payload ''rolled_order_commitments''),
       al_proof = payloadString payload ''proof_commitment'',
       al_settlement = some_text (payloadString payload ''settlement_commitment''),
       al_created_at = now, al_updated_at = now\<rparr>)"

definition apply_close_epoch :: "PrivateAuctionPreparedTransactionRecordV1 \<Rightarrow> time \<Rightarrow> account_store \<Rightarrow> local_update \<times> account_store" where
  "apply_close_epoch p now st =
     (let c = payloadString (at_payload p) ''auction_epoch_commitment'';
          cc = payloadString (at_payload p) ''clearing_commitment''
      in if c = [] \<or> cc = [] then (Update_skipped, st)
         else let clearing = confirmed_clearing p c cc now; st1 = putPrivateAuctionClearing clearing st in
           case getPrivateAuctionEpoch st1 c of
             None \<Rightarrow> (Epoch_cleared None clearing, st1)
           | Some e \<Rightarrow>
               let e' = e\<lparr>ae_status := Auction_cleared, ae_matched_count := int (length (al_matched clearing)),
                     ae_rolled_count := int (length (al_rolled clearing)), ae_updated_at := now\<rparr>
               in (Epoch_cleared (Some e') clearing, putPrivateAuctionEpoch e' st1))"

definition apply_settle_clearing :: "PrivateAuctionPreparedTransactionRecordV1 \<Rightarrow> time \<Rightarrow> account_store \<Rightarrow> local_update \<times> account_store" where
  "apply_settle_clearing p now st =
     (let cc = payloadString (at_payload p) ''clearing_commitment'';
          settlement = payloadString (at_payload p) ''settlement_commitment''
      in case (if cc = [] then None else getPrivateAuctionClearing st cc) of
           None \<Rightarrow> (Update_skipped, st)
         | Some c \<Rightarrow> if settlement = [] then (Update_skipped, st)
             else let c' = c\<lparr>al_status := Clearing_settled, al_settlement := Some settlement, al_updated_at := now\<rparr>;
                      (e, st1) = settle_epoch (al_epoch c) now (putPrivateAuctionClearing c' st)
                  in (Clearing_was_settled e c', st1))"

definition applyConfirmedAuctionTransaction :: "PrivateAuctionPreparedTransactionRecordV1 \<Rightarrow> time \<Rightarrow> account_store \<Rightarrow>
    local_update \<times> account_store" where
  "applyConfirmedAuctionTransaction p now st = (case at_operation p of
       Prep_init_market \<Rightarrow> (Market_initialized, st)
     | Prep_open_epoch \<Rightarrow> apply_open_epoch p now st
     | Prep_commit_order \<Rightarrow> apply_commit_order p now st
     | Prep_close_epoch \<Rightarrow> apply_close_epoch p now st
     | Prep_settle_clearing \<Rightarrow> apply_settle_clearing p now st)"

definition confirmPreparedAuctionTransaction :: "auction_host \<Rightarrow> PrivateAuctionPreparedTransactionRecordV1 \<Rightarrow> string \<Rightarrow> time \<Rightarrow>
    account_store \<Rightarrow> auction_answer" where
  "confirmPreparedAuctionTransaction h p signature now st =
     (if at_status p = Tx_confirmed then (return_ok (Already_confirmed p), st)
      else if at_expires_at p \<le> now
      then (throw ''auction_prepared_transaction_expired'',
        putPrivateAuctionPreparedTransaction (p\<lparr>at_status := Tx_expired, at_updated_at := now\<rparr>) st)
      else case verifyAuctionPreparedTransaction (au_chain h) (au_env h) signature now of
          Inl e \<Rightarrow> (throw (auctionOnChainError e), st)
        | Inr confirmation \<Rightarrow>
            let p' = p\<lparr>at_status := Tx_confirmed, at_signature := Some signature, at_updated_at := now\<rparr>;
                (update, st1) = applyConfirmedAuctionTransaction p' now (putPrivateAuctionPreparedTransaction p' st)
            in (return_ok (Confirmed confirmation p' update), st1))"

definition confirmAuctionTransactionFromBody :: "auction_host \<Rightarrow> json \<Rightarrow> string \<Rightarrow> time \<Rightarrow> account_store \<Rightarrow> auction_answer" where
  "confirmAuctionTransactionFromBody h body owner now st =
     (let value = asRecord body;
          reference = stringValue (obj_field value ''client_reference'');
          signature = stringValue (obj_field value ''signature'')
      in if reference = [] then (throw ''auction_client_reference_required'', st)
         else if signature = [] then (throw ''auction_signature_required'', st)
         else case getPrivateAuctionPreparedTransaction st reference of
             None \<Rightarrow> (throw ''auction_prepared_transaction_not_found'', st)
           | Some p \<Rightarrow> if at_owner p \<noteq> owner then (throw ''auction_prepared_transaction_not_found'', st)
               else confirmPreparedAuctionTransaction h p signature now st)"

definition confirmAuctionInternalTransactionFromBody :: "auction_host \<Rightarrow> json \<Rightarrow> time \<Rightarrow> account_store \<Rightarrow> auction_answer" where
  "confirmAuctionInternalTransactionFromBody h body now st =
     (let value = asRecord body;
          reference = stringValue (obj_field value ''client_reference'');
          signature = stringValue (obj_field value ''signature'')
      in if reference = [] then (throw ''auction_client_reference_required'', st)
         else if signature = [] then (throw ''auction_signature_required'', st)
         else case getPrivateAuctionPreparedTransaction st reference of
             None \<Rightarrow> (throw ''auction_prepared_transaction_not_found'', st)
           | Some p \<Rightarrow> if at_operation p = Prep_commit_order then (throw ''auction_internal_confirmation_forbidden'', st)
               else confirmPreparedAuctionTransaction h p signature now st)"

definition listAuctionStateForOwner :: "string \<Rightarrow> int \<Rightarrow> account_store \<Rightarrow> PrivateAuctionEpochRecordV1 list \<times>
    PrivateAuctionOrderRecordV1 list \<times> PrivateAuctionClearingRecordV1 list" where
  "listAuctionStateForOwner owner limit st = (listPrivateAuctionEpochs st owner limit, listPrivateAuctionOrders st owner limit,
     listPrivateAuctionClearings st owner limit)"

end
