(* ===== verification/AccountExecution.thy ===== *)
theory AccountExecution imports AccountPlan AuctionRoutes
begin

text \<open>
  The life of a private action after its preview, from \<open>app/v1/private-account/_lib.ts\<close>: the routes \<open>actions/plan\<close>,
  \<open>actions/approve\<close>, \<open>actions/execute\<close>, \<open>actions/settle\<close> and \<open>settlements/status/refresh\<close>, with their tables of
  \<open>private-account-store.ts\<close>. An exception is an answer with its message. Two things the handlers call are
  arguments: whether the private mode is healthy (\<open>privateModeHealthBody\<close>, a survey of services), and what submitting to
  a connector does to the tables of the account and answers (\<open>connectorForExecution\<close>).
\<close>

section \<open>Tables\<close>

record PrivateAccountApprovalRecordV1 =
  apr_owner :: string
  apr_commitment :: string
  apr_preview :: string
  apr_intent_id :: string
  apr_plan :: "string option"
  apr_degraded_accepted :: bool
  apr_approved_at :: time
  apr_expires_at :: time
  apr_consumed_at :: "time option"

record PrivateAccountExecutionRecordV1 =
  exe_owner :: string
  exe_commitment :: string
  exe_intent_id :: string
  exe_preview :: string
  exe_approval :: string
  exe_plan :: "string option"
  exe_settlement :: "string option"
  exe_claim_status :: GholaClaimStatus
  exe_rail :: GholaRailKind
  exe_receipt :: string
  exe_chain :: "GholaPrivateModeEvidenceChain option"
  exe_created_at :: time

record PrivateExecutionPlanRecordV1 =
  epr_owner :: string
  epr_commitment :: string
  epr_intent_id :: string
  epr_preview :: string
  epr_account :: string
  epr_action :: string
  epr_status :: plan_status
  epr_rail :: GholaRailKind
  epr_plan :: GholaPrivateExecutionPlan
  epr_created_at :: time
  epr_expires_at :: time
  epr_consumed_at :: "time option"

record PrivateSettlementRecordV1 =
  str_owner :: string
  str_commitment :: string
  str_execution :: string
  str_plan :: string
  str_preview :: string
  str_approval :: string
  str_rail :: GholaRailKind
  str_lifecycle :: GholaPrivateSettlementLifecycleStatus
  str_root :: "string option"
  str_witness :: "string option"
  str_proof :: "string option"
  str_relay :: "string option"
  str_finality :: "string option"
  str_attestation :: "string option"
  str_failure :: "string option"
  str_evidence :: GholaShieldedSettlementEvidence
  str_created_at :: time
  str_updated_at :: time

record PrivateAccountReceiptRecordV1 =
  rcr_owner :: string
  rcr_commitment :: string
  rcr_intent_id :: string
  rcr_preview :: string
  rcr_approval :: string
  rcr_receipt :: GholaPrivateAccountReceipt
  rcr_created_at :: time

text \<open>A funding batch; its rail is the one rail of deposits. It is written by the coordinator of batches.\<close>

datatype PrivateFundingBatchStatus = Batch_waiting | Batch_evidence_ready

record PrivateFundingBatchRecordV1 =
  fb_id :: string
  fb_owner :: string
  fb_account :: string
  fb_queue_id :: "string option"
  fb_action :: "string option"
  fb_selected_import :: "string option"
  fb_amount :: string
  fb_asset :: string
  fb_network :: string
  fb_imports :: "string list"
  fb_effective :: nat
  fb_required :: int
  fb_timing_window_met :: bool
  fb_evidence :: "string option"
  fb_status :: PrivateFundingBatchStatus
  fb_created_at :: time
  fb_updated_at :: time

record execution_store =
  ex_account :: account_store
  ex_approvals :: "(string, PrivateAccountApprovalRecordV1) jsmap"
  ex_executions :: "(string, PrivateAccountExecutionRecordV1) jsmap"
  ex_plans :: "(string, PrivateExecutionPlanRecordV1) jsmap"
  ex_settlements :: "(string, PrivateSettlementRecordV1) jsmap"
  ex_receipts :: "(string, PrivateAccountReceiptRecordV1) jsmap"
  ex_batches :: "(string, PrivateFundingBatchRecordV1) jsmap"

definition empty_execution_store :: execution_store where
  "empty_execution_store = \<lparr>ex_account = empty_account_store, ex_approvals = [], ex_executions = [], ex_plans = [],
     ex_settlements = [], ex_receipts = [], ex_batches = []\<rparr>"

definition putPrivateAccountApproval :: "PrivateAccountApprovalRecordV1 \<Rightarrow> execution_store \<Rightarrow> execution_store" where
  "putPrivateAccountApproval r st = st\<lparr>ex_approvals := js_set (ex_approvals st) (apr_commitment r) r\<rparr>"

definition getPrivateAccountApproval :: "execution_store \<Rightarrow> string \<Rightarrow> PrivateAccountApprovalRecordV1 option" where
  "getPrivateAccountApproval st a = js_get (ex_approvals st) a"

definition consumePrivateAccountApproval :: "string \<Rightarrow> time \<Rightarrow> execution_store \<Rightarrow> execution_store" where
  "consumePrivateAccountApproval a consumed st = (case getPrivateAccountApproval st a of
       None \<Rightarrow> st
     | Some r \<Rightarrow> st\<lparr>ex_approvals := js_set (ex_approvals st) a (r\<lparr>apr_consumed_at := Some consumed\<rparr>)\<rparr>)"

definition putPrivateAccountExecution :: "PrivateAccountExecutionRecordV1 \<Rightarrow> execution_store \<Rightarrow> execution_store" where
  "putPrivateAccountExecution r st = st\<lparr>ex_executions := js_set (ex_executions st) (exe_commitment r) r\<rparr>"

definition getPrivateAccountExecutionByApproval :: "execution_store \<Rightarrow> string \<Rightarrow> PrivateAccountExecutionRecordV1 option" where
  "getPrivateAccountExecutionByApproval st a = find (\<lambda>r. exe_approval r = a) (js_values (ex_executions st))"

definition putPrivateExecutionPlan :: "PrivateExecutionPlanRecordV1 \<Rightarrow> execution_store \<Rightarrow> execution_store" where
  "putPrivateExecutionPlan r st = st\<lparr>ex_plans := js_set (ex_plans st) (epr_commitment r) r\<rparr>"

definition getPrivateExecutionPlan :: "execution_store \<Rightarrow> string \<Rightarrow> PrivateExecutionPlanRecordV1 option" where
  "getPrivateExecutionPlan st p = js_get (ex_plans st) p"

definition getPrivateExecutionPlanByPreview :: "execution_store \<Rightarrow> string \<Rightarrow> PrivateExecutionPlanRecordV1 option" where
  "getPrivateExecutionPlanByPreview st p = find (\<lambda>r. epr_preview r = p) (js_values (ex_plans st))"

definition consumePrivateExecutionPlan :: "string \<Rightarrow> time \<Rightarrow> execution_store \<Rightarrow> execution_store" where
  "consumePrivateExecutionPlan p consumed st = (case getPrivateExecutionPlan st p of
       None \<Rightarrow> st
     | Some r \<Rightarrow> st\<lparr>ex_plans := js_set (ex_plans st) p (r\<lparr>epr_consumed_at := Some consumed\<rparr>)\<rparr>)"

definition putPrivateSettlement :: "PrivateSettlementRecordV1 \<Rightarrow> execution_store \<Rightarrow> execution_store" where
  "putPrivateSettlement r st = st\<lparr>ex_settlements := js_set (ex_settlements st) (str_commitment r) r\<rparr>"

definition getPrivateSettlement :: "execution_store \<Rightarrow> string \<Rightarrow> PrivateSettlementRecordV1 option" where
  "getPrivateSettlement st s = js_get (ex_settlements st) s"

definition getPrivateSettlementByExecution :: "execution_store \<Rightarrow> string \<Rightarrow> PrivateSettlementRecordV1 option" where
  "getPrivateSettlementByExecution st e = find (\<lambda>r. str_execution r = e) (js_values (ex_settlements st))"

definition putPrivateAccountReceipt :: "PrivateAccountReceiptRecordV1 \<Rightarrow> execution_store \<Rightarrow> execution_store" where
  "putPrivateAccountReceipt r st = st\<lparr>ex_receipts := js_set (ex_receipts st) (rcr_commitment r) r\<rparr>"

definition getPrivateAccountReceipt :: "execution_store \<Rightarrow> string \<Rightarrow> PrivateAccountReceiptRecordV1 option" where
  "getPrivateAccountReceipt st r = js_get (ex_receipts st) r"

definition getPrivateFundingBatchByEvidence :: "execution_store \<Rightarrow> string \<Rightarrow> PrivateFundingBatchRecordV1 option" where
  "getPrivateFundingBatchByEvidence st e = find (\<lambda>b. fb_evidence b = Some e) (js_values (ex_batches st))"

text \<open>\<open>n + 1\<close> on a count; adding to \<open>undefined\<close> gives \<open>NaN\<close>.\<close>

definition count_plus :: "jsnum option \<Rightarrow> bool \<Rightarrow> jsnum option" where
  "count_plus n b = Some (case n of None \<Rightarrow> NaN | Some (Fin r) \<Rightarrow> Fin (fl (r + (if b then 1 else 0))) | Some x \<Rightarrow> x)"

definition recordPrivacyBudgetEvent :: "string \<Rightarrow> string \<Rightarrow> bool \<Rightarrow> bool \<Rightarrow> bool \<Rightarrow> time \<Rightarrow> account_store \<Rightarrow> account_store" where
  "recordPrivacyBudgetEvent owner account degraded withdrawal cadence now st =
     (let b = (case getPrivacyBudget st account of None \<Rightarrow> defaultBudget | Some r \<Rightarrow> bud_budget r)
      in putPrivacyBudget \<lparr>bud_owner = owner, bud_account = account,
           bud_budget = b\<lparr>pb_degraded_action_count := count_plus (pb_degraded_action_count b) degraded,
             pb_repeated_withdrawal_count := count_plus (pb_repeated_withdrawal_count b) withdrawal,
             pb_repeated_cadence_count := count_plus (pb_repeated_cadence_count b) cadence\<rparr>,
           bud_updated_at = now\<rparr> st)"

definition set_intent_status :: "string \<Rightarrow> PrivateAccountIntentStatus \<Rightarrow> execution_store \<Rightarrow> execution_store" where
  "set_intent_status i status st = st\<lparr>ex_account := updatePrivateAccountIntentStatus i status (ex_account st)\<rparr>"

section \<open>The surroundings\<close>

record connector_request =
  cq_owner :: string
  cq_intent :: PrivateAccountIntentRecordV1
  cq_preview :: GholaPrivacyPreview
  cq_approval :: string
  cq_plan :: "string option"
  cq_bundle :: json

record connector_submission =
  cs_work_order :: "string option"
  cs_result :: "string option"
  cs_fee_policy :: "string option"

record execution_host =
  eh_pool :: pool_host
  eh_hmac :: "string \<Rightarrow> string \<Rightarrow> string"
  eh_mode_green :: "execution_store \<Rightarrow> bool"
  eh_connector :: "connector_request \<Rightarrow> account_store \<Rightarrow> connector_submission result \<times> account_store"

abbreviation exec_host :: "execution_host \<Rightarrow> host" where
  "exec_host h \<equiv> fh_host (pl_host (eh_pool h))"

definition connectorForExecution :: "execution_host \<Rightarrow> connector_request \<Rightarrow> execution_store \<Rightarrow>
    connector_submission result \<times> execution_store" where
  "connectorForExecution h q st =
     (if pv_connector (cq_preview q) = None
      then (return_ok \<lparr>cs_work_order = None, cs_result = None, cs_fee_policy = None\<rparr>, st)
      else let (answer, account) = eh_connector h q (ex_account st) in (answer, st\<lparr>ex_account := account\<rparr>))"

fun gate_error_name :: "gate_error \<Rightarrow> string" where
  "gate_error_name Intent_expired = ''intent_expired''"
| "gate_error_name Preview_expired = ''preview_expired''"
| "gate_error_name Approval_expired = ''approval_expired''"
| "gate_error_name Preview_mismatch = ''preview_mismatch''"
| "gate_error_name Approval_mismatch = ''approval_mismatch''"
| "gate_error_name Gate_blocked_leaky_path = ''blocked_leaky_path''"
| "gate_error_name Gate_wait_for_anonymity = ''wait_for_anonymity''"
| "gate_error_name Degraded_acceptance_required = ''degraded_acceptance_required''"
| "gate_error_name Zero_front_run_certificate_required = ''zero_front_run_certificate_required''"

section \<open>Plans of a preview\<close>

definition buildExecutionPlanForPreview :: "execution_host \<Rightarrow> GholaPrivacyPreview \<Rightarrow> time \<Rightarrow> GholaPrivateExecutionPlan" where
  "buildExecutionPlanForPreview h p now =
     buildPrivateExecutionPlan (exec_host h) p (shieldedPoolHealth (eh_pool h) now)
       (map_option (\<lambda>c. js_set c ''preview_commitment'' (JStr (pv_commitment p))) (pv_chain p)) now"

definition plan_record :: "string \<Rightarrow> string \<Rightarrow> GholaPrivateExecutionPlan \<Rightarrow> string \<Rightarrow> string \<Rightarrow> string \<Rightarrow> PrivateExecutionPlanRecordV1" where
  "plan_record owner intent_id plan preview account action =
     \<lparr>epr_owner = owner, epr_commitment = ep_commitment plan, epr_intent_id = intent_id, epr_preview = preview,
      epr_account = account, epr_action = action, epr_status = ep_status plan, epr_rail = ep_rail plan, epr_plan = plan,
      epr_created_at = ep_created_at plan, epr_expires_at = ep_expires_at plan, epr_consumed_at = None\<rparr>"

definition createExecutionPlanRecord :: "execution_host \<Rightarrow> string \<Rightarrow> PrivateAccountIntentRecordV1 \<Rightarrow> GholaPrivacyPreview \<Rightarrow>
    time \<Rightarrow> execution_store \<Rightarrow> PrivateExecutionPlanRecordV1 \<times> execution_store" where
  "createExecutionPlanRecord h owner i p now st =
     (let r = plan_record owner (it_id i) (buildExecutionPlanForPreview h p now) (pv_commitment p) (pv_account p) (pv_action p)
      in (r, putPrivateExecutionPlan r st))"

definition createStoredExecutionPlanFromBody :: "execution_host \<Rightarrow> json \<Rightarrow> string \<Rightarrow> time \<Rightarrow> execution_store \<Rightarrow>
    PrivateExecutionPlanRecordV1 result \<times> execution_store" where
  "createStoredExecutionPlanFromBody h body owner now st =
     (let p = stringValue (obj_field (asRecord body) ''preview_commitment'') in
      if p = [] then (throw ''preview_not_found'', st)
      else case getPrivateAccountPreview (ex_account st) p of
          None \<Rightarrow> (throw ''preview_not_found'', st)
        | Some pr \<Rightarrow>
            if pr_owner pr \<noteq> owner then (throw ''preview_not_found'', st)
            else if isPrivateAccountRecordExpired (pr_expires_at pr) now then (throw ''preview_expired'', st)
            else case getPrivateAccountIntent (ex_account st) (pr_intent_id pr) of
                None \<Rightarrow> (throw ''intent_not_found'', st)
              | Some i \<Rightarrow>
                  if it_owner i \<noteq> owner then (throw ''intent_not_found'', st)
                  else let r = plan_record owner (it_id i) (buildExecutionPlanForPreview h (pr_preview pr) now)
                         (pr_commitment pr) (pr_account pr) (pr_action pr)
                    in (return_ok r, putPrivateExecutionPlan r st))"

definition planForApproval :: "execution_host \<Rightarrow> string \<Rightarrow> PrivateAccountIntentRecordV1 \<Rightarrow> GholaPrivacyPreview \<Rightarrow> string \<Rightarrow>
    time \<Rightarrow> execution_store \<Rightarrow> string option result \<times> execution_store" where
  "planForApproval h owner i p requested now st =
     (let private = isPrivateModeAvailableStatus (pv_status p) in
      if \<not> private \<and> requested = [] then (return_ok None, st)
      else let (found, st1) =
             (if requested \<noteq> [] then (getPrivateExecutionPlan st requested, st)
              else case getPrivateExecutionPlanByPreview st (pv_commitment p) of
                  Some r \<Rightarrow> (Some r, st)
                | None \<Rightarrow> let (r, st') = createExecutionPlanRecord h owner i p now st in (Some r, st'))
        in case found of
            None \<Rightarrow> (throw ''private_execution_plan_not_found'', st1)
          | Some r \<Rightarrow>
              if epr_owner r \<noteq> owner then (throw ''private_execution_plan_not_found'', st1)
              else if epr_intent_id r \<noteq> it_id i \<or> epr_preview r \<noteq> pv_commitment p \<or> epr_action r \<noteq> it_action i
              then (throw ''private_execution_plan_mismatch'', st1)
              else if private \<and> epr_status r \<noteq> Plan_ready
              then (throw (if epr_status r = Plan_waiting then ''wait_for_anonymity'' else ''private_execution_plan_not_ready''), st1)
              else (return_ok (Some (epr_commitment r)), st1))"

definition planForExecution :: "string \<Rightarrow> PrivateAccountIntentRecordV1 \<Rightarrow> GholaPrivacyPreview \<Rightarrow> string option \<Rightarrow>
    execution_store \<Rightarrow> PrivateExecutionPlanRecordV1 option result" where
  "planForExecution owner i p approved st =
     (if \<not> isPrivateModeAvailableStatus (pv_status p) then return_ok None
      else if \<not> has_text approved then throw ''private_execution_plan_required''
      else case getPrivateExecutionPlan st (the approved) of
          None \<Rightarrow> throw ''private_execution_plan_not_found''
        | Some r \<Rightarrow>
            if epr_owner r \<noteq> owner then throw ''private_execution_plan_not_found''
            else if epr_intent_id r \<noteq> it_id i \<or> epr_preview r \<noteq> pv_commitment p \<or> epr_action r \<noteq> it_action i
            then throw ''private_execution_plan_mismatch''
            else if epr_status r \<noteq> Plan_ready then throw ''private_execution_plan_not_ready''
            else return_ok (Some r))"

section \<open>Approval\<close>

definition approval_record :: "host \<Rightarrow> string \<Rightarrow> string \<Rightarrow> string option \<Rightarrow> PrivateAccountPreviewRecordV1 \<Rightarrow> bool \<Rightarrow> time \<Rightarrow>
    PrivateAccountApprovalRecordV1" where
  "approval_record h owner intent_id plan pr degraded now =
     (let a = approvePrivateAccountAction h (pr_commitment pr) (Some degraded) None now
      in \<lparr>apr_owner = owner, apr_commitment = pa_commitment a, apr_preview = pa_preview a, apr_intent_id = intent_id,
          apr_plan = plan, apr_degraded_accepted = pa_degraded_accepted a, apr_approved_at = pa_approved_at a,
          apr_expires_at = pr_expires_at pr, apr_consumed_at = None\<rparr>)"

text \<open>The checks on the intent and the preview, up to the plan.\<close>

definition approval_subject :: "json \<Rightarrow> string \<Rightarrow> time \<Rightarrow> account_store \<Rightarrow>
    (PrivateAccountIntentRecordV1 \<times> PrivateAccountPreviewRecordV1) result" where
  "approval_subject body owner now st =
     (let value = asRecord body;
          intent_id = stringValue (obj_field value ''intent_id'');
          p = stringValue (obj_field value ''preview_commitment'');
          degraded = (obj_field value ''degraded_accepted'' = JBool True)
      in if intent_id = [] then throw ''intent_not_found''
         else if p = [] then throw ''preview_not_found''
         else case getPrivateAccountIntent st intent_id of
             None \<Rightarrow> throw ''intent_not_found''
           | Some i \<Rightarrow> if it_owner i \<noteq> owner then throw ''intent_not_found''
               else (case getPrivateAccountPreview st p of
                   None \<Rightarrow> throw ''preview_not_found''
                 | Some pr \<Rightarrow>
                     if pr_owner pr \<noteq> owner then throw ''preview_not_found''
                     else if isPrivateAccountRecordExpired (it_expires_at i) now then throw ''intent_expired''
                     else if isPrivateAccountRecordExpired (pr_expires_at pr) now then throw ''preview_expired''
                     else if pr_consumed_at pr \<noteq> None then throw ''preview_already_consumed''
                     else if pr_intent_id pr \<noteq> it_id i \<or> pr_account pr \<noteq> it_account i \<or> pr_action pr \<noteq> it_action i
                     then throw ''preview_mismatch''
                     else (case canApprovePreview (pr_preview pr) degraded of
                         Some e \<Rightarrow> throw (gate_error_name e)
                       | None \<Rightarrow> return_ok (i, pr))))"

definition approveStoredPreviewFromBody :: "execution_host \<Rightarrow> json \<Rightarrow> string \<Rightarrow> time \<Rightarrow> execution_store \<Rightarrow>
    PrivateAccountApprovalRecordV1 result \<times> execution_store" where
  "approveStoredPreviewFromBody h body owner now st =
     (let value = asRecord body;
          degraded = (obj_field value ''degraded_accepted'' = JBool True);
          requested = or_text (stringValue (obj_field value ''execution_plan_commitment'')) (stringValue (obj_field value ''plan_commitment''))
      in case approval_subject body owner now (ex_account st) of
           Inl e \<Rightarrow> (throw e, st)
         | Inr (i, pr) \<Rightarrow> (case planForApproval h owner i (pr_preview pr) requested now st of
               (Inl e, st1) \<Rightarrow> (throw e, st1)
             | (Inr plan, st1) \<Rightarrow>
                 let r = approval_record (exec_host h) owner (it_id i) plan pr degraded now
                 in (return_ok r, set_intent_status (it_id i) It_approved (putPrivateAccountApproval r st1))))"

section \<open>Evidence\<close>

text \<open>\<open>evidenceChainFromBatch\<close> of \<open>private-account-coordinator.ts\<close>.\<close>

definition evidenceChainFromBatch :: "PrivateFundingBatchRecordV1 option \<Rightarrow> string \<Rightarrow> string \<Rightarrow> GholaPrivateModeEvidenceChain option" where
  "evidenceChainFromBatch batch preview approval = (case batch of
       None \<Rightarrow> None
     | Some b \<Rightarrow> if \<not> has_text (fb_evidence b) \<or> \<not> has_text (fb_selected_import b) then None
         else Some [(''version'', JNum (num 1)), (''funding_import_commitment'', null_text (fb_selected_import b)),
           (''batch_id'', JStr (fb_id b)), (''batch_evidence_commitment'', null_text (fb_evidence b)),
           (''preview_commitment'', JStr preview), (''execution_plan_commitment'', JNull),
           (''approval_commitment'', JStr approval), (''execution_commitment'', JNull),
           (''settlement_commitment'', JNull), (''relay_commitment'', JNull), (''finality_commitment'', JNull)])"

definition preserved_keys :: "string list" where
  "preserved_keys = [''auction_epoch_commitment'', ''auction_order_commitment'', ''clearing_commitment'',
     ''auction_settlement_commitment'', ''proof_commitment'', ''finality_commitment'', ''runtime_attestation_commitment'',
     ''front_run_certificate_commitment'']"

definition preservePreviewAuctionEvidence :: "GholaPrivateModeEvidenceChain option \<Rightarrow> GholaPrivateModeEvidenceChain option \<Rightarrow>
    GholaPrivateModeEvidenceChain option" where
  "preservePreviewAuctionEvidence chain preview_chain = (case (chain, preview_chain) of
       (Some c, Some p) \<Rightarrow> Some (set_all c (map (\<lambda>k. (k, null_text (nullish (chain_text (Some p) k) (chain_text (Some c) k)))) preserved_keys))
     | _ \<Rightarrow> chain)"

definition evidenceChainForExecution :: "execution_host \<Rightarrow> GholaPrivacyPreview \<Rightarrow> string \<Rightarrow> execution_store \<Rightarrow>
    GholaPrivateModeEvidenceChain option" where
  "evidenceChainForExecution h p approval st =
     (if \<not> chain_has (pv_chain p) ''batch_evidence_commitment'' then None
      else if \<not> eh_mode_green h st then None
      else preservePreviewAuctionEvidence (evidenceChainFromBatch
        (getPrivateFundingBatchByEvidence st (the (chain_text (pv_chain p) ''batch_evidence_commitment''))) (pv_commitment p) approval)
        (pv_chain p))"

definition privateActionExecutionCommitment :: "host \<Rightarrow> string \<Rightarrow> string \<Rightarrow> string \<Rightarrow> GholaPrivateModeEvidenceChain option \<Rightarrow>
    string option \<Rightarrow> string" where
  "privateActionExecutionCommitment h intent_id preview approval chain plan = gholaCommitment h ''exec'' (JObj
     [(''intent_id'', JStr intent_id), (''preview_commitment'', JStr preview), (''approval_commitment'', JStr approval),
      (''evidence_chain'', null_json JObj chain), (''execution_plan_commitment'', null_text plan)])"

section \<open>Settlement\<close>

definition settlement_record :: "string \<Rightarrow> PrivateExecutionPlanRecordV1 \<Rightarrow> string \<Rightarrow> string \<Rightarrow> GholaShieldedSettlementEvidence \<Rightarrow>
    time \<Rightarrow> PrivateSettlementRecordV1" where
  "settlement_record owner plan approval execution e now =
     \<lparr>str_owner = owner, str_commitment = ste_commitment e, str_execution = execution, str_plan = epr_commitment plan,
      str_preview = epr_preview plan, str_approval = approval, str_rail = epr_rail plan, str_lifecycle = ste_lifecycle e,
      str_root = ste_root e, str_witness = Some (ste_witness e), str_proof = Some (ste_proof e),
      str_relay = Some (re_relay (ste_relay e)), str_finality = Some (ste_finality e),
      str_attestation = ste_attestation_commitment e,
      str_failure = (if ste_lifecycle e = Life_failed then Some ''settlement runtime reported failed'' else None),
      str_evidence = e, str_created_at = now, str_updated_at = now\<rparr>"

definition settlementForExecution :: "execution_host \<Rightarrow> string \<Rightarrow> PrivateExecutionPlanRecordV1 option \<Rightarrow> string \<Rightarrow> string \<Rightarrow>
    bool \<Rightarrow> time \<Rightarrow> execution_store \<Rightarrow> PrivateSettlementRecordV1 option result \<times> execution_store" where
  "settlementForExecution h owner plan approval execution finalized now st = (case plan of
       None \<Rightarrow> (return_ok None, st)
     | Some r \<Rightarrow>
         let answer = (\<lambda>s. if finalized \<and> str_lifecycle s \<noteq> Life_finalized then throw ''settlement_not_finalized'' else return_ok (Some s))
         in case getPrivateSettlementByExecution st execution of
             Some s \<Rightarrow> (answer s, st)
           | None \<Rightarrow> (case settlePrivateExecutionPlan (eh_pool h) (epr_plan r) approval execution now of
               Inl e \<Rightarrow> (throw (settlement_error_name e), st)
             | Inr e \<Rightarrow> let s = settlement_record owner r approval execution e now
                 in (answer s, putPrivateSettlement s st)))"

definition settleStoredActionFromBody :: "execution_host \<Rightarrow> json \<Rightarrow> string \<Rightarrow> time \<Rightarrow> execution_store \<Rightarrow>
    (string \<times> PrivateSettlementRecordV1 option) result \<times> execution_store" where
  "settleStoredActionFromBody h body owner now st =
     (let get = (\<lambda>k. stringValue (obj_field (asRecord body) k));
          plan_key = or_text (get ''execution_plan_commitment'') (get ''plan_commitment'')
      in if get ''intent_id'' = [] then (throw ''intent_not_found'', st)
         else if get ''preview_commitment'' = [] then (throw ''preview_not_found'', st)
         else if get ''approval_commitment'' = [] then (throw ''approval_not_found'', st)
         else if plan_key = [] then (throw ''private_execution_plan_required'', st)
         else case getPrivateAccountIntent (ex_account st) (get ''intent_id'') of
           None \<Rightarrow> (throw ''intent_not_found'', st)
         | Some i \<Rightarrow> if it_owner i \<noteq> owner then (throw ''intent_not_found'', st) else
         (case getPrivateAccountPreview (ex_account st) (get ''preview_commitment'') of
           None \<Rightarrow> (throw ''preview_not_found'', st)
         | Some pr \<Rightarrow> if pr_owner pr \<noteq> owner then (throw ''preview_not_found'', st) else
         (case getPrivateAccountApproval st (get ''approval_commitment'') of
           None \<Rightarrow> (throw ''approval_not_found'', st)
         | Some a \<Rightarrow> if apr_owner a \<noteq> owner then (throw ''approval_not_found'', st) else
         (case getPrivateExecutionPlan st plan_key of
           None \<Rightarrow> (throw ''private_execution_plan_not_found'', st)
         | Some r \<Rightarrow> if epr_owner r \<noteq> owner then (throw ''private_execution_plan_not_found'', st)
             else if epr_intent_id r \<noteq> it_id i \<or> epr_preview r \<noteq> pr_commitment pr \<or> apr_preview a \<noteq> pr_commitment pr
             then (throw ''private_execution_plan_mismatch'', st)
             else let execution = privateActionExecutionCommitment (exec_host h) (it_id i) (pr_commitment pr) (apr_commitment a)
                    (evidenceChainForExecution h (pr_preview pr) (apr_commitment a) st) (Some (epr_commitment r))
               in (case settlementForExecution h owner (Some r) (apr_commitment a) execution False now st of
                   (Inl e, st1) \<Rightarrow> (throw e, st1)
                 | (Inr s, st1) \<Rightarrow> (return_ok (execution, s), st1))))))"

definition refreshSettlementStatusFromBody :: "execution_host \<Rightarrow> json \<Rightarrow> string \<Rightarrow> time \<Rightarrow> execution_store \<Rightarrow>
    PrivateSettlementRecordV1 result \<times> execution_store" where
  "refreshSettlementStatusFromBody h body owner now st =
     (let key = stringValue (obj_field (asRecord body) ''settlement_commitment'') in
      if key = [] then (throw ''settlement_not_found'', st)
      else case getPrivateSettlement st key of
          None \<Rightarrow> (throw ''settlement_not_found'', st)
        | Some s \<Rightarrow> if str_owner s \<noteq> owner then (throw ''settlement_not_found'', st)
            else let e = refreshShieldedSettlementEvidence (eh_pool h) (str_evidence s) now;
                   r = s\<lparr>str_lifecycle := ste_lifecycle e, str_root := ste_root e, str_witness := Some (ste_witness e),
                     str_proof := Some (ste_proof e), str_relay := Some (re_relay (ste_relay e)),
                     str_finality := Some (ste_finality e), str_attestation := ste_attestation_commitment e,
                     str_failure := (if ste_lifecycle e = Life_failed
                       then Some (text_or (str_failure s) ''settlement runtime reported failed'') else None),
                     str_evidence := e, str_updated_at := now\<rparr>
              in (return_ok r, putPrivateSettlement r st))"

section \<open>Execution\<close>

definition intent_binding :: "PrivateAccountIntentRecordV1 \<Rightarrow> GholaPrivateAccountIntentBinding" where
  "intent_binding i = \<lparr>ib_id = it_id i, ib_account = it_account i, ib_action = it_action i, ib_class = it_class i,
     ib_bucket = it_bucket i, ib_policy = it_policy i, ib_intent = it_intent i, ib_expires_at = it_expires_at i\<rparr>"

definition approval_binding :: "PrivateAccountApprovalRecordV1 \<Rightarrow> GholaPrivateAccountApprovalBinding" where
  "approval_binding a = \<lparr>ab_commitment = apr_commitment a, ab_preview = apr_preview a, ab_intent_id = apr_intent_id a,
     ab_degraded_accepted = apr_degraded_accepted a, ab_expires_at = apr_expires_at a, ab_plan = apr_plan a\<rparr>"

text \<open>What every bound chain takes from the preview, the submission, the plan and the settlement.\<close>

definition bound_keys :: "GholaPrivacyPreview \<Rightarrow> string \<Rightarrow> PrivateExecutionPlanRecordV1 option \<Rightarrow>
    PrivateSettlementRecordV1 option \<Rightarrow> connector_submission \<Rightarrow> (string \<times> json) list" where
  "bound_keys p execution plan settled sub =
     (let settlement = (\<lambda>f. null_text (Option.bind settled f)) in
      [(''manifest_commitment'', null_text (map_option cc_manifest (pv_connector p))),
       (''connector_readiness_commitment'', null_text (map_option cc_readiness (pv_connector p))),
       (''compiler_commitment'', null_text (map_option cc_compiler (pv_connector p))),
       (''linkability_score_commitment'', null_text (map_option cc_linkability_score (pv_connector p))),
       (''work_order_commitment'', null_text (cs_work_order sub)),
       (''connector_result_commitment'', null_text (cs_result sub)),
       (''platform_fee_policy_commitment'', null_text (cs_fee_policy sub)),
       (''runtime_envelope_commitment'', null_text (map_option rt_envelope (pv_runtime p))),
       (''runtime_attestation_commitment'', null_text (Option.bind (pv_runtime p) rt_attestation)),
       (''runtime_health_commitment'', null_text (map_option rt_health (pv_runtime p))),
       (''schedule_commitment'', null_text (map_option sd_commitment (pv_schedule p))),
       (''rotation_commitment'', null_text (map_option ro_commitment (pv_rotation p))),
       (''simulator_commitment'', null_text (map_option ls_commitment (pv_simulation p))),
       (''front_run_certificate_commitment'', null_text (pv_certificate p)),
       (''execution_plan_commitment'', null_text (map_option epr_commitment plan)),
       (''execution_commitment'', JStr execution),
       (''settlement_commitment'', null_text (map_option str_commitment settled)),
       (''root_commitment'', settlement str_root), (''witness_commitment'', settlement str_witness),
       (''proof_commitment'', settlement str_proof),
       (''relay_commitment'', null_text (map_option (\<lambda>s. re_relay (ste_relay (str_evidence s))) settled)),
       (''finality_commitment'', null_text (map_option (\<lambda>s. ste_finality (str_evidence s)) settled)),
       (''attestation_commitment'', settlement str_attestation)])"

definition boundEvidenceChain :: "GholaPrivacyPreview \<Rightarrow> GholaPrivateModeEvidenceChain option \<Rightarrow> string \<Rightarrow> string \<Rightarrow>
    PrivateExecutionPlanRecordV1 option \<Rightarrow> PrivateSettlementRecordV1 option \<Rightarrow> connector_submission \<Rightarrow>
    GholaPrivateModeEvidenceChain option" where
  "boundEvidenceChain p chain approval execution plan settled sub = (case chain of
       Some c \<Rightarrow> Some (set_all c (bound_keys p execution plan settled sub))
     | None \<Rightarrow> if pv_connector p = None then None
         else Some ([(''version'', JNum (num 1)), (''funding_import_commitment'', JNull), (''batch_id'', JNull),
           (''batch_evidence_commitment'', JNull), (''preview_commitment'', JStr (pv_commitment p)),
           (''approval_commitment'', JStr approval)] @ bound_keys p execution plan settled sub))"

record execution_subject =
  es_intent :: PrivateAccountIntentRecordV1
  es_preview :: PrivateAccountPreviewRecordV1
  es_approval :: PrivateAccountApprovalRecordV1

text \<open>The records of a new execution, and the checks up to the gate.\<close>

definition execution_subject_of :: "json \<Rightarrow> string \<Rightarrow> time \<Rightarrow> execution_store \<Rightarrow> execution_subject result" where
  "execution_subject_of body owner now st =
     (let get = (\<lambda>k. stringValue (obj_field (asRecord body) k)) in
      case getPrivateAccountIntent (ex_account st) (get ''intent_id'') of
        None \<Rightarrow> throw ''intent_not_found''
      | Some i \<Rightarrow> if it_owner i \<noteq> owner then throw ''intent_not_found'' else
      (case getPrivateAccountPreview (ex_account st) (get ''preview_commitment'') of
        None \<Rightarrow> throw ''preview_not_found''
      | Some pr \<Rightarrow> if pr_owner pr \<noteq> owner then throw ''preview_not_found'' else
      (case getPrivateAccountApproval st (get ''approval_commitment'') of
        None \<Rightarrow> throw ''approval_not_found''
      | Some a \<Rightarrow>
          if apr_owner a \<noteq> owner then throw ''approval_not_found''
          else if pr_consumed_at pr \<noteq> None then throw ''preview_already_consumed''
          else if apr_consumed_at a \<noteq> None then throw ''approval_already_consumed''
          else (case canExecutePrivateAccountAction (intent_binding i) (pr_preview pr) (approval_binding a) now of
              Some e \<Rightarrow> throw (gate_error_name e)
            | None \<Rightarrow> return_ok \<lparr>es_intent = i, es_preview = pr, es_approval = a\<rparr>))))"

record execution_answer =
  ea_intent :: string
  ea_execution :: string
  ea_receipt :: GholaPrivateAccountReceipt

text \<open>The writes after the receipt was built.\<close>

definition record_execution :: "string \<Rightarrow> execution_subject \<Rightarrow> string \<Rightarrow> PrivateExecutionPlanRecordV1 option \<Rightarrow>
    PrivateSettlementRecordV1 option \<Rightarrow> GholaPrivateModeEvidenceChain option \<Rightarrow> string \<Rightarrow> GholaPrivateAccountReceipt \<Rightarrow>
    time \<Rightarrow> execution_store \<Rightarrow> execution_store" where
  "record_execution owner s execution plan settled chain receipt_key receipt now st =
     (let i = es_intent s; pr = es_preview s; a = es_approval s;
          st1 = st\<lparr>ex_account := consumePrivateAccountPreview (pr_commitment pr) now (ex_account st)\<rparr>;
          st2 = consumePrivateAccountApproval (apr_commitment a) now st1;
          st3 = (case plan of None \<Rightarrow> st2 | Some r \<Rightarrow> consumePrivateExecutionPlan (epr_commitment r) now st2);
          st4 = putPrivateAccountExecution
            \<lparr>exe_owner = owner, exe_commitment = execution, exe_intent_id = it_id i, exe_preview = pr_commitment pr,
             exe_approval = apr_commitment a, exe_plan = map_option epr_commitment plan,
             exe_settlement = map_option str_commitment settled, exe_claim_status = pr_claim_status pr,
             exe_rail = pr_rail pr, exe_receipt = receipt_key, exe_chain = chain, exe_created_at = now\<rparr> st3;
          st5 = putPrivateAccountReceipt
            \<lparr>rcr_owner = owner, rcr_commitment = receipt_key, rcr_intent_id = it_id i, rcr_preview = pr_commitment pr,
             rcr_approval = apr_commitment a, rcr_receipt = receipt, rcr_created_at = now\<rparr> st4;
          st6 = st5\<lparr>ex_account := recordPrivacyBudgetEvent owner (it_account i)
            (pr_claim_status pr = Degraded_user_accepted_required) (it_class i = A_withdraw) False now (ex_account st5)\<rparr>
      in set_intent_status (it_id i) It_executed st6)"

definition receipt_secret :: "execution_host \<Rightarrow> string option" where
  "receipt_secret h = fh_env (pl_host (eh_pool h)) ''GHOLA_PRIVATE_ACCOUNT_RECEIPT_SECRET''"

definition receipt_key :: "GholaPrivateAccountReceipt \<Rightarrow> string" where
  "receipt_key receipt = (case obj_field receipt ''receipt_commitment'' of JStr s \<Rightarrow> s | _ \<Rightarrow> [])"

text \<open>From the settlement on.\<close>

definition execute_settled :: "execution_host \<Rightarrow> json \<Rightarrow> string \<Rightarrow> execution_subject \<Rightarrow> string \<Rightarrow>
    GholaPrivateModeEvidenceChain option \<Rightarrow> PrivateExecutionPlanRecordV1 option \<Rightarrow> PrivateSettlementRecordV1 option \<Rightarrow> time \<Rightarrow>
    execution_store \<Rightarrow> execution_answer result \<times> execution_store" where
  "execute_settled h body owner s execution chain plan settled now st =
     (let i = es_intent s; p = pr_preview (es_preview s); a = es_approval s in
      if pv_mode p = Mode_zero_front_run \<and> \<not> fr_live_in_zero_mode (pv_protection p)
      then (throw ''zero_front_run_certificate_required'', st)
      else case connectorForExecution h \<lparr>cq_owner = owner, cq_intent = i, cq_preview = p, cq_approval = apr_commitment a,
          cq_plan = map_option epr_commitment plan,
          cq_bundle = obj_field (asRecord body) ''encrypted_execution_instruction_bundle''\<rparr> st of
          (Inl e, st1) \<Rightarrow> (throw e, st1)
        | (Inr sub, st1) \<Rightarrow>
            let bound = boundEvidenceChain p chain (apr_commitment a) execution plan settled sub in
            (case buildPrivateAccountReceipt \<lparr>ah_host = exec_host h, ah_hmac = eh_hmac h\<rparr> p (apr_commitment a) execution bound
                (receipt_secret h) of
               Inl e \<Rightarrow> (throw e, st1)
             | Inr receipt \<Rightarrow> (return_ok \<lparr>ea_intent = it_id i, ea_execution = execution, ea_receipt = receipt\<rparr>,
                 record_execution owner s execution plan settled bound (receipt_key receipt) receipt now st1)))"

definition execute_new :: "execution_host \<Rightarrow> json \<Rightarrow> string \<Rightarrow> time \<Rightarrow> execution_store \<Rightarrow>
    execution_answer result \<times> execution_store" where
  "execute_new h body owner now st = (case execution_subject_of body owner now st of
       Inl e \<Rightarrow> (throw e, st)
     | Inr s \<Rightarrow>
         let i = es_intent s; pr = es_preview s; a = es_approval s;
             chain = evidenceChainForExecution h (pr_preview pr) (apr_commitment a) st
         in if isPrivateModeAvailableStatus (pr_claim_status pr) \<and> chain = None then (throw ''private_mode_evidence_required'', st)
            else case planForExecution owner i (pr_preview pr) (apr_plan a) st of
                Inl e \<Rightarrow> (throw e, st)
              | Inr plan \<Rightarrow>
                  let execution = privateActionExecutionCommitment (exec_host h) (it_id i) (pr_commitment pr) (apr_commitment a)
                    chain (map_option epr_commitment plan)
                  in (case settlementForExecution h owner plan (apr_commitment a) execution True now st of
                      (Inl e, st1) \<Rightarrow> (throw e, st1)
                    | (Inr settled, st1) \<Rightarrow> execute_settled h body owner s execution chain plan settled now st1))"

definition executeStoredActionFromBody :: "execution_host \<Rightarrow> json \<Rightarrow> string \<Rightarrow> time \<Rightarrow> execution_store \<Rightarrow>
    execution_answer result \<times> execution_store" where
  "executeStoredActionFromBody h body owner now st =
     (let get = (\<lambda>k. stringValue (obj_field (asRecord body) k)) in
      if get ''intent_id'' = [] then (throw ''intent_not_found'', st)
      else if get ''preview_commitment'' = [] then (throw ''preview_not_found'', st)
      else if get ''approval_commitment'' = [] then (throw ''approval_not_found'', st)
      else case getPrivateAccountExecutionByApproval st (get ''approval_commitment'') of
          None \<Rightarrow> execute_new h body owner now st
        | Some e \<Rightarrow> if exe_owner e \<noteq> owner then execute_new h body owner now st
            else (case getPrivateAccountReceipt st (exe_receipt e) of
                None \<Rightarrow> (throw ''receipt_not_found'', st)
              | Some r \<Rightarrow> (return_ok \<lparr>ea_intent = exe_intent_id e, ea_execution = exe_commitment e, ea_receipt = rcr_receipt r\<rparr>, st)))"

end
