(* ===== verification/AccountCoordinator.thy ===== *)
theory AccountCoordinator imports AccountExecution
begin

text \<open>
  \<open>apps/web/src/lib/private-account-coordinator.ts\<close>: the coordinator that forms funding batches. A batch whose
  anonymity set is large enough gets a record of evidence, which a preview in Private Mode needs. With it the tables of
  \<open>private-account-store.ts\<close> it writes (without the copy of the latest run in a blob store) and the two handlers that
  run it, before the public projection of their answers.
\<close>

section \<open>Tables\<close>

datatype evidence_source =
    Src_vault_indexer | Src_batch_coordinator | Src_solver_cohort | Src_settlement_observer | Src_internal_test

record PrivateAnonymityEvidenceRecordV1 =
  ane_commitment :: string
  ane_owner :: string
  ane_account :: string
  ane_intent_id :: "string option"
  ane_action :: "string option"
  ane_queue_id :: "string option"
  ane_source :: evidence_source
  ane_set :: GholaAnonymitySetSummary
  ane_created_at :: time
  ane_updated_at :: time

datatype batch_run_status = Run_healthy | Run_waiting | Run_unhealthy

record PrivateFundingBatchRunRecordV1 =
  fr_id :: string
  fr_coordinator :: string
  fr_status :: batch_run_status
  fr_accounts_scanned :: nat
  fr_queues_scanned :: nat
  fr_imports_scanned :: nat
  fr_batches_written :: nat
  fr_evidence_written :: nat
  fr_stale_imports :: nat
  fr_rejected_imports :: nat
  fr_error :: "string option"
  fr_created_at :: time
  fr_updated_at :: time

record coordinator_store =
  co_exec :: execution_store
  co_evidence :: "(string, PrivateAnonymityEvidenceRecordV1) jsmap"
  co_runs :: "(string, PrivateFundingBatchRunRecordV1) jsmap"

abbreviation co_account :: "coordinator_store \<Rightarrow> account_store" where
  "co_account st \<equiv> ex_account (co_exec st)"

definition empty_coordinator_store :: coordinator_store where
  "empty_coordinator_store = \<lparr>co_exec = empty_execution_store, co_evidence = [], co_runs = []\<rparr>"

definition on_account :: "(account_store \<Rightarrow> account_store) \<Rightarrow> coordinator_store \<Rightarrow> coordinator_store" where
  "on_account f st = st\<lparr>co_exec := (co_exec st)\<lparr>ex_account := f (co_account st)\<rparr>\<rparr>"

definition putAnonymityEvidence :: "PrivateAnonymityEvidenceRecordV1 \<Rightarrow> coordinator_store \<Rightarrow> coordinator_store" where
  "putAnonymityEvidence r st = st\<lparr>co_evidence := js_set (co_evidence st) (ane_commitment r) r\<rparr>"

definition getLatestAnonymityEvidence :: "coordinator_store \<Rightarrow> string \<Rightarrow> string option \<Rightarrow> string option \<Rightarrow>
    PrivateAnonymityEvidenceRecordV1 option" where
  "getLatestAnonymityEvidence st account action queue_id =
     (case newest_first ane_updated_at (filter (\<lambda>r. ane_account r = account \<and>
          (if has_text queue_id then ane_queue_id r = queue_id
           else if has_text action then ane_action r = action else True)) (js_values (co_evidence st))) of
        [] \<Rightarrow> None | r # rest \<Rightarrow> Some r)"

definition putPrivateFundingBatch :: "PrivateFundingBatchRecordV1 \<Rightarrow> execution_store \<Rightarrow> execution_store" where
  "putPrivateFundingBatch b st = st\<lparr>ex_batches := js_set (ex_batches st) (fb_id b) b\<rparr>"

definition listPrivateFundingBatches :: "execution_store \<Rightarrow> string \<Rightarrow> int \<Rightarrow> PrivateFundingBatchRecordV1 list" where
  "listPrivateFundingBatches st owner limit = take (safe_limit 100 limit)
     (newest_first fb_updated_at (filter (\<lambda>b. fb_owner b = owner) (js_values (ex_batches st))))"

definition putPrivateFundingBatchRun :: "PrivateFundingBatchRunRecordV1 \<Rightarrow> coordinator_store \<Rightarrow> coordinator_store" where
  "putPrivateFundingBatchRun r st = st\<lparr>co_runs := js_set (co_runs st) (fr_id r) r\<rparr>"

definition getLatestPrivateFundingBatchRun :: "coordinator_store \<Rightarrow> PrivateFundingBatchRunRecordV1 option" where
  "getLatestPrivateFundingBatchRun st = (case newest_first fr_updated_at (js_values (co_runs st)) of
       [] \<Rightarrow> None | r # rest \<Rightarrow> Some r)"

section \<open>Configuration\<close>

text \<open>\<open>Number.parseInt(process.env.NAME || "", 10)\<close> when it is a number from \<open>least\<close> on.\<close>

definition configured_int :: "funding_host \<Rightarrow> string \<Rightarrow> int \<Rightarrow> int \<Rightarrow> int" where
  "configured_int h name least fallback = (case js_parse_int 10 (text_or (fh_env h name) []) of
       Fin r \<Rightarrow> if of_int least \<le> r then \<lfloor>r\<rfloor> else fallback
     | _ \<Rightarrow> fallback)"

definition fundingBatchMinDelaySeconds :: "funding_host \<Rightarrow> int" where
  "fundingBatchMinDelaySeconds h = configured_int h ''GHOLA_PRIVATE_ACCOUNT_BATCH_MIN_DELAY_SECONDS'' 0
     (asp_min_delay_seconds DEFAULT_ANONYMITY_SET_POLICY)"

definition requiredAnonymitySet :: "funding_host \<Rightarrow> int" where
  "requiredAnonymitySet h = configured_int h ''GHOLA_PRIVATE_ACCOUNT_BATCH_REQUIRED_SET'' 1
     (asp_consumer_min DEFAULT_ANONYMITY_SET_POLICY)"

definition coordinatorMaxStaleMs :: "funding_host \<Rightarrow> int" where
  "coordinatorMaxStaleMs h = configured_int h ''GHOLA_PRIVATE_ACCOUNT_COORDINATOR_MAX_STALE_MS'' 1 300000"

definition coordinatorLockTtlMs :: "funding_host \<Rightarrow> int" where
  "coordinatorLockTtlMs h = configured_int h ''GHOLA_PRIVATE_ACCOUNT_COORDINATOR_LOCK_TTL_MS'' 1 120000"

record coordinator_input =
  ci_owner :: "string option"
  ci_queue_id :: "string option"
  ci_limit :: "int option"

definition coordinatorRunWindowCommitment :: "funding_host \<Rightarrow> time \<Rightarrow> coordinator_input \<Rightarrow> string" where
  "coordinatorRunWindowCommitment h now inp =
     (let windowMs = max 60000 (coordinatorMaxStaleMs h)
      in gholaCommitment (fh_host h) ''batch_run_window'' (JObj
        [(''window_start'', JStr (to_iso (now div windowMs * windowMs))),
         (''owner_commitment'', null_text (ci_owner inp)), (''queue_id'', null_text (ci_queue_id inp))]))"

definition isVerifierStateStale :: "funding_host \<Rightarrow> PrivateFundingImportRecordV1 \<Rightarrow> time \<Rightarrow> bool" where
  "isVerifierStateStale h m now \<longleftrightarrow> now - fim_observed_at m > vc_max_stale_ms (verifierConfig h)"

section \<open>Targets\<close>

definition coordinatorQueues :: "coordinator_input \<Rightarrow> account_store \<Rightarrow> PrivateQueuedActionRecordV1 list" where
  "coordinatorQueues inp st =
     (let mine = (\<lambda>q. \<not> has_text (ci_owner inp) \<or> Some (aq_owner q) = ci_owner inp) in
      if has_text (ci_queue_id inp)
      then (case getQueuedAction st (the (ci_queue_id inp)) of
          None \<Rightarrow> []
        | Some q \<Rightarrow> if mine q then [q] else [])
      else filter mine (listAllQueuedActions st (case ci_limit inp of None \<Rightarrow> 250 | Some n \<Rightarrow> n)))"

definition coordinatorImports :: "coordinator_input \<Rightarrow> account_store \<Rightarrow> PrivateFundingImportRecordV1 list" where
  "coordinatorImports inp st =
     (if has_text (ci_owner inp)
      then listPrivateFundingImports st (the (ci_owner inp)) (case ci_limit inp of None \<Rightarrow> 200 | Some n \<Rightarrow> n)
      else listAllPrivateFundingImports st (case ci_limit inp of None \<Rightarrow> 1000 | Some n \<Rightarrow> n))"

definition bucket_words :: "PrivateFundingImportRecordV1 \<Rightarrow> string list" where
  "bucket_words m = [fim_account m, fim_asset m, fim_amount m, fim_network m]"

fun keep_latest :: "(string, PrivateFundingImportRecordV1) jsmap \<Rightarrow> PrivateFundingImportRecordV1 \<Rightarrow>
    (string, PrivateFundingImportRecordV1) jsmap" where
  "keep_latest latest m =
     (let key = js_join '':'' (bucket_words m @ [''custom_shielded_deposit'']) in
      if fim_verifier_status m \<noteq> Ver_verified then latest
      else case js_get latest key of
          None \<Rightarrow> js_set latest key m
        | Some existing \<Rightarrow> if fim_imported_at existing < fim_imported_at m then js_set latest key m else latest)"

definition targetImports :: "PrivateFundingImportRecordV1 list \<Rightarrow> PrivateFundingImportRecordV1 list" where
  "targetImports imports = js_values (foldl keep_latest [] imports)"

definition latestVerifiedImport :: "PrivateFundingImportRecordV1 list \<Rightarrow> string \<Rightarrow> PrivateFundingImportRecordV1 option" where
  "latestVerifiedImport imports owner =
     (case newest_first fim_imported_at
          (filter (\<lambda>m. fim_owner m = owner \<and> fim_verifier_status m = Ver_verified) imports) of
        [] \<Rightarrow> None | m # rest \<Rightarrow> Some m)"

type_synonym batch_target = "PrivateFundingImportRecordV1 \<times> PrivateQueuedActionRecordV1 option"

definition queue_targets :: "PrivateFundingImportRecordV1 list \<Rightarrow> PrivateQueuedActionRecordV1 list \<Rightarrow> batch_target list" where
  "queue_targets imports queues = List.map_filter (\<lambda>q. map_option (\<lambda>m. (m, Some q)) (latestVerifiedImport imports (aq_owner q)))
     (filter (\<lambda>q. aq_status q = Q_queued \<or> aq_status q = Q_ready) queues)"

definition batch_targets :: "PrivateFundingImportRecordV1 list \<Rightarrow> PrivateQueuedActionRecordV1 list \<Rightarrow> batch_target list" where
  "batch_targets imports queues = queue_targets imports queues @ map (\<lambda>m. (m, None)) (targetImports imports)"

definition target_key :: "batch_target \<Rightarrow> string" where
  "target_key t = js_join '':'' (bucket_words (fst t) @ [case snd t of None \<Rightarrow> ''account'' | Some q \<Rightarrow> aq_id q])"

section \<open>One batch\<close>

definition compatible_imports :: "account_store \<Rightarrow> PrivateFundingImportRecordV1 \<Rightarrow> PrivateFundingImportRecordV1 list" where
  "compatible_imports st selected = listCompatibleFundingImports st (fim_asset selected) (fim_amount selected) 500"

definition network_imports :: "account_store \<Rightarrow> PrivateFundingImportRecordV1 \<Rightarrow> PrivateFundingImportRecordV1 list" where
  "network_imports st selected = filter (\<lambda>m. fim_network m = fim_network selected) (compatible_imports st selected)"

definition fresh_imports :: "funding_host \<Rightarrow> PrivateFundingImportRecordV1 \<Rightarrow> time \<Rightarrow> account_store \<Rightarrow>
    PrivateFundingImportRecordV1 list" where
  "fresh_imports h selected now st = filter (\<lambda>m. \<not> isVerifierStateStale h m now) (network_imports st selected)"

definition matured_imports :: "funding_host \<Rightarrow> PrivateFundingImportRecordV1 \<Rightarrow> time \<Rightarrow> account_store \<Rightarrow>
    PrivateFundingImportRecordV1 list" where
  "matured_imports h selected now st =
     filter (\<lambda>m. fundingBatchMinDelaySeconds h * 1000 \<le> now - fim_imported_at m) (fresh_imports h selected now st)"

text \<open>\<open>timingWindowMet\<close> and \<open>ready\<close>.\<close>

definition timing_window_met :: "funding_host \<Rightarrow> PrivateFundingImportRecordV1 \<Rightarrow> time \<Rightarrow> account_store \<Rightarrow> bool" where
  "timing_window_met h selected now st \<longleftrightarrow>
     list_ex (\<lambda>m. fim_commitment m = fim_commitment selected) (matured_imports h selected now st)"

definition batch_ready :: "funding_host \<Rightarrow> PrivateFundingImportRecordV1 \<Rightarrow> time \<Rightarrow> account_store \<Rightarrow> bool" where
  "batch_ready h selected now st \<longleftrightarrow>
     requiredAnonymitySet h \<le> int (length (matured_imports h selected now st)) \<and> timing_window_met h selected now st"

definition anonymity_summary :: "funding_host \<Rightarrow> PrivateFundingImportRecordV1 \<Rightarrow> time \<Rightarrow> account_store \<Rightarrow>
    GholaAnonymitySetSummary" where
  "anonymity_summary h selected now st =
     \<lparr>as_required = num (requiredAnonymitySet h), as_effective = num (int (length (matured_imports h selected now st))),
      as_solver_count = None, as_amount_bucketed = True, as_timing_window_met = timing_window_met h selected now st,
      as_uniqueness_bps = num (if batch_ready h selected now st then 500 else 10000), as_repeated_pattern_bps = num 0\<rparr>"

definition import_commitments :: "funding_host \<Rightarrow> PrivateFundingImportRecordV1 \<Rightarrow> time \<Rightarrow> account_store \<Rightarrow> string list" where
  "import_commitments h selected now st = sort_by (\<le>) (map fim_commitment (matured_imports h selected now st))"

definition batch_subject :: "batch_target \<Rightarrow> (string \<times> json) list" where
  "batch_subject t = [(''account_commitment'', JStr (fim_account (fst t))),
     (''queue_id'', null_text (map_option aq_id (snd t))), (''action_commitment'', null_text (map_option aq_action (snd t))),
     (''selected_import_commitment'', JStr (fim_commitment (fst t)))]"

definition funding_batch_id :: "funding_host \<Rightarrow> batch_target \<Rightarrow> time \<Rightarrow> account_store \<Rightarrow> string" where
  "funding_batch_id h t now st = gholaCommitment (fh_host h) ''funding_batch'' (JObj (batch_subject t @
     [(''imports'', texts_json (import_commitments h (fst t) now st)), (''ready'', JBool (batch_ready h (fst t) now st))]))"

definition batch_evidence :: "funding_host \<Rightarrow> batch_target \<Rightarrow> time \<Rightarrow> account_store \<Rightarrow> PrivateAnonymityEvidenceRecordV1" where
  "batch_evidence h t now st =
     (let selected = fst t; summary = anonymity_summary h selected now st in
      \<lparr>ane_commitment = gholaCommitment (fh_host h) ''anon_evidence'' (JObj
         ((''batch_id'', JStr (funding_batch_id h t now st)) # batch_subject t @
          [(''import_commitments'', texts_json (import_commitments h selected now st)),
           (''anonymity_set'', anonymity_set_json summary)])),
       ane_owner = fim_owner selected, ane_account = fim_account selected,
       ane_intent_id = Option.bind (snd t) (\<lambda>q. map_option it_id (getPrivateAccountIntent st (aq_intent_id q))),
       ane_action = map_option aq_action (snd t), ane_queue_id = map_option aq_id (snd t), ane_source = Src_batch_coordinator,
       ane_set = summary, ane_created_at = now, ane_updated_at = now\<rparr>)"

definition batch_of_target :: "funding_host \<Rightarrow> batch_target \<Rightarrow> time \<Rightarrow> account_store \<Rightarrow> PrivateFundingBatchRecordV1" where
  "batch_of_target h t now st =
     (let selected = fst t; ready = batch_ready h selected now st in
      \<lparr>fb_id = funding_batch_id h t now st, fb_owner = fim_owner selected, fb_account = fim_account selected,
       fb_queue_id = map_option aq_id (snd t), fb_action = map_option aq_action (snd t),
       fb_selected_import = Some (fim_commitment selected), fb_amount = fim_amount selected, fb_asset = fim_asset selected,
       fb_network = fim_network selected, fb_imports = import_commitments h selected now st,
       fb_effective = length (matured_imports h selected now st), fb_required = requiredAnonymitySet h,
       fb_timing_window_met = timing_window_met h selected now st,
       fb_evidence = (if ready then Some (ane_commitment (batch_evidence h t now st)) else None),
       fb_status = (if ready then Batch_evidence_ready else Batch_waiting), fb_created_at = now, fb_updated_at = now\<rparr>)"

record coordinated =
  cb_batch :: PrivateFundingBatchRecordV1
  cb_stale_imports :: nat
  cb_rejected_imports :: nat

definition coordinateOne :: "funding_host \<Rightarrow> batch_target \<Rightarrow> time \<Rightarrow> coordinator_store \<Rightarrow> coordinated \<times> coordinator_store" where
  "coordinateOne h t now st =
     (let account = co_account st; selected = fst t; b = batch_of_target h t now account;
          st1 = (if batch_ready h selected now account then putAnonymityEvidence (batch_evidence h t now account) st else st)
      in (\<lparr>cb_batch = b,
           cb_stale_imports = length (network_imports account selected) - length (fresh_imports h selected now account),
           cb_rejected_imports = length (filter (\<lambda>m. fim_verifier_status m \<noteq> Ver_verified) (compatible_imports account selected))\<rparr>,
          st1\<lparr>co_exec := putPrivateFundingBatch b (co_exec st1)\<rparr>))"

section \<open>A run\<close>

text \<open>The date of an update of the queue is the clock, the other dates are \<open>now\<close> of the input. What is added up: the
  batches, and the counts of evidence, stale and rejected imports.\<close>

record batch_progress =
  bp_batches :: "PrivateFundingBatchRecordV1 list"
  bp_evidence :: nat
  bp_stale :: nat
  bp_rejected :: nat

definition no_progress :: batch_progress where
  "no_progress = \<lparr>bp_batches = [], bp_evidence = 0, bp_stale = 0, bp_rejected = 0\<rparr>"

definition add_progress :: "batch_progress \<Rightarrow> coordinated \<Rightarrow> batch_progress" where
  "add_progress p c = \<lparr>bp_batches = bp_batches p @ [cb_batch c],
     bp_evidence = (if has_text (fb_evidence (cb_batch c)) then bp_evidence p + 1 else bp_evidence p),
     bp_stale = bp_stale p + cb_stale_imports c, bp_rejected = bp_rejected p + cb_rejected_imports c\<rparr>"

definition mark_queue_ready :: "batch_target \<Rightarrow> PrivateFundingBatchRecordV1 \<Rightarrow> time \<Rightarrow> coordinator_store \<Rightarrow> coordinator_store" where
  "mark_queue_ready t b clock st = (case snd t of
       None \<Rightarrow> st
     | Some q \<Rightarrow> if fb_status b = Batch_evidence_ready
         then on_account (updateQueuedActionStatus (aq_id q) Q_ready clock) st else st)"

fun coordinate_targets :: "funding_host \<Rightarrow> time \<Rightarrow> time \<Rightarrow> string list \<Rightarrow> batch_target list \<Rightarrow> batch_progress \<Rightarrow>
    coordinator_store \<Rightarrow> batch_progress \<times> coordinator_store" where
  "coordinate_targets h now clock seen [] p st = (p, st)"
| "coordinate_targets h now clock seen (t # ts) p st =
     (if target_key t \<in> set seen then coordinate_targets h now clock seen ts p st
      else let (c, st1) = coordinateOne h t now st
        in coordinate_targets h now clock (target_key t # seen) ts (add_progress p c)
             (mark_queue_ready t (cb_batch c) clock st1))"

definition COORDINATOR_LOCK :: string where
  "COORDINATOR_LOCK = ''private_funding_batch_coordinator''"

definition run_seed :: "string \<Rightarrow> coordinator_input \<Rightarrow> (string \<times> json) list" where
  "run_seed window inp = [(''run_window_commitment'', JStr window), (''owner_commitment'', null_text (ci_owner inp)),
     (''queue_id'', null_text (ci_queue_id inp))]"

definition batch_coordinator_commitment :: "funding_host \<Rightarrow> string" where
  "batch_coordinator_commitment h = gholaCommitment (fh_host h) ''batch_coordinator'' (JStr ''private-mode-v2'')"

definition or_reason :: "string option \<Rightarrow> string option \<Rightarrow> string option" where
  "or_reason a b = (if has_text a then a else b)"

definition unhealthy_run :: "pool_host \<Rightarrow> string \<Rightarrow> coordinator_input \<Rightarrow> time \<Rightarrow> PrivateFundingBatchRunRecordV1" where
  "unhealthy_run h window inp now =
     \<lparr>fr_id = pool_commitment h ''batch_run'' (JObj (run_seed window inp)),
      fr_coordinator = batch_coordinator_commitment (pl_host h), fr_status = Run_unhealthy, fr_accounts_scanned = 0,
      fr_queues_scanned = 0, fr_imports_scanned = 0, fr_batches_written = 0, fr_evidence_written = 0, fr_stale_imports = 0,
      fr_rejected_imports = 0,
      fr_error = or_reason (vh_reason (customShieldedVerifierHealth (pl_host h) now)) (or_reason (ph_reason (shieldedPoolHealth h now))
        (Some ''verifier or shielded pool health is not green'')),
      fr_created_at = now, fr_updated_at = now\<rparr>"

definition finished_run :: "pool_host \<Rightarrow> string \<Rightarrow> coordinator_input \<Rightarrow> time \<Rightarrow> PrivateFundingImportRecordV1 list \<Rightarrow>
    PrivateQueuedActionRecordV1 list \<Rightarrow> batch_progress \<Rightarrow> PrivateFundingBatchRunRecordV1" where
  "finished_run h window inp now imports queues p =
     \<lparr>fr_id = pool_commitment h ''batch_run'' (JObj (run_seed window inp @
        [(''batches'', texts_json (sort_by (\<le>) (map fb_id (bp_batches p))))])),
      fr_coordinator = batch_coordinator_commitment (pl_host h),
      fr_status = (if list_ex (\<lambda>b. fb_status b = Batch_evidence_ready) (bp_batches p) then Run_healthy else Run_waiting),
      fr_accounts_scanned = length (js_uniq (map fim_account imports)), fr_queues_scanned = length queues,
      fr_imports_scanned = length imports, fr_batches_written = length (bp_batches p),
      fr_evidence_written = bp_evidence p, fr_stale_imports = bp_stale p, fr_rejected_imports = bp_rejected p,
      fr_error = None, fr_created_at = now, fr_updated_at = now\<rparr>"

type_synonym coordinator_result = "PrivateFundingBatchRunRecordV1 \<times> PrivateFundingBatchRecordV1 list"

text \<open>What a run does after the lock.\<close>

definition coordinate_batches :: "pool_host \<Rightarrow> string \<Rightarrow> coordinator_input \<Rightarrow> time \<Rightarrow> time \<Rightarrow> coordinator_store \<Rightarrow>
    coordinator_result \<times> coordinator_store" where
  "coordinate_batches h window inp now clock st =
     (if \<not> vh_green (customShieldedVerifierHealth (pl_host h) now) \<or> \<not> ph_green (shieldedPoolHealth h now)
      then let run = unhealthy_run h window inp now in ((run, []), putPrivateFundingBatchRun run st)
      else let queues = coordinatorQueues inp (co_account st); imports = coordinatorImports inp (co_account st);
             (p, st1) = coordinate_targets (pl_host h) now clock [] (batch_targets imports queues) no_progress st;
             run = finished_run h window inp now imports queues p
        in ((run, bp_batches p), putPrivateFundingBatchRun run st1))"

definition runPrivateFundingBatchCoordinator :: "pool_host \<Rightarrow> coordinator_input \<Rightarrow> time \<Rightarrow> time \<Rightarrow> coordinator_store \<Rightarrow>
    coordinator_result \<times> coordinator_store" where
  "runPrivateFundingBatchCoordinator h inp now clock st =
     (let window = coordinatorRunWindowCommitment (pl_host h) now inp;
          ((acquired, lock), account) =
            acquirePrivateCoordinatorLock COORDINATOR_LOCK window now (coordinatorLockTtlMs (pl_host h)) (co_account st);
          st1 = on_account (\<lambda>a. account) st;
          latest = getLatestPrivateFundingBatchRun st1
      in if \<not> acquired \<and> latest \<noteq> None then ((the latest, []), st1)
         else let (result, st2) = coordinate_batches h window inp now clock st1
           in (result, on_account (releasePrivateCoordinatorLock COORDINATOR_LOCK window) st2))"

section \<open>Health of the coordinator\<close>

record PrivateModeCoordinatorHealth =
  ch_green :: bool
  ch_last_run :: "string option"
  ch_last_run_at :: "time option"
  ch_max_stale_ms :: int
  ch_reason :: "string option"
  ch_run :: "PrivateFundingBatchRunRecordV1 option"
  ch_lock :: "PrivateCoordinatorLockRecordV1 option"

definition privateModeCoordinatorHealth :: "funding_host \<Rightarrow> time \<Rightarrow> coordinator_store \<Rightarrow> PrivateModeCoordinatorHealth" where
  "privateModeCoordinatorHealth h now st =
     (let lock = getPrivateCoordinatorLock (co_account st) COORDINATOR_LOCK; maxStaleMs = coordinatorMaxStaleMs h in
      case getLatestPrivateFundingBatchRun st of
        None \<Rightarrow> \<lparr>ch_green = False, ch_last_run = None, ch_last_run_at = None, ch_max_stale_ms = maxStaleMs,
          ch_reason = Some ''batch coordinator has not run'', ch_run = None, ch_lock = lock\<rparr>
      | Some latest \<Rightarrow>
          let stale = (now - fr_updated_at latest > maxStaleMs); unhealthy = (fr_status latest = Run_unhealthy)
          in \<lparr>ch_green = (\<not> unhealthy \<and> \<not> stale), ch_last_run = Some (fr_id latest), ch_last_run_at = Some (fr_updated_at latest),
            ch_max_stale_ms = maxStaleMs,
            ch_reason = (if unhealthy then or_reason (fr_error latest) (Some ''last batch coordinator run was unhealthy'')
              else if stale then Some ''batch coordinator state is stale'' else None),
            ch_run = Some latest, ch_lock = lock\<rparr>)"

section \<open>Routes\<close>

text \<open>\<open>fundingBatchRefreshFromBody\<close> and \<open>runFundingBatchCoordinatorFromBody\<close> of \<open>_lib.ts\<close>; both read the clock.\<close>

definition fundingBatchRefreshFromBody :: "pool_host \<Rightarrow> json \<Rightarrow> string \<Rightarrow> time \<Rightarrow> coordinator_store \<Rightarrow>
    (PrivateFundingBatchRecordV1 \<times> PrivateFundingBatchRunRecordV1) result \<times> coordinator_store" where
  "fundingBatchRefreshFromBody h body owner now st =
     (let queue_id = stringValue (obj_field (asRecord body) ''queue_id'');
          queued = (if queue_id = [] then None else getQueuedAction (co_account st) queue_id)
      in if queue_id \<noteq> [] \<and> map_option aq_owner queued \<noteq> Some owner then (throw ''queue_not_found'', st)
         else let ((run, batches), st1) = runPrivateFundingBatchCoordinator h
                    \<lparr>ci_owner = Some owner, ci_queue_id = map_option aq_id queued, ci_limit = None\<rparr> now now st;
                first = (case batches of [] \<Rightarrow> None | b # rest \<Rightarrow> Some b);
                found = (if queue_id = [] then None else find (\<lambda>b. fb_queue_id b = Some queue_id) batches)
           in (case (case found of Some b \<Rightarrow> Some b | None \<Rightarrow> first) of
                 None \<Rightarrow> (throw ''funding_import_not_found'', st1)
               | Some b \<Rightarrow> (return_ok (b, run), st1)))"

definition runFundingBatchCoordinatorFromBody :: "pool_host \<Rightarrow> json \<Rightarrow> time \<Rightarrow> coordinator_store \<Rightarrow>
    coordinator_result \<times> coordinator_store" where
  "runFundingBatchCoordinatorFromBody h body now st =
     runPrivateFundingBatchCoordinator h
       \<lparr>ci_owner = some_text (stringValue (obj_field (asRecord body) ''owner_commitment'')),
        ci_queue_id = some_text (stringValue (obj_field (asRecord body) ''queue_id'')), ci_limit = None\<rparr> now now st"

end
