(* ===== verification/JsSort.thy ===== *)
theory JsSort imports JsJson "HOL-Library.Multiset"
begin

text \<open>
  Stable sorting by a total order: the result is sorted and depends only on the multiset of the
  elements.
\<close>

section \<open>Stable sorting\<close>

definition total_order_on_names :: "('a \<Rightarrow> 'a \<Rightarrow> bool) \<Rightarrow> 'a set \<Rightarrow> bool" where
  "total_order_on_names le A \<longleftrightarrow>
     (\<forall>x \<in> A. \<forall>y \<in> A. le x y \<or> le y x) \<and> (\<forall>x \<in> A. \<forall>y \<in> A. le x y \<and> le y x \<longrightarrow> x = y) \<and>
     (\<forall>x \<in> A. \<forall>y \<in> A. \<forall>z \<in> A. le x y \<and> le y z \<longrightarrow> le x z)"

lemma total_order_total: "total_order_on_names le A \<Longrightarrow> x \<in> A \<Longrightarrow> y \<in> A \<Longrightarrow> le x y \<or> le y x"
  unfolding total_order_on_names_def by blast

lemma total_order_antisym:
  "total_order_on_names le A \<Longrightarrow> x \<in> A \<Longrightarrow> y \<in> A \<Longrightarrow> le x y \<Longrightarrow> le y x \<Longrightarrow> x = y"
  unfolding total_order_on_names_def by blast

lemma total_order_trans:
  "total_order_on_names le A \<Longrightarrow> x \<in> A \<Longrightarrow> y \<in> A \<Longrightarrow> z \<in> A \<Longrightarrow> le x y \<Longrightarrow> le y z \<Longrightarrow> le x z"
  unfolding total_order_on_names_def by blast

lemma total_order_subset: "total_order_on_names le A \<Longrightarrow> B \<subseteq> A \<Longrightarrow> total_order_on_names le B"
  unfolding total_order_on_names_def by blast

lemma mset_insert_by [simp]: "mset (insert_by le x ys) = add_mset x (mset ys)"
  by (induction ys) auto

lemma mset_sort_by [simp]: "mset (sort_by le xs) = mset xs"
  by (induction xs) (auto simp: sort_by_def)

lemma sorted_insert_on:
  assumes "total_order_on_names le (insert x (set ys))" "sorted_wrt le ys"
  shows "sorted_wrt le (insert_by le x ys)"
  using assms
proof (induction ys)
  case Nil
  then show ?case by simp
next
  case (Cons y ys)
  have sub: "total_order_on_names le (insert x (set ys))"
    using Cons.prems(1) by (rule total_order_subset) auto
  have rest: "sorted_wrt le ys" "\<And>z. z \<in> set ys \<Longrightarrow> le y z" using Cons.prems(2) by auto
  show ?case
  proof (cases "le x y")
    case True
    then have "le x z" if "z \<in> set ys" for z
      using that by (intro total_order_trans [OF Cons.prems(1), of x y z] rest(2)) simp_all
    then show ?thesis using True Cons.prems(2) by simp
  next
    case False
    then have "le y x" using total_order_total [OF Cons.prems(1), of x y] by simp
    then show ?thesis using False rest Cons.IH [OF sub rest(1)] by simp
  qed
qed

lemma sorted_sort_on: "total_order_on_names le (set xs) \<Longrightarrow> sorted_wrt le (sort_by le xs)"
proof (induction xs)
  case Nil
  then show ?case by (simp add: sort_by_def)
next
  case (Cons x xs)
  have "total_order_on_names le (set xs)" using Cons.prems by (rule total_order_subset) auto
  then have "sorted_wrt le (insert_by le x (sort_by le xs))"
    using Cons by (intro sorted_insert_on) simp_all
  then show ?case by (simp add: sort_by_def)
qed

lemma sorted_same_mset:
  assumes "total_order_on_names le (set xs)" "sorted_wrt le xs" "sorted_wrt le ys" "mset xs = mset ys"
  shows "xs = ys"
  using assms
proof (induction xs arbitrary: ys)
  case Nil
  then show ?case by simp
next
  case (Cons x xs)
  then obtain y ys' where ys: "ys = y # ys'" by (cases ys) auto
  have sets: "set (y # ys') = set (x # xs)" using Cons.prems(4) unfolding ys by (metis mset_eq_setD)
  have "x = y \<or> le x y \<and> le y x" using Cons.prems(2,3) sets unfolding ys by auto
  then have "x = y" using total_order_antisym [OF Cons.prems(1), of x y] sets by (metis list.set_intros(1))
  moreover have "xs = ys'"
  proof (rule Cons.IH)
    show "total_order_on_names le (set xs)" using Cons.prems(1) by (rule total_order_subset) auto
  qed (use Cons.prems ys \<open>x = y\<close> in auto)
  ultimately show ?case using ys by simp
qed

lemma sort_by_perm:
  "total_order_on_names le (set xs) \<Longrightarrow> mset xs = mset ys \<Longrightarrow> sort_by le xs = sort_by le ys"
  using sorted_same_mset [of le "sort_by le xs" "sort_by le ys"] sorted_sort_on [of le xs]
    sorted_sort_on [of le ys] mset_eq_setD [of xs ys] by simp

lemma total_order_linorder [simp]: "total_order_on_names ((\<le>) :: 'a :: linorder \<Rightarrow> 'a \<Rightarrow> bool) A"
  by (auto simp: total_order_on_names_def)

end
