(* ===== verification/AccountBalance.thy ===== *)
theory AccountBalance imports AccountFunding JsSort
begin

text \<open>
  Rules for the balance of a private account: what an append to the ledger does, the sums behind a
  snapshot, and the invariant of the ledger over any calls of the handlers of \<open>AccountFunding\<close>.
\<close>

section \<open>Sums over the ledger\<close>

definition ledger_of :: "account_store \<Rightarrow> string \<Rightarrow> PrivateGholaBalanceLedgerEntryRecordV1 list" where
  "ledger_of st account = filter (\<lambda>e. gle_account e = account) (js_values (st_ledger st))"

definition ledger_sum :: "(PrivateGholaBalanceLedgerEntryRecordV1 \<Rightarrow> int) \<Rightarrow> account_store \<Rightarrow> string \<Rightarrow> int" where
  "ledger_sum f st account = sum_list (map f (ledger_of st account))"

lemma ledger_sum_weight:
  "ledger_sum f st account = sum_list (map (\<lambda>e. if gle_account e = account then f e else 0) (js_values (st_ledger st)))"
  unfolding ledger_sum_def ledger_of_def by (induction "js_values (st_ledger st)" rule: list.induct) (simp_all add: sum_list_map_filter')

lemma listed_entries:
  "length (ledger_of st account) \<le> safe_limit 1000 n \<Longrightarrow>
     listGholaBalanceLedgerEntries st account n = oldest_first gle_created_at (ledger_of st account)"
  using arg_cong [OF mset_sort_by, of size "\<lambda>a b. gle_created_at a \<le> gle_created_at b" "ledger_of st account"]
  unfolding listGholaBalanceLedgerEntries_def Let_def ledger_of_def oldest_first_def by simp

lemma listed_set:
  "length (ledger_of st account) \<le> safe_limit 1000 n \<Longrightarrow>
     set (listGholaBalanceLedgerEntries st account n) = set (ledger_of st account)"
  unfolding listed_entries oldest_first_def by (metis mset_sort_by set_mset_mset)

lemma listed_sum:
  assumes "length (ledger_of st account) \<le> safe_limit 1000 n"
  shows "sum_list (map f (listGholaBalanceLedgerEntries st account n)) = ledger_sum f st account"
proof -
  have "mset (map f (listGholaBalanceLedgerEntries st account n)) = mset (map f (ledger_of st account))"
    unfolding listed_entries [OF assms] oldest_first_def by simp
  then show ?thesis unfolding ledger_sum_def by (metis sum_mset_sum_list)
qed

lemma safe_limits [simp]: "safe_limit 1000 1000 = 1000" "safe_limit 1000 250 = 250"
  by (simp_all add: safe_limit_def)

lemma snapshot_sums:
  assumes "length (ledger_of st account) \<le> 1000"
  shows "gbs_available (getGholaBalanceSnapshot st owner account) = max 0 (ledger_sum gle_available st account)"
    "gbs_reserved (getGholaBalanceSnapshot st owner account) = max 0 (ledger_sum gle_reserved st account)"
    "gbs_open_notional (getGholaBalanceSnapshot st owner account) = max 0 (ledger_sum gle_open_notional st account)"
  using assms by (simp_all add: getGholaBalanceSnapshot_def Let_def listed_sum)

lemma listed_within:
  "set (listGholaBalanceLedgerEntries st account n) \<subseteq> set (ledger_of st account)"
proof -
  let ?xs = "oldest_first gle_created_at (ledger_of st account)"
  have "set (drop n ?xs) \<subseteq> set ?xs" for n by (rule set_drop_subset)
  moreover have "set ?xs = set (ledger_of st account)" unfolding oldest_first_def by (metis mset_sort_by set_mset_mset)
  ultimately show ?thesis unfolding listGholaBalanceLedgerEntries_def Let_def ledger_of_def by simp
qed

section \<open>One append\<close>

definition id_free :: "host \<Rightarrow> account_store \<Rightarrow> string \<Rightarrow> string \<Rightarrow> bool" where
  "id_free h st account key = (case js_get (st_ledger st) (ledger_entry_id h account key) of
       None \<Rightarrow> True
     | Some e \<Rightarrow> gle_account e = account \<and> gle_key e = key)"

definition entry_of :: "host \<Rightarrow> string \<Rightarrow> string \<Rightarrow> string \<Rightarrow> ledger_input \<Rightarrow> PrivateGholaBalanceLedgerEntryRecordV1" where
  "entry_of h owner account key inp =
     \<lparr>gle_id = ledger_entry_id h account key, gle_owner = owner, gle_account = account, gle_key = key,
      gle_kind = li_kind inp, gle_venue = li_venue inp, gle_available = li_available inp, gle_reserved = li_reserved inp,
      gle_open_notional = li_open_notional inp, gle_realized_pnl = 0, gle_unrealized_pnl = 0,
      gle_reference = li_reference inp, gle_reason = li_reason inp, gle_created_at = li_created_at inp\<rparr>"

definition entry_with :: "account_store \<Rightarrow> string \<Rightarrow> string \<Rightarrow> PrivateGholaBalanceLedgerEntryRecordV1 option" where
  "entry_with st account key = find (\<lambda>e. gle_account e = account \<and> gle_key e = key) (js_values (st_ledger st))"

definition add_entry :: "PrivateGholaBalanceLedgerEntryRecordV1 \<Rightarrow> account_store \<Rightarrow> account_store" where
  "add_entry e st = st\<lparr>st_ledger := js_set (st_ledger st) (gle_id e) e\<rparr>"

text \<open>Every entry is filed under its id, and an account has at most one entry of a key.\<close>

definition ledger_wf :: "account_store \<Rightarrow> bool" where
  "ledger_wf st \<longleftrightarrow> js_wf (st_ledger st) \<and> jm.all_entries (\<lambda>i e. gle_id e = i) (st_ledger st) \<and>
     (\<forall>e \<in> set (js_values (st_ledger st)). \<forall>e' \<in> set (js_values (st_ledger st)).
        gle_account e = gle_account e' \<and> gle_key e = gle_key e' \<longrightarrow> e = e')"

lemma find_Some_in: "find P xs = Some x \<Longrightarrow> x \<in> set xs \<and> P x"
  by (induction xs) (auto split: if_splits)

lemma entry_with_Some: "entry_with st account key = Some e \<Longrightarrow>
    e \<in> set (js_values (st_ledger st)) \<and> gle_account e = account \<and> gle_key e = key"
  unfolding entry_with_def using find_Some_in by fastforce

lemma entry_with_None: "entry_with st account key = None \<longleftrightarrow>
    (\<forall>e \<in> set (js_values (st_ledger st)). gle_account e = account \<longrightarrow> gle_key e \<noteq> key)"
  unfolding entry_with_def by (auto simp: find_None_iff)

lemma ledger_wfD:
  assumes "ledger_wf st"
  shows "js_wf (st_ledger st)" "js_get (st_ledger st) i = Some e \<Longrightarrow> gle_id e = i"
    "e \<in> set (js_values (st_ledger st)) \<Longrightarrow> e' \<in> set (js_values (st_ledger st)) \<Longrightarrow>
       gle_account e = gle_account e' \<Longrightarrow> gle_key e = gle_key e' \<Longrightarrow> e = e'"
  using assms unfolding ledger_wf_def jm.all_entries_def by blast+

lemma entry_of_sel [simp]:
  "gle_id (entry_of h owner account key inp) = ledger_entry_id h account key"
  "gle_account (entry_of h owner account key inp) = account" "gle_key (entry_of h owner account key inp) = key"
  "gle_kind (entry_of h owner account key inp) = li_kind inp" "gle_available (entry_of h owner account key inp) = li_available inp"
  "gle_reserved (entry_of h owner account key inp) = li_reserved inp"
  "gle_open_notional (entry_of h owner account key inp) = li_open_notional inp"
  "gle_reference (entry_of h owner account key inp) = li_reference inp"
  "gle_owner (entry_of h owner account key inp) = owner" "gle_created_at (entry_of h owner account key inp) = li_created_at inp"
  by (simp_all add: entry_of_def)

lemma append_put: "appendGholaBalanceLedgerEntry h owner account key inp st =
    putGholaBalanceLedgerEntry (entry_of h owner account key inp) st"
  by (simp only: appendGholaBalanceLedgerEntry_def entry_of_def)

lemma append_cases:
  assumes "ledger_wf st" "id_free h st account key"
  shows "appendGholaBalanceLedgerEntry h owner account key inp st = (case entry_with st account key of
       Some e \<Rightarrow> (e, st)
     | None \<Rightarrow> (entry_of h owner account key inp, add_entry (entry_of h owner account key inp) st))"
proof (cases "js_get (st_ledger st) (ledger_entry_id h account key)")
  case None
  then show ?thesis
    unfolding append_put putGholaBalanceLedgerEntry_def entry_with_def add_entry_def
    by (simp split: option.split)
next
  case (Some e)
  then have e: "gle_account e = account" "gle_key e = key" "e \<in> set (js_values (st_ledger st))"
    using assms by (auto simp: id_free_def js_values_get ledger_wfD(1))
  then obtain e' where e': "entry_with st account key = Some e'" by (cases "entry_with st account key") (auto simp: entry_with_None)
  then have "e' = e" using entry_with_Some [OF e'] e by (intro ledger_wfD(3) [OF assms(1)]) auto
  then show ?thesis using Some e' by (simp add: append_put putGholaBalanceLedgerEntry_def)
qed

lemma fresh_id:
  assumes "ledger_wf st" "id_free h st account key" "entry_with st account key = None"
  shows "js_get (st_ledger st) (ledger_entry_id h account key) = None"
  using assms by (auto simp: id_free_def entry_with_None js_values_get ledger_wfD(1) split: option.splits)

lemma add_entry_sel [simp]:
  "st_imports (add_entry e st) = st_imports st" "st_instructions (add_entry e st) = st_instructions st"
  "st_locks (add_entry e st) = st_locks st" "st_results (add_entry e st) = st_results st"
  "st_accounts (add_entry e st) = st_accounts st" "st_work_orders (add_entry e st) = st_work_orders st"
  by (simp_all add: add_entry_def)

lemma update_new_key: "k \<notin> fst ` set m \<Longrightarrow> AList.update k v m = m @ [(k, v)]"
  by (induction m) auto

lemma values_add:
  assumes "js_get (st_ledger st) (gle_id e) = None"
  shows "js_values (st_ledger (add_entry e st)) = js_values (st_ledger st) @ [e]"
proof -
  have "gle_id e \<notin> fst ` set (st_ledger st)" using assms by (simp add: js_get_def map_of_eq_None_iff)
  then show ?thesis by (simp add: add_entry_def js_set_def js_values_def update_new_key)
qed

lemma ledger_of_add:
  "js_get (st_ledger st) (gle_id e) = None \<Longrightarrow>
     ledger_of (add_entry e st) account = ledger_of st account @ (if gle_account e = account then [e] else [])"
  by (simp add: ledger_of_def values_add)

lemma ledger_sum_add:
  "js_get (st_ledger st) (gle_id e) = None \<Longrightarrow>
     ledger_sum f (add_entry e st) account = ledger_sum f st account + (if gle_account e = account then f e else 0)"
  by (simp add: ledger_sum_def ledger_of_add)

lemma ledger_wf_add:
  assumes "ledger_wf st" "js_get (st_ledger st) (gle_id e) = None" "entry_with st (gle_account e) (gle_key e) = None"
  shows "ledger_wf (add_entry e st)"
  unfolding ledger_wf_def
proof (intro conjI)
  show "js_wf (st_ledger (add_entry e st))" using ledger_wfD(1) [OF assms(1)] by (simp add: add_entry_def)
  show "jm.all_entries (\<lambda>i e. gle_id e = i) (st_ledger (add_entry e st))"
    using assms(1) unfolding ledger_wf_def add_entry_def by (simp add: jm.all_entries_insert)
  show "\<forall>x \<in> set (js_values (st_ledger (add_entry e st))). \<forall>y \<in> set (js_values (st_ledger (add_entry e st))).
      gle_account x = gle_account y \<and> gle_key x = gle_key y \<longrightarrow> x = y"
    using ledger_wfD(3) [OF assms(1)] assms(3) unfolding values_add [OF assms(2)] entry_with_None by auto
qed

lemma distinct_ledger:
  assumes "ledger_wf st"
  shows "distinct (js_values (st_ledger st))"
proof -
  have "map fst (st_ledger st) = map gle_id (js_values (st_ledger st))"
    unfolding js_values_def using ledger_wfD(1,2) [OF assms] by (auto simp: js_get_def js_wf_def)
  then show ?thesis using ledger_wfD(1) [OF assms] by (metis distinct_map js_wf_def)
qed

lemma distinct_ledger_of: "ledger_wf st \<Longrightarrow> distinct (ledger_of st account)"
  by (simp add: ledger_of_def distinct_ledger)

section \<open>The invariant\<close>

text \<open>An entry has the shape of one of the four kinds the handlers write; a release gives back what the
  reservation of its work order took, and a credit stands for a stored verified import.\<close>

definition entry_shape :: "PrivateGholaBalanceLedgerEntryRecordV1 \<Rightarrow> bool" where
  "entry_shape e \<longleftrightarrow> 0 \<le> gle_open_notional e \<and> (case gle_kind e of
       Gl_deposit_credit \<Rightarrow> 0 < gle_available e \<and> gle_reserved e = 0 \<and>
         (\<exists>c. gle_reference e = Some c \<and> gle_key e = credit_key c)
     | Gl_margin_reserved \<Rightarrow> 0 < gle_reserved e \<and> gle_available e = - gle_reserved e \<and>
         (\<exists>w. gle_reference e = Some w \<and> gle_key e = reserve_key w)
     | Gl_margin_released \<Rightarrow> gle_reserved e < 0 \<and> gle_available e = - gle_reserved e \<and> (\<exists>w. gle_key e = release_key w)
     | Gl_order_submitted \<Rightarrow> gle_available e = 0 \<and> gle_reserved e = 0 \<and> (\<exists>w. gle_key e = submitted_key w)
     | _ \<Rightarrow> False)"

definition credit_backed :: "account_store \<Rightarrow> PrivateGholaBalanceLedgerEntryRecordV1 \<Rightarrow> bool" where
  "credit_backed st e = (case js_get (st_imports st) (the (gle_reference e)) of
       None \<Rightarrow> False
     | Some m \<Rightarrow> fim_verifier_status m = Ver_verified \<and> fim_asset m = ''stablecoin'' \<and>
         fim_account m = gle_account e \<and> gle_available e = amountBucketMicroUsdc (fim_amount m))"

definition release_matches :: "account_store \<Rightarrow> PrivateGholaBalanceLedgerEntryRecordV1 \<Rightarrow> bool" where
  "release_matches st e \<longleftrightarrow> (\<forall>w. gle_key e = release_key w \<longrightarrow>
     (case entry_with st (gle_account e) (reserve_key w) of
        None \<Rightarrow> False
      | Some r \<Rightarrow> gle_reserved r = gle_available e))"

definition entry_ok :: "account_store \<Rightarrow> PrivateGholaBalanceLedgerEntryRecordV1 \<Rightarrow> bool" where
  "entry_ok st e \<longleftrightarrow> entry_shape e \<and> (gle_kind e = Gl_deposit_credit \<longrightarrow> credit_backed st e) \<and>
     (gle_kind e = Gl_margin_released \<longrightarrow> release_matches st e)"

definition entries_ok :: "account_store \<Rightarrow> bool" where
  "entries_ok st \<longleftrightarrow> (\<forall>e \<in> set (js_values (st_ledger st)). entry_ok st e)"

definition distinct_nullifiers :: "account_store \<Rightarrow> bool" where
  "distinct_nullifiers st \<longleftrightarrow> js_wf (st_imports st) \<and> (\<forall>c m c' m'. js_get (st_imports st) c = Some m \<and> js_get (st_imports st) c' = Some m' \<and>
     fim_verifier_status m = Ver_verified \<and> fim_verifier_status m' = Ver_verified \<and> fim_nullifier m = fim_nullifier m' \<longrightarrow> c = c')"

text \<open>What a reservation holds: its amount until its work order has a release.\<close>

definition held :: "account_store \<Rightarrow> PrivateGholaBalanceLedgerEntryRecordV1 \<Rightarrow> int" where
  "held st e = (if gle_kind e = Gl_margin_reserved \<and>
       entry_with st (gle_account e) (release_key (the (gle_reference e))) = None then gle_reserved e else 0)"

definition reserved_held :: "account_store \<Rightarrow> bool" where
  "reserved_held st \<longleftrightarrow> (\<forall>account. ledger_sum gle_reserved st account = ledger_sum (held st) st account)"

definition never_overdrawn :: "account_store \<Rightarrow> bool" where
  "never_overdrawn st \<longleftrightarrow> (\<forall>account. length (ledger_of st account) \<le> 1000 \<longrightarrow> 0 \<le> ledger_sum gle_available st account)"

definition funding_inv :: "account_store \<Rightarrow> bool" where
  "funding_inv st \<longleftrightarrow> ledger_wf st \<and> entries_ok st \<and> distinct_nullifiers st \<and> reserved_held st \<and> never_overdrawn st"

lemma funding_invD:
  assumes "funding_inv st"
  shows "ledger_wf st" "entries_ok st" "distinct_nullifiers st" "reserved_held st" "never_overdrawn st"
  using assms by (simp_all add: funding_inv_def)

lemmas ledger_defs = ledger_of_def ledger_sum_def ledger_wf_def entry_with_def entry_ok_def entries_ok_def
  credit_backed_def release_matches_def distinct_nullifiers_def held_def reserved_held_def never_overdrawn_def funding_inv_def

lemma funding_inv_cong:
  "st_ledger st = st_ledger st' \<Longrightarrow> st_imports st = st_imports st' \<Longrightarrow> funding_inv st \<longleftrightarrow> funding_inv st'"
  by (simp add: ledger_defs held_def [abs_def])

lemma keys_apart [simp]:
  "credit_key c \<noteq> reserve_key w" "reserve_key w \<noteq> credit_key c" "credit_key c \<noteq> release_key w"
  "release_key w \<noteq> credit_key c" "credit_key c \<noteq> submitted_key w" "submitted_key w \<noteq> credit_key c"
  "reserve_key w \<noteq> release_key w'" "release_key w' \<noteq> reserve_key w" "reserve_key w \<noteq> submitted_key w'"
  "submitted_key w' \<noteq> reserve_key w" "release_key w \<noteq> submitted_key w'" "submitted_key w' \<noteq> release_key w"
  by (simp_all add: credit_key_def reserve_key_def release_key_def submitted_key_def)

lemma keys_inj [simp]:
  "credit_key c = credit_key c' \<longleftrightarrow> c = c'" "reserve_key w = reserve_key w' \<longleftrightarrow> w = w'"
  "release_key w = release_key w' \<longleftrightarrow> w = w'" "submitted_key w = submitted_key w' \<longleftrightarrow> w = w'"
  by (simp_all add: credit_key_def reserve_key_def release_key_def submitted_key_def)

lemma shape_kind:
  assumes "entry_shape e"
  shows "gle_key e = credit_key c \<Longrightarrow> gle_kind e = Gl_deposit_credit"
    "gle_key e = reserve_key w \<Longrightarrow> gle_kind e = Gl_margin_reserved \<and> gle_reference e = Some w"
    "gle_key e = release_key w \<Longrightarrow> gle_kind e = Gl_margin_released"
    "gle_key e = submitted_key w \<Longrightarrow> gle_kind e = Gl_order_submitted"
  using assms by (auto simp: entry_shape_def split: PrivateGholaBalanceEntryKind.splits)

lemma shape_total:
  assumes "entry_shape e"
  shows "gle_available e + gle_reserved e = (if gle_kind e = Gl_deposit_credit then gle_available e else 0)"
  using assms by (auto simp: entry_shape_def split: PrivateGholaBalanceEntryKind.splits)

section \<open>Adding an entry keeps the invariant\<close>

definition legal_entry :: "account_store \<Rightarrow> PrivateGholaBalanceLedgerEntryRecordV1 \<Rightarrow> bool" where
  "legal_entry st e \<longleftrightarrow> js_get (st_ledger st) (gle_id e) = None \<and> entry_with st (gle_account e) (gle_key e) = None \<and>
     entry_ok st e \<and> (length (ledger_of st (gle_account e)) < 1000 \<longrightarrow> - gle_available e \<le> ledger_sum gle_available st (gle_account e))"

lemma legal_entryD:
  assumes "legal_entry st e"
  shows "js_get (st_ledger st) (gle_id e) = None" "entry_with st (gle_account e) (gle_key e) = None" "entry_ok st e"
    "length (ledger_of st (gle_account e)) < 1000 \<Longrightarrow> - gle_available e \<le> ledger_sum gle_available st (gle_account e)"
  using assms by (simp_all add: legal_entry_def)

lemma find_app: "find P (xs @ ys) = (case find P xs of None \<Rightarrow> find P ys | Some x \<Rightarrow> Some x)"
  by (induction xs) auto

lemma entry_with_add:
  assumes "js_get (st_ledger st) (gle_id e) = None"
  shows "entry_with (add_entry e st) account key = (case entry_with st account key of
       Some x \<Rightarrow> Some x
     | None \<Rightarrow> if gle_account e = account \<and> gle_key e = key then Some e else None)"
  unfolding entry_with_def values_add [OF assms] find_app by (simp split: option.split)

lemma entry_with_kept:
  "js_get (st_ledger st) (gle_id e) = None \<Longrightarrow> entry_with st account key = Some x \<Longrightarrow>
     entry_with (add_entry e st) account key = Some x"
  by (simp add: entry_with_add)

lemma entry_ok_kept:
  assumes "js_get (st_ledger st) (gle_id e) = None" "entry_ok st x"
  shows "entry_ok (add_entry e st) x"
  using assms by (auto simp: entry_ok_def credit_backed_def release_matches_def entry_with_kept split: option.splits)

lemma entries_ok_add: "entries_ok st \<Longrightarrow> legal_entry st e \<Longrightarrow> entries_ok (add_entry e st)"
  unfolding entries_ok_def legal_entry_def by (auto simp: values_add entry_ok_kept)

lemma never_overdrawn_add:
  assumes "never_overdrawn st" "legal_entry st e"
  shows "never_overdrawn (add_entry e st)"
  using assms legal_entryD(4) [OF assms(2)]
  by (auto simp: never_overdrawn_def ledger_of_add ledger_sum_add legal_entryD(1))

text \<open>Only a release changes what the reservations before it hold, and only that of its work order.\<close>

lemma held_kept:
  assumes "legal_entry st e" "entries_ok st" "x \<in> set (js_values (st_ledger st))" "gle_kind e \<noteq> Gl_margin_released"
  shows "held (add_entry e st) x = held st x"
proof -
  have "gle_key e \<noteq> release_key w" for w
    using shape_kind(3) [of e w] assms(4) legal_entryD(3) [OF assms(1)] by (auto simp: entry_ok_def)
  then show ?thesis by (simp add: held_def entry_with_add legal_entryD(1) [OF assms(1)] split: option.split)
qed

lemma sum_list_remove_one:
  fixes f g :: "'a \<Rightarrow> int"
  assumes "distinct xs" "r \<in> set xs" "g r = 0" "\<And>x. x \<in> set xs \<Longrightarrow> x \<noteq> r \<Longrightarrow> g x = f x"
  shows "sum_list (map g xs) = sum_list (map f xs) - f r"
proof -
  have "sum g (set xs) = g r + sum g (set xs - {r})" "sum f (set xs) = f r + sum f (set xs - {r})"
    using assms(2) by (simp_all add: sum.remove)
  moreover have "sum g (set xs - {r}) = sum f (set xs - {r})" using assms(4) by (intro sum.cong) auto
  ultimately show ?thesis using assms(1,3) by (simp add: sum_list_distinct_conv_sum_set)
qed

lemma held_other_account:
  assumes "js_get (st_ledger st) (gle_id e) = None" "gle_account x \<noteq> gle_account e"
  shows "held (add_entry e st) x = held st x"
  using assms by (simp add: held_def entry_with_add split: option.split)

lemma ledger_sum_cong: "(\<And>x. x \<in> set (ledger_of st account) \<Longrightarrow> f x = g x) \<Longrightarrow> ledger_sum f st account = ledger_sum g st account"
  unfolding ledger_sum_def by (metis (no_types, lifting) map_eq_conv)

lemma in_ledger_of: "x \<in> set (ledger_of st account) \<longleftrightarrow> x \<in> set (js_values (st_ledger st)) \<and> gle_account x = account"
  by (auto simp: ledger_of_def)

lemma no_release_without_reserve:
  assumes "entries_ok st" "entry_with st account (reserve_key w) = None"
  shows "entry_with st account (release_key w) = None"
proof (rule ccontr)
  assume "entry_with st account (release_key w) \<noteq> None"
  then obtain x where x: "entry_with st account (release_key w) = Some x" by blast
  then have "entry_ok st x" "gle_key x = release_key w" "gle_account x = account"
    using assms(1) entry_with_Some [OF x] by (auto simp: entries_ok_def)
  moreover from this have "gle_kind x = Gl_margin_released" using shape_kind(3) [of x w] by (simp add: entry_ok_def)
  ultimately show False using assms(2) by (simp add: entry_ok_def release_matches_def)
qed

lemma held_new:
  assumes "entries_ok st" "legal_entry st e" "gle_kind e \<noteq> Gl_margin_released"
  shows "held (add_entry e st) e = gle_reserved e"
proof (cases "gle_kind e = Gl_margin_reserved")
  case True
  then obtain w where w: "gle_reference e = Some w" "gle_key e = reserve_key w"
    using legal_entryD(3) [OF assms(2)] by (auto simp: entry_ok_def entry_shape_def)
  then have "entry_with st (gle_account e) (release_key w) = None"
    using no_release_without_reserve [OF assms(1)] legal_entryD(2) [OF assms(2)] by simp
  then show ?thesis using True w by (simp add: held_def entry_with_add legal_entryD(1) [OF assms(2)])
next
  case False
  then have "gle_reserved e = 0" using assms(3) legal_entryD(3) [OF assms(2)]
    by (auto simp: entry_ok_def entry_shape_def split: PrivateGholaBalanceEntryKind.splits)
  then show ?thesis using False by (simp add: held_def)
qed

lemma held_released:
  assumes "ledger_wf st" "entries_ok st" "legal_entry st e" "gle_kind e = Gl_margin_released"
  shows "ledger_sum (held (add_entry e st)) st (gle_account e) = ledger_sum (held st) st (gle_account e) + gle_reserved e"
proof -
  let ?a = "gle_account e"
  obtain w where w: "gle_key e = release_key w" "gle_available e = - gle_reserved e"
    using legal_entryD(3) [OF assms(3)] assms(4) by (auto simp: entry_ok_def entry_shape_def)
  then obtain r where r: "entry_with st ?a (reserve_key w) = Some r" "gle_reserved r = gle_available e"
    using legal_entryD(3) [OF assms(3)] assms(4) by (auto simp: entry_ok_def release_matches_def split: option.splits)
  have r_in: "r \<in> set (ledger_of st ?a)" "gle_key r = reserve_key w" "gle_account r = ?a"
    using entry_with_Some [OF r(1)] by (simp_all add: in_ledger_of)
  have shape: "entry_shape x" if "x \<in> set (ledger_of st ?a)" for x
    using that assms(2) by (auto simp: in_ledger_of entries_ok_def entry_ok_def)
  have kind: "gle_kind r = Gl_margin_reserved" "gle_reference r = Some w" using shape_kind(2) [OF shape] r_in by blast+
  have none: "entry_with st ?a (release_key w) = None" using legal_entryD(2) [OF assms(3)] w by simp
  have "sum_list (map (held (add_entry e st)) (ledger_of st ?a)) = sum_list (map (held st) (ledger_of st ?a)) - held st r"
  proof (rule sum_list_remove_one)
    show "held (add_entry e st) r = 0"
      using kind none r_in(3) w(1) by (simp add: held_def entry_with_add legal_entryD(1) [OF assms(3)])
    fix x assume x: "x \<in> set (ledger_of st ?a)" "x \<noteq> r"
    show "held (add_entry e st) x = held st x"
    proof (cases "gle_kind x = Gl_margin_reserved")
      case True
      then obtain w' where w': "gle_reference x = Some w'" "gle_key x = reserve_key w'"
        using shape [OF x(1)] by (auto simp: entry_shape_def)
      have "w' \<noteq> w" using x r_in w'(2) ledger_wfD(3) [OF assms(1), of x r] by (auto simp: in_ledger_of)
      then show ?thesis using w' w(1) by (simp add: held_def entry_with_add legal_entryD(1) [OF assms(3)] split: option.split)
    qed (simp add: held_def)
  qed (use r_in distinct_ledger_of [OF assms(1)] in simp_all)
  moreover have "held st r = - gle_reserved e" using kind none r_in(3) r(2) w(2) by (simp add: held_def)
  ultimately show ?thesis by (simp add: ledger_sum_def)
qed

lemma reserved_held_add:
  assumes "ledger_wf st" "entries_ok st" "reserved_held st" "legal_entry st e"
  shows "reserved_held (add_entry e st)"
  unfolding reserved_held_def
proof (intro allI)
  fix account
  note id = legal_entryD(1) [OF assms(4)]
  have old: "ledger_sum gle_reserved st account = ledger_sum (held st) st account"
    using assms(3) by (simp add: reserved_held_def)
  have "ledger_sum (held (add_entry e st)) st account = ledger_sum (held st) st account"
    if "gle_account e \<noteq> account \<or> gle_kind e \<noteq> Gl_margin_released"
    using that held_kept [OF assms(4,2)] held_other_account [OF id]
    by (intro ledger_sum_cong) (auto simp: in_ledger_of)
  moreover have "held (add_entry e st) e = 0" if "gle_kind e = Gl_margin_released" using that by (simp add: held_def)
  ultimately show "ledger_sum gle_reserved (add_entry e st) account = ledger_sum (held (add_entry e st)) (add_entry e st) account"
    using old held_new [OF assms(2,4)] held_released [OF assms(1,2,4)]
    by (cases "gle_account e = account"; cases "gle_kind e = Gl_margin_released") (auto simp: ledger_sum_add id)
qed

lemma funding_inv_add:
  assumes "funding_inv st" "legal_entry st e"
  shows "funding_inv (add_entry e st)"
  unfolding funding_inv_def
proof (intro conjI)
  show "distinct_nullifiers (add_entry e st)"
    using funding_invD(3) [OF assms(1)] unfolding distinct_nullifiers_def add_entry_sel .
qed (use funding_invD [OF assms(1)] legal_entryD [OF assms(2)] ledger_wf_add entries_ok_add
    reserved_held_add never_overdrawn_add assms(2) in blast)+

end
