(* ===== verification/AccountFundingMachine.thy ===== *)
theory AccountFundingMachine imports AccountBalance
begin

text \<open>
  The handlers of \<open>AccountFunding\<close> as a machine over calls, and that every call keeps the invariant of the
  ledger as long as no two commitments collide.
\<close>

section \<open>Calls\<close>

datatype funding_call =
    Instruct funding_host json string string time
  | Import_deposit funding_host json string time
  | Import_credit funding_host json string time
  | Show_balance funding_host string time
  | Submit_order funding_host string string "(string \<times> string) option" PrivateConnectorWorkOrderRecordV1
      "connector_result result" time

fun funding_step :: "account_store \<Rightarrow> funding_call \<Rightarrow> account_store" where
  "funding_step st (Instruct h body owner uuid now) = snd (fundingInstructionFromBody h body owner uuid now st)"
| "funding_step st (Import_deposit h body owner now) = snd (fundingImportFromBody h body owner now st)"
| "funding_step st (Import_credit h body owner now) = snd (gholaBalanceImportCreditFromBody h body owner now st)"
| "funding_step st (Show_balance h owner now) = snd (gholaBalanceForOwner (fh_host h) owner now st)"
| "funding_step st (Submit_order h owner approval pooled w submitted now) =
     snd (submit_work_order h owner approval pooled w submitted now st)"

text \<open>No collision: a call does not overwrite a verified import, and the ids it files entries under are
  not those of other entries.\<close>

definition keeps_verified :: "account_store \<Rightarrow> account_store \<Rightarrow> bool" where
  "keeps_verified st st' \<longleftrightarrow> list_all (\<lambda>(c, m). fim_verifier_status m = Ver_verified \<longrightarrow>
     js_get (st_imports st') c = Some m) (st_imports st)"

definition ids_free :: "host \<Rightarrow> account_store \<Rightarrow> string \<Rightarrow> string \<Rightarrow> bool" where
  "ids_free h st account w \<longleftrightarrow>
     list_all (id_free h st account) [reserve_key w, release_key w, submitted_key w] \<and>
     distinct (map (ledger_entry_id h account) [reserve_key w, release_key w, submitted_key w])"

fun funding_admits :: "account_store \<Rightarrow> funding_call \<Rightarrow> bool" where
  "funding_admits st (Import_deposit h body owner now) = keeps_verified st (snd (fundingImportFromBody h body owner now st))"
| "funding_admits st (Import_credit h body owner now) =
     (keeps_verified st (snd (fundingImportFromBody h body owner now st)) \<and>
      (case fst (fundingImportFromBody h body owner now st) of
         Inl e \<Rightarrow> True
       | Inr m \<Rightarrow> id_free (fh_host h) st (fim_account m) (credit_key (fim_commitment m))))"
| "funding_admits st (Submit_order h owner approval pooled w submitted now) =
     ids_free (fh_host h) st (wo_account w) (wo_commitment w)"
| "funding_admits st c = True"

section \<open>What the handlers leave alone\<close>

definition same_money :: "account_store \<Rightarrow> account_store \<Rightarrow> bool" where
  "same_money st st' \<longleftrightarrow> st_ledger st' = st_ledger st \<and> st_imports st' = st_imports st"

lemma same_money_refl [simp]: "same_money st st"
  by (simp add: same_money_def)

lemma same_money_inv: "same_money st st' \<Longrightarrow> funding_inv st \<Longrightarrow> funding_inv st'"
  using funding_inv_cong [of st st'] by (simp add: same_money_def)

lemma put_money [simp]:
  "same_money st (putPrivateAccountRecord r1 st')= same_money st st'"
  "same_money st (putPrivateVaultState r2 st') = same_money st st'"
  "same_money st (putPrivacyBudget r3 st') = same_money st st'"
  "same_money st (putPrivateFundingInstruction r4 st') = same_money st st'"
  "same_money st (putConnectorWorkOrder r5 st') = same_money st st'"
  "same_money st (putConnectorResult r6 st') = same_money st st'"
  by (simp_all add: same_money_def putPrivateAccountRecord_def putPrivateVaultState_def putPrivacyBudget_def
      putPrivateFundingInstruction_def putConnectorWorkOrder_def putConnectorResult_def)

lemma account_money: "same_money st (snd (createOrGetStoredPrivateAccount h owner now st))"
  by (simp add: createOrGetStoredPrivateAccount_def Let_def split: option.split)

lemma instruction_money: "same_money st (snd (fundingInstructionFromBody h body owner uuid now st))"
  using account_money [of st "fh_host h" owner now]
  by (simp add: fundingInstructionFromBody_def Let_def case_prod_beta)

lemma balance_money: "same_money st (snd (gholaBalanceForOwner h owner now st))"
  using account_money [of st h owner now] by (simp add: gholaBalanceForOwner_def Let_def case_prod_beta)

lemma acquire_money: "acquirePrivateCoordinatorLock i run now ttl st = (a, st') \<Longrightarrow> same_money st st'"
  by (auto simp: acquirePrivateCoordinatorLock_def Let_def same_money_def split: option.splits if_splits)

lemma release_lock_money [simp]: "same_money st (releasePrivateCoordinatorLock i run st') = same_money st st'"
  by (simp add: releasePrivateCoordinatorLock_def same_money_def split: option.split)

section \<open>Imports\<close>

text \<open>An import that succeeds files a verified record with a nullifier no import has; one that fails may
  file a rejected record.\<close>

lemma import_ok:
  assumes "fundingImportFromBody h body owner now st = (Inr m, st')"
  shows "st_ledger st' = st_ledger st" "st_imports st' = js_set (st_imports st) (fim_commitment m) m"
    "fim_verifier_status m = Ver_verified" "getPrivateFundingImportByNullifier st (fim_nullifier m) = None"
  using assms
  by (auto simp: fundingImportFromBody_def Let_def markVaultImported_def putPrivateAccountRecord_def putPrivateVaultState_def
      putPrivateFundingInstruction_def putPrivateFundingImport_def verified_import_def split: if_splits option.splits sum.splits)

lemma rejected_status: "fim_verifier_status (rejected_import h owner i receipt e now) \<noteq> Ver_verified"
  by (simp add: rejected_import_def Let_def)

lemma import_failed:
  assumes "fundingImportFromBody h body owner now st = (Inl e, st')"
  shows "st_ledger st' = st_ledger st"
    "st_imports st' = st_imports st \<or>
      (\<exists>m. st_imports st' = js_set (st_imports st) (fim_commitment m) m \<and> fim_verifier_status m \<noteq> Ver_verified)"
  using assms rejected_status
  by (auto simp: fundingImportFromBody_def Let_def recordRejectedFundingImport_def
      putPrivateFundingInstruction_def putPrivateFundingImport_def split: if_splits option.splits sum.splits)

lemma keeps_verifiedD:
  assumes "keeps_verified st st'" "js_get (st_imports st) c = Some m" "fim_verifier_status m = Ver_verified"
  shows "js_get (st_imports st') c = Some m"
proof -
  have "(c, m) \<in> set (st_imports st)" using assms(2) by (auto simp: js_get_def dest: map_of_SomeD)
  then show ?thesis using assms(1,3) by (auto simp: keeps_verified_def list_all_iff)
qed

text \<open>Setting an import keeps the nullifiers apart when verified ones stay and a verified new one has a
  nullifier of its own; then it keeps the invariant.\<close>

lemma distinct_nullifiers_import:
  assumes "distinct_nullifiers st" and stored: "st_imports st' = js_set (st_imports st) (fim_commitment m) m"
    and fresh: "fim_verifier_status m = Ver_verified \<Longrightarrow> getPrivateFundingImportByNullifier st (fim_nullifier m) = None"
  shows "distinct_nullifiers st'"
proof -
  have wf: "js_wf (st_imports st)" using assms(1) by (simp add: distinct_nullifiers_def)
  have old: "c = c'" if "js_get (st_imports st) c = Some m1" "js_get (st_imports st) c' = Some m2"
    "fim_verifier_status m1 = Ver_verified" "fim_verifier_status m2 = Ver_verified" "fim_nullifier m1 = fim_nullifier m2" for c c' m1 m2
    using assms(1) that unfolding distinct_nullifiers_def by blast
  have apart: "fim_nullifier m1 \<noteq> fim_nullifier m"
    if "js_get (st_imports st) c = Some m1" "fim_verifier_status m = Ver_verified" for c m1
  proof -
    have "m1 \<in> set (js_values (st_imports st))" using that(1) wf by (auto simp: js_values_get)
    then show ?thesis using fresh [OF that(2)] by (auto simp: getPrivateFundingImportByNullifier_def find_None_iff)
  qed
  show ?thesis unfolding distinct_nullifiers_def stored js_get_set
    using wf old apart by (auto split: if_splits) (metis)+
qed

lemma funding_inv_import:
  assumes inv: "funding_inv st" and ledger: "st_ledger st' = st_ledger st"
    and stored: "st_imports st' = js_set (st_imports st) (fim_commitment m) m"
    and keeps: "keeps_verified st st'"
    and fresh: "fim_verifier_status m = Ver_verified \<Longrightarrow> getPrivateFundingImportByNullifier st (fim_nullifier m) = None"
  shows "funding_inv st'"
proof -
  note same = ledger_of_def ledger_sum_def ledger_wf_def entry_with_def held_def [abs_def] ledger
  have "ledger_wf st'" "reserved_held st'" "never_overdrawn st'"
    using funding_invD [OF inv] by (simp_all add: reserved_held_def never_overdrawn_def same)
  moreover have "entry_ok st' x" if "entry_ok st x" for x
  proof -
    have "credit_backed st x \<Longrightarrow> credit_backed st' x"
      using keeps_verifiedD [OF keeps] by (auto simp: credit_backed_def split: option.splits)
    moreover have "release_matches st' x = release_matches st x" by (simp add: release_matches_def entry_with_def ledger)
    ultimately show ?thesis using that by (simp add: entry_ok_def)
  qed
  then have "entries_ok st'" using funding_invD(2) [OF inv] by (simp add: entries_ok_def ledger)
  moreover have "distinct_nullifiers st'" using funding_invD(3) [OF inv] stored fresh by (rule distinct_nullifiers_import)
  ultimately show ?thesis by (simp add: funding_inv_def)
qed

lemma import_inv:
  assumes "funding_inv st" "keeps_verified st (snd (fundingImportFromBody h body owner now st))"
  shows "funding_inv (snd (fundingImportFromBody h body owner now st))"
proof -
  obtain a st' where step: "fundingImportFromBody h body owner now st = (a, st')" by fastforce
  show ?thesis
  proof (cases a)
    case (Inl e)
    note failed = import_failed [OF step [unfolded Inl]]
    from failed(2) show ?thesis
    proof
      assume "st_imports st' = st_imports st"
      then show ?thesis using same_money_inv [of st st'] failed(1) assms(1) step by (simp add: same_money_def)
    next
      assume "\<exists>m. st_imports st' = js_set (st_imports st) (fim_commitment m) m \<and> fim_verifier_status m \<noteq> Ver_verified"
      then show ?thesis using funding_inv_import [OF assms(1) failed(1)] assms(2) step by auto
    qed
  next
    case (Inr m)
    note ok = import_ok [OF step [unfolded Inr]]
    show ?thesis using funding_inv_import [OF assms(1) ok(1,2)] ok(4) assms(2) step by auto
  qed
qed

section \<open>Credits\<close>

lemma legal_credit:
  assumes "funding_inv st" "id_free h st (fim_account m) (credit_key (fim_commitment m))"
    "entry_with st (fim_account m) (credit_key (fim_commitment m)) = None"
    "js_get (st_imports st) (fim_commitment m) = Some m" "fim_verifier_status m = Ver_verified"
    "fim_asset m = ''stablecoin''" "0 < amountBucketMicroUsdc (fim_amount m)" "li_kind inp = Gl_deposit_credit"
    "li_available inp = amountBucketMicroUsdc (fim_amount m)" "li_reserved inp = 0" "li_open_notional inp = 0" "li_reference inp = Some (fim_commitment m)"
  shows "legal_entry st (entry_of h owner (fim_account m) (credit_key (fim_commitment m)) inp)"
proof -
  have "length (ledger_of st (fim_account m)) < 1000 \<Longrightarrow> 0 \<le> ledger_sum gle_available st (fim_account m)"
    using funding_invD(5) [OF assms(1)] by (simp add: never_overdrawn_def)
  then show ?thesis
    using assms fresh_id [OF funding_invD(1) [OF assms(1)] assms(2,3)]
    by (auto simp: legal_entry_def entry_ok_def entry_shape_def credit_backed_def)
qed

lemma append_inv:
  assumes "funding_inv st" "id_free h st account key"
    "entry_with st account key = None \<Longrightarrow> legal_entry st (entry_of h owner account key inp)"
  shows "funding_inv (snd (appendGholaBalanceLedgerEntry h owner account key inp st))"
  using assms funding_inv_add by (simp add: append_cases [OF funding_invD(1)] split: option.split)

lemma id_free_ledger: "st_ledger st' = st_ledger st \<Longrightarrow> id_free h st' account key = id_free h st account key"
  by (simp add: id_free_def)

lemma credit_inv:
  assumes inv: "funding_inv st" and admits: "funding_admits st (Import_credit h body owner now)"
  shows "funding_inv (snd (gholaBalanceImportCreditFromBody h body owner now st))"
proof -
  obtain a st' where step: "fundingImportFromBody h body owner now st = (a, st')" by fastforce
  have inv': "funding_inv st'" using import_inv [OF inv, of h body owner now] admits step by simp
  show ?thesis
  proof (cases a)
    case (Inl e)
    then show ?thesis using inv' step by (simp add: gholaBalanceImportCreditFromBody_def)
  next
    case (Inr m)
    note ok = import_ok [OF step [unfolded Inr]]
    have stored: "js_get (st_imports st') (fim_commitment m) = Some m" by (simp add: ok(2))
    have free: "id_free (fh_host h) st' (fim_account m) (credit_key (fim_commitment m))"
      using admits step Inr ok(1) by (simp add: id_free_ledger [of st' st])
    show ?thesis
      using inv' append_inv [OF inv' free] legal_credit [OF inv' free _ stored ok(3)] step Inr
      by (simp add: gholaBalanceImportCreditFromBody_def Let_def case_prod_beta)
  qed
qed

section \<open>Submissions\<close>

definition balance_reserve_input :: "string \<Rightarrow> int \<Rightarrow> time \<Rightarrow> ledger_input" where
  "balance_reserve_input w requested now = \<lparr>li_kind = Gl_margin_reserved, li_venue = At_hyperliquid, li_available = - requested,
     li_reserved = requested, li_open_notional = 0, li_reference = Some w,
     li_reason = Some ''pooled_hyperliquid_submit_reserved'', li_created_at = now\<rparr>"

lemma entry_with_unique:
  assumes "ledger_wf st" "e \<in> set (js_values (st_ledger st))" "gle_account e = account" "gle_key e = key"
  shows "entry_with st account key = Some e"
proof (cases "entry_with st account key")
  case None
  then show ?thesis using assms by (auto simp: entry_with_None)
next
  case (Some x)
  then show ?thesis using entry_with_Some [OF Some] ledger_wfD(3) [OF assms(1), of x e] assms by auto
qed

definition requested_micro :: "string \<Rightarrow> int" where
  "requested_micro amount = amountBucketMicroUsdc (or_text amount ''25'')"

lemma same_listed: "st_ledger st' = st_ledger st \<Longrightarrow>
    listGholaBalanceLedgerEntries st' account n = listGholaBalanceLedgerEntries st account n"
  by (simp add: listGholaBalanceLedgerEntries_def)

lemma same_snapshot: "st_ledger st' = st_ledger st \<Longrightarrow>
    getGholaBalanceSnapshot st' owner account = getGholaBalanceSnapshot st owner account"
  unfolding getGholaBalanceSnapshot_def by (subst same_listed, assumption) (rule refl)

lemma same_entry_with: "st_ledger st' = st_ledger st \<Longrightarrow> entry_with st' account key = entry_with st account key"
  by (simp add: entry_with_def)

lemma same_ledger_wf: "st_ledger st' = st_ledger st \<Longrightarrow> ledger_wf st' = ledger_wf st"
  by (simp add: ledger_wf_def)

lemma reserve_cases:
  assumes inv: "funding_inv st" and free: "id_free (fh_host h) st account (reserve_key w)"
    and run: "reserveGholaBalanceForPooledHyperliquidSubmit h owner account w amount policy now st = (a, st')"
  obtains (refused) e where "a = Inl e" "same_money st st'"
  | (found) r where "a = Inr r" "entry_with st account (reserve_key w) = Some r" "same_money st st'"
  | (new) r where "a = Inr r" "r = entry_of (fh_host h) owner account (reserve_key w) (balance_reserve_input w (requested_micro amount) now)"
      "entry_with st account (reserve_key w) = None" "same_money (add_entry r st) st'"
      "0 < requested_micro amount" "requested_micro amount \<le> gbs_available (getGholaBalanceSnapshot st owner account)"
proof (cases "find (\<lambda>e. gle_key e = reserve_key w) (listGholaBalanceLedgerEntries st account 250)")
  case (Some r)
  then have "r \<in> set (ledger_of st account)" "gle_key r = reserve_key w"
    using find_Some_in [OF Some] listed_within by blast+
  then have "entry_with st account (reserve_key w) = Some r"
    by (intro entry_with_unique [OF funding_invD(1) [OF inv]]) (auto simp: in_ledger_of)
  moreover have "a = Inl ''connector_submit_blocked'' \<and> st' = st \<or> a = Inr r \<and> st' = st"
    using run unfolding reserveGholaBalanceForPooledHyperliquidSubmit_def Let_def Some option.case
    by (simp split: if_splits)
  ultimately show ?thesis using refused found by auto
next
  case None
  note none = None
  let ?run = "gholaCommitment (fh_host h) ''ghola_balance_reserve_lock_run''
    (JObj [(''account_commitment'', JStr account), (''work_order_commitment'', JStr w)])"
  obtain b lock s1 where lock: "acquirePrivateCoordinatorLock (balance_lock account) ?run now
      (positiveIntegerEnv h ''GHOLA_PRIVATE_ACCOUNT_BALANCE_LOCK_TTL_MS'' 30000) st = ((b, lock), s1)" by (metis surj_pair)
  have money: "same_money st s1" using acquire_money [OF lock] .
  have same: "st_ledger s1 = st_ledger st" using money by (simp add: same_money_def)
  note snap = same_snapshot [OF same] and with1 = same_entry_with [OF same]
  have wf1: "ledger_wf s1" using same_ledger_wf [OF same] funding_invD(1) [OF inv] by simp
  have free1: "id_free (fh_host h) s1 account (reserve_key w)" using id_free_ledger [OF same] free by simp
  let ?e = "entry_of (fh_host h) owner account (reserve_key w) (balance_reserve_input w (requested_micro amount) now)"
  have add: "same_money (add_entry ?e st) (add_entry ?e s1)"
    using money by (simp add: same_money_def add_entry_def)
  have append: "appendGholaBalanceLedgerEntry (fh_host h) owner account (reserve_key w) (balance_reserve_input w (requested_micro amount) now) s1 =
      (case entry_with st account (reserve_key w) of Some r \<Rightarrow> (r, s1) | None \<Rightarrow> (?e, add_entry ?e s1))"
    using append_cases [OF wf1 free1] by (simp add: with1)
  note run' = run [unfolded reserveGholaBalanceForPooledHyperliquidSubmit_def requested_micro_def [symmetric]
    balance_reserve_input_def [symmetric] Let_def none lock option.case prod.case snap append]
  let ?bad = "requested_micro amount \<le> 0 \<or> requested_micro policy \<le> 0 \<or>
    requested_micro policy < requested_micro amount"
  consider "?bad" | "\<not> ?bad" "\<not> b" | "\<not> ?bad" b "gbs_available (getGholaBalanceSnapshot st owner account) < requested_micro amount"
    | "\<not> ?bad" b "requested_micro amount \<le> gbs_available (getGholaBalanceSnapshot st owner account)" by linarith
  then show ?thesis
  proof cases
    case 1
    then show ?thesis using run' by (intro refused) auto
  next
    case 2
    then show ?thesis using run' money by (intro refused) auto
  next
    case 3
    then show ?thesis using run' money by (intro refused) auto
  next
    case 4
    then show ?thesis
    proof (cases "entry_with st account (reserve_key w)")
      case None
      then show ?thesis using 4 run' add by (intro new [OF _ refl]) auto
    next
      case (Some r)
      then show ?thesis using 4 run' money by (intro found [of r]) auto
    qed
  qed
qed

lemma legal_reserve:
  assumes "funding_inv st" "id_free h st account (reserve_key w)" "entry_with st account (reserve_key w) = None"
    "0 < n" "n \<le> gbs_available (getGholaBalanceSnapshot st owner account)"
  shows "legal_entry st (entry_of h owner account (reserve_key w) (balance_reserve_input w n now))"
proof -
  have "length (ledger_of st account) < 1000 \<Longrightarrow> n \<le> ledger_sum gle_available st account"
    using assms(4,5) by (simp add: snapshot_sums max_def split: if_splits)
  then show ?thesis
    using assms fresh_id [OF funding_invD(1) [OF assms(1)] assms(2,3)]
    by (simp add: legal_entry_def entry_ok_def entry_shape_def balance_reserve_input_def)
qed

lemma id_free_add:
  assumes "id_free h st account key" "gle_id e \<noteq> ledger_entry_id h account key"
  shows "id_free h (add_entry e st) account key"
  using assms by (simp add: id_free_def add_entry_def)

lemma reservation_positive:
  assumes "funding_inv st" "entry_with st account (reserve_key w) = Some r"
  shows "0 < gle_reserved r" "gle_account r = account"
proof -
  have r: "entry_shape r" "gle_key r = reserve_key w" "gle_account r = account"
    using entry_with_Some [OF assms(2)] funding_invD(2) [OF assms(1)] by (auto simp: entries_ok_def entry_ok_def)
  then show "0 < gle_reserved r" "gle_account r = account" using shape_kind(2) [OF r(1,2)] by (auto simp: entry_shape_def)
qed

text \<open>The reservation that a submission rests on is the entry under the key of its work order.\<close>

lemma reserve_kept_inv:
  assumes inv: "funding_inv st" and free: "ids_free (fh_host h) st account w"
    and run: "reserveGholaBalanceForPooledHyperliquidSubmit h owner account w amount policy now st = (a, st')"
  shows "funding_inv st'" "a = Inr r \<Longrightarrow> entry_with st' account (reserve_key w) = Some r \<and>
    id_free (fh_host h) st' account (release_key w) \<and> id_free (fh_host h) st' account (submitted_key w)"
proof -
  have ids: "id_free (fh_host h) st account (reserve_key w)" "id_free (fh_host h) st account (release_key w)"
    "id_free (fh_host h) st account (submitted_key w)" using free by (simp_all add: ids_free_def)
  have "funding_inv st' \<and> (a = Inr r \<longrightarrow> entry_with st' account (reserve_key w) = Some r \<and>
    id_free (fh_host h) st' account (release_key w) \<and> id_free (fh_host h) st' account (submitted_key w))"
    using inv ids(1) run
  proof (cases rule: reserve_cases)
    case (refused e)
    then show ?thesis using same_money_inv inv by auto
  next
    case (found x)
    then have same: "st_ledger st' = st_ledger st" by (simp add: same_money_def)
    show ?thesis using found ids same_money_inv [OF found(3) inv] same_entry_with [OF same] id_free_ledger [OF same] by simp
  next
    case (new x)
    then have same: "st_ledger st' = st_ledger (add_entry x st)" by (simp add: same_money_def)
    have legal: "legal_entry st x" unfolding new(2) by (rule legal_reserve [OF inv ids(1) new(3,5,6)])
    have "entry_with (add_entry x st) account (reserve_key w) = Some x"
      using legal_entryD(1) [OF legal] new(2,3) by (simp add: entry_with_add)
    moreover have "id_free (fh_host h) (add_entry x st) account (release_key w)"
      "id_free (fh_host h) (add_entry x st) account (submitted_key w)"
      using ids free new(2) by (auto intro!: id_free_add simp: ids_free_def)
    ultimately show ?thesis
      using new(1) same_money_inv [OF new(4) funding_inv_add [OF inv legal]]
      by (auto simp: same_entry_with [OF same] id_free_ledger [OF same])
  qed
  then show "funding_inv st'" "a = Inr r \<Longrightarrow> entry_with st' account (reserve_key w) = Some r \<and>
    id_free (fh_host h) st' account (release_key w) \<and> id_free (fh_host h) st' account (submitted_key w)" by simp_all
qed

lemma release_kept_inv:
  assumes inv: "funding_inv st" and r: "entry_with st account (reserve_key w) = Some r"
    and free: "id_free (fh_host h) st account (release_key w)"
  shows "funding_inv (releaseGholaBalanceReservationAfterFailedSubmit h owner account w r reason now st)"
proof -
  note pos = reservation_positive [OF inv r]
  have "0 \<le> gle_reserved r + ledger_sum gle_available st account" if "length (ledger_of st account) < 1000"
    using that funding_invD(5) [OF inv] pos(1) by (fastforce simp: never_overdrawn_def)
  then show ?thesis
    using pos r fresh_id [OF funding_invD(1) [OF inv] free]
    unfolding releaseGholaBalanceReservationAfterFailedSubmit_def Let_def pos(2) [symmetric]
    by (auto intro!: append_inv [OF inv] simp: free [folded pos(2)] legal_entry_def entry_ok_def entry_shape_def release_matches_def)
qed

lemma mark_inv:
  assumes inv: "funding_inv st" and free: "id_free (fh_host h) st account (submitted_key w)"
  shows "funding_inv (markGholaBalanceOrderSubmitted h owner account w r now st)"
proof -
  have "length (ledger_of st account) < 1000 \<Longrightarrow> 0 \<le> ledger_sum gle_available st account"
    using funding_invD(5) [OF inv] by (simp add: never_overdrawn_def)
  then show ?thesis
    using fresh_id [OF funding_invD(1) [OF inv] free] unfolding markGholaBalanceOrderSubmitted_def
    by (auto intro!: append_inv [OF inv free] simp: legal_entry_def entry_ok_def entry_shape_def)
qed

lemma store_submission_money: "same_money st (snd (store_submission owner w res now st))"
  by (simp add: store_submission_def Let_def)

lemma submit_locked_inv:
  assumes inv: "funding_inv st" and free: "ids_free (fh_host h) st (wo_account w) (wo_commitment w)"
  shows "funding_inv (snd (submit_locked h owner pooled w submitted now st))"
proof (cases "own_result st owner w")
  case (Some r)
  then show ?thesis using inv by (simp add: submit_locked_def)
next
  case None
  note stored = same_money_inv [OF store_submission_money]
  show ?thesis
  proof (cases pooled)
    case None': None
    show ?thesis using inv stored [OF inv]
      by (cases submitted) (simp_all add: submit_locked_def None None')
  next
    case (Some p)
    obtain amount policy where p: "p = (amount, policy)" by fastforce
    obtain a st1 where run: "reserveGholaBalanceForPooledHyperliquidSubmit h owner (wo_account w) (wo_commitment w)
        amount policy now st = (a, st1)" by fastforce
    note reserved = reserve_kept_inv [OF inv free run]
    show ?thesis
    proof (cases a)
      case (Inl e)
      then show ?thesis using reserved(1) run None Some p by (simp add: submit_locked_def)
    next
      case (Inr r)
      note r = reserved(2) [OF Inr]
      show ?thesis
        using Inr run None Some p stored [OF mark_inv [OF reserved(1)]] release_kept_inv [OF reserved(1)] r
        by (cases submitted) (simp_all add: submit_locked_def)
    qed
  qed
qed

lemma submit_inv:
  assumes inv: "funding_inv st" and free: "ids_free (fh_host h) st (wo_account w) (wo_commitment w)"
  shows "funding_inv (snd (submit_work_order h owner approval pooled w submitted now st))"
proof -
  obtain x st1 where lock: "acquirePrivateCoordinatorLock (submit_lock w) (submit_run (fh_host h) owner approval w)
      now (positiveIntegerEnv h ''GHOLA_PRIVATE_ACCOUNT_CONNECTOR_SUBMIT_LOCK_TTL_MS'' 30000) st = (x, st1)" by fastforce
  have money: "same_money st st1" using acquire_money [OF lock] .
  then have inv1: "funding_inv st1" using same_money_inv inv by blast
  have "ids_free (fh_host h) st1 (wo_account w) (wo_commitment w)"
    using free money by (simp add: ids_free_def id_free_def same_money_def)
  then have "funding_inv (snd (submit_locked h owner pooled w submitted now st1))" by (rule submit_locked_inv [OF inv1])
  then have "funding_inv (releasePrivateCoordinatorLock i run (snd (submit_locked h owner pooled w submitted now st1)))" for i run
    using same_money_inv by (metis release_lock_money same_money_refl)
  then show ?thesis using inv inv1 lock
    by (simp add: submit_work_order_def Let_def case_prod_beta split: option.split)
qed

section \<open>The machine\<close>

lemma funding_step_inv:
  assumes "funding_inv st" "funding_admits st c"
  shows "funding_inv (funding_step st c)"
  using assms same_money_inv [OF instruction_money] same_money_inv [OF balance_money] import_inv credit_inv submit_inv
  by (cases c) simp_all

interpretation funding: call_machine "\<lambda>st c. if funding_admits st c then funding_step st c else st" funding_inv
  by unfold_locales (simp add: funding_step_inv)

lemma run_admitted:
  "run_admits step admits s es \<Longrightarrow> run_calls (\<lambda>s e. if admits s e then step s e else s) s es = run_calls step s es"
  by (induction es arbitrary: s) auto

lemma funding_inv_empty: "funding_inv empty_account_store"
  by (simp add: empty_account_store_def ledger_defs jm.all_entries_def)

lemma funding_run_inv:
  "run_admits funding_step funding_admits empty_account_store calls \<Longrightarrow>
     funding_inv (run_calls funding_step empty_account_store calls)"
  using funding.run_inv [OF funding_inv_empty, of calls] by (simp add: run_admitted)

end
