(* ===== verification/AccountExecutionMachine.thy ===== *)
theory AccountExecutionMachine imports AccountExecution AccountFundingMachine
begin

text \<open>
  The handlers of \<open>AccountExecution\<close> as a machine over calls. The invariant: tables are filed under their keys, and
  every execution has its receipt and an intent of its owner. As long as no commitments collide, the execution that is
  found for an approval and its receipt stay what they are.
\<close>

section \<open>Finding the first record\<close>

lemma find_set_fresh:
  "find P (js_values m) = None \<Longrightarrow> P v \<Longrightarrow> find P (js_values (js_set m k v)) = Some v"
  by (induction m) (auto simp: js_set_def js_values_def split: if_splits)

lemma find_set_other:
  assumes "js_wf m" "find P (js_values m) = Some e" "js_get m k = Some e \<Longrightarrow> False"
    "\<And>old. js_get m k = Some old \<Longrightarrow> P old = P v"
  shows "find P (js_values (js_set m k v)) = Some e"
  using assms
proof (induction m)
  case Nil
  then show ?case by simp
next
  case (Cons p m)
  obtain k' w where p: "p = (k', w)" by fastforce
  show ?case
  proof (cases "k' = k")
    case True
    have "P w = P v" "w \<noteq> e" using Cons.prems(3,4) True by (auto simp: p js_get_def)
    then have "\<not> P v" using Cons.prems(2) by (auto simp: p js_values_def split: if_splits)
    then show ?thesis using Cons.prems(2) True \<open>P w = P v\<close> by (simp add: p js_set_def js_values_def)
  next
    case False
    have wf: "js_wf m" using Cons.prems(1) by (simp add: p js_wf_def)
    show ?thesis
    proof (cases "P w")
      case True
      then show ?thesis using Cons.prems(2) False by (simp add: p js_set_def js_values_def)
    next
      case False2: False
      have "find P (js_values (js_set m k v)) = Some e"
        using Cons.prems False False2 by (intro Cons.IH wf) (auto simp: p js_values_def js_get_def)
      then show ?thesis using False False2 by (simp add: p js_set_def js_values_def)
    qed
  qed
qed

section \<open>Calls\<close>

datatype execution_call =
    New_intent execution_host json string string time
  | New_preview PrivateAccountPreviewRecordV1
  | New_batch PrivateFundingBatchRecordV1
  | Make_plan execution_host json string time
  | Approve_preview execution_host json string time
  | Execute_action execution_host json string time
  | Settle_action execution_host json string time
  | Refresh_settlement execution_host json string time

text \<open>\<open>New_preview\<close> and \<open>New_batch\<close> stand for the handlers that preview an intent and form funding batches, of which the
  handlers here read the records.\<close>

fun execution_step :: "execution_store \<Rightarrow> execution_call \<Rightarrow> execution_store" where
  "execution_step st (New_intent h body owner uuid now) =
     st\<lparr>ex_account := snd (createIntentFromBody (exec_host h) body owner uuid now (ex_account st))\<rparr>"
| "execution_step st (New_preview p) = st\<lparr>ex_account := putPrivateAccountPreview p (ex_account st)\<rparr>"
| "execution_step st (New_batch b) = st\<lparr>ex_batches := js_set (ex_batches st) (fb_id b) b\<rparr>"
| "execution_step st (Make_plan h body owner now) = snd (createStoredExecutionPlanFromBody h body owner now st)"
| "execution_step st (Approve_preview h body owner now) = snd (approveStoredPreviewFromBody h body owner now st)"
| "execution_step st (Execute_action h body owner now) = snd (executeStoredActionFromBody h body owner now st)"
| "execution_step st (Settle_action h body owner now) = snd (settleStoredActionFromBody h body owner now st)"
| "execution_step st (Refresh_settlement h body owner now) = snd (refreshSettlementStatusFromBody h body owner now st)"

section \<open>What is admitted\<close>

text \<open>An intent has a new id; connectors leave the intents alone; an execution and its receipt are stored under commitments
  that hash the intent, the preview and the approval, so what is stored under one of them agrees on those.\<close>

definition same_execution :: "PrivateAccountExecutionRecordV1 \<Rightarrow> PrivateAccountExecutionRecordV1 \<Rightarrow> bool" where
  "same_execution e e' \<longleftrightarrow> exe_intent_id e' = exe_intent_id e \<and> exe_preview e' = exe_preview e \<and> exe_approval e' = exe_approval e"

definition no_execution_collision :: "execution_store \<Rightarrow> execution_store \<Rightarrow> bool" where
  "no_execution_collision st st' \<longleftrightarrow>
     list_all (\<lambda>(k, e). case js_get (ex_executions st') k of None \<Rightarrow> True | Some e' \<Rightarrow> same_execution e e') (ex_executions st)"

definition same_receipt :: "PrivateAccountReceiptRecordV1 \<Rightarrow> PrivateAccountReceiptRecordV1 \<Rightarrow> bool" where
  "same_receipt r r' \<longleftrightarrow> rcr_intent_id r' = rcr_intent_id r \<and> rcr_preview r' = rcr_preview r \<and> rcr_approval r' = rcr_approval r"

definition no_receipt_collision :: "execution_store \<Rightarrow> execution_store \<Rightarrow> bool" where
  "no_receipt_collision st st' \<longleftrightarrow>
     list_all (\<lambda>(k, r). case js_get (ex_receipts st') k of None \<Rightarrow> True | Some r' \<Rightarrow> same_receipt r r') (ex_receipts st)"

definition connector_keeps_intents :: "execution_host \<Rightarrow> bool" where
  "connector_keeps_intents h \<longleftrightarrow> (\<forall>q st. st_intents (snd (eh_connector h q st)) = st_intents st)"

fun execution_admits :: "execution_store \<Rightarrow> execution_call \<Rightarrow> bool" where
  "execution_admits st (New_intent h body owner uuid now) \<longleftrightarrow>
     js_get (st_intents (ex_account st)) (''pact_intent_'' @ uuid) = None"
| "execution_admits st (Execute_action h body owner now) \<longleftrightarrow> connector_keeps_intents h \<and>
     no_execution_collision st (snd (executeStoredActionFromBody h body owner now st)) \<and>
     no_receipt_collision st (snd (executeStoredActionFromBody h body owner now st))"
| "execution_admits st c = True"

lemma no_execution_collisionD:
  assumes "no_execution_collision st st'" "js_get (ex_executions st) k = Some e" "js_get (ex_executions st') k = Some e'"
  shows "same_execution e e'"
proof -
  have "(k, e) \<in> set (ex_executions st)" using assms(2) by (auto simp: js_get_def dest: map_of_SomeD)
  then show ?thesis using assms(1,3) by (fastforce simp: no_execution_collision_def list_all_iff)
qed

lemma no_receipt_collisionD:
  assumes "no_receipt_collision st st'" "js_get (ex_receipts st) k = Some r" "js_get (ex_receipts st') k = Some r'"
  shows "same_receipt r r'"
proof -
  have "(k, r) \<in> set (ex_receipts st)" using assms(2) by (auto simp: js_get_def dest: map_of_SomeD)
  then show ?thesis using assms(1,3) by (fastforce simp: no_receipt_collision_def list_all_iff)
qed

section \<open>What the handlers change\<close>

definition intents_of :: "execution_store \<Rightarrow> (string, PrivateAccountIntentRecordV1) jsmap" where
  "intents_of st = st_intents (ex_account st)"

text \<open>Intents stay, up to their status; approvals stay filed under their commitments; executions and receipts do not change.\<close>

definition intents_kept :: "execution_store \<Rightarrow> execution_store \<Rightarrow> bool" where
  "intents_kept st st' \<longleftrightarrow> (\<forall>k. map_option (\<lambda>i. i\<lparr>it_status := It_created\<rparr>) (js_get (intents_of st') k) =
     map_option (\<lambda>i. i\<lparr>it_status := It_created\<rparr>) (js_get (intents_of st) k))"

definition approvals_filed :: "execution_store \<Rightarrow> bool" where
  "approvals_filed st \<longleftrightarrow> jm.all_entries (\<lambda>k a. apr_commitment a = k) (ex_approvals st)"

definition calm :: "execution_store \<Rightarrow> execution_store \<Rightarrow> bool" where
  "calm st st' \<longleftrightarrow> ex_executions st' = ex_executions st \<and> ex_receipts st' = ex_receipts st \<and> intents_kept st st' \<and>
     (approvals_filed st \<longrightarrow> approvals_filed st')"

lemma intents_kept_refl [simp]: "intents_kept st st"
  by (simp add: intents_kept_def)

lemma intents_kept_same: "intents_of st' = intents_of st \<Longrightarrow> intents_kept st st'"
  by (simp add: intents_kept_def)

lemma intents_kept_trans: "intents_kept st st' \<Longrightarrow> intents_kept st' st'' \<Longrightarrow> intents_kept st st''"
  by (simp add: intents_kept_def)

lemma calm_refl [simp]: "calm st st"
  by (simp add: calm_def)

lemma calm_trans: "calm st st' \<Longrightarrow> calm st' st'' \<Longrightarrow> calm st st''"
  by (auto simp: calm_def intro: intents_kept_trans)

lemma set_status_intents:
  "js_get (intents_of (set_intent_status i s st)) k =
     (if k = i then map_option (\<lambda>r. r\<lparr>it_status := s\<rparr>) (js_get (intents_of st) k) else js_get (intents_of st) k)"
  by (auto simp: set_intent_status_def updatePrivateAccountIntentStatus_def intents_of_def getPrivateAccountIntent_def split: option.splits)

lemma set_status_calm [simp]: "calm st (set_intent_status i s st)"
proof -
  have "intents_kept st (set_intent_status i s st)"
    by (auto simp: intents_kept_def set_status_intents option.map_comp intro!: option.map_cong0)
  then show ?thesis by (simp add: calm_def approvals_filed_def set_intent_status_def)
qed

lemma put_plan_calm [simp]: "calm st (putPrivateExecutionPlan r st)"
  by (simp add: calm_def putPrivateExecutionPlan_def approvals_filed_def intents_kept_same intents_of_def)

lemma put_settlement_calm [simp]: "calm st (putPrivateSettlement r st)"
  by (simp add: calm_def putPrivateSettlement_def approvals_filed_def intents_kept_same intents_of_def)

lemma put_approval_calm [simp]: "calm st (putPrivateAccountApproval r st)"
  by (simp add: calm_def putPrivateAccountApproval_def approvals_filed_def intents_kept_same intents_of_def jm.all_entries_def)

lemma plan_for_approval_calm: "planForApproval h owner i p requested now st = (a, st') \<Longrightarrow> calm st st'"
  by (auto simp: planForApproval_def createExecutionPlanRecord_def Let_def split: if_splits option.splits prod.splits)

lemma make_plan_calm: "calm st (snd (createStoredExecutionPlanFromBody h body owner now st))"
  by (auto simp: createStoredExecutionPlanFromBody_def Let_def split: option.splits)

lemma approve_calm: "calm st (snd (approveStoredPreviewFromBody h body owner now st))"
proof (cases "approval_subject body owner now (ex_account st)")
  case (Inr s)
  then show ?thesis
    by (auto simp: approveStoredPreviewFromBody_def Let_def split: prod.splits sum.splits dest: plan_for_approval_calm
      intro: calm_trans [OF _ calm_trans [OF put_approval_calm set_status_calm]])
qed (simp add: approveStoredPreviewFromBody_def Let_def)

lemma settlement_calm: "settlementForExecution h owner plan approval execution fin now st = (a, st') \<Longrightarrow> calm st st'"
  by (auto simp: settlementForExecution_def Let_def split: option.splits sum.splits)

lemma settle_calm: "calm st (snd (settleStoredActionFromBody h body owner now st))"
  by (auto simp: settleStoredActionFromBody_def Let_def split: option.splits prod.splits sum.splits dest: settlement_calm)

lemma refresh_calm: "calm st (snd (refreshSettlementStatusFromBody h body owner now st))"
  by (auto simp: refreshSettlementStatusFromBody_def Let_def split: option.splits)

lemma connector_calm:
  "connector_keeps_intents h \<Longrightarrow> connectorForExecution h q st = (a, st') \<Longrightarrow> calm st st'"
  by (auto simp: connectorForExecution_def connector_keeps_intents_def calm_def approvals_filed_def intents_of_def
    split: if_splits prod.splits intro!: intents_kept_same) (metis snd_conv)

section \<open>A new execution\<close>

definition new_execution :: "string \<Rightarrow> execution_subject \<Rightarrow> string \<Rightarrow> PrivateExecutionPlanRecordV1 option \<Rightarrow>
    PrivateSettlementRecordV1 option \<Rightarrow> GholaPrivateModeEvidenceChain option \<Rightarrow> string \<Rightarrow> time \<Rightarrow> PrivateAccountExecutionRecordV1" where
  "new_execution owner s execution plan settled chain receipt now =
     \<lparr>exe_owner = owner, exe_commitment = execution, exe_intent_id = it_id (es_intent s), exe_preview = pr_commitment (es_preview s),
      exe_approval = apr_commitment (es_approval s), exe_plan = map_option epr_commitment plan,
      exe_settlement = map_option str_commitment settled, exe_claim_status = pr_claim_status (es_preview s),
      exe_rail = pr_rail (es_preview s), exe_receipt = receipt, exe_chain = chain, exe_created_at = now\<rparr>"

definition new_receipt :: "string \<Rightarrow> execution_subject \<Rightarrow> string \<Rightarrow> GholaPrivateAccountReceipt \<Rightarrow> time \<Rightarrow> PrivateAccountReceiptRecordV1" where
  "new_receipt owner s k receipt now =
     \<lparr>rcr_owner = owner, rcr_commitment = k, rcr_intent_id = it_id (es_intent s), rcr_preview = pr_commitment (es_preview s),
      rcr_approval = apr_commitment (es_approval s), rcr_receipt = receipt, rcr_created_at = now\<rparr>"

lemma consume_approval_frame [simp]:
  "ex_account (consumePrivateAccountApproval a now st) = ex_account st"
  "ex_executions (consumePrivateAccountApproval a now st) = ex_executions st"
  "ex_receipts (consumePrivateAccountApproval a now st) = ex_receipts st"
  "ex_settlements (consumePrivateAccountApproval a now st) = ex_settlements st"
  "ex_plans (consumePrivateAccountApproval a now st) = ex_plans st"
  by (simp_all add: consumePrivateAccountApproval_def split: option.splits)

lemma consume_plan_frame [simp]:
  "ex_account (consumePrivateExecutionPlan p now st) = ex_account st"
  "ex_executions (consumePrivateExecutionPlan p now st) = ex_executions st"
  "ex_receipts (consumePrivateExecutionPlan p now st) = ex_receipts st"
  "ex_settlements (consumePrivateExecutionPlan p now st) = ex_settlements st"
  "ex_approvals (consumePrivateExecutionPlan p now st) = ex_approvals st"
  by (simp_all add: consumePrivateExecutionPlan_def split: option.splits)

lemma status_frame [simp]:
  "ex_executions (set_intent_status i s st) = ex_executions st"
  "ex_receipts (set_intent_status i s st) = ex_receipts st"
  "ex_settlements (set_intent_status i s st) = ex_settlements st"
  "ex_approvals (set_intent_status i s st) = ex_approvals st"
  by (simp_all add: set_intent_status_def)

lemma account_frame [simp]:
  "st_intents (recordPrivacyBudgetEvent owner account d w c now acc) = st_intents acc"
  "st_intents (consumePrivateAccountPreview p now acc) = st_intents acc"
  by (simp_all add: recordPrivacyBudgetEvent_def putPrivacyBudget_def consumePrivateAccountPreview_def Let_def split: option.splits)

lemma recorded:
  assumes "st' = record_execution owner s execution plan settled chain k receipt now st"
  shows "ex_executions st' = js_set (ex_executions st) execution (new_execution owner s execution plan settled chain k now)"
    "ex_receipts st' = js_set (ex_receipts st) k (new_receipt owner s k receipt now)"
    "ex_settlements st' = ex_settlements st"
    "ex_approvals st' = ex_approvals (consumePrivateAccountApproval (apr_commitment (es_approval s)) now st)"
    "intents_kept st st'"
proof -
  note defs = record_execution_def putPrivateAccountExecution_def putPrivateAccountReceipt_def new_execution_def new_receipt_def Let_def
  show "ex_executions st' = js_set (ex_executions st) execution (new_execution owner s execution plan settled chain k now)"
    "ex_receipts st' = js_set (ex_receipts st) k (new_receipt owner s k receipt now)"
    "ex_settlements st' = ex_settlements st"
    unfolding assms by (cases plan; simp add: defs)+
  show "ex_approvals st' = ex_approvals (consumePrivateAccountApproval (apr_commitment (es_approval s)) now st)"
    unfolding assms by (cases plan; simp add: defs consumePrivateAccountApproval_def getPrivateAccountApproval_def split: option.splits)
  have "\<exists>mid. st' = set_intent_status (it_id (es_intent s)) It_executed mid \<and> intents_of mid = intents_of st"
    unfolding assms record_execution_def Let_def
    by (rule exI, rule conjI, rule refl) (cases plan; simp add: putPrivateAccountExecution_def putPrivateAccountReceipt_def intents_of_def)
  then obtain mid where mid: "st' = set_intent_status (it_id (es_intent s)) It_executed mid" "intents_of mid = intents_of st"
    by blast
  have "intents_kept st mid" by (rule intents_kept_same [OF mid(2)])
  moreover have "intents_kept mid st'" using set_status_calm mid(1) by (simp add: calm_def)
  ultimately show "intents_kept st st'" by (rule intents_kept_trans)
qed

lemma consume_filed: "approvals_filed st \<Longrightarrow> approvals_filed (consumePrivateAccountApproval a now st)"
  by (auto simp: approvals_filed_def consumePrivateAccountApproval_def jm.all_entries_def getPrivateAccountApproval_def split: option.splits)

lemma execute_new_done:
  assumes "execute_new h body owner now st = (Inr ans, st')"
  obtains s chain plan execution settled st0 sub st1 bound receipt where
    "execution_subject_of body owner now st = Inr s"
    "chain = evidenceChainForExecution h (pr_preview (es_preview s)) (apr_commitment (es_approval s)) st"
    "isPrivateModeAvailableStatus (pr_claim_status (es_preview s)) \<Longrightarrow> chain \<noteq> None"
    "planForExecution owner (es_intent s) (pr_preview (es_preview s)) (apr_plan (es_approval s)) st = Inr plan"
    "execution = privateActionExecutionCommitment (exec_host h) (it_id (es_intent s)) (pr_commitment (es_preview s))
       (apr_commitment (es_approval s)) chain (map_option epr_commitment plan)"
    "settlementForExecution h owner plan (apr_commitment (es_approval s)) execution True now st = (Inr settled, st0)"
    "connectorForExecution h \<lparr>cq_owner = owner, cq_intent = es_intent s, cq_preview = pr_preview (es_preview s),
       cq_approval = apr_commitment (es_approval s), cq_plan = map_option epr_commitment plan,
       cq_bundle = obj_field (asRecord body) ''encrypted_execution_instruction_bundle''\<rparr> st0 = (Inr sub, st1)"
    "ans = \<lparr>ea_intent = it_id (es_intent s), ea_execution = execution, ea_receipt = receipt\<rparr>"
    "st' = record_execution owner s execution plan settled bound (receipt_key receipt) receipt now st1"
  using assms
  by (fastforce simp: execute_new_def execute_settled_def Let_def split: sum.splits if_splits prod.splits)

lemma execute_new_failed:
  assumes "execute_new h body owner now st = (Inl e, st')" "connector_keeps_intents h"
  shows "calm st st'"
  using assms
  by (auto simp: execute_new_def execute_settled_def Let_def split: sum.splits if_splits prod.splits
    dest: settlement_calm connector_calm intro: calm_trans)

lemma subject_found:
  assumes "execution_subject_of body owner now st = Inr s"
  shows "js_get (intents_of st) (stringValue (obj_field (asRecord body) ''intent_id'')) = Some (es_intent s)" "it_owner (es_intent s) = owner"
    "js_get (ex_approvals st) (stringValue (obj_field (asRecord body) ''approval_commitment'')) = Some (es_approval s)"
    "apr_owner (es_approval s) = owner" "pr_owner (es_preview s) = owner"
    "js_get (st_previews (ex_account st)) (stringValue (obj_field (asRecord body) ''preview_commitment'')) = Some (es_preview s)"
    "pr_consumed_at (es_preview s) = None" "apr_consumed_at (es_approval s) = None"
    "canExecutePrivateAccountAction (intent_binding (es_intent s)) (pr_preview (es_preview s)) (approval_binding (es_approval s)) now = None"
  using assms
  by (auto simp: execution_subject_of_def intents_of_def getPrivateAccountIntent_def getPrivateAccountApproval_def
    getPrivateAccountPreview_def Let_def split: option.splits if_splits)

section \<open>The invariant\<close>

definition execution_ok :: "execution_store \<Rightarrow> string \<Rightarrow> PrivateAccountExecutionRecordV1 \<Rightarrow> bool" where
  "execution_ok st k e \<longleftrightarrow> exe_commitment e = k \<and>
     (\<exists>i. js_get (intents_of st) (exe_intent_id e) = Some i \<and> it_owner i = exe_owner e) \<and>
     (\<exists>r. js_get (ex_receipts st) (exe_receipt e) = Some r \<and> rcr_intent_id r = exe_intent_id e \<and> rcr_approval r = exe_approval e)"

definition intents_filed :: "execution_store \<Rightarrow> bool" where
  "intents_filed st \<longleftrightarrow> jm.all_entries (\<lambda>k i. it_id i = k) (intents_of st)"

definition execution_inv :: "execution_store \<Rightarrow> bool" where
  "execution_inv st \<longleftrightarrow> js_wf (ex_executions st) \<and> intents_filed st \<and> approvals_filed st \<and>
     jm.all_entries (execution_ok st) (ex_executions st)"

lemma execution_inv_empty: "execution_inv empty_execution_store"
  by (simp add: execution_inv_def empty_execution_store_def empty_account_store_def intents_filed_def approvals_filed_def
    intents_of_def jm.all_entries_def)

lemma intent_kept:
  assumes "intents_kept st st'" "js_get (intents_of st) k = Some i"
  obtains i' where "js_get (intents_of st') k = Some i'" "it_owner i' = it_owner i" "it_id i' = it_id i"
proof -
  from assms obtain i' where i': "js_get (intents_of st') k = Some i'" "i'\<lparr>it_status := It_created\<rparr> = i\<lparr>it_status := It_created\<rparr>"
  proof -
    have "map_option (\<lambda>i. i\<lparr>it_status := It_created\<rparr>) (js_get (intents_of st') k) = Some (i\<lparr>it_status := It_created\<rparr>)"
      using assms by (simp add: intents_kept_def)
    then show thesis using that by auto
  qed
  from arg_cong [OF i'(2), of it_owner] arg_cong [OF i'(2), of it_id] show ?thesis by (intro that [OF i'(1)]) simp_all
qed

lemma intents_kept_sym: "intents_kept st st' \<Longrightarrow> intents_kept st' st"
  by (simp add: intents_kept_def)

lemma kept_filed: "intents_kept st st' \<Longrightarrow> intents_filed st \<Longrightarrow> intents_filed st'"
  unfolding intents_filed_def jm.all_entries_def by (metis intent_kept intents_kept_sym)

lemma kept_ok:
  assumes "intents_kept st st'" "execution_ok st k e"
    "\<And>r. js_get (ex_receipts st) (exe_receipt e) = Some r \<Longrightarrow>
       \<exists>r'. js_get (ex_receipts st') (exe_receipt e) = Some r' \<and> rcr_intent_id r' = rcr_intent_id r \<and> rcr_approval r' = rcr_approval r"
  shows "execution_ok st' k e"
proof -
  obtain i r where ir: "js_get (intents_of st) (exe_intent_id e) = Some i" "it_owner i = exe_owner e"
      "js_get (ex_receipts st) (exe_receipt e) = Some r" "rcr_intent_id r = exe_intent_id e" "rcr_approval r = exe_approval e"
      "exe_commitment e = k"
    using assms(2) by (auto simp: execution_ok_def)
  obtain i' where "js_get (intents_of st') (exe_intent_id e) = Some i'" "it_owner i' = it_owner i"
    by (rule intent_kept [OF assms(1) ir(1)])
  moreover obtain r' where "js_get (ex_receipts st') (exe_receipt e) = Some r'" "rcr_intent_id r' = rcr_intent_id r" "rcr_approval r' = rcr_approval r"
    using assms(3) [OF ir(3)] by blast
  ultimately show ?thesis using ir by (simp add: execution_ok_def)
qed

lemma calm_inv:
  assumes "execution_inv st" "calm st st'"
  shows "execution_inv st'"
proof -
  have kept: "intents_kept st st'" "ex_executions st' = ex_executions st" "ex_receipts st' = ex_receipts st"
    using assms(2) by (simp_all add: calm_def)
  have "execution_ok st' k e" if "execution_ok st k e" for k e using kept_ok [OF kept(1) that] kept(3) by simp
  then show ?thesis
    using assms kept_filed [OF kept(1)] by (simp add: execution_inv_def kept(2) jm.all_entries_def calm_def)
qed

lemma new_intent_inv:
  assumes inv: "execution_inv st" and fresh: "js_get (st_intents (ex_account st)) (''pact_intent_'' @ uuid) = None"
  shows "execution_inv (execution_step st (New_intent h body owner uuid now))"
proof -
  let ?st' = "execution_step st (New_intent h body owner uuid now)"
  have account: "st_intents (snd (createOrGetStoredPrivateAccount g owner now acc)) = st_intents acc" for g acc
    by (simp add: createOrGetStoredPrivateAccount_def putPrivacyBudget_def putPrivateVaultState_def putPrivateAccountRecord_def
      Let_def split: option.splits)
  have new: "intents_of ?st' = intents_of st \<or> (\<exists>r. it_id r = ''pact_intent_'' @ uuid \<and> intents_of ?st' = js_set (intents_of st) (it_id r) r)"
  proof (cases "buildActionFromBody (exec_host h) body now")
    case None
    then show ?thesis by (simp add: intents_of_def createIntentFromBody_def)
  next
    case (Some a)
    obtain x acc where x: "createOrGetStoredPrivateAccount (exec_host h) owner now (ex_account st) = (x, acc)" by fastforce
    have "st_intents acc = st_intents (ex_account st)" using account [of "exec_host h" "ex_account st"] x by simp
    then have "intents_of ?st' = js_set (intents_of st) (it_id r) r" if "r = the (fst (createIntentFromBody (exec_host h) body owner uuid now (ex_account st)))" for r
      using that by (simp add: intents_of_def createIntentFromBody_def Some x putPrivateAccountIntent_def Let_def)
    moreover have "it_id (the (fst (createIntentFromBody (exec_host h) body owner uuid now (ex_account st)))) = ''pact_intent_'' @ uuid"
      by (simp add: createIntentFromBody_def Some x Let_def)
    ultimately show ?thesis by blast
  qed
  have old: "js_get (intents_of ?st') k = Some i" if "js_get (intents_of st) k = Some i" for k i
    using new fresh that by (auto simp: intents_of_def)
  have rest: "ex_executions ?st' = ex_executions st" "ex_receipts ?st' = ex_receipts st" "ex_approvals ?st' = ex_approvals st" by simp_all
  have "intents_filed ?st'"
  proof -
    have filed: "intents_filed st" using inv by (simp add: execution_inv_def)
    from new show ?thesis
    proof (elim disjE exE conjE)
      assume same: "intents_of ?st' = intents_of st"
      show ?thesis unfolding intents_filed_def same by (rule filed [unfolded intents_filed_def])
    next
      fix r assume more: "intents_of ?st' = js_set (intents_of st) (it_id r) r"
      show ?thesis unfolding intents_filed_def more
        by (rule jm.all_entries_insert [OF filed [unfolded intents_filed_def] refl])
    qed
  qed
  moreover have "execution_ok ?st' k e" if "execution_ok st k e" for k e
    using that old unfolding execution_ok_def rest by blast
  moreover have "js_wf (ex_executions ?st')" "approvals_filed ?st'"
    unfolding approvals_filed_def rest using inv by (simp_all add: execution_inv_def approvals_filed_def)
  moreover have "jm.all_entries (execution_ok st) (ex_executions ?st')" unfolding rest using inv by (simp add: execution_inv_def)
  ultimately show ?thesis by (simp only: execution_inv_def jm.all_entries_def) blast
qed

section \<open>Executions stay\<close>

lemma execute_cases:
  assumes "executeStoredActionFromBody h body owner now st = (ans, st')" "connector_keeps_intents h"
  obtains (calm) "calm st st'"
  | (stored) a where "execute_new h body owner now st = (Inr a, st')"
      "\<And>e. getPrivateAccountExecutionByApproval st (stringValue (obj_field (asRecord body) ''approval_commitment'')) = Some e \<Longrightarrow> exe_owner e \<noteq> owner"
proof -
  have "st' = st \<or> execute_new h body owner now st = (ans, st') \<and>
      (\<forall>e. getPrivateAccountExecutionByApproval st (stringValue (obj_field (asRecord body) ''approval_commitment'')) = Some e \<longrightarrow> exe_owner e \<noteq> owner)"
    using assms(1) by (auto simp: executeStoredActionFromBody_def Let_def split: if_splits option.splits)
  then show ?thesis
  proof (elim disjE conjE)
    assume new: "execute_new h body owner now st = (ans, st')"
      and other: "\<forall>e. getPrivateAccountExecutionByApproval st (stringValue (obj_field (asRecord body) ''approval_commitment'')) = Some e \<longrightarrow> exe_owner e \<noteq> owner"
    show ?thesis
    proof (cases ans)
      case (Inl e)
      then show ?thesis using execute_new_failed new assms(2) calm by blast
    next
      case (Inr a)
      then show ?thesis using new other stored by blast
    qed
  qed (simp add: calm)
qed

text \<open>What a stored execution adds, in terms of the tables.\<close>

lemma stored_effect:
  assumes inv: "execution_inv st" and new: "execute_new h body owner now st = (Inr a, st')" and keeps: "connector_keeps_intents h"
  obtains k e rk r where
    "ex_executions st' = js_set (ex_executions st) k e" "ex_receipts st' = js_set (ex_receipts st) rk r"
    "intents_kept st st'" "approvals_filed st'" "exe_commitment e = k" "exe_owner e = owner" "exe_receipt e = rk"
    "exe_approval e = stringValue (obj_field (asRecord body) ''approval_commitment'')"
    "rcr_intent_id r = exe_intent_id e" "rcr_approval r = exe_approval e"
    "\<exists>i. js_get (intents_of st) (exe_intent_id e) = Some i \<and> it_owner i = owner"
    "a = \<lparr>ea_intent = exe_intent_id e, ea_execution = k, ea_receipt = rcr_receipt r\<rparr>"
proof -
  obtain s chain plan execution settled st0 sub st1 bound receipt where
      s: "execution_subject_of body owner now st = Inr s"
      and settled: "settlementForExecution h owner plan (apr_commitment (es_approval s)) execution True now st = (Inr settled, st0)"
      and connector: "connectorForExecution h \<lparr>cq_owner = owner, cq_intent = es_intent s, cq_preview = pr_preview (es_preview s),
       cq_approval = apr_commitment (es_approval s), cq_plan = map_option epr_commitment plan,
       cq_bundle = obj_field (asRecord body) ''encrypted_execution_instruction_bundle''\<rparr> st0 = (Inr sub, st1)"
      and a: "a = \<lparr>ea_intent = it_id (es_intent s), ea_execution = execution, ea_receipt = receipt\<rparr>"
      and st': "st' = record_execution owner s execution plan settled bound (receipt_key receipt) receipt now st1"
    by (rule execute_new_done [OF new], rule that; assumption)
  have calm: "calm st st1" by (rule calm_trans [OF settlement_calm [OF settled] connector_calm [OF keeps connector]])
  note effect = recorded [OF st'] and found = subject_found [OF s]
  have kept: "intents_kept st st'" using calm effect(5) by (auto simp: calm_def intro: intents_kept_trans)
  have "approvals_filed st1" using calm inv by (simp add: calm_def execution_inv_def)
  then have filed: "approvals_filed st'" using consume_filed by (simp add: approvals_filed_def effect(4))
  have keys: "it_id (es_intent s) = stringValue (obj_field (asRecord body) ''intent_id'')"
      "apr_commitment (es_approval s) = stringValue (obj_field (asRecord body) ''approval_commitment'')"
    using inv found(1,3) by (simp_all add: execution_inv_def intents_filed_def approvals_filed_def jm.all_entries_def)
  show ?thesis
  proof (rule that [OF _ _ kept filed])
    show "ex_executions st' = js_set (ex_executions st) execution (new_execution owner s execution plan settled bound (receipt_key receipt) now)"
      using effect(1) calm by (simp add: calm_def)
    show "ex_receipts st' = js_set (ex_receipts st) (receipt_key receipt) (new_receipt owner s (receipt_key receipt) receipt now)"
      using effect(2) calm by (simp add: calm_def)
  qed (use keys found(1,2) a in \<open>simp_all add: new_execution_def new_receipt_def\<close>)
qed

lemma execute_inv:
  assumes inv: "execution_inv st" and admits: "execution_admits st (Execute_action h body owner now)"
  shows "execution_inv (execution_step st (Execute_action h body owner now))"
proof -
  obtain ans st' where run: "executeStoredActionFromBody h body owner now st = (ans, st')" by fastforce
  have "snd (executeStoredActionFromBody h body owner now st) = st'" using run by simp
  note admitted = admits [unfolded execution_admits.simps this]
  note keeps = admitted [THEN conjunct1] and fresh = admitted [THEN conjunct2, THEN conjunct2]
  from run keeps show ?thesis
  proof (cases rule: execute_cases)
    case calm
    then show ?thesis using calm_inv [OF inv] run by simp
  next
    case (stored a)
    obtain k e rk r where eff: "ex_executions st' = js_set (ex_executions st) k e" "ex_receipts st' = js_set (ex_receipts st) rk r"
        "intents_kept st st'" "approvals_filed st'" "exe_commitment e = k" "exe_owner e = owner" "exe_receipt e = rk"
        "rcr_intent_id r = exe_intent_id e" "rcr_approval r = exe_approval e"
        "\<exists>i. js_get (intents_of st) (exe_intent_id e) = Some i \<and> it_owner i = owner"
      by (rule stored_effect [OF inv stored(1) keeps], rule that; assumption)
    have old: "execution_ok st' k' e'" if "execution_ok st k' e'" for k' e'
    proof (rule kept_ok [OF eff(3) that])
      fix r0 assume r0: "js_get (ex_receipts st) (exe_receipt e') = Some r0"
      show "\<exists>r'. js_get (ex_receipts st') (exe_receipt e') = Some r' \<and> rcr_intent_id r' = rcr_intent_id r0 \<and> rcr_approval r' = rcr_approval r0"
      proof (cases "exe_receipt e' = rk")
        case True
        then have "js_get (ex_receipts st') (exe_receipt e') = Some r" using eff(2) by simp
        then show ?thesis using no_receipt_collisionD [OF fresh r0] by (auto simp: same_receipt_def)
      next
        case False
        then have "js_get (ex_receipts st') (exe_receipt e') = Some r0" using r0 eff(2) by simp
        then show ?thesis by blast
      qed
    qed
    obtain i where i: "js_get (intents_of st) (exe_intent_id e) = Some i" "it_owner i = owner" using eff(10) by blast
    obtain i' where i': "js_get (intents_of st') (exe_intent_id e) = Some i'" "it_owner i' = it_owner i"
      by (rule intent_kept [OF eff(3) i(1)])
    have new: "execution_ok st' k e"
      unfolding execution_ok_def
    proof (intro conjI exI)
      show "exe_commitment e = k" by (rule eff(5))
      show "js_get (intents_of st') (exe_intent_id e) = Some i'" by (rule i'(1))
      show "it_owner i' = exe_owner e" using i'(2) i(2) eff(6) by simp
      show "js_get (ex_receipts st') (exe_receipt e) = Some r" using eff(2,7) by simp
    qed (rule eff(8), rule eff(9))
    have "jm.all_entries (execution_ok st') (ex_executions st')"
      unfolding jm.all_entries_def
    proof (intro allI impI)
      fix k0 e0 assume e0: "js_get (ex_executions st') k0 = Some e0"
      show "execution_ok st' k0 e0"
      proof (cases "k0 = k")
        case True
        then show ?thesis using e0 eff(1) new by simp
      next
        case False
        then have "js_get (ex_executions st) k0 = Some e0" using e0 eff(1) by simp
        then have "execution_ok st k0 e0" using inv by (simp add: execution_inv_def jm.all_entries_def)
        then show ?thesis by (rule old)
      qed
    qed
    moreover have "js_wf (ex_executions st')" "intents_filed st'"
      using inv eff(1) kept_filed [OF eff(3)] by (simp_all add: execution_inv_def)
    ultimately have "execution_inv st'" using eff(4) by (simp add: execution_inv_def)
    then show ?thesis using run by simp
  qed
qed

lemma execution_step_inv:
  assumes "execution_inv st" "execution_admits st c"
  shows "execution_inv (execution_step st c)"
proof (cases c)
  case (New_intent h body owner uuid now)
  have "js_get (st_intents (ex_account st)) (''pact_intent_'' @ uuid) = None" using assms(2) unfolding New_intent by simp
  then show ?thesis unfolding New_intent by (rule new_intent_inv [OF assms(1)])
next
  case (New_preview p)
  have "calm st (execution_step st c)"
    by (simp add: New_preview calm_def intents_kept_same intents_of_def putPrivateAccountPreview_def approvals_filed_def)
  then show ?thesis by (rule calm_inv [OF assms(1)])
next
  case (New_batch b)
  have "calm st (execution_step st c)" by (simp add: New_batch calm_def intents_kept_same intents_of_def approvals_filed_def)
  then show ?thesis by (rule calm_inv [OF assms(1)])
next
  case (Execute_action h body owner now)
  show ?thesis unfolding Execute_action by (rule execute_inv [OF assms(1) assms(2) [unfolded Execute_action]])
qed (use calm_inv [OF assms(1)] make_plan_calm approve_calm settle_calm refresh_calm in simp_all)

interpretation execution: call_machine "\<lambda>st c. if execution_admits st c then execution_step st c else st" execution_inv
  by unfold_locales (simp add: execution_step_inv)

lemma execution_run_inv:
  "run_admits execution_step execution_admits empty_execution_store calls \<Longrightarrow>
     execution_inv (run_calls execution_step empty_execution_store calls)"
  using execution.run_inv [OF execution_inv_empty, of calls] by (simp add: run_admitted)

section \<open>The execution of an approval\<close>

text \<open>What a repeated request finds for an approval: the owner and the answer.\<close>

definition found_execution :: "execution_store \<Rightarrow> string \<Rightarrow> (string \<times> execution_answer) option" where
  "found_execution st a = (case getPrivateAccountExecutionByApproval st a of
       None \<Rightarrow> None
     | Some e \<Rightarrow> map_option (\<lambda>r. (exe_owner e, \<lparr>ea_intent = exe_intent_id e, ea_execution = exe_commitment e, ea_receipt = rcr_receipt r\<rparr>))
         (getPrivateAccountReceipt st (exe_receipt e)))"

lemma find_in: "find P xs = Some x \<Longrightarrow> x \<in> set xs \<and> P x"
  by (auto simp: find_Some_iff)

lemma found_cong:
  assumes "ex_executions st' = ex_executions st" "ex_receipts st' = ex_receipts st"
  shows "found_execution st' a = found_execution st a"
  unfolding found_execution_def getPrivateAccountExecutionByApproval_def getPrivateAccountReceipt_def assms by (rule refl)

lemma found_calm: "calm st st' \<Longrightarrow> found_execution st' a = found_execution st a"
  by (rule found_cong) (simp_all add: calm_def)

lemma found_step:
  assumes inv: "execution_inv st" and admits: "execution_admits st c" and v: "found_execution st a = Some v"
  shows "found_execution (execution_step st c) a = Some v"
proof (cases "calm st (execution_step st c)")
  case True
  then show ?thesis using found_calm v by simp
next
  case loud: False
  show ?thesis
  proof (cases c)
    case (New_intent h body owner uuid now)
    then show ?thesis using v found_cong [of "execution_step st c" st a] by simp
  next
    case (New_preview p)
    then show ?thesis using v found_cong [of "execution_step st c" st a] by simp
  next
    case (New_batch b)
    then show ?thesis using v found_cong [of "execution_step st c" st a] by simp
  next
    case (Execute_action h body owner now)
    obtain ans st' where run: "executeStoredActionFromBody h body owner now st = (ans, st')" by fastforce
    have keeps: "connector_keeps_intents h" and fresh: "no_execution_collision st st'" "no_receipt_collision st st'"
      using admits run by (simp_all add: Execute_action)
    from run keeps show ?thesis
    proof (cases rule: execute_cases)
      case calm
      then show ?thesis using found_calm v run by (simp add: Execute_action)
    next
      case (stored ea)
      obtain k n rk r where eff: "ex_executions st' = js_set (ex_executions st) k n" "ex_receipts st' = js_set (ex_receipts st) rk r"
          "exe_owner n = owner" "exe_approval n = stringValue (obj_field (asRecord body) ''approval_commitment'')"
          "rcr_intent_id r = exe_intent_id n" "rcr_approval r = exe_approval n"
          "\<exists>i. js_get (intents_of st) (exe_intent_id n) = Some i \<and> it_owner i = owner"
        by (rule stored_effect [OF inv stored(1) keeps], rule that; assumption)
      obtain e q where e: "getPrivateAccountExecutionByApproval st a = Some e" "getPrivateAccountReceipt st (exe_receipt e) = Some q"
          "v = (exe_owner e, \<lparr>ea_intent = exe_intent_id e, ea_execution = exe_commitment e, ea_receipt = rcr_receipt q\<rparr>)"
        using v by (auto simp: found_execution_def split: option.splits)
      have wf: "js_wf (ex_executions st)" using inv by (simp add: execution_inv_def)
      have fe: "find (\<lambda>x. exe_approval x = a) (js_values (ex_executions st)) = Some e"
        using e(1) by (simp add: getPrivateAccountExecutionByApproval_def)
      have ea: "exe_approval e = a" "\<exists>k'. js_get (ex_executions st) k' = Some e"
        using find_in [OF fe] js_values_get [OF wf] by auto
      then have ok: "execution_ok st (exe_commitment e) e"
        using inv by (auto simp: execution_inv_def jm.all_entries_def execution_ok_def)
      have apart: False if "exe_approval n = a" "exe_intent_id n = exe_intent_id e"
      proof -
        have "exe_owner e = owner" using ok eff(7) that(2) by (auto simp: execution_ok_def)
        then show False using stored(2) e(1) that(1) eff(4) by auto
      qed
      have "getPrivateAccountExecutionByApproval st' a = Some e"
        unfolding getPrivateAccountExecutionByApproval_def eff(1)
      proof (rule find_set_other [OF wf fe])
        show False if "js_get (ex_executions st) k = Some e"
          using no_execution_collisionD [OF fresh(1) that] eff(1) ea(1) apart by (simp add: same_execution_def)
        show "(exe_approval old = a) = (exe_approval n = a)" if "js_get (ex_executions st) k = Some old" for old
          using no_execution_collisionD [OF fresh(1) that] eff(1) by (simp add: same_execution_def)
      qed
      moreover have "getPrivateAccountReceipt st' (exe_receipt e) = Some q"
      proof (cases "rk = exe_receipt e")
        case True
        have "js_get (ex_receipts st) rk = Some q" using e(2) True by (simp add: getPrivateAccountReceipt_def)
        then have "same_receipt q r" using no_receipt_collisionD [OF fresh(2)] eff(2) by simp
        then have "exe_approval n = a" "exe_intent_id n = exe_intent_id e"
          using ok e(2) eff(5,6) ea(1) by (auto simp: same_receipt_def execution_ok_def getPrivateAccountReceipt_def)
        then show ?thesis using apart by blast
      next
        case False
        then show ?thesis using e(2) by (simp add: getPrivateAccountReceipt_def eff(2))
      qed
      ultimately show ?thesis using run e(3) by (simp add: Execute_action found_execution_def)
    qed
  qed (use loud make_plan_calm approve_calm settle_calm refresh_calm in simp_all)
qed

interpretation execution_found: call_machine "\<lambda>st c. if execution_admits st c then execution_step st c else st"
    "\<lambda>st. execution_inv st \<and> found_execution st a = Some v" for a v
  by unfold_locales (simp add: execution_step_inv found_step)

lemma found_run:
  assumes "execution_inv st" "run_admits execution_step execution_admits st calls" "found_execution st a = Some v"
  shows "found_execution (run_calls execution_step st calls) a = Some v"
  using execution_found.run_inv [of st a v calls] assms by (simp add: run_admitted)

text \<open>The answer of the first execution by an approval is what is found afterwards.\<close>

lemma execute_found:
  assumes inv: "execution_inv st" and run: "executeStoredActionFromBody h body owner now st = (Inr ans, st')"
    and keeps: "connector_keeps_intents h"
    and first: "getPrivateAccountExecutionByApproval st (stringValue (obj_field (asRecord body) ''approval_commitment'')) = None"
  shows "found_execution st' (stringValue (obj_field (asRecord body) ''approval_commitment'')) = Some (owner, ans)"
proof -
  let ?a = "stringValue (obj_field (asRecord body) ''approval_commitment'')"
  have new: "execute_new h body owner now st = (Inr ans, st')"
    using run first by (simp add: executeStoredActionFromBody_def Let_def split: if_splits)
  obtain k n rk r where eff: "ex_executions st' = js_set (ex_executions st) k n" "ex_receipts st' = js_set (ex_receipts st) rk r"
      "exe_commitment n = k" "exe_owner n = owner" "exe_receipt n = rk" "exe_approval n = ?a"
      "ans = \<lparr>ea_intent = exe_intent_id n, ea_execution = k, ea_receipt = rcr_receipt r\<rparr>"
    by (rule stored_effect [OF inv new keeps], rule that; assumption)
  have "getPrivateAccountExecutionByApproval st' ?a = Some n"
    using first find_set_fresh [of "\<lambda>x. exe_approval x = ?a"] eff(1,6) by (simp add: getPrivateAccountExecutionByApproval_def)
  then show ?thesis using eff by (simp add: found_execution_def getPrivateAccountReceipt_def)
qed

end
