(* ===== verification/AccountCoordinatorMachine.thy ===== *)
theory AccountCoordinatorMachine imports AccountCoordinator AccountFundingMachine AccountExecutionMachine
begin

text \<open>
  Deposits, batches and executions as one machine, and the invariant that a batch with evidence stands for that many
  distinct deposits: the deposits come from the funding handlers, the batches from the coordinator, and the executions
  read the batches.
\<close>

section \<open>Calls\<close>

datatype coordinator_call =
    Funding funding_call
  | Execution execution_call
  | Coordinate pool_host coordinator_input time time

fun coordinator_step :: "coordinator_store \<Rightarrow> coordinator_call \<Rightarrow> coordinator_store" where
  "coordinator_step st (Funding c) = on_account (\<lambda>a. funding_step a c) st"
| "coordinator_step st (Execution c) = st\<lparr>co_exec := execution_step (co_exec st) c\<rparr>"
| "coordinator_step st (Coordinate h inp now clock) = snd (runPrivateFundingBatchCoordinator h inp now clock st)"

text \<open>Batches come from the coordinator only, connectors leave the deposits alone, and no call overwrites a verified
  deposit (its commitment is a hash of the receipt).\<close>

definition connector_keeps_imports :: "execution_host \<Rightarrow> bool" where
  "connector_keeps_imports h \<longleftrightarrow> (\<forall>q st. st_imports (snd (eh_connector h q st)) = st_imports st)"

fun coordinator_admits :: "coordinator_store \<Rightarrow> coordinator_call \<Rightarrow> bool" where
  "coordinator_admits st (Funding c) = keeps_verified (co_account st) (funding_step (co_account st) c)"
| "coordinator_admits st (Execution (New_batch b)) = False"
| "coordinator_admits st (Execution (Execute_action h body owner now)) = connector_keeps_imports h"
| "coordinator_admits st c = True"

section \<open>What the funding handlers do to the deposits\<close>

lemma same_imports_put [simp]:
  "st_imports (putPrivateAccountRecord r1 st) = st_imports st"
  "st_imports (putPrivateVaultState r2 st) = st_imports st"
  "st_imports (putPrivacyBudget r3 st) = st_imports st"
  "st_imports (putPrivateFundingInstruction r4 st) = st_imports st"
  "st_imports (putConnectorWorkOrder r5 st) = st_imports st"
  "st_imports (putConnectorResult r6 st) = st_imports st"
  "st_imports (putQueuedAction r7 st) = st_imports st"
  "st_imports (putPrivateAccountIntent r8 st) = st_imports st"
  "st_imports (putPrivateAccountPreview r9 st) = st_imports st"
  "st_imports (releasePrivateCoordinatorLock i run st) = st_imports st"
  "st_imports (updateQueuedActionStatus q s now st) = st_imports st"
  "st_imports (updatePrivateAccountIntentStatus k s' st) = st_imports st"
  "st_imports (consumePrivateAccountPreview p now st) = st_imports st"
  "st_imports (recordPrivacyBudgetEvent owner account b1 b2 b3 now st) = st_imports st"
  by (simp_all add: putPrivateAccountRecord_def putPrivateVaultState_def putPrivacyBudget_def putPrivateFundingInstruction_def
      putConnectorWorkOrder_def putConnectorResult_def putQueuedAction_def putPrivateAccountIntent_def putPrivateAccountPreview_def
      releasePrivateCoordinatorLock_def updateQueuedActionStatus_def updatePrivateAccountIntentStatus_def
      consumePrivateAccountPreview_def recordPrivacyBudgetEvent_def Let_def split: option.split)

lemma acquire_imports [simp]: "st_imports (snd (acquirePrivateCoordinatorLock i run now ttl st)) = st_imports st"
  using acquire_money [of i run now ttl st "fst (acquirePrivateCoordinatorLock i run now ttl st)"] by (simp add: same_money_def)

lemma append_imports [simp]: "st_imports (snd (appendGholaBalanceLedgerEntry h owner account key inp st)) = st_imports st"
  by (simp add: appendGholaBalanceLedgerEntry_def putGholaBalanceLedgerEntry_def Let_def split: option.split)

lemma reserve_imports:
  "st_imports (snd (reserveGholaBalanceForPooledHyperliquidSubmit h owner account w amount policy now st)) = st_imports st"
  by (auto simp: reserveGholaBalanceForPooledHyperliquidSubmit_def Let_def case_prod_beta
    split: option.split)

lemma submit_locked_imports: "st_imports (snd (submit_locked h owner pooled w submitted now st)) = st_imports st"
  using reserve_imports [of h owner "wo_account w" "wo_commitment w" _ _ now st]
  by (auto simp: submit_locked_def store_submission_def releaseGholaBalanceReservationAfterFailedSubmit_def
    markGholaBalanceOrderSubmitted_def Let_def case_prod_beta split: option.splits sum.splits)

lemma submit_imports: "st_imports (snd (submit_work_order h owner approval pooled w submitted now st)) = st_imports st"
  by (auto simp: submit_work_order_def Let_def case_prod_beta submit_locked_imports
    split: option.split)

text \<open>A funding call leaves the deposits alone, or files one under its commitment; a verified one has a new nullifier.\<close>

lemma import_effect:
  "st_imports (snd (fundingImportFromBody h body owner now st)) = st_imports st \<or>
     (\<exists>m. st_imports (snd (fundingImportFromBody h body owner now st)) = js_set (st_imports st) (fim_commitment m) m \<and>
        (fim_verifier_status m = Ver_verified \<longrightarrow> getPrivateFundingImportByNullifier st (fim_nullifier m) = None))"
proof -
  obtain a st' where run: "fundingImportFromBody h body owner now st = (a, st')" by fastforce
  show ?thesis
  proof (cases a)
    case (Inl e)
    then show ?thesis using import_failed(2) [OF run [unfolded Inl]] run by auto
  next
    case (Inr m)
    show ?thesis using import_ok [OF run [unfolded Inr]] run by auto
  qed
qed

lemma credit_imports:
  "st_imports (snd (gholaBalanceImportCreditFromBody h body owner now st)) = st_imports (snd (fundingImportFromBody h body owner now st))"
  by (auto simp: gholaBalanceImportCreditFromBody_def Let_def case_prod_beta split: sum.splits prod.splits)

lemma funding_effect:
  "st_imports (funding_step st c) = st_imports st \<or>
     (\<exists>m. st_imports (funding_step st c) = js_set (st_imports st) (fim_commitment m) m \<and>
        (fim_verifier_status m = Ver_verified \<longrightarrow> getPrivateFundingImportByNullifier st (fim_nullifier m) = None))"
  using import_effect instruction_money [of st] balance_money [of st]
  by (cases c) (simp_all add: same_money_def credit_imports submit_imports)

section \<open>What the executions do to deposits and batches\<close>

definition deposits_same :: "execution_store \<Rightarrow> execution_store \<Rightarrow> bool" where
  "deposits_same st st' \<longleftrightarrow> st_imports (ex_account st') = st_imports (ex_account st) \<and> ex_batches st' = ex_batches st"

lemma deposits_same_refl [simp]: "deposits_same st st"
  by (simp add: deposits_same_def)

lemma deposits_same_trans: "deposits_same st st' \<Longrightarrow> deposits_same st' st'' \<Longrightarrow> deposits_same st st''"
  by (simp add: deposits_same_def)

lemma deposits_same_put [simp]:
  "deposits_same st (putPrivateExecutionPlan r st') = deposits_same st st'"
  "deposits_same st (putPrivateSettlement s st') = deposits_same st st'"
  "deposits_same st (putPrivateAccountApproval a st') = deposits_same st st'"
  "deposits_same st (set_intent_status k status st') = deposits_same st st'"
  by (simp_all add: deposits_same_def putPrivateExecutionPlan_def putPrivateSettlement_def putPrivateAccountApproval_def
    set_intent_status_def)

lemma settlement_deposits: "settlementForExecution h owner plan approval execution fin now st = (a, st') \<Longrightarrow> deposits_same st st'"
  by (auto simp: settlementForExecution_def Let_def split: option.splits sum.splits)

lemma plan_deposits: "planForApproval h owner i p requested now st = (a, st') \<Longrightarrow> deposits_same st st'"
  by (auto simp: planForApproval_def createExecutionPlanRecord_def Let_def split: if_splits option.splits prod.splits)

lemma connector_deposits:
  "connector_keeps_imports h \<Longrightarrow> connectorForExecution h q st = (a, st') \<Longrightarrow> deposits_same st st'"
  by (auto simp: connectorForExecution_def connector_keeps_imports_def deposits_same_def split: if_splits prod.splits)
     (metis snd_conv)

lemma record_deposits: "deposits_same st (record_execution owner s execution plan settled chain k receipt now st)"
  by (cases plan) (simp_all add: deposits_same_def record_execution_def Let_def set_intent_status_def putPrivateAccountReceipt_def
    putPrivateAccountExecution_def consumePrivateExecutionPlan_def consumePrivateAccountApproval_def split: option.split)

lemma execute_new_deposits:
  assumes "connector_keeps_imports h" "execute_new h body owner now st = (a, st')"
  shows "deposits_same st st'"
proof (cases a)
  case (Inl e)
  then show ?thesis using assms
    by (auto simp: execute_new_def execute_settled_def Let_def split: sum.splits if_splits prod.splits
      dest: settlement_deposits connector_deposits intro: deposits_same_trans)
next
  case (Inr ans)
  obtain s chain plan execution settled st0 sub st1 bound receipt where
      settled: "settlementForExecution h owner plan (apr_commitment (es_approval s)) execution True now st = (Inr settled, st0)"
      and connector: "connectorForExecution h \<lparr>cq_owner = owner, cq_intent = es_intent s, cq_preview = pr_preview (es_preview s),
       cq_approval = apr_commitment (es_approval s), cq_plan = map_option epr_commitment plan,
       cq_bundle = obj_field (asRecord body) ''encrypted_execution_instruction_bundle''\<rparr> st0 = (Inr sub, st1)"
      and st': "st' = record_execution owner s execution plan settled bound (receipt_key receipt) receipt now st1"
    by (rule execute_new_done [OF assms(2) [unfolded Inr]], rule that; assumption)
  show ?thesis unfolding st'
    by (rule deposits_same_trans [OF deposits_same_trans [OF settlement_deposits [OF settled]
      connector_deposits [OF assms(1) connector]] record_deposits])
qed

lemma account_imports [simp]: "st_imports (snd (createOrGetStoredPrivateAccount h owner now st)) = st_imports st"
  using account_money [of st h owner now] by (simp add: same_money_def)

lemma intent_imports: "st_imports (snd (createIntentFromBody h body owner uuid now st)) = st_imports st"
  by (simp add: createIntentFromBody_def Let_def case_prod_beta split: option.split)

lemma execution_deposits:
  assumes "coordinator_admits st (Execution c)"
  shows "deposits_same (co_exec st) (execution_step (co_exec st) c)"
proof (cases c)
  case (New_intent h body owner uuid now)
  then show ?thesis by (simp add: deposits_same_def intent_imports)
next
  case (New_preview p)
  then show ?thesis by (simp add: deposits_same_def)
next
  case (New_batch b)
  then show ?thesis using assms by simp
next
  case (Make_plan h body owner now)
  then show ?thesis by (auto simp: createStoredExecutionPlanFromBody_def Let_def split: option.splits)
next
  case (Approve_preview h body owner now)
  then show ?thesis
    by (auto simp: approveStoredPreviewFromBody_def Let_def split: prod.splits sum.splits dest: plan_deposits)
next
  case (Execute_action h body owner now)
  then have "connector_keeps_imports h" using assms by simp
  then show ?thesis unfolding Execute_action
    by (auto simp: executeStoredActionFromBody_def Let_def split: option.splits
      dest: execute_new_deposits [OF _ prod.collapse [symmetric]])
next
  case (Settle_action h body owner now)
  then show ?thesis
    by (auto simp: settleStoredActionFromBody_def Let_def split: option.splits prod.splits sum.splits dest: settlement_deposits)
next
  case (Refresh_settlement h body owner now)
  then show ?thesis by (auto simp: refreshSettlementStatusFromBody_def Let_def split: option.splits)
qed

section \<open>The invariant\<close>

text \<open>A deposit a batch counts: a verified import of the batch's asset, amount and network.\<close>

definition counted_deposit :: "account_store \<Rightarrow> PrivateFundingBatchRecordV1 \<Rightarrow> string \<Rightarrow> bool" where
  "counted_deposit st b c = (case js_get (st_imports st) c of
       None \<Rightarrow> False
     | Some m \<Rightarrow> fim_verifier_status m = Ver_verified \<and> fim_asset m = fb_asset b \<and> fim_amount m = fb_amount b \<and>
         fim_network m = fb_network b)"

definition own_deposit :: "account_store \<Rightarrow> PrivateFundingBatchRecordV1 \<Rightarrow> string \<Rightarrow> bool" where
  "own_deposit st b c = (case js_get (st_imports st) c of
       None \<Rightarrow> False
     | Some m \<Rightarrow> fim_owner m = fb_owner b \<and> fim_account m = fb_account b)"

definition batch_backed :: "account_store \<Rightarrow> PrivateFundingBatchRecordV1 \<Rightarrow> bool" where
  "batch_backed st b \<longleftrightarrow> fb_evidence b = None \<or>
     fb_status b = Batch_evidence_ready \<and> 1 \<le> fb_required b \<and> fb_required b \<le> int (fb_effective b) \<and>
     fb_effective b = length (fb_imports b) \<and> distinct (fb_imports b) \<and> list_all (counted_deposit st b) (fb_imports b) \<and>
     (case fb_selected_import b of None \<Rightarrow> False | Some c \<Rightarrow> c \<in> set (fb_imports b) \<and> own_deposit st b c)"

definition deposits_filed :: "account_store \<Rightarrow> bool" where
  "deposits_filed st \<longleftrightarrow> distinct_nullifiers st \<and> jm.all_entries (\<lambda>c m. fim_commitment m = c) (st_imports st)"

definition batches_backed :: "execution_store \<Rightarrow> bool" where
  "batches_backed st \<longleftrightarrow> list_all (batch_backed (ex_account st)) (js_values (ex_batches st))"

definition coordinator_inv :: "coordinator_store \<Rightarrow> bool" where
  "coordinator_inv st \<longleftrightarrow> deposits_filed (co_account st) \<and> batches_backed (co_exec st)"

lemma coordinator_inv_empty: "coordinator_inv empty_coordinator_store"
  by (simp add: coordinator_inv_def empty_coordinator_store_def empty_execution_store_def empty_account_store_def
    deposits_filed_def distinct_nullifiers_def batches_backed_def jm.all_entries_def)

lemma values_set_subset: "set (js_values (js_set m k v)) \<subseteq> insert v (set (js_values m))"
proof (induction m)
  case Nil
  then show ?case by (simp add: js_set_def js_values_def)
next
  case (Cons p m)
  then show ?case by (cases p) (auto simp: js_set_def js_values_def)
qed

lemma filed_same: "st_imports st' = st_imports st \<Longrightarrow> deposits_filed st' = deposits_filed st"
  by (simp add: deposits_filed_def distinct_nullifiers_def)

lemma backed_same:
  assumes "st_imports st' = st_imports st"
  shows "batch_backed st' b = batch_backed st b"
proof -
  have same: "counted_deposit st' b = counted_deposit st b" "own_deposit st' b = own_deposit st b"
    by (simp_all add: fun_eq_iff counted_deposit_def own_deposit_def assms)
  show ?thesis unfolding batch_backed_def same by (rule refl)
qed

lemma counted_verified: "counted_deposit st b c \<Longrightarrow>
    \<exists>m. js_get (st_imports st) c = Some m \<and> fim_verifier_status m = Ver_verified"
  by (auto simp: counted_deposit_def split: option.splits)

lemma backed_kept:
  assumes keeps: "keeps_verified st st'" and b: "batch_backed st b"
  shows "batch_backed st' b"
proof -
  have same: "js_get (st_imports st') c = js_get (st_imports st) c" if "counted_deposit st b c" for c
    using counted_verified [OF that] keeps_verifiedD [OF keeps] by fastforce
  then have counted: "counted_deposit st' b c" if "counted_deposit st b c" for c
    using that by (simp add: counted_deposit_def)
  moreover have "own_deposit st' b c" if "counted_deposit st b c" "own_deposit st b c" for c
    using same [OF that(1)] that(2) by (simp add: own_deposit_def)
  ultimately have "list_all (counted_deposit st' b) (fb_imports b)"
      "(case fb_selected_import b of None \<Rightarrow> False | Some c \<Rightarrow> c \<in> set (fb_imports b) \<and> own_deposit st' b c)"
    if "list_all (counted_deposit st b) (fb_imports b)"
      "case fb_selected_import b of None \<Rightarrow> False | Some c \<Rightarrow> c \<in> set (fb_imports b) \<and> own_deposit st b c"
    using that by (auto simp: list_all_iff split: option.splits)
  then show ?thesis using b unfolding batch_backed_def by blast
qed

lemma funding_inv_coordinator:
  assumes "coordinator_inv st" "coordinator_admits st (Funding c)"
  shows "coordinator_inv (coordinator_step st (Funding c))"
proof -
  let ?a = "co_account st" and ?a' = "funding_step (co_account st) c"
  have filed: "distinct_nullifiers ?a" "jm.all_entries (\<lambda>c m. fim_commitment m = c) (st_imports ?a)"
    using assms(1) by (simp_all add: coordinator_inv_def deposits_filed_def)
  have "deposits_filed ?a'" using funding_effect [of ?a c]
  proof (elim disjE exE conjE)
    assume "st_imports ?a' = st_imports ?a"
    from filed_same [OF this] show ?thesis using assms(1) by (simp add: coordinator_inv_def)
  next
    fix m assume m: "st_imports ?a' = js_set (st_imports ?a) (fim_commitment m) m"
      "fim_verifier_status m = Ver_verified \<longrightarrow> getPrivateFundingImportByNullifier ?a (fim_nullifier m) = None"
    have "distinct_nullifiers ?a'" using distinct_nullifiers_import [OF filed(1) m(1)] m(2) by blast
    moreover have "jm.all_entries (\<lambda>c m. fim_commitment m = c) (st_imports ?a')"
      unfolding m(1) by (rule jm.all_entries_insert [OF filed(2) refl])
    ultimately show ?thesis by (simp add: deposits_filed_def)
  qed
  moreover have keeps: "keeps_verified ?a ?a'" using assms(2) by simp
  have "batches_backed ((co_exec st)\<lparr>ex_account := ?a'\<rparr>)"
    using assms(1) backed_kept [OF keeps] by (simp add: coordinator_inv_def batches_backed_def list_all_iff)
  ultimately show ?thesis by (simp add: coordinator_inv_def on_account_def)
qed

lemma execution_inv_coordinator:
  assumes "coordinator_inv st" "coordinator_admits st (Execution c)"
  shows "coordinator_inv (coordinator_step st (Execution c))"
proof -
  note same = execution_deposits [OF assms(2), unfolded deposits_same_def]
  show ?thesis using assms(1) filed_same [OF same [THEN conjunct1]] backed_same [OF same [THEN conjunct1]] same
    by (simp add: coordinator_inv_def batches_backed_def list_all_iff)
qed

section \<open>The targets of a run are deposits\<close>

lemma set_newest [simp]: "set (newest_first stamp xs) = set xs"
  by (simp add: newest_first_def)

lemma take_within: "x \<in> set (take n xs) \<Longrightarrow> x \<in> set xs"
  by (rule in_set_takeD)

lemma listed_imports: "set (coordinatorImports inp st) \<subseteq> set (js_values (st_imports st))"
  by (auto simp: coordinatorImports_def listPrivateFundingImports_def listAllPrivateFundingImports_def dest!: take_within)

lemma latest_within: "latestVerifiedImport ds owner = Some m \<Longrightarrow> m \<in> set ds"
proof -
  assume "latestVerifiedImport ds owner = Some m"
  then obtain rest where "newest_first fim_imported_at
      (filter (\<lambda>m. fim_owner m = owner \<and> fim_verifier_status m = Ver_verified) ds) = m # rest"
    by (auto simp: latestVerifiedImport_def split: list.splits)
  from arg_cong [OF this, of set] show ?thesis by auto
qed

lemma keep_latest_within: "set (js_values (keep_latest latest m)) \<subseteq> insert m (set (js_values latest))"
  using values_set_subset [of latest _ m] by (simp add: Let_def split: option.split) blast

lemma targets_within: "set (targetImports ds) \<subseteq> set ds"
proof -
  have "set (js_values (foldl keep_latest latest ds)) \<subseteq> set ds \<union> set (js_values latest)" for latest
  proof (induction ds arbitrary: latest)
    case Nil
    then show ?case by simp
  next
    case (Cons m ds)
    have "set (js_values (foldl keep_latest (keep_latest latest m) ds)) \<subseteq> set ds \<union> set (js_values (keep_latest latest m))"
      by (rule Cons.IH)
    then show ?case using keep_latest_within [of latest m] by (simp del: keep_latest.simps) blast
  qed
  from this [of "[]"] show ?thesis by (simp add: targetImports_def)
qed

lemma batch_targets_within: "t \<in> set (batch_targets ds queues) \<Longrightarrow> fst t \<in> set ds"
  using targets_within [of ds]
  by (auto simp: batch_targets_def queue_targets_def List.map_filter_def dest: latest_within)

section \<open>A batch is backed when it is formed\<close>

lemma matured_in:
  assumes "m \<in> set (matured_imports h selected now st)"
  shows "m \<in> set (js_values (st_imports st))" "fim_verifier_status m = Ver_verified" "fim_asset m = fim_asset selected"
    "fim_amount m = fim_amount selected" "fim_network m = fim_network selected"
    "now - fim_observed_at m \<le> vc_max_stale_ms (verifierConfig h)"
    "fundingBatchMinDelaySeconds h * 1000 \<le> now - fim_imported_at m"
  using assms
  by (auto simp: matured_imports_def fresh_imports_def network_imports_def compatible_imports_def
    listCompatibleFundingImports_def isVerifierStateStale_def dest!: take_within)

lemma filed_in:
  assumes "deposits_filed st" "m \<in> set (js_values (st_imports st))"
  shows "js_get (st_imports st) (fim_commitment m) = Some m"
  using assms by (auto simp: deposits_filed_def distinct_nullifiers_def js_values_get jm.all_entries_def)

lemma distinct_values:
  assumes "deposits_filed st"
  shows "distinct (map fim_commitment (js_values (st_imports st)))"
proof -
  have wf: "distinct (map fst (st_imports st))" using assms by (simp add: deposits_filed_def distinct_nullifiers_def js_wf_def)
  have "map fim_commitment (js_values (st_imports st)) = map fst (st_imports st)"
  proof -
    have "fim_commitment m = c" if "(c, m) \<in> set (st_imports st)" for c m
      using assms that wf by (auto simp: deposits_filed_def jm.all_entries_def js_get_def)
    then show ?thesis by (auto simp: js_values_def)
  qed
  then show ?thesis using wf by simp
qed

lemma distinct_sort_by [simp]: "distinct (sort_by le xs) = distinct xs"
proof -
  have "mset (sort_by le xs) = mset xs" by simp
  then show ?thesis by (rule mset_eq_imp_distinct_iff)
qed

lemma distinct_newest: "distinct (map f xs) \<Longrightarrow> distinct (map f (newest_first stamp xs))"
proof -
  assume "distinct (map f xs)"
  moreover have "mset (map f (newest_first stamp xs)) = mset (map f xs)" by (simp add: newest_first_def)
  ultimately show ?thesis using mset_eq_imp_distinct_iff by blast
qed

lemma distinct_matured:
  assumes "deposits_filed st"
  shows "distinct (map fim_commitment (matured_imports h selected now st))"
  unfolding matured_imports_def fresh_imports_def network_imports_def compatible_imports_def listCompatibleFundingImports_def
  by (intro distinct_map_filter) (simp only: take_map [symmetric] distinct_take distinct_newest distinct_map_filter distinct_values [OF assms])

lemma configured_from: "least \<le> fallback \<Longrightarrow> least \<le> configured_int h name least fallback"
  by (auto simp: configured_int_def le_floor_iff split: jsnum.splits)

lemma required_positive: "1 \<le> requiredAnonymitySet h"
  by (simp add: requiredAnonymitySet_def configured_from DEFAULT_ANONYMITY_SET_POLICY_def)

lemma batch_of_target_backed:
  assumes filed: "deposits_filed st" and t: "fst t \<in> set (js_values (st_imports st))"
  shows "batch_backed st (batch_of_target h t now st)"
proof (cases "batch_ready h (fst t) now st")
  case False
  then show ?thesis by (simp add: batch_backed_def batch_of_target_def Let_def)
next
  case True
  let ?b = "batch_of_target h t now st" and ?ms = "matured_imports h (fst t) now st"
  have fields: "fb_status ?b = Batch_evidence_ready" "fb_required ?b = requiredAnonymitySet h" "fb_effective ?b = length ?ms"
    "fb_imports ?b = sort_by (\<le>) (map fim_commitment ?ms)" "fb_selected_import ?b = Some (fim_commitment (fst t))"
    "fb_owner ?b = fim_owner (fst t)" "fb_account ?b = fim_account (fst t)" "fb_asset ?b = fim_asset (fst t)"
    "fb_amount ?b = fim_amount (fst t)" "fb_network ?b = fim_network (fst t)"
    using True by (simp_all add: batch_of_target_def Let_def import_commitments_def)
  have "counted_deposit st ?b (fim_commitment m)" if "m \<in> set ?ms" for m
    using matured_in [OF that] filed_in [OF filed matured_in(1) [OF that]] by (simp add: counted_deposit_def fields)
  then have counted: "list_all (counted_deposit st ?b) (fb_imports ?b)" by (auto simp: fields list_all_iff)
  have "fim_commitment (fst t) \<in> set (fb_imports ?b)"
    using True by (auto simp: fields batch_ready_def timing_window_met_def list_ex_iff image_iff) metis
  moreover have "own_deposit st ?b (fim_commitment (fst t))" using filed_in [OF filed t] by (simp add: own_deposit_def fields)
  ultimately show ?thesis using True counted required_positive distinct_matured [OF filed]
    by (simp add: batch_backed_def fields batch_ready_def)
qed

section \<open>A run keeps the invariant\<close>

lemma on_account_imports [simp]: "(\<And>a. st_imports (f a) = st_imports a) \<Longrightarrow> st_imports (co_account (on_account f st)) = st_imports (co_account st)"
  by (simp add: on_account_def)

lemma on_account_inv: "(\<And>a. st_imports (f a) = st_imports a) \<Longrightarrow> coordinator_inv st \<Longrightarrow> coordinator_inv (on_account f st)"
  using filed_same [of "f (co_account st)" "co_account st"] backed_same [of "f (co_account st)" "co_account st"]
  by (simp add: coordinator_inv_def on_account_def batches_backed_def list_all_iff)

lemma coordinate_one_inv:
  assumes inv: "coordinator_inv st" and t: "fst t \<in> set (js_values (st_imports (co_account st)))"
  shows "coordinator_inv (snd (coordinateOne h t now st))" "co_account (snd (coordinateOne h t now st)) = co_account st"
proof -
  let ?b = "batch_of_target h t now (co_account st)"
  have effect: "co_exec (snd (coordinateOne h t now st)) = putPrivateFundingBatch ?b (co_exec st)"
    by (simp add: coordinateOne_def Let_def putAnonymityEvidence_def)
  have "batch_backed (co_account st) ?b" using inv t by (intro batch_of_target_backed) (simp_all add: coordinator_inv_def)
  then have "batches_backed (putPrivateFundingBatch ?b (co_exec st))"
    using inv values_set_subset [of "ex_batches (co_exec st)" "fb_id ?b" ?b]
    by (auto simp: coordinator_inv_def batches_backed_def putPrivateFundingBatch_def list_all_iff)
  then show "coordinator_inv (snd (coordinateOne h t now st))" using inv
    unfolding coordinator_inv_def effect by (simp add: putPrivateFundingBatch_def)
  show "co_account (snd (coordinateOne h t now st)) = co_account st" unfolding effect by (simp add: putPrivateFundingBatch_def)
qed

lemma mark_queue_inv: "coordinator_inv st \<Longrightarrow> coordinator_inv (mark_queue_ready t b clock st)"
  by (auto simp: mark_queue_ready_def intro!: on_account_inv split: option.split)

lemma mark_queue_imports: "st_imports (co_account (mark_queue_ready t b clock st)) = st_imports (co_account st)"
  by (simp add: mark_queue_ready_def split: option.split)

lemma coordinate_targets_inv:
  assumes "coordinator_inv st" "\<And>t. t \<in> set ts \<Longrightarrow> fst t \<in> set (js_values (st_imports (co_account st)))"
  shows "coordinator_inv (snd (coordinate_targets h now clock seen ts p st))"
  using assms
proof (induction h now clock seen ts p st rule: coordinate_targets.induct)
  case (1 h now clock seen p st)
  then show ?case by simp
next
  case (2 h now clock seen t ts p st)
  show ?case
  proof (cases "target_key t \<in> set seen")
    case True
    then show ?thesis using 2 by simp
  next
    case False
    obtain c st1 where one: "coordinateOne h t now st = (c, st1)" by fastforce
    note inv1 = coordinate_one_inv [OF 2(3), of t h now, unfolded one snd_conv]
    have "coordinator_inv (snd (coordinate_targets h now clock (target_key t # seen) ts (add_progress p c)
        (mark_queue_ready t (cb_batch c) clock st1)))"
      using 2(3,4) inv1 by (intro 2(2) [OF False one [symmetric] refl] mark_queue_inv) (simp_all add: mark_queue_imports)
    then show ?thesis using False by (simp add: one)
  qed
qed

lemma put_run_inv [simp]: "coordinator_inv (putPrivateFundingBatchRun r st) = coordinator_inv st"
  by (simp add: coordinator_inv_def putPrivateFundingBatchRun_def)

lemma coordinate_batches_inv:
  assumes "coordinator_inv st"
  shows "coordinator_inv (snd (coordinate_batches h window inp now clock st))"
proof -
  let ?ts = "batch_targets (coordinatorImports inp (co_account st)) (coordinatorQueues inp (co_account st))"
  have "fst t \<in> set (js_values (st_imports (co_account st)))" if "t \<in> set ?ts" for t
    using batch_targets_within [OF that] listed_imports by blast
  from coordinate_targets_inv [OF assms this] show ?thesis
    using assms by (simp add: coordinate_batches_def Let_def case_prod_beta)
qed

lemma run_coordinator_inv:
  assumes "coordinator_inv st"
  shows "coordinator_inv (snd (runPrivateFundingBatchCoordinator h inp now clock st))"
proof -
  let ?window = "coordinatorRunWindowCommitment (pl_host h) now inp"
  let ?taken = "acquirePrivateCoordinatorLock COORDINATOR_LOCK ?window now (coordinatorLockTtlMs (pl_host h)) (co_account st)"
  let ?st1 = "on_account (\<lambda>a. snd ?taken) st"
  have inv1: "coordinator_inv ?st1"
    using assms filed_same [of "snd ?taken" "co_account st"] backed_same [of "snd ?taken" "co_account st"]
    by (simp add: coordinator_inv_def on_account_def batches_backed_def list_all_iff)
  have "coordinator_inv (on_account (releasePrivateCoordinatorLock COORDINATOR_LOCK ?window)
      (snd (coordinate_batches h ?window inp now clock ?st1)))"
    by (intro on_account_inv coordinate_batches_inv [OF inv1]) simp
  then show ?thesis using inv1 by (simp add: runPrivateFundingBatchCoordinator_def Let_def case_prod_beta)
qed

lemma coordinator_step_inv: "coordinator_inv st \<Longrightarrow> coordinator_admits st c \<Longrightarrow> coordinator_inv (coordinator_step st c)"
proof (cases c)
  case (Coordinate h inp now clock)
  then show "coordinator_inv st \<Longrightarrow> coordinator_inv (coordinator_step st c)" by (simp add: run_coordinator_inv)
qed (use funding_inv_coordinator execution_inv_coordinator in blast)+

interpretation coordinator: call_machine "\<lambda>st c. if coordinator_admits st c then coordinator_step st c else st" coordinator_inv
  by unfold_locales (simp add: coordinator_step_inv)

end
