(* ===== verification/AccountFundingClaims.thy ===== *)
theory AccountFundingClaims imports AccountFundingMachine
begin

text \<open>
  The properties of the balance of a private account, over the calls of \<open>AccountFundingMachine\<close>.
\<close>

section \<open>Totals\<close>

definition deposit_credits :: "account_store \<Rightarrow> string \<Rightarrow> int" where
  "deposit_credits st account = ledger_sum (\<lambda>e. if gle_kind e = Gl_deposit_credit then gle_available e else 0) st account"

lemma ledger_shape: "funding_inv st \<Longrightarrow> e \<in> set (ledger_of st account) \<Longrightarrow> entry_shape e"
  using funding_invD(2) by (auto simp: entries_ok_def entry_ok_def in_ledger_of)

lemma ledger_sum_plus: "ledger_sum (\<lambda>e. f e + g e) st account = ledger_sum f st account + ledger_sum g st account"
  unfolding ledger_sum_def by (induction "ledger_of st account" rule: list.induct) (simp_all add: sum_list_addf)

lemma total_is_credits:
  assumes "funding_inv st"
  shows "ledger_sum gle_available st account + ledger_sum gle_reserved st account = deposit_credits st account"
  unfolding ledger_sum_plus [symmetric] deposit_credits_def
  using shape_total ledger_shape [OF assms] by (intro ledger_sum_cong) auto

lemma ledger_sum_nonneg: "(\<And>e. e \<in> set (ledger_of st account) \<Longrightarrow> 0 \<le> f e) \<Longrightarrow> 0 \<le> ledger_sum f st account"
  unfolding ledger_sum_def by (intro sum_list_nonneg) auto

lemma held_nonneg: "entry_shape e \<Longrightarrow> 0 \<le> held st e"
  by (auto simp: held_def entry_shape_def)

lemma reserved_nonneg: "funding_inv st \<Longrightarrow> 0 \<le> ledger_sum gle_reserved st account"
  using funding_invD(4) [of st] ledger_sum_nonneg [of st account "held st"] held_nonneg ledger_shape
  by (simp add: reserved_held_def)

lemma open_nonneg: "funding_inv st \<Longrightarrow> 0 \<le> ledger_sum gle_open_notional st account"
  by (intro ledger_sum_nonneg) (auto dest: ledger_shape simp: entry_shape_def)

section \<open>An account with one deposit\<close>

definition demo_env :: "string \<Rightarrow> string option" where
  "demo_env name = (if name = ''GHOLA_CUSTOM_SHIELDED_VERIFIER_MODE'' then Some ''local_test'' else None)"

definition demo_funding_host :: funding_host where
  "demo_funding_host = \<lparr>fh_host = \<lparr>sha256_hex = (\<lambda>s. ''0''), locale_le = (\<le>)\<rparr>, fh_env = demo_env,
     fh_parse_date = (\<lambda>s. None), fh_health_url = (\<lambda>s. None), fh_get_health = (\<lambda>u. Fetch_threw),
     fh_post_verify = (\<lambda>u j. Fetch_threw)\<rparr>"

definition demo_deposit_receipt :: json where
  "demo_deposit_receipt = JObj [(''funding_intent_id'', JStr ''pact_funding_1''), (''receipt_id'', JStr ''custom_receipt_7'')]"

definition demo_funding_calls :: "funding_call list" where
  "demo_funding_calls = [Instruct demo_funding_host (JObj [(''amount_bucket'', JStr ''50'')]) ''o'' ''1'' 1000,
     Import_credit demo_funding_host demo_deposit_receipt ''o'' 2000]"

lemma demo_commitment [simp]: "gholaCommitment (fh_host demo_funding_host) prefix v = prefix @ ''_0''"
  by (simp add: gholaCommitment_def demo_funding_host_def)


lemma demo_bucket: "or_text (stringValue (obj_field (asRecord (JObj [(''amount_bucket'', JStr ''50'')])) ''amount_bucket'')) ''25'' = ''50''"
  "or_text (stringValue (obj_field (asRecord (JObj [(''amount_bucket'', JStr ''50'')])) ''asset_bucket'')) ''stablecoin'' = ''stablecoin''"
  "isFundingAmountBucket ''50''" "isFundingAssetBucket ''stablecoin''"
  by code_simp+

definition demo_instruction :: PrivateFundingInstructionRecordV1 where
  "demo_instruction = \<lparr>fin_id = ''pact_funding_1'', fin_owner = ''o'', fin_account = ''acct_0'', fin_commitment = ''funding_intent_0'',
     fin_asset = ''stablecoin'', fin_amount = ''50'', fin_destination_commitment = ''funding_destination_0'',
     fin_destination = ''ghola_shielded_acct_0'', fin_status = Fund_pending, fin_created_at = 1000, fin_expires_at = 3601000,
     fin_updated_at = 1000\<rparr>"

lemma demo_account: "ar_commitment (stored_account (fh_host demo_funding_host) ow t) = ''acct_0''"
  by (simp add: stored_account_def Let_def createPrivateExecutionAccount_def)

lemma demo_destination: "ar_commitment a = ''acct_0'' \<Longrightarrow> customShieldedDestination demo_funding_host a = ''ghola_shielded_acct_0''"
  by (simp add: customShieldedDestination_def or_text_def trimmed_env_def demo_funding_host_def demo_env_def last_chars_def)

lemma demo_instruct: "\<exists>st a. fundingInstructionFromBody demo_funding_host (JObj [(''amount_bucket'', JStr ''50'')]) ''o'' ''1'' 1000 empty_account_store =
   (Inr demo_instruction, st) \<and> st_instructions st = [(''pact_funding_1'', demo_instruction)] \<and> st_imports st = [] \<and> st_ledger st = [] \<and>
   st_accounts st = [(''acct_0'', a)] \<and> ar_commitment a = ''acct_0''"
  by (simp add: fundingInstructionFromBody_def demo_bucket Let_def createOrGetStoredPrivateAccount_def getPrivateAccountByOwner_def
    empty_account_store_def putPrivateAccountRecord_def putPrivateVaultState_def putPrivacyBudget_def putPrivateFundingInstruction_def
    new_instruction_def demo_account demo_destination js_set_def demo_instruction_def FUNDING_TTL_MS_def stored_account_def createPrivateExecutionAccount_def)

definition demo_import :: PrivateFundingImportRecordV1 where
  "demo_import = \<lparr>fim_commitment = ''funding_import_0'', fim_owner = ''o'', fim_account = ''acct_0'', fim_intent_id = ''pact_funding_1'',
     fim_intent_commitment = ''funding_intent_0'', fim_receipt = ''funding_receipt_0'', fim_nullifier = ''funding_nullifier_0'',
     fim_note_root = ''note_root_0'', fim_amount = ''50'', fim_asset = ''stablecoin'', fim_verifier_status = Ver_verified,
     fim_verifier = ''verifier_0'', fim_observed_at = 2000, fim_head = ''verifier_head_0'', fim_depth = num 3,
     fim_network = ''custom-shielded-v1'', fim_rejection = None, fim_imported_at = 2000\<rparr>"

lemma demo_deposit_fields: "stringValue (obj_field (asRecord demo_deposit_receipt) ''funding_intent_id'') = ''pact_funding_1''"
  "stringValue (obj_field (asRecord demo_deposit_receipt) ''receipt_id'') = ''custom_receipt_7''"
  "starts_with ''custom_receipt_'' ''custom_receipt_7''" "\<not> js_includes ''wrongdest'' ''custom_receipt_7''"
  "\<not> js_includes ''wrongamount'' ''custom_receipt_7''" "\<not> js_includes ''wrongasset'' ''custom_receipt_7''"
  "\<not> js_includes ''lowconf'' ''custom_receipt_7''" "\<not> js_includes ''stale'' ''custom_receipt_7''"
  "\<not> isPrivateAccountRecordExpired 3601000 2000" "amountBucketMicroUsdc ''50'' = 50000000"
  by code_simp+

lemma demo_config: "vc_mode (verifierConfig demo_funding_host) = Verifier_local_test"
  "vc_network (verifierConfig demo_funding_host) = ''custom-shielded-v1''"
  "vc_min_confirmations (verifierConfig demo_funding_host) = 3"
  "fh_env demo_funding_host ''NODE_ENV'' = None"
  by code_simp+

lemma demo_health: "vh_green (customShieldedVerifierHealth demo_funding_host 2000)"
  "vh_verifier (customShieldedVerifierHealth demo_funding_host 2000) = Some ''verifier_0''"
  "vh_head (customShieldedVerifierHealth demo_funding_host 2000) = Some ''verifier_head_0''"
  by (simp_all add: customShieldedVerifierHealth_def demo_config verifier_health_def Let_def del: take_Suc_Cons)

definition demo_result :: PrivateShieldedVerifierResult where
  "demo_result = \<lparr>vr_receipt = ''funding_receipt_0'', vr_nullifier = ''funding_nullifier_0'',
     vr_destination = ''funding_destination_0'', vr_amount = ''50'', vr_asset = ''stablecoin'',
     vr_network = ''custom-shielded-v1'', vr_depth = num 3, vr_verifier = ''verifier_0'', vr_head = ''verifier_head_0'', vr_observed_at = 2000\<rparr>"

lemma demo_local: "vh_verifier health = Some ''verifier_0'' \<Longrightarrow> vh_head health = Some ''verifier_head_0'' \<Longrightarrow>
    verifyLocalTestReceipt demo_funding_host demo_instruction ''custom_receipt_7'' 2000 health = Inr demo_result"
  unfolding verifyLocalTestReceipt_def Let_def demo_commitment demo_config
  by (simp only: demo_deposit_fields if_False if_True not_False_eq_True not_True_eq_False) (simp add: demo_instruction_def demo_result_def text_or_def)

lemma demo_verified: "verifyCustomShieldedDepositReceipt demo_funding_host demo_instruction ''custom_receipt_7'' 2000 = Inr demo_result"
  unfolding verifyCustomShieldedDepositReceipt_def Let_def
  by (simp only: demo_health demo_config demo_local if_True if_False not_True_eq_False simp_thms)

lemma demo_verified_import: "verified_import demo_funding_host ''o'' demo_instruction a demo_result 2000 = demo_import"
  by (simp add: verified_import_def demo_instruction_def demo_result_def demo_import_def Let_def)


lemma demo_imported:
  assumes "st_instructions st = [(''pact_funding_1'', demo_instruction)]" "st_imports st = []" "st_ledger st = []"
    "st_accounts st = [(''acct_0'', a)]"
  shows "\<exists>st'. fundingImportFromBody demo_funding_host demo_deposit_receipt ''o'' 2000 st = (Inr demo_import, st') \<and>
    st_imports st' = [(''funding_import_0'', demo_import)] \<and> st_ledger st' = [] \<and>
    st_instructions st' = [(''pact_funding_1'', demo_instruction\<lparr>fin_status := Fund_imported, fin_updated_at := 2000\<rparr>)]"
proof -
  have i: "fin_owner demo_instruction = ''o''" "fin_status demo_instruction = Fund_pending" "fin_expires_at demo_instruction = 3601000"
    "fin_account demo_instruction = ''acct_0''" "fin_id demo_instruction = ''pact_funding_1''" "vr_nullifier demo_result = ''funding_nullifier_0''" "fim_commitment demo_import = ''funding_import_0''"
    by (simp_all add: demo_instruction_def demo_result_def demo_import_def)
  have "fundingImportFromBody demo_funding_host demo_deposit_receipt ''o'' 2000 st = (Inr demo_import,
      markVaultImported (fh_host demo_funding_host) a demo_import 2000
        (putPrivateFundingInstruction (demo_instruction\<lparr>fin_status := Fund_imported, fin_updated_at := 2000\<rparr>)
          (putPrivateFundingImport demo_import st)))"
    unfolding fundingImportFromBody_def Let_def demo_deposit_fields
    by (simp add: assms i getPrivateFundingInstruction_def js_get_def demo_deposit_fields demo_verified demo_verified_import
      getPrivateFundingImportByNullifier_def getPrivateAccountByCommitment_def)
  then show ?thesis
    by (simp add: assms i markVaultImported_def putPrivateAccountRecord_def putPrivateVaultState_def
      putPrivateFundingInstruction_def putPrivateFundingImport_def js_set_def)
qed

lemma demo_funded: "run_admits funding_step funding_admits empty_account_store demo_funding_calls \<and>
    length (ledger_of (run_calls funding_step empty_account_store demo_funding_calls) ''acct_0'') = 1 \<and>
    deposit_credits (run_calls funding_step empty_account_store demo_funding_calls) ''acct_0'' = 50000000"
proof -
  obtain st a where st: "fundingInstructionFromBody demo_funding_host (JObj [(''amount_bucket'', JStr ''50'')]) ''o'' ''1'' 1000 empty_account_store =
      (Inr demo_instruction, st)" "st_instructions st = [(''pact_funding_1'', demo_instruction)]" "st_imports st = []" "st_ledger st = []"
      "st_accounts st = [(''acct_0'', a)]"
    using demo_instruct by blast
  obtain st' where st': "fundingImportFromBody demo_funding_host demo_deposit_receipt ''o'' 2000 st = (Inr demo_import, st')"
      "st_imports st' = [(''funding_import_0'', demo_import)]" "st_ledger st' = []"
    using demo_imported [OF st(2-5)] by blast
  have m: "fim_amount demo_import = ''50''" "fim_asset demo_import = ''stablecoin''" "fim_account demo_import = ''acct_0''"
    "fim_commitment demo_import = ''funding_import_0''" by (simp_all add: demo_import_def)
  show ?thesis
    by (simp add: demo_funding_calls_def st(1) st' keeps_verified_def st(3,4) id_free_def gholaBalanceImportCreditFromBody_def m demo_deposit_fields
      append_put putGholaBalanceLedgerEntry_def js_set_def ledger_of_def deposit_credits_def ledger_sum_def js_values_def Let_def)
qed

section \<open>Solvency\<close>

text \<open>C11: The balance of a private account is solvent. After any calls (handled one after the other, without a
  collision of commitments), while an account has at most 1000 ledger entries, what its snapshot shows as available and
  as reserved adds up to its deposit credits, and what it shows as reserved is the sum of the reservations
  whose work order has no release: nothing is clamped at zero.\<close>

theorem funding_solvent:
  assumes "run_admits funding_step funding_admits empty_account_store calls"
    and "st = run_calls funding_step empty_account_store calls" and "length (ledger_of st account) \<le> 1000"
  shows "gbs_available (getGholaBalanceSnapshot st owner account) + gbs_reserved (getGholaBalanceSnapshot st owner account)
      = deposit_credits st account \<and>
    gbs_reserved (getGholaBalanceSnapshot st owner account) = ledger_sum (held st) st account \<and>
    gbs_available (getGholaBalanceSnapshot st owner account) = ledger_sum gle_available st account"
proof -
  have inv: "funding_inv st" using funding_run_inv assms(1,2) by simp
  then have "0 \<le> ledger_sum gle_available st account" using funding_invD(5) [OF inv] assms(3) by (simp add: never_overdrawn_def)
  moreover note reserved_nonneg [OF inv, of account]
  ultimately show ?thesis
    using total_is_credits [OF inv, of account] funding_invD(4) [OF inv]
    by (simp add: snapshot_sums [OF assms(3)] reserved_held_def)
qed

lemma funding_solvent_witness:
  "gbs_available (getGholaBalanceSnapshot (run_calls funding_step empty_account_store demo_funding_calls) ''o'' ''acct_0'') +
   gbs_reserved (getGholaBalanceSnapshot (run_calls funding_step empty_account_store demo_funding_calls) ''o'' ''acct_0'') = 50000000"
  using funding_solvent [of demo_funding_calls "run_calls funding_step empty_account_store demo_funding_calls" "''acct_0''" "''o''"]
    demo_funded by simp

definition credits :: "account_store \<Rightarrow> PrivateGholaBalanceLedgerEntryRecordV1 list" where
  "credits st = filter (\<lambda>e. gle_kind e = Gl_deposit_credit) (js_values (st_ledger st))"

definition credited_import :: "account_store \<Rightarrow> PrivateGholaBalanceLedgerEntryRecordV1 \<Rightarrow> PrivateFundingImportRecordV1 option" where
  "credited_import st e = js_get (st_imports st) (the (gle_reference e))"

lemma credit_import_inj:
  assumes inv: "funding_inv st" and e: "e \<in> set (credits st)" "e' \<in> set (credits st)"
    and same: "map_option fim_nullifier (credited_import st e) = map_option fim_nullifier (credited_import st e')"
  shows "e = e'"
proof -
  have ok: "entry_shape x \<and> credit_backed st x" if "x \<in> set (credits st)" for x
    using that funding_invD(2) [OF inv] by (auto simp: credits_def entries_ok_def entry_ok_def)
  obtain m where m: "js_get (st_imports st) (the (gle_reference e)) = Some m" "fim_verifier_status m = Ver_verified"
      "fim_account m = gle_account e"
    using ok [OF e(1)] by (auto simp: credit_backed_def split: option.splits)
  obtain m' where m': "js_get (st_imports st) (the (gle_reference e')) = Some m'" "fim_verifier_status m' = Ver_verified"
      "fim_account m' = gle_account e'"
    using ok [OF e(2)] by (auto simp: credit_backed_def split: option.splits)
  have "fim_nullifier m = fim_nullifier m'" using same m m' by (simp add: credited_import_def)
  then have ref: "the (gle_reference e) = the (gle_reference e')"
    using funding_invD(3) [OF inv] m m' unfolding distinct_nullifiers_def by blast
  then have "gle_account e = gle_account e'" using m m' by simp
  moreover have "gle_key e = gle_key e'" using ok [OF e(1)] ok [OF e(2)] e ref
    by (auto simp: entry_shape_def credits_def)
  ultimately show "e = e'" using ledger_wfD(3) [OF funding_invD(1) [OF inv]] e by (auto simp: credits_def)
qed

text \<open>C12: Deposits are credited once. After any calls (one after the other, without a collision of commitments), every deposit
  credit in the ledger of any account stands for a stored, verified stablecoin import of that account with
  that amount, and no two credits stand for imports with the same nullifier: a receipt is worth its amount
  once, to one account.\<close>

theorem deposits_credited_once:
  assumes "run_admits funding_step funding_admits empty_account_store calls"
    and "st = run_calls funding_step empty_account_store calls"
  shows "list_all (credit_backed st) (credits st) \<and>
    distinct (map (\<lambda>e. map_option fim_nullifier (credited_import st e)) (credits st))"
proof (intro conjI)
  have inv: "funding_inv st" using funding_run_inv assms by simp
  show "list_all (credit_backed st) (credits st)"
    using funding_invD(2) [OF inv] by (auto simp: credits_def list_all_iff entries_ok_def entry_ok_def)
  show "distinct (map (\<lambda>e. map_option fim_nullifier (credited_import st e)) (credits st))"
    using credit_import_inj [OF inv] distinct_ledger [OF funding_invD(1) [OF inv]]
    unfolding distinct_map credits_def inj_on_def by (metis distinct_filter credits_def)
qed

lemma deposits_credited_once_witness:
  "list_all (credit_backed (run_calls funding_step empty_account_store demo_funding_calls))
     (credits (run_calls funding_step empty_account_store demo_funding_calls)) \<and>
   deposit_credits (run_calls funding_step empty_account_store demo_funding_calls) ''acct_0'' = 50000000"
  using deposits_credited_once [of demo_funding_calls] demo_funded by simp

section \<open>A submission that is tried again\<close>

text \<open>What a call leaves alone besides the ledger: the results of work orders, and which locks are held.\<close>

definition quiet :: "account_store \<Rightarrow> account_store \<Rightarrow> bool" where
  "quiet st st' \<longleftrightarrow> st_results st' = st_results st \<and> (\<forall>l. getPrivateCoordinatorLock st' l = getPrivateCoordinatorLock st l)"

lemma quiet_refl [simp]: "quiet st st"
  by (simp add: quiet_def)

lemma quiet_trans: "quiet st st' \<Longrightarrow> quiet st' st'' \<Longrightarrow> quiet st st''"
  by (simp add: quiet_def)

lemma quiet_result: "quiet st st' \<Longrightarrow> own_result st' owner w = own_result st owner w"
  by (simp add: quiet_def own_result_def getConnectorResultByWorkOrder_def)

lemma quiet_add [simp]: "quiet st (add_entry e st') = quiet st st'"
  by (simp add: quiet_def getPrivateCoordinatorLock_def)

definition lock_taken :: "string \<Rightarrow> PrivateCoordinatorLockRecordV1 \<Rightarrow> account_store \<Rightarrow> account_store" where
  "lock_taken i lock st = st\<lparr>st_locks := js_set (st_locks st) i lock\<rparr>"

lemma acquire_free:
  assumes "getPrivateCoordinatorLock st i = None"
  obtains lock where "acquirePrivateCoordinatorLock i run now ttl st = ((True, lock), lock_taken i lock st)" "lk_run lock = run"
  using assms by (simp add: acquirePrivateCoordinatorLock_def Let_def lock_taken_def)

lemma lock_taken_sel [simp]:
  "st_ledger (lock_taken i lock st) = st_ledger st" "st_imports (lock_taken i lock st) = st_imports st"
  "st_results (lock_taken i lock st) = st_results st"
  "getPrivateCoordinatorLock (lock_taken i lock st) j = (if j = i then Some lock else getPrivateCoordinatorLock st j)"
  by (simp_all add: lock_taken_def getPrivateCoordinatorLock_def)

lemma get_filter: "js_get (filter (\<lambda>(k, v). k \<noteq> i) m) j = (if j = i then None else js_get m j)"
  by (induction m) (auto simp: js_get_def)

text \<open>A lock that was free is free again after what ran while it was held.\<close>

lemma lock_round:
  assumes "getPrivateCoordinatorLock st i = None" "lk_run lock = run" "quiet (lock_taken i lock st) st'"
  shows "quiet st (releasePrivateCoordinatorLock i run st')" "st_ledger (releasePrivateCoordinatorLock i run st') = st_ledger st'"
    "st_imports (releasePrivateCoordinatorLock i run st') = st_imports st'"
  using assms by (auto simp: releasePrivateCoordinatorLock_def quiet_def getPrivateCoordinatorLock_def get_filter lock_taken_def)

definition reservation :: "funding_host \<Rightarrow> string \<Rightarrow> string \<Rightarrow> string \<Rightarrow> string \<Rightarrow> time \<Rightarrow> PrivateGholaBalanceLedgerEntryRecordV1" where
  "reservation h owner account w amount now =
     entry_of (fh_host h) owner account (reserve_key w) (balance_reserve_input w (requested_micro amount) now)"

lemma reservation_sel [simp]:
  "gle_id (reservation h owner account w amount now) = ledger_entry_id (fh_host h) account (reserve_key w)"
  "gle_account (reservation h owner account w amount now) = account"
  "gle_key (reservation h owner account w amount now) = reserve_key w"
  "gle_available (reservation h owner account w amount now) = - requested_micro amount"
  "gle_reserved (reservation h owner account w amount now) = requested_micro amount"
  "gle_open_notional (reservation h owner account w amount now) = 0"
  by (simp_all add: reservation_def balance_reserve_input_def)

lemma not_listed: "entry_with st account key = None \<Longrightarrow>
    find (\<lambda>e. gle_key e = key) (listGholaBalanceLedgerEntries st account n) = None"
  using listed_within by (fastforce simp: entry_with_None find_None_iff in_ledger_of)

lemma reserve_new:
  assumes wf: "ledger_wf st" and free: "id_free (fh_host h) st account (reserve_key w)"
    and none: "entry_with st account (reserve_key w) = None" and unlocked: "getPrivateCoordinatorLock st (balance_lock account) = None"
    and n: "0 < requested_micro amount" "requested_micro amount \<le> requested_micro policy"
      "requested_micro amount \<le> gbs_available (getGholaBalanceSnapshot st owner account)"
  obtains st' where "reserveGholaBalanceForPooledHyperliquidSubmit h owner account w amount policy now st =
      (Inr (reservation h owner account w amount now), st')"
    "st_ledger st' = st_ledger (add_entry (reservation h owner account w amount now) st)" "st_imports st' = st_imports st" "quiet st st'"
proof -
  let ?run = "gholaCommitment (fh_host h) ''ghola_balance_reserve_lock_run''
    (JObj [(''account_commitment'', JStr account), (''work_order_commitment'', JStr w)])"
  obtain lock where lock: "acquirePrivateCoordinatorLock (balance_lock account) ?run now
      (positiveIntegerEnv h ''GHOLA_PRIVATE_ACCOUNT_BALANCE_LOCK_TTL_MS'' 30000) st = ((True, lock), lock_taken (balance_lock account) lock st)"
    "lk_run lock = ?run" using acquire_free [OF unlocked] by blast
  let ?s = "lock_taken (balance_lock account) lock st" and ?r = "reservation h owner account w amount now"
  have same: "st_ledger ?s = st_ledger st" by simp
  have append: "appendGholaBalanceLedgerEntry (fh_host h) owner account (reserve_key w) (balance_reserve_input w (requested_micro amount) now) ?s
      = (?r, add_entry ?r ?s)"
    using append_cases [of ?s "fh_host h" account "reserve_key w"] wf free none
    by (simp add: same_ledger_wf [OF same] id_free_ledger [OF same] same_entry_with [OF same] reservation_def)
  have "reserveGholaBalanceForPooledHyperliquidSubmit h owner account w amount policy now st =
      (Inr ?r, releasePrivateCoordinatorLock (balance_lock account) ?run (add_entry ?r ?s))"
    unfolding reserveGholaBalanceForPooledHyperliquidSubmit_def requested_micro_def [symmetric]
      balance_reserve_input_def [symmetric] Let_def not_listed [OF none] lock option.case prod.case same_snapshot [OF same] append
    using n by simp
  moreover have "quiet ?s (add_entry ?r ?s)" by simp
  note round = lock_round [OF unlocked lock(2) this]
  moreover have "st_ledger (add_entry ?r ?s) = st_ledger (add_entry ?r st)" by (simp add: add_entry_def)
  ultimately show ?thesis using that round by simp
qed

definition release_of :: "funding_host \<Rightarrow> string \<Rightarrow> string \<Rightarrow> string \<Rightarrow> PrivateGholaBalanceLedgerEntryRecordV1 \<Rightarrow> string \<Rightarrow> time \<Rightarrow>
    PrivateGholaBalanceLedgerEntryRecordV1" where
  "release_of h owner account w r reason now = entry_of (fh_host h) owner account (release_key w)
     \<lparr>li_kind = Gl_margin_released, li_venue = At_hyperliquid, li_available = gle_reserved r, li_reserved = - gle_reserved r,
      li_open_notional = 0, li_reference = Some (gle_id r), li_reason = Some reason, li_created_at = now\<rparr>"

definition submitted_of :: "funding_host \<Rightarrow> string \<Rightarrow> string \<Rightarrow> string \<Rightarrow> PrivateGholaBalanceLedgerEntryRecordV1 \<Rightarrow> time \<Rightarrow>
    PrivateGholaBalanceLedgerEntryRecordV1" where
  "submitted_of h owner account w r now = entry_of (fh_host h) owner account (submitted_key w)
     \<lparr>li_kind = Gl_order_submitted, li_venue = At_hyperliquid, li_available = 0, li_reserved = 0,
      li_open_notional = gle_reserved r, li_reference = Some (gle_id r), li_reason = Some ''pooled_hyperliquid_order_submitted'',
      li_created_at = now\<rparr>"

lemma release_new:
  assumes "ledger_wf st" "id_free (fh_host h) st account (release_key w)" "entry_with st account (release_key w) = None"
    "0 < gle_reserved r"
  shows "releaseGholaBalanceReservationAfterFailedSubmit h owner account w r reason now st =
    add_entry (release_of h owner account w r reason now) st"
  using assms by (simp add: releaseGholaBalanceReservationAfterFailedSubmit_def append_cases release_of_def Let_def)

lemma mark_new:
  assumes "ledger_wf st" "id_free (fh_host h) st account (submitted_key w)" "entry_with st account (submitted_key w) = None"
    "0 < gle_reserved r"
  shows "markGholaBalanceOrderSubmitted h owner account w r now st = add_entry (submitted_of h owner account w r now) st"
  using assms by (simp add: markGholaBalanceOrderSubmitted_def append_cases submitted_of_def)

text \<open>A submission whose lock is free runs under its lock and gives it back.\<close>

lemma submit_unlocked:
  assumes "own_result st owner w = None" "getPrivateCoordinatorLock st (submit_lock w) = None"
  obtains lock where "lk_run lock = submit_run (fh_host h) owner approval w"
    "submit_work_order h owner approval pooled w submitted now st =
      (fst (submit_locked h owner pooled w submitted now (lock_taken (submit_lock w) lock st)),
       releasePrivateCoordinatorLock (submit_lock w) (submit_run (fh_host h) owner approval w)
         (snd (submit_locked h owner pooled w submitted now (lock_taken (submit_lock w) lock st))))"
proof -
  obtain lock where lock: "acquirePrivateCoordinatorLock (submit_lock w) (submit_run (fh_host h) owner approval w) now
      (positiveIntegerEnv h ''GHOLA_PRIVATE_ACCOUNT_CONNECTOR_SUBMIT_LOCK_TTL_MS'' 30000) st = ((True, lock), lock_taken (submit_lock w) lock st)"
    "lk_run lock = submit_run (fh_host h) owner approval w" using acquire_free [OF assms(2)] by blast
  then show ?thesis using that [of lock] by (simp add: submit_work_order_def assms(1) case_prod_beta)
qed

lemma locks_apart [simp]: "balance_lock account \<noteq> submit_lock w" "submit_lock w \<noteq> balance_lock account"
  by (simp_all add: balance_lock_def submit_lock_def)

text \<open>What a first submission of a work order finds: no result, no entry of its own, no held lock, and funds
  for the amount it asks for.\<close>

definition fresh_order :: "funding_host \<Rightarrow> string \<Rightarrow> string \<Rightarrow> string \<Rightarrow> PrivateConnectorWorkOrderRecordV1 \<Rightarrow> account_store \<Rightarrow> bool" where
  "fresh_order h owner amount policy w st \<longleftrightarrow>
     own_result st owner w = None \<and> ids_free (fh_host h) st (wo_account w) (wo_commitment w) \<and>
     entry_with st (wo_account w) (reserve_key (wo_commitment w)) = None \<and>
     entry_with st (wo_account w) (release_key (wo_commitment w)) = None \<and>
     entry_with st (wo_account w) (submitted_key (wo_commitment w)) = None \<and>
     getPrivateCoordinatorLock st (submit_lock w) = None \<and> getPrivateCoordinatorLock st (balance_lock (wo_account w)) = None \<and>
     0 < requested_micro amount \<and> requested_micro amount \<le> requested_micro policy \<and>
     requested_micro amount \<le> gbs_available (getGholaBalanceSnapshot st owner (wo_account w))"

lemma fresh_orderD:
  assumes "fresh_order h owner amount policy w st"
  shows "own_result st owner w = None" "ids_free (fh_host h) st (wo_account w) (wo_commitment w)"
    "entry_with st (wo_account w) (reserve_key (wo_commitment w)) = None"
    "entry_with st (wo_account w) (release_key (wo_commitment w)) = None"
    "entry_with st (wo_account w) (submitted_key (wo_commitment w)) = None"
    "getPrivateCoordinatorLock st (submit_lock w) = None" "getPrivateCoordinatorLock st (balance_lock (wo_account w)) = None"
    "0 < requested_micro amount" "requested_micro amount \<le> requested_micro policy"
    "requested_micro amount \<le> gbs_available (getGholaBalanceSnapshot st owner (wo_account w))"
  using assms by (simp_all add: fresh_order_def)

lemma ids_freeD:
  assumes "ids_free h st account w"
  shows "id_free h st account (reserve_key w)" "id_free h st account (release_key w)" "id_free h st account (submitted_key w)"
    "ledger_entry_id h account (reserve_key w) \<noteq> ledger_entry_id h account (release_key w)"
    "ledger_entry_id h account (reserve_key w) \<noteq> ledger_entry_id h account (submitted_key w)"
    "ledger_entry_id h account (release_key w) \<noteq> ledger_entry_id h account (submitted_key w)"
  using assms by (simp_all add: ids_free_def)

text \<open>The first attempt fails at the venue: the ledger gets a reservation and its release.\<close>

lemma failed_submission:
  assumes wf: "ledger_wf st" and fresh: "fresh_order h owner amount policy w st"
  obtains st' where "submit_work_order h owner approval (Some (amount, policy)) w (Inl e) now st = (Inl e, st')" "quiet st st'"
    "st_ledger st' = st_ledger (add_entry (release_of h owner (wo_account w) (wo_commitment w)
        (reservation h owner (wo_account w) (wo_commitment w) amount now) e now)
      (add_entry (reservation h owner (wo_account w) (wo_commitment w) amount now) st))"
proof -
  note f = fresh_orderD [OF fresh]
  note ids = ids_freeD [OF f(2)]
  let ?r = "reservation h owner (wo_account w) (wo_commitment w) amount now"
  let ?rel = "release_of h owner (wo_account w) (wo_commitment w) ?r e now"
  let ?run = "submit_run (fh_host h) owner approval w"
  obtain lock where lock: "lk_run lock = ?run"
    "submit_work_order h owner approval (Some (amount, policy)) w (Inl e) now st =
      (fst (submit_locked h owner (Some (amount, policy)) w (Inl e) now (lock_taken (submit_lock w) lock st)),
       releasePrivateCoordinatorLock (submit_lock w) ?run
         (snd (submit_locked h owner (Some (amount, policy)) w (Inl e) now (lock_taken (submit_lock w) lock st))))"
    using submit_unlocked [OF f(1,6)] by blast
  let ?s = "lock_taken (submit_lock w) lock st"
  have same: "st_ledger ?s = st_ledger st" by simp
  have own: "own_result ?s owner w = None" using f(1) by (simp add: own_result_def getConnectorResultByWorkOrder_def)
  have wf': "ledger_wf ?s" using wf by (simp add: same_ledger_wf [OF same])
  obtain s1 where s1: "reserveGholaBalanceForPooledHyperliquidSubmit h owner (wo_account w) (wo_commitment w) amount policy now ?s = (Inr ?r, s1)"
    "st_ledger s1 = st_ledger (add_entry ?r ?s)" "quiet ?s s1"
    using reserve_new [OF wf', of h "wo_account w" "wo_commitment w" amount policy owner] ids(1) f
    by (auto simp: id_free_ledger [OF same] same_entry_with [OF same] same_snapshot [OF same])
  have id: "js_get (st_ledger st) (gle_id ?r) = None" using fresh_id [OF wf ids(1) f(3)] by simp
  have s1': "st_ledger s1 = st_ledger (add_entry ?r st)" using s1(2) by (simp add: add_entry_def)
  have "ledger_wf s1" using ledger_wf_add [OF wf id] f(3) same_ledger_wf [OF s1'] by simp
  moreover have "id_free (fh_host h) s1 (wo_account w) (release_key (wo_commitment w))"
    using id_free_add [OF ids(2), of ?r] ids(4) id_free_ledger [OF s1'] by simp
  moreover have "entry_with s1 (wo_account w) (release_key (wo_commitment w)) = None"
    using f(4) by (simp add: same_entry_with [OF s1'] entry_with_add [OF id])
  ultimately have rel: "releaseGholaBalanceReservationAfterFailedSubmit h owner (wo_account w) (wo_commitment w) ?r e now s1 = add_entry ?rel s1"
    using f(8) by (intro release_new) simp_all
  have run: "submit_locked h owner (Some (amount, policy)) w (Inl e) now ?s = (Inl e, add_entry ?rel s1)"
    using own s1(1) rel by (simp add: submit_locked_def)
  have "quiet ?s (add_entry ?rel s1)" using s1(3) by simp
  note round = lock_round [OF f(6) lock(1) this]
  show ?thesis
    using that [of "releasePrivateCoordinatorLock (submit_lock w) ?run (add_entry ?rel s1)"] lock(2) run round s1'
    by (simp add: add_entry_def)
qed

lemma found_in_listed:
  assumes "ledger_wf st" "entry_with st account key = Some r" "length (ledger_of st account) \<le> 250"
  shows "find (\<lambda>e. gle_key e = key) (listGholaBalanceLedgerEntries st account 250) = Some r"
proof -
  have listed: "set (listGholaBalanceLedgerEntries st account 250) = set (ledger_of st account)"
    using assms(3) by (intro listed_set) simp
  have "r \<in> set (ledger_of st account)" "gle_key r = key" using entry_with_Some [OF assms(2)] by (simp_all add: in_ledger_of)
  then obtain x where x: "find (\<lambda>e. gle_key e = key) (listGholaBalanceLedgerEntries st account 250) = Some x"
    using listed by (cases "find (\<lambda>e. gle_key e = key) (listGholaBalanceLedgerEntries st account 250)") (auto simp: find_None_iff)
  then have "x \<in> set (ledger_of st account)" "gle_key x = key" using find_Some_in [OF x] listed by simp_all
  then show ?thesis using x entry_with_unique [OF assms(1), of x account key] assms(2) by (simp add: in_ledger_of)
qed

text \<open>The second attempt finds the reservation, although it was released, and does not look at the balance.\<close>

lemma retried_submission:
  assumes wf: "ledger_wf st" and order: "own_result st owner w = None" "getPrivateCoordinatorLock st (submit_lock w) = None"
      "0 < requested_micro amount" "requested_micro amount \<le> requested_micro policy"
    and r: "entry_with st (wo_account w) (reserve_key (wo_commitment w)) = Some r" "0 < gle_reserved r"
    and new: "entry_with st (wo_account w) (submitted_key (wo_commitment w)) = None"
      "id_free (fh_host h) st (wo_account w) (submitted_key (wo_commitment w))"
    and short: "length (ledger_of st (wo_account w)) \<le> 250"
  obtains x st' where "submit_work_order h owner approval (Some (amount, policy)) w (Inr res) now st = (Inr x, st')"
    "st_ledger st' = st_ledger (add_entry (submitted_of h owner (wo_account w) (wo_commitment w) r now) st)"
proof -
  let ?run = "submit_run (fh_host h) owner approval w" and ?sub = "submitted_of h owner (wo_account w) (wo_commitment w) r now"
  obtain lock where lock: "lk_run lock = ?run"
    "submit_work_order h owner approval (Some (amount, policy)) w (Inr res) now st =
      (fst (submit_locked h owner (Some (amount, policy)) w (Inr res) now (lock_taken (submit_lock w) lock st)),
       releasePrivateCoordinatorLock (submit_lock w) ?run
         (snd (submit_locked h owner (Some (amount, policy)) w (Inr res) now (lock_taken (submit_lock w) lock st))))"
    using submit_unlocked [OF order(1,2)] by blast
  let ?s = "lock_taken (submit_lock w) lock st"
  have same: "st_ledger ?s = st_ledger st" by simp
  have own: "own_result ?s owner w = None" using order(1) by (simp add: own_result_def getConnectorResultByWorkOrder_def)
  have "reserveGholaBalanceForPooledHyperliquidSubmit h owner (wo_account w) (wo_commitment w) amount policy now ?s = (Inr r, ?s)"
    using order(3,4) unfolding reserveGholaBalanceForPooledHyperliquidSubmit_def requested_micro_def [symmetric] Let_def
      same_listed [OF same] found_in_listed [OF wf r(1) short] option.case by simp
  moreover have "markGholaBalanceOrderSubmitted h owner (wo_account w) (wo_commitment w) r now ?s = add_entry ?sub ?s"
    using wf new r(2) by (intro mark_new) (simp_all add: same_ledger_wf [OF same] id_free_ledger [OF same] same_entry_with [OF same])
  ultimately have run: "submit_locked h owner (Some (amount, policy)) w (Inr res) now ?s =
      map_prod return_ok id (store_submission owner w res now (add_entry ?sub ?s))"
    using own by (simp add: submit_locked_def)
  have "st_ledger (snd (store_submission owner w res now (add_entry ?sub ?s))) = st_ledger (add_entry ?sub st)"
    using store_submission_money [of "add_entry ?sub ?s" owner w res now] by (simp add: same_money_def add_entry_def)
  then show ?thesis using that lock(2) run
    by (simp add: map_prod_def case_prod_beta releasePrivateCoordinatorLock_def split: option.splits)
qed

text \<open>C13: A failed order is retried without funds. On an account with at most 248 ledger entries (the code looks
  a reservation up among the newest 250), when the venue refuses a first submission, the reservation of its amount is released; when the same work order is submitted again and the venue accepts
  it, the code finds the old reservation by its key and submits the order: available and reserved balance
  are what they were before the first attempt, and the open notional has grown by the amount, so the order
  at the venue is covered by nothing and the amount can be spent again.\<close>

theorem retry_submits_unfunded:
  assumes "funding_inv st" and "fresh_order h owner amount policy w st" and "length (ledger_of st (wo_account w)) \<le> 248"
    and "submit_work_order h owner approval (Some (amount, policy)) w (Inl e) now st = (answer, st1)"
    and "submit_work_order h owner approval' (Some (amount, policy)) w (Inr res) now' st1 = (answer', st2)"
  shows "answer = Inl e \<and> \<not> isl answer' \<and>
    gbs_available (getGholaBalanceSnapshot st2 owner (wo_account w)) = gbs_available (getGholaBalanceSnapshot st owner (wo_account w)) \<and>
    gbs_reserved (getGholaBalanceSnapshot st2 owner (wo_account w)) = gbs_reserved (getGholaBalanceSnapshot st owner (wo_account w)) \<and>
    gbs_open_notional (getGholaBalanceSnapshot st2 owner (wo_account w)) =
      gbs_open_notional (getGholaBalanceSnapshot st owner (wo_account w)) + requested_micro amount"
proof -
  note wf = funding_invD(1) [OF assms(1)] and f = fresh_orderD [OF assms(2)]
  note ids = ids_freeD [OF f(2)]
  let ?a = "wo_account w" and ?c = "wo_commitment w"
  let ?r = "reservation h owner ?a ?c amount now"
  let ?rel = "release_of h owner ?a ?c ?r e now" and ?sub = "submitted_of h owner ?a ?c ?r now'"
  let ?s1 = "add_entry ?r st" let ?s2 = "add_entry ?rel ?s1" let ?s3 = "add_entry ?sub ?s2"
  have sel: "gle_id ?rel = ledger_entry_id (fh_host h) ?a (release_key ?c)" "gle_account ?rel = ?a" "gle_key ?rel = release_key ?c"
    "gle_id ?sub = ledger_entry_id (fh_host h) ?a (submitted_key ?c)" "gle_account ?sub = ?a"
    "gle_available ?rel = requested_micro amount" "gle_reserved ?rel = - requested_micro amount" "gle_open_notional ?rel = 0"
    "gle_available ?sub = 0" "gle_reserved ?sub = 0" "gle_open_notional ?sub = requested_micro amount"
    by (simp_all add: release_of_def submitted_of_def)
  have id1: "js_get (st_ledger st) (gle_id ?r) = None" using fresh_id [OF wf ids(1) f(3)] by simp
  have id2: "js_get (st_ledger ?s1) (gle_id ?rel) = None"
    using fresh_id [OF wf ids(2) f(4)] ids(4) sel(1) by (simp add: add_entry_def)
  have id3: "js_get (st_ledger ?s2) (gle_id ?sub) = None"
    using fresh_id [OF wf ids(3) f(5)] ids(5,6) sel(1,4) by (simp add: add_entry_def)
  obtain st1' where first: "answer = Inl e" "st1 = st1'" "quiet st st1'" "st_ledger st1' = st_ledger ?s2"
    using failed_submission [OF wf assms(2), of approval e now] assms(4) by auto
  have with_r: "entry_with ?s2 ?a (reserve_key ?c) = Some ?r" "entry_with ?s2 ?a (submitted_key ?c) = None"
    using f(3,5) by (simp_all add: entry_with_add [OF id2] entry_with_add [OF id1] sel)
  have wf2: "ledger_wf ?s2"
    using f(3,4) by (intro ledger_wf_add wf id1 id2) (simp_all add: sel entry_with_add [OF id1])
  have free: "id_free (fh_host h) ?s2 ?a (submitted_key ?c)"
    using ids by (intro id_free_add) (simp_all add: sel)
  have len: "length (ledger_of ?s2 ?a) \<le> 250" using assms(3) by (simp add: ledger_of_add [OF id2] ledger_of_add [OF id1] sel)
  note eq = first(4)
  have before: "ledger_wf st1'" "own_result st1' owner w = None" "getPrivateCoordinatorLock st1' (submit_lock w) = None"
    "entry_with st1' ?a (reserve_key ?c) = Some ?r" "0 < gle_reserved ?r" "entry_with st1' ?a (submitted_key ?c) = None"
    "id_free (fh_host h) st1' ?a (submitted_key ?c)" "length (ledger_of st1' ?a) \<le> 250"
    using wf2 with_r free len f(1,6,8) quiet_result [OF first(3)] first(3)
    by (simp_all add: same_ledger_wf [OF eq] same_entry_with [OF eq] id_free_ledger [OF eq] ledger_of_def eq quiet_def)
  obtain x st2' where "submit_work_order h owner approval' (Some (amount, policy)) w (Inr res) now' st1' = (Inr x, st2')"
    "st_ledger st2' = st_ledger (add_entry ?sub st1')"
    using retried_submission [OF before(1,2,3) f(8,9) before(4-8)] by blast
  then have second: "answer' = Inr x" "st2 = st2'" "st_ledger st2' = st_ledger (add_entry ?sub st1')"
    using assms(5) first(2) by simp_all
  have led: "st_ledger st2 = st_ledger ?s3" using second(2,3) eq by (simp add: add_entry_def)
  have sums: "ledger_sum fn ?s3 ?a = ledger_sum fn st ?a + fn ?r + fn ?rel + fn ?sub" for fn
    by (simp add: ledger_sum_add [OF id3] ledger_sum_add [OF id2] ledger_sum_add [OF id1] sel)
  have "length (ledger_of ?s3 ?a) \<le> 1000"
    using assms(3) by (simp add: ledger_of_add [OF id3] ledger_of_add [OF id2] ledger_of_add [OF id1] sel)
  note snap = snapshot_sums [OF this] and snap0 = snapshot_sums [of st ?a]
  have "0 \<le> ledger_sum gle_open_notional st ?a" by (rule open_nonneg [OF assms(1)])
  then show ?thesis using first(1) second(1) f(8) assms(3)
    by (simp add: same_snapshot [OF led] snap snap0 sums sel)
qed

definition demo_order_hash :: "string \<Rightarrow> string" where
  "demo_order_hash s = (if js_includes ''_reserve:'' s then ''1'' else if js_includes ''_release:'' s then ''2'' else ''3'')"

definition demo_order_host :: funding_host where
  "demo_order_host = demo_funding_host\<lparr>fh_host := \<lparr>sha256_hex = demo_order_hash, locale_le = (\<le>)\<rparr>\<rparr>"

definition demo_credit :: PrivateGholaBalanceLedgerEntryRecordV1 where
  "demo_credit = \<lparr>gle_id = ''e0'', gle_owner = ''o'', gle_account = ''acct_0'', gle_key = credit_key ''funding_import_0'',
     gle_kind = Gl_deposit_credit, gle_venue = At_ghola, gle_available = 50000000, gle_reserved = 0, gle_open_notional = 0,
     gle_realized_pnl = 0, gle_unrealized_pnl = 0, gle_reference = Some ''funding_import_0'', gle_reason = None, gle_created_at = 5\<rparr>"

definition demo_funded_store :: account_store where
  "demo_funded_store = empty_account_store\<lparr>st_ledger := [(''e0'', demo_credit)], st_imports := [(''funding_import_0'', demo_import)]\<rparr>"

definition demo_order :: PrivateConnectorWorkOrderRecordV1 where
  "demo_order = \<lparr>wo_commitment = ''w'', wo_owner = ''o'', wo_intent_id = ''i'', wo_account = ''acct_0'', wo_action = ''a'',
     wo_preview = ''p'', wo_approval = Some ''ap'', wo_plan = None, wo_platform = Hyperliquid_style_market, wo_status = ''ready'',
     wo_order = [], wo_created_at = 5, wo_updated_at = 5\<rparr>"

definition demo_venue_result :: connector_result where
  "demo_venue_result = \<lparr>res_commitment = ''r'', res_status = ''submitted'', res_json = JNull, res_created_at = 20, res_updated_at = 20\<rparr>"

lemma demo_store_inv: "funding_inv demo_funded_store"
  by (simp add: demo_funded_store_def empty_account_store_def ledger_defs jm.all_entries_def js_wf_def js_get_def js_values_def
      demo_credit_def demo_import_def entry_shape_def demo_deposit_fields)

lemma demo_fresh_order: "fresh_order demo_order_host ''o'' ''25'' ''50'' demo_order demo_funded_store"
  by code_simp

lemma retry_submits_unfunded_witness:
  "let st1 = snd (submit_work_order demo_order_host ''o'' ''ap'' (Some (''25'', ''50'')) demo_order (Inl ''venue_rejected'') 10 demo_funded_store);
       st2 = snd (submit_work_order demo_order_host ''o'' ''ap'' (Some (''25'', ''50'')) demo_order (Inr demo_venue_result) 20 st1)
   in gbs_available (getGholaBalanceSnapshot st2 ''o'' ''acct_0'') = 50000000 \<and>
      gbs_reserved (getGholaBalanceSnapshot st2 ''o'' ''acct_0'') = 0 \<and>
      gbs_open_notional (getGholaBalanceSnapshot st2 ''o'' ''acct_0'') = 25000000"
proof -
  have len: "length (ledger_of demo_funded_store (wo_account demo_order)) \<le> 248"
    and snap: "gbs_available (getGholaBalanceSnapshot demo_funded_store ''o'' ''acct_0'') = 50000000"
      "gbs_reserved (getGholaBalanceSnapshot demo_funded_store ''o'' ''acct_0'') = 0"
      "gbs_open_notional (getGholaBalanceSnapshot demo_funded_store ''o'' ''acct_0'') = 0"
      "requested_micro ''25'' = 25000000" "wo_account demo_order = ''acct_0''" by code_simp+
  show ?thesis
    using retry_submits_unfunded [OF demo_store_inv demo_fresh_order len surjective_pairing surjective_pairing,
        of "''ap''" "''venue_rejected''" 10 "''ap''" demo_venue_result 20] snap
    by (simp add: Let_def split_def)
qed

section \<open>What an import needs in production\<close>

text \<open>The answers of the verifier service that count: a health that is neither stale nor red, and an answer
  on the receipt that names every commitment, repeats destination, amount and asset of the instruction, and
  is deep and fresh enough.\<close>

definition observed_stamp :: "(string \<times> json) list \<Rightarrow> string" where
  "observed_stamp body = or_text (stringValue (obj_field body ''observed_at'')) (stringValue (obj_field body ''indexed_at''))"

definition fresh_stamp :: "funding_host \<Rightarrow> time \<Rightarrow> string \<Rightarrow> bool" where
  "fresh_stamp h now s \<longleftrightarrow> s \<noteq> [] \<and>
     (case fh_parse_date h s of None \<Rightarrow> False | Some t \<Rightarrow> now - t \<le> vc_max_stale_ms (verifierConfig h))"

definition healthy_answer :: "funding_host \<Rightarrow> time \<Rightarrow> fetch_answer \<Rightarrow> bool" where
  "healthy_answer h now a \<longleftrightarrow> (case a of
       Fetch_threw \<Rightarrow> False
     | Fetched status body \<Rightarrow> fetch_ok status \<and> fresh_stamp h now (observed_stamp (asRecord body)) \<and>
         obj_field (asRecord body) ''status'' \<noteq> JStr ''red'')"

definition vouching_answer :: "funding_host \<Rightarrow> PrivateFundingInstructionRecordV1 \<Rightarrow> time \<Rightarrow> fetch_answer \<Rightarrow> bool" where
  "vouching_answer h i now a \<longleftrightarrow> (case a of
       Fetch_threw \<Rightarrow> False
     | Fetched status answer \<Rightarrow>
         let body = asRecord answer; get = (\<lambda>k. stringValue (obj_field body k)) in
         fetch_ok status \<and> obj_field body ''ok'' \<noteq> JBool False \<and>
         list_all (\<lambda>k. get k \<noteq> []) [''receipt_commitment'', ''nullifier_commitment'', ''verifier_commitment'', ''verifier_head_commitment''] \<and>
         get ''destination_commitment'' = fin_destination_commitment i \<and> get ''amount_bucket'' = fin_amount i \<and>
         get ''asset_bucket'' = fin_asset i \<and>
         \<not> num_less (floorValue (obj_field body ''confirmation_depth'')) (num (vc_min_confirmations (verifierConfig h))) \<and>
         fresh_stamp h now (observed_stamp body))"

definition answer_nullifier :: "fetch_answer \<Rightarrow> string" where
  "answer_nullifier a = (case a of Fetch_threw \<Rightarrow> [] | Fetched status body \<Rightarrow> stringValue (obj_field (asRecord body) ''nullifier_commitment''))"

definition health_answer :: "funding_host \<Rightarrow> fetch_answer" where
  "health_answer h = fh_get_health h (or_text (vc_health_url (verifierConfig h))
     (healthUrlFromVerifyUrl h (vc_verify_url (verifierConfig h))))"

definition receipt_answer :: "funding_host \<Rightarrow> PrivateFundingInstructionRecordV1 \<Rightarrow> string \<Rightarrow> fetch_answer" where
  "receipt_answer h i receipt = fh_post_verify h (vc_verify_url (verifierConfig h)) (verify_request (verifierConfig h) i receipt)"

lemma not_stale: "s \<noteq> [] \<and> \<not> isStale h s now (vc_max_stale_ms (verifierConfig h)) \<longleftrightarrow> fresh_stamp h now s"
  by (auto simp: isStale_def fresh_stamp_def split: option.splits)

lemma health_green:
  assumes "fh_env h ''NODE_ENV'' = Some ''production''"
  shows "vh_green (customShieldedVerifierHealth h now) \<longleftrightarrow> vc_mode (verifierConfig h) = Verifier_http \<and>
    vc_verify_url (verifierConfig h) \<noteq> [] \<and> healthy_answer h now (health_answer h)"
proof -
  have mode: "vc_mode (verifierConfig h) = Verifier_local_test \<or> vc_mode (verifierConfig h) = Verifier_http"
    by (simp add: verifierConfig_def)
  have body: "vh_green (health_of_body h now b) \<longleftrightarrow> fresh_stamp h now (observed_stamp b) \<and> obj_field b ''status'' \<noteq> JStr ''red''" for b
    by (simp add: health_of_body_def Let_def verifier_health_def not_stale [symmetric] observed_stamp_def)
  show ?thesis
  proof (cases "health_answer h")
    case Fetch_threw
    then show ?thesis using mode assms
      by (auto simp: customShieldedVerifierHealth_def Let_def verifier_health_def healthy_answer_def health_answer_def)
  next
    case (Fetched status b)
    then show ?thesis using mode assms body
      by (auto simp: customShieldedVerifierHealth_def Let_def verifier_health_def healthy_answer_def health_answer_def)
  qed
qed

lemma parse_accepts:
  "(\<exists>v. parseVerifierResult h (asRecord answer) i now = Inr v \<and> vr_nullifier v = n) \<and> fetch_ok status \<and>
     obj_field (asRecord answer) ''ok'' \<noteq> JBool False \<longleftrightarrow>
   vouching_answer h i now (Fetched status answer) \<and> answer_nullifier (Fetched status answer) = n"
  unfolding parseVerifierResult_def vouching_answer_def answer_nullifier_def observed_stamp_def [symmetric] Let_def fresh_stamp_def
  by (auto split: if_splits option.splits)

lemma verify_accepts:
  assumes "fh_env h ''NODE_ENV'' = Some ''production''"
  shows "(\<exists>v. verifyCustomShieldedDepositReceipt h i receipt now = Inr v \<and> vr_nullifier v = n) \<longleftrightarrow>
    vc_mode (verifierConfig h) = Verifier_http \<and> vc_verify_url (verifierConfig h) \<noteq> [] \<and>
    healthy_answer h now (health_answer h) \<and> vouching_answer h i now (receipt_answer h i receipt) \<and>
    answer_nullifier (receipt_answer h i receipt) = n"
proof (cases "receipt_answer h i receipt")
  case Fetch_threw
  then show ?thesis
    by (auto simp: verifyCustomShieldedDepositReceipt_def Let_def health_green [OF assms] receipt_answer_def vouching_answer_def)
next
  case (Fetched status answer)
  then show ?thesis using parse_accepts [of h answer i now n status]
    by (auto simp: verifyCustomShieldedDepositReceipt_def Let_def health_green [OF assms] receipt_answer_def)
qed

text \<open>C19: What an import needs in production. A deposit is imported exactly when the instruction exists,
  belongs to the caller, is unexpired and was not imported; the service is reached over HTTP, healthy and
  fresh; its answer on the receipt vouches for the destination, amount and asset of the instruction at the
  configured depth; the nullifier it names was never seen; and the account is stored. The local test mode,
  which vouches for any receipt of the right spelling, imports nothing.\<close>

theorem import_needs_vouching:
  assumes "fh_env h ''NODE_ENV'' = Some ''production''"
  shows "\<not> isl (fst (fundingImportFromBody h body owner now st)) \<longleftrightarrow>
    (let intent = stringValue (obj_field (asRecord body) ''funding_intent_id'');
         receipt = stringValue (obj_field (asRecord body) ''receipt_id'')
     in intent \<noteq> [] \<and> receipt \<noteq> [] \<and>
        (case getPrivateFundingInstruction st intent of
           None \<Rightarrow> False
         | Some i \<Rightarrow> fin_owner i = owner \<and> fin_status i \<noteq> Fund_imported \<and>
             \<not> isPrivateAccountRecordExpired (fin_expires_at i) now \<and>
             vc_mode (verifierConfig h) = Verifier_http \<and> vc_verify_url (verifierConfig h) \<noteq> [] \<and>
             healthy_answer h now (health_answer h) \<and> vouching_answer h i now (receipt_answer h i receipt) \<and>
             getPrivateFundingImportByNullifier st (answer_nullifier (receipt_answer h i receipt)) = None \<and>
             getPrivateAccountByCommitment st (fin_account i) \<noteq> None))"
proof -
  let ?intent = "stringValue (obj_field (asRecord body) ''funding_intent_id'')"
  let ?receipt = "stringValue (obj_field (asRecord body) ''receipt_id'')"
  show ?thesis
  proof (cases "getPrivateFundingInstruction st ?intent")
    case None
    then show ?thesis by (simp add: fundingImportFromBody_def Let_def)
  next
    case (Some i)
    show ?thesis
    proof (cases "verifyCustomShieldedDepositReceipt h i ?receipt now")
      case (Inl e)
      then show ?thesis using Some verify_accepts [OF assms, of i ?receipt now "answer_nullifier (receipt_answer h i ?receipt)"]
        by (auto simp: fundingImportFromBody_def Let_def)
    next
      case (Inr v)
      then show ?thesis using Some verify_accepts [OF assms, of i ?receipt now "vr_nullifier v"]
        by (simp add: fundingImportFromBody_def Let_def split: option.split)
    qed
  qed
qed

definition demo_service_env :: "string \<Rightarrow> string option" where
  "demo_service_env name = (if name = ''NODE_ENV'' then Some ''production''
     else if name = ''GHOLA_CUSTOM_SHIELDED_VERIFIER_URL'' then Some ''v'' else None)"

definition demo_service_host :: funding_host where
  "demo_service_host = \<lparr>fh_host = \<lparr>sha256_hex = (\<lambda>s. ''0''), locale_le = (\<le>)\<rparr>, fh_env = demo_service_env,
     fh_parse_date = (\<lambda>s. Some 1500), fh_health_url = (\<lambda>u. Some ''h''),
     fh_get_health = (\<lambda>u. Fetched 200 (JObj [(''observed_at'', JStr ''d''), (''status'', JStr ''green'')])),
     fh_post_verify = (\<lambda>u j. Fetched 200 (JObj [(''receipt_commitment'', JStr ''r''), (''nullifier_commitment'', JStr ''n''),
       (''verifier_commitment'', JStr ''v''), (''verifier_head_commitment'', JStr ''h''), (''observed_at'', JStr ''d''),
       (''destination_commitment'', JStr ''funding_destination_0''), (''amount_bucket'', JStr ''50''),
       (''asset_bucket'', JStr ''stablecoin''), (''confirmation_depth'', JNum (num 3))]))\<rparr>"

definition demo_instructed_store :: account_store where
  "demo_instructed_store = empty_account_store\<lparr>st_instructions := [(''pact_funding_1'', demo_instruction)],
     st_accounts := [(''acct_0'', stored_account (fh_host demo_funding_host) ''o'' 1000)]\<rparr>"

lemma import_needs_vouching_witness:
  "\<not> isl (fst (fundingImportFromBody demo_service_host demo_deposit_receipt ''o'' 2000 demo_instructed_store))"
proof -
  have env: "fh_env demo_service_host ''NODE_ENV'' = Some ''production''" by code_simp
  have i: "getPrivateFundingInstruction demo_instructed_store ''pact_funding_1'' = Some demo_instruction"
    "getPrivateAccountByCommitment demo_instructed_store (fin_account demo_instruction) \<noteq> None"
    "getPrivateFundingImportByNullifier demo_instructed_store n = None" for n
    by (simp_all add: demo_instructed_store_def empty_account_store_def getPrivateFundingInstruction_def
        getPrivateAccountByCommitment_def getPrivateFundingImportByNullifier_def js_get_def demo_instruction_def)
  have service: "healthy_answer demo_service_host 2000 (health_answer demo_service_host)"
    "vouching_answer demo_service_host demo_instruction 2000 (receipt_answer demo_service_host demo_instruction ''custom_receipt_7'')"
    "vc_mode (verifierConfig demo_service_host) = Verifier_http" "vc_verify_url (verifierConfig demo_service_host) \<noteq> []"
    "fin_owner demo_instruction = ''o''" "fin_status demo_instruction \<noteq> Fund_imported"
    "\<not> isPrivateAccountRecordExpired (fin_expires_at demo_instruction) 2000" by code_simp+
  show ?thesis
    unfolding import_needs_vouching [OF env] Let_def demo_deposit_fields i(1) option.case
    using i(2,3) service by simp
qed

section \<open>An import by the other route\<close>

text \<open>The two tables an import and its credit change.\<close>

definition deposits :: "account_store \<Rightarrow> PrivateGholaBalanceLedgerEntryRecordV1 list \<times> (string, PrivateFundingImportRecordV1) jsmap" where
  "deposits st = (credits st, st_imports st)"

lemma credits_append:
  "li_kind inp \<noteq> Gl_deposit_credit \<Longrightarrow> deposits (snd (appendGholaBalanceLedgerEntry h owner account key inp st)) = deposits st"
  using values_add [of st "entry_of h owner account key inp"]
  by (auto simp: append_put putGholaBalanceLedgerEntry_def deposits_def credits_def add_entry_def split: option.split)

lemma credits_money: "same_money st st' \<Longrightarrow> deposits st' = deposits st"
  by (simp add: same_money_def deposits_def credits_def)

lemma credits_reserve:
  "deposits (snd (reserveGholaBalanceForPooledHyperliquidSubmit h owner account w amount policy now st)) = deposits st"
proof -
  obtain x s1 where lock: "acquirePrivateCoordinatorLock (balance_lock account) (gholaCommitment (fh_host h) ''ghola_balance_reserve_lock_run''
     (JObj [(''account_commitment'', JStr account), (''work_order_commitment'', JStr w)])) now
      (positiveIntegerEnv h ''GHOLA_PRIVATE_ACCOUNT_BALANCE_LOCK_TTL_MS'' 30000) st = (x, s1)" by fastforce
  have "deposits s1 = deposits st" using credits_money [OF acquire_money [OF lock]] .
  moreover have "deposits (releasePrivateCoordinatorLock i run s) = deposits s" for i run s
    by (rule credits_money) simp
  ultimately show ?thesis
    by (simp add: reserveGholaBalanceForPooledHyperliquidSubmit_def Let_def lock case_prod_beta credits_append split: option.split)
qed

lemma credits_submit: "deposits (snd (submit_work_order h owner approval pooled w submitted now st)) = deposits st"
proof -
  have stored: "deposits (snd (store_submission owner w res now s)) = deposits s" for res s
    by (rule credits_money [OF store_submission_money])
  have released: "deposits (releaseGholaBalanceReservationAfterFailedSubmit h owner a c r e now s) = deposits s" for a c r e s
    by (simp add: releaseGholaBalanceReservationAfterFailedSubmit_def Let_def credits_append)
  have marked: "deposits (markGholaBalanceOrderSubmitted h owner a c r now s) = deposits s" for a c r s
    by (simp add: markGholaBalanceOrderSubmitted_def credits_append)
  have locked: "deposits (snd (submit_locked h owner pooled w submitted now s)) = deposits s" for s
  proof (cases pooled)
    case None
    then show ?thesis by (simp add: submit_locked_def stored split: option.split sum.split)
  next
    case (Some p)
    then show ?thesis
      using credits_reserve [of h owner "wo_account w" "wo_commitment w" "fst p" "snd p" now s]
      by (cases p; cases "reserveGholaBalanceForPooledHyperliquidSubmit h owner (wo_account w) (wo_commitment w) (fst p) (snd p) now s")
         (auto simp: submit_locked_def stored released marked split: option.split sum.split)
  qed
  obtain x st1 where lock: "acquirePrivateCoordinatorLock (submit_lock w) (submit_run (fh_host h) owner approval w)
      now (positiveIntegerEnv h ''GHOLA_PRIVATE_ACCOUNT_CONNECTOR_SUBMIT_LOCK_TTL_MS'' 30000) st = (x, st1)" by fastforce
  have "deposits st1 = deposits st" using credits_money [OF acquire_money [OF lock]] .
  moreover have "deposits (releasePrivateCoordinatorLock i run s) = deposits s" for i run s by (rule credits_money) simp
  ultimately show ?thesis
    by (simp add: submit_work_order_def Let_def lock case_prod_beta locked split: option.split)
qed

definition uncredited :: "string \<Rightarrow> PrivateFundingImportRecordV1 \<Rightarrow> account_store \<Rightarrow> bool" where
  "uncredited c m st \<longleftrightarrow> js_get (st_imports st) c = Some m \<and> fim_verifier_status m = Ver_verified \<and>
     list_all (\<lambda>e. gle_reference e \<noteq> Some c) (credits st)"

lemma uncredited_same: "deposits st' = deposits st \<Longrightarrow> uncredited c m st' = uncredited c m st"
  by (simp add: uncredited_def deposits_def)

lemma credit_credits:
  "credits (snd (gholaBalanceImportCreditFromBody h body owner now st)) = credits st \<or>
   (\<exists>m e. fst (fundingImportFromBody h body owner now st) = Inr m \<and> gle_reference e = Some (fim_commitment m) \<and>
      credits (snd (gholaBalanceImportCreditFromBody h body owner now st)) = credits st @ [e])"
  and credit_imports: "st_imports (snd (gholaBalanceImportCreditFromBody h body owner now st)) =
    st_imports (snd (fundingImportFromBody h body owner now st))"
proof -
  obtain a st' where step: "fundingImportFromBody h body owner now st = (a, st')" by fastforce
  have ledger: "st_ledger st' = st_ledger st" using import_ok(1) import_failed(1) step by (cases a) blast+
  have put: "credits (snd (putGholaBalanceLedgerEntry e st')) = credits st \<or>
      credits (snd (putGholaBalanceLedgerEntry e st')) = credits st @ [e]"
    "st_imports (snd (putGholaBalanceLedgerEntry e st')) = st_imports st'" for e
    using values_add [of st' e] ledger
    by (auto simp: putGholaBalanceLedgerEntry_def credits_def add_entry_def split: option.split)
  have same: "credits st' = credits st" using ledger by (simp add: credits_def)
  show "credits (snd (gholaBalanceImportCreditFromBody h body owner now st)) = credits st \<or>
   (\<exists>m e. fst (fundingImportFromBody h body owner now st) = Inr m \<and> gle_reference e = Some (fim_commitment m) \<and>
      credits (snd (gholaBalanceImportCreditFromBody h body owner now st)) = credits st @ [e])"
  proof (cases a)
    case (Inl e)
    then show ?thesis using step same by (simp add: gholaBalanceImportCreditFromBody_def)
  next
    case (Inr m)
    let ?inp = "\<lparr>li_kind = Gl_deposit_credit, li_venue = At_ghola, li_available = amountBucketMicroUsdc (fim_amount m), li_reserved = 0,
      li_open_notional = 0, li_reference = Some (fim_commitment m),
      li_reason = Some ''shielded_funding_import_verified'', li_created_at = fim_imported_at m\<rparr>"
    show ?thesis
      using step Inr same put(1) [of "entry_of (fh_host h) owner (fim_account m) (credit_key (fim_commitment m)) ?inp"]
      by (auto simp: gholaBalanceImportCreditFromBody_def Let_def case_prod_beta append_put intro: exI [of _ "entry_of (fh_host h) owner (fim_account m) (credit_key (fim_commitment m)) ?inp"])
  qed
  show "st_imports (snd (gholaBalanceImportCreditFromBody h body owner now st)) =
    st_imports (snd (fundingImportFromBody h body owner now st))"
    using step put(2) by (cases a) (simp_all add: gholaBalanceImportCreditFromBody_def Let_def case_prod_beta append_put)
qed

text \<open>A later import cannot have the commitment of a stored verified one: it would replace it, and its
  nullifier is new.\<close>

lemma import_other_commitment:
  assumes "js_wf (st_imports st)" "js_get (st_imports st) c = Some m" "fim_verifier_status m = Ver_verified"
    "keeps_verified st (snd (fundingImportFromBody h body owner now st))" "fst (fundingImportFromBody h body owner now st) = Inr m'"
  shows "fim_commitment m' \<noteq> c"
proof
  assume c: "fim_commitment m' = c"
  obtain st' where step: "fundingImportFromBody h body owner now st = (Inr m', st')" using assms(5) by (metis prod.collapse)
  have "js_get (st_imports st') c = Some m" using keeps_verifiedD [OF assms(4,2,3)] step by simp
  then have "m' = m" using import_ok(2) [OF step] c by simp
  moreover have "m \<in> set (js_values (st_imports st))" using assms(1,2) by (auto simp: js_values_get)
  ultimately show False using import_ok(4) [OF step]
    by (auto simp: getPrivateFundingImportByNullifier_def find_None_iff)
qed

lemma uncredited_step:
  assumes inv: "funding_inv st" and admits: "funding_admits st call" and un: "uncredited c m st"
  shows "uncredited c m (funding_step st call)"
proof -
  have wf: "js_wf (st_imports st)" using funding_invD(3) [OF inv] by (simp add: distinct_nullifiers_def)
  have old: "js_get (st_imports st) c = Some m" "fim_verifier_status m = Ver_verified"
    "list_all (\<lambda>e. gle_reference e \<noteq> Some c) (credits st)" using un by (simp_all add: uncredited_def)
  show ?thesis
  proof (cases call)
    case (Import_deposit h body owner now)
    have "st_ledger (snd (fundingImportFromBody h body owner now st)) = st_ledger st"
      using import_ok(1) [of h body owner now st] import_failed(1) [of h body owner now st]
      by (cases "fundingImportFromBody h body owner now st"; cases "fst (fundingImportFromBody h body owner now st)") auto
    then show ?thesis using Import_deposit old admits keeps_verifiedD [of st _ c m]
      by (simp add: uncredited_def credits_def)
  next
    case (Import_credit h body owner now)
    have kept: "keeps_verified st (snd (fundingImportFromBody h body owner now st))" using admits Import_credit by simp
    show ?thesis
      using credit_credits [of h body owner now st] credit_imports [of h body owner now st]
        import_other_commitment [OF wf old(1,2) kept] keeps_verifiedD [OF kept old(1,2)] old Import_credit
      by (auto simp: uncredited_def)
  next
    case (Submit_order h owner approval pooled w submitted now)
    then show ?thesis using un uncredited_same [OF credits_submit] by simp
  qed (use un uncredited_same [OF credits_money [OF instruction_money]] uncredited_same [OF credits_money [OF balance_money]] in simp_all)
qed

text \<open>A deposit imported by the plain route is never credited. The route \<open>funding/import\<close> imports a
  verified deposit without crediting the balance; after that no sequence of calls (without a collision of
  commitments) credits it, because the crediting route imports first and the instruction and the nullifier
  are used: the amount never reaches the balance of the account.\<close>

theorem plain_import_never_credited:
  assumes "run_admits funding_step funding_admits empty_account_store calls"
    and "st = run_calls funding_step empty_account_store calls"
    and "fundingImportFromBody h body owner now st = (Inr m, st1)"
    and "run_admits funding_step funding_admits st (Import_deposit h body owner now # later)"
  shows "list_all (\<lambda>e. gle_reference e \<noteq> Some (fim_commitment m)) (credits (run_calls funding_step st1 later))"
proof -
  have inv: "funding_inv st" using funding_run_inv assms(1,2) by simp
  note ok = import_ok [OF assms(3)]
  have kept: "keeps_verified st st1" and later: "run_admits funding_step funding_admits st1 later" using assms(3,4) by simp_all
  have wf: "js_wf (st_imports st)" using funding_invD(3) [OF inv] by (simp add: distinct_nullifiers_def)
  have "gle_reference e \<noteq> Some (fim_commitment m)" if e: "e \<in> set (credits st)" for e
  proof
    assume ref: "gle_reference e = Some (fim_commitment m)"
    have "credit_backed st e" using e funding_invD(2) [OF inv] by (auto simp: credits_def entries_ok_def entry_ok_def)
    then obtain m0 where m0: "js_get (st_imports st) (fim_commitment m) = Some m0" "fim_verifier_status m0 = Ver_verified"
      using ref by (auto simp: credit_backed_def split: option.splits)
    have "fim_commitment m \<noteq> fim_commitment m"
      using import_other_commitment [OF wf m0, of h body owner now m] kept assms(3) by simp
    then show False by simp
  qed
  then have "uncredited (fim_commitment m) m st1"
    using ok by (simp add: uncredited_def credits_def list_all_iff)
  moreover have "funding_inv st1" using import_inv [OF inv, of h body owner now] kept assms(3) by simp
  ultimately have "uncredited (fim_commitment m) m (run_calls funding_step st1 later)"
    using later
  proof (induction later arbitrary: st1)
    case Nil
    then show ?case by simp
  next
    case (Cons call calls)
    then show ?case using uncredited_step funding_step_inv by simp
  qed
  then show ?thesis by (simp add: uncredited_def)
qed

lemma plain_import_never_credited_witness:
  "\<exists>st m st1. fundingImportFromBody demo_funding_host demo_deposit_receipt ''o'' 2000 st = (Inr m, st1) \<and>
     list_all (\<lambda>e. gle_reference e \<noteq> Some (fim_commitment m))
       (credits (run_calls funding_step st1 [Import_credit demo_funding_host demo_deposit_receipt ''o'' 3000]))"
proof -
  let ?body = "JObj [(''amount_bucket'', JStr ''50'')]"
  obtain st a where st: "fundingInstructionFromBody demo_funding_host ?body ''o'' ''1'' 1000 empty_account_store =
      (Inr demo_instruction, st)" "st_instructions st = [(''pact_funding_1'', demo_instruction)]" "st_imports st = []" "st_ledger st = []"
      "st_accounts st = [(''acct_0'', a)]"
    using demo_instruct by blast
  obtain st1 where st1: "fundingImportFromBody demo_funding_host demo_deposit_receipt ''o'' 2000 st = (Inr demo_import, st1)"
      "st_imports st1 = [(''funding_import_0'', demo_import)]"
      "st_instructions st1 = [(''pact_funding_1'', demo_instruction\<lparr>fin_status := Fund_imported, fin_updated_at := 2000\<rparr>)]"
    using demo_imported [OF st(2-5)] by blast
  have again: "fundingImportFromBody demo_funding_host demo_deposit_receipt ''o'' 3000 st1 = (throw ''funding_already_imported'', st1)"
    unfolding fundingImportFromBody_def Let_def demo_deposit_fields
    by (simp add: getPrivateFundingInstruction_def js_get_def st1(3)) (simp add: demo_instruction_def)
  have run: "run_admits funding_step funding_admits empty_account_store [Instruct demo_funding_host ?body ''o'' ''1'' 1000]"
    "st = run_calls funding_step empty_account_store [Instruct demo_funding_host ?body ''o'' ''1'' 1000]"
    using st(1) by simp_all
  have admits: "run_admits funding_step funding_admits st (Import_deposit demo_funding_host demo_deposit_receipt ''o'' 2000 #
      [Import_credit demo_funding_host demo_deposit_receipt ''o'' 3000])"
    using st1 st(3) again by (simp add: keeps_verified_def js_get_def)
  show ?thesis using plain_import_never_credited [OF run st1(1) admits] st1(1) by blast
qed

end
