(* ===== verification/AccountRules.thy ===== *)
theory AccountRules imports AccountReceipt
begin

text \<open>
  What a preview of the private account depends on: the profile of a platform, when a list of reasons
  is empty, when the four claim levels are achieved, and when the front-run certificate is there.
\<close>

section \<open>Profiles\<close>

lemma profile_fields [simp]:
  "pp_class (profile h c l ps ch pl op co rs d b) = c"
  "pp_products (profile h c l ps ch pl op co rs d b) = ps"
  "pp_chain_sees (profile h c l ps ch pl op co rs d b) = ch"
  "pp_platform_sees (profile h c l ps ch pl op co rs d b) = pl"
  "pp_counterparty_sees (profile h c l ps ch pl op co rs d b) = co"
  "pp_rails (profile h c l ps ch pl op co rs d b) = rs"
  "pp_blocked_conditions (profile h c l ps ch pl op co rs d b) = b"
  by (simp_all add: profile_def)

lemma profile_total: "\<exists>p. getPlatformPrivacyProfile h c = Inr p"
  by (cases c) (simp_all add: getPlatformPrivacyProfile_def listPlatformPrivacyProfiles_def)

text \<open>The platforms whose profile gives the platform sight of neither the order nor the account, and whose
  chain visibility is not \<open>visible\<close>. The profile of the swap aggregator is one of them, though it lists
  among its residual leakage that the selected route or settlement can be public.\<close>

lemma profile_facts:
  assumes "getPlatformPrivacyProfile h c = Inr p"
  shows "pp_class p = c"
    and "pp_platform_sees p \<noteq> Platform_order_visible \<and> pp_platform_sees p \<noteq> Platform_account_visible \<and>
      pp_chain_sees p \<noteq> Chain_visible \<longleftrightarrow> c \<in> {Solana_private_balance, Solana_swap_aggregator, Rfq_solver_network}"
    and "c = Partner_tokenized_assets \<Longrightarrow> pp_blocked_conditions p \<noteq> []"
proof -
  have "pp_class p = c \<and> (pp_platform_sees p \<noteq> Platform_order_visible \<and> pp_platform_sees p \<noteq> Platform_account_visible \<and>
      pp_chain_sees p \<noteq> Chain_visible \<longleftrightarrow> c \<in> {Solana_private_balance, Solana_swap_aggregator, Rfq_solver_network}) \<and> (c = Partner_tokenized_assets \<longrightarrow> pp_blocked_conditions p \<noteq> [])"
    using assms by (cases c; simp add: getPlatformPrivacyProfile_def listPlatformPrivacyProfiles_def profile_def; auto)
  then show "pp_class p = c"
    "pp_platform_sees p \<noteq> Platform_order_visible \<and> pp_platform_sees p \<noteq> Platform_account_visible \<and>
      pp_chain_sees p \<noteq> Chain_visible \<longleftrightarrow> c \<in> {Solana_private_balance, Solana_swap_aggregator, Rfq_solver_network}"
    "c = Partner_tokenized_assets \<Longrightarrow> pp_blocked_conditions p \<noteq> []" by blast+
qed

section \<open>Reasons\<close>

lemma reason_if_Nil [simp]: "reason_if b r = [] \<longleftrightarrow> \<not> b"
  by (simp add: reason_if_def)

lemma no_reasons_fields [simp]:
  "rs_blocked no_reasons = []" "rs_wait no_reasons = []" "rs_degraded no_reasons = []"
  by (simp_all add: no_reasons_def)

lemma join_reasons_fields [simp]:
  "rs_blocked (join_reasons a b) = rs_blocked a @ rs_blocked b"
  "rs_wait (join_reasons a b) = rs_wait a @ rs_wait b"
  "rs_degraded (join_reasons a b) = rs_degraded a @ rs_degraded b"
  by (simp_all add: join_reasons_def)

definition clean_section :: "reasons \<Rightarrow> bool" where
  "clean_section r \<longleftrightarrow> rs_blocked r = [] \<and> rs_wait r = [] \<and> rs_degraded r = []"

lemma clean_join [simp]: "clean_section (join_reasons a b) \<longleftrightarrow> clean_section a \<and> clean_section b"
  by (auto simp: clean_section_def)

lemma clean_none [simp]: "clean_section no_reasons"
  by (simp add: clean_section_def)

text \<open>A preview without reasons has none in any section.\<close>

lemma clean_preview:
  "clean_section (preview_reasons h inp p rail) \<longleftrightarrow>
     list_all clean_section [base_reasons inp p rail, set_reasons (pi_platform inp) (summary_of inp),
       front_run_reasons (preview_mode inp) rail (protection_of h inp p rail),
       evidence_reasons inp rail (preview_evidence inp), pattern_reasons (summary_of inp) (pi_budget inp),
       runtime_reasons (sealed_runtime_required (pi_connector inp)) (pi_runtime inp),
       schedule_reasons (sealed_runtime_required (pi_connector inp)) (pi_schedule inp),
       rotation_reasons (pi_rotation inp), simulation_reasons (pi_simulation inp),
       connector_reasons (pi_connector inp)]"
  by (auto simp: preview_reasons_def Let_def clean_section_def)

lemma clean_base:
  "clean_section (base_reasons inp p rail) \<Longrightarrow>
     ac_class (pi_action inp) \<in> set (pp_products p) \<and> rail \<in> set MAX_FULL_ANONYMITY_RAILS \<and>
     pp_platform_sees p \<noteq> Platform_order_visible \<and> pp_platform_sees p \<noteq> Platform_account_visible \<and>
     pp_chain_sees p \<noteq> Chain_visible"
  by (auto simp: clean_section_def base_reasons_def)

lemma clean_set:
  "clean_section (set_reasons c a) \<Longrightarrow>
     \<not> num_less (as_effective a) (as_required a) \<and> as_amount_bucketed a \<and> as_timing_window_met a \<and>
     (c = Rfq_solver_network \<longrightarrow> (\<exists>n. as_solver_count a = Some n \<and> \<not> num_less n (num 5)))"
  by (auto simp: clean_section_def set_reasons_def DEFAULT_ANONYMITY_SET_POLICY_def split: option.splits)

lemma clean_pattern: "clean_section (pattern_reasons a budget) \<Longrightarrow> \<not> num_less (num 2500) (as_uniqueness_bps a)"
  by (simp add: clean_section_def pattern_reasons_def)

section \<open>Claim levels\<close>

text \<open>The runtime is ready and has shown its attestation.\<close>

definition attested :: "GholaSealedRuntimeContext option \<Rightarrow> bool" where
  "attested runtime \<longleftrightarrow>
     (case runtime of None \<Rightarrow> False | Some rt \<Rightarrow> rt_status rt = Runtime_ready \<and> has_text (rt_attestation rt))"

lemma levels_achieved:
  "set (cl_achieved (claimLevelsFor h rail full a chain runtime status)) =
     {l. l = L_source_wallet_hidden \<and> rail \<noteq> Direct_public_fallback \<or>
       l = L_amount_bucketed \<and> as_amount_bucketed a \<or>
       l = L_batched_anonymity_set \<and> chain_has chain ''batch_evidence_commitment'' \<or>
       l = L_operator_sealed \<and> attested runtime \<or>
       l = L_selectively_disclosable \<and> isPrivateModeAvailableStatus status \<and> full}"
  by (auto simp: claimLevelsFor_def Let_def attested_def split: option.splits if_splits)

lemma full_rail_not_public: "rail \<in> set MAX_FULL_ANONYMITY_RAILS \<Longrightarrow> rail \<noteq> Direct_public_fallback"
  by (auto simp: MAX_FULL_ANONYMITY_RAILS_def)

section \<open>The front-run certificate\<close>

definition auction_evidence :: "GholaPrivateAccountPreviewInput \<Rightarrow> bool" where
  "auction_evidence inp \<longleftrightarrow>
     list_all (\<lambda>k. clean (chain_text (pi_chain inp) k) \<noteq> None)
       [''auction_epoch_commitment'', ''auction_order_commitment'', ''clearing_commitment'', ''proof_commitment'',
        ''finality_commitment''] \<and>
     clean (nullish (Option.bind (pi_runtime inp) rt_attestation)
       (chain_text (pi_chain inp) ''runtime_attestation_commitment'')) \<noteq> None"

lemma certificate_iff:
  "certificate_of h inp rail \<noteq> None \<longleftrightarrow> rail = Shielded_batch_auction \<and> auction_evidence inp"
  by (auto simp: certificate_of_def buildFrontRunCertificate_def access_of_def auction_evidence_def
      split: option.splits if_splits)

lemma commitment_nonempty [simp]: "gholaCommitment h p v \<noteq> []"
  by (simp add: gholaCommitment_def)

lemma certificate_text: "certificate_of h inp rail = Some c \<Longrightarrow> fc_commitment c \<noteq> []"
  by (auto simp: certificate_of_def buildFrontRunCertificate_def split: option.splits if_splits)

lemma certified_iff:
  "fr_live_in_zero_mode (protection_of h inp p rail) \<longleftrightarrow> rail = Shielded_batch_auction \<and> auction_evidence inp"
  "fr_zero (protection_of h inp p rail) \<longleftrightarrow> rail = Shielded_batch_auction \<and> auction_evidence inp"
proof -
  have c: "has_text (map_option fc_commitment (certificate_of h inp rail)) \<longleftrightarrow> certificate_of h inp rail \<noteq> None"
    by (auto dest: certificate_text simp: has_text_def split: option.splits)
  show "fr_live_in_zero_mode (protection_of h inp p rail) \<longleftrightarrow> rail = Shielded_batch_auction \<and> auction_evidence inp"
    "fr_zero (protection_of h inp p rail) \<longleftrightarrow> rail = Shielded_batch_auction \<and> auction_evidence inp"
    unfolding protection_of_def deriveFrontRunProtection_def
    using c certificate_iff [of h inp rail] by auto
qed

section \<open>The status of a preview\<close>

definition evidence_complete :: "GholaPrivateAccountPreviewInput \<Rightarrow> bool" where
  "evidence_complete inp \<longleftrightarrow> chain_has (pi_chain inp) ''batch_evidence_commitment'' \<and> attested (pi_runtime inp)"

lemma previewE:
  assumes "previewPrivateAccountAction h inp now = Inr pv"
  obtains p where "getPlatformPrivacyProfile h (pi_platform inp) = Inr p" "pv = preview_with h inp now p"
  using assms by (auto simp: previewPrivateAccountAction_def throw_rules)

lemma preview_lists:
  "pv_blocked_reasons (preview_with h inp now p) = rs_blocked (preview_reasons h inp p (selectRail p (pi_requested_rail inp)))"
  "pv_wait_reasons (preview_with h inp now p) = rs_wait (preview_reasons h inp p (selectRail p (pi_requested_rail inp)))"
  "pv_degraded_reasons (preview_with h inp now p) = rs_degraded (preview_reasons h inp p (selectRail p (pi_requested_rail inp)))"
  "pv_rail (preview_with h inp now p) = selectRail p (pi_requested_rail inp)"
  by (simp_all add: preview_with_def Let_def)

lemma clean_status:
  assumes "clean_section (preview_reasons h inp p rail)"
  shows "list_all (\<lambda>l. l \<in> set (cl_achieved (claimLevelsFor h rail (rail \<in> set MAX_FULL_ANONYMITY_RAILS)
      (summary_of inp) (pi_chain inp) (pi_runtime inp) status))) PRIVATE_MODE_REQUIRED_CLAIM_LEVELS \<longleftrightarrow> evidence_complete inp"
proof -
  have "rail \<in> set MAX_FULL_ANONYMITY_RAILS" "as_amount_bucketed (summary_of inp)"
    using assms clean_base [of inp p rail] clean_set [of "pi_platform inp" "summary_of inp"]
    unfolding clean_preview by simp_all
  then show ?thesis using full_rail_not_public [of rail]
    by (simp add: PRIVATE_MODE_REQUIRED_CLAIM_LEVELS_def levels_achieved evidence_complete_def)
qed

definition available :: "GholaPrivacyPreview \<Rightarrow> bool" where
  "available pv \<longleftrightarrow> isPrivateModeAvailableStatus (pv_status pv)"

lemma preview_status_cases:
  assumes "pv = preview_with h inp now p"
  shows "pv_status pv = Blocked_leaky_path \<longleftrightarrow> pv_blocked_reasons pv \<noteq> []"
    and "pv_status pv = Wait_for_anonymity \<longleftrightarrow> pv_blocked_reasons pv = [] \<and>
      (pv_wait_reasons pv \<noteq> [] \<or> pv_degraded_reasons pv = [] \<and> \<not> evidence_complete inp)"
    and "pv_status pv = Degraded_user_accepted_required \<longleftrightarrow>
      pv_blocked_reasons pv = [] \<and> pv_wait_reasons pv = [] \<and> pv_degraded_reasons pv \<noteq> []"
    and "available pv \<longleftrightarrow> pv_blocked_reasons pv = [] \<and> pv_wait_reasons pv = [] \<and>
      pv_degraded_reasons pv = [] \<and> evidence_complete inp"
proof -
  let ?rail = "selectRail p (pi_requested_rail inp)"
  let ?r = "preview_reasons h inp p ?rail"
  let ?levels = "claimLevelsFor h ?rail (?rail \<in> set MAX_FULL_ANONYMITY_RAILS) (summary_of inp) (pi_chain inp)
      (pi_runtime inp) (status_of_reasons ?r)"
  have lists: "pv_blocked_reasons pv = rs_blocked ?r" "pv_wait_reasons pv = rs_wait ?r"
    "pv_degraded_reasons pv = rs_degraded ?r" using assms by (simp_all add: preview_lists)
  have status: "pv_status pv = preview_status inp ?rail (status_of_reasons ?r) ?levels"
    using assms by (simp add: preview_with_def Let_def)
  have missing: "list_ex (\<lambda>l. l \<notin> set (cl_achieved ?levels)) PRIVATE_MODE_REQUIRED_CLAIM_LEVELS \<longleftrightarrow>
      \<not> evidence_complete inp" if "rs_blocked ?r = []" "rs_wait ?r = []" "rs_degraded ?r = []"
    using clean_status [of h inp p ?rail "status_of_reasons ?r"] that
    unfolding clean_section_def list_all_iff list_ex_iff by blast
  show "pv_status pv = Blocked_leaky_path \<longleftrightarrow> pv_blocked_reasons pv \<noteq> []"
    "pv_status pv = Wait_for_anonymity \<longleftrightarrow> pv_blocked_reasons pv = [] \<and>
      (pv_wait_reasons pv \<noteq> [] \<or> pv_degraded_reasons pv = [] \<and> \<not> evidence_complete inp)"
    "pv_status pv = Degraded_user_accepted_required \<longleftrightarrow>
      pv_blocked_reasons pv = [] \<and> pv_wait_reasons pv = [] \<and> pv_degraded_reasons pv \<noteq> []"
    "available pv \<longleftrightarrow> pv_blocked_reasons pv = [] \<and> pv_wait_reasons pv = [] \<and>
      pv_degraded_reasons pv = [] \<and> evidence_complete inp"
    unfolding lists status available_def using missing
    by (auto simp: preview_status_def status_of_reasons_def isPrivateModeAvailableStatus_def Let_def)
qed

end
