(* ===== verification/AccountClaims.thy ===== *)
theory AccountClaims imports AccountRules AccountVenues
begin

text \<open>
  The properties of the private account: what a preview may claim, when an action may be executed, what
  a receipt carries, what a session policy admits, and what a public artifact cannot contain.
\<close>

section \<open>A preview to evaluate\<close>

definition demo_account_host :: account_host where
  "demo_account_host = \<lparr>ah_host = \<lparr>sha256_hex = (\<lambda>s. s), locale_le = (\<lambda>s t. length s \<le> length t)\<rparr>,
     ah_hmac = (\<lambda>secret text. secret @ text)\<rparr>"

definition demo_chain :: GholaPrivateModeEvidenceChain where
  "demo_chain = map (\<lambda>k. (k, JStr (''c_'' @ k)))
     ([''batch_evidence_commitment'', ''execution_plan_commitment'', ''settlement_commitment'', ''witness_commitment'',
       ''relay_commitment''] @ auction_commitments)"

definition demo_runtime :: GholaSealedRuntimeContext where
  "demo_runtime = \<lparr>rt_status = Runtime_ready, rt_mode = Mode_http, rt_envelope = ''envelope'',
     rt_attestation = Some ''attestation'', rt_measurement = None, rt_policy = None, rt_health = ''health'',
     rt_observed_at = 0, rt_reason_codes = []\<rparr>"

definition demo_action :: GholaPrivateAccountAction where
  "demo_action = \<lparr>ac_commitment = ''act'', ac_class = A_trade_on_platform, ac_bucket = ''general'',
     ac_policy = ''policy'', ac_intent = ''intent'', ac_json = JObj [(''action_commitment'', JStr ''act'')]\<rparr>"

definition demo_preview_input :: GholaPrivateAccountPreviewInput where
  "demo_preview_input = \<lparr>pi_account_commitment = Some ''acct'', pi_vault_ready = Some True, pi_action = demo_action,
     pi_platform = Solana_swap_aggregator, pi_requested_rail = Some Shielded_batch_auction, pi_actor = Some Consumer,
     pi_anonymity_set = Some \<lparr>pas_required = None, pas_effective = Some (num 60), pas_solver_count = None,
       pas_amount_bucketed = Some True, pas_timing_window_met = Some True, pas_uniqueness_bps = Some (num 100),
       pas_repeated_pattern_bps = None\<rparr>,
     pi_budget = None, pi_evidence_status = Some Ev_ready, pi_chain = Some demo_chain, pi_connector = None,
     pi_runtime = Some demo_runtime,
     pi_schedule = Some \<lparr>sd_commitment = ''schedule'', sd_mode = Window_ready_now, sd_status = Schedule_ready,
       sd_window_commitment = ''window'', sd_execute_after = None, sd_reason_codes = []\<rparr>,
     pi_rotation = Some \<lparr>ro_commitment = ''rotation'', ro_account_commitment = ''funding'', ro_epoch_commitment = ''epoch'',
       ro_reuse_count = num 0, ro_destination_reuse_count = num 0, ro_status = Rotation_ready, ro_reason_codes = []\<rparr>,
     pi_simulation = Some \<lparr>ls_commitment = ''simulator'', ls_score_bps = num 100, ls_decision = Sim_proceed,
       ls_chain_observer = num 0, ls_venue = num 0, ls_solver = num 0, ls_provider = num 0,
       ls_colluding_platforms = num 0, ls_reason_codes = [], ls_simulated_at = 0\<rparr>,
     pi_mode = Some Mode_zero_front_run, pi_require_evidence = True, pi_degraded_accepted = False\<rparr>"

definition demo_profile :: GholaPlatformPrivacyProfile where
  "demo_profile = (case getPlatformPrivacyProfile (ah_host demo_account_host) Solana_swap_aggregator of Inr p \<Rightarrow> p)"

definition demo_preview :: GholaPrivacyPreview where
  "demo_preview = preview_with (ah_host demo_account_host) demo_preview_input 0 demo_profile"

lemma demo_profile_found: "getPlatformPrivacyProfile h Solana_swap_aggregator = Inr p \<Longrightarrow>
    pp_class p = Solana_swap_aggregator \<and> A_trade_on_platform \<in> set (pp_products p) \<and>
    pp_platform_sees p = Platform_minimal \<and> pp_chain_sees p = Chain_bucketed"
  by (auto simp: getPlatformPrivacyProfile_def listPlatformPrivacyProfiles_def)

lemma demo_profile_is: "getPlatformPrivacyProfile (ah_host demo_account_host) Solana_swap_aggregator = Inr demo_profile"
  using profile_total [of "ah_host demo_account_host" Solana_swap_aggregator] by (auto simp: demo_profile_def)

lemma demo_previewed: "previewPrivateAccountAction (ah_host demo_account_host) demo_preview_input 0 = Inr demo_preview"
  by (simp add: previewPrivateAccountAction_def demo_preview_def demo_profile_is demo_preview_input_def)

lemma demo_auction: "auction_evidence demo_preview_input"
  by code_simp

lemma demo_complete: "evidence_complete demo_preview_input"
  by code_simp

lemma demo_sections:
  "clean_section (set_reasons (pi_platform demo_preview_input) (summary_of demo_preview_input))"
  "clean_section (evidence_reasons demo_preview_input Shielded_batch_auction (preview_evidence demo_preview_input))"
  "clean_section (pattern_reasons (summary_of demo_preview_input) (pi_budget demo_preview_input))"
  "clean_section (runtime_reasons (sealed_runtime_required (pi_connector demo_preview_input)) (pi_runtime demo_preview_input))"
  "clean_section (schedule_reasons (sealed_runtime_required (pi_connector demo_preview_input)) (pi_schedule demo_preview_input))"
  "clean_section (rotation_reasons (pi_rotation demo_preview_input))"
  "clean_section (simulation_reasons (pi_simulation demo_preview_input))"
  "clean_section (connector_reasons (pi_connector demo_preview_input))"
  by code_simp+

lemma demo_clean:
  "clean_section (preview_reasons (ah_host demo_account_host) demo_preview_input demo_profile Shielded_batch_auction)"
proof -
  have "clean_section (base_reasons demo_preview_input demo_profile Shielded_batch_auction)"
    using demo_profile_found [OF demo_profile_is]
    by (simp add: clean_section_def base_reasons_def demo_preview_input_def demo_action_def MAX_FULL_ANONYMITY_RAILS_def)
  moreover have "clean_section (front_run_reasons (preview_mode demo_preview_input) Shielded_batch_auction
      (protection_of (ah_host demo_account_host) demo_preview_input demo_profile Shielded_batch_auction))"
    using demo_auction by (simp add: clean_section_def front_run_reasons_def certified_iff)
  ultimately show ?thesis unfolding clean_preview using demo_sections by (simp only: list.pred_inject simp_thms)
qed

lemma demo_rail: "selectRail demo_profile (pi_requested_rail demo_preview_input) = Shielded_batch_auction"
  by (simp add: selectRail_def demo_preview_input_def)

lemma demo_available: "available demo_preview" "pv_rail demo_preview = Shielded_batch_auction"
  using preview_status_cases(4) [OF demo_preview_def] demo_complete demo_clean
  unfolding demo_preview_def preview_lists demo_rail clean_section_def by simp_all

section \<open>What a preview may claim\<close>

text \<open>C16: The status of a preview follows from its reasons. It is blocked exactly when a blocking reason
  was found; otherwise it waits when there is a reason to wait, and also when there is no reason at all
  but the batch evidence or the attested runtime is missing (the list of wait reasons is then empty);
  with only degrading reasons it asks for acceptance; and it claims Private Mode exactly when there is
  no reason of any kind and both commitments are there.\<close>

theorem preview_status_exact:
  assumes "previewPrivateAccountAction h inp now = Inr pv"
  shows "(pv_status pv = Blocked_leaky_path \<longleftrightarrow> pv_blocked_reasons pv \<noteq> []) \<and>
    (pv_status pv = Wait_for_anonymity \<longleftrightarrow> pv_blocked_reasons pv = [] \<and>
      (pv_wait_reasons pv \<noteq> [] \<or> pv_degraded_reasons pv = [] \<and> \<not> evidence_complete inp)) \<and>
    (pv_status pv = Degraded_user_accepted_required \<longleftrightarrow>
      pv_blocked_reasons pv = [] \<and> pv_wait_reasons pv = [] \<and> pv_degraded_reasons pv \<noteq> []) \<and>
    (available pv \<longleftrightarrow> pv_blocked_reasons pv = [] \<and> pv_wait_reasons pv = [] \<and>
      pv_degraded_reasons pv = [] \<and> evidence_complete inp)"
  using assms
proof (rule previewE)
  fix p assume "pv = preview_with h inp now p"
  from preview_status_cases [OF this] show ?thesis by (intro conjI)
qed

lemma preview_status_exact_witness:
  "available demo_preview \<and> pv_wait_reasons demo_preview = []"
  using preview_status_exact [OF demo_previewed] demo_available by blast

text \<open>C17: A privacy claim is earned. A preview that claims Private Mode, or full anonymity, is for a
  platform (the private balance, the swap aggregator or the solver network) whose profile gives the
  platform sight of neither the order nor the account and whose chain visibility there is not
  \<open>visible\<close>; the claim is about these fields of the profile, not about how the platform settles. It goes
  over a rail fit for full anonymity, in a large enough set of bucketed amounts after the delay window, with batch
  evidence and an attested sealed runtime; at the solver network at least five solvers quoted. Full
  anonymity is claimed only for the sealed batch auction of the solver network.\<close>

theorem private_claim_earned:
  assumes "previewPrivateAccountAction h inp now = Inr pv" "available pv"
  shows "(\<exists>p. getPlatformPrivacyProfile h (pi_platform inp) = Inr p \<and> pp_platform_sees p \<noteq> Platform_order_visible \<and>
      pp_platform_sees p \<noteq> Platform_account_visible \<and> pp_chain_sees p \<noteq> Chain_visible) \<and>
    pi_platform inp \<in> {Solana_private_balance, Solana_swap_aggregator, Rfq_solver_network} \<and>
    pv_rail pv \<in> set MAX_FULL_ANONYMITY_RAILS \<and>
    \<not> num_less (as_effective (pv_anonymity_set pv)) (as_required (pv_anonymity_set pv)) \<and>
    as_amount_bucketed (pv_anonymity_set pv) \<and> as_timing_window_met (pv_anonymity_set pv) \<and>
    \<not> num_less (num 2500) (as_uniqueness_bps (pv_anonymity_set pv)) \<and>
    chain_has (pi_chain inp) ''batch_evidence_commitment'' \<and> attested (pi_runtime inp) \<and>
    (pi_platform inp = Rfq_solver_network \<longrightarrow> (\<exists>n. as_solver_count (pv_anonymity_set pv) = Some n \<and> \<not> num_less n (num 5))) \<and>
    (pv_status pv = Full_anonymity_available \<longrightarrow> pi_platform inp = Rfq_solver_network \<and> pv_rail pv = Shielded_batch_auction)"
  using assms(1)
proof (rule previewE)
  fix p assume p: "getPlatformPrivacyProfile h (pi_platform inp) = Inr p" and pv: "pv = preview_with h inp now p"
  let ?rail = "selectRail p (pi_requested_rail inp)"
  have clean: "clean_section (preview_reasons h inp p ?rail)" and complete: "evidence_complete inp"
    using assms(2) preview_status_cases(4) [OF pv] unfolding pv preview_lists clean_section_def by simp_all
  have "pv_anonymity_set pv = summary_of inp" "pv_rail pv = ?rail" by (simp_all add: pv preview_with_def Let_def)
  moreover have "pv_status pv = Full_anonymity_available \<Longrightarrow> pi_platform inp = Rfq_solver_network \<and> ?rail = Shielded_batch_auction"
    by (auto simp: pv preview_with_def Let_def preview_status_def status_of_reasons_def canClaimFullRfqBatchAnonymity_def
        split: if_splits)
  ultimately show ?thesis
    using clean clean_base [of inp p ?rail] clean_set [of "pi_platform inp" "summary_of inp"]
      clean_pattern [of "summary_of inp" "pi_budget inp"] profile_facts(2) [OF p] complete p
    unfolding clean_preview evidence_complete_def by simp
qed

lemma private_claim_earned_witness:
  "pp_platform_sees demo_profile \<noteq> Platform_order_visible \<and> pp_chain_sees demo_profile \<noteq> Chain_visible \<and>
   \<not> num_less (num 60) (num 50)"
  using private_claim_earned [OF demo_previewed demo_available(1)]
  by (simp add: demo_profile_is demo_preview_input_def demo_preview_def preview_with_def Let_def summary_of_def DEFAULT_ANONYMITY_SET_POLICY_def)

section \<open>The gate before an execution\<close>

definition demo_intent_binding :: GholaPrivateAccountIntentBinding where
  "demo_intent_binding = \<lparr>ib_id = ''i'', ib_account = pv_account demo_preview, ib_action = pv_action demo_preview,
     ib_class = A_trade_on_platform, ib_bucket = ''general'', ib_policy = ''policy'', ib_intent = ''intent'',
     ib_expires_at = 1800000\<rparr>"

definition demo_approval :: GholaPrivateAccountApprovalBinding where
  "demo_approval = \<lparr>ab_commitment = ''ap'', ab_preview = pv_commitment demo_preview, ab_intent_id = ''i'',
     ab_degraded_accepted = False, ab_expires_at = 600000, ab_plan = None\<rparr>"

lemma preview_with_fields:
  "pv_expires_at (preview_with h inp now p) = now + 600000"
  "pv_mode (preview_with h inp now p) = preview_mode inp"
  "pv_protection (preview_with h inp now p) = protection_of h inp p (selectRail p (pi_requested_rail inp))"
  by (simp_all add: preview_with_def Let_def PRIVATE_ACCOUNT_PREVIEW_TTL_MS_def)

text \<open>C39: The gate. An action passes the gate before execution exactly when intent, preview and approval
  are unexpired and belong together, the preview is at most ten minutes old and has no reason to block
  or wait, what degrades it was accepted (without such a reason the evidence must be complete), and in
  zero-front-run mode the rail is the sealed batch auction with its six commitments.\<close>

theorem execution_gate:
  assumes "previewPrivateAccountAction h inp now = Inr pv"
  shows "canExecutePrivateAccountAction i pv a t = None \<longleftrightarrow>
    t < ib_expires_at i \<and> t < now + 600000 \<and> t < ab_expires_at a \<and>
    pv_account pv = ib_account i \<and> pv_action pv = ib_action i \<and> ab_preview a = pv_commitment pv \<and> ab_intent_id a = ib_id i \<and>
    pv_blocked_reasons pv = [] \<and> pv_wait_reasons pv = [] \<and>
    (if pv_degraded_reasons pv = [] then evidence_complete inp else ab_degraded_accepted a) \<and>
    (preview_mode inp \<noteq> Mode_zero_front_run \<or> pv_rail pv = Shielded_batch_auction \<and> auction_evidence inp)"
  using assms
proof (rule previewE)
  fix p assume pv: "pv = preview_with h inp now p"
  have "pv_expires_at pv = now + 600000" "pv_mode pv = preview_mode inp"
    "fr_live_in_zero_mode (pv_protection pv) \<longleftrightarrow> pv_rail pv = Shielded_batch_auction \<and> auction_evidence inp"
    by (simp_all add: pv preview_with_fields preview_lists certified_iff)
  then show ?thesis using preview_status_cases [OF pv]
    by (auto simp: canExecutePrivateAccountAction_def isPrivateAccountRecordExpired_def assertPreviewMatchesIntent_def
        assertApprovalMatchesPreview_def canApprovePreview_def)
qed

lemma execution_gate_witness:
  "canExecutePrivateAccountAction demo_intent_binding demo_preview demo_approval 599999 = None \<and>
   canExecutePrivateAccountAction demo_intent_binding demo_preview demo_approval 600000 \<noteq> None"
  using execution_gate [OF demo_previewed, of demo_intent_binding demo_approval 599999]
    execution_gate [OF demo_previewed, of demo_intent_binding demo_approval 600000]
    demo_available demo_auction preview_status_cases(4) [OF demo_preview_def] demo_complete
  by (simp add: demo_intent_binding_def demo_approval_def)

section \<open>Receipts\<close>

lemma set_all_get:
  "js_get (set_all m kvs) k = (case map_of (rev kvs) k of Some v \<Rightarrow> Some v | None \<Rightarrow> js_get m k)"
proof (induction kvs arbitrary: m)
  case Nil
  then show ?case by (simp add: set_all_def)
next
  case (Cons kv kvs)
  obtain k' v where kv: "kv = (k', v)" by (cases kv)
  have "set_all m (kv # kvs) = set_all (js_set m k' v) kvs" by (simp add: set_all_def kv)
  then show ?case using Cons [of "js_set m k' v"] by (auto simp: kv map_add_def split: option.splits)
qed

lemma null_text_text [simp]: "(case null_text t of JStr s \<Rightarrow> Some s | _ \<Rightarrow> None) = t"
  by (cases t) (simp_all add: null_text_def)

lemma chain_text_set_all:
  "chain_text (Some (set_all c kvs)) k = (case map_of (rev kvs) k of
     Some v \<Rightarrow> (case v of JStr s \<Rightarrow> Some s | _ \<Rightarrow> None) | None \<Rightarrow> chain_text (Some c) k)"
  by (simp add: chain_text_def set_all_get split: option.split)

text \<open>The chain of a receipt: what is set, and what is left of the chain that was given.\<close>

lemma receipt_chain_text:
  "chain_text (Some (receipt_chain p ap ex c)) k =
    (let own = chain_text (Some c) k in
     if k = ''preview_commitment'' then Some (pv_commitment p)
     else if k = ''approval_commitment'' then Some ap
     else if k = ''execution_commitment'' then Some ex
     else if k = ''manifest_commitment'' then nullish (connector_text p cc_manifest) own
     else if k = ''connector_readiness_commitment'' then nullish (connector_text p cc_readiness) own
     else if k = ''compiler_commitment'' then nullish (connector_text p cc_compiler) own
     else if k = ''linkability_score_commitment'' then nullish (connector_text p cc_linkability_score) own
     else if k = ''runtime_envelope_commitment'' then nullish (map_option rt_envelope (pv_runtime p)) own
     else if k = ''runtime_attestation_commitment'' then nullish (runtime_attestation p) own
     else if k = ''runtime_health_commitment'' then nullish (map_option rt_health (pv_runtime p)) own
     else if k = ''schedule_commitment'' then nullish (map_option sd_commitment (pv_schedule p)) own
     else if k = ''rotation_commitment'' then nullish (map_option ro_commitment (pv_rotation p)) own
     else if k = ''simulator_commitment'' then nullish (map_option ls_commitment (pv_simulation p)) own
     else own)"
  by (simp add: receipt_chain_def Let_def chain_text_set_all)

lemma first_failed_None: "first_failed checks = None \<longleftrightarrow> list_all (\<lambda>c. \<not> fst c) checks"
  by (induction checks) (auto simp: first_failed_def)

definition required_commitments :: "string list" where
  "required_commitments = [''batch_evidence_commitment'', ''execution_plan_commitment''] @ v6_commitments"

lemma receipt_checks_passed:
  assumes "first_failed (receipt_checks p chain) = None"
  shows "available p \<Longrightarrow> has_all chain required_commitments"
    and "available p \<Longrightarrow> requiresPrivateSettlementBinding (pv_rail p) \<Longrightarrow> chain_has chain ''settlement_commitment''"
    and "available p \<Longrightarrow> pv_rail p = Shielded_pool \<Longrightarrow> has_all chain settlement_commitments"
    and "pv_connector p \<noteq> None \<Longrightarrow> has_all chain connector_commitments"
    and "pv_mode p = Mode_zero_front_run \<Longrightarrow> fr_zero (pv_protection p) \<and> has_all chain auction_commitments"
  using assms unfolding first_failed_None
  by (auto simp: receipt_checks_def Let_def available_def has_all_def required_commitments_def)

lemma built_receipt:
  assumes "buildPrivateAccountReceipt ah p ap ex given secret = Inr r"
  defines "chain \<equiv> map_option (receipt_chain p ap ex) given"
  shows "first_failed (receipt_checks p chain) = None"
    and "r = unsigned_receipt (ah_host ah) p ap ex chain @ [(''signature'', JStr (signPrivateAccountReceipt ah
      (unsigned_receipt (ah_host ah) p ap ex chain) (text_or secret ''ghola-dev-private-account-receipts'')))]"
  using assms by (auto simp: buildPrivateAccountReceipt_def Let_def split: option.splits)

lemma unsigned_no_signature: "filter (\<lambda>q. fst q \<noteq> ''signature'') (unsigned_receipt h p ap ex chain) = unsigned_receipt h p ap ex chain"
  by (simp add: unsigned_receipt_def Let_def)

lemma receipt_fields:
  "obj_field (unsigned_receipt h p ap ex chain @ ys) ''preview_commitment'' = JStr (pv_commitment p)"
  "obj_field (unsigned_receipt h p ap ex chain @ ys) ''approval_commitment'' = JStr ap"
  "obj_field (unsigned_receipt h p ap ex chain @ ys) ''execution_commitment'' = JStr ex"
  "obj_field (unsigned_receipt h p ap ex chain @ ys) ''claim_status'' = JStr (claim_status_name (pv_status p))"
  "obj_field (unsigned_receipt h p ap ex chain @ ys) ''evidence_chain'' = null_json JObj chain"
  "obj_field (unsigned_receipt h p ap ex chain @ ys) ''manifest_commitment'' =
     null_text (nullish (chain_text chain ''manifest_commitment'') (connector_text p cc_manifest))"
  by (simp_all add: unsigned_receipt_def Let_def obj_field_def)

text \<open>C18: What a receipt proves. A receipt names its preview, approval and execution and the claim of the
  preview, and its signature is over all other properties. Where Private Mode is claimed its evidence
  chain has the batch, plan, runtime, schedule, rotation and simulator commitments, and those of the
  settlement where the rail needs one; where a venue connector was previewed the chain is bound to its
  manifest; and in zero-front-run mode it has the six commitments of the auction.\<close>

theorem receipt_carries_evidence:
  assumes "buildPrivateAccountReceipt ah p ap ex given secret = Inr r"
  shows "\<exists>chain. obj_field r ''evidence_chain'' = null_json JObj chain \<and>
    obj_field r ''preview_commitment'' = JStr (pv_commitment p) \<and> obj_field r ''approval_commitment'' = JStr ap \<and>
    obj_field r ''execution_commitment'' = JStr ex \<and>
    obj_field r ''claim_status'' = JStr (claim_status_name (pv_status p)) \<and>
    obj_field r ''signature'' = JStr (signPrivateAccountReceipt ah (filter (\<lambda>q. fst q \<noteq> ''signature'') r)
      (text_or secret ''ghola-dev-private-account-receipts'')) \<and>
    (available p \<longrightarrow> has_all chain required_commitments \<and>
      (requiresPrivateSettlementBinding (pv_rail p) \<longrightarrow> chain_has chain ''settlement_commitment'') \<and>
      (pv_rail p = Shielded_pool \<longrightarrow> has_all chain settlement_commitments)) \<and>
    (\<forall>cc. pv_connector p = Some cc \<longrightarrow> obj_field r ''manifest_commitment'' = JStr (cc_manifest cc) \<and>
      cc_manifest cc \<noteq> [] \<and> chain_text chain ''manifest_commitment'' = Some (cc_manifest cc)) \<and>
    (pv_mode p = Mode_zero_front_run \<longrightarrow> has_all chain auction_commitments)"
proof -
  define chain where "chain = map_option (receipt_chain p ap ex) given"
  note built = built_receipt [OF assms, folded chain_def]
  note passed = receipt_checks_passed [OF built(1)]
  have connector: "obj_field r ''manifest_commitment'' = JStr (cc_manifest cc) \<and> cc_manifest cc \<noteq> [] \<and>
      chain_text chain ''manifest_commitment'' = Some (cc_manifest cc)" if cc: "pv_connector p = Some cc" for cc
  proof -
    have has: "chain_has chain ''manifest_commitment''"
      using passed(4) cc by (simp add: has_all_def connector_commitments_def)
    then obtain c where c: "chain = Some (receipt_chain p ap ex c)"
      by (cases given) (auto simp: chain_def chain_has_def chain_text_def)
    then have "chain_text chain ''manifest_commitment'' = Some (cc_manifest cc)"
      using cc by (simp add: receipt_chain_text connector_text_def)
    then show ?thesis using has unfolding built(2) receipt_fields by (simp add: chain_has_def null_text_def)
  qed
  have "filter (\<lambda>q. fst q \<noteq> ''signature'') r = unsigned_receipt (ah_host ah) p ap ex chain"
    unfolding built(2) by (simp add: unsigned_no_signature)
  moreover have "map_of (unsigned_receipt (ah_host ah) p ap ex chain) ''signature'' = None"
    by (simp add: unsigned_receipt_def Let_def)
  ultimately have "obj_field r ''signature'' = JStr (signPrivateAccountReceipt ah (filter (\<lambda>q. fst q \<noteq> ''signature'') r)
      (text_or secret ''ghola-dev-private-account-receipts''))"
    unfolding built(2) by (simp add: obj_field_def map_add_def)
  moreover have "obj_field r ''evidence_chain'' = null_json JObj chain" "obj_field r ''preview_commitment'' = JStr (pv_commitment p)"
    "obj_field r ''approval_commitment'' = JStr ap" "obj_field r ''execution_commitment'' = JStr ex"
    "obj_field r ''claim_status'' = JStr (claim_status_name (pv_status p))"
    unfolding built(2) receipt_fields by (rule refl)+
  ultimately show ?thesis using connector passed by (intro exI [of _ chain] conjI) blast+
qed

text \<open>The demo preview with its chain gives a receipt.\<close>

definition demo_given_chain :: GholaPrivateModeEvidenceChain where
  "demo_given_chain = js_set demo_chain ''front_run_certificate_commitment'' (null_text (pv_certificate demo_preview))"

lemma demo_preview_fields:
  "pv_connector demo_preview = None" "pv_runtime demo_preview = Some demo_runtime"
  "pv_schedule demo_preview = pi_schedule demo_preview_input" "pv_rotation demo_preview = pi_rotation demo_preview_input"
  "pv_simulation demo_preview = pi_simulation demo_preview_input" "pv_platform demo_preview = Solana_swap_aggregator"
  by (simp_all add: demo_preview_def preview_with_def Let_def demo_preview_input_def)

lemma demo_preview_front_run:
  "pv_certificate demo_preview = map_option fc_commitment (certificate_of (ah_host demo_account_host) demo_preview_input Shielded_batch_auction)"
  "fr_zero (pv_protection demo_preview)"
  using demo_auction by (simp_all add: demo_preview_def preview_with_def Let_def demo_rail certified_iff)

lemma demo_levels: "list_all (\<lambda>l. l \<in> set (pv_levels_achieved demo_preview)) PRIVATE_MODE_REQUIRED_CLAIM_LEVELS"
  using clean_status [OF demo_clean] demo_complete by (simp add: demo_preview_def preview_with_def Let_def demo_rail)

lemma demo_certificate: "\<exists>c. pv_certificate demo_preview = Some c \<and> c \<noteq> []"
  using certificate_iff [of "ah_host demo_account_host" demo_preview_input Shielded_batch_auction] demo_auction
  by (auto simp: demo_preview_front_run dest: certificate_text)

lemma demo_chain_texts:
  "list_all (\<lambda>k. chain_has (Some demo_chain) k) ([''batch_evidence_commitment'', ''execution_plan_commitment'',
     ''settlement_commitment'', ''witness_commitment'', ''relay_commitment''] @ auction_commitments)"
  by code_simp

lemma given_chain_text: "k \<noteq> ''front_run_certificate_commitment'' \<Longrightarrow> chain_text (Some demo_given_chain) k = chain_text (Some demo_chain) k"
  by (simp add: chain_text_def demo_given_chain_def)

lemma demo_receipt_chain:
  "has_all (Some (receipt_chain demo_preview ap ex demo_given_chain)) required_commitments"
  "has_all (Some (receipt_chain demo_preview ap ex demo_given_chain)) auction_commitments"
  "has_all (Some (receipt_chain demo_preview ap ex demo_given_chain)) [''settlement_commitment'']"
  using demo_chain_texts
  by (simp_all add: has_all_def required_commitments_def v6_commitments_def auction_commitments_def chain_has_def
      receipt_chain_text given_chain_text Let_def demo_preview_fields runtime_attestation_def demo_runtime_def
      demo_preview_input_def)

lemma demo_certificate_bound:
  "chain_text (Some (receipt_chain demo_preview ap ex demo_given_chain)) ''front_run_certificate_commitment'' = pv_certificate demo_preview"
proof -
  have "chain_text (Some demo_given_chain) ''front_run_certificate_commitment'' = pv_certificate demo_preview"
    by (simp add: chain_text_def demo_given_chain_def)
  then show ?thesis by (simp add: receipt_chain_text)
qed

lemma demo_receipt: "\<exists>r. buildPrivateAccountReceipt demo_account_host demo_preview ''ap'' ''ex'' (Some demo_given_chain) None = Inr r"
proof -
  let ?chain = "Some (receipt_chain demo_preview ''ap'' ''ex'' demo_given_chain)"
  obtain c where c: "pv_certificate demo_preview = Some c" "c \<noteq> []" using demo_certificate by blast
  have "first_failed (receipt_checks demo_preview ?chain) = None"
    using demo_receipt_chain [of "''ap''" "''ex''"] demo_certificate_bound [of "''ap''" "''ex''"] demo_preview_fields(1,6)
      demo_preview_front_run(2) demo_levels demo_available(2) c
    unfolding first_failed_None receipt_checks_def Let_def
    by (simp add: has_all_def required_commitments_def)
  then show ?thesis by (simp add: buildPrivateAccountReceipt_def Let_def)
qed

lemma receipt_carries_evidence_witness:
  "\<exists>r chain. buildPrivateAccountReceipt demo_account_host demo_preview ''ap'' ''ex'' (Some demo_given_chain) None = Inr r \<and>
     obj_field r ''evidence_chain'' = null_json JObj chain \<and> has_all chain required_commitments"
proof -
  obtain r where "buildPrivateAccountReceipt demo_account_host demo_preview ''ap'' ''ex'' (Some demo_given_chain) None = Inr r"
    using demo_receipt by blast
  from receipt_carries_evidence [OF this] this show ?thesis using demo_available(1) by blast
qed

section \<open>Session policies\<close>

lemma createVenueSessionPolicyE:
  assumes "createVenueSessionPolicy h v m inp now = Inr p"
  shows "sp_venue p = v" "sp_kill_switch p \<longleftrightarrow> si_kill_switch inp = Some True"
    "sp_allowed p = filter (\<lambda>op. op \<in> set (supportedVenueOperations v))
       (js_uniq (or_nonempty (si_operations inp) (supportedVenueOperations v)))"
    "sp_bucket p = or_default (si_bucket inp) Bucket_25" "sp_order_count p = order_cap (si_order_count inp)"
  using assms by (auto simp: createVenueSessionPolicy_def Let_def throw_rules)

lemma bucket_rank_small: "bucketRank (bucket_text b) \<le> 4"
  by (cases b) (simp_all add: bucketRank_def)

lemma bucket_rank_known: "bucketRank s \<le> 4 \<Longrightarrow> isFundingAmountBucket s"
  by (auto simp: bucketRank_def isFundingAmountBucket_def GHOLA_FUNDING_AMOUNT_BUCKETS_def max_safe_def split: if_splits)

lemma order_cap_bound: "order_cap n = NaN \<longleftrightarrow> n = Some NaN"
  "n \<noteq> Some NaN \<Longrightarrow> \<exists>c. order_cap n = Fin c \<and> c \<le> 100"
  by (cases n; cases "the n"; auto simp: order_cap_def or_default_def num_max_def num_min_def split: if_splits)+

lemma below_cap:
  "x \<noteq> NaN \<Longrightarrow> \<not> num_geq (num_max (num 0) (num_floor x)) (Fin c) \<Longrightarrow> c \<le> 100 \<Longrightarrow> num_less (num_floor x) (num 100)"
proof (cases x)
  case (Fin r)
  assume "\<not> num_geq (num_max (num 0) (num_floor x)) (Fin c)" "c \<le> 100"
  moreover have "rat_of_int \<lfloor>r\<rfloor> < 100 \<Longrightarrow> r < 100" by simp
  moreover have "0 < c \<Longrightarrow> r < 1 \<Longrightarrow> r < 100" by simp
  ultimately show ?thesis by (auto simp: Fin num_geq_def num_max_def split: if_splits dest: less_le_trans)
qed (auto simp: num_geq_def num_max_def split: if_splits)

text \<open>A session policy is not exceeded. An operation that passes the check of a created policy is one
  the venue supports and, where the policy was created with a list, one of that list, never a blocked
  one; the kill switch is off, the policy has not expired, the market is on its list, the amount is
  one of the five buckets up to the cap, and fewer than a hundred orders were placed (unless the limit
  or the count is \<open>NaN\<close>, which the comparison lets pass).\<close>

theorem session_policy_limits:
  assumes "createVenueSessionPolicy h v m inp now = Inr p"
    and "validateVenuePolicyExecution p operation market bucket orders t = []"
  shows "\<exists>op. operation = Inl op \<and> op \<in> set (supportedVenueOperations v) \<and>
    op \<in> set (or_nonempty (si_operations inp) (supportedVenueOperations v)) \<and>
    si_kill_switch inp \<noteq> Some True \<and> t < sp_expires_at p \<and>
    (\<forall>x. market = Some x \<longrightarrow> js_upper (js_trim x) = [] \<or> js_upper (js_trim x) \<in> set (sp_markets p)) \<and>
    isFundingAmountBucket (text_or bucket (bucket_text (sp_bucket p))) \<and>
    bucketRank (text_or bucket (bucket_text (sp_bucket p))) \<le> bucketRank (bucket_text (or_default (si_bucket inp) Bucket_25)) \<and>
    (si_order_count inp = Some NaN \<or> orders = Some NaN \<or> num_less (num_floor (or_default orders (num 0))) (num 100))"
proof -
  note fields = createVenueSessionPolicyE [OF assms(1)]
  have checks: "\<not> sp_kill_switch p" "t < sp_expires_at p"
    "case operation of Inl op \<Rightarrow> op \<in> set (sp_allowed p) | Inr op \<Rightarrow> False"
    "\<not> (case market of None \<Rightarrow> False
       | Some m \<Rightarrow> js_upper (js_trim m) \<noteq> [] \<and> js_upper (js_trim m) \<notin> set (sp_markets p))"
    "bucketRank (text_or bucket (bucket_text (sp_bucket p))) \<le> bucketRank (bucket_text (sp_bucket p))"
    "\<not> num_geq (num_max (num 0) (num_floor (or_default orders (num 0)))) (sp_order_count p)"
    using assms(2) unfolding validateVenuePolicyExecution_def policy_errors_def append_is_Nil_conv reason_if_Nil
    by (simp_all add: not_le)
  obtain op where op: "operation = Inl op" "op \<in> set (sp_allowed p)"
    using checks(3) by (cases operation) simp_all
  have "si_order_count inp = Some NaN \<or> orders = Some NaN \<or> num_less (num_floor (or_default orders (num 0))) (num 100)"
  proof (cases "si_order_count inp = Some NaN \<or> orders = Some NaN")
    case False
    then obtain c where c: "order_cap (si_order_count inp) = Fin c" "c \<le> 100" using order_cap_bound(2) by blast
    have "or_default orders (num 0) \<noteq> NaN" using False by (cases orders) (simp_all add: or_default_def)
    then show ?thesis using below_cap [OF _ _ c(2)] checks(6) by (simp add: fields(5) c(1))
  qed blast
  moreover have "isFundingAmountBucket (text_or bucket (bucket_text (sp_bucket p)))"
    using checks(5) bucket_rank_small [of "sp_bucket p"] by (intro bucket_rank_known) simp
  moreover have "js_upper (js_trim x) = [] \<or> js_upper (js_trim x) \<in> set (sp_markets p)" if "market = Some x" for x
    using checks(4) that by simp
  ultimately show ?thesis using op checks(1,2,5) fields by auto
qed

definition demo_session_input :: "GholaVenueOperationClass session_policy_input" where
  "demo_session_input = \<lparr>si_markets = Some ['' sol ''], si_bucket = Some Bucket_10, si_order_count = Some (num 3),
     si_ttl_ms = None, si_kill_switch = None, si_operations = Some [Op_read, Op_swap, Op_limit_order],
     si_strategy = JUndef, si_prompt = JUndef\<rparr>"

lemma session_policy_limits_witness:
  "\<exists>p. validateVenuePolicyExecution p (Inl Op_swap) (Some ''sol'') (Some ''5'') (Some (num 2)) 1799999 = [] \<and>
     Op_swap \<in> set (supportedVenueOperations V_jupiter) \<and> 1799999 < sp_expires_at p"
proof -
  let ?create = "createVenueSessionPolicy (ah_host demo_account_host) V_jupiter None demo_session_input 0"
  have "case ?create of Inr p \<Rightarrow> validateVenuePolicyExecution p (Inl Op_swap) (Some ''sol'') (Some ''5'') (Some (num 2)) 1799999 = []
      | Inl e \<Rightarrow> False" by code_simp
  then obtain p where p: "?create = Inr p"
      "validateVenuePolicyExecution p (Inl Op_swap) (Some ''sol'') (Some ''5'') (Some (num 2)) 1799999 = []"
    by (cases ?create) simp_all
  from session_policy_limits [OF p] p(2) show ?thesis by auto
qed

end
