(* ===== verification/AccountCoordinatorClaims.thy ===== *)
theory AccountCoordinatorClaims imports AccountCoordinatorMachine AccountFundingClaims AccountClaims
begin

text \<open>The properties of the coordinator of funding batches, their witnesses, and what its locking and its counts miss.\<close>

section \<open>What evidence stands for\<close>

definition counted_deposits :: "account_store \<Rightarrow> PrivateFundingBatchRecordV1 \<Rightarrow> PrivateFundingImportRecordV1 list" where
  "counted_deposits st b = map (\<lambda>c. the (js_get (st_imports st) c)) (fb_imports b)"

lemma counted_found:
  assumes "list_all (counted_deposit st b) (fb_imports b)" "c \<in> set (fb_imports b)"
  obtains m where "js_get (st_imports st) c = Some m" "fim_verifier_status m = Ver_verified" "fim_asset m = fb_asset b"
    "fim_amount m = fb_amount b" "fim_network m = fb_network b"
proof -
  have "counted_deposit st b c" using assms by (simp add: list_all_iff)
  then show ?thesis using that by (auto simp: counted_deposit_def split: option.splits)
qed

lemma filed_key: "deposits_filed st \<Longrightarrow> js_get (st_imports st) c = Some m \<Longrightarrow> fim_commitment m = c"
  by (simp add: deposits_filed_def jm.all_entries_def)

lemma filed_apart:
  assumes "deposits_filed st" "js_get (st_imports st) c = Some m" "js_get (st_imports st) c' = Some m'"
    "fim_verifier_status m = Ver_verified" "fim_verifier_status m' = Ver_verified" "fim_nullifier m = fim_nullifier m'"
  shows "c = c'"
  using assms unfolding deposits_filed_def distinct_nullifiers_def by blast

lemma counted_in:
  assumes filed: "deposits_filed st" and counted: "list_all (counted_deposit st b) (fb_imports b)" and m: "m \<in> set (counted_deposits st b)"
  shows "js_get (st_imports st) (fim_commitment m) = Some m \<and> fim_verifier_status m = Ver_verified \<and>
    fim_asset m = fb_asset b \<and> fim_amount m = fb_amount b \<and> fim_network m = fb_network b"
proof -
  from m obtain c where c: "c \<in> set (fb_imports b)" "m = the (js_get (st_imports st) c)" unfolding counted_deposits_def by force
  obtain m0 where m0: "js_get (st_imports st) c = Some m0" "fim_verifier_status m0 = Ver_verified" "fim_asset m0 = fb_asset b"
    "fim_amount m0 = fb_amount b" "fim_network m0 = fb_network b" by (rule counted_found [OF counted c(1)])
  have same: "m = m0" using c(2) m0(1) by simp
  have "fim_commitment m0 = c" by (rule filed_key [OF filed m0(1)])
  then show ?thesis unfolding same using m0 by blast
qed

lemma counted_nullifiers:
  assumes filed: "deposits_filed st" and counted: "list_all (counted_deposit st b) (fb_imports b)" and once: "distinct (fb_imports b)"
  shows "distinct (map fim_nullifier (counted_deposits st b))"
proof -
  have "inj_on (\<lambda>c. fim_nullifier (the (js_get (st_imports st) c))) (set (fb_imports b))"
  proof (rule inj_onI)
    fix c c' assume c: "c \<in> set (fb_imports b)" "c' \<in> set (fb_imports b)"
      and same: "fim_nullifier (the (js_get (st_imports st) c)) = fim_nullifier (the (js_get (st_imports st) c'))"
    obtain m where m: "js_get (st_imports st) c = Some m" "fim_verifier_status m = Ver_verified" by (rule counted_found [OF counted c(1)])
    obtain m' where m': "js_get (st_imports st) c' = Some m'" "fim_verifier_status m' = Ver_verified" by (rule counted_found [OF counted c(2)])
    have "fim_nullifier m = fim_nullifier m'" using same by (simp only: m(1) m'(1) option.sel)
    then show "c = c'" by (rule filed_apart [OF filed m(1) m'(1) m(2) m'(2)])
  qed
  then show ?thesis unfolding counted_deposits_def using once by (simp add: distinct_map comp_def)
qed

lemma own_counted:
  assumes filed: "deposits_filed st" and counted: "list_all (counted_deposit st b) (fb_imports b)"
    and c: "fb_selected_import b = Some c" "c \<in> set (fb_imports b)" "own_deposit st b c"
  shows "list_ex (\<lambda>m. fim_owner m = fb_owner b \<and> fim_account m = fb_account b \<and> fb_selected_import b = Some (fim_commitment m))
       (counted_deposits st b)"
proof -
  obtain m where m: "js_get (st_imports st) c = Some m" by (rule counted_found [OF counted c(2)])
  have "m \<in> set (counted_deposits st b)" unfolding counted_deposits_def set_map by (rule image_eqI [OF _ c(2)]) (simp add: m)
  moreover have "fim_owner m = fb_owner b \<and> fim_account m = fb_account b" using c(3) by (simp add: own_deposit_def m)
  moreover have "fb_selected_import b = Some (fim_commitment m)" using c(1) filed_key [OF filed m] by simp
  ultimately show ?thesis unfolding list_ex_iff by blast
qed

lemma backed_deposits:
  assumes filed: "deposits_filed st" and b: "batch_backed st b" "fb_evidence b \<noteq> None"
  shows "1 \<le> fb_required b" "fb_required b \<le> int (length (counted_deposits st b))"
    "distinct (map fim_nullifier (counted_deposits st b))"
    "list_all (\<lambda>m. js_get (st_imports st) (fim_commitment m) = Some m \<and> fim_verifier_status m = Ver_verified \<and>
       fim_asset m = fb_asset b \<and> fim_amount m = fb_amount b \<and> fim_network m = fb_network b) (counted_deposits st b)"
    "list_ex (\<lambda>m. fim_owner m = fb_owner b \<and> fim_account m = fb_account b \<and> fb_selected_import b = Some (fim_commitment m))
       (counted_deposits st b)"
proof -
  have facts: "1 \<le> fb_required b" "fb_required b \<le> int (fb_effective b)" "fb_effective b = length (fb_imports b)" "distinct (fb_imports b)"
      "list_all (counted_deposit st b) (fb_imports b)"
      "case fb_selected_import b of None \<Rightarrow> False | Some c \<Rightarrow> c \<in> set (fb_imports b) \<and> own_deposit st b c"
    using b unfolding batch_backed_def by blast+
  show "1 \<le> fb_required b" "fb_required b \<le> int (length (counted_deposits st b))"
    using facts(1-3) by (simp_all add: counted_deposits_def)
  show "distinct (map fim_nullifier (counted_deposits st b))" by (rule counted_nullifiers [OF filed facts(5,4)])
  show "list_all (\<lambda>m. js_get (st_imports st) (fim_commitment m) = Some m \<and> fim_verifier_status m = Ver_verified \<and>
       fim_asset m = fb_asset b \<and> fim_amount m = fb_amount b \<and> fim_network m = fb_network b) (counted_deposits st b)"
    unfolding list_all_iff by (intro ballI counted_in [OF filed facts(5)])
  obtain c where c: "fb_selected_import b = Some c" "c \<in> set (fb_imports b)" "own_deposit st b c"
    using facts(6) by (cases "fb_selected_import b") simp_all
  show "list_ex (\<lambda>m. fim_owner m = fb_owner b \<and> fim_account m = fb_account b \<and> fb_selected_import b = Some (fim_commitment m))
       (counted_deposits st b)"
    by (rule own_counted [OF filed facts(5) c])
qed

lemma coordinator_run_inv:
  "run_admits coordinator_step coordinator_admits empty_coordinator_store calls \<Longrightarrow>
     coordinator_inv (run_calls coordinator_step empty_coordinator_store calls)"
  using coordinator.run_inv [OF coordinator_inv_empty, of calls] by (simp add: run_admitted)

lemma evidence_batch:
  assumes "coordinator_inv st" "evidenceChainForExecution h p approval (co_exec st) = Some chain"
  obtains b where "b \<in> set (js_values (ex_batches (co_exec st)))" "fb_evidence b \<noteq> None"
    "fb_evidence b = chain_text (pv_chain p) ''batch_evidence_commitment''" "batch_backed (co_account st) b" "deposits_filed (co_account st)"
proof -
  let ?e = "the (chain_text (pv_chain p) ''batch_evidence_commitment'')"
  have has: "chain_has (pv_chain p) ''batch_evidence_commitment''"
    and chain: "preservePreviewAuctionEvidence (evidenceChainFromBatch (getPrivateFundingBatchByEvidence (co_exec st) ?e) (pv_commitment p) approval)
      (pv_chain p) = Some chain"
    using assms(2) by (auto simp: evidenceChainForExecution_def split: if_splits)
  have "getPrivateFundingBatchByEvidence (co_exec st) ?e \<noteq> None"
  proof
    assume "getPrivateFundingBatchByEvidence (co_exec st) ?e = None"
    then show False using chain by (simp add: evidenceChainFromBatch_def preservePreviewAuctionEvidence_def)
  qed
  then obtain b where "getPrivateFundingBatchByEvidence (co_exec st) ?e = Some b" by blast
  then have b: "b \<in> set (js_values (ex_batches (co_exec st)))" "fb_evidence b = Some ?e"
    by (auto simp: getPrivateFundingBatchByEvidence_def find_Some_iff in_set_conv_nth)
  moreover have "chain_text (pv_chain p) ''batch_evidence_commitment'' = Some ?e"
    using has by (auto simp: chain_has_def has_text_def split: option.splits)
  ultimately show ?thesis using that assms(1)
    by (auto simp: coordinator_inv_def batches_backed_def list_all_iff)
qed

section \<open>One deposit\<close>

definition demo_batch_host :: "bool \<Rightarrow> pool_host" where
  "demo_batch_host fast = \<lparr>pl_host = demo_funding_host\<lparr>fh_env := (\<lambda>name.
      if name = ''GHOLA_CUSTOM_SHIELDED_VERIFIER_MODE'' \<or> name = ''GHOLA_SHIELDED_POOL_MODE'' then Some ''local_test''
      else if fast \<and> name = ''GHOLA_PRIVATE_ACCOUNT_BATCH_MIN_DELAY_SECONDS'' then Some ''0''
      else if fast \<and> name = ''GHOLA_PRIVATE_ACCOUNT_BATCH_REQUIRED_SET'' then Some ''1'' else None)\<rparr>,
     pl_join = (\<lambda>p b. None), pl_get = (\<lambda>u t. Fetch_threw), pl_post = (\<lambda>p u t b. Fetch_threw)\<rparr>"

definition no_scope :: coordinator_input where
  "no_scope = \<lparr>ci_owner = None, ci_queue_id = None, ci_limit = None\<rparr>"

lemma demo_batch_commitment [simp]: "gholaCommitment (fh_host (pl_host (demo_batch_host fast))) prefix v = prefix @ ''_0''"
  by (simp add: gholaCommitment_def demo_batch_host_def demo_funding_host_def)

lemma demo_batch_config:
  "vh_green (customShieldedVerifierHealth (pl_host (demo_batch_host fast)) now)"
  "ph_green (shieldedPoolHealth (demo_batch_host fast) now)"
  "vc_max_stale_ms (verifierConfig (pl_host (demo_batch_host fast))) = 300000"
  by (simp_all add: customShieldedVerifierHealth_def verifier_health_def verifierConfig_def shieldedPoolConfig_def pool_green_iff
    demo_batch_host_def env_int_def text_or_def Let_def) code_simp

lemma demo_fast_config:
  "requiredAnonymitySet (pl_host (demo_batch_host True)) = 1" "fundingBatchMinDelaySeconds (pl_host (demo_batch_host True)) = 0"
  by code_simp+

lemma one_deposit:
  assumes "st_imports st = [(''funding_import_0'', demo_import)]" "st_queue st = []"
  shows "coordinatorImports no_scope st = [demo_import]" "coordinatorQueues no_scope st = []"
    "batch_targets [demo_import] [] = [(demo_import, None)]" "network_imports st demo_import = [demo_import]"
  using assms
  by (simp_all add: coordinatorImports_def coordinatorQueues_def no_scope_def listAllPrivateFundingImports_def listAllQueuedActions_def
    batch_targets_def queue_targets_def targetImports_def network_imports_def compatible_imports_def listCompatibleFundingImports_def
    js_values_def newest_first_def sort_by_def safe_limit_def demo_import_def js_set_def List.map_filter_def)

lemma demo_batch:
  assumes "st_imports st = [(''funding_import_0'', demo_import)]"
  shows "matured_imports (pl_host (demo_batch_host True)) demo_import 3000 st = [demo_import]"
    "batch_ready (pl_host (demo_batch_host True)) demo_import 3000 st"
proof -
  have network: "network_imports st demo_import = [demo_import]"
    using assms by (simp add: network_imports_def compatible_imports_def listCompatibleFundingImports_def js_values_def newest_first_def
      sort_by_def safe_limit_def demo_import_def)
  have stamps: "fim_observed_at demo_import = 2000" "fim_imported_at demo_import = 2000" by (simp_all add: demo_import_def)
  show matured: "matured_imports (pl_host (demo_batch_host True)) demo_import 3000 st = [demo_import]"
    by (simp add: matured_imports_def fresh_imports_def network isVerifierStateStale_def demo_batch_config demo_fast_config stamps)
  show "batch_ready (pl_host (demo_batch_host True)) demo_import 3000 st"
    by (simp add: batch_ready_def timing_window_met_def matured demo_fast_config)
qed

lemma demo_coordinated:
  assumes "st_imports (co_account st) = [(''funding_import_0'', demo_import)]" "st_queue (co_account st) = []" "st_locks (co_account st) = []"
  shows "runPrivateFundingBatchCoordinator (demo_batch_host fast) no_scope now now st =
    (let (c, st1) = coordinateOne (pl_host (demo_batch_host fast)) (demo_import, None) now
           (on_account (\<lambda>a. snd (acquirePrivateCoordinatorLock COORDINATOR_LOCK ''batch_run_window_0'' now
              (coordinatorLockTtlMs (pl_host (demo_batch_host fast))) (co_account st))) st);
         run = finished_run (demo_batch_host fast) ''batch_run_window_0'' no_scope now [demo_import] [] (add_progress no_progress c)
     in ((run, [cb_batch c]), on_account (releasePrivateCoordinatorLock COORDINATOR_LOCK ''batch_run_window_0'')
          (putPrivateFundingBatchRun run st1)))"
proof -
  have window: "coordinatorRunWindowCommitment (pl_host (demo_batch_host fast)) now no_scope = ''batch_run_window_0''"
    by (simp add: coordinatorRunWindowCommitment_def Let_def)
  let ?taken = "acquirePrivateCoordinatorLock COORDINATOR_LOCK ''batch_run_window_0'' now
      (coordinatorLockTtlMs (pl_host (demo_batch_host fast))) (co_account st)"
  have taken: "fst (fst ?taken)"
    by (simp add: acquirePrivateCoordinatorLock_def getPrivateCoordinatorLock_def Let_def assms(3) js_get_def)
  have "st_imports (snd ?taken) = [(''funding_import_0'', demo_import)]" "st_queue (snd ?taken) = []"
    using assms by (simp_all add: acquirePrivateCoordinatorLock_def getPrivateCoordinatorLock_def Let_def js_get_def)
  then have listed: "coordinatorImports no_scope (snd ?taken) = [demo_import]" "coordinatorQueues no_scope (snd ?taken) = []"
    "batch_targets [demo_import] [] = [(demo_import, None)]"
    using one_deposit by blast+
  show ?thesis
    by (simp add: runPrivateFundingBatchCoordinator_def window Let_def case_prod_beta taken coordinate_batches_def demo_batch_config
      on_account_def [of _ st] listed mark_queue_ready_def add_progress_def no_progress_def)
qed

section \<open>Properties\<close>

text \<open>C33: what anonymity evidence stands for. On every store that deposits, runs of the coordinator and executions lead to
  (handled one after the other, as long as no commitment of a verified deposit collides), when an execution finds the evidence its preview names, there
  is a batch with this evidence, and the batch counts at least as many deposits as it requires, at least one: each is in the
  store, verified, of the asset, amount and network of the batch, no two spend the same note, and one of them is the
  deposit of the owner and account the batch was formed for.\<close>
theorem evidence_counts_deposits:
  assumes "run_admits coordinator_step coordinator_admits empty_coordinator_store calls"
    "st = run_calls coordinator_step empty_coordinator_store calls"
    "evidenceChainForExecution h p approval (co_exec st) = Some chain"
  shows "\<exists>b \<in> set (js_values (ex_batches (co_exec st))).
    fb_evidence b = chain_text (pv_chain p) ''batch_evidence_commitment'' \<and>
    1 \<le> fb_required b \<and> fb_required b \<le> int (length (counted_deposits (co_account st) b)) \<and>
    distinct (map fim_nullifier (counted_deposits (co_account st) b)) \<and>
    list_all (\<lambda>m. js_get (st_imports (co_account st)) (fim_commitment m) = Some m \<and> fim_verifier_status m = Ver_verified \<and>
      fim_asset m = fb_asset b \<and> fim_amount m = fb_amount b \<and> fim_network m = fb_network b) (counted_deposits (co_account st) b) \<and>
    list_ex (\<lambda>m. fim_owner m = fb_owner b \<and> fim_account m = fb_account b \<and> fb_selected_import b = Some (fim_commitment m))
      (counted_deposits (co_account st) b)"
proof -
  have "coordinator_inv st" using coordinator_run_inv assms(1,2) by simp
  then obtain b where b: "b \<in> set (js_values (ex_batches (co_exec st)))" "fb_evidence b \<noteq> None"
    "fb_evidence b = chain_text (pv_chain p) ''batch_evidence_commitment''" "batch_backed (co_account st) b" "deposits_filed (co_account st)"
    using evidence_batch assms(3) by blast
  show ?thesis using b(3) backed_deposits [OF b(5,4,2)] by (intro bexI [OF _ b(1)] conjI)
qed

definition demo_batch_calls :: "coordinator_call list" where
  "demo_batch_calls = [Funding (Instruct demo_funding_host (JObj [(''amount_bucket'', JStr ''50'')]) ''o'' ''1'' 1000),
     Funding (Import_deposit demo_funding_host demo_deposit_receipt ''o'' 2000),
     Coordinate (demo_batch_host True) no_scope 3000 3000]"

definition demo_private_host :: execution_host where
  "demo_private_host = \<lparr>eh_pool = demo_batch_host True, eh_hmac = (\<lambda>k s. s), eh_mode_green = (\<lambda>st. True),
     eh_connector = (\<lambda>q st. (throw ''connector_not_ready'', st))\<rparr>"

lemma account_queue: "st_queue (snd (createOrGetStoredPrivateAccount h owner now st)) = st_queue st"
    "st_locks (snd (createOrGetStoredPrivateAccount h owner now st)) = st_locks st"
  by (simp_all add: createOrGetStoredPrivateAccount_def putPrivateAccountRecord_def putPrivateVaultState_def putPrivacyBudget_def
    Let_def split: option.split)

lemma instruction_queue: "st_queue (snd (fundingInstructionFromBody h body owner uuid now st)) = st_queue st"
    "st_locks (snd (fundingInstructionFromBody h body owner uuid now st)) = st_locks st"
  by (simp_all add: fundingInstructionFromBody_def putPrivateFundingInstruction_def account_queue Let_def case_prod_beta)

lemma import_queue: "st_queue (snd (fundingImportFromBody h body owner now st)) = st_queue st"
    "st_locks (snd (fundingImportFromBody h body owner now st)) = st_locks st"
  by (auto simp: fundingImportFromBody_def Let_def markVaultImported_def recordRejectedFundingImport_def putPrivateAccountRecord_def
    putPrivateVaultState_def putPrivateFundingInstruction_def putPrivateFundingImport_def split: option.splits sum.splits)

lemma demo_deposited:
  obtains st where
    "coordinator_step (coordinator_step empty_coordinator_store (demo_batch_calls ! 0)) (demo_batch_calls ! 1) = st"
    "run_admits coordinator_step coordinator_admits empty_coordinator_store demo_batch_calls"
    "st_imports (co_account st) = [(''funding_import_0'', demo_import)]" "st_queue (co_account st) = []" "st_locks (co_account st) = []"
    "ex_batches (co_exec st) = []"
proof -
  let ?body = "JObj [(''amount_bucket'', JStr ''50'')]"
  obtain a1 x where first: "fundingInstructionFromBody demo_funding_host ?body ''o'' ''1'' 1000 empty_account_store = (Inr demo_instruction, a1)"
      "st_instructions a1 = [(''pact_funding_1'', demo_instruction)]" "st_imports a1 = []" "st_ledger a1 = []"
      "st_accounts a1 = [(''acct_0'', x)]"
    using demo_instruct by blast
  obtain a2 where second: "fundingImportFromBody demo_funding_host demo_deposit_receipt ''o'' 2000 a1 = (Inr demo_import, a2)"
      "st_imports a2 = [(''funding_import_0'', demo_import)]"
    using demo_imported [OF first(2-5)] by blast
  have empty: "st_queue a1 = []" "st_locks a1 = []"
    using instruction_queue [of demo_funding_host ?body "''o''" "''1''" 1000 empty_account_store] first(1)
    by (simp_all add: empty_account_store_def)
  then have empty2: "st_queue a2 = []" "st_locks a2 = []"
    using import_queue [of demo_funding_host demo_deposit_receipt "''o''" 2000 a1] second(1) by simp_all
  let ?st1 = "empty_coordinator_store\<lparr>co_exec := empty_execution_store\<lparr>ex_account := a1\<rparr>\<rparr>"
  let ?st2 = "empty_coordinator_store\<lparr>co_exec := empty_execution_store\<lparr>ex_account := a2\<rparr>\<rparr>"
  have step1: "coordinator_step empty_coordinator_store (demo_batch_calls ! 0) = ?st1"
    by (simp add: demo_batch_calls_def on_account_def first(1) empty_coordinator_store_def empty_execution_store_def)
  have step2: "coordinator_step ?st1 (demo_batch_calls ! 1) = ?st2"
    by (simp add: demo_batch_calls_def on_account_def second(1))
  have "st_imports empty_account_store = []" by (simp add: empty_account_store_def)
  then have admits: "run_admits coordinator_step coordinator_admits empty_coordinator_store demo_batch_calls"
    by (simp add: demo_batch_calls_def on_account_def first(1,3) keeps_verified_def empty_coordinator_store_def empty_execution_store_def)
  show ?thesis
    by (rule that [of ?st2]) (use step1 step2 admits second(2) empty2 in \<open>simp_all add: empty_execution_store_def\<close>)
qed

lemma evidence_counts_deposits_witness:
  "\<exists>st. \<exists>b \<in> set (js_values (ex_batches (co_exec st))). fb_evidence b = Some ''anon_evidence_0'' \<and> 1 \<le> fb_required b \<and>
     fb_required b \<le> int (length (counted_deposits (co_account st) b)) \<and>
     run_calls coordinator_step empty_coordinator_store demo_batch_calls = st"
proof -
  obtain st where st: "coordinator_step (coordinator_step empty_coordinator_store (demo_batch_calls ! 0)) (demo_batch_calls ! 1) = st"
    "run_admits coordinator_step coordinator_admits empty_coordinator_store demo_batch_calls"
    "st_imports (co_account st) = [(''funding_import_0'', demo_import)]" "st_queue (co_account st) = []" "st_locks (co_account st) = []"
    "ex_batches (co_exec st) = []"
    by (rule demo_deposited)
  define st' where "st' = snd (runPrivateFundingBatchCoordinator (demo_batch_host True) no_scope 3000 3000 st)"
  have last: "coordinator_step st (demo_batch_calls ! 2) = st'" by (simp add: demo_batch_calls_def st'_def)
  have split: "demo_batch_calls = [demo_batch_calls ! 0, demo_batch_calls ! 1, demo_batch_calls ! 2]" by (simp add: demo_batch_calls_def)
  have run: "run_calls coordinator_step empty_coordinator_store demo_batch_calls = st'"
    by (subst split) (simp only: run_calls.simps st(1) last)
  have ready: "batch_ready (pl_host (demo_batch_host True)) demo_import 3000 acc" if "st_imports acc = st_imports (co_account st)" for acc
    using demo_batch(2) st(3) that by simp
  have "\<exists>b. ex_batches (co_exec st') = [(fb_id b, b)] \<and> fb_evidence b = Some ''anon_evidence_0'' \<and> fb_selected_import b = Some ''funding_import_0''"
    unfolding st'_def demo_coordinated [OF st(3-5)]
    by (simp add: coordinateOne_def Let_def on_account_def ready putAnonymityEvidence_def putPrivateFundingBatch_def
      putPrivateFundingBatchRun_def st(6) js_set_def batch_of_target_def batch_evidence_def demo_import_def [THEN arg_cong, of fim_commitment])
  then obtain b where b: "ex_batches (co_exec st') = [(fb_id b, b)]" "fb_evidence b = Some ''anon_evidence_0''"
    "fb_selected_import b = Some ''funding_import_0''" by blast
  let ?p = "demo_preview\<lparr>pv_chain := Some [(''batch_evidence_commitment'', JStr ''anon_evidence_0'')]\<rparr>"
  have plain: "chain_text (Some [(''batch_evidence_commitment'', JStr ''anon_evidence_0'')]) ''batch_evidence_commitment'' = Some ''anon_evidence_0''"
    by (simp add: chain_text_def js_get_def)
  then have named: "chain_text (pv_chain ?p) ''batch_evidence_commitment'' = Some ''anon_evidence_0''" by simp
  have "\<exists>chain. evidenceChainForExecution demo_private_host ?p ''approval'' (co_exec st') = Some chain"
    by (simp add: evidenceChainForExecution_def chain_has_def plain demo_private_host_def getPrivateFundingBatchByEvidence_def b
      js_values_def evidenceChainFromBatch_def preservePreviewAuctionEvidence_def)
  then obtain chain where chain: "evidenceChainForExecution demo_private_host ?p ''approval'' (co_exec st') = Some chain" by blast
  from evidence_counts_deposits [OF st(2) run [symmetric] chain] show ?thesis
    unfolding named using run by blast
qed

section \<open>The default delay\<close>

lemma slow_never_ready:
  assumes slow: "vc_max_stale_ms (verifierConfig h) < fundingBatchMinDelaySeconds h * 1000"
    and seen: "list_all (\<lambda>m. fim_observed_at m \<le> fim_imported_at m) (js_values (st_imports st))"
  shows "\<not> batch_ready h selected now st"
proof -
  have False if "m \<in> set (matured_imports h selected now st)" for m
  proof -
    have "fim_observed_at m \<le> fim_imported_at m" using seen matured_in(1) [OF that] by (simp add: list_all_iff)
    then show False using matured_in(6,7) [OF that] slow by linarith
  qed
  then have "matured_imports h selected now st = []" by (meson last_in_set)
  then show ?thesis by (simp add: batch_ready_def timing_window_met_def)
qed

definition batch_waits :: "PrivateFundingBatchRecordV1 \<Rightarrow> bool" where
  "batch_waits b \<longleftrightarrow> fb_status b = Batch_waiting \<and> fb_evidence b = None"

lemma coordinate_one_waits:
  assumes "\<not> batch_ready h (fst t) now (co_account st)" "coordinateOne h t now st = (c, st')"
  shows "batch_waits (cb_batch c)" "co_evidence st' = co_evidence st" "co_account st' = co_account st"
  using assms by (auto simp: coordinateOne_def batch_of_target_def batch_waits_def putPrivateFundingBatch_def Let_def)

lemma coordinate_targets_wait:
  assumes "\<And>selected acc. st_imports acc = st_imports (co_account st) \<Longrightarrow> \<not> batch_ready h selected now acc"
    "list_all batch_waits (bp_batches p)"
  shows "list_all batch_waits (bp_batches (fst (coordinate_targets h now clock seen ts p st))) \<and>
    co_evidence (snd (coordinate_targets h now clock seen ts p st)) = co_evidence st"
  using assms
proof (induction h now clock seen ts p st rule: coordinate_targets.induct)
  case (1 h now clock seen p st)
  then show ?case by simp
next
  case (2 h now clock seen t ts p st)
  show ?case
  proof (cases "target_key t \<in> set seen")
    case True
    then show ?thesis using 2 by simp
  next
    case False
    obtain c st1 where one: "coordinateOne h t now st = (c, st1)" by fastforce
    note waits = coordinate_one_waits [OF 2(3) [OF refl] one]
    have marked: "mark_queue_ready t (cb_batch c) clock st1 = st1"
      using waits(1) by (simp add: mark_queue_ready_def batch_waits_def split: option.split)
    have "list_all batch_waits (bp_batches (add_progress p c))" using 2(4) waits(1) by (simp add: add_progress_def)
    then show ?thesis
      using 2(2) [OF False one [symmetric] refl] 2(3) False waits(2,3) by (simp add: one marked)
  qed
qed

lemma on_account_evidence [simp]: "co_evidence (on_account f st) = co_evidence st"
  by (simp add: on_account_def)

lemma slow_run_waits:
  assumes "vc_max_stale_ms (verifierConfig (pl_host h)) < fundingBatchMinDelaySeconds (pl_host h) * 1000"
    "list_all (\<lambda>m. fim_observed_at m \<le> fim_imported_at m) (js_values (st_imports (co_account st)))"
    "runPrivateFundingBatchCoordinator h inp now clock st = ((run, batches), st')"
  shows "list_all batch_waits batches" "co_evidence st' = co_evidence st"
proof -
  have unready: "\<not> batch_ready (pl_host h) selected now acc" if "st_imports acc = st_imports (co_account st)" for selected acc
    by (rule slow_never_ready [OF assms(1)]) (simp add: that assms(2))
  have formed: "list_all batch_waits (snd (fst (coordinate_batches h window inp now clock st1))) \<and>
      co_evidence (snd (coordinate_batches h window inp now clock st1)) = co_evidence st1"
    if "st_imports (co_account st1) = st_imports (co_account st)" for window st1
    using coordinate_targets_wait [of st1 "pl_host h" now no_progress clock "[]"
      "batch_targets (coordinatorImports inp (co_account st1)) (coordinatorQueues inp (co_account st1))"] unready that
    by (auto simp: coordinate_batches_def putPrivateFundingBatchRun_def no_progress_def Let_def case_prod_beta)
  let ?w = "coordinatorRunWindowCommitment (pl_host h) now inp"
  let ?st1 = "on_account (\<lambda>a. snd (acquirePrivateCoordinatorLock COORDINATOR_LOCK ?w now (coordinatorLockTtlMs (pl_host h)) (co_account st))) st"
  obtain r b s2 where c: "coordinate_batches h ?w inp now clock ?st1 = ((r, b), s2)" by (metis surj_pair)
  have "st_imports (co_account ?st1) = st_imports (co_account st)" by (simp add: on_account_def)
  from formed [OF this, of ?w] have waiting: "list_all batch_waits b" "co_evidence s2 = co_evidence st" by (simp_all add: c)
  have "batches = [] \<and> co_evidence st' = co_evidence st \<or> batches = b \<and> co_evidence st' = co_evidence s2"
    using assms(3) by (auto simp: runPrivateFundingBatchCoordinator_def Let_def case_prod_beta c split: if_splits)
  then have "list_all batch_waits batches \<and> co_evidence st' = co_evidence st" using waiting by auto
  then show "list_all batch_waits batches" "co_evidence st' = co_evidence st" by simp_all
qed

lemma default_is_slow:
  assumes "fh_env h ''GHOLA_PRIVATE_ACCOUNT_BATCH_MIN_DELAY_SECONDS'' = None" "fh_env h ''GHOLA_CUSTOM_SHIELDED_MAX_STALE_MS'' = None"
  shows "vc_max_stale_ms (verifierConfig h) < fundingBatchMinDelaySeconds h * 1000"
proof -
  have "js_parse_int 10 [] = NaN" "js_parse_int 10 ''300000'' = num 300000" "int_digits 300000 = ''300000''" by code_simp+
  then show ?thesis using assms
    by (simp add: verifierConfig_def env_int_def text_or_def fundingBatchMinDelaySeconds_def configured_int_def DEFAULT_ANONYMITY_SET_POLICY_def)
qed

text \<open>C25: with the default settings nothing is ever ready. Unless the delay of a batch or the age of the verifier's state is
  configured, no run of the coordinator, at any time and for any scope, forms a batch with evidence or records evidence, as
  long as every deposit was observed by the verifier before it was imported: a deposit must be ten minutes old to count,
  and what the verifier observed must be at most five minutes old.\<close>
theorem no_evidence_by_default:
  assumes "fh_env (pl_host h) ''GHOLA_PRIVATE_ACCOUNT_BATCH_MIN_DELAY_SECONDS'' = None"
    "fh_env (pl_host h) ''GHOLA_CUSTOM_SHIELDED_MAX_STALE_MS'' = None"
    "list_all (\<lambda>m. fim_observed_at m \<le> fim_imported_at m) (js_values (st_imports (co_account st)))"
    "runPrivateFundingBatchCoordinator h inp now clock st = ((run, batches), st')"
  shows "list_all (\<lambda>b. fb_status b = Batch_waiting \<and> fb_evidence b = None) batches \<and> co_evidence st' = co_evidence st"
  using slow_run_waits [OF default_is_slow [OF assms(1,2)] assms(3,4)] by (simp add: batch_waits_def [abs_def])

lemma no_evidence_by_default_witness:
  "\<exists>st run batches st'. runPrivateFundingBatchCoordinator (demo_batch_host False) no_scope 700000 700000 st = ((run, batches), st') \<and>
     length batches = 1 \<and> list_all (\<lambda>b. fb_status b = Batch_waiting \<and> fb_evidence b = None) batches"
proof -
  let ?st = "empty_coordinator_store\<lparr>co_exec := empty_execution_store\<lparr>ex_account :=
      empty_account_store\<lparr>st_imports := [(''funding_import_0'', demo_import)]\<rparr>\<rparr>\<rparr>"
  have store: "st_imports (co_account ?st) = [(''funding_import_0'', demo_import)]" "st_queue (co_account ?st) = []" "st_locks (co_account ?st) = []"
    by (simp_all add: empty_account_store_def)
  obtain run batches st' where run: "runPrivateFundingBatchCoordinator (demo_batch_host False) no_scope 700000 700000 ?st = ((run, batches), st')"
    by (metis surj_pair)
  have one: "length batches = 1" using arg_cong [OF run, of "\<lambda>r. length (snd (fst r))"]
    unfolding demo_coordinated [OF store] by (simp add: Let_def case_prod_beta)
  have env: "fh_env (pl_host (demo_batch_host False)) ''GHOLA_PRIVATE_ACCOUNT_BATCH_MIN_DELAY_SECONDS'' = None"
    "fh_env (pl_host (demo_batch_host False)) ''GHOLA_CUSTOM_SHIELDED_MAX_STALE_MS'' = None"
    by (simp_all add: demo_batch_host_def)
  have "list_all (\<lambda>m. fim_observed_at m \<le> fim_imported_at m) (js_values (st_imports (co_account ?st)))"
    unfolding store by (simp add: js_values_def demo_import_def)
  from no_evidence_by_default [OF env this run] show ?thesis using run one by blast
qed

section \<open>What the lock and the counts miss\<close>

text \<open>The first run does not need the lock: while no run is recorded, a run goes on without it.\<close>
theorem first_run_ignores_lock:
  assumes "getPrivateCoordinatorLock (co_account st) COORDINATOR_LOCK = Some lock" "now < lk_expires_at lock" "co_runs st = []"
  shows "fst (runPrivateFundingBatchCoordinator h inp now clock st) =
    fst (coordinate_batches h (coordinatorRunWindowCommitment (pl_host h) now inp) inp now clock st)"
  using assms
  by (simp add: runPrivateFundingBatchCoordinator_def acquirePrivateCoordinatorLock_def getLatestPrivateFundingBatchRun_def
    on_account_def newest_first_def sort_by_def Let_def case_prod_beta)

text \<open>No import is ever counted as rejected, since only verified ones are listed.\<close>
theorem rejected_never_counted: "cb_rejected_imports (fst (coordinateOne h t now st)) = 0"
  by (auto simp: coordinateOne_def compatible_imports_def listCompatibleFundingImports_def filter_empty_conv Let_def dest!: take_within)

text \<open>New deposits hide old ones: the five hundred newest of a bucket are looked at, and when these are too young no
  batch is ready, whatever lies behind them.\<close>
theorem young_deposits_hide_old:
  assumes "list_all (\<lambda>m. now - fim_imported_at m < fundingBatchMinDelaySeconds h * 1000) (compatible_imports st selected)"
  shows "\<not> batch_ready h selected now st"
proof -
  have "matured_imports h selected now st = []"
    using assms by (auto simp: matured_imports_def fresh_imports_def network_imports_def list_all_iff filter_empty_conv)
  then show ?thesis by (simp add: batch_ready_def timing_window_met_def)
qed

end
