(* ===== verification/AccountExecutionClaims.thy ===== *)
theory AccountExecutionClaims imports AccountExecutionMachine AccountClaims
begin

text \<open>
  The properties of the life of a private action after its preview: what an execution needs, that a request is answered
  like the first one by the same approval, when a plan is ready, and that approving never looks at the status of the
  intent.
\<close>

section \<open>Settlements of an execution\<close>

lemma finalized_settlement:
  assumes "settlementForExecution h owner (Some r) approval execution True now st = (Inr settled, st')"
  shows "\<exists>s. settled = Some s \<and> str_lifecycle s = Life_finalized \<and> getPrivateSettlementByExecution st' execution = Some s"
proof (cases "getPrivateSettlementByExecution st execution")
  case (Some s)
  then show ?thesis using assms by (auto simp: settlementForExecution_def Let_def split: if_splits)
next
  case None
  then obtain e where e: "settlePrivateExecutionPlan (eh_pool h) (epr_plan r) approval execution now = Inr e"
    using assms by (auto simp: settlementForExecution_def Let_def split: sum.splits)
  let ?s = "settlement_record owner r approval execution e now"
  have final: "str_lifecycle ?s = Life_finalized"
    using assms None e by (auto simp: settlementForExecution_def Let_def split: if_splits)
  have answer: "settled = Some ?s" "st' = putPrivateSettlement ?s st"
    using assms None e final by (simp_all add: settlementForExecution_def Let_def)
  have "getPrivateSettlementByExecution st' execution = Some ?s"
    unfolding answer(2) getPrivateSettlementByExecution_def putPrivateSettlement_def
    using None find_set_fresh [of "\<lambda>r. str_execution r = execution" "ex_settlements st" ?s]
    by (simp add: getPrivateSettlementByExecution_def settlement_record_def)
  then show ?thesis using answer(1) final by blast
qed

lemma connector_settlements:
  "connectorForExecution h q st = (a, st') \<Longrightarrow> ex_settlements st' = ex_settlements st"
  by (auto simp: connectorForExecution_def split: if_splits prod.splits)

lemma plan_for_private:
  assumes "planForExecution owner i p approved st = Inr plan" "isPrivateModeAvailableStatus (pv_status p)"
  shows "\<exists>k r. approved = Some k \<and> plan = Some r \<and> js_get (ex_plans st) k = Some r \<and> epr_owner r = owner \<and>
    epr_intent_id r = it_id i \<and> epr_preview r = pv_commitment p \<and> epr_action r = it_action i \<and> epr_status r = Plan_ready"
  using assms by (cases approved) (auto simp: planForExecution_def getPrivateExecutionPlan_def split: if_splits option.splits)

section \<open>A degraded execution\<close>

definition demo_funding_host :: funding_host where
  "demo_funding_host = \<lparr>fh_host = \<lparr>sha256_hex = (\<lambda>s. ''0''), locale_le = (\<le>)\<rparr>, fh_env = (\<lambda>n. None), fh_parse_date = (\<lambda>s. None),
     fh_health_url = Some, fh_get_health = (\<lambda>u. Fetch_threw), fh_post_verify = (\<lambda>u b. Fetch_threw)\<rparr>"

definition demo_exec_host :: execution_host where
  "demo_exec_host = \<lparr>eh_pool = \<lparr>pl_host = demo_funding_host, pl_join = (\<lambda>p b. None), pl_get = (\<lambda>u t. Fetch_threw),
     pl_post = (\<lambda>p u t b. Fetch_threw)\<rparr>, eh_hmac = (\<lambda>k s. s), eh_mode_green = (\<lambda>st. False),
     eh_connector = (\<lambda>q st. (throw ''connector_not_ready'', st))\<rparr>"

lemma demo_exec_commitment [simp]: "gholaCommitment (exec_host demo_exec_host) prefix v = prefix @ ''_0''"
  by (simp add: gholaCommitment_def demo_exec_host_def demo_funding_host_def)

lemma demo_connector [simp]: "connector_keeps_intents demo_exec_host"
  by (simp add: connector_keeps_intents_def demo_exec_host_def)

definition demo_degraded :: GholaPrivacyPreview where
  "demo_degraded = demo_preview\<lparr>pv_commitment := ''p'', pv_account := ''acct_0'', pv_action := ''act_0'',
     pv_status := Degraded_user_accepted_required, pv_chain := None, pv_connector := None, pv_mode := Mode_pre_submit_private,
     pv_expires_at := 901000\<rparr>"

definition demo_shown :: PrivateAccountPreviewRecordV1 where
  "demo_shown = \<lparr>pr_owner = ''o'', pr_commitment = ''p'', pr_intent_id = ''pact_intent_1'', pr_account = ''acct_0'', pr_action = ''act_0'',
     pr_platform = Solana_swap_aggregator, pr_rail = Shielded_batch_auction, pr_claim_status = Degraded_user_accepted_required,
     pr_level = P0_public, pr_preview = demo_degraded, pr_created_at = 1000, pr_expires_at = 901000, pr_consumed_at = None\<rparr>"

definition demo_new_body :: json where
  "demo_new_body = JObj [(''action_class'', JStr ''trade_on_platform'')]"

definition demo_approve_body :: json where
  "demo_approve_body = JObj [(''intent_id'', JStr ''pact_intent_1''), (''preview_commitment'', JStr ''p''), (''degraded_accepted'', JBool True)]"

definition demo_execute_body :: json where
  "demo_execute_body = JObj [(''intent_id'', JStr ''pact_intent_1''), (''preview_commitment'', JStr ''p''), (''approval_commitment'', JStr ''approval_0'')]"

lemma demo_exec_bodies:
  "stringValue (obj_field (asRecord demo_new_body) ''action_class'') = ''trade_on_platform''"
  "stringValue (obj_field (asRecord demo_new_body) ''product_bucket'') = []"
  "stringValue (obj_field (asRecord demo_new_body) ''policy_commitment'') = []"
  "stringValue (obj_field (asRecord demo_approve_body) ''intent_id'') = ''pact_intent_1''"
  "stringValue (obj_field (asRecord demo_approve_body) ''preview_commitment'') = ''p''"
  "stringValue (obj_field (asRecord demo_approve_body) ''execution_plan_commitment'') = []"
  "stringValue (obj_field (asRecord demo_approve_body) ''plan_commitment'') = []"
  "obj_field (asRecord demo_approve_body) ''degraded_accepted'' = JBool True"
  "stringValue (obj_field (asRecord demo_execute_body) ''intent_id'') = ''pact_intent_1''"
  "stringValue (obj_field (asRecord demo_execute_body) ''preview_commitment'') = ''p''"
  "stringValue (obj_field (asRecord demo_execute_body) ''approval_commitment'') = ''approval_0''"
  "action_class_of ''trade_on_platform'' = Some A_trade_on_platform"
  by code_simp+

definition demo_new_intent :: PrivateAccountIntentRecordV1 where
  "demo_new_intent = \<lparr>it_owner = ''o'', it_id = ''pact_intent_1'', it_account = ''acct_0'', it_action = ''act_0'',
     it_class = A_trade_on_platform, it_bucket = ''general'', it_policy = ''policy_0'', it_intent = ''intent_0'',
     it_status = It_created, it_created_at = 1000, it_expires_at = 1801000\<rparr>"

definition demo_exec_calls :: "execution_call list" where
  "demo_exec_calls = [New_preview demo_shown, New_intent demo_exec_host demo_new_body ''o'' ''1'' 1000,
     Approve_preview demo_exec_host demo_approve_body ''o'' 2000]"

lemma demo_new_intent_step:
  "\<exists>a b c. execution_step (empty_execution_store\<lparr>ex_account := putPrivateAccountPreview demo_shown empty_account_store\<rparr>)
      (New_intent demo_exec_host demo_new_body ''o'' ''1'' 1000) =
     empty_execution_store\<lparr>ex_account := empty_account_store\<lparr>st_accounts := a, st_vaults := b, st_budgets := c,
       st_previews := [(''p'', demo_shown)], st_intents := [(''pact_intent_1'', demo_new_intent)]\<rparr>\<rparr>"
  by (simp add: createIntentFromBody_def buildActionFromBody_def demo_exec_bodies Let_def createPrivateAccountAction_def
    createOrGetStoredPrivateAccount_def getPrivateAccountByOwner_def empty_account_store_def putPrivateAccountRecord_def
    putPrivateVaultState_def putPrivacyBudget_def putPrivateAccountPreview_def putPrivateAccountIntent_def demo_shown_def
    js_set_def stored_account_def createPrivateExecutionAccount_def demo_new_intent_def or_text_def some_text_def
    PRIVATE_ACCOUNT_INTENT_TTL_MS_def case_prod_beta empty_execution_store_def)

definition demo_approved :: PrivateAccountApprovalRecordV1 where
  "demo_approved = approval_record (exec_host demo_exec_host) ''o'' ''pact_intent_1'' None demo_shown True 2000"

lemma demo_approved_fields:
  "apr_commitment demo_approved = ''approval_0''" "apr_preview demo_approved = ''p''" "apr_owner demo_approved = ''o''"
  "apr_intent_id demo_approved = ''pact_intent_1''" "apr_plan demo_approved = None" "apr_degraded_accepted demo_approved"
  "apr_expires_at demo_approved = 901000" "apr_consumed_at demo_approved = None"
  by (simp_all add: demo_approved_def approval_record_def approvePrivateAccountAction_def demo_shown_def Let_def)

lemma demo_approve_step:
  assumes "ex_account st = acc" "js_get (st_intents acc) ''pact_intent_1'' = Some demo_new_intent" "js_get (st_previews acc) ''p'' = Some demo_shown"
  shows "execution_step st (Approve_preview demo_exec_host demo_approve_body ''o'' 2000) =
    set_intent_status ''pact_intent_1'' It_approved (putPrivateAccountApproval demo_approved st)"
proof -
  have "approval_subject demo_approve_body ''o'' 2000 (ex_account st) = Inr (demo_new_intent, demo_shown)"
    using assms
    by (simp add: approval_subject_def demo_exec_bodies Let_def getPrivateAccountIntent_def getPrivateAccountPreview_def
      demo_new_intent_def demo_shown_def isPrivateAccountRecordExpired_def canApprovePreview_def demo_degraded_def)
  moreover have "planForApproval demo_exec_host ''o'' demo_new_intent (pr_preview demo_shown) [] 2000 st = (Inr None, st)"
    by (simp add: planForApproval_def demo_shown_def demo_degraded_def isPrivateModeAvailableStatus_def)
  ultimately show ?thesis
    by (simp add: approveStoredPreviewFromBody_def demo_exec_bodies Let_def or_text_def demo_approved_def demo_new_intent_def)
qed

lemma demo_degraded_receipt:
  "\<exists>r. buildPrivateAccountReceipt ah demo_degraded approval execution None secret = Inr r"
  by (simp add: buildPrivateAccountReceipt_def Let_def receipt_checks_def first_failed_def demo_degraded_def isPrivateModeAvailableStatus_def)

lemma demo_execute:
  assumes "js_get (intents_of st) ''pact_intent_1'' = Some i" "it_owner i = ''o''" "it_id i = ''pact_intent_1''" "it_account i = ''acct_0''"
    "it_action i = ''act_0''" "it_expires_at i = 1801000" "js_get (st_previews (ex_account st)) ''p'' = Some demo_shown"
    "js_get (ex_approvals st) ''approval_0'' = Some demo_approved" "ex_executions st = []"
  shows "\<exists>ans st'. executeStoredActionFromBody demo_exec_host demo_execute_body ''o'' 3000 st = (Inr ans, st')"
proof -
  let ?s = "\<lparr>es_intent = i, es_preview = demo_shown, es_approval = demo_approved\<rparr>"
  have p: "pr_preview demo_shown = demo_degraded" "pr_owner demo_shown = ''o''" "pr_consumed_at demo_shown = None"
      "pr_claim_status demo_shown = Degraded_user_accepted_required"
    by (simp_all add: demo_shown_def)
  have d: "pv_commitment demo_degraded = ''p''" "pv_account demo_degraded = ''acct_0''" "pv_action demo_degraded = ''act_0''"
      "pv_status demo_degraded = Degraded_user_accepted_required" "pv_chain demo_degraded = None" "pv_connector demo_degraded = None"
      "pv_mode demo_degraded = Mode_pre_submit_private" "pv_expires_at demo_degraded = 901000"
    by (simp_all add: demo_degraded_def)
  have subject: "execution_subject_of demo_execute_body ''o'' 3000 st = Inr ?s"
    using assms
    by (simp add: execution_subject_of_def demo_exec_bodies Let_def getPrivateAccountIntent_def getPrivateAccountPreview_def
      getPrivateAccountApproval_def intents_of_def p d demo_approved_fields canExecutePrivateAccountAction_def intent_binding_def
      approval_binding_def isPrivateAccountRecordExpired_def assertPreviewMatchesIntent_def assertApprovalMatchesPreview_def canApprovePreview_def)
  have chain: "evidenceChainForExecution demo_exec_host demo_degraded (apr_commitment demo_approved) st = None"
    by (simp add: evidenceChainForExecution_def d chain_has_def chain_text_def)
  obtain r where r: "buildPrivateAccountReceipt \<lparr>ah_host = exec_host demo_exec_host, ah_hmac = eh_hmac demo_exec_host\<rparr> demo_degraded
      (apr_commitment demo_approved) (privateActionExecutionCommitment (exec_host demo_exec_host) (it_id i) (pr_commitment demo_shown)
      (apr_commitment demo_approved) None None) None (receipt_secret demo_exec_host) = Inr r"
    using demo_degraded_receipt by blast
  have fresh: "getPrivateAccountExecutionByApproval st ''approval_0'' = None"
    by (simp add: getPrivateAccountExecutionByApproval_def assms(9))
  show ?thesis
    by (simp add: executeStoredActionFromBody_def demo_exec_bodies Let_def fresh execute_new_def subject p chain d
      isPrivateModeAvailableStatus_def planForExecution_def settlementForExecution_def execute_settled_def connectorForExecution_def
      boundEvidenceChain_def r)
qed

section \<open>Properties\<close>

text \<open>C31: what an execution needs. When the first execution by an approval succeeds, the intent, the preview and the approval
  are the caller's, none of them has expired, the preview and the approval were not used before, they belong together, and
  the preview is one that may be approved. If it claims Private Mode, then the private mode was healthy, the approval named
  a ready plan of the caller for this intent and preview, and the settlement of exactly this execution is finalized.\<close>
theorem execution_needs:
  assumes "executeStoredActionFromBody h body owner now st = (Inr ans, st')"
    "getPrivateAccountExecutionByApproval st (stringValue (obj_field (asRecord body) ''approval_commitment'')) = None"
  shows "\<exists>i pr a.
    js_get (st_intents (ex_account st)) (stringValue (obj_field (asRecord body) ''intent_id'')) = Some i \<and>
    js_get (st_previews (ex_account st)) (stringValue (obj_field (asRecord body) ''preview_commitment'')) = Some pr \<and>
    js_get (ex_approvals st) (stringValue (obj_field (asRecord body) ''approval_commitment'')) = Some a \<and>
    it_owner i = owner \<and> pr_owner pr = owner \<and> apr_owner a = owner \<and> pr_consumed_at pr = None \<and> apr_consumed_at a = None \<and>
    now < it_expires_at i \<and> now < pv_expires_at (pr_preview pr) \<and> now < apr_expires_at a \<and>
    pv_account (pr_preview pr) = it_account i \<and> pv_action (pr_preview pr) = it_action i \<and>
    apr_preview a = pv_commitment (pr_preview pr) \<and> apr_intent_id a = it_id i \<and>
    canApprovePreview (pr_preview pr) (apr_degraded_accepted a) = None \<and>
    (isPrivateModeAvailableStatus (pr_claim_status pr) \<longrightarrow> eh_mode_green h st) \<and>
    (isPrivateModeAvailableStatus (pv_status (pr_preview pr)) \<longrightarrow>
      (\<exists>k r s. apr_plan a = Some k \<and> js_get (ex_plans st) k = Some r \<and> epr_owner r = owner \<and> epr_intent_id r = it_id i \<and>
         epr_preview r = pv_commitment (pr_preview pr) \<and> epr_status r = Plan_ready \<and>
         getPrivateSettlementByExecution st' (ea_execution ans) = Some s \<and> str_lifecycle s = Life_finalized))"
proof -
  have new: "execute_new h body owner now st = (Inr ans, st')"
    using assms by (simp add: executeStoredActionFromBody_def Let_def split: if_splits)
  obtain s chain plan execution settled st0 sub st1 bound receipt where
      s: "execution_subject_of body owner now st = Inr s"
      and chain: "chain = evidenceChainForExecution h (pr_preview (es_preview s)) (apr_commitment (es_approval s)) st"
      and evidence: "isPrivateModeAvailableStatus (pr_claim_status (es_preview s)) \<Longrightarrow> chain \<noteq> None"
      and plan: "planForExecution owner (es_intent s) (pr_preview (es_preview s)) (apr_plan (es_approval s)) st = Inr plan"
      and settled: "settlementForExecution h owner plan (apr_commitment (es_approval s)) execution True now st = (Inr settled, st0)"
      and connector: "connectorForExecution h \<lparr>cq_owner = owner, cq_intent = es_intent s, cq_preview = pr_preview (es_preview s),
       cq_approval = apr_commitment (es_approval s), cq_plan = map_option epr_commitment plan,
       cq_bundle = obj_field (asRecord body) ''encrypted_execution_instruction_bundle''\<rparr> st0 = (Inr sub, st1)"
      and ans: "ans = \<lparr>ea_intent = it_id (es_intent s), ea_execution = execution, ea_receipt = receipt\<rparr>"
      and st': "st' = record_execution owner s execution plan settled bound (receipt_key receipt) receipt now st1"
    by (rule execute_new_done [OF new], rule that; assumption)
  note found = subject_found [OF s, unfolded intents_of_def]
  have gate: "now < it_expires_at (es_intent s)" "now < pv_expires_at (pr_preview (es_preview s))" "now < apr_expires_at (es_approval s)"
      "pv_account (pr_preview (es_preview s)) = it_account (es_intent s)" "pv_action (pr_preview (es_preview s)) = it_action (es_intent s)"
      "apr_preview (es_approval s) = pv_commitment (pr_preview (es_preview s))" "apr_intent_id (es_approval s) = it_id (es_intent s)"
      "canApprovePreview (pr_preview (es_preview s)) (apr_degraded_accepted (es_approval s)) = None"
    using found(9)
    by (auto simp: canExecutePrivateAccountAction_def isPrivateAccountRecordExpired_def assertPreviewMatchesIntent_def
      assertApprovalMatchesPreview_def intent_binding_def approval_binding_def split: if_splits)
  have green: "eh_mode_green h st" if "isPrivateModeAvailableStatus (pr_claim_status (es_preview s))"
    using evidence [OF that] chain by (auto simp: evidenceChainForExecution_def split: if_splits)
  have finalized: "\<exists>k r s'. apr_plan (es_approval s) = Some k \<and> js_get (ex_plans st) k = Some r \<and> epr_owner r = owner \<and>
      epr_intent_id r = it_id (es_intent s) \<and> epr_preview r = pv_commitment (pr_preview (es_preview s)) \<and> epr_status r = Plan_ready \<and>
      getPrivateSettlementByExecution st' (ea_execution ans) = Some s' \<and> str_lifecycle s' = Life_finalized"
    if available: "isPrivateModeAvailableStatus (pv_status (pr_preview (es_preview s)))"
  proof -
    obtain k r where r: "apr_plan (es_approval s) = Some k" "plan = Some r" "js_get (ex_plans st) k = Some r" "epr_owner r = owner"
        "epr_intent_id r = it_id (es_intent s)" "epr_preview r = pv_commitment (pr_preview (es_preview s))" "epr_status r = Plan_ready"
      using plan_for_private [OF plan available] by blast
    obtain s' where s': "str_lifecycle s' = Life_finalized" "getPrivateSettlementByExecution st0 execution = Some s'"
      using finalized_settlement settled [unfolded r(2)] by blast
    have "getPrivateSettlementByExecution st' execution = Some s'"
      using s'(2) connector_settlements [OF connector] recorded(3) [OF st'] by (simp add: getPrivateSettlementByExecution_def)
    then show ?thesis using r s'(1) ans by auto
  qed
  show ?thesis using found(1-8) gate green finalized by (intro exI [of _ "es_intent s"] exI [of _ "es_preview s"] exI [of _ "es_approval s"]) simp
qed

lemma demo_run:
  obtains st ans st1 where "run_calls execution_step empty_execution_store demo_exec_calls = st"
    "run_admits execution_step execution_admits empty_execution_store demo_exec_calls" "ex_executions st = []" "ex_receipts st = []"
    "executeStoredActionFromBody demo_exec_host demo_execute_body ''o'' 3000 st = (Inr ans, st1)"
proof -
  obtain a b c where step: "execution_step (empty_execution_store\<lparr>ex_account := putPrivateAccountPreview demo_shown empty_account_store\<rparr>)
      (New_intent demo_exec_host demo_new_body ''o'' ''1'' 1000) =
     empty_execution_store\<lparr>ex_account := empty_account_store\<lparr>st_accounts := a, st_vaults := b, st_budgets := c,
       st_previews := [(''p'', demo_shown)], st_intents := [(''pact_intent_1'', demo_new_intent)]\<rparr>\<rparr>" (is "_ = ?st2")
    using demo_new_intent_step by blast
  let ?st1 = "empty_execution_store\<lparr>ex_account := putPrivateAccountPreview demo_shown empty_account_store\<rparr>"
  have first: "execution_step empty_execution_store (New_preview demo_shown) = ?st1" by (simp add: empty_execution_store_def)
  have got: "js_get (st_intents (ex_account ?st2)) ''pact_intent_1'' = Some demo_new_intent" "js_get (st_previews (ex_account ?st2)) ''p'' = Some demo_shown"
    by (simp_all add: js_get_def)
  define st where "st = set_intent_status ''pact_intent_1'' It_approved (putPrivateAccountApproval demo_approved ?st2)"
  have third: "execution_step ?st2 (Approve_preview demo_exec_host demo_approve_body ''o'' 2000) = st"
    unfolding st_def by (rule demo_approve_step [OF refl got])
  have run: "run_calls execution_step empty_execution_store demo_exec_calls = st"
    unfolding demo_exec_calls_def run_calls.simps first step third by (rule refl)
  have "js_get (st_intents (ex_account ?st1)) (''pact_intent_'' @ ''1'') = None"
    by (simp add: putPrivateAccountPreview_def empty_account_store_def)
  then have admits: "run_admits execution_step execution_admits empty_execution_store demo_exec_calls"
    unfolding demo_exec_calls_def run_admits.simps first step third execution_admits.simps by simp
  have tables: "ex_executions st = []" "ex_receipts st = []" "js_get (ex_approvals st) ''approval_0'' = Some demo_approved"
    by (simp_all add: st_def putPrivateAccountApproval_def empty_execution_store_def demo_approved_fields)
  have shown: "js_get (st_previews (ex_account st)) ''p'' = Some demo_shown"
    by (simp add: st_def set_intent_status_def updatePrivateAccountIntentStatus_def putPrivateAccountApproval_def js_get_def split: option.splits)
  have "intents_of (putPrivateAccountApproval demo_approved ?st2) = [(''pact_intent_1'', demo_new_intent)]"
    by (simp add: intents_of_def putPrivateAccountApproval_def)
  then have intent: "js_get (intents_of st) ''pact_intent_1'' = Some (demo_new_intent\<lparr>it_status := It_approved\<rparr>)"
    unfolding st_def set_status_intents by (simp add: js_get_def)
  obtain ans st1 where "executeStoredActionFromBody demo_exec_host demo_execute_body ''o'' 3000 st = (Inr ans, st1)"
    using demo_execute [OF intent _ _ _ _ _ shown tables(3,1)] by (auto simp: demo_new_intent_def)
  then show ?thesis using that run admits tables(1,2) by blast
qed

lemma execution_needs_witness:
  "\<exists>st ans st'. executeStoredActionFromBody demo_exec_host demo_execute_body ''o'' 3000 st = (Inr ans, st') \<and>
     (\<exists>a. js_get (ex_approvals st) ''approval_0'' = Some a \<and> apr_owner a = ''o'' \<and> 3000 < apr_expires_at a)"
proof -
  obtain st ans st1 where run: "ex_executions st = []" "executeStoredActionFromBody demo_exec_host demo_execute_body ''o'' 3000 st = (Inr ans, st1)"
    by (rule demo_run)
  have "getPrivateAccountExecutionByApproval st (stringValue (obj_field (asRecord demo_execute_body) ''approval_commitment'')) = None"
    by (simp add: getPrivateAccountExecutionByApproval_def run(1))
  from execution_needs [OF run(2) this] have "\<exists>a. js_get (ex_approvals st) ''approval_0'' = Some a \<and> apr_owner a = ''o'' \<and> 3000 < apr_expires_at a"
    unfolding demo_exec_bodies by blast
  then show ?thesis using run(2) by blast
qed

text \<open>C40: executing is idempotent. Once the first execution by an approval succeeded, any later request of the owner
  with this approval that names some intent and some preview (a request without them is refused before the approval is
  looked up) is answered with the same intent, execution and receipt and changes nothing: at any time, after any further
  calls by anyone (handled one after the other, without a collision of commitments), and whichever intent and preview it
  names and whatever else it says.\<close>
theorem execution_idempotent:
  assumes "run_admits execution_step execution_admits empty_execution_store calls"
    "st = run_calls execution_step empty_execution_store calls"
    "a = stringValue (obj_field (asRecord body) ''approval_commitment'')"
    "getPrivateAccountExecutionByApproval st a = None"
    "executeStoredActionFromBody h body owner now st = (Inr ans, st1)"
    "execution_admits st (Execute_action h body owner now)"
    "run_admits execution_step execution_admits st1 later" "st2 = run_calls execution_step st1 later"
    "stringValue (obj_field (asRecord body') ''approval_commitment'') = a"
    "stringValue (obj_field (asRecord body') ''intent_id'') \<noteq> []" "stringValue (obj_field (asRecord body') ''preview_commitment'') \<noteq> []"
  shows "executeStoredActionFromBody h' body' owner now' st2 = (Inr ans, st2)"
proof -
  have inv: "execution_inv st" using execution_run_inv assms(1,2) by simp
  have keeps: "connector_keeps_intents h" using assms(6) by simp
  have "st1 = execution_step st (Execute_action h body owner now)" using assms(5) by simp
  then have inv1: "execution_inv st1" using execute_inv [OF inv assms(6)] by simp
  have "found_execution st1 a = Some (owner, ans)" using execute_found [OF inv assms(5) keeps] assms(3,4) by simp
  then have "found_execution st2 a = Some (owner, ans)" using found_run [OF inv1 assms(7)] assms(8) by simp
  moreover have "a \<noteq> []" using assms(3,5) by (auto simp: executeStoredActionFromBody_def Let_def split: if_splits)
  ultimately show ?thesis
    using assms(9-11) by (auto simp: executeStoredActionFromBody_def found_execution_def Let_def split: option.splits)
qed

lemma execution_idempotent_witness:
  "\<exists>st ans st1. executeStoredActionFromBody demo_exec_host demo_execute_body ''o'' 3000 st = (Inr ans, st1) \<and>
     executeStoredActionFromBody demo_exec_host demo_execute_body ''o'' 9000000 (execution_step st1 (New_preview demo_shown)) =
       (Inr ans, execution_step st1 (New_preview demo_shown))"
proof -
  obtain st ans st1 where run: "run_calls execution_step empty_execution_store demo_exec_calls = st"
      "run_admits execution_step execution_admits empty_execution_store demo_exec_calls" "ex_executions st = []" "ex_receipts st = []"
      "executeStoredActionFromBody demo_exec_host demo_execute_body ''o'' 3000 st = (Inr ans, st1)"
    by (rule demo_run)
  have admits: "execution_admits st (Execute_action demo_exec_host demo_execute_body ''o'' 3000)"
    by (simp add: no_execution_collision_def no_receipt_collision_def run(3,4))
  have fresh: "getPrivateAccountExecutionByApproval st (stringValue (obj_field (asRecord demo_execute_body) ''approval_commitment'')) = None"
    by (simp add: getPrivateAccountExecutionByApproval_def run(3))
  have later: "run_admits execution_step execution_admits st1 [New_preview demo_shown]" by simp
  have "executeStoredActionFromBody demo_exec_host demo_execute_body ''o'' 9000000 (run_calls execution_step st1 [New_preview demo_shown]) =
      (Inr ans, run_calls execution_step st1 [New_preview demo_shown])"
    by (rule execution_idempotent [OF run(2) run(1) [symmetric] refl fresh run(5) admits later refl refl]) (simp_all add: demo_exec_bodies)
  then show ?thesis using run(5) by (simp only: run_calls.simps) blast
qed

text \<open>C35: when a plan is ready. The plan of a preview is ready exactly when the preview is neither blocked nor degraded and
  has no reason to wait, the shielded pool is green if the rail settles through it, and a preview that claims Private Mode
  has its batch evidence. A rail that needs no settlement never looks at the pool.\<close>
theorem plan_ready_exact:
  "ep_status (buildExecutionPlanForPreview h p now) = Plan_ready \<longleftrightarrow>
     pv_status p \<noteq> Blocked_leaky_path \<and> pv_status p \<noteq> Degraded_user_accepted_required \<and> pv_blocked_reasons p = [] \<and>
     pv_wait_reasons p = [] \<and>
     (pv_rail p = Shielded_pool \<or> pv_rail p = Combined_vault_shielded_batch \<or> pv_rail p = Shielded_batch_auction \<longrightarrow>
       ph_green (shieldedPoolHealth (eh_pool h) now)) \<and>
     (isPrivateModeAvailableStatus (pv_status p) \<longrightarrow> chain_has (pv_chain p) ''batch_evidence_commitment'')"
proof -
  have rail: "settlement_required (settlementKindFor (pv_rail p)) \<longleftrightarrow>
      pv_rail p = Shielded_pool \<or> pv_rail p = Combined_vault_shielded_batch \<or> pv_rail p = Shielded_batch_auction"
    by (simp add: settlement_required_def settlementKindFor_def)
  have chain: "chain_has (map_option (\<lambda>c. js_set c ''preview_commitment'' (JStr (pv_commitment p))) (pv_chain p)) ''batch_evidence_commitment''
      \<longleftrightarrow> chain_has (pv_chain p) ''batch_evidence_commitment''"
    by (cases "pv_chain p") (simp_all add: chain_has_def chain_text_def)
  show ?thesis
    unfolding buildExecutionPlanForPreview_def plan_ready_iff chain rail using pool_green_runtime [of "eh_pool h" now] by blast
qed

lemma plan_ready_exact_witness:
  "\<exists>p. pv_status p = Private_mode_available \<and> pv_rail p = Private_state_only \<and>
     ep_status (buildExecutionPlanForPreview demo_exec_host p 0) = Plan_ready"
proof (intro exI conjI)
  let ?p = "demo_degraded\<lparr>pv_status := Private_mode_available, pv_rail := Private_state_only, pv_blocked_reasons := [],
     pv_wait_reasons := [], pv_chain := Some [(''batch_evidence_commitment'', JStr ''e'')]\<rparr>"
  show "ep_status (buildExecutionPlanForPreview demo_exec_host ?p 0) = Plan_ready"
    unfolding plan_ready_exact by (simp add: chain_has_def chain_text_def js_get_def)
qed simp_all

text \<open>Approving does not ask what became of the intent. The answer to an approval is the same whatever the status of any
  intent is, and so are the checks before an execution: an intent that was executed, cancelled or blocked is approved as
  readily as a new one, so that a second preview of it, made in time, can be approved and executed again.\<close>
theorem intent_status_not_consulted:
  "fst (approveStoredPreviewFromBody h body owner now (set_intent_status k status st)) = fst (approveStoredPreviewFromBody h body owner now st) \<and>
   ((\<exists>s. execution_subject_of body owner now (set_intent_status k status st) = Inr s) \<longleftrightarrow> (\<exists>s. execution_subject_of body owner now st = Inr s))"
proof -
  let ?key = "stringValue (obj_field (asRecord body) ''intent_id'')"
  let ?g = "\<lambda>i. if ?key = k then i\<lparr>it_status := status\<rparr> else i"
  have intent: "getPrivateAccountIntent (ex_account (set_intent_status k status st)) ?key = map_option ?g (getPrivateAccountIntent (ex_account st) ?key)"
    using set_status_intents [of k status st ?key] by (simp add: intents_of_def getPrivateAccountIntent_def option.map_ident)
  have preview: "getPrivateAccountPreview (ex_account (set_intent_status k status st)) p = getPrivateAccountPreview (ex_account st) p" for p
    by (simp add: set_intent_status_def updatePrivateAccountIntentStatus_def getPrivateAccountPreview_def split: option.splits)
  have plans: "ex_plans (set_intent_status k status st) = ex_plans st" by (simp add: set_intent_status_def)
  have subject: "approval_subject body owner now (ex_account (set_intent_status k status st)) =
      map_sum id (\<lambda>(i, pr). (?g i, pr)) (approval_subject body owner now (ex_account st))"
    by (auto simp: approval_subject_def intent preview Let_def split: option.splits)
  have plan: "fst (planForApproval h owner (?g i) p q now (set_intent_status k status st)) = fst (planForApproval h owner i p q now st)" for i p q
    by (auto simp: planForApproval_def createExecutionPlanRecord_def getPrivateExecutionPlan_def getPrivateExecutionPlanByPreview_def plans
      plan_record_def Let_def split: option.splits)
  have "fst (approveStoredPreviewFromBody h body owner now (set_intent_status k status st)) = fst (approveStoredPreviewFromBody h body owner now st)"
  proof (cases "approval_subject body owner now (ex_account st)")
    case (Inl e)
    then show ?thesis by (simp add: approveStoredPreviewFromBody_def subject Let_def)
  next
    case (Inr x)
    obtain i pr where x: "x = (i, pr)" by fastforce
    let ?q = "or_text (stringValue (obj_field (asRecord body) ''execution_plan_commitment'')) (stringValue (obj_field (asRecord body) ''plan_commitment''))"
    obtain r st1 where r: "planForApproval h owner i (pr_preview pr) ?q now st = (r, st1)" by fastforce
    obtain r' st2 where r': "planForApproval h owner (?g i) (pr_preview pr) ?q now (set_intent_status k status st) = (r', st2)" by fastforce
    have "r' = r" using plan [of i "pr_preview pr" ?q] r r' by simp
    moreover have "it_id (?g i) = it_id i" by simp
    ultimately show ?thesis using r r'
      by (cases r) (simp_all add: approveStoredPreviewFromBody_def subject Inr x Let_def)
  qed
  moreover have "execution_subject_of body owner now (set_intent_status k status st) =
      map_sum id (\<lambda>s. s\<lparr>es_intent := ?g (es_intent s)\<rparr>) (execution_subject_of body owner now st)"
  proof -
    have "intent_binding (?g i) = intent_binding i" for i by (simp add: intent_binding_def)
    moreover have "getPrivateAccountApproval (set_intent_status k status st) x = getPrivateAccountApproval st x" for x
      by (simp add: getPrivateAccountApproval_def)
    ultimately show ?thesis by (auto simp: execution_subject_of_def intent preview Let_def split: option.splits)
  qed
  ultimately show ?thesis by (cases "execution_subject_of body owner now st") simp_all
qed

end
