(* ===== verification/AuctionRules.thy ===== *)
theory AuctionRules imports AuctionRoutes JsSort
begin

text \<open>
  Rules for the sealed auction: what an order list is paired into, what marking orders does to the table, and
  when a field element is accepted.
\<close>

section \<open>Pairing\<close>

definition committed_of :: "PrivateAuctionOrderRecordV1 list \<Rightarrow> PrivateAuctionOrderRecordV1 list" where
  "committed_of orders = filter (\<lambda>r. ao_status r = Order_committed) orders"

definition side_of :: "string \<Rightarrow> PrivateAuctionOrderRecordV1 list \<Rightarrow> PrivateAuctionOrderRecordV1 list" where
  "side_of side orders = filter (\<lambda>r. ao_side r = side) orders"

definition pair_count :: "PrivateAuctionOrderRecordV1 list \<Rightarrow> nat" where
  "pair_count orders = min (length (side_of ''buy'' (committed_of orders))) (length (side_of ''sell'' (committed_of orders)))"

lemma matched_orders_alt:
  "matched_orders orders = oldest_first ao_created_at (take (pair_count orders) (side_of ''buy'' (committed_of orders)) @
     take (pair_count orders) (side_of ''sell'' (committed_of orders)))"
  by (simp add: matched_orders_def pair_count_def side_of_def committed_of_def Let_def)

lemma mset_oldest_first [simp]: "mset (oldest_first f xs) = mset xs"
  by (simp add: oldest_first_def)

lemma set_oldest_first [simp]: "set (oldest_first f xs) = set xs"
  by (metis mset_oldest_first set_mset_mset)

lemma length_oldest_first [simp]: "length (oldest_first f xs) = length xs"
  by (metis mset_oldest_first size_mset)

lemma distinct_oldest_first [simp]: "distinct (oldest_first f xs) = distinct xs"
  by (metis mset_oldest_first mset_eq_imp_distinct_iff)

lemma length_filter_mset: "mset xs = mset ys \<Longrightarrow> length (filter P xs) = length (filter P ys)"
  by (metis mset_filter size_mset)

lemma sorted_oldest_first: "sorted_wrt (\<lambda>a b. f a \<le> (f b :: int)) (oldest_first f xs)"
proof -
  have "sorted_wrt (\<lambda>a b. f a \<le> f b) (insert_by (\<lambda>a b. f a \<le> f b) x ys)"
    if "sorted_wrt (\<lambda>a b. f a \<le> f b) ys" for x ys
    using that by (induction ys) (auto simp: set_mset_mset [symmetric] simp del: set_mset_mset)
  then show ?thesis unfolding oldest_first_def sort_by_def by (induction xs) auto
qed

lemma set_matched: "r \<in> set (matched_orders orders) \<longleftrightarrow>
    r \<in> set (take (pair_count orders) (side_of ''buy'' (committed_of orders))) \<or>
    r \<in> set (take (pair_count orders) (side_of ''sell'' (committed_of orders)))"
  by (simp add: matched_orders_alt)

lemma matched_subset: "set (matched_orders orders) \<subseteq> set (committed_of orders)"
  by (auto simp: set_matched side_of_def dest!: in_set_takeD)

lemma matched_sides: "r \<in> set (matched_orders orders) \<Longrightarrow> ao_side r = ''buy'' \<or> ao_side r = ''sell''"
  by (auto simp: set_matched side_of_def dest!: in_set_takeD)

lemma distinct_matched: "distinct orders \<Longrightarrow> distinct (matched_orders orders)"
  by (auto simp: matched_orders_alt side_of_def committed_of_def dest!: in_set_takeD)

text \<open>As many buys as sells are matched, as many as both sides have.\<close>

lemma matched_count:
  assumes "side = ''buy'' \<or> side = ''sell''"
  shows "length (side_of side (matched_orders orders)) = pair_count orders"
proof -
  let ?b = "take (pair_count orders) (side_of ''buy'' (committed_of orders))"
  let ?s = "take (pair_count orders) (side_of ''sell'' (committed_of orders))"
  have "length (side_of side (matched_orders orders)) = length (filter (\<lambda>r. ao_side r = side) (?b @ ?s))"
    unfolding side_of_def by (intro length_filter_mset) (simp add: matched_orders_alt side_of_def)
  moreover have "filter (\<lambda>r. ao_side r = side) ?b = (if side = ''buy'' then ?b else [])"
    "filter (\<lambda>r. ao_side r = side) ?s = (if side = ''sell'' then ?s else [])"
    using assms by (auto simp: side_of_def filter_id_conv filter_empty_conv dest!: in_set_takeD)
  moreover have "length ?b = pair_count orders" "length ?s = pair_count orders" by (simp_all add: pair_count_def)
  ultimately show ?thesis using assms by auto
qed

lemma commitments_inj:
  assumes "distinct (map ao_commitment orders)" "r \<in> set orders" "r' \<in> set orders" "ao_commitment r = ao_commitment r'"
  shows "r = r'"
  using assms by (simp add: distinct_map inj_on_def)

lemma rolled_iff:
  assumes "distinct (map ao_commitment orders)"
  shows "r \<in> set (rolled_orders orders) \<longleftrightarrow> r \<in> set (committed_of orders) \<and> r \<notin> set (matched_orders orders)"
proof -
  have "set (committed_of orders) \<subseteq> set orders" by (auto simp: committed_of_def)
  then have "ao_commitment r \<in> ao_commitment ` set (matched_orders orders) \<longleftrightarrow> r \<in> set (matched_orders orders)"
    if "r \<in> set (committed_of orders)"
    using that commitments_inj [OF assms] matched_subset [of orders] by blast
  then show ?thesis by (auto simp: rolled_orders_def committed_of_def)
qed

lemma pairing_partition:
  assumes "distinct (map ao_commitment orders)"
  shows "mset (committed_of orders) = mset (matched_orders orders) + mset (rolled_orders orders)"
proof -
  have d: "distinct orders" using assms by (simp add: distinct_map)
  have dc: "distinct (committed_of orders)" "distinct (matched_orders orders)" "distinct (rolled_orders orders)"
    using d distinct_matched [OF d] by (simp_all add: committed_of_def rolled_orders_def)
  have "distinct (matched_orders orders @ rolled_orders orders)"
    using dc rolled_iff [OF assms] by auto
  moreover have "set (committed_of orders) = set (matched_orders orders @ rolled_orders orders)"
    using rolled_iff [OF assms] matched_subset [of orders] by auto
  ultimately show ?thesis using dc(1) by (metis mset_append set_eq_iff_mset_eq_distinct)
qed

text \<open>Nothing that could still be paired is rolled over, and the earlier order of a side goes first.\<close>

lemma rolled_side:
  assumes "distinct (map ao_commitment orders)" "side = ''buy'' \<or> side = ''sell''" "r \<in> set (rolled_orders orders)" "ao_side r = side"
  shows "r \<in> set (drop (pair_count orders) (side_of side (committed_of orders)))"
proof -
  have "r \<in> set (side_of side (committed_of orders))" "r \<notin> set (take (pair_count orders) (side_of side (committed_of orders)))"
    using assms(2-4) rolled_iff [OF assms(1)] by (auto simp: set_matched side_of_def)
  then show ?thesis by (metis append_take_drop_id in_set_conv_decomp Un_iff set_append)
qed

lemma rolled_one_side:
  assumes "distinct (map ao_commitment orders)" "r \<in> set (rolled_orders orders)" "r' \<in> set (rolled_orders orders)"
  shows "\<not> (ao_side r = ''buy'' \<and> ao_side r' = ''sell'')"
proof
  assume "ao_side r = ''buy'' \<and> ao_side r' = ''sell''"
  then have "pair_count orders < length (side_of ''buy'' (committed_of orders))"
    "pair_count orders < length (side_of ''sell'' (committed_of orders))"
    using rolled_side [OF assms(1) _ assms(2)] rolled_side [OF assms(1) _ assms(3)]
    by (metis drop_eq_Nil empty_iff empty_set not_le)+
  then show False by (simp add: pair_count_def)
qed

lemma rolled_later:
  assumes "distinct (map ao_commitment orders)" "sorted_wrt (\<lambda>a b. ao_created_at a \<le> ao_created_at b) orders"
    "m \<in> set (matched_orders orders)" "r \<in> set (rolled_orders orders)" "ao_side m = ao_side r"
  shows "ao_created_at m \<le> ao_created_at r"
proof -
  let ?side = "ao_side m"
  have side: "?side = ''buy'' \<or> ?side = ''sell''" using matched_sides [OF assms(3)] .
  let ?xs = "side_of ?side (committed_of orders)"
  have "sorted_wrt (\<lambda>a b. ao_created_at a \<le> ao_created_at b) ?xs"
    using assms(2) by (simp add: side_of_def committed_of_def sorted_wrt_filter)
  then have "sorted_wrt (\<lambda>a b. ao_created_at a \<le> ao_created_at b) (take (pair_count orders) ?xs @ drop (pair_count orders) ?xs)" by simp
  moreover have "ao_side m = s" if "m \<in> set (take n (side_of s (committed_of orders)))" for n s
    using that by (auto simp: side_of_def dest!: in_set_takeD)
  then have "m \<in> set (take (pair_count orders) ?xs)" using assms(3) unfolding set_matched by metis
  moreover have "r \<in> set (drop (pair_count orders) ?xs)" using rolled_side [OF assms(1) side assms(4)] assms(5) by simp
  ultimately show ?thesis unfolding sorted_wrt_append by blast
qed

section \<open>Marking orders\<close>

definition marked :: "auction_order_status \<Rightarrow> time \<Rightarrow> PrivateAuctionOrderRecordV1 \<Rightarrow> PrivateAuctionOrderRecordV1" where
  "marked status now r = r\<lparr>ao_status := status, ao_updated_at := now\<rparr>"

lemma marked_sel [simp]:
  "ao_commitment (marked status now r) = ao_commitment r" "ao_status (marked status now r) = status"
  "ao_epoch (marked status now r) = ao_epoch r" "ao_owner (marked status now r) = ao_owner r"
  "ao_side (marked status now r) = ao_side r" "ao_queue_id (marked status now r) = ao_queue_id r"
  "ao_created_at (marked status now r) = ao_created_at r"
  by (simp_all add: marked_def)

lemma mark_orders_simps:
  "mark_orders status now [] st = st"
  "mark_orders status now (r # rs) st = mark_orders status now rs (putPrivateAuctionOrder (marked status now r) st)"
  by (simp_all add: mark_orders_def marked_def)

lemma mark_orders_sel [simp]:
  "st_epochs (mark_orders status now rs st) = st_epochs st"
  "st_clearings (mark_orders status now rs st) = st_clearings st"
  "st_prepared (mark_orders status now rs st) = st_prepared st"
  "st_queue (mark_orders status now rs st) = st_queue st"
  by (induction rs arbitrary: st) (simp_all add: mark_orders_simps putPrivateAuctionOrder_def)

lemma mark_orders_get:
  assumes "distinct (map ao_commitment rs)"
  shows "js_get (st_orders (mark_orders status now rs st)) k = (case find (\<lambda>r. ao_commitment r = k) rs of
     Some r \<Rightarrow> Some (marked status now r) | None \<Rightarrow> js_get (st_orders st) k)"
  using assms
proof (induction rs arbitrary: st)
  case Nil
  then show ?case by (simp add: mark_orders_simps)
next
  case (Cons r rs)
  have "find (\<lambda>x. ao_commitment x = ao_commitment r) rs = None" using Cons.prems
    by (auto simp: find_None_iff image_iff)
  then show ?case using Cons by (auto simp: mark_orders_simps putPrivateAuctionOrder_def split: option.split)
qed

lemma mark_orders_wf: "js_wf (st_orders st) \<Longrightarrow> js_wf (st_orders (mark_orders status now rs st))"
  by (induction rs arbitrary: st) (simp_all add: mark_orders_simps putPrivateAuctionOrder_def)

section \<open>The orders of an epoch\<close>

definition orders_wf :: "account_store \<Rightarrow> bool" where
  "orders_wf st \<longleftrightarrow> js_wf (st_orders st) \<and> jm.all_entries (\<lambda>k r. ao_commitment r = k) (st_orders st)"

lemma orders_wfD:
  assumes "orders_wf st"
  shows "js_wf (st_orders st)" "js_get (st_orders st) k = Some r \<Longrightarrow> ao_commitment r = k"
  using assms by (auto simp: orders_wf_def jm.all_entries_def)

lemma distinct_commitments:
  assumes "orders_wf st"
  shows "distinct (map ao_commitment (js_values (st_orders st)))"
proof -
  have "map fst (st_orders st) = map ao_commitment (js_values (st_orders st))"
    unfolding js_values_def using orders_wfD [OF assms] by (auto simp: js_get_def js_wf_def)
  then show ?thesis using orders_wfD(1) [OF assms] by (simp add: js_wf_def)
qed

lemma listed_orders:
  assumes "orders_wf st"
  shows "r \<in> set (listPrivateAuctionOrdersByEpoch st e) \<longleftrightarrow> js_get (st_orders st) (ao_commitment r) = Some r \<and> ao_epoch r = e"
  using orders_wfD [OF assms] by (auto simp: listPrivateAuctionOrdersByEpoch_def js_values_get)

lemma listed_distinct:
  assumes "orders_wf st"
  shows "distinct (map ao_commitment (listPrivateAuctionOrdersByEpoch st e))"
proof -
  have "distinct (map ao_commitment (filter (\<lambda>r. ao_epoch r = e) (js_values (st_orders st))))"
    using distinct_commitments [OF assms] by (rule distinct_map_filter)
  moreover have "mset (map ao_commitment (listPrivateAuctionOrdersByEpoch st e)) =
      mset (map ao_commitment (filter (\<lambda>r. ao_epoch r = e) (js_values (st_orders st))))"
    by (simp add: listPrivateAuctionOrdersByEpoch_def)
  ultimately show ?thesis by (metis mset_eq_imp_distinct_iff)
qed

lemma listed_sorted: "sorted_wrt (\<lambda>a b. ao_created_at a \<le> ao_created_at b) (listPrivateAuctionOrdersByEpoch st e)"
  unfolding listPrivateAuctionOrdersByEpoch_def by (rule sorted_oldest_first)

lemma find_commitment:
  assumes "distinct (map ao_commitment rs)"
  shows "find (\<lambda>r. ao_commitment r = k) rs = Some r \<longleftrightarrow> r \<in> set rs \<and> ao_commitment r = k"
proof
  assume "find (\<lambda>r. ao_commitment r = k) rs = Some r"
  then show "r \<in> set rs \<and> ao_commitment r = k" by (induction rs) (auto split: if_splits)
next
  assume r: "r \<in> set rs \<and> ao_commitment r = k"
  then show "find (\<lambda>r. ao_commitment r = k) rs = Some r" using assms
    by (induction rs) (auto simp: image_iff)
qed

lemma mark_listed:
  assumes "orders_wf st" "distinct (map ao_commitment rs)" "\<And>r. r \<in> set rs \<Longrightarrow> js_get (st_orders st) (ao_commitment r) = Some r"
  shows "js_get (st_orders (mark_orders status now rs st)) k =
    map_option (\<lambda>r. if r \<in> set rs then marked status now r else r) (js_get (st_orders st) k)"
proof (cases "find (\<lambda>r. ao_commitment r = k) rs")
  case None
  then have "js_get (st_orders st) k = Some r \<Longrightarrow> r \<notin> set rs" for r
    using orders_wfD(2) [OF assms(1)] by (auto simp: find_None_iff)
  then show ?thesis using None by (cases "js_get (st_orders st) k") (auto simp: mark_orders_get [OF assms(2)])
next
  case (Some r)
  then have "r \<in> set rs" "ao_commitment r = k" using find_commitment [OF assms(2)] by blast+
  then show ?thesis using Some assms(3) [of r] by (simp add: mark_orders_get [OF assms(2)])
qed

lemma mark_orders_ok:
  assumes "orders_wf st" "distinct (map ao_commitment rs)" "\<And>r. r \<in> set rs \<Longrightarrow> js_get (st_orders st) (ao_commitment r) = Some r"
  shows "orders_wf (mark_orders status now rs st)"
proof -
  have "js_get (st_orders (mark_orders status now rs st)) k =
      map_option (\<lambda>r. if r \<in> set rs then marked status now r else r) (js_get (st_orders st) k)" for k
    by (rule mark_listed) (use assms in auto)
  then have "ao_commitment r = k" if "js_get (st_orders (mark_orders status now rs st)) k = Some r" for k r
    using that orders_wfD(2) [OF assms(1)] by (auto split: if_splits)
  then show ?thesis using mark_orders_wf orders_wfD(1) [OF assms(1)] by (simp add: orders_wf_def jm.all_entries_def)
qed

text \<open>What closing does to the order table: matched and rolled orders get their status, the others stay.\<close>

definition after_close :: "PrivateAuctionOrderRecordV1 list \<Rightarrow> time \<Rightarrow> PrivateAuctionOrderRecordV1 \<Rightarrow> PrivateAuctionOrderRecordV1" where
  "after_close orders now r = (if r \<in> set (matched_orders orders) then marked Order_matched now r
     else if r \<in> set (rolled_orders orders) then marked Order_rolled now r else r)"

lemma after_close_sel [simp]:
  "ao_commitment (after_close orders now r) = ao_commitment r" "ao_epoch (after_close orders now r) = ao_epoch r"
  "ao_owner (after_close orders now r) = ao_owner r" "ao_side (after_close orders now r) = ao_side r"
  "ao_queue_id (after_close orders now r) = ao_queue_id r"
  by (simp_all add: after_close_def)

lemma matched_rolled_lists:
  assumes "orders_wf st" and orders: "orders = listPrivateAuctionOrdersByEpoch st c"
  shows "distinct (map ao_commitment (matched_orders orders))" "distinct (map ao_commitment (rolled_orders orders))"
    "r \<in> set (matched_orders orders) \<Longrightarrow> js_get (st_orders st) (ao_commitment r) = Some r \<and> ao_epoch r = c"
    "r \<in> set (rolled_orders orders) \<Longrightarrow> js_get (st_orders st) (ao_commitment r) = Some r \<and> ao_epoch r = c"
proof -
  have d: "distinct (map ao_commitment orders)" using listed_distinct [OF assms(1)] orders by simp
  then have dd: "distinct orders" by (simp add: distinct_map)
  have sub: "set (matched_orders orders) \<subseteq> set orders" "set (rolled_orders orders) \<subseteq> set orders"
    using matched_subset [of orders] by (auto simp: committed_of_def rolled_orders_def)
  have inj: "inj_on ao_commitment (set orders)" using d by (simp add: distinct_map)
  show "distinct (map ao_commitment (matched_orders orders))" "distinct (map ao_commitment (rolled_orders orders))"
    using distinct_matched [OF dd] dd sub inj_on_subset [OF inj] by (simp_all add: distinct_map rolled_orders_def)
  show "r \<in> set (matched_orders orders) \<Longrightarrow> js_get (st_orders st) (ao_commitment r) = Some r \<and> ao_epoch r = c"
    "r \<in> set (rolled_orders orders) \<Longrightarrow> js_get (st_orders st) (ao_commitment r) = Some r \<and> ao_epoch r = c"
    using sub listed_orders [OF assms(1)] orders by blast+
qed

lemma closed_orders:
  fixes now :: time
  assumes wf: "orders_wf st" and orders: "orders = listPrivateAuctionOrdersByEpoch st c"
  defines "st' \<equiv> mark_orders Order_rolled now (rolled_orders orders) (mark_orders Order_matched now (matched_orders orders) st)"
  shows "js_get (st_orders st') k = map_option (after_close orders now) (js_get (st_orders st) k)" "orders_wf st'"
proof -
  note lists = matched_rolled_lists [OF wf orders]
  let ?s = "mark_orders Order_matched now (matched_orders orders) st"
  have get1: "js_get (st_orders ?s) k =
      map_option (\<lambda>r. if r \<in> set (matched_orders orders) then marked Order_matched now r else r) (js_get (st_orders st) k)" for k
    using lists(1,3) by (intro mark_listed [OF wf]) auto
  have wf1: "orders_wf ?s" using lists(1,3) by (intro mark_orders_ok [OF wf]) auto
  have d: "distinct (map ao_commitment orders)" using listed_distinct [OF wf] orders by simp
  have apart: "r \<notin> set (matched_orders orders)" if "r \<in> set (rolled_orders orders)" for r
    using that rolled_iff [OF d] by simp
  have stored: "js_get (st_orders ?s) (ao_commitment r) = Some r" if "r \<in> set (rolled_orders orders)" for r
    using that apart lists(4) by (simp add: get1)
  have get2: "js_get (st_orders (mark_orders Order_rolled now (rolled_orders orders) ?s)) k =
      map_option (\<lambda>r. if r \<in> set (rolled_orders orders) then marked Order_rolled now r else r) (js_get (st_orders ?s) k)" for k
    using lists(2) stored by (intro mark_listed [OF wf1]) auto
  have fresh: "marked Order_matched now r \<notin> set (rolled_orders orders)" for r
    using rolled_iff [OF d] by (auto simp: committed_of_def)
  show "js_get (st_orders st') k = map_option (after_close orders now) (js_get (st_orders st) k)"
    using fresh apart unfolding st'_def get2 get1
    by (cases "js_get (st_orders st) k") (auto simp: after_close_def)
  show "orders_wf st'" unfolding st'_def using lists(2) stored by (intro mark_orders_ok [OF wf1]) auto
qed

section \<open>Canonical field elements\<close>

fun big_endian :: "nat list \<Rightarrow> nat" where
  "big_endian [] = 0"
| "big_endian (b # bs) = b * 256 ^ length bs + big_endian bs"

lemma big_endian_bound: "list_all (\<lambda>b. b < 256) bs \<Longrightarrow> big_endian bs < 256 ^ length bs"
proof (induction bs)
  case Nil
  then show ?case by simp
next
  case (Cons b bs)
  then have "b * 256 ^ length bs + big_endian bs < b * 256 ^ length bs + 256 ^ length bs" by simp
  also have "\<dots> = (b + 1) * 256 ^ length bs" by simp
  also have "\<dots> \<le> 256 * 256 ^ length bs" using Cons.prems by (intro mult_right_mono) auto
  finally show ?case by simp
qed

lemma below_modulus_value:
  assumes "length vs = length ms" "list_all (\<lambda>b. b < 256) vs" "list_all (\<lambda>b. b < 256) ms"
  shows "below_modulus vs ms \<longleftrightarrow> big_endian vs < big_endian ms"
  using assms
proof (induction vs ms rule: list_induct2)
  case Nil
  then show ?case by simp
next
  case (Cons v vs m ms)
  have bounds: "big_endian vs < 256 ^ length vs" "big_endian ms < 256 ^ length vs"
    using Cons big_endian_bound [of vs] big_endian_bound [of ms] by simp_all
  have step: "(x + 1) * (256::nat) ^ length vs \<le> y * 256 ^ length vs" if "x < y" for x y :: nat
    using that by (intro mult_right_mono) auto
  show ?case
  proof (cases v m rule: linorder_cases)
    case less
    then show ?thesis using step [OF less] bounds Cons.hyps by simp
  next
    case equal
    then show ?thesis using Cons by simp
  next
    case greater
    then show ?thesis using step [OF greater] bounds Cons.hyps by simp
  qed
qed

end
