(* ===== verification/AuctionTables.thy ===== *)
theory AuctionTables imports AuctionRules
begin

text \<open>
  The auction tables: which handlers leave them alone, the invariant (the status of every order is given by the
  clearing of its epoch, and an epoch has one owner), and that adding an order, closing and settling keep it.
\<close>

section \<open>Nothing is overwritten\<close>

text \<open>No collision: committing an order overwrites no other order and gives no epoch to another owner, and
  closing an epoch overwrites no clearing. Confirmations write what their payload says.\<close>

definition keeps_orders :: "account_store \<Rightarrow> account_store \<Rightarrow> bool" where
  "keeps_orders st st' \<longleftrightarrow> list_all (\<lambda>(k, r). js_get (st_orders st') k = Some r) (st_orders st)"

definition epoch_owner :: "account_store \<Rightarrow> string \<Rightarrow> string option" where
  "epoch_owner st c = map_option ae_owner (js_get (st_epochs st) c)"

definition keeps_owners :: "account_store \<Rightarrow> account_store \<Rightarrow> bool" where
  "keeps_owners st st' \<longleftrightarrow> list_all (\<lambda>(c, e). epoch_owner st' c = Some (ae_owner e)) (st_epochs st)"

definition keeps_clearings :: "account_store \<Rightarrow> account_store \<Rightarrow> bool" where
  "keeps_clearings st st' \<longleftrightarrow> list_all (\<lambda>(k, c). js_get (st_clearings st') k = Some c) (st_clearings st)"

lemma map_entry: "js_get m k = Some v \<Longrightarrow> (k, v) \<in> set m"
  by (auto simp: js_get_def dest: map_of_SomeD)

lemma keeps_ordersD: "keeps_orders st st' \<Longrightarrow> js_get (st_orders st) k = Some r \<Longrightarrow> js_get (st_orders st') k = Some r"
  by (auto simp: keeps_orders_def list_all_iff dest!: map_entry)

lemma keeps_clearingsD: "keeps_clearings st st' \<Longrightarrow> js_get (st_clearings st) k = Some c \<Longrightarrow> js_get (st_clearings st') k = Some c"
  by (auto simp: keeps_clearings_def list_all_iff dest!: map_entry)

lemma keeps_ownersD: "keeps_owners st st' \<Longrightarrow> epoch_owner st c = Some u \<Longrightarrow> epoch_owner st' c = Some u"
  by (auto simp: keeps_owners_def list_all_iff epoch_owner_def dest!: map_entry)

section \<open>What leaves the auction tables alone\<close>

definition same_auction :: "account_store \<Rightarrow> account_store \<Rightarrow> bool" where
  "same_auction st st' \<longleftrightarrow> st_epochs st' = st_epochs st \<and> st_orders st' = st_orders st \<and> st_clearings st' = st_clearings st"

lemma same_auction_refl [simp]: "same_auction st st"
  by (simp add: same_auction_def)

lemma same_auction_put [simp]:
  "same_auction st (putPrivateAccountRecord r1 st') = same_auction st st'"
  "same_auction st (putPrivateVaultState r2 st') = same_auction st st'"
  "same_auction st (putPrivacyBudget r3 st') = same_auction st st'"
  "same_auction st (putPrivateAccountIntent r4 st') = same_auction st st'"
  "same_auction st (putQueuedAction r5 st') = same_auction st st'"
  "same_auction st (putPrivateAuctionPreparedTransaction r6 st') = same_auction st st'"
  by (simp_all add: same_auction_def putPrivateAccountRecord_def putPrivateVaultState_def putPrivacyBudget_def
      putPrivateAccountIntent_def putQueuedAction_def putPrivateAuctionPreparedTransaction_def)

lemma account_auction: "same_auction st (snd (createOrGetStoredPrivateAccount h owner now st'))= same_auction st st'"
  by (simp add: createOrGetStoredPrivateAccount_def Let_def split: option.split)

lemma queue_status_auction [simp]: "same_auction st (updateQueuedActionStatus q status now st') = same_auction st st'"
  by (simp add: updateQueuedActionStatus_def split: option.split)

lemma prepared_auction [simp]: "same_auction st (snd (prepared_answer p owner account payload now st')) = same_auction st st'"
  by (simp add: prepared_answer_def putPreparedAuctionTransaction_def Let_def split: sum.split)

lemma intent_auction: "same_auction st (snd (createIntentFromBody h body owner uuid now st))"
  by (simp add: createIntentFromBody_def Let_def case_prod_beta account_auction split: option.split)

lemma queue_auction: "same_auction st (snd (queueActionFromBody body owner uuid now st))"
  by (simp add: queueActionFromBody_def Let_def split: option.split)

lemma cancel_auction: "same_auction st (snd (cancelQueuedActionFromBody body owner now st))"
  by (simp add: cancelQueuedActionFromBody_def Let_def split: option.split)

lemma preview_auction: "same_auction st (putPrivateAccountPreview p st)"
  by (simp add: same_auction_def putPrivateAccountPreview_def)

lemma prepare_auction:
  "same_auction st (snd (prepareAuctionMarketFromBody h body now st))"
  "same_auction st (snd (prepareAuctionOpenEpochFromBody h body now st))"
  "same_auction st (snd (prepareProductionAuctionCommit h value owner q i side asset amount now st))"
  "same_auction st (snd (prepareProductionAuctionClose h value now st))"
  "same_auction st (snd (prepareProductionAuctionSettle h value owner now st))"
  by (simp_all add: prepareAuctionMarketFromBody_def prepareAuctionOpenEpochFromBody_def prepareProductionAuctionCommit_def
      prepareProductionAuctionClose_def prepareProductionAuctionSettle_def Let_def case_prod_beta account_auction split: sum.split)

section \<open>The invariant of the tables\<close>

definition clearings_wf :: "account_store \<Rightarrow> bool" where
  "clearings_wf st \<longleftrightarrow> js_wf (st_clearings st) \<and> jm.all_entries (\<lambda>k c. al_commitment c = k) (st_clearings st)"

definition epochs_wf :: "account_store \<Rightarrow> bool" where
  "epochs_wf st \<longleftrightarrow> js_wf (st_epochs st) \<and> jm.all_entries (\<lambda>k e. ae_commitment e = k) (st_epochs st)"

text \<open>What the clearing of its epoch makes of an order.\<close>

definition cleared_status :: "PrivateAuctionClearingRecordV1 option \<Rightarrow> string \<Rightarrow> auction_order_status" where
  "cleared_status clearing k = (case clearing of
       None \<Rightarrow> Order_committed
     | Some c \<Rightarrow> if k \<in> set (al_matched c) then (if al_status c = Clearing_settled then Order_settled else Order_matched)
         else if k \<in> set (al_rolled c) then Order_rolled
         else Order_committed)"

definition order_ok :: "account_store \<Rightarrow> PrivateAuctionOrderRecordV1 \<Rightarrow> bool" where
  "order_ok st r \<longleftrightarrow> epoch_owner st (ao_epoch r) = Some (ao_owner r) \<and>
     ao_status r = cleared_status (getPrivateAuctionClearingByEpoch st (ao_epoch r)) (ao_commitment r)"

definition clearing_ok :: "account_store \<Rightarrow> PrivateAuctionClearingRecordV1 \<Rightarrow> bool" where
  "clearing_ok st c \<longleftrightarrow> epoch_owner st (al_epoch c) = Some (al_owner c) \<and>
     (\<forall>m \<in> set (al_matched c) \<union> set (al_rolled c). \<exists>r. js_get (st_orders st) m = Some r \<and> ao_epoch r = al_epoch c)"

definition one_clearing :: "account_store \<Rightarrow> bool" where
  "one_clearing st \<longleftrightarrow> (\<forall>k c k' c'. js_get (st_clearings st) k = Some c \<longrightarrow> js_get (st_clearings st) k' = Some c' \<longrightarrow>
     al_epoch c = al_epoch c' \<longrightarrow> k = k')"

definition auction_inv :: "account_store \<Rightarrow> bool" where
  "auction_inv st \<longleftrightarrow> orders_wf st \<and> epochs_wf st \<and> clearings_wf st \<and> one_clearing st \<and>
     jm.all_entries (\<lambda>k r. order_ok st r) (st_orders st) \<and> jm.all_entries (\<lambda>k c. clearing_ok st c) (st_clearings st)"

lemma auction_invD:
  assumes "auction_inv st"
  shows "orders_wf st" "epochs_wf st" "clearings_wf st" "one_clearing st"
    "js_get (st_orders st) k = Some r \<Longrightarrow> order_ok st r" "js_get (st_clearings st) k' = Some c \<Longrightarrow> clearing_ok st c"
    "js_get (st_epochs st) k'' = Some e \<Longrightarrow> ae_commitment e = k''" "js_get (st_clearings st) k' = Some c \<Longrightarrow> al_commitment c = k'"
  using assms by (auto simp: auction_inv_def jm.all_entries_def epochs_wf_def clearings_wf_def)

lemma auction_inv_cong: "same_auction st st' \<Longrightarrow> auction_inv st' = auction_inv st"
  by (simp add: same_auction_def auction_inv_def orders_wf_def epochs_wf_def clearings_wf_def one_clearing_def order_ok_def
      [abs_def] clearing_ok_def [abs_def] epoch_owner_def getPrivateAuctionClearingByEpoch_def)

lemma auction_inv_empty: "auction_inv empty_account_store"
  by (simp add: empty_account_store_def auction_inv_def orders_wf_def epochs_wf_def clearings_wf_def one_clearing_def
      jm.all_entries_def)

text \<open>The clearing of an epoch is the stored one that names it.\<close>

lemma clearing_by_epoch:
  assumes "clearings_wf st" "one_clearing st"
  shows "getPrivateAuctionClearingByEpoch st e = Some c \<longleftrightarrow> (\<exists>k. js_get (st_clearings st) k = Some c) \<and> al_epoch c = e"
proof
  assume "getPrivateAuctionClearingByEpoch st e = Some c"
  then have "c \<in> set (js_values (st_clearings st))" "al_epoch c = e"
    unfolding getPrivateAuctionClearingByEpoch_def find_Some_iff by auto
  then show "(\<exists>k. js_get (st_clearings st) k = Some c) \<and> al_epoch c = e"
    using assms(1) by (simp add: clearings_wf_def js_values_get)
next
  assume r: "(\<exists>k. js_get (st_clearings st) k = Some c) \<and> al_epoch c = e"
  then obtain k where k: "js_get (st_clearings st) k = Some c" by blast
  have wf: "js_wf (st_clearings st)" using assms(1) by (simp add: clearings_wf_def)
  have c: "c \<in> set (js_values (st_clearings st))" using r wf by (simp add: js_values_get)
  show "getPrivateAuctionClearingByEpoch st e = Some c"
  proof (cases "getPrivateAuctionClearingByEpoch st e")
    case None
    then show ?thesis using c r unfolding getPrivateAuctionClearingByEpoch_def find_None_iff by blast
  next
    case (Some c')
    then have "c' \<in> set (js_values (st_clearings st))" "al_epoch c' = e"
      unfolding getPrivateAuctionClearingByEpoch_def find_Some_iff by auto
    then obtain k' where k': "js_get (st_clearings st) k' = Some c'" using wf by (auto simp: js_values_get)
    then have "k = k'" using assms(2) k r \<open>al_epoch c' = e\<close> unfolding one_clearing_def by blast
    then show ?thesis using Some k k' by simp
  qed
qed

lemma no_clearing:
  assumes "clearings_wf st"
  shows "getPrivateAuctionClearingByEpoch st e = None \<longleftrightarrow> (\<forall>k c. js_get (st_clearings st) k = Some c \<longrightarrow> al_epoch c \<noteq> e)"
  using assms unfolding getPrivateAuctionClearingByEpoch_def find_None_iff clearings_wf_def by (auto simp: js_values_get)

section \<open>Adding an order\<close>

definition order_added :: "account_store \<Rightarrow> account_store \<Rightarrow> PrivateAuctionOrderRecordV1 \<Rightarrow> bool" where
  "order_added st st' r \<longleftrightarrow> st_orders st' = js_set (st_orders st) (ao_commitment r) r \<and> ao_status r = Order_committed \<and>
     st_clearings st' = st_clearings st \<and> epoch_owner st' (ao_epoch r) = Some (ao_owner r) \<and> (epochs_wf st \<longrightarrow> epochs_wf st')"

lemma epochs_wf_put: "epochs_wf st \<Longrightarrow> epochs_wf (putPrivateAuctionEpoch e st)"
  by (auto simp: epochs_wf_def putPrivateAuctionEpoch_def jm.all_entries_def)

lemma epochs_wf_cong: "st_epochs st' = st_epochs st \<Longrightarrow> epochs_wf st' = epochs_wf st"
  by (simp add: epochs_wf_def)

lemma set_newest_first: "set (newest_first f xs) = set xs"
proof -
  have "mset (newest_first f xs) = mset xs" by (simp add: newest_first_def)
  then show ?thesis by (rule mset_eq_setD)
qed

lemma open_epoch:
  assumes "getOpenPrivateAuctionEpoch st owner platform asset amount now = Some e"
  shows "ae_owner e = owner \<and> ae_status e = Auction_open \<and> e \<in> set (js_values (st_epochs st))"
proof -
  let ?es = "filter (\<lambda>r. ae_owner r = owner \<and> ae_platform r = platform \<and> ae_asset r = asset \<and> ae_amount r = amount \<and>
    ae_status r = Auction_open \<and> now < ae_closes_at r) (js_values (st_epochs st))"
  have "\<exists>rest. newest_first ae_opened_at ?es = e # rest"
    using assms unfolding getOpenPrivateAuctionEpoch_def by (simp split: list.splits)
  then have "e \<in> set (newest_first ae_opened_at ?es)" by auto
  then show ?thesis unfolding set_newest_first by simp
qed

lemma epoch_for_cases:
  assumes "epoch_for h owner q asset amount now st = (e, st')"
  shows "ae_owner e = owner" "st_orders st' = st_orders st" "st_clearings st' = st_clearings st"
    "st_epochs st' = st_epochs st \<or> st_epochs st' = js_set (st_epochs st) (ae_commitment e) e"
proof -
  obtain account s1 where account: "createOrGetStoredPrivateAccount h owner now st = (account, s1)" by fastforce
  have "same_auction st s1" using account_auction [of st h owner now st] account by simp
  then show "ae_owner e = owner" "st_orders st' = st_orders st" "st_clearings st' = st_clearings st"
    "st_epochs st' = st_epochs st \<or> st_epochs st' = js_set (st_epochs st) (ae_commitment e) e"
    using assms open_epoch [of s1]
    by (auto simp: epoch_for_def account same_auction_def new_epoch_def Let_def putPrivateAuctionEpoch_def split: option.splits)
qed

lemma commit_local_cases:
  assumes "commit_local h owner q i side asset amount now st = (a, st')"
  shows "same_auction st st' \<or> (\<exists>r. order_added st st' r)"
proof -
  obtain e s1 where e: "epoch_for h owner q asset amount now st = (e, s1)" by fastforce
  note epoch = epoch_for_cases [OF e]
  let ?r = "new_order h owner q i side asset amount (ae_commitment e) now"
  have r: "ao_status ?r = Order_committed" "ao_epoch ?r = ae_commitment e" "ao_owner ?r = owner" by (simp_all add: new_order_def)
  obtain e' s2 where add: "add_order e ?r now s1 = (e', s2)" by fastforce
  then have s2: "s2 = putPrivateAuctionEpoch e' (putPrivateAuctionOrder ?r s1)" "ae_commitment e' = ae_commitment e" "ae_owner e' = ae_owner e"
    by (auto simp: add_order_def Let_def)
  have "epochs_wf s1" if "epochs_wf st"
    using epoch(4) that epochs_wf_cong [of s1 st] epochs_wf_put [OF that, of e] epochs_wf_cong [of s1 "putPrivateAuctionEpoch e st"]
    by (auto simp: putPrivateAuctionEpoch_def)
  then have "epochs_wf s2" if "epochs_wf st"
    using that epochs_wf_put [of "putPrivateAuctionOrder ?r s1" e'] epochs_wf_cong [of "putPrivateAuctionOrder ?r s1" s1]
    by (simp add: s2 putPrivateAuctionOrder_def)
  then have "order_added st s2 ?r"
    using epoch s2 r by (simp add: order_added_def epoch_owner_def putPrivateAuctionEpoch_def putPrivateAuctionOrder_def)
  then show ?thesis using assms by (auto simp: commit_local_def e add Let_def split: if_splits)
qed

definition commit_effect :: "account_store \<Rightarrow> account_store \<Rightarrow> bool" where
  "commit_effect st st' \<longleftrightarrow> same_auction st st' \<or> (\<exists>r. order_added st st' r)"

lemma commit_cases: "commit_effect st (snd (commitAuctionOrderFromBody h body owner now st))"
proof -
  have same: "commit_effect st s" if "same_auction st s" for s using that by (simp add: commit_effect_def)
  have new: "commit_effect st (snd (commit_local (au_host h) owner q i side asset amount now st))" for q i side asset amount
    unfolding commit_effect_def by (rule commit_local_cases [OF prod.collapse [symmetric]])
  show ?thesis unfolding commitAuctionOrderFromBody_def Let_def
    by (simp add: same prepare_auction(3) new split: option.split)
qed

lemma order_added_inv:
  assumes inv: "auction_inv st" and added: "order_added st st' r"
    and keeps: "keeps_orders st st'" "keeps_owners st st'"
  shows "auction_inv st'"
proof -
  note new = added [unfolded order_added_def]
  have orders: "js_get (st_orders st') k = (if k = ao_commitment r then Some r else js_get (st_orders st) k)" for k
    using new by simp
  have wf: "orders_wf st'" "epochs_wf st'" "clearings_wf st'" "one_clearing st'"
    using new auction_invD(1-4) [OF inv] by (auto simp: orders_wf_def jm.all_entries_def clearings_wf_def one_clearing_def)
  have by_epoch: "getPrivateAuctionClearingByEpoch st' e = getPrivateAuctionClearingByEpoch st e" for e
    using new by (simp add: getPrivateAuctionClearingByEpoch_def)
  have old: "order_ok st' x" if "js_get (st_orders st) k = Some x" for k x
    using auction_invD(5) [OF inv that] keeps_ownersD [OF keeps(2)] by (simp add: order_ok_def by_epoch)
  have "order_ok st' r"
  proof (cases "js_get (st_orders st) (ao_commitment r)")
    case None
    have "cleared_status (getPrivateAuctionClearingByEpoch st (ao_epoch r)) (ao_commitment r) = Order_committed"
    proof (cases "getPrivateAuctionClearingByEpoch st (ao_epoch r)")
      case (Some c)
      then obtain k where "js_get (st_clearings st) k = Some c"
        using clearing_by_epoch [OF auction_invD(3,4) [OF inv]] by blast
      then have "clearing_ok st c" by (rule auction_invD(6) [OF inv])
      then have "ao_commitment r \<notin> set (al_matched c) \<union> set (al_rolled c)" using None unfolding clearing_ok_def by force
      then show ?thesis using Some by (simp add: cleared_status_def)
    qed (simp add: cleared_status_def)
    then show ?thesis using new by (simp add: order_ok_def by_epoch)
  next
    case (Some x)
    then have "x = r" using keeps_ordersD [OF keeps(1) Some] orders by simp
    then show ?thesis using old [OF Some] by simp
  qed
  then have "jm.all_entries (\<lambda>k r. order_ok st' r) (st_orders st')"
    using old orders by (auto simp: jm.all_entries_def)
  moreover have "clearing_ok st' c" if "js_get (st_clearings st') k = Some c" for k c
  proof -
    have "clearing_ok st c" using auction_invD(6) [OF inv] that new by auto
    then show ?thesis using keeps_ownersD [OF keeps(2)] keeps_ordersD [OF keeps(1)] unfolding clearing_ok_def by blast
  qed
  ultimately show ?thesis using wf by (simp add: auction_inv_def jm.all_entries_def)
qed

section \<open>A new clearing, or a new state of one\<close>

lemma cleared_inv:
  assumes inv: "auction_inv st" and wf: "orders_wf st'" "epochs_wf st'"
    and owners: "\<And>e. epoch_owner st' e = epoch_owner st e"
    and clearings: "st_clearings st' = js_set (st_clearings st) (al_commitment c) c"
    and alone: "\<And>k c'. js_get (st_clearings st) k = Some c' \<Longrightarrow> al_epoch c' = al_epoch c \<longleftrightarrow> k = al_commitment c"
    and ok: "clearing_ok st c"
    and orders: "\<And>k. js_get (st_orders st') k = map_option f (js_get (st_orders st) k)"
    and f: "\<And>r. ao_commitment (f r) = ao_commitment r" "\<And>r. ao_epoch (f r) = ao_epoch r" "\<And>r. ao_owner (f r) = ao_owner r"
    and status: "\<And>k r. js_get (st_orders st) k = Some r \<Longrightarrow>
      ao_status (f r) = (if ao_epoch r = al_epoch c then cleared_status (Some c) (ao_commitment r) else ao_status r)"
  shows "auction_inv st'"
proof -
  have get: "js_get (st_clearings st') k = (if k = al_commitment c then Some c else js_get (st_clearings st) k)" for k
    by (simp add: clearings)
  have wf': "clearings_wf st'" using auction_invD(3) [OF inv] by (auto simp: clearings_wf_def clearings jm.all_entries_def)
  have alone': "al_epoch c = al_epoch c' \<longleftrightarrow> k = al_commitment c" if "js_get (st_clearings st) k = Some c'" for k c'
    using alone [OF that] by metis
  have one: "one_clearing st'"
    using auction_invD(4) [OF inv] alone alone' unfolding one_clearing_def get by (auto split: if_splits)
  have same: "getPrivateAuctionClearingByEpoch st' (al_epoch c) = Some c"
    unfolding clearing_by_epoch [OF wf' one] get by auto
  have other: "getPrivateAuctionClearingByEpoch st' e = getPrivateAuctionClearingByEpoch st e" if "e \<noteq> al_epoch c" for e
  proof -
    have "getPrivateAuctionClearingByEpoch st' e = Some x \<longleftrightarrow> getPrivateAuctionClearingByEpoch st e = Some x" for x
      unfolding clearing_by_epoch [OF wf' one] clearing_by_epoch [OF auction_invD(3,4) [OF inv]] get
      using that alone by auto
    then show ?thesis by (metis not_Some_eq)
  qed
  have "order_ok st' r'" if r': "js_get (st_orders st') k = Some r'" for k r'
  proof -
    obtain r where r: "js_get (st_orders st) k = Some r" "r' = f r" using r' by (auto simp: orders)
    show ?thesis using auction_invD(5) [OF inv r(1)] status [OF r(1)] same other
      by (cases "ao_epoch r = al_epoch c") (simp_all add: order_ok_def r(2) f owners)
  qed
  moreover have "clearing_ok st' c'" if "js_get (st_clearings st') k = Some c'" for k c'
  proof -
    have c': "clearing_ok st c'" using auction_invD(6) [OF inv] ok that by (auto simp: get split: if_splits)
    show ?thesis unfolding clearing_ok_def
    proof (intro conjI ballI)
      show "epoch_owner st' (al_epoch c') = Some (al_owner c')" using c' by (simp add: clearing_ok_def owners)
    next
      fix m assume "m \<in> set (al_matched c') \<union> set (al_rolled c')"
      then obtain r where "js_get (st_orders st) m = Some r" "ao_epoch r = al_epoch c'" using c' unfolding clearing_ok_def by blast
      then show "\<exists>r. js_get (st_orders st') m = Some r \<and> ao_epoch r = al_epoch c'" by (simp add: orders f)
    qed
  qed
  ultimately show ?thesis using wf wf' one by (simp add: auction_inv_def jm.all_entries_def)
qed

lemma epoch_owner_put: "epoch_owner (putPrivateAuctionEpoch e st) c = (if c = ae_commitment e then Some (ae_owner e) else epoch_owner st c)"
  by (simp add: epoch_owner_def putPrivateAuctionEpoch_def)

lemma clearing_put_sel [simp]:
  "st_orders (putPrivateAuctionClearing c st) = st_orders st" "st_epochs (putPrivateAuctionClearing c st) = st_epochs st"
  "st_clearings (putPrivateAuctionClearing c st) = js_set (st_clearings st) (al_commitment c) c"
  by (simp_all add: putPrivateAuctionClearing_def)

lemma epoch_put_sel [simp]:
  "st_orders (putPrivateAuctionEpoch e st) = st_orders st" "st_clearings (putPrivateAuctionEpoch e st) = st_clearings st"
  "st_epochs (putPrivateAuctionEpoch e st) = js_set (st_epochs st) (ae_commitment e) e"
  by (simp_all add: putPrivateAuctionEpoch_def)

lemma orders_wf_cong: "st_orders st' = st_orders st \<Longrightarrow> orders_wf st' = orders_wf st"
  by (simp add: orders_wf_def)

section \<open>Closing\<close>

lemma new_clearing_sel [simp]:
  "al_epoch (new_clearing h value e ms rs now) = ae_commitment e" "al_owner (new_clearing h value e ms rs now) = ae_owner e"
  "al_matched (new_clearing h value e ms rs now) = ms" "al_rolled (new_clearing h value e ms rs now) = rs"
  "al_status (new_clearing h value e ms rs now) = Clearing_cleared"
  by (simp_all add: new_clearing_def Let_def)

lemma closed_status:
  assumes inv: "auction_inv st" and none: "getPrivateAuctionClearingByEpoch st (ae_commitment e) = None"
    and orders: "orders = listPrivateAuctionOrdersByEpoch st (ae_commitment e)" and r: "js_get (st_orders st) k = Some r"
  shows "ao_status (after_close orders now r) = (if ao_epoch r = ae_commitment e
     then cleared_status (Some (new_clearing h value e (map ao_commitment (matched_orders orders)) (map ao_commitment (rolled_orders orders)) now))
       (ao_commitment r) else ao_status r)"
proof -
  note wf = auction_invD(1) [OF inv]
  note lists = matched_rolled_lists [OF wf orders]
  have key: "ao_commitment r = k" using orders_wfD(2) [OF wf r] .
  have stored: "x = r" if "x \<in> set (matched_orders orders) \<or> x \<in> set (rolled_orders orders)" "ao_commitment x = ao_commitment r" for x
    using that lists(3,4) r key by auto
  have mem: "ao_commitment r \<in> ao_commitment ` set (matched_orders orders) \<longleftrightarrow> r \<in> set (matched_orders orders)"
    "ao_commitment r \<in> ao_commitment ` set (rolled_orders orders) \<longleftrightarrow> r \<in> set (rolled_orders orders)"
    using stored by (metis imageE imageI)+
  show ?thesis
  proof (cases "ao_epoch r = ae_commitment e")
    case True
    then have "ao_status r = Order_committed" using auction_invD(5) [OF inv r] none by (simp add: order_ok_def cleared_status_def)
    then show ?thesis using True by (simp add: cleared_status_def mem after_close_def)
  next
    case False
    then have "r \<notin> set (matched_orders orders)" "r \<notin> set (rolled_orders orders)" using lists(3,4) by auto
    then show ?thesis using False by (simp add: after_close_def)
  qed
qed

lemma close_local_inv:
  assumes inv: "auction_inv st" and e: "js_get (st_epochs st) (ae_commitment e) = Some e"
    and none: "getPrivateAuctionClearingByEpoch st (ae_commitment e) = None"
    and run: "close_local h value e now st = (a, st')" and keeps: "keeps_clearings st st'"
  shows "auction_inv st'"
proof -
  define orders where "orders = listPrivateAuctionOrdersByEpoch st (ae_commitment e)"
  let ?ms = "matched_orders orders" and ?rs = "rolled_orders orders"
  let ?c = "new_clearing h value e (map ao_commitment ?ms) (map ao_commitment ?rs) now"
  note wf = auction_invD(1) [OF inv]
  note closed = closed_orders [OF wf orders_def, of now]
  obtain e' where e': "st' = putPrivateAuctionEpoch e' (putPrivateAuctionClearing ?c (mark_orders Order_rolled now ?rs (mark_orders Order_matched now ?ms st)))"
      "ae_commitment e' = ae_commitment e" "ae_owner e' = ae_owner e"
    using run by (auto simp: close_local_def Let_def orders_def)
  have owners: "epoch_owner st' x = epoch_owner st x" for x
    using e by (simp add: epoch_owner_def e')
  have clearings: "st_clearings st' = js_set (st_clearings st) (al_commitment ?c) ?c" by (simp add: e'(1))
  have apart: "al_epoch c' \<noteq> ae_commitment e" if "js_get (st_clearings st) k = Some c'" for k c'
    using none that unfolding no_clearing [OF auction_invD(3) [OF inv]] by blast
  have "js_get (st_clearings st) (al_commitment ?c) = None"
  proof (rule ccontr)
    assume "js_get (st_clearings st) (al_commitment ?c) \<noteq> None"
    then obtain c' where c': "js_get (st_clearings st) (al_commitment ?c) = Some c'" by blast
    then have "c' = ?c" using keeps_clearingsD [OF keeps c'] by (simp add: clearings)
    then show False using apart [OF c'] by simp
  qed
  then have alone: "al_epoch c' = al_epoch ?c \<longleftrightarrow> k = al_commitment ?c" if "js_get (st_clearings st) k = Some c'" for k c'
    using apart [OF that] that by auto
  have ok: "clearing_ok st ?c"
    using matched_rolled_lists(3,4) [OF wf orders_def] e by (auto simp: clearing_ok_def epoch_owner_def)
  have f: "ao_commitment (after_close orders now r) = ao_commitment r" "ao_epoch (after_close orders now r) = ao_epoch r"
    "ao_owner (after_close orders now r) = ao_owner r" for r by simp_all
  have status: "ao_status (after_close orders now r) = (if ao_epoch r = al_epoch ?c
      then cleared_status (Some ?c) (ao_commitment r) else ao_status r)" if "js_get (st_orders st) k = Some r" for k r
    using closed_status [OF inv none orders_def that] by simp
  have "orders_wf st'" using closed(2) by (simp add: e'(1) orders_wf_def)
  moreover have "epochs_wf st'" using auction_invD(2) [OF inv] by (auto simp: e'(1) epochs_wf_def jm.all_entries_def)
  moreover have "js_get (st_orders st') k = map_option (after_close orders now) (js_get (st_orders st) k)" for k
    using closed(1) by (simp add: e'(1))
  ultimately show ?thesis using cleared_inv [OF inv _ _ owners clearings alone ok _ f status] by simp
qed

section \<open>Settling\<close>

lemma settle_epoch_cases:
  assumes "settle_epoch c now st = (e, st')"
  shows "st_orders st' = st_orders st" "st_clearings st' = st_clearings st" "epochs_wf st \<Longrightarrow> epochs_wf st'"
    "epochs_wf st \<Longrightarrow> epoch_owner st' x = epoch_owner st x"
proof -
  show "st_orders st' = st_orders st" "st_clearings st' = st_clearings st"
    using assms by (auto simp: settle_epoch_def Let_def split: option.splits)
  show "epochs_wf st'" if "epochs_wf st"
    using assms that by (auto simp: settle_epoch_def Let_def intro: epochs_wf_put split: option.splits)
  have "ae_commitment e0 = c" if "epochs_wf st" "js_get (st_epochs st) c = Some e0" for e0
    using that by (simp add: epochs_wf_def jm.all_entries_def)
  then show "epoch_owner st' x = epoch_owner st x" if "epochs_wf st"
    using assms that by (auto simp: settle_epoch_def getPrivateAuctionEpoch_def Let_def epoch_owner_put epochs_wf_def
        jm.all_entries_def epoch_owner_def split: option.splits)
qed

definition after_settle :: "PrivateAuctionClearingRecordV1 \<Rightarrow> time \<Rightarrow> PrivateAuctionOrderRecordV1 \<Rightarrow> PrivateAuctionOrderRecordV1" where
  "after_settle c now r = (if ao_epoch r = al_epoch c \<and> ao_commitment r \<in> set (al_matched c) then marked Order_settled now r else r)"

lemma settled_orders:
  fixes c :: PrivateAuctionClearingRecordV1
  assumes wf: "orders_wf st"
  defines "orders \<equiv> filter (\<lambda>r. ao_commitment r \<in> set (al_matched c)) (listPrivateAuctionOrdersByEpoch st (al_epoch c))"
  shows "js_get (st_orders (mark_orders Order_settled now orders st)) k = map_option (after_settle c now) (js_get (st_orders st) k)"
    "orders_wf (mark_orders Order_settled now orders st)"
proof -
  have d: "distinct (map ao_commitment orders)" unfolding orders_def by (rule distinct_map_filter [OF listed_distinct [OF wf]])
  have stored: "js_get (st_orders st) (ao_commitment r) = Some r" if "r \<in> set orders" for r
    using that listed_orders [OF wf] by (simp add: orders_def)
  have "r \<in> set orders \<longleftrightarrow> ao_epoch r = al_epoch c \<and> ao_commitment r \<in> set (al_matched c)" if "js_get (st_orders st) k = Some r" for r
    using that listed_orders [OF wf] orders_wfD(2) [OF wf that] by (auto simp: orders_def)
  then show "js_get (st_orders (mark_orders Order_settled now orders st)) k = map_option (after_settle c now) (js_get (st_orders st) k)"
    using mark_listed [OF wf d stored, of Order_settled now k] by (cases "js_get (st_orders st) k") (simp_all add: after_settle_def)
  show "orders_wf (mark_orders Order_settled now orders st)" using mark_orders_ok [OF wf d stored] by simp
qed

definition settled_clearing :: "PrivateAuctionClearingRecordV1 \<Rightarrow> string \<Rightarrow> time \<Rightarrow> PrivateAuctionClearingRecordV1" where
  "settled_clearing c t now = c\<lparr>al_status := Clearing_settled, al_settlement := Some t, al_updated_at := now\<rparr>"

lemma settled_clearing_sel [simp]:
  "al_epoch (settled_clearing c t now) = al_epoch c" "al_commitment (settled_clearing c t now) = al_commitment c"
  "al_matched (settled_clearing c t now) = al_matched c" "al_owner (settled_clearing c t now) = al_owner c"
  "al_rolled (settled_clearing c t now) = al_rolled c" "al_status (settled_clearing c t now) = Clearing_settled"
  by (simp_all add: settled_clearing_def)

lemma settle_local_run:
  "\<exists>t. snd (settle_local h value owner c now st) = snd (settle_epoch (al_epoch c) now (mark_orders Order_settled now
      (filter (\<lambda>r. ao_commitment r \<in> set (al_matched c)) (listPrivateAuctionOrdersByEpoch
        (putPrivateAuctionClearing (settled_clearing c t now) st) (al_epoch c)))
      (putPrivateAuctionClearing (settled_clearing c t now) st)))"
  unfolding settle_local_def Let_def settled_clearing_def [symmetric] case_prod_beta snd_conv by (rule exI) (rule refl)

end
