(* ===== verification/AuctionMachine.thy ===== *)
theory AuctionMachine imports AuctionTables AccountFundingMachine
begin

text \<open>
  The handlers of \<open>AuctionRoutes\<close> as a machine over calls: every call without a confirmed transaction keeps the
  invariant of the auction tables as long as no commitments collide.
\<close>

section \<open>Calls\<close>

datatype auction_call =
    Store_preview PrivateAccountPreviewRecordV1
  | Add_intent auction_host json string string time
  | Queue_action json string string time
  | Cancel_queued json string time
  | Commit_order auction_host json string time
  | Close_epoch auction_host json time
  | Settle_clearing auction_host json string time
  | Prepare_market auction_host json time
  | Prepare_epoch auction_host json time
  | Confirm_own auction_host json string time
  | Confirm_internal auction_host json time

text \<open>\<open>Store_preview\<close> stands for the handler that previews an intent, of which the auction uses the record.\<close>

fun auction_step :: "account_store \<Rightarrow> auction_call \<Rightarrow> account_store" where
  "auction_step st (Store_preview p) = putPrivateAccountPreview p st"
| "auction_step st (Add_intent h body owner uuid now) = snd (createIntentFromBody (au_host h) body owner uuid now st)"
| "auction_step st (Queue_action body owner uuid now) = snd (queueActionFromBody body owner uuid now st)"
| "auction_step st (Cancel_queued body owner now) = snd (cancelQueuedActionFromBody body owner now st)"
| "auction_step st (Commit_order h body owner now) = snd (commitAuctionOrderFromBody h body owner now st)"
| "auction_step st (Close_epoch h body now) = snd (closeAuctionEpochFromBody h body now st)"
| "auction_step st (Settle_clearing h body owner now) = snd (settleAuctionClearingFromBody h body owner now st)"
| "auction_step st (Prepare_market h body now) = snd (prepareAuctionMarketFromBody h body now st)"
| "auction_step st (Prepare_epoch h body now) = snd (prepareAuctionOpenEpochFromBody h body now st)"
| "auction_step st (Confirm_own h body owner now) = snd (confirmAuctionTransactionFromBody h body owner now st)"
| "auction_step st (Confirm_internal h body now) = snd (confirmAuctionInternalTransactionFromBody h body now st)"

fun auction_admits :: "account_store \<Rightarrow> auction_call \<Rightarrow> bool" where
  "auction_admits st (Commit_order h body owner now) =
     (let st' = snd (commitAuctionOrderFromBody h body owner now st) in keeps_orders st st' \<and> keeps_owners st st')"
| "auction_admits st (Close_epoch h body now) = keeps_clearings st (snd (closeAuctionEpochFromBody h body now st))"
| "auction_admits st (Confirm_own h body owner now) = False"
| "auction_admits st (Confirm_internal h body now) = False"
| "auction_admits st c = True"

lemma settled_inv:
  assumes inv: "auction_inv st" and c: "js_get (st_clearings st) (al_commitment c) = Some c"
    and wf: "orders_wf st'" "epochs_wf st'" and owners: "\<And>e. epoch_owner st' e = epoch_owner st e"
    and clearings: "st_clearings st' = js_set (st_clearings st) (al_commitment c) (settled_clearing c t now)"
    and orders: "\<And>k. js_get (st_orders st') k = map_option (after_settle c now) (js_get (st_orders st) k)"
  shows "auction_inv st'"
proof (rule cleared_inv [OF inv wf owners, where c = "settled_clearing c t now" and f = "after_settle c now"])
  show "st_clearings st' = js_set (st_clearings st) (al_commitment (settled_clearing c t now)) (settled_clearing c t now)"
    by (simp add: clearings)
  show "al_epoch x = al_epoch (settled_clearing c t now) \<longleftrightarrow> k = al_commitment (settled_clearing c t now)"
    if x: "js_get (st_clearings st) k = Some x" for k x
  proof -
    have "k = al_commitment c" if "al_epoch x = al_epoch c"
      using auction_invD(4) [OF inv] c x that unfolding one_clearing_def by blast
    moreover have "x = c" if "k = al_commitment c" using that c x by simp
    ultimately show ?thesis by auto
  qed
  show "clearing_ok st (settled_clearing c t now)" using auction_invD(6) [OF inv c] by (simp add: clearing_ok_def)
  have known: "getPrivateAuctionClearingByEpoch st (al_epoch c) = Some c"
    using c unfolding clearing_by_epoch [OF auction_invD(3,4) [OF inv]] by blast
  show "ao_status (after_settle c now r) = (if ao_epoch r = al_epoch (settled_clearing c t now)
      then cleared_status (Some (settled_clearing c t now)) (ao_commitment r) else ao_status r)"
    if "js_get (st_orders st) k = Some r" for k r
    using auction_invD(5) [OF inv that] known by (simp add: order_ok_def cleared_status_def after_settle_def)
qed (simp_all add: orders after_settle_def)

lemma settle_run_inv:
  assumes inv: "auction_inv st" and c: "js_get (st_clearings st) (al_commitment c) = Some c"
    and s1: "st_orders s1 = st_orders st" "st_epochs s1 = st_epochs st"
      "st_clearings s1 = js_set (st_clearings st) (al_commitment c) (settled_clearing c t now)"
    and s2: "s2 = mark_orders Order_settled now
      (filter (\<lambda>r. ao_commitment r \<in> set (al_matched c)) (listPrivateAuctionOrdersByEpoch s1 (al_epoch c))) s1"
    and s3: "settle_epoch (al_epoch c) now s2 = (e, s3)"
  shows "auction_inv s3"
proof (rule settled_inv [OF inv c])
  have wf1: "orders_wf s1" using auction_invD(1) [OF inv] orders_wf_cong [OF s1(1)] by simp
  note marks = settled_orders [OF wf1, where c = c and now = now, folded s2]
  have s2e: "st_epochs s2 = st_epochs st" "st_clearings s2 = st_clearings s1" by (simp_all add: s2 s1)
  have ep: "epochs_wf s2" using auction_invD(2) [OF inv] s2e(1) by (simp add: epochs_wf_def)
  note last = settle_epoch_cases [OF s3]
  show "orders_wf s3" using marks(2) orders_wf_cong [OF last(1)] by simp
  show "epochs_wf s3" by (rule last(3) [OF ep])
  show "epoch_owner s3 x = epoch_owner st x" for x using last(4) [OF ep] s2e(1) by (simp add: epoch_owner_def)
  show "st_clearings s3 = js_set (st_clearings st) (al_commitment c) (settled_clearing c t now)"
    by (simp add: last(2) s2e(2) s1(3))
  show "js_get (st_orders s3) k = map_option (after_settle c now) (js_get (st_orders st) k)" for k
    using marks(1) [of k] by (simp add: last(1) s1(1))
qed

lemma settle_local_inv:
  assumes inv: "auction_inv st" and c: "js_get (st_clearings st) (al_commitment c) = Some c"
  shows "auction_inv (snd (settle_local h body owner c now st))"
  unfolding settle_local_def Let_def settled_clearing_def [symmetric] case_prod_beta snd_conv
  by (rule settle_run_inv [OF inv c _ _ _ refl prod.collapse [symmetric]]) (simp_all only: clearing_put_sel settled_clearing_sel)

section \<open>What an admitted call does to the tables\<close>

lemma auction_step_cases:
  assumes inv: "auction_inv st" and admits: "auction_admits st call"
  obtains (same) "same_auction st (auction_step st call)"
  | (added) r where "order_added st (auction_step st call) r" "keeps_orders st (auction_step st call)"
      "keeps_owners st (auction_step st call)"
  | (closed) h body e now where "auction_step st call = snd (close_local h body e now st)"
      "js_get (st_epochs st) (ae_commitment e) = Some e" "getPrivateAuctionClearingByEpoch st (ae_commitment e) = None"
      "keeps_clearings st (auction_step st call)"
  | (settled) h body owner c now where "auction_step st call = snd (settle_local h body owner c now st)"
      "js_get (st_clearings st) (al_commitment c) = Some c"
proof (cases "same_auction st (auction_step st call)")
  case True
  then show ?thesis by (rule same)
next
  case changed: False
  show ?thesis
  proof (cases call)
    case (Commit_order h body owner now)
    then obtain r where "order_added st (auction_step st call) r"
      using commit_cases [of st h body owner now] changed by (auto simp: commit_effect_def)
    then show ?thesis using admits by (intro added) (simp_all add: Commit_order Let_def)
  next
    case (Close_epoch h body now)
    let ?c = "stringValue (obj_field (asRecord body) ''auction_epoch_commitment'')"
    obtain e where e: "js_get (st_epochs st) ?c = Some e" "getPrivateAuctionClearingByEpoch st (ae_commitment e) = None"
        "closeAuctionEpochFromBody h body now st = close_local (au_host h) (asRecord body) e now st"
      using changed prepare_auction(4) [of st h "asRecord body" now]
      by (auto simp: Close_epoch closeAuctionEpochFromBody_def Let_def getPrivateAuctionEpoch_def split: if_splits option.splits)
    have key: "?c = ae_commitment e" using auction_invD(7) [OF inv e(1)] by simp
    have step: "auction_step st call = snd (close_local (au_host h) (asRecord body) e now st)" by (simp add: Close_epoch e(3))
    have "keeps_clearings st (auction_step st call)" using admits by (simp add: Close_epoch)
    then show ?thesis by (rule closed [OF step e(1) [unfolded key] e(2)])
  next
    case (Settle_clearing h body owner now)
    let ?c = "stringValue (obj_field (asRecord body) ''clearing_commitment'')"
    obtain c where c: "js_get (st_clearings st) ?c = Some c"
        "settleAuctionClearingFromBody h body owner now st = settle_local (au_host h) (asRecord body) owner c now st"
      using changed prepare_auction(5) [of st h "asRecord body" owner now]
      by (auto simp: Settle_clearing settleAuctionClearingFromBody_def Let_def getPrivateAuctionClearing_def split: if_splits option.splits)
    have key: "?c = al_commitment c" using auction_invD(8) [OF inv c(1)] by simp
    have step: "auction_step st call = snd (settle_local (au_host h) (asRecord body) owner c now st)"
      by (simp add: Settle_clearing c(2))
    show ?thesis by (rule settled [OF step c(1) [unfolded key]])
  qed (use changed admits preview_auction intent_auction queue_auction cancel_auction prepare_auction in simp_all)
qed

section \<open>Every admitted call keeps the invariant\<close>

lemma auction_step_inv:
  assumes "auction_inv st" "auction_admits st call"
  shows "auction_inv (auction_step st call)"
  using assms
proof (cases rule: auction_step_cases)
  case same
  then show ?thesis using auction_inv_cong assms(1) by simp
next
  case (added r)
  then show ?thesis by (rule order_added_inv [OF assms(1)])
next
  case (closed h body e now)
  show ?thesis
    using close_local_inv [OF assms(1) closed(2,3) prod.collapse [symmetric]] closed(1,4) by simp
next
  case (settled h body owner c now)
  then show ?thesis using settle_local_inv [OF assms(1)] by simp
qed

interpretation auction: call_machine "\<lambda>st c. if auction_admits st c then auction_step st c else st" auction_inv
  by unfold_locales (simp add: auction_step_inv)

lemma auction_run_inv:
  assumes "auction_inv st" "run_admits auction_step auction_admits st calls"
  shows "auction_inv (run_calls auction_step st calls)"
  using auction.run_inv [OF assms(1), of calls] assms(2) by (simp add: run_admitted)

section \<open>A clearing never changes its lists\<close>

definition clearing_lists :: "account_store \<Rightarrow> string \<Rightarrow> (string \<times> string list \<times> string list) option" where
  "clearing_lists st k = map_option (\<lambda>c. (al_epoch c, al_matched c, al_rolled c)) (js_get (st_clearings st) k)"

lemma settle_local_clearings:
  "\<exists>t. st_clearings (snd (settle_local h body owner c now st)) = js_set (st_clearings st) (al_commitment c) (settled_clearing c t now)"
  unfolding settle_local_def Let_def settled_clearing_def [symmetric] case_prod_beta snd_conv
    settle_epoch_cases(2) [OF prod.collapse [symmetric]] mark_orders_sel clearing_put_sel settled_clearing_sel
  by (rule exI) (rule refl)

lemma clearing_lists_step:
  assumes "auction_inv st" "auction_admits st call" "clearing_lists st k = Some v"
  shows "clearing_lists (auction_step st call) k = Some v"
  using assms(1,2)
proof (cases rule: auction_step_cases)
  case same
  then show ?thesis using assms(3) by (simp add: clearing_lists_def same_auction_def)
next
  case (added r)
  then show ?thesis using assms(3) by (simp add: clearing_lists_def order_added_def)
next
  case (closed h body e now)
  then show ?thesis using assms(3) keeps_clearingsD by (fastforce simp: clearing_lists_def)
next
  case (settled h body owner c now)
  then show ?thesis using assms(3) settle_local_clearings [of h body owner c now st] by (auto simp: clearing_lists_def)
qed

interpretation auction_cleared: call_machine "\<lambda>st c. if auction_admits st c then auction_step st c else st"
    "\<lambda>st. auction_inv st \<and> clearing_lists st k = Some v" for k v
  by unfold_locales (simp add: auction_step_inv clearing_lists_step)

lemma clearing_lists_run:
  assumes "auction_inv st" "run_admits auction_step auction_admits st calls" "clearing_lists st k = Some v"
  shows "clearing_lists (run_calls auction_step st calls) k = Some v"
  using auction_cleared.run_inv [of st k v calls] assms by (simp add: run_admitted)

end
