(* ===== verification/AuctionClaims.thy ===== *)
theory AuctionClaims imports AuctionMachine AccountClaims
begin

text \<open>
  The properties of the sealed auction: what closing an epoch makes of its orders, that the status of an order
  always follows the clearing of its epoch, that a locally committed epoch never has orders of two owners, that an
  order added to a cleared epoch is never matched (all three for calls without confirmed transactions), that a confirmation is not bound to its transaction, and which texts the
  on-chain transactions accept as field elements.
\<close>

section \<open>A host and an auction\<close>

definition demo_chain_host :: chain_host where
  "demo_chain_host = \<lparr>ch_public_key = Some, ch_base58 = (\<lambda>s. s), ch_find_pda = (\<lambda>seeds p. Some p), ch_sha256 = (\<lambda>s. s),
     ch_base64 = (\<lambda>s. s), ch_serialize = (\<lambda>t. None), ch_latest_blockhash = (\<lambda>u. None), ch_get_transaction = (\<lambda>u s. Rpc_missing)\<rparr>"

definition demo_auction_host :: auction_host where
  "demo_auction_host = \<lparr>au_host = \<lparr>sha256_hex = (\<lambda>s. ''0''), locale_le = (\<le>)\<rparr>, au_env = (\<lambda>n. None), au_chain = demo_chain_host\<rparr>"

lemma demo_auction_commitment [simp]: "gholaCommitment (au_host demo_auction_host) prefix v = prefix @ ''_0''"
  by (simp add: gholaCommitment_def demo_auction_host_def)

lemma demo_auction_local [simp]: "\<not> institutionalAuctionOnChainPrepareRequired (au_env demo_auction_host)"
  by (simp add: institutionalAuctionOnChainPrepareRequired_def institutionalAuctionProductionRequired_def demo_auction_host_def)

definition demo_waiting :: PrivateAccountPreviewRecordV1 where
  "demo_waiting = \<lparr>pr_owner = ''o'', pr_commitment = ''p'', pr_intent_id = ''pact_intent_1'', pr_account = ''acct_0'', pr_action = ''act_0'',
     pr_platform = Rfq_solver_network, pr_rail = Shielded_batch_auction, pr_claim_status = Wait_for_anonymity,
     pr_level = P0_public, pr_preview = demo_preview, pr_created_at = 1000, pr_expires_at = 901000, pr_consumed_at = None\<rparr>"

definition demo_intent_body :: json where
  "demo_intent_body = JObj [(''action_class'', JStr ''trade_on_platform'')]"

definition demo_queue_body :: json where
  "demo_queue_body = JObj [(''intent_id'', JStr ''pact_intent_1''), (''preview_commitment'', JStr ''p'')]"

definition demo_commit_body :: json where
  "demo_commit_body = JObj [(''queue_id'', JStr ''pact_queue_1'')]"

definition demo_close_body :: json where
  "demo_close_body = JObj [(''auction_epoch_commitment'', JStr ''auction_epoch_0'')]"

definition demo_auction_calls :: "auction_call list" where
  "demo_auction_calls = [Store_preview demo_waiting, Add_intent demo_auction_host demo_intent_body ''o'' ''1'' 1000,
     Queue_action demo_queue_body ''o'' ''1'' 2000, Commit_order demo_auction_host demo_commit_body ''o'' 3000,
     Close_epoch demo_auction_host demo_close_body 4000]"

lemma demo_bodies:
  "stringValue (obj_field (asRecord demo_intent_body) ''action_class'') = ''trade_on_platform''"
  "stringValue (obj_field (asRecord demo_intent_body) ''product_bucket'') = []"
  "stringValue (obj_field (asRecord demo_intent_body) ''policy_commitment'') = []"
  "stringValue (obj_field (asRecord demo_queue_body) ''intent_id'') = ''pact_intent_1''"
  "stringValue (obj_field (asRecord demo_queue_body) ''preview_commitment'') = ''p''"
  "stringValue (obj_field (asRecord demo_commit_body) ''queue_id'') = ''pact_queue_1''"
  "auctionSideFromValue (obj_field (asRecord demo_commit_body) ''side'') A_trade_on_platform = ''buy''"
  "auctionAssetBucket (obj_field (asRecord demo_commit_body) ''asset_bucket'') ''general'' = ''stablecoin''"
  "auctionAmountBucket (obj_field (asRecord demo_commit_body) ''amount_bucket'') = ''25''"
  "stringValue (obj_field (asRecord demo_close_body) ''auction_epoch_commitment'') = ''auction_epoch_0''"
  "action_class_of ''trade_on_platform'' = Some A_trade_on_platform"
  by code_simp+

definition demo_auction_intent :: PrivateAccountIntentRecordV1 where
  "demo_auction_intent = \<lparr>it_owner = ''o'', it_id = ''pact_intent_1'', it_account = ''acct_0'', it_action = ''act_0'',
     it_class = A_trade_on_platform, it_bucket = ''general'', it_policy = ''policy_0'', it_intent = ''intent_0'',
     it_status = It_created, it_created_at = 1000, it_expires_at = 1801000\<rparr>"

definition demo_queued :: PrivateQueuedActionRecordV1 where
  "demo_queued = \<lparr>aq_id = ''pact_queue_1'', aq_owner = ''o'', aq_account = ''acct_0'', aq_intent_id = ''pact_intent_1'',
     aq_action = ''act_0'', aq_latest_preview = ''p'', aq_platform = Rfq_solver_network, aq_rail = Shielded_batch_auction,
     aq_wait_reasons = pv_wait_reasons demo_preview, aq_target_set = as_required (pv_anonymity_set demo_preview),
     aq_current_set = as_effective (pv_anonymity_set demo_preview), aq_status = Q_queued, aq_created_at = 2000,
     aq_expires_at = 1801000, aq_updated_at = 2000\<rparr>"

lemma demo_intent_step:
  "\<exists>a b c. auction_step (putPrivateAccountPreview demo_waiting empty_account_store)
      (Add_intent demo_auction_host demo_intent_body ''o'' ''1'' 1000) =
     empty_account_store\<lparr>st_accounts := a, st_vaults := b, st_budgets := c, st_previews := [(''p'', demo_waiting)],
       st_intents := [(''pact_intent_1'', demo_auction_intent)]\<rparr>"
  by (simp add: createIntentFromBody_def buildActionFromBody_def demo_bodies Let_def createPrivateAccountAction_def
    createOrGetStoredPrivateAccount_def getPrivateAccountByOwner_def empty_account_store_def putPrivateAccountRecord_def
    putPrivateVaultState_def putPrivacyBudget_def putPrivateAccountPreview_def putPrivateAccountIntent_def demo_waiting_def
    js_set_def stored_account_def createPrivateExecutionAccount_def demo_auction_intent_def or_text_def some_text_def
    PRIVATE_ACCOUNT_INTENT_TTL_MS_def case_prod_beta)

lemma demo_queue_step:
  "\<exists>a b c. auction_step (empty_account_store\<lparr>st_accounts := a0, st_vaults := b0, st_budgets := c0, st_previews := [(''p'', demo_waiting)],
       st_intents := [(''pact_intent_1'', demo_auction_intent)]\<rparr>) (Queue_action demo_queue_body ''o'' ''1'' 2000) =
     empty_account_store\<lparr>st_accounts := a, st_vaults := b, st_budgets := c, st_previews := [(''p'', demo_waiting)],
       st_intents := [(''pact_intent_1'', demo_auction_intent)], st_queue := [(''pact_queue_1'', demo_queued)]\<rparr>"
  by (simp add: queueActionFromBody_def demo_bodies Let_def getPrivateAccountIntent_def getPrivateAccountPreview_def js_get_def
    demo_auction_intent_def demo_waiting_def putQueuedAction_def js_set_def demo_queued_def empty_account_store_def)

definition demo_order :: PrivateAuctionOrderRecordV1 where
  "demo_order = \<lparr>ao_owner = ''o'', ao_account = ''acct_0'', ao_commitment = ''auction_order_0'', ao_epoch = ''auction_epoch_0'',
     ao_queue_id = ''pact_queue_1'', ao_intent_id = ''pact_intent_1'', ao_action = ''act_0'', ao_class = ''trade_on_platform'',
     ao_platform = ''rfq_solver_network'', ao_side = ''buy'', ao_asset = ''stablecoin'', ao_amount = ''25'',
     ao_status = Order_committed, ao_created_at = 3000, ao_updated_at = 3000\<rparr>"

text \<open>Committing the queued action in a store without an open epoch of its market.\<close>

lemma demo_commit_step:
  assumes "st_queue st = [(''pact_queue_1'', demo_queued)]" "st_intents st = [(''pact_intent_1'', demo_auction_intent)]"
    "getPrivateAuctionOrderByQueue st ''pact_queue_1'' = None"
    "\<And>e. e \<in> set (js_values (st_epochs st)) \<Longrightarrow> ae_status e \<noteq> Auction_open"
  shows "\<exists>e. st_epochs (auction_step st (Commit_order demo_auction_host demo_commit_body ''o'' 3000)) = js_set (st_epochs st) ''auction_epoch_0'' e \<and>
    ae_owner e = ''o'' \<and> ae_commitment e = ''auction_epoch_0'' \<and> ae_status e = Auction_open \<and>
    st_orders (auction_step st (Commit_order demo_auction_host demo_commit_body ''o'' 3000)) = js_set (st_orders st) ''auction_order_0'' demo_order \<and>
    st_clearings (auction_step st (Commit_order demo_auction_host demo_commit_body ''o'' 3000)) = st_clearings st"
proof -
  obtain account s1 where account: "createOrGetStoredPrivateAccount (au_host demo_auction_host) ''o'' 3000 st = (account, s1)" by fastforce
  then have same: "st_epochs s1 = st_epochs st" "st_orders s1 = st_orders st" "st_clearings s1 = st_clearings st"
    using account_auction [of st "au_host demo_auction_host" "''o''" 3000 st] by (simp_all add: same_auction_def)
  have none: "getOpenPrivateAuctionEpoch s1 ''o'' ''rfq_solver_network'' ''stablecoin'' ''25'' 3000 = None"
    using open_epoch [of s1 "''o''" "''rfq_solver_network''" "''stablecoin''" "''25''" 3000] assms(4) same(1) by (metis not_Some_eq)
  let ?e = "new_epoch (au_host demo_auction_host) ''o'' account demo_queued ''stablecoin'' ''25'' 3000"
  have e: "ae_owner ?e = ''o''" "ae_commitment ?e = ''auction_epoch_0''" "ae_status ?e = Auction_open" by (simp_all add: new_epoch_def Let_def)
  have order: "new_order (au_host demo_auction_host) ''o'' demo_queued demo_auction_intent ''buy'' ''stablecoin'' ''25'' ''auction_epoch_0'' 3000 = demo_order"
    by (simp add: new_order_def demo_order_def demo_queued_def demo_auction_intent_def)
  have q: "getQueuedAction st ''pact_queue_1'' = Some demo_queued" "getPrivateAccountIntent st ''pact_intent_1'' = Some demo_auction_intent"
    using assms(1,2) by (simp_all add: getQueuedAction_def getPrivateAccountIntent_def js_get_def)
  have sel: "aq_owner demo_queued = ''o''" "aq_status demo_queued = Q_queued" "aq_rail demo_queued = Shielded_batch_auction"
    "aq_expires_at demo_queued = 1801000" "aq_intent_id demo_queued = ''pact_intent_1''" "aq_id demo_queued = ''pact_queue_1''"
    "aq_platform demo_queued = Rfq_solver_network"
    "it_owner demo_auction_intent = ''o''" "it_class demo_auction_intent = A_trade_on_platform" "it_bucket demo_auction_intent = ''general''"
    "\<not> isPrivateAccountRecordExpired 1801000 3000"
    by (simp_all add: demo_queued_def demo_auction_intent_def isPrivateAccountRecordExpired_def)
  obtain e' where add: "add_order ?e demo_order 3000 (putPrivateAuctionEpoch ?e s1) =
      (e', putPrivateAuctionEpoch e' (putPrivateAuctionOrder demo_order (putPrivateAuctionEpoch ?e s1)))"
      "ae_owner e' = ''o''" "ae_commitment e' = ''auction_epoch_0''" "ae_status e' = Auction_open"
    using e by (auto simp: add_order_def Let_def)
  have "auction_step st (Commit_order demo_auction_host demo_commit_body ''o'' 3000) =
      putPrivateAuctionEpoch e' (putPrivateAuctionOrder demo_order (putPrivateAuctionEpoch ?e s1))"
    by (simp add: commitAuctionOrderFromBody_def demo_bodies Let_def q sel isAuctionEligibleAction_def commit_local_def assms(3)
      epoch_for_def account none e order add(1))
  then show ?thesis by (intro exI [of _ e']) (simp add: e add(2-4) putPrivateAuctionOrder_def same demo_order_def js_set_def)
qed

lemma demo_close_step:
  assumes "st_epochs st = [(''auction_epoch_0'', e)]" "ae_commitment e = ''auction_epoch_0''" "ae_owner e = ''o''"
    "st_orders st = [(''auction_order_0'', demo_order)]" "st_clearings st = []"
  shows "\<exists>c e'. st_epochs (auction_step st (Close_epoch demo_auction_host demo_close_body 4000)) = [(''auction_epoch_0'', e')] \<and>
     st_orders (auction_step st (Close_epoch demo_auction_host demo_close_body 4000)) = [(''auction_order_0'', marked Order_rolled 4000 demo_order)] \<and>
     st_clearings (auction_step st (Close_epoch demo_auction_host demo_close_body 4000)) = [(''auction_clearing_0'', c)] \<and>
     al_epoch c = ''auction_epoch_0'' \<and> al_owner c = ''o'' \<and> al_matched c = [] \<and> al_rolled c = [''auction_order_0''] \<and>
     al_status c = Clearing_cleared \<and> al_commitment c = ''auction_clearing_0''"
proof -
  have listed: "listPrivateAuctionOrdersByEpoch st ''auction_epoch_0'' = [demo_order]"
    by (simp add: listPrivateAuctionOrdersByEpoch_def assms(4) js_values_def demo_order_def oldest_first_def sort_by_def)
  have pairs: "matched_orders [demo_order] = []" "rolled_orders [demo_order] = [demo_order]"
    by (simp_all add: rolled_orders_def matched_orders_def demo_order_def oldest_first_def sort_by_def)
  have none: "getPrivateAuctionClearingByEpoch st ''auction_epoch_0'' = None"
    by (simp add: getPrivateAuctionClearingByEpoch_def assms(5) js_values_def)
  have key: "ao_commitment demo_order = ''auction_order_0''" by (simp add: demo_order_def)
  show ?thesis
    by (simp add: closeAuctionEpochFromBody_def demo_bodies Let_def getPrivateAuctionEpoch_def assms js_get_def none close_local_def
      listed pairs mark_orders_simps putPrivateAuctionOrder_def js_set_def key new_clearing_def)
qed

text \<open>The run: an action waits in the queue, is committed as a buy, and closing rolls it over.\<close>

lemma demo_auction_run:
  "\<exists>c. run_admits auction_step auction_admits empty_account_store demo_auction_calls \<and>
     st_orders (run_calls auction_step empty_account_store demo_auction_calls) = [(''auction_order_0'', marked Order_rolled 4000 demo_order)] \<and>
     st_clearings (run_calls auction_step empty_account_store demo_auction_calls) = [(''auction_clearing_0'', c)] \<and>
     al_epoch c = ''auction_epoch_0'' \<and> al_owner c = ''o'' \<and> al_rolled c = [''auction_order_0'']"
proof -
  obtain a b c where s1: "auction_step (putPrivateAccountPreview demo_waiting empty_account_store)
      (Add_intent demo_auction_host demo_intent_body ''o'' ''1'' 1000) =
    empty_account_store\<lparr>st_accounts := a, st_vaults := b, st_budgets := c, st_previews := [(''p'', demo_waiting)],
      st_intents := [(''pact_intent_1'', demo_auction_intent)]\<rparr>"
    using demo_intent_step by blast
  obtain a' b' c' where s2: "auction_step (empty_account_store\<lparr>st_accounts := a, st_vaults := b, st_budgets := c,
      st_previews := [(''p'', demo_waiting)], st_intents := [(''pact_intent_1'', demo_auction_intent)]\<rparr>) (Queue_action demo_queue_body ''o'' ''1'' 2000) =
    empty_account_store\<lparr>st_accounts := a', st_vaults := b', st_budgets := c', st_previews := [(''p'', demo_waiting)],
      st_intents := [(''pact_intent_1'', demo_auction_intent)], st_queue := [(''pact_queue_1'', demo_queued)]\<rparr>" (is "_ = ?s2")
    using demo_queue_step by blast
  have tables: "st_epochs ?s2 = []" "st_orders ?s2 = []" "st_clearings ?s2 = []" "st_queue ?s2 = [(''pact_queue_1'', demo_queued)]"
    "st_intents ?s2 = [(''pact_intent_1'', demo_auction_intent)]" by (simp_all add: empty_account_store_def)
  let ?s3 = "auction_step ?s2 (Commit_order demo_auction_host demo_commit_body ''o'' 3000)"
  obtain e where s3: "st_epochs ?s3 = [(''auction_epoch_0'', e)]" "ae_commitment e = ''auction_epoch_0''" "ae_owner e = ''o''"
      "st_orders ?s3 = [(''auction_order_0'', demo_order)]" "st_clearings ?s3 = []"
    using demo_commit_step [OF tables(4,5)] tables(1-3) by (auto simp: getPrivateAuctionOrderByQueue_def js_values_def js_set_def)
  have admits: "auction_admits ?s2 (Commit_order demo_auction_host demo_commit_body ''o'' 3000)"
    "auction_admits ?s3 (Close_epoch demo_auction_host demo_close_body 4000)"
    using tables s3(5) by (simp_all add: keeps_orders_def keeps_owners_def keeps_clearings_def Let_def)
  show ?thesis
    using demo_close_step [OF s3] admits s1 s2 unfolding demo_auction_calls_def by auto
qed

section \<open>Closing an epoch\<close>

definition fair_pairing :: "PrivateAuctionOrderRecordV1 list \<Rightarrow> PrivateAuctionOrderRecordV1 list \<Rightarrow> PrivateAuctionOrderRecordV1 list \<Rightarrow> bool" where
  "fair_pairing orders matched rolled \<longleftrightarrow>
     mset (committed_of orders) = mset matched + mset rolled \<and>
     (\<forall>r \<in> set matched. ao_side r = ''buy'' \<or> ao_side r = ''sell'') \<and>
     length (side_of ''buy'' matched) = length (side_of ''sell'' matched) \<and>
     length (side_of ''buy'' matched) = min (length (side_of ''buy'' (committed_of orders))) (length (side_of ''sell'' (committed_of orders))) \<and>
     (\<forall>m \<in> set matched. \<forall>r \<in> set rolled. ao_side m = ao_side r \<longrightarrow> ao_created_at m \<le> ao_created_at r)"

lemma pairing_fair:
  assumes "orders_wf st"
  shows "fair_pairing (listPrivateAuctionOrdersByEpoch st c) (matched_orders (listPrivateAuctionOrdersByEpoch st c))
    (rolled_orders (listPrivateAuctionOrdersByEpoch st c))"
  using pairing_partition [OF listed_distinct [OF assms]] matched_sides matched_count rolled_later [OF listed_distinct [OF assms] listed_sorted]
  by (auto simp: fair_pairing_def pair_count_def)

lemma close_answer:
  assumes "closeAuctionEpochFromBody h body now st = (Inr (Closed e clearing False), st')"
  obtains e0 where "close_local (au_host h) (asRecord body) e0 now st = (Inr (Closed e clearing False), st')"
    "ae_commitment e = ae_commitment e0"
proof -
  have no: "fst (prepared_answer p owner account payload now st) \<noteq> Inr (Closed e clearing False)" for p owner account payload
    by (simp add: prepared_answer_def Let_def case_prod_beta split: sum.split)
  have "fst (prepareProductionAuctionClose h (asRecord body) now st) \<noteq> Inr (Closed e clearing False)"
    by (simp add: prepareProductionAuctionClose_def Let_def no split: sum.split)
  then obtain e0 where "close_local (au_host h) (asRecord body) e0 now st = (Inr (Closed e clearing False), st')"
    using assms by (auto simp: closeAuctionEpochFromBody_def Let_def split: if_splits option.splits)
  moreover have "ae_commitment e = ae_commitment e0" using calculation by (auto simp: close_local_def Let_def)
  ultimately show ?thesis by (rule that)
qed

text \<open>C10: a close that succeeds splits the committed orders of the epoch fairly: every order is matched or rolled
  over, as many buys as sells are matched, as many as the smaller side has, and within a side the orders committed
  earlier go first. The clearing lists exactly these orders, and every stored order gets the status it was dealt.\<close>

theorem close_pairs_earliest:
  assumes "orders_wf st" "closeAuctionEpochFromBody h body now st = (Inr (Closed e clearing False), st')"
  shows "\<exists>matched rolled. fair_pairing (listPrivateAuctionOrdersByEpoch st (ae_commitment e)) matched rolled \<and>
    al_matched clearing = map ao_commitment matched \<and> al_rolled clearing = map ao_commitment rolled \<and>
    (\<forall>k. js_get (st_orders st') k = map_option (\<lambda>r. if r \<in> set matched then marked Order_matched now r
       else if r \<in> set rolled then marked Order_rolled now r else r) (js_get (st_orders st) k))"
proof -
  obtain e0 where e0: "close_local (au_host h) (asRecord body) e0 now st = (Inr (Closed e clearing False), st')"
      "ae_commitment e = ae_commitment e0"
    by (rule close_answer [OF assms(2)])
  define orders where "orders = listPrivateAuctionOrdersByEpoch st (ae_commitment e)"
  note closed = closed_orders(1) [OF assms(1) orders_def, of now]
  have run: "st_orders st' = st_orders (mark_orders Order_rolled now (rolled_orders orders) (mark_orders Order_matched now (matched_orders orders) st))"
    "al_matched clearing = map ao_commitment (matched_orders orders)" "al_rolled clearing = map ao_commitment (rolled_orders orders)"
    using e0(1) by (auto simp: close_local_def Let_def orders_def e0(2))
  have "fair_pairing orders (matched_orders orders) (rolled_orders orders)" unfolding orders_def by (rule pairing_fair [OF assms(1)])
  moreover have "js_get (st_orders st') k = map_option (\<lambda>r. if r \<in> set (matched_orders orders) then marked Order_matched now r
       else if r \<in> set (rolled_orders orders) then marked Order_rolled now r else r) (js_get (st_orders st) k)" for k
    using closed [of k] unfolding run(1) after_close_def [abs_def] .
  ultimately show ?thesis using run(2,3) unfolding orders_def [symmetric]
    by (intro exI [of _ "matched_orders orders"] exI [of _ "rolled_orders orders"]) simp
qed

definition demo_side :: "string \<Rightarrow> string \<Rightarrow> time \<Rightarrow> PrivateAuctionOrderRecordV1" where
  "demo_side key side stamp = demo_order\<lparr>ao_commitment := key, ao_queue_id := ''q'' @ key, ao_side := side, ao_created_at := stamp\<rparr>"

definition demo_epoch :: PrivateAuctionEpochRecordV1 where
  "demo_epoch = \<lparr>ae_owner = ''o'', ae_account = ''acct_0'', ae_commitment = ''auction_epoch_0'', ae_market = ''auction_market_0'',
     ae_platform = ''rfq_solver_network'', ae_asset = ''stablecoin'', ae_amount = ''25'', ae_status = Auction_open,
     ae_order_count = 3, ae_matched_count = 0, ae_rolled_count = 0, ae_opened_at = 3000, ae_closes_at = 603000, ae_updated_at = 3000\<rparr>"

definition demo_market :: account_store where
  "demo_market = empty_account_store\<lparr>st_epochs := [(''auction_epoch_0'', demo_epoch)],
     st_orders := [(''b1'', demo_side ''b1'' ''buy'' 1), (''b2'', demo_side ''b2'' ''buy'' 2), (''s1'', demo_side ''s1'' ''sell'' 3)]\<rparr>"

lemma close_pairs_earliest_witness:
  "\<exists>e clearing matched rolled. fst (closeAuctionEpochFromBody demo_auction_host demo_close_body 4000 demo_market) = Inr (Closed e clearing False) \<and>
     fair_pairing (listPrivateAuctionOrdersByEpoch demo_market (ae_commitment e)) matched rolled \<and> al_matched clearing = map ao_commitment matched"
proof -
  have wf: "orders_wf demo_market"
    by (auto simp: orders_wf_def demo_market_def js_wf_def jm.all_entries_def js_get_def demo_side_def split: if_splits)
  have "\<exists>e clearing st'. closeAuctionEpochFromBody demo_auction_host demo_close_body 4000 demo_market = (Inr (Closed e clearing False), st')"
    by (simp add: closeAuctionEpochFromBody_def demo_bodies Let_def getPrivateAuctionEpoch_def demo_market_def js_get_def
      getPrivateAuctionClearingByEpoch_def js_values_def empty_account_store_def close_local_def)
  then obtain e clearing st' where run: "closeAuctionEpochFromBody demo_auction_host demo_close_body 4000 demo_market = (Inr (Closed e clearing False), st')"
    by blast
  show ?thesis using close_pairs_earliest [OF wf run] run by auto
qed

section \<open>Clearings and orders\<close>

text \<open>C14: after any calls without confirmed transactions, the status of every order is what the clearing of its
  epoch says: committed without one, and otherwise matched or rolled as the clearing lists it, settled once a
  matched one is settled. In particular an order is never matched twice and never left out of a clearing's lists.\<close>

theorem order_status_follows_clearing:
  assumes "run_admits auction_step auction_admits empty_account_store calls"
    "js_get (st_orders (run_calls auction_step empty_account_store calls)) k = Some r"
  shows "ao_commitment r = k \<and>
    ao_status r = cleared_status (getPrivateAuctionClearingByEpoch (run_calls auction_step empty_account_store calls) (ao_epoch r)) k"
  using auction_invD(1,5) [OF auction_run_inv [OF auction_inv_empty assms(1)]] assms(2) orders_wfD(2)
  by (force simp: order_ok_def)

lemma order_status_follows_clearing_witness:
  "cleared_status (getPrivateAuctionClearingByEpoch (run_calls auction_step empty_account_store demo_auction_calls) ''auction_epoch_0'') ''auction_order_0'' =
     Order_rolled"
proof -
  have run: "run_admits auction_step auction_admits empty_account_store demo_auction_calls"
    "js_get (st_orders (run_calls auction_step empty_account_store demo_auction_calls)) ''auction_order_0'' = Some (marked Order_rolled 4000 demo_order)"
    using demo_auction_run by (auto simp: js_get_def)
  show ?thesis using order_status_follows_clearing [OF run] by (simp add: demo_order_def)
qed

text \<open>C15: the local auction pairs an owner only with itself: after any calls without confirmed transactions, every
  order of a clearing was committed by the owner of the epoch, since the local commit finds or creates an epoch under
  the owner of the order that joins it (commitments of different orders and epochs are assumed not to collide). The calls that confirm an on-chain transaction are excluded: a confirmed
  commit_order adds its order to the epoch that its payload names, whoever owns that epoch.\<close>

theorem auction_single_owner:
  assumes "run_admits auction_step auction_admits empty_account_store calls"
    "js_get (st_clearings (run_calls auction_step empty_account_store calls)) x = Some c" "k \<in> set (al_matched c) \<union> set (al_rolled c)"
  shows "\<exists>r. js_get (st_orders (run_calls auction_step empty_account_store calls)) k = Some r \<and> ao_owner r = al_owner c \<and>
    ao_epoch r = al_epoch c"
proof -
  note inv = auction_run_inv [OF auction_inv_empty assms(1)]
  obtain r where r: "js_get (st_orders (run_calls auction_step empty_account_store calls)) k = Some r" "ao_epoch r = al_epoch c"
    using auction_invD(6) [OF inv assms(2)] assms(3) unfolding clearing_ok_def by blast
  then show ?thesis using auction_invD(5) [OF inv r(1)] auction_invD(6) [OF inv assms(2)] by (auto simp: order_ok_def clearing_ok_def)
qed

lemma auction_single_owner_witness:
  "\<exists>r. js_get (st_orders (run_calls auction_step empty_account_store demo_auction_calls)) ''auction_order_0'' = Some r \<and> ao_owner r = ''o''"
proof -
  obtain c where c: "run_admits auction_step auction_admits empty_account_store demo_auction_calls"
      "st_clearings (run_calls auction_step empty_account_store demo_auction_calls) = [(''auction_clearing_0'', c)]"
      "al_owner c = ''o''" "al_rolled c = [''auction_order_0'']"
    using demo_auction_run by blast
  show ?thesis using auction_single_owner [OF c(1), of "''auction_clearing_0''" c "''auction_order_0''"] c(2-4) by (auto simp: js_get_def)
qed

text \<open>C23: an order that joins an epoch after its clearing, which a second commit in the same ten minutes does
  since it opens the epoch again under the same commitment, stays committed whatever calls without confirmed
  transactions follow (the local auction): closing the epoch again answers the old clearing, so the order is
  neither matched nor rolled over.\<close>

theorem late_order_never_matched:
  assumes "auction_inv st" "getPrivateAuctionClearingByEpoch st c = Some clearing" "js_get (st_orders st) k = None"
    "run_admits auction_step auction_admits st calls"
    "js_get (st_orders (run_calls auction_step st calls)) k = Some r" "ao_epoch r = c"
  shows "ao_status r = Order_committed"
proof -
  let ?st = "run_calls auction_step st calls"
  have inv: "auction_inv ?st" by (rule auction_run_inv [OF assms(1,4)])
  obtain x where x: "js_get (st_clearings st) x = Some clearing" "al_epoch clearing = c"
    using assms(2) clearing_by_epoch [OF auction_invD(3,4) [OF assms(1)]] by blast
  have apart: "k \<notin> set (al_matched clearing) \<union> set (al_rolled clearing)"
    using auction_invD(6) [OF assms(1) x(1)] assms(3) unfolding clearing_ok_def by force
  have "clearing_lists ?st x = Some (c, al_matched clearing, al_rolled clearing)"
    using clearing_lists_run [OF assms(1,4), of x "(c, al_matched clearing, al_rolled clearing)"] x by (simp add: clearing_lists_def)
  then obtain c' where c': "js_get (st_clearings ?st) x = Some c'" "al_epoch c' = c"
      "al_matched c' = al_matched clearing" "al_rolled c' = al_rolled clearing"
    unfolding clearing_lists_def by auto
  have now_c: "getPrivateAuctionClearingByEpoch ?st c = Some c'"
    using c' clearing_by_epoch [OF auction_invD(3,4) [OF inv]] by blast
  have "ao_commitment r = k" using orders_wfD(2) [OF auction_invD(1) [OF inv] assms(5)] .
  then show ?thesis using auction_invD(5) [OF inv assms(5)] assms(6) c' apart by (simp add: order_ok_def now_c cleared_status_def)
qed

definition demo_cleared :: PrivateAuctionClearingRecordV1 where
  "demo_cleared = \<lparr>al_owner = ''o'', al_account = ''acct_0'', al_commitment = ''clearing'', al_epoch = ''auction_epoch_0'',
     al_status = Clearing_cleared, al_price = ''price'', al_matched = [], al_rolled = [''b1''], al_proof = ''proof'',
     al_settlement = None, al_created_at = 2000, al_updated_at = 2000\<rparr>"

definition demo_late_store :: account_store where
  "demo_late_store = empty_account_store\<lparr>st_queue := [(''pact_queue_1'', demo_queued)], st_intents := [(''pact_intent_1'', demo_auction_intent)],
     st_epochs := [(''auction_epoch_0'', demo_epoch\<lparr>ae_status := Auction_cleared\<rparr>)],
     st_orders := [(''b1'', marked Order_rolled 2000 (demo_side ''b1'' ''buy'' 1))], st_clearings := [(''clearing'', demo_cleared)]\<rparr>"

lemma late_order_never_matched_witness:
  "\<exists>r. js_get (st_orders (run_calls auction_step demo_late_store [Commit_order demo_auction_host demo_commit_body ''o'' 3000,
     Close_epoch demo_auction_host demo_close_body 4000])) ''auction_order_0'' = Some r \<and> ao_status r = Order_committed"
proof -
  have tables: "st_orders demo_late_store = [(''b1'', marked Order_rolled 2000 (demo_side ''b1'' ''buy'' 1))]"
    "st_epochs demo_late_store = [(''auction_epoch_0'', demo_epoch\<lparr>ae_status := Auction_cleared\<rparr>)]"
    "st_clearings demo_late_store = [(''clearing'', demo_cleared)]"
    "st_queue demo_late_store = [(''pact_queue_1'', demo_queued)]" "st_intents demo_late_store = [(''pact_intent_1'', demo_auction_intent)]"
    by (simp_all add: demo_late_store_def)
  have cleared: "getPrivateAuctionClearingByEpoch demo_late_store ''auction_epoch_0'' = Some demo_cleared"
    by (simp add: getPrivateAuctionClearingByEpoch_def tables js_values_def demo_cleared_def)
  have inv: "auction_inv demo_late_store"
    by (auto simp: auction_inv_def orders_wf_def epochs_wf_def clearings_wf_def one_clearing_def jm.all_entries_def tables js_wf_def js_get_def
      order_ok_def clearing_ok_def epoch_owner_def demo_epoch_def demo_cleared_def demo_side_def demo_order_def cleared_status_def marked_def
      getPrivateAuctionClearingByEpoch_def js_values_def split: if_splits)
  define s where "s = auction_step demo_late_store (Commit_order demo_auction_host demo_commit_body ''o'' 3000)"
  obtain e where s: "st_epochs s = js_set (st_epochs demo_late_store) ''auction_epoch_0'' e" "ae_owner e = ''o''" "ae_commitment e = ''auction_epoch_0''"
      "st_orders s = js_set (st_orders demo_late_store) ''auction_order_0'' demo_order" "st_clearings s = st_clearings demo_late_store"
    using demo_commit_step [OF tables(4,5)] unfolding s_def [symmetric]
    by (auto simp: getPrivateAuctionOrderByQueue_def tables js_values_def demo_side_def demo_epoch_def marked_def)
  have cleared': "getPrivateAuctionClearingByEpoch s ''auction_epoch_0'' = Some demo_cleared"
    using cleared unfolding getPrivateAuctionClearingByEpoch_def s(5) .
  have close: "auction_step s (Close_epoch demo_auction_host demo_close_body 4000) = s"
    by (simp add: closeAuctionEpochFromBody_def demo_bodies Let_def getPrivateAuctionEpoch_def s(1,3) cleared')
  have "auction_admits demo_late_store (Commit_order demo_auction_host demo_commit_body ''o'' 3000)"
    using s unfolding auction_admits.simps(1) Let_def auction_step.simps(5) [symmetric] s_def [symmetric]
    by (simp add: keeps_orders_def keeps_owners_def tables epoch_owner_def demo_epoch_def) (simp add: js_get_def)
  moreover have "auction_admits s (Close_epoch demo_auction_host demo_close_body 4000)"
    unfolding auction_admits.simps(2) auction_step.simps(6) [symmetric] close
    by (simp add: keeps_clearings_def s(5) tables js_get_def)
  ultimately have admits: "run_admits auction_step auction_admits demo_late_store [Commit_order demo_auction_host demo_commit_body ''o'' 3000,
      Close_epoch demo_auction_host demo_close_body 4000]"
    unfolding run_admits.simps s_def [symmetric] by blast
  have run: "run_calls auction_step demo_late_store [Commit_order demo_auction_host demo_commit_body ''o'' 3000,
      Close_epoch demo_auction_host demo_close_body 4000] = s"
    unfolding run_calls.simps s_def [symmetric] close by (rule refl)
  have last: "js_get (st_orders (run_calls auction_step demo_late_store [Commit_order demo_auction_host demo_commit_body ''o'' 3000,
      Close_epoch demo_auction_host demo_close_body 4000])) ''auction_order_0'' = Some demo_order"
    unfolding run s(4) by simp
  show ?thesis
    using late_order_never_matched [OF inv cleared _ admits last] last by (auto simp: tables js_get_def demo_order_def)
qed

section \<open>Confirmations\<close>

definition confirm_body :: "string \<Rightarrow> string \<Rightarrow> json" where
  "confirm_body reference signature = JObj [(''client_reference'', JStr reference), (''signature'', JStr signature)]"

lemma confirm_fields:
  "stringValue (obj_field (asRecord (confirm_body reference signature)) ''client_reference'') = js_trim reference"
  "stringValue (obj_field (asRecord (confirm_body reference signature)) ''signature'') = js_trim signature"
  by (simp_all add: confirm_body_def asRecord_def obj_field_def stringValue_def)

lemma confirm_fresh:
  assumes "at_status p \<noteq> Tx_confirmed" "now < at_expires_at p"
  shows "confirmPreparedAuctionTransaction h p signature now st =
    (case verifyAuctionPreparedTransaction (au_chain h) (au_env h) signature now of
       Inl e \<Rightarrow> (throw (auctionOnChainError e), st)
     | Inr confirmation \<Rightarrow>
         let p' = p\<lparr>at_status := Tx_confirmed, at_signature := Some signature, at_updated_at := now\<rparr>;
             (update, st1) = applyConfirmedAuctionTransaction p' now (putPrivateAuctionPreparedTransaction p' st)
         in (return_ok (Confirmed confirmation p' update), st1))"
  using assms by (simp add: confirmPreparedAuctionTransaction_def)

text \<open>A confirmation is not bound to its transaction: a signature that confirms one prepared transaction
  confirms at the same moment every other prepared one that is not expired, of any owner and operation, since the
  check of the chain asks only that the transaction ran the auction program.\<close>

theorem confirmation_unbound:
  assumes "fst (confirmAuctionTransactionFromBody h (confirm_body reference signature) owner now st) = Inr (Confirmed c p u)"
    "getPrivateAuctionPreparedTransaction st2 (js_trim reference2) = Some q" "js_trim reference2 \<noteq> []" "at_status q \<noteq> Tx_confirmed" "now < at_expires_at q"
  shows "\<exists>u2. fst (confirmAuctionTransactionFromBody h (confirm_body reference2 signature) (at_owner q) now st2) =
    Inr (Confirmed c (q\<lparr>at_status := Tx_confirmed, at_signature := at_signature p, at_updated_at := now\<rparr>) u2)"
proof -
  obtain p0 where "fst (confirmPreparedAuctionTransaction h p0 (js_trim signature) now st) = Inr (Confirmed c p u)"
      "js_trim signature \<noteq> []"
    using assms(1) by (auto simp: confirmAuctionTransactionFromBody_def confirm_fields Let_def split: if_splits option.splits)
  then have ok: "verifyAuctionPreparedTransaction (au_chain h) (au_env h) (js_trim signature) now = Inr c"
      "at_signature p = Some (js_trim signature)" "js_trim signature \<noteq> []"
    by (auto simp: confirmPreparedAuctionTransaction_def Let_def case_prod_beta split: if_splits sum.splits)
  show ?thesis
    using assms(2-5) ok by (simp add: confirmAuctionTransactionFromBody_def confirm_fields confirm_fresh Let_def case_prod_beta)
qed

definition demo_prepared :: "string \<Rightarrow> string \<Rightarrow> PrivateAuctionPreparedOperation \<Rightarrow> PrivateAuctionPreparedTransactionRecordV1" where
  "demo_prepared key owner operation = \<lparr>at_reference = key, at_owner = owner, at_account = owner, at_operation = operation,
     at_transaction = ''tx'', at_payload = [], at_status = Tx_prepared, at_signature = None, at_created_at = 0,
     at_expires_at = 600000, at_updated_at = 0\<rparr>"

definition demo_confirming :: auction_host where
  "demo_confirming = demo_auction_host\<lparr>au_env := (\<lambda>n. if n = ''NODE_ENV'' then Some ''test'' else None)\<rparr>"

definition demo_prepared_store :: account_store where
  "demo_prepared_store = empty_account_store\<lparr>st_prepared := [(''a'', demo_prepared ''a'' ''o'' Prep_init_market),
     (''b'', demo_prepared ''b'' ''v'' Prep_settle_clearing)]\<rparr>"

lemma confirmation_unbound_witness:
  "\<exists>c p u2. fst (confirmAuctionTransactionFromBody demo_confirming (confirm_body ''a'' ''sig'') ''o'' 1000 demo_prepared_store) =
      Inr (Confirmed c p Market_initialized) \<and>
    fst (confirmAuctionTransactionFromBody demo_confirming (confirm_body ''b'' ''sig'') ''v'' 1000 demo_prepared_store) =
      Inr (Confirmed c ((demo_prepared ''b'' ''v'' Prep_settle_clearing)\<lparr>at_status := Tx_confirmed, at_signature := at_signature p, at_updated_at := 1000\<rparr>) u2)"
proof -
  have trim: "js_trim ''a'' = ''a''" "js_trim ''b'' = ''b''" "js_trim ''sig'' = ''sig''" by code_simp+
  have "\<exists>c p. fst (confirmAuctionTransactionFromBody demo_confirming (confirm_body ''a'' ''sig'') ''o'' 1000 demo_prepared_store) =
      Inr (Confirmed c p Market_initialized)"
    by (simp add: confirmAuctionTransactionFromBody_def confirm_fields trim getPrivateAuctionPreparedTransaction_def demo_prepared_store_def
      js_get_def demo_prepared_def confirmPreparedAuctionTransaction_def verifyAuctionPreparedTransaction_def localConfirmationAllowed_def
      demo_confirming_def applyConfirmedAuctionTransaction_def Let_def)
  then obtain c p where first: "fst (confirmAuctionTransactionFromBody demo_confirming (confirm_body ''a'' ''sig'') ''o'' 1000 demo_prepared_store) =
      Inr (Confirmed c p Market_initialized)" by blast
  have second: "getPrivateAuctionPreparedTransaction demo_prepared_store (js_trim ''b'') = Some (demo_prepared ''b'' ''v'' Prep_settle_clearing)"
    by (simp add: trim getPrivateAuctionPreparedTransaction_def demo_prepared_store_def js_get_def)
  have sel: "at_status (demo_prepared k ow op) = Tx_prepared" "at_expires_at (demo_prepared k ow op) = 600000" "at_owner (demo_prepared k ow op) = ow" for k ow op
    by (simp_all add: demo_prepared_def)
  show ?thesis using confirmation_unbound [OF first second] first by (auto simp: trim sel)
qed

section \<open>Field elements\<close>

fun hex_value :: "string \<Rightarrow> nat" where
  "hex_value [] = 0"
| "hex_value (c # cs) = (case digit_value 16 c of Some d \<Rightarrow> nat d | None \<Rightarrow> 0) * 16 ^ length cs + hex_value cs"

definition is_hex :: "string \<Rightarrow> bool" where
  "is_hex s \<longleftrightarrow> list_all (\<lambda>c. c \<in> set hex_chars) s"

lemma hex_digit: "c \<in> set hex_chars \<Longrightarrow> \<exists>d. digit_value 16 c = Some d \<and> 0 \<le> d \<and> d < 16"
  unfolding hex_chars_def by (auto simp: digit_value_def)

lemma hex_decode_bytes:
  assumes "is_hex s" "even (length s)"
  shows "length (hex_decode s) = length s div 2 \<and> big_endian (map of_char (hex_decode s)) = hex_value s"
  using assms
proof (induction s rule: hex_decode.induct)
  case (1 a b cs)
  have ev: "even (length cs)" and hex: "is_hex cs" using "1.prems" by (simp_all add: is_hex_def)
  have ab: "a \<in> set hex_chars" "b \<in> set hex_chars" using "1.prems"(1) by (simp_all add: is_hex_def)
  obtain x where x: "digit_value 16 a = Some x" "0 \<le> x" "x < 16" using hex_digit [OF ab(1)] by blast
  obtain y where y: "digit_value 16 b = Some y" "0 \<le> y" "y < 16" using hex_digit [OF ab(2)] by blast
  have IH: "length (hex_decode cs) = length cs div 2" "big_endian (map of_char (hex_decode cs)) = hex_value cs"
    using "1.IH" [OF _ refl refl, of x y] x(1) y(1) hex ev by simp_all
  have byte: "of_char (char_of (nat (16 * x + y)) :: char) = 16 * nat x + nat y" using x y by simp
  have power: "(256::nat) ^ (length cs div 2) = 16 ^ length cs"
    using ev power_mult [of "16::nat" 2 "length cs div 2"] by simp
  have shift: "(16 * X + Y) * P + V = X * (16 * P) + (Y * P + V)" for X Y P V :: nat by (simp add: algebra_simps)
  have "big_endian (map of_char (hex_decode (a # b # cs))) = (16 * nat x + nat y) * 16 ^ length cs + hex_value cs"
    by (simp only: hex_decode.simps x(1) y(1) prod.case option.case list.map big_endian.simps byte length_map IH power)
  also have "\<dots> = nat x * 16 ^ length (b # cs) + (nat y * 16 ^ length cs + hex_value cs)"
    by (simp only: length_Cons power_Suc shift)
  also have "\<dots> = hex_value (a # b # cs)" by (simp only: hex_value.simps x(1) y(1) option.case)
  finally show ?case using x(1) y(1) IH(1) by simp
qed (simp_all add: is_hex_def)

text \<open>C28: a field element is accepted exactly when, trimmed and without a leading \<open>0x\<close>, it is sixty-four
  hexadecimal digits whose value is below the order of the BN254 scalar field; what is passed on are the thirty-two
  bytes of that value, most significant first.\<close>

theorem field_canonical:
  "field text_value code =
    (let digits = strip_0x (js_trim text_value) in
     if length digits = 64 \<and> is_hex digits \<and>
        hex_value digits < 21888242871839275222246405745257275088548364400416034343698204186575808495617
     then Inr (hex_decode digits) else auction_error code)"
proof -
  let ?d = "strip_0x (js_trim text_value)"
  have modulus: "big_endian BN254_SCALAR_FIELD_BE = 21888242871839275222246405745257275088548364400416034343698204186575808495617"
    by (simp add: BN254_SCALAR_FIELD_BE_def)
  have "isCanonicalFieldElement (hex_decode ?d) \<longleftrightarrow>
      hex_value ?d < 21888242871839275222246405745257275088548364400416034343698204186575808495617"
    if "is_hex ?d" "length ?d = 64"
  proof -
    have "length (hex_decode ?d) = 32" "big_endian (map of_char (hex_decode ?d)) = hex_value ?d"
      using hex_decode_bytes [OF that(1)] that(2) by simp_all
    then show ?thesis unfolding isCanonicalFieldElement_def modulus [symmetric]
      by (subst below_modulus_value) (auto simp: list_all_iff BN254_SCALAR_FIELD_BE_def)
  qed
  then show ?thesis
    by (auto simp: field_def bytes_def chain_then_def Let_def is_hex_def)
qed

end
