(* ===== verification/ConsumerPolicy.thy ===== *)
theory ConsumerPolicy imports JsJson
begin

text \<open>
  \<open>apps/web/src/lib/consumer-production.ts\<close>: the rules of the pooled consumer account that keep no
  state. The fee, the staged rollout, the validation of a risk policy, double-entry postings, the
  circuit breaker's telemetry, and the commitment function (canonical JSON under SHA-256).
\<close>

section \<open>Constants and data\<close>

definition CONSUMER_FEE_BPS :: int where
  "CONSUMER_FEE_BPS = 10"

definition CONSUMER_MIN_FEE_MICRO_USDC :: int where
  "CONSUMER_MIN_FEE_MICRO_USDC = 50000"

definition CONSUMER_MAX_SLIPPAGE_BPS :: int where
  "CONSUMER_MAX_SLIPPAGE_BPS = 100"

definition CONSUMER_RECONCILIATION_MAX_AGE_MS :: rat where
  "CONSUMER_RECONCILIATION_MAX_AGE_MS = 60000"

definition CONSUMER_MARKET_DATA_MAX_AGE_MS :: rat where
  "CONSUMER_MARKET_DATA_MAX_AGE_MS = 10000"

datatype ConsumerFundingRail = Solana_usdc | Solana_shielded_usdcx

datatype ConsumerLedgerKind =
    Deposit_credit
  | Order_reservation
  | Reservation_release
  | Fill_settlement
  | Fee_settlement
  | Pnl_settlement
  | Withdrawal_debit
  | Withdrawal_release
  | Operator_adjustment

datatype ConsumerLedgerAccount =
    Treasury_usdc
  | Consumer_available
  | Consumer_reserved
  | Venue_clearing
  | Fee_revenue
  | Realized_pnl

datatype posting_side = Debit | Credit

text \<open>A posting as the callers build it; the amount is validated by \<open>balancedPostings\<close>.\<close>

record ConsumerLedgerPosting =
  post_account :: ConsumerLedgerAccount
  post_side :: posting_side
  post_amount :: int

record ConsumerLedgerTransaction =
  led_transaction_id :: string
  led_owner :: string
  led_account :: string
  led_idempotency_key :: string
  led_kind :: ConsumerLedgerKind
  led_reference :: "string option"
  led_postings :: "ConsumerLedgerPosting list"
  led_created_at :: time

record ConsumerBalanceSnapshot =
  bal_owner :: string
  bal_account :: string
  bal_available :: int
  bal_reserved :: int
  bal_open_notional :: int
  bal_realized_pnl :: int
  bal_updated_at :: "time option"

text \<open>\<open>Omit<ConsumerRiskPolicy, "version" | "updated_at">\<close>, before and after validation.\<close>

record risk_policy_input =
  rpi_owner :: string
  rpi_account :: string
  rpi_max_order :: jsnum
  rpi_max_daily :: jsnum
  rpi_max_position :: jsnum
  rpi_max_slippage_bps :: jsnum
  rpi_market_allowlist :: "string list"

record ConsumerRiskPolicy =
  rp_owner :: string
  rp_account :: string
  rp_max_order :: int
  rp_max_daily :: int
  rp_max_position :: int
  rp_max_slippage_bps :: int
  rp_market_allowlist :: "string list"

datatype ConsumerCircuitReason =
    Negative_balance
  | Duplicate_settlement
  | Nonce_or_idempotency_violation
  | Reconciliation_drift
  | Insufficient_treasury_buffer
  | Market_data_stale
  | Reconciliation_stale
  | Execution_failure_rate
  | Worker_attestation_missing
  | Venue_unavailable
  | Cross_venue_unhedged_exposure
  | Operator_halt

datatype circuit_status = Circuit_open | Circuit_halted

record ConsumerCircuitState =
  circ_status :: circuit_status
  circ_reasons :: "ConsumerCircuitReason list"
  circ_halted_at :: "time option"
  circ_resumed_at :: "time option"
  circ_acknowledged_by :: "string option"
  circ_green_canaries :: jsnum
  circ_updated_at :: time

text \<open>Telemetry numbers are finite doubles.\<close>

record ConsumerCircuitTelemetry =
  tel_negative_balance :: bool
  tel_duplicate_settlement :: bool
  tel_nonce_violation :: bool
  tel_drift :: rat
  tel_pooled_treasury :: rat
  tel_treasury_free :: rat
  tel_reserved_exposure :: rat
  tel_market_data_age_ms :: rat
  tel_reconciliation_age_ms :: rat
  tel_consecutive_failures :: rat
  tel_failure_rate_5m :: rat
  tel_worker_attested :: bool
  tel_venue_available :: bool

section \<open>Validators\<close>

definition positiveInteger :: "jsnum \<Rightarrow> string \<Rightarrow> int result" where
  "positiveInteger v field = positive_safe (field @ ''_invalid'') v"

definition market_chars :: string where
  "market_chars = upper_chars @ digit_chars @ ''/_:-''"

definition normalizeMarket :: "string \<Rightarrow> string" where
  "normalizeMarket value =
     (let market = js_upper (js_trim value) in
      if matches_class market_chars 2 32 market then market else [])"

section \<open>The fee\<close>

definition consumerFeeMicroUsdc :: "jsnum \<Rightarrow> int result" where
  "consumerFeeMicroUsdc notionalMicroUsdc =
     and_then (positiveInteger notionalMicroUsdc ''notional_micro_usdc'') (\<lambda>notional.
       Inr (max CONSUMER_MIN_FEE_MICRO_USDC
              \<lceil>fl (fl (of_int notional * of_int CONSUMER_FEE_BPS) / 10000)\<rceil>))"

section \<open>Staged rollout\<close>

type_synonym env = "string \<Rightarrow> string option"

definition env_or :: "env \<Rightarrow> string \<Rightarrow> string \<Rightarrow> string" where
  "env_or env k d = (case env k of None \<Rightarrow> d | Some s \<Rightarrow> if s = [] then d else s)"

definition rolloutPercent :: "env \<Rightarrow> int" where
  "rolloutPercent env =
     (let v = js_parse_int 10 (env_or env ''GHOLA_CONSUMER_ROLLOUT_PERCENT'' ''0'') in
      if is_integer v \<and> 0 \<le> num_int v \<and> num_int v \<le> 100 then num_int v else 0)"

record rollout =
  ro_eligible :: bool
  ro_percent :: int
  ro_bucket :: "jsnum option"
  ro_canary :: bool

definition rollout_bucket :: "host \<Rightarrow> string \<Rightarrow> jsnum" where
  "rollout_bucket h owner =
     (case js_parse_int 16 (take 8 (sha256_hex h (''ghola-consumer-rollout-v1:'' @ owner))) of
        Fin r \<Rightarrow> num (\<lfloor>r\<rfloor> mod 100)
      | x \<Rightarrow> NaN)"

definition consumerRolloutEligible :: "host \<Rightarrow> string \<Rightarrow> env \<Rightarrow> rollout" where
  "consumerRolloutEligible h owner env =
     (let canaries = filter (\<lambda>v. v \<noteq> []) (map js_trim
            (js_split (CHR '','') (env_or env ''GHOLA_CONSUMER_CANARY_COMMITMENTS'' [])))
      in if owner \<in> set canaries
         then \<lparr>ro_eligible = True, ro_percent = rolloutPercent env, ro_bucket = None, ro_canary = True\<rparr>
         else let percent = rolloutPercent env; bucket = rollout_bucket h owner in
           \<lparr>ro_eligible = num_less bucket (num percent), ro_percent = percent,
            ro_bucket = Some bucket, ro_canary = False\<rparr>)"

section \<open>Risk policies\<close>

definition validateConsumerRiskPolicy ::
    "risk_policy_input \<Rightarrow> jsnum option \<Rightarrow> ConsumerRiskPolicy result" where
  "validateConsumerRiskPolicy inp availableMicroUsdc =
     and_then (positiveInteger (rpi_max_order inp) ''max_order_micro_usdc'') (\<lambda>maxOrder.
     and_then (positiveInteger (rpi_max_daily inp) ''max_daily_notional_micro_usdc'') (\<lambda>maxDaily.
     and_then (positiveInteger (rpi_max_position inp) ''max_position_micro_usdc'') (\<lambda>maxPosition.
       if maxDaily < maxOrder then throw ''max_daily_notional_below_order_limit''
       else if maxPosition < maxOrder then throw ''max_position_below_order_limit''
       else if (case availableMicroUsdc of None \<Rightarrow> False
                | Some a \<Rightarrow> num_less (num_max (num 0) (num_floor a)) (num maxOrder))
         then throw ''max_order_exceeds_available_balance''
       else if \<not> is_integer (rpi_max_slippage_bps inp) \<or> num_int (rpi_max_slippage_bps inp) < 1 \<or>
               num_int (rpi_max_slippage_bps inp) > CONSUMER_MAX_SLIPPAGE_BPS
         then throw ''max_slippage_bps_outside_policy''
       else let marketAllowlist =
              js_uniq (filter (\<lambda>m. m \<noteq> []) (map normalizeMarket (rpi_market_allowlist inp)))
            in if marketAllowlist = [] \<or> 25 < length marketAllowlist
               then throw ''market_allowlist_required''
               else return_ok \<lparr>rp_owner = rpi_owner inp, rp_account = rpi_account inp,
                      rp_max_order = maxOrder, rp_max_daily = maxDaily, rp_max_position = maxPosition,
                      rp_max_slippage_bps = num_int (rpi_max_slippage_bps inp),
                      rp_market_allowlist = marketAllowlist\<rparr>)))"

section \<open>Double-entry postings\<close>

text \<open>The running sums are doubles: beyond \<open>2 ^ 53\<close> they round.\<close>

fun posting_sums :: "rat \<Rightarrow> rat \<Rightarrow> ConsumerLedgerPosting list \<Rightarrow> (rat \<times> rat) result" where
  "posting_sums debits credits [] = return_ok (debits, credits)"
| "posting_sums debits credits (p # ps) =
     and_then (positiveInteger (num (post_amount p)) ''posting_amount_micro_usdc'') (\<lambda>amount.
       if post_side p = Debit then posting_sums (fl (debits + of_int amount)) credits ps
       else posting_sums debits (fl (credits + of_int amount)) ps)"

definition balancedPostings ::
    "ConsumerLedgerPosting list \<Rightarrow> ConsumerLedgerPosting list result" where
  "balancedPostings postings =
     (if length postings < 2 then throw ''double_entry_requires_two_postings''
      else and_then (posting_sums 0 0 postings) (\<lambda>(debits, credits).
        if debits \<noteq> credits then throw ''unbalanced_ledger_transaction'' else return_ok postings))"

definition sum_side :: "posting_side \<Rightarrow> ConsumerLedgerPosting list \<Rightarrow> int" where
  "sum_side s ps = (\<Sum>p\<leftarrow>ps. if post_side p = s then post_amount p else 0)"

section \<open>The circuit breaker\<close>

definition evaluateConsumerCircuit :: "ConsumerCircuitTelemetry \<Rightarrow> ConsumerCircuitReason list" where
  "evaluateConsumerCircuit t =
     (let driftThreshold = max 1000000 (of_int \<lceil>fl (tel_pooled_treasury t * fl (1 / 1000))\<rceil>) in
      (if tel_negative_balance t then [Negative_balance] else []) @
      (if tel_duplicate_settlement t then [Duplicate_settlement] else []) @
      (if tel_nonce_violation t then [Nonce_or_idempotency_violation] else []) @
      (if \<bar>tel_drift t\<bar> > driftThreshold then [Reconciliation_drift] else []) @
      (if fl (tel_treasury_free t * 100) < fl (tel_reserved_exposure t * 120)
       then [Insufficient_treasury_buffer] else []) @
      (if tel_market_data_age_ms t > CONSUMER_MARKET_DATA_MAX_AGE_MS then [Market_data_stale] else []) @
      (if tel_reconciliation_age_ms t > CONSUMER_RECONCILIATION_MAX_AGE_MS
       then [Reconciliation_stale] else []) @
      (if tel_consecutive_failures t \<ge> 5 \<or> tel_failure_rate_5m t \<ge> fl (1 / 20)
       then [Execution_failure_rate] else []) @
      (if \<not> tel_worker_attested t then [Worker_attestation_missing] else []) @
      (if \<not> tel_venue_available t then [Venue_unavailable] else []))"

section \<open>Commitments\<close>

definition text_or_undefined :: "string option \<Rightarrow> string" where
  "text_or_undefined s = (case s of None \<Rightarrow> ''undefined'' | Some t \<Rightarrow> t)"

text \<open>\<open>stableJson\<close>: in an array \<open>join\<close> prints \<open>undefined\<close> as nothing; in an object a property that is
  \<open>undefined\<close> is left out, and the properties are sorted by \<open>localeCompare\<close>.\<close>

function stableJson :: "host \<Rightarrow> json \<Rightarrow> string option" where
  "stableJson h (JArr xs) =
     Some (''['' @ js_join '','' (map (\<lambda>x. case stableJson h x of None \<Rightarrow> [] | Some t \<Rightarrow> t) xs) @ '']'')"
| "stableJson h (JObj kvs) =
     Some (''{'' @ js_join '','' (map (\<lambda>(k, t). json_quote k @ '':'' @ text_or_undefined t)
       (sort_by (\<lambda>p q. locale_le h (fst p) (fst q))
          (map (\<lambda>p. (fst p, stableJson h (snd p))) (filter (\<lambda>p. snd p \<noteq> JUndef) kvs)))) @ ''}'')"
| "stableJson h JNull = stringify_prim JNull"
| "stableJson h JUndef = stringify_prim JUndef"
| "stableJson h (JBool b) = stringify_prim (JBool b)"
| "stableJson h (JNum x) = stringify_prim (JNum x)"
| "stableJson h (JStr s) = stringify_prim (JStr s)"
  by pat_completeness auto
termination
proof (relation "measure (\<lambda>(h, v). size v)")
  fix h :: host and kvs :: "(string \<times> json) list" and p
  assume "p \<in> set (filter (\<lambda>p. snd p \<noteq> JUndef) kvs)"
  then have "p \<in> set kvs" by simp
  then have "size (snd p) < Suc (size_list (size_prod (\<lambda>_. 0) size) kvs)"
    by (induction kvs) (auto simp: size_prod_def)
  then show "((h, snd p), (h, JObj kvs)) \<in> measure (\<lambda>(h, v). size v)" by simp
qed (auto simp: less_Suc_eq_le intro: size_list_estimation')

text \<open>The value is never \<open>undefined\<close> at the call sites (\<open>createHash().update\<close> would throw on it).\<close>

definition consumerCommitment :: "host \<Rightarrow> string \<Rightarrow> json \<Rightarrow> string" where
  "consumerCommitment h namespace v =
     ''consumer_'' @ namespace @ ''_'' @ take 48 (sha256_hex h (text_or_undefined (stableJson h v)))"

section \<open>Double-entry postings: the sums\<close>

lemma sum_side_simps [simp]:
  "sum_side s [] = 0"
  "sum_side s (p # ps) = (if post_side p = s then post_amount p else 0) + sum_side s ps"
  by (simp_all add: sum_side_def)

lemma sum_side_nonneg: "\<forall>p \<in> set ps. 0 < post_amount p \<Longrightarrow> 0 \<le> sum_side s ps"
  by (induction ps) auto

lemma fl_safe_int: "0 \<le> n \<Longrightarrow> n \<le> max_safe \<Longrightarrow> fl (of_int n) = of_int n"
  by (rule fl_int_small) (simp_all add: max_safe_def)

lemma posting_sums_exact:
  assumes "\<forall>p \<in> set ps. 0 < post_amount p" "0 \<le> d" "0 \<le> c"
    "d + sum_side Debit ps \<le> max_safe" "c + sum_side Credit ps \<le> max_safe"
  shows "posting_sums (of_int d) (of_int c) ps =
    Inr (of_int (d + sum_side Debit ps), of_int (c + sum_side Credit ps))"
  using assms
proof (induction ps arbitrary: d c)
  case Nil
  then show ?case by simp
next
  case (Cons p ps)
  let ?n = "post_amount p"
  have rest: "0 \<le> sum_side Debit ps" "0 \<le> sum_side Credit ps" using Cons.prems(1)
    by (simp_all add: sum_side_nonneg)
  have n: "0 < ?n" using Cons.prems(1) by simp
  show ?case
  proof (cases "post_side p")
    case Debit
    then have "d + ?n \<le> max_safe" "?n \<le> max_safe" using Cons.prems rest by simp_all
    then have "fl (of_int d + of_int ?n) = of_int (d + ?n)" "positiveInteger (num ?n) f = Inr ?n" for f
      using fl_safe_int [of "d + ?n"] Cons.prems(2) n by (simp_all add: positiveInteger_def)
    with Debit Cons.IH [of "d + ?n" c] Cons.prems n show ?thesis by (simp del: of_int_add add: add.assoc)
  next
    case Credit
    then have "c + ?n \<le> max_safe" "?n \<le> max_safe" using Cons.prems rest by simp_all
    then have "fl (of_int c + of_int ?n) = of_int (c + ?n)" "positiveInteger (num ?n) f = Inr ?n" for f
      using fl_safe_int [of "c + ?n"] Cons.prems(3) n by (simp_all add: positiveInteger_def)
    with Credit Cons.IH [of d "c + ?n"] Cons.prems n show ?thesis by (simp del: of_int_add add: add.assoc)
  qed
qed

lemma posting_sums_positive:
  "posting_sums d c ps = Inr s \<Longrightarrow> \<forall>p \<in> set ps. 0 < post_amount p \<and> post_amount p \<le> max_safe"
  by (induction ps arbitrary: d c)
     (auto simp: throw_rules positiveInteger_def split: if_splits)

lemma balancedPostings_exact:
  assumes "2 \<le> length ps" "\<forall>p \<in> set ps. 0 < post_amount p"
    "sum_side Debit ps = sum_side Credit ps" "sum_side Debit ps \<le> max_safe"
  shows "balancedPostings ps = Inr ps"
  using assms posting_sums_exact [of ps 0 0] by (simp add: balancedPostings_def)

end
