(* ===== verification/CrossVenue.thy ===== *)
theory CrossVenue imports ConsumerPolicy
begin

text \<open>
  \<open>apps/web/src/lib/cross-venue-execution.ts\<close>: the plan of a two-legged execution on two venues, and
  how the reports of the execution worker move it. Timestamps are milliseconds; a report's
  \<open>observed_at\<close> is the result of parsing it (\<open>None\<close> for an invalid date). Notionals are integers: the
  sums of fills stay far below \<open>2 ^ 53\<close> for the notionals the route admits (at most five USDC).
\<close>

section \<open>Data\<close>

datatype CrossVenueId = Hyperliquid_venue | Phoenix_venue | Backpack_venue

datatype CrossVenueLegStatus =
    Leg_pending | Leg_submitted | Leg_partially_filled | Leg_filled | Leg_cancelled | Leg_rejected

datatype CrossVenueExecutionStatus =
    Planned
  | Submitting
  | Legs_open
  | Unhedged
  | Partially_hedged
  | Hedging
  | Unwinding
  | Both_filled
  | Hedged
  | Cancelled
  | Failed
  | Manual_intervention_required

datatype trade_side = Buy | Sell

record risk_budget_input =
  bi_max_unhedged :: jsnum
  bi_max_slippage_bps :: jsnum
  bi_max_duration_ms :: jsnum
  bi_max_unwind_loss :: jsnum
  bi_max_daily_loss :: jsnum

record CrossVenueRiskBudget =
  rb_max_unhedged :: int
  rb_max_slippage_bps :: int
  rb_max_duration_ms :: int
  rb_max_unwind_loss :: int
  rb_max_daily_loss :: int

record CrossVenueExecutionLeg =
  leg_id :: string
  leg_venue :: CrossVenueId
  leg_side :: trade_side
  leg_symbol :: string
  leg_limit_price :: string
  leg_target :: int
  leg_fill :: int
  leg_status :: CrossVenueLegStatus
  leg_reference :: "string option"

record CrossVenueRepairFill =
  rf_id :: string
  rf_venue :: CrossVenueId
  rf_side :: trade_side
  rf_fill :: int
  rf_reference :: "string option"

record CrossVenueExecutionPlan =
  pl_id :: string
  pl_owner :: string
  pl_idempotency_key :: string
  pl_opportunity :: string
  pl_market :: string
  pl_notional :: int
  pl_budget :: CrossVenueRiskBudget
  pl_legs :: "CrossVenueExecutionLeg list"
  pl_repairs :: "CrossVenueRepairFill list"
  pl_status :: CrossVenueExecutionStatus
  pl_residual :: int
  pl_sequence :: int
  pl_unhedged_since :: "time option"
  pl_hedge_deadline :: "time option"
  pl_cancel_requested_at :: "time option"
  pl_worker_receipt :: "string option"
  pl_failure_code :: "string option"
  pl_created_at :: time
  pl_updated_at :: time

datatype report_phase = Ph_accepted | Ph_legs_open | Ph_hedging | Ph_unwinding | Ph_complete | Ph_failed

record leg_report =
  lr_id :: string
  lr_status :: CrossVenueLegStatus
  lr_fill :: jsnum
  lr_reference :: "string option"

record repair_report =
  rr_id :: string
  rr_venue :: CrossVenueId
  rr_side :: trade_side
  rr_fill :: jsnum
  rr_reference :: "string option"

record CrossVenueWorkerReport =
  rep_sequence :: jsnum
  rep_phase :: report_phase
  rep_legs :: "leg_report list"
  rep_repairs :: "repair_report list"
  rep_slippage_bps :: "jsnum option"
  rep_unwind_loss :: "jsnum option"
  rep_daily_loss :: "jsnum option"
  rep_failure_code :: "string option"
  rep_observed_at :: "time option"

section \<open>Normalisation\<close>

definition given_text :: "string option \<Rightarrow> bool" where
  "given_text s = (case s of None \<Rightarrow> False | Some t \<Rightarrow> t \<noteq> [])"

definition key_chars :: string where
  "key_chars = upper_chars @ lower_chars @ digit_chars @ ''._:-''"

definition valid_key :: "string \<Rightarrow> bool" where
  "valid_key s = matches_class key_chars 8 180 s"

definition positiveSafeInteger :: "jsnum \<Rightarrow> string \<Rightarrow> int result" where
  "positiveSafeInteger v field = positive_safe (field @ ''_invalid'') v"

definition nonnegativeSafeInteger :: "jsnum \<Rightarrow> string \<Rightarrow> int result" where
  "nonnegativeSafeInteger v field = nonnegative_safe (field @ ''_invalid'') v"

definition normalizeCrossMarket :: "string \<Rightarrow> string result" where
  "normalizeCrossMarket value = (let normalized = js_upper (js_trim value) in
     if matches_class market_chars 2 32 normalized then return_ok normalized else throw ''market_invalid'')"

definition normalizeSymbol :: "string \<Rightarrow> string result" where
  "normalizeSymbol value = (let normalized = js_upper (js_trim value) in
     if matches_class market_chars 1 32 normalized then return_ok normalized else throw ''symbol_invalid'')"

text \<open>The value of a decimal \<open>digits\<close> or \<open>digits.digits\<close>; \<open>Number\<close> of it is finite below the midpoint
  \<open>2 ^ 1024 - 2 ^ 970\<close> and positive above \<open>2 ^ -1075\<close>.\<close>

definition is_digit :: "char \<Rightarrow> bool" where
  "is_digit c \<longleftrightarrow> c \<in> set digit_chars"

definition decimal_parts :: "string \<Rightarrow> (string \<times> string) option" where
  "decimal_parts s =
     (let whole = takeWhile is_digit s; rest = dropWhile is_digit s in
      if whole = [] then None
      else case rest of
        [] \<Rightarrow> Some (whole, [])
      | c # decimals \<Rightarrow> if c = CHR ''.'' \<and> decimals \<noteq> [] \<and> list_all is_digit decimals then Some (whole, decimals) else None)"

definition decimal_value :: "string \<times> string \<Rightarrow> rat" where
  "decimal_value p = of_int (digits_value 10 0 (fst p @ snd p)) / of_int (10 ^ length (snd p))"

definition positiveDecimal :: "string \<Rightarrow> string \<Rightarrow> string result" where
  "positiveDecimal value field =
     (let normalized = js_trim value in
      case decimal_parts normalized of
        None \<Rightarrow> throw (field @ ''_invalid'')
      | Some p \<Rightarrow>
          if decimal_value p < of_int (2 ^ 1024 - 2 ^ 970) \<and> 1 < decimal_value p * of_int (2 ^ 1075)
          then return_ok normalized else throw (field @ ''_invalid''))"

section \<open>Creating a plan\<close>

definition validateCrossVenueRiskBudget :: "risk_budget_input \<Rightarrow> int \<Rightarrow> CrossVenueRiskBudget result" where
  "validateCrossVenueRiskBudget inp matchedNotional =
     and_then (positiveSafeInteger (bi_max_unhedged inp) ''max_unhedged_notional_micro_usdc'') (\<lambda>maxUnhedged.
       if maxUnhedged > matchedNotional then throw ''unhedged_budget_exceeds_matched_notional''
       else if \<not> is_integer (bi_max_slippage_bps inp) \<or> num_int (bi_max_slippage_bps inp) < 1 \<or>
          num_int (bi_max_slippage_bps inp) > 100 then throw ''max_hedge_slippage_bps_invalid''
       else if \<not> is_integer (bi_max_duration_ms inp) \<or> num_int (bi_max_duration_ms inp) < 500 \<or>
          num_int (bi_max_duration_ms inp) > 30000 then throw ''max_hedge_duration_ms_invalid''
       else and_then (positiveSafeInteger (bi_max_unwind_loss inp) ''max_unwind_loss_micro_usdc'') (\<lambda>maxLoss.
         and_then (positiveSafeInteger (bi_max_daily_loss inp) ''max_daily_loss_micro_usdc'') (\<lambda>maxDailyLoss.
           return_ok \<lparr>rb_max_unhedged = maxUnhedged, rb_max_slippage_bps = num_int (bi_max_slippage_bps inp),
             rb_max_duration_ms = num_int (bi_max_duration_ms inp), rb_max_unwind_loss = maxLoss,
             rb_max_daily_loss = maxDailyLoss\<rparr>)))"

record leg_input =
  li_venue :: CrossVenueId
  li_side :: trade_side
  li_symbol :: string
  li_price :: string

record plan_input =
  pi_owner :: string
  pi_idempotency_key :: string
  pi_opportunity :: string
  pi_market :: string
  pi_notional :: jsnum
  pi_budget :: risk_budget_input
  pi_legs :: "leg_input list"

definition execution_id_of :: "host \<Rightarrow> string \<Rightarrow> string \<Rightarrow> string" where
  "execution_id_of h owner key = consumerCommitment h ''cross_venue_execution''
     (JObj [(''owner'', JStr owner), (''key'', JStr key)])"

definition new_leg :: "host \<Rightarrow> string \<Rightarrow> int \<Rightarrow> nat \<times> leg_input \<Rightarrow> CrossVenueExecutionLeg result" where
  "new_leg h executionId notional entry =
     (case entry of (index, leg) \<Rightarrow>
       and_then (normalizeSymbol (li_symbol leg)) (\<lambda>symbol.
       and_then (positiveDecimal (li_price leg) ''limit_price'') (\<lambda>price.
         return_ok \<lparr>leg_id = consumerCommitment h ''cross_venue_leg''
             (JObj [(''execution_id'', JStr executionId), (''index'', JNum (num (int index)))]),
           leg_venue = li_venue leg, leg_side = li_side leg, leg_symbol = symbol, leg_limit_price = price,
           leg_target = notional, leg_fill = 0, leg_status = Leg_pending, leg_reference = None\<rparr>)))"

definition createCrossVenueExecutionPlan ::
    "host \<Rightarrow> plan_input \<Rightarrow> time \<Rightarrow> CrossVenueExecutionPlan result" where
  "createCrossVenueExecutionPlan h inp now =
     (if \<not> valid_key (pi_idempotency_key inp) then throw ''idempotency_key_invalid''
      else if \<not> (starts_with ''consumer_'' (pi_opportunity inp) \<or> starts_with ''ghola_'' (pi_opportunity inp))
        then throw ''opportunity_commitment_invalid''
      else and_then (normalizeCrossMarket (pi_market inp)) (\<lambda>market.
        and_then (positiveSafeInteger (pi_notional inp) ''matched_notional_micro_usdc'') (\<lambda>notional.
        and_then (validateCrossVenueRiskBudget (pi_budget inp) notional) (\<lambda>budget.
          case pi_legs inp of
            [left, right] \<Rightarrow>
              if li_venue left = li_venue right then throw ''distinct_venues_required''
              else if li_side left = li_side right then throw ''opposite_sides_required''
              else let executionId = execution_id_of h (pi_owner inp) (pi_idempotency_key inp) in
                and_then (map_result (new_leg h executionId notional) [(0, left), (1, right)]) (\<lambda>legs.
                  return_ok \<lparr>pl_id = executionId, pl_owner = pi_owner inp,
                    pl_idempotency_key = pi_idempotency_key inp, pl_opportunity = pi_opportunity inp,
                    pl_market = market, pl_notional = notional, pl_budget = budget, pl_legs = legs,
                    pl_repairs = [], pl_status = Planned, pl_residual = 0, pl_sequence = 0,
                    pl_unhedged_since = None, pl_hedge_deadline = None, pl_cancel_requested_at = None,
                    pl_worker_receipt = None, pl_failure_code = None, pl_created_at = now,
                    pl_updated_at = now\<rparr>)
          | _ \<Rightarrow> throw ''exactly_two_legs_required''))))"

section \<open>The net position\<close>

definition side_sign :: "trade_side \<Rightarrow> int" where
  "side_sign s = (if s = Buy then 1 else - 1)"

definition residualNotional :: "CrossVenueExecutionLeg list \<Rightarrow> CrossVenueRepairFill list \<Rightarrow> int" where
  "residualNotional legs repairs =
     \<bar>(\<Sum>leg\<leftarrow>legs. side_sign (leg_side leg) * leg_fill leg) +
      (\<Sum>fill\<leftarrow>repairs. side_sign (rf_side fill) * rf_fill fill)\<bar>"

section \<open>Worker reports\<close>

definition reference_commitment :: "host \<Rightarrow> string option \<Rightarrow> string option \<Rightarrow> string option" where
  "reference_commitment h given prior =
     (case given of Some r \<Rightarrow> if r \<noteq> [] then Some (consumerCommitment h ''venue_order_reference'' (JStr r)) else prior
      | None \<Rightarrow> prior)"

definition apply_leg_report :: "host \<Rightarrow> (string, leg_report) jsmap \<Rightarrow> CrossVenueExecutionLeg \<Rightarrow>
    CrossVenueExecutionLeg result" where
  "apply_leg_report h updates leg =
     (case js_get updates (leg_id leg) of
        None \<Rightarrow> return_ok leg
      | Some update \<Rightarrow>
          and_then (nonnegativeSafeInteger (lr_fill update) ''filled_notional_micro_usdc'') (\<lambda>filled.
            if filled < leg_fill leg then throw ''filled_notional_regression''
            else if filled > leg_target leg then throw ''filled_notional_exceeds_target''
            else return_ok (leg\<lparr>leg_status := lr_status update, leg_fill := filled,
              leg_reference := reference_commitment h (lr_reference update) (leg_reference leg)\<rparr>)))"

fun merge_updates :: "host \<Rightarrow> int \<Rightarrow> (string, CrossVenueRepairFill) jsmap \<Rightarrow> repair_report list \<Rightarrow>
    (string, CrossVenueRepairFill) jsmap result" where
  "merge_updates h maximum merged [] = return_ok merged"
| "merge_updates h maximum merged (u # us) =
     (if \<not> valid_key (rr_id u) then throw ''repair_id_invalid''
      else and_then (nonnegativeSafeInteger (rr_fill u) ''repair_filled_notional_micro_usdc'') (\<lambda>filled.
        if filled > maximum then throw ''repair_fill_exceeds_matched_notional''
        else let prior = js_get merged (rr_id u) in
          if (case prior of None \<Rightarrow> False
              | Some p \<Rightarrow> rf_venue p \<noteq> rr_venue u \<or> rf_side p \<noteq> rr_side u \<or> filled < rf_fill p)
          then throw ''repair_fill_regression''
          else merge_updates h maximum (js_set merged (rr_id u)
            \<lparr>rf_id = rr_id u, rf_venue = rr_venue u, rf_side = rr_side u, rf_fill = filled,
             rf_reference = reference_commitment h (rr_reference u)
               (case prior of None \<Rightarrow> None | Some p \<Rightarrow> rf_reference p)\<rparr>) us))"

definition mergeRepairFills :: "host \<Rightarrow> CrossVenueRepairFill list \<Rightarrow> repair_report list \<Rightarrow> int \<Rightarrow>
    CrossVenueRepairFill list result" where
  "mergeRepairFills h current updates maximum =
     and_then (merge_updates h maximum (fold (\<lambda>f m. js_set m (rf_id f) f) current []) updates)
       (\<lambda>merged. return_ok (js_values merged))"

definition intervention :: "CrossVenueExecutionPlan \<Rightarrow> CrossVenueWorkerReport \<Rightarrow> string \<Rightarrow> time \<Rightarrow>
    CrossVenueExecutionPlan" where
  "intervention current report failureCode observedAt =
     current\<lparr>pl_status := Manual_intervention_required, pl_sequence := num_int (rep_sequence report),
       pl_residual := residualNotional (pl_legs current) (pl_repairs current),
       pl_failure_code := Some failureCode, pl_updated_at := observedAt\<rparr>"

text \<open>\<open>new Date(t).toISOString()\<close> throws outside the range of dates.\<close>

definition valid_date :: "time \<Rightarrow> bool" where
  "valid_date t \<longleftrightarrow> \<bar>t\<bar> \<le> 8640000000000000"

definition exceeds_budget :: "jsnum option \<Rightarrow> int \<Rightarrow> bool" where
  "exceeds_budget v budget = num_less (num budget) (case v of None \<Rightarrow> num 0 | Some x \<Rightarrow> x)"

definition leg_terminal :: "CrossVenueExecutionLeg \<Rightarrow> bool" where
  "leg_terminal leg \<longleftrightarrow> leg_status leg \<in> {Leg_filled, Leg_cancelled, Leg_rejected}"

definition report_status :: "report_phase \<Rightarrow> CrossVenueExecutionLeg list \<Rightarrow> CrossVenueRepairFill list \<Rightarrow>
    int \<Rightarrow> time option \<Rightarrow> time \<Rightarrow> CrossVenueExecutionStatus" where
  "report_status phase legs repairs residual hedgeDeadline observedAt =
     (let bothTerminal = list_all leg_terminal legs in
      if phase = Ph_failed then (if residual > 0 then Manual_intervention_required else Failed)
      else if phase = Ph_unwinding then Unwinding
      else if residual > 0 \<and> (case hedgeDeadline of None \<Rightarrow> False | Some d \<Rightarrow> observedAt > d)
        then Manual_intervention_required
      else if phase = Ph_hedging then Hedging
      else if residual > 0 then
        (if list_ex (\<lambda>leg. leg_fill leg = 0) legs then Unhedged else Partially_hedged)
      else if (phase = Ph_complete \<or> bothTerminal) \<and> list_ex (\<lambda>r. rf_fill r > 0) repairs then Hedged
      else if (phase = Ph_complete \<or> bothTerminal) \<and> list_all (\<lambda>leg. leg_fill leg > 0) legs then Both_filled
      else Legs_open)"

definition budget_breach :: "CrossVenueRiskBudget \<Rightarrow> CrossVenueWorkerReport \<Rightarrow> int \<Rightarrow> string option" where
  "budget_breach b report residual =
     (if exceeds_budget (rep_slippage_bps report) (rb_max_slippage_bps b)
        then Some ''hedge_slippage_budget_exceeded''
      else if exceeds_budget (rep_unwind_loss report) (rb_max_unwind_loss b)
        then Some ''unwind_loss_budget_exceeded''
      else if exceeds_budget (rep_daily_loss report) (rb_max_daily_loss b)
        then Some ''daily_loss_budget_exceeded''
      else if residual > rb_max_unhedged b then Some ''unhedged_notional_budget_exceeded''
      else None)"

text \<open>The end of \<open>applyCrossVenueWorkerReport\<close>, once the legs and the repairs are merged.\<close>

definition report_outcome :: "CrossVenueExecutionPlan \<Rightarrow> CrossVenueWorkerReport \<Rightarrow> time \<Rightarrow>
    CrossVenueExecutionLeg list \<Rightarrow> CrossVenueRepairFill list \<Rightarrow> CrossVenueExecutionPlan result" where
  "report_outcome current report observedAt legs repairs =
     (let residual = residualNotional legs repairs;
          unhedgedSince = (if residual > 0
            then (case pl_unhedged_since current of None \<Rightarrow> Some observedAt | t \<Rightarrow> t) else None);
          hedgeDeadline = map_option (\<lambda>t. t + rb_max_duration_ms (pl_budget current)) unhedgedSince
      in if (case hedgeDeadline of None \<Rightarrow> False | Some d \<Rightarrow> \<not> valid_date d)
         then throw ''Invalid time value''
         else case budget_breach (pl_budget current) report residual of
           Some code \<Rightarrow>
             return_ok (intervention (current\<lparr>pl_legs := legs, pl_repairs := repairs\<rparr>) report code observedAt)
         | None \<Rightarrow>
             let status = report_status (rep_phase report) legs repairs residual hedgeDeadline observedAt
             in return_ok (current\<lparr>pl_legs := legs, pl_repairs := repairs, pl_status := status,
                  pl_residual := residual, pl_unhedged_since := unhedgedSince,
                  pl_hedge_deadline := hedgeDeadline, pl_sequence := num_int (rep_sequence report),
                  pl_failure_code := (if given_text (rep_failure_code report) then rep_failure_code report
                    else if status = Manual_intervention_required then Some ''hedge_deadline_exceeded''
                    else None),
                  pl_updated_at := observedAt\<rparr>))"

definition leg_updates :: "CrossVenueWorkerReport \<Rightarrow> (string, leg_report) jsmap" where
  "leg_updates report = fold (\<lambda>u m. js_set m (lr_id u) u) (rep_legs report) []"

definition applyCrossVenueWorkerReport ::
    "host \<Rightarrow> CrossVenueExecutionPlan \<Rightarrow> CrossVenueWorkerReport \<Rightarrow> CrossVenueExecutionPlan result" where
  "applyCrossVenueWorkerReport h current report =
     (if \<not> is_safe_integer (rep_sequence report) \<or> num_int (rep_sequence report) \<le> pl_sequence current
      then throw ''report_sequence_replay''
      else case rep_observed_at report of
        None \<Rightarrow> throw ''report_observed_at_invalid''
      | Some observedAt \<Rightarrow>
          if \<not> list_all (\<lambda>u. list_ex (\<lambda>leg. leg_id leg = lr_id u) (pl_legs current)) (rep_legs report)
          then throw ''unknown_leg_id''
          else and_then (map_result (apply_leg_report h (leg_updates report)) (pl_legs current)) (\<lambda>legs.
            and_then (mergeRepairFills h (pl_repairs current) (rep_repairs report) (pl_notional current))
              (report_outcome current report observedAt legs)))"

section \<open>Cancellation\<close>

definition cancel_settled :: "CrossVenueExecutionStatus \<Rightarrow> bool" where
  "cancel_settled s \<longleftrightarrow> s \<in> {Both_filled, Hedged, Cancelled, Failed, Manual_intervention_required}"

definition requestCrossVenueCancellation :: "CrossVenueExecutionPlan \<Rightarrow> time \<Rightarrow> CrossVenueExecutionPlan" where
  "requestCrossVenueCancellation current now =
     (if cancel_settled (pl_status current) then current
      else let hasFill = list_ex (\<lambda>leg. leg_fill leg > 0) (pl_legs current) \<or>
             list_ex (\<lambda>fill. rf_fill fill > 0) (pl_repairs current)
        in current\<lparr>pl_status := (if hasFill then Unwinding else Cancelled),
             pl_cancel_requested_at := Some now, pl_updated_at := now\<rparr>)"

end
