(* ===== verification/ConsumerStore.thy ===== *)
theory ConsumerStore imports ConsumerPolicy
begin

text \<open>
  \<open>apps/web/src/lib/consumer-production-store.ts\<close>, part one: the records, the \<open>memory\<close> object and
  the helpers every operation uses. The model is the store without a database (\<open>getSql()\<close> is null);
  \<open>memoryCritical\<close> runs the calls one after the other, so each operation is a function from the
  state to an answer and the next state.
\<close>

section \<open>Records\<close>

record ConsumerWalletBinding =
  wal_owner :: string
  wal_account :: string
  wal_pubkey :: string
  wal_commitment :: string
  wal_bound_at :: time
  wal_hold_until :: time
  wal_updated_at :: time

record ConsumerEligibilityAcceptance =
  acc_owner :: string
  acc_terms_version :: string
  acc_risk_version :: string
  acc_accepted_at :: time

datatype deposit_status = Dep_pending | Dep_confirmed | Dep_expired | Dep_rejected

record ConsumerDepositIntent =
  dep_id :: string
  dep_owner :: string
  dep_account :: string
  dep_rail :: ConsumerFundingRail
  dep_expected_wallet :: "string option"
  dep_amount :: int
  dep_status :: deposit_status
  dep_signature :: "string option"
  dep_nullifier :: "string option"
  dep_created_at :: time
  dep_expires_at :: time
  dep_confirmed_at :: "time option"

datatype consumer_venue = Phoenix | Hyperliquid

datatype reservation_status = Reserved | Res_submitted | Settled | Released | Res_expired

record ConsumerBalanceReservation =
  res_id :: string
  res_owner :: string
  res_account :: string
  res_idempotency_key :: string
  res_venue :: consumer_venue
  res_notional :: int
  res_venue_cost :: int
  res_fee :: int
  res_reserved :: int
  res_status :: reservation_status
  res_created_at :: time
  res_expires_at :: time
  res_updated_at :: time

datatype order_status = Ord_submitted | Ord_partially_filled | Ord_filled | Ord_unfilled | Ord_failed

record ConsumerVenueOrder =
  ord_id :: string
  ord_reservation :: string
  ord_owner :: string
  ord_account :: string
  ord_venue :: consumer_venue
  ord_market :: string
  ord_work_order :: string
  ord_worker_receipt :: string
  ord_status :: order_status
  ord_submitted_at :: time
  ord_reconciled_at :: "time option"

record ConsumerVenueFill =
  fill_id :: string
  fill_order :: string
  fill_reference :: string
  fill_notional :: int
  fill_venue_cost :: int
  fill_fee :: int
  fill_filled_at :: time

record ConsumerReconciliationCheckpoint =
  chk_id :: string
  chk_order :: string
  chk_reservation :: string
  chk_drift :: int
  chk_reconciled_at :: time

datatype wake_status = Wake_queued | Wake_waking | Wake_ready | Wake_failed

record ConsumerWakeJob =
  wake_id :: string
  wake_owner :: string
  wake_status_of :: wake_status
  wake_error :: "string option"
  wake_created_at :: time
  wake_updated_at :: time
  wake_expires_at :: time

datatype withdrawal_status =
  Wd_queued | Wd_prepared | Wd_dispatching | Wd_submitted | Wd_finalized | Wd_failed_review | Wd_cancelled

record ConsumerWithdrawal =
  wd_id :: string
  wd_owner :: string
  wd_account :: string
  wd_idempotency_key :: string
  wd_destination :: string
  wd_amount :: int
  wd_status :: withdrawal_status
  wd_signature :: "string option"
  wd_message :: "string option"
  wd_prepared_expires_at :: "time option"
  wd_created_at :: time
  wd_updated_at :: time

record rate_bucket =
  rate_count :: int
  rate_reset_at :: int

text \<open>The stored policy carries its update time beside the validated limits.\<close>

record stored_policy = ConsumerRiskPolicy +
  rp_updated_at :: time

section \<open>The memory object\<close>

record memory =
  mem_nonces :: "(string, int) jsmap"
  mem_rates :: "(string, rate_bucket) jsmap"
  mem_wallets :: "(string, ConsumerWalletBinding) jsmap"
  mem_acceptances :: "(string, ConsumerEligibilityAcceptance) jsmap"
  mem_deposits :: "(string, ConsumerDepositIntent) jsmap"
  mem_balances :: "(string, ConsumerBalanceSnapshot) jsmap"
  mem_ledger :: "(string, ConsumerLedgerTransaction) jsmap"
  mem_reservations :: "(string, ConsumerBalanceReservation) jsmap"
  mem_venueOrders :: "(string, ConsumerVenueOrder) jsmap"
  mem_venueFills :: "(string, ConsumerVenueFill) jsmap"
  mem_reconciliation :: "(string, ConsumerReconciliationCheckpoint) jsmap"
  mem_policies :: "(string, stored_policy) jsmap"
  mem_wakeJobs :: "(string, ConsumerWakeJob) jsmap"
  mem_withdrawals :: "(string, ConsumerWithdrawal) jsmap"
  mem_circuit :: "ConsumerCircuitState option"

definition empty_memory :: memory where
  "empty_memory = \<lparr>mem_nonces = [], mem_rates = [], mem_wallets = [], mem_acceptances = [],
     mem_deposits = [], mem_balances = [], mem_ledger = [], mem_reservations = [],
     mem_venueOrders = [], mem_venueFills = [], mem_reconciliation = [], mem_policies = [],
     mem_wakeJobs = [], mem_withdrawals = [], mem_circuit = None\<rparr>"

text \<open>The reset for tests clears every table but the orders, the fills and the checkpoints.\<close>

definition resetConsumerProductionStoreForTests :: "memory \<Rightarrow> memory" where
  "resetConsumerProductionStoreForTests m =
     m\<lparr>mem_nonces := [], mem_rates := [], mem_wallets := [], mem_acceptances := [],
       mem_deposits := [], mem_balances := [], mem_ledger := [], mem_reservations := [],
       mem_policies := [], mem_wakeJobs := [], mem_withdrawals := [], mem_circuit := None\<rparr>"

section \<open>Helpers\<close>

definition positiveAmount :: "jsnum \<Rightarrow> int result" where
  "positiveAmount v = positive_safe ''amount_micro_usdc_invalid'' v"

definition nonnegativeAmount :: "jsnum \<Rightarrow> int result" where
  "nonnegativeAmount v = nonnegative_safe ''amount_micro_usdc_invalid'' v"

definition memoryBalance :: "string \<Rightarrow> string \<Rightarrow> memory \<Rightarrow> ConsumerBalanceSnapshot" where
  "memoryBalance owner account m =
     (case js_get (mem_balances m) account of
        Some b \<Rightarrow> b
      | None \<Rightarrow> \<lparr>bal_owner = owner, bal_account = account, bal_available = 0, bal_reserved = 0,
                bal_open_notional = 0, bal_realized_pnl = 0, bal_updated_at = None\<rparr>)"

definition getConsumerBalance :: "string \<Rightarrow> string \<Rightarrow> memory \<Rightarrow> ConsumerBalanceSnapshot" where
  "getConsumerBalance owner account m = memoryBalance owner account m"

definition putMemoryLedger :: "host \<Rightarrow> string \<Rightarrow> string \<Rightarrow> ConsumerLedgerKind \<Rightarrow> string \<Rightarrow> string \<Rightarrow>
    ConsumerLedgerPosting list \<Rightarrow> time \<Rightarrow> memory \<Rightarrow> memory" where
  "putMemoryLedger h owner account kind idempotencyKey reference postings now m =
     (let record = \<lparr>led_transaction_id = consumerCommitment h ''ledger''
              (JObj [(''account'', JStr account), (''key'', JStr idempotencyKey)]),
            led_owner = owner, led_account = account, led_idempotency_key = idempotencyKey,
            led_kind = kind, led_reference = Some reference, led_postings = postings,
            led_created_at = now\<rparr>
      in m\<lparr>mem_ledger := js_set (mem_ledger m) (led_idempotency_key record) record\<rparr>)"

definition posting :: "ConsumerLedgerAccount \<Rightarrow> posting_side \<Rightarrow> int \<Rightarrow> ConsumerLedgerPosting" where
  "posting a s n = \<lparr>post_account = a, post_side = s, post_amount = n\<rparr>"

definition settlementPostings ::
    "int \<Rightarrow> int \<Rightarrow> int \<Rightarrow> int \<Rightarrow> ConsumerLedgerPosting list result" where
  "settlementPostings reserved filled venueCost gholaFee =
     (let unused = reserved - filled - venueCost - gholaFee;
          credits = (if unused > 0 then [posting Consumer_available Credit unused] else []) @
            (if filled + venueCost > 0 then [posting Venue_clearing Credit (filled + venueCost)] else []) @
            (if gholaFee > 0 then [posting Fee_revenue Credit gholaFee] else [])
      in balancedPostings (posting Consumer_reserved Debit reserved # credits))"

definition set_balance :: "string \<Rightarrow> ConsumerBalanceSnapshot \<Rightarrow> memory \<Rightarrow> memory" where
  "set_balance account b m = m\<lparr>mem_balances := js_set (mem_balances m) account b\<rparr>"

section \<open>Postings\<close>

text \<open>A transfer of one amount between two accounts, the shape every posting list but a settlement's
  has, passes the double-entry check exactly when the amount is a positive safe integer.\<close>

lemma transfer_balanced [simp]:
  assumes "0 < n" "n \<le> max_safe"
  shows "balancedPostings [posting a Debit n, posting b Credit n] =
    Inr [posting a Debit n, posting b Credit n]"
  using assms by (intro balancedPostings_exact) (simp_all add: posting_def)

end
