(* ===== verification/ConsumerAccess.thy ===== *)
theory ConsumerAccess imports ConsumerStore
begin

text \<open>
  \<open>consumer-production-store.ts\<close>, part four: who may act and when. One-time nonces, the fixed-window
  rate limit, wallet bindings with their withdrawal hold, eligibility acceptances, wake jobs, risk
  policies and the circuit breaker's state.
\<close>

section \<open>Nonces and rate limits\<close>

definition pruneMemory :: "int \<Rightarrow> memory \<Rightarrow> memory" where
  "pruneMemory now m =
     m\<lparr>mem_nonces := filter (\<lambda>(k, expiresAt). \<not> expiresAt \<le> now) (mem_nonces m),
       mem_rates := filter (\<lambda>(k, bucket). \<not> rate_reset_at bucket \<le> now) (mem_rates m)\<rparr>"

definition nonce_key :: "string \<Rightarrow> string \<Rightarrow> string \<Rightarrow> string" where
  "nonce_key namespace owner nonce = namespace @ '':'' @ owner @ '':'' @ nonce"

text \<open>\<open>now\<close> is the \<open>Date.now()\<close> that \<open>pruneMemory\<close> reads.\<close>

definition consumeConsumerNonce ::
    "string \<Rightarrow> string \<Rightarrow> string \<Rightarrow> int \<Rightarrow> int \<Rightarrow> memory \<Rightarrow> bool \<times> memory" where
  "consumeConsumerNonce namespace owner nonce expires_at_ms now m =
     (let m1 = pruneMemory now m; key = nonce_key namespace owner nonce in
      if js_has (mem_nonces m1) key then (False, m1)
      else (True, m1\<lparr>mem_nonces := js_set (mem_nonces m1) key expires_at_ms\<rparr>))"

record rate_answer =
  rate_ok :: bool
  rate_answer_count :: int
  rate_retry_after :: int

definition bucket_start :: "int \<Rightarrow> int \<Rightarrow> int" where
  "bucket_start window_ms now = now div window_ms * window_ms"

definition rate_key :: "string \<Rightarrow> int \<Rightarrow> int \<Rightarrow> string" where
  "rate_key key window_ms now = key @ '':'' @ int_digits (bucket_start window_ms now)"

definition consumeConsumerRateLimit ::
    "string \<Rightarrow> int \<Rightarrow> int \<Rightarrow> int \<Rightarrow> memory \<Rightarrow> rate_answer \<times> memory" where
  "consumeConsumerRateLimit key limit window_ms now m =
     (let bucketStart = bucket_start window_ms now; m1 = pruneMemory now m;
          k = rate_key key window_ms now;
          current = (case js_get (mem_rates m1) k of Some b \<Rightarrow> b
            | None \<Rightarrow> \<lparr>rate_count = 0, rate_reset_at = bucketStart + window_ms\<rparr>);
          counted = current\<lparr>rate_count := rate_count current + 1\<rparr>
      in (\<lparr>rate_ok = (rate_count counted \<le> limit), rate_answer_count = rate_count counted,
           rate_retry_after = max 1 (ceil_div (rate_reset_at counted - now) 1000)\<rparr>,
          m1\<lparr>mem_rates := js_set (mem_rates m1) k counted\<rparr>))"

section \<open>Wallets and eligibility\<close>

definition getConsumerWalletBinding :: "string \<Rightarrow> memory \<Rightarrow> ConsumerWalletBinding option" where
  "getConsumerWalletBinding owner m = js_get (mem_wallets m) owner"

definition wallet_hold_ms :: int where
  "wallet_hold_ms = 24 * 60 * 60000"

definition putConsumerWalletBinding :: "string \<Rightarrow> string \<Rightarrow> string \<Rightarrow> string \<Rightarrow> time \<Rightarrow> memory \<Rightarrow>
    ConsumerWalletBinding \<times> memory" where
  "putConsumerWalletBinding owner account pubkey commitment now m =
     (let existing = getConsumerWalletBinding owner m;
          changed = (case existing of None \<Rightarrow> False | Some e \<Rightarrow> wal_pubkey e \<noteq> pubkey);
          record = \<lparr>wal_owner = owner, wal_account = account, wal_pubkey = pubkey,
            wal_commitment = commitment,
            wal_bound_at = (case existing of None \<Rightarrow> now | Some e \<Rightarrow> wal_bound_at e),
            wal_hold_until = now + (if changed then wallet_hold_ms else 0), wal_updated_at = now\<rparr>
      in (record, m\<lparr>mem_wallets := js_set (mem_wallets m) (wal_owner record) record\<rparr>))"

definition putConsumerEligibilityAcceptance ::
    "ConsumerEligibilityAcceptance \<Rightarrow> memory \<Rightarrow> ConsumerEligibilityAcceptance \<times> memory" where
  "putConsumerEligibilityAcceptance record m =
     (record, m\<lparr>mem_acceptances := js_set (mem_acceptances m) (acc_owner record) record\<rparr>)"

definition getConsumerEligibilityAcceptance ::
    "string \<Rightarrow> memory \<Rightarrow> ConsumerEligibilityAcceptance option" where
  "getConsumerEligibilityAcceptance owner m = js_get (mem_acceptances m) owner"

section \<open>Wake jobs\<close>

definition newWakeJob :: "host \<Rightarrow> string \<Rightarrow> time \<Rightarrow> ConsumerWakeJob" where
  "newWakeJob h owner now =
     \<lparr>wake_id = consumerCommitment h ''wake'' (JObj [(''owner'', JStr owner), (''at'', JStr (to_iso now))]),
      wake_owner = owner, wake_status_of = Wake_queued, wake_error = None, wake_created_at = now,
      wake_updated_at = now, wake_expires_at = now + 5 * 60000\<rparr>"

definition wake_pending :: "string \<Rightarrow> time \<Rightarrow> ConsumerWakeJob \<Rightarrow> bool" where
  "wake_pending owner now job \<longleftrightarrow> wake_owner job = owner \<and>
     (wake_status_of job = Wake_queued \<or> wake_status_of job = Wake_waking) \<and> wake_expires_at job > now"

definition enqueueConsumerWake ::
    "host \<Rightarrow> string \<Rightarrow> time \<Rightarrow> memory \<Rightarrow> ConsumerWakeJob \<times> memory" where
  "enqueueConsumerWake h owner now m =
     (case List.find (wake_pending owner now) (js_values (mem_wakeJobs m)) of
        Some existing \<Rightarrow> (existing, m)
      | None \<Rightarrow> let record = newWakeJob h owner now
          in (record, m\<lparr>mem_wakeJobs := js_set (mem_wakeJobs m) (wake_id record) record\<rparr>))"

definition getConsumerWakeJob :: "string \<Rightarrow> string \<Rightarrow> memory \<Rightarrow> ConsumerWakeJob option" where
  "getConsumerWakeJob wake_job_id owner m =
     (case js_get (mem_wakeJobs m) wake_job_id of
        Some job \<Rightarrow> if wake_owner job = owner then Some job else None
      | None \<Rightarrow> None)"

definition updateConsumerWakeJob ::
    "string \<Rightarrow> wake_status \<Rightarrow> string option \<Rightarrow> time \<Rightarrow> memory \<Rightarrow> memory" where
  "updateConsumerWakeJob wake_job_id status error now m =
     (case js_get (mem_wakeJobs m) wake_job_id of
        None \<Rightarrow> m
      | Some existing \<Rightarrow> m\<lparr>mem_wakeJobs := js_set (mem_wakeJobs m) wake_job_id
          (existing\<lparr>wake_status_of := status, wake_error := error, wake_updated_at := now\<rparr>)\<rparr>)"

section \<open>Risk policies\<close>

definition putConsumerRiskPolicy :: "stored_policy \<Rightarrow> memory \<Rightarrow> stored_policy \<times> memory" where
  "putConsumerRiskPolicy record m =
     (record, m\<lparr>mem_policies := js_set (mem_policies m) (rp_owner record) record\<rparr>)"

definition getConsumerRiskPolicy :: "string \<Rightarrow> memory \<Rightarrow> stored_policy option" where
  "getConsumerRiskPolicy owner m = js_get (mem_policies m) owner"

section \<open>The circuit breaker\<close>

definition getConsumerCircuitState :: "time \<Rightarrow> memory \<Rightarrow> ConsumerCircuitState" where
  "getConsumerCircuitState now m =
     (case mem_circuit m of
        Some c \<Rightarrow> c
      | None \<Rightarrow> \<lparr>circ_status = Circuit_open, circ_reasons = [], circ_halted_at = None,
          circ_resumed_at = None, circ_acknowledged_by = None, circ_green_canaries = num 0,
          circ_updated_at = now\<rparr>)"

definition haltConsumerCircuit :: "ConsumerCircuitReason list \<Rightarrow> string option \<Rightarrow> time \<Rightarrow> memory \<Rightarrow>
    ConsumerCircuitState \<times> memory" where
  "haltConsumerCircuit reasons acknowledged_by now m =
     (let current = getConsumerCircuitState now m;
          state = current\<lparr>circ_status := Circuit_halted,
            circ_reasons := js_uniq (circ_reasons current @ reasons),
            circ_halted_at := (case circ_halted_at current of None \<Rightarrow> Some now | t \<Rightarrow> t),
            circ_acknowledged_by :=
              (case acknowledged_by of None \<Rightarrow> circ_acknowledged_by current | a \<Rightarrow> a),
            circ_green_canaries := num 0, circ_updated_at := now\<rparr>
      in (state, m\<lparr>mem_circuit := Some state\<rparr>))"

definition resumeConsumerCircuit :: "string \<Rightarrow> jsnum \<Rightarrow> jsnum \<Rightarrow> time \<Rightarrow> memory \<Rightarrow>
    ConsumerCircuitState result \<times> memory" where
  "resumeConsumerCircuit acknowledged_by drift canaries now m =
     (if drift \<noteq> num 0 \<or> num_less canaries (num 2) \<or> js_trim acknowledged_by = []
      then (Inl ''circuit_resume_requirements_not_met'', m)
      else let state = \<lparr>circ_status = Circuit_open, circ_reasons = [], circ_halted_at = None,
                 circ_resumed_at = Some now, circ_acknowledged_by = Some acknowledged_by,
                 circ_green_canaries = canaries, circ_updated_at = now\<rparr>
        in (Inr state, m\<lparr>mem_circuit := Some state\<rparr>))"

end
