(* ===== verification/CrossVenueStore.thy ===== *)
theory CrossVenueStore imports CrossVenue ConsumerAccess
begin

text \<open>
  \<open>cross-venue-execution-store.ts\<close> (the in-memory store; \<open>memoryCritical\<close> runs one operation at a
  time) and the two routes that drive it: the submission of an execution and the ingestion of worker
  reports, which trips the consumer circuit breaker.
\<close>

section \<open>The store\<close>

record cross_store =
  cs_plans :: "(string, CrossVenueExecutionPlan) jsmap"
  cs_idempotency :: "(string, string) jsmap"

definition empty_cross_store :: cross_store where
  "empty_cross_store = \<lparr>cs_plans = [], cs_idempotency = []\<rparr>"

definition resetCrossVenueExecutionStoreForTests :: "cross_store \<Rightarrow> cross_store" where
  "resetCrossVenueExecutionStoreForTests s = s\<lparr>cs_plans := [], cs_idempotency := []\<rparr>"

datatype disposition = Created | Replayed | Conflict

text \<open>The risk budgets are compared as JSON texts; the route builds them with the same property order.\<close>

definition sameRequest :: "CrossVenueExecutionPlan \<Rightarrow> CrossVenueExecutionPlan \<Rightarrow> bool" where
  "sameRequest left right \<longleftrightarrow> pl_opportunity left = pl_opportunity right \<and>
     pl_notional left = pl_notional right \<and> pl_budget left = pl_budget right"

definition idempotency_entry :: "CrossVenueExecutionPlan \<Rightarrow> string" where
  "idempotency_entry plan = pl_owner plan @ '':'' @ pl_idempotency_key plan"

text \<open>An id without a plan cannot occur (\<open>memory.get(existingId)!\<close>); reading it would throw.\<close>

definition createStoredCrossVenueExecution :: "CrossVenueExecutionPlan \<Rightarrow> cross_store \<Rightarrow>
    (CrossVenueExecutionPlan \<times> disposition) result \<times> cross_store" where
  "createStoredCrossVenueExecution plan s =
     (let key = idempotency_entry plan;
          fresh = (return_ok (plan, Created),
            s\<lparr>cs_plans := js_set (cs_plans s) (pl_id plan) plan,
              cs_idempotency := js_set (cs_idempotency s) key (pl_id plan)\<rparr>)
      in case js_get (cs_idempotency s) key of
           None \<Rightarrow> fresh
         | Some existingId \<Rightarrow>
             if existingId = [] then fresh
             else case js_get (cs_plans s) existingId of
               None \<Rightarrow> (throw ''TypeError'', s)
             | Some existing \<Rightarrow>
                 (return_ok (existing, if sameRequest existing plan then Replayed else Conflict), s))"

definition getStoredCrossVenueExecution :: "string \<Rightarrow> string option \<Rightarrow> cross_store \<Rightarrow>
    CrossVenueExecutionPlan option" where
  "getStoredCrossVenueExecution i owner s =
     (case js_get (cs_plans s) i of
        None \<Rightarrow> None
      | Some plan \<Rightarrow> if \<not> given_text owner \<or> Some (pl_owner plan) = owner then Some plan else None)"

definition listStoredCrossVenueExecutions :: "string \<Rightarrow> int option \<Rightarrow> cross_store \<Rightarrow>
    CrossVenueExecutionPlan list" where
  "listStoredCrossVenueExecutions owner limit s =
     take (nat (max 1 (min 50 (case limit of None \<Rightarrow> 20 | Some l \<Rightarrow> l))))
       (sort_by (\<lambda>l r. pl_created_at r \<le> pl_created_at l)
         (filter (\<lambda>plan. pl_owner plan = owner) (js_values (cs_plans s))))"

definition active_statuses :: "CrossVenueExecutionStatus list" where
  "active_statuses = [Planned, Submitting, Legs_open, Unhedged, Partially_hedged, Hedging, Unwinding,
     Manual_intervention_required]"

definition hasActiveCrossVenueExposure :: "cross_store \<Rightarrow> bool" where
  "hasActiveCrossVenueExposure s \<longleftrightarrow>
     list_ex (\<lambda>plan. pl_status plan \<in> set active_statuses) (js_values (cs_plans s))"

record cross_health =
  ch_ready :: bool
  ch_overdue :: nat
  ch_oldest_age_ms :: int

definition getCrossVenueReconciliationHealth :: "time \<Rightarrow> cross_store \<Rightarrow> cross_health" where
  "getCrossVenueReconciliationHealth now s =
     (let active = tl active_statuses;
          pending = filter (\<lambda>plan. pl_status plan \<in> set active) (js_values (cs_plans s));
          ages = map (\<lambda>plan. max 0 (now - pl_updated_at plan)) pending;
          oldest = fold max ages 0
      in \<lparr>ch_ready = (oldest \<le> 60000), ch_overdue = length (filter (\<lambda>age. age > 60000) ages),
          ch_oldest_age_ms = oldest\<rparr>)"

text \<open>\<open>mutate\<close>: the plan under its owner, updated; an exception of the update leaves the store.\<close>

definition mutate :: "string \<Rightarrow> string \<Rightarrow> (CrossVenueExecutionPlan \<Rightarrow> CrossVenueExecutionPlan result) \<Rightarrow>
    cross_store \<Rightarrow> CrossVenueExecutionPlan option result \<times> cross_store" where
  "mutate i owner update s =
     (case js_get (cs_plans s) i of
        None \<Rightarrow> (return_ok None, s)
      | Some current \<Rightarrow>
          if pl_owner current \<noteq> owner then (return_ok None, s)
          else case update current of
            Inl e \<Rightarrow> (throw e, s)
          | Inr changed \<Rightarrow> (return_ok (Some changed),
              s\<lparr>cs_plans := js_set (cs_plans s) (pl_id changed) changed\<rparr>))"

definition submitting_update :: "string option \<Rightarrow> time \<Rightarrow> CrossVenueExecutionPlan \<Rightarrow> CrossVenueExecutionPlan" where
  "submitting_update receipt now current =
     (if pl_status current \<notin> {Planned, Submitting} then current
      else current\<lparr>pl_status := (if pl_status current = Planned then Submitting else pl_status current),
        pl_worker_receipt := (case receipt of None \<Rightarrow> pl_worker_receipt current | r \<Rightarrow> r),
        pl_updated_at := now\<rparr>)"

text \<open>The receipt is given as its JSON text; \<open>receiptCommitment\<close> hashes it.\<close>

definition receiptCommitment :: "host \<Rightarrow> string \<Rightarrow> string" where
  "receiptCommitment h text = ''consumer_worker_receipt_'' @ take 48 (sha256_hex h text)"

definition markCrossVenueExecutionSubmitting :: "host \<Rightarrow> string \<Rightarrow> string \<Rightarrow> string option \<Rightarrow> time \<Rightarrow>
    cross_store \<Rightarrow> CrossVenueExecutionPlan option result \<times> cross_store" where
  "markCrossVenueExecutionSubmitting h i owner receipt now s =
     mutate i owner (\<lambda>p. return_ok (submitting_update (map_option (receiptCommitment h) receipt) now p)) s"

definition applyStoredCrossVenueWorkerReport :: "host \<Rightarrow> string \<Rightarrow> string \<Rightarrow> CrossVenueWorkerReport \<Rightarrow>
    cross_store \<Rightarrow> CrossVenueExecutionPlan result \<times> cross_store" where
  "applyStoredCrossVenueWorkerReport h i owner report s =
     (case mutate i owner (\<lambda>p. applyCrossVenueWorkerReport h p report) s of
        (Inl e, s') \<Rightarrow> (throw e, s')
      | (Inr None, s') \<Rightarrow> (throw ''cross_venue_execution_not_found'', s')
      | (Inr (Some plan), s') \<Rightarrow> (return_ok plan, s'))"

definition cancelStoredCrossVenueExecution :: "string \<Rightarrow> string \<Rightarrow> time \<Rightarrow> cross_store \<Rightarrow>
    CrossVenueExecutionPlan option result \<times> cross_store" where
  "cancelStoredCrossVenueExecution i owner now s =
     mutate i owner (\<lambda>p. return_ok (requestCrossVenueCancellation p now)) s"

section \<open>The routes\<close>

text \<open>
  The answer of a route: an HTTP status and an error code (\<open>None\<close> for success). A clock reading is
  taken at each step; \<open>submit\<close> is what the worker answers: a receipt, or an error with its status.
\<close>

record route_answer =
  ans_status :: int
  ans_error :: "string option"

definition accepted_report :: "CrossVenueExecutionPlan \<Rightarrow> time \<Rightarrow> CrossVenueWorkerReport" where
  "accepted_report plan now =
     \<lparr>rep_sequence = num 1, rep_phase = Ph_accepted,
      rep_legs = map (\<lambda>leg. \<lparr>lr_id = leg_id leg, lr_status = Leg_pending, lr_fill = num 0, lr_reference = None\<rparr>)
        (pl_legs plan),
      rep_repairs = [], rep_slippage_bps = None, rep_unwind_loss = None, rep_daily_loss = None,
      rep_failure_code = None, rep_observed_at = Some now\<rparr>"

definition failed_report :: "string \<Rightarrow> time \<Rightarrow> CrossVenueWorkerReport" where
  "failed_report code now =
     \<lparr>rep_sequence = num 2, rep_phase = Ph_failed, rep_legs = [], rep_repairs = [],
      rep_slippage_bps = None, rep_unwind_loss = None, rep_daily_loss = None,
      rep_failure_code = Some code, rep_observed_at = Some now\<rparr>"

text \<open>From the stored plan on: \<open>route.ts\<close> of \<open>cross-venue/executions\<close>. The second component of the
  submission's error is the worker's HTTP status.\<close>

definition submit_created :: "host \<Rightarrow> CrossVenueExecutionPlan \<Rightarrow> (string \<times> int) + string \<Rightarrow> time \<Rightarrow>
    cross_store \<Rightarrow> memory \<Rightarrow> route_answer \<times> cross_store \<times> memory" where
  "submit_created h plan submit now s m =
     (let s1 = snd (markCrossVenueExecutionSubmitting h (pl_id plan) (pl_owner plan) None now s) in
      case applyStoredCrossVenueWorkerReport h (pl_id plan) (pl_owner plan) (accepted_report plan now) s1 of
        (Inl e, s2) \<Rightarrow> (\<lparr>ans_status = 503, ans_error = Some ''cross_venue_accept_state_conflict''\<rparr>, s2,
          snd (haltConsumerCircuit [Nonce_or_idempotency_violation]
            (Some ''system:cross_venue_accept_state_conflict'') now m))
      | (Inr acceptedPlan, s2) \<Rightarrow>
          (case submit of
             Inl (code, status) \<Rightarrow>
               (\<lparr>ans_status = (if status \<ge> 500 then 503 else 409), ans_error = Some code\<rparr>,
                snd (applyStoredCrossVenueWorkerReport h (pl_id plan) (pl_owner plan)
                  (failed_report code now) s2), m)
           | Inr receipt \<Rightarrow>
               (\<lparr>ans_status = 202, ans_error = None\<rparr>,
                snd (markCrossVenueExecutionSubmitting h (pl_id plan) (pl_owner plan) (Some receipt) now s2), m)))"

text \<open>The guards before: an open circuit, a key, and the cap of one to five USDC; the opportunity and
  its legs come from the fresh market bundle (\<open>pi_legs\<close>, \<open>pi_market\<close> of the input).\<close>

definition submitCrossVenueRoute :: "host \<Rightarrow> plan_input \<Rightarrow> (string \<times> int) + string \<Rightarrow> time \<Rightarrow>
    cross_store \<Rightarrow> memory \<Rightarrow> route_answer \<times> cross_store \<times> memory" where
  "submitCrossVenueRoute h inp submit now s m =
     (if circ_status (getConsumerCircuitState now m) \<noteq> Circuit_open
      then (\<lparr>ans_status = 503, ans_error = Some ''consumer_trading_halted''\<rparr>, s, m)
      else if \<not> valid_key (pi_idempotency_key inp)
      then (\<lparr>ans_status = 400, ans_error = Some ''idempotency_key_required''\<rparr>, s, m)
      else if \<not> is_safe_integer (pi_notional inp) \<or> num_int (pi_notional inp) < 1000000 \<or>
        num_int (pi_notional inp) > 5000000
      then (\<lparr>ans_status = 400, ans_error = Some ''matched_notional_outside_initial_1_to_5_usdc_cap''\<rparr>, s, m)
      else case createCrossVenueExecutionPlan h inp now of
        Inl e \<Rightarrow> (\<lparr>ans_status = 400, ans_error = Some e\<rparr>, s, m)
      | Inr plan \<Rightarrow>
          (case createStoredCrossVenueExecution plan s of
             (Inl e, s1) \<Rightarrow> (\<lparr>ans_status = 400, ans_error = Some e\<rparr>, s1, m)
           | (Inr (p, Conflict), s1) \<Rightarrow>
               (\<lparr>ans_status = 409, ans_error = Some ''idempotency_key_payload_conflict''\<rparr>, s1, m)
           | (Inr (p, Replayed), s1) \<Rightarrow> (\<lparr>ans_status = 200, ans_error = None\<rparr>, s1, m)
           | (Inr (p, Created), s1) \<Rightarrow> submit_created h plan submit now s1 m))"

definition halting_errors :: "string list" where
  "halting_errors = [''report_sequence_replay'', ''report_sequence_conflict'', ''filled_notional_regression'',
     ''filled_notional_exceeds_target'']"

text \<open>\<open>app/api/internal/cross-venue-reconciliation/route.ts\<close>, after the bearer check.\<close>

definition ingestReportRoute :: "host \<Rightarrow> string \<Rightarrow> string \<Rightarrow> CrossVenueWorkerReport option \<Rightarrow> time \<Rightarrow>
    cross_store \<Rightarrow> memory \<Rightarrow> route_answer \<times> cross_store \<times> memory" where
  "ingestReportRoute h executionId owner report now s m =
     (case report of
        None \<Rightarrow> (\<lparr>ans_status = 400, ans_error = Some ''execution_report_required''\<rparr>, s, m)
      | Some r \<Rightarrow>
          if executionId = [] \<or> owner = []
          then (\<lparr>ans_status = 400, ans_error = Some ''execution_report_required''\<rparr>, s, m)
          else case applyStoredCrossVenueWorkerReport h executionId owner r s of
            (Inl e, s1) \<Rightarrow>
              (\<lparr>ans_status = (if e = ''cross_venue_execution_not_found'' then 404 else 409), ans_error = Some e\<rparr>, s1,
               if e \<in> set halting_errors
               then snd (haltConsumerCircuit [Nonce_or_idempotency_violation]
                 (Some (''system:cross_venue:'' @ e)) now m) else m)
          | (Inr plan, s1) \<Rightarrow>
              (\<lparr>ans_status = 200, ans_error = None\<rparr>, s1,
               if pl_status plan = Manual_intervention_required
               then snd (haltConsumerCircuit [Cross_venue_unhedged_exposure]
                 (Some (''system:cross_venue:'' @ (if given_text (pl_failure_code plan)
                    then the (pl_failure_code plan) else ''manual''))) now m) else m))"

end
