(* ===== verification/ConsumerFunding.thy ===== *)
theory ConsumerFunding imports ConsumerStore
begin

text \<open>
  \<open>consumer-production-store.ts\<close>, part two: money in and out of the pooled account. Deposit
  intents and their confirmation, operator adjustments, and the life of a withdrawal (create,
  prepare, submit, cancel, status updates).
\<close>

section \<open>Deposits\<close>

record deposit_input =
  di_owner :: string
  di_account :: string
  di_rail :: ConsumerFundingRail
  di_expected_wallet :: "string option"
  di_amount :: jsnum
  di_idempotency_key :: string

definition deposit_intent_id :: "host \<Rightarrow> string \<Rightarrow> string \<Rightarrow> string" where
  "deposit_intent_id h owner key = consumerCommitment h ''deposit''
     (JObj [(''owner'', JStr owner), (''idempotency_key'', JStr key)])"

definition createConsumerDepositIntent ::
    "host \<Rightarrow> deposit_input \<Rightarrow> time \<Rightarrow> memory \<Rightarrow> ConsumerDepositIntent result \<times> memory" where
  "createConsumerDepositIntent h inp now m =
     (case positiveAmount (di_amount inp) of
        Inl e \<Rightarrow> (throw e, m)
      | Inr amount \<Rightarrow>
          let record = \<lparr>dep_id = deposit_intent_id h (di_owner inp) (di_idempotency_key inp),
                dep_owner = di_owner inp, dep_account = di_account inp, dep_rail = di_rail inp,
                dep_expected_wallet = di_expected_wallet inp, dep_amount = amount,
                dep_status = Dep_pending, dep_signature = None, dep_nullifier = None,
                dep_created_at = now, dep_expires_at = now + 30 * 60000, dep_confirmed_at = None\<rparr>
          in (return_ok record, m\<lparr>mem_deposits := js_set (mem_deposits m) (dep_id record) record\<rparr>))"

definition getConsumerDepositIntent :: "string \<Rightarrow> string \<Rightarrow> memory \<Rightarrow> ConsumerDepositIntent option" where
  "getConsumerDepositIntent rid owner m =
     (case js_get (mem_deposits m) rid of
        Some r \<Rightarrow> if dep_owner r = owner then Some r else None
      | None \<Rightarrow> None)"

text \<open>A string that is present and not empty counts as given evidence.\<close>

definition truthy :: "string option \<Rightarrow> bool" where
  "truthy s = (case s of None \<Rightarrow> False | Some t \<Rightarrow> t \<noteq> [])"

definition evidence_used :: "string option \<Rightarrow> string option \<Rightarrow> ConsumerDepositIntent \<Rightarrow>
    ConsumerDepositIntent \<Rightarrow> bool" where
  "evidence_used signature nullifier intent other \<longleftrightarrow>
     dep_id other \<noteq> dep_id intent \<and>
     (truthy signature \<and> dep_signature other = signature \<or>
      truthy nullifier \<and> dep_nullifier other = nullifier)"

definition confirmConsumerDeposit :: "host \<Rightarrow> string \<Rightarrow> string \<Rightarrow> string option \<Rightarrow> string option \<Rightarrow>
    time \<Rightarrow> memory \<Rightarrow> (ConsumerDepositIntent \<times> ConsumerBalanceSnapshot) outcome \<times> memory" where
  "confirmConsumerDeposit h rid owner signature nullifier now m =
     (case js_get (mem_deposits m) rid of
        None \<Rightarrow> (Denied ''deposit_intent_not_pending'', m)
      | Some intent \<Rightarrow>
          if dep_owner intent \<noteq> owner \<or> dep_status intent \<noteq> Dep_pending
          then (Denied ''deposit_intent_not_pending'', m)
          else if list_ex (evidence_used signature nullifier intent) (js_values (mem_deposits m))
          then (Denied ''deposit_evidence_already_used'', m)
          else
            let confirmed = intent\<lparr>dep_status := Dep_confirmed, dep_signature := signature,
                  dep_nullifier := nullifier, dep_confirmed_at := Some now\<rparr>;
                m1 = m\<lparr>mem_deposits := js_set (mem_deposits m) (dep_id intent) confirmed\<rparr>;
                balance = memoryBalance (dep_owner intent) (dep_account intent) m1;
                updated = balance\<lparr>bal_available := bal_available balance + dep_amount intent,
                  bal_updated_at := Some now\<rparr>;
                m2 = set_balance (dep_account intent) updated m1
            in case balancedPostings [posting Treasury_usdc Debit (dep_amount intent),
                      posting Consumer_available Credit (dep_amount intent)] of
                 Inl e \<Rightarrow> (Threw e, m2)
               | Inr ps \<Rightarrow> (Done (confirmed, updated),
                   putMemoryLedger h (dep_owner intent) (dep_account intent) Deposit_credit
                     (''deposit:'' @ dep_id intent) (dep_id intent) ps now m2))"

section \<open>Operator adjustments\<close>

definition adjustment_key :: "host \<Rightarrow> string \<Rightarrow> string" where
  "adjustment_key h incident = ''adjustment:'' @ consumerCommitment h ''incident'' (JStr incident)"

definition adjustment_postings :: "int \<Rightarrow> ConsumerLedgerPosting list result" where
  "adjustment_postings delta =
     balancedPostings (if delta > 0
       then [posting Treasury_usdc Debit \<bar>delta\<bar>, posting Consumer_available Credit \<bar>delta\<bar>]
       else [posting Consumer_available Debit \<bar>delta\<bar>, posting Treasury_usdc Credit \<bar>delta\<bar>])"

definition createConsumerBalanceAdjustment :: "host \<Rightarrow> string \<Rightarrow> string \<Rightarrow> jsnum \<Rightarrow> string \<Rightarrow> time \<Rightarrow>
    memory \<Rightarrow> (ConsumerBalanceSnapshot \<times> string) outcome \<times> memory" where
  "createConsumerBalanceAdjustment h owner account delta_micro_usdc incident now m =
     (if \<not> is_safe_integer delta_micro_usdc \<or> num_int delta_micro_usdc = 0
      then (Threw ''adjustment_delta_invalid'', m)
      else let delta = num_int delta_micro_usdc;
               transactionId = consumerCommitment h ''adjustment''
                 (JObj [(''incident'', JStr incident), (''account'', JStr account)]);
               key = adjustment_key h incident
        in case adjustment_postings delta of
             Inl e \<Rightarrow> (Threw e, m)
           | Inr ps \<Rightarrow>
               if js_has (mem_ledger m) key then (Denied ''duplicate_incident_adjustment'', m)
               else let current = memoryBalance owner account m in
                 if bal_available current + delta < 0
                 then (Denied ''insufficient_available_balance'', m)
                 else let balance = current\<lparr>bal_available := bal_available current + delta,
                            bal_updated_at := Some now\<rparr>
                   in (Done (balance, transactionId),
                       putMemoryLedger h owner account Operator_adjustment key transactionId ps now
                         (set_balance account balance m)))"

section \<open>Withdrawals\<close>

record withdrawal_input =
  wi_owner :: string
  wi_account :: string
  wi_idempotency_key :: string
  wi_destination :: string
  wi_amount :: jsnum

definition withdrawal_id :: "host \<Rightarrow> string \<Rightarrow> string \<Rightarrow> string" where
  "withdrawal_id h account key = consumerCommitment h ''withdrawal''
     (JObj [(''account'', JStr account), (''key'', JStr key)])"

definition put_withdrawal :: "string \<Rightarrow> ConsumerWithdrawal \<Rightarrow> memory \<Rightarrow> memory" where
  "put_withdrawal rid w m = m\<lparr>mem_withdrawals := js_set (mem_withdrawals m) rid w\<rparr>"

definition createConsumerWithdrawal :: "host \<Rightarrow> withdrawal_input \<Rightarrow> time \<Rightarrow> memory \<Rightarrow>
    (ConsumerWithdrawal \<times> ConsumerBalanceSnapshot) outcome \<times> memory" where
  "createConsumerWithdrawal h inp now m =
     (case positiveAmount (wi_amount inp) of
        Inl e \<Rightarrow> (Threw e, m)
      | Inr amount \<Rightarrow>
          let withdrawal = \<lparr>wd_id = withdrawal_id h (wi_account inp) (wi_idempotency_key inp),
                wd_owner = wi_owner inp, wd_account = wi_account inp,
                wd_idempotency_key = wi_idempotency_key inp, wd_destination = wi_destination inp,
                wd_amount = amount, wd_status = Wd_queued, wd_signature = None, wd_message = None,
                wd_prepared_expires_at = None, wd_created_at = now, wd_updated_at = now\<rparr>
          in case balancedPostings [posting Consumer_available Debit amount,
                    posting Treasury_usdc Credit amount] of
               Inl e \<Rightarrow> (Threw e, m)
             | Inr ps \<Rightarrow>
                 if js_has (mem_withdrawals m) (wd_id withdrawal)
                 then (Denied ''duplicate_idempotency_key'', m)
                 else let balance = memoryBalance (wi_owner inp) (wi_account inp) m in
                   if bal_available balance < amount
                   then (Denied ''insufficient_available_balance'', m)
                   else let updated = balance\<lparr>bal_available := bal_available balance - amount,
                              bal_updated_at := Some now\<rparr>
                     in (Done (withdrawal, updated),
                         putMemoryLedger h (wi_owner inp) (wi_account inp) Withdrawal_debit
                           (''withdrawal:'' @ wi_idempotency_key inp) (wd_id withdrawal) ps now
                           (put_withdrawal (wd_id withdrawal) withdrawal
                              (set_balance (wi_account inp) updated m))))"

definition getConsumerWithdrawal :: "string \<Rightarrow> string option \<Rightarrow> memory \<Rightarrow> ConsumerWithdrawal option" where
  "getConsumerWithdrawal rid owner m =
     (case js_get (mem_withdrawals m) rid of
        Some r \<Rightarrow> if \<not> truthy owner \<or> Some (wd_owner r) = owner then Some r else None
      | None \<Rightarrow> None)"

definition prepareConsumerWithdrawal :: "string \<Rightarrow> string \<Rightarrow> string \<Rightarrow> time \<Rightarrow> time \<Rightarrow> memory \<Rightarrow>
    ConsumerWithdrawal option \<times> memory" where
  "prepareConsumerWithdrawal rid owner message expires_at now m =
     (case js_get (mem_withdrawals m) rid of
        None \<Rightarrow> (None, m)
      | Some current \<Rightarrow>
          if wd_owner current \<noteq> owner \<or> wd_status current \<notin> {Wd_queued, Wd_prepared} then (None, m)
          else let updated = current\<lparr>wd_status := Wd_prepared, wd_message := Some message,
                     wd_prepared_expires_at := Some expires_at, wd_updated_at := now\<rparr>
            in (Some updated, put_withdrawal rid updated m))"

definition submitPreparedConsumerWithdrawal :: "string \<Rightarrow> string \<Rightarrow> string \<Rightarrow> string \<Rightarrow> time \<Rightarrow> memory \<Rightarrow>
    ConsumerWithdrawal option \<times> memory" where
  "submitPreparedConsumerWithdrawal rid owner message signature now m =
     (case js_get (mem_withdrawals m) rid of
        None \<Rightarrow> (None, m)
      | Some current \<Rightarrow>
          if wd_owner current \<noteq> owner \<or> wd_status current \<noteq> Wd_prepared \<or>
             wd_message current \<noteq> Some message \<or>
             (case wd_prepared_expires_at current of None \<Rightarrow> True | Some t \<Rightarrow> t \<le> now)
          then (None, m)
          else let updated = current\<lparr>wd_status := Wd_submitted, wd_signature := Some signature,
                     wd_updated_at := now\<rparr>
            in (Some updated, put_withdrawal rid updated m))"

definition cancelConsumerWithdrawal ::
    "host \<Rightarrow> string \<Rightarrow> string \<Rightarrow> time \<Rightarrow> memory \<Rightarrow> ConsumerWithdrawal option result \<times> memory" where
  "cancelConsumerWithdrawal h rid owner now m =
     (case js_get (mem_withdrawals m) rid of
        None \<Rightarrow> (return_ok None, m)
      | Some current \<Rightarrow>
          if wd_owner current \<noteq> owner \<or> wd_status current \<notin> {Wd_queued, Wd_prepared}
          then (return_ok None, m)
          else let balance = memoryBalance (wd_owner current) (wd_account current) m;
                   m1 = set_balance (wd_account current)
                     (balance\<lparr>bal_available := bal_available balance + wd_amount current,
                       bal_updated_at := Some now\<rparr>) m;
                   updated = current\<lparr>wd_status := Wd_cancelled, wd_updated_at := now\<rparr>;
                   m2 = put_withdrawal rid updated m1
            in case balancedPostings [posting Treasury_usdc Debit (wd_amount current),
                      posting Consumer_available Credit (wd_amount current)] of
                 Inl e \<Rightarrow> (throw e, m2)
               | Inr ps \<Rightarrow> (return_ok (Some updated),
                   putMemoryLedger h (wd_owner current) (wd_account current) Withdrawal_release
                     (''withdrawal_release:'' @ wd_id current) (wd_id current) ps now m2))"

definition validWithdrawalTransition :: "withdrawal_status \<Rightarrow> withdrawal_status \<Rightarrow> bool" where
  "validWithdrawalTransition from_status to_status \<longleftrightarrow>
     (case to_status of
        Wd_submitted \<Rightarrow> from_status = Wd_queued
      | Wd_finalized \<Rightarrow> from_status = Wd_submitted
      | Wd_failed_review \<Rightarrow> from_status = Wd_queued \<or> from_status = Wd_submitted
      | _ \<Rightarrow> False)"

definition updateConsumerWithdrawalStatus :: "string \<Rightarrow> withdrawal_status \<Rightarrow> string option \<Rightarrow> time \<Rightarrow>
    memory \<Rightarrow> ConsumerWithdrawal option \<times> memory" where
  "updateConsumerWithdrawalStatus rid status signature now m =
     (case js_get (mem_withdrawals m) rid of
        None \<Rightarrow> (None, m)
      | Some current \<Rightarrow>
          if \<not> validWithdrawalTransition (wd_status current) status then (None, m)
          else let updated = current\<lparr>wd_status := status,
                     wd_signature := (case signature of None \<Rightarrow> wd_signature current | s \<Rightarrow> s),
                     wd_updated_at := now\<rparr>
            in (Some updated, put_withdrawal rid updated m))"

end
