(* ===== verification/ConsumerOrders.thy ===== *)
theory ConsumerOrders imports ConsumerFunding
begin

text \<open>
  \<open>consumer-production-store.ts\<close>, part three: an order's money. A reservation moves funds from
  available to reserved, is released or submitted, becomes a venue order, and is settled by the
  reconciliation of the fill.
\<close>

section \<open>Reservations\<close>

record reserve_input =
  ri_owner :: string
  ri_account :: string
  ri_idempotency_key :: string
  ri_venue :: consumer_venue
  ri_notional :: jsnum
  ri_fee :: jsnum
  ri_venue_cost :: "jsnum option"
  ri_max_daily :: "int option"
  ri_max_position :: "int option"
  ri_ttl_ms :: "int option"

definition reservation_id :: "host \<Rightarrow> string \<Rightarrow> string \<Rightarrow> string" where
  "reservation_id h account key = consumerCommitment h ''reservation''
     (JObj [(''account'', JStr account), (''key'', JStr key)])"

definition put_reservation :: "string \<Rightarrow> ConsumerBalanceReservation \<Rightarrow> memory \<Rightarrow> memory" where
  "put_reservation rid r m = m\<lparr>mem_reservations := js_set (mem_reservations m) rid r\<rparr>"

definition daily_notional :: "string \<Rightarrow> time \<Rightarrow> memory \<Rightarrow> int" where
  "daily_notional owner now m =
     (\<Sum>r\<leftarrow>filter (\<lambda>r. res_owner r = owner \<and> res_status r \<noteq> Released \<and> res_status r \<noteq> Res_expired \<and>
               res_created_at r > now - 86400000) (js_values (mem_reservations m)). res_notional r)"

text \<open>A limit that is \<open>undefined\<close> or 0 is not applied (\<open>if (limit && ...)\<close>).\<close>

definition over_limit :: "int option \<Rightarrow> int \<Rightarrow> bool" where
  "over_limit limit v = (case limit of None \<Rightarrow> False | Some l \<Rightarrow> l \<noteq> 0 \<and> v > l)"

definition reserveConsumerBalance :: "host \<Rightarrow> reserve_input \<Rightarrow> time \<Rightarrow> memory \<Rightarrow>
    (ConsumerBalanceReservation \<times> ConsumerBalanceSnapshot) outcome \<times> memory" where
  "reserveConsumerBalance h inp now m =
     (case and_then (positiveAmount (ri_notional inp)) (\<lambda>notional.
           and_then (positiveAmount (ri_fee inp)) (\<lambda>fee.
           and_then (case ri_venue_cost inp of None \<Rightarrow> Inr 0 | Some v \<Rightarrow> nonnegativeAmount v) (\<lambda>venueCost.
           and_then (balancedPostings [posting Consumer_available Debit (notional + fee + venueCost),
                       posting Consumer_reserved Credit (notional + fee + venueCost)]) (\<lambda>ps.
             Inr (notional, fee, venueCost, ps))))) of
        Inl e \<Rightarrow> (Threw e, m)
      | Inr (notional, fee, venueCost, ps) \<Rightarrow>
          let reserved = notional + fee + venueCost;
              reservation = \<lparr>res_id = reservation_id h (ri_account inp) (ri_idempotency_key inp),
                res_owner = ri_owner inp, res_account = ri_account inp,
                res_idempotency_key = ri_idempotency_key inp, res_venue = ri_venue inp,
                res_notional = notional, res_venue_cost = venueCost, res_fee = fee,
                res_reserved = reserved, res_status = Reserved, res_created_at = now,
                res_expires_at = now + (case ri_ttl_ms inp of None \<Rightarrow> 10 * 60000 | Some t \<Rightarrow> t),
                res_updated_at = now\<rparr>
          in if js_has (mem_reservations m) (res_id reservation)
             then (Denied ''duplicate_idempotency_key'', m)
             else let balance = memoryBalance (ri_owner inp) (ri_account inp) m in
               if bal_available balance < reserved
               then (Denied ''insufficient_available_balance'', m)
               else if over_limit (ri_max_daily inp) (daily_notional (ri_owner inp) now m + notional)
               then (Denied ''insufficient_available_balance'', m)
               else if over_limit (ri_max_position inp) (bal_open_notional balance + notional)
               then (Denied ''insufficient_available_balance'', m)
               else let updated = balance\<lparr>bal_available := bal_available balance - reserved,
                          bal_reserved := bal_reserved balance + reserved, bal_updated_at := Some now\<rparr>
                 in (Done (reservation, updated),
                     putMemoryLedger h (ri_owner inp) (ri_account inp) Order_reservation
                       (ri_idempotency_key inp) (res_id reservation) ps now
                       (put_reservation (res_id reservation) reservation
                          (set_balance (ri_account inp) updated m))))"

definition releaseConsumerReservation ::
    "host \<Rightarrow> string \<Rightarrow> string \<Rightarrow> time \<Rightarrow> memory \<Rightarrow> bool result \<times> memory" where
  "releaseConsumerReservation h rid owner now m =
     (case js_get (mem_reservations m) rid of
        None \<Rightarrow> (return_ok False, m)
      | Some reservation \<Rightarrow>
          if res_owner reservation \<noteq> owner \<or> res_status reservation \<noteq> Reserved
          then (return_ok False, m)
          else let balance = memoryBalance (res_owner reservation) (res_account reservation) m;
                   updated = balance\<lparr>bal_available := bal_available balance + res_reserved reservation,
                     bal_reserved := max 0 (bal_reserved balance - res_reserved reservation),
                     bal_updated_at := Some now\<rparr>;
                   m1 = set_balance (res_account reservation) updated m;
                   m2 = put_reservation (res_id reservation)
                     (reservation\<lparr>res_status := Released, res_updated_at := now\<rparr>) m1
            in case balancedPostings [posting Consumer_reserved Debit (res_reserved reservation),
                      posting Consumer_available Credit (res_reserved reservation)] of
                 Inl e \<Rightarrow> (throw e, m2)
               | Inr ps \<Rightarrow> (return_ok True,
                   putMemoryLedger h (res_owner reservation) (res_account reservation)
                     Reservation_release (''release:'' @ res_idempotency_key reservation)
                     (res_id reservation) ps now m2))"

definition markConsumerReservationSubmitted ::
    "string \<Rightarrow> string \<Rightarrow> time \<Rightarrow> memory \<Rightarrow> bool \<times> memory" where
  "markConsumerReservationSubmitted rid owner now m =
     (case js_get (mem_reservations m) rid of
        None \<Rightarrow> (False, m)
      | Some existing \<Rightarrow>
          if res_owner existing \<noteq> owner \<or> res_status existing \<noteq> Reserved then (False, m)
          else (True, put_reservation rid
                 (existing\<lparr>res_status := Res_submitted, res_updated_at := now\<rparr>) m))"

section \<open>Venue orders\<close>

definition venue_order_id :: "host \<Rightarrow> string \<Rightarrow> string" where
  "venue_order_id h reservation = consumerCommitment h ''venue_order'' (JStr reservation)"

definition venueOrderFromReservation :: "host \<Rightarrow> ConsumerBalanceReservation \<Rightarrow> string \<Rightarrow> string \<Rightarrow>
    json \<Rightarrow> time \<Rightarrow> ConsumerVenueOrder" where
  "venueOrderFromReservation h reservation market work_order worker_receipt now =
     \<lparr>ord_id = venue_order_id h (res_id reservation), ord_reservation = res_id reservation,
      ord_owner = res_owner reservation, ord_account = res_account reservation,
      ord_venue = res_venue reservation, ord_market = market, ord_work_order = work_order,
      ord_worker_receipt = consumerCommitment h ''worker_receipt'' worker_receipt,
      ord_status = Ord_submitted, ord_submitted_at = now, ord_reconciled_at = None\<rparr>"

definition recordConsumerVenueOrder :: "host \<Rightarrow> string \<Rightarrow> string \<Rightarrow> string \<Rightarrow> string \<Rightarrow> json \<Rightarrow> time \<Rightarrow>
    memory \<Rightarrow> ConsumerVenueOrder option \<times> memory" where
  "recordConsumerVenueOrder h rid owner market work_order worker_receipt now m =
     (case js_get (mem_reservations m) rid of
        None \<Rightarrow> (None, m)
      | Some reservation \<Rightarrow>
          if res_owner reservation \<noteq> owner \<or> res_status reservation \<noteq> Res_submitted then (None, m)
          else case js_get (mem_venueOrders m) (venue_order_id h rid) of
                 Some existing \<Rightarrow> (Some existing, m)
               | None \<Rightarrow>
                   let order = venueOrderFromReservation h reservation market work_order worker_receipt now
                   in (Some order, m\<lparr>mem_venueOrders := js_set (mem_venueOrders m) (ord_id order) order\<rparr>))"

definition getConsumerVenueOrder :: "string \<Rightarrow> string option \<Rightarrow> memory \<Rightarrow> ConsumerVenueOrder option" where
  "getConsumerVenueOrder rid owner m =
     (case js_get (mem_venueOrders m) rid of
        Some r \<Rightarrow> if \<not> truthy owner \<or> Some (ord_owner r) = owner then Some r else None
      | None \<Rightarrow> None)"

definition getConsumerReconciliationCheckpoint ::
    "string \<Rightarrow> string \<Rightarrow> memory \<Rightarrow> ConsumerReconciliationCheckpoint option" where
  "getConsumerReconciliationCheckpoint rid owner m =
     (case getConsumerVenueOrder rid (Some owner) m of
        None \<Rightarrow> None
      | Some _ \<Rightarrow> js_get (mem_reconciliation m) rid)"

section \<open>Reconciliation\<close>

record reconcile_input =
  rec_order :: string
  rec_fill_reference :: string
  rec_filled :: jsnum
  rec_venue_cost :: jsnum
  rec_fee :: jsnum
  rec_final_status :: order_status
  rec_filled_at :: time

definition newVenueFill :: "host \<Rightarrow> ConsumerVenueOrder \<Rightarrow> int \<Rightarrow> int \<Rightarrow> string \<Rightarrow> int \<Rightarrow> time \<Rightarrow>
    ConsumerVenueFill" where
  "newVenueFill h order filled venueCost reference gholaFee filled_at =
     \<lparr>fill_id = consumerCommitment h ''venue_fill''
        (JObj [(''order'', JStr (ord_id order)), (''reference'', JStr reference)]),
      fill_order = ord_id order, fill_reference = reference, fill_notional = filled,
      fill_venue_cost = venueCost, fill_fee = gholaFee, fill_filled_at = filled_at\<rparr>"

definition newReconciliationCheckpoint ::
    "host \<Rightarrow> ConsumerVenueOrder \<Rightarrow> time \<Rightarrow> ConsumerReconciliationCheckpoint" where
  "newReconciliationCheckpoint h order now =
     \<lparr>chk_id = consumerCommitment h ''reconciliation'' (JStr (ord_id order)),
      chk_order = ord_id order, chk_reservation = ord_reservation order, chk_drift = 0,
      chk_reconciled_at = now\<rparr>"

record reconcile_output =
  out_order :: ConsumerVenueOrder
  out_fill :: "ConsumerVenueFill option"
  out_checkpoint :: ConsumerReconciliationCheckpoint
  out_balance :: ConsumerBalanceSnapshot

definition settled_balance :: "ConsumerBalanceSnapshot \<Rightarrow> int \<Rightarrow> int \<Rightarrow> int \<Rightarrow> time \<Rightarrow>
    ConsumerBalanceSnapshot" where
  "settled_balance prior unused reserved filled now =
     prior\<lparr>bal_available := bal_available prior + unused,
       bal_reserved := bal_reserved prior - reserved,
       bal_open_notional := bal_open_notional prior + filled, bal_updated_at := Some now\<rparr>"

definition settle_order :: "host \<Rightarrow> reconcile_input \<Rightarrow> int \<Rightarrow> int \<Rightarrow> int \<Rightarrow> ConsumerVenueOrder \<Rightarrow>
    ConsumerBalanceReservation \<Rightarrow> time \<Rightarrow> memory \<Rightarrow> reconcile_output outcome \<times> memory" where
  "settle_order h inp filled venueCost gholaFee order reservation now m =
     (let unused = res_reserved reservation - (filled + venueCost + gholaFee);
          prior = memoryBalance (res_owner reservation) (res_account reservation) m;
          balance = settled_balance prior unused (res_reserved reservation) filled now;
          m1 = set_balance (ord_account order) balance m;
          m2 = put_reservation (res_id reservation)
            (reservation\<lparr>res_status := Settled, res_updated_at := now\<rparr>) m1;
          reconciledOrder = order\<lparr>ord_status := rec_final_status inp, ord_reconciled_at := Some now\<rparr>;
          m3 = m2\<lparr>mem_venueOrders := js_set (mem_venueOrders m2) (ord_id order) reconciledOrder\<rparr>;
          fill = (if filled > 0 then Some (newVenueFill h order filled venueCost
              (consumerCommitment h ''venue_fill_reference'' (JStr (rec_fill_reference inp)))
              gholaFee (rec_filled_at inp)) else None);
          m4 = (case fill of None \<Rightarrow> m3
            | Some f \<Rightarrow> m3\<lparr>mem_venueFills := js_set (mem_venueFills m3) (fill_id f) f\<rparr>);
          checkpoint = newReconciliationCheckpoint h order now;
          m5 = m4\<lparr>mem_reconciliation := js_set (mem_reconciliation m4) (ord_id order) checkpoint\<rparr>
      in case settlementPostings (res_reserved reservation) filled venueCost gholaFee of
           Inl e \<Rightarrow> (Threw e, m5)
         | Inr ps \<Rightarrow> (Done \<lparr>out_order = reconciledOrder, out_fill = fill,
               out_checkpoint = checkpoint, out_balance = balance\<rparr>,
             putMemoryLedger h (res_owner reservation) (res_account reservation) Fill_settlement
               (''settle:'' @ ord_id order) (ord_id order) ps now m5))"

definition reconcileConsumerVenueOrder ::
    "host \<Rightarrow> reconcile_input \<Rightarrow> time \<Rightarrow> memory \<Rightarrow> reconcile_output outcome \<times> memory" where
  "reconcileConsumerVenueOrder h inp now m =
     (case and_then (nonnegativeAmount (rec_filled inp)) (\<lambda>filled.
           and_then (nonnegativeAmount (rec_venue_cost inp)) (\<lambda>venueCost.
           and_then (nonnegativeAmount (rec_fee inp)) (\<lambda>gholaFee. Inr (filled, venueCost, gholaFee)))) of
        Inl e \<Rightarrow> (Threw e, m)
      | Inr (filled, venueCost, gholaFee) \<Rightarrow>
          if filled = 0 \<and> gholaFee \<noteq> 0 then (Denied ''unfilled_fee_forbidden'', m)
          else case js_get (mem_venueOrders m) (rec_order inp) of
            None \<Rightarrow> (Denied ''venue_order_not_found'', m)
          | Some order \<Rightarrow>
              if ord_reconciled_at order \<noteq> None \<or> js_has (mem_reconciliation m) (ord_id order)
              then (Denied ''already_reconciled'', m)
              else case js_get (mem_reservations m) (ord_reservation order) of
                None \<Rightarrow> (Denied ''already_reconciled'', m)
              | Some reservation \<Rightarrow>
                  if res_status reservation \<noteq> Res_submitted then (Denied ''already_reconciled'', m)
                  else if filled + venueCost + gholaFee > res_reserved reservation
                  then (Denied ''settlement_exceeds_reservation'', m)
                  else settle_order h inp filled venueCost gholaFee order reservation now m)"

section \<open>Read operations\<close>

definition hasActiveConsumerExposure :: "memory \<Rightarrow> bool" where
  "hasActiveConsumerExposure m \<longleftrightarrow>
     list_ex (\<lambda>r. res_status r = Reserved \<or> res_status r = Res_submitted) (js_values (mem_reservations m)) \<or>
     list_ex (\<lambda>w. wd_status w \<in> {Wd_queued, Wd_prepared, Wd_dispatching, Wd_submitted, Wd_failed_review})
       (js_values (mem_withdrawals m))"

record reconciliation_health =
  rh_ready :: bool
  rh_overdue :: nat
  rh_oldest_age_ms :: int

definition getConsumerReconciliationHealth :: "time \<Rightarrow> memory \<Rightarrow> reconciliation_health" where
  "getConsumerReconciliationHealth now m =
     (let pending = filter (\<lambda>vo. ord_reconciled_at vo = None) (js_values (mem_venueOrders m));
          oldest = fold (\<lambda>vo v. max v (now - ord_submitted_at vo)) pending 0
      in \<lparr>rh_ready = (oldest \<le> 60000),
          rh_overdue = length (filter (\<lambda>vo. now - ord_submitted_at vo > 60000) pending),
          rh_oldest_age_ms = oldest\<rparr>)"

definition listConsumerLedger :: "string \<Rightarrow> string \<Rightarrow> int option \<Rightarrow> memory \<Rightarrow>
    ConsumerLedgerTransaction list" where
  "listConsumerLedger owner account limit m =
     take (nat (max 1 (min 250 (case limit of None \<Rightarrow> 100 | Some l \<Rightarrow> l))))
       (sort_by (\<lambda>l r. led_created_at r \<le> led_created_at l)
         (filter (\<lambda>i. led_owner i = owner \<and> led_account i = account) (js_values (mem_ledger m))))"

end
