(* ===== verification/ConsumerInvariant.thy ===== *)
theory ConsumerInvariant imports ConsumerOrders
begin

text \<open>
  The invariant of the consumer store's money: what the balances, the reservations, the orders, the
  withdrawals, the deposits and the ledger say together. Each operation of \<open>ConsumerFunding\<close> and
  \<open>ConsumerOrders\<close> keeps it (the collection \<open>inv_rules\<close>).
\<close>

named_theorems inv_rules \<open>operations that keep the money invariant\<close>

section \<open>An account's numbers\<close>

definition avail_of :: "string \<Rightarrow> memory \<Rightarrow> int" where
  "avail_of a m = (case js_get (mem_balances m) a of None \<Rightarrow> 0 | Some b \<Rightarrow> bal_available b)"

definition reserved_of :: "string \<Rightarrow> memory \<Rightarrow> int" where
  "reserved_of a m = (case js_get (mem_balances m) a of None \<Rightarrow> 0 | Some b \<Rightarrow> bal_reserved b)"

definition open_of :: "string \<Rightarrow> memory \<Rightarrow> int" where
  "open_of a m = (case js_get (mem_balances m) a of None \<Rightarrow> 0 | Some b \<Rightarrow> bal_open_notional b)"

lemma memoryBalance_numbers [simp]:
  "bal_available (memoryBalance u a m) = avail_of a m"
  "bal_reserved (memoryBalance u a m) = reserved_of a m"
  "bal_open_notional (memoryBalance u a m) = open_of a m"
  by (simp_all add: memoryBalance_def avail_of_def reserved_of_def open_of_def split: option.splits)

lemma set_balance_numbers [simp]:
  "avail_of a (set_balance c b m) = (if a = c then bal_available b else avail_of a m)"
  "reserved_of a (set_balance c b m) = (if a = c then bal_reserved b else reserved_of a m)"
  "open_of a (set_balance c b m) = (if a = c then bal_open_notional b else open_of a m)"
  by (simp_all add: set_balance_def avail_of_def reserved_of_def open_of_def)

lemma numbers_depend:
  "mem_balances m' = mem_balances m \<Longrightarrow> avail_of a m' = avail_of a m"
  "mem_balances m' = mem_balances m \<Longrightarrow> reserved_of a m' = reserved_of a m"
  "mem_balances m' = mem_balances m \<Longrightarrow> open_of a m' = open_of a m"
  by (simp_all add: avail_of_def reserved_of_def open_of_def)

lemma ledger_frame [simp]:
  "mem_balances (putMemoryLedger h ow a k key ref ps now m) = mem_balances m"
  "mem_reservations (putMemoryLedger h ow a k key ref ps now m) = mem_reservations m"
  "mem_withdrawals (putMemoryLedger h ow a k key ref ps now m) = mem_withdrawals m"
  "mem_deposits (putMemoryLedger h ow a k key ref ps now m) = mem_deposits m"
  "mem_venueOrders (putMemoryLedger h ow a k key ref ps now m) = mem_venueOrders m"
  "mem_reconciliation (putMemoryLedger h ow a k key ref ps now m) = mem_reconciliation m"
  by (simp_all add: putMemoryLedger_def Let_def)

lemma put_frame [simp]:
  "mem_balances (put_reservation i r m) = mem_balances m"
  "mem_withdrawals (put_reservation i r m) = mem_withdrawals m"
  "mem_deposits (put_reservation i r m) = mem_deposits m"
  "mem_venueOrders (put_reservation i r m) = mem_venueOrders m"
  "mem_ledger (put_reservation i r m) = mem_ledger m"
  "mem_reconciliation (put_reservation i r m) = mem_reconciliation m"
  "mem_reservations (put_reservation i r m) = js_set (mem_reservations m) i r"
  "mem_balances (put_withdrawal i w m) = mem_balances m"
  "mem_reservations (put_withdrawal i w m) = mem_reservations m"
  "mem_deposits (put_withdrawal i w m) = mem_deposits m"
  "mem_venueOrders (put_withdrawal i w m) = mem_venueOrders m"
  "mem_ledger (put_withdrawal i w m) = mem_ledger m"
  "mem_reconciliation (put_withdrawal i w m) = mem_reconciliation m"
  "mem_withdrawals (put_withdrawal i w m) = js_set (mem_withdrawals m) i w"
  "mem_reservations (set_balance c b m) = mem_reservations m"
  "mem_withdrawals (set_balance c b m) = mem_withdrawals m"
  "mem_deposits (set_balance c b m) = mem_deposits m"
  "mem_venueOrders (set_balance c b m) = mem_venueOrders m"
  "mem_ledger (set_balance c b m) = mem_ledger m"
  "mem_reconciliation (set_balance c b m) = mem_reconciliation m"
  "mem_balances (set_balance c b m) = js_set (mem_balances m) c b"
  by (simp_all add: put_reservation_def put_withdrawal_def set_balance_def)

section \<open>The parts of the invariant\<close>

definition is_open :: "ConsumerBalanceReservation \<Rightarrow> bool" where
  "is_open r \<longleftrightarrow> res_status r = Reserved \<or> res_status r = Res_submitted"

definition open_weight :: "string \<Rightarrow> ConsumerBalanceReservation \<Rightarrow> int" where
  "open_weight a r = (if res_account r = a \<and> is_open r then res_reserved r else 0)"

text \<open>What the reservations that are neither settled nor released hold of an account.\<close>

definition open_reserved :: "string \<Rightarrow> memory \<Rightarrow> int" where
  "open_reserved a m = (\<Sum>r\<leftarrow>js_values (mem_reservations m). open_weight a r)"

definition amount_ok :: "int \<Rightarrow> bool" where
  "amount_ok n \<longleftrightarrow> 0 < n \<and> n \<le> max_safe"

definition reservation_ok :: "string \<Rightarrow> ConsumerBalanceReservation \<Rightarrow> bool" where
  "reservation_ok k r \<longleftrightarrow> res_id r = k \<and> amount_ok (res_reserved r) \<and> 0 < res_notional r \<and>
     res_notional r + res_fee r + res_venue_cost r = res_reserved r"

definition order_ok :: "memory \<Rightarrow> string \<Rightarrow> ConsumerVenueOrder \<Rightarrow> bool" where
  "order_ok m k vo \<longleftrightarrow> ord_id vo = k \<and>
     (\<exists>r. js_get (mem_reservations m) (ord_reservation vo) = Some r \<and> res_account r = ord_account vo)"

definition balanced_entry :: "ConsumerLedgerTransaction \<Rightarrow> bool" where
  "balanced_entry t \<longleftrightarrow> sum_side Debit (led_postings t) = sum_side Credit (led_postings t) \<and>
     (\<forall>p \<in> set (led_postings t). 0 < post_amount p) \<and> 2 \<le> length (led_postings t)"

definition balances_ok :: "memory \<Rightarrow> bool" where
  "balances_ok m \<longleftrightarrow>
     (\<forall>a. 0 \<le> avail_of a m \<and> 0 \<le> open_of a m \<and> reserved_of a m = open_reserved a m)"

definition tables_ok :: "memory \<Rightarrow> bool" where
  "tables_ok m \<longleftrightarrow> js_wf (mem_balances m) \<and> js_wf (mem_reservations m) \<and> js_wf (mem_ledger m) \<and>
     js_wf (mem_deposits m) \<and> js_wf (mem_withdrawals m) \<and> js_wf (mem_venueOrders m)"

definition money_inv :: "memory \<Rightarrow> bool" where
  "money_inv m \<longleftrightarrow> tables_ok m \<and> balances_ok m \<and>
     jm.all_entries reservation_ok (mem_reservations m) \<and>
     jm.all_entries (order_ok m) (mem_venueOrders m) \<and>
     jm.all_entries (\<lambda>k d. dep_id d = k \<and> amount_ok (dep_amount d)) (mem_deposits m) \<and>
     jm.all_entries (\<lambda>k w. amount_ok (wd_amount w)) (mem_withdrawals m) \<and>
     jm.all_entries (\<lambda>k t. balanced_entry t) (mem_ledger m)"

lemma money_invI:
  assumes "tables_ok m" "balances_ok m" "jm.all_entries reservation_ok (mem_reservations m)"
    "jm.all_entries (order_ok m) (mem_venueOrders m)"
    "jm.all_entries (\<lambda>k d. dep_id d = k \<and> amount_ok (dep_amount d)) (mem_deposits m)"
    "jm.all_entries (\<lambda>k w. amount_ok (wd_amount w)) (mem_withdrawals m)"
    "jm.all_entries (\<lambda>k t. balanced_entry t) (mem_ledger m)"
  shows "money_inv m"
  using assms by (simp add: money_inv_def)

lemma money_invD:
  assumes "money_inv m"
  shows "tables_ok m" "balances_ok m" "jm.all_entries reservation_ok (mem_reservations m)"
    "jm.all_entries (order_ok m) (mem_venueOrders m)"
    "jm.all_entries (\<lambda>k d. dep_id d = k \<and> amount_ok (dep_amount d)) (mem_deposits m)"
    "jm.all_entries (\<lambda>k w. amount_ok (wd_amount w)) (mem_withdrawals m)"
    "jm.all_entries (\<lambda>k t. balanced_entry t) (mem_ledger m)"
  using assms by (simp_all add: money_inv_def)

lemma tables_okD:
  assumes "tables_ok m"
  shows "js_wf (mem_balances m)" "js_wf (mem_reservations m)" "js_wf (mem_ledger m)"
    "js_wf (mem_deposits m)" "js_wf (mem_withdrawals m)" "js_wf (mem_venueOrders m)"
  using assms by (simp_all add: tables_ok_def)

lemma money_inv_empty: "money_inv empty_memory"
  by (simp add: money_inv_def tables_ok_def balances_ok_def empty_memory_def jm.all_entries_def
      avail_of_def reserved_of_def open_of_def open_reserved_def)

lemma money_inv_avail: "money_inv m \<Longrightarrow> 0 \<le> avail_of a m"
  by (simp add: money_inv_def balances_ok_def)

lemma reservation_at:
  assumes "money_inv m" "js_get (mem_reservations m) i = Some r"
  shows "reservation_ok i r"
  using assms by (simp add: money_inv_def jm.all_entries_def)

text \<open>The account of an open reservation holds at least what the reservation does.\<close>

lemma open_reservation_le:
  assumes inv: "money_inv m" and r: "js_get (mem_reservations m) i = Some r" "is_open r"
  shows "res_reserved r \<le> reserved_of (res_account r) m"
proof -
  have wf: "js_wf (mem_reservations m)" using money_invD(1) [OF inv] by (rule tables_okD)
  have nonneg: "\<forall>x \<in> set (js_values (mem_reservations m)). 0 \<le> open_weight (res_account r) x"
  proof
    fix x assume "x \<in> set (js_values (mem_reservations m))"
    then obtain k where "js_get (mem_reservations m) k = Some x"
      using wf by (auto simp: js_values_get)
    then have "reservation_ok k x" by (rule reservation_at [OF inv])
    then show "0 \<le> open_weight (res_account r) x"
      by (simp add: open_weight_def reservation_ok_def amount_ok_def)
  qed
  have "open_weight (res_account r) r \<le> open_reserved (res_account r) m"
    unfolding open_reserved_def by (rule jm.vals_weight_bound [OF wf r(1) nonneg])
  moreover have "reserved_of (res_account r) m = open_reserved (res_account r) m"
    using money_invD(2) [OF inv] by (simp add: balances_ok_def)
  ultimately show ?thesis using r(2) by (simp add: open_weight_def)
qed

section \<open>Elementary updates that keep the invariant\<close>

lemma order_ok_frame:
  "mem_reservations m' = mem_reservations m \<Longrightarrow> order_ok m' = order_ok m"
  by (simp add: order_ok_def fun_eq_iff)

lemma open_reserved_frame:
  "mem_reservations m' = mem_reservations m \<Longrightarrow> open_reserved a m' = open_reserved a m"
  by (simp add: open_reserved_def)

lemma money_inv_ledger:
  assumes "money_inv m" "\<And>t. led_postings t = ps \<Longrightarrow> balanced_entry t"
  shows "money_inv (putMemoryLedger h ow a k key ref ps now m)"
proof (rule money_invI)
  let ?m = "putMemoryLedger h ow a k key ref ps now m"
  note D = money_invD [OF assms(1)]
  show "tables_ok ?m" using D(1) by (simp add: tables_ok_def putMemoryLedger_def Let_def)
  show "balances_ok ?m" using D(2) numbers_depend [of ?m m] open_reserved_frame [of ?m m]
    by (simp add: balances_ok_def)
  show "jm.all_entries (order_ok ?m) (mem_venueOrders ?m)"
    using D(4) order_ok_frame [of ?m m] by simp
  show "jm.all_entries (\<lambda>k t. balanced_entry t) (mem_ledger ?m)"
    using D(7) assms(2) by (simp add: putMemoryLedger_def Let_def jm.all_entries_insert)
qed (use money_invD [OF assms(1)] in simp_all)

text \<open>A new balance for one account that keeps its reserved part and stays nonnegative.\<close>

lemma money_inv_set_balance:
  assumes "money_inv m" "0 \<le> bal_available b" "0 \<le> bal_open_notional b"
    "bal_reserved b = reserved_of a m"
  shows "money_inv (set_balance a b m)"
proof (rule money_invI)
  let ?m = "set_balance a b m"
  note D = money_invD [OF assms(1)]
  show "tables_ok ?m" using D(1) by (simp add: tables_ok_def)
  show "balances_ok ?m" using D(2) assms(2-4) open_reserved_frame [of ?m m]
    by (simp add: balances_ok_def)
  show "jm.all_entries (order_ok ?m) (mem_venueOrders ?m)"
    using D(4) order_ok_frame [of ?m m] by simp
qed (use money_invD [OF assms(1)] in simp_all)

lemma money_inv_put_withdrawal:
  assumes "money_inv m" "amount_ok (wd_amount w)"
  shows "money_inv (put_withdrawal i w m)"
proof (rule money_invI)
  let ?m = "put_withdrawal i w m"
  note D = money_invD [OF assms(1)]
  show "tables_ok ?m" using D(1) by (simp add: tables_ok_def)
  show "balances_ok ?m" using D(2) numbers_depend [of ?m m] open_reserved_frame [of ?m m]
    by (simp add: balances_ok_def)
  show "jm.all_entries (order_ok ?m) (mem_venueOrders ?m)"
    using D(4) order_ok_frame [of ?m m] by simp
  show "jm.all_entries (\<lambda>k w. amount_ok (wd_amount w)) (mem_withdrawals ?m)"
    using D(6) assms(2) by (simp add: jm.all_entries_insert)
qed (use money_invD [OF assms(1)] in simp_all)

lemma money_inv_deposits:
  assumes "money_inv m" "amount_ok (dep_amount d)" "dep_id d = i"
  shows "money_inv (m\<lparr>mem_deposits := js_set (mem_deposits m) i d\<rparr>)"
proof (rule money_invI)
  let ?m = "m\<lparr>mem_deposits := js_set (mem_deposits m) i d\<rparr>"
  note D = money_invD [OF assms(1)]
  show "tables_ok ?m" using D(1) by (simp add: tables_ok_def)
  show "balances_ok ?m" using D(2) numbers_depend [of ?m m] open_reserved_frame [of ?m m]
    by (simp add: balances_ok_def)
  show "jm.all_entries (order_ok ?m) (mem_venueOrders ?m)"
    using D(4) order_ok_frame [of ?m m] by simp
  show "jm.all_entries (\<lambda>k d. dep_id d = k \<and> amount_ok (dep_amount d)) (mem_deposits ?m)"
    using D(5) assms(2,3) by (simp add: jm.all_entries_insert)
qed (use money_invD [OF assms(1)] in simp_all)

lemma money_inv_venue_orders:
  assumes "money_inv m" "order_ok m i vo"
  shows "money_inv (m\<lparr>mem_venueOrders := js_set (mem_venueOrders m) i vo\<rparr>)"
proof (rule money_invI)
  let ?m = "m\<lparr>mem_venueOrders := js_set (mem_venueOrders m) i vo\<rparr>"
  note D = money_invD [OF assms(1)]
  show "tables_ok ?m" using D(1) by (simp add: tables_ok_def)
  show "balances_ok ?m" using D(2) numbers_depend [of ?m m] open_reserved_frame [of ?m m]
    by (simp add: balances_ok_def)
  show "jm.all_entries (order_ok ?m) (mem_venueOrders ?m)"
    using D(4) assms(2) order_ok_frame [of ?m m] by (simp add: jm.all_entries_insert)
qed (use money_invD [OF assms(1)] in simp_all)

text \<open>The tables the invariant does not mention.\<close>

lemma money_inv_other [inv_rules]:
  assumes "money_inv m" "mem_balances m' = mem_balances m" "mem_reservations m' = mem_reservations m"
    "mem_ledger m' = mem_ledger m" "mem_deposits m' = mem_deposits m"
    "mem_withdrawals m' = mem_withdrawals m" "mem_venueOrders m' = mem_venueOrders m"
  shows "money_inv m'"
  using assms numbers_depend [of m' m] open_reserved_frame [of m' m] order_ok_frame [of m' m]
  by (simp add: money_inv_def tables_ok_def balances_ok_def)

text \<open>Two-step move: a reservation is written together with its account's balance. The balance
  changes its reserved part by exactly the change of the reservation's weight.\<close>

lemma money_inv_move:
  assumes inv: "money_inv m" and ok: "reservation_ok i r"
    and old: "js_get (mem_reservations m) i = None \<or>
      (\<exists>q. js_get (mem_reservations m) i = Some q \<and> res_account q = res_account r)"
    and b: "0 \<le> bal_available b" "0 \<le> bal_open_notional b"
    and move: "bal_reserved b = reserved_of (res_account r) m -
      (case js_get (mem_reservations m) i of None \<Rightarrow> 0 | Some q \<Rightarrow> open_weight (res_account r) q) +
      open_weight (res_account r) r"
  shows "money_inv (put_reservation i r (set_balance (res_account r) b m))"
proof (rule money_invI)
  let ?m = "put_reservation i r (set_balance (res_account r) b m)"
  note D = money_invD [OF inv]
  have wf: "js_wf (mem_reservations m)" using D(1) by (rule tables_okD)
  show "tables_ok ?m" using D(1) by (simp add: tables_ok_def)
  have sums: "open_reserved a ?m = open_reserved a m -
      (case js_get (mem_reservations m) i of None \<Rightarrow> 0 | Some q \<Rightarrow> open_weight a q) + open_weight a r" for a
    using wf by (simp add: open_reserved_def js_sum_set)
  have other: "open_reserved a ?m = open_reserved a m" if "a \<noteq> res_account r" for a
    using that old by (auto simp: sums open_weight_def split: option.splits)
  have numbers: "avail_of a ?m = (if a = res_account r then bal_available b else avail_of a m)"
    "reserved_of a ?m = (if a = res_account r then bal_reserved b else reserved_of a m)"
    "open_of a ?m = (if a = res_account r then bal_open_notional b else open_of a m)" for a
    using numbers_depend [of ?m "set_balance (res_account r) b m"] by simp_all
  show "balances_ok ?m"
    using D(2) b move other sums [of "res_account r"] by (auto simp: balances_ok_def numbers)
  show "jm.all_entries reservation_ok (mem_reservations ?m)"
    using D(3) ok by (simp add: jm.all_entries_insert)
  show "jm.all_entries (order_ok ?m) (mem_venueOrders ?m)"
    using D(4) old by (fastforce simp: jm.all_entries_def order_ok_def)
qed (use money_invD [OF inv] in simp_all)

section \<open>Balanced entries\<close>

lemma transfer_entry:
  "amount_ok n \<Longrightarrow> led_postings t = [posting a Debit n, posting b Credit n] \<Longrightarrow> balanced_entry t"
  by (simp add: balanced_entry_def sum_side_def posting_def amount_ok_def)

text \<open>Settlement postings: they balance whenever the parts fit into what was reserved.\<close>

lemma settlementPostings_ok:
  assumes "amount_ok r" "0 \<le> f" "0 \<le> v" "0 \<le> g" "f + v + g \<le> r"
  shows "\<exists>ps. settlementPostings r f v g = Inr ps \<and> (\<forall>t. led_postings t = ps \<longrightarrow> balanced_entry t)"
proof -
  let ?u = "r - f - v - g"
  define cs where "cs = (if ?u > 0 then [posting Consumer_available Credit ?u] else []) @
    (if f + v > 0 then [posting Venue_clearing Credit (f + v)] else []) @
    (if g > 0 then [posting Fee_revenue Credit g] else [])"
  define ps where "ps = posting Consumer_reserved Debit r # cs"
  have r: "0 < r" "r \<le> max_safe" using assms(1) by (simp_all add: amount_ok_def)
  have credits: "sum_side Credit cs = r" "sum_side Debit cs = 0"
    using assms(2-5) by (auto simp: cs_def sum_side_def posting_def)
  have pos: "\<forall>p \<in> set ps. 0 < post_amount p"
    using r by (auto simp: ps_def cs_def posting_def)
  have len: "2 \<le> length ps" using credits(1) r by (cases cs) (auto simp: ps_def sum_side_def)
  have sums: "sum_side Debit ps = r" "sum_side Credit ps = r"
    using credits by (simp_all add: ps_def sum_side_def posting_def)
  have "balancedPostings ps = Inr ps"
    using pos len sums r by (intro balancedPostings_exact) simp_all
  then have "settlementPostings r f v g = Inr ps"
    by (simp only: settlementPostings_def Let_def ps_def cs_def)
  moreover have "balanced_entry t" if "led_postings t = ps" for t
    using pos len sums that by (simp add: balanced_entry_def)
  ultimately show ?thesis by blast
qed

end
