(* ===== verification/CrossVenueInvariant.thy ===== *)
theory CrossVenueInvariant imports CrossVenueStore ConsumerInvariant
begin

text \<open>
  What every stored execution satisfies: two opposite legs on different venues, no fill above its
  target, the residual is the absolute net position, only an execution waiting for an operator may
  exceed its unhedged budget, and an execution that is over has no residual.
\<close>

section \<open>The invariant\<close>

definition leg_ok :: "int \<Rightarrow> CrossVenueExecutionLeg \<Rightarrow> bool" where
  "leg_ok notional leg \<longleftrightarrow> leg_target leg = notional \<and> 0 \<le> leg_fill leg \<and> leg_fill leg \<le> notional"

definition legs_opposed :: "CrossVenueExecutionLeg list \<Rightarrow> bool" where
  "legs_opposed legs \<longleftrightarrow> (case legs of [a, b] \<Rightarrow> leg_venue a \<noteq> leg_venue b \<and> leg_side a \<noteq> leg_side b | _ \<Rightarrow> False)"

definition repairs_ok :: "int \<Rightarrow> CrossVenueRepairFill list \<Rightarrow> bool" where
  "repairs_ok notional rs \<longleftrightarrow> distinct (map rf_id rs) \<and> list_all (\<lambda>r. 0 \<le> rf_fill r \<and> rf_fill r \<le> notional) rs"

definition status_ok :: "CrossVenueExecutionPlan \<Rightarrow> bool" where
  "status_ok p \<longleftrightarrow>
     (pl_status p \<noteq> Manual_intervention_required \<longrightarrow> pl_residual p \<le> rb_max_unhedged (pl_budget p)) \<and>
     (pl_status p \<in> {Planned, Submitting, Legs_open, Both_filled, Hedged, Cancelled, Failed} \<longrightarrow> pl_residual p = 0) \<and>
     (pl_status p \<in> {Unhedged, Partially_hedged} \<longrightarrow> 0 < pl_residual p) \<and>
     (pl_status p = Both_filled \<longrightarrow> list_all (\<lambda>l. 0 < leg_fill l) (pl_legs p)) \<and>
     (pl_status p = Hedged \<longrightarrow> list_ex (\<lambda>r. 0 < rf_fill r) (pl_repairs p)) \<and>
     (pl_status p = Cancelled \<longrightarrow> list_all (\<lambda>l. leg_fill l = 0) (pl_legs p)) \<and>
     (pl_status p \<noteq> Manual_intervention_required \<longrightarrow>
        (pl_unhedged_since p \<noteq> None \<longleftrightarrow> 0 < pl_residual p))"

definition plan_ok :: "CrossVenueExecutionPlan \<Rightarrow> bool" where
  "plan_ok p \<longleftrightarrow> legs_opposed (pl_legs p) \<and> list_all (leg_ok (pl_notional p)) (pl_legs p) \<and>
     repairs_ok (pl_notional p) (pl_repairs p) \<and>
     pl_residual p = residualNotional (pl_legs p) (pl_repairs p) \<and>
     pl_hedge_deadline p = map_option (\<lambda>t. t + rb_max_duration_ms (pl_budget p)) (pl_unhedged_since p) \<and>
     0 \<le> pl_sequence p \<and> 0 < rb_max_unhedged (pl_budget p) \<and> 0 < pl_notional p \<and> status_ok p"

lemma plan_okD:
  assumes "plan_ok p"
  shows "legs_opposed (pl_legs p)" "list_all (leg_ok (pl_notional p)) (pl_legs p)"
    "repairs_ok (pl_notional p) (pl_repairs p)" "pl_residual p = residualNotional (pl_legs p) (pl_repairs p)"
    "pl_hedge_deadline p = map_option (\<lambda>t. t + rb_max_duration_ms (pl_budget p)) (pl_unhedged_since p)"
    "0 \<le> pl_sequence p" "0 < rb_max_unhedged (pl_budget p)" "0 < pl_notional p" "status_ok p"
  using assms by (simp_all add: plan_ok_def)

lemma status_okD:
  assumes "status_ok p"
  shows "pl_status p \<noteq> Manual_intervention_required \<Longrightarrow> pl_residual p \<le> rb_max_unhedged (pl_budget p)"
    "pl_status p \<in> {Planned, Submitting, Legs_open, Both_filled, Hedged, Cancelled, Failed} \<Longrightarrow> pl_residual p = 0"
    "pl_status p \<noteq> Manual_intervention_required \<Longrightarrow> pl_unhedged_since p \<noteq> None \<longleftrightarrow> 0 < pl_residual p"
  using assms by (simp_all add: status_ok_def)

section \<open>Creation\<close>

lemma new_leg_ok:
  assumes "new_leg h i n e = Inr leg" "0 < n"
  shows "leg_ok n leg \<and> leg_fill leg = 0 \<and> leg_venue leg = li_venue (snd e) \<and> leg_side leg = li_side (snd e)"
  using assms by (cases e) (auto simp: new_leg_def throw_rules leg_ok_def)

lemma two_element_case:
  "(case xs of [a, b] \<Rightarrow> f a b | _ \<Rightarrow> throw e) = Inr y \<longleftrightarrow> (\<exists>a b. xs = [a, b] \<and> f a b = Inr y)"
  by (auto split: list.splits)

lemma created_plan_ok:
  assumes "createCrossVenueExecutionPlan h inp now = Inr p"
  shows "plan_ok p" "pl_status p = Planned" "pl_sequence p = 0" "pl_owner p = pi_owner inp"
    "pl_id p = execution_id_of h (pi_owner inp) (pi_idempotency_key inp)" "pl_worker_receipt p = None"
    "pl_idempotency_key p = pi_idempotency_key inp"
proof -
  have "\<exists>l r. pi_legs inp = [l, r]" using assms unfolding createCrossVenueExecutionPlan_def
    by (auto simp: throw_rules two_element_case Let_def split: if_splits)
  then obtain left right where two: "pi_legs inp = [left, right]" by blast
  obtain market notional budget where
      notional: "positiveSafeInteger (pi_notional inp) ''matched_notional_micro_usdc'' = Inr notional"
    and budget: "validateCrossVenueRiskBudget (pi_budget inp) notional = Inr budget"
    and legs: "li_venue left \<noteq> li_venue right" "li_side left \<noteq> li_side right"
    and rest: "and_then (map_result (new_leg h (execution_id_of h (pi_owner inp) (pi_idempotency_key inp)) notional)
        [(0, left), (1, right)]) (\<lambda>legs. return_ok \<lparr>pl_id = execution_id_of h (pi_owner inp) (pi_idempotency_key inp),
          pl_owner = pi_owner inp, pl_idempotency_key = pi_idempotency_key inp,
          pl_opportunity = pi_opportunity inp, pl_market = market, pl_notional = notional, pl_budget = budget,
          pl_legs = legs, pl_repairs = [], pl_status = Planned, pl_residual = 0, pl_sequence = 0,
          pl_unhedged_since = None, pl_hedge_deadline = None, pl_cancel_requested_at = None,
          pl_worker_receipt = None, pl_failure_code = None, pl_created_at = now, pl_updated_at = now\<rparr>) = Inr p"
    using assms unfolding createCrossVenueExecutionPlan_def two
    by (auto simp: throw_rules Let_def simp del: map_result.simps split: if_splits)
  have pos: "0 < notional" using notional by (simp add: positiveSafeInteger_def throw_rules)
  have b: "0 < rb_max_unhedged budget" using budget unfolding validateCrossVenueRiskBudget_def
    by (auto simp: throw_rules positiveSafeInteger_def split: if_splits)
  obtain a c where ac: "pl_legs p = [a, c]"
      "new_leg h (execution_id_of h (pi_owner inp) (pi_idempotency_key inp)) notional (0, left) = Inr a"
      "new_leg h (execution_id_of h (pi_owner inp) (pi_idempotency_key inp)) notional (1, right) = Inr c"
    using rest by (auto simp: throw_rules list_all2_Cons1)
  note ok = new_leg_ok [OF ac(2) pos] new_leg_ok [OF ac(3) pos]
  have p: "pl_notional p = notional" "pl_budget p = budget" "pl_repairs p = []" "pl_residual p = 0"
    "pl_unhedged_since p = None" "pl_hedge_deadline p = None" "pl_sequence p = 0" "pl_status p = Planned"
    "pl_owner p = pi_owner inp" "pl_id p = execution_id_of h (pi_owner inp) (pi_idempotency_key inp)"
    "pl_worker_receipt p = None" "pl_idempotency_key p = pi_idempotency_key inp"
    using rest by (auto simp: throw_rules)
  show "plan_ok p" using ok legs pos b
    by (simp add: plan_ok_def status_ok_def p ac(1) legs_opposed_def repairs_ok_def residualNotional_def)
  show "pl_status p = Planned" "pl_sequence p = 0" "pl_owner p = pi_owner inp"
    "pl_id p = execution_id_of h (pi_owner inp) (pi_idempotency_key inp)" "pl_worker_receipt p = None"
    "pl_idempotency_key p = pi_idempotency_key inp"
    by (simp_all add: p)
qed

section \<open>Reports\<close>

text \<open>A leg keeps its identity and its fill does not shrink.\<close>

definition leg_grows :: "CrossVenueExecutionLeg \<Rightarrow> CrossVenueExecutionLeg \<Rightarrow> bool" where
  "leg_grows l l' \<longleftrightarrow> leg_id l' = leg_id l \<and> leg_venue l' = leg_venue l \<and> leg_side l' = leg_side l \<and>
     leg_target l' = leg_target l \<and> leg_fill l \<le> leg_fill l'"

definition repair_grows :: "CrossVenueRepairFill \<Rightarrow> CrossVenueRepairFill \<Rightarrow> bool" where
  "repair_grows r r' \<longleftrightarrow> rf_id r' = rf_id r \<and> rf_venue r' = rf_venue r \<and> rf_side r' = rf_side r \<and>
     rf_fill r \<le> rf_fill r'"

definition repairs_grow :: "CrossVenueRepairFill list \<Rightarrow> CrossVenueRepairFill list \<Rightarrow> bool" where
  "repairs_grow rs rs' \<longleftrightarrow> (\<forall>r \<in> set rs. \<exists>r' \<in> set rs'. repair_grows r r')"

lemma leg_grows_refl [simp]: "leg_grows l l"
  by (simp add: leg_grows_def)

lemma repairs_grow_refl [simp]: "repairs_grow rs rs"
  by (auto simp: repairs_grow_def repair_grows_def)

lemma leg_report_ok:
  assumes "apply_leg_report h us l = Inr l'"
  shows "leg_grows l l'" "leg_ok n l \<Longrightarrow> leg_ok n l'"
  using assms by (auto simp: apply_leg_report_def throw_rules nonnegativeSafeInteger_def leg_grows_def
      leg_ok_def split: option.splits if_splits)

lemma legs_report_ok:
  assumes "map_result (apply_leg_report h us) ls = Inr ls'"
  shows "list_all2 leg_grows ls ls'" "list_all (leg_ok n) ls \<Longrightarrow> list_all (leg_ok n) ls'"
    "legs_opposed ls \<Longrightarrow> legs_opposed ls'"
proof -
  have all2: "list_all2 (\<lambda>x y. apply_leg_report h us x = Inr y) ls ls'" using assms by (simp add: throw_rules)
  then show grows: "list_all2 leg_grows ls ls'" by (rule list_all2_mono) (rule leg_report_ok(1))
  show "list_all (leg_ok n) ls'" if "list_all (leg_ok n) ls"
    using all2 that by (induction rule: list_all2_induct) (auto dest: leg_report_ok(2))
  show "legs_opposed ls'" if "legs_opposed ls" using grows that
    by (auto simp: legs_opposed_def leg_grows_def list_all2_Cons1 split: list.splits)
qed

lemma update_fresh: "k \<notin> fst ` set m \<Longrightarrow> AList.update k v m = m @ [(k, v)]"
  by (induction m) auto

lemma fold_set_fresh:
  "distinct (map f xs) \<Longrightarrow> f ` set xs \<inter> fst ` set m = {} \<Longrightarrow>
     fold (\<lambda>x m. js_set m (f x) x) xs m = m @ map (\<lambda>x. (f x, x)) xs"
  by (induction xs arbitrary: m) (auto simp: js_set_def update_fresh)

definition keyed_repairs :: "int \<Rightarrow> (string, CrossVenueRepairFill) jsmap \<Rightarrow> bool" where
  "keyed_repairs n m \<longleftrightarrow> js_wf m \<and> jm.all_entries (\<lambda>k r. rf_id r = k \<and> 0 \<le> rf_fill r \<and> rf_fill r \<le> n) m"

lemma merge_updates_ok:
  assumes "merge_updates h n m us = Inr m'" "keyed_repairs n m"
  shows "keyed_repairs n m' \<and> (\<forall>k r. js_get m k = Some r \<longrightarrow> (\<exists>r'. js_get m' k = Some r' \<and> repair_grows r r'))"
  using assms
proof (induction us arbitrary: m)
  case Nil
  then show ?case by (auto simp: repair_grows_def)
next
  case (Cons u us)
  obtain f where f: "nonnegativeSafeInteger (rr_fill u) ''repair_filled_notional_micro_usdc'' = Inr f" "f \<le> n"
    using Cons.prems(1) by (auto simp: throw_rules Let_def split: if_splits)
  define prior where "prior = js_get m (rr_id u)"
  define r where "r = \<lparr>rf_id = rr_id u, rf_venue = rr_venue u, rf_side = rr_side u, rf_fill = f,
    rf_reference = reference_commitment h (rr_reference u) (case prior of None \<Rightarrow> None | Some p \<Rightarrow> rf_reference p)\<rparr>"
  have fit: "case prior of None \<Rightarrow> True | Some p \<Rightarrow> rf_venue p = rr_venue u \<and> rf_side p = rr_side u \<and> rf_fill p \<le> f"
    and rest: "merge_updates h n (js_set m (rr_id u) r) us = Inr m'"
    using Cons.prems(1) f by (auto simp: Let_def prior_def r_def split: if_splits option.splits)
  have "keyed_repairs n (js_set m (rr_id u) r)"
    using Cons.prems(2) f unfolding keyed_repairs_def
    by (auto intro!: jm.all_entries_insert simp: r_def nonnegativeSafeInteger_def throw_rules)
  note IH = Cons.IH [OF rest this]
  have "\<exists>q. js_get (js_set m (rr_id u) r) k = Some q \<and> repair_grows p q" if p: "js_get m k = Some p" for k p
  proof -
    have "rf_id p = k" using Cons.prems(2) p by (simp add: keyed_repairs_def jm.all_entries_def)
    then show ?thesis using fit p by (auto simp: prior_def r_def repair_grows_def)
  qed
  with IH show ?case by (fastforce simp: repair_grows_def)
qed

lemma merge_repairs_ok:
  assumes "mergeRepairFills h rs us n = Inr rs'" "repairs_ok n rs"
  shows "repairs_ok n rs'" "repairs_grow rs rs'"
proof -
  let ?m = "map (\<lambda>r. (rf_id r, r)) rs"
  have start: "fold (\<lambda>f m. js_set m (rf_id f) f) rs [] = ?m"
    using assms(2) fold_set_fresh [of rf_id rs "[]"] by (simp add: repairs_ok_def)
  have vals: "js_values ?m = rs" by (simp add: js_values_def comp_def)
  have wf: "js_wf ?m" using assms(2) by (simp add: js_wf_def repairs_ok_def comp_def)
  have keyed: "keyed_repairs n ?m" using assms(2) wf
    by (auto simp: keyed_repairs_def jm.all_entries_def repairs_ok_def list_all_iff js_get_def dest!: map_of_SomeD)
  obtain m' where m': "merge_updates h n ?m us = Inr m'" "rs' = js_values m'"
    using assms(1) by (auto simp: mergeRepairFills_def throw_rules start)
  note ok = merge_updates_ok [OF m'(1) keyed]
  then have wf': "js_wf m'" and entries: "\<And>k r. js_get m' k = Some r \<Longrightarrow> rf_id r = k \<and> 0 \<le> rf_fill r \<and> rf_fill r \<le> n"
    by (simp_all add: keyed_repairs_def jm.all_entries_def)
  have "map rf_id (js_values m') = map fst m'"
    unfolding js_values_def map_map
  proof (rule map_cong [OF refl])
    fix e assume "e \<in> set m'"
    then have "js_get m' (fst e) = Some (snd e)" using wf' unfolding js_get_def js_wf_def by simp
    then show "(rf_id \<circ> snd) e = fst e" using entries by simp
  qed
  then show "repairs_ok n rs'" unfolding m'(2) repairs_ok_def list_all_iff
    using wf' entries by (auto simp: js_wf_def jm.vals_lookup [OF wf'])
  show "repairs_grow rs rs'" unfolding repairs_grow_def
  proof
    fix r assume "r \<in> set rs"
    then have "r \<in> set (js_values ?m)" by (simp only: vals)
    then obtain k where "js_get ?m k = Some r" using jm.vals_lookup [OF wf] by blast
    then obtain r' where "js_get m' k = Some r'" "repair_grows r r'" using ok by blast
    then show "\<exists>r' \<in> set rs'. repair_grows r r'" unfolding m'(2) using jm.vals_lookup [OF wf'] by blast
  qed
qed

text \<open>What an accepted report does.\<close>

lemma report_accepted:
  assumes "applyCrossVenueWorkerReport h p report = Inr p'"
  obtains legs repairs t where
    "is_safe_integer (rep_sequence report)" "pl_sequence p < num_int (rep_sequence report)"
    "rep_observed_at report = Some t"
    "map_result (apply_leg_report h (leg_updates report)) (pl_legs p) = Inr legs"
    "mergeRepairFills h (pl_repairs p) (rep_repairs report) (pl_notional p) = Inr repairs"
    "report_outcome p report t legs repairs = Inr p'"
proof -
  obtain t where seq: "is_safe_integer (rep_sequence report)" "pl_sequence p < num_int (rep_sequence report)"
      "rep_observed_at report = Some t"
    using assms unfolding applyCrossVenueWorkerReport_def by (auto split: if_splits option.splits)
  then have "and_then (map_result (apply_leg_report h (leg_updates report)) (pl_legs p)) (\<lambda>legs.
      and_then (mergeRepairFills h (pl_repairs p) (rep_repairs report) (pl_notional p))
        (report_outcome p report t legs)) = Inr p'"
    using assms unfolding applyCrossVenueWorkerReport_def by (simp split: if_splits)
  with that seq show thesis by (auto simp only: and_then_ok)
qed

lemma report_status_facts:
  "report_status ph legs rs res d t = s \<Longrightarrow> s \<noteq> Planned \<and> s \<noteq> Submitting \<and> s \<noteq> Cancelled"
  "report_status ph legs rs res d t = s \<Longrightarrow> s \<in> {Legs_open, Both_filled, Hedged, Failed} \<Longrightarrow> res \<le> 0"
  "report_status ph legs rs res d t = s \<Longrightarrow> s \<in> {Unhedged, Partially_hedged} \<Longrightarrow> 0 < res"
  "report_status ph legs rs res d t = Both_filled \<Longrightarrow> list_all (\<lambda>l. 0 < leg_fill l) legs"
  "report_status ph legs rs res d t = Hedged \<Longrightarrow> list_ex (\<lambda>r. 0 < rf_fill r) rs"
  by (auto simp: report_status_def Let_def split: if_splits)

lemma residual_nonneg: "0 \<le> residualNotional legs repairs"
  by (simp add: residualNotional_def)

text \<open>The fields a report leaves alone.\<close>

definition same_terms :: "CrossVenueExecutionPlan \<Rightarrow> CrossVenueExecutionPlan \<Rightarrow> bool" where
  "same_terms p q \<longleftrightarrow> pl_id q = pl_id p \<and> pl_owner q = pl_owner p \<and>
     pl_idempotency_key q = pl_idempotency_key p \<and> pl_opportunity q = pl_opportunity p \<and>
     pl_market q = pl_market p \<and> pl_notional q = pl_notional p \<and> pl_budget q = pl_budget p"

lemma report_outcome_fields:
  assumes "report_outcome p report t legs repairs = Inr q"
  shows "pl_legs q = legs" "pl_repairs q = repairs" "pl_sequence q = num_int (rep_sequence report)"
    "pl_residual q = residualNotional legs repairs" "same_terms p q" "pl_worker_receipt q = pl_worker_receipt p"
  using assms unfolding report_outcome_def Let_def
  by (simp_all add: same_terms_def intervention_def split: if_splits option.splits) (auto simp: same_terms_def)

lemma report_outcome_status:
  assumes out: "report_outcome p report t legs repairs = Inr q"
    and old: "pl_hedge_deadline p = map_option (\<lambda>t. t + rb_max_duration_ms (pl_budget p)) (pl_unhedged_since p)"
  shows "status_ok q"
    "pl_hedge_deadline q = map_option (\<lambda>t. t + rb_max_duration_ms (pl_budget q)) (pl_unhedged_since q)"
proof -
  let ?res = "residualNotional legs repairs"
  let ?since = "if 0 < ?res then (case pl_unhedged_since p of None \<Rightarrow> Some t | t \<Rightarrow> t) else None"
  let ?deadline = "map_option (\<lambda>t. t + rb_max_duration_ms (pl_budget p)) ?since"
  have "status_ok q \<and>
    pl_hedge_deadline q = map_option (\<lambda>t. t + rb_max_duration_ms (pl_budget q)) (pl_unhedged_since q)"
  proof (cases "budget_breach (pl_budget p) report ?res")
    case (Some code)
    then have "q = intervention (p\<lparr>pl_legs := legs, pl_repairs := repairs\<rparr>) report code t"
      using out unfolding report_outcome_def Let_def by (simp split: if_splits)
    then show ?thesis using old by (simp add: status_ok_def intervention_def)
  next
    case None
    then have q: "pl_status q = report_status (rep_phase report) legs repairs ?res ?deadline t"
      "pl_unhedged_since q = ?since" "pl_hedge_deadline q = ?deadline"
      using out unfolding report_outcome_def Let_def by (auto split: if_splits)
    have within: "?res \<le> rb_max_unhedged (pl_budget p)" using None by (simp add: budget_breach_def split: if_splits)
    note f = report_outcome_fields [OF out]
    have since: "?since \<noteq> None \<longleftrightarrow> 0 < ?res" by (simp split: option.splits)
    have "pl_residual q = 0"
      if "pl_status q \<in> {Planned, Submitting, Legs_open, Both_filled, Hedged, Cancelled, Failed}"
      using that report_status_facts(1,2) [OF q(1) [symmetric]] residual_nonneg [of legs repairs] f(4)
      by (metis insertE insertI1 insertI2 order_antisym singletonD)
    moreover have "0 < pl_residual q" if "pl_status q \<in> {Unhedged, Partially_hedged}"
      using that report_status_facts(3) [OF q(1) [symmetric]] f(4) by metis
    moreover have "list_all (\<lambda>l. 0 < leg_fill l) (pl_legs q)" if "pl_status q = Both_filled"
      using that report_status_facts(4) q(1) f(1) by metis
    moreover have "list_ex (\<lambda>r. 0 < rf_fill r) (pl_repairs q)" if "pl_status q = Hedged"
      using that report_status_facts(5) q(1) f(2) by metis
    moreover have "pl_status q \<noteq> Cancelled" using report_status_facts(1) [OF q(1) [symmetric]] by simp
    moreover have "pl_residual q \<le> rb_max_unhedged (pl_budget q)" "pl_unhedged_since q \<noteq> None \<longleftrightarrow> 0 < pl_residual q"
      "pl_hedge_deadline q = map_option (\<lambda>t. t + rb_max_duration_ms (pl_budget q)) (pl_unhedged_since q)"
      using within since q(2,3) f(4,5) by (simp_all only: same_terms_def)
    ultimately show ?thesis unfolding status_ok_def by blast
  qed
  then show "status_ok q"
    "pl_hedge_deadline q = map_option (\<lambda>t. t + rb_max_duration_ms (pl_budget q)) (pl_unhedged_since q)" by simp_all
qed

lemma report_keeps_ok:
  assumes ok: "plan_ok p" and run: "applyCrossVenueWorkerReport h p report = Inr q"
  shows "plan_ok q" "pl_sequence q = num_int (rep_sequence report)" "pl_sequence p < pl_sequence q"
    "list_all2 leg_grows (pl_legs p) (pl_legs q)" "repairs_grow (pl_repairs p) (pl_repairs q)" "same_terms p q"
proof -
  obtain legs repairs t where r: "pl_sequence p < num_int (rep_sequence report)"
      "map_result (apply_leg_report h (leg_updates report)) (pl_legs p) = Inr legs"
      "mergeRepairFills h (pl_repairs p) (rep_repairs report) (pl_notional p) = Inr repairs"
      "report_outcome p report t legs repairs = Inr q"
    using report_accepted [OF run] by metis
  note l = legs_report_ok [OF r(2)] and m = merge_repairs_ok [OF r(3) plan_okD(3) [OF ok]]
    and f = report_outcome_fields [OF r(4)] and s = report_outcome_status [OF r(4) plan_okD(5) [OF ok]]
  show "pl_sequence q = num_int (rep_sequence report)" "pl_sequence p < pl_sequence q"
    "list_all2 leg_grows (pl_legs p) (pl_legs q)" "repairs_grow (pl_repairs p) (pl_repairs q)" "same_terms p q"
    using f r(1) l(1) m(2) by simp_all
  show "plan_ok q" using s f r(1) l(2,3) m(1) plan_okD [OF ok]
    by (simp add: plan_ok_def same_terms_def)
qed

section \<open>The other updates\<close>

lemma weighted_zero: "\<forall>x \<in> set xs. f x = (0 :: int) \<Longrightarrow> (\<Sum>x\<leftarrow>xs. g x * f x) = 0"
  by (induction xs) auto

lemma no_fill_no_residual:
  assumes ok: "plan_ok p" and none: "\<not> list_ex (\<lambda>leg. leg_fill leg > 0) (pl_legs p)"
    "\<not> list_ex (\<lambda>fill. rf_fill fill > 0) (pl_repairs p)"
  shows "pl_residual p = 0 \<and> list_all (\<lambda>l. leg_fill l = 0) (pl_legs p)"
proof -
  have "\<forall>l \<in> set (pl_legs p). leg_fill l = 0" "\<forall>r \<in> set (pl_repairs p). rf_fill r = 0"
    using none plan_okD(2,3) [OF ok] by (force simp: list_ex_iff list_all_iff leg_ok_def repairs_ok_def)+
  then show ?thesis using plan_okD(4) [OF ok] by (simp add: residualNotional_def weighted_zero list_all_iff)
qed

lemma cancel_keeps_ok:
  assumes ok: "plan_ok p"
  shows "plan_ok (requestCrossVenueCancellation p now)"
proof (cases "cancel_settled (pl_status p)")
  case True
  then show ?thesis using ok by (simp add: requestCrossVenueCancellation_def)
next
  case False
  then have res: "pl_residual p \<le> rb_max_unhedged (pl_budget p)" "pl_unhedged_since p \<noteq> None \<longleftrightarrow> 0 < pl_residual p"
    using status_okD [OF plan_okD(9) [OF ok]] by (auto simp: cancel_settled_def)
  show ?thesis
  proof (cases "list_ex (\<lambda>leg. leg_fill leg > 0) (pl_legs p) \<or> list_ex (\<lambda>fill. rf_fill fill > 0) (pl_repairs p)")
    case True
    then show ?thesis using False res plan_okD(1-8) [OF ok]
      by (simp add: requestCrossVenueCancellation_def plan_ok_def status_ok_def)
  next
    case none: False
    then have "pl_residual p = 0 \<and> list_all (\<lambda>l. leg_fill l = 0) (pl_legs p)"
      using no_fill_no_residual [OF ok] by blast
    then show ?thesis using False none res plan_okD(1-8) [OF ok]
      by (simp add: requestCrossVenueCancellation_def plan_ok_def status_ok_def)
  qed
qed

lemma submitting_keeps_ok:
  assumes ok: "plan_ok p"
  shows "plan_ok (submitting_update receipt now p)"
proof (cases "pl_status p \<in> {Planned, Submitting}")
  case True
  then have "pl_residual p = 0" "pl_unhedged_since p = None"
    using status_okD(2,3) [OF plan_okD(9) [OF ok]] by auto
  then show ?thesis using True plan_okD(1-8) [OF ok]
    by (elim insertE) (simp_all add: submitting_update_def plan_ok_def status_ok_def)
next
  case False
  then show ?thesis using ok by (simp add: submitting_update_def)
qed

lemma update_same_terms [simp]:
  "same_terms p (requestCrossVenueCancellation p now)" "same_terms p (submitting_update receipt now p)"
  by (simp_all add: same_terms_def requestCrossVenueCancellation_def submitting_update_def Let_def)

end
