(* ===== verification/CrossVenueMachine.thy ===== *)
theory CrossVenueMachine imports CrossVenueInvariant
begin

text \<open>
  The execution store as a machine: creations, submissions, worker reports and cancellations in any
  order. Every stored plan keeps the invariant of \<open>CrossVenueInvariant\<close>, its terms never change, its
  fills and its report sequence only grow.
\<close>

section \<open>Calls\<close>

datatype cross_call =
    XCreate plan_input time
  | XSubmitting string string "string option" time
  | XReport string string CrossVenueWorkerReport
  | XCancel string string time

fun cross_step :: "host \<Rightarrow> cross_store \<Rightarrow> cross_call \<Rightarrow> cross_store" where
  "cross_step h s (XCreate inp now) =
     (case createCrossVenueExecutionPlan h inp now of
        Inl e \<Rightarrow> s | Inr plan \<Rightarrow> snd (createStoredCrossVenueExecution plan s))"
| "cross_step h s (XSubmitting i ow receipt now) = snd (markCrossVenueExecutionSubmitting h i ow receipt now s)"
| "cross_step h s (XReport i ow report) = snd (applyStoredCrossVenueWorkerReport h i ow report s)"
| "cross_step h s (XCancel i ow now) = snd (cancelStoredCrossVenueExecution i ow now s)"

text \<open>Every plan is well-formed, filed under its id, and its idempotency entry leads back to it; every
  entry leads to a plan.\<close>

definition cross_inv :: "cross_store \<Rightarrow> bool" where
  "cross_inv s \<longleftrightarrow> js_wf (cs_plans s) \<and>
     jm.all_entries (\<lambda>k p. pl_id p = k \<and> plan_ok p \<and> js_get (cs_idempotency s) (idempotency_entry p) = Some k)
       (cs_plans s) \<and>
     jm.all_entries (\<lambda>k i. i \<noteq> [] \<and> js_get (cs_plans s) i \<noteq> None) (cs_idempotency s)"

lemma cross_inv_empty: "cross_inv empty_cross_store"
  by (simp add: cross_inv_def empty_cross_store_def jm.all_entries_def)

lemma plan_at:
  assumes "cross_inv s" "js_get (cs_plans s) i = Some p"
  shows "pl_id p = i" "plan_ok p" "js_get (cs_idempotency s) (idempotency_entry p) = Some i"
  using assms by (simp_all add: cross_inv_def jm.all_entries_def)

lemma entry_at:
  assumes "cross_inv s" "js_get (cs_idempotency s) k = Some i"
  shows "i \<noteq> []" "\<exists>p. js_get (cs_plans s) i = Some p"
  using assms by (auto simp: cross_inv_def jm.all_entries_def)

text \<open>How a stored plan may move.\<close>

definition plan_moves :: "CrossVenueExecutionPlan \<Rightarrow> CrossVenueExecutionPlan \<Rightarrow> bool" where
  "plan_moves p q \<longleftrightarrow> plan_ok q \<and> same_terms p q \<and> pl_sequence p \<le> pl_sequence q \<and>
     list_all2 leg_grows (pl_legs p) (pl_legs q) \<and> repairs_grow (pl_repairs p) (pl_repairs q)"

lemma list_all2_refl_leg [simp]: "list_all2 leg_grows ls ls"
  by (simp add: list_all2_refl)

lemma plan_moves_refl: "plan_ok p \<Longrightarrow> plan_moves p p"
  by (simp add: plan_moves_def same_terms_def)

lemma repairs_grow_trans: "repairs_grow a b \<Longrightarrow> repairs_grow b c \<Longrightarrow> repairs_grow a c"
  unfolding repairs_grow_def repair_grows_def by (metis order_trans)

lemma same_terms_trans: "same_terms p q \<Longrightarrow> same_terms q r \<Longrightarrow> same_terms p r"
  by (simp add: same_terms_def)

lemma legs_grow_trans: "list_all2 leg_grows a b \<Longrightarrow> list_all2 leg_grows b c \<Longrightarrow> list_all2 leg_grows a c"
  by (rule list_all2_trans [of leg_grows leg_grows leg_grows]) (auto simp: leg_grows_def)

lemma plan_moves_trans: "plan_moves p q \<Longrightarrow> plan_moves q r \<Longrightarrow> plan_moves p r"
  unfolding plan_moves_def by (blast intro: repairs_grow_trans same_terms_trans legs_grow_trans order_trans)

lemma update_fields [simp]:
  "pl_legs (requestCrossVenueCancellation p now) = pl_legs p"
  "pl_repairs (requestCrossVenueCancellation p now) = pl_repairs p"
  "pl_sequence (requestCrossVenueCancellation p now) = pl_sequence p"
  "pl_legs (submitting_update receipt now p) = pl_legs p"
  "pl_repairs (submitting_update receipt now p) = pl_repairs p"
  "pl_sequence (submitting_update receipt now p) = pl_sequence p"
  by (simp_all add: requestCrossVenueCancellation_def submitting_update_def Let_def)

lemma cancel_moves: "plan_ok p \<Longrightarrow> plan_moves p (requestCrossVenueCancellation p now)"
  by (simp add: plan_moves_def cancel_keeps_ok)

lemma submitting_moves: "plan_ok p \<Longrightarrow> plan_moves p (submitting_update receipt now p)"
  by (simp add: plan_moves_def submitting_keeps_ok)

lemma report_moves: "plan_ok p \<Longrightarrow> applyCrossVenueWorkerReport h p report = Inr q \<Longrightarrow> plan_moves p q"
  using report_keeps_ok [of p h report q] unfolding plan_moves_def by simp

section \<open>Every operation goes through one update\<close>

text \<open>A call leaves the store, files a fresh plan, or moves one plan.\<close>

definition files_plan :: "CrossVenueExecutionPlan \<Rightarrow> cross_store \<Rightarrow> cross_store" where
  "files_plan p s = s\<lparr>cs_plans := js_set (cs_plans s) (pl_id p) p,
     cs_idempotency := js_set (cs_idempotency s) (idempotency_entry p) (pl_id p)\<rparr>"

definition puts_plan :: "CrossVenueExecutionPlan \<Rightarrow> cross_store \<Rightarrow> cross_store" where
  "puts_plan q s = s\<lparr>cs_plans := js_set (cs_plans s) (pl_id q) q\<rparr>"

lemma mutate_runs:
  assumes inv: "cross_inv s" and up: "\<And>p q. plan_ok p \<Longrightarrow> f p = Inr q \<Longrightarrow> plan_moves p q"
  obtains (same) "snd (mutate i ow f s) = s"
  | (moved) p q where "js_get (cs_plans s) i = Some p" "pl_owner p = ow" "f p = Inr q" "plan_moves p q"
      "pl_id q = i" "fst (mutate i ow f s) = Inr (Some q)" "snd (mutate i ow f s) = puts_plan q s"
proof (cases "\<exists>p q. js_get (cs_plans s) i = Some p \<and> pl_owner p = ow \<and> f p = Inr q")
  case True
  then obtain p q where p: "js_get (cs_plans s) i = Some p" "pl_owner p = ow" "f p = Inr q" by blast
  have m: "plan_moves p q" using up plan_at(2) [OF inv p(1)] p(3) by blast
  then have "pl_id q = i" using plan_at(1) [OF inv p(1)] by (simp add: plan_moves_def same_terms_def)
  moreover have "snd (mutate i ow f s) = s\<lparr>cs_plans := js_set (cs_plans s) (pl_id q) q\<rparr>"
    "fst (mutate i ow f s) = Inr (Some q)" using p by (simp_all add: mutate_def)
  ultimately show thesis using moved [OF p m] by (simp add: puts_plan_def)
next
  case False
  then show thesis by (intro same) (auto simp: mutate_def split: option.splits sum.splits)
qed

lemma create_runs:
  assumes inv: "cross_inv s"
  obtains (found) q where "js_get (cs_idempotency s) (idempotency_entry p) = Some (pl_id q)"
      "js_get (cs_plans s) (pl_id q) = Some q"
      "createStoredCrossVenueExecution p s = (return_ok (q, if sameRequest q p then Replayed else Conflict), s)"
  | (fresh) "js_get (cs_idempotency s) (idempotency_entry p) = None"
      "createStoredCrossVenueExecution p s = (return_ok (p, Created), files_plan p s)"
proof (cases "js_get (cs_idempotency s) (idempotency_entry p)")
  case None
  then show thesis by (intro fresh) (simp_all add: createStoredCrossVenueExecution_def files_plan_def)
next
  case (Some i)
  obtain q where q: "js_get (cs_plans s) i = Some q" "i \<noteq> []" using entry_at [OF inv Some] by blast
  have "pl_id q = i" using plan_at(1) [OF inv q(1)] .
  then show thesis using Some q by (intro found [of q]) (simp_all add: createStoredCrossVenueExecution_def)
qed

lemma files_plan_inv:
  assumes inv: "cross_inv s" and "plan_ok p" "pl_id p \<noteq> []"
    and free: "js_get (cs_idempotency s) (idempotency_entry p) = None"
  shows "cross_inv (files_plan p s)"
proof -
  have "idempotency_entry v \<noteq> idempotency_entry p" if "js_get (cs_plans s) k = Some v" for k v
    using plan_at(3) [OF inv that] free by auto
  then show ?thesis using assms unfolding cross_inv_def files_plan_def jm.all_entries_def by auto
qed

lemma puts_plan_inv:
  assumes inv: "cross_inv s" and p: "js_get (cs_plans s) (pl_id q) = Some p" and m: "plan_moves p q"
  shows "cross_inv (puts_plan q s)"
proof -
  have "idempotency_entry q = idempotency_entry p" "plan_ok q"
    using m by (simp_all add: plan_moves_def same_terms_def idempotency_entry_def)
  then show ?thesis using inv plan_at(3) [OF inv p]
    unfolding cross_inv_def puts_plan_def jm.all_entries_def by auto
qed

lemma created_id: "createCrossVenueExecutionPlan h inp now = Inr p \<Longrightarrow> pl_id p \<noteq> []"
  using created_plan_ok(5) [of h inp now p] by (simp add: execution_id_of_def consumerCommitment_def)

lemma report_step:
  "cross_step h s (XReport i ow report) = snd (mutate i ow (\<lambda>p. applyCrossVenueWorkerReport h p report) s)"
  by (simp add: applyStoredCrossVenueWorkerReport_def split: prod.splits sum.splits option.splits)

text \<open>The cases of a step.\<close>

lemma cross_step_cases [consumes 1, case_names same files puts]:
  assumes inv: "cross_inv s"
  obtains (same) "cross_step h s c = s"
  | (files) inp now p where "c = XCreate inp now" "createCrossVenueExecutionPlan h inp now = Inr p"
      "js_get (cs_idempotency s) (idempotency_entry p) = None" "cross_step h s c = files_plan p s"
  | (puts) p q where "js_get (cs_plans s) (pl_id q) = Some p" "plan_moves p q" "cross_step h s c = puts_plan q s"
proof (cases c)
  case (XCreate inp now)
  show thesis
  proof (cases "createCrossVenueExecutionPlan h inp now")
    case (Inl e)
    then show thesis using XCreate by (intro same) simp
  next
    case (Inr p)
    then show thesis using XCreate same files by (cases rule: create_runs [OF inv, of p]) simp_all
  qed
next
  case (XSubmitting i ow receipt now)
  show thesis
    by (rule mutate_runs [OF inv, of "\<lambda>p. return_ok (submitting_update (map_option (receiptCommitment h) receipt) now p)" i ow])
       (use same puts XSubmitting submitting_moves in \<open>auto simp: markCrossVenueExecutionSubmitting_def\<close>)
next
  case (XReport i ow report)
  show thesis
    by (rule mutate_runs [OF inv, of "\<lambda>p. applyCrossVenueWorkerReport h p report" i ow])
       (use same puts XReport report_moves in \<open>auto simp: report_step simp del: cross_step.simps\<close>)
next
  case (XCancel i ow now)
  show thesis
    by (rule mutate_runs [OF inv, of "\<lambda>p. return_ok (requestCrossVenueCancellation p now)" i ow])
       (use same puts XCancel cancel_moves in \<open>auto simp: cancelStoredCrossVenueExecution_def\<close>)
qed

lemma cross_step_inv:
  assumes inv: "cross_inv s"
  shows "cross_inv (cross_step h s c)"
  using inv
proof (cases rule: cross_step_cases [where h = h and c = c])
  case (files inp now p)
  then show ?thesis using inv created_plan_ok(1) created_id files_plan_inv by metis
qed (use inv in \<open>auto intro: puts_plan_inv\<close>)

section \<open>Runs without a hash collision\<close>

text \<open>A creation is admitted when no plan of another owner and key is filed under its execution id.\<close>

fun no_collision :: "host \<Rightarrow> cross_store \<Rightarrow> cross_call \<Rightarrow> bool" where
  "no_collision h s (XCreate inp now) =
     (case js_get (cs_plans s) (execution_id_of h (pi_owner inp) (pi_idempotency_key inp)) of
        None \<Rightarrow> True
      | Some p \<Rightarrow> idempotency_entry p = pi_owner inp @ '':'' @ pi_idempotency_key inp)"
| "no_collision h s c = True"

lemma created_entry:
  "createCrossVenueExecutionPlan h inp now = Inr p \<Longrightarrow>
     idempotency_entry p = pi_owner inp @ '':'' @ pi_idempotency_key inp"
  using created_plan_ok(4,7) [of h inp now p] by (simp add: idempotency_entry_def)

lemma step_plan_moves:
  assumes inv: "cross_inv s" and nc: "no_collision h s c" and p: "js_get (cs_plans s) i = Some p"
  shows "\<exists>q. js_get (cs_plans (cross_step h s c)) i = Some q \<and> plan_moves p q"
  using inv
proof (cases rule: cross_step_cases [where h = h and c = c])
  case same
  then show ?thesis using p plan_moves_refl plan_at(2) [OF inv p] by auto
next
  case (files inp now r)
  have "i \<noteq> pl_id r"
  proof
    assume "i = pl_id r"
    then have "idempotency_entry p = idempotency_entry r"
      using nc p files(1) created_plan_ok(5) [OF files(2)] created_entry [OF files(2)] by simp
    then show False using plan_at(3) [OF inv p] files(3) by simp
  qed
  then show ?thesis using p plan_moves_refl plan_at(2) [OF inv p] files(4) by (auto simp: files_plan_def)
next
  case (puts r q)
  then show ?thesis using p plan_moves_refl plan_at(2) [OF inv p] by (auto simp: puts_plan_def)
qed

text \<open>The report sequence of the plan filed under \<open>i\<close>; none is below all.\<close>

definition plan_sequence :: "string \<Rightarrow> cross_store \<Rightarrow> int" where
  "plan_sequence i s = (case js_get (cs_plans s) i of None \<Rightarrow> - 1 | Some p \<Rightarrow> pl_sequence p)"

interpretation cross: call_machine "cross_step h" cross_inv for h
  by unfold_locales (rule cross_step_inv)

lemma plan_sequence_step:
  assumes "cross_inv s" "no_collision h s c"
  shows "plan_sequence i s \<le> plan_sequence i (cross_step h s c)"
proof (cases "js_get (cs_plans s) i")
  case None
  have "- 1 \<le> plan_sequence i (cross_step h s c)"
    using plan_okD(6) [OF plan_at(2) [OF cross_step_inv [OF assms(1)]]]
    by (fastforce simp: plan_sequence_def split: option.splits)
  then show ?thesis using None by (simp add: plan_sequence_def)
next
  case (Some p)
  then show ?thesis using step_plan_moves [OF assms Some] by (auto simp: plan_sequence_def plan_moves_def)
qed

interpretation sequence: monotone_machine "cross_step h" cross_inv "no_collision h" "plan_sequence i" for h i
  by unfold_locales (rule plan_sequence_step)

lemma run_plan_moves:
  assumes "cross_inv s" "run_admits (cross_step h) (no_collision h) s cs" "js_get (cs_plans s) i = Some p"
  shows "\<exists>q. js_get (cs_plans (run_calls (cross_step h) s cs)) i = Some q \<and> plan_moves p q"
  using assms
proof (induction cs arbitrary: s p)
  case Nil
  then show ?case using plan_moves_refl plan_at(2) by auto
next
  case (Cons c cs)
  obtain q where q: "js_get (cs_plans (cross_step h s c)) i = Some q" "plan_moves p q"
    using step_plan_moves [of s h c i p] Cons.prems by auto
  then show ?case using Cons.IH [OF cross_step_inv [OF Cons.prems(1)] _ q(1)] Cons.prems(2)
    by (auto intro: plan_moves_trans)
qed

end
