(* ===== verification/ConsumerMachine.thy ===== *)
theory ConsumerMachine imports ConsumerInvariant ConsumerAccess
begin

text \<open>
  The consumer store as one machine: a call is one of the exported operations that change state
  (with the clock reading it takes), a run is any list of calls. Every call keeps the money
  invariant of \<open>ConsumerInvariant\<close>, and refines one transfer of an abstract book of accounts that
  knows only, for each account, what is available, what is reserved and what is open at a venue.
\<close>

section \<open>Calls\<close>

datatype consumer_call =
    CreateDeposit deposit_input time
  | ConfirmDeposit string string "string option" "string option" time
  | Adjust string string jsnum string time
  | CreateWithdrawal withdrawal_input time
  | PrepareWithdrawal string string string time time
  | SubmitWithdrawal string string string string time
  | CancelWithdrawal string string time
  | UpdateWithdrawal string withdrawal_status "string option" time
  | Reserve reserve_input time
  | Release string string time
  | MarkSubmitted string string time
  | RecordOrder string string string string json time
  | Reconcile reconcile_input time
  | ConsumeNonce string string string int int
  | ConsumeRate string int int int
  | PutWallet string string string string time
  | PutAcceptance ConsumerEligibilityAcceptance
  | EnqueueWake string time
  | UpdateWake string wake_status "string option" time
  | PutPolicy stored_policy
  | HaltCircuit "ConsumerCircuitReason list" "string option" time
  | ResumeCircuit string jsnum jsnum time

fun consumer_step :: "host \<Rightarrow> memory \<Rightarrow> consumer_call \<Rightarrow> memory" where
  "consumer_step h m (CreateDeposit inp now) = snd (createConsumerDepositIntent h inp now m)"
| "consumer_step h m (ConfirmDeposit i ow sg nl now) = snd (confirmConsumerDeposit h i ow sg nl now m)"
| "consumer_step h m (Adjust ow a d inc now) = snd (createConsumerBalanceAdjustment h ow a d inc now m)"
| "consumer_step h m (CreateWithdrawal inp now) = snd (createConsumerWithdrawal h inp now m)"
| "consumer_step h m (PrepareWithdrawal i ow msg ex now) = snd (prepareConsumerWithdrawal i ow msg ex now m)"
| "consumer_step h m (SubmitWithdrawal i ow msg sg now) =
     snd (submitPreparedConsumerWithdrawal i ow msg sg now m)"
| "consumer_step h m (CancelWithdrawal i ow now) = snd (cancelConsumerWithdrawal h i ow now m)"
| "consumer_step h m (UpdateWithdrawal i st sg now) = snd (updateConsumerWithdrawalStatus i st sg now m)"
| "consumer_step h m (Reserve inp now) = snd (reserveConsumerBalance h inp now m)"
| "consumer_step h m (Release i ow now) = snd (releaseConsumerReservation h i ow now m)"
| "consumer_step h m (MarkSubmitted i ow now) = snd (markConsumerReservationSubmitted i ow now m)"
| "consumer_step h m (RecordOrder i ow mk wo wr now) = snd (recordConsumerVenueOrder h i ow mk wo wr now m)"
| "consumer_step h m (Reconcile inp now) = snd (reconcileConsumerVenueOrder h inp now m)"
| "consumer_step h m (ConsumeNonce ns ow n ex now) = snd (consumeConsumerNonce ns ow n ex now m)"
| "consumer_step h m (ConsumeRate k l w now) = snd (consumeConsumerRateLimit k l w now m)"
| "consumer_step h m (PutWallet ow a pk c now) = snd (putConsumerWalletBinding ow a pk c now m)"
| "consumer_step h m (PutAcceptance r) = snd (putConsumerEligibilityAcceptance r m)"
| "consumer_step h m (EnqueueWake ow now) = snd (enqueueConsumerWake h ow now m)"
| "consumer_step h m (UpdateWake i st er now) = updateConsumerWakeJob i st er now m"
| "consumer_step h m (PutPolicy p) = snd (putConsumerRiskPolicy p m)"
| "consumer_step h m (HaltCircuit rs ack now) = snd (haltConsumerCircuit rs ack now m)"
| "consumer_step h m (ResumeCircuit ack d g now) = snd (resumeConsumerCircuit ack d g now m)"

section \<open>Each operation keeps the invariant\<close>

lemma amount_ok_positive: "positiveAmount v = Inr n \<Longrightarrow> amount_ok n"
  by (simp add: positiveAmount_def throw_rules amount_ok_def)

lemma transfer_posts [simp]:
  "amount_ok n \<Longrightarrow> balancedPostings [posting a Debit n, posting b Credit n] =
     Inr [posting a Debit n, posting b Credit n]"
  by (simp add: amount_ok_def)

lemma deposit_at:
  "money_inv m \<Longrightarrow> js_get (mem_deposits m) i = Some d \<Longrightarrow> dep_id d = i \<and> amount_ok (dep_amount d)"
  by (simp add: money_inv_def jm.all_entries_def)

lemma withdrawal_at:
  "money_inv m \<Longrightarrow> js_get (mem_withdrawals m) i = Some w \<Longrightarrow> amount_ok (wd_amount w)"
  by (simp add: money_inv_def jm.all_entries_def)

lemma order_at:
  "money_inv m \<Longrightarrow> js_get (mem_venueOrders m) i = Some vo \<Longrightarrow> order_ok m i vo"
  by (simp add: money_inv_def jm.all_entries_def)

lemma money_inv_nonneg: "money_inv m \<Longrightarrow> 0 \<le> avail_of a m \<and> 0 \<le> open_of a m"
  by (simp add: money_inv_def balances_ok_def)

lemma createDeposit_inv [inv_rules]:
  "money_inv m \<Longrightarrow> money_inv (snd (createConsumerDepositIntent h inp now m))"
  by (auto simp: createConsumerDepositIntent_def Let_def split: sum.splits
      intro!: money_inv_deposits dest: amount_ok_positive)

lemma confirmDeposit_inv [inv_rules]:
  assumes inv: "money_inv m"
  shows "money_inv (snd (confirmConsumerDeposit h i ow sg nl now m))"
proof (cases "js_get (mem_deposits m) i")
  case None
  then show ?thesis using inv by (simp add: confirmConsumerDeposit_def)
next
  case (Some d)
  have d: "dep_id d = i" "amount_ok (dep_amount d)" using deposit_at [OF inv Some] by simp_all
  let ?c = "d\<lparr>dep_status := Dep_confirmed, dep_signature := sg, dep_nullifier := nl,
    dep_confirmed_at := Some now\<rparr>"
  let ?m1 = "m\<lparr>mem_deposits := js_set (mem_deposits m) i ?c\<rparr>"
  have inv1: "money_inv ?m1" by (rule money_inv_deposits [OF inv]) (use d in simp_all)
  have "0 < dep_amount d" using d by (simp add: amount_ok_def)
  then have "money_inv (set_balance (dep_account d) (memoryBalance (dep_owner d) (dep_account d) ?m1
      \<lparr>bal_available := avail_of (dep_account d) ?m1 + dep_amount d, bal_updated_at := Some now\<rparr>) ?m1)"
    using money_inv_nonneg [OF inv1, of "dep_account d"] by (intro money_inv_set_balance [OF inv1]) simp_all
  then show ?thesis using inv Some d
    by (auto simp: confirmConsumerDeposit_def Let_def intro!: money_inv_ledger transfer_entry)
qed

lemma adjustment_postings_ok:
  assumes "n \<noteq> 0" "\<bar>n\<bar> \<le> max_safe"
  shows "\<exists>ps. adjustment_postings n = Inr ps \<and> (\<forall>t. led_postings t = ps \<longrightarrow> balanced_entry t)"
proof -
  have "amount_ok \<bar>n\<bar>" using assms by (simp add: amount_ok_def)
  then show ?thesis by (auto simp: adjustment_postings_def transfer_entry)
qed

lemma adjustment_inv [inv_rules]:
  assumes inv: "money_inv m"
  shows "money_inv (snd (createConsumerBalanceAdjustment h ow a d inc now m))"
proof (cases "\<not> is_safe_integer d \<or> num_int d = 0")
  case True
  then show ?thesis using inv by (auto simp: createConsumerBalanceAdjustment_def)
next
  case False
  then obtain n where n: "d = num n" "n \<noteq> 0" "\<bar>n\<bar> \<le> max_safe" by (auto elim: safe_integerE)
  obtain ps where ps: "adjustment_postings n = Inr ps" "\<And>t. led_postings t = ps \<Longrightarrow> balanced_entry t"
    using adjustment_postings_ok [OF n(2,3)] by blast
  show ?thesis using inv n ps money_inv_nonneg [OF inv, of a]
    by (auto simp: createConsumerBalanceAdjustment_def Let_def
        intro!: money_inv_ledger money_inv_set_balance)
qed

lemma createWithdrawal_inv [inv_rules]:
  assumes inv: "money_inv m"
  shows "money_inv (snd (createConsumerWithdrawal h inp now m))"
proof (cases "positiveAmount (wi_amount inp)")
  case (Inl e)
  then show ?thesis using inv by (simp add: createConsumerWithdrawal_def)
next
  case (Inr n)
  then have n: "amount_ok n" by (rule amount_ok_positive)
  then show ?thesis using inv Inr money_inv_nonneg [OF inv, of "wi_account inp"]
    by (auto simp: createConsumerWithdrawal_def Let_def
        intro!: money_inv_ledger money_inv_put_withdrawal money_inv_set_balance transfer_entry)
qed

lemma withdrawal_status_inv [inv_rules]:
  assumes inv: "money_inv m"
  shows "money_inv (snd (prepareConsumerWithdrawal i ow msg ex now m))"
    and "money_inv (snd (submitPreparedConsumerWithdrawal i ow msg sig now m))"
    and "money_inv (snd (updateConsumerWithdrawalStatus i st sg now m))"
  using inv by (auto simp: prepareConsumerWithdrawal_def submitPreparedConsumerWithdrawal_def
      updateConsumerWithdrawalStatus_def Let_def split: option.splits
      intro!: money_inv_put_withdrawal dest: withdrawal_at)

lemma cancelWithdrawal_inv [inv_rules]:
  assumes inv: "money_inv m"
  shows "money_inv (snd (cancelConsumerWithdrawal h i ow now m))"
proof (cases "js_get (mem_withdrawals m) i")
  case None
  then show ?thesis using inv by (simp add: cancelConsumerWithdrawal_def)
next
  case (Some w)
  have n: "amount_ok (wd_amount w)" using withdrawal_at [OF inv Some] .
  then have "0 < wd_amount w" by (simp add: amount_ok_def)
  then show ?thesis using inv Some n money_inv_nonneg [OF inv, of "wd_account w"]
    by (auto simp: cancelConsumerWithdrawal_def Let_def
        intro!: money_inv_ledger money_inv_put_withdrawal money_inv_set_balance transfer_entry)
qed

lemma reserve_inv [inv_rules]:
  assumes inv: "money_inv m"
  shows "money_inv (snd (reserveConsumerBalance h inp now m))"
proof (cases "and_then (positiveAmount (ri_notional inp)) (\<lambda>notional.
           and_then (positiveAmount (ri_fee inp)) (\<lambda>fee.
           and_then (case ri_venue_cost inp of None \<Rightarrow> Inr 0 | Some v \<Rightarrow> nonnegativeAmount v) (\<lambda>venueCost.
           and_then (balancedPostings [posting Consumer_available Debit (notional + fee + venueCost),
                       posting Consumer_reserved Credit (notional + fee + venueCost)]) (\<lambda>ps.
             Inr (notional, fee, venueCost, ps)))))")
  case (Inl e)
  then show ?thesis using inv by (simp add: reserveConsumerBalance_def)
next
  case (Inr q)
  obtain n f v ps where q: "q = (n, f, v, ps)" by (cases q)
  let ?r = "n + f + v" and ?a = "ri_account inp"
  let ?i = "reservation_id h ?a (ri_idempotency_key inp)"
  have parts: "0 < n" "0 < f" "0 \<le> v" "balancedPostings [posting Consumer_available Debit ?r,
      posting Consumer_reserved Credit ?r] = Inr ps"
    using Inr by (auto simp: q throw_rules positiveAmount_def nonnegativeAmount_def split: option.splits)
  have safe: "?r \<le> max_safe"
    using parts(4) by (auto simp: balancedPostings_def posting_def throw_rules positiveInteger_def split: if_splits)
  have amt: "amount_ok ?r" using parts safe by (simp add: amount_ok_def)
  then have ps: "ps = [posting Consumer_available Debit ?r, posting Consumer_reserved Credit ?r]"
    using parts(4) by simp
  define r where "r = \<lparr>res_id = ?i, res_owner = ri_owner inp, res_account = ?a,
    res_idempotency_key = ri_idempotency_key inp, res_venue = ri_venue inp, res_notional = n,
    res_venue_cost = v, res_fee = f, res_reserved = ?r, res_status = Reserved, res_created_at = now,
    res_expires_at = now + (case ri_ttl_ms inp of None \<Rightarrow> 10 * 60000 | Some t \<Rightarrow> t), res_updated_at = now\<rparr>"
  define b where "b = memoryBalance (ri_owner inp) ?a m\<lparr>bal_available := avail_of ?a m - ?r,
    bal_reserved := reserved_of ?a m + ?r, bal_updated_at := Some now\<rparr>"
  have moved: "money_inv (put_reservation ?i r (set_balance ?a b m))"
    if "\<not> js_has (mem_reservations m) ?i" "?r \<le> avail_of ?a m"
  proof -
    have "money_inv (put_reservation ?i r (set_balance (res_account r) b m))"
      using that parts amt money_inv_nonneg [OF inv, of ?a]
      by (intro money_inv_move [OF inv])
         (auto simp: r_def b_def reservation_ok_def js_has_get open_weight_def is_open_def)
    then show ?thesis by (simp add: r_def)
  qed
  show ?thesis using inv Inr moved amt
    by (auto simp: reserveConsumerBalance_def q Let_def ps r_def b_def
        intro!: money_inv_ledger transfer_entry)
qed

lemma release_inv [inv_rules]:
  assumes inv: "money_inv m"
  shows "money_inv (snd (releaseConsumerReservation h i ow now m))"
proof (cases "js_get (mem_reservations m) i")
  case None
  then show ?thesis using inv by (simp add: releaseConsumerReservation_def)
next
  case (Some r)
  have ok: "reservation_ok i r" using reservation_at [OF inv Some] .
  then have r: "res_id r = i" "amount_ok (res_reserved r)" "0 < res_reserved r"
    by (simp_all add: reservation_ok_def amount_ok_def)
  show ?thesis
  proof (cases "res_owner r \<noteq> ow \<or> res_status r \<noteq> Reserved")
    case True
    then show ?thesis using inv Some by (simp add: releaseConsumerReservation_def)
  next
    case False
    then have open_r: "is_open r" by (simp add: is_open_def)
    have le: "res_reserved r \<le> reserved_of (res_account r) m"
      by (rule open_reservation_le [OF inv Some open_r])
    define r' where "r' = r\<lparr>res_status := Released, res_updated_at := now\<rparr>"
    define b where "b = memoryBalance (res_owner r) (res_account r) m
      \<lparr>bal_available := avail_of (res_account r) m + res_reserved r,
       bal_reserved := max 0 (reserved_of (res_account r) m - res_reserved r), bal_updated_at := Some now\<rparr>"
    have "money_inv (put_reservation i r' (set_balance (res_account r') b m))"
      using ok r le open_r Some money_inv_nonneg [OF inv, of "res_account r"]
      by (intro money_inv_move [OF inv])
         (auto simp: r'_def b_def reservation_ok_def open_weight_def is_open_def)
    then have "money_inv (put_reservation i r' (set_balance (res_account r) b m))" by (simp add: r'_def)
    then show ?thesis using False Some r
      by (auto simp: releaseConsumerReservation_def Let_def r'_def b_def intro!: money_inv_ledger transfer_entry)
  qed
qed

text \<open>Writing a reservation whose account, amounts and openness stay the same.\<close>

lemma money_inv_same_weight:
  assumes inv: "money_inv m" and q: "js_get (mem_reservations m) i = Some q"
    and same: "res_account r = res_account q" "is_open r = is_open q" "reservation_ok i r"
      "res_reserved r = res_reserved q"
  shows "money_inv (put_reservation i r m)"
proof (rule money_invI)
  let ?m = "put_reservation i r m"
  note D = money_invD [OF inv]
  have wf: "js_wf (mem_reservations m)" using D(1) by (rule tables_okD)
  show "tables_ok ?m" using D(1) by (simp add: tables_ok_def)
  have "open_reserved a ?m = open_reserved a m" for a
  proof -
    have "open_weight a q = open_weight a r" using same by (simp add: open_weight_def)
    then show ?thesis using jm.sum_insert_same [OF wf q] by (simp add: open_reserved_def)
  qed
  then show "balances_ok ?m" using D(2) numbers_depend [of ?m m] by (simp add: balances_ok_def)
  show "jm.all_entries reservation_ok (mem_reservations ?m)"
    using D(3) same(3) by (simp add: jm.all_entries_insert)
  show "jm.all_entries (order_ok ?m) (mem_venueOrders ?m)"
    using D(4) q same(1) by (fastforce simp: jm.all_entries_def order_ok_def)
qed (use money_invD [OF inv] in simp_all)

lemma markSubmitted_inv [inv_rules]:
  assumes inv: "money_inv m"
  shows "money_inv (snd (markConsumerReservationSubmitted i ow now m))"
proof (cases "js_get (mem_reservations m) i")
  case None
  then show ?thesis using inv by (simp add: markConsumerReservationSubmitted_def)
next
  case (Some r)
  have "reservation_ok i r" using reservation_at [OF inv Some] .
  then have "money_inv (put_reservation i (r\<lparr>res_status := Res_submitted, res_updated_at := now\<rparr>) m)"
    if "res_status r = Reserved"
    using that by (intro money_inv_same_weight [OF inv Some]) (simp_all add: reservation_ok_def is_open_def)
  then show ?thesis using inv Some by (auto simp: markConsumerReservationSubmitted_def)
qed

lemma recordOrder_inv [inv_rules]:
  assumes inv: "money_inv m"
  shows "money_inv (snd (recordConsumerVenueOrder h i ow mk wo wr now m))"
proof (cases "js_get (mem_reservations m) i")
  case None
  then show ?thesis using inv by (simp add: recordConsumerVenueOrder_def)
next
  case (Some r)
  have "res_id r = i" using reservation_at [OF inv Some] by (simp add: reservation_ok_def)
  then show ?thesis using inv Some
    by (auto simp: recordConsumerVenueOrder_def Let_def venueOrderFromReservation_def order_ok_def
        split: option.splits intro!: money_inv_venue_orders)
qed

lemma settle_inv:
  assumes inv: "money_inv m" and vo: "js_get (mem_venueOrders m) k = Some vo"
    and r: "js_get (mem_reservations m) (ord_reservation vo) = Some r" "res_status r = Res_submitted"
    and parts: "0 \<le> f" "0 \<le> v" "0 \<le> g" "f + v + g \<le> res_reserved r"
  shows "money_inv (snd (settle_order h inp f v g vo r now m))"
proof -
  have ok: "reservation_ok (ord_reservation vo) r" using reservation_at [OF inv r(1)] .
  then have rid: "res_id r = ord_reservation vo" "amount_ok (res_reserved r)"
    by (simp_all add: reservation_ok_def)
  have acc: "ord_account vo = res_account r" "ord_id vo = k"
    using order_at [OF inv vo] r(1) by (auto simp: order_ok_def)
  have open_r: "is_open r" using r(2) by (simp add: is_open_def)
  have le: "res_reserved r \<le> reserved_of (res_account r) m"
    by (rule open_reservation_le [OF inv r(1) open_r])
  define r' where "r' = r\<lparr>res_status := Settled, res_updated_at := now\<rparr>"
  define b where "b = settled_balance (memoryBalance (res_owner r) (res_account r) m)
    (res_reserved r - (f + v + g)) (res_reserved r) f now"
  define m2 where "m2 = put_reservation (ord_reservation vo) r' (set_balance (res_account r) b m)"
  have "money_inv (put_reservation (ord_reservation vo) r' (set_balance (res_account r') b m))"
    using ok r open_r parts money_inv_nonneg [OF inv, of "res_account r"]
    by (intro money_inv_move [OF inv])
       (auto simp: r'_def b_def settled_balance_def reservation_ok_def open_weight_def is_open_def)
  then have inv2: "money_inv m2" by (simp add: m2_def r'_def)
  define vo' where "vo' = vo\<lparr>ord_status := rec_final_status inp, ord_reconciled_at := Some now\<rparr>"
  have inv3: "money_inv (m2\<lparr>mem_venueOrders := js_set (mem_venueOrders m2) k vo'\<rparr>)"
    by (rule money_inv_venue_orders [OF inv2]) (simp add: vo'_def order_ok_def m2_def r'_def acc)
  obtain ps where ps: "settlementPostings (res_reserved r) f v g = Inr ps"
      "\<And>t. led_postings t = ps \<Longrightarrow> balanced_entry t"
    using settlementPostings_ok [OF rid(2) parts] by blast
  show ?thesis
    unfolding settle_order_def Let_def acc rid(1) ps(1)
    using ps(2) by (auto intro!: money_inv_ledger split: option.splits
        intro: money_inv_other [OF inv3 [unfolded m2_def vo'_def r'_def b_def]])
qed

lemma reconcile_inv [inv_rules]:
  assumes inv: "money_inv m"
  shows "money_inv (snd (reconcileConsumerVenueOrder h inp now m))"
  using inv by (auto simp: reconcileConsumerVenueOrder_def throw_rules nonnegativeAmount_def
      split: sum.splits option.splits if_splits intro!: settle_inv)

lemma access_inv [inv_rules]:
  assumes inv: "money_inv m"
  shows "money_inv (snd (consumeConsumerNonce ns ow n ex now m))"
    and "money_inv (snd (consumeConsumerRateLimit k l w now m))"
    and "money_inv (snd (putConsumerWalletBinding ow a pk c now m))"
    and "money_inv (snd (putConsumerEligibilityAcceptance r m))"
    and "money_inv (snd (enqueueConsumerWake h ow now m))"
    and "money_inv (updateConsumerWakeJob i st er now m)"
    and "money_inv (snd (putConsumerRiskPolicy p m))"
    and "money_inv (snd (haltConsumerCircuit rs ack now m))"
    and "money_inv (snd (resumeConsumerCircuit ack2 d g now m))"
  by (rule money_inv_other [OF inv];
      simp add: consumeConsumerNonce_def consumeConsumerRateLimit_def putConsumerWalletBinding_def
        putConsumerEligibilityAcceptance_def enqueueConsumerWake_def updateConsumerWakeJob_def
        putConsumerRiskPolicy_def haltConsumerCircuit_def resumeConsumerCircuit_def pruneMemory_def
        Let_def split: option.splits)+

lemma consumer_step_inv: "money_inv m \<Longrightarrow> money_inv (consumer_step h m c)"
  by (cases c) (simp_all add: inv_rules)

end
