(* ===== verification/ConsumerBook.thy ===== *)
theory ConsumerBook imports ConsumerMachine
begin

text \<open>
  The contract of the consumer store: an abstract book of accounts. An account has available funds,
  reserved funds and open notional; a transfer is a credit, a debit, a hold, the end of a hold, or
  the settlement of a hold. Every call of the store refines the transfer its answer announces, and
  never one the book would refuse.
\<close>

section \<open>The abstract book\<close>

type_synonym funds = "string \<Rightarrow> int \<times> int \<times> int"

definition funds_of :: "memory \<Rightarrow> funds" where
  "funds_of m a = (avail_of a m, reserved_of a m, open_of a m)"

datatype transfer =
    No_transfer
  | Credit_funds string int
  | Debit_funds string int
  | Hold_funds string int
  | Unhold_funds string int
  | Settle_funds string int int int

fun apply_transfer :: "transfer \<Rightarrow> funds \<Rightarrow> funds" where
  "apply_transfer No_transfer b = b"
| "apply_transfer (Credit_funds a n) b = (case b a of (av, rs, op) \<Rightarrow> b(a := (av + n, rs, op)))"
| "apply_transfer (Debit_funds a n) b = (case b a of (av, rs, op) \<Rightarrow> b(a := (av - n, rs, op)))"
| "apply_transfer (Hold_funds a n) b = (case b a of (av, rs, op) \<Rightarrow> b(a := (av - n, rs + n, op)))"
| "apply_transfer (Unhold_funds a n) b = (case b a of (av, rs, op) \<Rightarrow> b(a := (av + n, rs - n, op)))"
| "apply_transfer (Settle_funds a held spent filled) b =
     (case b a of (av, rs, op) \<Rightarrow> b(a := (av + (held - spent), rs - held, op + filled)))"

fun transfer_allowed :: "transfer \<Rightarrow> funds \<Rightarrow> bool" where
  "transfer_allowed No_transfer b = True"
| "transfer_allowed (Credit_funds a n) b = (0 < n)"
| "transfer_allowed (Debit_funds a n) b = (0 < n \<and> n \<le> fst (b a))"
| "transfer_allowed (Hold_funds a n) b = (0 < n \<and> n \<le> fst (b a))"
| "transfer_allowed (Unhold_funds a n) b = (0 < n \<and> n \<le> fst (snd (b a)))"
| "transfer_allowed (Settle_funds a held spent filled) b =
     (0 < held \<and> held \<le> fst (snd (b a)) \<and> 0 \<le> filled \<and> filled \<le> spent \<and> spent \<le> held)"

text \<open>The transfer a call announces, read off its answer.\<close>

definition answer_transfer :: "'a outcome \<Rightarrow> ('a \<Rightarrow> transfer) \<Rightarrow> transfer" where
  "answer_transfer ans f = (case ans of Done x \<Rightarrow> f x | _ \<Rightarrow> No_transfer)"

lemma answer_transfer_simps [simp]:
  "answer_transfer (Done x) f = f x"
  "answer_transfer (Denied e) f = No_transfer"
  "answer_transfer (Threw e) f = No_transfer"
  by (simp_all add: answer_transfer_def)

definition confirm_transfer :: "ConsumerDepositIntent \<times> ConsumerBalanceSnapshot \<Rightarrow> transfer" where
  "confirm_transfer x = Credit_funds (dep_account (fst x)) (dep_amount (fst x))"

definition withdraw_transfer :: "ConsumerWithdrawal \<times> ConsumerBalanceSnapshot \<Rightarrow> transfer" where
  "withdraw_transfer x = Debit_funds (wd_account (fst x)) (wd_amount (fst x))"

definition reserve_transfer :: "ConsumerBalanceReservation \<times> ConsumerBalanceSnapshot \<Rightarrow> transfer" where
  "reserve_transfer x = Hold_funds (res_account (fst x)) (res_reserved (fst x))"

definition adjust_transfer :: "string \<Rightarrow> jsnum \<Rightarrow> ConsumerBalanceSnapshot \<times> string \<Rightarrow> transfer" where
  "adjust_transfer a d x =
     (if num_int d > 0 then Credit_funds a (num_int d) else Debit_funds a (- num_int d))"

definition cancel_transfer :: "ConsumerWithdrawal option result \<Rightarrow> transfer" where
  "cancel_transfer ans = (case ans of Inr (Some w) \<Rightarrow> Credit_funds (wd_account w) (wd_amount w)
     | _ \<Rightarrow> No_transfer)"

definition release_transfer :: "bool result \<Rightarrow> ConsumerBalanceReservation option \<Rightarrow> transfer" where
  "release_transfer ans r = (if ans = Inr True then (case r of None \<Rightarrow> No_transfer
     | Some r \<Rightarrow> Unhold_funds (res_account r) (res_reserved r)) else No_transfer)"

definition settle_transfer :: "memory \<Rightarrow> reconcile_input \<Rightarrow> reconcile_output \<Rightarrow> transfer" where
  "settle_transfer m inp out =
     (case js_get (mem_reservations m) (ord_reservation (out_order out)) of
        None \<Rightarrow> No_transfer
      | Some r \<Rightarrow> Settle_funds (ord_account (out_order out)) (res_reserved r)
          (num_int (rec_filled inp) + num_int (rec_venue_cost inp) + num_int (rec_fee inp))
          (num_int (rec_filled inp)))"

primrec call_transfer :: "host \<Rightarrow> memory \<Rightarrow> consumer_call \<Rightarrow> transfer" where
  "call_transfer h m (CreateDeposit inp now) = No_transfer"
| "call_transfer h m (ConfirmDeposit i ow sg nl now) =
     answer_transfer (fst (confirmConsumerDeposit h i ow sg nl now m)) confirm_transfer"
| "call_transfer h m (Adjust ow a d inc now) =
     answer_transfer (fst (createConsumerBalanceAdjustment h ow a d inc now m)) (adjust_transfer a d)"
| "call_transfer h m (CreateWithdrawal inp now) =
     answer_transfer (fst (createConsumerWithdrawal h inp now m)) withdraw_transfer"
| "call_transfer h m (PrepareWithdrawal i ow msg ex now) = No_transfer"
| "call_transfer h m (SubmitWithdrawal i ow msg sg now) = No_transfer"
| "call_transfer h m (CancelWithdrawal i ow now) =
     cancel_transfer (fst (cancelConsumerWithdrawal h i ow now m))"
| "call_transfer h m (UpdateWithdrawal i st sg now) = No_transfer"
| "call_transfer h m (Reserve inp now) =
     answer_transfer (fst (reserveConsumerBalance h inp now m)) reserve_transfer"
| "call_transfer h m (Release i ow now) =
     release_transfer (fst (releaseConsumerReservation h i ow now m)) (js_get (mem_reservations m) i)"
| "call_transfer h m (MarkSubmitted i ow now) = No_transfer"
| "call_transfer h m (RecordOrder i ow mk wo wr now) = No_transfer"
| "call_transfer h m (Reconcile inp now) =
     answer_transfer (fst (reconcileConsumerVenueOrder h inp now m)) (settle_transfer m inp)"
| "call_transfer h m (ConsumeNonce ns ow n ex now) = No_transfer"
| "call_transfer h m (ConsumeRate k l w now) = No_transfer"
| "call_transfer h m (PutWallet ow a pk c now) = No_transfer"
| "call_transfer h m (PutAcceptance r) = No_transfer"
| "call_transfer h m (EnqueueWake ow now) = No_transfer"
| "call_transfer h m (UpdateWake i st er now) = No_transfer"
| "call_transfer h m (PutPolicy p) = No_transfer"
| "call_transfer h m (HaltCircuit rs ack now) = No_transfer"
| "call_transfer h m (ResumeCircuit ack d g now) = No_transfer"

section \<open>Refinement, operation by operation\<close>

lemma funds_frame: "mem_balances m' = mem_balances m \<Longrightarrow> funds_of m' = funds_of m"
  using numbers_depend [of m' m] by (simp add: funds_of_def fun_eq_iff)

lemma funds_set_balance:
  assumes "mem_balances m' = js_set (mem_balances m) a b"
  shows "funds_of m' = (funds_of m)(a := (bal_available b, bal_reserved b, bal_open_notional b))"
  using assms by (simp add: funds_of_def fun_eq_iff avail_of_def reserved_of_def open_of_def)

definition refines :: "host \<Rightarrow> memory \<Rightarrow> consumer_call \<Rightarrow> bool" where
  "refines h m c \<longleftrightarrow> funds_of (consumer_step h m c) = apply_transfer (call_transfer h m c) (funds_of m) \<and>
     transfer_allowed (call_transfer h m c) (funds_of m)"

lemma refines_quiet:
  assumes "call_transfer h m c = No_transfer" "mem_balances (consumer_step h m c) = mem_balances m"
  shows "refines h m c"
  using assms funds_frame [of "consumer_step h m c" m] by (simp add: refines_def)

lemma refines_confirm:
  assumes inv: "money_inv m"
  shows "refines h m (ConfirmDeposit i ow sg nl now)"
proof (cases "js_get (mem_deposits m) i")
  case None
  then show ?thesis by (intro refines_quiet) (simp_all add: confirmConsumerDeposit_def)
next
  case (Some d)
  have d: "dep_id d = i" "amount_ok (dep_amount d)" using deposit_at [OF inv Some] by simp_all
  show ?thesis
  proof (cases "dep_owner d \<noteq> ow \<or> dep_status d \<noteq> Dep_pending \<or>
      list_ex (evidence_used sg nl d) (js_values (mem_deposits m))")
    case True
    then show ?thesis using Some by (intro refines_quiet) (auto simp: confirmConsumerDeposit_def)
  next
    case False
    let ?m1 = "m\<lparr>mem_deposits := js_set (mem_deposits m) i (d\<lparr>dep_status := Dep_confirmed,
      dep_signature := sg, dep_nullifier := nl, dep_confirmed_at := Some now\<rparr>)\<rparr>"
    have n: "avail_of a ?m1 = avail_of a m" "reserved_of a ?m1 = reserved_of a m"
      "open_of a ?m1 = open_of a m" for a by (simp_all add: numbers_depend [of ?m1 m])
    have "funds_of (consumer_step h m (ConfirmDeposit i ow sg nl now)) =
        (funds_of m)(dep_account d := (avail_of (dep_account d) m + dep_amount d,
           reserved_of (dep_account d) m, open_of (dep_account d) m))"
      using False Some d by (subst funds_set_balance [where m = m and a = "dep_account d"
          and b = "memoryBalance (dep_owner d) (dep_account d) ?m1\<lparr>bal_available :=
            avail_of (dep_account d) ?m1 + dep_amount d, bal_updated_at := Some now\<rparr>"])
         (auto simp: confirmConsumerDeposit_def Let_def n)
    then show ?thesis using False Some d
      by (auto simp: refines_def confirm_transfer_def confirmConsumerDeposit_def Let_def funds_of_def amount_ok_def)
  qed
qed

lemma refines_adjust:
  assumes inv: "money_inv m"
  shows "refines h m (Adjust ow a d inc now)"
proof (cases "\<not> is_safe_integer d \<or> num_int d = 0")
  case True
  then show ?thesis by (intro refines_quiet) (auto simp: adjust_transfer_def createConsumerBalanceAdjustment_def)
next
  case False
  then obtain n where n: "d = num n" "n \<noteq> 0" "\<bar>n\<bar> \<le> max_safe" by (auto elim: safe_integerE)
  obtain ps where ps: "adjustment_postings n = Inr ps" using adjustment_postings_ok [OF n(2,3)] by blast
  show ?thesis
  proof (cases "js_has (mem_ledger m) (adjustment_key h inc) \<or> avail_of a m + n < 0")
    case True
    then show ?thesis using n ps
      by (intro refines_quiet) (auto simp: adjust_transfer_def createConsumerBalanceAdjustment_def Let_def)
  next
    case False
    then have "funds_of (consumer_step h m (Adjust ow a d inc now)) =
        (funds_of m)(a := (avail_of a m + n, reserved_of a m, open_of a m))"
      using n ps by (subst funds_set_balance [where m = m and a = a
          and b = "memoryBalance ow a m\<lparr>bal_available := avail_of a m + n, bal_updated_at := Some now\<rparr>"])
         (auto simp: adjust_transfer_def createConsumerBalanceAdjustment_def Let_def)
    then show ?thesis using False n ps
      by (auto simp: refines_def adjust_transfer_def createConsumerBalanceAdjustment_def Let_def funds_of_def)
  qed
qed

lemma refines_create_withdrawal: "refines h m (CreateWithdrawal inp now)"
proof (cases "positiveAmount (wi_amount inp)")
  case (Inl e)
  then show ?thesis by (intro refines_quiet) (simp_all add: createConsumerWithdrawal_def)
next
  case (Inr n)
  then have n: "amount_ok n" by (rule amount_ok_positive)
  let ?a = "wi_account inp"
  show ?thesis
  proof (cases "js_has (mem_withdrawals m) (withdrawal_id h ?a (wi_idempotency_key inp)) \<or> avail_of ?a m < n")
    case True
    then show ?thesis using n Inr
      by (intro refines_quiet) (auto simp: createConsumerWithdrawal_def Let_def)
  next
    case False
    then have "funds_of (consumer_step h m (CreateWithdrawal inp now)) =
        (funds_of m)(?a := (avail_of ?a m - n, reserved_of ?a m, open_of ?a m))"
      using n Inr by (subst funds_set_balance [where m = m and a = ?a
          and b = "memoryBalance (wi_owner inp) ?a m\<lparr>bal_available := avail_of ?a m - n,
            bal_updated_at := Some now\<rparr>"]) (auto simp: createConsumerWithdrawal_def Let_def)
    then show ?thesis using False n Inr
      by (auto simp: refines_def withdraw_transfer_def createConsumerWithdrawal_def Let_def funds_of_def amount_ok_def)
  qed
qed

lemma refines_cancel_withdrawal:
  assumes inv: "money_inv m"
  shows "refines h m (CancelWithdrawal i ow now)"
proof (cases "js_get (mem_withdrawals m) i")
  case None
  then show ?thesis by (intro refines_quiet) (simp_all add: cancel_transfer_def cancelConsumerWithdrawal_def)
next
  case (Some w)
  have n: "amount_ok (wd_amount w)" using withdrawal_at [OF inv Some] .
  show ?thesis
  proof (cases "wd_owner w \<noteq> ow \<or> wd_status w \<notin> {Wd_queued, Wd_prepared}")
    case True
    then show ?thesis using Some by (intro refines_quiet) (auto simp: cancel_transfer_def cancelConsumerWithdrawal_def)
  next
    case False
    let ?a = "wd_account w"
    have "funds_of (consumer_step h m (CancelWithdrawal i ow now)) =
        (funds_of m)(?a := (avail_of ?a m + wd_amount w, reserved_of ?a m, open_of ?a m))"
      using n Some False by (subst funds_set_balance [where m = m and a = ?a
          and b = "memoryBalance (wd_owner w) ?a m\<lparr>bal_available := avail_of ?a m + wd_amount w,
            bal_updated_at := Some now\<rparr>"]) (auto simp: cancel_transfer_def cancelConsumerWithdrawal_def Let_def)
    then show ?thesis using False n Some
      by (auto simp: refines_def cancel_transfer_def cancelConsumerWithdrawal_def Let_def funds_of_def amount_ok_def)
  qed
qed

lemma refines_reserve: "refines h m (Reserve inp now)"
proof (cases "fst (reserveConsumerBalance h inp now m)")
  case (Done x)
  obtain r b where x: "x = (r, b)" by (cases x)
  let ?a = "ri_account inp"
  have r: "res_account r = ?a" "amount_ok (res_reserved r)" "res_reserved r \<le> avail_of ?a m"
    and step: "mem_balances (consumer_step h m (Reserve inp now)) = js_set (mem_balances m) ?a b"
    and b: "bal_available b = avail_of ?a m - res_reserved r"
      "bal_reserved b = reserved_of ?a m + res_reserved r" "bal_open_notional b = open_of ?a m"
    using Done unfolding x
    by (auto simp: reserveConsumerBalance_def Let_def throw_rules positiveAmount_def nonnegativeAmount_def
        balancedPostings_def posting_def positiveInteger_def amount_ok_def
        split: sum.splits if_splits option.splits)
  show ?thesis using Done r b funds_set_balance [OF step]
    by (auto simp: refines_def reserve_transfer_def x funds_of_def amount_ok_def)
qed (auto simp: reserveConsumerBalance_def Let_def split: sum.splits if_splits intro!: refines_quiet)

lemma refines_release:
  assumes inv: "money_inv m"
  shows "refines h m (Release i ow now)"
proof (cases "js_get (mem_reservations m) i")
  case None
  then show ?thesis by (intro refines_quiet) (simp_all add: releaseConsumerReservation_def release_transfer_def)
next
  case (Some r)
  have ok: "res_id r = i" "amount_ok (res_reserved r)"
    using reservation_at [OF inv Some] by (simp_all add: reservation_ok_def)
  show ?thesis
  proof (cases "res_owner r \<noteq> ow \<or> res_status r \<noteq> Reserved")
    case True
    then show ?thesis using Some
      by (intro refines_quiet) (auto simp: releaseConsumerReservation_def release_transfer_def)
  next
    case False
    let ?a = "res_account r"
    have le: "res_reserved r \<le> reserved_of ?a m"
      by (rule open_reservation_le [OF inv Some]) (use False in \<open>simp add: is_open_def\<close>)
    have "funds_of (consumer_step h m (Release i ow now)) = (funds_of m)(?a :=
        (avail_of ?a m + res_reserved r, max 0 (reserved_of ?a m - res_reserved r), open_of ?a m))"
      using Some False ok by (subst funds_set_balance [where m = m and a = ?a
          and b = "memoryBalance (res_owner r) ?a m\<lparr>bal_available := avail_of ?a m + res_reserved r,
            bal_reserved := max 0 (reserved_of ?a m - res_reserved r), bal_updated_at := Some now\<rparr>"])
         (auto simp: releaseConsumerReservation_def Let_def)
    then show ?thesis using False ok Some le
      by (auto simp: refines_def releaseConsumerReservation_def release_transfer_def Let_def
          funds_of_def amount_ok_def)
  qed
qed

lemma settle_order_balances:
  assumes "settlementPostings (res_reserved r) f v g = Inr ps"
  shows "mem_balances (snd (settle_order h inp f v g vo r now m)) =
      js_set (mem_balances m) (ord_account vo) (settled_balance
        (memoryBalance (res_owner r) (res_account r) m) (res_reserved r - (f + v + g)) (res_reserved r) f now)"
    and "\<exists>out. fst (settle_order h inp f v g vo r now m) = Done out \<and>
      ord_reservation (out_order out) = ord_reservation vo \<and> ord_account (out_order out) = ord_account vo"
  unfolding settle_order_def Let_def assms by (simp_all split: option.splits)

lemma reconcile_runs:
  obtains (refused) e where "reconcileConsumerVenueOrder h inp now m = (Threw e, m)"
  | (denied) e where "reconcileConsumerVenueOrder h inp now m = (Denied e, m)"
  | (settles) f v g vo r where
      "rec_filled inp = num f" "rec_venue_cost inp = num v" "rec_fee inp = num g"
      "0 \<le> f" "0 \<le> v" "0 \<le> g" "js_get (mem_venueOrders m) (rec_order inp) = Some vo"
      "js_get (mem_reservations m) (ord_reservation vo) = Some r" "res_status r = Res_submitted"
      "f + v + g \<le> res_reserved r" "ord_reconciled_at vo = None" "f = 0 \<longrightarrow> g = 0"
      "\<not> js_has (mem_reconciliation m) (ord_id vo)"
      "reconcileConsumerVenueOrder h inp now m = settle_order h inp f v g vo r now m"
proof (cases "and_then (nonnegativeAmount (rec_filled inp)) (\<lambda>filled.
           and_then (nonnegativeAmount (rec_venue_cost inp)) (\<lambda>venueCost.
           and_then (nonnegativeAmount (rec_fee inp)) (\<lambda>gholaFee. Inr (filled, venueCost, gholaFee))))")
  case (Inl e)
  then show ?thesis by (intro refused) (simp add: reconcileConsumerVenueOrder_def)
next
  case (Inr q)
  then obtain f v g where q: "q = (f, v, g)" "rec_filled inp = num f" "rec_venue_cost inp = num v"
      "rec_fee inp = num g" "0 \<le> f" "0 \<le> v" "0 \<le> g"
    by (auto simp: throw_rules nonnegativeAmount_def)
  show ?thesis
  proof (cases "\<exists>e. reconcileConsumerVenueOrder h inp now m = (Denied e, m)")
    case True
    then show ?thesis using denied by blast
  next
    case False
    then show ?thesis using Inr q
      by (intro settles [of f v g "the (js_get (mem_venueOrders m) (rec_order inp))"
            "the (js_get (mem_reservations m) (ord_reservation
               (the (js_get (mem_venueOrders m) (rec_order inp)))))"])
         (auto simp: reconcileConsumerVenueOrder_def split: if_splits option.splits)
  qed
qed

lemma refines_reconcile:
  assumes inv: "money_inv m"
  shows "refines h m (Reconcile inp now)"
proof (cases rule: reconcile_runs [of h inp now m])
  case (settles f v g vo r)
  note parts = settles(1-6) and vo = settles(7) and r = settles(8,9) and fits = settles(10) and run = settles(14)
  have ok: "amount_ok (res_reserved r)" using reservation_at [OF inv r(1)] by (simp add: reservation_ok_def)
  have acc: "ord_account vo = res_account r" using order_at [OF inv vo] r(1) by (auto simp: order_ok_def)
  have le: "res_reserved r \<le> reserved_of (res_account r) m"
    by (rule open_reservation_le [OF inv r(1)]) (use r(2) in \<open>simp add: is_open_def\<close>)
  obtain ps where ps: "settlementPostings (res_reserved r) f v g = Inr ps"
    using settlementPostings_ok [OF ok parts(4-6) fits] by blast
  note bal = settle_order_balances [OF ps, of h inp vo now m]
  have "funds_of (consumer_step h m (Reconcile inp now)) = (funds_of m)(res_account r :=
      (avail_of (res_account r) m + (res_reserved r - (f + v + g)),
       reserved_of (res_account r) m - res_reserved r, open_of (res_account r) m + f))"
    using funds_set_balance [OF bal(1)] by (simp add: run acc settled_balance_def)
  moreover have "call_transfer h m (Reconcile inp now) =
      Settle_funds (res_account r) (res_reserved r) (f + v + g) f"
    using bal(2) r(1) parts by (auto simp: run acc settle_transfer_def)
  ultimately show ?thesis using le ok parts fits
    by (simp add: refines_def funds_of_def amount_ok_def)
qed (auto intro!: refines_quiet)

text \<open>Every call refines the transfer it announces.\<close>

lemma quiet_balances:
  "mem_balances (snd (createConsumerDepositIntent h inp now m)) = mem_balances m"
  "mem_balances (snd (prepareConsumerWithdrawal i ow msg ex now m)) = mem_balances m"
  "mem_balances (snd (submitPreparedConsumerWithdrawal i ow msg sig now m)) = mem_balances m"
  "mem_balances (snd (updateConsumerWithdrawalStatus i st sg now m)) = mem_balances m"
  "mem_balances (snd (markConsumerReservationSubmitted i ow now m)) = mem_balances m"
  "mem_balances (snd (recordConsumerVenueOrder h i ow mk wo wr now m)) = mem_balances m"
  "mem_balances (snd (consumeConsumerNonce ns ow n ex2 now2 m)) = mem_balances m"
  "mem_balances (snd (consumeConsumerRateLimit k l w now2 m)) = mem_balances m"
  "mem_balances (snd (putConsumerWalletBinding ow a pk c now m)) = mem_balances m"
  "mem_balances (snd (putConsumerEligibilityAcceptance acc m)) = mem_balances m"
  "mem_balances (snd (enqueueConsumerWake h ow now m)) = mem_balances m"
  "mem_balances (updateConsumerWakeJob i wst er now m) = mem_balances m"
  "mem_balances (snd (putConsumerRiskPolicy p m)) = mem_balances m"
  "mem_balances (snd (haltConsumerCircuit rs ack now m)) = mem_balances m"
  "mem_balances (snd (resumeConsumerCircuit ack2 d g now m)) = mem_balances m"
  by (simp_all add: createConsumerDepositIntent_def prepareConsumerWithdrawal_def
      submitPreparedConsumerWithdrawal_def updateConsumerWithdrawalStatus_def
      markConsumerReservationSubmitted_def recordConsumerVenueOrder_def consumeConsumerNonce_def
      consumeConsumerRateLimit_def putConsumerWalletBinding_def putConsumerEligibilityAcceptance_def
      enqueueConsumerWake_def updateConsumerWakeJob_def putConsumerRiskPolicy_def
      haltConsumerCircuit_def resumeConsumerCircuit_def pruneMemory_def Let_def
      split: option.splits sum.splits)

lemma consumer_step_refines: "money_inv m \<Longrightarrow> refines h m c"
  by (cases c) (auto simp: refines_confirm refines_adjust refines_create_withdrawal
      refines_cancel_withdrawal refines_reserve refines_release refines_reconcile quiet_balances
      intro!: refines_quiet)

section \<open>Flows\<close>

fun transfer_flow :: "string \<Rightarrow> transfer \<Rightarrow> int" where
  "transfer_flow a (Credit_funds c n) = (if c = a then n else 0)"
| "transfer_flow a (Debit_funds c n) = (if c = a then - n else 0)"
| "transfer_flow a (Settle_funds c held spent filled) = (if c = a then - spent else 0)"
| "transfer_flow a t = 0"

fun run_flow :: "host \<Rightarrow> string \<Rightarrow> memory \<Rightarrow> consumer_call list \<Rightarrow> int" where
  "run_flow h a m [] = 0"
| "run_flow h a m (c # cs) =
     transfer_flow a (call_transfer h m c) + run_flow h a (consumer_step h m c) cs"

definition held_funds :: "string \<Rightarrow> memory \<Rightarrow> int" where
  "held_funds a m = avail_of a m + reserved_of a m"

lemma held_funds_apply:
  assumes "funds_of m' = apply_transfer t (funds_of m)"
  shows "held_funds a m' = held_funds a m + transfer_flow a t"
proof -
  have "held_funds a m' = fst (funds_of m' a) + fst (snd (funds_of m' a))"
    by (simp add: held_funds_def funds_of_def)
  then show ?thesis unfolding assms
    by (cases t) (auto simp: held_funds_def funds_of_def)
qed

interpretation consumer: call_machine "consumer_step h" money_inv for h
  by unfold_locales (rule consumer_step_inv)

lemma run_flow_held:
  "money_inv m \<Longrightarrow> held_funds a (run_calls (consumer_step h) m cs) = held_funds a m + run_flow h a m cs"
proof (induction cs arbitrary: m)
  case Nil
  then show ?case by simp
next
  case (Cons c cs)
  have "held_funds a (consumer_step h m c) = held_funds a m + transfer_flow a (call_transfer h m c)"
    using consumer_step_refines [OF Cons.prems, of h c] by (intro held_funds_apply) (simp add: refines_def)
  with Cons consumer.step_inv [OF Cons.prems] show ?case by simp
qed

end
