(* ===== verification/ConsumerLifecycle.thy ===== *)
theory ConsumerLifecycle imports ConsumerBook
begin

text \<open>
  How the records of the consumer store move: the states of a withdrawal and of a reservation, the
  single use of a nonce, the count of a rate window, and the circuit breaker. These are step lemmas
  about one call; the properties lift them to runs.
\<close>

section \<open>What a call leaves alone\<close>

lemma settle_order_frame:
  "mem_withdrawals (snd (settle_order h inp f v g vo r now m)) = mem_withdrawals m"
  "mem_deposits (snd (settle_order h inp f v g vo r now m)) = mem_deposits m"
  "mem_nonces (snd (settle_order h inp f v g vo r now m)) = mem_nonces m"
  "mem_rates (snd (settle_order h inp f v g vo r now m)) = mem_rates m"
  "mem_circuit (snd (settle_order h inp f v g vo r now m)) = mem_circuit m"
  "mem_reservations (snd (settle_order h inp f v g vo r now m)) =
     js_set (mem_reservations m) (res_id r) (r\<lparr>res_status := Settled, res_updated_at := now\<rparr>)"
  by (simp_all add: settle_order_def Let_def putMemoryLedger_def put_reservation_def set_balance_def
      split: sum.splits option.splits)

lemma put_frame_access [simp]:
  "mem_nonces (put_reservation i r m) = mem_nonces m"
  "mem_nonces (put_withdrawal i w m) = mem_nonces m"
  "mem_nonces (set_balance a b m) = mem_nonces m"
  "mem_nonces (putMemoryLedger h ow a k key ref ps now m) = mem_nonces m"
  "mem_rates (put_reservation i r m) = mem_rates m"
  "mem_rates (put_withdrawal i w m) = mem_rates m"
  "mem_rates (set_balance a b m) = mem_rates m"
  "mem_rates (putMemoryLedger h ow a k key ref ps now m) = mem_rates m"
  "mem_circuit (put_reservation i r m) = mem_circuit m"
  "mem_circuit (put_withdrawal i w m) = mem_circuit m"
  "mem_circuit (set_balance a b m) = mem_circuit m"
  "mem_circuit (putMemoryLedger h ow a k key ref ps now m) = mem_circuit m"
  by (simp_all add: put_reservation_def put_withdrawal_def set_balance_def putMemoryLedger_def Let_def)

lemmas funding_defs = createConsumerDepositIntent_def confirmConsumerDeposit_def
  createConsumerBalanceAdjustment_def createConsumerWithdrawal_def prepareConsumerWithdrawal_def
  submitPreparedConsumerWithdrawal_def cancelConsumerWithdrawal_def updateConsumerWithdrawalStatus_def

lemmas order_defs = reserveConsumerBalance_def releaseConsumerReservation_def
  markConsumerReservationSubmitted_def recordConsumerVenueOrder_def

lemmas access_defs = consumeConsumerNonce_def consumeConsumerRateLimit_def putConsumerWalletBinding_def
  putConsumerEligibilityAcceptance_def enqueueConsumerWake_def updateConsumerWakeJob_def
  putConsumerRiskPolicy_def haltConsumerCircuit_def resumeConsumerCircuit_def pruneMemory_def

section \<open>Withdrawals\<close>

fun wd_edge :: "withdrawal_status \<Rightarrow> withdrawal_status \<Rightarrow> bool" where
  "wd_edge Wd_queued t = (t \<in> {Wd_prepared, Wd_submitted, Wd_failed_review, Wd_cancelled})"
| "wd_edge Wd_prepared t = (t \<in> {Wd_prepared, Wd_submitted, Wd_cancelled})"
| "wd_edge Wd_submitted t = (t \<in> {Wd_finalized, Wd_failed_review})"
| "wd_edge s t = False"

definition wd_same_terms :: "ConsumerWithdrawal \<Rightarrow> ConsumerWithdrawal \<Rightarrow> bool" where
  "wd_same_terms w w' \<longleftrightarrow> wd_id w' = wd_id w \<and> wd_owner w' = wd_owner w \<and> wd_account w' = wd_account w \<and>
     wd_amount w' = wd_amount w \<and> wd_destination w' = wd_destination w"

definition wd_moves :: "ConsumerWithdrawal \<Rightarrow> ConsumerWithdrawal \<Rightarrow> bool" where
  "wd_moves w w' \<longleftrightarrow> wd_same_terms w w' \<and> (wd_status w' = wd_status w \<or> wd_edge (wd_status w) (wd_status w'))"

lemma wd_moves_refl [simp]: "wd_moves w w"
  by (simp add: wd_moves_def wd_same_terms_def)

lemma withdrawals_frame:
  "mem_withdrawals (snd (createConsumerDepositIntent h di now m)) = mem_withdrawals m"
  "mem_withdrawals (snd (confirmConsumerDeposit h i ow sg nl now m)) = mem_withdrawals m"
  "mem_withdrawals (snd (createConsumerBalanceAdjustment h ow a d inc now m)) = mem_withdrawals m"
  "mem_withdrawals (snd (reserveConsumerBalance h ri now m)) = mem_withdrawals m"
  "mem_withdrawals (snd (releaseConsumerReservation h i ow now m)) = mem_withdrawals m"
  "mem_withdrawals (snd (markConsumerReservationSubmitted i ow now m)) = mem_withdrawals m"
  "mem_withdrawals (snd (recordConsumerVenueOrder h i ow mk wo wr now m)) = mem_withdrawals m"
  "mem_withdrawals (snd (reconcileConsumerVenueOrder h rc now m)) = mem_withdrawals m"
  "mem_withdrawals (snd (consumeConsumerNonce ns ow n ex2 now2 m)) = mem_withdrawals m"
  "mem_withdrawals (snd (consumeConsumerRateLimit k l w2 now2 m)) = mem_withdrawals m"
  "mem_withdrawals (snd (putConsumerWalletBinding ow a pk c now m)) = mem_withdrawals m"
  "mem_withdrawals (snd (putConsumerEligibilityAcceptance acc m)) = mem_withdrawals m"
  "mem_withdrawals (snd (enqueueConsumerWake h ow now m)) = mem_withdrawals m"
  "mem_withdrawals (updateConsumerWakeJob i wst er now m) = mem_withdrawals m"
  "mem_withdrawals (snd (putConsumerRiskPolicy p m)) = mem_withdrawals m"
  "mem_withdrawals (snd (haltConsumerCircuit rs ack now m)) = mem_withdrawals m"
  "mem_withdrawals (snd (resumeConsumerCircuit ack2 d2 g now m)) = mem_withdrawals m"
  by (simp_all add: funding_defs order_defs access_defs reconcileConsumerVenueOrder_def
      settle_order_frame Let_def split: option.splits sum.splits)

lemma withdrawal_moves:
  assumes w: "js_get (mem_withdrawals m) i = Some w"
  shows "\<exists>w'. js_get (mem_withdrawals (consumer_step h m c)) i = Some w' \<and> wd_moves w w'"
proof (cases c)
  case (CreateWithdrawal inp now)
  then show ?thesis using w
    by (auto simp: createConsumerWithdrawal_def Let_def js_has_get split: sum.splits)
next
  case (PrepareWithdrawal j ow msg ex now)
  then show ?thesis using w
    by (auto simp: prepareConsumerWithdrawal_def Let_def wd_moves_def wd_same_terms_def split: option.splits)
next
  case (SubmitWithdrawal j ow msg sg now)
  then show ?thesis using w
    by (auto simp: submitPreparedConsumerWithdrawal_def Let_def wd_moves_def wd_same_terms_def
        split: option.splits)
next
  case (CancelWithdrawal j ow now)
  then show ?thesis using w
    by (auto simp: cancelConsumerWithdrawal_def Let_def wd_moves_def wd_same_terms_def
        split: option.splits sum.splits)
next
  case (UpdateWithdrawal j st sg now)
  then show ?thesis using w
    by (cases st) (auto simp: updateConsumerWithdrawalStatus_def validWithdrawalTransition_def Let_def
        wd_moves_def wd_same_terms_def split: option.splits)
qed (use w in \<open>simp_all add: withdrawals_frame\<close>)

section \<open>Reservations\<close>

fun res_edge :: "reservation_status \<Rightarrow> reservation_status \<Rightarrow> bool" where
  "res_edge Reserved t = (t \<in> {Released, Res_submitted})"
| "res_edge Res_submitted t = (t = Settled)"
| "res_edge s t = False"

definition res_same_terms :: "ConsumerBalanceReservation \<Rightarrow> ConsumerBalanceReservation \<Rightarrow> bool" where
  "res_same_terms r r' \<longleftrightarrow> res_id r' = res_id r \<and> res_owner r' = res_owner r \<and>
     res_account r' = res_account r \<and> res_venue r' = res_venue r \<and>
     res_reserved r' = res_reserved r \<and> res_notional r' = res_notional r"

definition res_moves :: "ConsumerBalanceReservation \<Rightarrow> ConsumerBalanceReservation \<Rightarrow> bool" where
  "res_moves r r' \<longleftrightarrow> res_same_terms r r' \<and>
     (res_status r' = res_status r \<or> res_edge (res_status r) (res_status r'))"

lemma res_moves_refl [simp]: "res_moves r r"
  by (simp add: res_moves_def res_same_terms_def)

lemma reservations_frame:
  "mem_reservations (snd (createConsumerDepositIntent h di now m)) = mem_reservations m"
  "mem_reservations (snd (confirmConsumerDeposit h i ow sg nl now m)) = mem_reservations m"
  "mem_reservations (snd (createConsumerBalanceAdjustment h ow a d inc now m)) = mem_reservations m"
  "mem_reservations (snd (createConsumerWithdrawal h wi now m)) = mem_reservations m"
  "mem_reservations (snd (prepareConsumerWithdrawal i ow msg ex now m)) = mem_reservations m"
  "mem_reservations (snd (submitPreparedConsumerWithdrawal i ow msg sig now m)) = mem_reservations m"
  "mem_reservations (snd (cancelConsumerWithdrawal h i ow now m)) = mem_reservations m"
  "mem_reservations (snd (updateConsumerWithdrawalStatus i st sg now m)) = mem_reservations m"
  "mem_reservations (snd (recordConsumerVenueOrder h i ow mk wo wr now m)) = mem_reservations m"
  "mem_reservations (snd (consumeConsumerNonce ns ow n ex2 now2 m)) = mem_reservations m"
  "mem_reservations (snd (consumeConsumerRateLimit k l w2 now2 m)) = mem_reservations m"
  "mem_reservations (snd (putConsumerWalletBinding ow a pk c now m)) = mem_reservations m"
  "mem_reservations (snd (putConsumerEligibilityAcceptance acc m)) = mem_reservations m"
  "mem_reservations (snd (enqueueConsumerWake h ow now m)) = mem_reservations m"
  "mem_reservations (updateConsumerWakeJob i wst er now m) = mem_reservations m"
  "mem_reservations (snd (putConsumerRiskPolicy p m)) = mem_reservations m"
  "mem_reservations (snd (haltConsumerCircuit rs ack now m)) = mem_reservations m"
  "mem_reservations (snd (resumeConsumerCircuit ack2 d2 g now m)) = mem_reservations m"
  by (simp_all add: funding_defs order_defs access_defs Let_def split: option.splits sum.splits)

lemma reservation_moves:
  assumes inv: "money_inv m" and r: "js_get (mem_reservations m) i = Some r"
  shows "\<exists>r'. js_get (mem_reservations (consumer_step h m c)) i = Some r' \<and> res_moves r r'"
proof (cases c)
  case (Reserve inp now)
  then show ?thesis using r
    by (auto simp: reserveConsumerBalance_def Let_def js_has_get split: sum.splits)
next
  case (Release j ow now)
  show ?thesis
  proof (cases "js_get (mem_reservations m) j")
    case None
    then show ?thesis using r Release by (simp add: releaseConsumerReservation_def)
  next
    case (Some q)
    then have "res_id q = j" using reservation_at [OF inv Some] by (simp add: reservation_ok_def)
    then show ?thesis using r Release Some
      by (auto simp: releaseConsumerReservation_def Let_def res_moves_def res_same_terms_def
          split: sum.splits)
  qed
next
  case (MarkSubmitted j ow now)
  then show ?thesis using r
    by (auto simp: markConsumerReservationSubmitted_def res_moves_def res_same_terms_def
        split: option.splits)
next
  case (Reconcile inp now)
  show ?thesis
  proof (cases rule: reconcile_runs [of h inp now m])
    case (settles f v g vo q)
    then have "res_id q = ord_reservation vo"
      using reservation_at [OF inv settles(8)] by (simp add: reservation_ok_def)
    then show ?thesis using r Reconcile settles(8,9,14)
      by (auto simp: settle_order_frame res_moves_def res_same_terms_def)
  qed (use r Reconcile in simp_all)
qed (use r in \<open>simp_all add: reservations_frame\<close>)

lemma reservation_run_moves:
  assumes "money_inv m" "js_get (mem_reservations m) i = Some r" "\<not> is_open r"
  shows "\<exists>r'. js_get (mem_reservations (run_calls (consumer_step h) m cs)) i = Some r' \<and>
    res_same_terms r r' \<and> res_status r' = res_status r"
  using assms
proof (induction cs arbitrary: m r)
  case Nil
  then show ?case by (simp add: res_same_terms_def)
next
  case (Cons c cs)
  obtain r' where r': "js_get (mem_reservations (consumer_step h m c)) i = Some r'" "res_moves r r'"
    using reservation_moves [OF Cons.prems(1,2)] by blast
  then have same: "res_same_terms r r'" "res_status r' = res_status r"
    using Cons.prems(3) by (cases "res_status r"; simp add: res_moves_def is_open_def)+
  then have "\<not> is_open r'" using Cons.prems(3) by (simp add: is_open_def)
  then obtain r'' where "js_get (mem_reservations (run_calls (consumer_step h) (consumer_step h m c) cs)) i
      = Some r''" "res_same_terms r' r''" "res_status r'' = res_status r'"
    using Cons.IH [OF consumer.step_inv [OF Cons.prems(1)] r'(1)] by blast
  with same show ?case by (auto simp: res_same_terms_def)
qed

section \<open>Nonces\<close>

text \<open>The clock reading of the calls that prune.\<close>

fun prunes_before :: "int \<Rightarrow> consumer_call \<Rightarrow> bool" where
  "prunes_before t (ConsumeNonce ns ow n ex now) = (now < t)"
| "prunes_before t (ConsumeRate k l w now) = (now < t)"
| "prunes_before t c = True"

lemma map_of_filter_keep:
  "distinct (map fst xs) \<Longrightarrow> map_of xs k = Some v \<Longrightarrow> P (k, v) \<Longrightarrow> map_of (filter P xs) k = Some v"
  by (induction xs) (auto simp: image_iff split: if_splits)

lemma js_wf_filter: "js_wf xs \<Longrightarrow> js_wf (filter P xs)"
  by (simp add: js_wf_def distinct_map_filter)

lemma prune_keeps_nonce:
  "js_wf (mem_nonces m) \<Longrightarrow> js_get (mem_nonces m) k = Some t \<Longrightarrow> now < t \<Longrightarrow>
     js_get (mem_nonces (pruneMemory now m)) k = Some t"
  by (simp add: pruneMemory_def js_get_def js_wf_def map_of_filter_keep)

lemma nonces_frame:
  "mem_nonces (snd (createConsumerDepositIntent h di now m)) = mem_nonces m"
  "mem_nonces (snd (confirmConsumerDeposit h i ow sg nl now m)) = mem_nonces m"
  "mem_nonces (snd (createConsumerBalanceAdjustment h ow a d inc now m)) = mem_nonces m"
  "mem_nonces (snd (createConsumerWithdrawal h wi now m)) = mem_nonces m"
  "mem_nonces (snd (prepareConsumerWithdrawal i ow msg ex now m)) = mem_nonces m"
  "mem_nonces (snd (submitPreparedConsumerWithdrawal i ow msg sig now m)) = mem_nonces m"
  "mem_nonces (snd (cancelConsumerWithdrawal h i ow now m)) = mem_nonces m"
  "mem_nonces (snd (updateConsumerWithdrawalStatus i st sg now m)) = mem_nonces m"
  "mem_nonces (snd (reserveConsumerBalance h ri now m)) = mem_nonces m"
  "mem_nonces (snd (releaseConsumerReservation h i ow now m)) = mem_nonces m"
  "mem_nonces (snd (markConsumerReservationSubmitted i ow now m)) = mem_nonces m"
  "mem_nonces (snd (recordConsumerVenueOrder h i ow mk wo wr now m)) = mem_nonces m"
  "mem_nonces (snd (reconcileConsumerVenueOrder h rc now m)) = mem_nonces m"
  "mem_nonces (snd (putConsumerWalletBinding ow a pk c now m)) = mem_nonces m"
  "mem_nonces (snd (putConsumerEligibilityAcceptance acc m)) = mem_nonces m"
  "mem_nonces (snd (enqueueConsumerWake h ow now m)) = mem_nonces m"
  "mem_nonces (updateConsumerWakeJob i wst er now m) = mem_nonces m"
  "mem_nonces (snd (putConsumerRiskPolicy p m)) = mem_nonces m"
  "mem_nonces (snd (haltConsumerCircuit rs ack now m)) = mem_nonces m"
  "mem_nonces (snd (resumeConsumerCircuit ack2 d2 g now m)) = mem_nonces m"
  by (simp_all add: funding_defs order_defs access_defs reconcileConsumerVenueOrder_def
      settle_order_frame Let_def split: option.splits sum.splits)

definition nonce_held :: "string \<Rightarrow> int \<Rightarrow> memory \<Rightarrow> bool" where
  "nonce_held k t m \<longleftrightarrow> js_wf (mem_nonces m) \<and> js_get (mem_nonces m) k = Some t"

lemma nonce_held_step:
  assumes "nonce_held k t m" "prunes_before t c"
  shows "nonce_held k t (consumer_step h m c)"
proof (cases c)
  case (ConsumeNonce ns ow n ex now)
  then show ?thesis using assms prune_keeps_nonce [of m k t now]
    by (auto simp: nonce_held_def consumeConsumerNonce_def Let_def js_has_get js_wf_filter pruneMemory_def)
next
  case (ConsumeRate key l w now)
  then show ?thesis using assms prune_keeps_nonce [of m k t now]
    by (auto simp: nonce_held_def consumeConsumerRateLimit_def Let_def js_wf_filter pruneMemory_def)
qed (use assms in \<open>simp_all add: nonce_held_def nonces_frame\<close>)

lemma nonce_held_run:
  "nonce_held k t m \<Longrightarrow> list_all (prunes_before t) cs \<Longrightarrow> nonce_held k t (run_calls (consumer_step h) m cs)"
  by (induction cs arbitrary: m) (auto intro: nonce_held_step)

section \<open>The circuit breaker\<close>

fun resumes :: "consumer_call \<Rightarrow> bool" where
  "resumes (ResumeCircuit ack d g now) = True"
| "resumes c = False"

definition halted_with :: "ConsumerCircuitReason set \<Rightarrow> memory \<Rightarrow> bool" where
  "halted_with R m \<longleftrightarrow> (case mem_circuit m of None \<Rightarrow> False
     | Some s \<Rightarrow> circ_status s = Circuit_halted \<and> R \<subseteq> set (circ_reasons s))"

lemma circuit_frame:
  "mem_circuit (snd (createConsumerDepositIntent h di now m)) = mem_circuit m"
  "mem_circuit (snd (confirmConsumerDeposit h i ow sg nl now m)) = mem_circuit m"
  "mem_circuit (snd (createConsumerBalanceAdjustment h ow a d inc now m)) = mem_circuit m"
  "mem_circuit (snd (createConsumerWithdrawal h wi now m)) = mem_circuit m"
  "mem_circuit (snd (prepareConsumerWithdrawal i ow msg ex now m)) = mem_circuit m"
  "mem_circuit (snd (submitPreparedConsumerWithdrawal i ow msg sig now m)) = mem_circuit m"
  "mem_circuit (snd (cancelConsumerWithdrawal h i ow now m)) = mem_circuit m"
  "mem_circuit (snd (updateConsumerWithdrawalStatus i st sg now m)) = mem_circuit m"
  "mem_circuit (snd (reserveConsumerBalance h ri now m)) = mem_circuit m"
  "mem_circuit (snd (releaseConsumerReservation h i ow now m)) = mem_circuit m"
  "mem_circuit (snd (markConsumerReservationSubmitted i ow now m)) = mem_circuit m"
  "mem_circuit (snd (recordConsumerVenueOrder h i ow mk wo wr now m)) = mem_circuit m"
  "mem_circuit (snd (reconcileConsumerVenueOrder h rc now m)) = mem_circuit m"
  "mem_circuit (snd (consumeConsumerNonce ns ow n ex2 now2 m)) = mem_circuit m"
  "mem_circuit (snd (consumeConsumerRateLimit k l w2 now2 m)) = mem_circuit m"
  "mem_circuit (snd (putConsumerWalletBinding ow a pk c now m)) = mem_circuit m"
  "mem_circuit (snd (putConsumerEligibilityAcceptance acc m)) = mem_circuit m"
  "mem_circuit (snd (enqueueConsumerWake h ow now m)) = mem_circuit m"
  "mem_circuit (updateConsumerWakeJob i wst er now m) = mem_circuit m"
  "mem_circuit (snd (putConsumerRiskPolicy p m)) = mem_circuit m"
  by (simp_all add: funding_defs order_defs access_defs reconcileConsumerVenueOrder_def
      settle_order_frame Let_def split: option.splits sum.splits)

lemma halted_step:
  "halted_with R m \<Longrightarrow> \<not> resumes c \<Longrightarrow> halted_with R (consumer_step h m c)"
  by (cases c) (auto simp: halted_with_def circuit_frame haltConsumerCircuit_def
      getConsumerCircuitState_def Let_def split: option.splits)

lemma halted_run:
  "halted_with R m \<Longrightarrow> list_all (\<lambda>c. \<not> resumes c) cs \<Longrightarrow> halted_with R (run_calls (consumer_step h) m cs)"
  by (induction cs arbitrary: m) (auto intro: halted_step)

end
