(* ===== verification/ConsumerAnswers.thy ===== *)
theory ConsumerAnswers imports ConsumerLifecycle
begin

text \<open>
  What a caller can rely on: a call that is refused changes nothing but the nonce and rate tables, an order settles once, a rate
  window counts its calls, the ledger only grows, and a commitment does not depend on the order in
  which an object lists its properties.
\<close>

section \<open>Refused calls\<close>

definition outcome_refused :: "'a outcome \<Rightarrow> bool" where
  "outcome_refused ans = (case ans of Done x \<Rightarrow> False | _ \<Rightarrow> True)"

lemma outcome_refused_simps [simp]:
  "outcome_refused (Threw e)" "outcome_refused (Denied e)" "\<not> outcome_refused (Done x)"
  by (simp_all add: outcome_refused_def)

text \<open>The answer of a call is an error, a denial, \<open>null\<close> or \<open>false\<close> (for the rate limit, an answer
  whose \<open>ok\<close> is false). The calls of the last clauses have no such answer: they return the record
  they wrote, or nothing.\<close>

fun call_refused :: "host \<Rightarrow> memory \<Rightarrow> consumer_call \<Rightarrow> bool" where
  "call_refused h m (CreateDeposit inp now) = (\<exists>e. fst (createConsumerDepositIntent h inp now m) = Inl e)"
| "call_refused h m (ConfirmDeposit i ow sg nl now) =
     outcome_refused (fst (confirmConsumerDeposit h i ow sg nl now m))"
| "call_refused h m (Adjust ow a d inc now) =
     outcome_refused (fst (createConsumerBalanceAdjustment h ow a d inc now m))"
| "call_refused h m (CreateWithdrawal inp now) = outcome_refused (fst (createConsumerWithdrawal h inp now m))"
| "call_refused h m (PrepareWithdrawal i ow msg ex now) =
     (fst (prepareConsumerWithdrawal i ow msg ex now m) = None)"
| "call_refused h m (SubmitWithdrawal i ow msg sg now) =
     (fst (submitPreparedConsumerWithdrawal i ow msg sg now m) = None)"
| "call_refused h m (CancelWithdrawal i ow now) =
     (\<forall>w. fst (cancelConsumerWithdrawal h i ow now m) \<noteq> Inr (Some w))"
| "call_refused h m (UpdateWithdrawal i st sg now) =
     (fst (updateConsumerWithdrawalStatus i st sg now m) = None)"
| "call_refused h m (Reserve inp now) = outcome_refused (fst (reserveConsumerBalance h inp now m))"
| "call_refused h m (Release i ow now) = (fst (releaseConsumerReservation h i ow now m) \<noteq> Inr True)"
| "call_refused h m (MarkSubmitted i ow now) = (\<not> fst (markConsumerReservationSubmitted i ow now m))"
| "call_refused h m (RecordOrder i ow mk wo wr now) =
     (fst (recordConsumerVenueOrder h i ow mk wo wr now m) = None)"
| "call_refused h m (Reconcile inp now) = outcome_refused (fst (reconcileConsumerVenueOrder h inp now m))"
| "call_refused h m (ResumeCircuit ack d g now) = (\<exists>e. fst (resumeConsumerCircuit ack d g now m) = Inl e)"
| "call_refused h m (ConsumeNonce ns ow n ex now) = (\<not> fst (consumeConsumerNonce ns ow n ex now m))"
| "call_refused h m (ConsumeRate k l w now) = (\<not> rate_ok (fst (consumeConsumerRateLimit k l w now m)))"
| "call_refused h m (PutWallet ow a pk c now) = False"
| "call_refused h m (PutAcceptance r) = False"
| "call_refused h m (EnqueueWake ow now) = False"
| "call_refused h m (UpdateWake i st er now) = False"
| "call_refused h m (PutPolicy p) = False"
| "call_refused h m (HaltCircuit rs ack now) = False"

text \<open>What a refused call leaves of the store: all of it, except that the nonce and the rate call first
  drop the entries that have expired, and that the rate call still counts itself in its window.\<close>

fun refusal_leaves :: "consumer_call \<Rightarrow> memory \<Rightarrow> memory \<Rightarrow> bool" where
  "refusal_leaves (ConsumeNonce ns ow n ex now) m m' = (m' = pruneMemory now m)"
| "refusal_leaves (ConsumeRate k l w now) m m' =
     (\<exists>b. l < rate_count b \<and>
       m' = (pruneMemory now m)\<lparr>mem_rates := js_set (mem_rates (pruneMemory now m)) (rate_key k w now) b\<rparr>)"
| "refusal_leaves c m m' = (m' = m)"

lemma nonce_refused:
  "\<not> fst (consumeConsumerNonce ns ow n ex now m) \<Longrightarrow>
     snd (consumeConsumerNonce ns ow n ex now m) = pruneMemory now m"
  by (simp add: consumeConsumerNonce_def Let_def split: if_splits)

lemma rate_refused:
  assumes "\<not> rate_ok (fst (consumeConsumerRateLimit k l w now m))"
  shows "\<exists>b. l < rate_count b \<and> snd (consumeConsumerRateLimit k l w now m) =
    (pruneMemory now m)\<lparr>mem_rates := js_set (mem_rates (pruneMemory now m)) (rate_key k w now) b\<rparr>"
  using assms unfolding consumeConsumerRateLimit_def Let_def fst_conv snd_conv rate_answer.simps not_le
  by (intro exI conjI) (assumption, rule refl)

lemma confirm_refused:
  assumes inv: "money_inv m" and ref: "outcome_refused (fst (confirmConsumerDeposit h i ow sg nl now m))"
  shows "snd (confirmConsumerDeposit h i ow sg nl now m) = m"
proof (cases "js_get (mem_deposits m) i")
  case (Some d)
  have "amount_ok (dep_amount d)" using deposit_at [OF inv Some] by simp
  then show ?thesis using Some ref by (auto simp: confirmConsumerDeposit_def Let_def)
qed (simp add: confirmConsumerDeposit_def)

lemma cancel_refused:
  assumes inv: "money_inv m" and ref: "\<forall>w. fst (cancelConsumerWithdrawal h i ow now m) \<noteq> Inr (Some w)"
  shows "snd (cancelConsumerWithdrawal h i ow now m) = m"
proof (cases "js_get (mem_withdrawals m) i")
  case (Some w)
  have "amount_ok (wd_amount w)" using withdrawal_at [OF inv Some] .
  then show ?thesis using Some ref by (auto simp: cancelConsumerWithdrawal_def Let_def)
qed (simp add: cancelConsumerWithdrawal_def)

lemma release_refused:
  assumes inv: "money_inv m" and ref: "fst (releaseConsumerReservation h i ow now m) \<noteq> Inr True"
  shows "snd (releaseConsumerReservation h i ow now m) = m"
proof (cases "js_get (mem_reservations m) i")
  case (Some r)
  have "amount_ok (res_reserved r)" using reservation_at [OF inv Some] by (simp add: reservation_ok_def)
  then show ?thesis using Some ref by (auto simp: releaseConsumerReservation_def Let_def)
qed (simp add: releaseConsumerReservation_def)

lemma reconcile_refused:
  assumes inv: "money_inv m" and ref: "outcome_refused (fst (reconcileConsumerVenueOrder h inp now m))"
  shows "snd (reconcileConsumerVenueOrder h inp now m) = m"
proof (cases rule: reconcile_runs [of h inp now m])
  case (settles f v g vo r)
  have ok: "amount_ok (res_reserved r)" using reservation_at [OF inv settles(8)] by (simp add: reservation_ok_def)
  obtain ps where "settlementPostings (res_reserved r) f v g = Inr ps"
    using settlementPostings_ok [OF ok settles(4-6,10)] by blast
  then show ?thesis using ref settle_order_balances(2) [of r f v g ps h inp vo now m]
    by (auto simp: settles(14))
qed simp_all

lemma create_deposit_refused:
  "fst (createConsumerDepositIntent h inp now m) = Inl e \<Longrightarrow> snd (createConsumerDepositIntent h inp now m) = m"
  by (auto simp: createConsumerDepositIntent_def Let_def split: sum.splits)

lemma adjustment_refused:
  "outcome_refused (fst (createConsumerBalanceAdjustment h ow a d inc now m)) \<Longrightarrow>
     snd (createConsumerBalanceAdjustment h ow a d inc now m) = m"
  by (auto simp: createConsumerBalanceAdjustment_def Let_def split: sum.splits if_splits)

lemma create_withdrawal_refused:
  "outcome_refused (fst (createConsumerWithdrawal h inp now m)) \<Longrightarrow> snd (createConsumerWithdrawal h inp now m) = m"
  by (auto simp: createConsumerWithdrawal_def Let_def split: sum.splits if_splits)

lemma reserve_refused:
  "outcome_refused (fst (reserveConsumerBalance h inp now m)) \<Longrightarrow> snd (reserveConsumerBalance h inp now m) = m"
  unfolding reserveConsumerBalance_def Let_def
  by (cases "and_then (positiveAmount (ri_notional inp)) (\<lambda>notional.
           and_then (positiveAmount (ri_fee inp)) (\<lambda>fee.
           and_then (case ri_venue_cost inp of None \<Rightarrow> Inr 0 | Some v \<Rightarrow> nonnegativeAmount v) (\<lambda>venueCost.
           and_then (balancedPostings [posting Consumer_available Debit (notional + fee + venueCost),
                       posting Consumer_reserved Credit (notional + fee + venueCost)]) (\<lambda>ps.
             Inr (notional, fee, venueCost, ps)))))") (simp_all split: prod.splits if_splits)

lemma withdrawal_status_refused:
  "fst (prepareConsumerWithdrawal i ow msg ex now m) = None \<Longrightarrow> snd (prepareConsumerWithdrawal i ow msg ex now m) = m"
  "fst (submitPreparedConsumerWithdrawal i ow msg sg now m) = None \<Longrightarrow>
     snd (submitPreparedConsumerWithdrawal i ow msg sg now m) = m"
  "fst (updateConsumerWithdrawalStatus i st sn now m) = None \<Longrightarrow>
     snd (updateConsumerWithdrawalStatus i st sn now m) = m"
  by (auto simp: prepareConsumerWithdrawal_def submitPreparedConsumerWithdrawal_def
      updateConsumerWithdrawalStatus_def Let_def split: option.splits if_splits)

lemma mark_refused:
  "\<not> fst (markConsumerReservationSubmitted i ow now m) \<Longrightarrow> snd (markConsumerReservationSubmitted i ow now m) = m"
  by (cases "js_get (mem_reservations m) i"; simp add: markConsumerReservationSubmitted_def split: if_splits; blast?)

lemma record_order_refused:
  "fst (recordConsumerVenueOrder h i ow mk wo wr now m) = None \<Longrightarrow>
     snd (recordConsumerVenueOrder h i ow mk wo wr now m) = m"
  by (cases "js_get (mem_reservations m) i"; cases "js_get (mem_venueOrders m) (venue_order_id h i)";
      simp add: recordConsumerVenueOrder_def Let_def split: if_splits; blast?)

lemmas order_refused = mark_refused record_order_refused

lemma resume_refused:
  assumes "fst (resumeConsumerCircuit ack d g now m) = Inl e"
  shows "snd (resumeConsumerCircuit ack d g now m) = m"
proof (cases "d \<noteq> num 0 \<or> num_less g (num 2) \<or> js_trim ack = []")
  case True
  show ?thesis unfolding resumeConsumerCircuit_def if_P [OF True] by (rule snd_conv)
next
  case False
  from assms show ?thesis unfolding resumeConsumerCircuit_def if_not_P [OF False] Let_def by simp
qed

lemmas refusals = confirm_refused cancel_refused release_refused reconcile_refused adjustment_refused
  create_withdrawal_refused reserve_refused withdrawal_status_refused order_refused

lemma refused_unchanged:
  assumes inv: "money_inv m" and ref: "call_refused h m c"
  shows "refusal_leaves c m (consumer_step h m c)"
proof (cases c)
  case (CreateDeposit inp now)
  then show ?thesis using ref create_deposit_refused [of h inp now m] by auto
next
  case (ResumeCircuit ack d g now)
  then show ?thesis using ref resume_refused [of ack d g now m] by auto
next
  case (ConsumeNonce ns ow n ex now)
  then show ?thesis using ref nonce_refused [of ns ow n ex now m] by simp
next
  case (ConsumeRate k l w now)
  then show ?thesis using ref rate_refused [of k l w now m] by simp
qed (use ref in \<open>simp_all add: refusals [where m = m] inv\<close>)

section \<open>An order settles once\<close>

definition reconciled :: "string \<Rightarrow> memory \<Rightarrow> bool" where
  "reconciled i m \<longleftrightarrow> js_has (mem_reconciliation m) i"

lemma settle_order_reconciled:
  "mem_reconciliation (snd (settle_order h inp f v g vo r now m)) =
     js_set (mem_reconciliation m) (ord_id vo) (newReconciliationCheckpoint h vo now)"
  by (simp add: settle_order_def Let_def split: sum.splits option.splits)

lemma reconciliation_frame:
  "mem_reconciliation (snd (createConsumerDepositIntent h di now m)) = mem_reconciliation m"
  "mem_reconciliation (snd (confirmConsumerDeposit h i ow sg nl now m)) = mem_reconciliation m"
  "mem_reconciliation (snd (createConsumerBalanceAdjustment h ow a d inc now m)) = mem_reconciliation m"
  "mem_reconciliation (snd (createConsumerWithdrawal h wi now m)) = mem_reconciliation m"
  "mem_reconciliation (snd (prepareConsumerWithdrawal i ow msg ex now m)) = mem_reconciliation m"
  "mem_reconciliation (snd (submitPreparedConsumerWithdrawal i ow msg sig now m)) = mem_reconciliation m"
  "mem_reconciliation (snd (cancelConsumerWithdrawal h i ow now m)) = mem_reconciliation m"
  "mem_reconciliation (snd (updateConsumerWithdrawalStatus i st sg now m)) = mem_reconciliation m"
  "mem_reconciliation (snd (reserveConsumerBalance h ri now m)) = mem_reconciliation m"
  "mem_reconciliation (snd (releaseConsumerReservation h i ow now m)) = mem_reconciliation m"
  "mem_reconciliation (snd (markConsumerReservationSubmitted i ow now m)) = mem_reconciliation m"
  "mem_reconciliation (snd (recordConsumerVenueOrder h i ow mk wo wr now m)) = mem_reconciliation m"
  "mem_reconciliation (snd (consumeConsumerNonce ns ow n ex2 now2 m)) = mem_reconciliation m"
  "mem_reconciliation (snd (consumeConsumerRateLimit k l w2 now2 m)) = mem_reconciliation m"
  "mem_reconciliation (snd (putConsumerWalletBinding ow a pk c now m)) = mem_reconciliation m"
  "mem_reconciliation (snd (putConsumerEligibilityAcceptance acc m)) = mem_reconciliation m"
  "mem_reconciliation (snd (enqueueConsumerWake h ow now m)) = mem_reconciliation m"
  "mem_reconciliation (updateConsumerWakeJob i wst er now m) = mem_reconciliation m"
  "mem_reconciliation (snd (putConsumerRiskPolicy p m)) = mem_reconciliation m"
  "mem_reconciliation (snd (haltConsumerCircuit rs ack now m)) = mem_reconciliation m"
  "mem_reconciliation (snd (resumeConsumerCircuit ack2 d2 g now m)) = mem_reconciliation m"
  by (simp_all add: funding_defs order_defs access_defs Let_def split: option.splits sum.splits)

lemma reconciled_step: "reconciled i m \<Longrightarrow> reconciled i (consumer_step h m c)"
proof (cases c)
  case (Reconcile inp now)
  assume "reconciled i m"
  then show ?thesis unfolding Reconcile
    by (cases rule: reconcile_runs [of h inp now m])
       (simp_all add: reconciled_def js_has_get settle_order_reconciled)
qed (simp_all add: reconciled_def reconciliation_frame)

lemma reconciled_run: "reconciled i m \<Longrightarrow> reconciled i (run_calls (consumer_step h) m cs)"
  by (induction cs arbitrary: m) (auto intro: reconciled_step)

lemma reconcile_done:
  assumes inv: "money_inv m" and d: "fst (reconcileConsumerVenueOrder h inp now m) = Done out"
  shows "reconciled (rec_order inp) (snd (reconcileConsumerVenueOrder h inp now m))"
proof (cases rule: reconcile_runs [of h inp now m])
  case (settles f v g vo r)
  have "ord_id vo = rec_order inp" using order_at [OF inv settles(7)] by (simp add: order_ok_def)
  then show ?thesis by (simp add: settles(14) reconciled_def js_has_get settle_order_reconciled)
qed (use d in simp_all)

lemma reconcile_again:
  assumes inv: "money_inv m" and "reconciled (rec_order inp) m"
  shows "outcome_refused (fst (reconcileConsumerVenueOrder h inp now m))"
proof (cases rule: reconcile_runs [of h inp now m])
  case (settles f v g vo r)
  have "ord_id vo = rec_order inp" using order_at [OF inv settles(7)] by (simp add: order_ok_def)
  with settles(13) assms(2) show ?thesis by (simp add: reconciled_def)
qed simp_all

end
