(* ===== verification/ConsumerWindows.thy ===== *)
theory ConsumerWindows imports ConsumerAnswers
begin

text \<open>
  The fixed window of \<open>consumeConsumerRateLimit\<close>: inside one window the answers count the calls with
  the same key, whatever other calls come between.
\<close>

section \<open>Counting inside a window\<close>

definition rate_at :: "string \<Rightarrow> memory \<Rightarrow> int" where
  "rate_at k m = (case js_get (mem_rates m) k of None \<Rightarrow> 0 | Some b \<Rightarrow> rate_count b)"

text \<open>A clock reading inside the window that starts at \<open>s\<close>; calls that share the bucket \<open>k\<close> use the
  window length \<open>w\<close>.\<close>

fun in_window :: "string \<Rightarrow> int \<Rightarrow> int \<Rightarrow> consumer_call \<Rightarrow> bool" where
  "in_window k s w (ConsumeNonce ns ow n ex now) = (now < s + w)"
| "in_window k s w (ConsumeRate key l w' now) =
     (s \<le> now \<and> now < s + w \<and> (rate_key key w' now = k \<longrightarrow> w' = w))"
| "in_window k s w c = True"

fun hits_bucket :: "string \<Rightarrow> consumer_call \<Rightarrow> bool" where
  "hits_bucket k (ConsumeRate key l w now) = (rate_key key w now = k)"
| "hits_bucket k c = False"

definition bucket_open :: "string \<Rightarrow> int \<Rightarrow> memory \<Rightarrow> bool" where
  "bucket_open k t m \<longleftrightarrow> js_wf (mem_rates m) \<and>
     (case js_get (mem_rates m) k of None \<Rightarrow> True | Some b \<Rightarrow> rate_reset_at b = t)"

lemma bucket_start_window:
  assumes "0 < w"
  shows "bucket_start w now \<le> now" "now < bucket_start w now + w"
    "bucket_start w now \<le> t \<Longrightarrow> t < bucket_start w now + w \<Longrightarrow> bucket_start w t = bucket_start w now"
proof -
  have split: "bucket_start w x + x mod w = x" for x by (simp add: bucket_start_def)
  have range: "0 \<le> x mod w \<and> x mod w < w" for x using assms by simp
  show "bucket_start w now \<le> now" "now < bucket_start w now + w"
    using split [of now] range [of now] by linarith+
  assume "bucket_start w now \<le> t" "t < bucket_start w now + w"
  then have "t div w = now div w" unfolding bucket_start_def
    by (intro int_div_pos_eq [where r = "t - now div w * w"]) auto
  then show "bucket_start w t = bucket_start w now" by (simp add: bucket_start_def)
qed

text \<open>A pruned map still has an entry exactly when the old one had it and it is kept.\<close>

lemma entry_after_filter:
  assumes "distinct (map fst rows)"
  shows "js_get (filter keep rows) key = Option.bind (js_get rows key) (\<lambda>v. if keep (key, v) then Some v else None)"
  using assms unfolding js_get_def by (induction rows) (force simp: map_of_eq_None_iff)+

lemma prune_rates:
  assumes "bucket_open k t m" "now < t"
  shows "bucket_open k t (pruneMemory now m)" "rate_at k (pruneMemory now m) = rate_at k m"
proof -
  have wf: "distinct (map fst (mem_rates m))" using assms(1) by (simp add: bucket_open_def js_wf_def)
  show "bucket_open k t (pruneMemory now m)" "rate_at k (pruneMemory now m) = rate_at k m"
    using assms js_wf_filter [of "mem_rates m"]
    by (auto simp: bucket_open_def rate_at_def pruneMemory_def entry_after_filter [OF wf]
        split: option.splits)
qed

lemma rates_frame:
  "mem_rates (snd (createConsumerDepositIntent h di now m)) = mem_rates m"
  "mem_rates (snd (confirmConsumerDeposit h i ow sg nl now m)) = mem_rates m"
  "mem_rates (snd (createConsumerBalanceAdjustment h ow a d inc now m)) = mem_rates m"
  "mem_rates (snd (createConsumerWithdrawal h wi now m)) = mem_rates m"
  "mem_rates (snd (prepareConsumerWithdrawal i ow msg ex now m)) = mem_rates m"
  "mem_rates (snd (submitPreparedConsumerWithdrawal i ow msg sig now m)) = mem_rates m"
  "mem_rates (snd (cancelConsumerWithdrawal h i ow now m)) = mem_rates m"
  "mem_rates (snd (updateConsumerWithdrawalStatus i st sg now m)) = mem_rates m"
  "mem_rates (snd (reserveConsumerBalance h ri now m)) = mem_rates m"
  "mem_rates (snd (releaseConsumerReservation h i ow now m)) = mem_rates m"
  "mem_rates (snd (markConsumerReservationSubmitted i ow now m)) = mem_rates m"
  "mem_rates (snd (recordConsumerVenueOrder h i ow mk wo wr now m)) = mem_rates m"
  "mem_rates (snd (reconcileConsumerVenueOrder h rc now m)) = mem_rates m"
  "mem_rates (snd (putConsumerWalletBinding ow a pk c now m)) = mem_rates m"
  "mem_rates (snd (putConsumerEligibilityAcceptance acc m)) = mem_rates m"
  "mem_rates (snd (enqueueConsumerWake h ow now m)) = mem_rates m"
  "mem_rates (updateConsumerWakeJob i wst er now m) = mem_rates m"
  "mem_rates (snd (putConsumerRiskPolicy p m)) = mem_rates m"
  "mem_rates (snd (haltConsumerCircuit rs ack now m)) = mem_rates m"
  "mem_rates (snd (resumeConsumerCircuit ack2 d2 g now m)) = mem_rates m"
  by (simp_all add: funding_defs order_defs access_defs reconcileConsumerVenueOrder_def
      settle_order_frame Let_def split: option.splits sum.splits)

lemma rate_limit_parts:
  "snd (consumeConsumerRateLimit key l w now m) = (let p = pruneMemory now m; k = rate_key key w now in
     p\<lparr>mem_rates := js_set (mem_rates p) k \<lparr>rate_count = rate_at k p + 1, rate_reset_at =
       (case js_get (mem_rates p) k of None \<Rightarrow> bucket_start w now + w | Some b \<Rightarrow> rate_reset_at b)\<rparr>\<rparr>)"
  "rate_answer_count (fst (consumeConsumerRateLimit key l w now m)) =
     rate_at (rate_key key w now) (pruneMemory now m) + 1"
  "rate_ok (fst (consumeConsumerRateLimit key l w now m)) \<longleftrightarrow>
     rate_answer_count (fst (consumeConsumerRateLimit key l w now m)) \<le> l"
  unfolding consumeConsumerRateLimit_def Let_def rate_at_def
  by (auto split: option.splits intro!: arg_cong [where f = "\<lambda>b. _\<lparr>mem_rates := js_set _ _ b\<rparr>"])

text \<open>One rate call inside the window of the bucket \<open>k\<close>.\<close>

lemma rate_call:
  assumes w: "0 < w" and b: "bucket_open k (s + w) m" and t: "s \<le> now" "now < s + w"
    and like: "rate_key key w' now = k \<longrightarrow> w' = w" and s: "bucket_start w s = s"
  shows "bucket_open k (s + w) (snd (consumeConsumerRateLimit key l w' now m))"
    and "rate_at k (snd (consumeConsumerRateLimit key l w' now m)) =
      rate_at k m + (if rate_key key w' now = k then 1 else 0)"
    and "rate_key key w' now = k \<Longrightarrow>
      rate_answer_count (fst (consumeConsumerRateLimit key l w' now m)) = rate_at k m + 1"
proof -
  define p where "p = pruneMemory now m"
  have pruned: "bucket_open k (s + w) p" "rate_at k p = rate_at k m"
    unfolding p_def by (rule prune_rates [OF b t(2)])+
  have start: "bucket_start w now = s" using bucket_start_window(3) [OF w, of s now] t s by simp
  note run = rate_limit_parts [of key l w' now m, folded p_def]
  show "bucket_open k (s + w) (snd (consumeConsumerRateLimit key l w' now m))"
    "rate_at k (snd (consumeConsumerRateLimit key l w' now m)) =
      rate_at k m + (if rate_key key w' now = k then 1 else 0)"
    unfolding run Let_def using pruned like start
    by (cases "js_get (mem_rates p) k"; auto simp: bucket_open_def rate_at_def)+
  show "rate_answer_count (fst (consumeConsumerRateLimit key l w' now m)) = rate_at k m + 1"
    if "rate_key key w' now = k" using that pruned by (simp add: run)
qed

lemma window_step:
  assumes w: "0 < w" and b: "bucket_open k (s + w) m" and c: "in_window k s w c" and s: "bucket_start w s = s"
  shows "bucket_open k (s + w) (consumer_step h m c) \<and>
    rate_at k (consumer_step h m c) = rate_at k m + (if hits_bucket k c then 1 else 0)"
proof (cases c)
  case (ConsumeNonce ns ow n ex now)
  have "mem_rates (snd (consumeConsumerNonce ns ow n ex now m)) = mem_rates (pruneMemory now m)"
    unfolding consumeConsumerNonce_def Let_def by simp
  then have "bucket_open k (s + w) (consumer_step h m c) \<longleftrightarrow> bucket_open k (s + w) (pruneMemory now m)"
    "rate_at k (consumer_step h m c) = rate_at k (pruneMemory now m)"
    unfolding bucket_open_def rate_at_def ConsumeNonce by simp_all
  moreover have "now < s + w" using c ConsumeNonce by simp
  ultimately show ?thesis using prune_rates [OF b] ConsumeNonce by simp
next
  case (ConsumeRate key l w' now)
  then have t: "s \<le> now" "now < s + w" "rate_key key w' now = k \<longrightarrow> w' = w" using c by simp_all
  show ?thesis unfolding ConsumeRate consumer_step.simps hits_bucket.simps
    using rate_call(1,2) [OF w b t s, of l] by blast
qed (use b in \<open>simp_all only: bucket_open_def rate_at_def rates_frame consumer_step.simps
      hits_bucket.simps if_False add_0_right simp_thms\<close>)

lemma window_run:
  assumes "0 < w" "bucket_start w s = s"
  shows "bucket_open k (s + w) m \<Longrightarrow> list_all (in_window k s w) cs \<Longrightarrow>
    bucket_open k (s + w) (run_calls (consumer_step h) m cs) \<and>
    rate_at k (run_calls (consumer_step h) m cs) = rate_at k m + int (length (filter (hits_bucket k) cs))"
proof (induction cs arbitrary: m)
  case Nil
  then show ?case by simp
next
  case (Cons c cs)
  then show ?case using window_step [OF assms(1) Cons.prems(1), of c h] assms(2)
      Cons.IH [of "consumer_step h m c"] by auto
qed

end
