(* ===== verification/ConsumerCanonical.thy ===== *)
theory ConsumerCanonical imports ConsumerPolicy JsSort
begin

text \<open>
  \<open>stableJson\<close> gives one text to all orders of the properties of an object, when the collation is a
  total order on the property names; and a larger rollout percentage admits whoever a smaller one
  does.
\<close>

section \<open>Canonical text\<close>

lemma total_order_names_pairs:
  assumes "total_order_on_names le (fst ` set kvs)" "distinct (map fst kvs)"
  shows "total_order_on_names (\<lambda>p q. le (fst p) (fst q)) (set kvs)"
proof -
  have inj: "p = q" if "p \<in> set kvs" "q \<in> set kvs" "fst p = fst q" for p q
    using assms(2) that by (metis distinct_map inj_on_def)
  show ?thesis unfolding total_order_on_names_def
  proof (intro conjI ballI impI)
    fix p q r assume m: "p \<in> set kvs" "q \<in> set kvs" "r \<in> set kvs"
    show "le (fst p) (fst q) \<or> le (fst q) (fst p)" using m by (intro total_order_total [OF assms(1)]) auto
    show "le (fst p) (fst r)" if "le (fst p) (fst q) \<and> le (fst q) (fst r)"
      using m that by (intro total_order_trans [OF assms(1), of "fst p" "fst q" "fst r"]) auto
  next
    fix p q assume m: "p \<in> set kvs" "q \<in> set kvs" and le: "le (fst p) (fst q) \<and> le (fst q) (fst p)"
    have "fst p = fst q" using m le by (intro total_order_antisym [OF assms(1)]) auto
    then show "p = q" using inj m by blast
  qed
qed

lemma stableJson_perm:
  assumes order: "total_order_on_names (locale_le h) (fst ` set kvs)" and d: "distinct (map fst kvs)"
    and perm: "mset kvs' = mset kvs"
  shows "stableJson h (JObj kvs') = stableJson h (JObj kvs)"
proof -
  let ?f = "\<lambda>kvs. map (\<lambda>p. (fst p, stableJson h (snd p))) (filter (\<lambda>p. snd p \<noteq> JUndef) kvs)"
  have names: "fst ` set (?f kvs) \<subseteq> fst ` set kvs" by (auto simp: image_image)
  have "map fst (?f kvs) = map fst (filter (\<lambda>p. snd p \<noteq> JUndef) kvs)" by (simp add: comp_def)
  then have "distinct (map fst (?f kvs))" using d by (simp only: distinct_map_filter)
  moreover have "total_order_on_names (locale_le h) (fst ` set (?f kvs))"
    using total_order_subset [OF order names] .
  ultimately have "total_order_on_names (\<lambda>p q. locale_le h (fst p) (fst q)) (set (?f kvs))"
    by (intro total_order_names_pairs)
  moreover have "mset (?f kvs) = mset (?f kvs')" using perm by simp
  ultimately have "sort_by (\<lambda>p q. locale_le h (fst p) (fst q)) (?f kvs) =
      sort_by (\<lambda>p q. locale_le h (fst p) (fst q)) (?f kvs')" by (rule sort_by_perm)
  then show ?thesis by simp
qed

end
