(* ===== verification/ConsumerRules.thy ===== *)
theory ConsumerRules imports ConsumerCanonical
begin

text \<open>
  The properties of the rules in \<open>consumer-production.ts\<close>: the fee, the staged rollout, risk policies,
  balanced postings, the circuit's telemetry and canonical JSON.
\<close>

section \<open>The fee\<close>

text \<open>The fee. For every notional of up to 900719925474099 micro-USDC (the largest whose tenfold
  is below \<open>2 ^ 53\<close>) the double arithmetic gives exactly ten basis points rounded up, and at least
  50000; anything but a positive safe integer is refused.\<close>

theorem consumer_fee_exact:
  "(0 < n \<and> n \<le> 900719925474099 \<longrightarrow>
      consumerFeeMicroUsdc (num n) = Inr (max 50000 (ceil_div n 1000))) \<and>
   (\<not> (is_safe_integer v \<and> 0 < num_int v) \<longrightarrow> consumerFeeMicroUsdc v = Inl ''notional_micro_usdc_invalid'')"
proof (intro conjI impI)
  assume n: "0 < n \<and> n \<le> 900719925474099"
  then have prod: "fl (of_int n * of_int CONSUMER_FEE_BPS) = of_int (n * 10)"
    using fl_safe_int [of "n * 10"] by (simp add: CONSUMER_FEE_BPS_def max_safe_def)
  have "\<lceil>fl (of_int (n * 10) / 10000)\<rceil> = ceil_div (n * 10) 10000"
    using n by (intro fl_div_10000(2)) simp_all
  also have "\<dots> = ceil_div n 1000"
    using zdiv_zmult2_eq [of 1000 "- (n * 10)" 10] by (simp add: ceil_div_def div_mult2_eq)
  finally show "consumerFeeMicroUsdc (num n) = Inr (max 50000 (ceil_div n 1000))"
    using n unfolding consumerFeeMicroUsdc_def
    by (simp add: positiveInteger_def max_safe_def prod CONSUMER_MIN_FEE_MICRO_USDC_def)
next
  assume "\<not> (is_safe_integer v \<and> 0 < num_int v)"
  then show "consumerFeeMicroUsdc v = Inl ''notional_micro_usdc_invalid''"
    by (auto simp: consumerFeeMicroUsdc_def positiveInteger_def positive_safe_def)
qed

lemma consumer_fee_exact_witness:
  "consumerFeeMicroUsdc (num 80000001) = Inr 80001 \<and>
   consumerFeeMicroUsdc NaN = Inl ''notional_micro_usdc_invalid''"
  using consumer_fee_exact [of 80000001 NaN] by (simp add: ceil_div_def)

section \<open>Risk policies\<close>

lemma market_char_plain:
  "list_all (\<lambda>c. \<not> is_ws c \<and> upper_char c = [c]) market_chars"
  by code_simp

lemma market_char: "c \<in> set market_chars \<Longrightarrow> \<not> is_ws c \<and> upper_char c = [c]"
  using market_char_plain unfolding list_all_iff by blast

lemma js_trim_id: "list_all (\<lambda>c. \<not> is_ws c) s \<Longrightarrow> js_trim s = s"
proof -
  assume "list_all (\<lambda>c. \<not> is_ws c) s"
  then have "list_all (\<lambda>c. \<not> is_ws c) s" "list_all (\<lambda>c. \<not> is_ws c) (rev s)" by (simp_all add: list_all_iff)
  then have "dropWhile is_ws s = s" "dropWhile is_ws (rev s) = rev s" by (cases s; cases "rev s"; simp)+
  then show ?thesis by (simp add: js_trim_def)
qed

lemma js_upper_id: "list_all (\<lambda>c. upper_char c = [c]) s \<Longrightarrow> js_upper s = s"
  by (induction s) (simp_all add: js_upper_def)

lemma normalizeMarket_normal:
  "normalizeMarket s \<noteq> [] \<Longrightarrow> normalizeMarket (normalizeMarket s) = normalizeMarket s"
proof -
  assume "normalizeMarket s \<noteq> []"
  then have m: "matches_class market_chars 2 32 (normalizeMarket s)"
    by (auto simp: normalizeMarket_def Let_def split: if_splits)
  then have "list_all (\<lambda>c. \<not> is_ws c) (normalizeMarket s)" "list_all (\<lambda>c. upper_char c = [c]) (normalizeMarket s)"
    by (auto simp: matches_class_def list_all_iff dest: market_char)
  then have "js_upper (js_trim (normalizeMarket s)) = normalizeMarket s" by (simp add: js_trim_id js_upper_id)
  with m show ?thesis by (simp add: normalizeMarket_def [of "normalizeMarket s"])
qed

lemma js_uniq_acc_id: "distinct xs \<Longrightarrow> set xs \<inter> set seen = {} \<Longrightarrow> js_uniq_acc seen xs = xs"
  by (induction xs arbitrary: seen) auto

lemma js_uniq_id: "distinct xs \<Longrightarrow> js_uniq xs = xs"
  by (simp add: js_uniq_def js_uniq_acc_id)

definition policy_as_input :: "ConsumerRiskPolicy \<Rightarrow> risk_policy_input" where
  "policy_as_input p = \<lparr>rpi_owner = rp_owner p, rpi_account = rp_account p,
     rpi_max_order = num (rp_max_order p), rpi_max_daily = num (rp_max_daily p),
     rpi_max_position = num (rp_max_position p), rpi_max_slippage_bps = num (rp_max_slippage_bps p),
     rpi_market_allowlist = rp_market_allowlist p\<rparr>"

definition policy_sound :: "ConsumerRiskPolicy \<Rightarrow> bool" where
  "policy_sound p \<longleftrightarrow> 0 < rp_max_order p \<and> rp_max_order p \<le> rp_max_daily p \<and>
     rp_max_order p \<le> rp_max_position p \<and> rp_max_daily p \<le> max_safe \<and> rp_max_position p \<le> max_safe \<and>
     1 \<le> rp_max_slippage_bps p \<and> rp_max_slippage_bps p \<le> 100 \<and>
     rp_market_allowlist p \<noteq> [] \<and> length (rp_market_allowlist p) \<le> 25 \<and>
     distinct (rp_market_allowlist p) \<and>
     list_all (\<lambda>m. m \<noteq> [] \<and> normalizeMarket m = m) (rp_market_allowlist p)"

lemma policy_sound_accepted:
  assumes "policy_sound p"
  shows "validateConsumerRiskPolicy (policy_as_input p) None = Inr p"
proof -
  have l: "map normalizeMarket (rp_market_allowlist p) = rp_market_allowlist p"
    "filter (\<lambda>m. m \<noteq> []) (rp_market_allowlist p) = rp_market_allowlist p"
    using assms by (simp_all add: policy_sound_def list_all_iff map_idI)
  show ?thesis using assms
    by (simp add: validateConsumerRiskPolicy_def policy_as_input_def policy_sound_def positiveInteger_def
        l js_uniq_id CONSUMER_MAX_SLIPPAGE_BPS_def Let_def)
qed

lemma validate_sound:
  assumes "validateConsumerRiskPolicy inp available = Inr p"
  shows "policy_sound p" "\<And>a. available = Some (num a) \<Longrightarrow> rp_max_order p \<le> max 0 a"
proof -
  have norm: "list_all (\<lambda>m. m \<noteq> [] \<and> normalizeMarket m = m)
      (js_uniq (filter (\<lambda>m. m \<noteq> []) (map normalizeMarket ms)))" for ms
    by (auto simp: list_all_iff normalizeMarket_normal)
  show "policy_sound p" using assms norm [of "rpi_market_allowlist inp"]
    unfolding validateConsumerRiskPolicy_def policy_sound_def Let_def positiveInteger_def
    by (auto simp: throw_rules CONSUMER_MAX_SLIPPAGE_BPS_def split: if_splits)
  show "rp_max_order p \<le> max 0 a" if "available = Some (num a)" for a
    using assms unfolding that validateConsumerRiskPolicy_def Let_def positiveInteger_def
    by (auto simp: throw_rules num_max_def max_def split: if_splits)
qed

text \<open>Risk policies. A policy the validator accepts is sound: positive safe limits with the daily
  and position limits at least the order limit, the order limit within the available balance, a
  slippage of 1 to 100 basis points, and 1 to 25 distinct normalised markets. Conversely every sound
  policy is accepted and comes back unchanged, so validation is idempotent.\<close>

theorem risk_policy_validation:
  "(validateConsumerRiskPolicy inp available = Inr p \<longrightarrow> policy_sound p \<and>
      validateConsumerRiskPolicy (policy_as_input p) None = Inr p \<and>
      (available = Some (num a) \<longrightarrow> rp_max_order p \<le> max 0 a)) \<and>
   (policy_sound q \<longrightarrow> validateConsumerRiskPolicy (policy_as_input q) None = Inr q)"
  using validate_sound policy_sound_accepted by blast

definition demo_policy :: ConsumerRiskPolicy where
  "demo_policy = \<lparr>rp_owner = ''o'', rp_account = ''a'', rp_max_order = 10, rp_max_daily = 20,
     rp_max_position = 30, rp_max_slippage_bps = 50, rp_market_allowlist = [''BTC'', ''SOL'']\<rparr>"

definition demo_policy_input :: risk_policy_input where
  "demo_policy_input = policy_as_input demo_policy
     \<lparr>rpi_market_allowlist := ['' btc '', ''SOL'', ''btc'', ''?'']\<rparr>"

lemma demo_policy_valid:
  "validateConsumerRiskPolicy demo_policy_input (Some (num 15)) = Inr demo_policy \<and> policy_sound demo_policy"
  by code_simp

lemma risk_policy_validation_witness:
  "policy_sound demo_policy \<and> validateConsumerRiskPolicy (policy_as_input demo_policy) None = Inr demo_policy \<and>
     rp_max_order demo_policy \<le> max 0 15"
  using risk_policy_validation [of demo_policy_input "Some (num 15)" demo_policy 15 demo_policy]
    demo_policy_valid by simp

section \<open>Postings\<close>

text \<open>Balanced postings. When each side sums to a safe integer, \<open>balancedPostings\<close> accepts exactly
  the lists of at least two positive postings with equal sides, and returns them as they are.\<close>

theorem balanced_postings_sound:
  assumes "sum_side Debit ps \<le> max_safe" "sum_side Credit ps \<le> max_safe"
  shows "balancedPostings ps = Inr qs \<longleftrightarrow> qs = ps \<and> 2 \<le> length ps \<and>
    list_all (\<lambda>p. 0 < post_amount p) ps \<and> sum_side Debit ps = sum_side Credit ps"
proof
  assume acc: "balancedPostings ps = Inr qs"
  have len: "2 \<le> length ps" using acc by (simp add: balancedPostings_def split: if_splits)
  then have run: "and_then (posting_sums 0 0 ps) (\<lambda>(debits, credits).
      if debits \<noteq> credits then throw ''unbalanced_ledger_transaction'' else return_ok ps) = Inr qs"
    using acc by (simp add: balancedPostings_def)
  then obtain x where x: "posting_sums 0 0 ps = Inr x" by (cases "posting_sums 0 0 ps") simp_all
  have pos: "\<forall>p \<in> set ps. 0 < post_amount p" using posting_sums_positive [OF x] by simp
  have exact: "posting_sums 0 0 ps = Inr (of_int (sum_side Debit ps), of_int (sum_side Credit ps))"
    using posting_sums_exact [OF pos, of 0 0] assms by (simp only: of_int_0 add_0 order_refl)
  have "qs = ps \<and> sum_side Debit ps = sum_side Credit ps"
    using run unfolding exact by (simp split: if_splits)
  then show "qs = ps \<and> 2 \<le> length ps \<and> list_all (\<lambda>p. 0 < post_amount p) ps \<and>
      sum_side Debit ps = sum_side Credit ps" using len pos by (simp add: list_all_iff)
next
  assume "qs = ps \<and> 2 \<le> length ps \<and> list_all (\<lambda>p. 0 < post_amount p) ps \<and>
    sum_side Debit ps = sum_side Credit ps"
  then show "balancedPostings ps = Inr qs"
    using balancedPostings_exact assms by (simp add: list_all_iff)
qed

definition demo_postings :: "int \<Rightarrow> int \<Rightarrow> int \<Rightarrow> int \<Rightarrow> ConsumerLedgerPosting list" where
  "demo_postings a b c d =
     [\<lparr>post_account = Treasury_usdc, post_side = Debit, post_amount = a\<rparr>,
      \<lparr>post_account = Consumer_reserved, post_side = Debit, post_amount = b\<rparr>,
      \<lparr>post_account = Consumer_available, post_side = Credit, post_amount = c\<rparr>,
      \<lparr>post_account = Fee_revenue, post_side = Credit, post_amount = d\<rparr>]"

lemma balanced_postings_sound_witness:
  "balancedPostings (demo_postings 3 4 5 2) = Inr (demo_postings 3 4 5 2)"
  using balanced_postings_sound [of "demo_postings 3 4 5 2" "demo_postings 3 4 5 2"]
  by (simp add: demo_postings_def max_safe_def)

text \<open>Above \<open>2 ^ 53\<close> the running sums round, and one unit can be missing.\<close>

lemma unbalanced_postings_accepted:
  "balancedPostings (demo_postings 9007199254740991 2 9007199254740991 1) =
     Inr (demo_postings 9007199254740991 2 9007199254740991 1)"
  by code_simp

section \<open>The circuit's telemetry\<close>

text \<open>The circuit stays closed only when all is well. For a free treasury and a reserved exposure
  of up to 75059993789508 micro-USDC the evaluation gives no reason to halt exactly when no violation
  is flagged, the drift is at most a thousandth of the pool (as the double product rounds it up, and
  at least one USDC), the free treasury is at least 120 per cent of the exposure, market data and
  reconciliation are fresh, failures are rare, and the worker and the venue are up.\<close>

theorem circuit_green_iff:
  assumes "tel_treasury_free t = of_int free" "0 \<le> free" "free \<le> 75059993789508"
    and "tel_reserved_exposure t = of_int exposure" "0 \<le> exposure" "exposure \<le> 75059993789508"
  shows "evaluateConsumerCircuit t = [] \<longleftrightarrow>
    \<not> tel_negative_balance t \<and> \<not> tel_duplicate_settlement t \<and> \<not> tel_nonce_violation t \<and>
    \<bar>tel_drift t\<bar> \<le> max 1000000 (of_int \<lceil>fl (tel_pooled_treasury t * fl (1 / 1000))\<rceil>) \<and>
    120 * exposure \<le> 100 * free \<and>
    tel_market_data_age_ms t \<le> 10000 \<and> tel_reconciliation_age_ms t \<le> 60000 \<and>
    tel_consecutive_failures t < 5 \<and> tel_failure_rate_5m t < fl (1 / 20) \<and>
    tel_worker_attested t \<and> tel_venue_available t"
proof -
  have "fl (of_int free * 100) = of_int (free * 100)" "fl (of_int exposure * 120) = of_int (exposure * 120)"
    using fl_safe_int [of "free * 100"] fl_safe_int [of "exposure * 120"] assms by (simp_all add: max_safe_def)
  then have "fl (tel_treasury_free t * 100) < fl (tel_reserved_exposure t * 120) \<longleftrightarrow> 100 * free < 120 * exposure"
    unfolding assms(1,4) by (simp only: of_int_less_iff mult.commute)
  then show ?thesis unfolding evaluateConsumerCircuit_def Let_def
    by (auto simp: CONSUMER_MARKET_DATA_MAX_AGE_MS_def CONSUMER_RECONCILIATION_MAX_AGE_MS_def not_less)
qed

definition demo_telemetry :: ConsumerCircuitTelemetry where
  "demo_telemetry = \<lparr>tel_negative_balance = False, tel_duplicate_settlement = False,
     tel_nonce_violation = False, tel_drift = 10, tel_pooled_treasury = 5000000,
     tel_treasury_free = of_int 1200, tel_reserved_exposure = of_int 1000, tel_market_data_age_ms = 50,
     tel_reconciliation_age_ms = 70, tel_consecutive_failures = 0, tel_failure_rate_5m = 0,
     tel_worker_attested = True, tel_venue_available = True\<rparr>"

lemma circuit_green_iff_witness: "evaluateConsumerCircuit demo_telemetry = [] \<longleftrightarrow> 0 < fl (1 / 20)"
  by (subst circuit_green_iff [where free = 1200 and exposure = 1000])
     (simp_all add: demo_telemetry_def le_max_iff_disj)

section \<open>Staged rollout\<close>

lemma rollout_bucket_range:
  "\<exists>b. 0 \<le> b \<and> b < 100 \<and> rollout_bucket h ow \<in> {num b, NaN}"
proof (cases "js_parse_int 16 (take 8 (sha256_hex h (''ghola-consumer-rollout-v1:'' @ ow)))")
  case (Fin r)
  then show ?thesis by (intro exI [of _ "\<lfloor>r\<rfloor> mod 100"]) (simp add: rollout_bucket_def)
qed (auto simp: rollout_bucket_def)

text \<open>Staged rollout. A canary owner is admitted at any percentage; raising the percentage never
  takes an owner out; at 0 per cent only canaries are admitted; at 100 per cent every owner whose
  digest parses as hexadecimal is. The percentage that counts is between 0 and 100 whatever the
  environment says.\<close>

theorem rollout_monotone:
  "(env' ''GHOLA_CONSUMER_CANARY_COMMITMENTS'' = env ''GHOLA_CONSUMER_CANARY_COMMITMENTS'' \<and>
      rolloutPercent env \<le> rolloutPercent env' \<and> ro_eligible (consumerRolloutEligible h ow env) \<longrightarrow>
        ro_eligible (consumerRolloutEligible h ow env')) \<and>
   (rolloutPercent env = 0 \<longrightarrow>
      ro_eligible (consumerRolloutEligible h ow env) = ro_canary (consumerRolloutEligible h ow env)) \<and>
   (rolloutPercent env = 100 \<and> rollout_bucket h ow \<noteq> NaN \<longrightarrow>
      ro_eligible (consumerRolloutEligible h ow env)) \<and>
   0 \<le> rolloutPercent env \<and> rolloutPercent env \<le> 100"
proof -
  obtain b where b: "0 \<le> b" "b < 100" "rollout_bucket h ow \<in> {num b, NaN}" using rollout_bucket_range by blast
  have less: "num_less (rollout_bucket h ow) (num n) \<longleftrightarrow> rollout_bucket h ow = num b \<and> b < n" for n
    using b(3) by auto
  have canaries: "env_or env' ''GHOLA_CONSUMER_CANARY_COMMITMENTS'' [] =
      env_or env ''GHOLA_CONSUMER_CANARY_COMMITMENTS'' []"
    if "env' ''GHOLA_CONSUMER_CANARY_COMMITMENTS'' = env ''GHOLA_CONSUMER_CANARY_COMMITMENTS''"
    using that by (simp add: env_or_def)
  have "0 \<le> rolloutPercent env \<and> rolloutPercent env \<le> 100"
    by (simp add: rolloutPercent_def Let_def)
  then show ?thesis using b canaries
    by (auto simp: consumerRolloutEligible_def Let_def less)
qed

definition demo_env :: "string \<Rightarrow> env" where
  "demo_env pct = (\<lambda>k. if k = ''GHOLA_CONSUMER_ROLLOUT_PERCENT'' then Some pct else None)"

definition hex_host :: host where
  "hex_host = \<lparr>sha256_hex = (\<lambda>s. ''0000002a''), locale_le = (\<lambda>s t. s \<le> t)\<rparr>"

lemma demo_rollout:
  "ro_eligible (consumerRolloutEligible hex_host ''o'' (demo_env ''50'')) \<and>
   rolloutPercent (demo_env ''50'') = 50 \<and> rolloutPercent (demo_env '' 99x'') = 99"
  by code_simp

lemma rollout_monotone_witness:
  "ro_eligible (consumerRolloutEligible hex_host ''o'' (demo_env '' 99x''))"
  using rollout_monotone [of "demo_env '' 99x''" "demo_env ''50''" hex_host "''o''"] demo_rollout
  by (simp add: demo_env_def)

section \<open>Canonical JSON\<close>

text \<open>Canonical commitments. When the collation orders the property names totally, the commitment
  of an object with distinct property names does not depend on the order they are listed in.\<close>

theorem commitment_ignores_property_order:
  assumes "total_order_on_names (locale_le h) (fst ` set kvs)" "distinct (map fst kvs)" "mset kvs' = mset kvs"
  shows "consumerCommitment h ns (JObj kvs') = consumerCommitment h ns (JObj kvs)"
  using stableJson_perm [OF assms] by (simp add: consumerCommitment_def)

text \<open>A host for concrete runs: the hash is the identity and the order of strings that of their codes.\<close>

definition plain_host :: host where
  "plain_host = \<lparr>sha256_hex = (\<lambda>s. s), locale_le = (\<lambda>s t. s \<le> t)\<rparr>"

lemma commitment_ignores_property_order_witness:
  "consumerCommitment plain_host ''order'' (JObj [(''b'', JNull), (''a'', JBool True)]) =
   consumerCommitment plain_host ''order'' (JObj [(''a'', JBool True), (''b'', JNull)])"
  by (rule commitment_ignores_property_order) (auto simp: plain_host_def total_order_on_names_def)

end
