(* ===== verification/ConsumerClaims.thy ===== *)
theory ConsumerClaims imports ConsumerWindows ConsumerRules
begin

text \<open>
  The properties of the pooled consumer account: what holds after any list of calls from the empty
  store, whatever the answers were.
\<close>

section \<open>Money\<close>

text \<open>The store after a list of calls from the empty store.\<close>

abbreviation after :: "host \<Rightarrow> consumer_call list \<Rightarrow> memory" where
  "after h cs \<equiv> run_calls (consumer_step h) empty_memory cs"

lemma after_inv: "money_inv (after h cs)"
  by (rule consumer.run_inv [OF money_inv_empty])

text \<open>C1: Solvency. After any list of calls no account has a negative available balance or a
  negative open notional, and its reserved funds are exactly the sum over its reservations that are
  neither released nor settled.\<close>

theorem consumer_solvent:
  "0 \<le> avail_of a (after h cs) \<and> 0 \<le> open_of a (after h cs) \<and>
     reserved_of a (after h cs) = open_reserved a (after h cs)"
  using after_inv [of h cs] by (simp add: money_inv_def balances_ok_def)

text \<open>C2: Refinement. On every reachable store, a call moves the balances of all accounts by exactly
  the transfer its answer announces (none for a refusal), and the abstract book would allow that
  transfer: never more is debited or held than is available, never more released or settled than is
  reserved.\<close>

theorem consumer_refines_book:
  "funds_of (consumer_step h (after h cs) c) =
     apply_transfer (call_transfer h (after h cs) c) (funds_of (after h cs)) \<and>
   transfer_allowed (call_transfer h (after h cs) c) (funds_of (after h cs))"
  using consumer_step_refines [OF after_inv [of h cs], of h c] by (simp add: refines_def)

text \<open>C3: Conservation. What an account holds (available plus reserved) after any list of calls is
  what came in (confirmed deposits, positive adjustments, cancelled withdrawals) less what went out
  (withdrawals, negative adjustments, and the cost of settled orders): holds and releases move no
  money.\<close>

theorem consumer_conservation:
  "held_funds a (after h cs) = run_flow h a empty_memory cs"
  using run_flow_held [OF money_inv_empty, of a h cs]
  by (simp add: held_funds_def avail_of_def reserved_of_def empty_memory_def)

text \<open>C4: Double entry. Every transaction in the ledger of a reachable store has at least two
  postings, positive amounts, and equal debits and credits (as integers, not as rounded sums).\<close>

theorem consumer_ledger_balanced:
  "list_all balanced_entry (js_values (mem_ledger (after h cs)))"
proof -
  have "jm.all_entries (\<lambda>k t. balanced_entry t) (mem_ledger (after h cs))" "js_wf (mem_ledger (after h cs))"
    using after_inv [of h cs] by (simp_all add: money_inv_def tables_ok_def)
  then show ?thesis by (auto simp: list_all_iff jm.vals_lookup jm.all_entries_def)
qed

text \<open>C5: Refusals are atomic. On a reachable store a call that throws, is denied, or answers
  \<open>null\<close> or \<open>false\<close> leaves the whole store as it was, with two exceptions, which are stated exactly: a
  refused nonce only drops the nonces and rate buckets that have expired, and a refused rate call
  drops them and writes the one bucket of its key and window, whose count is now above the limit. No
  refused call of any kind changes a balance, the ledger, a deposit, a withdrawal, a reservation, an
  order or the circuit.\<close>

theorem consumer_refusal_atomic:
  assumes "call_refused h (after h cs) c"
  shows "case c of
      ConsumeNonce ns ow n ex now \<Rightarrow> consumer_step h (after h cs) c = pruneMemory now (after h cs)
    | ConsumeRate k l w now \<Rightarrow> (\<exists>b. l < rate_count b \<and> consumer_step h (after h cs) c =
        (pruneMemory now (after h cs))\<lparr>mem_rates :=
           js_set (mem_rates (pruneMemory now (after h cs))) (rate_key k w now) b\<rparr>)
    | _ \<Rightarrow> consumer_step h (after h cs) c = after h cs"
  using refused_unchanged [OF after_inv assms] by (cases c) simp_all

lemma consumer_refusal_atomic_witness:
  "consumer_step plain_host (after plain_host []) (Release ''r'' ''o'' 5) = after plain_host [] \<and>
   consumer_step plain_host (after plain_host [ConsumeNonce ''n'' ''o'' ''1'' 900 5]) (ConsumeNonce ''n'' ''o'' ''1'' 900 6) =
     pruneMemory 6 (after plain_host [ConsumeNonce ''n'' ''o'' ''1'' 900 5])"
  using consumer_refusal_atomic [of plain_host "[]" "Release ''r'' ''o'' 5"]
    consumer_refusal_atomic [of plain_host "[ConsumeNonce ''n'' ''o'' ''1'' 900 5]" "ConsumeNonce ''n'' ''o'' ''1'' 900 6"]
  by (simp add: empty_memory_def releaseConsumerReservation_def consumeConsumerNonce_def pruneMemory_def Let_def
      js_has_def js_set_def)

section \<open>Life cycles\<close>

text \<open>C6: The life of a withdrawal. Once created, a withdrawal is never deleted, its owner, account,
  amount and destination never change, and over any list of calls its status only follows the edges
  of \<open>wd_edge\<close>: queued to prepared, submitted, failed or cancelled, prepared to submitted or
  cancelled, submitted to finalized or failed. In particular a cancelled (refunded) withdrawal is
  never submitted.\<close>

theorem withdrawal_lifecycle:
  assumes "js_get (mem_withdrawals m) i = Some w"
  shows "\<exists>w'. js_get (mem_withdrawals (run_calls (consumer_step h) m cs)) i = Some w' \<and>
    wd_same_terms w w' \<and> wd_edge\<^sup>*\<^sup>* (wd_status w) (wd_status w')"
  using assms
proof (induction cs arbitrary: m w)
  case Nil
  then show ?case by (simp add: wd_same_terms_def)
next
  case (Cons c cs)
  obtain w' where w': "js_get (mem_withdrawals (consumer_step h m c)) i = Some w'" "wd_moves w w'"
    using withdrawal_moves [OF Cons.prems] by blast
  obtain w'' where w'': "js_get (mem_withdrawals (run_calls (consumer_step h) (consumer_step h m c) cs)) i
      = Some w''" "wd_same_terms w' w''" "wd_edge\<^sup>*\<^sup>* (wd_status w') (wd_status w'')"
    using Cons.IH [OF w'(1)] by blast
  have "wd_same_terms w w''" using w'(2) w''(2) by (simp add: wd_moves_def wd_same_terms_def)
  moreover have "wd_edge\<^sup>*\<^sup>* (wd_status w) (wd_status w'')"
    using w'(2) w''(3) by (auto simp: wd_moves_def intro: converse_rtranclp_into_rtranclp)
  ultimately show ?case using w''(1) by auto
qed

definition demo_withdrawal :: "withdrawal_status \<Rightarrow> ConsumerWithdrawal" where
  "demo_withdrawal st = \<lparr>wd_id = ''w'', wd_owner = ''o'', wd_account = ''a'', wd_idempotency_key = ''k'',
     wd_destination = ''d'', wd_amount = 5, wd_status = st, wd_signature = None, wd_message = None,
     wd_prepared_expires_at = None, wd_created_at = 0, wd_updated_at = 0\<rparr>"

lemma withdrawal_lifecycle_witness:
  "\<exists>w'. js_get (mem_withdrawals (run_calls (consumer_step plain_host)
      (put_withdrawal ''w'' (demo_withdrawal Wd_queued) empty_memory)
      [CancelWithdrawal ''w'' ''o'' 1, UpdateWithdrawal ''w'' Wd_submitted None 2])) ''w'' = Some w' \<and>
    wd_same_terms (demo_withdrawal Wd_queued) w' \<and>
    wd_edge\<^sup>*\<^sup>* (wd_status (demo_withdrawal Wd_queued)) (wd_status w')"
  by (rule withdrawal_lifecycle) (simp add: put_withdrawal_def)

text \<open>A concrete order: 1000 units come in, 460 are reserved, the order is submitted and recorded.\<close>

definition demo_reserve :: reserve_input where
  "demo_reserve = \<lparr>ri_owner = ''o'', ri_account = ''a'', ri_idempotency_key = ''k'', ri_venue = Hyperliquid,
     ri_notional = num 400, ri_fee = num 50, ri_venue_cost = Some (num 10), ri_max_daily = None,
     ri_max_position = None, ri_ttl_ms = None\<rparr>"

definition demo_rid :: string where
  "demo_rid = reservation_id plain_host ''a'' ''k''"

definition demo_oid :: string where
  "demo_oid = venue_order_id plain_host demo_rid"

definition demo_reserved :: "consumer_call list" where
  "demo_reserved = [Adjust ''o'' ''a'' (num 1000) ''inc'' 0, Reserve demo_reserve 1]"

definition demo_released :: "consumer_call list" where
  "demo_released = demo_reserved @ [Release demo_rid ''o'' 2]"

definition demo_submitted :: "consumer_call list" where
  "demo_submitted = demo_reserved @
     [MarkSubmitted demo_rid ''o'' 2, RecordOrder demo_rid ''o'' ''BTC'' ''w'' (JObj []) 3]"

definition demo_fill :: reconcile_input where
  "demo_fill = \<lparr>rec_order = demo_oid, rec_fill_reference = ''f'', rec_filled = num 300,
     rec_venue_cost = num 10, rec_fee = num 50, rec_final_status = Ord_filled, rec_filled_at = 4\<rparr>"

definition demo_reservation :: ConsumerBalanceReservation where
  "demo_reservation = \<lparr>res_id = demo_rid, res_owner = ''o'', res_account = ''a'',
     res_idempotency_key = ''k'', res_venue = Hyperliquid, res_notional = 400, res_venue_cost = 10,
     res_fee = 50, res_reserved = 460, res_status = Released, res_created_at = 1,
     res_expires_at = 600001, res_updated_at = 2\<rparr>"

lemma demo_released_reservation:
  "js_get (mem_reservations (after plain_host demo_released)) demo_rid = Some demo_reservation"
  by code_simp

text \<open>C7: A closed reservation stays closed. Once a reservation of a reachable store is released or
  settled, no list of calls opens it again, releases it a second time or changes its terms; with C1
  its funds are returned or spent once.\<close>

theorem reservation_closes_once:
  assumes "js_get (mem_reservations (after h cs)) i = Some r" "\<not> is_open r"
  shows "\<exists>r'. js_get (mem_reservations (after h (cs @ ds))) i = Some r' \<and>
    res_same_terms r r' \<and> res_status r' = res_status r"
  using reservation_run_moves [OF after_inv assms] by (simp add: run_calls_append)

lemma reservation_closes_once_witness:
  "\<exists>r'. js_get (mem_reservations (after plain_host (demo_released @ [MarkSubmitted demo_rid ''o'' 3])))
      demo_rid = Some r' \<and> res_same_terms demo_reservation r' \<and> res_status r' = res_status demo_reservation"
  by (rule reservation_closes_once [OF demo_released_reservation])
     (simp add: demo_reservation_def is_open_def)

text \<open>C8: An order settles once. When a reconciliation of an order succeeds, every later
  reconciliation of the same order is refused, whatever fill it reports and whatever calls come
  between.\<close>

theorem reconcile_exactly_once:
  assumes "fst (reconcileConsumerVenueOrder h inp now (after h cs)) = Done out"
    and "rec_order inp' = rec_order inp"
  shows "outcome_refused (fst (reconcileConsumerVenueOrder h inp' now'
    (after h (cs @ Reconcile inp now # ds))))"
proof (rule reconcile_again [OF after_inv])
  have "reconciled (rec_order inp) (consumer_step h (after h cs) (Reconcile inp now))"
    using reconcile_done [OF after_inv assms(1)] by simp
  then show "reconciled (rec_order inp') (after h (cs @ Reconcile inp now # ds))"
    unfolding assms(2) by (auto intro: reconciled_run)
qed

lemma demo_settles:
  "\<exists>out. fst (reconcileConsumerVenueOrder plain_host demo_fill 5 (after plain_host demo_submitted)) = Done out"
proof -
  have "\<not> outcome_refused (fst (reconcileConsumerVenueOrder plain_host demo_fill 5
      (after plain_host demo_submitted)))" by code_simp
  then show ?thesis by (simp add: outcome_refused_def split: outcome.splits)
qed

lemma reconcile_exactly_once_witness:
  "outcome_refused (fst (reconcileConsumerVenueOrder plain_host demo_fill 9
    (after plain_host (demo_submitted @ Reconcile demo_fill 5 # [Adjust ''o'' ''a'' (num 5) ''j'' 6]))))"
proof -
  obtain out where "fst (reconcileConsumerVenueOrder plain_host demo_fill 5
      (after plain_host demo_submitted)) = Done out" using demo_settles by blast
  then show ?thesis by (rule reconcile_exactly_once) simp
qed

text \<open>C9: A nonce is used once. A nonce that was accepted is refused by every later use of it, as
  long as every clock reading in between, and of the use itself, is before its expiry.\<close>

theorem nonce_single_use:
  assumes "fst (consumeConsumerNonce ns ow n expires now m)" "js_wf (mem_nonces m)"
    and "list_all (prunes_before expires) cs" "now' < expires"
  shows "\<not> fst (consumeConsumerNonce ns ow n expires' now'
    (run_calls (consumer_step h) m (ConsumeNonce ns ow n expires now # cs)))"
proof -
  have "nonce_held (nonce_key ns ow n) expires (consumer_step h m (ConsumeNonce ns ow n expires now))"
    using assms(1,2) by (auto simp: nonce_held_def consumeConsumerNonce_def Let_def pruneMemory_def
        js_wf_filter split: if_splits)
  then have "nonce_held (nonce_key ns ow n) expires
      (run_calls (consumer_step h) (consumer_step h m (ConsumeNonce ns ow n expires now)) cs)"
    using nonce_held_run assms(3) by blast
  then show ?thesis using assms(4) prune_keeps_nonce
    by (auto simp: nonce_held_def consumeConsumerNonce_def Let_def js_has_get)
qed

lemma nonce_single_use_witness:
  "\<not> fst (consumeConsumerNonce ''ns'' ''o'' ''n'' 900 60 (run_calls (consumer_step plain_host) empty_memory
    (ConsumeNonce ''ns'' ''o'' ''n'' 100 10 # [ConsumeRate ''k'' 5 1000 50])))"
  by (rule nonce_single_use) (simp_all add: consumeConsumerNonce_def pruneMemory_def empty_memory_def
      Let_def js_has_def)

section \<open>Rate limit, wallets and deposits\<close>

text \<open>The rate limit. In a window that starts unused, a call is admitted exactly when fewer than
  \<open>limit\<close> calls with its key came before it in the window, and the answer counts them, whatever
  other calls come between.\<close>

theorem rate_limit_counts:
  assumes "0 < w" "js_wf (mem_rates m)" "js_get (mem_rates m) (rate_key key w now) = None"
    and "list_all (in_window (rate_key key w now) (bucket_start w now) w) cs"
  shows "let n = int (length (filter (hits_bucket (rate_key key w now)) cs));
      ans = fst (consumeConsumerRateLimit key limit w now (run_calls (consumer_step h) m cs))
    in rate_answer_count ans = n + 1 \<and> (rate_ok ans \<longleftrightarrow> n < limit)"
proof -
  let ?k = "rate_key key w now" and ?s = "bucket_start w now" and ?m = "run_calls (consumer_step h) m cs"
  have s: "bucket_start w ?s = ?s" using assms(1)
    by (intro bucket_start_window(3)) (simp_all add: bucket_start_window(1))
  have "bucket_open ?k (?s + w) m" "rate_at ?k m = 0"
    using assms(2,3) by (simp_all add: bucket_open_def rate_at_def)
  then have run: "bucket_open ?k (?s + w) ?m"
    "rate_at ?k ?m = int (length (filter (hits_bucket ?k) cs))"
    using window_run [OF assms(1) s _ assms(4), of m h] by simp_all
  have "rate_answer_count (fst (consumeConsumerRateLimit key limit w now ?m)) = rate_at ?k ?m + 1"
    using bucket_start_window(1,2) [OF assms(1), of now] by (intro rate_call(3) [OF assms(1) run(1) _ _ _ s]) auto
  then show ?thesis unfolding Let_def rate_limit_parts(3) run(2) by auto
qed

lemma rate_limit_counts_witness:
  "let n = int (length (filter (hits_bucket (rate_key ''k'' 1000 5200)) [ConsumeRate ''k'' 2 1000 5100]));
      ans = fst (consumeConsumerRateLimit ''k'' 1 1000 5200
        (run_calls (consumer_step plain_host) empty_memory [ConsumeRate ''k'' 2 1000 5100]))
    in rate_answer_count ans = n + 1 \<and> (rate_ok ans \<longleftrightarrow> n < 1)"
  by (rule rate_limit_counts) (simp_all add: empty_memory_def bucket_start_def)

text \<open>The hold of a wallet change ends at the next binding. Binding a new wallet at \<open>t\<close> holds
  withdrawals until \<open>t + 24 h\<close>, but binding the same new wallet once more at \<open>t'\<close> sets the hold back to
  \<open>t'\<close>, however early that is.\<close>

theorem wallet_hold_ends_at_rebind:
  assumes "js_get (mem_wallets m) ow = Some e" "wal_pubkey e \<noteq> pk"
  shows "wal_hold_until (fst (putConsumerWalletBinding ow a pk c t m)) = t + 24 * 60 * 60000 \<and>
    wal_hold_until (fst (putConsumerWalletBinding ow a' pk c' t'
      (consumer_step h m (PutWallet ow a pk c t)))) = t'"
  using assms by (simp_all add: putConsumerWalletBinding_def getConsumerWalletBinding_def Let_def
      wallet_hold_ms_def)

definition demo_wallet :: ConsumerWalletBinding where
  "demo_wallet = \<lparr>wal_owner = ''o'', wal_account = ''a'', wal_pubkey = ''A'', wal_commitment = ''c'',
     wal_bound_at = 0, wal_hold_until = 0, wal_updated_at = 0\<rparr>"

lemma wallet_hold_ends_at_rebind_witness:
  "wal_hold_until (fst (putConsumerWalletBinding ''o'' ''a'' ''B'' ''c'' 10
     (consumer_step plain_host empty_memory (PutWallet ''o'' ''a'' ''A'' ''c'' 0)))) = 10 + 24 * 60 * 60000 \<and>
   wal_hold_until (fst (putConsumerWalletBinding ''o'' ''a'' ''B'' ''c'' 20
     (consumer_step plain_host (consumer_step plain_host empty_memory (PutWallet ''o'' ''a'' ''A'' ''c'' 0))
        (PutWallet ''o'' ''a'' ''B'' ''c'' 10)))) = 20"
  by (rule wallet_hold_ends_at_rebind [where e = demo_wallet]) (simp_all add: putConsumerWalletBinding_def
      getConsumerWalletBinding_def Let_def empty_memory_def demo_wallet_def)

lemma avail_of_frame [simp]:
  "avail_of a (putMemoryLedger h ow c k key ref ps now m) = avail_of a m"
  "avail_of a (m\<lparr>mem_deposits := ds\<rparr>) = avail_of a m"
  by (rule numbers_depend; simp)+

definition only_deposit :: "string \<Rightarrow> memory \<Rightarrow> bool" where
  "only_deposit i m \<longleftrightarrow> mem_deposits m = [] \<or> (\<exists>r. mem_deposits m = [(i, r)] \<and> dep_id r = i)"

text \<open>A deposit intent can be credited twice. Creating the intent of the same owner and key again
  puts a confirmed intent back to pending (with the same id), and the duplicate-evidence check of the
  confirmation skips the intent itself: the same on-chain signature then credits the account a second
  time.\<close>

theorem deposit_credited_twice:
  assumes "di_amount d = num n" "0 < n" "n \<le> max_safe"
  shows "avail_of (di_account d) (after h
      (concat (replicate 2 [CreateDeposit d t, ConfirmDeposit
         (deposit_intent_id h (di_owner d) (di_idempotency_key d)) (di_owner d) (Some sig) None t']))) = 2 * n"
proof -
  let ?i = "deposit_intent_id h (di_owner d) (di_idempotency_key d)"
  let ?cs = "[CreateDeposit d t, ConfirmDeposit ?i (di_owner d) (Some sig) None t']"
  have once: "only_deposit ?i (run_calls (consumer_step h) m ?cs) \<and>
      avail_of (di_account d) (run_calls (consumer_step h) m ?cs) = avail_of (di_account d) m + n"
    if "only_deposit ?i m" for m
    using assms that by (auto simp: createConsumerDepositIntent_def confirmConsumerDeposit_def
        positiveAmount_def amount_ok_def Let_def evidence_used_def only_deposit_def js_set_def js_values_def js_get_def)
  have "only_deposit ?i empty_memory" "avail_of (di_account d) empty_memory = 0"
    by (simp_all add: only_deposit_def empty_memory_def avail_of_def)
  then show ?thesis using once [of empty_memory] once [of "run_calls (consumer_step h) empty_memory ?cs"]
    by (simp add: numeral_2_eq_2)
qed

definition demo_deposit :: deposit_input where
  "demo_deposit = \<lparr>di_owner = ''o'', di_account = ''a'', di_rail = Solana_usdc, di_expected_wallet = None,
     di_amount = num 70, di_idempotency_key = ''k''\<rparr>"

lemma deposit_credited_twice_witness:
  "avail_of (di_account demo_deposit) (after plain_host (concat (replicate 2
      [CreateDeposit demo_deposit 1, ConfirmDeposit (deposit_intent_id plain_host (di_owner demo_deposit)
         (di_idempotency_key demo_deposit)) (di_owner demo_deposit) (Some ''sig'') None 2]))) = 2 * 70"
  by (rule deposit_credited_twice) (simp_all add: demo_deposit_def max_safe_def)

section \<open>The circuit breaker\<close>

text \<open>A halted circuit stays halted. After a halt the circuit is halted, with the reasons given,
  over any list of calls without a resume; and a resume answers only for zero drift, a named
  operator, and a canary count that is not below two.\<close>

theorem circuit_halt_holds:
  assumes "list_all (\<lambda>c. \<not> resumes c) cs"
  shows "halted_with (set reasons) (run_calls (consumer_step h) m (HaltCircuit reasons ack now # cs)) \<and>
    (fst (resumeConsumerCircuit by drift canaries now' m') = Inr st \<longrightarrow>
       drift = num 0 \<and> js_trim by \<noteq> [] \<and> \<not> num_less canaries (num 2))"
proof -
  have "halted_with (set reasons) (consumer_step h m (HaltCircuit reasons ack now))"
    by (simp add: halted_with_def haltConsumerCircuit_def Let_def)
  then show ?thesis using halted_run [OF _ assms, of "set reasons" _ h]
    by (auto simp: resumeConsumerCircuit_def Let_def split: if_splits)
qed

lemma circuit_halt_holds_witness:
  "let resumed = fst (resumeConsumerCircuit ''op'' (num 0) (num 2) 3 empty_memory) in
   halted_with (set [Operator_halt]) (run_calls (consumer_step plain_host) empty_memory
      (HaltCircuit [Operator_halt] None 1 # [EnqueueWake ''o'' 2])) \<and>
   resumed = Inr (case resumed of Inr c \<Rightarrow> c) \<and>
   num 0 = num 0 \<and> js_trim ''op'' \<noteq> [] \<and> \<not> num_less (num 2) (num 2)"
proof -
  let ?r = "fst (resumeConsumerCircuit ''op'' (num 0) (num 2) 3 empty_memory)"
  have "?r = Inr (case ?r of Inr c \<Rightarrow> c)" by code_simp
  then show ?thesis
    using circuit_halt_holds [of "[EnqueueWake ''o'' 2]" "[Operator_halt]" plain_host empty_memory None 1
        "''op''" "num 0" "num 2" 3 empty_memory "case ?r of Inr c \<Rightarrow> c"]
    by (simp only: Let_def) simp
qed

end
