(* ===== verification/CrossVenueClaims.thy ===== *)
theory CrossVenueClaims imports CrossVenueMachine ConsumerClaims
begin

text \<open>
  The properties of coordinated executions on two venues, over any list of creations, submissions,
  worker reports and cancellations.
\<close>

section \<open>Exposure\<close>

abbreviation executed :: "host \<Rightarrow> cross_call list \<Rightarrow> cross_store" where
  "executed h cs \<equiv> run_calls (cross_step h) empty_cross_store cs"

lemma executed_inv: "cross_inv (executed h cs)"
  by (rule cross.run_inv [OF cross_inv_empty])

section \<open>A concrete execution\<close>

text \<open>The hash reverses its text, so that the ids of the two legs differ.\<close>

definition rev_host :: host where
  "rev_host = \<lparr>sha256_hex = rev, locale_le = (\<lambda>s t. s \<le> t)\<rparr>"

definition demo_plan :: plan_input where
  "demo_plan = \<lparr>pi_owner = ''o'', pi_idempotency_key = ''key-0001'', pi_opportunity = ''ghola_x'',
     pi_market = ''btc'', pi_notional = num 1000000,
     pi_budget = \<lparr>bi_max_unhedged = num 500000, bi_max_slippage_bps = num 25, bi_max_duration_ms = num 5000,
       bi_max_unwind_loss = num 250000, bi_max_daily_loss = num 1000000\<rparr>,
     pi_legs = [\<lparr>li_venue = Hyperliquid_venue, li_side = Buy, li_symbol = ''BTC'', li_price = ''100.5''\<rparr>,
       \<lparr>li_venue = Phoenix_venue, li_side = Sell, li_symbol = ''BTC'', li_price = ''101''\<rparr>]\<rparr>"

definition demo_xid :: string where
  "demo_xid = execution_id_of rev_host ''o'' ''key-0001''"

definition demo_leg_id :: string where
  "demo_leg_id = consumerCommitment rev_host ''cross_venue_leg''
     (JObj [(''execution_id'', JStr demo_xid), (''index'', JNum (num 0))])"

definition demo_report :: "int \<Rightarrow> int \<Rightarrow> CrossVenueWorkerReport" where
  "demo_report n filled = \<lparr>rep_sequence = num n, rep_phase = Ph_legs_open,
     rep_legs = [\<lparr>lr_id = demo_leg_id, lr_status = Leg_partially_filled, lr_fill = num filled, lr_reference = None\<rparr>],
     rep_repairs = [], rep_slippage_bps = None, rep_unwind_loss = None, rep_daily_loss = None,
     rep_failure_code = None, rep_observed_at = Some 100\<rparr>"

abbreviation demo_executed :: "cross_call list \<Rightarrow> cross_store" where
  "demo_executed cs \<equiv> executed rev_host (XCreate demo_plan 5 # cs)"

lemma demo_stored: "\<exists>p. js_get (cs_plans (demo_executed [])) demo_xid = Some p"
proof -
  have "js_get (cs_plans (demo_executed [])) demo_xid \<noteq> None" by code_simp
  then show ?thesis by blast
qed

lemma demo_admitted:
  "run_admits (cross_step rev_host) (no_collision rev_host) (demo_executed [])
     [XReport demo_xid ''o'' (demo_report 1 200000)]"
  by code_simp

lemma is_right: "isl x = False \<Longrightarrow> \<exists>q. x = Inr q"
  by (cases x) auto

definition exposure_controlled :: "CrossVenueExecutionPlan \<Rightarrow> bool" where
  "exposure_controlled p \<longleftrightarrow>
     pl_residual p = residualNotional (pl_legs p) (pl_repairs p) \<and>
     (pl_status p \<noteq> Manual_intervention_required \<longrightarrow> pl_residual p \<le> rb_max_unhedged (pl_budget p)) \<and>
     (pl_status p \<in> {Both_filled, Hedged, Cancelled, Failed} \<longrightarrow> pl_residual p = 0) \<and>
     (pl_status p = Cancelled \<longrightarrow> list_all (\<lambda>l. leg_fill l = 0) (pl_legs p)) \<and>
     list_all (\<lambda>l. 0 \<le> leg_fill l \<and> leg_fill l \<le> pl_notional p) (pl_legs p)"

lemma plan_exposure:
  assumes ok: "plan_ok p"
  shows "exposure_controlled p"
proof -
  note s = plan_okD(9) [OF ok]
  have "list_all (\<lambda>l. 0 \<le> leg_fill l \<and> leg_fill l \<le> pl_notional p) (pl_legs p)"
    using plan_okD(2) [OF ok] by (simp add: list_all_iff leg_ok_def)
  moreover have "pl_status p = Cancelled \<longrightarrow> list_all (\<lambda>l. leg_fill l = 0) (pl_legs p)"
    using s unfolding status_ok_def by blast
  ultimately show ?thesis unfolding exposure_controlled_def
    using plan_okD(4) [OF ok] status_okD(1,2) [OF s] by blast
qed

text \<open>C20: Exposure is controlled. In every reachable store, the residual of a plan is its absolute net
  position, the residual exceeds the unhedged budget only in a plan that waits for an operator, a plan
  that ended (both legs filled, hedged, cancelled, failed) has no residual, a cancelled plan has no
  fill, and no leg is filled beyond the matched notional.\<close>

theorem cross_venue_exposure:
  "list_all exposure_controlled (js_values (cs_plans (executed h cs)))"
proof -
  have "js_wf (cs_plans (executed h cs))" using executed_inv [of h cs] by (simp add: cross_inv_def)
  then show ?thesis using plan_exposure plan_at(2) [OF executed_inv]
    by (auto simp: list_all_iff jm.vals_lookup)
qed

text \<open>C21: Plans only grow. Over any further calls without a hash collision, a stored plan keeps its id,
  owner, key, opportunity, market, notional and budget, no leg and no repair fill ever shrinks, and
  its report sequence does not go back.\<close>

theorem cross_venue_plan_grows:
  assumes "js_get (cs_plans (executed h cs)) i = Some p"
    and "run_admits (cross_step h) (no_collision h) (executed h cs) ds"
  shows "\<exists>q. js_get (cs_plans (executed h (cs @ ds))) i = Some q \<and> same_terms p q \<and>
    list_all2 leg_grows (pl_legs p) (pl_legs q) \<and> repairs_grow (pl_repairs p) (pl_repairs q) \<and>
    pl_sequence p \<le> pl_sequence q"
  using run_plan_moves [OF executed_inv assms(2,1)] by (auto simp: plan_moves_def)

lemma cross_venue_plan_grows_witness:
  "\<exists>p q. js_get (cs_plans (demo_executed [])) demo_xid = Some p \<and>
    js_get (cs_plans (demo_executed ([] @ [XReport demo_xid ''o'' (demo_report 1 200000)]))) demo_xid = Some q \<and>
    list_all2 leg_grows (pl_legs p) (pl_legs q)"
proof -
  obtain p where "js_get (cs_plans (demo_executed [])) demo_xid = Some p" using demo_stored by blast
  from cross_venue_plan_grows [OF this demo_admitted] this show ?thesis by auto
qed

text \<open>C22: Reports are not replayed. Once a report with some sequence number is accepted, every later
  report to the same execution with that or a smaller number is refused as a replay and leaves the
  store as it is.\<close>

theorem cross_venue_no_replay:
  assumes acc: "fst (applyStoredCrossVenueWorkerReport h i ow report (executed h cs)) = Inr q"
    and ds: "run_admits (cross_step h) (no_collision h) (executed h (cs @ [XReport i ow report])) ds"
    and old: "num_int (rep_sequence report') \<le> num_int (rep_sequence report)"
  shows "applyStoredCrossVenueWorkerReport h i ow report' (executed h (cs @ XReport i ow report # ds)) =
    (throw ''report_sequence_replay'', executed h (cs @ XReport i ow report # ds))"
proof -
  let ?f = "\<lambda>p. applyCrossVenueWorkerReport h p report" and ?s = "executed h cs"
  let ?s1 = "executed h (cs @ [XReport i ow report])" and ?s2 = "executed h (cs @ XReport i ow report # ds)"
  have "\<exists>p. js_get (cs_plans ?s1) i = Some p \<and> pl_owner p = ow \<and> pl_sequence p = num_int (rep_sequence report)"
  proof (rule mutate_runs [OF executed_inv, of ?f i ow h cs])
    assume "snd (mutate i ow ?f ?s) = ?s"
    obtain p where "js_get (cs_plans ?s) i = Some p" "pl_owner p = ow" "?f p = Inr q"
      using acc by (auto simp: applyStoredCrossVenueWorkerReport_def mutate_def split: option.splits sum.splits if_splits)
    then show ?thesis using report_keeps_ok [OF plan_at(2) [OF executed_inv], of h cs i p h report q]
        plan_at(1) [OF executed_inv, of h cs i p]
      by (auto simp: report_step mutate_def same_terms_def simp del: cross_step.simps)
  next
    fix p p' assume "js_get (cs_plans ?s) i = Some p" "pl_owner p = ow" "?f p = Inr p'" "pl_id p' = i"
      "snd (mutate i ow ?f ?s) = puts_plan p' ?s"
    then show ?thesis using report_keeps_ok [OF plan_at(2) [OF executed_inv], of h cs i p h report p']
      by (auto simp: report_step puts_plan_def same_terms_def simp del: cross_step.simps)
  qed (rule report_moves)
  then obtain p where p: "js_get (cs_plans ?s1) i = Some p" "pl_owner p = ow"
      "pl_sequence p = num_int (rep_sequence report)" by blast
  have s2: "?s2 = run_calls (cross_step h) ?s1 ds" by simp
  obtain r where r: "js_get (cs_plans ?s2) i = Some r" "plan_moves p r"
    using run_plan_moves [OF executed_inv ds p(1)] unfolding s2 by blast
  have "plan_sequence i ?s1 \<le> plan_sequence i ?s2"
    unfolding s2 by (rule sequence.run_level [OF executed_inv ds])
  then have "num_int (rep_sequence report') \<le> pl_sequence r"
    using old p(1,3) r(1) by (simp add: plan_sequence_def)
  then have "applyCrossVenueWorkerReport h r report' = throw ''report_sequence_replay''"
    by (simp add: applyCrossVenueWorkerReport_def)
  moreover have "pl_owner r = ow" using r(2) p(2) by (simp add: plan_moves_def same_terms_def)
  ultimately show ?thesis using r(1) by (simp add: applyStoredCrossVenueWorkerReport_def mutate_def)
qed

lemma cross_venue_no_replay_witness:
  "applyStoredCrossVenueWorkerReport rev_host demo_xid ''o'' (demo_report 1 300000)
     (demo_executed ([] @ XReport demo_xid ''o'' (demo_report 1 200000) # [])) =
   (throw ''report_sequence_replay'', demo_executed ([] @ XReport demo_xid ''o'' (demo_report 1 200000) # []))"
proof -
  have "isl (fst (applyStoredCrossVenueWorkerReport rev_host demo_xid ''o'' (demo_report 1 200000)
      (demo_executed []))) = False" by code_simp
  then obtain q where "fst (applyStoredCrossVenueWorkerReport rev_host demo_xid ''o'' (demo_report 1 200000)
      (demo_executed [])) = Inr q" using is_right by blast
  from cross_venue_no_replay [OF this, of "[]" "demo_report 1 300000"] show ?thesis
    by (simp add: demo_report_def)
qed

section \<open>Intervention\<close>

text \<open>When an operator is called. An accepted report on a reachable plan leaves it waiting for an
  operator exactly when it breaches a budget (slippage, unwind loss, daily loss, unhedged notional),
  or leaves a residual although the worker gave up or, unless it is unwinding, the hedge deadline has
  passed.\<close>

theorem intervention_iff:
  assumes "js_get (cs_plans (executed h cs)) i = Some p" "applyCrossVenueWorkerReport h p report = Inr q"
  shows "pl_status q = Manual_intervention_required \<longleftrightarrow>
    budget_breach (pl_budget p) report (pl_residual q) \<noteq> None \<or>
    0 < pl_residual q \<and> (rep_phase report = Ph_failed \<or>
      rep_phase report \<noteq> Ph_unwinding \<and>
      (\<exists>d t. pl_hedge_deadline q = Some d \<and> rep_observed_at report = Some t \<and> d < t))"
proof -
  obtain legs repairs t where t: "rep_observed_at report = Some t"
    and out: "report_outcome p report t legs repairs = Inr q"
    using report_accepted [OF assms(2)] by metis
  note f = report_outcome_fields [OF out]
  let ?res = "residualNotional legs repairs"
  show ?thesis
  proof (cases "budget_breach (pl_budget p) report ?res")
    case (Some code)
    then show ?thesis using out f(4) by (auto simp: report_outcome_def Let_def intervention_def split: if_splits)
  next
    case None
    then have q: "pl_status q = report_status (rep_phase report) legs repairs ?res (pl_hedge_deadline q) t"
      using out unfolding report_outcome_def Let_def by (auto split: if_splits)
    have "report_status ph legs repairs ?res d t = Manual_intervention_required \<longleftrightarrow>
        0 < ?res \<and> (ph = Ph_failed \<or> ph \<noteq> Ph_unwinding \<and> (\<exists>e. d = Some e \<and> e < t))" for ph d
      by (auto simp: report_status_def Let_def split: if_splits option.splits)
    then show ?thesis using None t unfolding f(4) q by auto
  qed
qed

lemma intervention_iff_witness:
  "\<exists>p q. applyCrossVenueWorkerReport rev_host p (demo_report 1 600000) = Inr q \<and>
    (pl_status q = Manual_intervention_required \<longleftrightarrow>
      budget_breach (pl_budget p) (demo_report 1 600000) (pl_residual q) \<noteq> None \<or>
      0 < pl_residual q \<and> (rep_phase (demo_report 1 600000) = Ph_failed \<or>
        rep_phase (demo_report 1 600000) \<noteq> Ph_unwinding \<and>
        (\<exists>d t. pl_hedge_deadline q = Some d \<and> rep_observed_at (demo_report 1 600000) = Some t \<and> d < t)))"
proof -
  obtain p where p: "js_get (cs_plans (demo_executed [])) demo_xid = Some p" using demo_stored by blast
  have "isl (applyCrossVenueWorkerReport rev_host (the (js_get (cs_plans (demo_executed [])) demo_xid))
      (demo_report 1 600000)) = False" by code_simp
  then obtain q where q: "applyCrossVenueWorkerReport rev_host p (demo_report 1 600000) = Inr q"
    using is_right unfolding p option.sel by blast
  show ?thesis using intervention_iff [OF p q] q by blast
qed

text \<open>C24: An execution that needs an operator stops the trading. When the ingestion of a report leaves
  a plan waiting for an operator, the consumer circuit is halted; until an operator resumes it, over
  any calls of the consumer store, every submission of a new execution is refused with
  \<open>consumer_trading_halted\<close> and changes nothing.\<close>

theorem intervention_halts_trading:
  assumes "fst (applyStoredCrossVenueWorkerReport h i ow report s) = Inr q"
    and "pl_status q = Manual_intervention_required" "i \<noteq> []" "ow \<noteq> []"
    and "ingestReportRoute h i ow (Some report) now s m = (ans, s', m')"
    and "list_all (\<lambda>c. \<not> resumes c) cs"
  shows "let m2 = run_calls (consumer_step h) m' cs in
    submitCrossVenueRoute h inp submit now2 s2 m2 =
      (\<lparr>ans_status = 503, ans_error = Some ''consumer_trading_halted''\<rparr>, s2, m2)"
proof -
  obtain ack where "m' = snd (haltConsumerCircuit [Cross_venue_unhedged_exposure] ack now m)"
    using assms(1-5) by (auto simp: ingestReportRoute_def split: prod.splits)
  then have "halted_with {Cross_venue_unhedged_exposure} m'"
    by (simp add: halted_with_def haltConsumerCircuit_def Let_def)
  from halted_run [OF this assms(6), of h] show ?thesis
    by (auto simp: halted_with_def submitCrossVenueRoute_def getConsumerCircuitState_def Let_def
        split: option.splits)
qed

lemma intervention_halts_trading_witness:
  "\<exists>ans s' m'. ingestReportRoute rev_host demo_xid ''o'' (Some (demo_report 1 600000)) 7
      (demo_executed []) empty_memory = (ans, s', m') \<and>
    (let m2 = run_calls (consumer_step rev_host) m' [EnqueueWake ''o'' 8] in
      submitCrossVenueRoute rev_host demo_plan (Inr ''r'') 9 empty_cross_store m2 =
        (\<lparr>ans_status = 503, ans_error = Some ''consumer_trading_halted''\<rparr>, empty_cross_store, m2))"
proof -
  let ?run = "fst (applyStoredCrossVenueWorkerReport rev_host demo_xid ''o'' (demo_report 1 600000)
      (demo_executed []))"
  have run: "isl ?run = False \<and> pl_status (projr ?run) = Manual_intervention_required" by code_simp
  then obtain q where q: "?run = Inr q" using is_right by blast
  moreover have "pl_status q = Manual_intervention_required" using run q by simp
  moreover have "demo_xid \<noteq> []" by code_simp
  moreover obtain ans s' m' where ingest: "ingestReportRoute rev_host demo_xid ''o'' (Some (demo_report 1 600000)) 7
      (demo_executed []) empty_memory = (ans, s', m')" by (metis prod.exhaust)
  ultimately show ?thesis
    using intervention_halts_trading [OF q _ _ _ ingest, of "[EnqueueWake ''o'' 8]"] by auto
qed

section \<open>Creation and submission\<close>

text \<open>Creation is idempotent. Once a plan is stored, creating again with the same owner and key
  gives the stored execution, as a replay when opportunity, notional and budget agree and as a
  conflict otherwise, and stores nothing, whatever happened to the execution in between.\<close>

theorem creation_idempotent:
  assumes "createCrossVenueExecutionPlan h inp now = Inr p"
    and "fst (createStoredCrossVenueExecution p (executed h cs)) = Inr (p, Created)"
    and nc: "no_collision h (executed h cs) (XCreate inp now)"
    and ds: "run_admits (cross_step h) (no_collision h) (executed h (cs @ [XCreate inp now])) ds"
    and "idempotency_entry p' = idempotency_entry p"
  shows "\<exists>q. same_terms p q \<and>
    createStoredCrossVenueExecution p' (executed h (cs @ XCreate inp now # ds)) =
      (return_ok (q, if sameRequest p p' then Replayed else Conflict), executed h (cs @ XCreate inp now # ds))"
proof -
  let ?s = "executed h cs" and ?s1 = "executed h (cs @ [XCreate inp now])"
    and ?s2 = "executed h (cs @ XCreate inp now # ds)"
  have s1: "?s1 = files_plan p ?s"
    using assms(1,2) by (cases rule: create_runs [OF executed_inv, of h cs p]) (auto split: if_splits)
  then have "js_get (cs_plans ?s1) (pl_id p) = Some p" by (simp add: files_plan_def)
  then obtain q where q: "js_get (cs_plans ?s2) (pl_id p) = Some q" "plan_moves p q"
    using run_plan_moves [OF executed_inv ds] by auto
  have same: "same_terms p q" using q(2) by (simp add: plan_moves_def)
  then have "idempotency_entry q = idempotency_entry p'" using assms(5)
    by (simp add: same_terms_def idempotency_entry_def)
  then have entry: "js_get (cs_idempotency ?s2) (idempotency_entry p') = Some (pl_id p)"
    using plan_at(3) [OF executed_inv q(1)] by simp
  have "sameRequest q p' = sameRequest p p'" using same by (simp add: sameRequest_def same_terms_def)
  then show ?thesis using same q(1) entry created_id [OF assms(1)]
    by (auto simp: createStoredCrossVenueExecution_def)
qed

lemma creation_idempotent_witness:
  "\<exists>p q. createCrossVenueExecutionPlan rev_host demo_plan 5 = Inr p \<and> same_terms p q \<and>
    createStoredCrossVenueExecution (p\<lparr>pl_notional := 7\<rparr>)
        (executed rev_host ([] @ XCreate demo_plan 5 # [XReport demo_xid ''o'' (demo_report 1 200000)])) =
      (return_ok (q, if sameRequest p (p\<lparr>pl_notional := 7\<rparr>) then Replayed else Conflict),
       executed rev_host ([] @ XCreate demo_plan 5 # [XReport demo_xid ''o'' (demo_report 1 200000)]))"
proof -
  have "isl (createCrossVenueExecutionPlan rev_host demo_plan 5) = False" by code_simp
  then obtain p where p: "createCrossVenueExecutionPlan rev_host demo_plan 5 = Inr p" using is_right by blast
  have stored: "fst (createStoredCrossVenueExecution p (executed rev_host [])) = Inr (p, Created)"
    by (simp add: createStoredCrossVenueExecution_def empty_cross_store_def)
  have fresh: "no_collision rev_host (executed rev_host []) (XCreate demo_plan 5)"
    by (simp add: empty_cross_store_def)
  have entry: "idempotency_entry (p\<lparr>pl_notional := 7\<rparr>) = idempotency_entry p" by (simp add: idempotency_entry_def)
  show ?thesis using creation_idempotent [OF p stored fresh _ entry] demo_admitted p
    by (auto simp del: run_calls.simps)
qed

text \<open>The worker's receipt is lost. The route files the plan, marks it submitting, applies the
  accepted report, and only then, after the worker answered, marks it submitting again with the
  receipt. The accepted report has already moved the status on, so the second mark does nothing:
  whenever a submission to a reachable store succeeds, the stored plan has no receipt commitment.\<close>

theorem submission_loses_receipt:
  assumes "submitCrossVenueRoute h inp submit now (executed h cs) m = (ans, s', m')" "ans_status ans = 202"
  shows "\<exists>p. js_get (cs_plans s') (execution_id_of h (pi_owner inp) (pi_idempotency_key inp)) = Some p \<and>
    pl_worker_receipt p = None"
proof -
  let ?s = "executed h cs"
  obtain p where p: "createCrossVenueExecutionPlan h inp now = Inr p"
      "createStoredCrossVenueExecution p ?s = (return_ok (p, Created), files_plan p ?s)"
    and run: "submit_created h p submit now (files_plan p ?s) m = (ans, s', m')"
  proof (cases "createCrossVenueExecutionPlan h inp now")
    case (Inr p)
    show thesis
    proof (cases rule: create_runs [OF executed_inv, of h cs p])
      case (1 q)
      then show thesis using assms Inr by (auto simp: submitCrossVenueRoute_def split: if_splits)
    next
      case 2
      then show thesis using assms Inr that by (auto simp: submitCrossVenueRoute_def split: if_splits)
    qed
  qed (use assms in \<open>auto simp: submitCrossVenueRoute_def split: if_splits\<close>)
  note c = created_plan_ok [OF p(1)]
  define s1 where "s1 = snd (markCrossVenueExecutionSubmitting h (pl_id p) (pl_owner p) None now (files_plan p ?s))"
  define p1 where "p1 = submitting_update None now p"
  have s1: "js_get (cs_plans s1) (pl_id p) = Some p1"
    by (simp add: s1_def p1_def markCrossVenueExecutionSubmitting_def mutate_def files_plan_def
        submitting_update_def c)
  have p1: "plan_ok p1" "pl_worker_receipt p1 = None" "pl_owner p1 = pl_owner p" "pl_id p1 = pl_id p"
    using submitting_keeps_ok [OF c(1), of None now] c(6) by (simp_all add: p1_def submitting_update_def)
  obtain q s2 where q: "applyStoredCrossVenueWorkerReport h (pl_id p) (pl_owner p) (accepted_report p now) s1 = (Inr q, s2)"
      "\<exists>r. submit = Inr r \<and> s' = snd (markCrossVenueExecutionSubmitting h (pl_id p) (pl_owner p) (Some r) now s2)"
    using run assms(2) unfolding submit_created_def s1_def [symmetric] Let_def
    by (auto split: prod.splits sum.splits if_splits)
  have rep: "applyCrossVenueWorkerReport h p1 (accepted_report p now) = Inr q" and s2: "s2 = puts_plan q s1"
    using q(1) s1 p1(3) by (auto simp: applyStoredCrossVenueWorkerReport_def mutate_def puts_plan_def split: sum.splits)
  obtain legs repairs t where out: "report_outcome p1 (accepted_report p now) t legs repairs = Inr q"
    using report_accepted [OF rep] by metis
  note f = report_outcome_fields [OF out]
  have st: "pl_status q \<notin> {Planned, Submitting}"
    using out report_status_facts(1) unfolding report_outcome_def Let_def
    by (auto simp: intervention_def split: if_splits option.splits)
  have "js_get (cs_plans s') (pl_id p) = Some q" using q(2) st f(5) p1(3,4)
    by (auto simp: markCrossVenueExecutionSubmitting_def mutate_def s2 puts_plan_def submitting_update_def same_terms_def)
  then show ?thesis using f(6) p1(2) by (auto simp: c(5))
qed

lemma submission_loses_receipt_witness:
  "\<exists>ans s' m'. submitCrossVenueRoute rev_host demo_plan (Inr ''r'') 5 (executed rev_host []) empty_memory = (ans, s', m') \<and>
    (\<exists>p. js_get (cs_plans s') (execution_id_of rev_host (pi_owner demo_plan) (pi_idempotency_key demo_plan)) = Some p \<and>
       pl_worker_receipt p = None)"
proof -
  obtain ans s' m' where run: "submitCrossVenueRoute rev_host demo_plan (Inr ''r'') 5 (executed rev_host [])
      empty_memory = (ans, s', m')" by (metis prod.exhaust)
  have "ans_status (fst (submitCrossVenueRoute rev_host demo_plan (Inr ''r'') 5 (executed rev_host [])
      empty_memory)) = 202" by code_simp
  then show ?thesis using submission_loses_receipt [OF run] run by simp
qed

end
