(* ===== verification/OhttpText.thy ===== *)
theory OhttpText imports JsNumber "HOL-Library.Word"
begin

text \<open>
  \<open>TextEncoder\<close> and \<open>TextDecoder\<close> of the language's library, which the message codec of \<open>lib/ohttp.ts\<close> uses: text
  is a list of Unicode scalar values, bytes are 8-bit words. The decoder is the one of the Encoding standard:
  malformed input gives the replacement character, and a byte order mark at the start is dropped. The lemmas
  show that it reads back what the encoder writes.
\<close>

type_synonym octets = "8 word list"
type_synonym scalar_text = "nat list"

section \<open>Encoding\<close>

definition scalar_value :: "nat \<Rightarrow> bool" where
  "scalar_value c \<longleftrightarrow> c < 0xD800 \<or> 0xE000 \<le> c \<and> c < 0x110000"

definition utf8_char :: "nat \<Rightarrow> nat list" where
  "utf8_char c =
     (if c < 0x80 then [c]
      else if c < 0x800 then [0xC0 + c div 64, 0x80 + c mod 64]
      else if c < 0x10000 then [0xE0 + c div 4096, 0x80 + c div 64 mod 64, 0x80 + c mod 64]
      else [0xF0 + c div 262144, 0x80 + c div 4096 mod 64, 0x80 + c div 64 mod 64, 0x80 + c mod 64])"

definition text_encode :: "scalar_text \<Rightarrow> octets" where
  "text_encode s = map word_of_nat (concat (map utf8_char s))"

section \<open>Decoding\<close>

text \<open>The state is the number of bytes still needed, the bits read so far, and the bounds of the next byte.\<close>

function utf8_run :: "nat \<Rightarrow> nat \<Rightarrow> nat \<Rightarrow> nat \<Rightarrow> nat list \<Rightarrow> scalar_text" where
  "utf8_run 0 cp lower upper [] = []"
| "utf8_run (Suc n) cp lower upper [] = [0xFFFD]"
| "utf8_run 0 cp lower upper (b # bs) =
     (if b < 0x80 then b # utf8_run 0 0 0x80 0xBF bs
      else if 0xC2 \<le> b \<and> b \<le> 0xDF then utf8_run 1 (b - 0xC0) 0x80 0xBF bs
      else if 0xE0 \<le> b \<and> b \<le> 0xEF then
        utf8_run 2 (b - 0xE0) (if b = 0xE0 then 0xA0 else 0x80) (if b = 0xED then 0x9F else 0xBF) bs
      else if 0xF0 \<le> b \<and> b \<le> 0xF4 then
        utf8_run 3 (b - 0xF0) (if b = 0xF0 then 0x90 else 0x80) (if b = 0xF4 then 0x8F else 0xBF) bs
      else 0xFFFD # utf8_run 0 0 0x80 0xBF bs)"
| "utf8_run (Suc n) cp lower upper (b # bs) =
     (if b < lower \<or> upper < b then 0xFFFD # utf8_run 0 0 0x80 0xBF (b # bs)
      else if n = 0 then (cp * 64 + (b - 0x80)) # utf8_run 0 0 0x80 0xBF bs
      else utf8_run n (cp * 64 + (b - 0x80)) 0x80 0xBF bs)"
  by pat_completeness auto
termination
  by (relation "measure (\<lambda>(n, cp, lower, upper, bs). 2 * length bs + (if n = 0 then 0 else 1))") auto

definition text_decode :: "octets \<Rightarrow> scalar_text" where
  "text_decode bs = (case utf8_run 0 0 0x80 0xBF (map unat bs) of
       c # cs \<Rightarrow> if c = 0xFEFF then cs else c # cs
     | [] \<Rightarrow> [])"

section \<open>Round trip\<close>

lemma utf8_char_bytes: "c < 0x110000 \<Longrightarrow> b \<in> set (utf8_char c) \<Longrightarrow> b < 256"
  by (auto simp: utf8_char_def split: if_splits)

lemma six_bits: "(c::nat) div 64 * 64 + c mod 64 = c"
  by simp

lemma utf8_run_char:
  assumes "scalar_value c"
  shows "utf8_run 0 0 0x80 0xBF (utf8_char c @ bs) = c # utf8_run 0 0 0x80 0xBF bs"
proof -
  consider "c < 0x80" | "0x80 \<le> c" "c < 0x800" | "0x800 \<le> c" "c < 0x10000" | "0x10000 \<le> c" by linarith
  then show ?thesis
  proof cases
    case 1
    then show ?thesis by (simp add: utf8_char_def)
  next
    case 2
    then have lead: "2 \<le> c div 64" "c div 64 < 32" by auto
    moreover have "c mod 64 < 64" by simp
    ultimately show ?thesis using 2 by (simp add: utf8_char_def)
  next
    case 3
    have parts: "c div 4096 < 16" "c div 64 mod 64 < 64" "c mod 64 < 64" using 3 by auto
    have split: "(c div 4096 * 64 + c div 64 mod 64) * 64 + c mod 64 = c"
      using six_bits [of c] six_bits [of "c div 64"] by (simp add: div_mult2_eq [symmetric])
    have low: "32 \<le> c div 64 mod 64" if "c div 4096 = 0" using that 3 by (auto simp: div_eq_0_iff mod_less)
    have high: "c div 64 mod 64 < 32" if "c div 4096 = 13"
    proof -
      have "c < 0xE000" using that by auto
      then have "c < 0xD800" using assms by (simp add: scalar_value_def)
      then have "c div 64 < 13 * 64 + 32" by auto
      moreover have "c div 64 = 13 * 64 + c div 64 mod 64"
        using six_bits [of "c div 64"] that by (simp add: div_mult2_eq [symmetric])
      ultimately show ?thesis by linarith
    qed
    show ?thesis using 3 parts split low high by (auto simp: utf8_char_def numeral_2_eq_2)
  next
    case 4
    have bound: "c < 0x110000" using 4 assms by (simp add: scalar_value_def)
    have parts: "c div 262144 < 5" "c div 4096 mod 64 < 64" "c div 64 mod 64 < 64" "c mod 64 < 64" using bound by auto
    have split: "((c div 262144 * 64 + c div 4096 mod 64) * 64 + c div 64 mod 64) * 64 + c mod 64 = c"
      using six_bits [of c] six_bits [of "c div 64"] six_bits [of "c div 4096"] by (simp add: div_mult2_eq [symmetric])
    have low: "16 \<le> c div 4096 mod 64" if "c div 262144 = 0" using that 4 by (auto simp: div_eq_0_iff mod_less)
    have high: "c div 4096 mod 64 < 16" if "c div 262144 = 4"
    proof -
      have "c div 4096 < 4 * 64 + 16" using bound by auto
      moreover have "c div 4096 = 4 * 64 + c div 4096 mod 64"
        using six_bits [of "c div 4096"] that by (simp add: div_mult2_eq [symmetric])
      ultimately show ?thesis by linarith
    qed
    show ?thesis using 4 parts split low high by (auto simp: utf8_char_def numeral_3_eq_3)
  qed
qed

lemma utf8_run_text: "list_all scalar_value s \<Longrightarrow> utf8_run 0 0 0x80 0xBF (concat (map utf8_char s)) = s"
  by (induction s) (simp_all add: utf8_run_char)

lemma text_roundtrip:
  assumes "list_all scalar_value s" "take 1 s \<noteq> [0xFEFF]"
  shows "text_decode (text_encode s) = s"
proof -
  have "b < 256" if b: "b \<in> set (concat (map utf8_char s))" for b
  proof -
    obtain c where c: "c \<in> set s" "b \<in> set (utf8_char c)" using b by auto
    then have "c < 0x110000" using assms(1) by (auto simp: list_all_iff scalar_value_def)
    then show ?thesis by (rule utf8_char_bytes [OF _ c(2)])
  qed
  then have "map (unat \<circ> (word_of_nat :: nat \<Rightarrow> 8 word)) (concat (map utf8_char s)) = concat (map utf8_char s)"
    by (intro map_idI) (simp add: unat_of_nat)
  then have "utf8_run 0 0 0x80 0xBF (map unat (text_encode s)) = s"
    using utf8_run_text [OF assms(1)] by (simp add: text_encode_def)
  then show ?thesis using assms(2) by (cases s) (auto simp: text_decode_def)
qed

end
