(* ===== verification/OhttpCodec.thy ===== *)
theory OhttpCodec imports OhttpText JsJson
begin

text \<open>
  The message layer of \<open>lib/ohttp.ts\<close>: big-endian numbers, the key configuration of a gateway, the header of a
  request capsule, variable-length integers, and binary HTTP. A read past the end of a buffer, an unknown
  framing byte and an unsupported suite throw.
\<close>

unbundle bit_operations_syntax

definition KEM_ID_DHKEM_X25519_SHA256 :: int where "KEM_ID_DHKEM_X25519_SHA256 = 0x20"
definition KDF_ID_HKDF_SHA256 :: int where "KDF_ID_HKDF_SHA256 = 1"
definition AEAD_ID_AES_256_GCM :: int where "AEAD_ID_AES_256_GCM = 2"
definition NK :: nat where "NK = 32"
definition NN :: nat where "NN = 12"
definition NPK :: nat where "NPK = 32"
definition RESP_NONCE_LEN :: nat where "RESP_NONCE_LEN = NK"

section \<open>Numbers in buffers\<close>

definition u16be :: "int \<Rightarrow> octets" where
  "u16be v = (let w = word_of_int v :: 32 word in [ucast (drop_bit 8 w AND 0xFF), ucast (w AND 0xFF)])"

definition setUint32 :: "32 word \<Rightarrow> octets" where
  "setUint32 w = [ucast (drop_bit 24 w), ucast (drop_bit 16 w), ucast (drop_bit 8 w), ucast w]"

definition getUint32 :: "octets \<Rightarrow> nat \<Rightarrow> 32 word" where
  "getUint32 b n = push_bit 24 (ucast (b ! n)) OR push_bit 16 (ucast (b ! (n + 1))) OR
     push_bit 8 (ucast (b ! (n + 2))) OR ucast (b ! (n + 3))"

text \<open>Two bytes as \<open>(b[i] << 8) | b[i + 1]\<close>.\<close>

definition two_bytes :: "octets \<Rightarrow> nat \<Rightarrow> int" where
  "two_bytes b i = uint (push_bit 8 (ucast (b ! i)) OR ucast (b ! (i + 1)) :: 32 word)"

text \<open>Addition of non-negative integers as doubles.\<close>

definition js_plus :: "int \<Rightarrow> int \<Rightarrow> int" where
  "js_plus a b = \<lfloor>fl (of_int (a + b))\<rfloor>"

section \<open>Key configuration\<close>

record OhttpKeyConfig =
  keyId :: int
  kemId :: int
  publicKeyBytes :: octets
  kdfId :: int
  aeadId :: int

definition hex16 :: "int \<Rightarrow> string" where
  "hex16 n = (let d = (\<lambda>k. hex_digit (nat (n div 16 ^ k mod 16)))
     in if n < 16 then [d 0] else if n < 256 then [d 1, d 0] else if n < 4096 then [d 2, d 1, d 0] else [d 3, d 2, d 1, d 0])"

text \<open>The loop over the pairs (KDF, AEAD) from byte \<open>i\<close> of the suites on.\<close>

function find_suite :: "octets \<Rightarrow> nat \<Rightarrow> nat \<Rightarrow> nat \<Rightarrow> (int \<times> int) option" where
  "find_suite bytes start suites i =
     (if i + 4 \<le> suites then
        (if two_bytes bytes (start + i) = KDF_ID_HKDF_SHA256 \<and> two_bytes bytes (start + i + 2) = AEAD_ID_AES_256_GCM
         then Some (two_bytes bytes (start + i), two_bytes bytes (start + i + 2))
         else find_suite bytes start suites (i + 4))
      else None)"
  by pat_completeness auto
termination
  by (relation "measure (\<lambda>(bytes, start, suites, i). suites - i)") auto

declare find_suite.simps [simp del]

definition parseKeyConfig :: "octets \<Rightarrow> OhttpKeyConfig result" where
  "parseKeyConfig bytes =
     (if length bytes < 1 + 2 + NPK + 2 + 4
      then throw (''ohttp keyconfig too short ('' @ int_digits (int (length bytes)) @ '' bytes)'')
      else if two_bytes bytes 1 \<noteq> KEM_ID_DHKEM_X25519_SHA256
      then throw (''ohttp keyconfig: unsupported KEM 0x'' @ hex16 (two_bytes bytes 1))
      else let suites = nat (two_bytes bytes (3 + NPK)); start = 5 + NPK in
        if length bytes < start + suites then throw ''ohttp keyconfig: ciphersuites overrun''
        else case find_suite bytes start suites 0 of
            None \<Rightarrow> throw ''ohttp keyconfig: no compatible ciphersuite (need HKDF-SHA256 + AES-256-GCM)''
          | Some (kdf, aead) \<Rightarrow> return_ok \<lparr>keyId = uint (bytes ! 0), kemId = two_bytes bytes 1,
              publicKeyBytes = take NPK (drop 3 bytes), kdfId = kdf, aeadId = aead\<rparr>)"

definition buildHeader :: "int \<Rightarrow> int \<Rightarrow> int \<Rightarrow> octets" where
  "buildHeader key kdf aead = [word_of_int key] @ u16be KEM_ID_DHKEM_X25519_SHA256 @ u16be kdf @ u16be aead"

definition ascii :: "string \<Rightarrow> octets" where
  "ascii s = map of_char s"

definition OHTTP_REQUEST_LABEL :: octets where
  "OHTTP_REQUEST_LABEL = ascii ''message/bhttp request''"

definition OHTTP_RESPONSE_LABEL :: octets where
  "OHTTP_RESPONSE_LABEL = ascii ''message/bhttp response''"

definition requestInfo :: "octets \<Rightarrow> octets" where
  "requestInfo hdr = OHTTP_REQUEST_LABEL @ [0] @ hdr"

section \<open>Variable-length integers\<close>

definition varintEncode :: "int \<Rightarrow> octets result" where
  "varintEncode v =
     (if v < 0 then throw ''varint must be non-negative''
      else if v < 2 ^ 6 then return_ok [word_of_int v]
      else if v < 2 ^ 14 then
        (let w = (word_of_int v OR 0x4000) AND 0xFFFF :: 32 word in return_ok [ucast (drop_bit 8 w AND 0xFF), ucast (w AND 0xFF)])
      else if v < 2 ^ 30 then return_ok (setUint32 (word_of_int v OR 0x80000000))
      else return_ok (setUint32 (word_of_int (v div 2 ^ 32) OR 0xC0000000) @ setUint32 (word_of_int v)))"

definition varintDecode :: "octets \<Rightarrow> nat \<Rightarrow> (int \<times> nat) result" where
  "varintDecode buf offset =
     (if length buf \<le> offset then throw ''varint underflow''
      else let b = buf ! offset; prefix = drop_bit 6 b in
        if prefix = 0 then return_ok (uint (b AND 0x3F), 1)
        else if prefix = 1 then
          (if length buf < offset + 2 then throw ''varint underflow''
           else return_ok (uint (push_bit 8 (ucast (b AND 0x3F)) OR ucast (buf ! (offset + 1)) :: 32 word), 2))
        else if prefix = 2 then
          (if length buf < offset + 4 then throw ''varint underflow''
           else return_ok (uint (getUint32 buf offset AND 0x3FFFFFFF), 4))
        else
          (if length buf < offset + 8 then throw ''varint underflow''
           else return_ok (js_plus (uint (getUint32 buf offset AND 0x3FFFFFFF) * 2 ^ 32) (uint (getUint32 buf (offset + 4))), 8)))"

section \<open>Binary HTTP\<close>

definition encodeLenPrefixed :: "octets \<Rightarrow> octets result" where
  "encodeLenPrefixed v = and_then (varintEncode (int (length v))) (\<lambda>n. return_ok (n @ v))"

definition encodeHeaders :: "(scalar_text \<times> scalar_text) list \<Rightarrow> octets result" where
  "encodeHeaders headers = and_then (map_result (\<lambda>(k, v).
       and_then (varintEncode (int (length (text_encode k)))) (\<lambda>nk.
       and_then (varintEncode (int (length (text_encode v)))) (\<lambda>nv.
         return_ok (nk @ text_encode k @ nv @ text_encode v)))) headers)
     (\<lambda>parts. return_ok (concat parts))"

record BhttpRequest =
  req_method :: scalar_text
  req_scheme :: scalar_text
  req_authority :: scalar_text
  req_path :: scalar_text
  req_headers :: "(scalar_text \<times> scalar_text) list"
  req_body :: octets

record BhttpResponse =
  res_status :: int
  res_headers :: "(scalar_text \<times> scalar_text) list"
  res_body :: octets

definition encodeBhttpRequest :: "BhttpRequest \<Rightarrow> octets result" where
  "encodeBhttpRequest req =
     and_then (encodeHeaders (req_headers req)) (\<lambda>headers.
     and_then (map_result encodeLenPrefixed [text_encode (req_method req), text_encode (req_scheme req),
       text_encode (req_authority req), text_encode (req_path req), headers, req_body req]) (\<lambda>fields.
     and_then (varintEncode 0) (\<lambda>trailers. return_ok ([0] @ concat fields @ trailers))))"

definition readSlice :: "octets \<Rightarrow> nat \<Rightarrow> (octets \<times> nat) result" where
  "readSlice buf offset = and_then (varintDecode buf offset) (\<lambda>(len, n).
     let start = offset + n; last = js_plus (int start) len in
     if int (length buf) < last then throw ''bhttp: length-prefixed field overruns buffer''
     else return_ok (take (nat last - start) (drop start buf), nat last))"

text \<open>The loop over the headers; that it ends is proved in \<open>OhttpRules\<close>, so \<open>None\<close> never is its value.\<close>

partial_function (option) read_headers :: "octets \<Rightarrow> nat \<Rightarrow> (scalar_text \<times> scalar_text) list \<Rightarrow> (scalar_text \<times> scalar_text) list result option" where
  "read_headers hdr cursor acc =
     (if cursor < length hdr then
        (case readSlice hdr cursor of
           Inl e \<Rightarrow> Some (throw e)
         | Inr (k, next1) \<Rightarrow> (case readSlice hdr next1 of
               Inl e \<Rightarrow> Some (throw e)
             | Inr (v, next2) \<Rightarrow> read_headers hdr next2 (acc @ [(text_decode k, text_decode v)])))
      else Some (return_ok acc))"

definition decodeBhttpResponse :: "octets \<Rightarrow> BhttpResponse result option" where
  "decodeBhttpResponse buf =
     (if length buf = 0 \<or> buf ! 0 \<noteq> 1 then Some (throw ''bhttp: not a known-length response (framing byte != 0x01)'')
      else case varintDecode buf 1 of
          Inl e \<Rightarrow> Some (throw e)
        | Inr (status, n) \<Rightarrow> (case readSlice buf (1 + n) of
              Inl e \<Rightarrow> Some (throw e)
            | Inr (hdr, next1) \<Rightarrow> (case readSlice buf next1 of
                  Inl e \<Rightarrow> Some (throw e)
                | Inr (body, next2) \<Rightarrow> (case read_headers hdr 0 [] of
                      None \<Rightarrow> None
                    | Some (Inl e) \<Rightarrow> Some (throw e)
                    | Some (Inr headers) \<Rightarrow> Some (return_ok \<lparr>res_status = status, res_headers = headers, res_body = body\<rparr>)))))"

text \<open>The encoding of a response that the self-test decodes again.\<close>

definition encodeBhttpResponse :: "BhttpResponse \<Rightarrow> octets result" where
  "encodeBhttpResponse res =
     and_then (varintEncode (res_status res)) (\<lambda>status.
     and_then (encodeHeaders (res_headers res)) (\<lambda>headers.
     and_then (encodeLenPrefixed headers) (\<lambda>hdr.
     and_then (encodeLenPrefixed (res_body res)) (\<lambda>body.
     and_then (varintEncode 0) (\<lambda>trailers. return_ok ([1] @ status @ hdr @ body @ trailers))))))"

section \<open>Capsules\<close>

text \<open>The HPKE package and the browser's cryptography are parameters. A sender context comes with the ephemeral
  key it was made from; \<open>None\<close> is a call that throws.\<close>

record hpke_sender =
  sx_enc :: octets
  sx_seal :: "octets \<Rightarrow> octets \<Rightarrow> octets"
  sx_export :: "octets \<Rightarrow> nat \<Rightarrow> octets"

record hpke_recipient =
  rx_open :: "octets \<Rightarrow> octets \<Rightarrow> octets option"
  rx_export :: "octets \<Rightarrow> nat \<Rightarrow> octets"

record crypto =
  hp_public_key :: "octets \<Rightarrow> octets option"
  hp_sender :: "octets \<Rightarrow> octets \<Rightarrow> hpke_sender option"
  hp_recipient :: "octets \<Rightarrow> octets \<Rightarrow> octets \<Rightarrow> hpke_recipient option"
  wc_hkdf :: "octets \<Rightarrow> octets \<Rightarrow> octets \<Rightarrow> nat \<Rightarrow> octets"
  wc_encrypt :: "octets \<Rightarrow> octets \<Rightarrow> octets \<Rightarrow> octets"
  wc_decrypt :: "octets \<Rightarrow> octets \<Rightarrow> octets \<Rightarrow> octets option"

record OhttpResponseContext =
  cx_enc :: octets
  cx_secret :: octets

definition encapsulateRequest :: "crypto \<Rightarrow> OhttpKeyConfig \<Rightarrow> octets \<Rightarrow> (octets \<times> OhttpResponseContext) result" where
  "encapsulateRequest c cfg inner =
     (let hdr = buildHeader (keyId cfg) (kdfId cfg) (aeadId cfg) in
      case hp_public_key c (publicKeyBytes cfg) of
        None \<Rightarrow> throw ''public key''
      | Some key \<Rightarrow> (case hp_sender c key (requestInfo hdr) of
            None \<Rightarrow> throw ''sender context''
          | Some s \<Rightarrow> return_ok (hdr @ sx_enc s @ sx_seal s inner [],
              \<lparr>cx_enc = sx_enc s, cx_secret = sx_export s OHTTP_RESPONSE_LABEL NK\<rparr>)))"

definition response_key :: "crypto \<Rightarrow> octets \<Rightarrow> octets \<Rightarrow> octets \<Rightarrow> octets \<times> octets" where
  "response_key c secret enc response_nonce =
     (let salt = enc @ response_nonce
      in (wc_hkdf c secret salt (ascii ''key'') (NK * 8), wc_hkdf c secret salt (ascii ''nonce'') (NN * 8)))"

definition decapsulateResponse :: "crypto \<Rightarrow> OhttpResponseContext \<Rightarrow> octets \<Rightarrow> octets result" where
  "decapsulateResponse c ctx capsule =
     (if length capsule < RESP_NONCE_LEN + 16
      then throw (''ohttp response capsule too short ('' @ int_digits (int (length capsule)) @ '' bytes)'')
      else let (key, iv) = response_key c (cx_secret ctx) (cx_enc ctx) (take RESP_NONCE_LEN capsule) in
        case wc_decrypt c key iv (drop RESP_NONCE_LEN capsule) of
          None \<Rightarrow> throw ''decrypt''
        | Some pt \<Rightarrow> return_ok pt)"

text \<open>The gateway's side, as the self-test mirrors it: it opens a request capsule and seals a response.\<close>

definition gateway_open :: "crypto \<Rightarrow> octets \<Rightarrow> octets \<Rightarrow> (octets \<times> octets \<times> octets) option" where
  "gateway_open c private capsule =
     (let hdr = take 7 capsule; enc = take NPK (drop 7 capsule); ct = drop (7 + NPK) capsule in
      case hp_recipient c private enc (requestInfo hdr) of
        None \<Rightarrow> None
      | Some r \<Rightarrow> (case rx_open r ct [] of
            None \<Rightarrow> None
          | Some request \<Rightarrow> Some (request, enc, rx_export r OHTTP_RESPONSE_LABEL NK)))"

definition gateway_seal :: "crypto \<Rightarrow> octets \<Rightarrow> octets \<Rightarrow> octets \<Rightarrow> octets \<Rightarrow> octets" where
  "gateway_seal c enc secret response_nonce response =
     (let (key, iv) = response_key c secret enc response_nonce in response_nonce @ wc_encrypt c key iv response)"

end
