(* ===== verification/OhttpRules.thy ===== *)
theory OhttpRules imports OhttpCodec
begin

text \<open>
  Rules for the message codec: what is written is read back, reading moves forward, and the loop over the headers
  ends.
\<close>

section \<open>Words in buffers\<close>

lemma masks:
  "(0x3F :: 8 word) = mask 6" "(0xFF :: 32 word) = mask 8" "(0xFFFF :: 32 word) = mask 16" "(0x3FFFFFFF :: 32 word) = mask 30"
  by (simp_all add: mask_eq_exp_minus_1)

lemma length_bits:
  "bit (0x4000 :: 32 word) n \<longleftrightarrow> n = 14" "bit (0x80000000 :: 32 word) n \<longleftrightarrow> n = 31"
  "bit (0xC0000000 :: 32 word) n \<longleftrightarrow> n = 30 \<or> n = 31"
proof -
  have words: "(0x4000 :: 32 word) = push_bit 14 1" "(0x80000000 :: 32 word) = push_bit 31 1"
    "(0xC0000000 :: 32 word) = push_bit 30 1 OR push_bit 31 1" by simp_all
  show "bit (0x4000 :: 32 word) n \<longleftrightarrow> n = 14" "bit (0x80000000 :: 32 word) n \<longleftrightarrow> n = 31"
    "bit (0xC0000000 :: 32 word) n \<longleftrightarrow> n = 30 \<or> n = 31"
    unfolding words bit_or_iff bit_push_bit_iff bit_1_iff by auto
qed

lemma prefix_bits:
  "bit (1 :: 8 word) n \<longleftrightarrow> n = 0" "bit (2 :: 8 word) n \<longleftrightarrow> n = 1" "bit (3 :: 8 word) n \<longleftrightarrow> n = 0 \<or> n = 1"
proof -
  have words: "(2 :: 8 word) = push_bit 1 1" "(3 :: 8 word) = push_bit 1 1 OR 1" by simp_all
  show "bit (1 :: 8 word) n \<longleftrightarrow> n = 0" "bit (2 :: 8 word) n \<longleftrightarrow> n = 1" "bit (3 :: 8 word) n \<longleftrightarrow> n = 0 \<or> n = 1"
    unfolding words bit_or_iff bit_push_bit_iff bit_1_iff by auto
qed

lemma get_set_32: "getUint32 (p @ setUint32 w @ r) (length p) = w"
proof -
  have "getUint32 (p @ setUint32 w @ r) (length p) = push_bit 24 (ucast (ucast (drop_bit 24 w) :: 8 word)) OR
      push_bit 16 (ucast (ucast (drop_bit 16 w) :: 8 word)) OR push_bit 8 (ucast (ucast (drop_bit 8 w) :: 8 word)) OR ucast (ucast w :: 8 word)"
    (is "_ = ?x")
    by (simp add: getUint32_def setUint32_def nth_append)
  also have "?x = w"
  proof (rule bit_word_eqI)
    fix n assume "n < LENGTH(32)"
    then consider "n < 8" | "8 \<le> n" "n < 16" | "16 \<le> n" "n < 24" | "24 \<le> n" "n < 32" by fastforce
    then show "bit ?x n = bit w n" by cases (auto simp: bit_simps)
  qed
  finally show ?thesis .
qed

text \<open>The first byte of a written word, and the word without the bits of the length.\<close>

lemma set_32_first: "setUint32 w ! 0 = ucast (drop_bit 24 w)" "length (setUint32 w) = 4"
  by (simp_all add: setUint32_def)

text \<open>\<open>x\<close> is a value short enough for the form, \<open>t\<close> the bits of the length, \<open>y\<close> what is written.\<close>

lemma prefix_two:
  fixes x t :: "32 word"
  assumes x: "\<And>n. 14 \<le> n \<Longrightarrow> \<not> bit x n" and t: "\<And>n. bit t n \<longleftrightarrow> n = 14"
  defines "y \<equiv> (x OR t) AND mask 16"
  shows "drop_bit 6 (ucast (drop_bit 8 y AND mask 8) :: 8 word) = 1"
    "push_bit 8 (ucast ((ucast (drop_bit 8 y AND mask 8) :: 8 word) AND mask 6)) OR ucast (ucast (y AND mask 8) :: 8 word) = x"
proof -
  show "drop_bit 6 (ucast (drop_bit 8 y AND mask 8) :: 8 word) = 1"
  proof (rule bit_word_eqI)
    fix n assume "n < LENGTH(8)"
    then show "bit (drop_bit 6 (ucast (drop_bit 8 y AND mask 8) :: 8 word)) n = bit (1 :: 8 word) n"
      using x [of "14 + n"] by (cases "n < 2"; cases "n = 0") (auto simp: y_def bit_simps t prefix_bits)
  qed
  show "push_bit 8 (ucast ((ucast (drop_bit 8 y AND mask 8) :: 8 word) AND mask 6)) OR ucast (ucast (y AND mask 8) :: 8 word) = x"
    (is "?x = _")
  proof (rule bit_word_eqI)
    fix n assume "n < LENGTH(32)"
    then consider "n < 8" | "8 \<le> n" "n < 14" | "14 \<le> n" "n < 32" by fastforce
    then show "bit ?x n = bit x n" using x [of n] by cases (auto simp: y_def bit_simps t)
  qed
qed

lemma prefix_four:
  fixes x t :: "32 word"
  assumes x: "\<And>n. 30 \<le> n \<Longrightarrow> \<not> bit x n" and t: "\<And>n. bit t n \<longleftrightarrow> n = 31"
  shows "drop_bit 6 (ucast (drop_bit 24 (x OR t)) :: 8 word) = 2" "(x OR t) AND mask 30 = x"
proof -
  show "drop_bit 6 (ucast (drop_bit 24 (x OR t)) :: 8 word) = 2"
  proof (rule bit_word_eqI)
    fix n assume "n < LENGTH(8)"
    then show "bit (drop_bit 6 (ucast (drop_bit 24 (x OR t)) :: 8 word)) n = bit (2 :: 8 word) n"
      using x [of "30 + n"] by (cases "n < 2"; cases "n = 0") (auto simp: bit_simps t prefix_bits)
  qed
  show "(x OR t) AND mask 30 = x"
  proof (rule bit_word_eqI)
    fix n assume "n < LENGTH(32)"
    then show "bit ((x OR t) AND mask 30) n = bit x n" using x [of n] by (cases "n < 30") (auto simp: bit_simps t)
  qed
qed

lemma prefix_eight:
  fixes x t :: "32 word"
  assumes x: "\<And>n. 30 \<le> n \<Longrightarrow> \<not> bit x n" and t: "\<And>n. bit t n \<longleftrightarrow> n = 30 \<or> n = 31"
  shows "drop_bit 6 (ucast (drop_bit 24 (x OR t)) :: 8 word) = 3" "(x OR t) AND mask 30 = x"
proof -
  show "drop_bit 6 (ucast (drop_bit 24 (x OR t)) :: 8 word) = 3"
  proof (rule bit_word_eqI)
    fix n assume "n < LENGTH(8)"
    then show "bit (drop_bit 6 (ucast (drop_bit 24 (x OR t)) :: 8 word)) n = bit (3 :: 8 word) n"
      unfolding prefix_bits using x [of "30 + n"] by (cases "n < 2"; cases "n = 0") (auto simp: bit_simps t prefix_bits)
  qed
  show "(x OR t) AND mask 30 = x"
  proof (rule bit_word_eqI)
    fix n assume "n < LENGTH(32)"
    then show "bit ((x OR t) AND mask 30) n = bit x n" using x [of n] by (cases "n < 30") (auto simp: bit_simps t)
  qed
qed

lemma small_bits: "v < 2 ^ k \<Longrightarrow> 0 \<le> v \<Longrightarrow> k \<le> n \<Longrightarrow> \<not> bit (word_of_int v :: 32 word) n"
proof -
  assume v: "v < 2 ^ k" "0 \<le> v" "k \<le> n"
  have "v < 2 ^ n" using v(1) power_increasing [OF v(3), of "2::int"] by linarith
  then have "\<not> bit v n" using v(2) by (simp add: bit_iff_odd)
  then show ?thesis by (simp add: bit_word_of_int_iff)
qed

section \<open>Sums of lengths\<close>

lemma js_plus_exact: "0 \<le> a + b \<Longrightarrow> a + b < 2 ^ 53 \<Longrightarrow> js_plus a b = a + b"
  by (simp only: js_plus_def fl_int_small) simp

text \<open>A sum too long for a double stays above every length of a buffer.\<close>

lemma js_plus_big:
  assumes "2 ^ 53 \<le> a + b"
  shows "2 ^ 53 - 1 \<le> js_plus a b"
proof -
  let ?r = "of_int (a + b) :: rat"
  have "(2::int) ^ 53 > 0" by simp
  then have "0 < a + b" using assms by linarith
  then have r: "0 < ?r" by (simp only: of_int_0_less_iff)
  have big: "(of_int (2 ^ 53) :: rat) \<le> ?r" using assms by (simp only: of_int_le_iff)
  have "pow_rat 2 (ulp_exp ?r) * 2 ^ 52 \<le> ?r"
  proof (cases "ulp_exp ?r = log2_floor ?r - 52")
    case True
    then have "pow_rat 2 (ulp_exp ?r) * 2 ^ 52 = pow_rat 2 (log2_floor ?r)"
      using pow_rat_add [of 2 "ulp_exp ?r" 52] by (simp add: pow_rat_def [of 2 52])
    then show ?thesis using log2_floor_le [OF r] by simp
  next
    case False
    then have "ulp_exp ?r \<le> -52" by (simp add: ulp_exp_def max_def split: if_splits)
    then have "pow_rat 2 (ulp_exp ?r) \<le> pow_rat 2 (-52)" by (intro pow_rat_mono) simp_all
    then have "pow_rat 2 (ulp_exp ?r) * 2 ^ 52 \<le> 1" by (simp add: pow_rat_def [of 2 "-52"] field_simps)
    moreover have "(1::rat) \<le> of_int (2 ^ 53)" by simp
    ultimately show ?thesis using big by linarith
  qed
  then have "pow_rat 2 (ulp_exp ?r) / 2 \<le> ?r / 2 ^ 53" by (simp add: field_simps)
  moreover have "fl ?r = fl_pos ?r" using r by (simp add: fl_def)
  ultimately have near: "?r - ?r / 2 ^ 53 \<le> fl ?r" using fl_pos_near [OF r] by linarith
  have "(of_int (2 ^ 53 - 1) :: rat) \<le> ?r - ?r / 2 ^ 53" using big by (simp add: field_simps)
  then have "(of_int (2 ^ 53 - 1) :: rat) \<le> fl ?r" using near by linarith
  then show ?thesis unfolding js_plus_def le_floor_iff .
qed

section \<open>Variable-length integers\<close>

lemma uint_small: "0 \<le> v \<Longrightarrow> v < 2 ^ 32 \<Longrightarrow> uint (word_of_int v :: 32 word) = v"
  by (simp add: uint_word_of_int)

lemma varint_total: "0 \<le> v \<Longrightarrow> \<exists>b bs. varintEncode v = Inr (b # bs)"
  by (simp add: varintEncode_def Let_def setUint32_def)

lemma read_word:
  "(p @ setUint32 w @ r) ! length p = ucast (drop_bit 24 w)"
  by (simp add: setUint32_def nth_append)

text \<open>What is decoded, by the two bits of the length.\<close>

lemma decode_prefix:
  "drop_bit 6 (buf ! i) = 0 \<Longrightarrow> i < length buf \<Longrightarrow> varintDecode buf i = Inr (uint (buf ! i AND 0x3F), 1)"
  "drop_bit 6 (buf ! i) = 1 \<Longrightarrow> i + 2 \<le> length buf \<Longrightarrow>
     varintDecode buf i = Inr (uint (push_bit 8 (ucast (buf ! i AND 0x3F)) OR ucast (buf ! (i + 1)) :: 32 word), 2)"
  "drop_bit 6 (buf ! i) = 2 \<Longrightarrow> i + 4 \<le> length buf \<Longrightarrow> varintDecode buf i = Inr (uint (getUint32 buf i AND 0x3FFFFFFF), 4)"
  "drop_bit 6 (buf ! i) = 3 \<Longrightarrow> i + 8 \<le> length buf \<Longrightarrow>
     varintDecode buf i = Inr (js_plus (uint (getUint32 buf i AND 0x3FFFFFFF) * 2 ^ 32) (uint (getUint32 buf (i + 4))), 8)"
  by (simp_all add: varintDecode_def Let_def)

lemma varint_one:
  assumes "0 \<le> v" "v < 2 ^ 6"
  shows "varintDecode (p @ [word_of_int v] @ r) (length p) = Inr (v, 1)"
proof -
  let ?b = "word_of_int v :: 8 word"
  have u: "uint ?b = v" using assms by (simp add: uint_word_of_int)
  have "uint (drop_bit 6 ?b) = 0" unfolding unsigned_drop_bit_eq u using assms by (simp add: drop_bit_eq_div take_bit_int_eq_self)
  then have "drop_bit 6 ?b = 0" by (simp add: uint_0_iff)
  moreover have "uint (?b AND 0x3F) = v"
    using assms by (simp add: masks take_bit_eq_mask [symmetric] unsigned_take_bit_eq u take_bit_int_eq_self)
  ultimately show ?thesis by (simp add: varintDecode_def nth_append)
qed

lemma varint_two:
  assumes "0 \<le> v" "v < 2 ^ 14"
  defines "y \<equiv> (word_of_int v OR 0x4000) AND 0xFFFF :: 32 word"
  shows "varintDecode (p @ [ucast (drop_bit 8 y AND 0xFF), ucast (y AND 0xFF)] @ r) (length p) = Inr (v, 2)"
proof -
  let ?x = "word_of_int v :: 32 word"
  note two = prefix_two [of ?x "0x4000", OF small_bits [OF assms(2,1)] length_bits(1), folded masks, folded y_def]
  have "uint ?x = v" using assms(1,2) by (intro uint_small) simp_all
  then show ?thesis using two by (simp add: varintDecode_def nth_append Let_def)
qed

lemma varint_four:
  assumes "0 \<le> v" "v < 2 ^ 30"
  shows "varintDecode (p @ setUint32 (word_of_int v OR 0x80000000) @ r) (length p) = Inr (v, 4)"
proof -
  let ?x = "word_of_int v :: 32 word"
  note four = prefix_four [of ?x "0x80000000", OF small_bits [OF assms(2,1)] length_bits(2), folded masks]
  have "uint ?x = v" using assms by (intro uint_small) simp_all
  moreover have "drop_bit 6 ((p @ setUint32 (?x OR 0x80000000) @ r) ! length p) = 2" unfolding read_word by (rule four(1))
  note decode_prefix(3) [OF this, unfolded get_set_32]
  ultimately show ?thesis using four(2) by (simp add: set_32_first)
qed

lemma varint_eight:
  assumes "0 \<le> v" "v < 2 ^ 53"
  shows "varintDecode (p @ (setUint32 (word_of_int (v div 2 ^ 32) OR 0xC0000000) @ setUint32 (word_of_int v)) @ r) (length p) = Inr (v, 8)"
proof -
  let ?x = "word_of_int (v div 2 ^ 32) :: 32 word" and ?lo = "word_of_int v :: 32 word"
  have hi: "0 \<le> v div 2 ^ 32" "v div 2 ^ 32 < 2 ^ 30" using assms by auto
  note eight = prefix_eight [of ?x "0xC0000000", OF small_bits [OF hi(2,1)] length_bits(3), folded masks]
  let ?buf = "p @ setUint32 (?x OR 0xC0000000) @ setUint32 ?lo @ r"
  have words: "getUint32 ?buf (length p) = ?x OR 0xC0000000" "getUint32 ?buf (length p + 4) = ?lo"
    using get_set_32 [of p] get_set_32 [of "p @ setUint32 (?x OR 0xC0000000)" ?lo r] by (simp_all add: set_32_first)
  have "uint ?x = v div 2 ^ 32" using hi by (intro uint_small) simp_all
  moreover have "uint ?lo = v mod 2 ^ 32" by (simp add: uint_word_of_int)
  moreover have "js_plus (v div 2 ^ 32 * 2 ^ 32) (v mod 2 ^ 32) = v"
    using assms by (subst js_plus_exact) simp_all
  moreover have "drop_bit 6 (?buf ! length p) = 3" unfolding read_word by (rule eight(1))
  note decode_prefix(4) [OF this, unfolded words]
  ultimately show ?thesis using eight(2) by (simp add: set_32_first)
qed

lemma varint_roundtrip:
  assumes "0 \<le> v" "v < 2 ^ 53" "varintEncode v = Inr bs"
  shows "varintDecode (p @ bs @ r) (length p) = Inr (v, length bs)"
proof -
  consider "v < 2 ^ 6" | "2 ^ 6 \<le> v" "v < 2 ^ 14" | "2 ^ 14 \<le> v" "v < 2 ^ 30" | "2 ^ 30 \<le> v" by linarith
  then show ?thesis
  proof cases
    case 1
    then have "bs = [word_of_int v]" using assms(1,3) by (simp add: varintEncode_def)
    then show ?thesis using varint_one [OF assms(1) 1] by simp
  next
    case 2
    then show ?thesis using assms(1,3) varint_two [OF assms(1) 2(2)] by (auto simp: varintEncode_def Let_def)
  next
    case 3
    then have "bs = setUint32 (word_of_int v OR 0x80000000)" using assms(1,3) by (auto simp: varintEncode_def Let_def)
    then show ?thesis using varint_four [OF assms(1) 3(2)] by (simp add: set_32_first)
  next
    case 4
    then have "bs = setUint32 (word_of_int (v div 2 ^ 32) OR 0xC0000000) @ setUint32 (word_of_int v)"
      using assms(1,3) by (auto simp: varintEncode_def Let_def)
    then show ?thesis using varint_eight [OF assms(1,2)] by (simp add: set_32_first)
  qed
qed

lemma varint_length:
  assumes "varintEncode v = Inr bs"
  shows "0 < length bs" "length bs \<le> 8"
  using assms by (auto simp: varintEncode_def Let_def setUint32_def split: if_splits)

lemma varint_reads:
  assumes "varintDecode buf i = Inr (v, n)"
  shows "0 \<le> v" "1 \<le> n" "i + n \<le> length buf"
proof -
  have plus: "0 \<le> js_plus a b" if "0 \<le> a" "0 \<le> b" for a b :: int
  proof (cases "a + b < 2 ^ 53")
    case False
    then have "2 ^ 53 - 1 \<le> js_plus a b" by (intro js_plus_big) linarith
    then show ?thesis by simp
  qed (use that js_plus_exact [of a b] in simp)
  show "0 \<le> v" "1 \<le> n" "i + n \<le> length buf"
    using assms plus by (auto simp: varintDecode_def Let_def split: if_splits)
qed

section \<open>Length-prefixed fields\<close>

lemma slice_progress:
  assumes "readSlice buf i = Inr (s, k)" "length buf < 2 ^ 53 - 1"
  shows "i < k \<and> k \<le> length buf \<and> length s < k - i"
proof -
  obtain len n where d: "varintDecode buf i = Inr (len, n)"
      and s: "int (length buf) \<ge> js_plus (int (i + n)) len" "k = nat (js_plus (int (i + n)) len)" "s = take (k - (i + n)) (drop (i + n) buf)"
    using assms(1) by (auto simp: readSlice_def throw_rules Let_def split: if_splits)
  note r = varint_reads [OF d]
  have small: "int (length buf) < 2 ^ 53 - 1" using assms(2) by simp
  have "int (i + n) + len < 2 ^ 53"
  proof (rule ccontr)
    assume "\<not> int (i + n) + len < 2 ^ 53"
    then have "2 ^ 53 - 1 \<le> js_plus (int (i + n)) len" by (intro js_plus_big) linarith
    then show False using s(1) small by linarith
  qed
  then have "js_plus (int (i + n)) len = int (i + n) + len" using r(1) by (intro js_plus_exact) simp_all
  then show ?thesis using r s by auto
qed

lemma slice_roundtrip:
  assumes "encodeLenPrefixed d = Inr bs" "length (p @ bs @ r) < 2 ^ 53"
  shows "readSlice (p @ bs @ r) (length p) = Inr (d, length p + length bs)"
proof -
  obtain n where n: "varintEncode (int (length d)) = Inr n" "bs = n @ d"
    using assms(1) by (auto simp: encodeLenPrefixed_def throw_rules)
  have v: "varintDecode (p @ n @ (d @ r)) (length p) = Inr (int (length d), length n)"
    using assms(2) n by (intro varint_roundtrip) auto
  have "js_plus (int (length p + length n)) (int (length d)) = int (length p + length n) + int (length d)"
    using assms(2) n by (intro js_plus_exact) auto
  then show ?thesis using v n(2) by (simp add: readSlice_def Let_def)
qed

section \<open>The header loop\<close>

declare read_headers.simps [simp del]

text \<open>Every round moves the cursor forward, so the loop ends after at most half as many rounds as bytes.\<close>

lemma headers_end:
  assumes "length hdr < 2 ^ 53 - 1"
  shows "\<exists>r. read_headers hdr i acc = Some r \<and> (\<forall>hs. r = Inr hs \<longrightarrow> 2 * length hs \<le> 2 * length acc + (length hdr - i))"
proof (induction "length hdr - i" arbitrary: i acc rule: less_induct)
  case less
  show ?case
  proof (cases "i < length hdr")
    case False
    then show ?thesis by (simp add: read_headers.simps)
  next
    case True
    show ?thesis
    proof (cases "readSlice hdr i")
      case (Inl e)
      then show ?thesis using True by (simp add: read_headers.simps)
    next
      case (Inr a)
      then obtain k j where k: "readSlice hdr i = Inr (k, j)" by (cases a) auto
      note pk = slice_progress [OF k assms]
      show ?thesis
      proof (cases "readSlice hdr j")
        case (Inl e)
        then show ?thesis using True k by (simp add: read_headers.simps)
      next
        case (Inr b)
        then obtain v m where v: "readSlice hdr j = Inr (v, m)" by (cases b) auto
        note pv = slice_progress [OF v assms]
        have "length hdr - m < length hdr - i" using pk pv True by linarith
        then obtain r where r: "read_headers hdr m (acc @ [(text_decode k, text_decode v)]) = Some r"
            "\<forall>hs. r = Inr hs \<longrightarrow> 2 * length hs \<le> 2 * length (acc @ [(text_decode k, text_decode v)]) + (length hdr - m)"
          using less by blast
        have step: "read_headers hdr i acc = Some r" using True k v r(1) by (simp add: read_headers.simps [of hdr i acc])
        have "2 * length hs \<le> 2 * length acc + (length hdr - i)" if "r = Inr hs" for hs
        proof -
          have "2 * length hs \<le> 2 * length acc + 2 + (length hdr - m)" using r(2) that by simp
          moreover have "i + 2 \<le> m" "m \<le> length hdr" using pk pv by linarith+
          ultimately show ?thesis by linarith
        qed
        then show ?thesis using step by blast
      qed
    qed
  qed
qed

definition plain_text :: "scalar_text \<Rightarrow> bool" where
  "plain_text s \<longleftrightarrow> list_all scalar_value s \<and> take 1 s \<noteq> [0xFEFF]"

lemma plain_text_roundtrip: "plain_text s \<Longrightarrow> text_decode (text_encode s) = s"
  by (simp add: plain_text_def text_roundtrip)

lemma header_field: "varintEncode (int (length d)) = Inr n \<Longrightarrow> encodeLenPrefixed d = Inr (n @ d)"
  by (simp add: encodeLenPrefixed_def)

lemma encodeHeaders_Cons:
  assumes "encodeHeaders ((k, v) # hs) = Inr bs"
  obtains nk nv ps where "varintEncode (int (length (text_encode k))) = Inr nk"
    "varintEncode (int (length (text_encode v))) = Inr nv"
    "encodeHeaders hs = Inr ps" "bs = (nk @ text_encode k) @ (nv @ text_encode v) @ ps"
proof -
  let ?f = "\<lambda>(k, v). and_then (varintEncode (int (length (text_encode k)))) (\<lambda>nk.
       and_then (varintEncode (int (length (text_encode v)))) (\<lambda>nv.
         return_ok (nk @ text_encode k @ nv @ text_encode v)))"
  obtain b parts where b: "?f (k, v) = Inr b" and parts: "map_result ?f hs = Inr parts" and bs: "bs = b @ concat parts"
    using assms unfolding encodeHeaders_def by (cases "?f (k, v)"; cases "map_result ?f hs") auto
  then have "encodeHeaders hs = Inr (concat parts)" by (simp add: encodeHeaders_def)
  moreover from b obtain nk nv where "varintEncode (int (length (text_encode k))) = Inr nk"
      "varintEncode (int (length (text_encode v))) = Inr nv" "b = nk @ text_encode k @ nv @ text_encode v"
    by (cases "varintEncode (int (length (text_encode k)))"; cases "varintEncode (int (length (text_encode v)))") auto
  ultimately show ?thesis using that bs by simp
qed

lemma headers_roundtrip:
  assumes "encodeHeaders hs = Inr bs" "length (p @ bs) < 2 ^ 53" "list_all (\<lambda>(k, v). plain_text k \<and> plain_text v) hs"
  shows "read_headers (p @ bs) (length p) acc = Some (Inr (acc @ hs))"
  using assms
proof (induction hs arbitrary: p bs acc)
  case Nil
  then show ?case by (simp add: encodeHeaders_def read_headers.simps)
next
  case (Cons h hs)
  obtain k v where h: "h = (k, v)" by fastforce
  obtain nk nv ps where e: "varintEncode (int (length (text_encode k))) = Inr nk" "varintEncode (int (length (text_encode v))) = Inr nv"
      "encodeHeaders hs = Inr ps" "bs = (nk @ text_encode k) @ (nv @ text_encode v) @ ps"
    using encodeHeaders_Cons Cons.prems(1) unfolding h by blast
  let ?buf = "p @ (nk @ text_encode k) @ (nv @ text_encode v) @ ps"
  have len: "length ?buf < 2 ^ 53" using Cons.prems(2) by (simp only: e(4))
  have one: "readSlice ?buf (length p) = Inr (text_encode k, length (p @ nk @ text_encode k))"
    using slice_roundtrip [OF header_field [OF e(1)] len] by simp
  have two: "readSlice ?buf (length (p @ nk @ text_encode k)) = Inr (text_encode v, length (p @ nk @ text_encode k @ nv @ text_encode v))"
    using slice_roundtrip [OF header_field [OF e(2)], of "p @ nk @ text_encode k" ps] len by simp
  have rest: "read_headers ?buf (length (p @ nk @ text_encode k @ nv @ text_encode v)) (acc @ [(k, v)]) = Some (Inr ((acc @ [(k, v)]) @ hs))"
    using Cons.IH [OF e(3), of "p @ nk @ text_encode k @ nv @ text_encode v" "acc @ [(k, v)]"] len Cons.prems(3) by simp
  have "length p < length ?buf" using varint_length(1) [OF e(1)] by simp
  then have "read_headers ?buf (length p) acc = Some (Inr (acc @ [(k, v)] @ hs))"
    using one two rest Cons.prems(3) by (subst read_headers.simps) (simp add: h plain_text_roundtrip)
  then show ?case by (simp only: e(4) h append_Cons append_Nil)
qed

section \<open>A response and its reference encoding\<close>

lemma bhttp_parts:
  assumes "encodeBhttpResponse res = Inr bs"
  obtains st hs hdr body where "varintEncode (res_status res) = Inr st" "encodeHeaders (res_headers res) = Inr hs"
    "encodeLenPrefixed hs = Inr hdr" "encodeLenPrefixed (res_body res) = Inr body" "bs = [1] @ st @ hdr @ body @ [0]"
  using assms that
  by (auto simp: encodeBhttpResponse_def varintEncode_def [of 0] and_then_ok)

lemma bhttp_decodes_back:
  assumes "encodeBhttpResponse res = Inr bs" "length bs < 2 ^ 53" "0 \<le> res_status res" "res_status res < 2 ^ 53"
    "list_all (\<lambda>(k, v). plain_text k \<and> plain_text v) (res_headers res)"
  shows "decodeBhttpResponse bs = Some (Inr res)"
proof -
  obtain st hs hdr body where p: "varintEncode (res_status res) = Inr st" "encodeHeaders (res_headers res) = Inr hs"
      "encodeLenPrefixed hs = Inr hdr" "encodeLenPrefixed (res_body res) = Inr body" and bs: "bs = [1] @ st @ hdr @ body @ [0]"
    by (rule bhttp_parts [OF assms(1)])
  have status: "varintDecode bs 1 = Inr (res_status res, length st)"
    using varint_roundtrip [OF assms(3,4) p(1), of "[1]"] by (simp add: bs)
  have hdr: "readSlice bs (1 + length st) = Inr (hs, 1 + length st + length hdr)"
    using slice_roundtrip [OF p(3), of "[1] @ st" "body @ [0]"] assms(2) by (simp add: bs)
  have body: "readSlice bs (1 + length st + length hdr) = Inr (res_body res, 1 + length st + length hdr + length body)"
    using slice_roundtrip [OF p(4), of "[1] @ st @ hdr" "[0]"] assms(2) by (simp add: bs)
  have "length hs \<le> length hdr" using p(3) by (auto simp: encodeLenPrefixed_def and_then_ok)
  then have "length hs < 2 ^ 53" using assms(2) by (simp add: bs)
  then have "read_headers hs 0 [] = Some (Inr (res_headers res))"
    using headers_roundtrip [OF p(2), of "[]" "[]"] assms(5) by simp
  moreover have "length bs \<noteq> 0" "bs ! 0 = 1" by (simp_all add: bs)
  ultimately show ?thesis using status hdr body by (simp add: decodeBhttpResponse_def)
qed

lemma bhttp_decode_ends:
  assumes "length buf < 2 ^ 53 - 1"
  shows "\<exists>r. decodeBhttpResponse buf = Some r \<and> (\<forall>res. r = Inr res \<longrightarrow> 2 * length (res_headers res) + length (res_body res) < length buf)"
proof (cases "length buf = 0 \<or> buf ! 0 \<noteq> 1")
  case True
  then show ?thesis by (auto simp: decodeBhttpResponse_def)
next
  case False
  show ?thesis
  proof (cases "varintDecode buf 1")
    case (Inl e)
    then show ?thesis using False by (simp add: decodeBhttpResponse_def)
  next
    case (Inr a)
    then obtain status n where st: "varintDecode buf 1 = Inr (status, n)" by (cases a) auto
    show ?thesis
    proof (cases "readSlice buf (1 + n)")
      case (Inl e)
      then show ?thesis using False st by (simp add: decodeBhttpResponse_def)
    next
      case (Inr b)
      then obtain hdr i where h: "readSlice buf (1 + n) = Inr (hdr, i)" by (cases b) auto
      show ?thesis
      proof (cases "readSlice buf i")
        case (Inl e)
        then show ?thesis using False st h by (simp add: decodeBhttpResponse_def)
      next
        case (Inr c)
        then obtain body j where b: "readSlice buf i = Inr (body, j)" by (cases c) auto
        note ph = slice_progress [OF h assms] and pb = slice_progress [OF b assms]
        have "length hdr < 2 ^ 53 - 1" using ph assms by linarith
        then obtain r where r: "read_headers hdr 0 [] = Some r" "\<forall>hs. r = Inr hs \<longrightarrow> 2 * length hs \<le> length hdr"
          using headers_end [of hdr 0 "[]"] by auto
        show ?thesis
        proof (cases r)
          case (Inl e)
          then show ?thesis using False st h b r by (simp add: decodeBhttpResponse_def)
        next
          case (Inr hs)
          moreover have "2 * length hs + length body < length buf" using r(2) Inr ph pb by fastforce
          ultimately show ?thesis using False st h b r by (simp add: decodeBhttpResponse_def)
        qed
      qed
    qed
  qed
qed

end
