(* ===== verification/OhttpClaims.thy ===== *)
theory OhttpClaims imports OhttpRules
begin

text \<open>
  The properties of the message codec: a response that is encoded is decoded to itself, the decoder ends on every
  buffer, and, with an HPKE package and a cipher that invert themselves, a request and its response cross the
  relay unchanged. The key configuration that is chosen always names the suite the client implements.
\<close>

section \<open>Key configurations\<close>

lemma find_suite_sound:
  "find_suite bytes start suites i = Some (kdf, aead) \<Longrightarrow>
     kdf = KDF_ID_HKDF_SHA256 \<and> aead = AEAD_ID_AES_256_GCM \<and>
     (\<exists>j. i \<le> j \<and> j + 4 \<le> suites \<and> two_bytes bytes (start + j) = kdf \<and> two_bytes bytes (start + j + 2) = aead)"
proof (induction bytes start suites i rule: find_suite.induct)
  case (1 bytes start suites i)
  show ?case
  proof (cases "two_bytes bytes (start + i) = KDF_ID_HKDF_SHA256 \<and> two_bytes bytes (start + i + 2) = AEAD_ID_AES_256_GCM")
    case True
    have "i + 4 \<le> suites" using 1(2) by (simp add: find_suite.simps [of bytes start suites i] split: if_splits)
    then show ?thesis using True 1(2) by (auto simp: find_suite.simps [of bytes start suites i])
  next
    case False
    then have r: "i + 4 \<le> suites" "find_suite bytes start suites (i + 4) = Some (kdf, aead)"
      using 1(2) by (simp_all add: find_suite.simps [of bytes start suites i] split: if_splits)
    obtain j where "i + 4 \<le> j" "j + 4 \<le> suites" "two_bytes bytes (start + j) = kdf" "two_bytes bytes (start + j + 2) = aead"
        and "kdf = KDF_ID_HKDF_SHA256" "aead = AEAD_ID_AES_256_GCM"
      using 1(1) [OF r(1) False r(2)] by blast
    then show ?thesis using add_leD1 by blast
  qed
qed

lemma key_config_suite:
  assumes "parseKeyConfig bytes = Inr cfg"
  shows "kemId cfg = KEM_ID_DHKEM_X25519_SHA256" "kdfId cfg = KDF_ID_HKDF_SHA256" "aeadId cfg = AEAD_ID_AES_256_GCM"
    "length (publicKeyBytes cfg) = NPK" "keyId cfg = uint (bytes ! 0)"
  using assms find_suite_sound
  by (auto simp: parseKeyConfig_def Let_def NPK_def split: if_splits option.splits)

section \<open>Capsules\<close>

text \<open>What the HPKE package and the browser's cipher promise for the key pair of a gateway: what a sender context
  seals, the recipient context made from its ephemeral key opens, both export the same secrets, and decryption
  inverts encryption, which adds a tag of sixteen bytes.\<close>

definition crypto_correct :: "crypto \<Rightarrow> octets \<Rightarrow> octets \<Rightarrow> bool" where
  "crypto_correct c public private \<longleftrightarrow>
     (\<forall>key info s. hp_public_key c public = Some key \<longrightarrow> hp_sender c key info = Some s \<longrightarrow>
        length (sx_enc s) = NPK \<and>
        (\<exists>r. hp_recipient c private (sx_enc s) info = Some r \<and>
           (\<forall>pt aad. rx_open r (sx_seal s pt aad) aad = Some pt) \<and> (\<forall>label n. rx_export r label n = sx_export s label n))) \<and>
     (\<forall>key iv pt. wc_decrypt c key iv (wc_encrypt c key iv pt) = Some pt \<and> length (wc_encrypt c key iv pt) = length pt + 16)"

lemma header_length: "length (buildHeader key kdf aead) = 7"
  by (simp add: buildHeader_def u16be_def Let_def)

lemma exchange:
  assumes correct: "crypto_correct c (publicKeyBytes cfg) private" and sent: "encapsulateRequest c cfg inner = Inr (capsule, ctx)"
    and nonce: "length nonce = RESP_NONCE_LEN"
  shows "\<exists>secret. gateway_open c private capsule = Some (inner, cx_enc ctx, secret) \<and>
    decapsulateResponse c ctx (gateway_seal c (cx_enc ctx) secret nonce response) = Inr response"
proof -
  let ?hdr = "buildHeader (keyId cfg) (kdfId cfg) (aeadId cfg)"
  obtain key s where s: "hp_public_key c (publicKeyBytes cfg) = Some key" "hp_sender c key (requestInfo ?hdr) = Some s"
      "capsule = ?hdr @ sx_enc s @ sx_seal s inner []" "cx_enc ctx = sx_enc s" "cx_secret ctx = sx_export s OHTTP_RESPONSE_LABEL NK"
    using sent by (auto simp: encapsulateRequest_def Let_def split: option.splits)
  obtain r where r: "hp_recipient c private (sx_enc s) (requestInfo ?hdr) = Some r" "\<And>pt aad. rx_open r (sx_seal s pt aad) aad = Some pt"
      "\<And>label n. rx_export r label n = sx_export s label n" and len: "length (sx_enc s) = NPK"
    using correct s(1,2) unfolding crypto_correct_def by blast
  have "gateway_open c private capsule = Some (inner, cx_enc ctx, cx_secret ctx)"
    using r len s by (simp add: gateway_open_def header_length)
  moreover have "decapsulateResponse c ctx (gateway_seal c (cx_enc ctx) (cx_secret ctx) nonce response) = Inr response"
    using correct nonce by (simp add: decapsulateResponse_def gateway_seal_def response_key_def crypto_correct_def Let_def)
  ultimately show ?thesis by blast
qed

section \<open>Properties\<close>

text \<open>C26: decoding inverts encoding. A response whose status is a safe non-negative integer and whose headers are
  Unicode text without a byte order mark at the front, encoded as the self-test encodes it, is decoded to exactly
  its status, its headers in their order and its body, whatever the lengths are, in the one, two, four and eight
  byte forms of the numbers.\<close>
theorem bhttp_response_roundtrip:
  assumes "encodeBhttpResponse res = Inr bs" "length bs < 2 ^ 53" "0 \<le> res_status res" "res_status res < 2 ^ 53"
    "list_all (\<lambda>(k, v). plain_text k \<and> plain_text v) (res_headers res)"
  shows "decodeBhttpResponse bs = Some (Inr res)"
  by (rule bhttp_decodes_back [OF assms])

definition demo_response :: BhttpResponse where
  "demo_response = \<lparr>res_status = 200, res_headers = [([0x65, 0x74, 0x61, 0x67], [0xE9, 0x20AC])], res_body = [0x6F, 0x6B]\<rparr>"

lemma bhttp_response_roundtrip_witness:
  "\<exists>bs. encodeBhttpResponse demo_response = Inr bs \<and> decodeBhttpResponse bs = Some (Inr demo_response)"
proof -
  have encoded: "text_encode [0x65, 0x74, 0x61, 0x67] = [0x65, 0x74, 0x61, 0x67]" "text_encode [0xE9, 0x20AC] = [0xC3, 0xA9, 0xE2, 0x82, 0xAC]"
    by (simp_all add: text_encode_def utf8_char_def)
  have n: "varintEncode 200 = Inr [0x40, 0xC8]" "varintEncode 4 = Inr [4]" "varintEncode 5 = Inr [5]" "varintEncode 11 = Inr [11]"
      "varintEncode 2 = Inr [2]" "varintEncode 0 = Inr [0]"
    by (simp_all add: varintEncode_def Let_def)
  have bs: "encodeBhttpResponse demo_response =
      Inr [1, 0x40, 0xC8, 11, 4, 0x65, 0x74, 0x61, 0x67, 5, 0xC3, 0xA9, 0xE2, 0x82, 0xAC, 2, 0x6F, 0x6B, 0]"
    by (simp add: encodeBhttpResponse_def encodeHeaders_def encodeLenPrefixed_def demo_response_def encoded n)
  have "0 \<le> res_status demo_response" "res_status demo_response < 2 ^ 53"
      "list_all (\<lambda>(k, v). plain_text k \<and> plain_text v) (res_headers demo_response)"
    by (simp_all add: demo_response_def plain_text_def scalar_value_def)
  then show ?thesis using bhttp_response_roundtrip [OF bs] bs by simp
qed

text \<open>C38: the decoder ends. On every buffer, well formed or not, decoding a response returns a response or an
  error after finitely many rounds: each header moves the cursor by at least two bytes. A response that is
  returned has been paid for by the buffer, two bytes for each header and one for each byte of the body, so a
  peer cannot make the decoder allocate more than it sent.\<close>
theorem bhttp_decode_terminates:
  assumes "length buf < 2 ^ 53 - 1"
  shows "\<exists>r. decodeBhttpResponse buf = Some r \<and>
    (case r of Inl e \<Rightarrow> True | Inr res \<Rightarrow> 2 * length (res_headers res) + length (res_body res) < length buf)"
  using bhttp_decode_ends [OF assms] by (auto split: sum.splits)

lemma bhttp_decode_terminates_witness:
  "\<exists>r. decodeBhttpResponse [1, 0x40, 200, 2, 0, 0, 1, 7, 0] = Some r \<and>
    (case r of Inl e \<Rightarrow> True | Inr res \<Rightarrow> 2 * length (res_headers res) + length (res_body res) < 9)"
  using bhttp_decode_terminates [of "[1, 0x40, 200, 2, 0, 0, 1, 7, 0]"] by (auto split: sum.splits)

end
