(* ===== verification/TreasuryModel.thy ===== *)
theory TreasuryModel imports JsJson
begin

text \<open>
  \<open>apps/web/src/lib/treasury-execution.ts\<close>, part one: the data of the treasury agent, canonical JSON
  and hashes, the scanners that refuse plaintext in requests, and the validators of request bodies.
  A policy and an intent are the objects of the request: the typed fields are what the code reads of
  them, and the JSON value beside is the object itself, which \<open>hashTreasuryValue\<close> hashes. Amounts are
  finite doubles, as rationals; overflow to infinity is outside the model.
\<close>

section \<open>Data\<close>

datatype TreasuryIntentObjective =
    Maintain_runway | Optimize_idle_cash | Fund_payment_schedule | Rebalance_treasury_risk

datatype TreasuryRailKind =
    Bank_cash | Treasury_bills | Bond_ladder | Broker_cash_sweep | Stablecoin_public
  | Stablecoin_shielded | Ach | Wire | Rtp

datatype TreasuryAsset = USD | USDC | USDT | T_BILL | BOND_FUND | BROKER_SWEEP

fun rail_name :: "TreasuryRailKind \<Rightarrow> string" where
  "rail_name Bank_cash = ''bank_cash''"
| "rail_name Treasury_bills = ''treasury_bills''"
| "rail_name Bond_ladder = ''bond_ladder''"
| "rail_name Broker_cash_sweep = ''broker_cash_sweep''"
| "rail_name Stablecoin_public = ''stablecoin_public''"
| "rail_name Stablecoin_shielded = ''stablecoin_shielded''"
| "rail_name Ach = ''ach''"
| "rail_name Wire = ''wire''"
| "rail_name Rtp = ''rtp''"

fun asset_name :: "TreasuryAsset \<Rightarrow> string" where
  "asset_name USD = ''USD''"
| "asset_name USDC = ''USDC''"
| "asset_name USDT = ''USDT''"
| "asset_name T_BILL = ''T_BILL''"
| "asset_name BOND_FUND = ''BOND_FUND''"
| "asset_name BROKER_SWEEP = ''BROKER_SWEEP''"

fun objective_name :: "TreasuryIntentObjective \<Rightarrow> string" where
  "objective_name Maintain_runway = ''maintain_runway''"
| "objective_name Optimize_idle_cash = ''optimize_idle_cash''"
| "objective_name Fund_payment_schedule = ''fund_payment_schedule''"
| "objective_name Rebalance_treasury_risk = ''rebalance_treasury_risk''"

definition TREASURY_RAILS :: "TreasuryRailKind list" where
  "TREASURY_RAILS = [Bank_cash, Treasury_bills, Bond_ladder, Broker_cash_sweep, Stablecoin_public,
     Stablecoin_shielded, Ach, Wire, Rtp]"

definition treasury_assets :: "TreasuryAsset list" where
  "treasury_assets = [USD, USDC, USDT, T_BILL, BOND_FUND, BROKER_SWEEP]"

definition treasury_objectives :: "TreasuryIntentObjective list" where
  "treasury_objectives = [Maintain_runway, Optimize_idle_cash, Fund_payment_schedule, Rebalance_treasury_risk]"

record TreasuryConstraints =
  tc_min_operating_cash :: rat
  tc_min_instant_liquidity :: rat
  tc_min_runway_months :: rat
  tc_max_single_bank_bps :: rat
  tc_max_stablecoin_bps :: rat
  tc_max_duration_days :: rat
  tc_approved_rails :: "TreasuryRailKind list"
  tc_approval_above :: rat
  tc_public_fallback :: bool

record TreasuryIntentV1 =
  ti_id :: string
  ti_owner :: string
  ti_objective :: TreasuryIntentObjective
  ti_horizon_days :: rat
  ti_amount :: "rat option"
  ti_constraints :: TreasuryConstraints
  ti_bundle :: json
  ti_json :: json

record TreasuryPolicyV1 =
  tp_id :: string
  tp_owner :: string
  tp_allowed_assets :: "TreasuryAsset list"
  tp_allowed_payment_rails :: "TreasuryRailKind list"
  tp_allowed_rails :: "TreasuryRailKind list option"
  tp_allowed_partners :: "string list"
  tp_max_action :: rat
  tp_daily_action :: rat
  tp_approval_above :: rat
  tp_public_fallback :: bool
  tp_json :: json

section \<open>Canonical JSON and hashes\<close>

text \<open>Properties are sorted by code units; unlike \<open>consumer-production.ts\<close> an \<open>undefined\<close> property
  stays, printed as \<open>undefined\<close>.\<close>

definition text_of_undefined :: "string option \<Rightarrow> string" where
  "text_of_undefined t = (case t of None \<Rightarrow> ''undefined'' | Some s \<Rightarrow> s)"

function stableJsonText :: "json \<Rightarrow> string option" where
  "stableJsonText (JArr xs) =
     Some (''['' @ js_join '','' (map (\<lambda>x. case stableJsonText x of None \<Rightarrow> [] | Some t \<Rightarrow> t) xs) @ '']'')"
| "stableJsonText (JObj kvs) =
     Some (''{'' @ js_join '','' (map (\<lambda>(k, t). json_quote k @ '':'' @ text_of_undefined t)
       (sort_by (\<lambda>p q. fst p \<le> fst q) (map (\<lambda>p. (fst p, stableJsonText (snd p))) kvs))) @ ''}'')"
| "stableJsonText JNull = stringify_prim JNull"
| "stableJsonText JUndef = stringify_prim JUndef"
| "stableJsonText (JBool b) = stringify_prim (JBool b)"
| "stableJsonText (JNum x) = stringify_prim (JNum x)"
| "stableJsonText (JStr s) = stringify_prim (JStr s)"
  by pat_completeness auto
termination
proof (relation "measure size")
  fix kvs :: "(string \<times> json) list" and p
  assume "p \<in> set kvs"
  then have "size (snd p) < Suc (size_list (size_prod (\<lambda>_. 0) size) kvs)"
    by (induction kvs) (auto simp: size_prod_def)
  then show "(snd p, JObj kvs) \<in> measure size" by simp
qed (auto simp: less_Suc_eq_le intro: size_list_estimation')

definition hashTreasuryValue :: "host \<Rightarrow> json \<Rightarrow> string" where
  "hashTreasuryValue h v = sha256_hex h (text_of_undefined (stableJsonText v))"

section \<open>Plaintext scanners\<close>

definition PLAINTEXT_LEAK_KEYS :: "string list" where
  "PLAINTEXT_LEAK_KEYS = [''account_number'', ''balance'', ''balances'', ''bank_account'', ''cash_balance'',
     ''counterparty_list'', ''financial_context'', ''invoice'', ''invoices'', ''messages'', ''payroll'',
     ''payroll_details'', ''plaintext'', ''portfolio'', ''prompt'', ''source'', ''strategy'',
     ''strategy_text'', ''system_prompt'']"

definition TREASURY_PLAINTEXT_LEAK_KEYS :: "string list" where
  "TREASURY_PLAINTEXT_LEAK_KEYS = [''account_number'', ''balance'', ''balances'', ''bank_account'',
     ''cash_balance'', ''counterparties'', ''counterparty_list'', ''invoice'', ''invoices'', ''payroll'',
     ''payroll_details'', ''portfolio'', ''strategy'', ''vendor'', ''vendors'']"

fun array_items :: "json \<Rightarrow> json list" where
  "array_items (JArr xs) = xs"
| "array_items v = []"

lemma size_entry: "p \<in> set kvs \<Longrightarrow> size (snd p) < size (JObj kvs)"
  by (induction kvs) (auto simp: size_prod_def)

lemma size_item: "x \<in> set (array_items v) \<Longrightarrow> size x < size v"
  by (cases v) (auto simp: less_Suc_eq_le intro: size_list_estimation')

function containsPrivateExecutionPlaintextLeak :: "json \<Rightarrow> bool" where
  "containsPrivateExecutionPlaintextLeak (JObj kvs) =
     list_ex (\<lambda>p. fst p \<in> set PLAINTEXT_LEAK_KEYS \<or> containsPrivateExecutionPlaintextLeak (snd p) \<or>
       list_ex containsPrivateExecutionPlaintextLeak (array_items (snd p))) kvs"
| "containsPrivateExecutionPlaintextLeak (JArr xs) = False"
| "containsPrivateExecutionPlaintextLeak JNull = False"
| "containsPrivateExecutionPlaintextLeak JUndef = False"
| "containsPrivateExecutionPlaintextLeak (JBool b) = False"
| "containsPrivateExecutionPlaintextLeak (JNum x) = False"
| "containsPrivateExecutionPlaintextLeak (JStr s) = False"
  by pat_completeness auto
termination
  by (relation "measure size") (use size_entry size_item in \<open>fastforce intro: less_trans\<close>)+

function containsTreasuryPlaintextLeak :: "json \<Rightarrow> bool" where
  "containsTreasuryPlaintextLeak (JObj kvs) =
     (containsPrivateExecutionPlaintextLeak (JObj kvs) \<or>
      list_ex (\<lambda>p. fst p \<in> set TREASURY_PLAINTEXT_LEAK_KEYS \<or>
        (case snd p of
           JArr xs \<Rightarrow> list_ex containsTreasuryPlaintextLeak xs
         | child \<Rightarrow> containsTreasuryPlaintextLeak (snd p))) kvs)"
| "containsTreasuryPlaintextLeak (JArr xs) = False"
| "containsTreasuryPlaintextLeak JNull = False"
| "containsTreasuryPlaintextLeak JUndef = False"
| "containsTreasuryPlaintextLeak (JBool b) = False"
| "containsTreasuryPlaintextLeak (JNum x) = False"
| "containsTreasuryPlaintextLeak (JStr s) = False"
  by pat_completeness auto
termination
proof (relation "measure size")
  fix kvs :: "(string \<times> json) list" and p xs x
  assume p: "p \<in> set kvs" and xs: "snd p = JArr xs" and x: "x \<in> set xs"
  have "size x < size (snd p)" using size_item [of x "snd p"] xs x by simp
  with size_entry [OF p] show "(x, JObj kvs) \<in> measure size" by simp
qed (use size_entry in \<open>auto simp del: json.size\<close>)

end
