(* ===== verification/TreasuryValidate.thy ===== *)
theory TreasuryValidate imports TreasuryModel
begin

text \<open>
  \<open>treasury-execution.ts\<close>, part two: the validators of request bodies. An error is a message, no
  error is \<open>None\<close>, as in the source. After validation the source casts the JSON value to the typed
  interface; the cast is \<open>policy_of_json\<close> and \<open>intent_of_json\<close>, which read every field the interface
  declares and have no value when one is missing or of another type.
\<close>

section \<open>Predicates on values\<close>

definition isPositiveNumber :: "json \<Rightarrow> bool" where
  "isPositiveNumber v = (case v of JNum (Fin r) \<Rightarrow> 0 < r | _ \<Rightarrow> False)"

definition is_text :: "json \<Rightarrow> bool" where
  "is_text v = (case v of JStr s \<Rightarrow> js_trim s \<noteq> [] | _ \<Rightarrow> False)"

definition isStringArray :: "json \<Rightarrow> bool" where
  "isStringArray v = (case v of JArr xs \<Rightarrow> list_all is_text xs | _ \<Rightarrow> False)"

definition rail_of_json :: "json \<Rightarrow> TreasuryRailKind option" where
  "rail_of_json v = (case v of JStr s \<Rightarrow> List.find (\<lambda>r. rail_name r = s) TREASURY_RAILS | _ \<Rightarrow> None)"

definition asset_of_json :: "json \<Rightarrow> TreasuryAsset option" where
  "asset_of_json v = (case v of JStr s \<Rightarrow> List.find (\<lambda>a. asset_name a = s) treasury_assets | _ \<Rightarrow> None)"

definition objective_of_json :: "json \<Rightarrow> TreasuryIntentObjective option" where
  "objective_of_json v =
     (case v of JStr s \<Rightarrow> List.find (\<lambda>a. objective_name a = s) treasury_objectives | _ \<Rightarrow> None)"

definition isTreasuryRailKind :: "json \<Rightarrow> bool" where
  "isTreasuryRailKind v \<longleftrightarrow> rail_of_json v \<noteq> None"

definition isTreasuryObjective :: "json \<Rightarrow> bool" where
  "isTreasuryObjective v \<longleftrightarrow> objective_of_json v \<noteq> None"

definition isTreasuryRailArray :: "json \<Rightarrow> bool" where
  "isTreasuryRailArray v = (case v of JArr xs \<Rightarrow> xs \<noteq> [] \<and> list_all isTreasuryRailKind xs | _ \<Rightarrow> False)"

definition isTreasuryAssetArray :: "json \<Rightarrow> bool" where
  "isTreasuryAssetArray v =
     (case v of JArr xs \<Rightarrow> xs \<noteq> [] \<and> list_all (\<lambda>x. asset_of_json x \<noteq> None) xs | _ \<Rightarrow> False)"

fun object_entries :: "json \<Rightarrow> (string \<times> json) list" where
  "object_entries (JObj kvs) = kvs"
| "object_entries v = []"

section \<open>Validators\<close>

text \<open>The first property of a list that fails a test, as an error message.\<close>

fun first_bad :: "(json \<Rightarrow> bool) \<Rightarrow> string \<Rightarrow> string \<Rightarrow> (string \<times> json) list \<Rightarrow> string list \<Rightarrow> string option" where
  "first_bad ok pre post kvs [] = None"
| "first_bad ok pre post kvs (k # ks) =
     (if ok (obj_field kvs k) then first_bad ok pre post kvs ks else Some (pre @ k @ post))"

definition or_else :: "string option \<Rightarrow> string option \<Rightarrow> string option" where
  "or_else e f = (case e of None \<Rightarrow> f | Some m \<Rightarrow> Some m)"

definition error_if :: "bool \<Rightarrow> string \<Rightarrow> string option" where
  "error_if b m = (if b then Some m else None)"

definition validateEncryptedBundle :: "json \<Rightarrow> string option" where
  "validateEncryptedBundle v =
     (if \<not> is_object v then Some ''encrypted_context_bundle is required''
      else let kvs = object_entries v in
        or_else (error_if (obj_field kvs ''alg'' \<noteq> JStr ''sealed-provider-v1'' \<and>
            obj_field kvs ''alg'' \<noteq> JStr ''hpke-x25519-aes256gcm'')
          ''encrypted_context_bundle.alg is unsupported'')
          (first_bad is_text ''encrypted_context_bundle.'' '' is required'' kvs
             [''ciphertext'', ''recipient'', ''aad'']))"

definition validateTreasuryPolicy :: "(string \<times> json) list \<Rightarrow> string option" where
  "validateTreasuryPolicy policy =
     or_else (error_if (obj_field policy ''version'' \<noteq> JNum (num 1)) ''policy.version must be 1'')
     (or_else (first_bad is_text ''policy.'' '' is required'' policy [''policy_id'', ''owner_did''])
     (or_else (error_if (\<not> isTreasuryAssetArray (obj_field policy ''allowed_assets''))
        ''policy.allowed_assets must contain supported assets'')
     (or_else (error_if (\<not> isTreasuryRailArray (obj_field policy ''allowed_payment_rails''))
        ''policy.allowed_payment_rails must contain supported rails'')
     (or_else (error_if (obj_field policy ''allowed_rails'' \<noteq> JUndef \<and>
          \<not> isTreasuryRailArray (obj_field policy ''allowed_rails''))
        ''policy.allowed_rails must contain supported rails'')
     (or_else (error_if (\<not> isStringArray (obj_field policy ''allowed_partners'') \<or>
          array_items (obj_field policy ''allowed_partners'') = [])
        ''policy.allowed_partners must be a non-empty array'')
     (or_else (first_bad isPositiveNumber ''policy.'' '' must be positive'' policy
        [''max_action_micro_usd'', ''daily_action_micro_usd'', ''approval_required_above_micro_usd''])
     (error_if (obj_field policy ''public_fallback_allowed'' \<noteq> JBool False)
        ''policy.public_fallback_allowed must be false'')))))))"

definition constraint_numbers :: "string list" where
  "constraint_numbers = [''min_operating_cash_micro_usd'', ''min_instant_liquidity_micro_usd'',
     ''min_runway_months'', ''max_single_bank_exposure_bps'', ''max_stablecoin_issuer_exposure_bps'',
     ''max_duration_days'', ''approval_required_above_micro_usd'']"

definition validateConstraints :: "(string \<times> json) list \<Rightarrow> string option" where
  "validateConstraints constraints =
     or_else (first_bad isPositiveNumber ''intent.constraints.'' '' must be positive'' constraints constraint_numbers)
     (or_else (error_if (\<not> isTreasuryRailArray (obj_field constraints ''approved_rails''))
        ''intent.constraints.approved_rails must contain supported rails'')
     (error_if (obj_field constraints ''public_fallback_allowed'' \<noteq> JBool False)
        ''intent.constraints.public_fallback_allowed must be false''))"

definition validateTreasuryIntent :: "(string \<times> json) list \<Rightarrow> string option" where
  "validateTreasuryIntent intent =
     or_else (error_if (obj_field intent ''version'' \<noteq> JNum (num 1)) ''intent.version must be 1'')
     (or_else (first_bad is_text ''intent.'' '' is required'' intent [''intent_id'', ''owner_did'', ''objective''])
     (or_else (error_if (\<not> isTreasuryObjective (obj_field intent ''objective''))
        ''intent.objective is unsupported'')
     (or_else (error_if (\<not> isPositiveNumber (obj_field intent ''horizon_days''))
        ''intent.horizon_days must be positive'')
     (or_else (error_if (obj_field intent ''amount_micro_usd'' \<noteq> JUndef \<and>
          \<not> isPositiveNumber (obj_field intent ''amount_micro_usd''))
        ''intent.amount_micro_usd must be positive'')
     (or_else (error_if (\<not> is_object (obj_field intent ''constraints'')) ''intent.constraints is required'')
     (or_else (validateConstraints (object_entries (obj_field intent ''constraints'')))
     (map_option (\<lambda>e. ''intent.'' @ e) (validateEncryptedBundle (obj_field intent ''encrypted_context_bundle'')))))))))"

section \<open>The casts\<close>

definition text_of :: "json \<Rightarrow> string option" where
  "text_of v = (case v of JStr s \<Rightarrow> Some s | _ \<Rightarrow> None)"

definition finite_of :: "json \<Rightarrow> rat option" where
  "finite_of v = (case v of JNum (Fin r) \<Rightarrow> Some r | _ \<Rightarrow> None)"

definition bool_of :: "json \<Rightarrow> bool option" where
  "bool_of v = (case v of JBool b \<Rightarrow> Some b | _ \<Rightarrow> None)"

fun all_some :: "('a \<Rightarrow> 'b option) \<Rightarrow> 'a list \<Rightarrow> 'b list option" where
  "all_some f [] = Some []"
| "all_some f (x # xs) = Option.bind (f x) (\<lambda>y. map_option ((#) y) (all_some f xs))"

definition items_of :: "(json \<Rightarrow> 'a option) \<Rightarrow> json \<Rightarrow> 'a list option" where
  "items_of f v = (case v of JArr xs \<Rightarrow> all_some f xs | _ \<Rightarrow> None)"

definition optional_of :: "(json \<Rightarrow> 'a option) \<Rightarrow> json \<Rightarrow> 'a option option" where
  "optional_of f v = (if v = JUndef then Some None else map_option Some (f v))"

definition constraints_of :: "json \<Rightarrow> TreasuryConstraints option" where
  "constraints_of v = (let kvs = object_entries v in
     Option.bind (finite_of (obj_field kvs ''min_operating_cash_micro_usd'')) (\<lambda>operating.
     Option.bind (finite_of (obj_field kvs ''min_instant_liquidity_micro_usd'')) (\<lambda>liquidity.
     Option.bind (finite_of (obj_field kvs ''min_runway_months'')) (\<lambda>runway.
     Option.bind (finite_of (obj_field kvs ''max_single_bank_exposure_bps'')) (\<lambda>bank.
     Option.bind (finite_of (obj_field kvs ''max_stablecoin_issuer_exposure_bps'')) (\<lambda>stable.
     Option.bind (finite_of (obj_field kvs ''max_duration_days'')) (\<lambda>duration.
     Option.bind (items_of rail_of_json (obj_field kvs ''approved_rails'')) (\<lambda>rails.
     Option.bind (finite_of (obj_field kvs ''approval_required_above_micro_usd'')) (\<lambda>above.
     Option.bind (bool_of (obj_field kvs ''public_fallback_allowed'')) (\<lambda>fallback.
       Some \<lparr>tc_min_operating_cash = operating, tc_min_instant_liquidity = liquidity,
         tc_min_runway_months = runway, tc_max_single_bank_bps = bank, tc_max_stablecoin_bps = stable,
         tc_max_duration_days = duration, tc_approved_rails = rails, tc_approval_above = above,
         tc_public_fallback = fallback\<rparr>))))))))))"

definition intent_of_json :: "json \<Rightarrow> TreasuryIntentV1 option" where
  "intent_of_json v = (let kvs = object_entries v in
     Option.bind (text_of (obj_field kvs ''intent_id'')) (\<lambda>i.
     Option.bind (text_of (obj_field kvs ''owner_did'')) (\<lambda>ow.
     Option.bind (objective_of_json (obj_field kvs ''objective'')) (\<lambda>obj.
     Option.bind (finite_of (obj_field kvs ''horizon_days'')) (\<lambda>horizon.
     Option.bind (optional_of finite_of (obj_field kvs ''amount_micro_usd'')) (\<lambda>amount.
     Option.bind (constraints_of (obj_field kvs ''constraints'')) (\<lambda>constraints.
       Some \<lparr>ti_id = i, ti_owner = ow, ti_objective = obj, ti_horizon_days = horizon, ti_amount = amount,
         ti_constraints = constraints, ti_bundle = obj_field kvs ''encrypted_context_bundle'', ti_json = v\<rparr>)))))))"

definition policy_of_json :: "json \<Rightarrow> TreasuryPolicyV1 option" where
  "policy_of_json v = (let kvs = object_entries v in
     Option.bind (text_of (obj_field kvs ''policy_id'')) (\<lambda>i.
     Option.bind (text_of (obj_field kvs ''owner_did'')) (\<lambda>ow.
     Option.bind (items_of asset_of_json (obj_field kvs ''allowed_assets'')) (\<lambda>assets.
     Option.bind (items_of rail_of_json (obj_field kvs ''allowed_payment_rails'')) (\<lambda>payment.
     Option.bind (optional_of (items_of rail_of_json) (obj_field kvs ''allowed_rails'')) (\<lambda>rails.
     Option.bind (items_of text_of (obj_field kvs ''allowed_partners'')) (\<lambda>partners.
     Option.bind (finite_of (obj_field kvs ''max_action_micro_usd'')) (\<lambda>cap.
     Option.bind (finite_of (obj_field kvs ''daily_action_micro_usd'')) (\<lambda>daily.
     Option.bind (finite_of (obj_field kvs ''approval_required_above_micro_usd'')) (\<lambda>above.
     Option.bind (bool_of (obj_field kvs ''public_fallback_allowed'')) (\<lambda>fallback.
       Some \<lparr>tp_id = i, tp_owner = ow, tp_allowed_assets = assets, tp_allowed_payment_rails = payment,
         tp_allowed_rails = rails, tp_allowed_partners = partners, tp_max_action = cap,
         tp_daily_action = daily, tp_approval_above = above, tp_public_fallback = fallback,
         tp_json = v\<rparr>)))))))))))"

section \<open>The simulation request\<close>

definition leak_message :: string where
  "leak_message = ''request must not contain plaintext balances, payroll details, counterparties, portfolio, or strategy''"

definition validateTreasurySimulationRequest :: "json \<Rightarrow> (TreasuryPolicyV1 \<times> TreasuryIntentV1) result" where
  "validateTreasurySimulationRequest body =
     (if \<not> is_object body then throw ''request body must be an object''
      else if containsTreasuryPlaintextLeak body then throw leak_message
      else let kvs = object_entries body; policy = obj_field kvs ''policy''; intent = obj_field kvs ''intent'' in
        if obj_field kvs ''version'' \<noteq> JNum (num 1) then throw ''version must be 1''
        else if \<not> is_object policy then throw ''policy is required''
        else if \<not> is_object intent then throw ''intent is required''
        else case validateTreasuryPolicy (object_entries policy) of
          Some e \<Rightarrow> throw e
        | None \<Rightarrow>
            (case validateTreasuryIntent (object_entries intent) of
               Some e \<Rightarrow> throw e
             | None \<Rightarrow>
                 (case (policy_of_json policy, intent_of_json intent) of
                    (Some p, Some i) \<Rightarrow> return_ok (p, i)
                  | _ \<Rightarrow> throw ''cast'')))"

section \<open>What the validators guarantee\<close>

lemma or_else_None [simp]: "or_else e f = None \<longleftrightarrow> e = None \<and> f = None"
  by (simp add: or_else_def split: option.splits)

lemma error_if_None [simp]: "error_if b m = None \<longleftrightarrow> \<not> b"
  by (simp add: error_if_def)

lemma first_bad_None [simp]: "first_bad ok pre post kvs ks = None \<longleftrightarrow> list_all (\<lambda>k. ok (obj_field kvs k)) ks"
  by (induction ks) auto

lemma positive_finite: "isPositiveNumber v \<longleftrightarrow> (\<exists>r. finite_of v = Some r \<and> 0 < r)"
  by (auto simp: isPositiveNumber_def finite_of_def split: json.splits jsnum.splits)

lemma text_value: "is_text v \<longleftrightarrow> (\<exists>s. text_of v = Some s \<and> js_trim s \<noteq> [])"
  by (auto simp: is_text_def text_of_def split: json.splits)

lemma all_some_ok: "list_all (\<lambda>x. f x \<noteq> None) xs \<longleftrightarrow> (\<exists>ys. all_some f xs = Some ys)"
  by (induction xs) (auto split: bind_splits)

lemma all_some_Nil [simp]: "all_some f xs = Some [] \<longleftrightarrow> xs = []"
  by (cases xs) (auto split: bind_splits)

lemma all_some_texts:
  "list_all is_text xs \<Longrightarrow> \<exists>ys. all_some text_of xs = Some ys \<and> list_all (\<lambda>s. js_trim s \<noteq> []) ys"
  by (induction xs) (auto simp: text_value)

lemma rail_array: "isTreasuryRailArray v \<longleftrightarrow> (\<exists>rs. items_of rail_of_json v = Some rs \<and> rs \<noteq> [])"
  unfolding isTreasuryRailArray_def items_of_def isTreasuryRailKind_def all_some_ok
  by (auto split: json.splits)

lemma asset_array: "isTreasuryAssetArray v \<longleftrightarrow> (\<exists>rs. items_of asset_of_json v = Some rs \<and> rs \<noteq> [])"
  unfolding isTreasuryAssetArray_def items_of_def all_some_ok
  by (auto split: json.splits)

lemma string_array:
  "isStringArray v \<Longrightarrow> \<exists>ss. items_of text_of v = Some ss \<and> list_all (\<lambda>s. js_trim s \<noteq> []) ss \<and> (ss = [] \<longleftrightarrow> array_items v = [])"
  by (cases v) (auto simp: isStringArray_def items_of_def dest!: all_some_texts)

lemma false_bool: "v = JBool False \<Longrightarrow> bool_of v = Some False"
  by (simp add: bool_of_def)

end
