(* ===== verification/TreasuryRouting.thy ===== *)
theory TreasuryRouting imports TreasuryValidate
begin

text \<open>
  \<open>treasury-execution.ts\<close>, part three: how an intent becomes a plan of routes, and the guard that
  checks the plan against the policy. Sums, differences and products of amounts round as doubles do
  (\<open>fl\<close>). \<open>tr_duration\<close> is \<open>None\<close> for a route without the property and \<open>Some None\<close> for one where it is
  \<open>undefined\<close>: the two hash differently.
\<close>

section \<open>Routes and proposals\<close>

datatype TreasuryRouteAction =
    Reserve_operating_cash | Sweep_broker_cash | Ladder_t_bills | Ladder_bonds
  | Hold_stablecoin_buffer | Prepare_payment_buffer

datatype settlement_eta = Eta_instant | Eta_same_day | Eta_next_day | Eta_scheduled

datatype liquidity_class = Liq_instant | Liq_same_day | Liq_scheduled | Liq_term

datatype route_privacy =
    Private_context_partner_instruction
  | Shielded_settlement_subject_to_timing
  | Public_settlement_amount_timing_visible

fun action_name :: "TreasuryRouteAction \<Rightarrow> string" where
  "action_name Reserve_operating_cash = ''reserve_operating_cash''"
| "action_name Sweep_broker_cash = ''sweep_broker_cash''"
| "action_name Ladder_t_bills = ''ladder_t_bills''"
| "action_name Ladder_bonds = ''ladder_bonds''"
| "action_name Hold_stablecoin_buffer = ''hold_stablecoin_buffer''"
| "action_name Prepare_payment_buffer = ''prepare_payment_buffer''"

fun eta_name :: "settlement_eta \<Rightarrow> string" where
  "eta_name Eta_instant = ''instant''"
| "eta_name Eta_same_day = ''same_day''"
| "eta_name Eta_next_day = ''next_day''"
| "eta_name Eta_scheduled = ''scheduled''"

fun liquidity_name :: "liquidity_class \<Rightarrow> string" where
  "liquidity_name Liq_instant = ''instant''"
| "liquidity_name Liq_same_day = ''same_day''"
| "liquidity_name Liq_scheduled = ''scheduled''"
| "liquidity_name Liq_term = ''term''"

fun privacy_name :: "route_privacy \<Rightarrow> string" where
  "privacy_name Private_context_partner_instruction = ''private_context_partner_instruction''"
| "privacy_name Shielded_settlement_subject_to_timing = ''shielded_settlement_subject_to_timing''"
| "privacy_name Public_settlement_amount_timing_visible = ''public_settlement_amount_timing_visible''"

record TreasuryRouteScoreComponentsV1 =
  sc_yield :: int
  sc_liquidity :: int
  sc_leakage_penalty :: int
  sc_risk_penalty :: int
  sc_duration_penalty :: int

record TreasuryRouteCandidateV1 =
  tr_id :: string
  tr_rail :: TreasuryRailKind
  tr_action :: TreasuryRouteAction
  tr_asset :: TreasuryAsset
  tr_amount :: rat
  tr_partner :: string
  tr_eta :: settlement_eta
  tr_liquidity :: liquidity_class
  tr_duration :: "rat option option"
  tr_yield :: "int option"
  tr_leakage :: int
  tr_score :: int
  tr_components :: TreasuryRouteScoreComponentsV1
  tr_privacy :: route_privacy
  tr_flags :: "string list"

record TreasuryProposalV1 =
  pr_id :: string
  pr_intent :: string
  pr_owner :: string
  pr_objective :: TreasuryIntentObjective
  pr_created_at :: time
  pr_horizon_days :: rat
  pr_amount :: rat
  pr_routes :: "TreasuryRouteCandidateV1 list"
  pr_approval_required :: bool

fun opt_entry :: "string \<Rightarrow> ('a \<Rightarrow> json) \<Rightarrow> 'a option \<Rightarrow> (string \<times> json) list" where
  "opt_entry k f None = []"
| "opt_entry k f (Some v) = [(k, f v)]"

definition components_json :: "TreasuryRouteScoreComponentsV1 \<Rightarrow> json" where
  "components_json c = JObj [(''yield_bps'', JNum (num (sc_yield c))),
     (''liquidity_bps'', JNum (num (sc_liquidity c))),
     (''leakage_penalty_bps'', JNum (num (sc_leakage_penalty c))),
     (''risk_penalty_bps'', JNum (num (sc_risk_penalty c))),
     (''duration_penalty_bps'', JNum (num (sc_duration_penalty c)))]"

definition duration_json :: "rat option \<Rightarrow> json" where
  "duration_json d = (case d of None \<Rightarrow> JUndef | Some r \<Rightarrow> JNum (Fin r))"

definition route_json :: "TreasuryRouteCandidateV1 \<Rightarrow> json" where
  "route_json r = JObj
     ([(''version'', JNum (num 1)), (''route_id'', JStr (tr_id r)), (''rail'', JStr (rail_name (tr_rail r))),
       (''action'', JStr (action_name (tr_action r))), (''asset'', JStr (asset_name (tr_asset r))),
       (''amount_micro_usd'', JNum (Fin (tr_amount r))), (''partner_id'', JStr (tr_partner r)),
       (''settlement_eta'', JStr (eta_name (tr_eta r))),
       (''liquidity_class'', JStr (liquidity_name (tr_liquidity r)))] @
      opt_entry ''max_duration_days'' duration_json (tr_duration r) @
      opt_entry ''expected_yield_bps'' (\<lambda>y. JNum (num y)) (tr_yield r) @
      [(''leakage_score_bps'', JNum (num (tr_leakage r))), (''route_score_bps'', JNum (num (tr_score r))),
       (''score_components'', components_json (tr_components r)),
       (''privacy'', JStr (privacy_name (tr_privacy r))), (''risk_flags'', JArr (map JStr (tr_flags r)))])"

definition proposal_json :: "TreasuryProposalV1 \<Rightarrow> json" where
  "proposal_json p = JObj [(''version'', JNum (num 1)), (''proposal_id'', JStr (pr_id p)),
     (''intent_id'', JStr (pr_intent p)), (''owner_did'', JStr (pr_owner p)),
     (''objective'', JStr (objective_name (pr_objective p))), (''created_at'', JStr (to_iso (pr_created_at p))),
     (''horizon_days'', JNum (Fin (pr_horizon_days p))), (''amount_micro_usd'', JNum (Fin (pr_amount p))),
     (''routes'', JArr (map route_json (pr_routes p))), (''approval_required'', JBool (pr_approval_required p)),
     (''public_fallback_allowed'', JBool False)]"

section \<open>Routing\<close>

definition uses_asset :: "TreasuryPolicyV1 \<Rightarrow> TreasuryAsset \<Rightarrow> bool" where
  "uses_asset policy a \<longleftrightarrow> a \<in> set (tp_allowed_assets policy)"

definition allowedRailsForPolicy :: "TreasuryPolicyV1 \<Rightarrow> TreasuryRailKind list" where
  "allowedRailsForPolicy policy =
     (case tp_allowed_rails policy of
        Some (r # rs) \<Rightarrow> r # rs
      | _ \<Rightarrow> js_uniq (tp_allowed_payment_rails policy @
          (if uses_asset policy USD then [Bank_cash] else []) @
          (if uses_asset policy T_BILL then [Treasury_bills] else []) @
          (if uses_asset policy BOND_FUND then [Bond_ladder] else []) @
          (if uses_asset policy BROKER_SWEEP then [Broker_cash_sweep] else []) @
          (if uses_asset policy USDC \<or> uses_asset policy USDT
           then [Stablecoin_public, Stablecoin_shielded] else [])))"

definition capByBps :: "rat \<Rightarrow> rat \<Rightarrow> rat" where
  "capByBps amount bps = (if 0 < bps then of_int \<lfloor>fl (fl (amount * bps) / 10000)\<rfloor> else amount)"

definition sum_amounts :: "TreasuryRouteCandidateV1 list \<Rightarrow> rat" where
  "sum_amounts routes = foldl (\<lambda>total r. fl (total + tr_amount r)) 0 routes"

definition sumRouteAmounts :: "TreasuryRouteCandidateV1 list \<Rightarrow> TreasuryRouteAction list \<Rightarrow> rat" where
  "sumRouteAmounts routes actions = sum_amounts (filter (\<lambda>r. tr_action r \<in> set actions) routes)"

text \<open>\<open>cap || amount\<close>: a cap of zero is no cap.\<close>

definition capped :: "rat \<Rightarrow> rat \<Rightarrow> rat" where
  "capped amount cap = min amount (if cap = 0 then amount else cap)"

definition operating_route :: "TreasuryRailKind list \<Rightarrow> string \<Rightarrow> rat \<Rightarrow> rat \<Rightarrow> TreasuryRouteCandidateV1 list" where
  "operating_route rails partner bankCap bankCashAmount =
     (if bankCashAmount > 0 \<and> Bank_cash \<in> set rails
      then [\<lparr>tr_id = ''route_operating_cash'', tr_rail = Bank_cash, tr_action = Reserve_operating_cash,
        tr_asset = USD, tr_amount = bankCashAmount, tr_partner = partner, tr_eta = Eta_instant,
        tr_liquidity = Liq_instant, tr_duration = None, tr_yield = None, tr_leakage = 20, tr_score = 100,
        tr_components = \<lparr>sc_yield = 0, sc_liquidity = 120, sc_leakage_penalty = 20, sc_risk_penalty = 0,
          sc_duration_penalty = 0\<rparr>,
        tr_privacy = Private_context_partner_instruction,
        tr_flags = (if bankCashAmount \<ge> bankCap \<and> bankCap > 0 then [''single_bank_cap''] else [])\<rparr>]
      else [])"

definition reserve_route :: "TreasuryRailKind list \<Rightarrow> string \<Rightarrow> rat \<Rightarrow> TreasuryRouteCandidateV1 list" where
  "reserve_route rails partner reserveShortfall =
     (if reserveShortfall > 0 \<and> Broker_cash_sweep \<in> set rails
      then [\<lparr>tr_id = ''route_broker_sweep_reserve'', tr_rail = Broker_cash_sweep,
        tr_action = Sweep_broker_cash, tr_asset = BROKER_SWEEP, tr_amount = reserveShortfall,
        tr_partner = partner, tr_eta = Eta_same_day, tr_liquidity = Liq_same_day, tr_duration = None,
        tr_yield = Some 425, tr_leakage = 25, tr_score = 440,
        tr_components = \<lparr>sc_yield = 425, sc_liquidity = 80, sc_leakage_penalty = 25, sc_risk_penalty = 40,
          sc_duration_penalty = 0\<rparr>,
        tr_privacy = Private_context_partner_instruction, tr_flags = [''broker_custody'']\<rparr>]
      else [])"

definition stablecoin_route :: "TreasuryPolicyV1 \<Rightarrow> TreasuryRailKind list \<Rightarrow> string \<Rightarrow> rat \<Rightarrow> TreasuryRouteCandidateV1 list" where
  "stablecoin_route policy rails partner stablecoinAmount =
     (let shielded = Stablecoin_shielded \<in> set rails; publicStable = Stablecoin_public \<in> set rails;
          leakage = (if shielded then 35 else 80) in
      if stablecoinAmount > 0 \<and> (shielded \<or> publicStable)
      then [\<lparr>tr_id = ''route_stablecoin_buffer'',
        tr_rail = (if shielded then Stablecoin_shielded else Stablecoin_public),
        tr_action = Hold_stablecoin_buffer, tr_asset = (if uses_asset policy USDC then USDC else USDT),
        tr_amount = stablecoinAmount, tr_partner = partner,
        tr_eta = (if shielded then Eta_same_day else Eta_instant), tr_liquidity = Liq_instant,
        tr_duration = None, tr_yield = Some 0, tr_leakage = leakage,
        tr_score = (if shielded then 45 else - 30),
        tr_components = \<lparr>sc_yield = 0, sc_liquidity = 120, sc_leakage_penalty = leakage,
          sc_risk_penalty = (if shielded then 40 else 70), sc_duration_penalty = 0\<rparr>,
        tr_privacy = (if shielded then Shielded_settlement_subject_to_timing
          else Public_settlement_amount_timing_visible),
        tr_flags = (if shielded then [''shielded_pool_liquidity''] else [''public_amount_timing''])\<rparr>]
      else [])"

definition idle_route :: "TreasuryIntentV1 \<Rightarrow> TreasuryRailKind list \<Rightarrow> string \<Rightarrow> rat \<Rightarrow> TreasuryRouteCandidateV1 list" where
  "idle_route intent rails partner remaining =
     (let useTbills = Treasury_bills \<in> set rails;
          useBonds = (\<not> useTbills \<and> Bond_ladder \<in> set rails);
          useSweep = (\<not> useTbills \<and> \<not> useBonds \<and> Broker_cash_sweep \<in> set rails);
          pick = (\<lambda>t b s. if useTbills then t else if useBonds then b else s) in
      if remaining > 0 \<and> (useTbills \<or> useBonds \<or> useSweep)
      then [\<lparr>tr_id = (if useTbills then ''route_t_bill_ladder'' else if useBonds then ''route_bond_ladder''
          else ''route_broker_sweep_idle''),
        tr_rail = (if useTbills then Treasury_bills else if useBonds then Bond_ladder else Broker_cash_sweep),
        tr_action = (if useTbills then Ladder_t_bills else if useBonds then Ladder_bonds else Sweep_broker_cash),
        tr_asset = (if useTbills then T_BILL else if useBonds then BOND_FUND else BROKER_SWEEP),
        tr_amount = remaining, tr_partner = partner, tr_eta = Eta_next_day,
        tr_liquidity = (if useSweep then Liq_same_day else Liq_term),
        tr_duration = Some (if useSweep then None
          else Some (min (ti_horizon_days intent) (tc_max_duration_days (ti_constraints intent)))),
        tr_yield = Some (pick 480 430 425), tr_leakage = pick 30 45 25, tr_score = pick 450 245 440,
        tr_components = \<lparr>sc_yield = pick 480 430 425,
          sc_liquidity = (if useSweep then 80 else if useTbills then 20 else 10),
          sc_leakage_penalty = pick 30 45 25, sc_risk_penalty = pick 20 120 40,
          sc_duration_penalty = (if useSweep then 0 else if useTbills then 0 else 30)\<rparr>,
        tr_privacy = Private_context_partner_instruction,
        tr_flags = (if useBonds then [''duration_risk'', ''credit_risk''] else [])\<rparr>]
      else [])"

definition payment_route :: "TreasuryIntentV1 \<Rightarrow> TreasuryRailKind list \<Rightarrow> string \<Rightarrow> TreasuryRouteCandidateV1 list \<Rightarrow>
    TreasuryRouteCandidateV1 list" where
  "payment_route intent rails partner routes =
     (if ti_objective intent = Fund_payment_schedule \<and> routes \<noteq> []
      then case List.find (\<lambda>r. r \<in> set rails) [Rtp, Ach, Wire] of
        None \<Rightarrow> []
      | Some rail \<Rightarrow>
          let leakage = (if rail = Wire then 70 else 55) in
          [\<lparr>tr_id = ''route_payment_buffer'', tr_rail = rail, tr_action = Prepare_payment_buffer,
            tr_asset = USD, tr_amount = 0, tr_partner = partner,
            tr_eta = (if rail = Ach then Eta_next_day else Eta_same_day), tr_liquidity = Liq_scheduled,
            tr_duration = None, tr_yield = None, tr_leakage = leakage,
            tr_score = (if rail = Wire then - 40 else - 25),
            tr_components = \<lparr>sc_yield = 0, sc_liquidity = 60, sc_leakage_penalty = leakage,
              sc_risk_penalty = 30, sc_duration_penalty = 0\<rparr>,
            tr_privacy = Private_context_partner_instruction,
            tr_flags = [''counterparty_hidden_in_sealed_bundle'']\<rparr>]
      else [])"

definition instant_actions :: "TreasuryRouteAction list" where
  "instant_actions = [Reserve_operating_cash, Sweep_broker_cash, Hold_stablecoin_buffer]"

definition route_partner :: "TreasuryPolicyV1 \<Rightarrow> string" where
  "route_partner policy =
     (case tp_allowed_partners policy of [] \<Rightarrow> ''mock_treasury_partner'' | p # ps \<Rightarrow> p)"

definition intent_rails :: "TreasuryPolicyV1 \<Rightarrow> TreasuryIntentV1 \<Rightarrow> TreasuryRailKind list" where
  "intent_rails policy intent =
     filter (\<lambda>r. r \<in> set (tc_approved_rails (ti_constraints intent))) (allowedRailsForPolicy policy)"

definition routeTreasuryIntent :: "TreasuryPolicyV1 \<Rightarrow> TreasuryIntentV1 \<Rightarrow> rat \<Rightarrow> TreasuryRouteCandidateV1 list" where
  "routeTreasuryIntent policy intent amount =
     (if \<not> 0 < amount then []
      else let c = ti_constraints intent; rails = intent_rails policy intent;
        partner = route_partner policy;
        bankCap = capByBps amount (tc_max_single_bank_bps c);
        stablecoinCap = capByBps amount (tc_max_stablecoin_bps c);
        operatingTarget = min amount (tc_min_operating_cash c);
        bankCashAmount = capped operatingTarget bankCap;
        routes1 = operating_route rails partner bankCap bankCashAmount;
        reserveShortfall = max 0 (fl (operatingTarget - bankCashAmount));
        routes2 = routes1 @ reserve_route rails partner reserveShortfall;
        instantTarget = min amount (max (tc_min_instant_liquidity c) (tc_min_operating_cash c));
        currentInstant = sumRouteAmounts routes2 instant_actions;
        instantShortfall = max 0 (fl (instantTarget - currentInstant));
        stablecoinAmount = capped instantShortfall stablecoinCap;
        routes3 = routes2 @ stablecoin_route policy rails partner stablecoinAmount;
        remaining = max 0 (fl (amount - sum_amounts routes3));
        routes4 = routes3 @ idle_route intent rails partner remaining
      in routes4 @ payment_route intent rails partner routes4)"

definition proposed_amount :: "TreasuryPolicyV1 \<Rightarrow> TreasuryIntentV1 \<Rightarrow> rat" where
  "proposed_amount policy intent = (case ti_amount intent of None \<Rightarrow> tp_max_action policy | Some a \<Rightarrow> a)"

definition buildTreasuryProposal :: "TreasuryPolicyV1 \<Rightarrow> TreasuryIntentV1 \<Rightarrow> string \<Rightarrow> time \<Rightarrow> TreasuryProposalV1" where
  "buildTreasuryProposal policy intent uuid now =
     (let amount = proposed_amount policy intent in
      \<lparr>pr_id = ''treasury_proposal_'' @ uuid, pr_intent = ti_id intent, pr_owner = ti_owner intent,
       pr_objective = ti_objective intent, pr_created_at = now, pr_horizon_days = ti_horizon_days intent,
       pr_amount = amount, pr_routes = routeTreasuryIntent policy intent amount,
       pr_approval_required =
         (amount > min (tp_approval_above policy) (tc_approval_above (ti_constraints intent)))\<rparr>)"

section \<open>The guard\<close>

datatype TreasuryGuardReason =
    Owner_mismatch | Invalid_amount | Public_fallback_denied | Rail_not_allowed | Asset_not_allowed
  | Partner_not_allowed | Amount_over_cap | Daily_cap_exceeded | Operating_cash_below_min
  | Instant_liquidity_below_min | Duration_too_long

record TreasuryGuardResult =
  gr_policy_hash :: string
  gr_intent_hash :: string
  gr_proposal_hash :: string
  gr_outcome :: "TreasuryGuardReason + bool"
  gr_explanation :: string

text \<open>The checks of one route, in order; a duration that is absent or zero is not checked.\<close>

definition route_refusal :: "TreasuryPolicyV1 \<Rightarrow> TreasuryIntentV1 \<Rightarrow> TreasuryRouteCandidateV1 \<Rightarrow>
    (TreasuryGuardReason \<times> string) option" where
  "route_refusal policy intent r =
     (if tr_rail r \<notin> set (allowedRailsForPolicy policy) \<or>
         tr_rail r \<notin> set (tc_approved_rails (ti_constraints intent))
      then Some (Rail_not_allowed, rail_name (tr_rail r) @ '' is not approved for this treasury policy.'')
      else if \<not> uses_asset policy (tr_asset r)
      then Some (Asset_not_allowed, asset_name (tr_asset r) @ '' is not approved for this treasury policy.'')
      else if tr_partner r \<notin> set (tp_allowed_partners policy)
      then Some (Partner_not_allowed, tr_partner r @ '' is not an approved partner.'')
      else if (case tr_duration r of Some (Some d) \<Rightarrow>
             d \<noteq> 0 \<and> d > tc_max_duration_days (ti_constraints intent) | _ \<Rightarrow> False)
      then Some (Duration_too_long, ''Treasury route duration exceeds the intent limit.'')
      else None)"

fun first_refusal :: "('a \<Rightarrow> 'b option) \<Rightarrow> 'a list \<Rightarrow> 'b option" where
  "first_refusal f [] = None"
| "first_refusal f (x # xs) = (case f x of None \<Rightarrow> first_refusal f xs | Some e \<Rightarrow> Some e)"

definition proposal_refusal :: "TreasuryPolicyV1 \<Rightarrow> TreasuryIntentV1 \<Rightarrow> TreasuryProposalV1 \<Rightarrow>
    (TreasuryGuardReason \<times> string) option" where
  "proposal_refusal policy intent p =
     (if tp_owner policy \<noteq> ti_owner intent \<or> pr_owner p \<noteq> ti_owner intent
      then Some (Owner_mismatch, ''Treasury policy, intent, and proposal owners must match.'')
      else if \<not> 0 < pr_amount p then Some (Invalid_amount, ''Treasury intent amount must be positive.'')
      else if tp_public_fallback policy \<or> tc_public_fallback (ti_constraints intent)
      then Some (Public_fallback_denied, ''Treasury execution cannot fall back to public rails.'')
      else if pr_amount p > tp_max_action policy
      then Some (Amount_over_cap, ''Treasury action exceeds the per-action policy cap.'')
      else if pr_amount p > tp_daily_action policy
      then Some (Daily_cap_exceeded, ''Treasury action exceeds the daily policy cap.'')
      else case first_refusal (route_refusal policy intent) (pr_routes p) of
        Some e \<Rightarrow> Some e
      | None \<Rightarrow>
          if sumRouteAmounts (pr_routes p) [Reserve_operating_cash] < tc_min_operating_cash (ti_constraints intent)
          then Some (Operating_cash_below_min, ''Plan does not preserve required operating cash.'')
          else if sumRouteAmounts (pr_routes p) instant_actions < tc_min_instant_liquidity (ti_constraints intent)
          then Some (Instant_liquidity_below_min, ''Plan does not preserve required instant liquidity.'')
          else None)"

definition evaluateTreasuryProposal :: "host \<Rightarrow> TreasuryPolicyV1 \<Rightarrow> TreasuryIntentV1 \<Rightarrow> TreasuryProposalV1 \<Rightarrow>
    TreasuryGuardResult" where
  "evaluateTreasuryProposal h policy intent p =
     (let refusal = proposal_refusal policy intent p in
      \<lparr>gr_policy_hash = hashTreasuryValue h (tp_json policy),
       gr_intent_hash = hashTreasuryValue h (ti_json intent),
       gr_proposal_hash = hashTreasuryValue h (proposal_json p),
       gr_outcome = (case refusal of None \<Rightarrow> Inr (pr_approval_required p) | Some (reason, why) \<Rightarrow> Inl reason),
       gr_explanation = (case refusal of
          None \<Rightarrow> ''Treasury proposal satisfies private routing and policy constraints.''
        | Some (reason, why) \<Rightarrow> why)\<rparr>)"

section \<open>Approval and simulation\<close>

record TreasuryApprovalV1 =
  ap_hash :: string
  ap_expires_at :: string

record approval_fields =
  af_owner :: string
  af_policy_hash :: string
  af_proposal_hash :: string
  af_amount :: rat
  af_rails :: "TreasuryRailKind list"
  af_expires_at :: string

definition approval_json :: "approval_fields \<Rightarrow> json" where
  "approval_json f = JObj [(''version'', JNum (num 1)), (''scope'', JStr ''treasury_proposal''),
     (''owner_did'', JStr (af_owner f)), (''policy_hash'', JStr (af_policy_hash f)),
     (''proposal_hash'', JStr (af_proposal_hash f)), (''amount_micro_usd'', JNum (Fin (af_amount f))),
     (''rails'', JArr (map JStr (sort_by (\<le>) (map rail_name (af_rails f))))),
     (''expires_at'', JStr (af_expires_at f))]"

definition buildTreasuryApprovalHash :: "host \<Rightarrow> approval_fields \<Rightarrow> string" where
  "buildTreasuryApprovalHash h f = hashTreasuryValue h (approval_json f)"

definition buildTreasuryApproval :: "host \<Rightarrow> approval_fields \<Rightarrow> TreasuryApprovalV1" where
  "buildTreasuryApproval h f = \<lparr>ap_hash = buildTreasuryApprovalHash h f, ap_expires_at = af_expires_at f\<rparr>"

definition addMinutes :: "time \<Rightarrow> int \<Rightarrow> time" where
  "addMinutes t minutes = t + minutes * 60000"

record TreasurySimulationResponseV1 =
  sim_ok :: bool
  sim_proposal :: TreasuryProposalV1
  sim_approval :: "TreasuryApprovalV1 option"
  sim_guard :: TreasuryGuardResult
  sim_leakage :: int
  sim_blocked :: "TreasuryGuardReason option"

text \<open>The clock is read once for the approval (\<open>now\<close>) and once for the proposal (\<open>now'\<close>): the call
  passes its optional \<open>now\<close> on only when it was given one.\<close>

definition simulateTreasuryIntent :: "host \<Rightarrow> TreasuryPolicyV1 \<Rightarrow> TreasuryIntentV1 \<Rightarrow> string \<Rightarrow> time \<Rightarrow> time \<Rightarrow>
    TreasurySimulationResponseV1" where
  "simulateTreasuryIntent h policy intent uuid now now' =
     (let proposal = buildTreasuryProposal policy intent uuid now';
          guard = evaluateTreasuryProposal h policy intent proposal in
      case gr_outcome guard of
        Inr required \<Rightarrow>
          \<lparr>sim_ok = True, sim_proposal = proposal,
           sim_approval = Some (buildTreasuryApproval h \<lparr>af_owner = ti_owner intent,
             af_policy_hash = gr_policy_hash guard, af_proposal_hash = gr_proposal_hash guard,
             af_amount = pr_amount proposal, af_rails = map tr_rail (pr_routes proposal),
             af_expires_at = to_iso (addMinutes now 15)\<rparr>),
           sim_guard = guard, sim_leakage = foldr max (map tr_leakage (pr_routes proposal)) 0,
           sim_blocked = None\<rparr>
      | Inl reason \<Rightarrow>
          \<lparr>sim_ok = False, sim_proposal = proposal, sim_approval = None, sim_guard = guard,
           sim_leakage = 0, sim_blocked = Some reason\<rparr>)"

end
