(* ===== verification/TreasuryTyping.thy ===== *)
theory TreasuryTyping imports TreasuryScan
begin

text \<open>
  What validation of a request guarantees: the typed policy and intent exist whenever no rule is
  violated (the cast never fails), and their fields satisfy what the later code relies on.
\<close>

definition policy_ok :: "TreasuryPolicyV1 \<Rightarrow> bool" where
  "policy_ok p \<longleftrightarrow> js_trim (tp_id p) \<noteq> [] \<and> js_trim (tp_owner p) \<noteq> [] \<and> tp_allowed_assets p \<noteq> [] \<and>
     tp_allowed_payment_rails p \<noteq> [] \<and> tp_allowed_rails p \<noteq> Some [] \<and> tp_allowed_partners p \<noteq> [] \<and>
     list_all (\<lambda>s. js_trim s \<noteq> []) (tp_allowed_partners p) \<and> 0 < tp_max_action p \<and> 0 < tp_daily_action p \<and>
     0 < tp_approval_above p \<and> \<not> tp_public_fallback p"

definition constraints_ok :: "TreasuryConstraints \<Rightarrow> bool" where
  "constraints_ok c \<longleftrightarrow> 0 < tc_min_operating_cash c \<and> 0 < tc_min_instant_liquidity c \<and>
     0 < tc_min_runway_months c \<and> 0 < tc_max_single_bank_bps c \<and> 0 < tc_max_stablecoin_bps c \<and>
     0 < tc_max_duration_days c \<and> tc_approved_rails c \<noteq> [] \<and> 0 < tc_approval_above c \<and> \<not> tc_public_fallback c"

definition intent_ok :: "TreasuryIntentV1 \<Rightarrow> bool" where
  "intent_ok i \<longleftrightarrow> js_trim (ti_id i) \<noteq> [] \<and> js_trim (ti_owner i) \<noteq> [] \<and> 0 < ti_horizon_days i \<and>
     (case ti_amount i of None \<Rightarrow> True | Some a \<Rightarrow> 0 < a) \<and> constraints_ok (ti_constraints i) \<and>
     validateEncryptedBundle (ti_bundle i) = None"

declare first_bad.simps [simp del]

lemma optional_rails:
  assumes "v = JUndef \<or> isTreasuryRailArray v"
  obtains rs where "optional_of (items_of rail_of_json) v = Some rs" "rs \<noteq> Some []"
  using assms unfolding rail_array by (cases "v = JUndef") (auto simp: optional_of_def)

lemma optional_amount:
  assumes "v = JUndef \<or> isPositiveNumber v"
  obtains a where "optional_of finite_of v = Some a" "case a of None \<Rightarrow> True | Some r \<Rightarrow> 0 < r"
  using assms unfolding positive_finite by (cases "v = JUndef") (auto simp: optional_of_def)

lemma valid_policy:
  assumes "validateTreasuryPolicy kvs = None"
  obtains p where "policy_of_json (JObj kvs) = Some p" "policy_ok p" "tp_json p = JObj kvs"
proof -
  let ?f = "obj_field kvs"
  note v = assms [unfolded validateTreasuryPolicy_def, simplified]
  obtain i ow where ids: "text_of (?f ''policy_id'') = Some i" "js_trim i \<noteq> []"
      "text_of (?f ''owner_did'') = Some ow" "js_trim ow \<noteq> []"
    using v by (auto simp: text_value)
  obtain ats where assets: "items_of asset_of_json (?f ''allowed_assets'') = Some ats" "ats \<noteq> []"
    using v by (auto simp: asset_array)
  obtain ps where pay: "items_of rail_of_json (?f ''allowed_payment_rails'') = Some ps" "ps \<noteq> []"
    using v by (auto simp: rail_array)
  obtain rs where rails: "optional_of (items_of rail_of_json) (?f ''allowed_rails'') = Some rs" "rs \<noteq> Some []"
    using v optional_rails [of "?f ''allowed_rails''"] by blast
  obtain ss where partners: "items_of text_of (?f ''allowed_partners'') = Some ss"
      "list_all (\<lambda>s. js_trim s \<noteq> []) ss" "ss \<noteq> []"
    using v string_array [of "?f ''allowed_partners''"] by auto
  obtain a b c where nums: "finite_of (?f ''max_action_micro_usd'') = Some a" "0 < a"
      "finite_of (?f ''daily_action_micro_usd'') = Some b" "0 < b"
      "finite_of (?f ''approval_required_above_micro_usd'') = Some c" "0 < c"
    using v by (auto simp: positive_finite)
  have "bool_of (?f ''public_fallback_allowed'') = Some False" using v by (simp add: bool_of_def)
  then show ?thesis
    by (intro that [of "\<lparr>tp_id = i, tp_owner = ow, tp_allowed_assets = ats, tp_allowed_payment_rails = ps,
        tp_allowed_rails = rs, tp_allowed_partners = ss, tp_max_action = a, tp_daily_action = b,
        tp_approval_above = c, tp_public_fallback = False, tp_json = JObj kvs\<rparr>"])
      (simp_all add: policy_of_json_def policy_ok_def ids assets pay rails partners nums)
qed

lemma valid_constraints:
  assumes "validateConstraints kvs = None"
  obtains c where "constraints_of (JObj kvs) = Some c" "constraints_ok c"
proof -
  let ?f = "obj_field kvs"
  note v = assms [unfolded validateConstraints_def constraint_numbers_def, simplified]
  obtain a1 a2 a3 a4 a5 a6 a7 where nums:
      "finite_of (?f ''min_operating_cash_micro_usd'') = Some a1" "0 < a1"
      "finite_of (?f ''min_instant_liquidity_micro_usd'') = Some a2" "0 < a2"
      "finite_of (?f ''min_runway_months'') = Some a3" "0 < a3"
      "finite_of (?f ''max_single_bank_exposure_bps'') = Some a4" "0 < a4"
      "finite_of (?f ''max_stablecoin_issuer_exposure_bps'') = Some a5" "0 < a5"
      "finite_of (?f ''max_duration_days'') = Some a6" "0 < a6"
      "finite_of (?f ''approval_required_above_micro_usd'') = Some a7" "0 < a7"
    using v by (auto simp: positive_finite)
  obtain rs where rails: "items_of rail_of_json (?f ''approved_rails'') = Some rs" "rs \<noteq> []"
    using v by (auto simp: rail_array)
  have "bool_of (?f ''public_fallback_allowed'') = Some False" using v by (simp add: bool_of_def)
  then show ?thesis
    by (intro that [of "\<lparr>tc_min_operating_cash = a1, tc_min_instant_liquidity = a2, tc_min_runway_months = a3,
        tc_max_single_bank_bps = a4, tc_max_stablecoin_bps = a5, tc_max_duration_days = a6,
        tc_approved_rails = rs, tc_approval_above = a7, tc_public_fallback = False\<rparr>"])
      (simp_all add: constraints_of_def constraints_ok_def nums rails)
qed

lemma valid_intent:
  assumes "validateTreasuryIntent kvs = None"
  obtains i where "intent_of_json (JObj kvs) = Some i" "intent_ok i" "ti_json i = JObj kvs"
proof -
  let ?f = "obj_field kvs"
  note v = assms [unfolded validateTreasuryIntent_def, simplified]
  obtain i ow where ids: "text_of (?f ''intent_id'') = Some i" "js_trim i \<noteq> []"
      "text_of (?f ''owner_did'') = Some ow" "js_trim ow \<noteq> []"
    using v by (auto simp: text_value)
  obtain ob where obj: "objective_of_json (?f ''objective'') = Some ob"
    using v by (auto simp: isTreasuryObjective_def)
  obtain hz where hz: "finite_of (?f ''horizon_days'') = Some hz" "0 < hz"
    using v by (auto simp: positive_finite)
  obtain am where am: "optional_of finite_of (?f ''amount_micro_usd'') = Some am"
      "case am of None \<Rightarrow> True | Some r \<Rightarrow> 0 < r"
    using v optional_amount [of "?f ''amount_micro_usd''"] by blast
  obtain cs where cs: "?f ''constraints'' = JObj cs" using v by (cases "?f ''constraints''") auto
  obtain c where c: "constraints_of (JObj cs) = Some c" "constraints_ok c"
    using v cs by (auto elim: valid_constraints)
  show ?thesis
    by (intro that [of "\<lparr>ti_id = i, ti_owner = ow, ti_objective = ob, ti_horizon_days = hz, ti_amount = am,
        ti_constraints = c, ti_bundle = ?f ''encrypted_context_bundle'', ti_json = JObj kvs\<rparr>"])
      (use v in \<open>simp_all add: intent_of_json_def intent_ok_def ids obj hz am cs c\<close>)
qed

lemma validated_request:
  assumes "validateTreasurySimulationRequest body = Inr (p, i)"
  obtains kvs pk ik where "body = JObj kvs" "obj_field kvs ''policy'' = JObj pk" "obj_field kvs ''intent'' = JObj ik"
    "\<not> containsTreasuryPlaintextLeak body" "obj_field kvs ''version'' = JNum (num 1)"
    "validateTreasuryPolicy pk = None" "validateTreasuryIntent ik = None"
    "policy_of_json (JObj pk) = Some p" "intent_of_json (JObj ik) = Some i"
proof -
  note v = assms [unfolded validateTreasurySimulationRequest_def Let_def]
  obtain kvs where b: "body = JObj kvs" using v by (cases body) auto
  obtain pk where p: "obj_field kvs ''policy'' = JObj pk" using v b
    by (cases "obj_field kvs ''policy''") (auto split: if_splits)
  obtain ik where i: "obj_field kvs ''intent'' = JObj ik" using v b
    by (cases "obj_field kvs ''intent''") (auto split: if_splits)
  show ?thesis
    by (rule that [OF b p i]) (use v b p i in \<open>auto split: if_splits option.splits simp del: containsTreasuryPlaintextLeak.simps(1)\<close>)
qed

lemma validation_well_typed:
  assumes "validateTreasurySimulationRequest body = Inr (p, i)"
  shows "policy_ok p" "intent_ok i"
  using assms by (auto elim!: validated_request valid_policy valid_intent)

text \<open>The typed values exist whenever the rules hold, so the last branch of the validator, the cast
  that would fail, is never taken.\<close>

definition request_rules :: "json \<Rightarrow> bool" where
  "request_rules body \<longleftrightarrow> (\<exists>kvs pk ik. body = JObj kvs \<and> \<not> leaks scanned_keys body \<and>
     obj_field kvs ''version'' = JNum (num 1) \<and> obj_field kvs ''policy'' = JObj pk \<and>
     obj_field kvs ''intent'' = JObj ik \<and> validateTreasuryPolicy pk = None \<and> validateTreasuryIntent ik = None)"

lemma validation_complete:
  assumes "request_rules body"
  shows "\<exists>p i. validateTreasurySimulationRequest body = Inr (p, i)"
proof -
  obtain kvs pk ik where b: "body = JObj kvs" "\<not> leaks scanned_keys body"
      "obj_field kvs ''version'' = JNum (num 1)" "obj_field kvs ''policy'' = JObj pk"
      "obj_field kvs ''intent'' = JObj ik" "validateTreasuryPolicy pk = None" "validateTreasuryIntent ik = None"
    using assms by (auto simp: request_rules_def)
  from valid_policy [OF b(6)] obtain p where "policy_of_json (JObj pk) = Some p" .
  moreover from valid_intent [OF b(7)] obtain i where "intent_of_json (JObj ik) = Some i" .
  moreover have "\<not> containsTreasuryPlaintextLeak (JObj kvs)" using b(1,2) treasury_scanner by blast
  ultimately show ?thesis using b
    by (simp add: validateTreasurySimulationRequest_def del: containsTreasuryPlaintextLeak.simps(1))
qed

lemma validation_sound:
  "validateTreasurySimulationRequest body = Inr (p, i) \<Longrightarrow> request_rules body"
  by (erule validated_request) (unfold request_rules_def treasury_scanner, blast)

end
