(* ===== verification/TreasuryPlan.thy ===== *)
theory TreasuryPlan imports TreasuryRouting TreasuryTyping
begin

text \<open>
  What a routed plan looks like. For whole micro-dollar amounts below 2^53 the doubles of the source are
  exact, and a plan is the concatenation of at most five routes whose amounts are given in closed
  form; the properties of plans and of the guard follow from that form.
\<close>

section \<open>Whole amounts\<close>

definition money :: "rat \<Rightarrow> bool" where
  "money x \<longleftrightarrow> x = of_int \<lfloor>x\<rfloor> \<and> 0 \<le> x \<and> x < 2 ^ 53"

lemma moneyE:
  assumes "money x"
  obtains n where "x = of_int n" "0 \<le> n" "n < 2 ^ 53"
proof
  show "x = of_int \<lfloor>x\<rfloor>" using assms by (simp add: money_def)
  show "0 \<le> \<lfloor>x\<rfloor>" using assms by (simp add: money_def)
  have "of_int \<lfloor>x\<rfloor> < (of_int (2 ^ 53) :: rat)" using assms by (simp add: money_def)
  then show "\<lfloor>x\<rfloor> < 2 ^ 53" by (simp only: of_int_less_iff)
qed

lemma money_of_int [simp]: "money (of_int n) \<longleftrightarrow> 0 \<le> n \<and> n < 2 ^ 53"
proof -
  have "(of_int n :: rat) < 2 ^ 53 \<longleftrightarrow> (of_int n :: rat) < of_int (2 ^ 53)" by simp
  also have "\<dots> \<longleftrightarrow> n < 2 ^ 53" by (simp only: of_int_less_iff)
  finally show ?thesis by (simp add: money_def)
qed

lemma money_0 [simp]: "money 0"
  by (simp add: money_def)

lemma money_nonneg: "money x \<Longrightarrow> 0 \<le> x"
  by (simp add: money_def)

lemma money_fl: "money x \<Longrightarrow> fl x = x"
  by (elim moneyE) (simp add: fl_int_small)

lemma money_diff: "money x \<Longrightarrow> money y \<Longrightarrow> y \<le> x \<Longrightarrow> money (x - y)"
  by (elim moneyE) (auto simp flip: of_int_diff)

lemma money_add: "money x \<Longrightarrow> money y \<Longrightarrow> x + y \<le> z \<Longrightarrow> money z \<Longrightarrow> money (x + y)"
  by (elim moneyE) (auto simp flip: of_int_add)

lemma money_min [simp]: "money x \<Longrightarrow> money y \<Longrightarrow> money (min x y)"
  by (simp add: min_def)

lemma money_max [simp]: "money x \<Longrightarrow> money y \<Longrightarrow> money (max x y)"
  by (simp add: max_def)

lemma fl_minus: "fl (- x) = - fl x"
  by (simp add: fl_def)

lemma fl_nonneg: "0 \<le> x \<Longrightarrow> 0 \<le> fl x"
proof -
  assume "0 \<le> x"
  moreover have "0 \<le> half_even q" if "0 \<le> q" for q
  proof -
    have "- 1 < (of_int (half_even q) :: rat)" using that half_even_near [of q] by linarith
    then show ?thesis by linarith
  qed
  ultimately show ?thesis by (simp add: fl_def fl_pos_def Let_def less_imp_le)
qed

lemma shortfall: "money x \<Longrightarrow> money y \<Longrightarrow> max 0 (fl (x - y)) = max 0 (x - y)"
proof (cases "y \<le> x")
  case False
  assume "money x" "money y"
  then have "fl (y - x) = y - x" using False by (intro money_fl money_diff) auto
  then show ?thesis using False fl_minus [of "y - x"] by simp
qed (simp add: money_fl money_diff)

lemma money_shortfall: "money x \<Longrightarrow> money y \<Longrightarrow> money (max 0 (x - y))"
  by (cases "y \<le> x") (simp_all add: money_diff)

lemma cap_whole: "0 \<le> amount \<Longrightarrow> 0 < bps \<Longrightarrow> \<exists>n \<ge> 0. capByBps amount bps = of_int n"
  by (simp add: capByBps_def fl_nonneg)

lemma cap_exact:
  assumes "0 < n" "0 < b" "n * b < 2 ^ 53"
  shows "capByBps (of_int n) (of_int b) = of_int (n * b div 10000)"
proof -
  have pos: "0 < n * b" using assms by simp
  have "fl (of_int n * of_int b) = of_int (n * b)"
    using fl_int_small [of "n * b"] pos assms(3) by simp
  then show ?thesis using assms fl_div_10000(1) [OF pos assms(3)] by (simp add: capByBps_def)
qed

lemma capped_le: "capped a c \<le> a"
  by (simp add: capped_def)

lemma capped_cap: "c \<noteq> 0 \<Longrightarrow> capped a c \<le> c"
  by (simp add: capped_def)

lemma money_capped:
  assumes "money a" "c = of_int n" "0 \<le> n"
  shows "money (capped a c)"
proof (cases "c = 0 \<or> a \<le> c")
  case True
  then show ?thesis using assms(1) by (auto simp: capped_def min_def)
next
  case False
  then have "capped a c = c" "c < a" by (auto simp: capped_def min_def)
  then show ?thesis using assms by (auto elim!: moneyE)
qed

section \<open>Sums over routes\<close>

abbreviation total :: "TreasuryRouteCandidateV1 list \<Rightarrow> rat" where
  "total rs \<equiv> sum_list (map tr_amount rs)"

lemma sum_amounts_from:
  "money s \<Longrightarrow> list_all (\<lambda>r. money (tr_amount r)) rs \<Longrightarrow> s + total rs \<le> z \<Longrightarrow> money z \<Longrightarrow>
     foldl (\<lambda>t r. fl (t + tr_amount r)) s rs = s + total rs"
proof (induction rs arbitrary: s)
  case (Cons r rs)
  have "0 \<le> total rs" using Cons.prems(2) by (intro sum_list_nonneg) (auto simp: list_all_iff money_nonneg)
  then have "money (s + tr_amount r)" using Cons.prems by (intro money_add [of _ _ z]) auto
  then show ?case using Cons by (simp add: money_fl add.assoc)
qed simp

lemma sum_amounts_exact:
  "list_all (\<lambda>r. money (tr_amount r)) rs \<Longrightarrow> total rs \<le> z \<Longrightarrow> money z \<Longrightarrow> sum_amounts rs = total rs"
  using sum_amounts_from [of 0 rs z] by (simp add: sum_amounts_def)

section \<open>The parts of a plan\<close>

lemmas part_defs = operating_route_def reserve_route_def stablecoin_route_def idle_route_def
  payment_route_def Let_def

definition spent :: "bool \<Rightarrow> rat \<Rightarrow> rat" where
  "spent opened v = (if 0 < v \<and> opened then v else 0)"

definition stable_open :: "TreasuryRailKind list \<Rightarrow> bool" where
  "stable_open rails \<longleftrightarrow> Stablecoin_shielded \<in> set rails \<or> Stablecoin_public \<in> set rails"

definition idle_open :: "TreasuryRailKind list \<Rightarrow> bool" where
  "idle_open rails \<longleftrightarrow> Treasury_bills \<in> set rails \<or> Bond_ladder \<in> set rails \<or> Broker_cash_sweep \<in> set rails"

lemma part_totals [simp]:
  "total (operating_route rails p cap v) = spent (Bank_cash \<in> set rails) v"
  "total (reserve_route rails p v) = spent (Broker_cash_sweep \<in> set rails) v"
  "total (stablecoin_route pol rails p v) = spent (stable_open rails) v"
  "total (idle_route i rails p v) = spent (idle_open rails) v"
  "total (payment_route i rails p rs) = 0"
  by (auto simp: part_defs spent_def stable_open_def idle_open_def split: option.splits)

lemma spent_money [simp]: "money v \<Longrightarrow> money (spent b v)"
  by (simp add: spent_def)

lemma spent_bounds: "0 \<le> v \<Longrightarrow> 0 \<le> spent b v \<and> spent b v \<le> v"
  by (simp add: spent_def)

text \<open>Every route of a part is on an open rail with the partner given, and every part has at most one.\<close>

definition part_ok :: "TreasuryRailKind list \<Rightarrow> string \<Rightarrow> rat \<Rightarrow> TreasuryRouteAction set \<Rightarrow> TreasuryRouteCandidateV1 list \<Rightarrow> bool" where
  "part_ok rails p v acts rs \<longleftrightarrow> length rs \<le> 1 \<and>
     list_all (\<lambda>r. tr_rail r \<in> set rails \<and> tr_partner r = p \<and> tr_amount r = v \<and> tr_action r \<in> acts) rs"

lemma parts_ok:
  "part_ok rails p v {Reserve_operating_cash} (operating_route rails p cap v)"
  "part_ok rails p v {Sweep_broker_cash} (reserve_route rails p v)"
  "part_ok rails p v {Hold_stablecoin_buffer} (stablecoin_route pol rails p v)"
  "part_ok rails p v {Ladder_t_bills, Ladder_bonds, Sweep_broker_cash} (idle_route i rails p v)"
  "part_ok rails p 0 {Prepare_payment_buffer} (payment_route i rails p rs)"
  by (auto simp: part_ok_def part_defs find_Some_iff split: option.splits)

lemma part_money: "part_ok rails p v acts rs \<Longrightarrow> money v \<Longrightarrow> list_all (\<lambda>r. money (tr_amount r)) rs"
  by (auto simp: part_ok_def list_all_iff)

lemma part_filter:
  assumes "part_ok rails p v acts rs"
  shows "acts \<inter> set as' = {} \<Longrightarrow> filter (\<lambda>r. tr_action r \<in> set as') rs = []"
    "acts \<subseteq> set as' \<Longrightarrow> filter (\<lambda>r. tr_action r \<in> set as') rs = rs"
  using assms by (auto simp: part_ok_def list_all_iff filter_empty_conv filter_id_conv)

section \<open>The plan\<close>

text \<open>The amounts of the parts, without rounding, for a validated policy and intent with whole amounts.\<close>

definition routable :: "TreasuryPolicyV1 \<Rightarrow> TreasuryIntentV1 \<Rightarrow> bool" where
  "routable p i \<longleftrightarrow> policy_ok p \<and> intent_ok i \<and> money (proposed_amount p i) \<and>
     money (tc_min_operating_cash (ti_constraints i)) \<and> money (tc_min_instant_liquidity (ti_constraints i))"

definition pn_bank_cap :: "TreasuryPolicyV1 \<Rightarrow> TreasuryIntentV1 \<Rightarrow> rat" where
  "pn_bank_cap p i = capByBps (proposed_amount p i) (tc_max_single_bank_bps (ti_constraints i))"

definition pn_coin_cap :: "TreasuryPolicyV1 \<Rightarrow> TreasuryIntentV1 \<Rightarrow> rat" where
  "pn_coin_cap p i = capByBps (proposed_amount p i) (tc_max_stablecoin_bps (ti_constraints i))"

definition pn_target :: "TreasuryPolicyV1 \<Rightarrow> TreasuryIntentV1 \<Rightarrow> rat" where
  "pn_target p i = min (proposed_amount p i) (tc_min_operating_cash (ti_constraints i))"

definition pn_bank :: "TreasuryPolicyV1 \<Rightarrow> TreasuryIntentV1 \<Rightarrow> rat" where
  "pn_bank p i = capped (pn_target p i) (pn_bank_cap p i)"

definition pn_reserve :: "TreasuryPolicyV1 \<Rightarrow> TreasuryIntentV1 \<Rightarrow> rat" where
  "pn_reserve p i = pn_target p i - pn_bank p i"

definition pn_early :: "TreasuryPolicyV1 \<Rightarrow> TreasuryIntentV1 \<Rightarrow> rat" where
  "pn_early p i = spent (Bank_cash \<in> set (intent_rails p i)) (pn_bank p i) +
     spent (Broker_cash_sweep \<in> set (intent_rails p i)) (pn_reserve p i)"

definition pn_instant :: "TreasuryPolicyV1 \<Rightarrow> TreasuryIntentV1 \<Rightarrow> rat" where
  "pn_instant p i = min (proposed_amount p i)
     (max (tc_min_instant_liquidity (ti_constraints i)) (tc_min_operating_cash (ti_constraints i)))"

definition pn_coin :: "TreasuryPolicyV1 \<Rightarrow> TreasuryIntentV1 \<Rightarrow> rat" where
  "pn_coin p i = capped (max 0 (pn_instant p i - pn_early p i)) (pn_coin_cap p i)"

definition pn_idle :: "TreasuryPolicyV1 \<Rightarrow> TreasuryIntentV1 \<Rightarrow> rat" where
  "pn_idle p i = proposed_amount p i - (pn_early p i + spent (stable_open (intent_rails p i)) (pn_coin p i))"

definition pn_early_routes :: "TreasuryPolicyV1 \<Rightarrow> TreasuryIntentV1 \<Rightarrow> TreasuryRouteCandidateV1 list" where
  "pn_early_routes p i =
     operating_route (intent_rails p i) (route_partner p) (pn_bank_cap p i) (pn_bank p i) @
     reserve_route (intent_rails p i) (route_partner p) (pn_reserve p i)"

definition pn_coin_routes :: "TreasuryPolicyV1 \<Rightarrow> TreasuryIntentV1 \<Rightarrow> TreasuryRouteCandidateV1 list" where
  "pn_coin_routes p i = stablecoin_route p (intent_rails p i) (route_partner p) (pn_coin p i)"

definition pn_idle_routes :: "TreasuryPolicyV1 \<Rightarrow> TreasuryIntentV1 \<Rightarrow> TreasuryRouteCandidateV1 list" where
  "pn_idle_routes p i = idle_route i (intent_rails p i) (route_partner p) (pn_idle p i)"

definition pn_pay_routes :: "TreasuryPolicyV1 \<Rightarrow> TreasuryIntentV1 \<Rightarrow> TreasuryRouteCandidateV1 list" where
  "pn_pay_routes p i = payment_route i (intent_rails p i) (route_partner p)
     (pn_early_routes p i @ pn_coin_routes p i @ pn_idle_routes p i)"

lemma routableD:
  assumes "routable p i"
  shows "0 < proposed_amount p i" "money (proposed_amount p i)"
    "0 < tc_min_operating_cash (ti_constraints i)" "0 < tc_min_instant_liquidity (ti_constraints i)"
    "0 < tc_max_single_bank_bps (ti_constraints i)" "0 < tc_max_stablecoin_bps (ti_constraints i)"
    "0 < tc_max_duration_days (ti_constraints i)" "0 < ti_horizon_days i"
    "money (tc_min_operating_cash (ti_constraints i))" "money (tc_min_instant_liquidity (ti_constraints i))"
    "tp_allowed_partners p \<noteq> []" "\<not> tp_public_fallback p" "\<not> tc_public_fallback (ti_constraints i)"
  using assms by (auto simp: routable_def policy_ok_def intent_ok_def constraints_ok_def proposed_amount_def
      split: option.splits)

lemma caps_whole:
  "routable p i \<Longrightarrow> \<exists>n \<ge> 0. pn_bank_cap p i = of_int n" "routable p i \<Longrightarrow> \<exists>n \<ge> 0. pn_coin_cap p i = of_int n"
  by (simp_all add: routableD pn_bank_cap_def pn_coin_cap_def cap_whole less_imp_le)

lemma target_money: "routable p i \<Longrightarrow> money (pn_target p i)"
  by (simp add: routableD pn_target_def)

lemma bank_money: "routable p i \<Longrightarrow> money (pn_bank p i)"
  using caps_whole(1) [of p i] target_money [of p i] by (auto simp: pn_bank_def intro: money_capped)

lemma reserve_money: "routable p i \<Longrightarrow> money (pn_reserve p i)"
  using bank_money [of p i] target_money [of p i] by (simp add: pn_reserve_def money_diff pn_bank_def capped_le)

lemma early_bounds:
  assumes "routable p i"
  shows "0 \<le> pn_early p i" "pn_early p i \<le> pn_target p i"
  using spent_bounds [OF money_nonneg [OF bank_money [OF assms]], of "Bank_cash \<in> set (intent_rails p i)"]
    spent_bounds [OF money_nonneg [OF reserve_money [OF assms]], of "Broker_cash_sweep \<in> set (intent_rails p i)"]
  unfolding pn_early_def pn_reserve_def by linarith+

lemma early_money: "routable p i \<Longrightarrow> money (pn_early p i)"
  using early_bounds(2) [of p i] unfolding pn_early_def
  by (intro money_add [OF _ _ _ target_money]) (simp_all add: bank_money reserve_money)

lemma instant_money:
  assumes "routable p i"
  shows "money (pn_instant p i)" "pn_target p i \<le> pn_instant p i" "pn_instant p i \<le> proposed_amount p i"
  using routableD [OF assms] by (auto simp: pn_instant_def pn_target_def)

lemma coin_money:
  assumes "routable p i"
  shows "money (pn_coin p i)" "pn_coin p i \<le> pn_instant p i - pn_early p i"
proof -
  have "money (max 0 (pn_instant p i - pn_early p i))"
    using instant_money(1) [OF assms] early_money [OF assms] by (rule money_shortfall)
  then show "money (pn_coin p i)" using caps_whole(2) [OF assms] by (auto simp: pn_coin_def intro: money_capped)
  show "pn_coin p i \<le> pn_instant p i - pn_early p i"
    using capped_le [of "max 0 (pn_instant p i - pn_early p i)" "pn_coin_cap p i"]
      early_bounds(2) [OF assms] instant_money(2) [OF assms] by (simp add: pn_coin_def)
qed

lemma idle_money:
  assumes "routable p i"
  shows "money (pn_idle p i)" "0 \<le> pn_idle p i"
proof -
  have "spent (stable_open (intent_rails p i)) (pn_coin p i) \<le> pn_coin p i"
    by (simp add: spent_bounds money_nonneg coin_money [OF assms])
  then have le: "pn_early p i + spent (stable_open (intent_rails p i)) (pn_coin p i) \<le> proposed_amount p i"
    using coin_money(2) [OF assms] instant_money(3) [OF assms] by linarith
  then have "money (pn_early p i + spent (stable_open (intent_rails p i)) (pn_coin p i))"
    using coin_money(1) [OF assms] early_money [OF assms] routableD(2) [OF assms] by (intro money_add [OF _ _ le]) auto
  then show "money (pn_idle p i)" "0 \<le> pn_idle p i"
    using le routableD(2) [OF assms] by (simp_all add: pn_idle_def money_diff)
qed

lemma early_coin_list:
  assumes "routable p i"
  shows "list_all (\<lambda>r. money (tr_amount r)) (pn_early_routes p i)"
    "list_all (\<lambda>r. money (tr_amount r)) (pn_coin_routes p i)"
    "list_all (\<lambda>r. money (tr_amount r)) (pn_idle_routes p i)"
    "list_all (\<lambda>r. money (tr_amount r)) (pn_pay_routes p i)"
  using part_money [OF parts_ok(1) bank_money [OF assms]] part_money [OF parts_ok(2) reserve_money [OF assms]]
    part_money [OF parts_ok(3) coin_money(1) [OF assms]] part_money [OF parts_ok(4) idle_money(1) [OF assms]]
    part_money [OF parts_ok(5) money_0]
  by (simp_all add: pn_early_routes_def pn_coin_routes_def pn_idle_routes_def pn_pay_routes_def)

lemma totals:
  "total (pn_early_routes p i) = pn_early p i"
  "total (pn_coin_routes p i) = spent (stable_open (intent_rails p i)) (pn_coin p i)"
  "total (pn_idle_routes p i) = spent (idle_open (intent_rails p i)) (pn_idle p i)"
  "total (pn_pay_routes p i) = 0"
  by (simp_all add: pn_early_routes_def pn_early_def pn_coin_routes_def pn_idle_routes_def pn_pay_routes_def)

lemma early_instant:
  assumes "routable p i"
  shows "sumRouteAmounts (pn_early_routes p i) instant_actions = pn_early p i"
proof -
  have "filter (\<lambda>r. tr_action r \<in> set instant_actions) (pn_early_routes p i) = pn_early_routes p i"
    unfolding pn_early_routes_def filter_append
    by (subst part_filter(2) [OF parts_ok(1)] part_filter(2) [OF parts_ok(2)], simp add: instant_actions_def)+ simp
  then show ?thesis
    using sum_amounts_exact [OF early_coin_list(1) [OF assms], of "pn_target p i"] totals(1) [of p i]
      early_bounds(2) [OF assms] target_money [OF assms]
    by (simp add: sumRouteAmounts_def)
qed

lemma routes_form:
  assumes "routable p i"
  shows "routeTreasuryIntent p i (proposed_amount p i) =
    pn_early_routes p i @ pn_coin_routes p i @ pn_idle_routes p i @ pn_pay_routes p i"
proof -
  let ?open = "stable_open (intent_rails p i)" and ?a = "proposed_amount p i"
  note money_a = routableD(2) [OF assms] and idle = idle_money [OF assms]
  have r: "max 0 (fl (pn_target p i - pn_bank p i)) = pn_reserve p i"
    using shortfall [OF target_money bank_money, OF assms assms] capped_le [of "pn_target p i" "pn_bank_cap p i"]
    by (simp add: pn_reserve_def pn_bank_def)
  have s: "max 0 (fl (pn_instant p i - pn_early p i)) = max 0 (pn_instant p i - pn_early p i)"
    by (rule shortfall [OF instant_money(1) early_money]) (rule assms)+
  have "total (pn_early_routes p i @ pn_coin_routes p i) \<le> ?a"
    using idle(2) by (simp add: totals pn_idle_def)
  then have t: "sum_amounts (pn_early_routes p i @ pn_coin_routes p i) = pn_early p i + spent ?open (pn_coin p i)"
    using sum_amounts_exact [OF _ _ money_a, of "pn_early_routes p i @ pn_coin_routes p i"]
      early_coin_list [OF assms] by (simp add: totals)
  have "0 \<le> spent ?open (pn_coin p i)" using coin_money(1) [OF assms] by (simp add: spent_bounds money_nonneg)
  then have "money (?a - pn_idle p i)"
    using early_bounds(1) [OF assms] by (intro money_diff money_a idle(1)) (simp add: pn_idle_def)
  then have m: "max 0 (fl (?a - (pn_early p i + spent ?open (pn_coin p i)))) = pn_idle p i"
    using shortfall [OF money_a, of "?a - pn_idle p i"] idle(2) by (simp add: pn_idle_def)
  show ?thesis
    unfolding routeTreasuryIntent_def Let_def pn_bank_cap_def [symmetric] pn_coin_cap_def [symmetric]
      pn_target_def [symmetric] pn_bank_def [symmetric] r pn_early_routes_def [symmetric]
      early_instant [OF assms] pn_instant_def [symmetric] s pn_coin_def [symmetric]
      pn_coin_routes_def [symmetric] t m pn_idle_routes_def [symmetric]
    using routableD(1) [OF assms] by (simp add: pn_pay_routes_def)
qed

end
