(* ===== verification/TreasuryGuard.thy ===== *)
theory TreasuryGuard imports TreasuryPlan
begin

text \<open>
  What the guard decides about routed plans: which of its refusals a validated request can meet, when
  it accepts, and what an accepted plan looks like.
\<close>

section \<open>Routes of a plan\<close>

definition plan_routes :: "TreasuryPolicyV1 \<Rightarrow> TreasuryIntentV1 \<Rightarrow> TreasuryRouteCandidateV1 list" where
  "plan_routes p i = routeTreasuryIntent p i (proposed_amount p i)"

lemma proposal_fields [simp]:
  "pr_routes (buildTreasuryProposal p i u t) = plan_routes p i"
  "pr_amount (buildTreasuryProposal p i u t) = proposed_amount p i"
  "pr_owner (buildTreasuryProposal p i u t) = ti_owner i"
  "pr_intent (buildTreasuryProposal p i u t) = ti_id i"
  by (simp_all add: buildTreasuryProposal_def plan_routes_def Let_def)

lemma find_member: "List.find P xs = Some x \<Longrightarrow> x \<in> set xs"
  by (induction xs) (auto split: if_splits)

lemma payment_member:
  assumes "r \<in> set (payment_route i rails q rs)"
  shows "tr_rail r \<in> {Rtp, Ach, Wire} \<and> tr_duration r = None"
proof -
  obtain rail where rail: "List.find (\<lambda>r. r \<in> set rails) [Rtp, Ach, Wire] = Some rail"
    and r: "tr_rail r = rail \<and> tr_duration r = None"
  proof (cases "List.find (\<lambda>r. r \<in> set rails) [Rtp, Ach, Wire]")
    case None
    show ?thesis using assms unfolding payment_route_def None by (simp only: option.case if_cancel list.set empty_iff)
  next
    case (Some rail)
    have "tr_rail r = rail \<and> tr_duration r = None"
      using assms unfolding payment_route_def Some Let_def
      by (simp only: option.case split: if_split_asm)
        (simp_all only: list.set empty_iff insert_iff simp_thms TreasuryRouteCandidateV1.simps)
    then show ?thesis by (rule that [OF Some])
  qed
  show ?thesis using find_member [OF rail] r by (simp only: list.set) 
qed

lemma part_rails:
  "set (map tr_rail (operating_route rails q cap v)) \<subseteq> {Bank_cash}"
  "set (map tr_rail (reserve_route rails q v)) \<subseteq> {Broker_cash_sweep}"
  "set (map tr_rail (stablecoin_route pol rails q v)) \<subseteq> {Stablecoin_shielded, Stablecoin_public}"
  "set (map tr_rail (idle_route i rails q v)) \<subseteq> {Treasury_bills, Bond_ladder, Broker_cash_sweep}"
  "set (map tr_rail (payment_route i rails q rs)) \<subseteq> {Rtp, Ach, Wire}"
  using payment_member [of _ i rails q rs]
  by (auto simp: operating_route_def reserve_route_def stablecoin_route_def idle_route_def Let_def split: if_splits)

lemma part_durations:
  "r \<in> set (operating_route rails q cap v) \<Longrightarrow> tr_duration r = None"
  "r \<in> set (reserve_route rails q v) \<Longrightarrow> tr_duration r = None"
  "r \<in> set (stablecoin_route pol rails q v) \<Longrightarrow> tr_duration r = None"
  "r \<in> set (idle_route i rails q v) \<Longrightarrow>
     tr_duration r \<in> {Some None, Some (Some (min (ti_horizon_days i) (tc_max_duration_days (ti_constraints i))))}"
  "r \<in> set (payment_route i rails q rs) \<Longrightarrow> tr_duration r = None"
  by (auto simp: operating_route_def reserve_route_def stablecoin_route_def idle_route_def Let_def
      payment_member split: if_splits)

lemma part_member:
  "part_ok rails q v acts rs \<Longrightarrow> r \<in> set rs \<Longrightarrow> tr_rail r \<in> set rails \<and> tr_partner r = q"
  by (simp add: part_ok_def list_all_iff)

lemma plan_member:
  assumes "routable p i" "r \<in> set (plan_routes p i)"
  shows "r \<in> set (operating_route (intent_rails p i) (route_partner p) (pn_bank_cap p i) (pn_bank p i)) \<or>
      r \<in> set (reserve_route (intent_rails p i) (route_partner p) (pn_reserve p i)) \<or>
      r \<in> set (pn_coin_routes p i) \<or> r \<in> set (pn_idle_routes p i) \<or> r \<in> set (pn_pay_routes p i)"
  using assms(2) unfolding plan_routes_def routes_form [OF assms(1)] by (auto simp: pn_early_routes_def)

lemma plan_route_ok:
  assumes "routable p i" "r \<in> set (plan_routes p i)"
  shows "tr_rail r \<in> set (intent_rails p i) \<and> tr_partner r = route_partner p" "money (tr_amount r)"
proof -
  show "tr_rail r \<in> set (intent_rails p i) \<and> tr_partner r = route_partner p"
    using plan_member [OF assms] unfolding pn_coin_routes_def pn_idle_routes_def pn_pay_routes_def
    by (elim disjE) (erule parts_ok [THEN part_member])+
  show "money (tr_amount r)"
    using assms(2) early_coin_list [OF assms(1)] unfolding plan_routes_def routes_form [OF assms(1)]
    by (simp add: list_all_iff) blast
qed

lemma route_duration:
  assumes "routable p i" "r \<in> set (plan_routes p i)" "tr_duration r = Some (Some d)"
  shows "d \<le> tc_max_duration_days (ti_constraints i)"
  using plan_member [OF assms(1,2)] assms(3)
  unfolding pn_coin_routes_def pn_idle_routes_def pn_pay_routes_def
  by (elim disjE) (drule part_durations, simp)+

lemma plan_total:
  assumes "routable p i"
  shows "total (plan_routes p i) \<le> proposed_amount p i"
    "idle_open (intent_rails p i) \<Longrightarrow> total (plan_routes p i) = proposed_amount p i"
  using idle_money(2) [OF assms] unfolding plan_routes_def routes_form [OF assms]
  by (auto simp: totals pn_idle_def spent_def)

section \<open>Sums over a plan\<close>

definition idle_sweep :: "TreasuryPolicyV1 \<Rightarrow> TreasuryIntentV1 \<Rightarrow> bool" where
  "idle_sweep p i \<longleftrightarrow> Treasury_bills \<notin> set (intent_rails p i) \<and> Bond_ladder \<notin> set (intent_rails p i) \<and>
     Broker_cash_sweep \<in> set (intent_rails p i)"

lemma idle_instant:
  "filter (\<lambda>r. tr_action r \<in> set instant_actions) (pn_idle_routes p i) =
     (if idle_sweep p i then pn_idle_routes p i else [])"
  by (auto simp: pn_idle_routes_def idle_sweep_def instant_actions_def part_defs)

lemma filter_money:
  assumes "routable p i"
  shows "sumRouteAmounts (plan_routes p i) acts = total (filter (\<lambda>r. tr_action r \<in> set acts) (plan_routes p i))"
proof -
  have m: "list_all (\<lambda>r. money (tr_amount r)) (plan_routes p i)"
    using plan_route_ok(2) [OF assms] by (simp add: list_all_iff)
  have "total (filter P rs) \<le> total rs" if "list_all (\<lambda>r. money (tr_amount r)) rs" for P rs
    using that by (induction rs) (auto simp: money_nonneg add_increasing)
  then have "total (filter (\<lambda>r. tr_action r \<in> set acts) (plan_routes p i)) \<le> proposed_amount p i"
    using m plan_total(1) [OF assms] order_trans by blast
  then show ?thesis unfolding sumRouteAmounts_def
    using m routableD(2) [OF assms] by (intro sum_amounts_exact) (auto simp: list_all_iff)
qed

lemma operating_sum:
  assumes "routable p i"
  shows "sumRouteAmounts (plan_routes p i) [Reserve_operating_cash] =
    spent (Bank_cash \<in> set (intent_rails p i)) (pn_bank p i)"
proof -
  let ?f = "filter (\<lambda>r. tr_action r \<in> set [Reserve_operating_cash])"
  let ?bank = "operating_route (intent_rails p i) (route_partner p) (pn_bank_cap p i) (pn_bank p i)"
  have "?f ?bank = ?bank" by (rule part_filter(2) [OF parts_ok(1)]) simp
  moreover have "?f (reserve_route (intent_rails p i) (route_partner p) (pn_reserve p i)) = []"
    by (rule part_filter(1) [OF parts_ok(2)]) simp
  moreover have "?f (pn_coin_routes p i) = []"
    unfolding pn_coin_routes_def by (rule part_filter(1) [OF parts_ok(3)]) simp
  moreover have "?f (pn_idle_routes p i) = []"
    unfolding pn_idle_routes_def by (rule part_filter(1) [OF parts_ok(4)]) simp
  moreover have "?f (pn_pay_routes p i) = []"
    unfolding pn_pay_routes_def by (rule part_filter(1) [OF parts_ok(5)]) simp
  ultimately have "?f (plan_routes p i) = ?bank"
    unfolding plan_routes_def routes_form [OF assms] pn_early_routes_def filter_append by (simp only: append_Nil2 append_Nil)
  then show ?thesis unfolding filter_money [OF assms] by (simp only: part_totals)
qed

lemma instant_sum:
  assumes "routable p i"
  shows "sumRouteAmounts (plan_routes p i) instant_actions =
    pn_early p i + spent (stable_open (intent_rails p i)) (pn_coin p i) + spent (idle_sweep p i) (pn_idle p i)"
proof -
  let ?f = "filter (\<lambda>r. tr_action r \<in> set instant_actions)"
  have "?f (pn_early_routes p i) = pn_early_routes p i"
    unfolding pn_early_routes_def filter_append
    by (subst part_filter(2) [OF parts_ok(1)] part_filter(2) [OF parts_ok(2)], simp add: instant_actions_def)+ simp
  moreover have "?f (pn_coin_routes p i) = pn_coin_routes p i"
    unfolding pn_coin_routes_def by (rule part_filter(2) [OF parts_ok(3)]) (simp add: instant_actions_def)
  moreover have "?f (pn_pay_routes p i) = []"
    unfolding pn_pay_routes_def by (rule part_filter(1) [OF parts_ok(5)]) (simp add: instant_actions_def)
  moreover have "idle_sweep p i \<Longrightarrow> idle_open (intent_rails p i)" by (simp add: idle_sweep_def idle_open_def)
  moreover have "sumRouteAmounts (plan_routes p i) instant_actions = total (?f (plan_routes p i))"
    by (rule filter_money [OF assms])
  ultimately show ?thesis
    unfolding plan_routes_def routes_form [OF assms] filter_append idle_instant
    by (simp add: totals spent_def)
qed

section \<open>The decision\<close>

lemma first_refusal_None: "first_refusal f xs = None \<longleftrightarrow> list_all (\<lambda>x. f x = None) xs"
  by (induction xs) (auto split: option.splits)

lemma first_refusal_Some: "first_refusal f xs = Some e \<Longrightarrow> \<exists>x \<in> set xs. f x = Some e"
  by (induction xs) (auto split: option.splits)

lemma plan_route_refusal:
  assumes "routable p i" "r \<in> set (plan_routes p i)"
  shows "route_refusal p i r = (if uses_asset p (tr_asset r) then None
    else Some (Asset_not_allowed, asset_name (tr_asset r) @ '' is not approved for this treasury policy.''))"
proof -
  have "tr_rail r \<in> set (allowedRailsForPolicy p)" "tr_rail r \<in> set (tc_approved_rails (ti_constraints i))"
    using plan_route_ok(1) [OF assms] by (simp_all add: intent_rails_def)
  moreover have "tr_partner r \<in> set (tp_allowed_partners p)"
    using plan_route_ok(1) [OF assms] routableD(11) [OF assms(1)] by (simp add: route_partner_def split: list.splits)
  moreover have "\<not> (case tr_duration r of Some (Some d) \<Rightarrow> d \<noteq> 0 \<and> d > tc_max_duration_days (ti_constraints i) | _ \<Rightarrow> False)"
    using route_duration [OF assms] by (auto split: option.splits)
  ultimately show ?thesis by (simp add: route_refusal_def)
qed

definition bank_covers :: "TreasuryPolicyV1 \<Rightarrow> TreasuryIntentV1 \<Rightarrow> bool" where
  "bank_covers p i \<longleftrightarrow> Bank_cash \<in> set (intent_rails p i) \<and>
     tc_min_operating_cash (ti_constraints i) \<le> proposed_amount p i \<and>
     (pn_bank_cap p i = 0 \<or> tc_min_operating_cash (ti_constraints i) \<le> pn_bank_cap p i)"

lemma bank_covers:
  assumes "routable p i"
  shows "bank_covers p i \<longleftrightarrow>
    tc_min_operating_cash (ti_constraints i) \<le> sumRouteAmounts (plan_routes p i) [Reserve_operating_cash]"
  using routableD(3) [OF assms]
  by (auto simp: operating_sum [OF assms] bank_covers_def spent_def pn_bank_def capped_def pn_target_def)

lemma bank_covers_amounts:
  assumes "routable p i" "bank_covers p i"
  shows "pn_bank p i = tc_min_operating_cash (ti_constraints i)" "pn_reserve p i = 0"
    "pn_early p i = tc_min_operating_cash (ti_constraints i)"
  using assms(2) routableD(3) [OF assms(1)]
  by (auto simp: bank_covers_def pn_early_def spent_def pn_reserve_def pn_bank_def capped_def pn_target_def)

text \<open>When a plan is accepted, and with which reason it is refused otherwise, in the order of the
  checks.\<close>

definition guard_decision :: "TreasuryPolicyV1 \<Rightarrow> TreasuryIntentV1 \<Rightarrow> TreasuryGuardReason option" where
  "guard_decision p i =
     (if tp_owner p \<noteq> ti_owner i then Some Owner_mismatch
      else if tp_max_action p < proposed_amount p i then Some Amount_over_cap
      else if tp_daily_action p < proposed_amount p i then Some Daily_cap_exceeded
      else if \<not> list_all (\<lambda>r. uses_asset p (tr_asset r)) (plan_routes p i) then Some Asset_not_allowed
      else if \<not> bank_covers p i then Some Operating_cash_below_min
      else if tc_min_operating_cash (ti_constraints i) + spent (stable_open (intent_rails p i)) (pn_coin p i) +
          spent (idle_sweep p i) (pn_idle p i) < tc_min_instant_liquidity (ti_constraints i)
        then Some Instant_liquidity_below_min
      else None)"

lemma plan_refusal:
  assumes "routable p i"
  shows "map_option fst (proposal_refusal p i (buildTreasuryProposal p i u t)) = guard_decision p i"
proof -
  let ?all = "list_all (\<lambda>r. uses_asset p (tr_asset r)) (plan_routes p i)"
  have "?all \<Longrightarrow> first_refusal (route_refusal p i) (plan_routes p i) = None"
    by (auto simp: first_refusal_None list_all_iff plan_route_refusal [OF assms])
  moreover have "\<not> ?all \<Longrightarrow> \<exists>why. first_refusal (route_refusal p i) (plan_routes p i) = Some (Asset_not_allowed, why)"
  proof -
    assume "\<not> ?all"
    then have "first_refusal (route_refusal p i) (plan_routes p i) \<noteq> None"
      by (auto simp: first_refusal_None list_all_iff plan_route_refusal [OF assms])
    then obtain e where e: "first_refusal (route_refusal p i) (plan_routes p i) = Some e" by blast
    from first_refusal_Some [OF e] have "fst e = Asset_not_allowed"
      by (auto simp: plan_route_refusal [OF assms] split: if_splits)
    then show "\<exists>why. first_refusal (route_refusal p i) (plan_routes p i) = Some (Asset_not_allowed, why)"
      using e by (cases e) auto
  qed
  ultimately show ?thesis
    using routableD(1,12,13) [OF assms] bank_covers_amounts(3) [OF assms]
    unfolding proposal_refusal_def guard_decision_def proposal_fields
    by (cases ?all) (auto simp: not_less bank_covers [OF assms] instant_sum [OF assms])
qed

lemma simulation_outcome:
  assumes "routable p i"
  shows "sim_ok (simulateTreasuryIntent h p i u t t') \<longleftrightarrow> guard_decision p i = None"
    "sim_blocked (simulateTreasuryIntent h p i u t t') = guard_decision p i"
  using plan_refusal [OF assms, of u t']
  by (cases "proposal_refusal p i (buildTreasuryProposal p i u t')";
      auto simp: simulateTreasuryIntent_def evaluateTreasuryProposal_def Let_def)+

section \<open>Accepted plans\<close>

lemma accepted_covers: "guard_decision p i = None \<Longrightarrow> bank_covers p i"
  by (simp add: guard_decision_def split: if_splits)

lemma disjoint_sets: "A \<subseteq> X \<Longrightarrow> B \<subseteq> Y \<Longrightarrow> X \<inter> Y = {} \<Longrightarrow> A \<inter> B = {}"
  by blast

lemma union_class: "A \<subseteq> X \<Longrightarrow> B \<subseteq> Y \<Longrightarrow> A \<union> B \<subseteq> X \<union> Y"
  by blast

lemma accepted_rails:
  assumes "routable p i" "guard_decision p i = None"
  shows "distinct (map tr_rail (plan_routes p i))" "plan_routes p i \<noteq> []"
proof -
  have "pn_reserve p i = 0" by (rule bank_covers_amounts(2) [OF assms(1) accepted_covers [OF assms(2)]])
  then have form: "plan_routes p i =
      operating_route (intent_rails p i) (route_partner p) (pn_bank_cap p i) (pn_bank p i) @
      pn_coin_routes p i @ pn_idle_routes p i @ pn_pay_routes p i"
    unfolding plan_routes_def routes_form [OF assms(1)] by (simp add: pn_early_routes_def reserve_route_def)
  have short: "length rs \<le> 1 \<Longrightarrow> distinct (map tr_rail rs)" for rs :: "TreasuryRouteCandidateV1 list"
    by (cases rs) auto
  note one = parts_ok [unfolded part_ok_def, THEN conjunct1]
  show "distinct (map tr_rail (plan_routes p i))"
    unfolding form pn_coin_routes_def pn_idle_routes_def pn_pay_routes_def map_append distinct_append set_append
    using short [OF one(1)] short [OF one(3)] short [OF one(4)] short [OF one(5)]
    by (intro conjI) (assumption | rule disjoint_sets [OF part_rails(1) union_class [OF part_rails(3) union_class [OF part_rails(4,5)]]]
      disjoint_sets [OF part_rails(3) union_class [OF part_rails(4,5)]] disjoint_sets [OF part_rails(4,5)], simp)+
  have "0 < pn_bank p i" "Bank_cash \<in> set (intent_rails p i)"
    using bank_covers_amounts(1) [OF assms(1) accepted_covers [OF assms(2)]] routableD(3) [OF assms(1)]
      accepted_covers [OF assms(2)] by (simp_all add: bank_covers_def)
  then show "plan_routes p i \<noteq> []" unfolding form by (simp add: operating_route_def)
qed

end
