(* ===== verification/TreasuryExecution.thy ===== *)
theory TreasuryExecution imports TreasuryRouting
begin

text \<open>
  \<open>treasury-execution.ts\<close>, part four: approvals, execution requests, receipts, and the adapters that
  talk to the treasury partners. What is not in the repository is a parameter: \<open>Date\<close> parsing of a
  text and HMAC-SHA-256 are fields of \<open>treasury_host\<close>, and a partner is a function from the calls made
  so far and the present call to its answer, any JSON value or a failure (no connection, a timeout,
  a status that is not a success, an answer that is not JSON). An effect threads the calls made.
\<close>

record treasury_host =
  th_host :: host
  parse_date :: "string \<Rightarrow> time option"
  hmac_hex :: "string \<Rightarrow> string \<Rightarrow> string"

section \<open>Requests and approvals\<close>

record TreasuryExecuteRequestV1 =
  xr_intent :: string
  xr_owner :: string
  xr_policy_hash :: string
  xr_proposal_hash :: string
  xr_approval_hash :: string
  xr_approval_expires_at :: string
  xr_amount :: rat
  xr_rails :: "TreasuryRailKind list"
  xr_bundle :: json

definition rails_json :: "TreasuryRailKind list \<Rightarrow> json" where
  "rails_json rails = JArr (map (\<lambda>r. JStr (rail_name r)) rails)"

definition request_json :: "TreasuryExecuteRequestV1 \<Rightarrow> json" where
  "request_json r = JObj [(''version'', JNum (num 1)), (''intent_id'', JStr (xr_intent r)),
     (''owner_did'', JStr (xr_owner r)), (''policy_hash'', JStr (xr_policy_hash r)),
     (''proposal_hash'', JStr (xr_proposal_hash r)), (''approval_hash'', JStr (xr_approval_hash r)),
     (''approval_expires_at'', JStr (xr_approval_expires_at r)), (''amount_micro_usd'', JNum (Fin (xr_amount r))),
     (''rails'', rails_json (xr_rails r)), (''encrypted_context_bundle'', xr_bundle r)]"

definition request_of_json :: "json \<Rightarrow> TreasuryExecuteRequestV1 option" where
  "request_of_json v = (let kvs = object_entries v in
     Option.bind (text_of (obj_field kvs ''intent_id'')) (\<lambda>i.
     Option.bind (text_of (obj_field kvs ''owner_did'')) (\<lambda>ow.
     Option.bind (text_of (obj_field kvs ''policy_hash'')) (\<lambda>policy.
     Option.bind (text_of (obj_field kvs ''proposal_hash'')) (\<lambda>proposal.
     Option.bind (text_of (obj_field kvs ''approval_hash'')) (\<lambda>approval.
     Option.bind (text_of (obj_field kvs ''approval_expires_at'')) (\<lambda>expires.
     Option.bind (finite_of (obj_field kvs ''amount_micro_usd'')) (\<lambda>amount.
     Option.bind (items_of rail_of_json (obj_field kvs ''rails'')) (\<lambda>rails.
       Some \<lparr>xr_intent = i, xr_owner = ow, xr_policy_hash = policy, xr_proposal_hash = proposal,
         xr_approval_hash = approval, xr_approval_expires_at = expires, xr_amount = amount,
         xr_rails = rails, xr_bundle = obj_field kvs ''encrypted_context_bundle''\<rparr>)))))))))"

record approval_input =
  ai_owner :: json
  ai_policy_hash :: json
  ai_proposal_hash :: json
  ai_approval_hash :: json
  ai_expires_at :: json
  ai_amount :: json
  ai_rails :: json

definition validateTreasuryApprovalFields :: "treasury_host \<Rightarrow> approval_input \<Rightarrow> time \<Rightarrow> string option" where
  "validateTreasuryApprovalFields th inp now =
     (if \<not> is_text (ai_expires_at inp) then Some ''approval_expires_at is required''
      else case Option.bind (text_of (ai_expires_at inp)) (parse_date th) of
        None \<Rightarrow> Some ''approval_expires_at is invalid''
      | Some expiresAt \<Rightarrow>
          if expiresAt \<le> now then Some ''approval_hash has expired''
          else case (text_of (ai_owner inp), text_of (ai_policy_hash inp), text_of (ai_proposal_hash inp),
              text_of (ai_approval_hash inp), text_of (ai_expires_at inp), finite_of (ai_amount inp),
              items_of rail_of_json (ai_rails inp)) of
            (Some ow, Some policy, Some proposal, Some approval, Some expires, Some amount, Some rails) \<Rightarrow>
              if \<not> 0 < amount \<or> rails = [] then Some ''approval fields are invalid''
              else if approval = buildTreasuryApprovalHash (th_host th) \<lparr>af_owner = ow,
                  af_policy_hash = policy, af_proposal_hash = proposal, af_amount = amount,
                  af_rails = rails, af_expires_at = expires\<rparr>
              then None else Some ''approval_hash does not match proposal scope''
          | _ \<Rightarrow> Some ''approval fields are invalid'')"

definition execute_keys :: "string list" where
  "execute_keys = [''intent_id'', ''owner_did'', ''policy_hash'', ''proposal_hash'', ''approval_hash'',
     ''approval_expires_at'']"

definition approval_fields_of :: "(string \<times> json) list \<Rightarrow> approval_input" where
  "approval_fields_of kvs = \<lparr>ai_owner = obj_field kvs ''owner_did'',
     ai_policy_hash = obj_field kvs ''policy_hash'', ai_proposal_hash = obj_field kvs ''proposal_hash'',
     ai_approval_hash = obj_field kvs ''approval_hash'', ai_expires_at = obj_field kvs ''approval_expires_at'',
     ai_amount = obj_field kvs ''amount_micro_usd'', ai_rails = obj_field kvs ''rails''\<rparr>"

definition executeRequestError :: "treasury_host \<Rightarrow> (string \<times> json) list \<Rightarrow> time \<Rightarrow> string option" where
  "executeRequestError th kvs now =
     or_else (error_if (obj_field kvs ''version'' \<noteq> JNum (num 1)) ''version must be 1'')
     (or_else (first_bad is_text [] '' is required'' kvs execute_keys)
     (or_else (error_if (\<not> isPositiveNumber (obj_field kvs ''amount_micro_usd'')) ''amount_micro_usd must be positive'')
     (or_else (error_if (array_items (obj_field kvs ''rails'') = []) ''rails must be a non-empty array'')
     (or_else (error_if (\<not> list_all isTreasuryRailKind (array_items (obj_field kvs ''rails'')))
        ''rails contains an unsupported rail'')
     (or_else (validateTreasuryApprovalFields th (approval_fields_of kvs) now)
     (validateEncryptedBundle (obj_field kvs ''encrypted_context_bundle'')))))))"

definition validateTreasuryExecuteRequest :: "treasury_host \<Rightarrow> json \<Rightarrow> time \<Rightarrow> TreasuryExecuteRequestV1 result" where
  "validateTreasuryExecuteRequest th body now =
     (if \<not> is_object body then throw ''request body must be an object''
      else if containsTreasuryPlaintextLeak body then throw leak_message
      else case executeRequestError th (object_entries body) now of
        Some e \<Rightarrow> throw e
      | None \<Rightarrow> (case request_of_json body of Some r \<Rightarrow> return_ok r | None \<Rightarrow> throw ''cast''))"

section \<open>Receipts\<close>

definition DEFAULT_TREASURY_PROVIDER_ID :: string where
  "DEFAULT_TREASURY_PROVIDER_ID = ''mock_treasury_partner''"

record TreasuryExecutionReceiptV1 =
  rcp_id :: string
  rcp_intent :: string
  rcp_owner :: string
  rcp_agent :: string
  rcp_policy_hash :: string
  rcp_proposal_hash :: string
  rcp_approval_hash :: string
  rcp_approval_expires_at :: string
  rcp_amount :: rat
  rcp_rails :: "TreasuryRailKind list"
  rcp_provider :: string
  rcp_partner_refs :: "json list"
  rcp_executed_at :: time
  rcp_signature :: string

definition unsigned_json :: "TreasuryExecutionReceiptV1 \<Rightarrow> (string \<times> json) list" where
  "unsigned_json r = [(''version'', JNum (num 1)), (''receipt_id'', JStr (rcp_id r)),
     (''intent_id'', JStr (rcp_intent r)), (''owner_did'', JStr (rcp_owner r)), (''agent_id'', JStr (rcp_agent r)),
     (''policy_hash'', JStr (rcp_policy_hash r)), (''proposal_hash'', JStr (rcp_proposal_hash r)),
     (''approval_hash'', JStr (rcp_approval_hash r)),
     (''approval_expires_at'', JStr (rcp_approval_expires_at r)),
     (''amount_micro_usd'', JNum (Fin (rcp_amount r))), (''rails'', rails_json (rcp_rails r)),
     (''provider_id'', JStr (rcp_provider r)), (''partner_refs'', JArr (rcp_partner_refs r)),
     (''reconciliation_state'', JStr ''submitted''), (''executed_at'', JStr (to_iso (rcp_executed_at r))),
     (''public_fallback_used'', JBool False)]"

definition receipt_json :: "TreasuryExecutionReceiptV1 \<Rightarrow> (string \<times> json) list" where
  "receipt_json r = unsigned_json r @ [(''signature'', JStr (rcp_signature r))]"

definition signTreasuryExecutionReceipt :: "treasury_host \<Rightarrow> (string \<times> json) list \<Rightarrow> string \<Rightarrow> string" where
  "signTreasuryExecutionReceipt th receipt secret =
     hmac_hex th secret (text_of_undefined (stableJsonText (JObj receipt)))"

definition buildTreasuryExecutionReceipt :: "treasury_host \<Rightarrow> TreasuryExecuteRequestV1 \<Rightarrow> string \<Rightarrow> string \<Rightarrow> json list \<Rightarrow>
    string \<Rightarrow> string \<Rightarrow> time \<Rightarrow> TreasuryExecutionReceiptV1" where
  "buildTreasuryExecutionReceipt th r agent provider refs secret uuid now =
     (let unsigned = \<lparr>rcp_id = ''tex_'' @ uuid, rcp_intent = xr_intent r, rcp_owner = xr_owner r,
            rcp_agent = agent, rcp_policy_hash = xr_policy_hash r, rcp_proposal_hash = xr_proposal_hash r,
            rcp_approval_hash = xr_approval_hash r, rcp_approval_expires_at = xr_approval_expires_at r,
            rcp_amount = xr_amount r, rcp_rails = xr_rails r, rcp_provider = provider,
            rcp_partner_refs = refs, rcp_executed_at = now, rcp_signature = []\<rparr>
      in unsigned\<lparr>rcp_signature := signTreasuryExecutionReceipt th (unsigned_json unsigned) secret\<rparr>)"

text \<open>The receipt to verify is any object: its \<open>signature\<close> against the other properties.\<close>

definition verifyTreasuryExecutionReceiptSignature :: "treasury_host \<Rightarrow> (string \<times> json) list \<Rightarrow> string \<Rightarrow> bool" where
  "verifyTreasuryExecutionReceiptSignature th receipt secret \<longleftrightarrow>
     obj_field receipt ''signature'' =
     JStr (signTreasuryExecutionReceipt th (filter (\<lambda>p. fst p \<noteq> ''signature'') receipt) secret)"

section \<open>Readiness\<close>

record TreasuryExecutionStatusV1 =
  tst_ready :: bool
  tst_rails :: "TreasuryRailKind list"
  tst_partner_ready :: bool
  tst_sealed_ready :: bool
  tst_blocking :: "string list"

definition treasuryExecutionStatus :: "TreasuryRailKind list option \<Rightarrow> bool \<Rightarrow> bool \<Rightarrow> TreasuryExecutionStatusV1" where
  "treasuryExecutionStatus rails partnerRailReady sealedProviderReady =
     (let blocking = (if partnerRailReady then [] else [''partner_rail_unavailable'']) @
            (if sealedProviderReady then [] else [''sealed_provider_unavailable''])
      in \<lparr>tst_ready = (blocking = []),
        tst_rails = (case rails of Some (r # rs) \<Rightarrow> r # rs | _ \<Rightarrow> TREASURY_RAILS),
        tst_partner_ready = partnerRailReady, tst_sealed_ready = sealedProviderReady,
        tst_blocking = blocking\<rparr>)"

section \<open>Partners\<close>

datatype partner_action = Act_prepare | Act_submit | Act_reconcile | Act_cancel

fun partner_action_name :: "partner_action \<Rightarrow> string" where
  "partner_action_name Act_prepare = ''prepare''"
| "partner_action_name Act_submit = ''submit''"
| "partner_action_name Act_reconcile = ''reconcile''"
| "partner_action_name Act_cancel = ''cancel''"

record partner_call =
  pc_url :: string
  pc_action :: partner_action
  pc_rail :: TreasuryRailKind
  pc_authorization :: "string option"
  pc_timeout_ms :: int
  pc_body :: json

type_synonym partner = "partner_call list \<Rightarrow> partner_call \<Rightarrow> json result"

type_synonym 'a effect = "partner_call list \<Rightarrow> 'a result \<times> partner_call list"

definition pure_effect :: "'a \<Rightarrow> 'a effect" where
  "pure_effect x = (\<lambda>calls. (Inr x, calls))"

definition throw_effect :: "string \<Rightarrow> 'a effect" where
  "throw_effect e = (\<lambda>calls. (Inl e, calls))"

definition bind_effect :: "'a effect \<Rightarrow> ('a \<Rightarrow> 'b effect) \<Rightarrow> 'b effect" where
  "bind_effect m f = (\<lambda>calls. case m calls of (Inl e, c) \<Rightarrow> (Inl e, c) | (Inr x, c) \<Rightarrow> f x c)"

text \<open>Properties of an answer: \<open>null\<close> and \<open>undefined\<close> throw, other primitives and arrays have none of
  the properties read here.\<close>

fun answer_field :: "json \<Rightarrow> string \<Rightarrow> json result" where
  "answer_field JNull k = throw ''TypeError''"
| "answer_field JUndef k = throw ''TypeError''"
| "answer_field (JObj kvs) k = return_ok (obj_field kvs k)"
| "answer_field _ k = return_ok JUndef"

record TreasuryPartnerPreparedInstructionV1 =
  prep_rail :: TreasuryRailKind
  prep_instruction_ref :: json
  prep_provider :: json

record TreasuryPartnerSubmissionV1 =
  subm_rail :: TreasuryRailKind
  subm_partner_ref :: json
  subm_provider :: json

record TreasuryPartnerReconciliationV1 =
  recn_rail :: TreasuryRailKind
  recn_partner_ref :: json
  recn_state :: json

record TreasuryHttpPartnerAdapterConfig =
  http_rail :: TreasuryRailKind
  http_endpoint :: string
  http_key :: "string option"
  http_timeout_ms :: int

datatype TreasuryPartnerAdapter =
    Mock_adapter TreasuryRailKind string
  | Http_adapter TreasuryHttpPartnerAdapterConfig

definition strip_slashes :: "string \<Rightarrow> string" where
  "strip_slashes s = rev (dropWhile (\<lambda>c. c = CHR ''/'') (rev s))"

definition createHttpTreasuryAdapter :: "TreasuryHttpPartnerAdapterConfig \<Rightarrow> TreasuryPartnerAdapter" where
  "createHttpTreasuryAdapter config = Http_adapter (config\<lparr>http_endpoint := strip_slashes (http_endpoint config)\<rparr>)"

definition createMockTreasuryAdapters :: "string \<Rightarrow> (TreasuryRailKind, TreasuryPartnerAdapter) jsmap" where
  "createMockTreasuryAdapters provider = map (\<lambda>rail. (rail, Mock_adapter rail provider)) TREASURY_RAILS"

definition callTreasuryPartner :: "partner \<Rightarrow> TreasuryHttpPartnerAdapterConfig \<Rightarrow> partner_action \<Rightarrow> json \<Rightarrow> json effect" where
  "callTreasuryPartner partner config action body = (\<lambda>calls.
     let call = \<lparr>pc_url = http_endpoint config @ ''/'' @ partner_action_name action, pc_action = action,
           pc_rail = http_rail config,
           pc_authorization = (case http_key config of None \<Rightarrow> None
             | Some k \<Rightarrow> if k = [] then None else Some (''Bearer '' @ k)),
           pc_timeout_ms = http_timeout_ms config, pc_body = body\<rparr>
     in (partner calls call, calls @ [call]))"

definition redactedPartnerPayload :: "TreasuryExecuteRequestV1 \<Rightarrow> string \<Rightarrow> TreasuryRailKind \<Rightarrow> json" where
  "redactedPartnerPayload r provider rail = JObj [(''version'', JNum (num 1)), (''rail'', JStr (rail_name rail)),
     (''provider_id'', JStr provider), (''intent_id'', JStr (xr_intent r)), (''owner_did'', JStr (xr_owner r)),
     (''policy_hash'', JStr (xr_policy_hash r)), (''proposal_hash'', JStr (xr_proposal_hash r)),
     (''approval_hash'', JStr (xr_approval_hash r)), (''approval_expires_at'', JStr (xr_approval_expires_at r)),
     (''amount_micro_usd'', JNum (Fin (xr_amount r))), (''encrypted_context_bundle'', xr_bundle r)]"

definition reference_payload :: "TreasuryRailKind \<Rightarrow> json \<Rightarrow> string \<Rightarrow> json" where
  "reference_payload rail ref provider = JObj [(''version'', JNum (num 1)), (''rail'', JStr (rail_name rail)),
     (''partner_ref'', ref), (''provider_id'', JStr provider)]"

definition field_effect :: "json \<Rightarrow> string \<Rightarrow> json effect" where
  "field_effect answer k = (\<lambda>calls. (answer_field answer k, calls))"

definition mock_ref :: "string \<Rightarrow> string \<Rightarrow> TreasuryRailKind \<Rightarrow> TreasuryExecuteRequestV1 \<Rightarrow> json" where
  "mock_ref kind provider rail r =
     JStr (kind @ '':'' @ provider @ '':'' @ rail_name rail @ '':'' @ xr_intent r)"

fun adapter_prepare :: "partner \<Rightarrow> TreasuryPartnerAdapter \<Rightarrow> TreasuryExecuteRequestV1 \<Rightarrow> string \<Rightarrow>
    TreasuryPartnerPreparedInstructionV1 effect" where
  "adapter_prepare partner (Mock_adapter rail own) r provider =
     pure_effect \<lparr>prep_rail = rail, prep_instruction_ref = mock_ref ''mock-prepare'' own rail r,
       prep_provider = JStr own\<rparr>"
| "adapter_prepare partner (Http_adapter config) r provider =
     bind_effect (callTreasuryPartner partner config Act_prepare
       (redactedPartnerPayload r provider (http_rail config))) (\<lambda>answer.
     bind_effect (field_effect answer ''instruction_ref'') (\<lambda>ref.
     bind_effect (field_effect answer ''provider_id'') (\<lambda>p.
       pure_effect \<lparr>prep_rail = http_rail config, prep_instruction_ref = ref,
         prep_provider = or_json p (JStr provider)\<rparr>)))"

fun adapter_submit :: "partner \<Rightarrow> TreasuryPartnerAdapter \<Rightarrow> TreasuryExecuteRequestV1 \<Rightarrow> string \<Rightarrow>
    TreasuryPartnerSubmissionV1 effect" where
  "adapter_submit partner (Mock_adapter rail own) r provider =
     pure_effect \<lparr>subm_rail = rail, subm_partner_ref = mock_ref ''mock-submit'' own rail r,
       subm_provider = JStr own\<rparr>"
| "adapter_submit partner (Http_adapter config) r provider =
     bind_effect (callTreasuryPartner partner config Act_submit
       (redactedPartnerPayload r provider (http_rail config))) (\<lambda>answer.
     bind_effect (field_effect answer ''partner_ref'') (\<lambda>ref.
     bind_effect (field_effect answer ''provider_id'') (\<lambda>p.
       pure_effect \<lparr>subm_rail = http_rail config, subm_partner_ref = ref,
         subm_provider = or_json p (JStr provider)\<rparr>)))"

text \<open>Reconciling and cancelling differ in the action and in the state assumed when the answer names
  none.\<close>

definition follow_up :: "partner \<Rightarrow> partner_action \<Rightarrow> string \<Rightarrow> TreasuryHttpPartnerAdapterConfig \<Rightarrow> json \<Rightarrow> string \<Rightarrow>
    TreasuryPartnerReconciliationV1 effect" where
  "follow_up partner action state config ref provider =
     bind_effect (callTreasuryPartner partner config action (reference_payload (http_rail config) ref provider)) (\<lambda>answer.
     bind_effect (field_effect answer ''partner_ref'') (\<lambda>new_ref.
     bind_effect (field_effect answer ''reconciliation_state'') (\<lambda>s.
       pure_effect \<lparr>recn_rail = http_rail config, recn_partner_ref = or_json new_ref ref,
         recn_state = or_json s (JStr state)\<rparr>)))"

fun adapter_reconcile :: "partner \<Rightarrow> TreasuryPartnerAdapter \<Rightarrow> json \<Rightarrow> string \<Rightarrow> TreasuryPartnerReconciliationV1 effect" where
  "adapter_reconcile partner (Mock_adapter rail own) ref provider =
     pure_effect \<lparr>recn_rail = rail, recn_partner_ref = ref, recn_state = JStr ''submitted''\<rparr>"
| "adapter_reconcile partner (Http_adapter config) ref provider =
     follow_up partner Act_reconcile ''submitted'' config ref provider"

fun adapter_cancel :: "partner \<Rightarrow> TreasuryPartnerAdapter \<Rightarrow> json \<Rightarrow> string \<Rightarrow> TreasuryPartnerReconciliationV1 effect" where
  "adapter_cancel partner (Mock_adapter rail own) ref provider =
     pure_effect \<lparr>recn_rail = rail, recn_partner_ref = ref, recn_state = JStr ''cancelled''\<rparr>"
| "adapter_cancel partner (Http_adapter config) ref provider =
     follow_up partner Act_cancel ''cancelled'' config ref provider"

section \<open>Submitting, reconciling, cancelling\<close>

definition missing_adapter :: "TreasuryRailKind \<Rightarrow> string" where
  "missing_adapter rail = ''missing treasury adapter for '' @ rail_name rail"

fun submit_rails :: "partner \<Rightarrow> (TreasuryRailKind, TreasuryPartnerAdapter) jsmap \<Rightarrow> TreasuryExecuteRequestV1 \<Rightarrow> string \<Rightarrow>
    TreasuryRailKind list \<Rightarrow> (TreasuryPartnerPreparedInstructionV1 list \<times> TreasuryPartnerSubmissionV1 list) effect" where
  "submit_rails partner adapters r provider [] = pure_effect ([], [])"
| "submit_rails partner adapters r provider (rail # rails) =
     (case js_get adapters rail of
        None \<Rightarrow> throw_effect (missing_adapter rail)
      | Some adapter \<Rightarrow>
          bind_effect (adapter_prepare partner adapter r provider) (\<lambda>p.
          bind_effect (adapter_submit partner adapter r provider) (\<lambda>s.
          bind_effect (submit_rails partner adapters r provider rails) (\<lambda>(ps, ss).
            pure_effect (p # ps, s # ss)))))"

definition submitTreasuryExecutionToAdapters :: "partner \<Rightarrow> (TreasuryRailKind, TreasuryPartnerAdapter) jsmap \<Rightarrow>
    TreasuryExecuteRequestV1 \<Rightarrow> string \<Rightarrow>
    (TreasuryPartnerPreparedInstructionV1 list \<times> TreasuryPartnerSubmissionV1 list \<times> json list) effect" where
  "submitTreasuryExecutionToAdapters partner adapters r provider =
     bind_effect (submit_rails partner adapters r provider (xr_rails r)) (\<lambda>(ps, ss).
       pure_effect (ps, ss, map subm_partner_ref ss))"

fun follow_refs :: "(TreasuryPartnerAdapter \<Rightarrow> json \<Rightarrow> string \<Rightarrow> TreasuryPartnerReconciliationV1 effect) \<Rightarrow>
    (TreasuryRailKind, TreasuryPartnerAdapter) jsmap \<Rightarrow> string \<Rightarrow> TreasuryPartnerSubmissionV1 list \<Rightarrow>
    TreasuryPartnerReconciliationV1 list effect" where
  "follow_refs act adapters provider [] = pure_effect []"
| "follow_refs act adapters provider (s # ss) =
     (case js_get adapters (subm_rail s) of
        None \<Rightarrow> throw_effect (missing_adapter (subm_rail s))
      | Some adapter \<Rightarrow>
          bind_effect (act adapter (subm_partner_ref s) provider) (\<lambda>r.
          bind_effect (follow_refs act adapters provider ss) (\<lambda>rs. pure_effect (r # rs))))"

definition reconcileTreasuryPartnerRefs :: "partner \<Rightarrow> (TreasuryRailKind, TreasuryPartnerAdapter) jsmap \<Rightarrow> string \<Rightarrow>
    TreasuryPartnerSubmissionV1 list \<Rightarrow> TreasuryPartnerReconciliationV1 list effect" where
  "reconcileTreasuryPartnerRefs partner adapters provider = follow_refs (adapter_reconcile partner) adapters provider"

definition cancelTreasuryPartnerRefs :: "partner \<Rightarrow> (TreasuryRailKind, TreasuryPartnerAdapter) jsmap \<Rightarrow> string \<Rightarrow>
    TreasuryPartnerSubmissionV1 list \<Rightarrow> TreasuryPartnerReconciliationV1 list effect" where
  "cancelTreasuryPartnerRefs partner adapters provider = follow_refs (adapter_cancel partner) adapters provider"

end
