(* ===== verification/TreasuryStore.thy ===== *)
theory TreasuryStore imports TreasuryExecution
begin

text \<open>
  \<open>treasury-execution-store.ts\<close> (the in-memory store of intent records) and the routes under
  \<open>app/v1/treasury-intents\<close>. A route takes what it reads of the request (the authorization header, the
  parsed body, \<open>None\<close> when the body is not JSON), the environment, the clock readings and random ids
  it uses, the records and the partner calls made so far; it gives the answer, the records and the
  partner calls. Configuration texts in the environment are JSON of the type they are declared with;
  their parsers are parameters.
\<close>

section \<open>Records\<close>

datatype TreasuryRecordState = Simulated | Tx_submitted | Tx_settled | Tx_cancelled | Tx_failed

record TreasuryIntentRecordV1 =
  tx_intent :: string
  tx_owner :: string
  tx_state :: TreasuryRecordState
  tx_policy_hash :: string
  tx_intent_hash :: string
  tx_proposal_hash :: string
  tx_proposal :: TreasuryProposalV1
  tx_approval :: "TreasuryApprovalV1 option"
  tx_receipt :: "TreasuryExecutionReceiptV1 option"
  tx_partner_refs :: "json list"
  tx_submissions :: "TreasuryPartnerSubmissionV1 list"
  tx_reconciliations :: "TreasuryPartnerReconciliationV1 list"
  tx_blocking :: "string list"
  tx_created_at :: time
  tx_updated_at :: time

type_synonym memoryRecords = "(string, TreasuryIntentRecordV1) jsmap"

fun guard_reason_name :: "TreasuryGuardReason \<Rightarrow> string" where
  "guard_reason_name Owner_mismatch = ''owner_mismatch''"
| "guard_reason_name Invalid_amount = ''invalid_amount''"
| "guard_reason_name Public_fallback_denied = ''public_fallback_denied''"
| "guard_reason_name Rail_not_allowed = ''rail_not_allowed''"
| "guard_reason_name Asset_not_allowed = ''asset_not_allowed''"
| "guard_reason_name Partner_not_allowed = ''partner_not_allowed''"
| "guard_reason_name Amount_over_cap = ''amount_over_cap''"
| "guard_reason_name Daily_cap_exceeded = ''daily_cap_exceeded''"
| "guard_reason_name Operating_cash_below_min = ''operating_cash_below_min''"
| "guard_reason_name Instant_liquidity_below_min = ''instant_liquidity_below_min''"
| "guard_reason_name Duration_too_long = ''duration_too_long''"

definition getTreasuryIntentRecord :: "string \<Rightarrow> memoryRecords \<Rightarrow> TreasuryIntentRecordV1 option" where
  "getTreasuryIntentRecord i m = js_get m i"

definition putTreasuryIntentRecord :: "TreasuryIntentRecordV1 \<Rightarrow> memoryRecords \<Rightarrow> memoryRecords" where
  "putTreasuryIntentRecord r m = js_set m (tx_intent r) r"

definition from_existing :: "'a \<Rightarrow> (TreasuryIntentRecordV1 \<Rightarrow> 'a) \<Rightarrow> TreasuryIntentRecordV1 option \<Rightarrow> 'a" where
  "from_existing d f existing = (case existing of None \<Rightarrow> d | Some e \<Rightarrow> f e)"

definition recordTreasurySimulation :: "TreasurySimulationResponseV1 \<Rightarrow> time \<Rightarrow> memoryRecords \<Rightarrow>
    TreasuryIntentRecordV1 \<times> memoryRecords" where
  "recordTreasurySimulation sim now m =
     (let p = sim_proposal sim; g = sim_guard sim; existing = getTreasuryIntentRecord (pr_intent p) m;
          r = \<lparr>tx_intent = pr_intent p, tx_owner = pr_owner p,
            tx_state = (if sim_ok sim then Simulated else Tx_failed),
            tx_policy_hash = gr_policy_hash g, tx_intent_hash = gr_intent_hash g,
            tx_proposal_hash = gr_proposal_hash g, tx_proposal = p, tx_approval = sim_approval sim,
            tx_receipt = None,
            tx_partner_refs = from_existing [] tx_partner_refs existing,
            tx_submissions = from_existing [] tx_submissions existing,
            tx_reconciliations = from_existing [] tx_reconciliations existing,
            tx_blocking = (if sim_ok sim then [] else [case sim_blocked sim of
               None \<Rightarrow> ''simulation_blocked'' | Some reason \<Rightarrow> guard_reason_name reason]),
            tx_created_at = from_existing now tx_created_at existing, tx_updated_at = now\<rparr>
      in (r, putTreasuryIntentRecord r m))"

definition unknown_proposal :: "TreasuryExecutionReceiptV1 \<Rightarrow> TreasuryProposalV1" where
  "unknown_proposal receipt = \<lparr>pr_id = rcp_proposal_hash receipt, pr_intent = rcp_intent receipt,
     pr_owner = rcp_owner receipt, pr_objective = Maintain_runway, pr_created_at = rcp_executed_at receipt,
     pr_horizon_days = 0, pr_amount = rcp_amount receipt, pr_routes = [], pr_approval_required = True\<rparr>"

definition recordTreasuryExecution :: "TreasuryExecutionReceiptV1 \<Rightarrow> TreasuryPartnerSubmissionV1 list \<Rightarrow> time \<Rightarrow>
    memoryRecords \<Rightarrow> TreasuryIntentRecordV1 \<times> memoryRecords" where
  "recordTreasuryExecution receipt submissions now m =
     (let existing = getTreasuryIntentRecord (rcp_intent receipt) m;
          r = \<lparr>tx_intent = rcp_intent receipt, tx_owner = rcp_owner receipt, tx_state = Tx_submitted,
            tx_policy_hash = rcp_policy_hash receipt,
            tx_intent_hash = from_existing [] tx_intent_hash existing,
            tx_proposal_hash = rcp_proposal_hash receipt,
            tx_proposal = from_existing (unknown_proposal receipt) tx_proposal existing,
            tx_approval = from_existing None tx_approval existing, tx_receipt = Some receipt,
            tx_partner_refs = rcp_partner_refs receipt, tx_submissions = submissions,
            tx_reconciliations = [], tx_blocking = [],
            tx_created_at = from_existing now tx_created_at existing, tx_updated_at = now\<rparr>
      in (r, putTreasuryIntentRecord r m))"

definition treasuryStateForReconciliations :: "TreasuryPartnerReconciliationV1 list \<Rightarrow> TreasuryRecordState" where
  "treasuryStateForReconciliations rs =
     (if rs = [] then Tx_submitted
      else if list_ex (\<lambda>r. recn_state r = JStr ''failed'') rs then Tx_failed
      else if list_all (\<lambda>r. recn_state r = JStr ''cancelled'') rs then Tx_cancelled
      else if list_all (\<lambda>r. recn_state r = JStr ''settled'') rs then Tx_settled
      else Tx_submitted)"

definition reconciliation_failed :: string where
  "reconciliation_failed = ''partner_reconciliation_failed''"

definition recordTreasuryReconciliation :: "string \<Rightarrow> TreasuryPartnerReconciliationV1 list \<Rightarrow> time \<Rightarrow> memoryRecords \<Rightarrow>
    TreasuryIntentRecordV1 result \<times> memoryRecords" where
  "recordTreasuryReconciliation i rs now m =
     (case getTreasuryIntentRecord i m of
        None \<Rightarrow> (throw (''treasury intent '' @ i @ '' not found''), m)
      | Some existing \<Rightarrow>
          let state = treasuryStateForReconciliations rs;
              r = existing\<lparr>tx_state := state, tx_reconciliations := rs,
                tx_blocking := filter (\<lambda>b. b \<noteq> reconciliation_failed) (tx_blocking existing) @
                  (if state = Tx_failed then [reconciliation_failed] else []),
                tx_updated_at := now\<rparr>
          in (return_ok r, putTreasuryIntentRecord r m))"

definition resetTreasuryExecutionStoreForTests :: "memoryRecords \<Rightarrow> memoryRecords" where
  "resetTreasuryExecutionStoreForTests m = []"

section \<open>The environment\<close>

record TreasuryAgentConfig =
  agent_id :: string
  agent_label :: string

record treasury_config =
  parse_agent_keys :: "string \<Rightarrow> (string, TreasuryAgentConfig) jsmap option"
  parse_endpoints :: "string \<Rightarrow> (TreasuryRailKind, string) jsmap option"

type_synonym process_env = "string \<Rightarrow> string option"

definition env_text :: "process_env \<Rightarrow> string list \<Rightarrow> string option" where
  "env_text env names = List.find (\<lambda>s. s \<noteq> []) (List.map_filter env names)"

definition env_default :: "process_env \<Rightarrow> string list \<Rightarrow> string \<Rightarrow> string" where
  "env_default env names d = (case env_text env names of None \<Rightarrow> d | Some s \<Rightarrow> s)"

definition given :: "string option \<Rightarrow> string option" where
  "given raw = (case raw of None \<Rightarrow> None | Some s \<Rightarrow> if js_trim s = [] then None else Some s)"

definition parseSupportedRails :: "string option \<Rightarrow> TreasuryRailKind list option" where
  "parseSupportedRails raw = map_option (\<lambda>s. List.map_filter (\<lambda>item.
     List.find (\<lambda>r. rail_name r = js_trim item) TREASURY_RAILS) (js_split CHR '','' s)) (given raw)"

definition parseAdapterEndpoints :: "treasury_config \<Rightarrow> string option \<Rightarrow> (TreasuryRailKind, string) jsmap option" where
  "parseAdapterEndpoints cfg raw = Option.bind (given raw) (parse_endpoints cfg)"

definition parsePositiveInt :: "string option \<Rightarrow> int option" where
  "parsePositiveInt raw = Option.bind (given raw) (\<lambda>s.
     case js_parse_int 10 s of Fin r \<Rightarrow> if r > 0 then Some \<lfloor>r\<rfloor> else None | _ \<Rightarrow> None)"

record treasury_env =
  te_provider :: string
  te_secret :: string
  te_rails :: "TreasuryRailKind list option"
  te_key :: "string option"
  te_endpoint :: "string option"
  te_endpoints :: "(TreasuryRailKind, string) jsmap option"
  te_timeout_ms :: int
  te_partner_ready :: bool
  te_sealed_ready :: bool

definition treasuryExecutionEnv :: "treasury_config \<Rightarrow> process_env \<Rightarrow> treasury_env" where
  "treasuryExecutionEnv cfg env =
     \<lparr>te_provider = env_default env [''GHOLA_TREASURY_PROVIDER_ID''] ''mock_treasury_partner'',
      te_secret = env_default env [''GHOLA_TREASURY_RECEIPT_SECRET'',
        ''GHOLA_PRIVATE_EXECUTION_RECEIPT_SECRET''] ''ghola-dev-treasury-receipts'',
      te_rails = parseSupportedRails (env ''GHOLA_TREASURY_SUPPORTED_RAILS''),
      te_key = env ''GHOLA_TREASURY_PARTNER_ADAPTER_API_KEY'',
      te_endpoint = env ''GHOLA_TREASURY_PARTNER_ADAPTER_URL'',
      te_endpoints = parseAdapterEndpoints cfg (env ''GHOLA_TREASURY_PARTNER_ADAPTER_URLS''),
      te_timeout_ms = (case parsePositiveInt (env ''GHOLA_TREASURY_PARTNER_ADAPTER_TIMEOUT_MS'') of
        None \<Rightarrow> 15000 | Some t \<Rightarrow> t),
      te_partner_ready = (env ''GHOLA_TREASURY_PARTNER_RAIL_READY'' \<noteq> Some ''false''),
      te_sealed_ready = (env ''GHOLA_TREASURY_PROVIDER_READY'' \<noteq> Some ''false'' \<and>
        env ''GHOLA_PRIVATE_EXECUTION_PROVIDER_READY'' \<noteq> Some ''false'')\<rparr>"

definition treasuryStatus :: "treasury_env \<Rightarrow> TreasuryExecutionStatusV1" where
  "treasuryStatus env = treasuryExecutionStatus (te_rails env) (te_partner_ready env) (te_sealed_ready env)"

definition agentForRequest :: "treasury_config \<Rightarrow> process_env \<Rightarrow> string option \<Rightarrow> TreasuryAgentConfig option" where
  "agentForRequest cfg env authorization =
     (let auth = (case authorization of None \<Rightarrow> [] | Some a \<Rightarrow> a) in
      if \<not> starts_with ''Bearer '' auth then None
      else let key = js_trim (drop (length ''Bearer '') auth) in
        if key = [] then None
        else Option.bind (env_text env [''GHOLA_TREASURY_AGENT_API_KEYS'', ''GHOLA_AGENT_API_KEYS'']) (\<lambda>raw.
          Option.bind (parse_agent_keys cfg raw) (\<lambda>keys. js_get keys key)))"

definition adapter_for :: "treasury_env \<Rightarrow> (TreasuryRailKind, TreasuryPartnerAdapter) jsmap \<Rightarrow> TreasuryRailKind \<Rightarrow>
    (TreasuryRailKind, TreasuryPartnerAdapter) jsmap" where
  "adapter_for env adapters rail =
     (let endpoint = (case Option.bind (te_endpoints env) (\<lambda>es. js_get es rail) of
            Some e \<Rightarrow> Some e | None \<Rightarrow> te_endpoint env) in
      case endpoint of
        None \<Rightarrow> adapters
      | Some e \<Rightarrow> if e = [] then adapters
          else js_set adapters rail (createHttpTreasuryAdapter
            \<lparr>http_rail = rail, http_endpoint = e, http_key = te_key env, http_timeout_ms = te_timeout_ms env\<rparr>))"

definition treasuryAdaptersForEnv :: "treasury_env \<Rightarrow> (TreasuryRailKind, TreasuryPartnerAdapter) jsmap" where
  "treasuryAdaptersForEnv env =
     foldl (adapter_for env) (createMockTreasuryAdapters (te_provider env))
       (case te_rails env of None \<Rightarrow> TREASURY_RAILS | Some rails \<Rightarrow> rails)"

section \<open>From a request to a receipt\<close>

record world =
  w_host :: treasury_host
  w_config :: treasury_config
  w_process :: process_env
  w_partner :: partner

definition w_env :: "world \<Rightarrow> treasury_env" where
  "w_env w = treasuryExecutionEnv (w_config w) (w_process w)"

text \<open>The answer of \<open>buildReceiptForRequest\<close>: a refusal, or a receipt with its submissions. A throw of
  an adapter is a throw of the effect.\<close>

definition existing_mismatch :: "TreasuryIntentRecordV1 option \<Rightarrow> TreasuryExecuteRequestV1 \<Rightarrow> string option" where
  "existing_mismatch existing r =
     (case existing of
        None \<Rightarrow> None
      | Some e \<Rightarrow>
          or_else (error_if (tx_policy_hash e \<noteq> xr_policy_hash r) ''policy_hash does not match simulated intent'')
          (or_else (error_if (tx_proposal_hash e \<noteq> xr_proposal_hash r) ''proposal_hash does not match simulated intent'')
          (error_if (case tx_approval e of None \<Rightarrow> False | Some a \<Rightarrow> ap_hash a \<noteq> xr_approval_hash r)
             ''approval_hash does not match simulated intent'')))"

definition unsupported_rails :: "treasury_env \<Rightarrow> TreasuryExecuteRequestV1 \<Rightarrow> TreasuryRailKind list" where
  "unsupported_rails env r =
     (case te_rails env of None \<Rightarrow> [] | Some rails \<Rightarrow> filter (\<lambda>x. x \<notin> set rails) (xr_rails r))"

definition buildReceiptForRequest :: "world \<Rightarrow> json \<Rightarrow> string \<Rightarrow> time \<Rightarrow> time \<Rightarrow> string \<Rightarrow> memoryRecords \<Rightarrow>
    (TreasuryPartnerSubmissionV1 list \<times> TreasuryExecutionReceiptV1) result effect" where
  "buildReceiptForRequest w body agent checked executed uuid m =
     (case validateTreasuryExecuteRequest (w_host w) body checked of
        Inl e \<Rightarrow> pure_effect (throw e)
      | Inr r \<Rightarrow>
          (case existing_mismatch (getTreasuryIntentRecord (xr_intent r) m) r of
             Some e \<Rightarrow> pure_effect (throw e)
           | None \<Rightarrow>
               let env = w_env w in
               if unsupported_rails env r \<noteq> []
               then pure_effect (throw (''unsupported treasury rail: '' @
                 js_join '','' (map rail_name (unsupported_rails env r))))
               else bind_effect (submitTreasuryExecutionToAdapters (w_partner w) (treasuryAdaptersForEnv env) r
                   (te_provider env)) (\<lambda>(prepared, submissions, refs).
                 pure_effect (return_ok (submissions, buildTreasuryExecutionReceipt (w_host w) r agent
                   (te_provider env) refs (te_secret env) uuid executed)))))"

section \<open>Routes\<close>

datatype treasury_answer =
    Failure int string "string list"
  | Crashed string
  | Simulation_answer TreasurySimulationResponseV1
  | Blocked TreasurySimulationResponseV1
  | Approval_required TreasurySimulationResponseV1
  | Simulated_only TreasurySimulationResponseV1
  | Executed "TreasurySimulationResponseV1 option" TreasuryExecutionReceiptV1 TreasuryRecordState "json list"
  | Followed_up string TreasuryRecordState "TreasuryPartnerReconciliationV1 list" "json list"

record treasury_state =
  ts_records :: memoryRecords
  ts_calls :: "partner_call list"

definition unavailable :: "string \<Rightarrow> treasury_env \<Rightarrow> treasury_answer" where
  "unavailable what env = Failure 503 what (tst_blocking (treasuryStatus env))"

definition simulateRoute :: "world \<Rightarrow> json option \<Rightarrow> string \<Rightarrow> time \<Rightarrow> time \<Rightarrow> time \<Rightarrow> treasury_state \<Rightarrow>
    treasury_answer \<times> treasury_state" where
  "simulateRoute w body uuid now now' recorded s =
     (case body of
        None \<Rightarrow> (Failure 400 ''invalid JSON'' [], s)
      | Some v \<Rightarrow>
          (case validateTreasurySimulationRequest v of
             Inl e \<Rightarrow> (Failure 400 e [], s)
           | Inr (policy, intent) \<Rightarrow>
               let sim = simulateTreasuryIntent (th_host (w_host w)) policy intent uuid now now' in
               (Simulation_answer sim,
                s\<lparr>ts_records := snd (recordTreasurySimulation sim recorded (ts_records s))\<rparr>)))"

text \<open>What \<open>execute\<close> and \<open>run\<close> do with a request for a receipt.\<close>

definition execute_with :: "world \<Rightarrow> TreasurySimulationResponseV1 option \<Rightarrow> json \<Rightarrow> string \<Rightarrow> time \<Rightarrow> time \<Rightarrow> time \<Rightarrow> string \<Rightarrow>
    treasury_state \<Rightarrow> treasury_answer \<times> treasury_state" where
  "execute_with w sim body agent checked executed recorded uuid s =
     (case buildReceiptForRequest w body agent checked executed uuid (ts_records s) (ts_calls s) of
        (Inl e, calls) \<Rightarrow> (Crashed e, s\<lparr>ts_calls := calls\<rparr>)
      | (Inr (Inl e), calls) \<Rightarrow> (Failure 400 e [], s\<lparr>ts_calls := calls\<rparr>)
      | (Inr (Inr (submissions, receipt)), calls) \<Rightarrow>
          let (r, m) = recordTreasuryExecution receipt submissions recorded (ts_records s) in
          (Executed sim receipt (tx_state r) (tx_partner_refs r), s\<lparr>ts_records := m, ts_calls := calls\<rparr>))"

definition executeRoute :: "world \<Rightarrow> string option \<Rightarrow> json option \<Rightarrow> time \<Rightarrow> time \<Rightarrow> time \<Rightarrow> string \<Rightarrow> treasury_state \<Rightarrow>
    treasury_answer \<times> treasury_state" where
  "executeRoute w authorization body checked executed recorded uuid s =
     (case agentForRequest (w_config w) (w_process w) authorization of
        None \<Rightarrow> (Failure 401 ''valid agent API key required'' [], s)
      | Some agent \<Rightarrow>
          if \<not> tst_ready (treasuryStatus (w_env w))
          then (unavailable ''treasury execution unavailable'' (w_env w), s)
          else (case body of
            None \<Rightarrow> (Failure 400 ''invalid JSON'' [], s)
          | Some v \<Rightarrow> execute_with w None v (agent_id agent) checked executed recorded uuid s))"

definition uniqueRails :: "TreasuryRailKind list \<Rightarrow> TreasuryRailKind list" where
  "uniqueRails rails = js_uniq rails"

definition run_request :: "TreasuryIntentV1 \<Rightarrow> TreasurySimulationResponseV1 \<Rightarrow> TreasuryApprovalV1 \<Rightarrow> TreasuryExecuteRequestV1" where
  "run_request intent sim approval = \<lparr>xr_intent = ti_id intent, xr_owner = ti_owner intent,
     xr_policy_hash = gr_policy_hash (sim_guard sim), xr_proposal_hash = gr_proposal_hash (sim_guard sim),
     xr_approval_hash = ap_hash approval, xr_approval_expires_at = ap_expires_at approval,
     xr_amount = pr_amount (sim_proposal sim),
     xr_rails = uniqueRails (map tr_rail (pr_routes (sim_proposal sim))), xr_bundle = ti_bundle intent\<rparr>"

record run_clock =
  rk_approval :: time
  rk_proposal :: time
  rk_simulated :: time
  rk_checked :: time
  rk_executed :: time
  rk_recorded :: time
  rk_proposal_uuid :: string
  rk_receipt_uuid :: string

definition runRoute :: "world \<Rightarrow> string option \<Rightarrow> json option \<Rightarrow> run_clock \<Rightarrow> treasury_state \<Rightarrow>
    treasury_answer \<times> treasury_state" where
  "runRoute w authorization body k s =
     (case agentForRequest (w_config w) (w_process w) authorization of
        None \<Rightarrow> (Failure 401 ''valid agent API key required'' [], s)
      | Some agent \<Rightarrow>
          if \<not> tst_ready (treasuryStatus (w_env w))
          then (unavailable ''treasury execution unavailable'' (w_env w), s)
          else (case body of
            None \<Rightarrow> (Failure 400 ''invalid JSON'' [], s)
          | Some v \<Rightarrow>
              (case validateTreasurySimulationRequest v of
                 Inl e \<Rightarrow> (Failure 400 e [], s)
               | Inr (policy, intent) \<Rightarrow>
                   let sim = simulateTreasuryIntent (th_host (w_host w)) policy intent (rk_proposal_uuid k)
                         (rk_approval k) (rk_proposal k);
                       s1 = s\<lparr>ts_records := snd (recordTreasurySimulation sim (rk_simulated k) (ts_records s))\<rparr>
                   in if \<not> sim_ok sim then (Blocked sim, s1)
                   else if pr_approval_required (sim_proposal sim) then (Approval_required sim, s1)
                   else if obj_field (object_entries v) ''execute'' = JBool False then (Simulated_only sim, s1)
                   else (case sim_approval sim of
                     None \<Rightarrow> (Failure 500 ''treasury approval could not be derived'' [], s1)
                   | Some approval \<Rightarrow>
                       execute_with w (Some sim) (request_json (run_request intent sim approval)) (agent_id agent)
                         (rk_checked k) (rk_executed k) (rk_recorded k) (rk_receipt_uuid k) s1))))"

definition treasuryIntentIdFromBody :: "json \<Rightarrow> string option" where
  "treasuryIntentIdFromBody body =
     (if \<not> is_object body then None
      else if obj_field (object_entries body) ''version'' \<noteq> JNum (num 1) then None
      else if is_text (obj_field (object_entries body) ''intent_id'')
      then text_of (obj_field (object_entries body) ''intent_id'') else None)"

text \<open>The routes \<open>reconcile\<close> and \<open>cancel\<close> differ in the calls they make and in the words of an
  unavailable service.\<close>

definition follow_up_route :: "string \<Rightarrow> (partner \<Rightarrow> (TreasuryRailKind, TreasuryPartnerAdapter) jsmap \<Rightarrow> string \<Rightarrow>
      TreasuryPartnerSubmissionV1 list \<Rightarrow> TreasuryPartnerReconciliationV1 list effect) \<Rightarrow>
    world \<Rightarrow> string option \<Rightarrow> json option \<Rightarrow> time \<Rightarrow> treasury_state \<Rightarrow> treasury_answer \<times> treasury_state" where
  "follow_up_route what act w authorization body now s =
     (case agentForRequest (w_config w) (w_process w) authorization of
        None \<Rightarrow> (Failure 401 ''valid agent API key required'' [], s)
      | Some agent \<Rightarrow>
          if \<not> tst_ready (treasuryStatus (w_env w)) then (unavailable what (w_env w), s)
          else (case body of
            None \<Rightarrow> (Failure 400 ''invalid JSON'' [], s)
          | Some v \<Rightarrow>
              (case treasuryIntentIdFromBody v of
                 None \<Rightarrow> (Failure 400 ''intent_id is required'' [], s)
               | Some i \<Rightarrow>
                   (case getTreasuryIntentRecord i (ts_records s) of
                      None \<Rightarrow> (Failure 404 ''treasury intent not found'' [], s)
                    | Some r \<Rightarrow>
                        if (case tx_receipt r of None \<Rightarrow> False
                            | Some rc \<Rightarrow> rcp_agent rc \<noteq> [] \<and> rcp_agent rc \<noteq> agent_id agent)
                        then (Failure 404 ''treasury intent not found'' [], s)
                        else if tx_submissions r = []
                        then (Failure 409 ''treasury intent has no partner submissions'' [], s)
                        else (case act (w_partner w) (treasuryAdaptersForEnv (w_env w)) (te_provider (w_env w))
                              (tx_submissions r) (ts_calls s) of
                          (Inl e, calls) \<Rightarrow> (Failure 502 e [], s\<lparr>ts_calls := calls\<rparr>)
                        | (Inr rs, calls) \<Rightarrow>
                            (case recordTreasuryReconciliation i rs now (ts_records s) of
                               (Inl e, m) \<Rightarrow> (Crashed e, s\<lparr>ts_records := m, ts_calls := calls\<rparr>)
                             | (Inr updated, m) \<Rightarrow>
                                 (Followed_up i (tx_state updated) rs (tx_partner_refs updated),
                                  s\<lparr>ts_records := m, ts_calls := calls\<rparr>)))))))"

definition reconcileRoute :: "world \<Rightarrow> string option \<Rightarrow> json option \<Rightarrow> time \<Rightarrow> treasury_state \<Rightarrow> treasury_answer \<times> treasury_state" where
  "reconcileRoute = follow_up_route ''treasury reconciliation unavailable'' reconcileTreasuryPartnerRefs"

definition cancelRoute :: "world \<Rightarrow> string option \<Rightarrow> json option \<Rightarrow> time \<Rightarrow> treasury_state \<Rightarrow> treasury_answer \<times> treasury_state" where
  "cancelRoute = follow_up_route ''treasury cancellation unavailable'' cancelTreasuryPartnerRefs"

text \<open>\<open>verify\<close> answers whether the signature of a receipt (the body, or its property \<open>receipt\<close>) is right;
  \<open>None\<close> is the refusal of a body without a receipt. Its argument is the parsed body, \<open>None\<close> when the body is not
  JSON; what becomes of a receipt on the way there is \<open>json_wire\<close> of \<open>TreasuryWire\<close>.\<close>

definition verifyRoute :: "world \<Rightarrow> json option \<Rightarrow> bool option" where
  "verifyRoute w body =
     (case body of
        None \<Rightarrow> None
      | Some v \<Rightarrow>
          let receipt = (case v of JObj kvs \<Rightarrow> if map_of kvs ''receipt'' = None then v
                else obj_field kvs ''receipt'' | _ \<Rightarrow> v)
          in (case receipt of
                JObj kvs \<Rightarrow> Some (verifyTreasuryExecutionReceiptSignature (w_host w) kvs (te_secret (w_env w)))
              | _ \<Rightarrow> None))"

record status_answer =
  sa_ready :: bool
  sa_state :: "TreasuryRecordState option"
  sa_approval_hash :: "string option"
  sa_receipt_id :: "string option"
  sa_refs :: "json list"
  sa_reconciliations :: "TreasuryPartnerReconciliationV1 list"
  sa_blocking :: "string list"

definition statusRoute :: "world \<Rightarrow> string \<Rightarrow> treasury_state \<Rightarrow> status_answer" where
  "statusRoute w i s =
     (let st = treasuryStatus (w_env w) in
      case getTreasuryIntentRecord i (ts_records s) of
        Some r \<Rightarrow> \<lparr>sa_ready = tst_ready st, sa_state = Some (tx_state r),
          sa_approval_hash = (case tx_approval r of Some a \<Rightarrow> Some (ap_hash a)
            | None \<Rightarrow> map_option rcp_approval_hash (tx_receipt r)),
          sa_receipt_id = map_option rcp_id (tx_receipt r), sa_refs = tx_partner_refs r,
          sa_reconciliations = tx_reconciliations r, sa_blocking = tst_blocking st @ tx_blocking r\<rparr>
      | None \<Rightarrow> \<lparr>sa_ready = tst_ready st, sa_state = None, sa_approval_hash = None, sa_receipt_id = None,
          sa_refs = [], sa_reconciliations = [], sa_blocking = tst_blocking st\<rparr>)"

end
