(* ===== verification/TreasuryApproval.thy ===== *)
theory TreasuryApproval imports TreasuryGuard TreasuryStore JsSort
begin

text \<open>
  When an execution request is accepted: the request and its approval as the source builds them read
  back as they are, the approval does not depend on the order of the rails, and the request of an
  accepted simulation passes validation until the approval expires.
\<close>

section \<open>Reading back\<close>

lemma rail_read [simp]: "rail_of_json (JStr (rail_name r)) = Some r"
  by (cases r) (simp_all add: rail_of_json_def TREASURY_RAILS_def)

lemma rails_read [simp]: "all_some rail_of_json (map (\<lambda>r. JStr (rail_name r)) rs) = Some rs"
  by (induction rs) simp_all

lemma rails_items [simp]:
  "items_of rail_of_json (rails_json rs) = Some rs"
  "array_items (rails_json rs) = map (\<lambda>r. JStr (rail_name r)) rs"
  "list_all isTreasuryRailKind (map (\<lambda>r. JStr (rail_name r)) rs)"
  by (simp_all add: items_of_def rails_json_def list_all_iff isTreasuryRailKind_def)

lemma texts [simp]: "text_of (JStr s) = Some s" "is_text (JStr s) \<longleftrightarrow> js_trim s \<noteq> []"
    "finite_of (JNum (Fin a)) = Some a" "isPositiveNumber (JNum (Fin a)) \<longleftrightarrow> 0 < a"
  by (simp_all add: text_of_def is_text_def finite_of_def isPositiveNumber_def)

lemma request_read [simp]: "request_of_json (request_json r) = Some r"
  by (simp add: request_of_json_def request_json_def obj_field_def)

section \<open>Approvals\<close>

lemma approval_hash_perm:
  assumes "mset rs = mset rs'"
  shows "buildTreasuryApprovalHash h (f\<lparr>af_rails := rs\<rparr>) = buildTreasuryApprovalHash h (f\<lparr>af_rails := rs'\<rparr>)"
proof -
  have "mset (map rail_name rs) = mset (map rail_name rs')" using assms by (simp add: mset_map)
  then have "sort_by (\<le>) (map rail_name rs) = sort_by (\<le>) (map rail_name rs')"
    by (intro sort_by_perm) simp_all
  then show ?thesis by (simp add: buildTreasuryApprovalHash_def approval_json_def)
qed

definition request_approval :: "TreasuryExecuteRequestV1 \<Rightarrow> approval_fields" where
  "request_approval r = \<lparr>af_owner = xr_owner r, af_policy_hash = xr_policy_hash r,
     af_proposal_hash = xr_proposal_hash r, af_amount = xr_amount r, af_rails = xr_rails r,
     af_expires_at = xr_approval_expires_at r\<rparr>"

definition request_filled :: "TreasuryExecuteRequestV1 \<Rightarrow> bool" where
  "request_filled r \<longleftrightarrow> list_all (\<lambda>s. js_trim s \<noteq> []) [xr_intent r, xr_owner r, xr_policy_hash r,
     xr_proposal_hash r, xr_approval_hash r, xr_approval_expires_at r] \<and> 0 < xr_amount r \<and> xr_rails r \<noteq> []"

definition approval_live :: "treasury_host \<Rightarrow> TreasuryExecuteRequestV1 \<Rightarrow> time \<Rightarrow> bool" where
  "approval_live th r now \<longleftrightarrow> (\<exists>t. parse_date th (xr_approval_expires_at r) = Some t \<and> now < t) \<and>
     xr_approval_hash r = buildTreasuryApprovalHash (th_host th) (request_approval r)"

lemma approval_valid:
  assumes "request_filled r"
  shows "validateTreasuryApprovalFields th (approval_fields_of (object_entries (request_json r))) now = None \<longleftrightarrow>
    approval_live th r now"
  using assms
  by (auto simp: validateTreasuryApprovalFields_def approval_fields_of_def request_json_def obj_field_def
      approval_live_def request_approval_def request_filled_def not_le split: option.splits)

lemma request_error:
  "executeRequestError th (object_entries (request_json r)) now = None \<longleftrightarrow>
     request_filled r \<and> approval_live th r now \<and> validateEncryptedBundle (xr_bundle r) = None"
proof (cases "request_filled r")
  case True
  have "obj_field (object_entries (request_json r)) k \<noteq> JUndef" if "k \<in> {''version'', ''rails''}" for k
    using that by (auto simp: request_json_def obj_field_def rails_json_def)
  show ?thesis using True unfolding executeRequestError_def or_else_None approval_valid [OF True]
    by (simp add: execute_keys_def request_json_def obj_field_def request_filled_def)
next
  case False
  then show ?thesis
    by (auto simp: executeRequestError_def execute_keys_def request_json_def obj_field_def request_filled_def)
qed

lemma request_key_clean: "p \<in> set (object_entries (request_json r)) \<Longrightarrow> fst p \<notin> scanned_keys"
  by (auto simp: request_json_def scanned_keys_def PLAINTEXT_LEAK_KEYS_def TREASURY_PLAINTEXT_LEAK_KEYS_def)

lemma leaks_text [simp]: "\<not> leaks keys (JStr s)" "\<not> leaks keys (JNum x)" "\<not> leaks keys (JArr xs)"
  by simp_all

lemma request_leak:
  "is_object (xr_bundle r) \<Longrightarrow> leaks scanned_keys (request_json r) \<longleftrightarrow> leaks scanned_keys (xr_bundle r)"
  using request_key_clean [of _ r] unfolding request_json_def leaks_object
  by (cases "xr_bundle r") (simp_all add: rails_json_def)

lemma bundle_object: "validateEncryptedBundle v = None \<Longrightarrow> is_object v"
  by (simp add: validateEncryptedBundle_def split: if_splits)

lemma request_accepted:
  "validateTreasuryExecuteRequest th (request_json r) now = Inr r \<longleftrightarrow>
     request_filled r \<and> approval_live th r now \<and> validateEncryptedBundle (xr_bundle r) = None \<and>
     \<not> leaks scanned_keys (xr_bundle r)"
proof -
  have obj: "is_object (request_json r)" by (simp add: request_json_def)
  show ?thesis
  proof (cases "executeRequestError th (object_entries (request_json r)) now")
    case None
    then have b: "request_filled r" "approval_live th r now" "validateEncryptedBundle (xr_bundle r) = None"
      by (simp_all add: request_error)
    show ?thesis using None b obj request_leak [OF bundle_object [OF b(3)]]
      by (simp add: validateTreasuryExecuteRequest_def treasury_scanner)
  next
    case (Some e)
    then have "\<not> (request_filled r \<and> approval_live th r now \<and> validateEncryptedBundle (xr_bundle r) = None)"
      using request_error [of th r now] by simp
    then show ?thesis using Some obj by (auto simp: validateTreasuryExecuteRequest_def)
  qed
qed

section \<open>The request of an accepted simulation\<close>

lemma simulated_approval:
  assumes "guard_decision p i = None" "routable p i"
  shows "\<exists>g. sim_guard (simulateTreasuryIntent h p i u t t') = g \<and>
    sim_approval (simulateTreasuryIntent h p i u t t') = Some (buildTreasuryApproval h \<lparr>af_owner = ti_owner i,
      af_policy_hash = gr_policy_hash g, af_proposal_hash = gr_proposal_hash g,
      af_amount = proposed_amount p i, af_rails = map tr_rail (plan_routes p i),
      af_expires_at = to_iso (addMinutes t 15)\<rparr>) \<and>
    sim_proposal (simulateTreasuryIntent h p i u t t') = buildTreasuryProposal p i u t'"
  using simulation_outcome(1) [OF assms(2), of h u t t'] assms(1)
  by (auto simp: simulateTreasuryIntent_def Let_def split: sum.splits)

lemma uniq_distinct: "distinct xs \<Longrightarrow> js_uniq xs = xs"
proof -
  have "distinct xs \<Longrightarrow> set xs \<inter> set seen = {} \<Longrightarrow> js_uniq_acc seen xs = xs" for seen
    by (induction xs arbitrary: seen) auto
  then show "distinct xs \<Longrightarrow> js_uniq xs = xs" by (simp add: js_uniq_def)
qed

lemma simulated_request_live:
  assumes r: "routable p i" and ok: "guard_decision p i = None"
    and sim: "sim = simulateTreasuryIntent (th_host th) p i u t t'"
    and ap: "sim_approval sim = Some a"
    and iso: "parse_date th (to_iso (addMinutes t 15)) = Some (addMinutes t 15)"
  shows "approval_live th (run_request i sim a) now \<longleftrightarrow> now < addMinutes t 15"
proof -
  obtain g where g: "sim_guard sim = g" "sim_proposal sim = buildTreasuryProposal p i u t'"
    "a = buildTreasuryApproval (th_host th) \<lparr>af_owner = ti_owner i,
      af_policy_hash = gr_policy_hash g, af_proposal_hash = gr_proposal_hash g,
      af_amount = proposed_amount p i, af_rails = map tr_rail (plan_routes p i),
      af_expires_at = to_iso (addMinutes t 15)\<rparr>"
    using simulated_approval [OF ok r, of "th_host th" u t t'] ap sim by auto
  then show ?thesis
    using iso accepted_rails(1) [OF r ok]
    by (simp add: approval_live_def run_request_def request_approval_def buildTreasuryApproval_def
        uniqueRails_def uniq_distinct)
qed

end
