(* ===== verification/TreasuryPartners.thy ===== *)
theory TreasuryPartners imports TreasuryApproval
begin

text \<open>
  Which calls the partners get: for each rail of a request with an HTTP adapter one \<open>prepare\<close> and one
  \<open>submit\<close>, in the order of the rails, up to the first failure. Every environment has an adapter for
  every rail, so partners that answer let a submission finish.
\<close>

section \<open>Adapters of an environment\<close>

fun adapter_rail :: "TreasuryPartnerAdapter \<Rightarrow> TreasuryRailKind" where
  "adapter_rail (Mock_adapter rail own) = rail"
| "adapter_rail (Http_adapter config) = http_rail config"

definition adapters_ok :: "(TreasuryRailKind, TreasuryPartnerAdapter) jsmap \<Rightarrow> bool" where
  "adapters_ok m \<longleftrightarrow> (\<forall>rail. \<exists>a. js_get m rail = Some a \<and> adapter_rail a = rail)"

lemma adapters_okE:
  assumes "adapters_ok m"
  obtains a where "js_get m rail = Some a" "adapter_rail a = rail"
  using assms by (auto simp: adapters_ok_def)

lemma mock_adapters_ok: "adapters_ok (createMockTreasuryAdapters provider)"
  unfolding adapters_ok_def
proof
  fix rail
  show "\<exists>a. js_get (createMockTreasuryAdapters provider) rail = Some a \<and> adapter_rail a = rail"
    by (cases rail) (simp_all add: createMockTreasuryAdapters_def TREASURY_RAILS_def js_get_def)
qed

lemma adapter_for_ok: "adapters_ok m \<Longrightarrow> adapters_ok (adapter_for env m rail)"
  by (auto simp: adapter_for_def adapters_ok_def createHttpTreasuryAdapter_def Let_def split: option.splits)

lemma env_adapters_ok: "adapters_ok (treasuryAdaptersForEnv env)"
proof -
  have "adapters_ok m \<Longrightarrow> adapters_ok (foldl (adapter_for env) m rails)" for m rails
    by (induction rails arbitrary: m) (simp_all add: adapter_for_ok)
  then show ?thesis by (simp add: treasuryAdaptersForEnv_def mock_adapters_ok)
qed

section \<open>The calls of a submission\<close>

definition instruction_call :: "TreasuryHttpPartnerAdapterConfig \<Rightarrow> partner_action \<Rightarrow> TreasuryExecuteRequestV1 \<Rightarrow> string \<Rightarrow> partner_call" where
  "instruction_call config action r provider =
     \<lparr>pc_url = http_endpoint config @ ''/'' @ partner_action_name action, pc_action = action,
      pc_rail = http_rail config,
      pc_authorization = (case http_key config of None \<Rightarrow> None
        | Some k \<Rightarrow> if k = [] then None else Some (''Bearer '' @ k)),
      pc_timeout_ms = http_timeout_ms config, pc_body = redactedPartnerPayload r provider (http_rail config)\<rparr>"

fun adapter_calls :: "TreasuryPartnerAdapter \<Rightarrow> TreasuryExecuteRequestV1 \<Rightarrow> string \<Rightarrow> partner_call list" where
  "adapter_calls (Mock_adapter rail own) r provider = []"
| "adapter_calls (Http_adapter config) r provider =
     [instruction_call config Act_prepare r provider, instruction_call config Act_submit r provider]"

definition instruction_calls :: "(TreasuryRailKind, TreasuryPartnerAdapter) jsmap \<Rightarrow> TreasuryExecuteRequestV1 \<Rightarrow> string \<Rightarrow>
    TreasuryRailKind list \<Rightarrow> partner_call list" where
  "instruction_calls adapters r provider rails =
     concat (map (\<lambda>rail. case js_get adapters rail of None \<Rightarrow> [] | Some a \<Rightarrow> adapter_calls a r provider) rails)"

lemma instruction_calls_simps [simp]:
  "instruction_calls adapters r provider [] = []"
  "instruction_calls adapters r provider (rail # rails) =
     (case js_get adapters rail of None \<Rightarrow> [] | Some a \<Rightarrow> adapter_calls a r provider) @
     instruction_calls adapters r provider rails"
  by (simp_all add: instruction_calls_def)

lemma bind_effect_eval: "bind_effect m f calls = (case m calls of (Inl e, c) \<Rightarrow> (Inl e, c) | (Inr x, c) \<Rightarrow> f x c)"
  by (simp add: bind_effect_def)

lemma effect_eval [simp]:
  "pure_effect x calls = (Inr x, calls)"
  "throw_effect e calls = (Inl e, calls)"
  by (simp_all add: pure_effect_def throw_effect_def)

lemma prepare_calls:
  "snd (adapter_prepare partner a r provider calls) = calls @ take 1 (adapter_calls a r provider)"
  by (cases a) (simp_all add: bind_effect_eval callTreasuryPartner_def field_effect_def instruction_call_def
      Let_def split: sum.splits)

lemma submit_calls:
  "snd (adapter_submit partner a r provider calls) = calls @ drop 1 (adapter_calls a r provider)"
  by (cases a) (simp_all add: bind_effect_eval callTreasuryPartner_def field_effect_def instruction_call_def
      Let_def split: sum.splits)

lemma submit_rails_calls:
  "submit_rails partner adapters r provider rails calls = (out, calls') \<Longrightarrow>
     \<exists>n. calls' = calls @ take n (instruction_calls adapters r provider rails) \<and>
       (\<forall>x. out = Inr x \<longrightarrow> calls' = calls @ instruction_calls adapters r provider rails)"
proof (induction rails arbitrary: calls out calls')
  case Nil
  then show ?case by simp
next
  case (Cons rail rails)
  show ?case
  proof (cases "js_get adapters rail")
    case None
    then show ?thesis using Cons.prems by (auto intro: exI [of _ 0])
  next
    case (Some a)
    let ?own = "adapter_calls a r provider" and ?rest = "instruction_calls adapters r provider rails"
    obtain p c1 where p: "adapter_prepare partner a r provider calls = (p, c1)" by fastforce
    then have c1: "c1 = calls @ take 1 ?own" using prepare_calls [of partner a r provider calls] by simp
    show ?thesis
    proof (cases p)
      case (Inl e)
      then show ?thesis using Cons.prems Some p c1
        by (auto simp: bind_effect_eval intro!: exI [of _ "min 1 (length ?own)"]) (cases ?own; simp)+
    next
      case (Inr pv)
      obtain q c2 where q: "adapter_submit partner a r provider c1 = (q, c2)" by fastforce
      then have c2: "c2 = calls @ ?own" using submit_calls [of partner a r provider c1] c1
        by (simp flip: append_assoc) (metis append_assoc append_take_drop_id)
      show ?thesis
      proof (cases q)
        case (Inl e)
        then show ?thesis using Cons.prems Some p Inr q c2
          by (auto simp: bind_effect_eval intro!: exI [of _ "length ?own"])
      next
        case (Inr sv)
        obtain o3 c3 where o3: "submit_rails partner adapters r provider rails c2 = (o3, c3)" by fastforce
        from Cons.IH [OF this] obtain n
          where n: "c3 = c2 @ take n ?rest" "\<forall>x. o3 = Inr x \<longrightarrow> c3 = c2 @ ?rest" by blast
        have out: "calls' = c3" "\<forall>x. out = Inr x \<longrightarrow> (\<exists>y. o3 = Inr y)"
          using Cons.prems Some p \<open>p = Inr pv\<close> q Inr o3 by (auto simp: bind_effect_eval split: sum.splits)
        show ?thesis
          using n out c2 Some by (auto intro!: exI [of _ "length ?own + n"])
      qed
    qed
  qed
qed

text \<open>Submissions are one per rail, in order.\<close>

lemma submit_rail: "fst (adapter_submit partner a r provider calls) = Inr s \<Longrightarrow> subm_rail s = adapter_rail a"
  by (cases a) (auto simp: bind_effect_eval callTreasuryPartner_def field_effect_def Let_def split: sum.splits)

lemma submit_rails_rails:
  "submit_rails partner adapters r provider rails calls = (Inr (ps, ss), calls') \<Longrightarrow> adapters_ok adapters \<Longrightarrow>
     map subm_rail ss = rails"
proof (induction rails arbitrary: calls ps ss)
  case (Cons rail rails)
  obtain a where a: "js_get adapters rail = Some a" "adapter_rail a = rail"
    using Cons.prems(2) by (rule adapters_okE)
  then show ?case using Cons.prems(1)
    by (auto simp: bind_effect_eval split: sum.splits prod.splits
        dest!: Cons.IH [OF _ Cons.prems(2)] dest: submit_rail [of partner a r provider _, simplified prod.collapse])
      (metis fst_conv submit_rail a(2))+
qed simp

text \<open>Partners that always answer with an object.\<close>

definition answering :: "partner \<Rightarrow> bool" where
  "answering partner \<longleftrightarrow> (\<forall>calls call. \<exists>kvs. partner calls call = Inr (JObj kvs))"

lemma answering_prepare:
  assumes "answering partner"
  shows "\<exists>p. adapter_prepare partner a r provider calls = (Inr p, calls @ take 1 (adapter_calls a r provider))"
proof (cases a)
  case (Http_adapter config)
  obtain kvs where "partner calls (instruction_call config Act_prepare r provider) = Inr (JObj kvs)"
    using assms by (auto simp: answering_def)
  then show ?thesis using Http_adapter
    by (simp add: bind_effect_eval callTreasuryPartner_def field_effect_def instruction_call_def Let_def)
qed simp

lemma answering_submit:
  assumes "answering partner"
  shows "\<exists>s. adapter_submit partner a r provider calls = (Inr s, calls @ drop 1 (adapter_calls a r provider))"
proof (cases a)
  case (Http_adapter config)
  obtain kvs where "partner calls (instruction_call config Act_submit r provider) = Inr (JObj kvs)"
    using assms by (auto simp: answering_def)
  then show ?thesis using Http_adapter
    by (simp add: bind_effect_eval callTreasuryPartner_def field_effect_def instruction_call_def Let_def)
qed simp

lemma answering_rails:
  assumes "answering partner" "adapters_ok adapters"
  shows "\<exists>ps ss. submit_rails partner adapters r provider rails calls =
    (Inr (ps, ss), calls @ instruction_calls adapters r provider rails)"
proof (induction rails arbitrary: calls)
  case (Cons rail rails)
  obtain a where a: "js_get adapters rail = Some a" using assms(2) by (rule adapters_okE)
  let ?own = "adapter_calls a r provider"
  obtain p where "adapter_prepare partner a r provider calls = (Inr p, calls @ take 1 ?own)"
    using answering_prepare [OF assms(1)] by blast
  moreover obtain s where "adapter_submit partner a r provider (calls @ take 1 ?own) =
      (Inr s, (calls @ take 1 ?own) @ drop 1 ?own)"
    using answering_submit [OF assms(1)] by blast
  moreover have "(calls @ take 1 ?own) @ drop 1 ?own = calls @ ?own"
    by (metis append_assoc append_take_drop_id)
  moreover obtain ps ss where "submit_rails partner adapters r provider rails (calls @ ?own) =
      (Inr (ps, ss), (calls @ ?own) @ instruction_calls adapters r provider rails)"
    using Cons.IH by blast
  ultimately show ?case using a by (simp add: bind_effect_eval)
qed simp

section \<open>Execution requests at the route\<close>

definition execute_ready :: "world \<Rightarrow> TreasuryExecuteRequestV1 \<Rightarrow> memoryRecords \<Rightarrow> bool" where
  "execute_ready w r m \<longleftrightarrow> existing_mismatch (getTreasuryIntentRecord (xr_intent r) m) r = None \<and>
     unsupported_rails (w_env w) r = []"

definition request_calls :: "world \<Rightarrow> TreasuryExecuteRequestV1 \<Rightarrow> partner_call list" where
  "request_calls w r = instruction_calls (treasuryAdaptersForEnv (w_env w)) r (te_provider (w_env w)) (xr_rails r)"

lemma build_receipt_cases:
  assumes "validateTreasuryExecuteRequest (w_host w) body checked = Inr r"
    and "buildReceiptForRequest w body agent checked executed uuid m calls = (out, calls')"
  obtains (refused) e where "out = Inr (Inl e)" "calls' = calls" "\<not> execute_ready w r m"
  | (crashed) e n where "out = Inl e" "execute_ready w r m" "calls' = calls @ take n (request_calls w r)"
  | (receipted) ss where "out = Inr (Inr (ss, buildTreasuryExecutionReceipt (w_host w) r agent (te_provider (w_env w))
        (map subm_partner_ref ss) (te_secret (w_env w)) uuid executed))"
      "execute_ready w r m" "calls' = calls @ request_calls w r" "map subm_rail ss = xr_rails r"
proof (cases "execute_ready w r m")
  case False
  then have "\<exists>e. out = Inr (Inl e) \<and> calls' = calls" using assms
    by (auto simp: buildReceiptForRequest_def execute_ready_def Let_def split: option.splits if_splits)
  then show ?thesis using refused False by blast
next
  case True
  let ?env = "w_env w"
  obtain o3 c3 where o3: "submit_rails (w_partner w) (treasuryAdaptersForEnv ?env) r (te_provider ?env) (xr_rails r) calls = (o3, c3)"
    by fastforce
  from submit_rails_calls [OF this] obtain n where n: "c3 = calls @ take n (request_calls w r)"
      "\<forall>x. o3 = Inr x \<longrightarrow> c3 = calls @ request_calls w r"
    by (auto simp only: request_calls_def)
  show ?thesis
  proof (cases o3)
    case (Inl e)
    then show ?thesis using assms True o3 n(1)
      by (intro crashed [of e n])
        (simp_all add: buildReceiptForRequest_def execute_ready_def Let_def submitTreasuryExecutionToAdapters_def bind_effect_eval)
  next
    case (Inr x)
    obtain ps ss where x: "x = (ps, ss)" by fastforce
    have "map subm_rail ss = xr_rails r"
      using submit_rails_rails [OF o3 [unfolded Inr x] env_adapters_ok] .
    then show ?thesis using assms True o3 n(2) Inr x
      by (intro receipted [of ss])
        (simp_all add: buildReceiptForRequest_def execute_ready_def Let_def submitTreasuryExecutionToAdapters_def bind_effect_eval)
  qed
qed

end
