(* ===== verification/TreasuryMachine.thy ===== *)
theory TreasuryMachine imports TreasuryPartners
begin

text \<open>
  The treasury routes as the calls of a machine, and the invariant of its records: a record is filed
  under its intent, its partner references are those of its submissions, and its receipt is signed,
  agrees with the record's hashes and approval, and covers the submissions.
\<close>

datatype treasury_event =
    T_simulate "json option" string time time time
  | T_execute "string option" "json option" time time time string
  | T_run "string option" "json option" run_clock
  | T_reconcile "string option" "json option" time
  | T_cancel "string option" "json option" time

fun treasury_call :: "world \<Rightarrow> treasury_state \<Rightarrow> treasury_event \<Rightarrow> treasury_answer \<times> treasury_state" where
  "treasury_call w s (T_simulate body uuid t t' t'') = simulateRoute w body uuid t t' t'' s"
| "treasury_call w s (T_execute au body t t' t'' uuid) = executeRoute w au body t t' t'' uuid s"
| "treasury_call w s (T_run au body k) = runRoute w au body k s"
| "treasury_call w s (T_reconcile au body t) = reconcileRoute w au body t s"
| "treasury_call w s (T_cancel au body t) = cancelRoute w au body t s"

definition treasury_step :: "world \<Rightarrow> treasury_state \<Rightarrow> treasury_event \<Rightarrow> treasury_state" where
  "treasury_step w s e = snd (treasury_call w s e)"

definition empty_treasury :: treasury_state where
  "empty_treasury = \<lparr>ts_records = [], ts_calls = []\<rparr>"

text \<open>A request of a known agent to a service that is ready.\<close>

definition authorized :: "world \<Rightarrow> string option \<Rightarrow> TreasuryAgentConfig \<Rightarrow> bool" where
  "authorized w au agent \<longleftrightarrow> agentForRequest (w_config w) (w_process w) au = Some agent \<and>
     tst_ready (treasuryStatus (w_env w))"

section \<open>Receipts verify\<close>

lemma built_receipt_fields [simp]:
  "rcp_intent (buildTreasuryExecutionReceipt th r ag pv refs sec u t) = xr_intent r"
  "rcp_owner (buildTreasuryExecutionReceipt th r ag pv refs sec u t) = xr_owner r"
  "rcp_agent (buildTreasuryExecutionReceipt th r ag pv refs sec u t) = ag"
  "rcp_policy_hash (buildTreasuryExecutionReceipt th r ag pv refs sec u t) = xr_policy_hash r"
  "rcp_proposal_hash (buildTreasuryExecutionReceipt th r ag pv refs sec u t) = xr_proposal_hash r"
  "rcp_approval_hash (buildTreasuryExecutionReceipt th r ag pv refs sec u t) = xr_approval_hash r"
  "rcp_amount (buildTreasuryExecutionReceipt th r ag pv refs sec u t) = xr_amount r"
  "rcp_rails (buildTreasuryExecutionReceipt th r ag pv refs sec u t) = xr_rails r"
  "rcp_partner_refs (buildTreasuryExecutionReceipt th r ag pv refs sec u t) = refs"
  by (simp_all add: buildTreasuryExecutionReceipt_def Let_def)

lemma unsigned_ignores_signature [simp]: "unsigned_json (r\<lparr>rcp_signature := s\<rparr>) = unsigned_json r"
  by (simp add: unsigned_json_def)

lemma receipt_parts:
  "filter (\<lambda>p. fst p \<noteq> ''signature'') (receipt_json r) = unsigned_json r"
  "obj_field (receipt_json r) ''signature'' = JStr (rcp_signature r)"
  by (simp_all add: receipt_json_def unsigned_json_def obj_field_def)

lemma receipt_verifies:
  "verifyTreasuryExecutionReceiptSignature th
     (receipt_json (buildTreasuryExecutionReceipt th r ag pv refs sec u t)) sec"
proof -
  have "\<exists>x. buildTreasuryExecutionReceipt th r ag pv refs sec u t =
      x\<lparr>rcp_signature := signTreasuryExecutionReceipt th (unsigned_json x) sec\<rparr>"
    unfolding buildTreasuryExecutionReceipt_def Let_def by blast
  then obtain x where x: "buildTreasuryExecutionReceipt th r ag pv refs sec u t =
      x\<lparr>rcp_signature := signTreasuryExecutionReceipt th (unsigned_json x) sec\<rparr>" ..
  show ?thesis unfolding verifyTreasuryExecutionReceiptSignature_def receipt_parts x unsigned_ignores_signature
    by simp
qed

section \<open>The invariant\<close>

definition receipt_ok :: "world \<Rightarrow> TreasuryIntentRecordV1 \<Rightarrow> TreasuryExecutionReceiptV1 \<Rightarrow> bool" where
  "receipt_ok w r rc \<longleftrightarrow> rcp_intent rc = tx_intent r \<and> rcp_owner rc = tx_owner r \<and>
     rcp_policy_hash rc = tx_policy_hash r \<and> rcp_proposal_hash rc = tx_proposal_hash r \<and>
     (case tx_approval r of None \<Rightarrow> True | Some a \<Rightarrow> ap_hash a = rcp_approval_hash rc) \<and>
     rcp_partner_refs rc = tx_partner_refs r \<and> rcp_rails rc = map subm_rail (tx_submissions r) \<and>
     verifyTreasuryExecutionReceiptSignature (w_host w) (receipt_json rc) (te_secret (w_env w))"

definition record_ok :: "world \<Rightarrow> TreasuryIntentRecordV1 \<Rightarrow> bool" where
  "record_ok w r \<longleftrightarrow> tx_partner_refs r = map subm_partner_ref (tx_submissions r) \<and>
     (case tx_receipt r of None \<Rightarrow> True | Some rc \<Rightarrow> receipt_ok w r rc) \<and>
     (tx_state r = Simulated \<longrightarrow> tx_receipt r = None)"

definition records_inv :: "world \<Rightarrow> treasury_state \<Rightarrow> bool" where
  "records_inv w s \<longleftrightarrow> js_wf (ts_records s) \<and>
     (\<forall>i r. js_get (ts_records s) i = Some r \<longrightarrow> tx_intent r = i \<and> record_ok w r)"

lemma records_invD:
  "records_inv w s \<Longrightarrow> js_get (ts_records s) i = Some r \<Longrightarrow> tx_intent r = i"
  "records_inv w s \<Longrightarrow> js_get (ts_records s) i = Some r \<Longrightarrow> record_ok w r"
  by (auto simp: records_inv_def)

lemma records_inv_put:
  "records_inv w s \<Longrightarrow> record_ok w r \<Longrightarrow> records_inv w (s\<lparr>ts_records := putTreasuryIntentRecord r (ts_records s)\<rparr>)"
  by (auto simp: records_inv_def putTreasuryIntentRecord_def)

lemma records_inv_calls [simp]: "records_inv w (s\<lparr>ts_calls := c\<rparr>) = records_inv w s"
  by (simp add: records_inv_def)

lemma simulation_record_ok:
  assumes "records_inv w s"
  shows "record_ok w (fst (recordTreasurySimulation sim t (ts_records s)))"
  using assms unfolding recordTreasurySimulation_def Let_def getTreasuryIntentRecord_def
  by (cases "js_get (ts_records s) (pr_intent (sim_proposal sim))")
    (auto simp: record_ok_def from_existing_def dest!: records_invD(2))

lemma simulation_inv:
  "records_inv w s \<Longrightarrow> records_inv w (s\<lparr>ts_records := snd (recordTreasurySimulation sim t (ts_records s))\<rparr>)"
  using records_inv_put [OF _ simulation_record_ok, of w s s sim t]
  by (simp add: recordTreasurySimulation_def Let_def)

lemma execution_record_ok:
  assumes "records_inv w s" "execute_ready w r (ts_records s)" "map subm_rail ss = xr_rails r"
    and "rc = buildTreasuryExecutionReceipt (w_host w) r ag pv (map subm_partner_ref ss) (te_secret (w_env w)) u t"
  shows "record_ok w (fst (recordTreasuryExecution rc ss now (ts_records s)))"
proof (cases "js_get (ts_records s) (xr_intent r)")
  case None
  then show ?thesis using assms(3) unfolding assms(4)
    by (simp add: recordTreasuryExecution_def Let_def getTreasuryIntentRecord_def record_ok_def receipt_ok_def
        from_existing_def receipt_verifies)
next
  case (Some e)
  then have "case tx_approval e of None \<Rightarrow> True | Some a \<Rightarrow> ap_hash a = xr_approval_hash r"
    using assms(2) by (auto simp: execute_ready_def existing_mismatch_def getTreasuryIntentRecord_def split: option.splits)
  then show ?thesis using Some assms(3) unfolding assms(4)
    by (simp add: recordTreasuryExecution_def Let_def getTreasuryIntentRecord_def record_ok_def receipt_ok_def
        from_existing_def receipt_verifies split: option.splits)
qed

lemma follow_up_inv:
  assumes "records_inv w s" "js_get (ts_records s) i = Some r"
  shows "records_inv w (s\<lparr>ts_records := snd (recordTreasuryReconciliation i rs t (ts_records s))\<rparr>)"
proof -
  have "treasuryStateForReconciliations rs \<noteq> Simulated"
    by (simp add: treasuryStateForReconciliations_def)
  then show ?thesis using assms records_invD [OF assms] 
    unfolding recordTreasuryReconciliation_def getTreasuryIntentRecord_def assms(2) Let_def
    by (auto simp: record_ok_def receipt_ok_def intro!: records_inv_put split: option.splits)
qed

lemma follow_up_route_inv:
  "records_inv w s \<Longrightarrow> records_inv w (snd (follow_up_route what act w au body t s))"
  unfolding follow_up_route_def getTreasuryIntentRecord_def
  by (auto simp: split: option.splits sum.splits prod.splits)
    (metis follow_up_inv records_inv_calls snd_conv treasury_state.surjective treasury_state.update_convs(1,2))+

lemma recorded_execution:
  "recordTreasuryExecution rc ss t m =
     (fst (recordTreasuryExecution rc ss t m), putTreasuryIntentRecord (fst (recordTreasuryExecution rc ss t m)) m)"
  "tx_state (fst (recordTreasuryExecution rc ss t m)) = Tx_submitted"
  "tx_partner_refs (fst (recordTreasuryExecution rc ss t m)) = rcp_partner_refs rc"
  by (simp_all add: recordTreasuryExecution_def Let_def)

text \<open>What an execution leaves behind, on all its outcomes.\<close>

lemma execute_with_cases:
  assumes "execute_with w sim body agent checked executed recorded uuid s = (ans, s')"
  obtains (invalid) e where "validateTreasuryExecuteRequest (w_host w) body checked = Inl e"
      "ans = Failure 400 e []" "s' = s"
  | (refused) e r where "validateTreasuryExecuteRequest (w_host w) body checked = Inr r"
      "\<not> execute_ready w r (ts_records s)" "ans = Failure 400 e []" "s' = s"
  | (crashed) e r n where "validateTreasuryExecuteRequest (w_host w) body checked = Inr r"
      "execute_ready w r (ts_records s)" "ans = Crashed e"
      "s' = s\<lparr>ts_calls := ts_calls s @ take n (request_calls w r)\<rparr>"
  | (executed) r ss rc where "validateTreasuryExecuteRequest (w_host w) body checked = Inr r"
      "execute_ready w r (ts_records s)" "map subm_rail ss = xr_rails r"
      "rc = buildTreasuryExecutionReceipt (w_host w) r agent (te_provider (w_env w)) (map subm_partner_ref ss)
         (te_secret (w_env w)) uuid executed"
      "ans = Executed sim rc Tx_submitted (map subm_partner_ref ss)"
      "s' = s\<lparr>ts_records := putTreasuryIntentRecord (fst (recordTreasuryExecution rc ss recorded (ts_records s))) (ts_records s),
         ts_calls := ts_calls s @ request_calls w r\<rparr>"
proof (cases "validateTreasuryExecuteRequest (w_host w) body checked")
  case (Inl e)
  then show ?thesis using assms by (intro invalid) (auto simp: execute_with_def buildReceiptForRequest_def)
next
  case (Inr r)
  obtain out calls where b: "buildReceiptForRequest w body agent checked executed uuid (ts_records s) (ts_calls s) = (out, calls)"
    by fastforce
  show ?thesis using Inr b
  proof (cases rule: build_receipt_cases [consumes 2, case_names refused crashed receipted])
    case (refused e)
    have "(ans, s') = (Failure 400 e [], s\<lparr>ts_calls := calls\<rparr>)"
      unfolding assms [symmetric] execute_with_def b refused(1) by (simp only: prod.case sum.case)
    then show ?thesis using refused(2,3) by (intro that(2) [OF Inr]) simp_all
  next
    case (crashed e n)
    have "(ans, s') = (Crashed e, s\<lparr>ts_calls := calls\<rparr>)"
      unfolding assms [symmetric] execute_with_def b crashed(1) by (simp only: prod.case sum.case)
    then show ?thesis using crashed(2,3) by (intro that(3) [OF Inr]) simp_all
  next
    case (receipted ss)
    let ?rc = "buildTreasuryExecutionReceipt (w_host w) r agent (te_provider (w_env w)) (map subm_partner_ref ss)
      (te_secret (w_env w)) uuid executed"
    let ?rec = "fst (recordTreasuryExecution ?rc ss recorded (ts_records s))"
    have "(ans, s') = (Executed sim ?rc (tx_state ?rec) (tx_partner_refs ?rec),
        s\<lparr>ts_records := putTreasuryIntentRecord ?rec (ts_records s), ts_calls := calls\<rparr>)"
      unfolding assms [symmetric] execute_with_def b receipted(1) prod.case sum.case
      by (subst recorded_execution(1)) (simp only: prod.case Let_def)
    then show ?thesis using receipted(2-4)
      by (intro that(4) [OF Inr _ _ refl]) (simp_all only: prod.inject recorded_execution(2,3) built_receipt_fields)
  qed
qed

lemma execute_with_inv:
  assumes "records_inv w s" "execute_with w sim body agent t1 t2 t3 uuid s = (ans, s')"
  shows "records_inv w s'"
  using assms(2)
proof (cases rule: execute_with_cases [consumes 1, case_names invalid refused crashed executed])
  case (executed r ss rc)
  have "records_inv w (s\<lparr>ts_records := putTreasuryIntentRecord (fst (recordTreasuryExecution rc ss t3 (ts_records s))) (ts_records s)\<rparr>)"
    by (rule records_inv_put [OF assms(1) execution_record_ok [OF assms(1) executed(2,3,4)]])
  then show ?thesis unfolding executed(6) by (simp add: records_inv_def)
qed (use assms(1) in simp_all)

lemma treasury_step_inv:
  assumes "records_inv w s"
  shows "records_inv w (treasury_step w s e)"
proof (cases e)
  case (T_simulate body u t t' t'')
  then show ?thesis using assms
    by (auto simp: treasury_step_def simulateRoute_def Let_def simulation_inv split: option.splits sum.splits)
next
  case (T_execute au body t t' t'' u)
  then show ?thesis using assms execute_with_inv [OF assms prod.collapse [symmetric]]
    by (auto simp: treasury_step_def executeRoute_def split: option.splits)
next
  case (T_run au body k)
  then show ?thesis using assms execute_with_inv [OF simulation_inv [OF assms] prod.collapse [symmetric]]
    by (auto simp: treasury_step_def runRoute_def Let_def simulation_inv split: option.splits sum.splits)
qed (use assms in \<open>simp_all add: treasury_step_def reconcileRoute_def cancelRoute_def follow_up_route_inv\<close>)

interpretation treasury: call_machine "treasury_step w" "records_inv w" for w
  by unfold_locales (rule treasury_step_inv)

lemma records_inv_empty: "records_inv w empty_treasury"
  by (simp add: records_inv_def empty_treasury_def)

end
