(* ===== verification/TreasuryDemo.thy ===== *)
theory TreasuryDemo imports TreasuryMachine
begin

text \<open>
  A concrete policy, intent, request body, execution request and service for the witnesses: a hash and a
  signature that keep the head of their input, a partner that answers with an empty object, and two agents.
\<close>

section \<open>A policy and an intent\<close>

definition demo_policy_json :: "(string \<times> json) list" where
  "demo_policy_json = [(''version'', JNum (num 1)), (''policy_id'', JStr ''p''), (''owner_did'', JStr ''o''),
     (''allowed_assets'', JArr [JStr ''USD'', JStr ''USDC'', JStr ''T_BILL'']),
     (''allowed_payment_rails'', JArr [JStr ''ach'']), (''allowed_partners'', JArr [JStr ''q'']),
     (''max_action_micro_usd'', JNum (num 5000000)), (''daily_action_micro_usd'', JNum (num 9000000)),
     (''approval_required_above_micro_usd'', JNum (num 4000000)), (''public_fallback_allowed'', JBool False)]"

definition demo_constraints :: "(string \<times> json) list" where
  "demo_constraints = [(''min_operating_cash_micro_usd'', JNum (num 200000)),
     (''min_instant_liquidity_micro_usd'', JNum (num 300000)), (''min_runway_months'', JNum (num 6)),
     (''max_single_bank_exposure_bps'', JNum (num 5000)), (''max_stablecoin_issuer_exposure_bps'', JNum (num 5000)),
     (''max_duration_days'', JNum (num 90)),
     (''approved_rails'', JArr [JStr ''bank_cash'', JStr ''treasury_bills'', JStr ''stablecoin_shielded'']),
     (''approval_required_above_micro_usd'', JNum (num 4000000)), (''public_fallback_allowed'', JBool False)]"

definition demo_bundle :: json where
  "demo_bundle = JObj [(''alg'', JStr ''sealed-provider-v1''), (''ciphertext'', JStr ''c''),
     (''recipient'', JStr ''r''), (''aad'', JStr ''a'')]"

definition demo_intent_json :: "(string \<times> json) list" where
  "demo_intent_json = [(''version'', JNum (num 1)), (''intent_id'', JStr ''i''), (''owner_did'', JStr ''o''),
     (''objective'', JStr ''maintain_runway''), (''horizon_days'', JNum (num 30)),
     (''amount_micro_usd'', JNum (num 1000000)), (''constraints'', JObj demo_constraints),
     (''encrypted_context_bundle'', demo_bundle)]"

definition demo_body :: json where
  "demo_body = JObj [(''version'', JNum (num 1)), (''policy'', JObj demo_policy_json),
     (''intent'', JObj demo_intent_json)]"

definition demo_policy :: TreasuryPolicyV1 where
  "demo_policy = \<lparr>tp_id = ''p'', tp_owner = ''o'', tp_allowed_assets = [USD, USDC, T_BILL],
     tp_allowed_payment_rails = [Ach], tp_allowed_rails = None, tp_allowed_partners = [''q''],
     tp_max_action = 5000000, tp_daily_action = 9000000, tp_approval_above = 4000000,
     tp_public_fallback = False, tp_json = JObj demo_policy_json\<rparr>"

definition demo_intent :: TreasuryIntentV1 where
  "demo_intent = \<lparr>ti_id = ''i'', ti_owner = ''o'', ti_objective = Maintain_runway, ti_horizon_days = 30,
     ti_amount = Some 1000000,
     ti_constraints = \<lparr>tc_min_operating_cash = 200000, tc_min_instant_liquidity = 300000,
       tc_min_runway_months = 6, tc_max_single_bank_bps = 5000, tc_max_stablecoin_bps = 5000,
       tc_max_duration_days = 90, tc_approved_rails = [Bank_cash, Treasury_bills, Stablecoin_shielded],
       tc_approval_above = 4000000, tc_public_fallback = False\<rparr>,
     ti_bundle = demo_bundle, ti_json = JObj demo_intent_json\<rparr>"

lemma demo_validated: "validateTreasurySimulationRequest demo_body = Inr (demo_policy, demo_intent)"
  by code_simp

lemma money_numeral [simp]: "money (numeral n) \<longleftrightarrow> (numeral n :: int) < 2 ^ 53"
  using money_of_int [of "numeral n"] by simp

lemma demo_routable: "routable demo_policy demo_intent"
  using validation_well_typed [OF demo_validated]
  by (simp add: routable_def proposed_amount_def demo_intent_def)

lemma demo_decision: "guard_decision demo_policy demo_intent = None"
  by code_simp

section \<open>A service\<close>

definition demo_host :: treasury_host where
  "demo_host = \<lparr>th_host = \<lparr>sha256_hex = (\<lambda>s. CHR ''h'' # take 8 s), locale_le = (\<le>)\<rparr>,
     parse_date = (\<lambda>s. if s = to_iso 900000 then Some 900000 else None), hmac_hex = (\<lambda>key s. take 3 key @ take 8 s)\<rparr>"

definition demo_config :: treasury_config where
  "demo_config = \<lparr>parse_agent_keys = (\<lambda>s. Some [(''k'', \<lparr>agent_id = ''alice'', agent_label = []\<rparr>),
     (''l'', \<lparr>agent_id = ''bob'', agent_label = []\<rparr>)]), parse_endpoints = (\<lambda>s. None)\<rparr>"

definition demo_env :: process_env where
  "demo_env name = (if name = ''GHOLA_AGENT_API_KEYS'' then Some ''{}''
     else if name = ''GHOLA_TREASURY_PARTNER_ADAPTER_URL'' then Some ''u'' else None)"

definition demo_world :: "partner \<Rightarrow> world" where
  "demo_world partner = \<lparr>w_host = demo_host, w_config = demo_config, w_process = demo_env, w_partner = partner\<rparr>"

definition yes_partner :: partner where
  "yes_partner calls call = Inr (JObj [])"

definition failing_partner :: "nat \<Rightarrow> partner" where
  "failing_partner n calls call = (if length calls < n then Inr (JObj []) else Inl ''HTTP 500'')"

lemma yes_answering: "answering yes_partner"
  by (simp add: answering_def yes_partner_def)

lemma demo_authorized:
  "authorized (demo_world q) (Some ''Bearer k'') \<lparr>agent_id = ''alice'', agent_label = []\<rparr>"
  "authorized (demo_world q) (Some ''Bearer l'') \<lparr>agent_id = ''bob'', agent_label = []\<rparr>"
proof -
  have "tst_ready (treasuryStatus (treasuryExecutionEnv demo_config demo_env))"
    "agentForRequest demo_config demo_env (Some ''Bearer k'') = Some \<lparr>agent_id = ''alice'', agent_label = []\<rparr>"
    "agentForRequest demo_config demo_env (Some ''Bearer l'') = Some \<lparr>agent_id = ''bob'', agent_label = []\<rparr>"
    by code_simp+
  then show "authorized (demo_world q) (Some ''Bearer k'') \<lparr>agent_id = ''alice'', agent_label = []\<rparr>"
    "authorized (demo_world q) (Some ''Bearer l'') \<lparr>agent_id = ''bob'', agent_label = []\<rparr>"
    by (simp_all add: authorized_def w_env_def demo_world_def)
qed

definition demo_request :: TreasuryExecuteRequestV1 where
  "demo_request = (let r = \<lparr>xr_intent = ''i'', xr_owner = ''o'', xr_policy_hash = ''x'', xr_proposal_hash = ''y'',
       xr_approval_hash = [], xr_approval_expires_at = to_iso 900000, xr_amount = 7000000,
       xr_rails = [Ach, Wire], xr_bundle = demo_bundle\<rparr>
     in r\<lparr>xr_approval_hash := buildTreasuryApprovalHash (th_host demo_host) (request_approval r)\<rparr>)"

definition demo_executed :: "partner \<Rightarrow> treasury_answer \<times> treasury_state" where
  "demo_executed partner = executeRoute (demo_world partner) (Some ''Bearer k'') (Some (request_json demo_request))
     1 2 3 ''u'' empty_treasury"

lemma demo_executed_answer:
  "\<exists>rc s'. demo_executed yes_partner = (Executed None rc Tx_submitted [JUndef, JUndef], s') \<and>
     rcp_agent rc = ''alice'' \<and>
     (\<exists>r. js_get (ts_records s') ''i'' = Some r \<and> tx_receipt r = Some rc \<and> tx_submissions r \<noteq> [])"
proof -
  have "case demo_executed yes_partner of (Executed sim rc st refs, s') \<Rightarrow>
      sim = None \<and> st = Tx_submitted \<and> refs = [JUndef, JUndef] \<and> rcp_agent rc = ''alice'' \<and>
      (case js_get (ts_records s') ''i'' of None \<Rightarrow> False
       | Some r \<Rightarrow> tx_receipt r = Some rc \<and> tx_submissions r \<noteq> [])
    | _ \<Rightarrow> False" by code_simp
  then show ?thesis by (auto split: prod.splits treasury_answer.splits option.splits)
qed

lemma demo_crashed_answer: "\<exists>s'. demo_executed (failing_partner 2) = (Crashed ''HTTP 500'', s')"
proof -
  have "case demo_executed (failing_partner 2) of (Crashed e, s') \<Rightarrow> e = ''HTTP 500'' | _ \<Rightarrow> False" by code_simp
  then show ?thesis by (auto split: prod.splits treasury_answer.splits)
qed

definition demo_clock :: run_clock where
  "demo_clock = \<lparr>rk_approval = 0, rk_proposal = 0, rk_simulated = 0, rk_checked = 1, rk_executed = 2,
     rk_recorded = 3, rk_proposal_uuid = ''u'', rk_receipt_uuid = ''v''\<rparr>"

lemma demo_parses: "parse_date demo_host (to_iso (addMinutes 0 15)) = Some (addMinutes 0 15)"
  by (simp add: demo_host_def addMinutes_def)

end
