(* ===== verification/TreasuryClaims.thy ===== *)
theory TreasuryClaims imports TreasuryDemo
begin

text \<open>
  The properties of the treasury agent: request validation, routing, the guard, approvals, execution,
  receipts and records.
\<close>

section \<open>Requests\<close>

text \<open>C27: Validation is a type check. A simulation request is accepted exactly when it is an object
  without a visible plaintext key, of version 1, whose policy and intent obey their rules; the policy
  and the intent it gives are then well typed: no field missing, amounts, limits and horizon positive,
  rails, assets and partners not empty, no public fallback. The cast of the source never fails.\<close>

theorem simulation_request_typed:
  "case validateTreasurySimulationRequest body of
     Inr (p, i) \<Rightarrow> request_rules body \<and> policy_ok p \<and> intent_ok i
   | Inl e \<Rightarrow> \<not> request_rules body"
  using validation_well_typed [of body] validation_sound [of body] validation_complete [of body]
  by (auto split: sum.splits)

text \<open>What the plaintext scan sees. It refuses a value exactly when some object reachable through
  properties, and through the items of arrays that are themselves properties, has a forbidden key. (An
  object inside an array inside an array is not reached.)\<close>

theorem leak_scan_exact:
  "containsTreasuryPlaintextLeak v \<longleftrightarrow>
     (\<exists>kvs k c. seen v (JObj kvs) \<and> (k, c) \<in> set kvs \<and>
        (k \<in> set PLAINTEXT_LEAK_KEYS \<or> k \<in> set TREASURY_PLAINTEXT_LEAK_KEYS))"
  by (simp add: treasury_scanner leaks_def scanned_keys_def)

section \<open>Plans\<close>

lemma filter_part:
  "set (map tr_rail rs) \<subseteq> A \<Longrightarrow> A \<subseteq> B \<Longrightarrow> filter (\<lambda>r. tr_rail r \<in> B) rs = rs"
  "set (map tr_rail rs) \<subseteq> A \<Longrightarrow> A \<inter> B = {} \<Longrightarrow> filter (\<lambda>r. tr_rail r \<in> B) rs = []"
  by (auto simp: filter_id_conv filter_empty_conv)

abbreviation coin_rails :: "TreasuryRailKind set" where
  "coin_rails \<equiv> {Stablecoin_shielded, Stablecoin_public}"

lemma plan_bank_total:
  assumes "routable p i"
  shows "total (filter (\<lambda>r. tr_rail r \<in> {Bank_cash}) (plan_routes p i)) =
    spent (Bank_cash \<in> set (intent_rails p i)) (pn_bank p i)"
proof -
  let ?f = "filter (\<lambda>r. tr_rail r \<in> {Bank_cash})"
  let ?bank = "operating_route (intent_rails p i) (route_partner p) (pn_bank_cap p i) (pn_bank p i)"
  have "?f ?bank = ?bank" by (rule filter_part(1) [OF part_rails(1)]) simp
  moreover have "?f (reserve_route (intent_rails p i) (route_partner p) (pn_reserve p i)) = []"
    by (rule filter_part(2) [OF part_rails(2)]) simp
  moreover have "?f (pn_coin_routes p i) = []"
    unfolding pn_coin_routes_def by (rule filter_part(2) [OF part_rails(3)]) simp
  moreover have "?f (pn_idle_routes p i) = []"
    unfolding pn_idle_routes_def by (rule filter_part(2) [OF part_rails(4)]) simp
  moreover have "?f (pn_pay_routes p i) = []"
    unfolding pn_pay_routes_def by (rule filter_part(2) [OF part_rails(5)]) simp
  ultimately have "?f (plan_routes p i) = ?bank"
    unfolding plan_routes_def routes_form [OF assms] pn_early_routes_def filter_append
    by (simp only: append_Nil2 append_Nil)
  then show ?thesis by (simp only: part_totals)
qed

lemma plan_coin_total:
  assumes "routable p i"
  shows "total (filter (\<lambda>r. tr_rail r \<in> coin_rails) (plan_routes p i)) =
    spent (stable_open (intent_rails p i)) (pn_coin p i)"
proof -
  let ?f = "filter (\<lambda>r. tr_rail r \<in> coin_rails)"
  have "?f (operating_route (intent_rails p i) (route_partner p) (pn_bank_cap p i) (pn_bank p i)) = []"
    by (rule filter_part(2) [OF part_rails(1)]) simp
  moreover have "?f (reserve_route (intent_rails p i) (route_partner p) (pn_reserve p i)) = []"
    by (rule filter_part(2) [OF part_rails(2)]) simp
  moreover have "?f (pn_coin_routes p i) = pn_coin_routes p i"
    unfolding pn_coin_routes_def by (rule filter_part(1) [OF part_rails(3)]) simp
  moreover have "?f (pn_idle_routes p i) = []"
    unfolding pn_idle_routes_def by (rule filter_part(2) [OF part_rails(4)]) simp
  moreover have "?f (pn_pay_routes p i) = []"
    unfolding pn_pay_routes_def by (rule filter_part(2) [OF part_rails(5)]) simp
  ultimately have "?f (plan_routes p i) = pn_coin_routes p i"
    unfolding plan_routes_def routes_form [OF assms] pn_early_routes_def filter_append
    by (simp only: append_Nil2 append_Nil)
  then show ?thesis by (simp only: pn_coin_routes_def part_totals)
qed

text \<open>C29: Routing is sound. For a validated policy and intent with whole amounts below 2^53, every
  route of the plan is on a rail that policy and intent both allow, at the first allowed partner, with
  a whole amount; the routes never add up to more than the amount, and to all of it when a yield rail
  is open; and the bank and the stablecoin share respect the exposure caps of the intent unless the cap
  rounds to zero (the source then applies none).\<close>

theorem treasury_routing_sound:
  assumes "routable p i"
  shows "list_all (\<lambda>r. tr_rail r \<in> set (intent_rails p i) \<and> tr_partner r = route_partner p \<and> money (tr_amount r))
      (routeTreasuryIntent p i (proposed_amount p i)) \<and>
    total (plan_routes p i) \<le> proposed_amount p i \<and>
    (idle_open (intent_rails p i) \<longrightarrow> total (plan_routes p i) = proposed_amount p i) \<and>
    (capByBps (proposed_amount p i) (tc_max_single_bank_bps (ti_constraints i)) \<noteq> 0 \<longrightarrow>
       total (filter (\<lambda>r. tr_rail r \<in> {Bank_cash}) (plan_routes p i))
         \<le> capByBps (proposed_amount p i) (tc_max_single_bank_bps (ti_constraints i))) \<and>
    (capByBps (proposed_amount p i) (tc_max_stablecoin_bps (ti_constraints i)) \<noteq> 0 \<longrightarrow>
       total (filter (\<lambda>r. tr_rail r \<in> coin_rails) (plan_routes p i))
         \<le> capByBps (proposed_amount p i) (tc_max_stablecoin_bps (ti_constraints i)))"
proof (intro conjI impI)
  show "list_all (\<lambda>r. tr_rail r \<in> set (intent_rails p i) \<and> tr_partner r = route_partner p \<and> money (tr_amount r))
      (routeTreasuryIntent p i (proposed_amount p i))"
    using plan_route_ok [OF assms] by (auto simp: list_all_iff plan_routes_def)
  show "total (filter (\<lambda>r. tr_rail r \<in> {Bank_cash}) (plan_routes p i))
      \<le> capByBps (proposed_amount p i) (tc_max_single_bank_bps (ti_constraints i))"
    if "capByBps (proposed_amount p i) (tc_max_single_bank_bps (ti_constraints i)) \<noteq> 0"
    using that caps_whole(1) [OF assms] capped_cap [of "pn_bank_cap p i" "pn_target p i"]
    unfolding plan_bank_total [OF assms] by (auto simp: spent_def pn_bank_def pn_bank_cap_def)
  show "total (filter (\<lambda>r. tr_rail r \<in> coin_rails) (plan_routes p i))
      \<le> capByBps (proposed_amount p i) (tc_max_stablecoin_bps (ti_constraints i))"
    if "capByBps (proposed_amount p i) (tc_max_stablecoin_bps (ti_constraints i)) \<noteq> 0"
    using that caps_whole(2) [OF assms] capped_cap [of "pn_coin_cap p i" "max 0 (pn_instant p i - pn_early p i)"]
    unfolding plan_coin_total [OF assms] by (auto simp: spent_def pn_coin_def pn_coin_cap_def)
qed (use plan_total [OF assms] in auto)

lemma treasury_routing_sound_witness:
  "map tr_amount (plan_routes demo_policy demo_intent) = [200000, 100000, 700000] \<and>
   total (plan_routes demo_policy demo_intent) \<le> proposed_amount demo_policy demo_intent"
proof
  show "map tr_amount (plan_routes demo_policy demo_intent) = [200000, 100000, 700000]" by code_simp
  show "total (plan_routes demo_policy demo_intent) \<le> proposed_amount demo_policy demo_intent"
    using treasury_routing_sound [OF demo_routable] by blast
qed

text \<open>C30: What the guard decides. For a validated request with whole amounts, a simulation is refused
  exactly for the first of these reasons that applies, and accepted otherwise: owners differ, the
  amount is over the action cap or the daily cap, a route needs an asset that is not allowed, the bank
  rail alone does not hold the minimum operating cash, or the instant liquidity is too low. The other
  reasons of the guard cannot occur, and a bank cap below the operating minimum always refuses: the
  broker sweep the router plans for the shortfall does not count.\<close>

theorem guard_decides:
  assumes "routable p i"
  shows "sim_blocked (simulateTreasuryIntent h p i u t t') = guard_decision p i \<and>
    (sim_ok (simulateTreasuryIntent h p i u t t') \<longleftrightarrow> guard_decision p i = None)"
  using simulation_outcome [OF assms] by blast

lemma guard_decides_witness:
  "sim_ok (simulateTreasuryIntent (th_host demo_host) demo_policy demo_intent ''u'' 0 0)"
  using guard_decides [OF demo_routable, of "th_host demo_host" "''u''" 0 0] demo_decision by simp

section \<open>Approvals\<close>

definition hex_nonblank :: "host \<Rightarrow> bool" where
  "hex_nonblank h \<longleftrightarrow> (\<forall>s. js_trim (sha256_hex h s) \<noteq> [])"

lemma trim_Nil: "js_trim s = [] \<longleftrightarrow> list_all is_ws s"
proof -
  have "dropWhile is_ws (rev (dropWhile is_ws s)) = [] \<longleftrightarrow> (\<forall>c \<in> set (dropWhile is_ws s). is_ws c)"
    by (simp add: dropWhile_eq_Nil_conv)
  also have "\<dots> \<longleftrightarrow> (\<forall>c \<in> set s. is_ws c)"
    by (metis dropWhile_eq_Nil_conv empty_iff hd_dropWhile list.set(1) list.set_sel(1))
  finally show ?thesis by (simp add: js_trim_def list_all_iff)
qed

lemma iso_nonblank [simp]: "js_trim (to_iso t) \<noteq> []"
proof -
  have "CHR ''T'' \<in> set (to_iso t)" by (cases "civil_date (t div 86400000)") (simp add: to_iso_def Let_def)
  moreover have "\<not> is_ws CHR ''T''" by (simp add: is_ws_def ws_codes_def)
  ultimately show ?thesis by (auto simp: trim_Nil list_all_iff)
qed

lemma hash_nonblank: "hex_nonblank h \<Longrightarrow> js_trim (hashTreasuryValue h v) \<noteq> []"
  by (simp add: hex_nonblank_def hashTreasuryValue_def)

lemma validated_bundle:
  assumes "validateTreasurySimulationRequest body = Inr (p, i)"
  shows "validateEncryptedBundle (ti_bundle i) = None" "\<not> leaks scanned_keys (ti_bundle i)"
proof -
  show "validateEncryptedBundle (ti_bundle i) = None"
    using validation_well_typed(2) [OF assms] by (simp add: intent_ok_def)
  obtain kvs pk ik where v: "body = JObj kvs" "obj_field kvs ''intent'' = JObj ik"
      "\<not> containsTreasuryPlaintextLeak body" "intent_of_json (JObj ik) = Some i"
    using assms by (rule validated_request)
  have field: "obj_field xs k = JUndef \<or> (k, obj_field xs k) \<in> set xs" for xs k
    by (auto simp: obj_field_def dest: map_of_SomeD split: option.splits)
  have b: "ti_bundle i = obj_field ik ''encrypted_context_bundle''"
    using v(4) by (auto simp: intent_of_json_def Let_def split: bind_splits)
  have "(''intent'', JObj ik) \<in> set kvs" using field [of kvs "''intent''"] unfolding v(2) by simp
  then have "seen body (JObj ik)" unfolding v(1) by (rule seen_property [OF seen_self])
  then have "ti_bundle i = JUndef \<or> seen body (ti_bundle i)"
    using field [of ik "''encrypted_context_bundle''"] unfolding b by (auto intro: seen_property)
  moreover have "\<not> leaks scanned_keys body" using v(3) unfolding treasury_scanner .
  moreover have "seen body (ti_bundle i) \<Longrightarrow> leaks scanned_keys (ti_bundle i) \<Longrightarrow> leaks scanned_keys body"
    unfolding leaks_def by (blast intro: seen_trans)
  ultimately show "\<not> leaks scanned_keys (ti_bundle i)" by auto
qed

lemma simulated_request_filled:
  assumes r: "routable p i" and ok: "guard_decision p i = None" and hex: "hex_nonblank h"
    and sim: "sim = simulateTreasuryIntent h p i u t t'" and ap: "sim_approval sim = Some a"
  shows "request_filled (run_request i sim a)"
proof -
  obtain g where g: "sim_guard sim = g" "sim_proposal sim = buildTreasuryProposal p i u t'"
    "a = buildTreasuryApproval h \<lparr>af_owner = ti_owner i,
      af_policy_hash = gr_policy_hash g, af_proposal_hash = gr_proposal_hash g,
      af_amount = proposed_amount p i, af_rails = map tr_rail (plan_routes p i),
      af_expires_at = to_iso (addMinutes t 15)\<rparr>"
    using simulated_approval [OF ok r, of h u t t'] ap sim by auto
  have "gr_policy_hash (sim_guard sim) = hashTreasuryValue h (tp_json p) \<and>
      gr_proposal_hash (sim_guard sim) = hashTreasuryValue h (proposal_json (sim_proposal sim))"
    unfolding sim by (auto simp: simulateTreasuryIntent_def evaluateTreasuryProposal_def Let_def split: sum.splits)
  moreover have "js_uniq (map tr_rail (plan_routes p i)) \<noteq> []"
    using accepted_rails [OF r ok] by (simp add: uniq_distinct)
  ultimately show ?thesis
    using r g hash_nonblank [OF hex] routableD(1) [OF r]
    by (simp add: request_filled_def run_request_def buildTreasuryApproval_def buildTreasuryApprovalHash_def
        uniqueRails_def routable_def intent_ok_def)
qed

lemma demo_hex: "hex_nonblank (th_host demo_host)"
  by (simp add: hex_nonblank_def demo_host_def trim_Nil is_ws_def ws_codes_def)

lemma simulated_request_valid:
  assumes "validateTreasurySimulationRequest body = Inr (p, i)" "routable p i" "guard_decision p i = None"
    and "sim = simulateTreasuryIntent (th_host th) p i u t t'" "sim_approval sim = Some a"
    and "parse_date th (to_iso (addMinutes t 15)) = Some (addMinutes t 15)" "hex_nonblank (th_host th)"
    and "mset rails = mset (xr_rails (run_request i sim a))"
  shows "validateTreasuryExecuteRequest th (request_json ((run_request i sim a)\<lparr>xr_rails := rails\<rparr>)) now =
    Inr ((run_request i sim a)\<lparr>xr_rails := rails\<rparr>) \<longleftrightarrow> now < addMinutes t 15"
proof -
  let ?q = "run_request i sim a"
  let ?r = "?q\<lparr>xr_rails := rails\<rparr>"
  have "request_filled ?r \<longleftrightarrow> request_filled ?q"
    using assms(8) by (auto simp: request_filled_def dest: arg_cong [of _ _ size])
  moreover have "approval_live th ?r now \<longleftrightarrow> approval_live th ?q now"
    using approval_hash_perm [OF assms(8), of "th_host th" "request_approval ?q"]
    by (simp add: approval_live_def request_approval_def)
  moreover have "xr_bundle ?r = ti_bundle i" by (simp add: run_request_def)
  ultimately show ?thesis
    using simulated_request_filled [OF assms(2,3,7,4,5)] simulated_request_live [OF assms(2-6), of now]
      validated_bundle [OF assms(1)]
    by (simp add: request_accepted)
qed

text \<open>An approval holds for fifteen minutes. The execution request that carries the plan of an
  accepted simulation passes validation exactly until the approval expires, whatever order its rails
  are listed in.\<close>

theorem approval_window:
  assumes "validateTreasurySimulationRequest body = Inr (p, i)" "routable p i" "guard_decision p i = None"
    and "sim = simulateTreasuryIntent (th_host th) p i u t t'" "sim_approval sim = Some a"
    and "parse_date th (to_iso (addMinutes t 15)) = Some (addMinutes t 15)" "hex_nonblank (th_host th)"
    and "mset rails = mset (xr_rails (run_request i sim a))"
  shows "let r = (run_request i sim a)\<lparr>xr_rails := rails\<rparr> in
    validateTreasuryExecuteRequest th (request_json r) now = Inr r \<longleftrightarrow> now < addMinutes t 15"
  unfolding Let_def by (rule simulated_request_valid) (rule assms)+

lemma approval_window_witness:
  "\<exists>a. let r = (run_request demo_intent (simulateTreasuryIntent (th_host demo_host) demo_policy demo_intent ''u'' 0 0) a)
       \<lparr>xr_rails := [Treasury_bills, Bank_cash, Stablecoin_shielded]\<rparr> in
     validateTreasuryExecuteRequest demo_host (request_json r) 899999 = Inr r \<and>
     validateTreasuryExecuteRequest demo_host (request_json r) 900000 \<noteq> Inr r"
proof -
  let ?sim = "simulateTreasuryIntent (th_host demo_host) demo_policy demo_intent ''u'' 0 0"
  obtain a where a: "sim_approval ?sim = Some a" and pr: "sim_proposal ?sim = buildTreasuryProposal demo_policy demo_intent ''u'' 0"
    using simulated_approval [OF demo_decision demo_routable, of "th_host demo_host" "''u''" 0 0] by blast
  have "map tr_rail (plan_routes demo_policy demo_intent) = [Bank_cash, Stablecoin_shielded, Treasury_bills]" by code_simp
  then have m: "mset [Treasury_bills, Bank_cash, Stablecoin_shielded] = mset (xr_rails (run_request demo_intent ?sim a))"
    by (simp add: run_request_def pr uniqueRails_def uniq_distinct)
  show ?thesis
    using approval_window [OF demo_validated demo_routable demo_decision refl a demo_parses demo_hex m, of 899999]
      approval_window [OF demo_validated demo_routable demo_decision refl a demo_parses demo_hex m, of 900000]
    by (intro exI [of _ a]) (simp add: Let_def addMinutes_def)
qed

end
