(* ===== verification/TreasuryWire.thy ===== *)
theory TreasuryWire imports TreasuryDemo
begin

text \<open>
  What JSON does to a value that travels: a route answers with \<open>JSON.stringify\<close> of its value and the next
  route reads it with \<open>JSON.parse\<close>. A value made of JSON alone arrives as it was; \<open>undefined\<close> does not, and
  an execution receipt can hold one, as the reference of a partner that answered without a reference.
\<close>

section \<open>Serialising and parsing\<close>

text \<open>\<open>undefined\<close> and the numbers that are not finite become \<open>null\<close> in an array; a property that is
  \<open>undefined\<close> is left out. Strings and finite numbers arrive as they were.\<close>

function json_wire :: "json \<Rightarrow> json" where
  "json_wire (JArr xs) = JArr (map json_wire xs)"
| "json_wire (JObj kvs) = JObj (map (\<lambda>p. (fst p, json_wire (snd p))) (filter (\<lambda>p. snd p \<noteq> JUndef) kvs))"
| "json_wire (JNum x) = (case x of Fin r \<Rightarrow> JNum (Fin r) | _ \<Rightarrow> JNull)"
| "json_wire JUndef = JNull"
| "json_wire JNull = JNull"
| "json_wire (JBool b) = JBool b"
| "json_wire (JStr s) = JStr s"
  by pat_completeness auto
termination
proof (relation "measure size")
  fix kvs :: "(string \<times> json) list" and p
  assume "p \<in> set (filter (\<lambda>p. snd p \<noteq> JUndef) kvs)"
  then show "(snd p, JObj kvs) \<in> measure size" using size_entry [of p kvs] by simp
qed (auto simp: less_Suc_eq_le intro: size_list_estimation')

text \<open>A value of JSON alone: no \<open>undefined\<close> and no \<open>NaN\<close> or infinity anywhere inside.\<close>

function json_only :: "json \<Rightarrow> bool" where
  "json_only (JArr xs) = list_all json_only xs"
| "json_only (JObj kvs) = list_all (\<lambda>p. json_only (snd p)) kvs"
| "json_only (JNum x) = (case x of Fin r \<Rightarrow> True | _ \<Rightarrow> False)"
| "json_only JUndef = False"
| "json_only JNull = True"
| "json_only (JBool b) = True"
| "json_only (JStr s) = True"
  by pat_completeness auto
termination
proof (relation "measure size")
  fix kvs :: "(string \<times> json) list" and p
  assume "p \<in> set kvs"
  then show "(snd p, JObj kvs) \<in> measure size" using size_entry [of p kvs] by simp
qed (auto simp: less_Suc_eq_le intro: size_list_estimation')

lemma wire_entries:
  assumes "\<And>p. p \<in> set kvs \<Longrightarrow> json_only (snd p) \<and> json_wire (snd p) = snd p"
  shows "map (\<lambda>p. (fst p, json_wire (snd p))) (filter (\<lambda>p. snd p \<noteq> JUndef) kvs) = kvs"
  using assms
proof (induction kvs)
  case (Cons p kvs)
  then have "snd p \<noteq> JUndef" "json_wire (snd p) = snd p" by (metis json_only.simps(4) list.set_intros(1))+
  then show ?case using Cons by simp
qed simp

theorem json_wire_same: "json_only v \<Longrightarrow> json_wire v = v"
proof (induction v rule: json_only.induct)
  case (1 xs)
  then show ?case by (simp add: list_all_iff map_idI)
next
  case (2 kvs)
  then show ?case using wire_entries [of kvs] by (simp add: list_all_iff)
qed (auto split: jsnum.splits)

text \<open>What was parsed is JSON alone, so nothing is lost on a second journey.\<close>

lemma json_wire_only: "json_only (json_wire v)"
  by (induction v rule: json_wire.induct) (auto simp: list_all_iff split: jsnum.splits)

section \<open>Receipts on the wire\<close>

definition wired_receipt :: "TreasuryExecutionReceiptV1 \<Rightarrow> json" where
  "wired_receipt rc = json_wire (JObj (receipt_json rc))"

lemma wrapped_wire: "json_wire (JObj [(k, JObj kvs)]) = JObj [(k, json_wire (JObj kvs))]"
  by simp

definition references_given :: "TreasuryExecutionReceiptV1 \<Rightarrow> bool" where
  "references_given rc \<longleftrightarrow> list_all json_only (rcp_partner_refs rc)"

lemma rails_json_only: "json_only (rails_json rails)"
  by (simp add: rails_json_def list_all_iff)

lemma wired_receipt_same:
  assumes "references_given rc"
  shows "wired_receipt rc = JObj (receipt_json rc)"
  unfolding wired_receipt_def using assms rails_json_only
  by (intro json_wire_same) (simp add: references_given_def receipt_json_def unsigned_json_def)

text \<open>Without its references the signed text of a receipt is not the text that is checked: the partner of
  this service answers without a reference, the receipt is signed over an empty array element, and the
  verification sees \<open>null\<close> there. The signature of the service is its whole input.\<close>

definition signing_world :: "partner \<Rightarrow> world" where
  "signing_world q = (demo_world q)\<lparr>w_host := demo_host\<lparr>hmac_hex := (\<lambda>key s. key @ s)\<rparr>\<rparr>"

lemma missing_reference_unverified:
  "\<exists>rc s'. executeRoute (signing_world yes_partner) (Some ''Bearer k'') (Some (request_json demo_request)) 1 2 3 ''u''
      empty_treasury = (Executed None rc Tx_submitted [JUndef, JUndef], s') \<and>
    verifyRoute (signing_world yes_partner) (Some (wired_receipt rc)) = Some False"
proof -
  have "case executeRoute (signing_world yes_partner) (Some ''Bearer k'') (Some (request_json demo_request)) 1 2 3 ''u''
      empty_treasury of (Executed sim rc st refs, s') \<Rightarrow> sim = None \<and> st = Tx_submitted \<and> refs = [JUndef, JUndef] \<and>
        verifyRoute (signing_world yes_partner) (Some (wired_receipt rc)) = Some False
      | _ \<Rightarrow> False" by code_simp
  then show ?thesis by (auto split: prod.splits treasury_answer.splits)
qed

text \<open>A partner that gives every instruction a reference.\<close>

definition naming_partner :: partner where
  "naming_partner calls call = Inr (JObj [(''partner_ref'', JStr ''ref'')])"

lemma naming_executed:
  "\<exists>rc s'. demo_executed naming_partner = (Executed None rc Tx_submitted [JStr ''ref'', JStr ''ref''], s') \<and>
    references_given rc \<and> rcp_partner_refs rc = [JStr ''ref'', JStr ''ref''] \<and> [] \<noteq> rcp_signature rc"
proof -
  have "case demo_executed naming_partner of (Executed sim rc st refs, s') \<Rightarrow>
      sim = None \<and> st = Tx_submitted \<and> refs = [JStr ''ref'', JStr ''ref''] \<and> references_given rc \<and> rcp_partner_refs rc = [JStr ''ref'', JStr ''ref''] \<and> [] \<noteq> rcp_signature rc
    | _ \<Rightarrow> False" by code_simp
  then show ?thesis by (auto split: prod.splits treasury_answer.splits)
qed

end
