(* ===== verification/TreasuryExecutionClaims.thy ===== *)
theory TreasuryExecutionClaims imports TreasuryClaims TreasuryWire
begin

text \<open>The properties of execution, receipts and records of the treasury agent.\<close>

section \<open>Helpers\<close>

lemma execute_accepted:
  assumes "validateTreasuryExecuteRequest (w_host w) body t1 = Inr r" "execute_ready w r (ts_records s)"
    and "answering (w_partner w)"
  shows "\<exists>(ss :: TreasuryPartnerSubmissionV1 list) rc s'. execute_with w sim body ag t1 t2 t3 u s =
      (Executed sim rc Tx_submitted (map subm_partner_ref ss), s') \<and>
    rc = buildTreasuryExecutionReceipt (w_host w) r ag (te_provider (w_env w)) (map subm_partner_ref ss)
      (te_secret (w_env w)) u t2 \<and> map subm_rail ss = xr_rails r \<and>
    ts_calls s' = ts_calls s @ request_calls w r"
proof -
  obtain ans s' where e: "execute_with w sim body ag t1 t2 t3 u s = (ans, s')" by fastforce
  then show ?thesis
  proof (cases rule: execute_with_cases [consumes 1, case_names invalid refused crashed executed])
    case (crashed m r' n)
    then have "r' = r" using assms(1) by simp
    obtain ps ss where "submit_rails (w_partner w) (treasuryAdaptersForEnv (w_env w)) r (te_provider (w_env w))
        (xr_rails r) (ts_calls s) = (Inr (ps, ss), ts_calls s @ request_calls w r)"
      using answering_rails [OF assms(3) env_adapters_ok] unfolding request_calls_def by blast
    then have "\<not> (\<exists>m. ans = Crashed m)" using e assms(1,2)
      by (auto simp: execute_with_def buildReceiptForRequest_def execute_ready_def Let_def
          submitTreasuryExecutionToAdapters_def bind_effect_eval split: prod.splits)
    then show ?thesis using crashed(3) by blast
  next
    case (executed r' ss rc)
    then have "r' = r" using assms(1) by simp
    then show ?thesis using e executed
      by auto
  qed (use assms in simp_all)
qed

lemma execute_route_authorized:
  "authorized w au agent \<Longrightarrow> executeRoute w au (Some v) t1 t2 t3 u s = execute_with w None v (agent_id agent) t1 t2 t3 u s"
  by (simp add: executeRoute_def authorized_def)

lemma execute_route_reached:
  assumes "executeRoute w au body t1 t2 t3 u s = (ans, s')" "\<And>c e rs. ans \<noteq> Failure c e rs"
  shows "\<exists>(agent :: TreasuryAgentConfig) v. authorized w au agent \<and> body = Some v \<and>
    execute_with w None v (agent_id agent) t1 t2 t3 u s = (ans, s')"
  using assms by (auto simp: executeRoute_def authorized_def unavailable_def split: option.splits if_splits)

lemma executed_route:
  assumes "executeRoute w au body t1 t2 t3 u s = (Executed sim rc st refs, s')"
  shows "\<exists>(agent :: TreasuryAgentConfig) r (ss :: TreasuryPartnerSubmissionV1 list). rc = buildTreasuryExecutionReceipt (w_host w) r (agent_id agent) (te_provider (w_env w))
      (map subm_partner_ref ss) (te_secret (w_env w)) u t2 \<and> ts_calls s' = ts_calls s @ request_calls w r"
proof -
  have "\<exists>(agent :: TreasuryAgentConfig) v. authorized w au agent \<and> body = Some v \<and>
      execute_with w None v (agent_id agent) t1 t2 t3 u s = (Executed sim rc st refs, s')"
    by (rule execute_route_reached [OF assms]) simp
  then obtain agent :: TreasuryAgentConfig and v where "execute_with w None v (agent_id agent) t1 t2 t3 u s = (Executed sim rc st refs, s')"
    by blast
  then show ?thesis
    by (cases rule: execute_with_cases [consumes 1, case_names invalid refused crashed executed]) auto
qed

section \<open>Running an intent\<close>

lemma simulation_record:
  assumes "sim_approval sim = Some a" "sim_ok sim" "pr_intent (sim_proposal sim) = ti_id i"
  shows "existing_mismatch (getTreasuryIntentRecord (ti_id i)
    (snd (recordTreasurySimulation sim t m))) (run_request i sim a) = None"
  using assms by (simp add: recordTreasurySimulation_def Let_def putTreasuryIntentRecord_def
      getTreasuryIntentRecord_def existing_mismatch_def run_request_def)

text \<open>C32: An accepted intent is carried out. When an authorized agent runs a validated intent whose
  plan the guard accepts and that needs no further approval, over rails the service supports, within
  the fifteen minutes of the approval, and the partners answer, the run ends with a receipt: one
  submission for each rail of the plan, in order.\<close>

theorem accepted_run_executes:
  assumes "authorized w au agent" "validateTreasurySimulationRequest body = Inr (p, i)"
    and "routable p i" "guard_decision p i = None"
    and "\<not> pr_approval_required (buildTreasuryProposal p i (rk_proposal_uuid k) (rk_proposal k))"
    and "obj_field (object_entries body) ''execute'' \<noteq> JBool False"
    and "list_all (\<lambda>r. case te_rails (w_env w) of None \<Rightarrow> True | Some rails \<Rightarrow> tr_rail r \<in> set rails) (plan_routes p i)"
    and "answering (w_partner w)" "rk_checked k < addMinutes (rk_approval k) 15"
    and "parse_date (w_host w) (to_iso (addMinutes (rk_approval k) 15)) = Some (addMinutes (rk_approval k) 15)"
    and "hex_nonblank (th_host (w_host w))"
  shows "\<exists>sim rc (ss :: TreasuryPartnerSubmissionV1 list) s'. runRoute w au (Some body) k s =
      (Executed (Some sim) rc Tx_submitted (map subm_partner_ref ss), s') \<and>
    rcp_amount rc = proposed_amount p i \<and> map subm_rail ss = map tr_rail (plan_routes p i)"
proof -
  let ?sim = "simulateTreasuryIntent (th_host (w_host w)) p i (rk_proposal_uuid k) (rk_approval k) (rk_proposal k)"
  let ?s1 = "s\<lparr>ts_records := snd (recordTreasurySimulation ?sim (rk_simulated k) (ts_records s))\<rparr>"
  note out = simulation_outcome [OF assms(3), of "th_host (w_host w)" "rk_proposal_uuid k" "rk_approval k" "rk_proposal k"]
  have ok: "sim_ok ?sim" using out assms(4) by simp
  obtain a where a: "sim_approval ?sim = Some a"
    using simulated_approval [OF assms(4,3)] by blast
  have pr: "sim_proposal ?sim = buildTreasuryProposal p i (rk_proposal_uuid k) (rk_proposal k)"
    using simulated_approval [OF assms(4,3)] by blast
  let ?r = "run_request i ?sim a"
  have valid: "validateTreasuryExecuteRequest (w_host w) (request_json ?r) (rk_checked k) = Inr ?r"
    using simulated_request_valid [OF assms(2,3,4) refl a assms(10,11) refl, of "rk_checked k"] assms(9) by simp
  have rails: "xr_rails ?r = map tr_rail (plan_routes p i)"
    using accepted_rails(1) [OF assms(3,4)] by (simp add: run_request_def pr uniqueRails_def uniq_distinct)
  have "unsupported_rails (w_env w) ?r = []"
    using assms(7) by (auto simp: unsupported_rails_def rails list_all_iff split: option.splits)
  moreover have "existing_mismatch (getTreasuryIntentRecord (xr_intent ?r) (ts_records ?s1)) ?r = None"
    using simulation_record [OF a ok, of i "rk_simulated k" "ts_records s"] pr by (simp add: run_request_def)
  ultimately have ready: "execute_ready w ?r (ts_records ?s1)" by (simp only: execute_ready_def simp_thms)
  have "runRoute w au (Some body) k s = execute_with w (Some ?sim) (request_json ?r) (agent_id agent)
      (rk_checked k) (rk_executed k) (rk_recorded k) (rk_receipt_uuid k) ?s1"
    using assms(1,2,5,6) ok a pr by (simp add: runRoute_def authorized_def Let_def)
  moreover have "xr_amount ?r = proposed_amount p i" by (simp add: run_request_def pr)
  ultimately show ?thesis
    using execute_accepted [OF valid ready assms(8), of "Some ?sim" "agent_id agent" "rk_executed k" "rk_recorded k"
        "rk_receipt_uuid k"] rails by (metis built_receipt_fields(7))
qed

lemma accepted_run_executes_witness:
  "\<exists>sim rc (ss :: TreasuryPartnerSubmissionV1 list) s'.
     runRoute (demo_world yes_partner) (Some ''Bearer k'') (Some demo_body) demo_clock empty_treasury =
       (Executed (Some sim) rc Tx_submitted (map subm_partner_ref ss), s') \<and>
     rcp_amount rc = proposed_amount demo_policy demo_intent \<and>
     map subm_rail ss = map tr_rail (plan_routes demo_policy demo_intent)"
proof (rule accepted_run_executes [OF demo_authorized(1) demo_validated demo_routable demo_decision])
  show "list_all (\<lambda>r. case te_rails (w_env (demo_world yes_partner)) of None \<Rightarrow> True
      | Some rails \<Rightarrow> tr_rail r \<in> set rails) (plan_routes demo_policy demo_intent)" by code_simp
  show "obj_field (object_entries demo_body) ''execute'' \<noteq> JBool False" by code_simp
qed (simp_all add: buildTreasuryProposal_def Let_def proposed_amount_def demo_policy_def demo_intent_def
    demo_clock_def addMinutes_def demo_world_def yes_answering demo_hex demo_parses [unfolded addMinutes_def, simplified])

text \<open>Execution does not need a simulation. The approval hash is a hash of public fields without a
  secret, so any authorized agent can compute it: a request it makes up itself, for an intent that was
  never simulated (or whose record was lost), for any owner, amount and rails, is executed. No policy
  is looked at on this path.\<close>

theorem execute_without_simulation:
  assumes "authorized w au agent" "js_get (ts_records s) (xr_intent r) = None" "request_filled r"
    and "xr_approval_hash r = buildTreasuryApprovalHash (th_host (w_host w)) (request_approval r)"
    and "parse_date (w_host w) (xr_approval_expires_at r) = Some e" "t1 < e"
    and "validateEncryptedBundle (xr_bundle r) = None" "\<not> containsTreasuryPlaintextLeak (xr_bundle r)"
    and "unsupported_rails (w_env w) r = []" "answering (w_partner w)"
  shows "\<exists>rc refs s'. executeRoute w au (Some (request_json r)) t1 t2 t3 u s =
      (Executed None rc Tx_submitted refs, s') \<and> rcp_owner rc = xr_owner r \<and>
    rcp_amount rc = xr_amount r \<and> rcp_rails rc = xr_rails r \<and> ts_calls s' = ts_calls s @ request_calls w r"
proof -
  have "validateTreasuryExecuteRequest (w_host w) (request_json r) t1 = Inr r"
    using assms(3-8) by (auto simp: request_accepted approval_live_def treasury_scanner)
  moreover have "execute_ready w r (ts_records s)"
    using assms(2,9) by (simp add: execute_ready_def getTreasuryIntentRecord_def existing_mismatch_def)
  ultimately show ?thesis
    using execute_accepted [of w "request_json r" t1 r s None "agent_id agent" t2 t3 u] assms(10)
    unfolding execute_route_authorized [OF assms(1)] by (metis built_receipt_fields(2,7,8))
qed

lemma execute_without_simulation_witness:
  "\<exists>rc refs s'. demo_executed yes_partner = (Executed None rc Tx_submitted refs, s') \<and> rcp_owner rc = ''o'' \<and>
     rcp_amount rc = 7000000 \<and> rcp_rails rc = [Ach, Wire]"
proof -
  have r: "xr_owner demo_request = ''o''" "xr_amount demo_request = 7000000" "xr_rails demo_request = [Ach, Wire]"
    "js_get (ts_records empty_treasury) (xr_intent demo_request) = None"
    by (simp_all add: demo_request_def Let_def empty_treasury_def)
  have "parse_date (w_host (demo_world yes_partner)) (xr_approval_expires_at demo_request) = Some 900000"
    by (simp add: demo_request_def Let_def demo_world_def demo_host_def)
  moreover have "request_filled demo_request" by code_simp
  moreover have "xr_approval_hash demo_request =
      buildTreasuryApprovalHash (th_host (w_host (demo_world yes_partner))) (request_approval demo_request)"
    by code_simp
  moreover have "validateEncryptedBundle (xr_bundle demo_request) = None"
    "\<not> containsTreasuryPlaintextLeak (xr_bundle demo_request)" by code_simp+
  moreover have "unsupported_rails (w_env (demo_world yes_partner)) demo_request = []" by code_simp
  moreover have "answering (w_partner (demo_world yes_partner))" by (simp add: demo_world_def yes_answering)
  ultimately show ?thesis
    using execute_without_simulation [OF demo_authorized(1) r(4), of yes_partner 900000 1 2 3 "''u''"] r(1-3)
    unfolding demo_executed_def by fastforce
qed

section \<open>Receipts\<close>

lemma no_receipt_key: "map_of (receipt_json rc) ''receipt'' = None"
  by (simp add: receipt_json_def unsigned_json_def)

text \<open>C34: Receipts verify after their journey. The receipt of an execution travels as JSON: the answer of
  the execute route is serialised and the body of the verification route parsed. If the partners gave every
  reference (each is a value of JSON, none is missing), the receipt as it arrives, on its own or as the
  property \<open>receipt\<close> of an object, passes the verification route, and with another signature it does not.\<close>

theorem receipt_roundtrip:
  assumes "executeRoute w au body t1 t2 t3 u s = (Executed sim rc st refs, s')" "references_given rc"
  shows "verifyRoute w (Some (json_wire (JObj (receipt_json rc)))) = Some True \<and>
    verifyRoute w (Some (json_wire (JObj [(''receipt'', JObj (receipt_json rc))]))) = Some True \<and>
    (sig \<noteq> rcp_signature rc \<longrightarrow>
      verifyRoute w (Some (json_wire (JObj (receipt_json (rc\<lparr>rcp_signature := sig\<rparr>))))) = Some False)"
proof -
  obtain agent :: TreasuryAgentConfig and r and ss :: "TreasuryPartnerSubmissionV1 list" where rc: "rc = buildTreasuryExecutionReceipt (w_host w) r (agent_id agent) (te_provider (w_env w))
      (map subm_partner_ref ss) (te_secret (w_env w)) u t2"
    using executed_route [OF assms(1)] by blast
  have v: "verifyTreasuryExecutionReceiptSignature (w_host w) (receipt_json rc) (te_secret (w_env w))"
    unfolding rc by (rule receipt_verifies)
  have "sig \<noteq> rcp_signature rc \<Longrightarrow> \<not> verifyTreasuryExecutionReceiptSignature (w_host w)
      (receipt_json (rc\<lparr>rcp_signature := sig\<rparr>)) (te_secret (w_env w))"
    using v unfolding verifyTreasuryExecutionReceiptSignature_def receipt_parts unsigned_ignores_signature by simp
  then show ?thesis
    using v wired_receipt_same [OF assms(2)] wired_receipt_same [of "rc\<lparr>rcp_signature := sig\<rparr>"] assms(2)
    by (simp add: verifyRoute_def Let_def no_receipt_key obj_field_def wired_receipt_def wrapped_wire references_given_def
        del: json_wire.simps)
qed

lemma receipt_roundtrip_witness:
  "\<exists>rc. rcp_partner_refs rc = [JStr ''ref'', JStr ''ref''] \<and>
     verifyRoute (demo_world naming_partner) (Some (json_wire (JObj (receipt_json rc)))) = Some True \<and>
     verifyRoute (demo_world naming_partner) (Some (json_wire (JObj (receipt_json (rc\<lparr>rcp_signature := []\<rparr>))))) = Some False"
proof -
  obtain rc s' where e: "demo_executed naming_partner = (Executed None rc Tx_submitted [JStr ''ref'', JStr ''ref''], s')"
      "references_given rc" "[] \<noteq> rcp_signature rc" "rcp_partner_refs rc = [JStr ''ref'', JStr ''ref'']"
    using naming_executed by metis
  note ok = receipt_roundtrip [OF e(1) [unfolded demo_executed_def] e(2), of "[]"]
  show ?thesis
    by (rule exI [of _ rc], rule conjI [OF e(4) conjI [OF conjunct1 [OF ok] mp [OF conjunct2 [OF conjunct2 [OF ok]]]]])
      (rule e(3))
qed

section \<open>What the partners are told\<close>

definition instructed :: "partner_call list \<Rightarrow> (TreasuryRailKind \<times> json) list" where
  "instructed calls = map (\<lambda>c. (pc_rail c, obj_field (object_entries (pc_body c)) ''amount_micro_usd''))
     (filter (\<lambda>c. pc_action c = Act_submit) calls)"

definition all_http :: "world \<Rightarrow> bool" where
  "all_http w \<longleftrightarrow> list_all (\<lambda>rail. case js_get (treasuryAdaptersForEnv (w_env w)) rail of
     Some (Http_adapter c) \<Rightarrow> True | _ \<Rightarrow> False) TREASURY_RAILS"

lemma instructed_append [simp]: "instructed (xs @ ys) = instructed xs @ instructed ys"
  by (simp add: instructed_def)

lemma instructed_adapter:
  "instructed (adapter_calls (Http_adapter c) r pv) = [(http_rail c, JNum (Fin (xr_amount r)))]"
  by (simp add: instructed_def instruction_call_def redactedPartnerPayload_def obj_field_def)

lemma instructed_rails:
  assumes "all_http w"
  shows "instructed (instruction_calls (treasuryAdaptersForEnv (w_env w)) r pv rails) =
    map (\<lambda>rail. (rail, JNum (Fin (xr_amount r)))) rails"
proof (induction rails)
  case Nil
  then show ?case by (simp add: instructed_def)
next
  case (Cons rail rails)
  have "rail \<in> set TREASURY_RAILS" by (cases rail) (simp_all add: TREASURY_RAILS_def)
  then have "case js_get (treasuryAdaptersForEnv (w_env w)) rail of Some (Http_adapter c) \<Rightarrow> True | _ \<Rightarrow> False"
    using assms unfolding all_http_def list_all_iff by blast
  then obtain c where c: "js_get (treasuryAdaptersForEnv (w_env w)) rail = Some (Http_adapter c)"
    by (simp split: option.split_asm TreasuryPartnerAdapter.split_asm)
  moreover obtain a where "js_get (treasuryAdaptersForEnv (w_env w)) rail = Some a" "adapter_rail a = rail"
    using env_adapters_ok by (rule adapters_okE)
  ultimately have "http_rail c = rail" by simp
  then show ?case using Cons c by (simp add: instructed_adapter del: adapter_calls.simps)
qed

text \<open>Every rail is told the whole amount. An executed request sends one submission to each of its
  rails, and each carries the total amount of the request, not the share the plan routed there: over
  \<open>n\<close> rails the partners are instructed for \<open>n\<close> times the amount.\<close>

theorem every_rail_full_amount:
  assumes "executeRoute w au body t1 t2 t3 u s = (Executed sim rc st refs, s')" "all_http w"
  shows "\<exists>calls. ts_calls s' = ts_calls s @ calls \<and>
    instructed calls = map (\<lambda>rail. (rail, JNum (Fin (rcp_amount rc)))) (rcp_rails rc)"
proof -
  obtain agent :: TreasuryAgentConfig and r and ss :: "TreasuryPartnerSubmissionV1 list" where "rc = buildTreasuryExecutionReceipt (w_host w) r (agent_id agent) (te_provider (w_env w))
      (map subm_partner_ref ss) (te_secret (w_env w)) u t2" "ts_calls s' = ts_calls s @ request_calls w r"
    using executed_route [OF assms(1)] by blast
  then show ?thesis using instructed_rails [OF assms(2)] by (auto simp: request_calls_def)
qed

lemma every_rail_full_amount_witness:
  "\<exists>calls. instructed calls = [(Ach, JNum (Fin 7000000)), (Wire, JNum (Fin 7000000))] \<and>
     ts_calls (snd (demo_executed yes_partner)) = [] @ calls"
proof -
  obtain rc s' where e: "demo_executed yes_partner = (Executed None rc Tx_submitted [JUndef, JUndef], s')"
    using demo_executed_answer by blast
  have "case fst (demo_executed yes_partner) of Executed sim rc st refs \<Rightarrow>
      rcp_amount rc = 7000000 \<and> rcp_rails rc = [Ach, Wire] | _ \<Rightarrow> False" by code_simp
  then have "rcp_amount rc = 7000000" "rcp_rails rc = [Ach, Wire]" unfolding e by simp_all
  moreover have "all_http (demo_world yes_partner)" by code_simp
  ultimately show ?thesis
    using every_rail_full_amount [OF e [unfolded demo_executed_def]] e by (auto simp: empty_treasury_def)
qed

text \<open>C36: A crash forgets what was instructed. When a partner fails in the middle of an execution, the
  route answers with the error and the records stay as they were, while the calls made so far (a prefix
  of the instructions of the request, whole submissions included) stand: nothing is recorded to
  reconcile or cancel them.\<close>

theorem crash_keeps_records:
  assumes "executeRoute w au body t1 t2 t3 u s = (Crashed e, s')"
  shows "ts_records s' = ts_records s \<and> (\<exists>v r n. body = Some v \<and>
    validateTreasuryExecuteRequest (w_host w) v t1 = Inr r \<and> ts_calls s' = ts_calls s @ take n (request_calls w r))"
proof -
  have "\<exists>(agent :: TreasuryAgentConfig) v. authorized w au agent \<and> body = Some v \<and>
      execute_with w None v (agent_id agent) t1 t2 t3 u s = (Crashed e, s')"
    by (rule execute_route_reached [OF assms]) simp
  then obtain agent :: TreasuryAgentConfig and v where "body = Some v" "execute_with w None v (agent_id agent) t1 t2 t3 u s = (Crashed e, s')"
    by blast
  from this(2) this(1) show ?thesis
    by (cases rule: execute_with_cases [consumes 1, case_names invalid refused crashed executed]) auto
qed

lemma crash_keeps_records_witness:
  "ts_records (snd (demo_executed (failing_partner 2))) = [] \<and>
   map pc_action (ts_calls (snd (demo_executed (failing_partner 2)))) = [Act_prepare, Act_submit, Act_prepare]"
proof
  obtain s' where e: "demo_executed (failing_partner 2) = (Crashed ''HTTP 500'', s')"
    using demo_crashed_answer by blast
  then show "ts_records (snd (demo_executed (failing_partner 2))) = []"
    using crash_keeps_records [OF e [unfolded demo_executed_def]] by (simp add: empty_treasury_def)
  show "map pc_action (ts_calls (snd (demo_executed (failing_partner 2)))) = [Act_prepare, Act_submit, Act_prepare]"
    by code_simp
qed

section \<open>Records\<close>

text \<open>C37: The records are consistent. After any calls of the routes, handled one after the other, every record is filed under its
  intent, its partner references are those of its submissions, a simulated record has no receipt, and
  a receipt in a record is correctly signed and agrees with the record's intent, owner, policy and
  proposal hash, approval, references and submissions.\<close>

theorem treasury_records_consistent:
  "list_all (\<lambda>(i, r). tx_intent r = i \<and> record_ok w r)
     (ts_records (run_calls (treasury_step w) empty_treasury es))"
proof -
  have "records_inv w (run_calls (treasury_step w) empty_treasury es)"
    by (rule treasury.run_inv [OF records_inv_empty])
  then show ?thesis by (auto simp: records_inv_def list_all_iff js_wf_def js_get_def)
qed

section \<open>Who may follow up\<close>

lemma answering_cancel:
  assumes "answering partner"
  shows "\<exists>r c. adapter_cancel partner a ref pv calls = (Inr r, c)"
proof (cases a)
  case (Http_adapter config)
  obtain kvs where "fst (callTreasuryPartner partner config Act_cancel
      (reference_payload (http_rail config) ref pv) calls) = Inr (JObj kvs)"
    using assms by (auto simp: answering_def callTreasuryPartner_def Let_def)
  then obtain c where "callTreasuryPartner partner config Act_cancel
      (reference_payload (http_rail config) ref pv) calls = (Inr (JObj kvs), c)"
    by (cases "callTreasuryPartner partner config Act_cancel (reference_payload (http_rail config) ref pv) calls") simp
  then show ?thesis using Http_adapter by (simp add: follow_up_def bind_effect_eval field_effect_def)
qed simp

lemma answering_follow_ups:
  assumes "answering partner" "adapters_ok adapters"
  shows "\<exists>rs c. follow_refs (adapter_cancel partner) adapters pv ss calls = (Inr rs, c)"
proof (induction ss arbitrary: calls)
  case (Cons x ss)
  obtain a where a: "js_get adapters (subm_rail x) = Some a" using assms(2) by (rule adapters_okE)
  obtain r c where "adapter_cancel partner a (subm_partner_ref x) pv calls = (Inr r, c)"
    using answering_cancel [OF assms(1)] by blast
  moreover obtain rs c' where "follow_refs (adapter_cancel partner) adapters pv ss c = (Inr rs, c')"
    using Cons.IH by blast
  ultimately show ?case using a by (simp add: bind_effect_eval)
qed simp

lemma recorded_simulation:
  assumes "js_get m i = Some r" "pr_intent (sim_proposal sim) = i"
  shows "\<exists>r1 :: TreasuryIntentRecordV1. js_get (snd (recordTreasurySimulation sim t m)) i = Some r1 \<and> tx_receipt r1 = None \<and>
    tx_submissions r1 = tx_submissions r"
  using assms by (simp add: recordTreasurySimulation_def Let_def putTreasuryIntentRecord_def
      getTreasuryIntentRecord_def from_existing_def)

lemma simulated_intent: "pr_intent (sim_proposal (simulateTreasuryIntent h p i u t t')) = ti_id i"
  by (simp add: simulateTreasuryIntent_def Let_def split: sum.splits)

lemma cancel_hidden:
  assumes "authorized w au agent" "js_get (ts_records s) i = Some r" "tx_receipt r = Some rc"
    and "rcp_agent rc \<noteq> []" "rcp_agent rc \<noteq> agent_id agent" "treasuryIntentIdFromBody body = Some i"
  shows "fst (cancelRoute w au (Some body) now s) = Failure 404 ''treasury intent not found'' []"
  using assms by (simp add: cancelRoute_def follow_up_route_def authorized_def getTreasuryIntentRecord_def)

lemma cancel_reaches_partners:
  assumes "authorized w au agent" "js_get (ts_records s) i = Some r" "tx_receipt r = None" "tx_submissions r \<noteq> []"
    and "treasuryIntentIdFromBody body = Some i" "answering (w_partner w)"
  shows "\<exists>st rs refs. fst (cancelRoute w au (Some body) now s) = Followed_up i st rs refs"
proof -
  obtain rs c where "cancelTreasuryPartnerRefs (w_partner w) (treasuryAdaptersForEnv (w_env w)) (te_provider (w_env w))
      (tx_submissions r) (ts_calls s) = (Inr rs, c)"
    using answering_follow_ups [OF assms(6) env_adapters_ok] unfolding cancelTreasuryPartnerRefs_def by blast
  then show ?thesis using assms
    by (simp add: cancelRoute_def follow_up_route_def authorized_def getTreasuryIntentRecord_def
        recordTreasuryReconciliation_def Let_def)
qed

text \<open>A simulation takes a record from its agent. An agent may cancel only what it executed: another
  agent's attempt finds no intent. But whoever posts a simulation for the same intent id, without any
  key, replaces the record by one that keeps the submissions and has no receipt; then the other agent's
  cancellation goes to the partners.\<close>

theorem simulation_lifts_agent_check:
  assumes "authorized w au other" "js_get (ts_records s) (ti_id i) = Some r" "tx_receipt r = Some rc"
    and "rcp_agent rc \<noteq> []" "rcp_agent rc \<noteq> agent_id other" "tx_submissions r \<noteq> []"
    and "treasuryIntentIdFromBody body = Some (ti_id i)" "answering (w_partner w)"
    and "validateTreasurySimulationRequest simulation = Inr (p, i)"
  shows "fst (cancelRoute w au (Some body) now s) = Failure 404 ''treasury intent not found'' [] \<and>
    (\<exists>st rs refs. fst (cancelRoute w au (Some body) now
      (treasury_step w s (T_simulate (Some simulation) uuid t t' t''))) = Followed_up (ti_id i) st rs refs)"
proof -
  let ?sim = "simulateTreasuryIntent (th_host (w_host w)) p i uuid t t'"
  let ?s1 = "treasury_step w s (T_simulate (Some simulation) uuid t t' t'')"
  have "pr_intent (sim_proposal ?sim) = ti_id i" by (rule simulated_intent)
  moreover have "ts_records ?s1 = snd (recordTreasurySimulation ?sim t'' (ts_records s))"
    unfolding treasury_step_def treasury_call.simps simulateRoute_def option.case assms(9) sum.case prod.case Let_def
    by simp
  ultimately obtain r1 :: TreasuryIntentRecordV1 where r1: "js_get (ts_records ?s1) (ti_id i) = Some r1" "tx_receipt r1 = None"
      "tx_submissions r1 = tx_submissions r"
    using recorded_simulation [OF assms(2), of ?sim t''] by auto
  have more: "tx_submissions r1 \<noteq> []" using r1(3) assms(6) by simp
  show ?thesis
    by (rule conjI [OF cancel_hidden [OF assms(1-5,7)] cancel_reaches_partners [OF assms(1) r1(1,2) more assms(7,8)]])
qed

lemma simulation_lifts_agent_check_witness:
  "\<exists>st rs refs. fst (cancelRoute (demo_world yes_partner) (Some ''Bearer l'')
     (Some (JObj [(''version'', JNum (num 1)), (''intent_id'', JStr ''i'')])) 9
     (treasury_step (demo_world yes_partner) (snd (demo_executed yes_partner)) (T_simulate (Some demo_body) ''u'' 4 5 6))) =
   Followed_up ''i'' st rs refs"
proof -
  obtain rc s' r where e: "demo_executed yes_partner = (Executed None rc Tx_submitted [JUndef, JUndef], s')"
      "rcp_agent rc = ''alice''" "js_get (ts_records s') ''i'' = Some r" "tx_receipt r = Some rc" "tx_submissions r \<noteq> []"
    using demo_executed_answer by blast
  have i: "ti_id demo_intent = ''i''" by (simp add: demo_intent_def)
  have "treasuryIntentIdFromBody (JObj [(''version'', JNum (num 1)), (''intent_id'', JStr ''i'')]) = Some (ti_id demo_intent)"
    by code_simp
  moreover have "answering (w_partner (demo_world yes_partner))" by (simp add: demo_world_def yes_answering)
  ultimately show ?thesis
    using simulation_lifts_agent_check [OF demo_authorized(2) [of yes_partner] e(3) [folded i] e(4) _ _ e(5) _ _ demo_validated] e(1,2)
    unfolding i by auto
qed

end
