(* ===== verification/Spec2Isabelle.thy ===== *)
theory Spec2Isabelle imports AccountAllocations AccountCoordinatorClaims AccountExecutionClaims AuctionClaims CrossVenueClaims OhttpClaims TreasuryExecutionClaims
begin

text \<open>
  A verification of the trading and treasury core of the web application under \<open>apps/web/src\<close>: the
  code that decides what an account may spend, what a cross-venue execution is exposed to, what a
  treasury agent may instruct, and what privacy an account may claim. Every definition is a translation of a TypeScript function or type and
  keeps its name; the manifest gives the lines.

  The parts and how they interact.

  \<^item> The language layer (\<open>JsPrelude\<close>, \<open>JsNumber\<close>, \<open>JsJson\<close>, \<open>JsSort\<close>): thrown errors as sums, \<open>Map\<close> objects as
    association lists in insertion order, doubles with their rounding, JSON values and
    \<open>JSON.stringify\<close> of primitives, \<open>toISOString\<close>. Here are also the interfaces the components meet:
    \<open>kv_store\<close> (a keyed store and the sum of a weight over it), \<open>call_machine\<close> (a program as a step
    function over calls with an invariant, and its runs) and \<open>monotone_machine\<close> (a level that
    admitted calls never lower).
  \<^item> The consumer product. \<open>ConsumerPolicy\<close> is \<open>lib/consumer-production.ts\<close>: fees, rollout, risk
    policies, balanced postings, the circuit decision, commitments. \<open>ConsumerStore\<close>,
    \<open>ConsumerFunding\<close>, \<open>ConsumerOrders\<close> and \<open>ConsumerAccess\<close> are \<open>lib/consumer-production-store.ts\<close>:
    the record \<open>memory\<close> is the module's \<open>memory\<close> object, and each exported function takes the store
    and returns its answer with the new store. \<open>ConsumerMachine\<close> collects the operations as the
    calls of a machine.
  \<^item> Cross-venue execution. \<open>CrossVenue\<close> is \<open>lib/cross-venue-execution.ts\<close> (plans, worker reports,
    residual exposure, cancellation); \<open>CrossVenueStore\<close> is \<open>lib/cross-venue-execution-store.ts\<close> with
    the submit route and the internal report route, which reach into the consumer store to halt its
    circuit. \<open>CrossVenueMachine\<close> collects the operations as the calls of a machine.
  \<^item> The treasury agent. \<open>TreasuryModel\<close>, \<open>TreasuryValidate\<close>, \<open>TreasuryRouting\<close> and
    \<open>TreasuryExecution\<close> are \<open>lib/treasury-execution.ts\<close>: the data and the plaintext scanners, the
    validators of request bodies, the plan of routes with the guard and the simulation, and approvals,
    receipts and the adapters of the partners. \<open>TreasuryStore\<close> is \<open>lib/treasury-execution-store.ts\<close>
    and the routes under \<open>app/v1/treasury-intents\<close>, each from the state (records, and the calls made
    to the partners so far) to its answer and the next state. \<open>TreasuryMachine\<close> collects the routes as
    the calls of a machine.
  \<^item> The private account. \<open>AccountTypes\<close>, \<open>AccountProfiles\<close>, \<open>AccountPreview\<close>, \<open>AccountReceipt\<close>,
    \<open>AccountVenues\<close> and \<open>AccountAllocations\<close> are \<open>lib/private-account.ts\<close> and
    \<open>lib/private-account-front-run-protection.ts\<close>: the enumerations and records with their JSON; the
    profiles of the platforms and the front-run certificate; the preview of an action, whose blocking,
    waiting and degrading reasons are the concatenation of the sections of the code
    (\<open>preview_reasons\<close>), and the gate before an execution; accounts, approvals and receipts; vaults
    and session policies of the venues; manifests and allocations. An evidence chain is the object the
    caller sent, an association list from property names to JSON values, because the code spreads it
    into the receipt with all its properties; an action carries its JSON for the same reason.

  \<^item> The store and the money of the private account. \<open>AccountStore\<close> is the in-memory branch of
    \<open>lib/private-account-store.ts\<close>: the record \<open>account_store\<close> has a field for each \<open>Map\<close> of the module that a
    modelled handler uses. \<open>AccountVerifier\<close> is \<open>lib/private-account-verifier.ts\<close>, \<open>AccountFunding\<close> the funding routes of
    \<open>app/v1/private-account/_lib.ts\<close> (instructions, imports, credits) and the way a connector order reserves,
    submits and releases balance under its lock. \<open>AccountFundingMachine\<close> collects them as the calls of a machine.
  \<^item> The sealed auction. \<open>AuctionChain\<close> is \<open>lib/private-account-auction-onchain.ts\<close>: field elements, instruction data,
    accounts and the unsigned transactions, and the check of a signature. \<open>AuctionRoutes\<close> has the handlers of \<open>_lib.ts\<close>
    behind the auction routes: intents, the queue, committing an order into the epoch of its market, closing and
    settling, locally or by a prepared transaction that is confirmed later. \<open>AuctionMachine\<close> collects them as calls.
  \<^item> The execution of a private action. \<open>AccountPool\<close> is \<open>lib/private-account-shielded-pool.ts\<close> (the health of the
    five services), \<open>AccountPlan\<close> is \<open>lib/private-account-execution-plan.ts\<close> (plans, settlements, the evidence of a
    settlement and its refresh), \<open>AccountExecution\<close> has the handlers of \<open>_lib.ts\<close> that plan, approve, execute, settle and
    refresh, over the record \<open>execution_store\<close>, which holds the \<open>account_store\<close> and the tables of approvals, plans,
    settlements, executions and receipts. \<open>AccountExecutionMachine\<close> collects them as calls.
  \<^item> The batch coordinator. \<open>AccountCoordinator\<close> is \<open>lib/private-account-coordinator.ts\<close>: it groups verified deposits of a
    bucket into batches and records anonymity evidence for those that are large enough, under its lock; the record
    \<open>coordinator_store\<close> adds the tables of evidence and runs to the \<open>execution_store\<close>. \<open>AccountCoordinatorMachine\<close> puts
    the funding, the coordinator and the executions together as calls of one machine.
  \<^item> Oblivious HTTP. \<open>OhttpText\<close> is UTF-8 as \<open>TextEncoder\<close> and \<open>TextDecoder\<close> do it; \<open>OhttpCodec\<close> is \<open>lib/ohttp.ts\<close>: key
    configurations, capsules, variable-length integers on machine words and binary HTTP, with the side of the
    gateway as the self-test of the file mirrors it.

  What the lemmas show. \<open>ConsumerInvariant\<close> proves that every consumer operation keeps the invariant
  \<open>money_inv\<close> (balances are covered by the reservations, ledger entries balance, ids and statuses
  agree), \<open>ConsumerBook\<close> that each call refines a transfer of an abstract book of accounts,
  \<open>ConsumerLifecycle\<close>, \<open>ConsumerAnswers\<close> and \<open>ConsumerWindows\<close> the life of withdrawals and
  reservations, refusals, and the rate window, \<open>ConsumerCanonical\<close> that the text of a commitment does
  not depend on the order of properties. \<open>CrossVenueInvariant\<close> proves that a plan stays well
  formed under reports and cancellation. For the treasury, \<open>TreasuryTyping\<close> shows that validation is a
  type check, \<open>TreasuryScan\<close> what the scanners reach, \<open>TreasuryPlan\<close> the amounts of the plan in closed
  form, \<open>TreasuryGuard\<close> the decision of the guard over such a plan, \<open>TreasuryApproval\<close> when an execution
  request is accepted, \<open>TreasuryPartners\<close> the calls an execution makes, \<open>TreasuryDemo\<close> holds the
  inputs of the witnesses, and \<open>TreasuryWire\<close> says what a receipt becomes between two requests (an \<open>undefined\<close>
  in an array arrives as \<open>null\<close>, \<open>json_wire\<close>) and that one without a partner reference then fails its verification. For the private account, \<open>AccountRules\<close> says section by section when a
  preview has no reason, and what its status is then; \<open>AccountBalance\<close> reads the balance off the ledger,
  \<open>AccountFundingMachine\<close> keeps the invariant of ledger, imports and instructions. \<open>AuctionRules\<close> describes the
  matching, \<open>AuctionTables\<close> which handlers leave the tables of the auction alone and how orders, epochs and
  clearings agree. \<open>AccountExecutionMachine\<close> shows that the execution found for an approval never changes,
  \<open>AccountCoordinatorMachine\<close> that the evidence of a batch stands for distinct deposits.
  \<open>OhttpRules\<close> shows that numbers, fields and headers are read back, and that the cursor of the decoder advances.
  The properties are in \<open>ConsumerClaims\<close>, \<open>ConsumerRules\<close>, \<open>CrossVenueClaims\<close>, \<open>TreasuryClaims\<close>,
  \<open>TreasuryExecutionClaims\<close>, \<open>AccountClaims\<close>, \<open>AccountFundingClaims\<close>, \<open>AuctionClaims\<close>, \<open>AccountExecutionClaims\<close>,
  \<open>AccountCoordinatorClaims\<close> and \<open>OhttpClaims\<close>, each with a witness where it has a hypothesis. The interfaces are interpreted on the model itself:
  \<open>jm\<close> (association-list maps), \<open>consumer\<close>, \<open>cross\<close>, \<open>treasury\<close>, \<open>sequence\<close>, \<open>funding\<close>, \<open>auction\<close>,
  \<open>auction_cleared\<close>, \<open>execution\<close>, \<open>execution_found\<close> and \<open>coordinator\<close>.

  Choices and bounds.

  \<^item> The stores are the in-memory branches; the Postgres branches are SQL text run by a service and
    are not modelled.
  \<^item> Every operation is one step of a machine, and a run is a list of calls handled one after the other. For the consumer
    and the cross-venue store this covers all interleavings of the memory branches: each operation reads and writes the
    store without an \<open>await\<close> in between or inside \<open>memoryCritical\<close>, but for \<open>putConsumerWalletBinding\<close>
    and \<open>haltConsumerCircuit\<close>, which read through an awaited getter first. The handlers of the private account (funding,
    auction, coordinator, execution), of the treasury and the worker report route of the cross-venue module
    await between their reads and writes, even
    \<open>acquirePrivateCoordinatorLock\<close>: what is proved of their machines is proved of requests that do not overlap.
  \<^item> SHA-256 and \<open>localeCompare\<close> are host functions, the fields of the record \<open>host\<close>. Where a property
    needs that two inputs do not collide, it says so (\<open>no_collision\<close>). The treasury adds HMAC-SHA-256
    and the parser of dates (\<open>treasury_host\<close>), the two \<open>JSON.parse\<close> of environment variables
    (\<open>treasury_config\<close>) and the partner behind an HTTP adapter, a function of the calls so far and the
    call (\<open>partner\<close>). The private account adds an HMAC (\<open>account_host\<close>), the environment, the verifier and the venue
    (\<open>funding_host\<close>), Solana's keys, hashes and node (\<open>chain_host\<close>), the services of the pool and the URL parser
    (\<open>pool_host\<close>). \<open>execution_host\<close> also has what \<open>_lib.ts\<close> computes from many services and is not modelled: whether
    the private mode is healthy, and what a submission to a connector answers and does to the tables of the account.
    The codec has the HPKE package and the browser's cryptography (\<open>crypto\<close>).
    UUIDs and clock readings are arguments; all readings within one request are one argument.
  \<^item> A machine of the private account admits the calls in which no commitments collide: \<open>funding_admits\<close>,
    \<open>auction_admits\<close> (which also leaves out the two calls that confirm an on-chain transaction, whose payload the
    caller chooses and whose order may join the epoch of another owner: the properties of the auction machine are
    those of the local auction),
    \<open>execution_admits\<close> (an intent has a new id, a connector leaves the intents alone) and \<open>coordinator_admits\<close> (a
    verified deposit is not overwritten, a connector leaves the deposits alone).
  \<^item> The balance of a private account is read off its last 1000 ledger entries, as the code does; the
    properties on balances say so.
  \<^item> The loop over the headers of a response is a \<open>partial_function\<close>; that it ends on every buffer shorter than
    2^53 - 1 bytes, the largest length a double counts exactly, is a property.
  \<^item> Amounts are validated safe integers and are kept as integers. Sums of balances are assumed to
    stay in the range where integer doubles are exact (2^53); a sum whose rounding the code depends on
    (\<open>balancedPostings\<close>, the fee, the plan of the treasury) is modelled with the rounding of doubles
    (\<open>fl\<close>); the treasury properties on amounts are for whole amounts below 2^53. Doubles do not
    overflow to infinity in the models.
  \<^item> Strings are Latin-1. Dates are milliseconds since the epoch; the stored ISO strings are the values
    of \<open>toISOString\<close>, so the models keep the number.
  \<^item> No recursion needs fuel but the search for the shortest decimal digits of a double, which stops
    at the 17 digits that always suffice.

  Not modelled: the HTTP plumbing and authentication around the operations, network calls (their
  outcomes are arguments), the handler that previews an intent with its survey of connectors and services, the
  connectors to the venues, the autopilot and exports of the private account and the tables only they
  use, the user interface, the Rust, Kotlin and Swift programs, and the libraries of \<open>apps/web\<close> that the manifest lists
  as such: they are mostly calls of services, or state of the browser.
\<close>

end
